(* ===== verification/Prelude.thy ===== *)
theory Prelude
  imports Main "HOL-Library.Word"
begin

text \<open>
  Shared vocabulary of the development: the types that stand for Go's built-in types, the
  collections of facts (\<open>named_theorems\<close>) the component theories extend, and generic lemmas on
  lists and maps that several components use.

  A Go \<open>string\<close> and a Go \<open>[]byte\<close> are byte sequences; both are HOL's \<open>string\<close>, whose
  characters are bytes, so the conversions between the two are the identity. A Go \<open>time.Time\<close>
  is the number of nanoseconds since Go's zero instant (so \<open>IsZero\<close> is \<open>= 0\<close>). An \<open>error\<close> is its
  message; a fallible function returns \<open>error + result\<close>.
\<close>

unbundle bit_operations_syntax

type_synonym bytes = string
type_synonym gotime = int
type_synonym goerror = string
type_synonym 'a result = "goerror + 'a"
type_synonym uint64 = "64 word"
type_synonym octet = "8 word"

named_theorems const_defs "string and number constants of the program"
named_theorems op_defs "definitions of operations, unfolded to prove their component lemmas"
named_theorems inv_intros "invariants kept by operations"

subsection \<open>Positions in lists\<close>

text \<open>Go's slice edits: deletion and insertion at an index, and the first or last match of a scan.\<close>

definition remove_nth :: "nat \<Rightarrow> 'a list \<Rightarrow> 'a list" where
  "remove_nth i xs = take i xs @ drop (Suc i) xs"

definition insert_nth :: "nat \<Rightarrow> 'a \<Rightarrow> 'a list \<Rightarrow> 'a list" where
  "insert_nth i x xs = take i xs @ x # drop i xs"

fun first_index :: "('a \<Rightarrow> bool) \<Rightarrow> 'a list \<Rightarrow> nat option" where
  "first_index P [] = None"
| "first_index P (x # xs) = (if P x then Some 0 else map_option Suc (first_index P xs))"

fun last_index :: "('a \<Rightarrow> bool) \<Rightarrow> 'a list \<Rightarrow> nat option" where
  "last_index P [] = None"
| "last_index P (x # xs) =
     (case last_index P xs of Some i \<Rightarrow> Some (Suc i) | None \<Rightarrow> if P x then Some 0 else None)"

lemma first_index_SomeD:
  "first_index P xs = Some i \<Longrightarrow> i < length xs \<and> P (xs ! i) \<and> (\<forall>j<i. \<not> P (xs ! j))"
proof (induction xs arbitrary: i)
  case (Cons x xs)
  then show ?case
    by (auto split: if_splits simp: less_Suc_eq_0_disj)
qed simp

lemma first_index_None_iff: "first_index P xs = None \<longleftrightarrow> (\<forall>x\<in>set xs. \<not> P x)"
  by (induction xs) auto

lemma last_index_SomeD:
  "last_index P xs = Some i \<Longrightarrow>
     i < length xs \<and> P (xs ! i) \<and> (\<forall>j. i < j \<and> j < length xs \<longrightarrow> \<not> P (xs ! j))"
proof (induction xs arbitrary: i)
  case (Cons x xs)
  have none: "last_index P xs = None \<Longrightarrow> \<forall>y\<in>set xs. \<not> P y"
    by (induction xs) (auto split: option.splits if_splits)
  show ?case
  proof (cases "last_index P xs")
    case None
    with Cons.prems none show ?thesis
      by (auto split: if_splits simp: nth_Cons split: nat.splits)
  next
    case (Some k)
    with Cons.prems Cons.IH [OF Some] show ?thesis
      by (auto simp: nth_Cons split: nat.splits)
  qed
qed simp

lemma last_index_None_iff: "last_index P xs = None \<longleftrightarrow> (\<forall>x\<in>set xs. \<not> P x)"
  by (induction xs) (auto split: option.splits)

lemma length_remove_nth: "i < length xs \<Longrightarrow> length (remove_nth i xs) = length xs - 1"
  by (simp add: remove_nth_def)

lemma length_insert_nth: "i \<le> length xs \<Longrightarrow> length (insert_nth i x xs) = Suc (length xs)"
  by (simp add: insert_nth_def)

lemma set_remove_nth_subset: "set (remove_nth i xs) \<subseteq> set xs"
  by (auto simp: remove_nth_def dest: in_set_takeD in_set_dropD)

lemma set_insert_nth: "i \<le> length xs \<Longrightarrow> set (insert_nth i x xs) = insert x (set xs)"
proof -
  have "set xs = set (take i xs) \<union> set (drop i xs)"
    by (metis append_take_drop_id set_append)
  then show ?thesis by (auto simp: insert_nth_def)
qed

lemma set_remove_nth_insert:
  assumes "i < length xs"
  shows "set xs = insert (xs ! i) (set (remove_nth i xs))"
proof -
  have "set xs = set (take i xs @ xs ! i # drop (Suc i) xs)"
    using assms by (simp add: id_take_nth_drop [symmetric])
  then show ?thesis by (auto simp: remove_nth_def)
qed

lemma distinct_map_remove_nth:
  assumes "distinct (map f xs)" "i < length xs"
  shows "distinct (map f (remove_nth i xs))" "f (xs ! i) \<notin> f ` set (remove_nth i xs)"
proof -
  have eq: "xs = take i xs @ xs ! i # drop (Suc i) xs"
    using assms(2) by (rule id_take_nth_drop)
  have d: "distinct (map f (take i xs @ xs ! i # drop (Suc i) xs))"
    using assms(1) eq by metis
  show "distinct (map f (remove_nth i xs))" "f (xs ! i) \<notin> f ` set (remove_nth i xs)"
    using d by (auto simp: remove_nth_def)
qed

lemma distinct_map_insert_nth:
  assumes "distinct (map f xs)" "f x \<notin> f ` set xs"
  shows "distinct (map f (insert_nth i x xs))"
proof -
  have eq: "xs = take i xs @ drop i xs" by simp
  have "distinct (map f (take i xs @ drop i xs))"
    using assms(1) by (metis eq)
  then have "distinct (map f (take i xs))" "distinct (map f (drop i xs))"
    "f ` set (take i xs) \<inter> f ` set (drop i xs) = {}"
    by (simp_all only: map_append distinct_append set_map)
  moreover have "f x \<notin> f ` set (take i xs)" "f x \<notin> f ` set (drop i xs)"
    using assms(2) by (auto dest: in_set_takeD in_set_dropD)
  ultimately show ?thesis by (auto simp: insert_nth_def)
qed

lemma find_SomeD: "List.find P xs = Some x \<Longrightarrow> x \<in> set xs \<and> P x"
  by (induction xs) (auto split: if_splits)

lemma find_distinct:
  "distinct (map f xs) \<Longrightarrow> x \<in> set xs \<Longrightarrow> List.find (\<lambda>y. f y = f x) xs = Some x"
  by (induction xs) (auto simp: image_iff)

lemma find_key_eq:
  "distinct (map f xs) \<Longrightarrow> x \<in> set xs \<Longrightarrow> f x = k \<Longrightarrow> List.find (\<lambda>y. f y = k) xs = Some x"
  using find_distinct [of f xs x] by simp

subsection \<open>Maps used as registries\<close>

lemma dom_fun_upd_None: "dom (m(k := None)) = dom m - {k}"
  by auto

lemma finite_ran_upd: "finite (dom m) \<Longrightarrow> finite (dom (m(k := v)))"
  by (cases v) auto

subsection \<open>Hexadecimal text\<close>

text \<open>Lower-case hexadecimal, as \<open>hex.EncodeToString\<close> and the program's own formatter write it.\<close>

definition hextable :: string where
  "hextable = ''0123456789abcdef''"

definition hexByte :: "octet \<Rightarrow> string" where
  "hexByte v = [hextable ! unat (drop_bit 4 v), hextable ! unat (v AND 0x0f)]"

definition hexBytes :: "octet list \<Rightarrow> string" where
  "hexBytes vs = concat (map hexByte vs)"

lemma length_hexByte [simp]: "length (hexByte v) = 2"
  by (simp add: hexByte_def)

lemma length_hexBytes [simp]: "length (hexBytes vs) = 2 * length vs"
  by (induction vs) (auto simp: hexBytes_def)

end
