(* ===== verification/Interfaces.thy ===== *)
theory Interfaces
  imports Prelude
begin

text \<open>
  Contracts that several components fulfil: a wire format that reads back what it writes, and a component whose steps
  keep an invariant. The locales state the laws; the theories of the components interpret them on their own
  operations and take the lemmas from there.
\<close>

section \<open>Wire formats\<close>

text \<open>Whatever is \<open>ok\<close> is read back as it was written.\<close>

locale codec =
  fixes enc :: "'a \<Rightarrow> string" and dec :: "string \<Rightarrow> 'a option" and ok :: "'a \<Rightarrow> bool"
  assumes reads_back: "ok x \<Longrightarrow> dec (enc x) = Some x"
begin

lemma same_code: "ok x \<Longrightarrow> ok y \<Longrightarrow> enc x = enc y \<longleftrightarrow> x = y"
  using reads_back by (metis option.inject)

lemma read_all: "list_all ok xs \<Longrightarrow> List.map_filter dec (map enc xs) = xs"
  by (induction xs) (simp_all add: reads_back List.map_filter_simps)

lemma distinct_codes: "list_all ok xs \<Longrightarrow> distinct (map enc xs) = distinct xs"
  by (simp add: distinct_map inj_on_def same_code list_all_iff)

end

text \<open>One format inside another, for instance a path inside a URL.\<close>

locale codec_chain = inner: codec enc1 dec1 ok + outer: codec enc2 dec2 ok2
  for enc1 :: "'a \<Rightarrow> string" and dec1 ok and enc2 :: "string \<Rightarrow> string" and dec2 ok2 +
  assumes fits: "ok x \<Longrightarrow> ok2 (enc1 x)"

sublocale codec_chain \<subseteq> chained: codec "enc2 \<circ> enc1" "\<lambda>s. Option.bind (dec2 s) dec1" ok
  by unfold_locales (simp add: inner.reads_back outer.reads_back fits)

section \<open>Steps that keep an invariant\<close>

locale machine =
  fixes step :: "'e \<Rightarrow> 's \<Rightarrow> 's" and allowed :: "'e \<Rightarrow> bool" and inv :: "'s \<Rightarrow> bool"
  assumes step_inv: "allowed e \<Longrightarrow> inv s \<Longrightarrow> inv (step e s)"
begin

lemma run_inv: "inv s \<Longrightarrow> list_all allowed es \<Longrightarrow> inv (fold step es s)"
  by (induction es arbitrary: s) (simp_all add: step_inv)

lemma free_run_inv: "inv s \<Longrightarrow> (\<And>e. allowed e) \<Longrightarrow> inv (fold step es s)"
  by (rule run_inv) (simp_all add: list_all_iff)

end

text \<open>Steps with outputs: a run collects them in order.\<close>

locale emitting_machine =
  fixes step :: "'e \<Rightarrow> 's \<Rightarrow> 's \<times> 'o list" and run :: "'e list \<Rightarrow> 's \<Rightarrow> 's \<times> 'o list"
  assumes run_Nil: "run [] s = (s, [])"
    and run_Cons: "run (e # es) s =
      (fst (run es (fst (step e s))), snd (step e s) @ snd (run es (fst (step e s))))"
begin

lemma run_state: "fst (run es s) = fold (\<lambda>e s. fst (step e s)) es s"
  by (induction es arbitrary: s) (simp_all add: run_Nil run_Cons)

lemma run_append: "run (es @ fs) s = (fst (run fs (fst (run es s))), snd (run es s) @ snd (run fs (fst (run es s))))"
  by (induction es arbitrary: s) (simp_all add: run_Nil run_Cons)

lemma run_outputs: "out \<in> set (snd (run es s)) \<Longrightarrow> \<exists>es1 e es2. es = es1 @ e # es2 \<and> out \<in> set (snd (step e (fst (run es1 s))))"
proof (induction es arbitrary: s)
  case (Cons e es)
  show ?case
  proof (cases "out \<in> set (snd (step e s))")
    case True
    then show ?thesis by (intro exI [of _ "[]"]) (simp add: run_Nil)
  next
    case False
    then obtain es1 e' es2 where "es = es1 @ e' # es2" "out \<in> set (snd (step e' (fst (run es1 (fst (step e s))))))"
      using Cons.IH [of "fst (step e s)"] Cons.prems False by (auto simp: run_Cons)
    then show ?thesis by (intro exI [of _ "e # es1"]) (auto simp: run_Cons)
  qed
qed (simp add: run_Nil)

end

text \<open>Steps with outputs that keep an invariant.\<close>

locale kept_machine = emitting_machine step run + states: machine "\<lambda>e s. fst (step e s)" allowed inv
  for step :: "'e \<Rightarrow> 's \<Rightarrow> 's \<times> 'o list" and run allowed inv
begin

lemma final_inv: "inv s \<Longrightarrow> list_all allowed es \<Longrightarrow> inv (fst (run es s))"
  unfolding run_state by (rule states.run_inv)

lemma free_final_inv: "inv s \<Longrightarrow> (\<And>e. allowed e) \<Longrightarrow> inv (fst (run es s))"
  unfolding run_state by (rule states.free_run_inv)

end

end
