(* ===== verification/GoStrings.thy ===== *)
theory GoStrings
  imports Prelude "HOL-Library.Sublist"
begin

text \<open>
  The functions of Go's \<open>strings\<close> package the program calls, on byte strings: \<open>Split\<close>, \<open>SplitN\<close>
  with two parts, \<open>Join\<close>, \<open>TrimSpace\<close> (with every Unicode white-space rune, by its UTF-8 bytes),
  \<open>TrimRight\<close> and \<open>Trim\<close> with a set of ASCII bytes, \<open>IndexByte\<close>, \<open>HasPrefix\<close>, \<open>Contains\<close> and
  \<open>ReplaceAll\<close> of one byte; and the facts about them the components use.
\<close>

definition newline :: char where "newline = CHR 0x0A"
definition nul :: char where "nul = CHR 0x00"

subsection \<open>Splitting and joining\<close>

fun splitChar :: "char \<Rightarrow> string \<Rightarrow> string list" where
  "splitChar c [] = [[]]"
| "splitChar c (x # xs) =
     (if x = c then [] # splitChar c xs
      else (case splitChar c xs of [] \<Rightarrow> [[x]] | y # ys \<Rightarrow> (x # y) # ys))"

fun joinChar :: "string \<Rightarrow> string list \<Rightarrow> string" where
  "joinChar sep [] = []"
| "joinChar sep [x] = x"
| "joinChar sep (x # y # zs) = x @ sep @ joinChar sep (y # zs)"

text \<open>\<open>strings.Cut\<close>; \<open>SplitN (s, sep, 2)\<close> is the two parts, or \<open>s\<close> alone.\<close>

fun cutAt :: "string \<Rightarrow> string \<Rightarrow> (string \<times> string) option" where
  "cutAt sep s =
     (if prefix sep s then Some ([], drop (length sep) s)
      else (case s of
              [] \<Rightarrow> None
            | x # xs \<Rightarrow> (case cutAt sep xs of None \<Rightarrow> None | Some (a, b) \<Rightarrow> Some (x # a, b))))"

declare cutAt.simps [simp del]

definition splitN2 :: "string \<Rightarrow> string \<Rightarrow> string list" where
  "splitN2 s sep = (case cutAt sep s of None \<Rightarrow> [s] | Some (a, b) \<Rightarrow> [a, b])"

definition indexByte :: "string \<Rightarrow> char \<Rightarrow> nat option" where
  "indexByte s c = first_index (\<lambda>x. x = c) s"

definition hasPrefix :: "string \<Rightarrow> string \<Rightarrow> bool" where
  "hasPrefix s p = prefix p s"

definition containsStr :: "string \<Rightarrow> string \<Rightarrow> bool" where
  "containsStr s p = (cutAt p s \<noteq> None)"

definition replaceChar :: "char \<Rightarrow> string \<Rightarrow> string \<Rightarrow> string" where
  "replaceChar c by s = concat (map (\<lambda>x. if x = c then by else [x]) s)"

subsection \<open>Trimming\<close>

definition trimLeftSet :: "char set \<Rightarrow> string \<Rightarrow> string" where
  "trimLeftSet cs s = dropWhile (\<lambda>x. x \<in> cs) s"

definition trimRightSet :: "char set \<Rightarrow> string \<Rightarrow> string" where
  "trimRightSet cs s = rev (dropWhile (\<lambda>x. x \<in> cs) (rev s))"

definition trimSet :: "char set \<Rightarrow> string \<Rightarrow> string" where
  "trimSet cs s = trimRightSet cs (trimLeftSet cs s)"

text \<open>
  The UTF-8 encodings of the runes \<open>unicode.IsSpace\<close> accepts: the six ASCII ones, U+0085, U+00A0,
  U+1680, U+2000 to U+200A, U+2028, U+2029, U+202F, U+205F and U+3000.
\<close>

definition spaceEncodings :: "string list" where
  "spaceEncodings =
     [[CHR 0x09], [CHR 0x0A], [CHR 0x0B], [CHR 0x0C], [CHR 0x0D], [CHR 0x20],
      [CHR 0xC2, CHR 0x85], [CHR 0xC2, CHR 0xA0], [CHR 0xE1, CHR 0x9A, CHR 0x80],
      [CHR 0xE2, CHR 0x80, CHR 0x80], [CHR 0xE2, CHR 0x80, CHR 0x81], [CHR 0xE2, CHR 0x80, CHR 0x82],
      [CHR 0xE2, CHR 0x80, CHR 0x83], [CHR 0xE2, CHR 0x80, CHR 0x84], [CHR 0xE2, CHR 0x80, CHR 0x85],
      [CHR 0xE2, CHR 0x80, CHR 0x86], [CHR 0xE2, CHR 0x80, CHR 0x87], [CHR 0xE2, CHR 0x80, CHR 0x88],
      [CHR 0xE2, CHR 0x80, CHR 0x89], [CHR 0xE2, CHR 0x80, CHR 0x8A], [CHR 0xE2, CHR 0x80, CHR 0xA8],
      [CHR 0xE2, CHR 0x80, CHR 0xA9], [CHR 0xE2, CHR 0x80, CHR 0xAF], [CHR 0xE2, CHR 0x81, CHR 0x9F],
      [CHR 0xE3, CHR 0x80, CHR 0x80]]"

definition leadingSpace :: "string \<Rightarrow> string option" where
  "leadingSpace s = List.find (\<lambda>e. prefix e s) spaceEncodings"

definition trailingSpace :: "string \<Rightarrow> string option" where
  "trailingSpace s = List.find (\<lambda>e. suffix e s) spaceEncodings"

lemma spaceEncodings_nonempty: "e \<in> set spaceEncodings \<Longrightarrow> e \<noteq> []"
  by (auto simp: spaceEncodings_def)

lemma leadingSpace_length: "leadingSpace s = Some e \<Longrightarrow> 0 < length e \<and> length e \<le> length s"
  by (auto simp: leadingSpace_def dest!: find_SomeD spaceEncodings_nonempty prefix_length_le)

lemma trailingSpace_length: "trailingSpace s = Some e \<Longrightarrow> 0 < length e \<and> length e \<le> length s"
  by (auto simp: trailingSpace_def dest!: find_SomeD spaceEncodings_nonempty suffix_length_le)

lemma leadingSpace_shrinks: "leadingSpace s = Some e \<Longrightarrow> length s - length e < length s"
  by (drule leadingSpace_length) arith

lemma trailingSpace_shrinks: "trailingSpace s = Some e \<Longrightarrow> length s - length e < length s"
  by (drule trailingSpace_length) arith

function trimSpaceLeft :: "string \<Rightarrow> string" where
  "trimSpaceLeft s =
     (case leadingSpace s of None \<Rightarrow> s | Some e \<Rightarrow> trimSpaceLeft (drop (length e) s))"
  by pat_completeness auto
termination
  by (relation "measure length") (simp_all add: leadingSpace_shrinks)

function trimSpaceRight :: "string \<Rightarrow> string" where
  "trimSpaceRight s =
     (case trailingSpace s of
        None \<Rightarrow> s | Some e \<Rightarrow> trimSpaceRight (take (length s - length e) s))"
  by pat_completeness auto
termination
  by (relation "measure length") (simp_all add: trailingSpace_shrinks)

declare trimSpaceLeft.simps [simp del] trimSpaceRight.simps [simp del]

definition trimSpace :: "string \<Rightarrow> string" where
  "trimSpace s = trimSpaceRight (trimSpaceLeft s)"

subsection \<open>Facts\<close>

lemma splitChar_nonempty [simp]: "splitChar c s \<noteq> []"
  by (induction s) (auto split: list.splits)

lemma splitChar_no_sep: "c \<notin> set s \<Longrightarrow> splitChar c s = [s]"
  by (induction s) auto

lemma splitChar_append: "c \<notin> set a \<Longrightarrow> splitChar c (a @ c # b) = a # splitChar c b"
  by (induction a) auto

lemma splitChar_parts: "p \<in> set (splitChar c s) \<Longrightarrow> c \<notin> set p \<and> set p \<subseteq> set s"
proof (induction s arbitrary: p)
  case (Cons x s)
  then show ?case
    by (cases "splitChar c s") (auto split: if_splits list.splits, blast+)
qed simp

lemma joinChar_splitChar: "joinChar [c] (splitChar c s) = s"
proof (induction s)
  case (Cons x s)
  obtain y ys where "splitChar c s = y # ys" by (cases "splitChar c s") auto
  with Cons show ?case by (cases ys) auto
qed simp

lemma cutAt_split: "cutAt sep s = Some (a, b) \<Longrightarrow> s = a @ sep @ b"
proof (induction s arbitrary: a b)
  case Nil
  then show ?case by (auto simp: cutAt.simps [of sep] split: if_splits)
next
  case (Cons x s)
  then show ?case
    by (auto simp: cutAt.simps [of sep "x # s"] prefix_def split: if_splits option.splits prod.splits)
qed

lemma trimSpaceLeft_id: "leadingSpace s = None \<Longrightarrow> trimSpaceLeft s = s"
  by (simp add: trimSpaceLeft.simps)

lemma trimSpaceRight_id: "trailingSpace s = None \<Longrightarrow> trimSpaceRight s = s"
  by (simp add: trimSpaceRight.simps)

lemma leadingSpace_trimSpaceLeft: "leadingSpace (trimSpaceLeft s) = None"
proof (induction s rule: trimSpaceLeft.induct)
  case (1 s)
  then show ?case
    by (cases "leadingSpace s") (simp_all add: trimSpaceLeft.simps [of s])
qed

lemma trailingSpace_trimSpaceRight: "trailingSpace (trimSpaceRight s) = None"
proof (induction s rule: trimSpaceRight.induct)
  case (1 s)
  then show ?case
    by (cases "trailingSpace s") (simp_all add: trimSpaceRight.simps [of s])
qed

lemma trimSpaceRight_prefix: "prefix (trimSpaceRight s) s"
proof (induction s rule: trimSpaceRight.induct)
  case (1 s)
  show ?case
  proof (cases "trailingSpace s")
    case (Some e)
    have "prefix (trimSpaceRight (take (length s - length e) s)) (take (length s - length e) s)"
      using 1 [OF Some] .
    then show ?thesis
      using Some take_is_prefix prefix_order.trans by (simp add: trimSpaceRight.simps [of s]) blast
  qed (simp add: trimSpaceRight.simps [of s])
qed

lemma trimSpaceLeft_suffix: "suffix (trimSpaceLeft s) s"
proof (induction s rule: trimSpaceLeft.induct)
  case (1 s)
  show ?case
  proof (cases "leadingSpace s")
    case (Some e)
    have "suffix (trimSpaceLeft (drop (length e) s)) (drop (length e) s)"
      using 1 [OF Some] .
    then show ?thesis
      using Some suffix_drop suffix_order.trans by (simp add: trimSpaceLeft.simps [of s]) blast
  qed (simp add: trimSpaceLeft.simps [of s])
qed

text \<open>A trimmed string: no white space at either end; trimming such a string changes nothing.\<close>

definition trimmed :: "string \<Rightarrow> bool" where
  "trimmed s \<longleftrightarrow> leadingSpace s = None \<and> trailingSpace s = None"

lemma trimSpace_id: "trimmed s \<Longrightarrow> trimSpace s = s"
  by (simp add: trimmed_def trimSpace_def trimSpaceLeft_id trimSpaceRight_id)

lemma trimmed_Nil [simp]: "trimmed []"
  by (simp add: trimmed_def leadingSpace_def trailingSpace_def spaceEncodings_def)

lemma leadingSpace_prefix:
  "prefix p s \<Longrightarrow> leadingSpace s = None \<Longrightarrow> leadingSpace p = None"
  unfolding leadingSpace_def find_None_iff by (metis prefix_order.trans)

lemma trailingSpace_suffix:
  "suffix p s \<Longrightarrow> trailingSpace s = None \<Longrightarrow> trailingSpace p = None"
  unfolding trailingSpace_def find_None_iff by (metis suffix_order.trans)

lemma trimmed_trimSpace: "trimmed (trimSpace s)"
  unfolding trimmed_def trimSpace_def
  by (metis leadingSpace_trimSpaceLeft leadingSpace_prefix trimSpaceRight_prefix
      trailingSpace_trimSpaceRight)

lemma set_trimSpace: "set (trimSpace s) \<subseteq> set s"
  unfolding trimSpace_def
  by (meson dual_order.trans set_mono_prefix set_mono_suffix trimSpaceLeft_suffix trimSpaceRight_prefix)

text \<open>
  No encoding holds an ASCII byte that is not itself white space, so gluing such a byte in front of
  a string does not make white space appear.
\<close>

lemma leadingSpace_Cons:
  "[c] \<notin> set spaceEncodings \<Longrightarrow> c \<noteq> CHR 0xC2 \<Longrightarrow> c \<noteq> CHR 0xE1 \<Longrightarrow> c \<noteq> CHR 0xE2 \<Longrightarrow>
     c \<noteq> CHR 0xE3 \<Longrightarrow> leadingSpace (c # s) = None"
  by (auto simp: leadingSpace_def spaceEncodings_def find_None_iff)

lemma suffix_append_boundary:
  assumes "suffix e (a @ c # b)" "c \<notin> set e"
  shows "suffix e b"
proof -
  from assms(1) obtain z where z: "a @ c # b = z @ e" by (auto simp: suffix_def)
  then have "(a @ [c]) @ b = z @ e" by simp
  then consider us where "a @ [c] = z @ us" "us @ b = e"
    | us where "(a @ [c]) @ us = z" "b = us @ e"
    unfolding append_eq_append_conv2 by blast
  then show ?thesis
  proof cases
    case 1
    then show ?thesis using assms(2) by (cases us rule: rev_cases) auto
  qed (simp add: suffix_def)
qed

lemma trailingSpace_append:
  assumes "\<forall>e\<in>set spaceEncodings. c \<notin> set e" "trailingSpace b = None"
  shows "trailingSpace (a @ c # b) = None"
  using assms suffix_append_boundary [of _ a c b] unfolding trailingSpace_def find_None_iff by metis

end
