(* ===== verification/Utf8.thy ===== *)
theory Utf8
  imports GoStrings
begin

text \<open>
  UTF-8 as Go's \<open>unicode/utf8\<close> decodes it: a string is cut into its runes, a byte that starts no
  valid sequence being an invalid rune of one byte. \<open>toValidUTF8\<close> replaces every invalid byte with
  U+FFFD, which is what \<open>encoding/json\<close> does to the strings it writes and reads.
\<close>

abbreviation byteval :: "char \<Rightarrow> nat" where "byteval c \<equiv> of_char c"

definition inRange :: "nat \<Rightarrow> nat \<Rightarrow> char \<Rightarrow> bool" where
  "inRange lo hi c \<longleftrightarrow> lo \<le> byteval c \<and> byteval c \<le> hi"

text \<open>The bounds Go's \<open>acceptRanges\<close> puts on the second byte of three and four byte sequences.\<close>

definition secondLo :: "nat \<Rightarrow> nat" where
  "secondLo x = (if x = 0xE0 then 0xA0 else if x = 0xF0 then 0x90 else 0x80)"

definition secondHi :: "nat \<Rightarrow> nat" where
  "secondHi x = (if x = 0xED then 0x9F else if x = 0xF4 then 0x8F else 0xBF)"

fun runeSize :: "string \<Rightarrow> nat option" where
  "runeSize [] = None"
| "runeSize (a # s) =
     (let x = byteval a in
      if x < 0x80 then Some 1
      else if 0xC2 \<le> x \<and> x \<le> 0xDF then
        (case s of b # _ \<Rightarrow> if inRange 0x80 0xBF b then Some 2 else None | [] \<Rightarrow> None)
      else if 0xE0 \<le> x \<and> x \<le> 0xEF then
        (case s of
           b # c # _ \<Rightarrow>
             if inRange (secondLo x) (secondHi x) b \<and> inRange 0x80 0xBF c then Some 3 else None
         | _ \<Rightarrow> None)
      else if 0xF0 \<le> x \<and> x \<le> 0xF4 then
        (case s of
           b # c # d # _ \<Rightarrow>
             if inRange (secondLo x) (secondHi x) b \<and> inRange 0x80 0xBF c \<and> inRange 0x80 0xBF d
             then Some 4 else None
         | _ \<Rightarrow> None)
      else None)"

fun runes :: "string \<Rightarrow> (bool \<times> string) list" where
  "runes [] = []"
| "runes (a # s) =
     (case runeSize (a # s) of
        None \<Rightarrow> (False, [a]) # runes s
      | Some n \<Rightarrow> (True, take n (a # s)) # runes (drop (n - 1) s))"

definition replacementChar :: string where
  "replacementChar = [char_of (0xEF :: nat), char_of (0xBF :: nat), char_of (0xBD :: nat)]"

definition toValidUTF8 :: "string \<Rightarrow> string" where
  "toValidUTF8 s = concat (map (\<lambda>(valid, r). if valid then r else replacementChar) (runes s))"

definition validUTF8 :: "string \<Rightarrow> bool" where
  "validUTF8 s \<longleftrightarrow> (\<forall>(valid, _)\<in>set (runes s). valid)"

text \<open>\<open>utf8.AppendRune\<close> for a rune that is not a surrogate.\<close>

definition encodeRune :: "nat \<Rightarrow> string" where
  "encodeRune r =
     (if r < 0x80 then [char_of r]
      else if r < 0x800 then [char_of (0xC0 + r div 64), char_of (0x80 + r mod 64)]
      else if r < 0x10000 then
        [char_of (0xE0 + r div 4096), char_of (0x80 + r div 64 mod 64), char_of (0x80 + r mod 64)]
      else [char_of (0xF0 + r div 262144), char_of (0x80 + r div 4096 mod 64),
            char_of (0x80 + r div 64 mod 64), char_of (0x80 + r mod 64)])"

lemma runeSize_bounds: "runeSize s = Some n \<Longrightarrow> 0 < n \<and> n \<le> length s"
  by (cases s) (auto simp: Let_def split: if_splits list.splits)

lemma runeSize_extend: "runeSize s = Some n \<Longrightarrow> runeSize (take n s @ t) = Some n"
  by (cases s) (auto simp: Let_def numeral_eq_Suc split: if_splits list.splits)

lemma runeSize_ascii: "byteval a < 0x80 \<Longrightarrow> runeSize (a # s) = Some 1"
  by simp

lemma runeSize_multibyte:
  "runeSize (a # s) = Some n \<Longrightarrow> \<not> byteval a < 0x80 \<Longrightarrow>
     \<forall>c\<in>set (take n (a # s)). \<not> byteval c < 0x80"
  by (auto simp: Let_def inRange_def secondLo_def secondHi_def numeral_eq_Suc
      split: if_splits list.splits)

lemma concat_runes: "concat (map snd (runes s)) = s"
proof (induction s rule: runes.induct)
  case (2 a s)
  show ?case
  proof (cases "runeSize (a # s)")
    case None
    then show ?thesis using 2(1) by simp
  next
    case (Some n)
    then obtain m where "n = Suc m" using runeSize_bounds [OF Some] by (cases n) auto
    then show ?thesis using 2(2) [OF Some] Some by simp
  qed
qed simp

lemma toValidUTF8_id: "validUTF8 s \<Longrightarrow> toValidUTF8 s = s"
proof -
  assume "validUTF8 s"
  then have "map (\<lambda>(valid, r). if valid then r else replacementChar) (runes s) = map snd (runes s)"
    by (intro map_cong) (auto simp: validUTF8_def)
  then show ?thesis unfolding toValidUTF8_def by (simp only: concat_runes)
qed

lemma validUTF8_ascii: "\<forall>c\<in>set s. byteval c < 0x80 \<Longrightarrow> validUTF8 s"
proof (induction s rule: runes.induct)
  case (2 a s)
  then show ?case
    using runeSize_ascii [of a s] by (simp add: validUTF8_def)
qed (simp add: validUTF8_def)

lemma toValidUTF8_Nil [simp]: "toValidUTF8 [] = []"
  by (simp add: toValidUTF8_def)

lemma toValidUTF8_Cons:
  "toValidUTF8 (a # s) =
     (case runeSize (a # s) of
        None \<Rightarrow> replacementChar @ toValidUTF8 s
      | Some n \<Rightarrow> take n (a # s) @ toValidUTF8 (drop (n - 1) s))"
  by (auto simp: toValidUTF8_def split: option.splits)

end
