(* ===== verification/Decimal.thy ===== *)
theory Decimal
  imports GoStrings
begin

text \<open>
  Decimal numbers as \<open>strconv\<close> writes and reads them: \<open>Itoa\<close>/\<open>FormatInt\<close> (base 10) and
  \<open>Atoi\<close>/\<open>ParseInt(s, 10, 64)\<close> with the range of a signed 64-bit integer. Underscores are rejected
  in base 10.
\<close>

definition isDigit :: "char \<Rightarrow> bool" where
  "isDigit c \<longleftrightarrow> 48 \<le> (of_char c :: nat) \<and> (of_char c :: nat) \<le> 57"

definition digitChar :: "nat \<Rightarrow> char" where
  "digitChar n = char_of (48 + n)"

definition digitVal :: "char \<Rightarrow> nat" where
  "digitVal c = of_char c - 48"

fun showNat :: "nat \<Rightarrow> string" where
  "showNat n = (if n < 10 then [digitChar n] else showNat (n div 10) @ [digitChar (n mod 10)])"

declare showNat.simps [simp del]

definition showInt :: "int \<Rightarrow> string" where
  "showInt i = (if i < 0 then CHR ''-'' # showNat (nat (- i)) else showNat (nat i))"

definition readNat :: "string \<Rightarrow> nat" where
  "readNat s = foldl (\<lambda>n c. 10 * n + digitVal c) 0 s"

definition int64_range :: "int \<Rightarrow> bool" where
  "int64_range i \<longleftrightarrow> - (2 ^ 63) \<le> i \<and> i < 2 ^ 63"

text \<open>\<open>ParseInt\<close>: an optional sign and at least one digit, within range.\<close>

definition parseInt :: "string \<Rightarrow> int option" where
  "parseInt s =
     (let (neg, ds) = (case s of
                         c # t \<Rightarrow> if c = CHR ''-'' then (True, t) else if c = CHR ''+'' then (False, t)
                                  else (False, s)
                       | [] \<Rightarrow> (False, s));
          i = (if neg then - int (readNat ds) else int (readNat ds)) in
      if ds = [] \<or> \<not> list_all isDigit ds \<or> \<not> int64_range i then None else Some i)"



lemma of_char_digitChar: "n < 10 \<Longrightarrow> (of_char (digitChar n) :: nat) = 48 + n"
  by (simp add: digitChar_def)

lemma isDigit_digitChar [simp]: "n < 10 \<Longrightarrow> isDigit (digitChar n)"
  by (simp add: isDigit_def of_char_digitChar)

lemma digitVal_digitChar [simp]: "n < 10 \<Longrightarrow> digitVal (digitChar n) = n"
  by (simp add: digitVal_def of_char_digitChar)

lemma showNat_nonempty [simp]: "showNat n \<noteq> []"
  by (subst showNat.simps) simp

lemma showNat_digits: "list_all isDigit (showNat n)"
proof (induction n rule: showNat.induct)
  case (1 n)
  then show ?case by (subst showNat.simps) auto
qed

lemma readNat_showNat [simp]: "readNat (showNat n) = n"
proof (induction n rule: showNat.induct)
  case (1 n)
  then show ?case by (subst showNat.simps) (auto simp: readNat_def)
qed

lemma showNat_no_leading_zero: "hd (showNat n) = CHR ''0'' \<Longrightarrow> n = 0"
proof (induction n rule: showNat.induct)
  case (1 n)
  show ?case
  proof (cases "n < 10")
    case True
    then have "of_char (hd (showNat n)) = 48 + n"
      by (subst showNat.simps) (simp add: of_char_digitChar)
    then show ?thesis using 1(2) by simp
  next
    case False
    then have "hd (showNat n) = hd (showNat (n div 10))"
      by (subst showNat.simps) simp
    then show ?thesis using 1 False by simp
  qed
qed

lemma showInt_nonempty [simp]: "showInt i \<noteq> []"
  by (simp add: showInt_def)

lemma showNat_hd: "\<exists>d t. showNat n = d # t \<and> isDigit d \<and> list_all isDigit t"
  using showNat_digits [of n] by (cases "showNat n") auto

lemma parseInt_showInt [simp]: "int64_range i \<Longrightarrow> parseInt (showInt i) = Some i"
proof -
  obtain d t where s: "showNat (nat \<bar>i\<bar>) = d # t" "isDigit d" "list_all isDigit t"
    using showNat_hd by blast
  then have "d \<noteq> CHR ''-''" "d \<noteq> CHR ''+''" by (auto simp: isDigit_def)
  moreover have "int (readNat (d # t)) = \<bar>i\<bar>"
    using s(1) readNat_showNat [of "nat \<bar>i\<bar>"] by simp
  moreover assume "int64_range i"
  ultimately show ?thesis
    using s by (auto simp: parseInt_def showInt_def Let_def)
qed

lemma parseInt_range: "parseInt s = Some i \<Longrightarrow> int64_range i"
  by (auto simp: parseInt_def Let_def split: prod.splits if_splits)

end
