(* ===== verification/Json.thy ===== *)
theory Json
  imports Utf8 Decimal
begin

text \<open>
  The part of \<open>encoding/json\<close> every message of the program goes through: the writer (HTML-safe
  string escapes, compact output) and the reader (scanner, string unquoting with surrogate pairs,
  the number grammar). A value is a tree; a number keeps its literal text. The reader's recursion is
  bounded by fuel, and \<open>parse_fuel_enough\<close> shows that the amount \<open>parseJSON\<close> gives never runs out.
  Go's nesting limit of 10000 is not modelled.
\<close>

datatype json = JNull | JBool bool | JNum string | JStr string | JArr "json list"
  | JObj "(string \<times> json) list"

section \<open>Writing\<close>

abbreviation dquote :: char where "dquote \<equiv> CHR 0x22"
abbreviation backslash :: char where "backslash \<equiv> CHR 0x5C"

definition hexLower :: "nat \<Rightarrow> char" where
  "hexLower n = ''0123456789abcdef'' ! n"

definition escapeU :: "nat \<Rightarrow> string" where
  "escapeU r = [backslash, CHR ''u'', hexLower (r div 4096), hexLower (r div 256 mod 16),
     hexLower (r div 16 mod 16), hexLower (r mod 16)]"

definition escapeByte :: "char \<Rightarrow> string" where
  "escapeByte c =
     (if c = dquote \<or> c = backslash then [backslash, c]
      else if c = CHR 0x08 then [backslash, CHR ''b'']
      else if c = CHR 0x0C then [backslash, CHR ''f'']
      else if c = CHR 0x0A then [backslash, CHR ''n'']
      else if c = CHR 0x0D then [backslash, CHR ''r'']
      else if c = CHR 0x09 then [backslash, CHR ''t'']
      else if byteval c < 0x20 \<or> c = CHR ''<'' \<or> c = CHR ''>'' \<or> c = CHR ''&''
      then escapeU (byteval c)
      else [c])"

definition lineSep :: string where
  "lineSep = [CHR 0xE2, CHR 0x80, CHR 0xA8]"

definition paraSep :: string where
  "paraSep = [CHR 0xE2, CHR 0x80, CHR 0xA9]"

definition escapeRune :: "bool \<times> string \<Rightarrow> string" where
  "escapeRune vr =
     (if \<not> fst vr then escapeU 0xFFFD
      else if snd vr = lineSep then escapeU 0x2028
      else if snd vr = paraSep then escapeU 0x2029
      else case snd vr of [c] \<Rightarrow> escapeByte c | r \<Rightarrow> r)"

definition quoteBody :: "string \<Rightarrow> string" where
  "quoteBody s = concat (map escapeRune (runes s))"

definition quote :: "string \<Rightarrow> string" where
  "quote s = dquote # quoteBody s @ [dquote]"

fun commaSep :: "string list \<Rightarrow> string" where
  "commaSep [] = []"
| "commaSep [x] = x"
| "commaSep (x # y # zs) = x @ CHR '','' # commaSep (y # zs)"

fun render :: "json \<Rightarrow> string" where
  "render JNull = ''null''"
| "render (JBool b) = (if b then ''true'' else ''false'')"
| "render (JNum s) = s"
| "render (JStr s) = quote s"
| "render (JArr vs) = CHR ''['' # commaSep (map render vs) @ '']''"
| "render (JObj kvs) =
     CHR ''{'' # commaSep (map (\<lambda>(k, v). quote k @ CHR '':'' # render v) kvs) @ ''}''"

section \<open>Reading\<close>

definition hexVal :: "char \<Rightarrow> nat option" where
  "hexVal c =
     (if inRange 48 57 c then Some (byteval c - 48)
      else if inRange 97 102 c then Some (byteval c - 87)
      else if inRange 65 70 c then Some (byteval c - 55) else None)"

definition hex4 :: "string \<Rightarrow> nat option" where
  "hex4 s =
     (case s of
        a # b # c # d # _ \<Rightarrow>
          (case (hexVal a, hexVal b, hexVal c, hexVal d) of
             (Some w, Some x, Some y, Some z) \<Rightarrow> Some (4096 * w + 256 * x + 16 * y + z)
           | _ \<Rightarrow> None)
      | _ \<Rightarrow> None)"

definition isSurrogate :: "nat \<Rightarrow> bool" where
  "isSurrogate r \<longleftrightarrow> 0xD800 \<le> r \<and> r < 0xE000"

text \<open>The rune of a surrogate \<open>r\<close> and the escape that follows it, when the two are a pair.\<close>

definition surrogatePair :: "nat \<Rightarrow> string \<Rightarrow> nat option" where
  "surrogatePair r s =
     (case s of
        a # u # t \<Rightarrow>
          (case hex4 t of
             Some lo \<Rightarrow>
               if a = backslash \<and> u = CHR ''u'' \<and> r < 0xDC00 \<and> 0xDC00 \<le> lo \<and> lo < 0xE000
               then Some (0x10000 + (r - 0xD800) * 1024 + (lo - 0xDC00)) else None
           | None \<Rightarrow> None)
      | _ \<Rightarrow> None)"

definition simpleEscape :: "char \<Rightarrow> char option" where
  "simpleEscape c =
     map_of [(dquote, dquote), (backslash, backslash), (CHR ''/'', CHR ''/''), (CHR ''b'', CHR 0x08),
       (CHR ''f'', CHR 0x0C), (CHR ''n'', CHR 0x0A), (CHR ''r'', CHR 0x0D), (CHR ''t'', CHR 0x09)] c"

definition prepend :: "'a list \<Rightarrow> ('a list \<times> 'b) option \<Rightarrow> ('a list \<times> 'b) option" where
  "prepend p r = map_option (\<lambda>(v, t). (p @ v, t)) r"

text \<open>The rest of a string literal, after its opening quote: its value and what follows it.\<close>

function scanString :: "string \<Rightarrow> (string \<times> string) option" where
  "scanString [] = None"
| "scanString (c # s) =
     (if c = dquote then Some ([], s)
      else if c = backslash then
        (case s of
           [] \<Rightarrow> None
         | e # r \<Rightarrow>
             if e = CHR ''u'' then
               (case hex4 r of
                  None \<Rightarrow> None
                | Some x \<Rightarrow>
                    if \<not> isSurrogate x then prepend (encodeRune x) (scanString (drop 4 r))
                    else (case surrogatePair x (drop 4 r) of
                            Some y \<Rightarrow> prepend (encodeRune y) (scanString (drop 10 r))
                          | None \<Rightarrow> prepend replacementChar (scanString (drop 4 r))))
             else (case simpleEscape e of
                     None \<Rightarrow> None
                   | Some d \<Rightarrow> prepend [d] (scanString r)))
      else if byteval c < 0x20 then None
      else (case runeSize (c # s) of
              None \<Rightarrow> prepend replacementChar (scanString s)
            | Some n \<Rightarrow> prepend (take n (c # s)) (scanString (drop (n - 1) s))))"
  by pat_completeness auto
termination by (relation "measure length") auto

declare scanString.simps(2) [simp del]

definition skipWS :: "string \<Rightarrow> string" where
  "skipWS s = dropWhile (\<lambda>c. c \<in> {CHR 0x20, CHR 0x09, CHR 0x0A, CHR 0x0D}) s"

definition scanInteger :: "string \<Rightarrow> (string \<times> string) option" where
  "scanInteger s =
     (case s of
        [] \<Rightarrow> None
      | c # t \<Rightarrow>
          if c = CHR ''0'' then Some ([c], t)
          else if isDigit c then Some (takeWhile isDigit s, dropWhile isDigit s) else None)"

definition scanDigits1 :: "string \<Rightarrow> (string \<times> string) option" where
  "scanDigits1 s =
     (if takeWhile isDigit s = [] then None else Some (takeWhile isDigit s, dropWhile isDigit s))"

definition scanFraction :: "string \<Rightarrow> (string \<times> string) option" where
  "scanFraction s =
     (case s of
        c # t \<Rightarrow> if c = CHR ''.'' then prepend [c] (scanDigits1 t) else Some ([], s)
      | [] \<Rightarrow> Some ([], s))"

definition scanExponent :: "string \<Rightarrow> (string \<times> string) option" where
  "scanExponent s =
     (case s of
        c # t \<Rightarrow>
          if c = CHR ''e'' \<or> c = CHR ''E'' then
            (case t of
               g # u \<Rightarrow> if g = CHR ''+'' \<or> g = CHR ''-'' then prepend [c, g] (scanDigits1 u)
                       else prepend [c] (scanDigits1 t)
             | [] \<Rightarrow> None)
          else Some ([], s)
      | [] \<Rightarrow> Some ([], s))"

definition andThen ::
  "(string \<times> string) option \<Rightarrow> (string \<Rightarrow> (string \<times> string) option) \<Rightarrow> (string \<times> string) option"
where
  "andThen r f = (case r of None \<Rightarrow> None | Some (v, t) \<Rightarrow> prepend v (f t))"

definition scanNumber :: "string \<Rightarrow> (string \<times> string) option" where
  "scanNumber s =
     (let (sign, t) = (case s of c # t \<Rightarrow> if c = CHR ''-'' then ([c], t) else ([], s) | [] \<Rightarrow> ([], s)) in
      prepend sign (andThen (andThen (scanInteger t) scanFraction) scanExponent))"

definition scanAtom :: "string \<Rightarrow> (json \<times> string) option" where
  "scanAtom s =
     (if prefix ''true'' s then Some (JBool True, drop 4 s)
      else if prefix ''false'' s then Some (JBool False, drop 5 s)
      else if prefix ''null'' s then Some (JNull, drop 4 s)
      else map_option (\<lambda>(n, t). (JNum n, t)) (scanNumber s))"

fun parseValue :: "nat \<Rightarrow> string \<Rightarrow> (json \<times> string) option"
and parseElems :: "nat \<Rightarrow> string \<Rightarrow> (json list \<times> string) option"
and parseMembers :: "nat \<Rightarrow> string \<Rightarrow> ((string \<times> json) list \<times> string) option" where
  "parseValue 0 s = None"
| "parseValue (Suc n) s =
     (case skipWS s of
        [] \<Rightarrow> None
      | c # r \<Rightarrow>
          if c = dquote then map_option (\<lambda>(v, t). (JStr v, t)) (scanString r)
          else if c = CHR ''['' then
            (case skipWS r of
               [] \<Rightarrow> None
             | d # t \<Rightarrow> if d = CHR '']'' then Some (JArr [], t)
                        else map_option (\<lambda>(vs, t). (JArr vs, t)) (parseElems n (d # t)))
          else if c = CHR ''{'' then
            (case skipWS r of
               [] \<Rightarrow> None
             | d # t \<Rightarrow> if d = CHR ''}'' then Some (JObj [], t)
                        else map_option (\<lambda>(ms, t). (JObj ms, t)) (parseMembers n (d # t)))
          else scanAtom (c # r))"
| "parseElems 0 s = None"
| "parseElems (Suc n) s =
     (case parseValue n s of
        None \<Rightarrow> None
      | Some (v, t) \<Rightarrow>
          (case skipWS t of
             [] \<Rightarrow> None
           | c # u \<Rightarrow> if c = CHR '']'' then Some ([v], u)
                      else if c = CHR '','' then prepend [v] (parseElems n u) else None))"
| "parseMembers 0 s = None"
| "parseMembers (Suc n) s =
     (case skipWS s of
        [] \<Rightarrow> None
      | q # r \<Rightarrow>
          if q \<noteq> dquote then None
          else (case scanString r of
                  None \<Rightarrow> None
                | Some (k, t) \<Rightarrow>
                    (case skipWS t of
                       [] \<Rightarrow> None
                     | c # u \<Rightarrow>
                         if c \<noteq> CHR '':'' then None
                         else (case parseValue n u of
                                 None \<Rightarrow> None
                               | Some (v, w) \<Rightarrow>
                                   (case skipWS w of
                                      [] \<Rightarrow> None
                                    | d # x \<Rightarrow>
                                        if d = CHR ''}'' then Some ([(k, v)], x)
                                        else if d = CHR '','' then
                                          prepend [(k, v)] (parseMembers n x)
                                        else None)))))"

definition parseJSON :: "string \<Rightarrow> json option" where
  "parseJSON s =
     (case parseValue (2 * length s + 2) s of
        Some (v, t) \<Rightarrow> if skipWS t = [] then Some v else None
      | None \<Rightarrow> None)"

section \<open>Strings survive quoting\<close>

lemma hexVal_hexLower:
  assumes "n < 16"
  shows "hexVal (hexLower n) = Some n"
proof -
  have "n \<in> set [0..<16]" using assms by simp
  moreover have "\<forall>n\<in>set [0..<16]. hexVal (hexLower n) = Some n"
    by (simp add: upt_rec hexVal_def hexLower_def inRange_def)
  ultimately show ?thesis by blast
qed

lemma hex_digits_sum:
  "4096 * (x div 4096) + 256 * (x div 256 mod 16) + 16 * (x div 16 mod 16) + x mod 16
     = (x :: nat)"
proof -
  have "x = 16 * (x div 16) + x mod 16" "x div 16 = 16 * (x div 256) + x div 16 mod 16"
    "x div 256 = 16 * (x div 4096) + x div 256 mod 16"
    by (simp_all add: div_mult2_eq [of _ 16 16, simplified] div_mult2_eq [of _ 256 16, simplified])
  then show ?thesis by linarith
qed

lemma hex4_digits:
  assumes "x < 65536"
  shows "hex4 (hexLower (x div 4096) # hexLower (x div 256 mod 16) #
           hexLower (x div 16 mod 16) # hexLower (x mod 16) # t) = Some x"
proof -
  have "x div 4096 < 16" using assms by simp
  then show ?thesis unfolding hex4_def using hex_digits_sum [of x] by (simp add: hexVal_hexLower)
qed

lemma scanString_escapeU:
  assumes "x < 65536" "\<not> isSurrogate x"
  shows "scanString (escapeU x @ t) = prepend (encodeRune x) (scanString t)"
  using assms by (simp add: escapeU_def scanString.simps(2) hex4_digits)

lemma encodeRune_ascii: "byteval c < 0x80 \<Longrightarrow> encodeRune (byteval c) = [c]"
  by (simp add: encodeRune_def)

lemma scanString_escapeByte:
  assumes "byteval c < 0x80"
  shows "scanString (escapeByte c @ t) = prepend [c] (scanString t)"
proof -
  have u: "scanString (escapeU (byteval c) @ t) = prepend [c] (scanString t)"
    using scanString_escapeU [of "byteval c" t] assms
    by (simp add: encodeRune_ascii isSurrogate_def)
  show ?thesis
    using u assms
    by (auto simp: escapeByte_def scanString.simps(2) simpleEscape_def Let_def)
qed

lemma encodeRune_values:
  "encodeRune 0xFFFD = replacementChar" "encodeRune 0x2028 = lineSep" "encodeRune 0x2029 = paraSep"
  by (simp_all add: encodeRune_def replacementChar_def lineSep_def paraSep_def char_of_def
      bit_iff_odd)

lemma scanString_multibyte:
  assumes n: "runeSize (a # s) = Some n" and a: "\<not> byteval a < 0x80"
  shows "scanString (take n (a # s) @ t) = prepend (take n (a # s)) (scanString t)"
proof -
  obtain m where m: "n = Suc m" "m \<le> length s" using runeSize_bounds [OF n] by (cases n) auto
  have "runeSize (a # take m s @ t) = Some (Suc m)"
    using runeSize_extend [OF n, of t] m by simp
  moreover have "a \<noteq> dquote" "a \<noteq> backslash" "\<not> byteval a < 0x20" using a by auto
  ultimately show ?thesis using m by (simp add: scanString.simps(2))
qed

lemma scanString_escapeRune:
  assumes n: "runeSize (a # s) = Some n"
  shows "scanString (escapeRune (True, take n (a # s)) @ t) =
           prepend (take n (a # s)) (scanString t)"
proof (cases "byteval a < 0x80")
  case True
  then have "n = 1" using n runeSize_ascii [of a s] by simp
  then show ?thesis
    using scanString_escapeByte [OF True, of t] by (simp add: escapeRune_def lineSep_def paraSep_def)
next
  case False
  have "length (take n (a # s)) \<noteq> 1"
    using n False by (auto simp: Let_def numeral_eq_Suc split: if_splits list.splits)
  then have "escapeRune (True, take n (a # s)) =
      (if take n (a # s) = lineSep then escapeU 0x2028
       else if take n (a # s) = paraSep then escapeU 0x2029 else take n (a # s))"
    unfolding escapeRune_def by (cases "take n (a # s)" rule: remdups_adj.cases) auto
  then show ?thesis
    using scanString_escapeU [of "0x2028" t] scanString_escapeU [of "0x2029" t]
      scanString_multibyte [OF n False]
    by (auto simp: encodeRune_values isSurrogate_def)
qed

lemma prepend_prepend [simp]: "prepend p (prepend q r) = prepend (p @ q) r"
  by (cases r) (auto simp: prepend_def)

lemma prepend_Some [simp]: "prepend p (Some (v, t)) = Some (p @ v, t)"
  by (simp add: prepend_def)

lemma scanString_quoteBody:
  "scanString (quoteBody s @ dquote # t) = Some (toValidUTF8 s, t)"
proof (induction s rule: runes.induct)
  case 1
  show ?case by (simp add: quoteBody_def scanString.simps(2))
next
  case (2 a s)
  show ?case
  proof (cases "runeSize (a # s)")
    case None
    have "escapeRune (False, [a]) = escapeU 0xFFFD" by (simp add: escapeRune_def)
    then show ?thesis
      using 2(1) [OF None] None scanString_escapeU [of "0xFFFD" "quoteBody s @ dquote # t"]
      by (simp add: quoteBody_def toValidUTF8_Cons encodeRune_values isSurrogate_def)
  next
    case (Some n)
    then show ?thesis
      using 2(2) [OF Some]
        scanString_escapeRune [OF Some]
      by (simp add: quoteBody_def toValidUTF8_Cons)
  qed
qed


section \<open>Values survive rendering\<close>

text \<open>Well-formed output: a number is an integer literal. Reading replaces invalid UTF-8.\<close>

fun wfJSON :: "json \<Rightarrow> bool" where
  "wfJSON (JNum s) = (parseInt s \<noteq> None \<and> s = showInt (the (parseInt s)))"
| "wfJSON (JArr vs) = list_all wfJSON vs"
| "wfJSON (JObj kvs) = list_all (\<lambda>(k, v). wfJSON v) kvs"
| "wfJSON _ = True"

fun normJSON :: "json \<Rightarrow> json" where
  "normJSON (JStr s) = JStr (toValidUTF8 s)"
| "normJSON (JArr vs) = JArr (map normJSON vs)"
| "normJSON (JObj kvs) = JObj (map (\<lambda>(k, v). (toValidUTF8 k, normJSON v)) kvs)"
| "normJSON j = j"

fun needList :: "nat list \<Rightarrow> nat" where
  "needList [] = 0"
| "needList (n # ns) = Suc (max n (needList ns))"

text \<open>The fuel a rendered value takes, at most its length.\<close>

fun need :: "json \<Rightarrow> nat" where
  "need (JArr vs) = Suc (needList (map need vs))"
| "need (JObj kvs) = Suc (needList (map (\<lambda>(k, v). need v) kvs))"
| "need _ = 1"

definition ends :: "string \<Rightarrow> bool" where
  "ends s \<longleftrightarrow> s = [] \<or> hd s \<in> {CHR '','', CHR '']'', CHR ''}'', newline}"

definition isWS :: "char \<Rightarrow> bool" where
  "isWS c \<longleftrightarrow> c \<in> {CHR 0x20, CHR 0x09, CHR 0x0A, CHR 0x0D}"

lemma skipWS_Cons [simp]: "skipWS (c # s) = (if isWS c then skipWS s else c # s)"
  by (auto simp: skipWS_def isWS_def)

lemma skipWS_Nil [simp]: "skipWS [] = []"
  by (simp add: skipWS_def)

lemma isWS_values [simp]:
  "\<not> isWS dquote" "\<not> isWS (CHR ''['')" "\<not> isWS (CHR '']'')" "\<not> isWS (CHR ''{'')" "\<not> isWS (CHR ''}'')"
  "\<not> isWS (CHR '','')" "\<not> isWS (CHR '':'')" "\<not> isWS (CHR ''t'')" "\<not> isWS (CHR ''f'')"
  "\<not> isWS (CHR ''n'')" "\<not> isWS (CHR ''-'')"
  by (simp_all add: isWS_def)

lemma digit_cases:
  "isDigit c \<Longrightarrow> \<not> isWS c \<and>
     c \<notin> {dquote, CHR ''['', CHR '']'', CHR ''{'', CHR ''}'', CHR ''-'', CHR ''t'', CHR ''f'', CHR ''n''}"
  by (auto simp: isWS_def isDigit_def)

lemma ends_no_digit: "ends s \<Longrightarrow> takeWhile isDigit s = [] \<and> dropWhile isDigit s = s"
  by (cases s) (auto simp: ends_def isDigit_def newline_def)

lemma takeWhile_digits:
  assumes "list_all isDigit ds" "ends s"
  shows "takeWhile isDigit (ds @ s) = ds" "dropWhile isDigit (ds @ s) = s"
  using assms ends_no_digit [OF assms(2)]
  by (auto simp: takeWhile_append2 dropWhile_append2 list_all_iff)

lemma scanInteger_showNat:
  assumes "ends s"
  shows "scanInteger (showNat n @ s) = Some (showNat n, s)"
proof -
  obtain d t where dt: "showNat n = d # t" "isDigit d" "list_all isDigit t"
    using showNat_hd by blast
  show ?thesis
  proof (cases "d = CHR ''0''")
    case True
    then have "n = 0" using showNat_no_leading_zero [of n] dt by simp
    then show ?thesis
      by (simp add: showNat.simps digitChar_def scanInteger_def char_of_def bit_iff_odd)
  next
    case False
    then show ?thesis
      using dt takeWhile_digits [OF dt(3) assms] by (simp add: scanInteger_def)
  qed
qed

lemma scanFraction_ends: "ends s \<Longrightarrow> scanFraction s = Some ([], s)"
  by (cases s) (auto simp: scanFraction_def ends_def newline_def)

lemma scanExponent_ends: "ends s \<Longrightarrow> scanExponent s = Some ([], s)"
  by (cases s) (auto simp: scanExponent_def ends_def newline_def)

lemma scanNumber_showInt:
  assumes "ends s"
  shows "scanNumber (showInt i @ s) = Some (showInt i, s)"
proof -
  have nat: "andThen (andThen (scanInteger (showNat n @ s)) scanFraction) scanExponent
      = Some (showNat n, s)" for n
    using assms
    by (simp add: andThen_def scanInteger_showNat scanFraction_ends scanExponent_ends)
  obtain d t where dt: "showNat (nat i) = d # t" "isDigit d"
    using showNat_hd by blast
  show ?thesis
    using nat [of "nat (- i)"] nat [of "nat i"] dt digit_cases [OF dt(2)]
    by (auto simp: showInt_def scanNumber_def)
qed

lemma showInt_hd: "\<exists>c t. showInt i = c # t \<and> (isDigit c \<or> c = CHR ''-'')"
  using showNat_hd [of "nat i"] by (auto simp: showInt_def)

lemma scanAtom_showInt: "ends s \<Longrightarrow> scanAtom (showInt i @ s) = Some (JNum (showInt i), s)"
proof -
  assume "ends s"
  moreover obtain c t where "showInt i = c # t" "isDigit c \<or> c = CHR ''-''"
    using showInt_hd by blast
  moreover from this have "c \<notin> {CHR ''t'', CHR ''f'', CHR ''n''}" by (auto dest: digit_cases)
  ultimately show ?thesis
    using scanNumber_showInt [of s i] by (auto simp: scanAtom_def)
qed

lemma render_hd:
  "wfJSON j \<Longrightarrow> \<exists>c t. render j = c # t \<and> \<not> isWS c \<and> c \<noteq> CHR '']''"
proof (cases j)
  case (JNum s)
  assume "wfJSON j"
  then obtain i where "s = showInt i" using JNum by auto
  then show ?thesis using JNum showInt_hd [of i] digit_cases by fastforce
qed (auto simp: quote_def)

lemma ends_values [simp]: "ends []" "ends (CHR '','' # s)" "ends (CHR '']'' # s)" "ends (CHR ''}'' # s)" "ends (newline # s)"
  by (simp_all add: ends_def)

lemma parseElems_render:
  assumes "\<And>v n rest. v \<in> set vs \<Longrightarrow> ends rest \<Longrightarrow> need v \<le> n \<Longrightarrow>
             parseValue n (render v @ rest) = Some (normJSON v, rest)"
    and "vs \<noteq> []" "needList (map need vs) \<le> n"
  shows "parseElems n (commaSep (map render vs) @ CHR '']'' # rest) = Some (map normJSON vs, rest)"
  using assms
proof (induction vs arbitrary: n)
  case (Cons v vs)
  then obtain m where n: "n = Suc m" by (cases n) auto
  have v: "ends u \<Longrightarrow> parseValue m (render v @ u) = Some (normJSON v, u)" for u
    using Cons.prems(1) [of v u m] Cons.prems(3) n by simp
  show ?case
  proof (cases vs)
    case Nil
    then show ?thesis using n v [of "CHR '']'' # rest"] by simp
  next
    case (Cons w ws)
    have "parseElems m (commaSep (map render vs) @ CHR '']'' # rest) = Some (map normJSON vs, rest)"
      using Cons.IH [of m] Cons.prems n Cons by simp
    then show ?thesis
      using n Cons v [of "CHR '','' # commaSep (map render vs) @ CHR '']'' # rest"] by simp
  qed
qed simp

abbreviation renderMember :: "string \<times> json \<Rightarrow> string" where
  "renderMember \<equiv> \<lambda>(k, v). quote k @ CHR '':'' # render v"

lemma parseMembers_render:
  assumes "\<And>k v n rest. (k, v) \<in> set kvs \<Longrightarrow> ends rest \<Longrightarrow> need v \<le> n \<Longrightarrow>
             parseValue n (render v @ rest) = Some (normJSON v, rest)"
    and "kvs \<noteq> []" "needList (map (\<lambda>(k, v). need v) kvs) \<le> n"
  shows "parseMembers n (commaSep (map renderMember kvs) @ CHR ''}'' # rest) =
           Some (map (\<lambda>(k, v). (toValidUTF8 k, normJSON v)) kvs, rest)"
  using assms
proof (induction kvs arbitrary: n)
  case (Cons kv kvs)
  obtain k v where kv: "kv = (k, v)" by (cases kv)
  from Cons.prems obtain m where n: "n = Suc m" by (cases n) auto
  have v: "ends u \<Longrightarrow> parseValue m (render v @ u) = Some (normJSON v, u)" for u
    using Cons.prems(1) [of k v u m] Cons.prems(3) n kv by simp
  show ?case
  proof (cases kvs)
    case Nil
    then show ?thesis
      using n v [of "CHR ''}'' # rest"] kv by (simp add: quote_def scanString_quoteBody)
  next
    case (Cons w ws)
    have "parseMembers m (commaSep (map renderMember kvs) @ CHR ''}'' # rest) =
        Some (map (\<lambda>(k, v). (toValidUTF8 k, normJSON v)) kvs, rest)"
    proof (rule Cons.IH)
      show "parseValue n (render v @ rest) = Some (normJSON v, rest)"
        if "(k, v) \<in> set kvs" "ends rest" "need v \<le> n" for k v n rest
        using that by (intro Cons.prems(1) [of k]) simp_all
    qed (use Cons.prems(3) n kv Cons in simp_all)
    then show ?thesis
      using n kv Cons v [of "CHR '','' # commaSep (map renderMember kvs) @ CHR ''}'' # rest"]
      by (simp add: quote_def scanString_quoteBody)
  qed
qed simp

lemma commaSep_hd: "vs \<noteq> [] \<Longrightarrow> hd vs = c # t \<Longrightarrow> \<exists>u. commaSep vs = c # u"
  by (cases vs rule: commaSep.cases) auto


lemma parseValue_render:
  "wfJSON j \<Longrightarrow> ends rest \<Longrightarrow> need j \<le> n \<Longrightarrow> parseValue n (render j @ rest) = Some (normJSON j, rest)"
proof (induction j arbitrary: n rest)
  case (JNum s)
  then obtain m i where "n = Suc m" "s = showInt i" by (cases n) auto
  moreover obtain c t where "showInt i = c # t" "isDigit c \<or> c = CHR ''-''"
    using showInt_hd by blast
  ultimately show ?case
    using scanAtom_showInt [OF JNum(2), of i] by (auto dest: digit_cases)
next
  case (JStr s)
  then show ?case by (cases n) (auto simp: quote_def scanString_quoteBody)
next
  case (JArr vs)
  then obtain m where n: "n = Suc m" by (cases n) auto
  show ?case
  proof (cases "vs = []")
    case False
    then obtain v ws where vs: "vs = v # ws" by (cases vs) auto
    obtain c t where "render v = c # t" "\<not> isWS c" "c \<noteq> CHR '']''"
      using render_hd [of v] JArr.prems vs by auto
    moreover from this obtain u where "commaSep (map render vs) = c # u"
      using commaSep_hd [of "map render vs" c t] vs by auto
    moreover have "parseElems m (commaSep (map render vs) @ CHR '']'' # rest) =
        Some (map normJSON vs, rest)"
    proof (rule parseElems_render)
      show "parseValue k (render w @ r) = Some (normJSON w, r)"
        if "w \<in> set vs" "ends r" "need w \<le> k" for w k r
        using that JArr.prems(1) by (intro JArr.IH) (auto simp: list_all_iff)
    qed (use JArr.prems(3) n False in simp_all)
    ultimately show ?thesis using n by simp
  qed (use n in simp)
next
  case (JObj kvs)
  then obtain m where n: "n = Suc m" by (cases n) auto
  show ?case
  proof (cases "kvs = []")
    case False
    then obtain k v ws where kvs: "kvs = (k, v) # ws" by (cases kvs) auto
    obtain u where "commaSep (map renderMember kvs) = dquote # u"
      using commaSep_hd [of "map renderMember kvs" dquote] kvs by (auto simp: quote_def)
    moreover have "parseMembers m (commaSep (map renderMember kvs) @ CHR ''}'' # rest) =
        Some (map (\<lambda>(k, v). (toValidUTF8 k, normJSON v)) kvs, rest)"
    proof (rule parseMembers_render)
      show "parseValue i (render w @ r) = Some (normJSON w, r)"
        if "(k, w) \<in> set kvs" "ends r" "need w \<le> i" for k w i r
      proof (rule JObj.IH)
        show "(k, w) \<in> set kvs" by (rule that)
        show "w \<in> Basic_BNFs.snds (k, w)" by simp
      qed (use that JObj.prems(1) in \<open>auto simp: list_all_iff\<close>)
    qed (use JObj.prems(3) n False in simp_all)
    ultimately show ?thesis using n by simp
  qed (use n in simp)
qed (auto simp: scanAtom_def gr0_conv_Suc Suc_le_eq)

lemma needList_bound:
  "\<forall>x\<in>set xs. f x \<le> length (g x) \<Longrightarrow>
     needList (map f xs) \<le> Suc (length (commaSep (map g xs)))"
proof (induction xs)
  case (Cons x xs)
  then show ?case by (cases xs) auto
qed simp

lemma need_bound: "wfJSON j \<Longrightarrow> need j \<le> length (render j)"
proof (induction j)
  case (JNum s)
  then have "s \<noteq> []" by (metis wfJSON.simps(1) showInt_nonempty)
  then show ?case by (cases s) simp_all
next
  case (JArr vs)
  then have "needList (map need vs) \<le> Suc (length (commaSep (map render vs)))"
    by (intro needList_bound) (auto simp: list_all_iff)
  then show ?case by simp
next
  case (JObj kvs)
  have "\<forall>kv\<in>set kvs. (\<lambda>(k, v). need v) kv \<le> length (renderMember kv)"
    using JObj by (fastforce simp: list_all_iff)
  then have "needList (map (\<lambda>(k, v). need v) kvs) \<le> Suc (length (commaSep (map renderMember kvs)))"
    by (rule needList_bound)
  then show ?case by simp
qed (auto simp: quote_def)

lemma parseJSON_render:
  assumes "wfJSON j"
  shows "parseJSON (render j) = Some (normJSON j)"
proof -
  have "need j \<le> 2 * length (render j) + 2" using need_bound [OF assms] by simp
  then have "parseValue (2 * length (render j) + 2) (render j @ []) = Some (normJSON j, [])"
    by (intro parseValue_render assms) simp_all
  then show ?thesis unfolding parseJSON_def by simp
qed


section \<open>Indented objects\<close>

text \<open>\<open>MarshalIndent\<close> with two spaces, of an object whose values are scalars.\<close>

definition indentMember :: "string \<times> json \<Rightarrow> string" where
  "indentMember kv = newline # ''  '' @ quote (fst kv) @ '': '' @ render (snd kv)"

definition indentObject :: "(string \<times> json) list \<Rightarrow> string" where
  "indentObject kvs = ''{'' @ commaSep (map indentMember kvs) @ [newline, CHR ''}'']"

lemma parseMembers_skipWS: "parseMembers n (skipWS s) = parseMembers n s"
proof -
  have "skipWS (skipWS s) = skipWS s" by (induction s) auto
  then show ?thesis by (cases n) simp_all
qed

lemma isWS_newline [simp]: "isWS newline" "isWS (CHR '' '')"
  by (simp_all add: isWS_def newline_def)

lemma skipWS_indent: "skipWS (indentMember kv @ s) = quote (fst kv) @ '': '' @ render (snd kv) @ s"
  by (simp add: indentMember_def quote_def)

lemma parseMembers_indent:
  assumes "list_all (\<lambda>(k, v). wfJSON v \<and> need v \<le> 1) kvs" "kvs \<noteq> []" "length kvs < n"
  shows "parseMembers n (commaSep (map indentMember kvs) @ newline # CHR ''}'' # rest) =
    Some (map (\<lambda>(k, v). (toValidUTF8 k, normJSON v)) kvs, rest)"
  using assms
proof (induction kvs arbitrary: n)
  case (Cons kv kvs)
  obtain k v where kv: "kv = (k, v)" by (cases kv)
  from Cons.prems obtain m where n: "n = Suc m" "length kvs < m" by (cases n) auto
  then obtain l where m: "m = Suc l" by (cases m) auto
  have v: "ends u \<Longrightarrow> parseValue m (render v @ u) = Some (normJSON v, u)" for u
    using parseValue_render [of v u m] Cons.prems(1) n kv m by simp
  have sp: "parseValue m (CHR '' '' # s) = parseValue m s" for s using m by simp
  show ?case
  proof (cases kvs)
    case Nil
    then show ?thesis
      unfolding n(1)
      by (subst parseMembers_skipWS [symmetric])
        (simp add: skipWS_indent, simp add: kv quote_def scanString_quoteBody sp v)
  next
    case (Cons w ws)
    have "parseMembers m (commaSep (map indentMember kvs) @ newline # CHR ''}'' # rest) =
        Some (map (\<lambda>(k, v). (toValidUTF8 k, normJSON v)) kvs, rest)"
      using Cons.IH [of m] Cons.prems n Cons by simp
    then show ?thesis
      unfolding n(1)
      by (subst parseMembers_skipWS [symmetric])
        (simp add: Cons skipWS_indent, simp add: kv quote_def scanString_quoteBody sp v)
  qed
qed simp

lemma commaSep_length: "length vs \<le> Suc (length (commaSep vs))"
  by (induction vs rule: commaSep.induct) auto

lemma parseJSON_indent:
  assumes "list_all (\<lambda>(k, v). wfJSON v \<and> need v \<le> 1) kvs" "kvs \<noteq> []"
  shows "parseJSON (indentObject kvs) = Some (JObj (map (\<lambda>(k, v). (toValidUTF8 k, normJSON v)) kvs))"
proof -
  let ?s = "commaSep (map indentMember kvs) @ [newline, CHR ''}'']"
  have len: "length kvs \<le> Suc (length (commaSep (map indentMember kvs)))" using commaSep_length [of "map indentMember kvs"] by simp
  obtain kv kvs' where kvs: "kvs = kv # kvs'" using assms(2) by (cases kvs) auto
  obtain t where t: "skipWS ?s = dquote # t"
    using kvs by (cases kvs') (auto simp: skipWS_indent [of kv, simplified] quote_def)
  have "parseMembers m (dquote # t) = Some (map (\<lambda>(k, v). (toValidUTF8 k, normJSON v)) kvs, [])" if "length kvs < m" for m
    using parseMembers_indent [OF assms that, of "[]"] parseMembers_skipWS [of m ?s] t by simp
  from this [of "2 * length (indentObject kvs) + 1"] show ?thesis
    using t len by (simp add: parseJSON_def indentObject_def)
qed

section \<open>The fuel never runs out\<close>

lemma skipWS_length: "length (skipWS s) \<le> length s"
  by (simp add: skipWS_def length_dropWhile_le)

lemma skipWS_ConsD: "skipWS s = c # r \<Longrightarrow> length r < length s"
  using skipWS_length [of s] by simp

lemma prepend_SomeD: "prepend p r = Some (v, t) \<Longrightarrow> \<exists>w. r = Some (w, t)"
  by (auto simp: prepend_def)

lemma scanString_length: "scanString s = Some (v, t) \<Longrightarrow> length t < length s"
proof (induction s arbitrary: v t rule: measure_induct_rule [of length])
  case (less s)
  have sub: "length t < length s"
    if "prepend p (scanString u) = Some (v, t)" "length u < length s" for p u
    using prepend_SomeD [OF that(1)] less.IH [OF that(2)] that(2) by fastforce
  show ?case
  proof (cases s)
    case (Cons c r)
    have sub': "length t \<le> length r"
      if "prepend p (scanString u) = Some (v, t)" "length u \<le> length r" for p u
      using sub [OF that(1)] that(2) by (simp add: Cons less_Suc_eq_le)
    from less.prems show ?thesis
      by (auto simp: Cons scanString.simps(2) less_Suc_eq_le simp del: runeSize.simps
          split: if_splits list.splits option.splits dest!: sub')
  qed (use less.prems in simp)
qed

lemma scanDigits1_length: "scanDigits1 s = Some (v, t) \<Longrightarrow> length t \<le> length s"
  by (auto simp: scanDigits1_def length_dropWhile_le split: if_splits)

lemma scanInteger_length: "scanInteger s = Some (v, t) \<Longrightarrow> length t < length s"
  by (auto simp: scanInteger_def le_imp_less_Suc length_dropWhile_le split: if_splits list.splits)

lemma scanFraction_length: "scanFraction s = Some (v, t) \<Longrightarrow> length t \<le> length s"
  by (fastforce simp: scanFraction_def split: if_splits list.splits
      dest!: prepend_SomeD dest: scanDigits1_length)

lemma scanExponent_length: "scanExponent s = Some (v, t) \<Longrightarrow> length t \<le> length s"
  by (fastforce simp: scanExponent_def split: if_splits list.splits
      dest!: prepend_SomeD dest: scanDigits1_length)

lemma scanNumber_length: "scanNumber s = Some (v, t) \<Longrightarrow> length t < length s"
  by (fastforce simp: scanNumber_def andThen_def split: if_splits list.splits option.splits
      dest!: prepend_SomeD dest: scanInteger_length scanFraction_length scanExponent_length)

lemma scanAtom_length: "scanAtom s = Some (v, t) \<Longrightarrow> length t < length s"
  by (auto simp: scanAtom_def prefix_def split: if_splits dest: scanNumber_length)


lemma parse_length:
  "parseValue n s = Some (v, t) \<Longrightarrow> length t < length s"
  "parseElems n s = Some (vs, t) \<Longrightarrow> length t < length s"
  "parseMembers n s = Some (ms, t) \<Longrightarrow> length t < length s"
proof (induction n arbitrary: s v vs ms t)
  case (Suc n)
  { case 1
    obtain c r where cr: "skipWS s = c # r" using 1 by (auto split: list.splits)
    then have "length r < length s" by (rule skipWS_ConsD)
    with 1 cr Suc show ?case
      by (fastforce split: if_splits list.splits dest: scanString_length skipWS_ConsD
          dest!: scanAtom_length)
  next
    case 2
    obtain v u where u: "parseValue n s = Some (v, u)" using 2 by (auto split: option.splits)
    then have "length u < length s" by (rule Suc.IH)
    with 2 u show ?case
      by (fastforce split: if_splits list.splits dest: skipWS_ConsD Suc.IH(2) dest!: prepend_SomeD)
  next
    case 3
    obtain q r where qr: "skipWS s = q # r" "q = dquote"
      using 3 by (auto split: list.splits if_splits)
    obtain k w where k: "scanString r = Some (k, w)"
      using 3 qr by (auto split: option.splits)
    obtain c u where c: "skipWS w = c # u" "c = CHR '':''"
      using 3 qr k by (auto split: list.splits if_splits)
    obtain v x where v: "parseValue n u = Some (v, x)"
      using 3 qr k c by (auto split: option.splits)
    have "length x < length s"
      using skipWS_ConsD [OF qr(1)] scanString_length [OF k] skipWS_ConsD [OF c(1)]
        Suc.IH(1) [OF v] by simp
    with 3 qr k c v show ?case
      by (fastforce split: if_splits list.splits dest: skipWS_ConsD Suc.IH(3) dest!: prepend_SomeD) }
qed simp_all

lemma parse_fuel_step:
  "2 * length s + 1 \<le> n \<Longrightarrow> parseValue (Suc n) s = parseValue n s"
  "2 * length s + 2 \<le> n \<Longrightarrow> parseElems (Suc n) s = parseElems n s"
  "2 * length s + 2 \<le> n \<Longrightarrow> parseMembers (Suc n) s = parseMembers n s"
proof (induction n arbitrary: s)
  case (Suc n)
  { case 1
    show ?case
    proof (cases "skipWS s")
      case (Cons c r)
      have "parseElems (Suc n) (skipWS r) = parseElems n (skipWS r)"
        "parseMembers (Suc n) (skipWS r) = parseMembers n (skipWS r)"
        by (rule Suc.IH(2) Suc.IH(3), use skipWS_ConsD [OF Cons] skipWS_length [of r] 1 in simp)+
      then show ?thesis
        by (cases "skipWS r") (simp_all only: parseValue.simps Cons list.case)
    qed (simp only: parseValue.simps list.case)
  next
    case 2
    have "parseValue (Suc n) s = parseValue n s" using 2 Suc.IH(1) by simp
    moreover have "parseElems (Suc n) u = parseElems n u"
      if "parseValue n s = Some (v, t)" "skipWS t = c # u" for v t c u
      using parse_length(1) [OF that(1)] skipWS_ConsD [OF that(2)] 2 by (intro Suc.IH(2)) simp
    ultimately show ?case
      by (subst (1 2) parseElems.simps(2))
        (simp split: list.split option.split del: parseElems.simps parseValue.simps)
  next
    case 3
    have u: "length u < length s" if "skipWS s = q # r" "scanString r = Some (k, t)" "skipWS t = c # u"
      for q r k t c u
      using skipWS_ConsD [OF that(1)] scanString_length [OF that(2)] skipWS_ConsD [OF that(3)] by simp
    have pv: "parseValue (Suc n) u = parseValue n u"
      if "skipWS s = q # r" "scanString r = Some (k, t)" "skipWS t = c # u" for q r k t c u
      using u [OF that] 3 by (intro Suc.IH(1)) simp
    have pm: "parseMembers (Suc n) x = parseMembers n x"
      if "skipWS s = q # r" "scanString r = Some (k, t)" "skipWS t = c # u"
        "parseValue n u = Some (v, w)" "skipWS w = d # x" for q r k t c u v w d x
      using u [OF that(1-3)] parse_length(1) [OF that(4)] skipWS_ConsD [OF that(5)] 3
      by (intro Suc.IH(3)) simp
    show ?case
      by (subst (1 2) parseMembers.simps(2))
        (simp del: parseValue.simps parseMembers.simps add: pv pm
          split: list.split option.split) }
qed simp_all

lemma parse_fuel_enough:
  assumes "2 * length s + 1 \<le> n"
  shows "parseValue n s = parseValue (2 * length s + 1) s"
  using assms
proof (induction n rule: dec_induct)
  case (step n)
  then show ?case using parse_fuel_step(1) [of s n] by simp
qed simp


section \<open>Rendered text is valid UTF-8\<close>

lemma runes_append: "validUTF8 a \<Longrightarrow> runes (a @ b) = runes a @ runes b"
proof (induction a rule: runes.induct)
  case (2 x s)
  from 2(3) obtain n where n: "runeSize (x # s) = Some n"
    by (cases "runeSize (x # s)") (auto simp: validUTF8_def)
  have v: "validUTF8 (drop (n - 1) s)" using 2(3) n by (auto simp: validUTF8_def)
  have le: "0 < n" "n \<le> Suc (length s)" using runeSize_bounds [OF n] by auto
  have "runeSize (take n (x # s) @ drop n (x # s) @ b) = Some n" by (rule runeSize_extend [OF n])
  then have "runeSize (x # s @ b) = Some n"
    by (metis append_Cons append_assoc append_take_drop_id)
  then show ?case using n 2(2) [OF n v] le by (simp add: Suc_diff_le take_Cons')
qed simp

lemma validUTF8_append: "validUTF8 a \<Longrightarrow> validUTF8 b \<Longrightarrow> validUTF8 (a @ b)"
  using runes_append [of a b] by (auto simp: validUTF8_def)

lemma validUTF8_concat: "\<forall>x\<in>set xs. validUTF8 x \<Longrightarrow> validUTF8 (concat xs)"
  by (induction xs) (auto simp: validUTF8_append, simp add: validUTF8_def)

lemma runes_valid: "(True, r) \<in> set (runes s) \<Longrightarrow> runeSize r = Some (length r)"
proof (induction s rule: runes.induct)
  case (2 a s)
  show ?case
  proof (cases "runeSize (a # s)")
    case None
    then show ?thesis using 2 by simp
  next
    case (Some n)
    have "runeSize (take n (a # s) @ []) = Some n" by (rule runeSize_extend [OF Some])
    moreover have "length (take n (a # s)) = n" using runeSize_bounds [OF Some] by simp
    ultimately show ?thesis using 2 Some by auto
  qed
qed simp

lemma rune_validUTF8: "runeSize r = Some (length r) \<Longrightarrow> validUTF8 r"
  using runeSize_bounds [of r "length r"] by (cases r) (auto simp: validUTF8_def)

lemma hexLower_ascii: "n < 16 \<Longrightarrow> byteval (hexLower n) < 0x80"
proof -
  assume "n < 16"
  then have "hexLower n \<in> set ''0123456789abcdef''"
    unfolding hexLower_def by (intro nth_mem) simp
  then show ?thesis by auto
qed

lemma escapeU_ascii: "r < 65536 \<Longrightarrow> \<forall>c\<in>set (escapeU r). byteval c < 0x80"
  by (auto simp: escapeU_def intro!: hexLower_ascii)

lemma escapeRune_valid:
  assumes "(v, r) \<in> set (runes s)"
  shows "validUTF8 (escapeRune (v, r))"
proof (cases "\<not> v \<or> r = lineSep \<or> r = paraSep")
  case True
  have "validUTF8 (escapeU 0xFFFD)" "validUTF8 (escapeU 0x2028)" "validUTF8 (escapeU 0x2029)"
    by (intro validUTF8_ascii escapeU_ascii, simp)+
  then show ?thesis using True by (auto simp: escapeRune_def)
next
  case False
  then have r: "runeSize r = Some (length r)" using assms runes_valid by auto
  show ?thesis
  proof (cases "\<exists>c. r = [c]")
    case True
    then obtain c where c: "r = [c]" by blast
    then have "byteval c < 0x80" using r by (auto simp: Let_def split: if_splits)
    then have "\<forall>d\<in>set (escapeByte c). byteval d < 0x80"
      using escapeU_ascii [of "byteval c"] by (auto simp: escapeByte_def)
    then show ?thesis using c False by (auto simp: escapeRune_def intro!: validUTF8_ascii)
  next
    case nc: False
    then have "escapeRune (v, r) = r" using False by (auto simp: escapeRune_def split: list.split)
    then show ?thesis using rune_validUTF8 [OF r] by simp
  qed
qed

lemma quote_valid: "validUTF8 (quote s)"
proof -
  have "validUTF8 (quoteBody s)" unfolding quoteBody_def
    by (rule validUTF8_concat) (auto intro: escapeRune_valid)
  moreover have "validUTF8 [dquote]" by (rule validUTF8_ascii) simp
  ultimately show ?thesis
    unfolding quote_def using validUTF8_append [of "[dquote]"] validUTF8_append by fastforce
qed

lemma commaSep_valid: "\<forall>x\<in>set xs. validUTF8 x \<Longrightarrow> validUTF8 (commaSep xs)"
proof (induction xs rule: commaSep.induct)
  case (3 x y zs)
  have "validUTF8 '',''" by (rule validUTF8_ascii) simp
  then show ?case using 3 validUTF8_append [of x] validUTF8_append [of "'',''"] by simp
qed (auto simp: validUTF8_def)

lemma showInt_ascii: "\<forall>c\<in>set (showInt i). byteval c < 0x80"
proof -
  have "isDigit c \<Longrightarrow> byteval c < 0x80" for c by (simp add: isDigit_def)
  then show ?thesis using showNat_digits by (auto simp: showInt_def list_all_iff)
qed

lemma render_valid: "wfJSON j \<Longrightarrow> validUTF8 (render j)"
proof (induction j)
  case (JNum s)
  then show ?case using showInt_ascii validUTF8_ascii by (metis render.simps(3) wfJSON.simps(1))
next
  case (JArr vs)
  have "validUTF8 (commaSep (map render vs))"
    using JArr by (intro commaSep_valid) (auto simp: list_all_iff)
  moreover have "validUTF8 ''[''" "validUTF8 '']''" by (rule validUTF8_ascii, simp)+
  ultimately show ?case using validUTF8_append [of "''[''"] validUTF8_append by fastforce
next
  case (JObj kvs)
  have c: "validUTF8 '':''" by (rule validUTF8_ascii) simp
  have "validUTF8 (quote k @ CHR '':'' # render v)" if "(k, v) \<in> set kvs" for k v
  proof -
    have "validUTF8 (render v)" using JObj that by (fastforce simp: list_all_iff)
    then show ?thesis
      using validUTF8_append [OF quote_valid validUTF8_append [OF c]] by fastforce
  qed
  then have "validUTF8 (commaSep (map (\<lambda>(k, v). quote k @ CHR '':'' # render v) kvs))"
    by (intro commaSep_valid) auto
  moreover have "validUTF8 ''{''" "validUTF8 ''}''" by (rule validUTF8_ascii, simp)+
  ultimately show ?case using validUTF8_append [of "''{''"] validUTF8_append by fastforce
qed (auto intro!: validUTF8_ascii quote_valid)

end
