(* ===== verification/Constants.thy ===== *)
theory Constants
  imports Prelude
begin

text \<open>
  The constants of \<open>pkg/constants/constants.go\<close> and \<open>pkg/protocol/file_payloads.go\<close> the modelled
  code reads: content types, STOMP commands and destinations, fragment size, reconnect and lock
  defaults.
\<close>

definition TypeText :: string where [const_defs]: "TypeText = ''text''"
definition TypeImage :: string where [const_defs]: "TypeImage = ''image''"
definition TypeFileStub :: string where [const_defs]: "TypeFileStub = ''file_stub''"
definition TypeFileEager :: string where [const_defs]: "TypeFileEager = ''file_eager''"
definition TypeFileRequest :: string where [const_defs]: "TypeFileRequest = ''file_request''"
definition TypeFileChunk :: string where [const_defs]: "TypeFileChunk = ''file_chunk''"
definition TypeFileComplete :: string where [const_defs]: "TypeFileComplete = ''file_complete''"
definition TypeFileError :: string where [const_defs]: "TypeFileError = ''file_error''"
definition TypeFileRelease :: string where [const_defs]: "TypeFileRelease = ''file_release''"

definition FileProtocolVersion :: int where [const_defs]: "FileProtocolVersion = 1"
definition FileKindSingleFile :: string where [const_defs]: "FileKindSingleFile = ''single_file''"
definition FileKindMultiFile :: string where [const_defs]: "FileKindMultiFile = ''multi_file''"
definition FileKindFolder :: string where [const_defs]: "FileKindFolder = ''folder''"
definition FileKindImage :: string where [const_defs]: "FileKindImage = ''image''"

definition StompConnect :: string where [const_defs]: "StompConnect = ''CONNECT''"
definition StompConnected :: string where [const_defs]: "StompConnected = ''CONNECTED''"
definition StompSubscribe :: string where [const_defs]: "StompSubscribe = ''SUBSCRIBE''"
definition StompSend :: string where [const_defs]: "StompSend = ''SEND''"
definition StompMessage :: string where [const_defs]: "StompMessage = ''MESSAGE''"
definition StompError :: string where [const_defs]: "StompError = ''ERROR''"
definition StompDisconnect :: string where [const_defs]: "StompDisconnect = ''DISCONNECT''"
definition SubscriptionDestination :: string where
  [const_defs]: "SubscriptionDestination = ''/user/queue/cliptext''"
definition SendDestination :: string where [const_defs]: "SendDestination = ''/app/cliptext''"

definition DefaultReconnectDelay :: int where [const_defs]: "DefaultReconnectDelay = 5"
definition MaxReconnectDelay :: int where [const_defs]: "MaxReconnectDelay = 60"
definition DefaultFileMemoryThresholdMiB :: int where [const_defs]: "DefaultFileMemoryThresholdMiB = 1024"
definition MaxFileMemoryThresholdMiB :: int where [const_defs]: "MaxFileMemoryThresholdMiB = 5120"
definition FragmentSize :: nat where [const_defs]: "FragmentSize = 16384"
definition DefaultPort :: int where [const_defs]: "DefaultPort = 8080"
definition DefaultWebPort :: int where [const_defs]: "DefaultWebPort = 16666"
definition DefaultMaxMessageSizeMiB :: int where [const_defs]: "DefaultMaxMessageSizeMiB = 20"
definition DefaultSessionTimeoutMin :: int where [const_defs]: "DefaultSessionTimeoutMin = 525960"
definition DefaultMaxUniqueIPAttempts :: int where [const_defs]: "DefaultMaxUniqueIPAttempts = 15"
definition DefaultMaxAttemptsPerIP :: int where [const_defs]: "DefaultMaxAttemptsPerIP = 30"
definition DefaultLockTimeoutSeconds :: int where [const_defs]: "DefaultLockTimeoutSeconds = 60"
definition DefaultLockScalingFactor :: int where [const_defs]: "DefaultLockScalingFactor = 2"

lemmas payload_type_defs =
  TypeText_def TypeImage_def TypeFileStub_def TypeFileEager_def TypeFileRequest_def
  TypeFileChunk_def TypeFileComplete_def TypeFileError_def TypeFileRelease_def

lemma payload_types_distinct [simp]:
  "TypeText \<noteq> TypeImage" "TypeText \<noteq> TypeFileStub" "TypeImage \<noteq> TypeFileStub"
  "TypeImage \<noteq> TypeText" "TypeFileStub \<noteq> TypeText" "TypeFileStub \<noteq> TypeImage"
  "TypeFileEager \<noteq> TypeText" "TypeFileEager \<noteq> TypeImage" "TypeFileEager \<noteq> TypeFileStub"
  "TypeText \<noteq> TypeFileEager" "TypeImage \<noteq> TypeFileEager" "TypeFileStub \<noteq> TypeFileEager"
  by (simp_all add: payload_type_defs)

lemma file_message_types_distinct [simp]:
  "distinct [TypeText, TypeImage, TypeFileStub, TypeFileEager, TypeFileRequest, TypeFileChunk,
     TypeFileComplete, TypeFileError, TypeFileRelease]"
  by (simp add: payload_type_defs)

end
