(* ===== verification/Messages.thy ===== *)
theory Messages
  imports Json Constants Interfaces
begin

text \<open>
  The wire messages of \<open>pkg/protocol\<close>: \<open>ClipboardData\<close> (\<open>message.go\<close>), the file-transfer payloads it
  carries as JSON text (\<open>file_payloads.go\<close>), the names logged for them (\<open>clipboard_summary.go\<close>),
  and the encodings of all of them. A struct is written field by field in declaration order, with
  \<open>omitempty\<close>; it is read by matching member names as \<open>encoding/json\<close> does, ignoring case. An empty
  and a nil slice are the same list, written \<open>[]\<close>.
\<close>

section \<open>Data\<close>

record FragmentMetadata =
  frag_ID :: string
  frag_Index :: int
  frag_TotalFragments :: int
  frag_IsFragmented :: bool

record ClipboardData =
  cd_Payload :: string
  cd_Type :: string
  cd_FileName :: string
  cd_SourceSessionID :: string
  cd_Metadata :: "FragmentMetadata option"

record FileStubManifest =
  man_ProtocolVersion :: int
  man_EntryID :: string
  man_TransferID :: string
  man_SourceSessionID :: string
  man_SourceDevice :: string
  man_Kind :: string
  man_ArchiveFormat :: string
  man_DisplayName :: string
  man_EntryCount :: int
  man_TopLevelNames :: "string list"
  man_EstimatedTotalBytes :: int

record FileRequest =
  req_TransferID :: string
  req_EntryID :: string
  req_TargetSessionID :: string
  req_ResumeFromChunk :: int

record FileChunk =
  chk_TransferID :: string
  chk_TargetSessionID :: string
  chk_ArchiveMode :: string
  chk_ChunkIndex :: int
  chk_TotalChunks :: int
  chk_ChunkData :: string
  chk_ChunkSHA256 :: string

record FileComplete =
  cmp_TransferID :: string
  cmp_TargetSessionID :: string
  cmp_ArchiveMode :: string
  cmp_ArchiveSHA256 :: string
  cmp_ActualTotalBytes :: int

record FileError =
  ferr_TransferID :: string
  ferr_TargetSessionID :: string
  ferr_ErrorCode :: string
  ferr_ErrorMessage :: string
  ferr_Retryable :: bool

record FileRelease =
  rel_TransferID :: string
  rel_TargetSessionID :: string
  rel_ReleaseReason :: string

section \<open>Writing structs\<close>

definition omitEmpty :: "string \<Rightarrow> string \<Rightarrow> (string \<times> json) list" where
  "omitEmpty k s = (if s = '''' then [] else [(k, JStr s)])"

definition jint :: "int \<Rightarrow> json" where "jint i = JNum (showInt i)"

definition fragmentJSON :: "FragmentMetadata \<Rightarrow> json" where
  "fragmentJSON m = JObj [(''id'', JStr (frag_ID m)), (''index'', jint (frag_Index m)),
     (''totalFragments'', jint (frag_TotalFragments m)), (''isFragmented'', JBool (frag_IsFragmented m))]"

definition clipboardJSON :: "ClipboardData \<Rightarrow> json" where
  "clipboardJSON cd = JObj ([(''payload'', JStr (cd_Payload cd)), (''type'', JStr (cd_Type cd))] @
     omitEmpty ''filename'' (cd_FileName cd) @ omitEmpty ''source_session_id'' (cd_SourceSessionID cd) @
     (case cd_Metadata cd of None \<Rightarrow> [] | Some m \<Rightarrow> [(''metadata'', fragmentJSON m)]))"

definition manifestJSON :: "FileStubManifest \<Rightarrow> json" where
  "manifestJSON m = JObj ([(''protocol_version'', jint (man_ProtocolVersion m)),
     (''entry_id'', JStr (man_EntryID m)), (''transfer_id'', JStr (man_TransferID m)),
     (''source_session_id'', JStr (man_SourceSessionID m))] @
     omitEmpty ''source_device'' (man_SourceDevice m) @
     [(''kind'', JStr (man_Kind m)), (''archive_format'', JStr (man_ArchiveFormat m)),
      (''display_name'', JStr (man_DisplayName m)), (''entry_count'', jint (man_EntryCount m)),
      (''top_level_names'', JArr (map JStr (man_TopLevelNames m))),
      (''estimated_total_bytes'', jint (man_EstimatedTotalBytes m))])"

definition requestJSON :: "FileRequest \<Rightarrow> json" where
  "requestJSON r = JObj [(''transfer_id'', JStr (req_TransferID r)), (''entry_id'', JStr (req_EntryID r)),
     (''target_session_id'', JStr (req_TargetSessionID r)),
     (''resume_from_chunk'', jint (req_ResumeFromChunk r))]"

definition chunkJSON :: "FileChunk \<Rightarrow> json" where
  "chunkJSON c = JObj ([(''transfer_id'', JStr (chk_TransferID c)),
     (''target_session_id'', JStr (chk_TargetSessionID c))] @
     omitEmpty ''archive_mode'' (chk_ArchiveMode c) @
     [(''chunk_index'', jint (chk_ChunkIndex c)), (''total_chunks'', jint (chk_TotalChunks c)),
      (''chunk_data'', JStr (chk_ChunkData c)), (''chunk_sha256'', JStr (chk_ChunkSHA256 c))])"

definition completeJSON :: "FileComplete \<Rightarrow> json" where
  "completeJSON c = JObj ([(''transfer_id'', JStr (cmp_TransferID c)),
     (''target_session_id'', JStr (cmp_TargetSessionID c))] @
     omitEmpty ''archive_mode'' (cmp_ArchiveMode c) @
     [(''archive_sha256'', JStr (cmp_ArchiveSHA256 c)),
      (''actual_total_bytes'', jint (cmp_ActualTotalBytes c))])"

definition errorJSON :: "FileError \<Rightarrow> json" where
  "errorJSON e = JObj [(''transfer_id'', JStr (ferr_TransferID e)),
     (''target_session_id'', JStr (ferr_TargetSessionID e)), (''error_code'', JStr (ferr_ErrorCode e)),
     (''error_message'', JStr (ferr_ErrorMessage e)), (''retryable'', JBool (ferr_Retryable e))]"

definition releaseJSON :: "FileRelease \<Rightarrow> json" where
  "releaseJSON r = JObj [(''transfer_id'', JStr (rel_TransferID r)),
     (''target_session_id'', JStr (rel_TargetSessionID r)),
     (''release_reason'', JStr (rel_ReleaseReason r))]"

section \<open>Reading structs\<close>

text \<open>
  Member names match up to case folding; two non-ASCII runes, the long s and the Kelvin sign, fold to
  ASCII letters.
\<close>

definition upperChar :: "char \<Rightarrow> char" where
  "upperChar c = (if inRange 97 122 c then char_of (byteval c - 32) else c)"

definition foldRune :: "string \<Rightarrow> string" where
  "foldRune r =
     (if r = [CHR 0xC5, CHR 0xBF] then ''S''
      else if r = [CHR 0xE2, CHR 0x84, CHR 0xAA] then ''K'' else map upperChar r)"

definition foldName :: "string \<Rightarrow> string" where
  "foldName k = concat (map (\<lambda>(_, r). foldRune r) (runes k))"

definition jsonKey :: "string \<Rightarrow> string \<Rightarrow> bool" where
  "jsonKey name k \<longleftrightarrow> foldName k = foldName name"

definition setStr :: "(string \<Rightarrow> 'r \<Rightarrow> 'r) \<Rightarrow> json \<Rightarrow> 'r \<Rightarrow> 'r option" where
  "setStr f v r = (case v of JNull \<Rightarrow> Some r | JStr s \<Rightarrow> Some (f s r) | _ \<Rightarrow> None)"

definition setInt :: "(int \<Rightarrow> 'r \<Rightarrow> 'r) \<Rightarrow> json \<Rightarrow> 'r \<Rightarrow> 'r option" where
  "setInt f v r =
     (case v of JNull \<Rightarrow> Some r
      | JNum s \<Rightarrow> (case parseInt s of None \<Rightarrow> None | Some i \<Rightarrow> Some (f i r))
      | _ \<Rightarrow> None)"

definition setBool :: "(bool \<Rightarrow> 'r \<Rightarrow> 'r) \<Rightarrow> json \<Rightarrow> 'r \<Rightarrow> 'r option" where
  "setBool f v r = (case v of JNull \<Rightarrow> Some r | JBool b \<Rightarrow> Some (f b r) | _ \<Rightarrow> None)"

fun stringElems :: "json list \<Rightarrow> string list option" where
  "stringElems [] = Some []"
| "stringElems (v # vs) =
     (case (v, stringElems vs) of
        (JStr s, Some ss) \<Rightarrow> Some (s # ss)
      | (JNull, Some ss) \<Rightarrow> Some ('''' # ss)
      | _ \<Rightarrow> None)"

definition setStrings :: "(string list \<Rightarrow> 'r \<Rightarrow> 'r) \<Rightarrow> json \<Rightarrow> 'r \<Rightarrow> 'r option" where
  "setStrings f v r =
     (case v of JNull \<Rightarrow> Some (f [] r)
      | JArr vs \<Rightarrow> (case stringElems vs of None \<Rightarrow> None | Some ss \<Rightarrow> Some (f ss r))
      | _ \<Rightarrow> None)"

type_synonym 'r fields = "(string \<times> (json \<Rightarrow> 'r \<Rightarrow> 'r option)) list"

text \<open>The members are assigned in order, each to the field it names; others are ignored.\<close>

definition assignMember :: "'r fields \<Rightarrow> string \<times> json \<Rightarrow> 'r \<Rightarrow> 'r option" where
  "assignMember fs kv r =
     (case List.find (\<lambda>f. jsonKey (fst f) (fst kv)) fs of
        None \<Rightarrow> Some r | Some f \<Rightarrow> snd f (snd kv) r)"

fun assignMembers :: "'r fields \<Rightarrow> (string \<times> json) list \<Rightarrow> 'r \<Rightarrow> 'r option" where
  "assignMembers fs [] r = Some r"
| "assignMembers fs (kv # kvs) r =
     (case assignMember fs kv r of None \<Rightarrow> None | Some r' \<Rightarrow> assignMembers fs kvs r')"

definition structOf :: "'r fields \<Rightarrow> 'r \<Rightarrow> json \<Rightarrow> 'r option" where
  "structOf fs r v = (case v of JNull \<Rightarrow> Some r | JObj kvs \<Rightarrow> assignMembers fs kvs r | _ \<Rightarrow> None)"

definition fragmentFields :: "FragmentMetadata fields" where
  "fragmentFields = [(''id'', setStr (\<lambda>s r. r\<lparr>frag_ID := s\<rparr>)),
     (''index'', setInt (\<lambda>i r. r\<lparr>frag_Index := i\<rparr>)),
     (''totalFragments'', setInt (\<lambda>i r. r\<lparr>frag_TotalFragments := i\<rparr>)),
     (''isFragmented'', setBool (\<lambda>b r. r\<lparr>frag_IsFragmented := b\<rparr>))]"

definition zeroFragment :: FragmentMetadata where
  "zeroFragment = \<lparr>frag_ID = '''', frag_Index = 0, frag_TotalFragments = 0, frag_IsFragmented = False\<rparr>"

definition setMetadata :: "json \<Rightarrow> ClipboardData \<Rightarrow> ClipboardData option" where
  "setMetadata v r =
     (if v = JNull then Some (r\<lparr>cd_Metadata := None\<rparr>)
      else (case structOf fragmentFields
                   (case cd_Metadata r of None \<Rightarrow> zeroFragment | Some m \<Rightarrow> m) v of
              None \<Rightarrow> None | Some m \<Rightarrow> Some (r\<lparr>cd_Metadata := Some m\<rparr>)))"

definition clipboardFields :: "ClipboardData fields" where
  "clipboardFields = [(''payload'', setStr (\<lambda>s r. r\<lparr>cd_Payload := s\<rparr>)),
     (''type'', setStr (\<lambda>s r. r\<lparr>cd_Type := s\<rparr>)),
     (''filename'', setStr (\<lambda>s r. r\<lparr>cd_FileName := s\<rparr>)),
     (''source_session_id'', setStr (\<lambda>s r. r\<lparr>cd_SourceSessionID := s\<rparr>)),
     (''metadata'', setMetadata)]"

definition zeroClipboard :: ClipboardData where
  "zeroClipboard = \<lparr>cd_Payload = '''', cd_Type = '''', cd_FileName = '''', cd_SourceSessionID = '''',
     cd_Metadata = None\<rparr>"

definition manifestFields :: "FileStubManifest fields" where
  "manifestFields = [(''protocol_version'', setInt (\<lambda>i r. r\<lparr>man_ProtocolVersion := i\<rparr>)),
     (''entry_id'', setStr (\<lambda>s r. r\<lparr>man_EntryID := s\<rparr>)),
     (''transfer_id'', setStr (\<lambda>s r. r\<lparr>man_TransferID := s\<rparr>)),
     (''source_session_id'', setStr (\<lambda>s r. r\<lparr>man_SourceSessionID := s\<rparr>)),
     (''source_device'', setStr (\<lambda>s r. r\<lparr>man_SourceDevice := s\<rparr>)),
     (''kind'', setStr (\<lambda>s r. r\<lparr>man_Kind := s\<rparr>)),
     (''archive_format'', setStr (\<lambda>s r. r\<lparr>man_ArchiveFormat := s\<rparr>)),
     (''display_name'', setStr (\<lambda>s r. r\<lparr>man_DisplayName := s\<rparr>)),
     (''entry_count'', setInt (\<lambda>i r. r\<lparr>man_EntryCount := i\<rparr>)),
     (''top_level_names'', setStrings (\<lambda>ss r. r\<lparr>man_TopLevelNames := ss\<rparr>)),
     (''estimated_total_bytes'', setInt (\<lambda>i r. r\<lparr>man_EstimatedTotalBytes := i\<rparr>))]"

definition zeroManifest :: FileStubManifest where
  "zeroManifest = \<lparr>man_ProtocolVersion = 0, man_EntryID = '''', man_TransferID = '''',
     man_SourceSessionID = '''', man_SourceDevice = '''', man_Kind = '''', man_ArchiveFormat = '''',
     man_DisplayName = '''', man_EntryCount = 0, man_TopLevelNames = [], man_EstimatedTotalBytes = 0\<rparr>"

definition requestFields :: "FileRequest fields" where
  "requestFields = [(''transfer_id'', setStr (\<lambda>s r. r\<lparr>req_TransferID := s\<rparr>)),
     (''entry_id'', setStr (\<lambda>s r. r\<lparr>req_EntryID := s\<rparr>)),
     (''target_session_id'', setStr (\<lambda>s r. r\<lparr>req_TargetSessionID := s\<rparr>)),
     (''resume_from_chunk'', setInt (\<lambda>i r. r\<lparr>req_ResumeFromChunk := i\<rparr>))]"

definition zeroRequest :: FileRequest where
  "zeroRequest = \<lparr>req_TransferID = '''', req_EntryID = '''', req_TargetSessionID = '''',
     req_ResumeFromChunk = 0\<rparr>"

definition chunkFields :: "FileChunk fields" where
  "chunkFields = [(''transfer_id'', setStr (\<lambda>s r. r\<lparr>chk_TransferID := s\<rparr>)),
     (''target_session_id'', setStr (\<lambda>s r. r\<lparr>chk_TargetSessionID := s\<rparr>)),
     (''archive_mode'', setStr (\<lambda>s r. r\<lparr>chk_ArchiveMode := s\<rparr>)),
     (''chunk_index'', setInt (\<lambda>i r. r\<lparr>chk_ChunkIndex := i\<rparr>)),
     (''total_chunks'', setInt (\<lambda>i r. r\<lparr>chk_TotalChunks := i\<rparr>)),
     (''chunk_data'', setStr (\<lambda>s r. r\<lparr>chk_ChunkData := s\<rparr>)),
     (''chunk_sha256'', setStr (\<lambda>s r. r\<lparr>chk_ChunkSHA256 := s\<rparr>))]"

definition zeroChunk :: FileChunk where
  "zeroChunk = \<lparr>chk_TransferID = '''', chk_TargetSessionID = '''', chk_ArchiveMode = '''',
     chk_ChunkIndex = 0, chk_TotalChunks = 0, chk_ChunkData = '''', chk_ChunkSHA256 = ''''\<rparr>"

definition completeFields :: "FileComplete fields" where
  "completeFields = [(''transfer_id'', setStr (\<lambda>s r. r\<lparr>cmp_TransferID := s\<rparr>)),
     (''target_session_id'', setStr (\<lambda>s r. r\<lparr>cmp_TargetSessionID := s\<rparr>)),
     (''archive_mode'', setStr (\<lambda>s r. r\<lparr>cmp_ArchiveMode := s\<rparr>)),
     (''archive_sha256'', setStr (\<lambda>s r. r\<lparr>cmp_ArchiveSHA256 := s\<rparr>)),
     (''actual_total_bytes'', setInt (\<lambda>i r. r\<lparr>cmp_ActualTotalBytes := i\<rparr>))]"

definition zeroComplete :: FileComplete where
  "zeroComplete = \<lparr>cmp_TransferID = '''', cmp_TargetSessionID = '''', cmp_ArchiveMode = '''',
     cmp_ArchiveSHA256 = '''', cmp_ActualTotalBytes = 0\<rparr>"

definition errorFields :: "FileError fields" where
  "errorFields = [(''transfer_id'', setStr (\<lambda>s r. r\<lparr>ferr_TransferID := s\<rparr>)),
     (''target_session_id'', setStr (\<lambda>s r. r\<lparr>ferr_TargetSessionID := s\<rparr>)),
     (''error_code'', setStr (\<lambda>s r. r\<lparr>ferr_ErrorCode := s\<rparr>)),
     (''error_message'', setStr (\<lambda>s r. r\<lparr>ferr_ErrorMessage := s\<rparr>)),
     (''retryable'', setBool (\<lambda>b r. r\<lparr>ferr_Retryable := b\<rparr>))]"

definition zeroError :: FileError where
  "zeroError = \<lparr>ferr_TransferID = '''', ferr_TargetSessionID = '''', ferr_ErrorCode = '''',
     ferr_ErrorMessage = '''', ferr_Retryable = False\<rparr>"

definition releaseFields :: "FileRelease fields" where
  "releaseFields = [(''transfer_id'', setStr (\<lambda>s r. r\<lparr>rel_TransferID := s\<rparr>)),
     (''target_session_id'', setStr (\<lambda>s r. r\<lparr>rel_TargetSessionID := s\<rparr>)),
     (''release_reason'', setStr (\<lambda>s r. r\<lparr>rel_ReleaseReason := s\<rparr>))]"

definition zeroRelease :: FileRelease where
  "zeroRelease = \<lparr>rel_TransferID = '''', rel_TargetSessionID = '''', rel_ReleaseReason = ''''\<rparr>"

section \<open>Encode and decode\<close>

definition ClipboardData_Encode :: "ClipboardData \<Rightarrow> bytes" where
  "ClipboardData_Encode cd = render (clipboardJSON cd)"

definition EncodePayload :: "('r \<Rightarrow> json) \<Rightarrow> 'r \<Rightarrow> string" where
  "EncodePayload toJSON x = render (toJSON x)"

definition DecodePayload :: "'r fields \<Rightarrow> 'r \<Rightarrow> string \<Rightarrow> 'r option" where
  "DecodePayload fs zero s =
     (case parseJSON s of None \<Rightarrow> None | Some v \<Rightarrow> structOf fs zero v)"

definition DecodeClipboardData :: "bytes \<Rightarrow> ClipboardData option" where
  "DecodeClipboardData data = DecodePayload clipboardFields zeroClipboard data"

definition NewClipboardDataWithPayload :: "('r \<Rightarrow> json) \<Rightarrow> string \<Rightarrow> 'r \<Rightarrow> ClipboardData" where
  "NewClipboardDataWithPayload toJSON kind payload =
     zeroClipboard\<lparr>cd_Type := kind, cd_Payload := EncodePayload toJSON payload\<rparr>"

abbreviation "decodeManifest \<equiv> DecodePayload manifestFields zeroManifest"
abbreviation "decodeRequest \<equiv> DecodePayload requestFields zeroRequest"
abbreviation "decodeChunk \<equiv> DecodePayload chunkFields zeroChunk"
abbreviation "decodeComplete \<equiv> DecodePayload completeFields zeroComplete"
abbreviation "decodeError \<equiv> DecodePayload errorFields zeroError"
abbreviation "decodeRelease \<equiv> DecodePayload releaseFields zeroRelease"

section \<open>What is decoded is what was encoded\<close>

definition messageKeys :: "string list" where
  "messageKeys = [''payload'', ''type'', ''filename'', ''source_session_id'', ''metadata'', ''id'', ''index'',
     ''totalFragments'', ''isFragmented'', ''protocol_version'', ''entry_id'', ''transfer_id'',
     ''source_device'', ''kind'', ''archive_format'', ''display_name'', ''entry_count'',
     ''top_level_names'', ''estimated_total_bytes'', ''target_session_id'', ''resume_from_chunk'',
     ''archive_mode'', ''chunk_index'', ''total_chunks'', ''chunk_data'', ''chunk_sha256'',
     ''archive_sha256'', ''actual_total_bytes'', ''error_code'', ''error_message'', ''retryable'',
     ''release_reason'', ''from'', ''to'', ''session_id'', ''data'']"

definition asciiStr :: "string \<Rightarrow> bool" where
  "asciiStr s \<longleftrightarrow> list_all (\<lambda>c. byteval c < 0x80) s"

lemma runes_ascii: "asciiStr s \<Longrightarrow> runes s = map (\<lambda>c. (True, [c])) s"
  by (induction s) (auto simp: asciiStr_def runeSize_ascii simp del: runeSize.simps)

lemma foldName_ascii: "asciiStr s \<Longrightarrow> foldName s = map upperChar s"
proof -
  have "concat (map (\<lambda>c. foldRune [c]) s) = map upperChar s"
    by (induction s) (auto simp: foldRune_def)
  then show "asciiStr s \<Longrightarrow> foldName s = map upperChar s"
    by (simp add: foldName_def runes_ascii comp_def)
qed

lemma messageKeys_ascii: "list_all asciiStr messageKeys"
  by (simp add: messageKeys_def asciiStr_def)

lemma messageKeys_utf8: "\<forall>k\<in>set messageKeys. toValidUTF8 k = k"
  using messageKeys_ascii
  by (auto simp: list_all_iff asciiStr_def intro!: toValidUTF8_id validUTF8_ascii)

lemma upperChar_values:
  "upperChar (CHR ''a'') = CHR ''A''" "upperChar (CHR ''b'') = CHR ''B''"
  "upperChar (CHR ''c'') = CHR ''C''" "upperChar (CHR ''d'') = CHR ''D''"
  "upperChar (CHR ''e'') = CHR ''E''" "upperChar (CHR ''f'') = CHR ''F''"
  "upperChar (CHR ''g'') = CHR ''G''" "upperChar (CHR ''h'') = CHR ''H''"
  "upperChar (CHR ''i'') = CHR ''I''" "upperChar (CHR ''j'') = CHR ''J''"
  "upperChar (CHR ''k'') = CHR ''K''" "upperChar (CHR ''l'') = CHR ''L''"
  "upperChar (CHR ''m'') = CHR ''M''" "upperChar (CHR ''n'') = CHR ''N''"
  "upperChar (CHR ''o'') = CHR ''O''" "upperChar (CHR ''p'') = CHR ''P''"
  "upperChar (CHR ''q'') = CHR ''Q''" "upperChar (CHR ''r'') = CHR ''R''"
  "upperChar (CHR ''s'') = CHR ''S''" "upperChar (CHR ''t'') = CHR ''T''"
  "upperChar (CHR ''u'') = CHR ''U''" "upperChar (CHR ''v'') = CHR ''V''"
  "upperChar (CHR ''w'') = CHR ''W''" "upperChar (CHR ''x'') = CHR ''X''"
  "upperChar (CHR ''y'') = CHR ''Y''" "upperChar (CHR ''z'') = CHR ''Z''"
  "upperChar (CHR ''F'') = CHR ''F''" "upperChar (CHR ''T'') = CHR ''T''"
  "upperChar (CHR ''_'') = CHR ''_''" "upperChar (CHR ''2'') = CHR ''2''"
  "upperChar (CHR ''5'') = CHR ''5''" "upperChar (CHR ''6'') = CHR ''6''"
  by (simp_all add: upperChar_def inRange_def char_of_def bit_iff_odd)

lemma messageKeys_distinct: "distinct (map foldName messageKeys)"
proof -
  have "map foldName messageKeys = map (map upperChar) messageKeys"
    using messageKeys_ascii by (intro map_cong) (auto simp: list_all_iff foldName_ascii)
  moreover have "distinct (map (map upperChar) messageKeys)"
    by (simp add: messageKeys_def upperChar_values)
  ultimately show ?thesis by (simp only:)
qed

lemma messageKeys_eq: "k \<in> set messageKeys \<Longrightarrow> n \<in> set messageKeys \<Longrightarrow> jsonKey n k \<longleftrightarrow> k = n"
  using messageKeys_distinct unfolding distinct_map jsonKey_def by (meson inj_onD)

lemmas keys_simps [simp] = messageKeys_utf8 [unfolded messageKeys_def, simplified]

text \<open>On the names of this program, member lookup is plain lookup by name.\<close>

fun assignNamed :: "'r fields \<Rightarrow> (string \<times> json) list \<Rightarrow> 'r \<Rightarrow> 'r option" where
  "assignNamed fs [] r = Some r"
| "assignNamed fs (kv # kvs) r =
     (case map_of fs (fst kv) of
        None \<Rightarrow> assignNamed fs kvs r
      | Some f \<Rightarrow> (case f (snd kv) r of None \<Rightarrow> None | Some r' \<Rightarrow> assignNamed fs kvs r'))"

definition isKey :: "string \<Rightarrow> bool" where "isKey k \<longleftrightarrow> k \<in> set messageKeys"

lemma isKey_all: "\<forall>k\<in>set messageKeys. isKey k"
  by (simp add: isKey_def)

lemmas isKey_values [simp] = isKey_all [unfolded messageKeys_def, simplified]

lemma find_jsonKey:
  "isKey k \<Longrightarrow> list_all (\<lambda>f. isKey (fst f)) fs \<Longrightarrow>
     List.find (\<lambda>f. jsonKey (fst f) k) fs = map_option (\<lambda>f. (k, f)) (map_of fs k)"
  by (induction fs) (auto simp: messageKeys_eq isKey_def)

lemma structOf_named:
  assumes "list_all (\<lambda>f. isKey (fst f)) fs" "list_all (\<lambda>kv. isKey (fst kv)) kvs"
  shows "structOf fs r (JObj kvs) = assignNamed fs kvs r"
proof -
  have "assignMembers fs kvs r = assignNamed fs kvs r"
    using assms(2)
    by (induction kvs arbitrary: r) (auto simp: assignMember_def find_jsonKey assms(1) split: option.splits)
  then show ?thesis by (simp add: structOf_def)
qed

lemma fields_keys [simp]:
  "list_all (\<lambda>f. isKey (fst f)) fragmentFields" "list_all (\<lambda>f. isKey (fst f)) clipboardFields"
  "list_all (\<lambda>f. isKey (fst f)) manifestFields" "list_all (\<lambda>f. isKey (fst f)) requestFields"
  "list_all (\<lambda>f. isKey (fst f)) chunkFields" "list_all (\<lambda>f. isKey (fst f)) completeFields"
  "list_all (\<lambda>f. isKey (fst f)) errorFields" "list_all (\<lambda>f. isKey (fst f)) releaseFields"
  by (simp_all add: fragmentFields_def clipboardFields_def manifestFields_def requestFields_def
      chunkFields_def completeFields_def errorFields_def releaseFields_def)

lemma normJSON_jint [simp]: "normJSON (jint i) = jint i"
  by (simp add: jint_def)

lemma wfJSON_jint [simp]: "int64_range i \<Longrightarrow> wfJSON (jint i)"
  by (simp add: jint_def)

lemma setters [simp]:
  "setStr f (JStr s) r = Some (f s r)" "int64_range i \<Longrightarrow> setInt g (jint i) r = Some (g i r)"
  "setBool h (JBool b) r = Some (h b r)"
  by (simp_all add: setStr_def setInt_def setBool_def jint_def)

lemma stringElems_JStr [simp]: "stringElems (map JStr ss) = Some ss"
  by (induction ss) auto

lemma setStrings_JArr [simp]: "setStrings f (JArr (map JStr ss)) r = Some (f ss r)"
  by (simp add: setStrings_def)

text \<open>What decoding makes of the strings of a message.\<close>

definition sanitizeClipboard :: "ClipboardData \<Rightarrow> ClipboardData" where
  "sanitizeClipboard cd = \<lparr>cd_Payload = toValidUTF8 (cd_Payload cd), cd_Type = toValidUTF8 (cd_Type cd),
     cd_FileName = toValidUTF8 (cd_FileName cd),
     cd_SourceSessionID = toValidUTF8 (cd_SourceSessionID cd),
     cd_Metadata = map_option (\<lambda>m. m\<lparr>frag_ID := toValidUTF8 (frag_ID m)\<rparr>) (cd_Metadata cd)\<rparr>"

definition fragment_ints_ok :: "FragmentMetadata \<Rightarrow> bool" where
  "fragment_ints_ok m \<longleftrightarrow> int64_range (frag_Index m) \<and> int64_range (frag_TotalFragments m)"

lemma DecodePayload_render:
  "wfJSON v \<Longrightarrow> DecodePayload fs zero (render v) = structOf fs zero (normJSON v)"
  by (simp add: DecodePayload_def parseJSON_render)

lemma structOf_fragment:
  "fragment_ints_ok m \<Longrightarrow> structOf fragmentFields zeroFragment (normJSON (fragmentJSON m)) =
     Some (m\<lparr>frag_ID := toValidUTF8 (frag_ID m)\<rparr>)"
  by (simp add: fragmentJSON_def structOf_named fragment_ints_ok_def)
    (simp add: fragmentFields_def zeroFragment_def)


definition clipboard_ints_ok :: "ClipboardData \<Rightarrow> bool" where
  "clipboard_ints_ok cd \<longleftrightarrow> (case cd_Metadata cd of None \<Rightarrow> True | Some m \<Rightarrow> fragment_ints_ok m)"

lemma wfJSON_omitEmpty [simp]: "list_all (\<lambda>(k, v). wfJSON v) (omitEmpty k s)"
  by (simp add: omitEmpty_def)

lemma wfJSON_fragment: "fragment_ints_ok m \<Longrightarrow> wfJSON (fragmentJSON m)"
  by (simp add: fragmentJSON_def fragment_ints_ok_def)

lemma wfJSON_clipboard: "clipboard_ints_ok cd \<Longrightarrow> wfJSON (clipboardJSON cd)"
  by (auto simp: clipboardJSON_def clipboard_ints_ok_def wfJSON_fragment split: option.splits)

lemma setMetadata_fragment:
  "fragment_ints_ok m \<Longrightarrow> cd_Metadata r = None \<Longrightarrow>
     setMetadata (normJSON (fragmentJSON m)) r =
       Some (r\<lparr>cd_Metadata := Some (m\<lparr>frag_ID := toValidUTF8 (frag_ID m)\<rparr>)\<rparr>)"
proof -
  have "normJSON (fragmentJSON m) \<noteq> JNull" by (simp add: fragmentJSON_def)
  then show "fragment_ints_ok m \<Longrightarrow> cd_Metadata r = None \<Longrightarrow> ?thesis"
    by (simp add: setMetadata_def structOf_fragment)
qed

lemma decode_encode_clipboard:
  assumes "clipboard_ints_ok cd"
  shows "DecodeClipboardData (ClipboardData_Encode cd) = Some (sanitizeClipboard cd)"
proof -
  have "structOf clipboardFields zeroClipboard (normJSON (clipboardJSON cd)) = Some (sanitizeClipboard cd)"
    using assms
    by (cases "cd_Metadata cd")
      (simp_all add: clipboardJSON_def structOf_named omitEmpty_def,
       simp_all add: clipboardFields_def zeroClipboard_def setMetadata_fragment sanitizeClipboard_def
        clipboard_ints_ok_def)
  then show ?thesis
    using assms
    by (simp add: DecodeClipboardData_def ClipboardData_Encode_def DecodePayload_render wfJSON_clipboard)
qed

text \<open>\<open>DecodeClipboardData\<close> inverts \<open>ClipboardData.Encode\<close> up to the replacement of invalid UTF-8, for
  every message whose fragment numbers fit a 64-bit integer; the omitted empty fields come back empty.
\<close>

theorem clipboard_roundtrip:
  "clipboard_ints_ok cd \<Longrightarrow>
     DecodeClipboardData (ClipboardData_Encode cd) = Some (sanitizeClipboard cd)"
  by (rule decode_encode_clipboard)

theorem clipboard_roundtrip_witness:
  "DecodeClipboardData (ClipboardData_Encode (zeroClipboard\<lparr>cd_Type := ''text'',
      cd_Metadata := Some \<lparr>frag_ID = ''f'', frag_Index = 1, frag_TotalFragments = 3,
                          frag_IsFragmented = True\<rparr>\<rparr>)) =
     Some (sanitizeClipboard (zeroClipboard\<lparr>cd_Type := ''text'',
      cd_Metadata := Some \<lparr>frag_ID = ''f'', frag_Index = 1, frag_TotalFragments = 3,
                          frag_IsFragmented = True\<rparr>\<rparr>))"
  by (rule clipboard_roundtrip)
    (simp add: clipboard_ints_ok_def fragment_ints_ok_def int64_range_def)

section \<open>The file-transfer payloads\<close>

abbreviation "utf8ok \<equiv> \<lambda>s. toValidUTF8 s = s"

definition manifest_ok :: "FileStubManifest \<Rightarrow> bool" where
  "manifest_ok m \<longleftrightarrow> int64_range (man_ProtocolVersion m) \<and> int64_range (man_EntryCount m) \<and>
     int64_range (man_EstimatedTotalBytes m) \<and>
     list_all utf8ok ([man_EntryID m, man_TransferID m, man_SourceSessionID m, man_SourceDevice m,
       man_Kind m, man_ArchiveFormat m, man_DisplayName m] @ man_TopLevelNames m)"

definition request_ok :: "FileRequest \<Rightarrow> bool" where
  "request_ok r \<longleftrightarrow> int64_range (req_ResumeFromChunk r) \<and>
     list_all utf8ok [req_TransferID r, req_EntryID r, req_TargetSessionID r]"

definition chunk_ok :: "FileChunk \<Rightarrow> bool" where
  "chunk_ok c \<longleftrightarrow> int64_range (chk_ChunkIndex c) \<and> int64_range (chk_TotalChunks c) \<and>
     list_all utf8ok [chk_TransferID c, chk_TargetSessionID c, chk_ArchiveMode c, chk_ChunkData c,
       chk_ChunkSHA256 c]"

definition complete_ok :: "FileComplete \<Rightarrow> bool" where
  "complete_ok c \<longleftrightarrow> int64_range (cmp_ActualTotalBytes c) \<and>
     list_all utf8ok [cmp_TransferID c, cmp_TargetSessionID c, cmp_ArchiveMode c, cmp_ArchiveSHA256 c]"

definition error_ok :: "FileError \<Rightarrow> bool" where
  "error_ok e \<longleftrightarrow> list_all utf8ok [ferr_TransferID e, ferr_TargetSessionID e, ferr_ErrorCode e,
     ferr_ErrorMessage e]"

definition release_ok :: "FileRelease \<Rightarrow> bool" where
  "release_ok r \<longleftrightarrow> list_all utf8ok [rel_TransferID r, rel_TargetSessionID r, rel_ReleaseReason r]"



lemma normJSON_strings: "list_all utf8ok ss \<Longrightarrow> map (normJSON \<circ> JStr) ss = map JStr ss"
  by (induction ss) auto

lemma wfJSON_strings: "list_all (wfJSON \<circ> JStr) ss" "list_all wfJSON (map JStr ss)"
  by (induction ss) auto



lemma DecodePayload_Encode:
  "wfJSON (toJSON x) \<Longrightarrow>
     DecodePayload fs zero (EncodePayload toJSON x) = structOf fs zero (normJSON (toJSON x))"
  by (simp add: EncodePayload_def DecodePayload_render)

lemmas struct_simps = DecodePayload_Encode structOf_named omitEmpty_def

lemma chunk_roundtrip: "chunk_ok c \<Longrightarrow> decodeChunk (EncodePayload chunkJSON c) = Some c"
  by (simp add: chunk_ok_def chunkJSON_def struct_simps) (simp add: chunkFields_def zeroChunk_def)

lemma complete_roundtrip: "complete_ok c \<Longrightarrow> decodeComplete (EncodePayload completeJSON c) = Some c"
  by (simp add: complete_ok_def completeJSON_def struct_simps)
    (simp add: completeFields_def zeroComplete_def)

lemma request_roundtrip: "request_ok r \<Longrightarrow> decodeRequest (EncodePayload requestJSON r) = Some r"
  by (simp add: request_ok_def requestJSON_def struct_simps)
    (simp add: requestFields_def zeroRequest_def)

lemma error_roundtrip: "error_ok e \<Longrightarrow> decodeError (EncodePayload errorJSON e) = Some e"
  by (simp add: error_ok_def errorJSON_def struct_simps) (simp add: errorFields_def zeroError_def)

lemma release_roundtrip: "release_ok r \<Longrightarrow> decodeRelease (EncodePayload releaseJSON r) = Some r"
  by (simp add: release_ok_def releaseJSON_def struct_simps)
    (simp add: releaseFields_def zeroRelease_def)

lemma manifest_roundtrip: "manifest_ok m \<Longrightarrow> decodeManifest (EncodePayload manifestJSON m) = Some m"
  by (simp add: manifest_ok_def manifestJSON_def struct_simps wfJSON_strings normJSON_strings)
    (simp add: manifestFields_def zeroManifest_def)

text \<open>An encoded payload is valid UTF-8, so it travels inside a message unchanged.\<close>

lemma EncodePayload_utf8: "wfJSON (toJSON x) \<Longrightarrow> utf8ok (EncodePayload toJSON x)"
  unfolding EncodePayload_def by (intro toValidUTF8_id render_valid)

lemma payloads_wf:
  "chunk_ok c \<Longrightarrow> wfJSON (chunkJSON c)" "complete_ok f \<Longrightarrow> wfJSON (completeJSON f)"
  "request_ok r \<Longrightarrow> wfJSON (requestJSON r)" "manifest_ok m \<Longrightarrow> wfJSON (manifestJSON m)"
  by (auto simp: chunk_ok_def chunkJSON_def complete_ok_def completeJSON_def request_ok_def requestJSON_def
      manifest_ok_def manifestJSON_def wfJSON_strings)

section \<open>The messages as wire formats\<close>

interpretation chunk_code: codec "EncodePayload chunkJSON" decodeChunk chunk_ok
  by unfold_locales (rule chunk_roundtrip)

interpretation complete_code: codec "EncodePayload completeJSON" decodeComplete complete_ok
  by unfold_locales (rule complete_roundtrip)

interpretation request_code: codec "EncodePayload requestJSON" decodeRequest request_ok
  by unfold_locales (rule request_roundtrip)

interpretation error_code: codec "EncodePayload errorJSON" decodeError error_ok
  by unfold_locales (rule error_roundtrip)

interpretation release_code: codec "EncodePayload releaseJSON" decodeRelease release_ok
  by unfold_locales (rule release_roundtrip)

interpretation manifest_code: codec "EncodePayload manifestJSON" decodeManifest manifest_ok
  by unfold_locales (rule manifest_roundtrip)

end
