(* ===== verification/Summary.thy ===== *)
theory Summary
  imports Messages
begin

text \<open>
  The item names logged for a clipboard message (\<open>pkg/protocol/clipboard_summary.go\<close>).
\<close>

fun dedupeLoop :: "string list \<Rightarrow> string set \<Rightarrow> string list" where
  "dedupeLoop [] seen = []"
| "dedupeLoop (name # names) seen =
     (let n = trimSpace name in
      if n = '''' then dedupeLoop names seen
      else if n \<in> seen then dedupeLoop names seen
      else n # dedupeLoop names (insert n seen))"

definition dedupeNames :: "string list \<Rightarrow> string list" where
  "dedupeNames names = dedupeLoop names {}"

definition ManifestNames :: "FileStubManifest option \<Rightarrow> string list" where
  "ManifestNames manifest =
     (case manifest of
        None \<Rightarrow> []
      | Some m \<Rightarrow>
          (let names = dedupeNames (man_TopLevelNames m) in
           if names \<noteq> [] then names
           else (let name = trimSpace (man_DisplayName m) in if name \<noteq> '''' then [name] else [])))"

definition ClipboardItemNames :: "ClipboardData option \<Rightarrow> string list" where
  "ClipboardItemNames clipData =
     (case clipData of
        None \<Rightarrow> []
      | Some cd \<Rightarrow>
          if cd_Type cd = ''file_stub'' then
            (case decodeManifest (cd_Payload cd) of Some m \<Rightarrow> ManifestNames (Some m) | None \<Rightarrow> [])
          else if cd_Type cd = ''image'' \<or> cd_Type cd = ''file_eager'' then
            (let name = trimSpace (cd_FileName cd) in if name \<noteq> '''' then [name] else [])
          else [])"

definition BracketedNames :: "string list \<Rightarrow> string" where
  "BracketedNames names = joinChar '' '' (map (\<lambda>n. ''['' @ n @ '']'') (dedupeNames names))"

text \<open>The reference: the first occurrence of every non-blank trimmed name, in order.\<close>

lemma dedupeLoop_spec:
  "set (dedupeLoop names seen) = {n \<in> trimSpace ` set names. n \<noteq> '''' \<and> n \<notin> seen}"
  "distinct (dedupeLoop names seen)"
  by (induction names arbitrary: seen) (auto simp: Let_def)

lemma dedupeLoop_order:
  "dedupeLoop names seen =
     rev (remdups (rev (filter (\<lambda>n. n \<noteq> '''' \<and> n \<notin> seen) (map trimSpace names))))"
proof (induction names arbitrary: seen)
  case (Cons a names)
  have *: "rev (remdups (xs @ [x])) = x # rev (remdups (filter (\<lambda>y. y \<noteq> x) xs))" for x and xs :: "string list"
    by (induction xs) auto
  have "filter (\<lambda>y. y \<noteq> x) (rev (filter P ys)) = rev (filter (\<lambda>y. P y \<and> y \<noteq> x) ys)" for x P and ys :: "string list"
    by (simp add: rev_filter)
  then show ?case
    using Cons by (auto simp: Let_def * conj_ac)
qed simp

lemma dedupeNames_idem: "dedupeNames (dedupeNames names) = dedupeNames names"
proof -
  have "map trimSpace (dedupeNames names) = dedupeNames names"
    by (rule map_idI) (auto simp: dedupeNames_def dedupeLoop_spec trimSpace_id trimmed_trimSpace)
  moreover have "filter (\<lambda>n. n \<noteq> '''') (dedupeNames names) = dedupeNames names"
    by (rule filter_True) (auto simp: dedupeNames_def dedupeLoop_spec)
  moreover have "distinct (rev (dedupeNames names))"
    by (simp add: dedupeNames_def dedupeLoop_spec)
  ultimately show ?thesis
    by (simp add: dedupeNames_def [of "dedupeNames names"] dedupeLoop_order distinct_remdups_id)
qed

text \<open>The logged names are the trimmed non-blank names, each once, in the order of first occurrence;
  doing it twice (as \<open>BracketedNames\<close> of \<open>ManifestNames\<close> does) changes nothing.
\<close>

theorem dedupeNames_first_occurrences:
  "dedupeNames names = rev (remdups (rev (filter (\<lambda>n. n \<noteq> '''') (map trimSpace names)))) \<and>
   dedupeNames (dedupeNames names) = dedupeNames names"
  by (simp add: dedupeNames_idem) (simp add: dedupeNames_def dedupeLoop_order)

end
