(* ===== verification/Stomp.thy ===== *)
theory Stomp
  imports GoStrings Constants
begin

text \<open>
  The STOMP frame of \<open>pkg/protocol/stomp.go\<close>: the frame record, its serialiser and parser, and the
  constructors of the frames the program sends. The headers are a Go map, so \<open>Encode\<close> visits them
  in an order the language leaves open: the order is an argument, any list of the header keys.
\<close>

record Frame =
  frame_Command :: string
  frame_Headers :: "string \<rightharpoonup> string"
  frame_Body :: string

definition NewFrame :: "string \<Rightarrow> Frame" where
  "NewFrame command = \<lparr>frame_Command = command, frame_Headers = Map.empty, frame_Body = ''''\<rparr>"

definition Set :: "string \<Rightarrow> string \<Rightarrow> Frame \<Rightarrow> Frame" where
  "Set key val f = f\<lparr>frame_Headers := (frame_Headers f)(key \<mapsto> val)\<rparr>"

definition Get :: "string \<Rightarrow> Frame \<Rightarrow> string" where
  "Get key f = (case frame_Headers f key of None \<Rightarrow> '''' | Some v \<Rightarrow> v)"

definition encodeHeader :: "Frame \<Rightarrow> string \<Rightarrow> string" where
  "encodeHeader f k = k @ CHR '':'' # Get k f @ [newline]"

definition Encode :: "string list \<Rightarrow> Frame \<Rightarrow> bytes" where
  "Encode order f =
     frame_Command f @ [newline] @ concat (map (encodeHeader f) order) @ [newline] @
     frame_Body f @ [nul]"

definition parseHeaderLine :: "string \<Rightarrow> (string \<rightharpoonup> string) \<Rightarrow> (string \<rightharpoonup> string)" where
  "parseHeaderLine line0 headers =
     (let line = trimSpace line0 in
      if line = '''' then headers
      else (case indexByte line CHR '':'' of
              None \<Rightarrow> headers
            | Some idx \<Rightarrow>
                if idx = 0 then headers
                else headers(take idx line \<mapsto> drop (idx + 1) line)))"

definition ParseFrame :: "bytes \<Rightarrow> Frame result" where
  "ParseFrame data =
     (let raw = trimRightSet {nul} data in
      case splitN2 raw [newline, newline] of
        [] \<Rightarrow> Inl ''invalid STOMP frame: empty data''
      | headerSection # rest \<Rightarrow>
          (let body = (case rest of [b] \<Rightarrow> b | _ \<Rightarrow> '''') in
           case splitChar newline headerSection of
             [] \<Rightarrow> Inl ''invalid STOMP frame: no command line''
           | cmd # lines \<Rightarrow>
               Inr \<lparr>frame_Command = trimSpace cmd,
                    frame_Headers = fold parseHeaderLine lines Map.empty,
                    frame_Body = body\<rparr>))"

definition ConnectFrame :: "string \<Rightarrow> string \<Rightarrow> Frame" where
  "ConnectFrame acceptVersion host =
     Set ''host'' host (Set ''accept-version'' acceptVersion (NewFrame StompConnect))"

definition ConnectedFrame :: "string \<Rightarrow> Frame" where
  "ConnectedFrame version = Set ''version'' version (NewFrame StompConnected)"

definition SubscribeFrame :: "string \<Rightarrow> string \<Rightarrow> Frame" where
  "SubscribeFrame i destination =
     Set ''destination'' destination (Set ''id'' i (NewFrame StompSubscribe))"

definition SendFrame :: "string \<Rightarrow> string \<Rightarrow> Frame" where
  "SendFrame destination body =
     (Set ''destination'' destination (NewFrame StompSend))\<lparr>frame_Body := body\<rparr>"

definition MessageFrame :: "string \<Rightarrow> string \<Rightarrow> string \<Rightarrow> string \<Rightarrow> Frame" where
  "MessageFrame destination subscriptionID messageID body =
     (Set ''message-id'' messageID (Set ''subscription'' subscriptionID
        (Set ''destination'' destination (NewFrame StompMessage))))\<lparr>frame_Body := body\<rparr>"

definition ErrorFrame :: "string \<Rightarrow> Frame" where
  "ErrorFrame message = Set ''message'' message (NewFrame StompError)"

section \<open>Frames that survive a round trip\<close>

text \<open>
  A key must be non-empty, without a colon, a line break or leading white space; a value must be
  without a line break or trailing white space; neither may hold a NUL at the end of the frame. The
  body is arbitrary but for trailing NULs, which the parser strips.
\<close>

definition header_key_ok :: "string \<Rightarrow> bool" where
  "header_key_ok k \<longleftrightarrow> k \<noteq> '''' \<and> CHR '':'' \<notin> set k \<and> newline \<notin> set k \<and>
     leadingSpace (k @ [CHR '':'']) = None"

definition header_value_ok :: "string \<Rightarrow> bool" where
  "header_value_ok v \<longleftrightarrow> newline \<notin> set v \<and> trailingSpace v = None"

definition frame_ok :: "Frame \<Rightarrow> bool" where
  "frame_ok f \<longleftrightarrow> trimmed (frame_Command f) \<and> newline \<notin> set (frame_Command f) \<and>
     frame_Command f \<noteq> '''' \<and>
     (\<forall>k v. frame_Headers f k = Some v \<longrightarrow> header_key_ok k \<and> header_value_ok v) \<and>
     (frame_Body f = '''' \<or> last (frame_Body f) \<noteq> nul)"

definition header_order :: "Frame \<Rightarrow> string list \<Rightarrow> bool" where
  "header_order f order \<longleftrightarrow> distinct order \<and> set order = dom (frame_Headers f)"

lemma colon_not_space: "\<forall>e\<in>set spaceEncodings. CHR '':'' \<notin> set e"
  by (simp add: spaceEncodings_def)

lemma leadingSpace_append_colon:
  assumes "leadingSpace (k @ [CHR '':'']) = None"
  shows "leadingSpace (k @ CHR '':'' # v) = None"
proof (rule ccontr)
  assume "leadingSpace (k @ CHR '':'' # v) \<noteq> None"
  then obtain e where e: "e \<in> set spaceEncodings" "prefix e (k @ CHR '':'' # v)"
    by (auto simp: leadingSpace_def find_None_iff)
  from e(2) have "prefix e ((k @ [CHR '':'']) @ v)" by simp
  then have "prefix e (k @ [CHR '':'']) \<or> (\<exists>us. e = (k @ [CHR '':'']) @ us)"
    unfolding prefix_append by blast
  then show False
    using e(1) assms colon_not_space by (auto simp: leadingSpace_def find_None_iff)
qed

lemma trimmed_header_line:
  assumes "header_key_ok k" "header_value_ok v"
  shows "trimmed (k @ CHR '':'' # v)"
  unfolding trimmed_def
  using assms leadingSpace_append_colon [of k v] trailingSpace_append [OF colon_not_space, of v k]
  by (simp add: header_key_ok_def header_value_ok_def)

lemma first_index_append_hit:
  "\<forall>x\<in>set a. \<not> P x \<Longrightarrow> P c \<Longrightarrow> first_index P (a @ c # b) = Some (length a)"
  by (induction a) auto

lemma parseHeaderLine_encoded:
  assumes "header_key_ok k" "header_value_ok v"
  shows "parseHeaderLine (k @ CHR '':'' # v) headers = headers(k \<mapsto> v)"
proof -
  have "indexByte (k @ CHR '':'' # v) CHR '':'' = Some (length k)"
    unfolding indexByte_def
    using assms(1) by (intro first_index_append_hit) (auto simp: header_key_ok_def)
  then show ?thesis
    using assms(1) trimSpace_id [OF trimmed_header_line [OF assms]]
    by (simp add: parseHeaderLine_def Let_def header_key_ok_def)
qed

lemma parseHeaderLine_empty [simp]: "parseHeaderLine [] headers = headers"
  by (simp add: parseHeaderLine_def trimSpace_id)

lemma cutAt_line:
  "newline \<notin> set a \<Longrightarrow>
     cutAt [newline, newline] (a @ s) = map_option (apfst ((@) a)) (cutAt [newline, newline] s)"
proof (induction a)
  case (Cons x a)
  then show ?case
    by (cases "cutAt [newline, newline] s")
       (auto simp: cutAt.simps [of _ "x # a @ s"] split: option.splits)
next
  case Nil
  show ?case by (cases "cutAt [newline, newline] s") auto
qed

lemma cutAt_newline_then:
  "x \<noteq> newline \<Longrightarrow> cutAt [newline, newline] (newline # x # s) =
     map_option (apfst ((#) newline)) (cutAt [newline, newline] (x # s))"
  by (cases "cutAt [newline, newline] (x # s)")
     (auto simp: cutAt.simps [of _ "newline # x # s"])

text \<open>Lines that are not empty hold no blank line, so the cut is at the first blank line after them.\<close>

definition headerLines :: "string list \<Rightarrow> string" where
  "headerLines ls = concat (map (\<lambda>l. newline # l) ls)"

lemma cutAt_headerLines:
  assumes "\<forall>l\<in>set ls. l \<noteq> '''' \<and> newline \<notin> set l"
  shows "cutAt [newline, newline] (headerLines ls @ newline # newline # body) = Some (headerLines ls, body)"
  using assms
proof (induction ls)
  case Nil
  then show ?case by (simp add: headerLines_def cutAt.simps [of _ "newline # newline # body"])
next
  case (Cons l ls)
  then obtain x l' where l: "l = x # l'" "x \<noteq> newline" "newline \<notin> set l'" by (cases l) auto
  let ?rest = "headerLines ls @ newline # newline # body"
  have "cutAt [newline, newline] (l @ ?rest) = Some (l @ headerLines ls, body)"
    using Cons by (subst cutAt_line) auto
  then show ?case
    using l by (simp add: headerLines_def cutAt_newline_then)
qed

lemma splitChar_headerLines:
  "newline \<notin> set a \<Longrightarrow> \<forall>l\<in>set ls. newline \<notin> set l \<Longrightarrow>
     splitChar newline (a @ headerLines ls) = a # ls"
proof (induction ls arbitrary: a)
  case (Cons l ls)
  then show ?case by (simp add: headerLines_def splitChar_append)
qed (simp add: headerLines_def splitChar_no_sep)

definition headerLine :: "Frame \<Rightarrow> string \<Rightarrow> string" where
  "headerLine f k = k @ CHR '':'' # Get k f"

lemma encodeHeaders_lines:
  "newline # concat (map (encodeHeader f) order) = headerLines (map (headerLine f) order) @ [newline]"
  by (induction order) (auto simp: headerLines_def headerLine_def encodeHeader_def)

lemma trimRightSet_append_nul:
  "s = '''' \<or> last s \<noteq> nul \<Longrightarrow> trimRightSet {nul} (s @ [nul]) = s"
  by (cases s rule: rev_cases) (auto simp: trimRightSet_def)

lemma fold_headerLines:
  "\<forall>k\<in>set ks. header_key_ok k \<and> header_value_ok (Get k f) \<Longrightarrow>
     fold parseHeaderLine (map (headerLine f) ks) m = m ++ (\<lambda>k. if k \<in> set ks then Some (Get k f) else None)"
proof (induction ks arbitrary: m)
  case (Cons k ks)
  have "fold parseHeaderLine (map (headerLine f) (k # ks)) m =
      fold parseHeaderLine (map (headerLine f) ks) (m(k \<mapsto> Get k f))"
    using Cons.prems by (simp add: headerLine_def parseHeaderLine_encoded)
  also have "\<dots> = m(k \<mapsto> Get k f) ++ (\<lambda>x. if x \<in> set ks then Some (Get x f) else None)"
    using Cons by simp
  finally show ?case by (auto simp: map_add_def fun_eq_iff)
qed (simp add: map_add_def)

lemma ParseFrame_sections:
  assumes "newline \<notin> set cmd" "cmd \<noteq> ''''" "\<forall>l\<in>set ls. l \<noteq> '''' \<and> newline \<notin> set l"
    and body: "body = '''' \<or> last body \<noteq> nul"
  shows "ParseFrame (cmd @ headerLines ls @ newline # newline # body @ [nul]) =
     Inr \<lparr>frame_Command = trimSpace cmd, frame_Headers = fold parseHeaderLine ls Map.empty,
          frame_Body = body\<rparr>"
proof -
  let ?raw = "cmd @ headerLines ls @ newline # newline # body"
  have "last ?raw \<noteq> nul"
    using body by (cases "body = ''''") (auto simp: newline_def nul_def)
  then have raw: "trimRightSet {nul} (?raw @ [nul]) = ?raw"
    by (intro trimRightSet_append_nul) simp
  have cut: "cutAt [newline, newline] ?raw = Some (cmd @ headerLines ls, body)"
    using assms(1) cutAt_headerLines [OF assms(3), of body] by (simp add: cutAt_line)
  have lines: "splitChar newline (cmd @ headerLines ls) = cmd # ls"
    using assms by (intro splitChar_headerLines) auto
  show ?thesis
    using raw cut lines by (simp add: ParseFrame_def splitN2_def)
qed

lemma Encode_sections:
  "Encode order f = frame_Command f @ headerLines (map (headerLine f) order) @
     newline # newline # frame_Body f @ [nul]"
  using encodeHeaders_lines [of f order] by (simp add: Encode_def)

section \<open>The round trip\<close>

lemma ParseFrame_Encode:
  assumes ok: "frame_ok f" and order: "header_order f order"
  shows "ParseFrame (Encode order f) = Inr f"
proof -
  have keys: "\<forall>k\<in>set order. header_key_ok k \<and> header_value_ok (Get k f)"
    using ok order by (auto simp: frame_ok_def header_order_def Get_def domIff)
  then have lines: "\<forall>l\<in>set (map (headerLine f) order). l \<noteq> '''' \<and> newline \<notin> set l"
    by (auto simp: headerLine_def header_key_ok_def header_value_ok_def newline_def)
  have headers: "fold parseHeaderLine (map (headerLine f) order) Map.empty = frame_Headers f"
    using order by (auto simp: fold_headerLines [OF keys] header_order_def Get_def fun_eq_iff
        map_add_def split: option.splits)
  have "ParseFrame (Encode order f) =
     Inr \<lparr>frame_Command = trimSpace (frame_Command f), frame_Headers = frame_Headers f,
          frame_Body = frame_Body f\<rparr>"
    unfolding Encode_sections
    using ok lines by (subst ParseFrame_sections) (auto simp: frame_ok_def headers)
  then show ?thesis using ok by (simp add: frame_ok_def trimSpace_id)
qed

text \<open>
  C38: Serialising a frame and parsing the bytes gives the frame back (command, every header, body),
  in whatever order the serialiser visits the headers, for every frame with a trimmed one-line
  command, clean header keys and values, and a body that does not end in a NUL byte.
\<close>

theorem stomp_roundtrip:
  "frame_ok f \<Longrightarrow> header_order f order \<Longrightarrow> ParseFrame (Encode order f) = Inr f"
  by (rule ParseFrame_Encode)

theorem stomp_roundtrip_witness:
  "ParseFrame (Encode [''destination''] (SendFrame SendDestination ''{}'')) =
     Inr (SendFrame SendDestination ''{}'')"
  by (rule stomp_roundtrip)
     (auto simp: frame_ok_def header_order_def SendFrame_def Set_def NewFrame_def const_defs trimmed_def
        leadingSpace_def trailingSpace_def spaceEncodings_def header_key_ok_def header_value_ok_def
        newline_def nul_def suffix_def)

section \<open>What the parser promises\<close>

lemma parseHeaderLine_values_ok:
  assumes "newline \<notin> set line" "\<forall>v\<in>ran headers. header_value_ok v"
  shows "\<forall>v\<in>ran (parseHeaderLine line headers). header_value_ok v"
proof -
  have ok: "header_value_ok (drop n (trimSpace line))" for n
    unfolding header_value_ok_def
  proof
    show "newline \<notin> set (drop n (trimSpace line))"
      using assms(1) set_trimSpace [of line] by (auto dest: in_set_dropD)
    show "trailingSpace (drop n (trimSpace line)) = None"
      using trailingSpace_suffix [OF suffix_drop] trimmed_trimSpace [of line]
      by (simp add: trimmed_def)
  qed
  have "\<forall>v\<in>ran (headers(k \<mapsto> drop n (trimSpace line))). header_value_ok v" for k n
    using assms(2) ok by (auto simp: ran_def)
  then show ?thesis
    using assms(2) by (auto simp: parseHeaderLine_def Let_def split: option.splits if_splits)
qed

lemma fold_parseHeaderLine_values_ok:
  "\<forall>l\<in>set ls. newline \<notin> set l \<Longrightarrow> \<forall>v\<in>ran headers. header_value_ok v \<Longrightarrow>
     \<forall>v\<in>ran (fold parseHeaderLine ls headers). header_value_ok v"
proof (induction ls arbitrary: headers)
  case (Cons l ls)
  have "\<forall>v\<in>ran (parseHeaderLine l headers). header_value_ok v"
    using Cons.prems by (intro parseHeaderLine_values_ok) auto
  then show ?case using Cons by simp
qed simp

lemma header_value_ok_Nil: "header_value_ok []"
  by (simp add: header_value_ok_def trailingSpace_def spaceEncodings_def)

lemma trimRightSet_last: "trimRightSet {c} s = [] \<or> last (trimRightSet {c} s) \<noteq> c"
proof -
  have "dropWhile (\<lambda>x. x \<in> {c}) t = [] \<or> hd (dropWhile (\<lambda>x. x \<in> {c}) t) \<noteq> c" for t
    by (induction t) auto
  from this [of "rev s"] show ?thesis by (auto simp: trimRightSet_def last_rev)
qed

text \<open>Every parsed value is on one line with no trailing white space; the body never ends in NUL.\<close>

lemma ParseFrame_ok:
  assumes "ParseFrame data = Inr g"
  shows "header_value_ok (Get k g)" "frame_Body g = '''' \<or> last (frame_Body g) \<noteq> nul"
proof -
  let ?raw = "trimRightSet {nul} data"
  obtain hs rest where parts: "splitN2 ?raw [newline, newline] = hs # rest"
    by (cases "cutAt [newline, newline] ?raw") (auto simp: splitN2_def)
  obtain cmd lines where lines: "splitChar newline hs = cmd # lines"
    by (cases "splitChar newline hs") auto
  have g: "frame_Headers g = fold parseHeaderLine lines Map.empty"
    "frame_Body g = (case rest of [b] \<Rightarrow> b | _ \<Rightarrow> '''')"
    using assms parts lines by (auto simp: ParseFrame_def Let_def)
  have "\<forall>l\<in>set lines. newline \<notin> set l"
    using lines splitChar_parts [of _ newline hs] by auto
  then have "\<forall>v\<in>ran (frame_Headers g). header_value_ok v"
    unfolding g by (rule fold_parseHeaderLine_values_ok) simp
  then show "header_value_ok (Get k g)"
    by (cases "frame_Headers g k") (auto simp: Get_def ran_def header_value_ok_Nil)
  show "frame_Body g = '''' \<or> last (frame_Body g) \<noteq> nul"
  proof (cases "cutAt [newline, newline] ?raw")
    case (Some p)
    then obtain a b where ab: "cutAt [newline, newline] ?raw = Some (a, b)" by (cases p) auto
    then have "?raw = a @ [newline, newline] @ b" by (rule cutAt_split)
    moreover have "frame_Body g = b" using parts ab g(2) by (auto simp: splitN2_def)
    ultimately show ?thesis using trimRightSet_last [of nul data] by auto
  qed (use parts g(2) in \<open>simp add: splitN2_def\<close>)
qed

lemma MessageFrame_ok:
  assumes "header_value_ok dest" "header_value_ok sub" "body = '''' \<or> last body \<noteq> nul"
  shows "frame_ok (MessageFrame dest sub '''' body)"
  using assms
  by (auto simp: frame_ok_def MessageFrame_def Set_def NewFrame_def StompMessage_def trimmed_def
      leadingSpace_def trailingSpace_def spaceEncodings_def header_key_ok_def header_value_ok_def
      newline_def suffix_def)

end
