(* ===== verification/ConnRegistry.thy ===== *)
theory ConnRegistry
  imports Prelude "HOL-Library.AList"
begin

text \<open>
  The interface the two websocket endpoints of the server share: connections grouped by user name,
  each with a write lock while it is registered (\<open>Register\<close>/\<open>Unregister\<close> of \<open>ws_hub.go\<close>, the
  registration and the deferred removal in \<open>HandleP2P\<close> of \<open>p2p_signaling.go\<close>). The locale states what
  a registry promises of one operation; its lemmas give what any history of connections leaves
  behind. A Go map is an association list without duplicate keys; the order of its entries stands for
  Go's unspecified iteration order.
\<close>

type_synonym conn = nat

datatype 'a conn_event =
    Opened (event_user: string) (event_conn: conn) (event_value: 'a)
  | Closed (event_user: string) (event_conn: conn)

text \<open>The abstract registry: which connections of which users are live, with their values.\<close>

type_synonym 'a live = "string \<times> conn \<Rightarrow> 'a option"

fun live_step :: "'a live \<Rightarrow> 'a conn_event \<Rightarrow> 'a live" where
  "live_step l (Opened u c a) = l((u, c) \<mapsto> a)"
| "live_step l (Closed u c) = l((u, c) := None)"

text \<open>
  A connection belongs to one handler, which opens it once, for one user, and closes it for that user.
\<close>

fun proper_step :: "'a live \<Rightarrow> 'a conn_event \<Rightarrow> bool" where
  "proper_step l (Opened u c a) \<longleftrightarrow> (\<forall>v. l (v, c) = None)"
| "proper_step l (Closed u c) \<longleftrightarrow> l (u, c) \<noteq> None"

definition one_user :: "'a live \<Rightarrow> bool" where
  "one_user l \<longleftrightarrow> (\<forall>u v c a b. l (u, c) = Some a \<longrightarrow> l (v, c) = Some b \<longrightarrow> u = v)"

definition live_conns :: "'a live \<Rightarrow> conn set" where
  "live_conns l = {c. \<exists>u a. l (u, c) = Some a}"

lemma one_user_step: "one_user l \<Longrightarrow> proper_step l e \<Longrightarrow> one_user (live_step l e)"
  unfolding one_user_def by (cases e) (auto split: if_splits)

lemma live_conns_step:
  assumes "one_user l" "proper_step l e"
  shows "live_conns (live_step l e) =
           (case e of Opened u c a \<Rightarrow> insert c (live_conns l) | Closed u c \<Rightarrow> live_conns l - {c})"
proof (cases e)
  case (Closed u c)
  then obtain a where a: "l (u, c) = Some a" using assms(2) by auto
  then have "v = u" if "l (v, c) = Some b" for v b
    using assms(1) that unfolding one_user_def by blast
  then show ?thesis using Closed by (auto simp: live_conns_def split: if_splits)
qed (auto simp: live_conns_def split: if_splits)

locale conn_registry =
  fixes register :: "'s \<Rightarrow> string \<Rightarrow> conn \<Rightarrow> 'a \<Rightarrow> 's"
    and unregister :: "'s \<Rightarrow> string \<Rightarrow> conn \<Rightarrow> 's"
    and members :: "'s \<Rightarrow> string \<Rightarrow> (conn \<times> 'a) list"
    and locks :: "'s \<Rightarrow> conn set"
  assumes members_register: "map_of (members (register s u c a) v) =
          (if v = u then (map_of (members s u))(c \<mapsto> a) else map_of (members s v))"
    and members_unregister: "map_of (members (unregister s u c) v) =
          (if v = u then (map_of (members s u))(c := None) else map_of (members s v))"
    and distinct_register: "distinct (map fst (members s v)) \<Longrightarrow>
          distinct (map fst (members (register s u c a) v))"
    and distinct_unregister: "distinct (map fst (members s v)) \<Longrightarrow>
          distinct (map fst (members (unregister s u c) v))"
    and locks_register: "locks (register s u c a) = insert c (locks s)"
    and locks_unregister: "locks (unregister s u c) = locks s - {c}"
begin

text \<open>A registry represents the live connections: as members of their users, each with its lock.\<close>

definition represents :: "'s \<Rightarrow> 'a live \<Rightarrow> bool" where
  "represents s l \<longleftrightarrow> one_user l \<and> locks s = live_conns l \<and>
     (\<forall>u. distinct (map fst (members s u)) \<and> (\<forall>c. map_of (members s u) c = l (u, c)))"

lemma represents_fresh:
  assumes "\<And>u. members s u = []" "locks s = {}"
  shows "represents s (\<lambda>_. None)"
  using assms by (simp add: represents_def one_user_def live_conns_def)

lemma represents_same:
  assumes "represents s l" "\<And>u. members t u = members s u" "locks t = locks s"
  shows "represents t l"
  using assms by (simp add: represents_def)

lemma represents_register:
  assumes "represents s l" "\<forall>v. l (v, c) = None"
  shows "represents (register s u c a) (l((u, c) \<mapsto> a))"
  using assms one_user_step [of l "Opened u c a"] live_conns_step [of l "Opened u c a"]
  by (auto simp: represents_def distinct_register members_register locks_register)

lemma represents_unregister:
  assumes "represents s l" "l (u, c) \<noteq> None"
  shows "represents (unregister s u c) (l((u, c) := None))"
  using assms one_user_step [of l "Closed u c"] live_conns_step [of l "Closed u c"]
  by (auto simp: represents_def distinct_unregister members_unregister locks_unregister)

lemma set_members:
  assumes "represents s l"
  shows "set (members s u) = {(c, a). l (u, c) = Some a}"
proof -
  have "(c, a) \<in> set (members s u) \<longleftrightarrow> l (u, c) = Some a" for c a
    using assms unfolding represents_def by (metis map_of_eq_Some_iff)
  then show ?thesis by auto
qed

lemma distinct_members:
  "represents s l \<Longrightarrow> distinct (map fst (members s u))"
  by (simp add: represents_def)

text \<open>Every member of a user holds a write lock, so a broadcast skips none of them.\<close>

lemma members_locked:
  "represents s l \<Longrightarrow> (c, a) \<in> set (members s u) \<Longrightarrow> c \<in> locks s"
  by (simp only: set_members) (auto simp: represents_def live_conns_def)

lemma no_live_no_members:
  "represents s l \<Longrightarrow> \<forall>c. l (u, c) = None \<Longrightarrow> members s u = []"
  using set_members [of s l u] by auto

end

text \<open>Both registries keep the connections of a user in a map of the user's own.\<close>

type_synonym 'a groups = "(string \<times> (conn \<times> 'a) list) list"

definition group :: "'a groups \<Rightarrow> string \<Rightarrow> (conn \<times> 'a) list" where
  "group g u = (case map_of g u of None \<Rightarrow> [] | Some conns \<Rightarrow> conns)"

definition group_add :: "'a groups \<Rightarrow> string \<Rightarrow> conn \<Rightarrow> 'a \<Rightarrow> 'a groups" where
  "group_add g u c a = AList.update u (AList.update c a (group g u)) g"

definition group_remove :: "'a groups \<Rightarrow> string \<Rightarrow> conn \<Rightarrow> 'a groups" where
  "group_remove g u c =
     (case map_of g u of
        None \<Rightarrow> g
      | Some conns \<Rightarrow>
          (let conns' = AList.delete c conns in
           if conns' = [] then AList.delete u g else AList.update u conns' g))"

lemma group_group_add:
  "group (group_add g u c a) v = (if v = u then AList.update c a (group g u) else group g v)"
  by (simp add: group_def group_add_def update_conv')

lemma group_group_remove:
  "group (group_remove g u c) v = (if v = u then AList.delete c (group g u) else group g v)"
  by (auto simp: group_def group_remove_def update_conv' delete_conv' Let_def split: option.splits)

lemma map_of_group_add:
  "map_of (group (group_add g u c a) v) =
     (if v = u then (map_of (group g u))(c \<mapsto> a) else map_of (group g v))"
  by (simp add: group_group_add update_conv')

lemma map_of_group_remove:
  "map_of (group (group_remove g u c) v) =
     (if v = u then (map_of (group g u))(c := None) else map_of (group g v))"
  by (simp add: group_group_remove delete_conv')

lemma distinct_group:
  "distinct (map fst (group g v)) \<Longrightarrow> distinct (map fst (group (group_add g u c a) v))"
  "distinct (map fst (group g v)) \<Longrightarrow> distinct (map fst (group (group_remove g u c) v))"
  by (auto simp: group_group_add group_group_remove distinct_update distinct_delete)

text \<open>No user is left with an empty map.\<close>

definition groups_ok :: "'a groups \<Rightarrow> bool" where
  "groups_ok g \<longleftrightarrow> distinct (map fst g) \<and> (\<forall>(u, conns)\<in>set g. conns \<noteq> [])"

lemma set_update_subset: "set (AList.update k v xs) \<subseteq> insert (k, v) (set xs)"
  by (induction xs) auto

lemma set_delete_subset: "set (AList.delete k xs) \<subseteq> set xs"
  by (induction xs) auto

lemma update_nonempty: "AList.update k v xs \<noteq> []"
  by (cases xs) auto

lemma groups_ok_update:
  assumes "groups_ok g" "conns \<noteq> []"
  shows "groups_ok (AList.update u conns g)"
  unfolding groups_ok_def
proof
  show "distinct (map fst (AList.update u conns g))"
    using assms by (simp add: groups_ok_def distinct_update)
  show "\<forall>(u, conns)\<in>set (AList.update u conns g). conns \<noteq> []"
    using assms set_update_subset [of u conns g] unfolding groups_ok_def by blast
qed

lemma groups_ok_delete:
  assumes "groups_ok g"
  shows "groups_ok (AList.delete u g)"
  using assms set_delete_subset [of u g] unfolding groups_ok_def
  by (auto simp: distinct_delete)

lemma groups_ok_add: "groups_ok g \<Longrightarrow> groups_ok (group_add g u c a)"
  by (simp add: group_add_def groups_ok_update update_nonempty)

lemma groups_ok_remove: "groups_ok g \<Longrightarrow> groups_ok (group_remove g u c)"
  by (auto simp: group_remove_def Let_def groups_ok_update groups_ok_delete split: option.splits)

end
