(* ===== verification/WsHub.thy ===== *)
theory WsHub
  imports Stomp Messages ConnRegistry
begin

text \<open>
  The STOMP relay of the server (\<open>server/handler/ws_hub.go\<close>) and its read limits
  (\<open>server/handler/ws_limits.go\<close>). The hub is a record; a handler's loop is one step per event of its
  connection (upgrade, inbound message, read error), so the concurrent handlers of Go are the
  interleavings of these steps; each step is a message handled to its end. The writes to the
  connections are the output of a step. \<open>ord\<close> is the order Go's map iteration takes when it encodes the
  headers of a frame. Logging is left out.
\<close>

section \<open>Read limits (ws_limits.go)\<close>

type_synonym int64 = "64 word"

definition defaultWebSocketReadLimitBytes :: int64 where
  "defaultWebSocketReadLimitBytes = 64 * 1024 * 1024"

definition minWebSocketReadLimitBytes :: int64 where
  "minWebSocketReadLimitBytes = 1024 * 1024"

definition normalizeWebSocketReadLimitBytes :: "int64 \<Rightarrow> int64" where
  "normalizeWebSocketReadLimitBytes limitBytes =
     (if sint limitBytes \<le> 0 then defaultWebSocketReadLimitBytes
      else if sint limitBytes < sint minWebSocketReadLimitBytes then minWebSocketReadLimitBytes
      else limitBytes)"

definition ResolveWebSocketReadLimitBytes :: "int64 \<Rightarrow> int64 \<Rightarrow> int64" where
  "ResolveWebSocketReadLimitBytes maxMessageSizeBytes maxMessageSizeMiB =
     (if sint maxMessageSizeBytes > 0 then normalizeWebSocketReadLimitBytes maxMessageSizeBytes
      else if sint maxMessageSizeMiB > 0
      then normalizeWebSocketReadLimitBytes (maxMessageSizeMiB * 1024 * 1024)
      else defaultWebSocketReadLimitBytes)"

definition applyWebSocketReadLimit :: "int64 \<Rightarrow> int64" where
  "applyWebSocketReadLimit limitBytes = normalizeWebSocketReadLimitBytes limitBytes"

lemma limit_values:
  "sint defaultWebSocketReadLimitBytes = 67108864" "sint minWebSocketReadLimitBytes = 1048576"
  by (simp_all add: defaultWebSocketReadLimitBytes_def minWebSocketReadLimitBytes_def)

lemma normalize_lower: "1048576 \<le> sint (normalizeWebSocketReadLimitBytes l)"
  by (simp add: normalizeWebSocketReadLimitBytes_def limit_values)

lemma normalize_idem:
  "normalizeWebSocketReadLimitBytes (normalizeWebSocketReadLimitBytes l) =
     normalizeWebSocketReadLimitBytes l"
  by (simp add: normalizeWebSocketReadLimitBytes_def limit_values)

lemma resolve_normalized:
  "normalizeWebSocketReadLimitBytes (ResolveWebSocketReadLimitBytes b m) =
     ResolveWebSocketReadLimitBytes b m"
  by (simp add: ResolveWebSocketReadLimitBytes_def normalize_idem)
    (simp add: normalizeWebSocketReadLimitBytes_def limit_values)

lemma mib_product:
  fixes m :: int64
  assumes "0 < sint m" "sint m < 2 ^ 43"
  shows "sint (m * 1024 * 1024) = sint m * 1048576"
proof -
  have "sint (m * 1048576) = signed_take_bit 63 (sint m * 1048576)"
    by (simp add: sint_word_ariths)
  also have "\<dots> = sint m * 1048576"
    using assms by (simp add: signed_take_bit_int_eq_self)
  finally show ?thesis by (simp add: mult.assoc)
qed

text \<open>
  Whatever the two configured sizes are, also when the multiplication of the MiB value overflows 64
  bits, the read limit of a websocket is at least 1 MiB; a byte setting of at least 1 MiB, or without
  one a MiB setting that does not overflow, is taken exactly.
\<close>

theorem read_limit_safe:
  "1048576 \<le> sint (ResolveWebSocketReadLimitBytes b m) \<and>
   (1048576 \<le> sint b \<longrightarrow> ResolveWebSocketReadLimitBytes b m = b) \<and>
   (sint b \<le> 0 \<and> 0 < sint m \<and> sint m < 2 ^ 43 \<longrightarrow>
      sint (ResolveWebSocketReadLimitBytes b m) = sint m * 1048576)"
proof -
  have "1048576 \<le> sint (ResolveWebSocketReadLimitBytes b m)"
    using normalize_lower [of "ResolveWebSocketReadLimitBytes b m"] by (simp add: resolve_normalized)
  moreover have "1048576 \<le> sint b \<longrightarrow> ResolveWebSocketReadLimitBytes b m = b"
    by (simp add: ResolveWebSocketReadLimitBytes_def normalizeWebSocketReadLimitBytes_def limit_values)
  moreover have "sint b \<le> 0 \<and> 0 < sint m \<and> sint m < 2 ^ 43 \<longrightarrow>
      sint (ResolveWebSocketReadLimitBytes b m) = sint m * 1048576"
    using mib_product [of m]
    by (simp add: ResolveWebSocketReadLimitBytes_def normalizeWebSocketReadLimitBytes_def limit_values)
  ultimately show ?thesis by blast
qed

theorem read_limit_safe_witness:
  "ResolveWebSocketReadLimitBytes 2097152 0 = 2097152 \<and>
   sint (ResolveWebSocketReadLimitBytes 0 20) = 20971520 \<and>
   1048576 \<le> sint (ResolveWebSocketReadLimitBytes 0 (2 ^ 44 + 1))"
  using read_limit_safe [of 2097152 0] read_limit_safe [of 0 20] read_limit_safe [of 0 "2 ^ 44 + 1"]
  by simp

section \<open>The hub (ws_hub.go)\<close>

record WSHub =
  hub_connections :: "bool groups"
  hub_writeLocks :: "conn set"
  hub_totalConnections :: int64
  hub_totalInboundMsgs :: int64
  hub_totalOutboundMsgs :: int64
  hub_readLimitBytes :: int64

definition NewWSHub :: "int64 list \<Rightarrow> WSHub" where
  "NewWSHub readLimitBytes =
     \<lparr>hub_connections = [], hub_writeLocks = {}, hub_totalConnections = 0,
      hub_totalInboundMsgs = 0, hub_totalOutboundMsgs = 0,
      hub_readLimitBytes = (case readLimitBytes of
                              [] \<Rightarrow> defaultWebSocketReadLimitBytes
                            | l # _ \<Rightarrow> normalizeWebSocketReadLimitBytes l)\<rparr>"

definition Register :: "string \<Rightarrow> conn \<Rightarrow> WSHub \<Rightarrow> WSHub" where
  "Register username conn h =
     h\<lparr>hub_connections := group_add (hub_connections h) username conn True,
       hub_writeLocks := insert conn (hub_writeLocks h),
       hub_totalConnections := hub_totalConnections h + 1\<rparr>"

definition Unregister :: "string \<Rightarrow> conn \<Rightarrow> WSHub \<Rightarrow> WSHub" where
  "Unregister username conn h =
     h\<lparr>hub_connections := group_remove (hub_connections h) username conn,
       hub_writeLocks := hub_writeLocks h - {conn}\<rparr>"

text \<open>A target is a connection and whether the hub holds a write lock for it (a nil lock otherwise).\<close>

definition broadcastTargets :: "string \<Rightarrow> WSHub \<Rightarrow> (conn \<times> bool) list" where
  "broadcastTargets username h =
     map (\<lambda>(conn, _). (conn, conn \<in> hub_writeLocks h)) (group (hub_connections h) username)"

datatype ws_out = WriteTo (out_conn: conn) (out_data: bytes) | CloseConn conn | SetReadLimit conn int64

definition Broadcast :: "string \<Rightarrow> conn \<Rightarrow> bytes \<Rightarrow> WSHub \<Rightarrow> WSHub \<times> ws_out list" where
  "Broadcast username sender data h =
     (let targets = broadcastTargets username h in
      (h\<lparr>hub_totalOutboundMsgs := hub_totalOutboundMsgs h + of_nat (length targets)\<rparr>,
       map (\<lambda>(conn, _). WriteTo conn data) (filter (\<lambda>(_, locked). locked) targets)))"

text \<open>
  The loop of \<open>HandleWebSocket\<close> for one message that was read: the hub, the subscription id and the
  writes after it, and whether the loop goes on.
\<close>

definition handleFrame ::
  "(Frame \<Rightarrow> string list) \<Rightarrow> string \<Rightarrow> conn \<Rightarrow> string \<Rightarrow> bytes \<Rightarrow> WSHub \<Rightarrow>
     WSHub \<times> string \<times> ws_out list \<times> bool"
where
  "handleFrame ord username c subscriptionID msg h0 =
     (let h = h0\<lparr>hub_totalInboundMsgs := hub_totalInboundMsgs h0 + 1\<rparr> in
      case ParseFrame msg of
        Inl _ \<Rightarrow> (h, subscriptionID, [], True)
      | Inr frame \<Rightarrow>
          if frame_Command frame = ''CONNECT'' then
            (let resp = ConnectedFrame ''1.1'' in
             (h, subscriptionID, [WriteTo c (Encode (ord resp) resp)], True))
          else if frame_Command frame = ''SUBSCRIBE'' then (h, Get ''id'' frame, [], True)
          else if frame_Command frame = ''SEND'' then
            (case DecodeClipboardData (frame_Body frame) of
               None \<Rightarrow> (h, subscriptionID, [], True)
             | Some _ \<Rightarrow>
                 (let msgFrame = MessageFrame (Get ''destination'' frame) subscriptionID ''''
                                   (frame_Body frame);
                      (h', outs) = Broadcast username c (Encode (ord msgFrame) msgFrame) h in
                  (h', subscriptionID, outs, True)))
          else if frame_Command frame = ''DISCONNECT'' then (h, subscriptionID, [], False)
          else (h, subscriptionID, [], True))"

text \<open>
  The server side of the relay: the hub and, for every connection whose handler is in its loop, the
  user name and the subscription id the handler holds.
\<close>

record WSServer =
  srv_hub :: WSHub
  srv_loops :: "conn \<Rightarrow> (string \<times> string) option"

datatype ws_event = Upgraded conn string | Inbound conn bytes | ReadFailed conn

definition endLoop :: "conn \<Rightarrow> string \<Rightarrow> WSServer \<Rightarrow> WSServer" where
  "endLoop c username s =
     s\<lparr>srv_hub := Unregister username c (srv_hub s), srv_loops := (srv_loops s)(c := None)\<rparr>"

fun HandleWebSocket ::
  "(Frame \<Rightarrow> string list) \<Rightarrow> ws_event \<Rightarrow> WSServer \<Rightarrow> WSServer \<times> ws_out list"
where
  "HandleWebSocket ord (Upgraded c username) s =
     (if username = '''' then (s, [CloseConn c])
      else (s\<lparr>srv_hub := Register username c (srv_hub s),
              srv_loops := (srv_loops s)(c \<mapsto> (username, ''''))\<rparr>,
            [SetReadLimit c (applyWebSocketReadLimit (hub_readLimitBytes (srv_hub s)))]))"
| "HandleWebSocket ord (Inbound c msg) s =
     (case srv_loops s c of
        None \<Rightarrow> (s, [])
      | Some (username, subscriptionID) \<Rightarrow>
          (let (h, sub, outs, continues) =
             handleFrame ord username c subscriptionID msg (srv_hub s);
             s' = s\<lparr>srv_hub := h, srv_loops := (srv_loops s)(c \<mapsto> (username, sub))\<rparr> in
           if continues then (s', outs) else (endLoop c username s', outs @ [CloseConn c])))"
| "HandleWebSocket ord (ReadFailed c) s =
     (case srv_loops s c of
        None \<Rightarrow> (s, [])
      | Some (username, _) \<Rightarrow> (endLoop c username s, [CloseConn c]))"

definition Stats :: "WSHub \<Rightarrow> int \<times> int64 \<times> int64 \<times> int64" where
  "Stats h = (int (sum_list (map (\<lambda>(_, conns). length conns) (hub_connections h))),
     hub_totalConnections h, hub_totalInboundMsgs h, hub_totalOutboundMsgs h)"

section \<open>The hub is a connection registry\<close>

definition hub_members :: "WSHub \<Rightarrow> string \<Rightarrow> (conn \<times> unit) list" where
  "hub_members h u = map (\<lambda>(c, _). (c, ())) (group (hub_connections h) u)"

lemma map_of_hub_members:
  "map_of (hub_members h u) = map_option (\<lambda>_. ()) \<circ> map_of (group (hub_connections h) u)"
  unfolding hub_members_def by (rule map_of_map)

lemma fst_hub_members: "map fst (hub_members h u) = map fst (group (hub_connections h) u)"
  by (simp add: hub_members_def comp_def case_prod_beta)

interpretation hub: conn_registry
  "\<lambda>h u c _. Register u c h" "\<lambda>h u c. Unregister u c h" hub_members hub_writeLocks
  by unfold_locales
    (auto simp: map_of_hub_members fst_hub_members Register_def Unregister_def map_of_group_add
      map_of_group_remove distinct_group fun_eq_iff)

section \<open>Reachable servers\<close>

fun ws_enabled :: "ws_event \<Rightarrow> WSServer \<Rightarrow> bool" where
  "ws_enabled (Upgraded c username) s \<longleftrightarrow> srv_loops s c = None"
| "ws_enabled _ s \<longleftrightarrow> True"

definition ws_start :: "int64 list \<Rightarrow> WSServer" where
  "ws_start limits = \<lparr>srv_hub = NewWSHub limits, srv_loops = \<lambda>_. None\<rparr>"

inductive ws_reachable :: "(Frame \<Rightarrow> string list) \<Rightarrow> WSServer \<Rightarrow> bool" for ord where
  start: "ws_reachable ord (ws_start limits)"
| event: "ws_reachable ord s \<Longrightarrow> ws_enabled e s \<Longrightarrow> ws_reachable ord (fst (HandleWebSocket ord e s))"

definition loops_live :: "WSServer \<Rightarrow> unit live" where
  "loops_live s = (\<lambda>(u, c). case srv_loops s c of
                             Some (v, _) \<Rightarrow> if v = u then Some () else None
                           | None \<Rightarrow> None)"

definition ws_inv :: "WSServer \<Rightarrow> bool" where
  "ws_inv s \<longleftrightarrow> hub.represents (srv_hub s) (loops_live s) \<and> groups_ok (hub_connections (srv_hub s)) \<and>
     (\<forall>c u sub. srv_loops s c = Some (u, sub) \<longrightarrow> u \<noteq> '''' \<and> header_value_ok sub)"

lemma handleFrame_hub:
  assumes "handleFrame ord u c sub msg h = (h', sub', outs, continues)"
  shows "hub_connections h' = hub_connections h" "hub_writeLocks h' = hub_writeLocks h"
    "header_value_ok sub \<Longrightarrow> header_value_ok sub'"
  using assms
  by (auto simp: handleFrame_def Let_def Broadcast_def split: sum.splits if_splits option.splits
      dest: ParseFrame_ok(1))

lemma represents_hub:
  "hub_connections h' = hub_connections h \<Longrightarrow> hub_writeLocks h' = hub_writeLocks h \<Longrightarrow>
     hub.represents h l \<Longrightarrow> hub.represents h' l"
  by (erule hub.represents_same) (simp_all add: hub_members_def)

lemma ws_inv_endLoop:
  assumes "ws_inv s" "srv_loops s c = Some (u, sub)"
  shows "ws_inv (endLoop c u s)"
proof -
  have "loops_live (endLoop c u s) = (loops_live s)((u, c) := None)"
    using assms(2) by (auto simp: loops_live_def endLoop_def fun_eq_iff split: option.splits)
  moreover have "loops_live s (u, c) \<noteq> None"
    using assms(2) by (simp add: loops_live_def)
  ultimately show ?thesis
    using assms hub.represents_unregister [of "srv_hub s" "loops_live s" u c]
    by (auto simp: ws_inv_def endLoop_def Unregister_def groups_ok_remove)
qed

lemma ws_inv_loop:
  assumes "ws_inv s" "srv_loops s c = Some (u, sub)" "header_value_ok sub'"
    "hub_connections h = hub_connections (srv_hub s)" "hub_writeLocks h = hub_writeLocks (srv_hub s)"
  shows "ws_inv (s\<lparr>srv_hub := h, srv_loops := (srv_loops s)(c \<mapsto> (u, sub'))\<rparr>)"
proof -
  have "loops_live (s\<lparr>srv_hub := h, srv_loops := (srv_loops s)(c \<mapsto> (u, sub'))\<rparr>) = loops_live s"
    using assms(2) by (auto simp: loops_live_def fun_eq_iff)
  then show ?thesis
    using assms represents_hub [OF assms(4,5)] by (auto simp: ws_inv_def)
qed

lemma ws_inv_step:
  assumes "ws_inv s" "ws_enabled e s"
  shows "ws_inv (fst (HandleWebSocket ord e s))"
proof (cases e)
  case (Upgraded c u)
  show ?thesis
  proof (cases "u = ''''")
    case False
    let ?s = "s\<lparr>srv_hub := Register u c (srv_hub s), srv_loops := (srv_loops s)(c \<mapsto> (u, ''''))\<rparr>"
    have free: "srv_loops s c = None" using assms(2) Upgraded by simp
    then have "loops_live ?s = (loops_live s)((u, c) \<mapsto> ())"
      by (auto simp: loops_live_def fun_eq_iff)
    moreover have "\<forall>v. loops_live s (v, c) = None" using free by (simp add: loops_live_def)
    ultimately have "ws_inv ?s"
      using assms(1) False hub.represents_register [of "srv_hub s" "loops_live s" c u "()"]
      by (auto simp: ws_inv_def groups_ok_add Register_def header_value_ok_Nil)
    then show ?thesis using Upgraded False by simp
  qed (use Upgraded assms(1) in simp)
next
  case (Inbound c msg)
  show ?thesis
  proof (cases "srv_loops s c")
    case (Some us)
    obtain u sub where us: "us = (u, sub)" by (cases us)
    obtain h sub' outs continues where
      r: "handleFrame ord u c sub msg (srv_hub s) = (h, sub', outs, continues)"
      by (metis prod_cases4)
    have "header_value_ok sub" using assms(1) Some us by (auto simp: ws_inv_def)
    then have inv: "ws_inv (s\<lparr>srv_hub := h, srv_loops := (srv_loops s)(c \<mapsto> (u, sub'))\<rparr>)"
      using handleFrame_hub [OF r] Some us by (intro ws_inv_loop [OF assms(1)]) auto
    then have "ws_inv (endLoop c u (s\<lparr>srv_hub := h, srv_loops := (srv_loops s)(c \<mapsto> (u, sub'))\<rparr>))"
      by (rule ws_inv_endLoop) simp
    then show ?thesis using inv Inbound Some us r by (simp add: Let_def)
  qed (use Inbound assms(1) in simp)
next
  case (ReadFailed c)
  then show ?thesis
    using assms(1) by (auto simp: ws_inv_endLoop split: option.split)
qed

lemma ws_inv_reachable: "ws_reachable ord s \<Longrightarrow> ws_inv s"
proof (induction rule: ws_reachable.induct)
  case (start limits)
  have "loops_live (ws_start limits) = (\<lambda>_. None)"
    by (simp add: loops_live_def ws_start_def fun_eq_iff)
  moreover have "hub.represents (NewWSHub limits) (\<lambda>_. None)"
    by (rule hub.represents_fresh) (simp_all add: NewWSHub_def hub_members_def group_def)
  ultimately show ?case by (simp add: ws_inv_def) (simp add: ws_start_def NewWSHub_def groups_ok_def)
qed (simp add: ws_inv_step)

lemmas hub_facts = hub.set_members hub.distinct_members hub.members_locked

text \<open>The targets of a broadcast: the user's running connections, each once and each with its lock.\<close>

lemma broadcast_targets:
  assumes "ws_inv s"
  shows "distinct (map fst (broadcastTargets u (srv_hub s)))"
    "set (map fst (broadcastTargets u (srv_hub s))) = {c. \<exists>sub. srv_loops s c = Some (u, sub)}"
    "\<forall>(c, locked)\<in>set (broadcastTargets u (srv_hub s)). locked"
proof -
  have rep: "hub.represents (srv_hub s) (loops_live s)" using assms by (simp add: ws_inv_def)
  have fst_eq: "map fst (broadcastTargets u (srv_hub s)) = map fst (hub_members (srv_hub s) u)"
    by (simp add: broadcastTargets_def hub_members_def comp_def case_prod_beta)
  show "distinct (map fst (broadcastTargets u (srv_hub s)))"
    unfolding fst_eq by (rule hub.distinct_members [OF rep])
  have "set (map fst (hub_members (srv_hub s) u)) = {c. loops_live s (u, c) = Some ()}"
    using hub.set_members [OF rep, of u] by (auto simp: image_iff)
  then show "set (map fst (broadcastTargets u (srv_hub s))) =
      {c. \<exists>sub. srv_loops s c = Some (u, sub)}"
    unfolding fst_eq by (auto simp: loops_live_def split: option.splits if_splits)
  have "c \<in> hub_writeLocks (srv_hub s)" if "(c, b) \<in> set (group (hub_connections (srv_hub s)) u)" for c b
    by (rule hub.members_locked [OF rep, of c "()" u]) (use that in \<open>force simp: hub_members_def\<close>)
  then show "\<forall>(c, locked)\<in>set (broadcastTargets u (srv_hub s)). locked"
    by (auto simp: broadcastTargets_def)
qed


definition message_order_ok :: "(Frame \<Rightarrow> string list) \<Rightarrow> bool" where
  "message_order_ok ord \<longleftrightarrow>
     (\<forall>d s body. header_order (MessageFrame d s '''' body) (ord (MessageFrame d s '''' body)))"

lemma Get_MessageFrame: "Get ''destination'' (MessageFrame d s m body) = d"
  by (simp add: MessageFrame_def Set_def Get_def NewFrame_def)

lemma Body_MessageFrame: "frame_Body (MessageFrame d s m body) = body"
  by (simp add: MessageFrame_def)

lemma Command_MessageFrame: "frame_Command (MessageFrame d s m body) = StompMessage"
  by (simp add: MessageFrame_def Set_def NewFrame_def)

lemma relayed_frame_parses:
  assumes "message_order_ok ord" "ParseFrame msg = Inr f" "header_value_ok sub"
  shows "ParseFrame (Encode (ord (MessageFrame (Get k f) sub '''' (frame_Body f)))
           (MessageFrame (Get k f) sub '''' (frame_Body f))) =
         Inr (MessageFrame (Get k f) sub '''' (frame_Body f))"
  using assms ParseFrame_ok [OF assms(2)]
  by (intro ParseFrame_Encode MessageFrame_ok) (auto simp: message_order_ok_def)

text \<open>
  C24: In every reachable server, a SEND frame with clipboard data that a connection of user \<open>u\<close> sends is
  written exactly once to each running connection of \<open>u\<close> (the sender's own included) and to no
  connection of another user, and what is written parses as a MESSAGE frame with the sender's body and
  destination.
\<close>

theorem send_reaches_all_devices:
  assumes "ws_reachable ord s" "message_order_ok ord"
    and "srv_loops s c = Some (u, sub)" "ParseFrame msg = Inr f" "frame_Command f = StompSend"
    and "DecodeClipboardData (frame_Body f) \<noteq> None"
  shows "\<exists>targets data g. snd (HandleWebSocket ord (Inbound c msg) s) = map (\<lambda>d. WriteTo d data) targets \<and>
     distinct targets \<and> set targets = {d. \<exists>sub'. srv_loops s d = Some (u, sub')} \<and>
     ParseFrame data = Inr g \<and> frame_Command g = StompMessage \<and> frame_Body g = frame_Body f \<and>
     Get ''destination'' g = Get ''destination'' f"
proof -
  let ?g = "MessageFrame (Get ''destination'' f) sub '''' (frame_Body f)"
  let ?targets = "broadcastTargets u (srv_hub s)"
  have inv: "ws_inv s" using assms(1) by (rule ws_inv_reachable)
  then have "header_value_ok sub" using assms(3) by (auto simp: ws_inv_def)
  then have parse: "ParseFrame (Encode (ord ?g) ?g) = Inr ?g"
    by (rule relayed_frame_parses [OF assms(2,4)])
  have "filter (\<lambda>(_, locked). locked) ?targets = ?targets"
    using broadcast_targets(3) [OF inv, of u] by (simp add: filter_id_conv)
  then have "snd (HandleWebSocket ord (Inbound c msg) s) =
      map (\<lambda>d. WriteTo d (Encode (ord ?g) ?g)) (map fst ?targets)"
    using assms(3-6) by (auto simp: handleFrame_def Broadcast_def broadcastTargets_def
        StompSend_def Let_def case_prod_beta comp_def)
  then show ?thesis
    using parse broadcast_targets [OF inv, of u]
    by (intro exI [of _ "map fst ?targets"] exI [of _ "Encode (ord ?g) ?g"] exI [of _ ?g])
      (simp add: Get_MessageFrame Body_MessageFrame Command_MessageFrame)
qed


definition sampleOrd :: "Frame \<Rightarrow> string list" where
  "sampleOrd f = [''destination'', ''subscription'', ''message-id'']"

definition sampleSend :: Frame where
  "sampleSend = SendFrame SendDestination (ClipboardData_Encode zeroClipboard)"

definition sampleServer :: WSServer where
  "sampleServer = fst (HandleWebSocket sampleOrd (Upgraded 2 ''bob'')
     (fst (HandleWebSocket sampleOrd (Upgraded 1 ''bob'') (ws_start []))))"

lemma sampleServer_reachable: "ws_reachable sampleOrd sampleServer"
  unfolding sampleServer_def
  by (intro ws_reachable.event ws_reachable.start) (simp_all add: ws_start_def)

lemma sampleOrd_ok: "message_order_ok sampleOrd"
  by (auto simp: message_order_ok_def header_order_def sampleOrd_def MessageFrame_def Set_def
      NewFrame_def)

lemma sampleSend_parses:
  "ParseFrame (Encode [''destination''] sampleSend) = Inr sampleSend"
proof (rule ParseFrame_Encode)
  have "last (ClipboardData_Encode zeroClipboard) \<noteq> nul"
    by (simp add: ClipboardData_Encode_def clipboardJSON_def nul_def)
  then show "frame_ok sampleSend"
    by (auto simp: sampleSend_def frame_ok_def SendFrame_def Set_def NewFrame_def const_defs trimmed_def
        leadingSpace_def trailingSpace_def spaceEncodings_def header_key_ok_def header_value_ok_def
        newline_def suffix_def)
  show "header_order sampleSend [''destination'']"
    by (auto simp: header_order_def sampleSend_def SendFrame_def Set_def NewFrame_def)
qed

theorem send_reaches_all_devices_witness:
  "\<exists>targets data g. snd (HandleWebSocket sampleOrd (Inbound 1 (Encode [''destination''] sampleSend))
       sampleServer) = map (\<lambda>d. WriteTo d data) targets \<and>
     distinct targets \<and> set targets = {d. \<exists>sub'. srv_loops sampleServer d = Some (''bob'', sub')} \<and>
     ParseFrame data = Inr g \<and> frame_Command g = StompMessage \<and> frame_Body g = frame_Body sampleSend \<and>
     Get ''destination'' g = Get ''destination'' sampleSend"
proof (rule send_reaches_all_devices [OF sampleServer_reachable sampleOrd_ok _ sampleSend_parses])
  show "srv_loops sampleServer 1 = Some (''bob'', '''')"
    by (simp add: sampleServer_def ws_start_def)
  show "frame_Command sampleSend = StompSend"
    by (simp add: sampleSend_def SendFrame_def Set_def NewFrame_def)
  show "DecodeClipboardData (frame_Body sampleSend) \<noteq> None"
    using decode_encode_clipboard [of zeroClipboard]
    by (simp add: sampleSend_def SendFrame_def clipboard_ints_ok_def zeroClipboard_def)
qed

section \<open>Statistics\<close>

abbreviation allConns :: "'a groups \<Rightarrow> conn list" where
  "allConns g \<equiv> concat (map (\<lambda>(_, conns). map fst conns) g)"

lemma length_allConns: "length (allConns g) = sum_list (map (\<lambda>(_, conns). length conns) g)"
  by (induction g) auto

lemma distinct_allConns:
  "distinct (map fst g) \<Longrightarrow> (\<And>u xs. (u, xs) \<in> set g \<Longrightarrow> distinct (map fst xs)) \<Longrightarrow>
     (\<And>u v xs ys. (u, xs) \<in> set g \<Longrightarrow> (v, ys) \<in> set g \<Longrightarrow> u \<noteq> v \<Longrightarrow>
        fst ` set xs \<inter> fst ` set ys = {}) \<Longrightarrow>
     distinct (allConns g)"
proof (induction g)
  case (Cons p g)
  obtain u xs where p: "p = (u, xs)" by (cases p)
  have "distinct (allConns g)"
  proof (rule Cons.IH)
    show "distinct (map fst g)" using Cons.prems(1) by simp
  qed (use Cons.prems(2,3) in \<open>meson list.set_intros(2)\<close>)+
  moreover have "fst ` set xs \<inter> fst ` set ys = {}" if "(v, ys) \<in> set g" for v ys
  proof (rule Cons.prems(3))
    show "u \<noteq> v" using Cons.prems(1) p that by force
  qed (use p that in simp_all)
  ultimately show ?case using Cons.prems(2) [of u xs] p by fastforce
qed simp

lemma group_conns:
  assumes "hub.represents h l"
  shows "fst ` set (group (hub_connections h) u) = {c. l (u, c) = Some ()}"
proof -
  have "fst ` set (group (hub_connections h) u) = set (map fst (hub_members h u))"
    unfolding fst_hub_members by simp
  also have "\<dots> = {c. l (u, c) = Some ()}"
    using hub.set_members [OF assms, of u] by force
  finally show ?thesis .
qed

lemma stats_count:
  assumes "hub.represents h l" "groups_ok (hub_connections h)"
  shows "fst (Stats h) = int (card (live_conns l))"
proof -
  let ?g = "hub_connections h"
  have grp: "conns = group ?g u" if "(u, conns) \<in> set ?g" for u conns
    using assms(2) that by (simp add: groups_ok_def group_def)
  have in_g: "(u, group ?g u) \<in> set ?g" if "group ?g u \<noteq> []" for u
    using that by (auto simp: group_def map_of_SomeD split: option.splits)
  have "set (allConns ?g) = live_conns l"
  proof
    show "set (allConns ?g) \<subseteq> live_conns l"
    proof
      fix c assume "c \<in> set (allConns ?g)"
      then obtain u conns where uc: "(u, conns) \<in> set ?g" "c \<in> fst ` set conns" by auto
      then have "l (u, c) = Some ()" using grp [OF uc(1)] group_conns [OF assms(1), of u] by blast
      then show "c \<in> live_conns l" unfolding live_conns_def by blast
    qed
    show "live_conns l \<subseteq> set (allConns ?g)"
    proof
      fix c assume "c \<in> live_conns l"
      then obtain u where "l (u, c) = Some ()" by (auto simp: live_conns_def)
      then have "c \<in> fst ` set (group ?g u)" using group_conns [OF assms(1), of u] by blast
      moreover from this have "(u, group ?g u) \<in> set ?g" by (intro in_g) auto
      ultimately show "c \<in> set (allConns ?g)" by force
    qed
  qed
  moreover have "distinct (allConns ?g)"
  proof (rule distinct_allConns)
    show "distinct (map fst ?g)" using assms(2) by (simp add: groups_ok_def)
    show "distinct (map fst xs)" if "(u, xs) \<in> set ?g" for u xs
      using grp [OF that] hub.distinct_members [OF assms(1), of u] by (simp add: fst_hub_members)
    have "one_user l" using assms(1) by (simp add: hub.represents_def)
    then show "fst ` set xs \<inter> fst ` set ys = {}"
      if "(u, xs) \<in> set ?g" "(v, ys) \<in> set ?g" "u \<noteq> v" for u v xs ys
      using that(3) unfolding grp [OF that(1)] grp [OF that(2)] group_conns [OF assms(1)] one_user_def
      by blast
  qed
  ultimately show ?thesis
    by (metis Stats_def distinct_card fst_conv length_allConns)
qed

text \<open>
  C39: In every reachable server the connections the hub holds are exactly those whose handler is in
  its loop, each under the handler's non-empty user name only, each with a write lock; no user is left
  with an empty entry, and the reported number of active connections is the number of loops running.
\<close>

theorem hub_matches_handlers:
  assumes "ws_reachable ord s"
  shows "(\<forall>u c. c \<in> fst ` set (group (hub_connections (srv_hub s)) u) \<longleftrightarrow>
            (\<exists>sub. srv_loops s c = Some (u, sub))) \<and>
     hub_writeLocks (srv_hub s) = dom (srv_loops s) \<and>
     srv_loops s c \<noteq> Some ('''', sub) \<and>
     (\<forall>(u, conns)\<in>set (hub_connections (srv_hub s)). conns \<noteq> []) \<and>
     fst (Stats (srv_hub s)) = int (card (dom (srv_loops s)))"
proof -
  have inv: "ws_inv s" using assms by (rule ws_inv_reachable)
  then have rep: "hub.represents (srv_hub s) (loops_live s)"
    and gok: "groups_ok (hub_connections (srv_hub s))" by (simp_all add: ws_inv_def)
  have conns: "live_conns (loops_live s) = dom (srv_loops s)"
    by (auto simp: live_conns_def loops_live_def split: option.splits)
  have "c \<in> fst ` set (group (hub_connections (srv_hub s)) u) \<longleftrightarrow>
      (\<exists>sub. srv_loops s c = Some (u, sub))" for u c
    unfolding group_conns [OF rep] by (auto simp: loops_live_def split: option.splits)
  moreover have "hub_writeLocks (srv_hub s) = dom (srv_loops s)"
    using rep conns by (simp add: hub.represents_def)
  moreover have "srv_loops s c \<noteq> Some ('''', sub)" using inv by (auto simp: ws_inv_def)
  ultimately show ?thesis
    using gok stats_count [OF rep gok] conns by (simp add: groups_ok_def)
qed

theorem hub_matches_handlers_witness:
  "hub_writeLocks (srv_hub sampleServer) = {1, 2} \<and> fst (Stats (srv_hub sampleServer)) = 2"
proof -
  have "dom (srv_loops sampleServer) = {1, 2}"
    by (auto simp: sampleServer_def ws_start_def split: if_splits)
  then show ?thesis
    using hub_matches_handlers [OF sampleServer_reachable] by simp
qed

end
