(* ===== verification/P2PSignal.thy ===== *)
theory P2PSignal
  imports WsHub
begin

text \<open>
  The WebRTC signaling endpoint of the server (\<open>server/handler/p2p_signaling.go\<close>): sessions grouped by
  user, each connection with its session id, and the routing of signals between them. As in \<open>WsHub\<close> a
  handler is one step per event of its connection. The bytes of \<open>rand.Read\<close> are an argument (\<open>None\<close>
  when it fails). A signal's \<open>Data\<close> is the JSON value \<open>RawMessage\<close> holds the text of: what is
  passed on is this value written again, while the source passes on the text (compacted and with the escapes of
  HTML characters when it is marshalled).
\<close>

section \<open>Signals\<close>

record SignalMessage =
  sig_Type :: string
  sig_From :: string
  sig_To :: string
  sig_SessionID :: string
  sig_Data :: json

definition zeroSignal :: SignalMessage where
  "zeroSignal = \<lparr>sig_Type = '''', sig_From = '''', sig_To = '''', sig_SessionID = '''', sig_Data = JNull\<rparr>"

definition signalJSON :: "SignalMessage \<Rightarrow> json" where
  "signalJSON m = JObj [(''type'', JStr (sig_Type m)), (''from'', JStr (sig_From m)),
     (''to'', JStr (sig_To m)), (''session_id'', JStr (sig_SessionID m)), (''data'', sig_Data m)]"

definition signalFields :: "SignalMessage fields" where
  "signalFields = [(''type'', setStr (\<lambda>s r. r\<lparr>sig_Type := s\<rparr>)),
     (''from'', setStr (\<lambda>s r. r\<lparr>sig_From := s\<rparr>)), (''to'', setStr (\<lambda>s r. r\<lparr>sig_To := s\<rparr>)),
     (''session_id'', setStr (\<lambda>s r. r\<lparr>sig_SessionID := s\<rparr>)),
     (''data'', \<lambda>v r. Some (r\<lparr>sig_Data := v\<rparr>))]"

abbreviation "encodeSignal \<equiv> EncodePayload signalJSON"
abbreviation "decodeSignal \<equiv> DecodePayload signalFields zeroSignal"

definition generateSessionID :: "octet list option \<Rightarrow> string" where
  "generateSessionID random =
     (case random of None \<Rightarrow> ''peer-fallback'' | Some b \<Rightarrow> ''peer-'' @ hexBytes b)"

section \<open>State and routing\<close>

record P2PSignaling =
  p2p_sessions :: "string groups"
  p2p_writeLocks :: "conn set"
  p2p_readLimitBytes :: int64

definition NewP2PSignaling :: "int64 list \<Rightarrow> P2PSignaling" where
  "NewP2PSignaling readLimitBytes =
     \<lparr>p2p_sessions = [], p2p_writeLocks = {},
      p2p_readLimitBytes = (case readLimitBytes of
                              [] \<Rightarrow> defaultWebSocketReadLimitBytes
                            | l # _ \<Rightarrow> normalizeWebSocketReadLimitBytes l)\<rparr>"

definition p2pRegister :: "string \<Rightarrow> conn \<Rightarrow> string \<Rightarrow> P2PSignaling \<Rightarrow> P2PSignaling" where
  "p2pRegister username c sessionID p =
     p\<lparr>p2p_sessions := group_add (p2p_sessions p) username c sessionID,
       p2p_writeLocks := insert c (p2p_writeLocks p)\<rparr>"

definition p2pUnregister :: "string \<Rightarrow> conn \<Rightarrow> P2PSignaling \<Rightarrow> P2PSignaling" where
  "p2pUnregister username c p =
     p\<lparr>p2p_sessions := group_remove (p2p_sessions p) username c,
       p2p_writeLocks := p2p_writeLocks p - {c}\<rparr>"

text \<open>Writing to targets skips those without a write lock.\<close>

definition writeTargets :: "P2PSignaling \<Rightarrow> bytes \<Rightarrow> conn list \<Rightarrow> ws_out list" where
  "writeTargets p data targets =
     map (\<lambda>conn. WriteTo conn data) (filter (\<lambda>conn. conn \<in> p2p_writeLocks p) targets)"

definition routeTargets :: "(conn \<times> string) list \<Rightarrow> conn \<Rightarrow> SignalMessage \<Rightarrow> conn list" where
  "routeTargets conns sender signal =
     (if sig_To signal \<noteq> '''' then
        (case List.find (\<lambda>(conn, sid). sid = sig_To signal \<and> conn \<noteq> sender) conns of
           None \<Rightarrow> [] | Some (conn, _) \<Rightarrow> [conn])
      else map fst (filter (\<lambda>(conn, _). conn \<noteq> sender) conns))"

definition routeMessage :: "string \<Rightarrow> conn \<Rightarrow> SignalMessage \<Rightarrow> P2PSignaling \<Rightarrow> ws_out list" where
  "routeMessage username sender signal p =
     (case map_of (p2p_sessions p) username of
        None \<Rightarrow> []
      | Some conns \<Rightarrow> writeTargets p (encodeSignal signal) (routeTargets conns sender signal))"

definition broadcastPeerList :: "string \<Rightarrow> P2PSignaling \<Rightarrow> ws_out list" where
  "broadcastPeerList username p =
     (case map_of (p2p_sessions p) username of
        None \<Rightarrow> []
      | Some conns \<Rightarrow>
          (let peers = map snd conns;
               msg = encodeSignal (zeroSignal\<lparr>sig_Type := ''peer-list'', sig_Data := JArr (map JStr peers)\<rparr>)
           in writeTargets p msg (map fst conns)))"

definition p2pStats :: "P2PSignaling \<Rightarrow> nat \<times> nat" where
  "p2pStats p = (length (p2p_sessions p), sum_list (map (\<lambda>(_, conns). length conns) (p2p_sessions p)))"

record P2PServer =
  sgn_hub :: P2PSignaling
  sgn_loops :: "conn \<Rightarrow> (string \<times> string) option"

datatype p2p_event = PeerUpgraded conn string "octet list option" | PeerInbound conn bytes
  | PeerFailed conn

fun HandleP2P :: "p2p_event \<Rightarrow> P2PServer \<Rightarrow> P2PServer \<times> ws_out list" where
  "HandleP2P (PeerUpgraded c username random) s =
     (if username = '''' then (s, [CloseConn c])
      else
        (let sessionID = generateSessionID random;
             p = p2pRegister username c sessionID (sgn_hub s);
             initMsg = encodeSignal (zeroSignal\<lparr>sig_Type := ''session-id'', sig_SessionID := sessionID\<rparr>) in
         (s\<lparr>sgn_hub := p, sgn_loops := (sgn_loops s)(c \<mapsto> (username, sessionID))\<rparr>,
          SetReadLimit c (applyWebSocketReadLimit (p2p_readLimitBytes (sgn_hub s))) #
            WriteTo c initMsg # broadcastPeerList username p)))"
| "HandleP2P (PeerInbound c msg) s =
     (case sgn_loops s c of
        None \<Rightarrow> (s, [])
      | Some (username, sessionID) \<Rightarrow>
          (case decodeSignal msg of
             None \<Rightarrow> (s, [])
           | Some signal \<Rightarrow>
               (s, routeMessage username c (signal\<lparr>sig_From := sessionID\<rparr>) (sgn_hub s))))"
| "HandleP2P (PeerFailed c) s =
     (case sgn_loops s c of
        None \<Rightarrow> (s, [])
      | Some (username, _) \<Rightarrow>
          (let p = p2pUnregister username c (sgn_hub s) in
           (s\<lparr>sgn_hub := p, sgn_loops := (sgn_loops s)(c := None)\<rparr>,
            CloseConn c # broadcastPeerList username p)))"

section \<open>The sessions are a connection registry\<close>

definition peer_members :: "P2PSignaling \<Rightarrow> string \<Rightarrow> (conn \<times> string) list" where
  "peer_members p u = group (p2p_sessions p) u"

interpretation peers: conn_registry
  "\<lambda>p u c sid. p2pRegister u c sid p" "\<lambda>p u c. p2pUnregister u c p" peer_members p2p_writeLocks
  by unfold_locales
    (auto simp: peer_members_def p2pRegister_def p2pUnregister_def map_of_group_add
      map_of_group_remove distinct_group)

definition peers_live :: "P2PServer \<Rightarrow> string live" where
  "peers_live s = (\<lambda>(u, c). case sgn_loops s c of
                             Some (v, sid) \<Rightarrow> if v = u then Some sid else None
                           | None \<Rightarrow> None)"

fun p2p_enabled :: "p2p_event \<Rightarrow> P2PServer \<Rightarrow> bool" where
  "p2p_enabled (PeerUpgraded c username random) s \<longleftrightarrow> sgn_loops s c = None"
| "p2p_enabled _ s \<longleftrightarrow> True"

definition p2p_start :: "int64 list \<Rightarrow> P2PServer" where
  "p2p_start limits = \<lparr>sgn_hub = NewP2PSignaling limits, sgn_loops = \<lambda>_. None\<rparr>"

inductive p2p_reachable :: "P2PServer \<Rightarrow> bool" where
  start: "p2p_reachable (p2p_start limits)"
| event: "p2p_reachable s \<Longrightarrow> p2p_enabled e s \<Longrightarrow> p2p_reachable (fst (HandleP2P e s))"

definition p2p_inv :: "P2PServer \<Rightarrow> bool" where
  "p2p_inv s \<longleftrightarrow> peers.represents (sgn_hub s) (peers_live s)"

lemma p2p_inv_step:
  assumes "p2p_inv s" "p2p_enabled e s"
  shows "p2p_inv (fst (HandleP2P e s))"
proof (cases e)
  case (PeerUpgraded c u r)
  have free: "sgn_loops s c = None" using assms(2) PeerUpgraded by simp
  let ?sid = "generateSessionID r"
  have "peers_live (s\<lparr>sgn_hub := p2pRegister u c ?sid (sgn_hub s),
        sgn_loops := (sgn_loops s)(c \<mapsto> (u, ?sid))\<rparr>) = (peers_live s)((u, c) \<mapsto> ?sid)"
    using free by (auto simp: peers_live_def fun_eq_iff)
  moreover have "\<forall>v. peers_live s (v, c) = None" using free by (simp add: peers_live_def)
  ultimately show ?thesis
    using assms(1) PeerUpgraded peers.represents_register [of "sgn_hub s" "peers_live s" c u ?sid]
    by (auto simp: p2p_inv_def Let_def)
next
  case (PeerInbound c msg)
  then show ?thesis using assms(1) by (auto split: option.split)
next
  case (PeerFailed c)
  show ?thesis
  proof (cases "sgn_loops s c")
    case (Some us)
    obtain u sid where us: "us = (u, sid)" by (cases us)
    have "peers_live (s\<lparr>sgn_hub := p2pUnregister u c (sgn_hub s), sgn_loops := (sgn_loops s)(c := None)\<rparr>)
        = (peers_live s)((u, c) := None)"
      using Some us by (auto simp: peers_live_def fun_eq_iff split: option.splits)
    moreover have "peers_live s (u, c) \<noteq> None" using Some us by (simp add: peers_live_def)
    ultimately show ?thesis
      using assms(1) PeerFailed Some us
        peers.represents_unregister [of "sgn_hub s" "peers_live s" u c]
      by (auto simp: p2p_inv_def Let_def)
  qed (use PeerFailed assms(1) in simp)
qed

lemma p2p_inv_reachable: "p2p_reachable s \<Longrightarrow> p2p_inv s"
proof (induction rule: p2p_reachable.induct)
  case (start limits)
  have "peers_live (p2p_start limits) = (\<lambda>_. None)"
    by (simp add: peers_live_def p2p_start_def fun_eq_iff)
  moreover have "peers.represents (NewP2PSignaling limits) (\<lambda>_. None)"
    by (rule peers.represents_fresh) (simp_all add: NewP2PSignaling_def peer_members_def group_def)
  ultimately show ?case by (simp add: p2p_inv_def) (simp add: p2p_start_def)
qed (simp add: p2p_inv_step)

lemma p2p_members:
  assumes "p2p_inv s"
  shows "set (group (p2p_sessions (sgn_hub s)) u) = {(c, sid). sgn_loops s c = Some (u, sid)}"
    "distinct (map fst (group (p2p_sessions (sgn_hub s)) u))"
    "\<forall>(c, sid)\<in>set (group (p2p_sessions (sgn_hub s)) u). c \<in> p2p_writeLocks (sgn_hub s)"
proof -
  have rep: "peers.represents (sgn_hub s) (peers_live s)" using assms by (simp add: p2p_inv_def)
  show "set (group (p2p_sessions (sgn_hub s)) u) = {(c, sid). sgn_loops s c = Some (u, sid)}"
    using peers.set_members [OF rep, of u]
    by (auto simp: peer_members_def peers_live_def split: option.splits if_splits)
  show "distinct (map fst (group (p2p_sessions (sgn_hub s)) u))"
    using peers.distinct_members [OF rep, of u] by (simp add: peer_members_def)
  show "\<forall>(c, sid)\<in>set (group (p2p_sessions (sgn_hub s)) u). c \<in> p2p_writeLocks (sgn_hub s)"
    using peers.members_locked [OF rep, of _ _ u] by (auto simp: peer_members_def)
qed

lemma writeTargets_all:
  "set targets \<subseteq> p2p_writeLocks p \<Longrightarrow> writeTargets p data targets = map (\<lambda>d. WriteTo d data) targets"
  unfolding writeTargets_def by (subst filter_True) auto

lemma routeTargets_spec:
  fixes conns :: "(conn \<times> string) list" and c :: conn and m :: SignalMessage
  assumes "distinct (map fst conns)"
  shows "distinct (routeTargets conns c m)" "set (routeTargets conns c m) \<subseteq> fst ` set conns - {c}"
    "sig_To m = '''' \<Longrightarrow> set (routeTargets conns c m) = fst ` set conns - {c}"
    "sig_To m \<noteq> '''' \<Longrightarrow> length (routeTargets conns c m) \<le> 1 \<and>
       (\<forall>d\<in>set (routeTargets conns c m). (d, sig_To m) \<in> set conns) \<and>
       (routeTargets conns c m = [] \<longrightarrow> (\<forall>d. (d, sig_To m) \<in> set conns \<longrightarrow> d = c))"
proof -
  have "distinct (map fst (filter (\<lambda>(d, _). d \<noteq> c) conns))"
    using assms by (rule distinct_map_filter)
  then show "distinct (routeTargets conns c m)"
    by (auto simp: routeTargets_def split: option.split)
  show "set (routeTargets conns c m) \<subseteq> fst ` set conns - {c}"
    by (auto simp: routeTargets_def image_iff split: option.splits dest!: find_SomeD [OF sym]) force+
  show "sig_To m = '''' \<Longrightarrow> set (routeTargets conns c m) = fst ` set conns - {c}"
    by (force simp: routeTargets_def)
  show "sig_To m \<noteq> '''' \<Longrightarrow> length (routeTargets conns c m) \<le> 1 \<and>
       (\<forall>d\<in>set (routeTargets conns c m). (d, sig_To m) \<in> set conns) \<and>
       (routeTargets conns c m = [] \<longrightarrow> (\<forall>d. (d, sig_To m) \<in> set conns \<longrightarrow> d = c))"
    by (auto simp: routeTargets_def find_None_iff split: option.splits prod.splits
        dest!: find_SomeD find_SomeD [OF sym])
qed

lemma map_of_group: "c \<in> fst ` set (group g u) \<Longrightarrow> map_of g u = Some (group g u)"
  by (cases "map_of g u") (auto simp: group_def)

lemma peer_list_writes:
  assumes "p2p_inv s"
  shows "\<exists>targets. broadcastPeerList u (sgn_hub s) =
       map (\<lambda>d. WriteTo d (encodeSignal (zeroSignal\<lparr>sig_Type := ''peer-list'',
         sig_Data := JArr (map (\<lambda>d. JStr (snd (the (sgn_loops s d)))) targets)\<rparr>))) targets \<and>
     distinct targets \<and> set targets = {d. \<exists>sid. sgn_loops s d = Some (u, sid)}"
proof (intro exI conjI)
  let ?g = "group (p2p_sessions (sgn_hub s)) u"
  note mem = p2p_members [OF assms, of u]
  show "distinct (map fst ?g)" by (rule mem(2))
  show "set (map fst ?g) = {d. \<exists>sid. sgn_loops s d = Some (u, sid)}"
    using mem(1) by (force simp: image_iff)
  have sids: "map (\<lambda>d. JStr (snd (the (sgn_loops s d)))) (map fst ?g) = map JStr (map snd ?g)"
    using mem(1) by (auto simp: comp_def intro!: map_cong)
  have locked: "set (map fst ?g) \<subseteq> p2p_writeLocks (sgn_hub s)" using mem(3) by auto
  show "broadcastPeerList u (sgn_hub s) =
       map (\<lambda>d. WriteTo d (encodeSignal (zeroSignal\<lparr>sig_Type := ''peer-list'',
         sig_Data := JArr (map (\<lambda>d. JStr (snd (the (sgn_loops s d)))) (map fst ?g))\<rparr>))) (map fst ?g)"
    unfolding sids using writeTargets_all [OF locked]
    by (auto simp: broadcastPeerList_def group_def Let_def split: option.split)
qed

text \<open>
  C25: In every reachable signaling server, a signal a peer of user \<open>u\<close> sends reaches only other peers of
  \<open>u\<close>, each at most once, with the sender's own session id as its \<open>from\<close> whatever the message said. An
  addressed signal goes to one peer with that session id when there is one and to nobody otherwise; one
  without address goes to every other peer of \<open>u\<close>.
\<close>

theorem signal_routing:
  assumes "p2p_reachable s" "sgn_loops s c = Some (u, sid)" "decodeSignal msg = Some m"
  shows "\<exists>targets. snd (HandleP2P (PeerInbound c msg) s) =
       map (\<lambda>d. WriteTo d (encodeSignal (m\<lparr>sig_From := sid\<rparr>))) targets \<and> distinct targets \<and>
     (if sig_To m = '''' then set targets = {d. d \<noteq> c \<and> (\<exists>x. sgn_loops s d = Some (u, x))}
      else length targets \<le> 1 \<and>
        (\<forall>d\<in>set targets. d \<noteq> c \<and> sgn_loops s d = Some (u, sig_To m)) \<and>
        (targets = [] \<longleftrightarrow> (\<nexists>d. d \<noteq> c \<and> sgn_loops s d = Some (u, sig_To m))))"
proof -
  let ?g = "group (p2p_sessions (sgn_hub s)) u"
  let ?m = "m\<lparr>sig_From := sid\<rparr>"
  let ?targets = "routeTargets ?g c ?m"
  note mem = p2p_members [OF p2p_inv_reachable [OF assms(1)], of u]
  note spec = routeTargets_spec [OF mem(2), where c = c and m = ?m]
  have "c \<in> fst ` set ?g" using mem(1) assms(2) by force
  then have g: "map_of (p2p_sessions (sgn_hub s)) u = Some ?g" by (rule map_of_group)
  have "fst ` set ?g \<subseteq> p2p_writeLocks (sgn_hub s)" using mem(3) by auto
  with spec(2) have "set ?targets \<subseteq> p2p_writeLocks (sgn_hub s)" by blast
  then have outs: "snd (HandleP2P (PeerInbound c msg) s) =
      map (\<lambda>d. WriteTo d (encodeSignal ?m)) ?targets"
    using assms(2,3) g by (simp add: routeMessage_def writeTargets_all)
  have fst_g: "fst ` set ?g = {d. \<exists>x. sgn_loops s d = Some (u, x)}"
    using mem(1) by (force simp: image_iff)
  have in_g: "(d, x) \<in> set ?g \<longleftrightarrow> sgn_loops s d = Some (u, x)" for d x
    using mem(1) by auto
  show ?thesis
  proof (intro exI [of _ ?targets] conjI)
    show "if sig_To m = '''' then set ?targets = {d. d \<noteq> c \<and> (\<exists>x. sgn_loops s d = Some (u, x))}
      else length ?targets \<le> 1 \<and>
        (\<forall>d\<in>set ?targets. d \<noteq> c \<and> sgn_loops s d = Some (u, sig_To m)) \<and>
        (?targets = [] \<longleftrightarrow> (\<nexists>d. d \<noteq> c \<and> sgn_loops s d = Some (u, sig_To m)))"
    proof (cases "sig_To m = ''''")
      case True
      then show ?thesis using spec(3) fst_g by auto
    next
      case False
      have "?targets \<noteq> []" if "sgn_loops s d = Some (u, sig_To m)" "d \<noteq> c" for d
        using spec(4) False that in_g [of d "sig_To m"] by auto
      moreover have "\<forall>d\<in>set ?targets. d \<noteq> c \<and> sgn_loops s d = Some (u, sig_To m)"
        using spec(2,4) False in_g by auto
      ultimately show ?thesis using spec(4) False by (cases ?targets) auto
    qed
  qed (use outs spec(1) in simp_all)
qed

text \<open>
  Whenever a peer of user \<open>u\<close> joins or leaves a reachable signaling server, every peer of \<open>u\<close> that is
  then connected (a joining peer included) is sent, once, the list of the session ids of all of them.
\<close>

theorem peer_list_complete:
  assumes "p2p_reachable s" "p2p_enabled e s"
    and "(\<exists>c r. e = PeerUpgraded c u r \<and> u \<noteq> '''') \<or> (\<exists>c sid. e = PeerFailed c \<and> sgn_loops s c = Some (u, sid))"
  defines "s' \<equiv> fst (HandleP2P e s)"
  shows "\<exists>pre targets. snd (HandleP2P e s) = pre @
       map (\<lambda>d. WriteTo d (encodeSignal (zeroSignal\<lparr>sig_Type := ''peer-list'',
         sig_Data := JArr (map (\<lambda>d. JStr (snd (the (sgn_loops s' d)))) targets)\<rparr>))) targets \<and>
     distinct targets \<and> set targets = {d. \<exists>sid. sgn_loops s' d = Some (u, sid)}"
proof -
  have "p2p_inv s'"
    unfolding s'_def by (intro p2p_inv_reachable p2p_reachable.event assms(1,2))
  moreover have "\<exists>pre. snd (HandleP2P e s) = pre @ broadcastPeerList u (sgn_hub s')"
    using assms(3)
    by (auto simp: s'_def Let_def intro: exI [of _ "[_]"] exI [of _ "[_, _]"])
  ultimately show ?thesis using peer_list_writes [of s' u] by metis
qed


section \<open>A signaling server with two peers\<close>

definition signal_ok :: "SignalMessage \<Rightarrow> bool" where
  "signal_ok m \<longleftrightarrow> list_all utf8ok [sig_Type m, sig_From m, sig_To m, sig_SessionID m] \<and>
     wfJSON (sig_Data m) \<and> normJSON (sig_Data m) = sig_Data m"

lemma signalFields_keys [simp]: "list_all (\<lambda>f. isKey (fst f)) signalFields"
  by (simp add: signalFields_def)

lemma signal_roundtrip: "signal_ok m \<Longrightarrow> decodeSignal (encodeSignal m) = Some m"
  by (simp add: signal_ok_def signalJSON_def struct_simps) (simp add: signalFields_def zeroSignal_def)

interpretation signal_code: codec encodeSignal decodeSignal signal_ok
  by unfold_locales (rule signal_roundtrip)

definition sampleOffer :: SignalMessage where
  "sampleOffer = zeroSignal\<lparr>sig_Type := ''offer'', sig_From := ''peer-forged'', sig_Data := JStr ''sdp''\<rparr>"

definition samplePeers :: P2PServer where
  "samplePeers = fst (HandleP2P (PeerUpgraded 2 ''bob'' (Some [2]))
     (fst (HandleP2P (PeerUpgraded 1 ''bob'' (Some [1])) (p2p_start []))))"

lemma samplePeers_reachable: "p2p_reachable samplePeers"
  unfolding samplePeers_def
  by (intro p2p_reachable.event p2p_reachable.start) (simp_all add: p2p_start_def Let_def)

lemma samplePeers_loops:
  "sgn_loops samplePeers = [1 \<mapsto> (''bob'', ''peer-01''), 2 \<mapsto> (''bob'', ''peer-02'')]"
  by (simp add: samplePeers_def p2p_start_def Let_def generateSessionID_def hexBytes_def hexByte_def
      hextable_def)

lemma ascii_utf8ok: "asciiStr s \<Longrightarrow> toValidUTF8 s = s"
  by (auto simp: asciiStr_def list_all_iff intro!: toValidUTF8_id validUTF8_ascii)

theorem signal_routing_witness:
  "\<exists>targets. snd (HandleP2P (PeerInbound 1 (encodeSignal sampleOffer)) samplePeers) =
       map (\<lambda>d. WriteTo d (encodeSignal (sampleOffer\<lparr>sig_From := ''peer-01''\<rparr>))) targets \<and>
     set targets = {2}"
proof -
  have "signal_ok sampleOffer"
    by (simp add: signal_ok_def sampleOffer_def zeroSignal_def ascii_utf8ok asciiStr_def)
  then have dec: "decodeSignal (encodeSignal sampleOffer) = Some sampleOffer" by (rule signal_roundtrip)
  have "sgn_loops samplePeers 1 = Some (''bob'', ''peer-01'')" by (simp add: samplePeers_loops)
  from signal_routing [OF samplePeers_reachable this dec] obtain targets where
    "snd (HandleP2P (PeerInbound 1 (encodeSignal sampleOffer)) samplePeers) =
       map (\<lambda>d. WriteTo d (encodeSignal (sampleOffer\<lparr>sig_From := ''peer-01''\<rparr>))) targets"
    "set targets = {d. d \<noteq> 1 \<and> (\<exists>x. sgn_loops samplePeers d = Some (''bob'', x))}"
    by (auto simp: sampleOffer_def zeroSignal_def)
  moreover have "{d. d \<noteq> 1 \<and> (\<exists>x. sgn_loops samplePeers d = Some (''bob'', x))} = {2}"
    by (auto simp: samplePeers_loops split: if_splits)
  ultimately show ?thesis by auto
qed

theorem peer_list_complete_witness:
  "\<exists>pre targets. snd (HandleP2P (PeerFailed 1) samplePeers) = pre @
       map (\<lambda>d. WriteTo d (encodeSignal (zeroSignal\<lparr>sig_Type := ''peer-list'',
         sig_Data := JArr (map (\<lambda>d. JStr (snd (the (sgn_loops (fst (HandleP2P (PeerFailed 1) samplePeers)) d))))
           targets)\<rparr>))) targets \<and>
     distinct targets \<and>
     set targets = {d. \<exists>sid. sgn_loops (fst (HandleP2P (PeerFailed 1) samplePeers)) d = Some (''bob'', sid)}"
  by (rule peer_list_complete [OF samplePeers_reachable]) (simp_all add: samplePeers_loops)


end
