(* ===== verification/GoPaths.thy ===== *)
theory GoPaths
  imports GoStrings
begin

text \<open>
  \<open>path.Clean\<close>, \<open>Join\<close>, \<open>IsAbs\<close>, \<open>Base\<close>, \<open>Dir\<close>, \<open>Abs\<close> and \<open>Rel\<close> of Go's \<open>path\<close> and (on Unix)
  \<open>path/filepath\<close>, by the components of a path; and the theorem every containment check of the program
  rests on: \<open>Rel\<close> from a base leaves the base exactly when its result climbs.
\<close>

abbreviation slash :: char where "slash \<equiv> CHR ''/''"
abbreviation dotdot :: string where "dotdot \<equiv> ''..''"

definition IsAbs :: "string \<Rightarrow> bool" where
  "IsAbs p \<longleftrightarrow> hasPrefix p ''/''"

text \<open>The lexical walk: empty and dot components vanish, a dotdot removes what precedes it.\<close>

fun cleanComps :: "bool \<Rightarrow> string list \<Rightarrow> string list \<Rightarrow> string list" where
  "cleanComps rooted out [] = rev out"
| "cleanComps rooted out (c # cs) =
     (if c = '''' \<or> c = ''.'' then cleanComps rooted out cs
      else if c = dotdot then
        (case out of
           [] \<Rightarrow> if rooted then cleanComps rooted out cs else cleanComps rooted [dotdot] cs
         | t # ts \<Rightarrow> if t = dotdot then cleanComps rooted (dotdot # out) cs
                     else cleanComps rooted ts cs)
      else cleanComps rooted (c # out) cs)"

definition comps :: "string \<Rightarrow> string list" where
  "comps p = cleanComps (IsAbs p) [] (splitChar slash p)"

definition unclean :: "bool \<Rightarrow> string list \<Rightarrow> string" where
  "unclean rooted cs =
     (if rooted then ''/'' @ joinChar ''/'' cs else if cs = [] then ''.'' else joinChar ''/'' cs)"

definition Clean :: "string \<Rightarrow> string" where
  "Clean p = unclean (IsAbs p) (comps p)"

definition JoinPath :: "string list \<Rightarrow> string" where
  "JoinPath elems =
     (let es = filter (\<lambda>e. e \<noteq> '''') elems in if es = [] then '''' else Clean (joinChar ''/'' es))"

definition Base :: "string \<Rightarrow> string" where
  "Base p =
     (if p = '''' then ''.''
      else (case rev (filter (\<lambda>c. c \<noteq> '''') (splitChar slash p)) of [] \<Rightarrow> ''/'' | c # _ \<Rightarrow> c))"

text \<open>\<open>Dir\<close>: everything before the last slash, cleaned.\<close>

definition DirOf :: "string \<Rightarrow> string" where
  "DirOf p = Clean (rev (dropWhile (\<lambda>c. c \<noteq> slash) (rev p)))"

definition Abs :: "string \<Rightarrow> string \<Rightarrow> string" where
  "Abs cwd p = (if IsAbs p then Clean p else JoinPath [cwd, p])"

fun stripCommon :: "string list \<Rightarrow> string list \<Rightarrow> string list \<times> string list" where
  "stripCommon (x # xs) (y # ys) = (if x = y then stripCommon xs ys else (x # xs, y # ys))"
| "stripCommon xs ys = (xs, ys)"

definition Rel :: "string \<Rightarrow> string \<Rightarrow> string result" where
  "Rel base targ =
     (if IsAbs base \<noteq> IsAbs targ then Inl ''Rel: can't make target relative to base''
      else
        (case stripCommon (comps base) (comps targ) of
           ([], []) \<Rightarrow> Inr ''.''
         | (b, t) \<Rightarrow>
             if b \<noteq> [] \<and> hd b = dotdot then Inl ''Rel: can't make target relative to base''
             else Inr (joinChar ''/'' (replicate (length b) dotdot @ t))))"

section \<open>Clean paths\<close>

definition plain_comp :: "string \<Rightarrow> bool" where
  "plain_comp c \<longleftrightarrow> c \<noteq> '''' \<and> c \<noteq> ''.'' \<and> c \<noteq> dotdot \<and> slash \<notin> set c"

definition clean_comps_ok :: "bool \<Rightarrow> string list \<Rightarrow> bool" where
  "clean_comps_ok rooted cs \<longleftrightarrow>
     (\<exists>n ps. cs = replicate n dotdot @ ps \<and> list_all plain_comp ps \<and> (rooted \<longrightarrow> n = 0))"

lemma cleanComps_ok:
  assumes "\<forall>c\<in>set cs. slash \<notin> set c" "clean_comps_ok rooted (rev out)"
  shows "clean_comps_ok rooted (cleanComps rooted out cs)"
  using assms
proof (induction rooted out cs rule: cleanComps.induct)
  case (2 rooted out c cs)
  obtain n ps where out: "rev out = replicate n dotdot @ ps" "list_all plain_comp ps" "rooted \<longrightarrow> n = 0"
    using "2.prems"(2) by (auto simp: clean_comps_ok_def)
  show ?case
  proof (cases "c = '''' \<or> c = ''.''")
    case True
    then show ?thesis using "2.IH"(1) "2.prems" by auto
  next
    case False
    show ?thesis
    proof (cases "c = dotdot")
      case True
      show ?thesis
      proof (cases out)
        case Nil
        have "clean_comps_ok False (rev [dotdot])"
          unfolding clean_comps_ok_def by (rule exI [of _ 1], rule exI [of _ "[]"]) simp
        then show ?thesis using "2.IH"(2,3) "2.prems" False True Nil by auto
      next
        case (Cons t ts)
        show ?thesis
        proof (cases "t = dotdot")
          case t: True
          have "ps = []"
          proof (rule ccontr)
            assume "ps \<noteq> []"
            then have "last (rev out) = last ps" using out(1) by simp
            moreover have "last ps \<in> set ps" using \<open>ps \<noteq> []\<close> by simp
            ultimately show False using out(2) Cons t by (auto simp: list_all_iff plain_comp_def)
          qed
          then have "clean_comps_ok rooted (rev (dotdot # out))"
            using out Cons unfolding clean_comps_ok_def
            by (intro exI [of _ "Suc n"] exI [of _ "[]"]) (auto simp: replicate_append_same)
          then show ?thesis using "2.IH"(4) "2.prems"(1) False True Cons t by auto
        next
          case t: False
          have "clean_comps_ok rooted (rev ts)"
          proof (cases ps rule: rev_cases)
            case Nil
            then have "out = replicate n dotdot" using out(1) by (metis append_Nil2 rev_replicate rev_rev_ident)
            then show ?thesis using Cons t by (cases n) auto
          next
            case (snoc qs q)
            then have "rev ts = replicate n dotdot @ qs" using out(1) Cons by simp
            then show ?thesis using out(2,3) snoc unfolding clean_comps_ok_def
              by (intro exI [of _ n] exI [of _ qs]) auto
          qed
          then show ?thesis using "2.IH"(5) "2.prems"(1) False True Cons t by auto
        qed
      qed
    next
      case ne: False
      have "plain_comp c" using False ne "2.prems"(1) by (auto simp: plain_comp_def)
      then have "clean_comps_ok rooted (rev (c # out))"
        using out unfolding clean_comps_ok_def
        by (intro exI [of _ n] exI [of _ "ps @ [c]"]) auto
      then show ?thesis using "2.IH"(6) "2.prems"(1) False ne by auto
    qed
  qed
qed simp

lemma cleanComps_append:
  "cleanComps r out (xs @ ys) = cleanComps r (rev (cleanComps r out xs)) ys"
  by (induction r out xs rule: cleanComps.induct) (auto split: list.splits)

lemma cleanComps_plain: "list_all plain_comp cs \<Longrightarrow> cleanComps r out cs = rev out @ cs"
  by (induction cs arbitrary: out) (auto simp: plain_comp_def)

lemma cleanComps_dotdots:
  "set out \<subseteq> {dotdot} \<Longrightarrow> cleanComps False out (replicate n dotdot) = rev out @ replicate n dotdot"
proof (induction n arbitrary: out)
  case (Suc n)
  have "cleanComps False out (replicate (Suc n) dotdot) = cleanComps False (dotdot # out) (replicate n dotdot)"
    using Suc.prems by (auto split: list.splits)
  also have "\<dots> = rev (dotdot # out) @ replicate n dotdot" using Suc by (intro Suc.IH) auto
  finally show ?case by simp
qed simp

lemma cleanComps_clean: "clean_comps_ok r cs \<Longrightarrow> cleanComps r [] cs = cs"
proof -
  assume "clean_comps_ok r cs"
  then obtain n ps where cs: "cs = replicate n dotdot @ ps" "list_all plain_comp ps" "r \<longrightarrow> n = 0"
    by (auto simp: clean_comps_ok_def)
  show ?thesis
  proof (cases r)
    case True
    then show ?thesis using cs by (simp add: cleanComps_plain)
  next
    case False
    then show ?thesis using cs by (simp add: cleanComps_append cleanComps_dotdots cleanComps_plain)
  qed
qed

lemma comps_ok: "clean_comps_ok (IsAbs p) (comps p)"
  unfolding comps_def
proof (rule cleanComps_ok)
  show "\<forall>c\<in>set (splitChar slash p). slash \<notin> set c" using splitChar_parts by blast
  show "clean_comps_ok (IsAbs p) (rev [])"
    unfolding clean_comps_ok_def by (intro exI [of _ 0] exI [of _ "[]"]) simp
qed

lemma clean_comp_chars:
  assumes "clean_comps_ok r cs" "c \<in> set cs"
  shows "c \<noteq> '''' \<and> c \<noteq> ''.'' \<and> slash \<notin> set c"
proof -
  obtain n ps where cs: "cs = replicate n dotdot @ ps" "list_all plain_comp ps"
    using assms(1) unfolding clean_comps_ok_def by blast
  then have "c = dotdot \<or> plain_comp c"
    using assms(2) by (simp add: list_all_iff set_replicate_conv_if split: if_splits) blast
  then show ?thesis by (elim disjE) (simp_all add: plain_comp_def)
qed

lemma comps_plain: "IsAbs p \<Longrightarrow> list_all plain_comp (comps p)"
  using comps_ok [of p] unfolding clean_comps_ok_def by fastforce

lemma splitChar_joinChar:
  "cs \<noteq> [] \<Longrightarrow> \<forall>c\<in>set cs. slash \<notin> set c \<Longrightarrow> splitChar slash (joinChar ''/'' cs) = cs"
proof (induction "''/''" cs rule: joinChar.induct)
  case (3 x y zs)
  then show ?case using splitChar_append [of slash x "joinChar ''/'' (y # zs)"] by simp
qed (auto simp: splitChar_no_sep)

lemma IsAbs_Cons [simp]: "IsAbs (c # s) \<longleftrightarrow> c = slash" "\<not> IsAbs []"
  by (auto simp: IsAbs_def hasPrefix_def)

lemma IsAbs_joinChar:
  "cs \<noteq> [] \<Longrightarrow> hd cs \<noteq> [] \<Longrightarrow> slash \<notin> set (hd cs) \<Longrightarrow> \<not> IsAbs (joinChar ''/'' cs)"
proof -
  assume a: "cs \<noteq> []" "hd cs \<noteq> []" "slash \<notin> set (hd cs)"
  then obtain c d xs where "cs = (d # xs) # c" by (cases cs; cases "hd cs") auto
  then show ?thesis using a by (cases c) auto
qed

lemma clean_unclean:
  assumes "clean_comps_ok r cs"
  shows "IsAbs (unclean r cs) = r" "comps (unclean r cs) = cs"
proof -
  have chars: "c \<noteq> '''' \<and> c \<noteq> ''.'' \<and> slash \<notin> set c" if "c \<in> set cs" for c
    using clean_comp_chars [OF assms that] .
  show abs: "IsAbs (unclean r cs) = r"
    using chars [of "hd cs"] IsAbs_joinChar [of cs] by (auto simp: unclean_def)
  show "comps (unclean r cs) = cs"
  proof (cases "cs = []")
    case True
    then show ?thesis by (auto simp: unclean_def comps_def)
  next
    case False
    then have s: "splitChar slash (joinChar ''/'' cs) = cs" using chars by (intro splitChar_joinChar) auto
    have "cleanComps r [] cs = cs" using assms by (rule cleanComps_clean)
    then show ?thesis
      unfolding comps_def abs using False s by (cases r) (simp_all add: unclean_def)
  qed
qed

lemma Clean_facts [simp]: "IsAbs (Clean p) = IsAbs p" "comps (Clean p) = comps p"
  unfolding Clean_def by (simp_all add: clean_unclean comps_ok)

lemma Clean_idem [simp]: "Clean (Clean p) = Clean p"
  by (simp add: Clean_def [of "Clean p"]) (simp add: Clean_def)

lemma comps_append: "comps (a @ slash # b) = cleanComps (IsAbs (a @ slash # b)) []
    (splitChar slash a @ splitChar slash b)"
proof -
  have "splitChar slash (a @ slash # b) = splitChar slash a @ splitChar slash b"
  proof (induction a)
    case (Cons x xs)
    then show ?case by (cases "splitChar slash xs") auto
  qed simp
  then show ?thesis by (simp add: comps_def)
qed

lemma JoinPath_two:
  assumes "a \<noteq> ''''" "b \<noteq> ''''"
  shows "JoinPath [a, b] = Clean (a @ slash # b)"
  using assms by (simp add: JoinPath_def)

text \<open>Joining an absolute path with clean plain components appends them.\<close>

lemma comps_JoinPath:
  assumes "IsAbs base" "b \<noteq> ''''" "list_all plain_comp (splitChar slash b)"
  shows "comps (JoinPath [base, b]) = comps base @ splitChar slash b" "IsAbs (JoinPath [base, b])"
proof -
  have ne: "base \<noteq> ''''" and abs: "IsAbs (base @ slash # b)" using assms(1) by (auto simp: IsAbs_def hasPrefix_def)
  show "IsAbs (JoinPath [base, b])" using abs by (simp add: JoinPath_two [OF ne assms(2)])
  show "comps (JoinPath [base, b]) = comps base @ splitChar slash b"
    using abs assms by (simp add: JoinPath_two [OF ne assms(2)] comps_append cleanComps_append
        cleanComps_plain) (simp add: comps_def)
qed

lemma stripCommon_split:
  "stripCommon xs ys = (b, t) \<Longrightarrow> \<exists>common. xs = common @ b \<and> ys = common @ t"
proof (induction xs ys arbitrary: b t rule: stripCommon.induct)
  case (1 x xs y ys)
  show ?case
  proof (cases "x = y")
    case True
    then obtain common where "xs = common @ b" "ys = common @ t" using 1 by auto
    then show ?thesis using True by (intro exI [of _ "x # common"]) simp
  qed (use 1 in auto)
qed auto

lemma stripCommon_prefix: "stripCommon xs (xs @ ys) = ([], ys)"
  by (induction xs) auto

text \<open>A relative path that climbs starts with a dotdot component.\<close>

definition climbs :: "string \<Rightarrow> bool" where
  "climbs rel \<longleftrightarrow> rel = dotdot \<or> hasPrefix rel (dotdot @ ''/'')"

lemma climbs_join: "climbs (joinChar ''/'' (dotdot # cs))"
  by (cases cs) (auto simp: climbs_def hasPrefix_def)

lemma Rel_below:
  assumes "Rel base targ = Inr rel" "\<not> climbs rel"
  shows "prefix (comps base) (comps targ)" "IsAbs base = IsAbs targ"
proof -
  obtain b t where bt: "stripCommon (comps base) (comps targ) = (b, t)" by fastforce
  have "b = []"
  proof (rule ccontr)
    assume "b \<noteq> []"
    then obtain x xs where "b = x # xs" by (cases b) auto
    then have "rel = joinChar ''/'' (dotdot # replicate (length xs) dotdot @ t)"
      using assms(1) bt by (auto simp: Rel_def split: if_splits)
    then show False using assms(2) climbs_join by simp
  qed
  then show "prefix (comps base) (comps targ)"
    using stripCommon_split [OF bt] by (auto simp: prefix_def)
  show "IsAbs base = IsAbs targ" using assms(1) by (auto simp: Rel_def split: if_splits)
qed

lemma Rel_of_below:
  assumes "IsAbs base = IsAbs targ" "comps targ = comps base @ rest"
  shows "Rel base targ = Inr (if rest = [] then ''.'' else joinChar ''/'' rest)"
  using assms by (simp add: Rel_def stripCommon_prefix split: list.split)


end
