(* ===== verification/History.thy ===== *)
theory History
  imports Constants
begin

text \<open>
  The history manager of \<open>desktop/history/history.go\<close>: the item record, the state machine of an
  item (\<open>validTransitions\<close>), the manager (items newest first, the active id, the capacity, whether
  a change callback is set) and every operation of it. \<open>time.Now()\<close> and the random bytes behind
  \<open>newUUID\<close> are arguments. An operation returns the new manager, its result and whether it called
  the change callback. Locks are not modelled: each operation is one atomic step.
\<close>

section \<open>State and data\<close>

text \<open>\<open>ItemState\<close> is a Go string type; \<open>StateOther s\<close> is any string that is no declared state.\<close>

datatype ItemState =
    StateReady
  | StateOffered
  | StateDownloading
  | StateReadyToPaste
  | StateFailed
  | StateConsumed
  | StateOther string

record HistoryItem =
  item_ID :: string
  item_Type :: string
  item_State :: ItemState
  item_Kind :: string
  item_DisplayName :: string
  item_Payload :: string
  item_PayloadType :: string
  item_FileName :: string
  item_SourceSessionID :: string
  item_SourceDevice :: string
  item_CreatedAt :: gotime
  item_UpdatedAt :: gotime
  item_TransferID :: string
  item_LocalPaths :: "string list"
  item_ReservedPaths :: "string list"
  item_PendingReplayMode :: string
  item_LastChunkIdx :: int
  item_ErrorMessage :: string

record Manager =
  mgr_items :: "HistoryItem list"
  mgr_activeID :: string
  mgr_maxItems :: int
  mgr_onChanged :: bool

definition defaultMaxItems :: int where
  "defaultMaxItems = 100"

fun validTransitions :: "ItemState \<Rightarrow> ItemState list option" where
  "validTransitions StateReady = Some [StateReady, StateConsumed, StateFailed]"
| "validTransitions StateOffered = Some [StateOffered, StateDownloading, StateFailed]"
| "validTransitions StateDownloading = Some [StateDownloading, StateReadyToPaste, StateFailed]"
| "validTransitions StateReadyToPaste = Some [StateReadyToPaste, StateConsumed, StateFailed]"
| "validTransitions StateFailed = Some [StateFailed, StateOffered, StateDownloading]"
| "validTransitions StateConsumed =
     Some [StateConsumed, StateReady, StateDownloading, StateReadyToPaste, StateFailed]"
| "validTransitions (StateOther s) = None"

definition knownStates :: "ItemState list" where
  "knownStates =
     [StateReady, StateOffered, StateDownloading, StateReadyToPaste, StateFailed, StateConsumed]"

definition isEvictableState :: "ItemState \<Rightarrow> bool" where
  "isEvictableState s \<longleftrightarrow> s = StateConsumed \<or> s = StateFailed"

definition isValidTransition :: "ItemState \<Rightarrow> ItemState \<Rightarrow> bool" where
  "isValidTransition frm to =
     (case validTransitions frm of None \<Rightarrow> False | Some next \<Rightarrow> List.member next to)"

definition isKnownState :: "ItemState \<Rightarrow> bool" where
  "isKnownState s = List.member knownStates s"

definition isValidInitialItem :: "HistoryItem \<Rightarrow> bool" where
  "isValidInitialItem it =
     (if item_Type it = TypeText \<or> item_Type it = TypeImage then item_State it = StateReady
      else if item_Type it = TypeFileStub
        then item_State it = StateOffered \<or> item_State it = StateFailed
      else False)"

section \<open>Operations\<close>

definition NewManager :: "int \<Rightarrow> Manager" where
  "NewManager maxItems =
     \<lparr>mgr_items = [], mgr_activeID = '''',
      mgr_maxItems = (if maxItems \<le> 0 then defaultMaxItems else maxItems), mgr_onChanged = False\<rparr>"

definition OnChanged :: "bool \<Rightarrow> Manager \<Rightarrow> Manager" where
  "OnChanged fn m = m\<lparr>mgr_onChanged := fn\<rparr>"

definition getByIDLocked :: "Manager \<Rightarrow> string \<Rightarrow> HistoryItem option" where
  "getByIDLocked m i = List.find (\<lambda>it. item_ID it = i) (mgr_items m)"

definition findIndexByIDLocked :: "Manager \<Rightarrow> string \<Rightarrow> nat option" where
  "findIndexByIDLocked m i = first_index (\<lambda>it. item_ID it = i) (mgr_items m)"

definition insertIndexLocked :: "HistoryItem list \<Rightarrow> gotime \<Rightarrow> nat" where
  "insertIndexLocked items createdAt =
     (case first_index (\<lambda>it. item_CreatedAt it < createdAt) items of
        Some idx \<Rightarrow> idx | None \<Rightarrow> length items)"

text \<open>
  One turn of the eviction loop scans from the oldest item to the newest for an evictable one;
  the loop stops when the list fits or no item can go. The third result counts the evicted items.
\<close>

function evictLoop :: "int \<Rightarrow> HistoryItem list \<Rightarrow> string \<Rightarrow> nat \<Rightarrow> HistoryItem list \<times> string \<times> nat" where
  "evictLoop maxItems items active n =
     (if int (length items) > maxItems then
        (case last_index (\<lambda>it. isEvictableState (item_State it)) items of
           None \<Rightarrow> (items, active, n)
         | Some idx \<Rightarrow>
             evictLoop maxItems (remove_nth idx items)
               (if active = item_ID (items ! idx) then '''' else active) (Suc n))
      else (items, active, n))"
  by pat_completeness auto
termination
  by (relation "measure (\<lambda>(_, items, _, _). length items)")
     (auto dest!: last_index_SomeD simp: length_remove_nth)

declare evictLoop.simps [simp del]

definition evictOverflowLocked :: "Manager \<Rightarrow> Manager \<times> nat" where
  "evictOverflowLocked m =
     (case evictLoop (mgr_maxItems m) (mgr_items m) (mgr_activeID m) 0 of
        (items, active, n) \<Rightarrow> (m\<lparr>mgr_items := items, mgr_activeID := active\<rparr>, n))"

text \<open>The fields \<open>AddItem\<close> fills in before it takes the lock.\<close>

definition fillNewItem :: "gotime \<Rightarrow> string \<Rightarrow> HistoryItem \<Rightarrow> HistoryItem" where
  "fillNewItem now uuid it =
     (let it1 = (if item_ID it = '''' then it\<lparr>item_ID := uuid\<rparr> else it);
          it2 = (if item_CreatedAt it1 = 0 then it1\<lparr>item_CreatedAt := now\<rparr> else it1)
      in if item_UpdatedAt it2 = 0 then it2\<lparr>item_UpdatedAt := item_CreatedAt it2\<rparr> else it2)"

text \<open>The list edit of \<open>AddItem\<close>: drop the item of the same id, insert by creation time.\<close>

definition placeItem :: "HistoryItem \<Rightarrow> Manager \<Rightarrow> Manager" where
  "placeItem new m =
     (let items = (case findIndexByIDLocked m (item_ID new) of
                     Some idx \<Rightarrow> remove_nth idx (mgr_items m) | None \<Rightarrow> mgr_items m);
          items' = insert_nth (insertIndexLocked items (item_CreatedAt new)) new items
      in m\<lparr>mgr_items := items', mgr_activeID := item_ID new\<rparr>)"

definition AddItem :: "gotime \<Rightarrow> string \<Rightarrow> HistoryItem option \<Rightarrow> Manager \<Rightarrow> Manager \<times> bool" where
  "AddItem now uuid item m =
     (case item of
        None \<Rightarrow> (m, False)
      | Some it \<Rightarrow>
          if \<not> isValidInitialItem it then (m, False)
          else (let m1 = placeItem (fillNewItem now uuid it) m;
                    m2 = fst (evictOverflowLocked m1)
                in (m2, mgr_onChanged m2)))"

definition GetActive :: "Manager \<Rightarrow> HistoryItem option" where
  "GetActive m =
     (case mgr_items m of
        [] \<Rightarrow> None
      | first # _ \<Rightarrow>
          if mgr_activeID m \<noteq> '''' then
            (case getByIDLocked m (mgr_activeID m) of Some it \<Rightarrow> Some it | None \<Rightarrow> Some first)
          else Some first)"

definition SetActive :: "string \<Rightarrow> Manager \<Rightarrow> Manager \<times> bool \<times> bool" where
  "SetActive i m =
     (if i = '''' then (m, False, False)
      else if findIndexByIDLocked m i = None then (m, False, False)
      else if mgr_activeID m = i then (m, True, False)
      else (m\<lparr>mgr_activeID := i\<rparr>, True, mgr_onChanged m))"

definition GetByID :: "string \<Rightarrow> Manager \<Rightarrow> HistoryItem option" where
  "GetByID i m = (if i = '''' then None else getByIDLocked m i)"

definition GetByTransferID :: "string \<Rightarrow> Manager \<Rightarrow> HistoryItem option" where
  "GetByTransferID t m =
     (if t = '''' then None else List.find (\<lambda>it. item_TransferID it = t) (mgr_items m))"

text \<open>Overwrites the item at an index (the assignment through the item pointer).\<close>

definition writeItem :: "nat \<Rightarrow> HistoryItem \<Rightarrow> Manager \<Rightarrow> Manager" where
  "writeItem idx it m = m\<lparr>mgr_items := (mgr_items m)[idx := it]\<rparr>"

definition UpdateState :: "gotime \<Rightarrow> string \<Rightarrow> ItemState \<Rightarrow> Manager \<Rightarrow> Manager \<times> bool \<times> bool" where
  "UpdateState now i newState m =
     (if i = '''' \<or> \<not> isKnownState newState then (m, False, False)
      else (case findIndexByIDLocked m i of
              None \<Rightarrow> (m, False, False)
            | Some idx \<Rightarrow>
                (let it = mgr_items m ! idx in
                 if \<not> isValidTransition (item_State it) newState then (m, False, False)
                 else (writeItem idx (it\<lparr>item_State := newState, item_UpdatedAt := now\<rparr>) m,
                       True, mgr_onChanged m))))"

type_synonym item_fn = "HistoryItem \<Rightarrow> HistoryItem result"

definition Mutate ::
  "gotime \<Rightarrow> string \<Rightarrow> item_fn option \<Rightarrow> Manager \<Rightarrow> Manager \<times> HistoryItem result \<times> bool" where
  "Mutate now i fn m =
     (case fn of
        None \<Rightarrow> (m, Inl ''invalid mutate request'', False)
      | Some f \<Rightarrow>
          if i = '''' then (m, Inl ''invalid mutate request'', False)
          else (case findIndexByIDLocked m i of
                  None \<Rightarrow> (m, Inl ''history item not found'', False)
                | Some idx \<Rightarrow>
                    (let before = mgr_items m ! idx in
                     case f before of
                       Inl err \<Rightarrow> (m, Inl err, False)
                     | Inr next \<Rightarrow>
                         if item_State next \<noteq> item_State before \<and>
                            (\<not> isKnownState (item_State next) \<or>
                             \<not> isValidTransition (item_State before) (item_State next))
                         then (m, Inl ''invalid state transition'', False)
                         else (let next' = next\<lparr>item_UpdatedAt := now\<rparr>
                               in (writeItem idx next' m, Inr next', mgr_onChanged m)))))"

definition MutateByTransferID ::
  "gotime \<Rightarrow> string \<Rightarrow> item_fn option \<Rightarrow> Manager \<Rightarrow> Manager \<times> HistoryItem result \<times> bool" where
  "MutateByTransferID now t fn m =
     (if t = '''' \<or> fn = None then (m, Inl ''invalid mutate request'', False)
      else (case List.find (\<lambda>it. item_TransferID it = t) (mgr_items m) of
              None \<Rightarrow> (m, Inl ''history item not found'', False)
            | Some it \<Rightarrow>
                if item_ID it = '''' then (m, Inl ''history item not found'', False)
                else Mutate now (item_ID it) fn m))"

definition ListItems :: "Manager \<Rightarrow> HistoryItem list" where
  "ListItems m = mgr_items m"

section \<open>Random identifiers\<close>

text \<open>
  \<open>newUUID\<close> on the sixteen random bytes; when the random source fails the identifier is built from
  the clock, whose decimal rendering is an argument.
\<close>

definition newUUID :: "octet list option \<Rightarrow> string \<Rightarrow> string" where
  "newUUID random nanos =
     (case random of
        None \<Rightarrow> ''fallback-'' @ nanos
      | Some b0 \<Rightarrow>
          (let b1 = b0[6 := (b0 ! 6 AND 0x0f) OR 0x40];
               b = b1[8 := (b1 ! 8 AND 0x3f) OR 0x80]
           in hexBytes (take 4 b) @ ''-'' @ hexBytes (take 2 (drop 4 b)) @ ''-'' @
              hexBytes (take 2 (drop 6 b)) @ ''-'' @ hexBytes (take 2 (drop 8 b)) @ ''-'' @
              hexBytes (take 6 (drop 10 b))))"

section \<open>The state machine of an item\<close>

lemma isKnownState_iff: "isKnownState s \<longleftrightarrow> (\<forall>t. s \<noteq> StateOther t)"
  by (cases s) (auto simp: isKnownState_def knownStates_def)

lemma isValidTransition_known:
  "isValidTransition frm to \<Longrightarrow> isKnownState frm \<and> isKnownState to"
  by (cases frm; cases to) (auto simp: isValidTransition_def isKnownState_def knownStates_def)

lemma isValidTransition_refl: "isKnownState s \<Longrightarrow> isValidTransition s s"
  by (cases s) (auto simp: isValidTransition_def isKnownState_def knownStates_def)

section \<open>Eviction\<close>

text \<open>
  The reference for the eviction loop, in one pass over the items oldest first: drop the first
  \<open>k\<close> evictable ones.
\<close>

fun dropMatching :: "('a \<Rightarrow> bool) \<Rightarrow> nat \<Rightarrow> 'a list \<Rightarrow> 'a list" where
  "dropMatching P 0 xs = xs"
| "dropMatching P (Suc k) [] = []"
| "dropMatching P (Suc k) (x # xs) =
     (if P x then dropMatching P k xs else x # dropMatching P (Suc k) xs)"

lemma dropMatching_none: "\<forall>x\<in>set xs. \<not> P x \<Longrightarrow> dropMatching P k xs = xs"
  by (induction P k xs rule: dropMatching.induct) auto

lemma dropMatching_0 [simp]: "dropMatching P k [] = []"
  by (cases k) auto

lemma dropMatching_Suc: "dropMatching P (Suc k) xs = dropMatching P k (dropMatching P 1 xs)"
proof (induction xs arbitrary: k)
  case (Cons x xs)
  show ?case
  proof (cases "P x")
    case False
    then show ?thesis using Cons.IH [of k] by (cases k) auto
  qed simp
qed simp

lemma dropMatching_append_hit:
  "\<forall>x\<in>set xs. \<not> P x \<Longrightarrow> P y \<Longrightarrow> dropMatching P 1 (xs @ y # ys) = xs @ ys"
  by (induction xs) auto

lemma dropMatching_last_index:
  assumes "last_index P xs = Some i"
  shows "dropMatching P 1 (rev xs) = rev (remove_nth i xs)"
proof -
  from last_index_SomeD [OF assms]
  have i: "i < length xs" "P (xs ! i)" and later: "\<forall>j. i < j \<and> j < length xs \<longrightarrow> \<not> P (xs ! j)"
    by auto
  have none: "\<forall>x\<in>set (rev (drop (Suc i) xs)). \<not> P x"
    using later by (auto simp: in_set_conv_nth)
  have "rev xs = rev (drop (Suc i) xs) @ xs ! i # rev (take i xs)"
    by (subst id_take_nth_drop [OF i(1)]) simp
  then show ?thesis
    using dropMatching_append_hit [OF none i(2)] by (simp add: remove_nth_def)
qed

lemma dropMatching_subset: "set (dropMatching P k xs) \<subseteq> set xs"
  by (induction P k xs rule: dropMatching.induct) auto

lemma dropMatching_keeps: "x \<in> set xs \<Longrightarrow> \<not> P x \<Longrightarrow> x \<in> set (dropMatching P k xs)"
  by (induction P k xs rule: dropMatching.induct) auto

lemma dropMatching_distinct: "distinct (map f xs) \<Longrightarrow> distinct (map f (dropMatching P k xs))"
proof (induction P k xs rule: dropMatching.induct)
  case (3 P k x xs)
  then show ?case using dropMatching_subset [of P "Suc k" xs] by auto
qed auto

lemma dropMatching_sorted: "sorted_wrt R xs \<Longrightarrow> sorted_wrt R (dropMatching P k xs)"
proof (induction P k xs rule: dropMatching.induct)
  case (3 P k x xs)
  then show ?case using dropMatching_subset [of P "Suc k" xs] by auto
qed auto

lemma dropMatching_length_or_none:
  "length (dropMatching P k xs) = length xs - k \<or> (\<forall>x\<in>set (dropMatching P k xs). \<not> P x)"
  by (induction P k xs rule: dropMatching.induct) auto

text \<open>The eviction loop computes the reference.\<close>

lemma evictLoop_items:
  "0 \<le> mx \<Longrightarrow> fst (evictLoop mx items active n) =
     rev (dropMatching (\<lambda>it. isEvictableState (item_State it)) (nat (int (length items) - mx)) (rev items))"
proof (induction mx items active n rule: evictLoop.induct)
  case (1 mx items active n)
  let ?P = "\<lambda>it. isEvictableState (item_State it)"
  show ?case
  proof (cases "int (length items) > mx")
    case False
    then show ?thesis by (simp add: evictLoop.simps [of mx items])
  next
    case over: True
    show ?thesis
    proof (cases "last_index ?P items")
      case None
      then have "\<forall>x\<in>set (rev items). \<not> ?P x" by (simp add: last_index_None_iff)
      then show ?thesis
        using over None by (simp add: evictLoop.simps [of mx items] dropMatching_none)
    next
      case (Some idx)
      have idx: "idx < length items" using last_index_SomeD [OF Some] by blast
      have k: "nat (int (length items) - mx) =
               Suc (nat (int (length (remove_nth idx items)) - mx))"
        using over idx by (simp add: length_remove_nth of_nat_diff)
      show ?thesis
        unfolding k dropMatching_Suc [of ?P "nat (int (length (remove_nth idx items)) - mx)"]
          dropMatching_last_index [OF Some]
        using "1.IH" [OF over Some "1.prems"] over Some
        by (simp add: evictLoop.simps [of mx items])
    qed
  qed
qed

lemma evictLoop_active:
  "\<lbrakk> evictLoop mx items active n = (items', active', n');
     distinct (map item_ID items); active = '''' \<or> active \<in> item_ID ` set items \<rbrakk> \<Longrightarrow>
   (active' = '''' \<or> active' \<in> item_ID ` set items') \<and> (active' = '''' \<or> active' = active)"
proof (induction mx items active n arbitrary: items' active' n' rule: evictLoop.induct)
  case (1 mx items active n)
  show ?case
  proof (cases "int (length items) > mx \<and>
      last_index (\<lambda>it. isEvictableState (item_State it)) items \<noteq> None")
    case False
    with "1.prems" show ?thesis
      by (auto simp: evictLoop.simps [of mx items] split: if_splits option.splits)
  next
    case True
    then obtain idx where
      Some: "last_index (\<lambda>it. isEvictableState (item_State it)) items = Some idx"
      and over: "int (length items) > mx" by blast
    let ?a = "if active = item_ID (items ! idx) then '''' else active"
    have idx: "idx < length items" using last_index_SomeD [OF Some] by blast
    have step: "evictLoop mx (remove_nth idx items) ?a (Suc n) = (items', active', n')"
      using "1.prems"(1) over Some by (simp add: evictLoop.simps [of mx items])
    have d: "distinct (map item_ID (remove_nth idx items))"
      using distinct_map_remove_nth [OF "1.prems"(2) idx] by blast
    have a: "?a = '''' \<or> ?a \<in> item_ID ` set (remove_nth idx items)"
      using "1.prems"(3) set_remove_nth_insert [OF idx] by auto
    show ?thesis using "1.IH" [OF over Some step d a] by (auto split: if_splits)
  qed
qed

section \<open>The invariant of the manager\<close>

definition newestFirst :: "HistoryItem list \<Rightarrow> bool" where
  "newestFirst items = sorted_wrt (\<lambda>a b. item_CreatedAt b \<le> item_CreatedAt a) items"

definition mgr_inv :: "Manager \<Rightarrow> bool" where
  "mgr_inv m \<longleftrightarrow>
     distinct (map item_ID (mgr_items m)) \<and>
     '''' \<notin> item_ID ` set (mgr_items m) \<and>
     (\<forall>it\<in>set (mgr_items m). isKnownState (item_State it)) \<and>
     newestFirst (mgr_items m) \<and>
     (mgr_activeID m = '''' \<or> mgr_activeID m \<in> item_ID ` set (mgr_items m)) \<and>
     0 < mgr_maxItems m"

lemma mgr_invI:
  assumes "distinct (map item_ID (mgr_items m))" "'''' \<notin> item_ID ` set (mgr_items m)"
    "\<And>it. it \<in> set (mgr_items m) \<Longrightarrow> isKnownState (item_State it)"
    "newestFirst (mgr_items m)"
    "mgr_activeID m = '''' \<or> mgr_activeID m \<in> item_ID ` set (mgr_items m)" "0 < mgr_maxItems m"
  shows "mgr_inv m"
  using assms by (simp add: mgr_inv_def)

lemma mgr_inv_NewManager: "mgr_inv (NewManager n)"
  by (simp add: mgr_inv_def NewManager_def newestFirst_def defaultMaxItems_def)

lemma newestFirst_remove_nth: "newestFirst items \<Longrightarrow> newestFirst (remove_nth i items)"
proof -
  assume s: "newestFirst items"
  have "newestFirst (take i items @ drop i items)" using s by simp
  then have cross: "\<forall>a\<in>set (take i items). \<forall>b\<in>set (drop i items). item_CreatedAt b \<le> item_CreatedAt a"
    and parts: "newestFirst (take i items)" "newestFirst (drop (Suc i) items)"
    using sorted_wrt_drop [of _ items "Suc i"] s
    unfolding newestFirst_def sorted_wrt_append by (auto simp: sorted_wrt_take)
  have "set (drop (Suc i) items) \<subseteq> set (drop i items)"
    by (rule set_drop_subset_set_drop) simp
  then show ?thesis
    using cross parts unfolding remove_nth_def newestFirst_def sorted_wrt_append by blast
qed

lemma newestFirst_insert:
  assumes s: "newestFirst items"
  shows "newestFirst (insert_nth (insertIndexLocked items (item_CreatedAt new)) new items)"
proof (cases "first_index (\<lambda>it. item_CreatedAt it < item_CreatedAt new) items")
  case None
  then have "\<forall>it\<in>set items. item_CreatedAt new \<le> item_CreatedAt it"
    by (auto simp: first_index_None_iff)
  with None s show ?thesis
    by (simp add: insert_nth_def insertIndexLocked_def newestFirst_def sorted_wrt_append)
next
  case (Some i)
  from first_index_SomeD [OF Some]
  have i: "i < length items" "item_CreatedAt (items ! i) < item_CreatedAt new"
    and before: "\<forall>j<i. \<not> item_CreatedAt (items ! j) < item_CreatedAt new" by auto
  have eq: "items = take i items @ drop i items" by simp
  then have parts: "newestFirst (take i items)" "newestFirst (drop i items)"
    "\<forall>a\<in>set (take i items). \<forall>b\<in>set (drop i items). item_CreatedAt b \<le> item_CreatedAt a"
    using s unfolding newestFirst_def by (metis sorted_wrt_append)+
  have left: "\<forall>a\<in>set (take i items). item_CreatedAt new \<le> item_CreatedAt a"
    using before i(1) by (fastforce simp: in_set_conv_nth)
  have "drop i items = items ! i # drop (Suc i) items"
    using i(1) by (simp add: Cons_nth_drop_Suc)
  then have right: "\<forall>b\<in>set (drop i items). item_CreatedAt b \<le> item_CreatedAt new"
    using parts(2) i(2) unfolding newestFirst_def by fastforce
  show ?thesis
    using parts left right Some
    unfolding newestFirst_def insert_nth_def insertIndexLocked_def
    by (auto simp: sorted_wrt_append)
qed

lemma insertIndex_le: "insertIndexLocked items c \<le> length items"
  by (auto simp: insertIndexLocked_def split: option.splits dest!: first_index_SomeD)

subsection \<open>Adding an item\<close>

text \<open>The list \<open>placeItem\<close> edits, without the item of the same id.\<close>

definition othersOf :: "string \<Rightarrow> Manager \<Rightarrow> HistoryItem list" where
  "othersOf i m = (case findIndexByIDLocked m i of
                     Some idx \<Rightarrow> remove_nth idx (mgr_items m) | None \<Rightarrow> mgr_items m)"

lemma othersOf_props:
  assumes d: "distinct (map item_ID (mgr_items m))"
  shows "set (othersOf i m) = {it \<in> set (mgr_items m). item_ID it \<noteq> i}"
    "distinct (map item_ID (othersOf i m))"
    "newestFirst (mgr_items m) \<Longrightarrow> newestFirst (othersOf i m)"
proof -
  show "distinct (map item_ID (othersOf i m))"
    using d by (auto simp: othersOf_def findIndexByIDLocked_def split: option.splits
        intro!: distinct_map_remove_nth dest!: first_index_SomeD)
  show "newestFirst (mgr_items m) \<Longrightarrow> newestFirst (othersOf i m)"
    by (auto simp: othersOf_def newestFirst_remove_nth split: option.splits)
  show "set (othersOf i m) = {it \<in> set (mgr_items m). item_ID it \<noteq> i}"
  proof (cases "findIndexByIDLocked m i")
    case None
    then have "\<forall>it\<in>set (mgr_items m). item_ID it \<noteq> i"
      by (simp add: findIndexByIDLocked_def first_index_None_iff)
    then show ?thesis using None by (auto simp: othersOf_def)
  next
    case (Some idx)
    then have idx: "idx < length (mgr_items m)" "item_ID (mgr_items m ! idx) = i"
      by (auto simp: findIndexByIDLocked_def dest!: first_index_SomeD)
    show ?thesis
      using set_remove_nth_insert [OF idx(1)] distinct_map_remove_nth(2) [OF d idx(1)] idx(2)
      by (auto simp: othersOf_def Some intro: rev_image_eqI)
  qed
qed

lemma placeItem_items:
  "mgr_items (placeItem new m) =
     insert_nth (insertIndexLocked (othersOf (item_ID new) m) (item_CreatedAt new)) new
       (othersOf (item_ID new) m)"
  by (simp add: placeItem_def othersOf_def Let_def)

lemma placeItem_set:
  assumes "distinct (map item_ID (mgr_items m))"
  shows "set (mgr_items (placeItem new m)) =
           insert new {it \<in> set (mgr_items m). item_ID it \<noteq> item_ID new}"
  by (simp add: placeItem_items set_insert_nth insertIndex_le othersOf_props(1) [OF assms])

lemma placeItem_inv:
  assumes inv: "mgr_inv m" and new: "item_ID new \<noteq> ''''" "isKnownState (item_State new)"
  shows "mgr_inv (placeItem new m)"
proof -
  have d: "distinct (map item_ID (mgr_items m))" and s: "newestFirst (mgr_items m)"
    using inv by (auto simp: mgr_inv_def)
  note others = othersOf_props [OF d, of "item_ID new"]
  show ?thesis
  proof (rule mgr_invI)
    show "distinct (map item_ID (mgr_items (placeItem new m)))"
      unfolding placeItem_items
      by (rule distinct_map_insert_nth [OF others(2)]) (auto simp: others(1))
    show "newestFirst (mgr_items (placeItem new m))"
      unfolding placeItem_items by (rule newestFirst_insert [OF others(3) [OF s]])
    show "'''' \<notin> item_ID ` set (mgr_items (placeItem new m))"
      using inv new by (auto simp: placeItem_set [OF d] mgr_inv_def)
    show "mgr_activeID (placeItem new m) = '''' \<or>
            mgr_activeID (placeItem new m) \<in> item_ID ` set (mgr_items (placeItem new m))"
      by (simp add: placeItem_set [OF d]) (simp add: placeItem_def Let_def)
    show "0 < mgr_maxItems (placeItem new m)"
      using inv by (simp add: placeItem_def Let_def mgr_inv_def)
  qed (use inv new in \<open>auto simp: placeItem_set [OF d] mgr_inv_def\<close>)
qed

lemma evictOverflow_items:
  assumes "0 \<le> mgr_maxItems m"
  shows "mgr_items (fst (evictOverflowLocked m)) =
     rev (dropMatching (\<lambda>it. isEvictableState (item_State it))
            (nat (int (length (mgr_items m)) - mgr_maxItems m)) (rev (mgr_items m)))"
  using evictLoop_items [OF assms, of "mgr_items m" "mgr_activeID m" 0]
  by (cases "evictLoop (mgr_maxItems m) (mgr_items m) (mgr_activeID m) 0")
     (simp add: evictOverflowLocked_def)

lemma evictOverflow_frame [simp]:
  "mgr_maxItems (fst (evictOverflowLocked m)) = mgr_maxItems m"
  "mgr_onChanged (fst (evictOverflowLocked m)) = mgr_onChanged m"
  by (simp_all add: evictOverflowLocked_def split: prod.splits)

lemma evictOverflow_inv:
  assumes inv: "mgr_inv m"
  shows "mgr_inv (fst (evictOverflowLocked m))"
proof -
  have pos: "0 \<le> mgr_maxItems m" using inv by (simp add: mgr_inv_def)
  note items = evictOverflow_items [OF pos]
  let ?P = "\<lambda>it. isEvictableState (item_State it)"
  let ?k = "nat (int (length (mgr_items m)) - mgr_maxItems m)"
  have sub: "set (mgr_items (fst (evictOverflowLocked m))) \<subseteq> set (mgr_items m)"
    unfolding items using dropMatching_subset [of ?P ?k "rev (mgr_items m)"] by auto
  have rev_s: "sorted_wrt (\<lambda>a b. item_CreatedAt a \<le> item_CreatedAt b) (rev (mgr_items m))"
    using inv by (simp add: mgr_inv_def newestFirst_def sorted_wrt_rev)
  obtain items' a' n' where ev: "evictLoop (mgr_maxItems m) (mgr_items m) (mgr_activeID m) 0 = (items', a', n')"
    by (cases "evictLoop (mgr_maxItems m) (mgr_items m) (mgr_activeID m) 0")
  have active: "a' = '''' \<or> a' \<in> item_ID ` set items'"
    using evictLoop_active [OF ev] inv by (auto simp: mgr_inv_def)
  show ?thesis
  proof (rule mgr_invI)
    show "distinct (map item_ID (mgr_items (fst (evictOverflowLocked m))))"
      unfolding items rev_map [symmetric] distinct_rev
      by (rule dropMatching_distinct) (use inv in \<open>simp add: mgr_inv_def rev_map [symmetric]\<close>)
    show "newestFirst (mgr_items (fst (evictOverflowLocked m)))"
      unfolding items newestFirst_def sorted_wrt_rev
      by (rule dropMatching_sorted [OF rev_s])
    show "mgr_activeID (fst (evictOverflowLocked m)) = '''' \<or>
          mgr_activeID (fst (evictOverflowLocked m)) \<in> item_ID ` set (mgr_items (fst (evictOverflowLocked m)))"
      using active ev by (simp add: evictOverflowLocked_def)
  qed (use inv sub in \<open>auto simp: mgr_inv_def\<close>)
qed

lemma fillNewItem_ID: "item_ID (fillNewItem now uuid it) = (if item_ID it = '''' then uuid else item_ID it)"
  by (simp add: fillNewItem_def Let_def)

lemma fillNewItem_State [simp]: "item_State (fillNewItem now uuid it) = item_State it"
  by (simp add: fillNewItem_def Let_def)

lemma initial_known: "isValidInitialItem it \<Longrightarrow> isKnownState (item_State it)"
  by (auto simp: isValidInitialItem_def isKnownState_def knownStates_def split: if_splits)

lemma AddItem_inv [inv_intros]:
  assumes "mgr_inv m" "uuid \<noteq> ''''"
  shows "mgr_inv (fst (AddItem now uuid item m))"
  using assms
  by (auto simp: AddItem_def Let_def fillNewItem_ID initial_known split: option.splits if_splits
      intro!: evictOverflow_inv placeItem_inv)

subsection \<open>Edits of one item\<close>

lemma writeItem_inv:
  assumes inv: "mgr_inv m" and idx: "idx < length (mgr_items m)"
    and same: "item_ID it = item_ID (mgr_items m ! idx)"
      "item_CreatedAt it = item_CreatedAt (mgr_items m ! idx)"
    and known: "isKnownState (item_State it)"
  shows "mgr_inv (writeItem idx it m)"
proof -
  have ids: "map item_ID ((mgr_items m)[idx := it]) = map item_ID (mgr_items m)"
    using idx same(1) list_update_id [of "map item_ID (mgr_items m)" idx] by (simp add: map_update)
  then have idset: "item_ID ` set ((mgr_items m)[idx := it]) = item_ID ` set (mgr_items m)"
    by (metis set_map)
  have created: "item_CreatedAt ((mgr_items m)[idx := it] ! k) = item_CreatedAt (mgr_items m ! k)"
    if "k < length (mgr_items m)" for k
    using that same(2) by (cases "k = idx") simp_all
  have "newestFirst ((mgr_items m)[idx := it])"
    using inv by (simp add: mgr_inv_def newestFirst_def sorted_wrt_iff_nth_less created)
  moreover have "\<forall>x\<in>set ((mgr_items m)[idx := it]). isKnownState (item_State x)"
    using inv known set_update_subset_insert [of "mgr_items m" idx it]
    by (auto simp: mgr_inv_def)
  ultimately show ?thesis
    using inv ids idset by (simp add: mgr_inv_def writeItem_def)
qed

lemma UpdateState_inv [inv_intros]: "mgr_inv m \<Longrightarrow> mgr_inv (fst (UpdateState now i s m))"
  by (auto simp: UpdateState_def Let_def findIndexByIDLocked_def split: option.splits
      dest!: first_index_SomeD intro!: writeItem_inv)

text \<open>
  The functions the program passes to \<open>Mutate\<close> edit the file paths, the state and the error of an
  item; they never touch its id or its creation time.
\<close>

definition stable_fn :: "item_fn \<Rightarrow> bool" where
  "stable_fn f \<longleftrightarrow> (\<forall>it it'. f it = Inr it' \<longrightarrow>
     item_ID it' = item_ID it \<and> item_CreatedAt it' = item_CreatedAt it)"

lemma Mutate_inv [inv_intros]:
  assumes "mgr_inv m" "\<And>f. fn = Some f \<Longrightarrow> stable_fn f"
  shows "mgr_inv (fst (Mutate now i fn m))"
proof -
  have "isKnownState (item_State (mgr_items m ! idx))" if "idx < length (mgr_items m)" for idx
    using assms(1) that by (simp add: mgr_inv_def)
  then show ?thesis
    using assms
    by (auto simp: Mutate_def Let_def findIndexByIDLocked_def stable_fn_def
        split: option.splits sum.splits dest!: first_index_SomeD intro!: writeItem_inv)
qed

lemma MutateByTransferID_inv [inv_intros]:
  assumes "mgr_inv m" "\<And>f. fn = Some f \<Longrightarrow> stable_fn f"
  shows "mgr_inv (fst (MutateByTransferID now t fn m))"
  using assms(1) Mutate_inv [OF assms]
  by (auto simp: MutateByTransferID_def split: option.splits)

lemma SetActive_inv [inv_intros]: "mgr_inv m \<Longrightarrow> mgr_inv (fst (SetActive i m))"
  by (auto simp: SetActive_def mgr_inv_def findIndexByIDLocked_def first_index_None_iff)

lemma OnChanged_inv [inv_intros]: "mgr_inv m \<Longrightarrow> mgr_inv (OnChanged fn m)"
  by (simp add: OnChanged_def mgr_inv_def)

section \<open>Runs of the manager\<close>

text \<open>An edit is any operation that changes the manager other than adding an item.\<close>

inductive hist_edit :: "Manager \<Rightarrow> Manager \<Rightarrow> bool" where
  edit_state: "hist_edit m (fst (UpdateState now i s m))"
| edit_mutate: "stable_fn f \<Longrightarrow> hist_edit m (fst (Mutate now i (Some f) m))"
| edit_transfer: "stable_fn f \<Longrightarrow> hist_edit m (fst (MutateByTransferID now t (Some f) m))"
| edit_active: "hist_edit m (fst (SetActive i m))"
| edit_callback: "hist_edit m (OnChanged fn m)"

inductive hist_step :: "Manager \<Rightarrow> Manager \<Rightarrow> bool" where
  step_edit: "hist_edit m m' \<Longrightarrow> hist_step m m'"
| step_add: "uuid \<noteq> '''' \<Longrightarrow> hist_step m (fst (AddItem now uuid item m))"

inductive hist_reachable :: "Manager \<Rightarrow> bool" where
  reach_new: "hist_reachable (NewManager n)"
| reach_step: "hist_reachable m \<Longrightarrow> hist_step m m' \<Longrightarrow> hist_reachable m'"

inductive_cases hist_editE: "hist_edit m m'"
inductive_cases hist_stepE: "hist_step m m'"

lemma hist_edit_inv: "hist_edit m m' \<Longrightarrow> mgr_inv m \<Longrightarrow> mgr_inv m'"
  by (induction rule: hist_edit.induct) (auto intro: inv_intros)

lemma hist_step_inv: "hist_step m m' \<Longrightarrow> mgr_inv m \<Longrightarrow> mgr_inv m'"
  by (induction rule: hist_step.induct) (auto intro: inv_intros hist_edit_inv)

lemma hist_reachable_inv: "hist_reachable m \<Longrightarrow> mgr_inv m"
  by (induction rule: hist_reachable.induct) (auto intro: mgr_inv_NewManager hist_step_inv)

subsection \<open>What an edit does to an item\<close>

lemma GetByID_iff:
  assumes "mgr_inv m"
  shows "GetByID i m = Some it \<longleftrightarrow> it \<in> set (mgr_items m) \<and> item_ID it = i"
proof
  assume "GetByID i m = Some it"
  then show "it \<in> set (mgr_items m) \<and> item_ID it = i"
    by (auto simp: GetByID_def getByIDLocked_def dest!: find_SomeD split: if_splits)
next
  assume r: "it \<in> set (mgr_items m) \<and> item_ID it = i"
  then have "i \<noteq> ''''" using assms unfolding mgr_inv_def by (metis image_eqI)
  moreover have "getByIDLocked m i = Some it"
    unfolding getByIDLocked_def using r assms by (intro find_key_eq) (auto simp: mgr_inv_def)
  ultimately show "GetByID i m = Some it" by (simp add: GetByID_def)
qed

lemma GetByID_nth:
  assumes "mgr_inv m" "GetByID i m = Some it"
  obtains idx where "findIndexByIDLocked m i = Some idx" "idx < length (mgr_items m)"
    "mgr_items m ! idx = it"
proof (cases "findIndexByIDLocked m i")
  case None
  with assms show thesis
    by (auto simp: findIndexByIDLocked_def first_index_None_iff GetByID_iff)
next
  case (Some idx)
  then have idx: "idx < length (mgr_items m)" "item_ID (mgr_items m ! idx) = i"
    by (auto simp: findIndexByIDLocked_def dest!: first_index_SomeD)
  then have "GetByID i m = Some (mgr_items m ! idx)"
    using assms(1) by (simp add: GetByID_iff)
  with assms(2) idx Some that show thesis by auto
qed

lemma GetByID_writeItem:
  assumes inv: "mgr_inv m" "mgr_inv (writeItem idx it' m)"
    and idx: "idx < length (mgr_items m)" "item_ID it' = item_ID (mgr_items m ! idx)"
    and it: "GetByID i m = Some it"
  shows "GetByID i (writeItem idx it' m) = Some (if it = mgr_items m ! idx then it' else it)"
proof -
  have "it \<in> set (mgr_items m)" "item_ID it = i" using it inv(1) by (auto simp: GetByID_iff)
  then obtain k where k: "k < length (mgr_items m)" "mgr_items m ! k = it"
    by (auto simp: in_set_conv_nth)
  have d: "distinct (mgr_items m)" using inv(1) by (simp add: mgr_inv_def distinct_map)
  have "(if it = mgr_items m ! idx then it' else it) = (mgr_items m)[idx := it'] ! k"
    using k idx(1) d by (auto simp: nth_list_update nth_eq_iff_index_eq)
  then have "(if it = mgr_items m ! idx then it' else it) \<in> set (mgr_items (writeItem idx it' m))"
    using k by (simp add: writeItem_def)
  then show ?thesis
    using inv(2) idx(2) \<open>item_ID it = i\<close> by (subst GetByID_iff) auto
qed

lemma UpdateState_cases:
  obtains (unchanged) "fst (UpdateState now i s m) = m"
  | (written) idx where "findIndexByIDLocked m i = Some idx" "idx < length (mgr_items m)"
      "isValidTransition (item_State (mgr_items m ! idx)) s"
      "fst (UpdateState now i s m) =
         writeItem idx ((mgr_items m ! idx)\<lparr>item_State := s, item_UpdatedAt := now\<rparr>) m"
proof (cases "fst (UpdateState now i s m) = m")
  case False
  then obtain idx where
    "findIndexByIDLocked m i = Some idx" "isValidTransition (item_State (mgr_items m ! idx)) s"
    "fst (UpdateState now i s m) =
         writeItem idx ((mgr_items m ! idx)\<lparr>item_State := s, item_UpdatedAt := now\<rparr>) m"
    by (auto simp: UpdateState_def Let_def split: if_splits option.splits)
  moreover from this have "idx < length (mgr_items m)"
    by (auto simp: findIndexByIDLocked_def dest!: first_index_SomeD)
  ultimately show thesis using written by blast
qed (rule unchanged)

lemma Mutate_cases:
  obtains (failed) e where "Mutate now i fn m = (m, Inl e, False)"
  | (written) idx f nx where "fn = Some f" "i \<noteq> ''''" "findIndexByIDLocked m i = Some idx"
      "idx < length (mgr_items m)" "f (mgr_items m ! idx) = Inr nx"
      "item_State nx = item_State (mgr_items m ! idx) \<or>
       isValidTransition (item_State (mgr_items m ! idx)) (item_State nx)"
      "Mutate now i fn m =
         (writeItem idx (nx\<lparr>item_UpdatedAt := now\<rparr>) m,
          Inr (nx\<lparr>item_UpdatedAt := now\<rparr>), mgr_onChanged m)"
proof (cases "\<exists>e. Mutate now i fn m = (m, Inl e, False)")
  case False
  then obtain idx f where f: "fn = Some f" "i \<noteq> ''''" "findIndexByIDLocked m i = Some idx"
    by (auto simp: Mutate_def split: option.splits if_splits)
  moreover from this have "idx < length (mgr_items m)"
    by (auto simp: findIndexByIDLocked_def dest!: first_index_SomeD)
  moreover from False f obtain nx where nx: "f (mgr_items m ! idx) = Inr nx"
    by (auto simp: Mutate_def Let_def split: sum.splits)
  ultimately show thesis
    using False by (intro written [OF f _ nx]) (auto simp: Mutate_def Let_def split: if_splits)
qed (use failed in blast)

lemma hist_edit_item:
  assumes inv: "mgr_inv m" and "hist_edit m m'" and it: "GetByID i m = Some it"
  shows "\<exists>it'. GetByID i m' = Some it' \<and> isValidTransition (item_State it) (item_State it') \<and>
           item_CreatedAt it' = item_CreatedAt it"
proof -
  have known: "isKnownState (item_State it)"
    using it inv by (auto simp: GetByID_iff mgr_inv_def)
  have refl: "isValidTransition (item_State it) (item_State it)"
    using known by (rule isValidTransition_refl)
  have wr: "\<exists>it'. GetByID i (writeItem idx w m) = Some it' \<and>
      isValidTransition (item_State it) (item_State it') \<and> item_CreatedAt it' = item_CreatedAt it"
    if "mgr_inv (writeItem idx w m)" "idx < length (mgr_items m)"
      "item_ID w = item_ID (mgr_items m ! idx)" "item_CreatedAt w = item_CreatedAt (mgr_items m ! idx)"
      "isValidTransition (item_State (mgr_items m ! idx)) (item_State w)" for idx w
    using GetByID_writeItem [OF inv that(1-3) it] that(4,5) refl by (auto split: if_splits)
  have valid_eq: "isValidTransition (item_State (mgr_items m ! idx)) s"
    if "idx < length (mgr_items m)" "s = item_State (mgr_items m ! idx) \<or>
        isValidTransition (item_State (mgr_items m ! idx)) s" for idx s
    using that inv by (auto simp: mgr_inv_def isValidTransition_refl)
  have mut: "\<exists>it'. GetByID i (fst (Mutate now j (Some f) m)) = Some it' \<and>
      isValidTransition (item_State it) (item_State it') \<and> item_CreatedAt it' = item_CreatedAt it"
    if stable: "stable_fn f" for now j f
  proof (cases rule: Mutate_cases [of now j "Some f" m])
    case (failed e)
    then show ?thesis using refl it by simp
  next
    case (written idx g nx)
    let ?w = "nx\<lparr>item_UpdatedAt := now\<rparr>"
    have same: "item_ID nx = item_ID (mgr_items m ! idx)"
      "item_CreatedAt nx = item_CreatedAt (mgr_items m ! idx)"
      using stable written(1,5) by (simp_all add: stable_fn_def)
    have "mgr_inv (writeItem idx ?w m)"
      using Mutate_inv [OF inv, of "Some f" now j] stable written(7) by simp
    then have "\<exists>it'. GetByID i (writeItem idx ?w m) = Some it' \<and>
      isValidTransition (item_State it) (item_State it') \<and> item_CreatedAt it' = item_CreatedAt it"
      using wr [of idx ?w] written(4) same valid_eq [OF written(4,6)] by simp
    then show ?thesis using written(7) by simp
  qed
  show ?thesis
    using assms(2)
  proof (cases rule: hist_edit.cases)
    case (edit_state now j s)
    then show ?thesis
      using refl it UpdateState_inv [OF inv, of now j s]
      by (cases rule: UpdateState_cases [of now j s m]) (simp_all add: wr)
  next
    case (edit_mutate f now j)
    then show ?thesis using mut by simp
  next
    case (edit_transfer f now t)
    then show ?thesis
      using mut refl it by (auto simp: MutateByTransferID_def split: option.splits)
  next
    case (edit_active j)
    then show ?thesis
      using it refl by (auto simp: SetActive_def GetByID_def getByIDLocked_def)
  next
    case (edit_callback fn)
    then show ?thesis
      using it refl by (auto simp: OnChanged_def GetByID_def getByIDLocked_def)
  qed
qed

text \<open>Any operation but adding an item, with any function given to \<open>Mutate\<close>.\<close>

inductive any_edit :: "Manager \<Rightarrow> Manager \<Rightarrow> bool" where
  any_state: "any_edit m (fst (UpdateState now i s m))"
| any_mutate: "any_edit m (fst (Mutate now i fn m))"
| any_transfer: "any_edit m (fst (MutateByTransferID now t fn m))"
| any_active: "any_edit m (fst (SetActive i m))"
| any_callback: "any_edit m (OnChanged fn m)"

lemma mutate_items:
  obtains "mgr_items (fst (Mutate now i fn m)) = mgr_items m"
  | k it where "k < length (mgr_items m)" "mgr_items (fst (Mutate now i fn m)) = (mgr_items m)[k := it]"
      "item_State it = item_State (mgr_items m ! k) \<or> isValidTransition (item_State (mgr_items m ! k)) (item_State it)"
proof (cases rule: Mutate_cases [of now i fn m])
  case (written idx f nx)
  then show thesis using that(2) [of idx "nx\<lparr>item_UpdatedAt := now\<rparr>"] by (simp add: writeItem_def)
qed (use that(1) in simp)

lemma any_edit_items:
  assumes "any_edit m m'"
  obtains "mgr_items m' = mgr_items m"
  | k it where "k < length (mgr_items m)" "mgr_items m' = (mgr_items m)[k := it]"
      "item_State it = item_State (mgr_items m ! k) \<or> isValidTransition (item_State (mgr_items m ! k)) (item_State it)"
  using assms
proof (cases rule: any_edit.cases)
  case (any_state now i s)
  show thesis
  proof (cases rule: UpdateState_cases [of now i s m])
    case (written idx)
    then show thesis using any_state that(2) [of idx "(mgr_items m ! idx)\<lparr>item_State := s, item_UpdatedAt := now\<rparr>"]
      by (simp add: writeItem_def)
  qed (use any_state that(1) in simp)
next
  case (any_mutate now i fn)
  then show thesis using that by (cases rule: mutate_items [of now i fn m]) simp_all
next
  case (any_transfer now t fn)
  show thesis
  proof (cases "mgr_items m' = mgr_items m")
    case False
    have "\<exists>i. m' = fst (Mutate now i fn m)"
      using False unfolding any_transfer MutateByTransferID_def by (auto split: option.splits if_splits)
    then obtain i where "m' = fst (Mutate now i fn m)" ..
    then show thesis using that by (cases rule: mutate_items [of now i fn m]) simp_all
  qed (rule that(1))
qed (use that(1) in \<open>simp_all add: SetActive_def OnChanged_def\<close>)

lemma fill_Type [simp]: "item_Type (fillNewItem now uuid it) = item_Type it"
  by (simp add: fillNewItem_def Let_def)

lemma placeItem_length:
  assumes "distinct (map item_ID (mgr_items m))"
  shows "length (mgr_items (placeItem new m)) = Suc (length (othersOf (item_ID new) m))"
  by (simp add: placeItem_items length_insert_nth insertIndex_le)

lemma placeItem_frame [simp]:
  "mgr_maxItems (placeItem new m) = mgr_maxItems m"
  "mgr_activeID (placeItem new m) = item_ID new"
  "mgr_onChanged (placeItem new m) = mgr_onChanged m"
  by (simp_all add: placeItem_def Let_def)

lemma AddItem_fst:
  "isValidInitialItem it \<Longrightarrow>
     fst (AddItem now uuid (Some it) m) = fst (evictOverflowLocked (placeItem (fillNewItem now uuid it) m))"
  by (simp add: AddItem_def Let_def)

lemma evict_nothing:
  "int (length (mgr_items m)) \<le> mgr_maxItems m \<Longrightarrow> fst (evictOverflowLocked m) = m"
  by (simp add: evictOverflowLocked_def evictLoop.simps [of "mgr_maxItems m"])

lemma mutated_item_state:
  assumes "mgr_inv m" "hist_edit m m'" "GetByID i m = Some it"
    "item_State it \<in> {StateOffered, StateFailed}"
  obtains it' where "GetByID i m' = Some it'"
    "item_State it' \<in> {StateOffered, StateFailed, StateDownloading}"
  using hist_edit_item [OF assms(1-3)] assms(4)
  by (auto simp: isValidTransition_def)

fun edit_run :: "Manager \<Rightarrow> Manager list \<Rightarrow> bool" where
  "edit_run m [] = True"
| "edit_run m (m' # ms) = (hist_edit m m' \<and> edit_run m' ms)"

lemma no_download_run:
  "\<lbrakk> mgr_inv m; edit_run m ms; GetByID i m = Some it; item_State it \<in> {StateOffered, StateFailed};
     \<forall>m'\<in>set ms. \<forall>it'. GetByID i m' = Some it' \<longrightarrow> item_State it' \<noteq> StateDownloading \<rbrakk> \<Longrightarrow>
   \<exists>it'. GetByID i (last (m # ms)) = Some it' \<and> item_State it' \<in> {StateOffered, StateFailed}"
proof (induction ms arbitrary: m it)
  case (Cons m1 ms)
  from Cons.prems have edit: "hist_edit m m1" and run: "edit_run m1 ms" by auto
  obtain it1 where it1: "GetByID i m1 = Some it1"
    "item_State it1 \<in> {StateOffered, StateFailed, StateDownloading}"
    using mutated_item_state [OF Cons.prems(1) edit Cons.prems(3,4)] .
  then have "item_State it1 \<in> {StateOffered, StateFailed}" using Cons.prems(5) by auto
  from Cons.IH [OF hist_edit_inv [OF edit Cons.prems(1)] run it1(1) this] Cons.prems(5)
  show ?case by simp
qed simp

text \<open>Concrete values for the witnesses.\<close>

definition sampleItem :: "string \<Rightarrow> string \<Rightarrow> ItemState \<Rightarrow> gotime \<Rightarrow> HistoryItem" where
  "sampleItem i ty st t =
     \<lparr>item_ID = i, item_Type = ty, item_State = st, item_Kind = '''', item_DisplayName = '''',
      item_Payload = ''payload'', item_PayloadType = ty, item_FileName = '''',
      item_SourceSessionID = '''', item_SourceDevice = ''remote'', item_CreatedAt = t,
      item_UpdatedAt = t, item_TransferID = '''', item_LocalPaths = [], item_ReservedPaths = [],
      item_PendingReplayMode = '''', item_LastChunkIdx = -1, item_ErrorMessage = ''''\<rparr>"

definition sampleManager :: "HistoryItem list \<Rightarrow> Manager" where
  "sampleManager items =
     \<lparr>mgr_items = items, mgr_activeID = '''', mgr_maxItems = 2, mgr_onChanged = True\<rparr>"

lemmas hist_eval =
  sampleItem_def sampleManager_def mgr_inv_def newestFirst_def isKnownState_def knownStates_def
  GetByID_def getByIDLocked_def findIndexByIDLocked_def writeItem_def isValidTransition_def
  isValidInitialItem_def payload_type_defs

section \<open>Properties\<close>

text \<open>
  C11: Every manager reachable from \<open>NewManager\<close> by adding items, changing states, mutating items by functions that
  keep the id and the creation time (\<open>stable_fn\<close>; \<open>Mutate\<close> does not check this, the functions the program passes
  do it: lemma \<open>program_mutations_stable\<close> of Replay), choosing the active item or setting the callback is well
  formed: item ids are non-empty and pairwise different, every state is a declared one, the list is ordered newest
  first, the active id is empty or names an item of the list, and the capacity is positive.
\<close>

theorem reachable_manager_wellformed:
  assumes "hist_reachable m"
  shows "mgr_inv m"
  using assms by (rule hist_reachable_inv)

theorem reachable_manager_wellformed_witness:
  "mgr_inv (fst (AddItem 7 ''u'' (Some (sampleItem ''a'' TypeText StateReady 5)) (NewManager 2)))"
  by (intro reachable_manager_wellformed reach_step [OF reach_new [of 2]] step_add) simp

text \<open>
  C31: Whatever operation other than adding an item runs on a manager whose items are in known states (a state update,
  a mutation by id or by transfer id with any function, also one that changes the id or the creation time, a change of
  the active item or of the callback), the list keeps its length and its order, at most one position holds another
  item than before, and the state at every position stayed or followed an edge of \<open>validTransitions\<close>.
\<close>

theorem edits_follow_state_machine:
  assumes "\<forall>it\<in>set (mgr_items m). isKnownState (item_State it)" "any_edit m m'"
  shows "length (mgr_items m') = length (mgr_items m) \<and>
    (\<exists>k. \<forall>j<length (mgr_items m). j \<noteq> k \<longrightarrow> mgr_items m' ! j = mgr_items m ! j) \<and>
    (\<forall>j<length (mgr_items m). isValidTransition (item_State (mgr_items m ! j)) (item_State (mgr_items m' ! j)))"
proof (cases rule: any_edit_items [OF assms(2)])
  case 1
  then show ?thesis using assms(1) by (simp add: isValidTransition_refl)
next
  case (2 k it)
  then show ?thesis using assms(1) by (auto simp: nth_list_update isValidTransition_refl)
qed

theorem edits_follow_state_machine_witness:
  "isValidTransition StateOffered
     (item_State (mgr_items (fst (Mutate 9 ''a'' (Some (\<lambda>it. Inr (it\<lparr>item_ID := ''b'', item_State := StateDownloading\<rparr>)))
        (sampleManager [sampleItem ''a'' TypeFileStub StateOffered 5]))) ! 0))"
proof -
  let ?m = "sampleManager [sampleItem ''a'' TypeFileStub StateOffered 5]"
  have "\<forall>it\<in>set (mgr_items ?m). isKnownState (item_State it)" by (simp add: hist_eval)
  from edits_follow_state_machine [OF this any_mutate [of _ 9 "''a''" "Some (\<lambda>it. Inr (it\<lparr>item_ID := ''b'', item_State := StateDownloading\<rparr>))"]]
  show ?thesis by (simp add: sampleManager_def sampleItem_def)
qed

text \<open>
  A file is never offered for pasting unless it was downloaded: in any run of edits that takes
  an item from offered (or failed) to ready to paste, ready or consumed, the item was in the
  downloading state at some point of the run.
\<close>

theorem ready_to_paste_was_downloading:
  assumes "mgr_inv m" "edit_run m ms" "GetByID i m = Some it"
    "item_State it \<in> {StateOffered, StateFailed}"
    "GetByID i (last (m # ms)) = Some it'"
    "item_State it' \<in> {StateReadyToPaste, StateReady, StateConsumed}"
  shows "\<exists>m'\<in>set ms. \<exists>d. GetByID i m' = Some d \<and> item_State d = StateDownloading"
proof (rule ccontr)
  assume "\<not> ?thesis"
  then have "\<forall>m'\<in>set ms. \<forall>d. GetByID i m' = Some d \<longrightarrow> item_State d \<noteq> StateDownloading" by blast
  from no_download_run [OF assms(1-4) this] show False using assms(5,6) by auto
qed

theorem ready_to_paste_was_downloading_witness:
  "let m0 = sampleManager [sampleItem ''a'' TypeFileStub StateOffered 5];
       m1 = fst (UpdateState 6 ''a'' StateDownloading m0);
       m2 = fst (UpdateState 7 ''a'' StateReadyToPaste m1)
   in \<exists>m'\<in>set [m1, m2]. \<exists>d. GetByID ''a'' m' = Some d \<and> item_State d = StateDownloading"
proof -
  let ?m0 = "sampleManager [sampleItem ''a'' TypeFileStub StateOffered 5]"
  let ?m1 = "fst (UpdateState 6 ''a'' StateDownloading ?m0)"
  let ?m2 = "fst (UpdateState 7 ''a'' StateReadyToPaste ?m1)"
  have inv: "mgr_inv ?m0" by (simp add: hist_eval)
  have run: "edit_run ?m0 [?m1, ?m2]" by (simp add: edit_state)
  have start: "GetByID ''a'' ?m0 = Some (sampleItem ''a'' TypeFileStub StateOffered 5)"
    "item_State (sampleItem ''a'' TypeFileStub StateOffered 5) \<in> {StateOffered, StateFailed}"
    by (simp_all add: hist_eval)
  have final: "GetByID ''a'' (last (?m0 # [?m1, ?m2])) =
      Some ((sampleItem ''a'' TypeFileStub StateReadyToPaste 5)\<lparr>item_UpdatedAt := 7\<rparr>)"
    by (simp add: hist_eval UpdateState_def)
  show ?thesis
    unfolding Let_def
    by (rule ready_to_paste_was_downloading [OF inv run start final]) (simp add: hist_eval)
qed

text \<open>
  C34: Adding a valid item evicts exactly what a single pass over the items, oldest first, would
  drop: the first consumed or failed ones, as many as the list is over capacity. So afterwards the
  list fits, or every item left is one the manager must keep; and an item that is neither consumed
  nor failed (and not replaced under the same id) is never lost.
\<close>

theorem AddItem_evicts_oldest_spent:
  assumes inv: "mgr_inv m" and valid: "isValidInitialItem it" and uuid: "uuid \<noteq> ''''"
  shows "let new = fillNewItem now uuid it;
             placed = mgr_items (placeItem new m);
             items' = mgr_items (fst (AddItem now uuid (Some it) m))
         in items' = rev (dropMatching (\<lambda>x. isEvictableState (item_State x))
                        (nat (int (length placed) - mgr_maxItems m)) (rev placed)) \<and>
            (int (length items') \<le> mgr_maxItems m \<or>
             (\<forall>x\<in>set items'. \<not> isEvictableState (item_State x))) \<and>
            (\<forall>x\<in>set (mgr_items m). item_ID x \<noteq> item_ID new \<longrightarrow>
               \<not> isEvictableState (item_State x) \<longrightarrow> x \<in> set items')"
proof -
  let ?new = "fillNewItem now uuid it"
  let ?placed = "mgr_items (placeItem ?new m)"
  let ?items' = "mgr_items (fst (AddItem now uuid (Some it) m))"
  let ?P = "\<lambda>x. isEvictableState (item_State x)"
  have pos: "0 < mgr_maxItems m" and d: "distinct (map item_ID (mgr_items m))"
    using inv by (auto simp: mgr_inv_def)
  have eq: "?items' = rev (dropMatching ?P (nat (int (length ?placed) - mgr_maxItems m)) (rev ?placed))"
    using pos evictOverflow_items [of "placeItem ?new m"] by (simp add: AddItem_fst [OF valid])
  have fits: "int (length ?items') \<le> mgr_maxItems m \<or> (\<forall>x\<in>set ?items'. \<not> ?P x)"
  proof (cases "\<forall>x\<in>set ?items'. \<not> ?P x")
    case False
    then have "length ?items' = length ?placed - nat (int (length ?placed) - mgr_maxItems m)"
      using dropMatching_length_or_none
        [of ?P "nat (int (length ?placed) - mgr_maxItems m)" "rev ?placed"]
      unfolding eq by auto
    then show ?thesis using pos by linarith
  qed blast
  have kept: "\<forall>x\<in>set (mgr_items m). item_ID x \<noteq> item_ID ?new \<longrightarrow> \<not> ?P x \<longrightarrow> x \<in> set ?items'"
    unfolding eq using placeItem_set [OF d, of ?new] by (auto intro!: dropMatching_keeps)
  show ?thesis unfolding Let_def using eq fits kept by blast
qed

theorem AddItem_evicts_oldest_spent_witness:
  "let m = sampleManager [sampleItem ''c'' TypeText StateReady 5,
             sampleItem ''b'' TypeText StateConsumed 4, sampleItem ''a'' TypeText StateConsumed 3];
       it = sampleItem ''n'' TypeText StateReady 6;
       items' = mgr_items (fst (AddItem 9 ''u'' (Some it) m))
   in \<forall>x\<in>set (mgr_items m). item_ID x \<noteq> item_ID (fillNewItem 9 ''u'' it) \<longrightarrow>
        \<not> isEvictableState (item_State x) \<longrightarrow> x \<in> set items'"
proof -
  let ?m = "sampleManager [sampleItem ''c'' TypeText StateReady 5,
             sampleItem ''b'' TypeText StateConsumed 4, sampleItem ''a'' TypeText StateConsumed 3]"
  let ?it = "sampleItem ''n'' TypeText StateReady 6"
  have "mgr_inv ?m" "isValidInitialItem ?it" by (simp_all add: hist_eval)
  from AddItem_evicts_oldest_spent [OF this, of "''u''" 9]
  show ?thesis unfolding Let_def by blast
qed

text \<open>
  The item just added is the active one, \<open>GetByID\<close> finds it with the id, times and state
  \<open>AddItem\<close> gave it, and the callback runs exactly when one is set, as long as the list has room.
\<close>

theorem AddItem_makes_active:
  assumes inv: "mgr_inv m" and valid: "isValidInitialItem it" and uuid: "uuid \<noteq> ''''"
    and room: "int (length (mgr_items m)) < mgr_maxItems m"
  shows "GetByID (item_ID (fillNewItem now uuid it)) (fst (AddItem now uuid (Some it) m)) =
           Some (fillNewItem now uuid it) \<and>
         GetActive (fst (AddItem now uuid (Some it) m)) = Some (fillNewItem now uuid it) \<and>
         snd (AddItem now uuid (Some it) m) = mgr_onChanged m"
proof -
  let ?new = "fillNewItem now uuid it" and ?m' = "fst (AddItem now uuid (Some it) m)"
  have d: "distinct (map item_ID (mgr_items m))" using inv by (simp add: mgr_inv_def)
  have nonempty: "item_ID ?new \<noteq> ''''" using uuid by (simp add: fillNewItem_ID)
  have "length (othersOf (item_ID ?new) m) \<le> length (mgr_items m)"
    by (auto simp: othersOf_def length_remove_nth findIndexByIDLocked_def
        split: option.splits dest!: first_index_SomeD)
  then have m': "?m' = placeItem ?new m"
    using room by (simp add: AddItem_fst [OF valid] evict_nothing placeItem_length [OF d])
  have inv': "mgr_inv ?m'" using AddItem_inv [OF inv uuid] .
  have get: "GetByID (item_ID ?new) ?m' = Some ?new"
    unfolding GetByID_iff [OF inv'] by (simp add: m' placeItem_set [OF d])
  moreover have "GetActive ?m' = Some ?new"
    using get nonempty placeItem_set [OF d, of ?new]
    by (auto simp: m' GetActive_def GetByID_def split: list.splits)
  ultimately show ?thesis
    using valid by (simp add: AddItem_def Let_def)
qed

theorem AddItem_makes_active_witness:
  "GetActive (fst (AddItem 9 ''u'' (Some (sampleItem ''n'' TypeText StateReady 6))
      (sampleManager [sampleItem ''c'' TypeText StateReady 5]))) =
    Some (fillNewItem 9 ''u'' (sampleItem ''n'' TypeText StateReady 6))"
proof -
  have "mgr_inv (sampleManager [sampleItem ''c'' TypeText StateReady 5])"
    "isValidInitialItem (sampleItem ''n'' TypeText StateReady 6)" by (simp_all add: hist_eval)
  from AddItem_makes_active [OF this, of "''u''" 9] show ?thesis by (simp add: hist_eval)
qed

text \<open>
  \<open>Mutate\<close> is atomic. If it reports an error (a missing id, a failing function or a state change
  outside the state machine) the manager is unchanged and the callback does not run. If it succeeds
  it returns the stored item, stamped with the current time, and every other item is as before.
\<close>

theorem Mutate_atomic:
  assumes inv: "mgr_inv m" and stable: "stable_fn f"
  shows "case Mutate now i (Some f) m of
           (m', Inl e, notified) \<Rightarrow> m' = m \<and> \<not> notified
         | (m', Inr it', notified) \<Rightarrow>
             GetByID i m' = Some it' \<and> item_UpdatedAt it' = now \<and> notified = mgr_onChanged m \<and>
             (\<forall>j it. j \<noteq> i \<and> GetByID j m = Some it \<longrightarrow> GetByID j m' = Some it)"
proof (cases rule: Mutate_cases [of now i "Some f" m])
  case (written idx g nx)
  let ?w = "nx\<lparr>item_UpdatedAt := now\<rparr>"
  let ?old = "mgr_items m ! idx"
  have same: "item_ID ?w = item_ID ?old" using stable written(1,5) by (simp add: stable_fn_def)
  have inv': "mgr_inv (writeItem idx ?w m)"
    using Mutate_inv [OF inv, of "Some f" now i] stable written(7) by simp
  have old: "item_ID ?old = i" "?old \<in> set (mgr_items m)"
    using written(3,4) by (auto simp: findIndexByIDLocked_def dest!: first_index_SomeD)
  then have get: "GetByID i (writeItem idx ?w m) = Some ?w"
    using GetByID_writeItem [OF inv inv' written(4) same, of i ?old] inv by (simp add: GetByID_iff)
  have other: "GetByID j (writeItem idx ?w m) = Some it"
    if "j \<noteq> i" "GetByID j m = Some it" for j it
    using GetByID_writeItem [OF inv inv' written(4) same that(2)] that old inv
    by (auto simp: GetByID_iff)
  show ?thesis using written(7) get other by simp
qed simp

theorem Mutate_atomic_witness:
  "case Mutate 9 ''a'' (Some (\<lambda>it. Inr (it\<lparr>item_State := StateReadyToPaste\<rparr>)))
       (sampleManager [sampleItem ''a'' TypeFileStub StateOffered 5]) of
     (m', Inl e, notified) \<Rightarrow>
       m' = sampleManager [sampleItem ''a'' TypeFileStub StateOffered 5] \<and> \<not> notified
   | (m', Inr it', notified) \<Rightarrow> False"
proof -
  have "mgr_inv (sampleManager [sampleItem ''a'' TypeFileStub StateOffered 5])"
    by (simp add: hist_eval)
  moreover have "stable_fn (\<lambda>it. Inr (it\<lparr>item_State := StateReadyToPaste\<rparr>))"
    by (auto simp: stable_fn_def)
  ultimately show ?thesis
    using Mutate_atomic [where m = "sampleManager [sampleItem ''a'' TypeFileStub StateOffered 5]"
        and f = "\<lambda>it. Inr (it\<lparr>item_State := StateReadyToPaste\<rparr>)" and now = 9 and i = "''a''"]
    by (simp add: hist_eval Mutate_def)
qed


lemma and3_cases: "(x :: octet) AND 3 \<in> {0, 1, 2, 3}"
proof -
  have "unat (x AND 3) \<le> unat (3 :: octet)"
    by (rule word_and_le1 [THEN word_le_nat_alt [THEN iffD1]])
  then have "unat (x AND 3) \<in> {0, 1, 2, 3}" by auto
  then show ?thesis by (auto simp: word_unat_eq_iff)
qed

lemma version_nibble: "drop_bit 4 ((v AND 0x0f) OR 0x40 :: octet) = 4"
  by (rule bit_word_eqI) (auto simp: bit_simps bit_numeral_rec less_Suc_eq numeral_eq_Suc)

lemma variant_nibble: "drop_bit 4 ((v AND 0x3f) OR 0x80 :: octet) \<in> {8, 9, 10, 11}"
proof -
  have "drop_bit 4 ((v AND 0x3f) OR 0x80 :: octet) = 8 OR (drop_bit 4 v AND 3)"
    by (rule bit_word_eqI) (auto simp: bit_simps bit_numeral_rec less_Suc_eq numeral_eq_Suc)
  then show ?thesis using and3_cases [of "drop_bit 4 v"] by auto
qed

text \<open>
  With sixteen random bytes \<open>newUUID\<close> is a version-4 UUID: 36 characters, dashes after 8, 12, 16
  and 20 hexadecimal digits, the version digit 4 and a variant digit 8, 9, a or b.
\<close>

theorem newUUID_version4:
  assumes "length b = 16"
  shows "length (newUUID (Some b) ns) = 36 \<and>
         newUUID (Some b) ns ! 8 = CHR ''-'' \<and> newUUID (Some b) ns ! 13 = CHR ''-'' \<and>
         newUUID (Some b) ns ! 18 = CHR ''-'' \<and> newUUID (Some b) ns ! 23 = CHR ''-'' \<and>
         newUUID (Some b) ns ! 14 = CHR ''4'' \<and>
         newUUID (Some b) ns ! 19 \<in> set ''89ab''"
proof -
  obtain b0 b1 b2 b3 b4 b5 b6 b7 b8 b9 b10 b11 b12 b13 b14 b15 where
    b: "b = [b0, b1, b2, b3, b4, b5, b6, b7, b8, b9, b10, b11, b12, b13, b14, b15]"
    using assms by (auto simp: length_Suc_conv numeral_eq_Suc)
  have digit: "hextable ! unat (drop_bit 4 ((b8 AND 0x3f) OR 0x80 :: octet)) \<in> set ''89ab''"
    using variant_nibble [of b8] by (elim insertE emptyE) (simp_all add: hextable_def)
  show ?thesis
    using digit
    by (simp add: newUUID_def b Let_def hexBytes_def hexByte_def version_nibble)
       (simp add: hextable_def)
qed

theorem newUUID_version4_witness:
  "newUUID (Some (replicate 16 0xff)) '''' ! 14 = CHR ''4''"
  using newUUID_version4 [of "replicate 16 0xff" "''''"] by simp

end
