(* ===== verification/PathSafety.thy ===== *)
theory PathSafety
  imports GoPaths Messages History
begin

text \<open>
  Where received files may land: the file-name sanitiser, the containment checks and the planned
  target paths of \<open>desktop/app/file_transfer.go\<close> and \<open>desktop/app/replay_targets.go\<close>, on Unix paths.
  The environment gives the working directory, \<open>os.TempDir()\<close>, the outcome of \<open>os.MkdirAll\<close>, the
  clock and the rendering of a time as \<open>20060102150405\<close>.
\<close>

record PathEnv =
  pe_cwd :: string
  pe_tmp :: string
  pe_mkdirAll :: "string \<Rightarrow> goerror option"
  pe_now :: gotime
  pe_stamp :: "gotime \<Rightarrow> string"

section \<open>Names\<close>

definition reservedChars :: "char list" where
  "reservedChars = [CHR ''/'', CHR 0x5C, CHR ''<'', CHR ''>'', CHR '':'', CHR 0x22, CHR ''|'', CHR ''?'', CHR ''*'']"

definition sanitizeFileName :: "string \<Rightarrow> string" where
  "sanitizeFileName name0 =
     (let name1 = replaceChar nul '''' name0;
          name2 = fold (\<lambda>c n. replaceChar c ''_'' n) reservedChars name1;
          name3 = trimSet {CHR '' '', CHR ''.''} name2;
          name4 = (if name3 = ''.'' \<or> name3 = dotdot then '''' else name3);
          name5 = (if length name4 > 255 then take 255 name4 else name4)
      in if name5 = '''' then ''_unnamed'' else name5)"

definition sanitizeArchiveEntryPath :: "string \<Rightarrow> string" where
  "sanitizeArchiveEntryPath entryPath =
     joinChar ''/'' (map sanitizeFileName (splitChar slash (replaceChar (CHR 0x5C) ''/'' entryPath)))"

definition hasPathTraversalComponent :: "string \<Rightarrow> bool" where
  "hasPathTraversalComponent input =
     list_ex (\<lambda>part. part = dotdot) (splitChar slash (replaceChar (CHR 0x5C) ''/'' input))"

text \<open>\<open>filepath.Ext\<close>: from the last dot of the last component.\<close>

definition Ext :: "string \<Rightarrow> string" where
  "Ext p =
     (let last = last (splitChar slash p) in
      if CHR ''.'' \<in> set last then CHR ''.'' # rev (takeWhile (\<lambda>c. c \<noteq> CHR ''.'') (rev last)) else '''')"

section \<open>Containment\<close>

definition replayTempRootDir :: "PathEnv \<Rightarrow> string" where
  "replayTempRootDir e = JoinPath [pe_tmp e, ''ClipCascade'']"

definition ensurePathWithinBase :: "PathEnv \<Rightarrow> string \<Rightarrow> string \<Rightarrow> string result" where
  "ensurePathWithinBase e baseDir candidate =
     (let baseAbs = Abs (pe_cwd e) (Clean baseDir);
          candidateAbs = Abs (pe_cwd e) (Clean candidate) in
      case Rel baseAbs candidateAbs of
        Inl err \<Rightarrow> Inl err
      | Inr rel \<Rightarrow>
          if rel = dotdot \<or> hasPrefix rel (dotdot @ ''/'') \<or> IsAbs rel
          then Inl (''path escapes replay temp dir: '' @ candidate)
          else Inr candidateAbs)"

definition safeJoinUnderBase :: "PathEnv \<Rightarrow> string \<Rightarrow> string list \<Rightarrow> string result" where
  "safeJoinUnderBase e baseDir elems = ensurePathWithinBase e baseDir (JoinPath (baseDir # elems))"

definition normalizeReplayTargetPath :: "PathEnv \<Rightarrow> string \<Rightarrow> string result" where
  "normalizeReplayTargetPath e targetPath =
     (let baseDir = replayTempRootDir e in
      case pe_mkdirAll e baseDir of
        Some err \<Rightarrow> Inl err
      | None \<Rightarrow>
          (let cleaned = Clean (trimSpace targetPath) in
           if cleaned = '''' \<or> cleaned = ''.'' then Inl ''empty replay target path''
           else if IsAbs cleaned then ensurePathWithinBase e baseDir cleaned
           else safeJoinUnderBase e baseDir [cleaned]))"

fun normalizeReplayTargetPaths :: "PathEnv \<Rightarrow> string list \<Rightarrow> string list result" where
  "normalizeReplayTargetPaths e [] = Inr []"
| "normalizeReplayTargetPaths e (p # ps) =
     (case normalizeReplayTargetPath e p of
        Inl err \<Rightarrow> Inl err
      | Inr q \<Rightarrow> (case normalizeReplayTargetPaths e ps of Inl err \<Rightarrow> Inl err | Inr qs \<Rightarrow> Inr (q # qs)))"

section \<open>Planned targets\<close>

definition manifestPrimaryName :: "FileStubManifest \<Rightarrow> string" where
  "manifestPrimaryName m =
     (case man_TopLevelNames m of
        n # _ \<Rightarrow> n
      | [] \<Rightarrow>
          if man_DisplayName m \<noteq> '''' then
            (case cutAt '' and '' (man_DisplayName m) of
               Some (a, _) \<Rightarrow> if a \<noteq> '''' then a else man_DisplayName m
             | None \<Rightarrow> man_DisplayName m)
          else '''')"

definition padNine :: "string \<Rightarrow> string" where
  "padNine s = replicate (9 - length s) (CHR ''0'') @ s"

definition stampOf :: "PathEnv \<Rightarrow> gotime \<Rightarrow> gotime" where
  "stampOf e createdAt = (if createdAt = 0 then pe_now e else createdAt)"

definition replayTimestampDirName :: "PathEnv \<Rightarrow> gotime \<Rightarrow> string" where
  "replayTimestampDirName e timestamp =
     (let t = stampOf e timestamp in pe_stamp e t @ ''_'' @ padNine (showNat (nat (t mod 1000000000))))"

definition plannedReplayTargetsForManifest ::
  "PathEnv \<Rightarrow> FileStubManifest option \<Rightarrow> gotime \<Rightarrow> string list result" where
  "plannedReplayTargetsForManifest e manifest createdAt =
     (case manifest of
        None \<Rightarrow> Inl ''nil file manifest''
      | Some m \<Rightarrow>
          (let timestamp = stampOf e createdAt; tempDir = replayTempRootDir e in
           case pe_mkdirAll e tempDir of
             Some err \<Rightarrow> Inl err
           | None \<Rightarrow>
               (let candidate =
                      (if man_Kind m = FileKindSingleFile then
                         (let c = sanitizeFileName (manifestPrimaryName m) in
                          if c = '''' then ''file_'' @ pe_stamp e timestamp @ ''.bin'' else c)
                       else if man_Kind m = FileKindFolder then
                         (let c = sanitizeFileName (manifestPrimaryName m) in
                          if c = '''' then ''folder_'' @ pe_stamp e timestamp else c)
                       else replayTimestampDirName e timestamp) in
                case safeJoinUnderBase e tempDir [candidate] of
                  Inl err \<Rightarrow> Inl err
                | Inr destPath \<Rightarrow> Inr [destPath])))"

definition plannedReplayTargetsForImageItem :: "PathEnv \<Rightarrow> HistoryItem \<Rightarrow> string list result" where
  "plannedReplayTargetsForImageItem e item =
     (let timestamp = stampOf e (item_CreatedAt item); tempDir = replayTempRootDir e in
      case pe_mkdirAll e tempDir of
        Some err \<Rightarrow> Inl err
      | None \<Rightarrow>
          (let trimmedName = trimSpace (item_FileName item);
               name = (if trimmedName = '''' then pe_stamp e timestamp @ ''.png''
                       else (let n = sanitizeFileName trimmedName in
                             if Ext n = '''' then n @ ''.png'' else n)) in
           case safeJoinUnderBase e tempDir [name] of
             Inl err \<Rightarrow> Inl err
           | Inr destPath \<Rightarrow> Inr [destPath]))"

definition plannedReplayTargetsForHistoryItem :: "PathEnv \<Rightarrow> HistoryItem option \<Rightarrow> string list result" where
  "plannedReplayTargetsForHistoryItem e item =
     (case item of
        None \<Rightarrow> Inl ''no active history item''
      | Some it \<Rightarrow>
          if item_Type it = TypeImage then plannedReplayTargetsForImageItem e it
          else (case decodeManifest (item_Payload it) of
                  None \<Rightarrow> Inl ''decode file manifest''
                | Some m \<Rightarrow> plannedReplayTargetsForManifest e (Some m) (item_CreatedAt it)))"

text \<open>The names \<open>replay_targets.go\<close> reserves.\<close>

definition reservedManifestFileName :: "PathEnv \<Rightarrow> FileStubManifest \<Rightarrow> gotime \<Rightarrow> string" where
  "reservedManifestFileName e m createdAt =
     (let timestamp = stampOf e createdAt; kind = man_Kind m;
          name = trimSpace (manifestPrimaryName m) in
      if kind = FileKindImage then
        (if name = '''' then pe_stamp e timestamp @ ''.png''
         else (let n = sanitizeFileName name in if Ext n = '''' then n @ ''.png'' else n))
      else if kind = FileKindSingleFile then
        (if name = '''' then ''file_'' @ pe_stamp e timestamp @ ''.bin'' else sanitizeFileName name)
      else if kind = FileKindFolder then
        (if name = '''' then ''folder_'' @ pe_stamp e timestamp else sanitizeFileName name)
      else if kind = FileKindMultiFile then replayTimestampDirName e timestamp
      else if man_EntryCount m > 1 then replayTimestampDirName e timestamp
      else (let n = sanitizeFileName (manifestPrimaryName m) in
            if n = '''' then ''file_'' @ pe_stamp e timestamp @ ''.bin'' else n))"

definition reservedPathsForManifest ::
  "PathEnv \<Rightarrow> FileStubManifest option \<Rightarrow> gotime \<Rightarrow> string list result" where
  "reservedPathsForManifest e manifest createdAt =
     (case manifest of
        None \<Rightarrow> Inl ''nil file manifest''
      | Some m \<Rightarrow>
          (let tempDir = JoinPath [pe_tmp e, ''ClipCascade''] in
           case pe_mkdirAll e tempDir of
             Some err \<Rightarrow> Inl err
           | None \<Rightarrow>
               (case safeJoinUnderBase e tempDir [reservedManifestFileName e m createdAt] of
                  Inl err \<Rightarrow> Inl err
                | Inr destPath \<Rightarrow> Inr [destPath])))"

definition reservedPathsForHistoryItem :: "PathEnv \<Rightarrow> HistoryItem option \<Rightarrow> string list result" where
  "reservedPathsForHistoryItem e item =
     (case item of
        None \<Rightarrow> Inl ''no active history item''
      | Some it \<Rightarrow>
          (case decodeManifest (item_Payload it) of
             None \<Rightarrow> Inl ''decode file manifest''
           | Some m \<Rightarrow> reservedPathsForManifest e (Some m) (item_CreatedAt it)))"

section \<open>The sanitiser\<close>

lemma set_replaceChar: "set (replaceChar c by s) \<subseteq> set by \<union> (set s - {c})"
  by (auto simp: replaceChar_def split: if_splits)

lemma sanitize_replaced:
  "c \<in> set (fold (\<lambda>c n. replaceChar c ''_'' n) cs n) \<Longrightarrow> c = CHR ''_'' \<or> (c \<in> set n \<and> c \<notin> set cs)"
proof (induction cs arbitrary: n)
  case (Cons d cs)
  then show ?case using set_replaceChar [of d "''_''" n] by fastforce
qed simp

lemma set_trimSet: "set (trimSet cs s) \<subseteq> set s"
  by (auto simp: trimSet_def trimLeftSet_def trimRightSet_def dest!: set_dropWhileD)

lemma trimSet_hd: "trimSet cs s \<noteq> [] \<Longrightarrow> hd (trimSet cs s) \<notin> cs"
proof -
  define t where "t = trimLeftSet cs s"
  have hd: "t \<noteq> [] \<Longrightarrow> hd t \<notin> cs"
    unfolding t_def trimLeftSet_def using hd_dropWhile [of "\<lambda>x. x \<in> cs" s] by auto
  have "prefix (trimRightSet cs t) t"
    unfolding trimRightSet_def
    by (metis rev_rev_ident suffix_dropWhile suffix_to_prefix)
  then obtain u where u: "t = trimRightSet cs t @ u" by (auto simp: prefix_def)
  assume "trimSet cs s \<noteq> []"
  then have ne: "trimRightSet cs t \<noteq> []" by (simp add: trimSet_def t_def)
  then have "hd (trimRightSet cs t) = hd t" using u by (metis hd_append2)
  moreover have "t \<noteq> []" using ne u by auto
  ultimately show "hd (trimSet cs s) \<notin> cs" using hd by (simp add: trimSet_def t_def)
qed

definition safe_name :: "string \<Rightarrow> bool" where
  "safe_name n \<longleftrightarrow> n \<noteq> '''' \<and> length n \<le> 255 \<and> nul \<notin> set n \<and> set reservedChars \<inter> set n = {} \<and>
     hd n \<notin> {CHR ''.'', CHR '' ''}"

lemma sanitizeFileName_safe_name: "safe_name (sanitizeFileName name)"
proof -
  let ?n1 = "replaceChar nul '''' name"
  let ?n2 = "fold (\<lambda>c n. replaceChar c ''_'' n) reservedChars ?n1"
  let ?n3 = "trimSet {CHR '' '', CHR ''.''} ?n2"
  let ?n4 = "if ?n3 = ''.'' \<or> ?n3 = dotdot then '''' else ?n3"
  let ?n5 = "if length ?n4 > 255 then take 255 ?n4 else ?n4"
  have "c = CHR ''_'' \<or> (c \<noteq> nul \<and> c \<notin> set reservedChars)" if "c \<in> set ?n2" for c
    using sanitize_replaced [OF that] set_replaceChar [of nul "''''" name] by auto
  then have chars: "c \<noteq> nul \<and> c \<notin> set reservedChars" if "c \<in> set ?n3" for c
    using that set_trimSet [of "{CHR '' '', CHR ''.''}" ?n2] by (auto simp: nul_def reservedChars_def)
  have sub: "set ?n5 \<subseteq> set ?n3" by (auto dest: in_set_takeD)
  have hd: "?n5 \<noteq> '''' \<Longrightarrow> hd ?n5 \<notin> {CHR ''.'', CHR '' ''}"
    using trimSet_hd [of "{CHR '' '', CHR ''.''}" ?n2] by (auto split: if_splits)
  have "safe_name ?n5" if "?n5 \<noteq> ''''"
    unfolding safe_name_def
  proof (intro conjI)
    show "length ?n5 \<le> 255" by simp
    show "nul \<notin> set ?n5" "set reservedChars \<inter> set ?n5 = {}" using sub chars by blast+
  qed (use that hd in simp_all)
  moreover have "safe_name ''_unnamed''" by (simp add: safe_name_def nul_def reservedChars_def)
  ultimately show ?thesis by (simp add: sanitizeFileName_def Let_def)
qed

lemma safe_name_plain: "safe_name n \<Longrightarrow> plain_comp n \<and> splitChar slash n = [n]"
  by (auto simp: safe_name_def plain_comp_def reservedChars_def splitChar_no_sep)

lemma sanitizeArchiveEntryPath_comps:
  "list_all safe_name (splitChar slash (sanitizeArchiveEntryPath p))"
  "sanitizeArchiveEntryPath p \<noteq> ''''"
proof -
  let ?parts = "splitChar slash (replaceChar (CHR 0x5C) ''/'' p)"
  have safe: "\<forall>n\<in>set (map sanitizeFileName ?parts). safe_name n"
    by (simp add: sanitizeFileName_safe_name)
  have "splitChar slash (sanitizeArchiveEntryPath p) = map sanitizeFileName ?parts"
    unfolding sanitizeArchiveEntryPath_def using safe
    by (intro splitChar_joinChar) (auto simp: safe_name_def reservedChars_def)
  then show "list_all safe_name (splitChar slash (sanitizeArchiveEntryPath p))"
    using safe by (simp add: list_all_iff)
  then show "sanitizeArchiveEntryPath p \<noteq> ''''" by (auto simp: safe_name_def)
qed

section \<open>Everything lands below the base\<close>

definition under :: "string \<Rightarrow> string \<Rightarrow> bool" where
  "under base p \<longleftrightarrow> IsAbs p \<and> (\<exists>rest. comps p = comps base @ rest \<and> list_all plain_comp rest)"

lemma Abs_absolute: "IsAbs p \<Longrightarrow> Abs cwd (Clean p) = Clean p"
  by (simp add: Abs_def)

lemma ensurePathWithinBase_under:
  assumes "IsAbs base" "IsAbs cand" "ensurePathWithinBase e base cand = Inr p"
  shows "p = Clean cand" "under base p"
proof -
  obtain rel where rel: "Rel (Clean base) (Clean cand) = Inr rel" "\<not> climbs rel" "p = Clean cand"
    using assms by (auto simp: ensurePathWithinBase_def Abs_absolute climbs_def Let_def
        split: sum.splits if_splits)
  show "p = Clean cand" by (rule rel(3))
  have "prefix (comps base) (comps cand)" using Rel_below(1) [OF rel(1,2)] by simp
  then obtain rest where "comps cand = comps base @ rest" by (auto simp: prefix_def)
  then show "under base p"
    using assms(2) comps_plain [of cand] rel(3) by (auto simp: under_def)
qed

lemma climbs_split: "climbs rel \<Longrightarrow> \<exists>zs. splitChar slash rel = dotdot # zs"
proof -
  assume "climbs rel"
  then consider "rel = dotdot" | z where "rel = dotdot @ slash # z"
    by (auto simp: climbs_def hasPrefix_def prefix_def)
  then show ?thesis
  proof cases
    case (2 z)
    then show ?thesis using splitChar_append [of slash dotdot z] by simp
  qed simp
qed

lemma ensurePathWithinBase_below:
  assumes "IsAbs base" "IsAbs cand" "comps cand = comps base @ rest"
  shows "ensurePathWithinBase e base cand = Inr (Clean cand)"
proof -
  have plain: "list_all plain_comp rest" using comps_plain [OF assms(2)] assms(3) by simp
  let ?rel = "if rest = [] then ''.'' else joinChar ''/'' rest"
  have "Rel (Clean base) (Clean cand) = Inr ?rel"
    using assms by (intro Rel_of_below) auto
  moreover have "\<not> climbs ?rel \<and> \<not> IsAbs ?rel"
  proof (cases rest)
    case Nil
    then show ?thesis by (simp add: climbs_def hasPrefix_def)
  next
    case (Cons r rs)
    have r: "plain_comp r" using plain Cons by simp
    then have "\<not> IsAbs ?rel"
      using Cons IsAbs_joinChar [of rest] by (simp add: plain_comp_def)
    moreover have "\<not> climbs ?rel"
    proof
      assume "climbs ?rel"
      then obtain zs where "splitChar slash ?rel = dotdot # zs" using climbs_split by blast
      moreover have "\<forall>c\<in>set rest. slash \<notin> set c"
        using plain by (simp add: list_all_iff plain_comp_def)
      then have "splitChar slash (joinChar ''/'' rest) = rest"
        using Cons by (intro splitChar_joinChar) simp_all
      ultimately have "rest = dotdot # zs" using Cons by simp
      then show False using Cons r by (simp add: plain_comp_def)
    qed
    ultimately show ?thesis by simp
  qed
  ultimately show ?thesis
    using assms by (simp add: ensurePathWithinBase_def Abs_absolute climbs_def)
qed

lemma safeJoin_safe_name:
  assumes "IsAbs base" "safe_name n"
  shows "safeJoinUnderBase e base [n] = Inr (JoinPath [base, n])"
    "comps (JoinPath [base, n]) = comps base @ [n]" "IsAbs (JoinPath [base, n])"
proof -
  have n: "n \<noteq> ''''" "splitChar slash n = [n]" "plain_comp n"
    using assms(2) safe_name_plain [of n] by (auto simp: safe_name_def)
  then show c: "comps (JoinPath [base, n]) = comps base @ [n]" and a: "IsAbs (JoinPath [base, n])"
    using comps_JoinPath [OF assms(1), of n] by simp_all
  have ne: "base \<noteq> ''''" using assms(1) by auto
  show "safeJoinUnderBase e base [n] = Inr (JoinPath [base, n])"
    using ensurePathWithinBase_below [OF assms(1) a c] ne n(1)
    by (simp add: safeJoinUnderBase_def JoinPath_two)
qed

text \<open>The root is absolute when \<open>os.TempDir()\<close> is.\<close>

lemma root_abs: "IsAbs (pe_tmp e) \<Longrightarrow> IsAbs (replayTempRootDir e)"
  using comps_JoinPath(2) [of "pe_tmp e" "''ClipCascade''"]
  by (simp add: replayTempRootDir_def plain_comp_def)

lemma JoinPath_abs: "IsAbs a \<Longrightarrow> b \<noteq> '''' \<Longrightarrow> IsAbs (JoinPath [a, b])"
  by (cases a) (auto simp: JoinPath_two)

lemma normalize_under:
  assumes "IsAbs (pe_tmp e)" "normalizeReplayTargetPath e t = Inr p"
  shows "under (replayTempRootDir e) p"
proof -
  let ?root = "replayTempRootDir e" and ?c = "Clean (trimSpace t)"
  have root: "IsAbs ?root" using assms(1) by (rule root_abs)
  show ?thesis
  proof (cases "IsAbs ?c")
    case True
    then have "ensurePathWithinBase e ?root ?c = Inr p"
      using assms(2) by (auto simp: normalizeReplayTargetPath_def Let_def split: option.splits if_splits)
    then show ?thesis by (rule ensurePathWithinBase_under(2) [OF root True])
  next
    case False
    then have c: "?c \<noteq> ''''" "ensurePathWithinBase e ?root (JoinPath [?root, ?c]) = Inr p"
      using assms(2) by (auto simp: normalizeReplayTargetPath_def safeJoinUnderBase_def Let_def
          split: option.splits if_splits)
    show ?thesis
      by (rule ensurePathWithinBase_under(2) [OF root JoinPath_abs [OF root c(1)] c(2)])
  qed
qed

text \<open>
  A replay target path, whatever a history item holds, is accepted only inside the replay directory:
  the result is an absolute path whose components are those of the directory followed by ordinary names
  (no dotdot).
\<close>

theorem replay_target_contained:
  "IsAbs (pe_tmp e) \<Longrightarrow> normalizeReplayTargetPath e t = Inr p \<Longrightarrow>
     IsAbs p \<and> (\<exists>rest. comps p = comps (replayTempRootDir e) @ rest \<and> list_all plain_comp rest)"
  using normalize_under by (simp add: under_def)

definition sampleEnv :: PathEnv where
  "sampleEnv = \<lparr>pe_cwd = ''/home/u'', pe_tmp = ''/tmp'', pe_mkdirAll = (\<lambda>_. None), pe_now = 5,
     pe_stamp = (\<lambda>_. ''20240101000000'')\<rparr>"

lemma sampleEnv_abs [simp]: "IsAbs (pe_tmp sampleEnv)"
  by (simp add: sampleEnv_def)

theorem replay_target_contained_witness:
  "normalizeReplayTargetPath sampleEnv ''a/../b'' = Inr ''/tmp/ClipCascade/b'' \<and>
   comps ''/tmp/ClipCascade/b'' = [''tmp'', ''ClipCascade'', ''b''] \<and>
   (\<exists>p. p = ''/tmp/ClipCascade/b'' \<and> IsAbs p)"
proof -
  have "normalizeReplayTargetPath sampleEnv ''a/../b'' = Inr ''/tmp/ClipCascade/b''"
    by code_simp
  moreover from replay_target_contained [OF sampleEnv_abs this] have "IsAbs ''/tmp/ClipCascade/b''"
    by (rule conjunct1)
  moreover have "comps ''/tmp/ClipCascade/b'' = [''tmp'', ''ClipCascade'', ''b'']" by code_simp
  ultimately show ?thesis by blast
qed

text \<open>The planned target of a single file or a folder is exactly one safe name below the replay directory,
  whatever names the sender put in the manifest: no separator or reserved character, no NUL, no leading
  dot, at most 255 bytes; planning cannot fail once the directory exists.
\<close>

theorem planned_target_is_safe:
  assumes "IsAbs (pe_tmp e)" "pe_mkdirAll e (replayTempRootDir e) = None"
    and "man_Kind m = FileKindSingleFile \<or> man_Kind m = FileKindFolder"
  shows "\<exists>p n. plannedReplayTargetsForManifest e (Some m) t = Inr [p] \<and> IsAbs p \<and>
     comps p = comps (replayTempRootDir e) @ [n] \<and> n = sanitizeFileName (manifestPrimaryName m) \<and>
     safe_name n"
proof -
  let ?n = "sanitizeFileName (manifestPrimaryName m)"
  have safe: "safe_name ?n" by (rule sanitizeFileName_safe_name)
  then have ne: "?n \<noteq> ''''" by (simp add: safe_name_def)
  note join = safeJoin_safe_name [OF root_abs [OF assms(1)] safe]
  have "plannedReplayTargetsForManifest e (Some m) t = Inr [JoinPath [replayTempRootDir e, ?n]]"
    using assms(2,3) ne join(1) by (auto simp: plannedReplayTargetsForManifest_def Let_def)
  then show ?thesis using join(2,3) safe by blast
qed

theorem planned_target_is_safe_witness:
  "\<exists>p n. plannedReplayTargetsForManifest sampleEnv (Some (zeroManifest\<lparr>man_Kind := FileKindSingleFile,
       man_TopLevelNames := [''../../etc/passwd'']\<rparr>)) 7 = Inr [p] \<and> IsAbs p \<and>
     comps p = comps (replayTempRootDir sampleEnv) @ [n] \<and> n = sanitizeFileName ''../../etc/passwd'' \<and>
     safe_name n"
  using planned_target_is_safe [of sampleEnv "zeroManifest\<lparr>man_Kind := FileKindSingleFile,
       man_TopLevelNames := [''../../etc/passwd'']\<rparr>" 7]
  by (simp add: sampleEnv_def manifestPrimaryName_def)


end
