(* ===== verification/ZipExtract.thy ===== *)
theory ZipExtract
  imports PathSafety "HOL-Library.AList" "HOL-Library.List_Lexorder" "HOL-Library.Char_ord"
begin

text \<open>
  Safe extraction of received archives (\<open>extractZipReaderSafely\<close> and what it calls in
  \<open>desktop/app/file_transfer.go\<close>). A parsed archive is the list of its entries; opening an entry gives
  the blocks its decompressor delivers and how the stream ends. The file system is what the
  environment answers to each call, and the extraction records every directory it makes and every
  file it writes with the bytes that reached it, also when it stops with an error. Sizes are 64-bit
  words.
\<close>

section \<open>Sizes\<close>

record ZipEntry =
  ze_Name :: string
  ze_UncompressedSize64 :: uint64
  ze_IsDir :: bool
  ze_IsSymlink :: bool
  ze_Open :: "(bytes list \<times> goerror option) result"

fun zipAdvertisedLoop :: "ZipEntry list \<Rightarrow> uint64 \<Rightarrow> uint64 result" where
  "zipAdvertisedLoop [] acc = Inr acc"
| "zipAdvertisedLoop (f # fs) acc =
     (if ze_IsDir f then zipAdvertisedLoop fs acc
      else if acc > - 1 - ze_UncompressedSize64 f
      then Inl (''zip advertised size overflow: '' @ ze_Name f)
      else zipAdvertisedLoop fs (acc + ze_UncompressedSize64 f))"

definition zipAdvertisedExtractBytes :: "ZipEntry list option \<Rightarrow> uint64 result" where
  "zipAdvertisedExtractBytes reader =
     (case reader of None \<Rightarrow> Inl ''nil zip reader'' | Some files \<Rightarrow> zipAdvertisedLoop files 0)"

definition estimatedRequiredExtractBytes :: "int \<Rightarrow> uint64" where
  "estimatedRequiredExtractBytes estimatedTotalBytes =
     (if estimatedTotalBytes \<le> 0 then 0
      else (let requiredBytes = word_of_int estimatedTotalBytes in requiredBytes + requiredBytes div 10))"

section \<open>Copying with a limit\<close>

type_synonym writer = "bytes \<Rightarrow> nat \<times> goerror option"

text \<open>
  The loop of \<open>copyReaderWithLimit\<close> on the blocks that are left: the bytes that reached the writer, the
  count, and the error. An empty block is a read of no bytes.
\<close>

fun copyReaderWithLimit ::
  "writer \<Rightarrow> bytes list \<Rightarrow> goerror option \<Rightarrow> uint64 \<Rightarrow> uint64 \<Rightarrow> bytes \<times> uint64 \<times> goerror option"
where
  "copyReaderWithLimit wr [] status limit written = ([], written, status)"
| "copyReaderWithLimit wr (b # bs) status limit written =
     (if b = [] then copyReaderWithLimit wr bs status limit written
      else if of_nat (length b) > limit - written then
        ([], written, Some ''reader exceeded advertised size'')
      else
        (let (wn, err) = wr b; written' = written + of_nat wn; out = take wn b in
         case err of
           Some e \<Rightarrow> (out, written', Some e)
         | None \<Rightarrow>
             if wn \<noteq> length b then (out, written', Some ''short write'')
             else (let (rest, count, e) = copyReaderWithLimit wr bs status limit written' in
                   (out @ rest, count, e))))"

section \<open>Disk space\<close>

datatype stat_result = StatDir | StatFile | StatNotExist | StatError goerror

record ZipEnv =
  zv_stat :: "string \<Rightarrow> stat_result"
  zv_availableDiskSpace :: "string \<Rightarrow> uint64 result"
  zv_mkdirAll :: "string \<Rightarrow> goerror option"
  zv_openFile :: "string \<Rightarrow> goerror option"
  zv_write :: "string \<Rightarrow> writer"
  zv_close :: "string \<Rightarrow> goerror option"

text \<open>The parent of a clean path has one component less, so climbing ends at the root.\<close>

lemma joinChar_snoc:
  "xs \<noteq> [] \<Longrightarrow> joinChar sep (xs @ [y]) = joinChar sep xs @ sep @ y"
  by (induction sep xs rule: joinChar.induct) auto

lemma upto_last_slash:
  assumes "slash \<notin> set b"
  shows "rev (dropWhile (\<lambda>c. c \<noteq> slash) (rev (a @ slash # b))) = a @ [slash]"
proof -
  have "dropWhile (\<lambda>c. c \<noteq> slash) (rev b @ slash # rev a) = slash # rev a"
    using assms by (subst dropWhile_append2) auto
  then show ?thesis by simp
qed

lemma comps_trailing_slash: "a \<noteq> [] \<Longrightarrow> comps (a @ [slash]) = comps a"
proof -
  assume "a \<noteq> []"
  then have "IsAbs (a @ [slash]) = IsAbs a" by (cases a) auto
  then show ?thesis by (simp add: comps_append cleanComps_append) (simp add: comps_def)
qed

lemma clean_comps_butlast: "clean_comps_ok r cs \<Longrightarrow> clean_comps_ok r (butlast cs)"
proof -
  assume "clean_comps_ok r cs"
  then obtain n ps where cs: "cs = replicate n dotdot @ ps" "list_all plain_comp ps" "r \<longrightarrow> n = 0"
    unfolding clean_comps_ok_def by blast
  show ?thesis
  proof (cases "ps = []")
    case True
    then have "butlast cs = replicate (n - 1) dotdot @ []" using cs(1)
      by (simp add: butlast_conv_take min_def)
    then show ?thesis using cs(3) unfolding clean_comps_ok_def
      by (intro exI [of _ "n - 1"] exI [of _ "[]"]) simp
  next
    case False
    then have "butlast cs = replicate n dotdot @ butlast ps" using cs(1) by (simp add: butlast_append)
    moreover have "list_all plain_comp (butlast ps)"
      using cs(2) by (auto simp: list_all_iff dest: in_set_butlastD)
    ultimately show ?thesis using cs(3) unfolding clean_comps_ok_def by blast
  qed
qed

lemma unclean_Nil: "unclean r [] = (if r then ''/'' else ''.'')"
  by (simp add: unclean_def)

lemma DirOf_clean:
  assumes "Clean p = p"
  shows "comps (DirOf p) = butlast (comps p)" "IsAbs (DirOf p) = IsAbs p"
proof -
  let ?cs = "comps p" and ?r = "IsAbs p"
  have ok: "clean_comps_ok ?r ?cs" by (rule comps_ok)
  have p: "p = unclean ?r ?cs" using assms by (simp add: Clean_def)
  have "comps (DirOf p) = butlast ?cs \<and> IsAbs (DirOf p) = ?r"
  proof (cases "?cs = []")
    case True
    then have "p = (if ?r then ''/'' else ''.'')" using p by (metis unclean_Nil)
    then have "DirOf p = p" using assms by (cases ?r) (auto simp: DirOf_def Clean_def comps_def unclean_def)
    then show ?thesis using True by simp
  next
    case False
    let ?q = "butlast ?cs" and ?l = "last ?cs"
    have cs: "?cs = ?q @ [?l]" using False by simp
    have l: "slash \<notin> set ?l" "?l \<noteq> []" using clean_comp_chars [OF ok, of ?l] False by auto
    have q: "clean_comps_ok ?r ?q" using ok by (rule clean_comps_butlast)
    have nq: "\<forall>c\<in>set ?q. slash \<notin> set c \<and> c \<noteq> []" using clean_comp_chars [OF q] by auto
    show ?thesis
    proof (cases "?q = []")
      case True
      have "unclean r [x] = (if r then slash # x else x)" for r x by (simp add: unclean_def)
      moreover have "?cs = [?l]" using cs True by simp
      ultimately have p': "p = (if ?r then slash # ?l else ?l)" using p by metis
      have "takeWhile (\<lambda>c. c \<noteq> slash) (rev ?l) = rev ?l"
        using l by (simp add: takeWhile_eq_all_conv) (metis)
      then have "DirOf p = (if ?r then ''/'' else ''.'')"
      proof (cases ?r)
        case True
        then show ?thesis
          using p' upto_last_slash [OF l(1), of "[]"]
          by (simp add: DirOf_def Clean_def comps_def unclean_def)
      next
        case False
        then have "dropWhile (\<lambda>c. c \<noteq> slash) (rev p) = []"
          using p' l by auto
        then have "DirOf p = Clean ''''" unfolding DirOf_def by (metis rev.simps(1))
        then show ?thesis using False by (simp add: Clean_def comps_def unclean_def)
      qed
      then show ?thesis using True by (cases ?r) (auto simp: comps_def)
    next
      case ne: False
      let ?u = "unclean ?r ?q"
      have "p = ?u @ slash # ?l"
        using p cs False ne joinChar_snoc [OF ne, of "''/''" ?l]
        by (metis (no_types, lifting) append_Cons append_Nil append_assoc unclean_def)
      then have "DirOf p = Clean (?u @ [slash])"
        using upto_last_slash [OF l(1), of ?u] by (simp add: DirOf_def)
      moreover have "?u \<noteq> []"
        using nq ne by (cases ?q rule: remdups_adj.cases) (auto simp: unclean_def)
      moreover from this have "IsAbs (?u @ [slash]) = IsAbs ?u" by (cases ?u) auto
      ultimately show ?thesis using clean_unclean [OF q] by (simp add: comps_trailing_slash)
    qed
  qed
  then show "comps (DirOf p) = butlast (comps p)" "IsAbs (DirOf p) = IsAbs p" by auto
qed

lemma Clean_DirOf [simp]: "Clean (DirOf p) = DirOf p"
  by (simp add: DirOf_def)

lemma DirOf_root: "Clean p = p \<Longrightarrow> comps p = [] \<Longrightarrow> DirOf p = p"
proof -
  assume a: "Clean p = p" "comps p = []"
  have "DirOf p = Clean (DirOf p)" by simp
  also have "\<dots> = unclean (IsAbs p) []"
    unfolding Clean_def [of "DirOf p"] using DirOf_clean [OF a(1)] a(2) by simp
  also have "\<dots> = p" using a by (metis Clean_def)
  finally show ?thesis .
qed

lemma length_comps_le: "length (comps p) \<le> Suc (length p)"
proof -
  have "length (cleanComps r out cs) \<le> length out + length cs" for r out cs
    by (induction r out cs rule: cleanComps.induct) (auto split: list.splits)
  from this [of "IsAbs p" "[]" "splitChar slash p"]
  have "length (comps p) \<le> length (splitChar slash p)" by (simp add: comps_def)
  also have "\<dots> \<le> Suc (length p)"
    by (induction p) (auto split: list.splits)
  finally show ?thesis .
qed

text \<open>\<open>diskSpaceCheckPath\<close>: climb to the first path that exists.\<close>

definition climb_measure :: "string \<Rightarrow> nat" where
  "climb_measure p = (if Clean p = p then length (comps p) else Suc (Suc (length p)))"

lemma climb_decreases:
  assumes "DirOf p \<noteq> p"
  shows "climb_measure (DirOf p) < climb_measure p"
proof (cases "Clean p = p")
  case True
  then have "comps p \<noteq> []" using assms DirOf_root by blast
  then show ?thesis using True DirOf_clean(1) [OF True] by (simp add: climb_measure_def)
next
  case False
  have "length (comps (DirOf p)) \<le> Suc (length (rev (dropWhile (\<lambda>c. c \<noteq> slash) (rev p))))"
    unfolding DirOf_def Clean_facts by (rule length_comps_le)
  also have "\<dots> \<le> Suc (length p)" by (simp, metis length_dropWhile_le length_rev)
  finally show ?thesis using False by (simp add: climb_measure_def)
qed

function climbToExisting :: "ZipEnv \<Rightarrow> string \<Rightarrow> string \<Rightarrow> string result" where
  "climbToExisting env targetDir current =
     (case zv_stat env current of
        StatDir \<Rightarrow> Inr current
      | StatFile \<Rightarrow> Inr (DirOf current)
      | StatError err \<Rightarrow> Inl err
      | StatNotExist \<Rightarrow>
          (let parent = DirOf current in
           if parent = current then Inl (''no existing parent directory for '' @ targetDir)
           else climbToExisting env targetDir parent))"
  by pat_completeness auto
termination
  by (relation "measure (\<lambda>(env, t, p). climb_measure p)") (auto intro: climb_decreases)

declare climbToExisting.simps [simp del]

definition diskSpaceCheckPath :: "ZipEnv \<Rightarrow> string \<Rightarrow> string result" where
  "diskSpaceCheckPath env targetDir = climbToExisting env targetDir (Clean targetDir)"

definition ensureExtractDiskSpaceForTarget :: "ZipEnv \<Rightarrow> string \<Rightarrow> uint64 \<Rightarrow> goerror option" where
  "ensureExtractDiskSpaceForTarget env targetDir requiredBytes =
     (if requiredBytes = 0 then None
      else (case diskSpaceCheckPath env targetDir of
              Inl err \<Rightarrow> Some (''resolve disk space check path: '' @ err)
            | Inr checkPath \<Rightarrow>
                (case zv_availableDiskSpace env checkPath of
                   Inl err \<Rightarrow> Some (''check available disk space: '' @ err)
                 | Inr availableBytes \<Rightarrow>
                     if availableBytes < requiredBytes
                     then Some ''insufficient disk space for extraction'' else None)))"

definition ensureExtractDiskSpace :: "ZipEnv \<Rightarrow> string \<Rightarrow> int \<Rightarrow> goerror option" where
  "ensureExtractDiskSpace env extractDir estimatedTotalBytes =
     (let requiredBytes = estimatedRequiredExtractBytes estimatedTotalBytes in
      case diskSpaceCheckPath env extractDir of
        Inl err \<Rightarrow> Some (''resolve disk space check path: '' @ err)
      | Inr checkPath \<Rightarrow>
          (case zv_availableDiskSpace env checkPath of
             Inl err \<Rightarrow> Some (''check available disk space: '' @ err)
           | Inr availableBytes \<Rightarrow>
               if availableBytes < requiredBytes
               then Some ''insufficient disk space for extraction'' else None))"

section \<open>Extraction\<close>

record ExtractState =
  ex_dirs :: "string list"
  ex_files :: "(string \<times> bytes) list"
  ex_extracted :: uint64
  ex_topLevel :: "(string \<times> string) list"

text \<open>
  The name checks of one entry: the sanitised relative name and the destination, or why it is refused.
\<close>

definition entryDestination :: "string \<Rightarrow> ZipEntry \<Rightarrow> (string \<times> string) result" where
  "entryDestination targetDir f =
     (let normalizedName = replaceChar (CHR 0x5C) ''/'' (ze_Name f) in
      if hasPathTraversalComponent normalizedName
      then Inl (''zip entry contains parent traversal: '' @ ze_Name f)
      else (let cleanName = Clean normalizedName in
        if IsAbs cleanName \<or> cleanName = ''.''
        then Inl (''invalid zip entry path: '' @ ze_Name f)
        else (let sanitizedName = sanitizeArchiveEntryPath cleanName in
          if sanitizedName = '''' \<or> sanitizedName = ''.''
          then Inl (''invalid sanitized zip entry path: '' @ ze_Name f)
          else (let destPath = JoinPath [targetDir, sanitizedName] in
            case Rel targetDir destPath of
              Inl _ \<Rightarrow> Inl (''zip slip detected: '' @ ze_Name f)
            | Inr rel \<Rightarrow>
                if hasPrefix rel dotdot then Inl (''zip slip detected: '' @ ze_Name f)
                else if ze_IsSymlink f then Inl (''symlink entry not allowed: '' @ ze_Name f)
                else Inr (sanitizedName, destPath)))))"

text \<open>One file: its directory, the open, the copy, the close and the size checks.\<close>

definition extractFile ::
  "ZipEnv \<Rightarrow> uint64 \<Rightarrow> ZipEntry \<Rightarrow> string \<Rightarrow> ExtractState \<Rightarrow> ExtractState \<times> goerror option"
where
  "extractFile env requiredBytes f destPath st0 =
     (let dir = DirOf destPath in
      case zv_mkdirAll env dir of
        Some err \<Rightarrow> (st0, Some err)
      | None \<Rightarrow>
      (let st1 = st0\<lparr>ex_dirs := dir # ex_dirs st0\<rparr> in
       case ze_Open f of
         Inl err \<Rightarrow> (st1, Some err)
       | Inr (blocks, status) \<Rightarrow>
      (case zv_openFile env destPath of
         Some err \<Rightarrow> (st1, Some err)
       | None \<Rightarrow>
      (let (out, written, copyErr) =
             copyReaderWithLimit (zv_write env destPath) blocks status (ze_UncompressedSize64 f) 0;
           closeErr = zv_close env destPath;
           st2 = st1\<lparr>ex_files := (destPath, out) # ex_files st1\<rparr> in
       if copyErr \<noteq> None then (st2, copyErr)
       else if closeErr \<noteq> None then (st2, closeErr)
       else if written \<noteq> ze_UncompressedSize64 f
       then (st2, Some (''zip entry size mismatch: '' @ ze_Name f))
       else if ex_extracted st2 > - 1 - written
       then (st2, Some (''zip extraction size overflow: '' @ ze_Name f))
       else (let st3 = st2\<lparr>ex_extracted := ex_extracted st2 + written\<rparr> in
             if ex_extracted st3 > requiredBytes
             then (st3, Some (''zip extraction exceeded advertised byte limit: '' @ ze_Name f))
             else (st3, None))))))"

definition extractEntry ::
  "ZipEnv \<Rightarrow> string \<Rightarrow> uint64 \<Rightarrow> ZipEntry \<Rightarrow> ExtractState \<Rightarrow> ExtractState \<times> goerror option"
where
  "extractEntry env targetDir requiredBytes f st0 =
     (case entryDestination targetDir f of
        Inl err \<Rightarrow> (st0, Some err)
      | Inr (sanitizedName, destPath) \<Rightarrow>
          (let (st1, err) =
                 (if ze_IsDir f then
                    (case zv_mkdirAll env destPath of
                       Some err \<Rightarrow> (st0, Some err)
                     | None \<Rightarrow> (st0\<lparr>ex_dirs := destPath # ex_dirs st0\<rparr>, None))
                  else extractFile env requiredBytes f destPath st0) in
           case err of
             Some e \<Rightarrow> (st1, Some e)
           | None \<Rightarrow>
               (let top = hd (splitChar slash sanitizedName) in
                if top \<noteq> ''''
                then (st1\<lparr>ex_topLevel := AList.update top (JoinPath [targetDir, top]) (ex_topLevel st1)\<rparr>, None)
                else (st1, None))))"

fun extractEntries ::
  "ZipEnv \<Rightarrow> string \<Rightarrow> uint64 \<Rightarrow> ZipEntry list \<Rightarrow> ExtractState \<Rightarrow> ExtractState \<times> goerror option"
where
  "extractEntries env targetDir requiredBytes [] st = (st, None)"
| "extractEntries env targetDir requiredBytes (f # fs) st =
     (let (st1, err) = extractEntry env targetDir requiredBytes f st in
      if err \<noteq> None then (st1, err) else extractEntries env targetDir requiredBytes fs st1)"

definition emptyExtract :: ExtractState where
  "emptyExtract = \<lparr>ex_dirs = [], ex_files = [], ex_extracted = 0, ex_topLevel = []\<rparr>"

definition extractZipReaderSafely ::
  "ZipEnv \<Rightarrow> ZipEntry list option \<Rightarrow> string \<Rightarrow> ExtractState \<times> string list result"
where
  "extractZipReaderSafely env reader targetDir =
     (case zipAdvertisedExtractBytes reader of
        Inl err \<Rightarrow> (emptyExtract, Inl err)
      | Inr requiredBytes \<Rightarrow>
          (case ensureExtractDiskSpaceForTarget env targetDir requiredBytes of
             Some err \<Rightarrow> (emptyExtract, Inl err)
           | None \<Rightarrow>
               (let (st, err) = extractEntries env targetDir requiredBytes (the reader) emptyExtract in
                case err of
                  Some e \<Rightarrow> (st, Inl e)
                | None \<Rightarrow> (st, Inr (sort (map snd (ex_topLevel st)))))))"

text \<open>
  The two entry points replace the target directory first; the reader is the parsed archive or the
  error of \<open>zip.OpenReader\<close> / \<open>zip.NewReader\<close>.
\<close>

definition extractZipSafely ::
  "ZipEnv \<Rightarrow> (string \<Rightarrow> goerror option) \<Rightarrow> (string \<Rightarrow> ZipEntry list result) \<Rightarrow> string \<Rightarrow> string \<Rightarrow>
     ExtractState \<times> string list result"
where
  "extractZipSafely env rmAll openReader archivePath targetDir =
     (case rmAll targetDir of
        Some err \<Rightarrow> (emptyExtract, Inl err)
      | None \<Rightarrow>
          (case zv_mkdirAll env targetDir of
             Some err \<Rightarrow> (emptyExtract, Inl err)
           | None \<Rightarrow>
               (case openReader archivePath of
                  Inl err \<Rightarrow> (emptyExtract, Inl err)
                | Inr files \<Rightarrow> extractZipReaderSafely env (Some files) targetDir)))"

definition extractZipBytesSafely ::
  "ZipEnv \<Rightarrow> (string \<Rightarrow> goerror option) \<Rightarrow> (bytes \<Rightarrow> ZipEntry list result) \<Rightarrow> bytes \<Rightarrow> string \<Rightarrow>
     ExtractState \<times> string list result"
where
  "extractZipBytesSafely env rmAll newReader archiveBytes targetDir =
     (case rmAll targetDir of
        Some err \<Rightarrow> (emptyExtract, Inl err)
      | None \<Rightarrow>
          (case zv_mkdirAll env targetDir of
             Some err \<Rightarrow> (emptyExtract, Inl err)
           | None \<Rightarrow>
               (case newReader archiveBytes of
                  Inl err \<Rightarrow> (emptyExtract, Inl err)
                | Inr files \<Rightarrow> extractZipReaderSafely env (Some files) targetDir)))"

section \<open>Sizes do not wrap\<close>

definition advertisedSum :: "ZipEntry list \<Rightarrow> nat" where
  "advertisedSum fs = sum_list (map (\<lambda>f. unat (ze_UncompressedSize64 f)) (filter (Not \<circ> ze_IsDir) fs))"

lemma uint64_bound: "unat (w :: uint64) < 2 ^ 64"
  by (rule order_less_le_trans [OF unsigned_less]) simp

lemma unat_small: "n < 2 ^ 64 \<Longrightarrow> unat (of_nat n :: uint64) = n"
  by (simp add: unsigned_of_nat take_bit_nat_eq_self)

lemma room_iff: "(a :: uint64) > - 1 - b \<longleftrightarrow> unat a + unat b \<ge> 2 ^ 64"
proof -
  have "unat (- 1 :: uint64) = 2 ^ 64 - 1" by (simp add: unsigned_minus_1_eq_mask mask_eq_exp_minus_1)
  moreover have "b \<le> - 1" by simp
  ultimately have "unat (- 1 - b) = 2 ^ 64 - 1 - unat b" by (metis unat_sub)
  then show ?thesis using uint64_bound [of b] by (simp add: word_less_nat_alt) linarith
qed

lemma unat_add_room: "unat (a :: uint64) + unat b < 2 ^ 64 \<Longrightarrow> unat (a + b) = unat a + unat b"
  by (simp add: unat_word_ariths)

lemma zipAdvertisedLoop_exact:
  "zipAdvertisedLoop fs acc = Inr t \<Longrightarrow> unat t = unat acc + advertisedSum fs"
proof (induction fs acc rule: zipAdvertisedLoop.induct)
  case (2 f fs acc)
  then show ?case
    unfolding zipAdvertisedLoop.simps room_iff
    using unat_add_room [of acc "ze_UncompressedSize64 f"]
    by (cases "ze_IsDir f") (auto simp: advertisedSum_def not_le split: if_splits)
qed (simp add: advertisedSum_def)

lemma zipAdvertisedLoop_total:
  "unat acc + advertisedSum fs < 2 ^ 64 \<Longrightarrow> \<exists>t. zipAdvertisedLoop fs acc = Inr t"
proof (induction fs acc rule: zipAdvertisedLoop.induct)
  case (2 f fs acc)
  show ?case
  proof (cases "ze_IsDir f")
    case True
    then show ?thesis using 2 by (simp add: advertisedSum_def)
  next
    case False
    then have room: "unat acc + unat (ze_UncompressedSize64 f) < 2 ^ 64"
      using 2(3) by (simp add: advertisedSum_def)
    then have ok: "\<not> acc > - 1 - ze_UncompressedSize64 f" unfolding room_iff by simp
    have "unat (acc + ze_UncompressedSize64 f) + advertisedSum fs < 2 ^ 64"
      using 2(3) False unat_add_room [OF room] by (simp add: advertisedSum_def)
    then show ?thesis using 2(2) [OF False ok] False ok by (simp only: zipAdvertisedLoop.simps if_False)
  qed
qed simp

text \<open>The contracts of \<open>io.Reader\<close> and \<open>io.Writer\<close>: no more than the buffer.\<close>

definition reads_ok :: "ZipEntry \<Rightarrow> bool" where
  "reads_ok f \<longleftrightarrow> (case ze_Open f of Inl _ \<Rightarrow> True
     | Inr (blocks, _) \<Rightarrow> list_all (\<lambda>b. length b \<le> 32 * 1024) blocks)"

definition writer_ok :: "writer \<Rightarrow> bool" where
  "writer_ok wr \<longleftrightarrow> (\<forall>b. fst (wr b) \<le> length b)"

lemma copy_within_limit:
  assumes "copyReaderWithLimit wr bs status limit w = (out, count, e)" "w \<le> limit"
    and "list_all (\<lambda>b. length b \<le> 32 * 1024) bs" "writer_ok wr"
  shows "unat count = unat w + length out \<and> count \<le> limit"
  using assms
proof (induction bs arbitrary: w out count e)
  case (Cons b bs)
  obtain wn err where wr: "wr b = (wn, err)" by fastforce
  have wn: "wn \<le> length b" using Cons.prems(4) wr unfolding writer_ok_def by (metis fst_conv)
  have len: "length b \<le> 32768" using Cons.prems(3) by simp
  show ?case
  proof (cases "b = [] \<or> of_nat (length b) > limit - w")
    case True
    then show ?thesis using Cons by (auto split: if_splits)
  next
    case False
    have "unat (of_nat (length b) :: uint64) = length b"
      using len by (intro unat_small) simp
    moreover have "unat (limit - w) = unat limit - unat w" using Cons.prems(2) by (rule unat_sub)
    ultimately have room: "length b \<le> unat limit - unat w"
      using False by (simp add: word_less_nat_alt)
    have w': "unat (w + of_nat wn) = unat w + wn"
    proof -
      have "unat (of_nat wn :: uint64) = wn" using wn len by (intro unat_small) simp
      moreover have "unat w + wn < 2 ^ 64"
        using room wn uint64_bound [of limit] Cons.prems(2)
        by (simp add: word_le_nat_alt)
      ultimately show ?thesis by (simp add: unat_word_ariths)
    qed
    have le: "w + of_nat wn \<le> limit"
      using w' room wn Cons.prems(2) by (simp add: word_le_nat_alt)
    show ?thesis
    proof (cases "err = None \<and> wn = length b")
      case stop: False
      then show ?thesis using Cons.prems(1) False wr w' le wn
        by (auto simp: Let_def split: option.splits if_splits)
    next
      case True
      obtain rest count' e' where r: "copyReaderWithLimit wr bs status limit (w + of_nat wn) = (rest, count', e')"
        by (metis prod_cases3)
      have "unat count' = unat (w + of_nat wn) + length rest \<and> count' \<le> limit"
        using Cons.IH [OF r le] Cons.prems(3,4) by simp
      moreover have "out = b @ rest" "count = count'" using Cons.prems(1) False wr True r by auto
      ultimately show ?thesis using w' True by simp
    qed
  qed
qed simp

section \<open>Every destination is below the target\<close>

lemma safe_plain: "list_all safe_name ns \<Longrightarrow> list_all plain_comp ns"
  using safe_name_plain by (auto simp: list_all_iff)

lemma entryDestination_below:
  assumes "IsAbs targetDir" "entryDestination targetDir f = Inr (sn, dest)"
  shows "comps dest = comps targetDir @ splitChar slash sn" "IsAbs dest" "Clean dest = dest"
    "list_all safe_name (splitChar slash sn)" "dest = JoinPath [targetDir, sn]"
proof -
  let ?p = "Clean (replaceChar (CHR 0x5C) ''/'' (ze_Name f))"
  have sn: "sn = sanitizeArchiveEntryPath ?p" and dest: "dest = JoinPath [targetDir, sn]"
    using assms(2) by (auto simp: entryDestination_def Let_def split: if_splits sum.splits)
  show safe: "list_all safe_name (splitChar slash sn)" and "dest = JoinPath [targetDir, sn]"
    using sanitizeArchiveEntryPath_comps(1) sn dest by auto
  have ne: "sn \<noteq> ''''" using sanitizeArchiveEntryPath_comps(2) sn by simp
  show "comps dest = comps targetDir @ splitChar slash sn" "IsAbs dest"
    using comps_JoinPath [OF assms(1) ne safe_plain [OF safe]] dest by auto
  have "targetDir \<noteq> ''''" using assms(1) by auto
  then show "Clean dest = dest" using dest ne by (simp add: JoinPath_two)
qed

lemma under_trans_dir:
  assumes "comps p = comps base @ ns" "IsAbs p" "Clean p = p" "list_all plain_comp ns" "ns \<noteq> []"
  shows "under base (DirOf p)" "under base p"
proof -
  have "comps (DirOf p) = comps base @ butlast ns" "IsAbs (DirOf p)"
    using DirOf_clean [OF assms(3)] assms by (simp_all add: butlast_append)
  moreover have "list_all plain_comp (butlast ns)"
    using assms(4) by (auto simp: list_all_iff dest: in_set_butlastD)
  ultimately show "under base (DirOf p)" by (auto simp: under_def)
  show "under base p" using assms by (auto simp: under_def)
qed

text \<open>Below the base and not the base itself; directly below it.\<close>

definition strictly_under :: "string \<Rightarrow> string \<Rightarrow> bool" where
  "strictly_under base p \<longleftrightarrow> IsAbs p \<and> (\<exists>rest. rest \<noteq> [] \<and> comps p = comps base @ rest \<and> list_all plain_comp rest)"

definition child_of :: "string \<Rightarrow> string \<Rightarrow> bool" where
  "child_of base p \<longleftrightarrow> IsAbs p \<and> (\<exists>n. plain_comp n \<and> comps p = comps base @ [n])"

definition contained :: "string \<Rightarrow> ExtractState \<Rightarrow> bool" where
  "contained targetDir st \<longleftrightarrow>
     list_all (under targetDir) (ex_dirs st) \<and> list_all (\<lambda>(p, _). strictly_under targetDir p) (ex_files st) \<and>
     list_all (\<lambda>(_, p). child_of targetDir p) (ex_topLevel st)"

lemma extractFile_frame:
  assumes "extractFile env req f dest st = (st', e)"
  shows "ex_dirs st' = ex_dirs st \<or> ex_dirs st' = DirOf dest # ex_dirs st"
    "ex_files st' = ex_files st \<or> (\<exists>out. ex_files st' = (dest, out) # ex_files st)"
    "ex_topLevel st' = ex_topLevel st"
  using assms
  by (auto simp: extractFile_def Let_def split: option.splits sum.splits prod.splits if_splits)

lemma set_AList_update: "set (AList.update k v xs) \<subseteq> insert (k, v) (set xs)"
  by (induction xs) auto

lemma extractEntry_contained:
  assumes "IsAbs targetDir" "contained targetDir st" "extractEntry env targetDir req f st = (st', e)"
  shows "contained targetDir st'"
proof (cases "entryDestination targetDir f")
  case (Inl err)
  then show ?thesis using assms by (simp add: extractEntry_def)
next
  case (Inr sd)
  then obtain sn dest where d: "entryDestination targetDir f = Inr (sn, dest)" by (cases sd) auto
  note below = entryDestination_below [OF assms(1) d]
  have plain: "list_all plain_comp (splitChar slash sn)" by (rule safe_plain [OF below(4)])
  have u: "under targetDir dest" "under targetDir (DirOf dest)"
    using under_trans_dir [OF below(1,2,3) plain] by simp_all
  have su: "strictly_under targetDir dest"
    using below(1,2) plain splitChar_nonempty [of slash sn] by (auto simp: strictly_under_def)
  let ?top = "hd (splitChar slash sn)"
  have top: "safe_name ?top" using below(4) by (cases "splitChar slash sn") auto
  have ut: "child_of targetDir (JoinPath [targetDir, ?top])"
    using safeJoin_safe_name(2,3) [OF assms(1) top] safe_name_plain [OF top] by (auto simp: child_of_def)
  obtain st1 e1 where st1: "(if ze_IsDir f then
      (case zv_mkdirAll env dest of Some err \<Rightarrow> (st, Some err)
       | None \<Rightarrow> (st\<lparr>ex_dirs := dest # ex_dirs st\<rparr>, None))
      else extractFile env req f dest st) = (st1, e1)"
    by fastforce
  have c1: "contained targetDir st1"
  proof (cases "ze_IsDir f")
    case True
    then show ?thesis using st1 assms(2) u by (auto simp: contained_def split: option.splits)
  next
    case False
    then have "extractFile env req f dest st = (st1, e1)" using st1 by simp
    from extractFile_frame [OF this] show ?thesis using assms(2) u su by (auto simp: contained_def)
  qed
  have "st' = st1 \<or> st' = st1\<lparr>ex_topLevel := AList.update ?top (JoinPath [targetDir, ?top]) (ex_topLevel st1)\<rparr>"
    using assms(3) st1 by (auto simp: extractEntry_def d Let_def split: option.splits if_splits)
  then show ?thesis
    using c1 ut set_AList_update [of ?top "JoinPath [targetDir, ?top]" "ex_topLevel st1"]
    by (auto simp: contained_def list_all_iff)
qed

lemma extractEntries_contained:
  "IsAbs targetDir \<Longrightarrow> contained targetDir st \<Longrightarrow> extractEntries env targetDir req fs st = (st', e) \<Longrightarrow>
     contained targetDir st'"
proof (induction fs arbitrary: st)
  case (Cons f fs)
  obtain st1 e1 where f: "extractEntry env targetDir req f st = (st1, e1)" by fastforce
  then have "contained targetDir st1" using Cons.prems extractEntry_contained by blast
  then show ?case using Cons f by (auto split: if_splits)
qed simp

lemma extract_contained:
  assumes "IsAbs targetDir" "extractZipReaderSafely env reader targetDir = (st, r)"
  shows "contained targetDir st"
proof -
  have "contained targetDir emptyExtract" by (simp add: contained_def emptyExtract_def)
  then show ?thesis
    using assms extractEntries_contained [OF assms(1), of emptyExtract]
    by (fastforce simp: extractZipReaderSafely_def Let_def split: sum.splits option.splits prod.splits)
qed

section \<open>No more than advertised is written\<close>

definition writtenBytes :: "ExtractState \<Rightarrow> nat" where
  "writtenBytes st = sum_list (map (\<lambda>(_, out). length out) (ex_files st))"

definition fileSize :: "ZipEntry \<Rightarrow> nat" where
  "fileSize f = (if ze_IsDir f then 0 else unat (ze_UncompressedSize64 f))"

lemma advertisedSum_eq: "advertisedSum fs = sum_list (map fileSize fs)"
  by (induction fs) (auto simp: advertisedSum_def fileSize_def)

lemma extractFile_bytes:
  assumes "extractFile env req f dest st = (st', e)" "reads_ok f" "writer_ok (zv_write env dest)"
  shows "writtenBytes st' \<le> writtenBytes st + unat (ze_UncompressedSize64 f)"
    "e = None \<Longrightarrow> \<exists>out. ex_files st' = (dest, out) # ex_files st \<and> length out = unat (ze_UncompressedSize64 f)"
proof -
  have "writtenBytes st' \<le> writtenBytes st + unat (ze_UncompressedSize64 f) \<and>
    (e = None \<longrightarrow> (\<exists>out. ex_files st' = (dest, out) # ex_files st \<and>
       length out = unat (ze_UncompressedSize64 f)))"
  proof (cases "zv_mkdirAll env (DirOf dest) = None \<and> zv_openFile env dest = None \<and>
      (\<exists>bs status. ze_Open f = Inr (bs, status))")
    case False
    then have "writtenBytes (fst (extractFile env req f dest st)) = writtenBytes st \<and>
        snd (extractFile env req f dest st) \<noteq> None"
      by (cases "zv_mkdirAll env (DirOf dest)"; cases "zv_openFile env dest"; cases "ze_Open f")
        (auto simp: extractFile_def Let_def writtenBytes_def)
    then show ?thesis using assms(1) by auto
  next
    case True
    then obtain bs status where o: "ze_Open f = Inr (bs, status)" by blast
    obtain out count ce where c: "copyReaderWithLimit (zv_write env dest) bs status
        (ze_UncompressedSize64 f) 0 = (out, count, ce)" by (metis prod_cases3)
    have bs: "list_all (\<lambda>b. length b \<le> 32 * 1024) bs" using assms(2) o by (simp add: reads_ok_def)
    have n: "unat count = length out" "length out \<le> unat (ze_UncompressedSize64 f)"
      using copy_within_limit [OF c _ bs assms(3)] by (auto simp: word_le_nat_alt)
    have "ex_files st' = (dest, out) # ex_files st"
      "e = None \<Longrightarrow> count = ze_UncompressedSize64 f"
      using assms(1) True o c by (auto simp: extractFile_def Let_def split: if_splits)
    then show ?thesis using n by (auto simp: writtenBytes_def)
  qed
  then show "writtenBytes st' \<le> writtenBytes st + unat (ze_UncompressedSize64 f)"
    "e = None \<Longrightarrow> \<exists>out. ex_files st' = (dest, out) # ex_files st \<and> length out = unat (ze_UncompressedSize64 f)"
    by auto
qed

definition contracts_ok :: "ZipEnv \<Rightarrow> ZipEntry list \<Rightarrow> bool" where
  "contracts_ok env fs \<longleftrightarrow> list_all reads_ok fs \<and> (\<forall>p. writer_ok (zv_write env p))"

lemma extractEntry_bytes:
  assumes "extractEntry env targetDir req f st = (st', e)" "contracts_ok env [f]"
  shows "writtenBytes st' \<le> writtenBytes st + fileSize f"
    "e = None \<Longrightarrow> map (length \<circ> snd) (ex_files st') =
       (if ze_IsDir f then [] else [unat (ze_UncompressedSize64 f)]) @ map (length \<circ> snd) (ex_files st)"
proof -
  have "writtenBytes st' \<le> writtenBytes st + fileSize f \<and>
    (e = None \<longrightarrow> map (length \<circ> snd) (ex_files st') =
       (if ze_IsDir f then [] else [unat (ze_UncompressedSize64 f)]) @ map (length \<circ> snd) (ex_files st))"
  proof (cases "entryDestination targetDir f")
    case (Inl err)
    then show ?thesis using assms(1) by (auto simp: extractEntry_def)
  next
    case (Inr sd)
    then obtain sn dest where d: "entryDestination targetDir f = Inr (sn, dest)" by (cases sd) auto
    show ?thesis
    proof (cases "ze_IsDir f")
      case True
      then show ?thesis using assms(1) d
        by (auto simp: extractEntry_def Let_def writtenBytes_def split: option.splits if_splits)
    next
      case False
      obtain st1 e1 where st1: "extractFile env req f dest st = (st1, e1)" by fastforce
      have "reads_ok f" "writer_ok (zv_write env dest)" using assms(2) by (auto simp: contracts_ok_def)
      note b = extractFile_bytes [OF st1 this]
      have "ex_files st' = ex_files st1" "e = e1"
        using assms(1) d False st1 by (auto simp: extractEntry_def Let_def split: option.splits if_splits)
      then show ?thesis using b False by (auto simp: writtenBytes_def fileSize_def)
    qed
  qed
  then show "writtenBytes st' \<le> writtenBytes st + fileSize f"
    "e = None \<Longrightarrow> map (length \<circ> snd) (ex_files st') =
       (if ze_IsDir f then [] else [unat (ze_UncompressedSize64 f)]) @ map (length \<circ> snd) (ex_files st)"
    by blast+
qed

lemma extractEntries_bytes:
  assumes "extractEntries env targetDir req fs st = (st', e)" "contracts_ok env fs"
  shows "writtenBytes st' \<le> writtenBytes st + sum_list (map fileSize fs) \<and>
    (e = None \<longrightarrow> map (length \<circ> snd) (rev (ex_files st')) = map (length \<circ> snd) (rev (ex_files st)) @
       map (\<lambda>f. unat (ze_UncompressedSize64 f)) (filter (Not \<circ> ze_IsDir) fs))"
  using assms
proof (induction fs arbitrary: st)
  case (Cons f fs)
  obtain st1 e1 where f: "extractEntry env targetDir req f st = (st1, e1)" by fastforce
  have ok: "contracts_ok env [f]" "contracts_ok env fs" using Cons.prems(2) by (auto simp: contracts_ok_def)
  note b = extractEntry_bytes [OF f ok(1)]
  show ?case
  proof (cases e1)
    case None
    then have "extractEntries env targetDir req fs st1 = (st', e)" using Cons.prems(1) f by simp
    note IH = Cons.IH [OF this ok(2)]
    have "rev (map (length \<circ> snd) (ex_files st1)) = rev (map (length \<circ> snd) (ex_files st)) @
        (if ze_IsDir f then [] else [unat (ze_UncompressedSize64 f)])"
      using b(2) [OF None] by simp
    then show ?thesis using IH b(1) by (auto simp: rev_map comp_def)
  next
    case (Some err)
    then show ?thesis using Cons.prems(1) f b(1) by auto
  qed
qed simp

lemma extract_bounded:
  assumes "extractZipReaderSafely env (Some fs) targetDir = (st, r)" "contracts_ok env fs"
  shows "writtenBytes st \<le> advertisedSum fs"
    "r = Inr paths \<Longrightarrow> map (length \<circ> snd) (rev (ex_files st)) =
       map (\<lambda>f. unat (ze_UncompressedSize64 f)) (filter (Not \<circ> ze_IsDir) fs)"
    "0 < writtenBytes st \<Longrightarrow> \<exists>checkPath available. diskSpaceCheckPath env targetDir = Inr checkPath \<and>
       zv_availableDiskSpace env checkPath = Inr available \<and> writtenBytes st \<le> unat available"
proof -
  have "writtenBytes st \<le> advertisedSum fs \<and>
    (r = Inr paths \<longrightarrow> map (length \<circ> snd) (rev (ex_files st)) =
       map (\<lambda>f. unat (ze_UncompressedSize64 f)) (filter (Not \<circ> ze_IsDir) fs)) \<and>
    (0 < writtenBytes st \<longrightarrow> (\<exists>checkPath available. diskSpaceCheckPath env targetDir = Inr checkPath \<and>
       zv_availableDiskSpace env checkPath = Inr available \<and> writtenBytes st \<le> unat available))"
  proof (cases "\<exists>req. zipAdvertisedExtractBytes (Some fs) = Inr req \<and>
      ensureExtractDiskSpaceForTarget env targetDir req = None")
    case False
    then have "st = emptyExtract \<and> (\<exists>err. r = Inl err)"
      using assms(1)
      by (cases "zipAdvertisedExtractBytes (Some fs)")
        (auto simp: extractZipReaderSafely_def split: option.splits)
    then show ?thesis by (auto simp: emptyExtract_def writtenBytes_def)
  next
    case True
    then obtain req where req: "zipAdvertisedLoop fs 0 = Inr req"
      "ensureExtractDiskSpaceForTarget env targetDir req = None"
      by (auto simp: zipAdvertisedExtractBytes_def)
    obtain e where run: "extractEntries env targetDir req fs emptyExtract = (st, e)"
      "r = Inr paths \<longrightarrow> e = None"
      using assms(1) req by (auto simp: extractZipReaderSafely_def zipAdvertisedExtractBytes_def
          split: prod.splits option.splits)
    have total: "unat req = advertisedSum fs" using zipAdvertisedLoop_exact [OF req(1)] by simp
    have le: "writtenBytes st \<le> advertisedSum fs"
      using extractEntries_bytes [OF run(1) assms(2)]
      by (simp add: advertisedSum_eq writtenBytes_def emptyExtract_def)
    moreover have "\<exists>checkPath available. diskSpaceCheckPath env targetDir = Inr checkPath \<and>
       zv_availableDiskSpace env checkPath = Inr available \<and> writtenBytes st \<le> unat available"
      if "0 < writtenBytes st"
    proof -
      have "req \<noteq> 0" using that le total by auto
      then obtain checkPath available where "diskSpaceCheckPath env targetDir = Inr checkPath"
        "zv_availableDiskSpace env checkPath = Inr available" "\<not> available < req"
        using req(2) by (auto simp: ensureExtractDiskSpaceForTarget_def split: if_splits sum.splits)
      then show ?thesis using le total by (auto simp: word_less_nat_alt)
    qed
    ultimately show ?thesis
      using extractEntries_bytes [OF run(1) assms(2)] run(2) by (auto simp: emptyExtract_def)
  qed
  then show "writtenBytes st \<le> advertisedSum fs"
    "r = Inr paths \<Longrightarrow> map (length \<circ> snd) (rev (ex_files st)) =
       map (\<lambda>f. unat (ze_UncompressedSize64 f)) (filter (Not \<circ> ze_IsDir) fs)"
    "0 < writtenBytes st \<Longrightarrow> \<exists>checkPath available. diskSpaceCheckPath env targetDir = Inr checkPath \<and>
       zv_availableDiskSpace env checkPath = Inr available \<and> writtenBytes st \<le> unat available"
    by blast+
qed

text \<open>
  What the climb returns: the first path that exists, a directory itself or the parent of a file; the first other
  error of \<open>stat\<close>; or a failure when not even the root exists.
\<close>

lemma comps_root: "IsAbs p \<Longrightarrow> Clean p = p \<Longrightarrow> comps p = [] \<longleftrightarrow> p = ''/''"
proof
  assume "IsAbs p" "Clean p = p" "comps p = []"
  then show "p = ''/''" using unclean_Nil [of True] by (metis Clean_def)
qed (simp add: comps_def)

definition found_at :: "ZipEnv \<Rightarrow> string \<Rightarrow> string \<Rightarrow> string result \<Rightarrow> bool" where
  "found_at env targetDir p r \<longleftrightarrow>
     (case zv_stat env p of
        StatDir \<Rightarrow> r = Inr p
      | StatFile \<Rightarrow> r = Inr (DirOf p)
      | StatError err \<Rightarrow> r = Inl err
      | StatNotExist \<Rightarrow> p = ''/'' \<and> r = Inl (''no existing parent directory for '' @ targetDir))"

lemma climb_finds:
  assumes "IsAbs p" "Clean p = p"
  shows "\<exists>k\<le>length (comps p). (\<forall>j<k. zv_stat env ((DirOf ^^ j) p) = StatNotExist) \<and>
    found_at env t ((DirOf ^^ k) p) (climbToExisting env t p)"
  using assms
proof (induction "length (comps p)" arbitrary: p)
  case 0
  then have "p = ''/''" using comps_root by simp
  moreover have "DirOf ''/'' = ''/''" by (simp add: DirOf_def Clean_def comps_def unclean_def)
  ultimately show ?case
    by (intro exI [of _ 0]) (simp add: climbToExisting.simps [of env t "''/''"] found_at_def split: stat_result.split)
next
  case (Suc n)
  have dir: "comps (DirOf p) = butlast (comps p)" "IsAbs (DirOf p)" "Clean (DirOf p) = DirOf p"
    using DirOf_clean [OF Suc.prems(2)] Suc.prems(1) by simp_all
  show ?case
  proof (cases "zv_stat env p = StatNotExist")
    case True
    have "DirOf p \<noteq> p" using dir(1) Suc.hyps(2) by (metis length_butlast n_not_Suc_n diff_Suc_1)
    then have step: "climbToExisting env t p = climbToExisting env t (DirOf p)"
      using True by (simp add: climbToExisting.simps [of env t p])
    have n: "n = length (comps (DirOf p))" using dir(1) Suc.hyps(2) by simp
    obtain k where k: "k \<le> length (comps (DirOf p))"
      "\<forall>j<k. zv_stat env ((DirOf ^^ j) (DirOf p)) = StatNotExist"
      "found_at env t ((DirOf ^^ k) (DirOf p)) (climbToExisting env t (DirOf p))"
      using Suc.hyps(1) [OF n dir(2,3)] by blast
    have "\<forall>j<Suc k. zv_stat env ((DirOf ^^ j) p) = StatNotExist"
      using True k(2) by (simp add: All_less_Suc2 funpow_swap1)
    then show ?thesis
      using k(1,3) step dir(1) Suc.hyps(2) by (intro exI [of _ "Suc k"]) (simp add: funpow_swap1)
  next
    case False
    then show ?thesis
      by (intro exI [of _ 0]) (simp add: climbToExisting.simps [of env t p] found_at_def split: stat_result.split)
  qed
qed

section \<open>Properties\<close>

text \<open>
  C28: Whatever names an archive holds, and also when extraction stops with an error, every directory it makes is the
  target directory or lies below it, every file it writes lies strictly below the target, and every path it returns
  lies directly in the target: the path is absolute and its components are those of the target followed by plain
  ones, without climbing.
\<close>

theorem extraction_contained:
  assumes "IsAbs targetDir" "extractZipReaderSafely env reader targetDir = (st, r)"
  shows "list_all (under targetDir) (ex_dirs st) \<and> list_all (strictly_under targetDir) (map fst (ex_files st)) \<and>
     (case r of Inl _ \<Rightarrow> True | Inr paths \<Rightarrow> list_all (child_of targetDir) paths)"
proof -
  have c: "contained targetDir st" by (rule extract_contained [OF assms])
  have "paths = sort (map snd (ex_topLevel st))" if "r = Inr paths" for paths
    using that assms(2) by (auto simp: extractZipReaderSafely_def Let_def split: sum.splits option.splits prod.splits)
  then have "set paths = snd ` set (ex_topLevel st)" if "r = Inr paths" for paths
    using that by simp
  then show ?thesis using c by (fastforce simp: contained_def list_all_iff split: sum.splits)
qed

definition diskEnv :: ZipEnv where
  "diskEnv = \<lparr>zv_stat = (\<lambda>p. if p = ''/'' then StatDir else StatNotExist),
     zv_availableDiskSpace = (\<lambda>_. Inr 1000), zv_mkdirAll = (\<lambda>_. None), zv_openFile = (\<lambda>_. None),
     zv_write = (\<lambda>_ b. (length b, None)), zv_close = (\<lambda>_. None)\<rparr>"

definition zipFile :: "string \<Rightarrow> bytes \<Rightarrow> ZipEntry" where
  "zipFile name body = \<lparr>ze_Name = name, ze_UncompressedSize64 = of_nat (length body), ze_IsDir = False,
     ze_IsSymlink = False, ze_Open = Inr ([body], None)\<rparr>"

theorem extraction_contained_witness:
  "list_all (strictly_under ''/t'') (map fst (ex_files (fst (extractZipReaderSafely diskEnv
     (Some [zipFile ''d/a.txt'' ''abc'']) ''/t''))))"
proof -
  obtain st r where e: "extractZipReaderSafely diskEnv (Some [zipFile ''d/a.txt'' ''abc'']) ''/t'' = (st, r)"
    by fastforce
  then show ?thesis using extraction_contained [OF _ e] by simp
qed

text \<open>
  C9: Extraction cannot be made to write more than the archive advertises, nor more than the disk has:
  the bytes of all files written, partial ones included, are at most the sum of the advertised sizes
  (computed without wrapping) and at most the space available; when it succeeds every file has exactly
  its advertised size. The hypothesis is the contract of Go's readers and writers.
\<close>

theorem extraction_bounded:
  assumes "extractZipReaderSafely env (Some fs) targetDir = (st, r)" "contracts_ok env fs"
  shows "writtenBytes st \<le> advertisedSum fs \<and>
     (0 < writtenBytes st \<longrightarrow> (\<exists>checkPath available. diskSpaceCheckPath env targetDir = Inr checkPath \<and>
        zv_availableDiskSpace env checkPath = Inr available \<and> writtenBytes st \<le> unat available)) \<and>
     (isl r \<or> map (length \<circ> snd) (rev (ex_files st)) =
        map (\<lambda>f. unat (ze_UncompressedSize64 f)) (filter (Not \<circ> ze_IsDir) fs))"
  using extract_bounded(1,3) [OF assms] extract_bounded(2) [OF assms, of "projr r"]
  by (cases r) auto

theorem extraction_bounded_witness:
  "writtenBytes (fst (extractZipReaderSafely diskEnv
     (Some [zipFile ''d/a.txt'' ''abc'', zipFile ''b'' ''defg'']) ''/t'')) \<le> 7"
proof -
  let ?fs = "[zipFile ''d/a.txt'' ''abc'', zipFile ''b'' ''defg'']"
  obtain st r where e: "extractZipReaderSafely diskEnv (Some ?fs) ''/t'' = (st, r)" by fastforce
  have "contracts_ok diskEnv ?fs"
    by (simp add: contracts_ok_def reads_ok_def writer_ok_def zipFile_def diskEnv_def)
  from extraction_bounded [OF e this] e show ?thesis by (simp add: advertisedSum_def zipFile_def)
qed

text \<open>
  C40: The search for a path whose disk can be measured ends after at most one \<open>stat\<close> more than the target has
  components. It climbs from the target to its parent, the parent of that and so on as long as the path does not
  exist, and stops at the first path with another answer: a directory is the result, of a file its parent is, an
  error of \<open>stat\<close> is returned; it fails otherwise only when the root itself does not exist.
\<close>

theorem disk_check_path_found:
  assumes "IsAbs targetDir"
  shows "\<exists>k\<le>length (comps targetDir).
     (\<forall>j<k. zv_stat env ((DirOf ^^ j) (Clean targetDir)) = StatNotExist) \<and>
     (let p = (DirOf ^^ k) (Clean targetDir) in
      case zv_stat env p of
        StatDir \<Rightarrow> diskSpaceCheckPath env targetDir = Inr p
      | StatFile \<Rightarrow> diskSpaceCheckPath env targetDir = Inr (DirOf p)
      | StatError err \<Rightarrow> diskSpaceCheckPath env targetDir = Inl err
      | StatNotExist \<Rightarrow> p = ''/'' \<and>
          diskSpaceCheckPath env targetDir = Inl (''no existing parent directory for '' @ targetDir))"
  using climb_finds [of "Clean targetDir" env targetDir] assms
  unfolding diskSpaceCheckPath_def found_at_def Let_def by simp

theorem disk_check_path_found_witness:
  "diskSpaceCheckPath diskEnv ''/a/b/../c'' = Inr ''/''"
proof -
  have abs: "IsAbs ''/a/b/../c''" by simp
  have c: "Clean ''/a/b/../c'' = ''/a/c''" "length (comps ''/a/b/../c'') = 2" "DirOf ''/a/c'' = ''/a''" "DirOf ''/a'' = ''/''"
    by (simp_all add: Clean_def comps_def unclean_def DirOf_def)
  obtain k where k: "k \<le> 2" "\<forall>j<k. zv_stat diskEnv ((DirOf ^^ j) ''/a/c'') = StatNotExist"
    "let p = (DirOf ^^ k) ''/a/c'' in
      case zv_stat diskEnv p of
        StatDir \<Rightarrow> diskSpaceCheckPath diskEnv ''/a/b/../c'' = Inr p
      | StatFile \<Rightarrow> diskSpaceCheckPath diskEnv ''/a/b/../c'' = Inr (DirOf p)
      | StatError err \<Rightarrow> diskSpaceCheckPath diskEnv ''/a/b/../c'' = Inl err
      | StatNotExist \<Rightarrow> p = ''/'' \<and>
          diskSpaceCheckPath diskEnv ''/a/b/../c'' = Inl (''no existing parent directory for '' @ ''/a/b/../c'')"
    using disk_check_path_found [OF abs, of diskEnv] unfolding c by blast
  then consider "k = 0" | "k = 1" | "k = 2" by linarith
  then show ?thesis
    using k(3) c(3,4) by cases (simp_all add: diskEnv_def numeral_2_eq_2 Let_def)
qed

end
