(* ===== verification/Base64.thy ===== *)
theory Base64
  imports Constants GoStrings Interfaces
begin

text \<open>
  \<open>encoding/base64.StdEncoding\<close>, which carries every chunk and image of the program, and the size
  estimate of \<open>pkg/sizefmt\<close>. The decoder skips CR and LF, takes padding only in the last quantum and
  ignores the unused bits before it, as Go's non-strict decoder does.
\<close>

definition b64alphabet :: string where
  "b64alphabet = ''ABCDEFGHIJKLMNOPQRSTUVWXYZabcdefghijklmnopqrstuvwxyz0123456789+/''"

definition sextetChar :: "nat \<Rightarrow> char" where
  "sextetChar n = b64alphabet ! n"

definition sextetVal :: "char \<Rightarrow> nat option" where
  "sextetVal c = first_index (\<lambda>x. x = c) b64alphabet"

abbreviation pad :: char where "pad \<equiv> CHR ''=''"

abbreviation octetVal :: "char \<Rightarrow> nat" where "octetVal c \<equiv> of_char c"

fun EncodeToString :: "bytes \<Rightarrow> string" where
  "EncodeToString [] = []"
| "EncodeToString [a] =
     [sextetChar (octetVal a div 4), sextetChar (octetVal a mod 4 * 16), pad, pad]"
| "EncodeToString [a, b] =
     [sextetChar (octetVal a div 4), sextetChar (octetVal a mod 4 * 16 + octetVal b div 16),
      sextetChar (octetVal b mod 16 * 4), pad]"
| "EncodeToString (a # b # c # r) =
     [sextetChar (octetVal a div 4), sextetChar (octetVal a mod 4 * 16 + octetVal b div 16),
      sextetChar (octetVal b mod 16 * 4 + octetVal c div 64), sextetChar (octetVal c mod 64)]
       @ EncodeToString r"

definition octetsOf :: "nat \<Rightarrow> nat \<Rightarrow> nat \<Rightarrow> nat \<Rightarrow> bytes" where
  "octetsOf w x y z = [char_of (w * 4 + x div 16), char_of (x mod 16 * 16 + y div 4),
     char_of (y mod 4 * 64 + z)]"

fun decodeQuanta :: "string \<Rightarrow> bytes option" where
  "decodeQuanta [] = Some []"
| "decodeQuanta (a # b # c # d # r) =
     (case (sextetVal a, sextetVal b) of
        (Some w, Some x) \<Rightarrow>
          if r = [] \<and> c = pad \<and> d = pad then Some (take 1 (octetsOf w x 0 0))
          else (case sextetVal c of
                  None \<Rightarrow> None
                | Some y \<Rightarrow>
                    if r = [] \<and> d = pad then Some (take 2 (octetsOf w x y 0))
                    else (case (sextetVal d, decodeQuanta r) of
                            (Some z, Some t) \<Rightarrow> Some (octetsOf w x y z @ t)
                          | _ \<Rightarrow> None))
      | _ \<Rightarrow> None)"
| "decodeQuanta _ = None"

definition DecodeString :: "string \<Rightarrow> bytes option" where
  "DecodeString s = decodeQuanta (filter (\<lambda>c. c \<noteq> CHR 0x0A \<and> c \<noteq> CHR 0x0D) s)"

section \<open>The size estimate (sizefmt.go)\<close>

definition EstimatedBase64DecodedSize :: "string \<Rightarrow> int" where
  "EstimatedBase64DecodedSize s =
     (let n = length s in
      if n = 0 then 0
      else int (n * 3 div 4) -
        (if s ! (n - 1) = pad then (if n > 1 \<and> s ! (n - 2) = pad then 2 else 1) else 0))"

text \<open>The size whose formatted text \<open>HumanSizeFromPayload\<close> returns.\<close>

definition humanSize :: "string \<Rightarrow> string \<Rightarrow> int" where
  "humanSize payloadType payload =
     (if payloadType = TypeImage \<or> payloadType = TypeFileEager
      then EstimatedBase64DecodedSize payload else int (length payload))"

section \<open>Encoding is inverted\<close>

lemma sextetVal_Char:
  assumes "n < 64"
  shows "sextetVal (sextetChar n) = Some n"
proof -
  have "\<forall>n\<in>set [0..<64]. sextetVal (sextetChar n) = Some n"
    by (simp add: upt_rec sextetVal_def sextetChar_def b64alphabet_def)
  then show ?thesis using assms by simp
qed

lemma sextetChar_values:
  assumes "n < 64"
  shows "sextetChar n \<noteq> pad" "sextetChar n \<noteq> CHR 0x0A" "sextetChar n \<noteq> CHR 0x0D"
proof -
  have "\<forall>c\<in>set b64alphabet. c \<noteq> pad \<and> c \<noteq> CHR 0x0A \<and> c \<noteq> CHR 0x0D"
    by (simp add: b64alphabet_def)
  moreover have "sextetChar n \<in> set b64alphabet"
    unfolding sextetChar_def using assms by (intro nth_mem) (simp add: b64alphabet_def)
  ultimately show "sextetChar n \<noteq> pad" "sextetChar n \<noteq> CHR 0x0A" "sextetChar n \<noteq> CHR 0x0D"
    by auto
qed

lemma octet_bounds:
  "octetVal a div 4 < 64" "octetVal a mod 4 * 16 + octetVal b div 16 < 64"
  "octetVal b mod 16 * 4 + octetVal c div 64 < 64" "octetVal c mod 64 < 64"
  "octetVal a mod 4 * 16 < 64" "octetVal b mod 16 * 4 < 64"
proof -
  have lt: "octetVal x < 256" for x by simp
  show "octetVal a div 4 < 64" "octetVal a mod 4 * 16 + octetVal b div 16 < 64"
    "octetVal b mod 16 * 4 + octetVal c div 64 < 64" "octetVal c mod 64 < 64"
    "octetVal a mod 4 * 16 < 64" "octetVal b mod 16 * 4 < 64"
    using lt [of a] lt [of b] lt [of c] by (auto, linarith+)
qed

lemma octetsOf_encoded:
  "octetsOf (octetVal a div 4) (octetVal a mod 4 * 16 + octetVal b div 16)
     (octetVal b mod 16 * 4 + octetVal c div 64) (octetVal c mod 64) = [a, b, c]"
proof -
  have lt: "octetVal x < 256" for x by simp
  have "octetVal b div 16 < 16" "octetVal c div 64 < 4"
    using lt [of b] lt [of c] by linarith+
  then show ?thesis by (simp add: octetsOf_def)
qed

lemma octetsOf_take:
  "take 1 (octetsOf (octetVal a div 4) (octetVal a mod 4 * 16) 0 0) = [a]"
  "take 2 (octetsOf (octetVal a div 4) (octetVal a mod 4 * 16 + octetVal b div 16)
     (octetVal b mod 16 * 4) 0) = [a, b]"
  using octetsOf_encoded [of a "char_of (0 :: nat)" "char_of (0 :: nat)"]
    octetsOf_encoded [of a b "char_of (0 :: nat)"]
  by (auto simp: octetsOf_def)

lemma decodeQuanta_encode: "decodeQuanta (EncodeToString s) = Some s"
proof (induction s rule: EncodeToString.induct)
  case (2 a)
  show ?case using octetsOf_take(1) [of a] by (simp add: sextetVal_Char octet_bounds)
next
  case (3 a b)
  show ?case
    using octetsOf_take(2) [of a b]
    by (simp add: sextetVal_Char octet_bounds sextetChar_values)
next
  case (4 a b c r)
  then show ?case
    by (simp add: sextetVal_Char octet_bounds sextetChar_values octetsOf_encoded)
qed simp

lemma EncodeToString_chars:
  "c \<in> set (EncodeToString s) \<Longrightarrow> c \<in> insert pad (set b64alphabet)"
proof -
  have mem: "n < 64 \<Longrightarrow> sextetChar n \<in> set b64alphabet" for n
    unfolding sextetChar_def by (intro nth_mem) (simp add: b64alphabet_def)
  show "c \<in> set (EncodeToString s) \<Longrightarrow> c \<in> insert pad (set b64alphabet)"
    by (induction s rule: EncodeToString.induct) (auto simp: mem octet_bounds)
qed

lemma EncodeToString_no_newline:
  "filter (\<lambda>c. c \<noteq> CHR 0x0A \<and> c \<noteq> CHR 0x0D) (EncodeToString s) = EncodeToString s"
proof (rule filter_True, rule ballI)
  fix c assume "c \<in> set (EncodeToString s)"
  then have "c \<in> insert pad (set b64alphabet)" by (rule EncodeToString_chars)
  then show "c \<noteq> CHR 0x0A \<and> c \<noteq> CHR 0x0D" by (auto simp: b64alphabet_def)
qed

lemma DecodeString_EncodeToString [simp]: "DecodeString (EncodeToString s) = Some s"
  by (simp add: DecodeString_def EncodeToString_no_newline decodeQuanta_encode)

lemma length_EncodeToString: "length (EncodeToString s) = 4 * ((length s + 2) div 3)"
proof (induction s rule: EncodeToString.induct)
  case (4 a b c r)
  have "(5 + length r) div 3 = Suc ((length r + 2) div 3)"
    using div_add_self2 [of 3 "length r + 2"] by (simp add: ac_simps)
  then show ?case using 4 by simp
qed auto

lemma EncodeToString_nonempty: "s \<noteq> [] \<Longrightarrow> EncodeToString s \<noteq> []"
  by (cases s rule: EncodeToString.cases) auto

lemma EncodeToString_size: "EstimatedBase64DecodedSize (EncodeToString s) = int (length s)"
proof (induction s rule: EncodeToString.induct)
  case (4 a b c r)
  show ?case
  proof (cases "r = []")
    case True
    then show ?thesis
      using sextetChar_values(1) [OF octet_bounds(4)] by (simp add: EstimatedBase64DecodedSize_def)
  next
    case False
    define t where "t = EncodeToString r"
    have "4 \<le> length t"
      using False length_EncodeToString [of r] by (cases r) (auto simp: t_def)
    moreover from this have "t \<noteq> []" "length t - Suc (Suc 0) = length t - 2" by auto
    moreover have "int ((12 + length t * 3) div 4) = 3 + int (length t * 3 div 4)" by simp
    ultimately show ?thesis
      using 4 by (simp add: EstimatedBase64DecodedSize_def Let_def nth_append nth_Cons'
          t_def [symmetric] split: if_splits)
  qed
qed (simp_all add: EstimatedBase64DecodedSize_def octet_bounds sextetChar_values)

text \<open>
  The size shown for an image or an eagerly sent file is exact: it is the length of the bytes its
  base64 payload stands for, whatever those bytes are, so decoding the payload yields that many.
\<close>

theorem estimated_size_exact:
  "EstimatedBase64DecodedSize (EncodeToString s) = int (length s) \<and>
   DecodeString (EncodeToString s) = Some s"
  by (simp add: EncodeToString_size)


interpretation base64: codec EncodeToString DecodeString "\<lambda>_. True"
  by unfold_locales simp

end
