(* ===== verification/Crypto.thy ===== *)
theory Crypto
  imports Base64 Messages
begin

text \<open>
  The encrypted envelope (\<open>pkg/crypto/aes_gcm.go\<close>). AES-GCM itself is Go's: a pair of functions
  \<open>seal key nonce plaintext aad\<close> and \<open>open key nonce sealed aad\<close>, which fail on a bad key or a failed
  verification. What the code does around it, splitting off the tag, base64 and the JSON object, is
  modelled. The random nonce is an argument.
\<close>

record EncryptedPayload =
  enc_Nonce :: bytes
  enc_Ciphertext :: bytes
  enc_Tag :: bytes

type_synonym gcm_fn = "bytes \<Rightarrow> bytes \<Rightarrow> bytes \<Rightarrow> bytes \<Rightarrow> bytes result"

record Gcm =
  gcm_seal :: gcm_fn
  gcm_open :: gcm_fn

definition gcmOverhead :: nat where "gcmOverhead = 16"

definition encryptWithAAD ::
  "Gcm \<Rightarrow> bytes option \<Rightarrow> bytes \<Rightarrow> bytes \<Rightarrow> bytes \<Rightarrow> EncryptedPayload result" where
  "encryptWithAAD g random key plaintext aad =
     (case random of
        None \<Rightarrow> Inl ''nonce generation''
      | Some nonce \<Rightarrow>
          (case gcm_seal g key nonce plaintext aad of
             Inl err \<Rightarrow> Inl err
           | Inr sealed \<Rightarrow>
               (let tagStart = length sealed - gcmOverhead in
                Inr \<lparr>enc_Nonce = nonce, enc_Ciphertext = take tagStart sealed,
                     enc_Tag = drop tagStart sealed\<rparr>)))"

definition decryptWithAAD :: "Gcm \<Rightarrow> bytes \<Rightarrow> EncryptedPayload \<Rightarrow> bytes \<Rightarrow> bytes result" where
  "decryptWithAAD g key payload aad =
     gcm_open g key (enc_Nonce payload) (enc_Ciphertext payload @ enc_Tag payload) aad"

definition Encrypt :: "Gcm \<Rightarrow> bytes option \<Rightarrow> bytes \<Rightarrow> bytes \<Rightarrow> EncryptedPayload result" where
  "Encrypt g random key plaintext = encryptWithAAD g random key plaintext []"

definition EncryptWithAAD ::
  "Gcm \<Rightarrow> bytes option \<Rightarrow> bytes \<Rightarrow> bytes \<Rightarrow> bytes \<Rightarrow> EncryptedPayload result" where
  "EncryptWithAAD g random key plaintext aad = encryptWithAAD g random key plaintext aad"

definition Decrypt :: "Gcm \<Rightarrow> bytes \<Rightarrow> EncryptedPayload \<Rightarrow> bytes result" where
  "Decrypt g key payload = decryptWithAAD g key payload []"

definition DecryptWithAAD :: "Gcm \<Rightarrow> bytes \<Rightarrow> EncryptedPayload \<Rightarrow> bytes \<Rightarrow> bytes result" where
  "DecryptWithAAD g key payload aad = decryptWithAAD g key payload aad"

text \<open>\<open>json.Marshal\<close> writes the keys of a map in order.\<close>

definition EncodeToJSONString :: "EncryptedPayload \<Rightarrow> string" where
  "EncodeToJSONString p =
     render (JObj [(''ciphertext'', JStr (EncodeToString (enc_Ciphertext p))),
                   (''nonce'', JStr (EncodeToString (enc_Nonce p))),
                   (''tag'', JStr (EncodeToString (enc_Tag p)))])"

text \<open>Unmarshalling into a \<open>map[string]string\<close>: exact names, the last one wins, null is the empty string.\<close>

fun stringMembers :: "(string \<times> json) list \<Rightarrow> (string \<Rightarrow> string option) option" where
  "stringMembers [] = Some Map.empty"
| "stringMembers ((k, v) # kvs) =
     (case (v, stringMembers kvs) of
        (JStr s, Some m) \<Rightarrow> Some (if m k = None then m(k \<mapsto> s) else m)
      | (JNull, Some m) \<Rightarrow> Some (if m k = None then m(k \<mapsto> '''') else m)
      | _ \<Rightarrow> None)"

definition unmarshalStringMap :: "string \<Rightarrow> (string \<Rightarrow> string option) option" where
  "unmarshalStringMap s =
     (case parseJSON s of
        Some JNull \<Rightarrow> Some Map.empty
      | Some (JObj kvs) \<Rightarrow> stringMembers kvs
      | _ \<Rightarrow> None)"

definition mapGet :: "(string \<Rightarrow> string option) \<Rightarrow> string \<Rightarrow> string" where
  "mapGet m k = (case m k of None \<Rightarrow> '''' | Some v \<Rightarrow> v)"

definition DecodeFromJSONString :: "string \<Rightarrow> EncryptedPayload result" where
  "DecodeFromJSONString jsonStr =
     (case unmarshalStringMap jsonStr of
        None \<Rightarrow> Inl ''invalid JSON''
      | Some m \<Rightarrow>
          (case DecodeString (mapGet m ''nonce'') of
             None \<Rightarrow> Inl ''decode nonce''
           | Some nonce \<Rightarrow>
               (case DecodeString (mapGet m ''ciphertext'') of
                  None \<Rightarrow> Inl ''decode ciphertext''
                | Some ciphertext \<Rightarrow>
                    (case DecodeString (mapGet m ''tag'') of
                       None \<Rightarrow> Inl ''decode tag''
                     | Some tag \<Rightarrow>
                         Inr \<lparr>enc_Nonce = nonce, enc_Ciphertext = ciphertext, enc_Tag = tag\<rparr>))))"

text \<open>What the code relies on of AES-GCM: opening what was sealed with the same key and data.\<close>

definition gcm_correct :: "Gcm \<Rightarrow> bytes \<Rightarrow> bool" where
  "gcm_correct g key \<longleftrightarrow> (\<forall>nonce plaintext aad. \<exists>sealed.
     gcm_seal g key nonce plaintext aad = Inr sealed \<and> gcm_open g key nonce sealed aad = Inr plaintext)"

section \<open>Lemmas\<close>

lemma EncodeToString_ascii: "asciiStr (EncodeToString s)"
proof -
  have "byteval c < 0x80" if "c \<in> insert pad (set b64alphabet)" for c
    using that by (auto simp: b64alphabet_def)
  then show ?thesis
    using EncodeToString_chars [of _ s] by (auto simp: asciiStr_def list_all_iff)
qed

lemma ascii_toValidUTF8: "asciiStr s \<Longrightarrow> toValidUTF8 s = s"
  by (auto simp: asciiStr_def list_all_iff intro!: toValidUTF8_id validUTF8_ascii)

lemma EncodeToString_utf8 [simp]: "toValidUTF8 (EncodeToString s) = EncodeToString s"
  by (rule ascii_toValidUTF8 [OF EncodeToString_ascii])

lemma envelope_keys [simp]:
  "toValidUTF8 ''ciphertext'' = ''ciphertext''" "toValidUTF8 ''nonce'' = ''nonce''"
  "toValidUTF8 ''tag'' = ''tag''"
  by (rule ascii_toValidUTF8, simp add: asciiStr_def)+

lemma DecodeFromJSONString_Encode [simp]: "DecodeFromJSONString (EncodeToJSONString p) = Inr p"
proof -
  have "unmarshalStringMap (EncodeToJSONString p) =
      Some [''ciphertext'' \<mapsto> EncodeToString (enc_Ciphertext p),
        ''nonce'' \<mapsto> EncodeToString (enc_Nonce p), ''tag'' \<mapsto> EncodeToString (enc_Tag p)]"
    unfolding unmarshalStringMap_def EncodeToJSONString_def
    by (subst parseJSON_render) (auto simp: fun_eq_iff)
  then show ?thesis by (simp add: DecodeFromJSONString_def mapGet_def)
qed

lemma encrypt_decrypt:
  assumes "gcm_correct g key"
  shows "\<exists>p. encryptWithAAD g (Some nonce) key plaintext aad = Inr p \<and>
     decryptWithAAD g key p aad = Inr plaintext"
proof -
  obtain sealed where "gcm_seal g key nonce plaintext aad = Inr sealed"
    "gcm_open g key nonce sealed aad = Inr plaintext"
    using assms unfolding gcm_correct_def by blast
  then show ?thesis by (simp add: encryptWithAAD_def decryptWithAAD_def Let_def)
qed

text \<open>A payload encrypted with associated data, written as the JSON envelope, read back and decrypted
  with the same key and data gives the plaintext, for every key AES-GCM accepts.
\<close>

theorem envelope_roundtrip:
  assumes "gcm_correct g key"
  shows "\<exists>p q. EncryptWithAAD g (Some nonce) key plaintext aad = Inr p \<and>
     DecodeFromJSONString (EncodeToJSONString p) = Inr q \<and> DecryptWithAAD g key q aad = Inr plaintext"
  using encrypt_decrypt [OF assms] by (simp add: EncryptWithAAD_def DecryptWithAAD_def)

text \<open>A stand-in for AES-GCM that only attaches a tag of 16 bytes.\<close>

definition plainGcm :: Gcm where
  "plainGcm = \<lparr>gcm_seal = (\<lambda>key nonce p aad. Inr (p @ replicate 16 (CHR ''t''))),
     gcm_open = (\<lambda>key nonce s aad. Inr (take (length s - 16) s))\<rparr>"

lemma plainGcm_correct: "gcm_correct plainGcm key"
  by (simp add: gcm_correct_def plainGcm_def)

theorem envelope_roundtrip_witness:
  "\<exists>p q. EncryptWithAAD plainGcm (Some ''n'') ''key'' ''secret'' ''id|0'' = Inr p \<and>
     DecodeFromJSONString (EncodeToJSONString p) = Inr q \<and>
     DecryptWithAAD plainGcm ''key'' q ''id|0'' = Inr ''secret''"
  by (rule envelope_roundtrip [OF plainGcm_correct])

text \<open>The envelope as a wire format.\<close>

interpretation envelope: codec EncodeToJSONString "\<lambda>s. case DecodeFromJSONString s of Inl _ \<Rightarrow> None | Inr p \<Rightarrow> Some p" "\<lambda>_. True"
  by unfold_locales simp

end
