(* ===== verification/FileSys.thy ===== *)
theory FileSys
  imports ZipExtract Crypto
begin

text \<open>
  The file operations of Go's \<open>os\<close> package the desktop client uses, on the files below the temporary
  directory (\<open>FS\<close>: a map from clean paths to nodes) and on the user's source files (\<open>tree\<close>: what
  \<open>Lstat\<close>, \<open>ReadDir\<close> and reading show). Whether a call fails is the environment's answer: a fault per
  operation and path, and for writes how many bytes arrived before the fault.
\<close>

section \<open>Files below the temporary directory\<close>

datatype node = NFile bytes | NDir

type_synonym FS = "string \<Rightarrow> node option"

record Faults =
  fault_stat :: "string \<Rightarrow> goerror option"
  fault_open :: "string \<Rightarrow> goerror option"
  fault_write :: "string \<Rightarrow> bytes \<Rightarrow> (nat \<times> goerror) option"
  fault_mkdir :: "string \<Rightarrow> goerror option"
  fault_mkdirTemp :: "string \<Rightarrow> goerror option"
  fault_remove :: "string \<Rightarrow> goerror option"
  fault_removeAll :: "string \<Rightarrow> goerror option"
  fault_rename :: "string \<Rightarrow> string \<Rightarrow> goerror option"

definition noFaults :: Faults where
  "noFaults = \<lparr>fault_stat = (\<lambda>_. None), fault_open = (\<lambda>_. None), fault_write = (\<lambda>_ _. None),
     fault_mkdir = (\<lambda>_. None), fault_mkdirTemp = (\<lambda>_. None), fault_remove = (\<lambda>_. None),
     fault_removeAll = (\<lambda>_. None), fault_rename = (\<lambda>_ _. None)\<rparr>"

definition inTree :: "string \<Rightarrow> string \<Rightarrow> bool" where
  "inTree root p \<longleftrightarrow> IsAbs root = IsAbs p \<and> prefix (comps root) (comps p)"

definition os_Stat :: "Faults \<Rightarrow> FS \<Rightarrow> string \<Rightarrow> stat_result" where
  "os_Stat flt fs p =
     (case fault_stat flt p of
        Some err \<Rightarrow> StatError err
      | None \<Rightarrow> (case fs p of None \<Rightarrow> StatNotExist | Some NDir \<Rightarrow> StatDir | Some (NFile _) \<Rightarrow> StatFile))"

definition os_ReadFile :: "Faults \<Rightarrow> FS \<Rightarrow> string \<Rightarrow> bytes result" where
  "os_ReadFile flt fs p =
     (case fault_open flt p of
        Some err \<Rightarrow> Inl err
      | None \<Rightarrow> (case fs p of
                    Some (NFile b) \<Rightarrow> Inr b
                  | Some NDir \<Rightarrow> Inl ''is a directory''
                  | None \<Rightarrow> Inl ''no such file or directory''))"

text \<open>Open for writing (created when missing; truncd or appended to) and one write.\<close>

definition os_Write :: "Faults \<Rightarrow> string \<Rightarrow> bytes \<Rightarrow> bool \<Rightarrow> FS \<Rightarrow> FS \<times> goerror option" where
  "os_Write flt p content trunc fs =
     (case fault_open flt p of
        Some err \<Rightarrow> (fs, Some err)
      | None \<Rightarrow>
          if fs p = Some NDir then (fs, Some ''is a directory'')
          else (let old = (case fs p of Some (NFile b) \<Rightarrow> if trunc then [] else b | _ \<Rightarrow> []) in
                if content = [] then (fs(p \<mapsto> NFile old), None)
                else (case fault_write flt p content of
                        Some (n, err) \<Rightarrow> (fs(p \<mapsto> NFile (old @ take n content)), Some err)
                      | None \<Rightarrow> (fs(p \<mapsto> NFile (old @ content)), None))))"

definition os_WriteFile :: "Faults \<Rightarrow> string \<Rightarrow> bytes \<Rightarrow> FS \<Rightarrow> FS \<times> goerror option" where
  "os_WriteFile flt p content fs = os_Write flt p content True fs"

definition ancestors :: "string \<Rightarrow> string list" where
  "ancestors p = map (unclean (IsAbs p)) (prefixes (comps p))"

text \<open>
  The missing directories are made. That an ancestor is a file is not looked at here: \<open>MkdirAll\<close> then fails, which is a
  fault of the environment.
\<close>

definition makeDirs :: "string \<Rightarrow> FS \<Rightarrow> FS" where
  "makeDirs p fs = fold (\<lambda>a f. if f a = None then f(a \<mapsto> NDir) else f) (ancestors p) fs"

definition os_MkdirAll :: "Faults \<Rightarrow> string \<Rightarrow> FS \<Rightarrow> FS \<times> goerror option" where
  "os_MkdirAll flt p fs =
     (case fault_mkdir flt p of Some err \<Rightarrow> (fs, Some err) | None \<Rightarrow> (makeDirs p fs, None))"

definition clearTree :: "string \<Rightarrow> FS \<Rightarrow> FS" where
  "clearTree p fs = (\<lambda>q. if inTree p q then None else fs q)"

definition os_RemoveAll :: "Faults \<Rightarrow> string \<Rightarrow> FS \<Rightarrow> FS \<times> goerror option" where
  "os_RemoveAll flt p fs =
     (case fault_removeAll flt p of Some err \<Rightarrow> (fs, Some err) | None \<Rightarrow> (clearTree p fs, None))"

definition os_Remove :: "Faults \<Rightarrow> string \<Rightarrow> FS \<Rightarrow> FS \<times> goerror option" where
  "os_Remove flt p fs =
     (case fault_remove flt p of
        Some err \<Rightarrow> (fs, Some err)
      | None \<Rightarrow> if fs p = None then (fs, Some ''no such file or directory'') else (fs(p := None), None))"

text \<open>The path below \<open>src\<close> that corresponds to a path below \<open>dst\<close>.\<close>

definition relocate :: "string \<Rightarrow> string \<Rightarrow> string \<Rightarrow> string" where
  "relocate dst src q = unclean (IsAbs src) (comps src @ drop (length (comps dst)) (comps q))"

definition os_Rename :: "Faults \<Rightarrow> string \<Rightarrow> string \<Rightarrow> FS \<Rightarrow> FS \<times> goerror option" where
  "os_Rename flt src dst fs =
     (case fault_rename flt src dst of
        Some err \<Rightarrow> (fs, Some err)
      | None \<Rightarrow>
          if fs src = None then (fs, Some ''no such file or directory'')
          else ((\<lambda>q. if inTree dst q then fs (relocate dst src q)
                     else if inTree src q then None else fs q), None))"

section \<open>Source files\<close>

text \<open>
  \<open>TErr\<close>: \<open>Lstat\<close> fails. \<open>TLink\<close>: a symbolic link, its own size and what it points to. \<open>TFile\<close>: the
  size \<open>Lstat\<close> reports and what reading gives. \<open>TDirErr\<close>: a directory that cannot be listed.
\<close>

datatype tree =
    TErr goerror
  | TLink int tree
  | TFile int "bytes result"
  | TDirErr goerror
  | TDir "(string \<times> tree) list"

primrec follow :: "tree \<Rightarrow> tree" where
  "follow (TErr e) = TErr e"
| "follow (TLink n t) = follow t"
| "follow (TFile n r) = TFile n r"
| "follow (TDirErr e) = TDirErr e"
| "follow (TDir es) = TDir es"

definition tree_Stat :: "tree \<Rightarrow> stat_result" where
  "tree_Stat t =
     (case follow t of TErr e \<Rightarrow> StatError e | TFile _ _ \<Rightarrow> StatFile | _ \<Rightarrow> StatDir)"

definition tree_ReadFile :: "tree \<Rightarrow> bytes result" where
  "tree_ReadFile t =
     (case follow t of
        TErr e \<Rightarrow> Inl e | TFile _ r \<Rightarrow> r | _ \<Rightarrow> Inl ''is a directory'')"

section \<open>Lemmas\<close>

lemma os_Write_ok:
  "fault_open flt p = None \<Longrightarrow> fs p \<noteq> Some NDir \<Longrightarrow> fault_write flt p content = None \<Longrightarrow>
     os_Write flt p content trunc fs =
       (fs(p \<mapsto> NFile ((case fs p of Some (NFile b) \<Rightarrow> if trunc then [] else b | _ \<Rightarrow> []) @ content)), None)"
  by (simp add: os_Write_def Let_def)

lemma os_Write_frame: "q \<noteq> p \<Longrightarrow> fst (os_Write flt p content trunc fs) q = fs q"
  by (simp add: os_Write_def Let_def split: option.split)

lemma makeDirs_other: "fs q \<noteq> None \<Longrightarrow> makeDirs p fs q = fs q"
proof -
  have "fs q \<noteq> None \<Longrightarrow> fold (\<lambda>a f. if f a = None then f(a \<mapsto> NDir) else f) as fs q = fs q" for as fs
    by (induction as arbitrary: fs) auto
  then show "fs q \<noteq> None \<Longrightarrow> makeDirs p fs q = fs q" by (simp add: makeDirs_def)
qed

lemma ancestors_comps:
  assumes "x \<in> set (ancestors p)" "IsAbs p"
  shows "\<exists>cs. prefix cs (comps p) \<and> x = unclean (IsAbs p) cs \<and> comps x = cs"
proof -
  obtain cs where cs: "prefix cs (comps p)" "x = unclean (IsAbs p) cs" using assms(1) by (auto simp: ancestors_def)
  then obtain ds where "comps p = cs @ ds" by (auto simp: prefix_def)
  then have "list_all plain_comp cs" using comps_plain [OF assms(2)] by simp
  then have "clean_comps_ok (IsAbs p) cs"
    unfolding clean_comps_ok_def by (intro exI [of _ 0] exI [of _ cs]) simp
  then show ?thesis using cs clean_unclean(2) by blast
qed

lemma makeDirs_frame: "q \<notin> set (ancestors p) \<Longrightarrow> makeDirs p fs q = fs q"
proof -
  have "q \<notin> set as \<Longrightarrow> fold (\<lambda>a f. if f a = None then f(a \<mapsto> NDir) else f) as fs q = fs q" for as fs
    by (induction as arbitrary: fs) auto
  then show "q \<notin> set (ancestors p) \<Longrightarrow> makeDirs p fs q = fs q" by (simp add: makeDirs_def)
qed

lemma own_parent:
  assumes "Clean q = q" "IsAbs q" "comps q \<noteq> []"
  shows "q \<notin> set (ancestors (DirOf q))"
proof
  assume "q \<in> set (ancestors (DirOf q))"
  then have "prefix (comps q) (butlast (comps q))"
    using ancestors_comps [of q "DirOf q"] DirOf_clean [OF assms(1)] assms(2) by auto
  then show False using assms(3) by (cases "comps q" rule: rev_cases) auto
qed

lemma inTree_refl [simp]: "inTree p p"
  by (simp add: inTree_def)

lemma clearTree_self [simp]: "clearTree p fs p = None"
  by (simp add: clearTree_def)

lemma noFaults_simps [simp]:
  "fault_stat noFaults p = None" "fault_open noFaults p = None" "fault_write noFaults p b = None"
  "fault_mkdir noFaults p = None" "fault_mkdirTemp noFaults p = None" "fault_remove noFaults p = None"
  "fault_removeAll noFaults p = None" "fault_rename noFaults p q = None"
  by (simp_all add: noFaults_def)

end
