(* ===== verification/AppState.thy ===== *)
theory AppState
  imports FileSys
begin

text \<open>
  The state of the desktop client (\<open>Application\<close> in \<open>desktop/app/application.go\<close>, the transfer manager
  of \<open>file_transfer.go\<close>, the shared-clipboard state, \<open>config.Config\<close>), what the environment answers
  (clock, random bytes, SHA-256, AES-GCM, archives, files, links), and the sending of a message:
  \<open>sendClipboardDataWithResult\<close> with its two dispatch strategies (\<open>send_current.go\<close>).
  Handlers are functions from the environment and the state to the state and a result. Work the code
  starts in a goroutine is put on a list of tasks and run by a later step, so that any interleaving with
  messages can be expressed. One clock value serves all readings of the clock within a step.
\<close>

section \<open>Configuration\<close>

record Config =
  cfg_ServerURL :: string
  cfg_Username :: string
  cfg_Password :: string
  cfg_PasswordEncrypted :: string
  cfg_E2EEEnabled :: bool
  cfg_P2PEnabled :: bool
  cfg_StunURL :: string
  cfg_AutoReconnect :: bool
  cfg_ReconnectDelay :: int
  cfg_FileMemoryThresholdMiB :: int
  cfg_WebPort :: int
  cfg_WebPassword :: string
  cfg_WebPasswordEncrypted :: string
  cfg_FilePath :: string
  cfg_LegacyPassword :: string

definition FileMemoryThresholdBytes :: "Config option \<Rightarrow> int" where
  "FileMemoryThresholdBytes c =
     (case c of
        None \<Rightarrow> DefaultFileMemoryThresholdMiB * 2 ^ 20
      | Some cfg \<Rightarrow>
          (let t1 = (if cfg_FileMemoryThresholdMiB cfg \<le> 0 then DefaultFileMemoryThresholdMiB
                     else cfg_FileMemoryThresholdMiB cfg);
               t2 = (if t1 > MaxFileMemoryThresholdMiB then MaxFileMemoryThresholdMiB else t1)
           in t2 * 2 ^ 20))"

section \<open>Transfers\<close>

definition fileTransferChunkSize :: nat where [const_defs]: "fileTransferChunkSize = 1024 * 1024"
definition fileTransferArchive :: string where [const_defs]: "fileTransferArchive = ''payload.zip''"
definition fileTransferRawPayload :: string where [const_defs]: "fileTransferRawPayload = ''payload.bin''"
definition fileTransferExtracted :: string where [const_defs]: "fileTransferExtracted = ''extracted''"
definition fileTransferTempPrefix :: string where [const_defs]: "fileTransferTempPrefix = ''clipcascade-transfer-''"
definition fileTransferArchiveRetention :: int where
  [const_defs]: "fileTransferArchiveRetention = 15 * 60 * 1000000000"
definition transferArchiveModeDisk :: string where [const_defs]: "transferArchiveModeDisk = ''disk''"
definition transferArchiveModeMemory :: string where [const_defs]: "transferArchiveModeMemory = ''memory''"

text \<open>A cleanup timer is the generation its callback captured; a transfer has at most one armed.\<close>

record outgoingTransfer =
  out_Manifest :: FileStubManifest
  out_SourcePaths :: "string list"
  out_ArchiveMode :: string
  out_ArchiveBytes :: bytes
  out_BaseDir :: string
  out_ArchivePath :: string
  out_ArchiveSHA256 :: string
  out_ArchiveSize :: int
  out_ChunkCount :: int
  out_cleanupTimer :: "uint64 option"
  out_cleanupGen :: uint64
  out_SourceSignature :: string
  out_sendingTargets :: "string list"

record incomingTransfer =
  in_Manifest :: FileStubManifest
  in_HistoryItemID :: string
  in_ArchiveMode :: string
  in_StorageMode :: string
  in_ArchiveBytes :: bytes
  in_BaseDir :: string
  in_ArchivePath :: string
  in_ExtractDir :: string
  in_LastChunkIdx :: int
  in_TotalChunks :: int
  in_RequestedResumeFrom :: int
  in_RequestActive :: bool
  in_Completing :: bool
  in_Completed :: bool

record transferManager =
  tm_sessionID :: string
  tm_outgoing :: "(string \<times> outgoingTransfer) list"
  tm_incoming :: "(string \<times> incomingTransfer) list"

definition newTransferManager :: "string list \<Rightarrow> string \<Rightarrow> transferManager" where
  "newTransferManager sessionID uuid =
     (let i1 = (case sessionID of s # _ \<Rightarrow> s | [] \<Rightarrow> '''');
          i2 = (if i1 = '''' then uuid else i1)
      in \<lparr>tm_sessionID = i2, tm_outgoing = [], tm_incoming = []\<rparr>)"

definition SessionID :: "transferManager option \<Rightarrow> string" where
  "SessionID m = (case m of None \<Rightarrow> '''' | Some tm \<Rightarrow> tm_sessionID tm)"

section \<open>The application\<close>

datatype Delivery = ToPeer string string | ToPeers string | ToRelay string

datatype ClipWrite = PastePayload string string string | StageText string | StageFiles "string list"

datatype Task = HandleRequest FileRequest | HandleComplete FileComplete | ImageMaterialize string

record App =
  app_cfg :: Config
  app_encKey :: "bytes option"
  app_hasP2P :: bool
  app_hasStomp :: bool
  app_hasClip :: bool
  app_sessionID :: string
  app_history :: Manager
  app_transfers :: transferManager
  app_fs :: FS
  app_sharedID :: string
  app_lastFileStubID :: string
  app_lastRecvHash :: string
  app_lastRecvTime :: gotime
  app_lastMonitorSendHash :: string
  app_lastMonitorSendTime :: gotime
  app_replayWriteType :: string
  app_replayWritePayload :: string
  app_replayWriteTime :: gotime
  app_reconnecting :: bool
  app_outbox :: "Delivery list"
  app_clipWrites :: "ClipWrite list"
  app_tasks :: "Task list"
  app_sendNo :: nat
  app_randomNo :: nat

record Link =
  link_p2pPeers :: int
  link_stompConnected :: bool
  link_stompErr :: "goerror option"

text \<open>
  The environment of one step. \<open>env_random\<close> gives the nonce (or failure), temporary-directory suffix and
  identifier for each draw; \<open>env_link n\<close> is how the links answer the \<open>n\<close>-th message.
\<close>

record Env =
  env_paths :: PathEnv
  env_faults :: Faults
  env_gcm :: Gcm
  env_sha256 :: "bytes \<Rightarrow> octet list"
  env_nonce :: "nat \<Rightarrow> bytes option"
  env_tempSuffix :: "nat \<Rightarrow> string"
  env_uuid :: "nat \<Rightarrow> string"
  env_link :: "nat \<Rightarrow> Link"
  env_readyPeers :: int
  env_source :: "string \<Rightarrow> tree"
  env_zipWrite :: "(string \<times> bytes option) list \<Rightarrow> bytes"
  env_zipRead :: "bytes \<Rightarrow> ZipEntry list result"
  env_diskSpace :: "string \<Rightarrow> uint64 result"
  env_clipErr :: "ClipWrite \<Rightarrow> goerror option"

abbreviation env_now :: "Env \<Rightarrow> gotime" where "env_now e \<equiv> pe_now (env_paths e)"

definition sha256hex :: "Env \<Rightarrow> bytes \<Rightarrow> string" where
  "sha256hex env b = hexBytes (env_sha256 env b)"

definition appSessionID :: "App \<Rightarrow> string" where
  "appSessionID a = (if app_sessionID a \<noteq> '''' then app_sessionID a else SessionID (Some (app_transfers a)))"

definition fileTransferMemoryThresholdBytes :: "App \<Rightarrow> int" where
  "fileTransferMemoryThresholdBytes a = FileMemoryThresholdBytes (Some (app_cfg a))"

text \<open>The key the code encrypts with, when it encrypts.\<close>

definition e2eeKey :: "App \<Rightarrow> bytes option" where
  "e2eeKey a = (if cfg_E2EEEnabled (app_cfg a) then app_encKey a else None)"

section \<open>Sending\<close>

record clipboardDispatchResult =
  P2PSent :: bool
  StompSent :: bool

definition noDispatch :: clipboardDispatchResult where
  "noDispatch = \<lparr>P2PSent = False, StompSent = False\<rparr>"

definition ErrClipboardTransportUnavailable :: goerror where
  "ErrClipboardTransportUnavailable = ''clipboard transport unavailable''"

text \<open>
  The dispatch functions on the answers of the links: how many peers took the body, whether the relay
  connection is up, and the error of sending on it.
\<close>

definition dispatchClipboardBodyDetailed ::
  "int \<Rightarrow> bool \<Rightarrow> goerror option \<Rightarrow> clipboardDispatchResult \<times> goerror option" where
  "dispatchClipboardBodyDetailed sentPeers stompConnected stompErr =
     (let p2pSent = sentPeers > 0; result = noDispatch\<lparr>P2PSent := p2pSent\<rparr> in
      if stompConnected then
        (case stompErr of
           Some err \<Rightarrow> if \<not> p2pSent then (result, Some err) else (result, None)
         | None \<Rightarrow> (result\<lparr>StompSent := True\<rparr>, None))
      else if p2pSent then (result, None)
      else (result, Some ErrClipboardTransportUnavailable))"

definition dispatchClipboardBodySingleRoute ::
  "int \<Rightarrow> bool \<Rightarrow> goerror option \<Rightarrow> clipboardDispatchResult \<times> goerror option" where
  "dispatchClipboardBodySingleRoute sentPeers stompConnected stompErr =
     (if sentPeers > 0 then (noDispatch\<lparr>P2PSent := True\<rparr>, None)
      else if stompConnected then
        (case stompErr of
           Some err \<Rightarrow> (noDispatch, Some err)
         | None \<Rightarrow> (noDispatch\<lparr>StompSent := True\<rparr>, None))
      else (noDispatch, Some ErrClipboardTransportUnavailable))"

definition isSingleRouteClipboardType :: "string \<Rightarrow> bool" where
  "isSingleRouteClipboardType t \<longleftrightarrow>
     t = TypeFileRequest \<or> t = TypeFileChunk \<or> t = TypeFileComplete \<or> t = TypeFileError \<or> t = TypeFileRelease"

definition targetSessionIDForSingleRouteClipboardData :: "ClipboardData \<Rightarrow> string" where
  "targetSessionIDForSingleRouteClipboardData cd =
     (let p = cd_Payload cd; t = cd_Type cd in
      if p = '''' then ''''
      else if t = TypeFileRequest then
        (case decodeRequest p of Some r \<Rightarrow> req_TargetSessionID r | None \<Rightarrow> '''')
      else if t = TypeFileChunk then
        (case decodeChunk p of Some c \<Rightarrow> chk_TargetSessionID c | None \<Rightarrow> '''')
      else if t = TypeFileComplete then
        (case decodeComplete p of Some c \<Rightarrow> cmp_TargetSessionID c | None \<Rightarrow> '''')
      else if t = TypeFileError then
        (case decodeError p of Some f \<Rightarrow> ferr_TargetSessionID f | None \<Rightarrow> '''')
      else if t = TypeFileRelease then
        (case decodeRelease p of Some r \<Rightarrow> rel_TargetSessionID r | None \<Rightarrow> '''')
      else '''')"

text \<open>The bytes that travel: the JSON of the message, or its encrypted envelope.\<close>

definition messageBody :: "Env \<Rightarrow> App \<Rightarrow> ClipboardData \<Rightarrow> string result" where
  "messageBody env a cd =
     (let jsonBytes = ClipboardData_Encode cd in
      case e2eeKey a of
        None \<Rightarrow> Inr jsonBytes
      | Some key \<Rightarrow>
          (case Encrypt (env_gcm env) (env_nonce env (app_randomNo a)) key jsonBytes of
             Inl err \<Rightarrow> Inl (''encrypt clipboard data: '' @ err)
           | Inr encrypted \<Rightarrow> Inr (EncodeToJSONString encrypted)))"

definition sendClipboardDataWithResult ::
  "Env \<Rightarrow> ClipboardData \<Rightarrow> App \<Rightarrow> App \<times> clipboardDispatchResult \<times> goerror option" where
  "sendClipboardDataWithResult env cd a0 =
     (let a = a0\<lparr>app_randomNo := Suc (app_randomNo a0)\<rparr> in
      case messageBody env a0 cd of
        Inl err \<Rightarrow> (a, noDispatch, Some err)
      | Inr body \<Rightarrow>
          (let l = env_link env (app_sendNo a);
               peers = (if app_hasP2P a then link_p2pPeers l else 0);
               stomp = (app_hasStomp a \<and> link_stompConnected l);
               target = targetSessionIDForSingleRouteClipboardData cd;
               single = isSingleRouteClipboardType (cd_Type cd);
               (result, err) =
                 (if single then dispatchClipboardBodySingleRoute peers stomp (link_stompErr l)
                  else dispatchClipboardBodyDetailed peers stomp (link_stompErr l));
               p2pLog = (if P2PSent result
                         then [if single \<and> target \<noteq> '''' then ToPeer target body else ToPeers body] else []);
               stompLog = (if StompSent result then [ToRelay body] else [])
           in (a\<lparr>app_sendNo := Suc (app_sendNo a), app_outbox := app_outbox a @ p2pLog @ stompLog\<rparr>,
               result, err)))"

definition sendClipboardData :: "Env \<Rightarrow> ClipboardData \<Rightarrow> App \<Rightarrow> App \<times> goerror option" where
  "sendClipboardData env cd a = (case sendClipboardDataWithResult env cd a of (a', _, err) \<Rightarrow> (a', err))"

section \<open>History operations on the application\<close>

definition historyUpdateState :: "Env \<Rightarrow> string \<Rightarrow> ItemState \<Rightarrow> App \<Rightarrow> App \<times> bool" where
  "historyUpdateState env i st a =
     (case UpdateState (env_now env) i st (app_history a) of (m, ok, _) \<Rightarrow> (a\<lparr>app_history := m\<rparr>, ok))"

definition historyMutate :: "Env \<Rightarrow> string \<Rightarrow> item_fn \<Rightarrow> App \<Rightarrow> App \<times> HistoryItem result" where
  "historyMutate env i f a =
     (case Mutate (env_now env) i (Some f) (app_history a) of (m, r, _) \<Rightarrow> (a\<lparr>app_history := m\<rparr>, r))"

definition historyMutateByTransferID :: "Env \<Rightarrow> string \<Rightarrow> item_fn \<Rightarrow> App \<Rightarrow> App \<times> HistoryItem result" where
  "historyMutateByTransferID env t f a =
     (case MutateByTransferID (env_now env) t (Some f) (app_history a) of
        (m, r, _) \<Rightarrow> (a\<lparr>app_history := m\<rparr>, r))"

end
