(* ===== verification/TransferSend.thy ===== *)
theory TransferSend
  imports AppState
begin

text \<open>
  The sending side of a file transfer (\<open>desktop/app/file_transfer.go\<close>): the signature and the manifest
  of a set of source paths, the transfer manager's registers, the archive in memory or on disk, the
  chunks of an archive, and the handling of a \<open>file_request\<close>, with the delayed clean-up of archives.
\<close>

section \<open>Source paths\<close>

definition symlinkError :: "string \<Rightarrow> goerror" where
  "symlinkError path = ''symlink not supported in transfer: '' @ path"

text \<open>The parts of a directory's entries, in name order; the first error ends the walk.\<close>

fun firstErrorOrAll :: "(string \<times> 'a list result) list \<Rightarrow> 'a list result" where
  "firstErrorOrAll [] = Inr []"
| "firstErrorOrAll ((_, r) # rs) =
     (case r of
        Inl e \<Rightarrow> Inl e
      | Inr b \<Rightarrow> (case firstErrorOrAll rs of Inl e \<Rightarrow> Inl e | Inr bs \<Rightarrow> Inr (b @ bs)))"

fun appendSourcePathSignature :: "tree \<Rightarrow> string \<Rightarrow> string \<Rightarrow> bytes result" where
  "appendSourcePathSignature (TErr e) path rel = Inl e"
| "appendSourcePathSignature (TLink n t) path rel = Inl (symlinkError path)"
| "appendSourcePathSignature (TDirErr e) path rel = Inl e"
| "appendSourcePathSignature (TDir es) path rel =
     (case firstErrorOrAll (sort_key fst (map (\<lambda>(name, t). (name,
             appendSourcePathSignature t (JoinPath [path, name]) (JoinPath [rel, name]))) es)) of
        Inl e \<Rightarrow> Inl e
      | Inr b \<Rightarrow> Inr (''D'' @ [nul] @ rel @ [nul] @ b))"
| "appendSourcePathSignature (TFile n r) path rel =
     (case r of
        Inl e \<Rightarrow> Inl e
      | Inr content \<Rightarrow> Inr (''F'' @ [nul] @ rel @ [nul] @ showInt n @ [nul] @ content @ [nul]))"

definition sourcePathsSignature :: "Env \<Rightarrow> string list \<Rightarrow> string result" where
  "sourcePathsSignature env paths =
     (if paths = [] then Inl ''no source paths for signature''
      else (case firstErrorOrAll (map (\<lambda>source. (source,
                    appendSourcePathSignature (env_source env source) source (Base source)))
                  (sort (map Clean paths))) of
              Inl e \<Rightarrow> Inl e
            | Inr b \<Rightarrow> Inr (sha256hex env b)))"

fun treeBytes :: "tree \<Rightarrow> int" where
  "treeBytes (TErr e) = 0"
| "treeBytes (TLink n t) = n"
| "treeBytes (TFile n r) = n"
| "treeBytes (TDirErr e) = 0"
| "treeBytes (TDir es) = sum_list (map (\<lambda>(name, t). treeBytes t) es)"

definition estimatePathBytes :: "Env \<Rightarrow> string \<Rightarrow> int" where
  "estimatePathBytes env path = treeBytes (env_source env path)"

section \<open>Manifests\<close>

definition archiveFormatForKind :: "string \<Rightarrow> string" where
  "archiveFormatForKind kind =
     (if kind = FileKindSingleFile \<or> kind = FileKindImage then ''raw'' else ''zip'')"

definition usesRawTransfer :: "FileStubManifest \<Rightarrow> bool" where
  "usesRawTransfer m \<longleftrightarrow> foldName (trimSpace (man_ArchiveFormat m)) = foldName ''raw''"

definition transferPayloadTempName :: "FileStubManifest \<Rightarrow> string" where
  "transferPayloadTempName m = (if usesRawTransfer m then fileTransferRawPayload else fileTransferArchive)"

definition topLevelName :: "string \<Rightarrow> string" where
  "topLevelName path =
     (let name = Base path in if name = '''' \<or> name = ''.'' \<or> name = ''/'' then ''unknown'' else name)"

definition createFileStubManifestWithKind ::
  "Env \<Rightarrow> string \<Rightarrow> string \<Rightarrow> string \<Rightarrow> string \<Rightarrow> string \<Rightarrow> string list \<Rightarrow> FileStubManifest" where
  "createFileStubManifestWithKind env entryID transferID sessionID sourceDevice kindOverride paths =
     (let kind1 = (case paths of
                     [p] \<Rightarrow> if tree_Stat (env_source env p) = StatDir then FileKindFolder else FileKindSingleFile
                   | _ \<Rightarrow> FileKindMultiFile);
          kind = (if kindOverride \<noteq> '''' then kindOverride else kind1);
          names = map topLevelName paths;
          displayName = (if length names > 1
                         then hd names @ '' and '' @ showInt (int (length names) - 1) @ '' more''
                         else joinChar '', '' names)
      in \<lparr>man_ProtocolVersion = FileProtocolVersion, man_EntryID = entryID, man_TransferID = transferID,
          man_SourceSessionID = sessionID, man_SourceDevice = sourceDevice, man_Kind = kind,
          man_ArchiveFormat = archiveFormatForKind kind, man_DisplayName = displayName,
          man_EntryCount = int (length paths), man_TopLevelNames = names,
          man_EstimatedTotalBytes = sum_list (map (estimatePathBytes env) paths)\<rparr>)"

definition createFileStubManifest ::
  "Env \<Rightarrow> string \<Rightarrow> string \<Rightarrow> string \<Rightarrow> string \<Rightarrow> string list \<Rightarrow> FileStubManifest" where
  "createFileStubManifest env entryID transferID sessionID sourceDevice paths =
     createFileStubManifestWithKind env entryID transferID sessionID sourceDevice '''' paths"

definition rawTransferSourcePath :: "Env \<Rightarrow> string list \<Rightarrow> string result" where
  "rawTransferSourcePath env sourcePaths =
     (case sourcePaths of
        [source] \<Rightarrow>
          (case tree_Stat (env_source env source) of
             StatError err \<Rightarrow> Inl err
           | StatDir \<Rightarrow> Inl (''raw transfer does not support directory source '' @ source)
           | _ \<Rightarrow> Inr source)
      | _ \<Rightarrow> Inl ''raw transfer requires exactly one source path'')"

section \<open>Registers\<close>

definition setOutgoing :: "string \<Rightarrow> outgoingTransfer \<Rightarrow> App \<Rightarrow> App" where
  "setOutgoing t tr a =
     a\<lparr>app_transfers := (app_transfers a)\<lparr>tm_outgoing := AList.update t tr (tm_outgoing (app_transfers a))\<rparr>\<rparr>"

definition setIncoming :: "string \<Rightarrow> incomingTransfer \<Rightarrow> App \<Rightarrow> App" where
  "setIncoming t tr a =
     a\<lparr>app_transfers := (app_transfers a)\<lparr>tm_incoming := AList.update t tr (tm_incoming (app_transfers a))\<rparr>\<rparr>"

definition getOutgoingMutable :: "string \<Rightarrow> App \<Rightarrow> outgoingTransfer option" where
  "getOutgoingMutable t a = map_of (tm_outgoing (app_transfers a)) t"

definition GetOutgoing :: "string \<Rightarrow> App \<Rightarrow> outgoingTransfer option" where
  "GetOutgoing t a =
     map_option (\<lambda>tr. tr\<lparr>out_cleanupTimer := None, out_cleanupGen := 0, out_sendingTargets := []\<rparr>)
       (map_of (tm_outgoing (app_transfers a)) t)"

definition GetIncoming :: "string \<Rightarrow> App \<Rightarrow> incomingTransfer option" where
  "GetIncoming t a = map_of (tm_incoming (app_transfers a)) t"

definition newOutgoing :: "FileStubManifest \<Rightarrow> string list \<Rightarrow> string \<Rightarrow> outgoingTransfer" where
  "newOutgoing manifest paths signature =
     \<lparr>out_Manifest = manifest, out_SourcePaths = paths, out_ArchiveMode = '''', out_ArchiveBytes = [],
      out_BaseDir = '''', out_ArchivePath = '''', out_ArchiveSHA256 = '''', out_ArchiveSize = 0,
      out_ChunkCount = 0, out_cleanupTimer = None, out_cleanupGen = 0, out_SourceSignature = signature,
      out_sendingTargets = []\<rparr>"

text \<open>
  Registration takes the lock twice: once to look for a transfer of the same content, and again to store the new one.
  In between other goroutines can run.
\<close>

definition registerLookup :: "Env \<Rightarrow> string list \<Rightarrow> App \<Rightarrow> (string \<times> outgoingTransfer option) result" where
  "registerLookup env paths a =
     (if paths = [] then Inl ''no source paths for outgoing transfer''
      else (case sourcePathsSignature env paths of
              Inl err \<Rightarrow> Inl err
            | Inr signature \<Rightarrow>
                Inr (signature, map_option snd
                  (List.find (\<lambda>(_, existing). out_SourceSignature existing = signature) (tm_outgoing (app_transfers a))))))"

definition registerInsert ::
  "Env \<Rightarrow> string list \<Rightarrow> string \<Rightarrow> string \<Rightarrow> string \<Rightarrow> App \<Rightarrow> App \<times> outgoingTransfer" where
  "registerInsert env paths signature sourceDevice kindOverride a =
     (let transferID = env_uuid env (app_randomNo a);
          entryID = env_uuid env (Suc (app_randomNo a));
          manifest = createFileStubManifestWithKind env entryID transferID
            (tm_sessionID (app_transfers a)) sourceDevice kindOverride paths;
          transfer = newOutgoing manifest paths signature
      in (setOutgoing transferID transfer (a\<lparr>app_randomNo := app_randomNo a + 2\<rparr>), transfer))"

text \<open>One registration with nothing in between.\<close>

definition RegisterOutgoingWithKind ::
  "Env \<Rightarrow> string list \<Rightarrow> string \<Rightarrow> string \<Rightarrow> App \<Rightarrow> App \<times> outgoingTransfer result" where
  "RegisterOutgoingWithKind env paths sourceDevice kindOverride a =
     (case registerLookup env paths a of
        Inl err \<Rightarrow> (a, Inl err)
      | Inr (_, Some existing) \<Rightarrow> (a, Inr existing)
      | Inr (signature, None) \<Rightarrow>
          (let (a', transfer) = registerInsert env paths signature sourceDevice kindOverride a in (a', Inr transfer)))"

lemmas registration_defs = RegisterOutgoingWithKind_def registerLookup_def registerInsert_def

definition RegisterOutgoing :: "Env \<Rightarrow> string list \<Rightarrow> string \<Rightarrow> App \<Rightarrow> App \<times> outgoingTransfer result" where
  "RegisterOutgoing env paths sourceDevice a = RegisterOutgoingWithKind env paths sourceDevice '''' a"

definition newIncoming :: "FileStubManifest \<Rightarrow> string \<Rightarrow> int \<Rightarrow> incomingTransfer" where
  "newIncoming manifest historyItemID lastChunkIdx =
     \<lparr>in_Manifest = manifest, in_HistoryItemID = historyItemID, in_ArchiveMode = '''', in_StorageMode = '''',
      in_ArchiveBytes = [], in_BaseDir = '''', in_ArchivePath = '''', in_ExtractDir = '''',
      in_LastChunkIdx = lastChunkIdx, in_TotalChunks = 0, in_RequestedResumeFrom = 0,
      in_RequestActive = False, in_Completing = False, in_Completed = False\<rparr>"

definition RegisterIncoming ::
  "FileStubManifest \<Rightarrow> string \<Rightarrow> int \<Rightarrow> App \<Rightarrow> App \<times> incomingTransfer" where
  "RegisterIncoming manifest historyItemID lastChunkIdx a =
     (let transfer = newIncoming manifest historyItemID lastChunkIdx
      in (setIncoming (man_TransferID manifest) transfer a, transfer))"

text \<open>
  \<open>mutateIncoming\<close>: the function edits the stored transfer in place, so its edits stay also when it
  returns an error. \<open>f\<close> may change the rest of the application.
\<close>

definition mutateIncoming ::
  "string \<Rightarrow> (incomingTransfer \<Rightarrow> App \<Rightarrow> incomingTransfer \<times> App \<times> goerror option) \<Rightarrow> App \<Rightarrow>
     App \<times> incomingTransfer result" where
  "mutateIncoming t f a =
     (case map_of (tm_incoming (app_transfers a)) t of
        None \<Rightarrow> (a, Inl ''incoming transfer not found'')
      | Some transfer \<Rightarrow>
          (case f transfer a of (transfer', a', err) \<Rightarrow>
             (setIncoming t transfer' a', case err of Some e \<Rightarrow> Inl e | None \<Rightarrow> Inr transfer')))"

definition updateIncoming :: "string \<Rightarrow> (incomingTransfer \<Rightarrow> incomingTransfer) \<Rightarrow> App \<Rightarrow> App" where
  "updateIncoming t f a = fst (mutateIncoming t (\<lambda>tr a. (f tr, a, None)) a)"

definition normalizeArchiveMode :: "string \<Rightarrow> string" where
  "normalizeArchiveMode mode =
     (if mode = transferArchiveModeMemory then transferArchiveModeMemory else transferArchiveModeDisk)"

definition archiveModeString :: "string \<Rightarrow> string" where
  "archiveModeString m = (if m = '''' then transferArchiveModeDisk else m)"

text \<open>\<open>os.MkdirTemp\<close>: a fresh directory below \<open>os.TempDir()\<close>.\<close>

definition newTransferTempDir :: "Env \<Rightarrow> string \<Rightarrow> App \<Rightarrow> App \<times> string result" where
  "newTransferTempDir env transferID a =
     (let prefix = (if transferID \<noteq> '''' then fileTransferTempPrefix @ take 8 transferID @ ''-''
                    else fileTransferTempPrefix);
          dir = JoinPath [pe_tmp (env_paths env), prefix @ env_tempSuffix env (app_randomNo a)];
          a' = a\<lparr>app_randomNo := Suc (app_randomNo a)\<rparr>
      in case fault_mkdirTemp (env_faults env) dir of
           Some err \<Rightarrow> (a', Inl err)
         | None \<Rightarrow> (a'\<lparr>app_fs := makeDirs dir (app_fs a')\<rparr>, Inr dir))"

section \<open>Archives\<close>

definition fileSHA256 :: "Env \<Rightarrow> FS \<Rightarrow> string \<Rightarrow> (string \<times> int) result" where
  "fileSHA256 env fs path =
     (case os_ReadFile (env_faults env) fs path of
        Inl err \<Rightarrow> Inl err | Inr b \<Rightarrow> Inr (sha256hex env b, int (length b)))"

definition chunkCountForSize :: "int \<Rightarrow> int" where
  "chunkCountForSize sz =
     (if sz \<le> 0 then 0
      else sz div int fileTransferChunkSize + (if sz mod int fileTransferChunkSize \<noteq> 0 then 1 else 0))"

text \<open>The entries \<open>addPathToZip\<close> writes: a directory has no content.\<close>

fun addPathToZip :: "tree \<Rightarrow> string \<Rightarrow> string \<Rightarrow> (string \<times> bytes option) list result" where
  "addPathToZip (TErr e) path zipName = Inl e"
| "addPathToZip (TLink n t) path zipName = Inl (symlinkError path)"
| "addPathToZip (TDirErr e) path zipName = Inl e"
| "addPathToZip (TDir es) path zipName =
     (case firstErrorOrAll (sort_key fst (map (\<lambda>(name, t). (name,
             addPathToZip t (JoinPath [path, name]) (JoinPath [zipName, name]))) es)) of
        Inl e \<Rightarrow> Inl e
      | Inr entries \<Rightarrow> Inr ((zipName @ ''/'', None) # entries))"
| "addPathToZip (TFile n r) path zipName =
     (case r of Inl e \<Rightarrow> Inl e | Inr content \<Rightarrow> Inr [(zipName, Some content)])"

definition zipSources :: "Env \<Rightarrow> string list \<Rightarrow> bytes result" where
  "zipSources env sources =
     (case firstErrorOrAll (map (\<lambda>s. (s, addPathToZip (env_source env s) s (Base s))) sources) of
        Inl e \<Rightarrow> Inl e | Inr entries \<Rightarrow> Inr (env_zipWrite env entries))"

definition errMemoryArchiveTooLarge :: goerror where
  "errMemoryArchiveTooLarge = ''memory archive exceeds threshold''"

definition canUseMemoryArchive :: "Env \<Rightarrow> App \<Rightarrow> int \<Rightarrow> bool" where
  "canUseMemoryArchive env a estimatedBytes =
     (if \<not> app_hasP2P a \<or> env_readyPeers env = 0 then False
      else if estimatedBytes > fileTransferMemoryThresholdBytes a then False else True)"

text \<open>The bytes to send: the file itself, or the zip of the sources.\<close>

definition outgoingContent :: "Env \<Rightarrow> outgoingTransfer \<Rightarrow> bytes result" where
  "outgoingContent env tr =
     (if usesRawTransfer (out_Manifest tr) then
        (case rawTransferSourcePath env (out_SourcePaths tr) of
           Inl err \<Rightarrow> Inl err
         | Inr source \<Rightarrow> tree_ReadFile (env_source env source))
      else zipSources env (out_SourcePaths tr))"

definition prepareOutgoingArchiveInMemory ::
  "Env \<Rightarrow> App \<Rightarrow> outgoingTransfer \<Rightarrow> outgoingTransfer \<times> goerror option" where
  "prepareOutgoingArchiveInMemory env a tr =
     (case outgoingContent env tr of
        Inl err \<Rightarrow> (tr, Some err)
      | Inr content \<Rightarrow>
          if int (length content) > fileTransferMemoryThresholdBytes a
          then (tr, Some errMemoryArchiveTooLarge)
          else (tr\<lparr>out_ArchiveMode := transferArchiveModeMemory, out_ArchiveBytes := content,
                   out_BaseDir := '''', out_ArchivePath := '''',
                   out_ArchiveSHA256 := sha256hex env content, out_ArchiveSize := int (length content),
                   out_ChunkCount := chunkCountForSize (int (length content))\<rparr>, None))"

text \<open>
  On disk: the transfer's directory, then the archive file. A raw source is copied (its parent directory
  made, the source opened, the copy created); a zip is created first and filled.
\<close>

definition writeOutgoingArchive :: "Env \<Rightarrow> outgoingTransfer \<Rightarrow> string \<Rightarrow> FS \<Rightarrow> FS \<times> goerror option" where
  "writeOutgoingArchive env tr archivePath fs =
     (let flt = env_faults env in
      if usesRawTransfer (out_Manifest tr) then
        (case rawTransferSourcePath env (out_SourcePaths tr) of
           Inl err \<Rightarrow> (fs, Some err)
         | Inr source \<Rightarrow>
             (case os_MkdirAll flt (DirOf archivePath) fs of
                (fs1, Some err) \<Rightarrow> (fs1, Some err)
              | (fs1, None) \<Rightarrow>
                  (case tree_ReadFile (env_source env source) of
                     Inl err \<Rightarrow> (fs1, Some err)
                   | Inr content \<Rightarrow> os_Write flt archivePath content True fs1)))
      else
        (case os_Write flt archivePath [] True fs of
           (fs1, Some err) \<Rightarrow> (fs1, Some err)
         | (fs1, None) \<Rightarrow>
             (case zipSources env (out_SourcePaths tr) of
                Inl err \<Rightarrow> (fs1, Some err)
              | Inr content \<Rightarrow> os_Write flt archivePath content False fs1)))"

definition prepareOutgoingArchiveOnDisk ::
  "Env \<Rightarrow> outgoingTransfer \<Rightarrow> App \<Rightarrow> App \<times> outgoingTransfer \<times> goerror option" where
  "prepareOutgoingArchiveOnDisk env tr a =
     (let flt = env_faults env;
          (a1, tr1, err1) =
            (if out_BaseDir tr = '''' then
               (case newTransferTempDir env (man_TransferID (out_Manifest tr)) a of
                  (a', Inl err) \<Rightarrow> (a', tr, Some err)
                | (a', Inr dir) \<Rightarrow> (a', tr\<lparr>out_BaseDir := dir\<rparr>, None))
             else (a, tr, None)) in
      if err1 \<noteq> None then (a1, tr1, err1)
      else
        (case os_MkdirAll flt (out_BaseDir tr1) (app_fs a1) of
           (fs2, Some err) \<Rightarrow> (a1\<lparr>app_fs := fs2\<rparr>, tr1, Some err)
         | (fs2, None) \<Rightarrow>
             (let archivePath = JoinPath [out_BaseDir tr1, transferPayloadTempName (out_Manifest tr1)] in
              case writeOutgoingArchive env tr1 archivePath fs2 of
                (fs3, Some err) \<Rightarrow> (a1\<lparr>app_fs := fs3\<rparr>, tr1, Some err)
              | (fs3, None) \<Rightarrow>
                  (case fileSHA256 env fs3 archivePath of
                     Inl err \<Rightarrow> (a1\<lparr>app_fs := fs3\<rparr>, tr1, Some err)
                   | Inr (digest, sz) \<Rightarrow>
                       (a1\<lparr>app_fs := fs3\<rparr>,
                        tr1\<lparr>out_ArchiveMode := transferArchiveModeDisk, out_ArchiveBytes := [],
                            out_ArchivePath := archivePath, out_ArchiveSHA256 := digest,
                            out_ArchiveSize := sz, out_ChunkCount := chunkCountForSize sz\<rparr>,
                        None)))))"

definition statOk :: "Env \<Rightarrow> App \<Rightarrow> string \<Rightarrow> bool" where
  "statOk env a p =
     (case os_Stat (env_faults env) (app_fs a) p of StatDir \<Rightarrow> True | StatFile \<Rightarrow> True | _ \<Rightarrow> False)"

definition hasReusableOutgoingArchive :: "Env \<Rightarrow> App \<Rightarrow> outgoingTransfer \<Rightarrow> bool" where
  "hasReusableOutgoingArchive env a tr =
     (if out_ArchiveBytes tr \<noteq> [] then True
      else if out_ArchivePath tr = '''' then False
      else statOk env a (out_ArchivePath tr))"

definition prepareOutgoingArchive ::
  "Env \<Rightarrow> outgoingTransfer \<Rightarrow> App \<Rightarrow> App \<times> outgoingTransfer \<times> goerror option" where
  "prepareOutgoingArchive env tr0 a =
     (let tr = tr0\<lparr>out_cleanupTimer := None, out_cleanupGen := out_cleanupGen tr0 + 1\<rparr> in
      if out_ArchiveBytes tr \<noteq> [] then (a, tr\<lparr>out_ArchiveMode := transferArchiveModeMemory\<rparr>, None)
      else if out_ArchivePath tr \<noteq> '''' \<and> statOk env a (out_ArchivePath tr)
      then (a, tr\<lparr>out_ArchiveMode := transferArchiveModeDisk\<rparr>, None)
      else if canUseMemoryArchive env a (man_EstimatedTotalBytes (out_Manifest tr)) then
        (case prepareOutgoingArchiveInMemory env a tr of
           (tr1, None) \<Rightarrow> (a, tr1, None)
         | (tr1, Some _) \<Rightarrow> prepareOutgoingArchiveOnDisk env tr1 a)
      else prepareOutgoingArchiveOnDisk env tr a)"

section \<open>Chunks\<close>

definition fileChunkAAD :: "string \<Rightarrow> int \<Rightarrow> bytes" where
  "fileChunkAAD transferID chunkIndex = transferID @ ''|'' @ showInt chunkIndex"

text \<open>What the reader delivers: the archive from the offset on; a negative offset does not seek.\<close>

definition archiveChunkReader :: "Env \<Rightarrow> App \<Rightarrow> outgoingTransfer \<Rightarrow> int \<Rightarrow> bytes result" where
  "archiveChunkReader env a tr resumeFrom =
     (let offset = nat (resumeFrom * int fileTransferChunkSize) in
      if out_ArchiveBytes tr \<noteq> [] then Inr (drop offset (out_ArchiveBytes tr))
      else (case os_ReadFile (env_faults env) (app_fs a) (out_ArchivePath tr) of
              Inl err \<Rightarrow> Inl err | Inr b \<Rightarrow> Inr (drop offset b)))"

definition encodeChunk :: "Env \<Rightarrow> App \<Rightarrow> string \<Rightarrow> int \<Rightarrow> bytes \<Rightarrow> string result" where
  "encodeChunk env a transferID chunkIndex raw =
     (case e2eeKey a of
        None \<Rightarrow> Inr (EncodeToString raw)
      | Some key \<Rightarrow>
          (case EncryptWithAAD (env_gcm env) (env_nonce env (app_randomNo a)) key raw
                  (fileChunkAAD transferID chunkIndex) of
             Inl err \<Rightarrow> Inl (''encrypt chunk '' @ showInt chunkIndex @ '': '' @ err)
           | Inr encrypted \<Rightarrow> Inr (EncodeToJSONString encrypted)))"

definition makeChunk ::
  "Env \<Rightarrow> App \<Rightarrow> outgoingTransfer \<Rightarrow> string \<Rightarrow> int \<Rightarrow> bytes \<Rightarrow> FileChunk result" where
  "makeChunk env a tr targetSessionID chunkIndex raw =
     (case encodeChunk env a (man_TransferID (out_Manifest tr)) chunkIndex raw of
        Inl err \<Rightarrow> Inl err
      | Inr encodedChunk \<Rightarrow>
          Inr \<lparr>chk_TransferID = man_TransferID (out_Manifest tr), chk_TargetSessionID = targetSessionID,
               chk_ArchiveMode = archiveModeString (out_ArchiveMode tr), chk_ChunkIndex = chunkIndex,
               chk_TotalChunks = out_ChunkCount tr, chk_ChunkData = encodedChunk,
               chk_ChunkSHA256 = sha256hex env raw\<rparr>)"

lemma chunkSize_pos [simp]: "0 < fileTransferChunkSize" "fileTransferChunkSize \<noteq> 0"
  by (simp_all add: fileTransferChunkSize_def)

text \<open>The loop of \<open>sendArchiveChunks\<close> on the bytes left in the reader.\<close>

function sendChunksFrom ::
  "Env \<Rightarrow> outgoingTransfer \<Rightarrow> string \<Rightarrow> int \<Rightarrow> bytes \<Rightarrow> App \<Rightarrow> App \<times> goerror option" where
  "sendChunksFrom env tr target chunkIndex rest a =
     (let raw = take fileTransferChunkSize rest in
      if raw = [] then (a, None)
      else (case makeChunk env a tr target chunkIndex raw of
              Inl err \<Rightarrow> (a, Some err)
            | Inr chunk \<Rightarrow>
                (case sendClipboardData env (NewClipboardDataWithPayload chunkJSON TypeFileChunk chunk)
                        (a\<lparr>app_randomNo := Suc (app_randomNo a)\<rparr>) of
                   (a1, Some err) \<Rightarrow> (a1, Some err)
                 | (a1, None) \<Rightarrow>
                     if length raw < fileTransferChunkSize then (a1, None)
                     else sendChunksFrom env tr target (chunkIndex + 1) (drop fileTransferChunkSize rest) a1)))"
  by pat_completeness auto
termination
  by (relation "measure (\<lambda>(env, tr, target, i, rest, a). length rest)") auto

declare sendChunksFrom.simps [simp del]

definition sendArchiveChunks ::
  "Env \<Rightarrow> outgoingTransfer \<Rightarrow> string \<Rightarrow> int \<Rightarrow> App \<Rightarrow> App \<times> goerror option" where
  "sendArchiveChunks env tr target resumeFrom a =
     (case archiveChunkReader env a tr resumeFrom of
        Inl err \<Rightarrow> (a, Some err)
      | Inr rest \<Rightarrow> sendChunksFrom env tr target resumeFrom rest a)"

definition sendFileError ::
  "Env \<Rightarrow> string \<Rightarrow> string \<Rightarrow> string \<Rightarrow> string \<Rightarrow> bool \<Rightarrow> App \<Rightarrow> App \<times> goerror option" where
  "sendFileError env transferID target code message retryable a =
     sendClipboardData env (NewClipboardDataWithPayload errorJSON TypeFileError
       \<lparr>ferr_TransferID = transferID, ferr_TargetSessionID = target, ferr_ErrorCode = code,
        ferr_ErrorMessage = message, ferr_Retryable = retryable\<rparr>) a"

definition sendFileRelease :: "Env \<Rightarrow> string \<Rightarrow> string \<Rightarrow> string \<Rightarrow> App \<Rightarrow> App \<times> goerror option" where
  "sendFileRelease env transferID target reason a =
     sendClipboardData env (NewClipboardDataWithPayload releaseJSON TypeFileRelease
       \<lparr>rel_TransferID = transferID, rel_TargetSessionID = target, rel_ReleaseReason = reason\<rparr>) a"

section \<open>Clean-up\<close>

definition wipeArchive :: "outgoingTransfer \<Rightarrow> outgoingTransfer" where
  "wipeArchive tr = tr\<lparr>out_ArchiveMode := transferArchiveModeDisk, out_ArchiveBytes := [], out_BaseDir := '''',
     out_ArchivePath := '''', out_ArchiveSHA256 := '''', out_ArchiveSize := 0, out_ChunkCount := 0,
     out_cleanupTimer := None\<rparr>"

definition removeBaseDir :: "Env \<Rightarrow> string \<Rightarrow> App \<Rightarrow> App" where
  "removeBaseDir env baseDir a =
     (if baseDir \<noteq> '''' then a\<lparr>app_fs := fst (os_RemoveAll (env_faults env) baseDir (app_fs a))\<rparr> else a)"

text \<open>Arming the timer, and what its callback does when it fires with the generation it captured.\<close>

definition scheduleOutgoingArchiveCleanup :: "string \<Rightarrow> App \<Rightarrow> App" where
  "scheduleOutgoingArchiveCleanup t a =
     (case getOutgoingMutable t a of
        None \<Rightarrow> a
      | Some tr \<Rightarrow>
          (let gen = out_cleanupGen tr + 1
           in setOutgoing t (tr\<lparr>out_cleanupGen := gen, out_cleanupTimer := Some gen\<rparr>) a))"

definition cleanupTimerFires :: "Env \<Rightarrow> string \<Rightarrow> uint64 \<Rightarrow> App \<Rightarrow> App" where
  "cleanupTimerFires env t gen a =
     (case getOutgoingMutable t a of
        None \<Rightarrow> a
      | Some stored \<Rightarrow>
          if out_cleanupGen stored \<noteq> gen then a
          else removeBaseDir env (out_BaseDir stored) (setOutgoing t (wipeArchive stored) a))"

definition releaseOutgoingArchive :: "Env \<Rightarrow> string \<Rightarrow> App \<Rightarrow> App" where
  "releaseOutgoingArchive env t a =
     (case getOutgoingMutable t a of
        None \<Rightarrow> a
      | Some tr \<Rightarrow>
          if out_sendingTargets tr \<noteq> [] then a
          else removeBaseDir env (out_BaseDir tr)
                 (setOutgoing t (wipeArchive (tr\<lparr>out_cleanupGen := out_cleanupGen tr + 1\<rparr>)) a))"

definition handleFileRelease :: "Env \<Rightarrow> FileRelease \<Rightarrow> App \<Rightarrow> App" where
  "handleFileRelease env release a =
     (if rel_TransferID release = '''' then a else releaseOutgoingArchive env (rel_TransferID release) a)"

section \<open>Requests\<close>

text \<open>
  \<open>handleFileRequest\<close> runs in a goroutine of its own and holds no lock while it sends, so its parts are
  separate steps: marking the target (or refusing a duplicate), preparing the archive, sending the chunks,
  announcing completion, and the deferred removal of the mark.
\<close>

definition beginFileRequest :: "FileRequest \<Rightarrow> App \<Rightarrow> App \<times> bool" where
  "beginFileRequest r a =
     (if req_TransferID r = '''' then (a, False)
      else (case getOutgoingMutable (req_TransferID r) a of
              None \<Rightarrow> (a, False)
            | Some tr \<Rightarrow>
                if req_TargetSessionID r \<in> set (out_sendingTargets tr) then (a, False)
                else (setOutgoing (req_TransferID r)
                        (tr\<lparr>out_sendingTargets := req_TargetSessionID r # out_sendingTargets tr\<rparr>) a, True)))"

definition endFileRequest :: "FileRequest \<Rightarrow> App \<Rightarrow> App" where
  "endFileRequest r a =
     (case getOutgoingMutable (req_TransferID r) a of
        None \<Rightarrow> a
      | Some tr \<Rightarrow> setOutgoing (req_TransferID r)
          (tr\<lparr>out_sendingTargets := filter (\<lambda>s. s \<noteq> req_TargetSessionID r) (out_sendingTargets tr)\<rparr>) a)"

definition prepareFileRequest :: "Env \<Rightarrow> FileRequest \<Rightarrow> App \<Rightarrow> App \<times> int result" where
  "prepareFileRequest env r a =
     (case getOutgoingMutable (req_TransferID r) a of
        None \<Rightarrow> (a, Inl ''no outgoing transfer'')
      | Some tr \<Rightarrow>
          (let resumeFrom = (if hasReusableOutgoingArchive env a tr then req_ResumeFromChunk r else 0) in
           case prepareOutgoingArchive env tr a of
             (a1, tr1, Some err) \<Rightarrow> (setOutgoing (req_TransferID r) tr1 a1, Inl err)
           | (a1, tr1, None) \<Rightarrow> (setOutgoing (req_TransferID r) tr1 a1, Inr resumeFrom)))"

definition announceComplete :: "Env \<Rightarrow> FileRequest \<Rightarrow> App \<Rightarrow> App \<times> goerror option" where
  "announceComplete env r a =
     (case getOutgoingMutable (req_TransferID r) a of
        None \<Rightarrow> (a, Some ''no outgoing transfer'')
      | Some tr \<Rightarrow>
          (case sendClipboardData env (NewClipboardDataWithPayload completeJSON TypeFileComplete
                  \<lparr>cmp_TransferID = req_TransferID r, cmp_TargetSessionID = req_TargetSessionID r,
                   cmp_ArchiveMode = archiveModeString (out_ArchiveMode tr),
                   cmp_ArchiveSHA256 = out_ArchiveSHA256 tr,
                   cmp_ActualTotalBytes = out_ArchiveSize tr\<rparr>) a of
             (a1, Some err) \<Rightarrow> (a1, Some err)
           | (a1, None) \<Rightarrow> (scheduleOutgoingArchiveCleanup (req_TransferID r) a1, None)))"

definition sendPreparedArchive :: "Env \<Rightarrow> FileRequest \<Rightarrow> int \<Rightarrow> App \<Rightarrow> App \<times> goerror option" where
  "sendPreparedArchive env r resumeFrom a =
     (case getOutgoingMutable (req_TransferID r) a of
        None \<Rightarrow> (a, Some ''no outgoing transfer'')
      | Some tr \<Rightarrow> sendArchiveChunks env tr (req_TargetSessionID r) resumeFrom a)"

definition handleFileRequest :: "Env \<Rightarrow> FileRequest \<Rightarrow> App \<Rightarrow> App \<times> goerror option" where
  "handleFileRequest env r a0 =
     (case beginFileRequest r a0 of
        (a1, False) \<Rightarrow> (a1, None)
      | (a1, True) \<Rightarrow>
          (let (a2, err) =
             (case prepareFileRequest env r a1 of
                (ap, Inl err) \<Rightarrow>
                  sendFileError env (req_TransferID r) (req_TargetSessionID r) ''archive_failed'' err True ap
              | (ap, Inr resumeFrom) \<Rightarrow>
                  (case sendPreparedArchive env r resumeFrom ap of
                     (ac, Some err) \<Rightarrow>
                       sendFileError env (req_TransferID r) (req_TargetSessionID r) ''send_failed'' err True ac
                   | (ac, None) \<Rightarrow> announceComplete env r ac))
           in (endFileRequest r a2, err)))"

end
