(* ===== verification/ClipGuard.thy ===== *)
theory ClipGuard
  imports TransferSend
begin

text \<open>
  Who may write the system clipboard, and what is written: the guard of \<open>application.go\<close>, the staging of
  received content of \<open>replay_history.go\<close>, the item the shared clipboard points at
  (\<open>shared_clipboard.go\<close>) and the action a finished transfer was waiting for (\<open>replay_targets.go\<close>). The
  writes that succeeded are recorded in order.
\<close>

section \<open>Constants\<close>

definition ReplayModeNone :: string where [const_defs]: "ReplayModeNone = ''''"
definition ReplayModeClipboardImmediate :: string where
  [const_defs]: "ReplayModeClipboardImmediate = ''clipboard_immediate''"
definition ReplayModePathPlaceholderPaste :: string where
  [const_defs]: "ReplayModePathPlaceholderPaste = ''path_placeholder_paste''"
definition ReplayModeSystemClipboardPaste :: string where
  [const_defs]: "ReplayModeSystemClipboardPaste = ''system_clipboard_paste''"

definition ErrNoActiveHistoryItem :: goerror where [const_defs]: "ErrNoActiveHistoryItem = ''no active history item''"
definition ErrClipboardUnavailable :: goerror where
  [const_defs]: "ErrClipboardUnavailable = ''clipboard manager unavailable''"
definition ErrUnsupportedReplayState :: goerror where
  [const_defs]: "ErrUnsupportedReplayState = ''unsupported history item state for replay''"
definition ErrUnsupportedReplayType :: goerror where
  [const_defs]: "ErrUnsupportedReplayType = ''unsupported history item type for replay''"
definition ErrReplayModeNotApplicable :: goerror where
  [const_defs]: "ErrReplayModeNotApplicable = ''replay mode not applicable for history item type''"
definition ErrReplayStateUpdate :: goerror where
  [const_defs]: "ErrReplayStateUpdate = ''failed to mark history item consumed''"

datatype clipboardWriteReason =
    IncomingAuto | IncomingLegacy | ReplayText | ReplayPath | ReplayReal

section \<open>The shared clipboard\<close>

definition setSharedClipboardHistoryItem :: "string \<Rightarrow> App \<Rightarrow> App" where
  "setSharedClipboardHistoryItem i a =
     (if i = '''' then a
      else a\<lparr>app_sharedID := i, app_history := fst (SetActive i (app_history a))\<rparr>)"

definition setLastFileStubHistoryItem :: "string \<Rightarrow> App \<Rightarrow> App" where
  "setLastFileStubHistoryItem i a = (if i = '''' then a else a\<lparr>app_lastFileStubID := i\<rparr>)"

definition sharedClipboardHistoryItem :: "App \<Rightarrow> HistoryItem option" where
  "sharedClipboardHistoryItem a =
     (if app_sharedID a = '''' then None else GetByID (app_sharedID a) (app_history a))"

definition lastFileStubHistoryItem :: "App \<Rightarrow> HistoryItem option" where
  "lastFileStubHistoryItem a =
     (if app_lastFileStubID a = '''' then None else GetByID (app_lastFileStubID a) (app_history a))"

definition canReplayHistoryItem :: "HistoryItem option \<Rightarrow> bool" where
  "canReplayHistoryItem item =
     (case item of
        None \<Rightarrow> False
      | Some it \<Rightarrow>
          if item_Type it = TypeText then item_State it = StateReady \<or> item_State it = StateConsumed
          else if item_Type it = TypeImage then
            (if item_State it = StateReady \<or> item_State it = StateReadyToPaste \<or> item_State it = StateConsumed
             then item_LocalPaths it \<noteq> [] \<or> item_Payload it \<noteq> '''' else False)
          else if item_Type it = TypeFileStub then
            (if item_State it = StateOffered \<or> item_State it = StateDownloading \<or> item_State it = StateFailed
             then True
             else if item_State it = StateReadyToPaste \<or> item_State it = StateConsumed
             then item_LocalPaths it \<noteq> [] \<or> item_ReservedPaths it \<noteq> [] else False)
          else False)"

definition resolveSharedReplayItem :: "App \<Rightarrow> HistoryItem option" where
  "resolveSharedReplayItem a =
     (if canReplayHistoryItem (sharedClipboardHistoryItem a) then sharedClipboardHistoryItem a
      else if canReplayHistoryItem (lastFileStubHistoryItem a) then lastFileStubHistoryItem a
      else GetActive (app_history a))"

definition isLocalOriginItem :: "App \<Rightarrow> HistoryItem \<Rightarrow> bool" where
  "isLocalOriginItem a it =
     (let sessionID = appSessionID a in
      if item_SourceSessionID it \<noteq> '''' \<and> sessionID \<noteq> '''' \<and> item_SourceSessionID it = sessionID then True
      else item_SourceDevice it = ''local'')"

section \<open>The write guard\<close>

definition clipboardSourceSessionID :: "ClipboardData \<Rightarrow> string" where
  "clipboardSourceSessionID cd =
     (let source = trimSpace (cd_SourceSessionID cd) in
      if source \<noteq> '''' then source
      else (case cd_Metadata cd of None \<Rightarrow> '''' | Some m \<Rightarrow> trimSpace (frag_ID m)))"

definition isClipboardWriteAllowed :: "App \<Rightarrow> clipboardWriteReason \<Rightarrow> ClipboardData \<Rightarrow> bool" where
  "isClipboardWriteAllowed a reason cd =
     (if \<not> app_hasClip a then False
      else (case reason of
              IncomingAuto \<Rightarrow>
                (cd_Type cd = TypeText \<or> cd_Type cd = TypeImage) \<and>
                (clipboardSourceSessionID cd = '''' \<or> clipboardSourceSessionID cd \<noteq> appSessionID a)
            | IncomingLegacy \<Rightarrow>
                (cd_Type cd = TypeText \<or> cd_Type cd = TypeImage) \<and>
                (clipboardSourceSessionID cd = '''' \<or> clipboardSourceSessionID cd \<noteq> appSessionID a)
            | _ \<Rightarrow> True))"

definition shouldWriteReceivedClipboardToSystem :: "App \<Rightarrow> ClipboardData \<Rightarrow> bool" where
  "shouldWriteReceivedClipboardToSystem a cd = isClipboardWriteAllowed a IncomingAuto cd"

text \<open>A write to the system clipboard; it may fail.\<close>

definition clipboardWrite :: "Env \<Rightarrow> ClipWrite \<Rightarrow> App \<Rightarrow> App \<times> goerror option" where
  "clipboardWrite env w a =
     (if \<not> app_hasClip a then (a, Some ErrClipboardUnavailable)
      else (case env_clipErr env w of
              Some err \<Rightarrow> (a, Some err)
            | None \<Rightarrow> (a\<lparr>app_clipWrites := app_clipWrites a @ [w]\<rparr>, None)))"

definition appPasteClipboardPayload :: "Env \<Rightarrow> string \<Rightarrow> string \<Rightarrow> string \<Rightarrow> App \<Rightarrow> App \<times> goerror option" where
  "appPasteClipboardPayload env payload payloadType fileName a =
     clipboardWrite env (PastePayload payload payloadType fileName) a"

definition writeClipboardPayloadIfAllowed ::
  "Env \<Rightarrow> clipboardWriteReason \<Rightarrow> ClipboardData \<Rightarrow> App \<Rightarrow> App \<times> bool" where
  "writeClipboardPayloadIfAllowed env reason cd a =
     (if \<not> isClipboardWriteAllowed a reason cd then (a, False)
      else (case appPasteClipboardPayload env (cd_Payload cd) (cd_Type cd) (cd_FileName cd) a of
              (a', Some _) \<Rightarrow> (a', False) | (a', None) \<Rightarrow> (a', True)))"

definition rememberReplayClipboardWrite :: "Env \<Rightarrow> string \<Rightarrow> string \<Rightarrow> App \<Rightarrow> App" where
  "rememberReplayClipboardWrite env payloadType payload a =
     a\<lparr>app_replayWriteType := payloadType, app_replayWritePayload := payload,
       app_replayWriteTime := env_now env\<rparr>"

section \<open>Staging received content\<close>

definition stageHistoryItemRealClipboard :: "Env \<Rightarrow> HistoryItem \<Rightarrow> App \<Rightarrow> App \<times> goerror option" where
  "stageHistoryItemRealClipboard env it a =
     (if \<not> app_hasClip a then (a, Some ErrClipboardUnavailable)
      else if \<not> isClipboardWriteAllowed a ReplayReal (zeroClipboard\<lparr>cd_Type := item_Type it\<rparr>)
      then (a, Some ErrClipboardUnavailable)
      else if item_Type it = TypeImage then
        (if item_LocalPaths it = [] then (a, Some ErrUnsupportedReplayState)
         else (let paths = take 1 (item_LocalPaths it) in
               clipboardWrite env (StageFiles paths)
                 (rememberReplayClipboardWrite env TypeFileStub (joinChar [newline] paths) a)))
      else if item_Type it = TypeFileStub then
        (if item_LocalPaths it = [] then (a, Some ErrUnsupportedReplayState)
         else clipboardWrite env (StageFiles (item_LocalPaths it))
                (rememberReplayClipboardWrite env TypeFileStub (joinChar [newline] (item_LocalPaths it)) a))
      else (a, Some ErrUnsupportedReplayState))"

definition completePendingReplayMode :: "Env \<Rightarrow> string \<Rightarrow> App \<Rightarrow> App \<times> goerror option" where
  "completePendingReplayMode env transferID a =
     (if transferID = '''' then (a, None)
      else (case GetByTransferID transferID (app_history a) of
              None \<Rightarrow> (a, None)
            | Some item \<Rightarrow>
                (let mode = item_PendingReplayMode item;
                     consume = (\<lambda>next. Inr (next\<lparr>item_State := StateConsumed,
                                                   item_PendingReplayMode := ReplayModeNone\<rparr>)) in
                 if mode = ReplayModeSystemClipboardPaste then
                   (case stageHistoryItemRealClipboard env item a of
                      (a1, Some err) \<Rightarrow> (a1, Some err)
                    | (a1, None) \<Rightarrow>
                        (case historyMutate env (item_ID item) consume a1 of
                           (a2, Inl err) \<Rightarrow> (a2, Some err) | (a2, Inr _) \<Rightarrow> (a2, None)))
                 else if mode = ReplayModePathPlaceholderPaste then
                   (case historyMutate env (item_ID item) consume a of
                      (a2, Inl err) \<Rightarrow> (a2, Some err) | (a2, Inr _) \<Rightarrow> (a2, None))
                 else if mode = ReplayModeNone \<or> mode = ReplayModeClipboardImmediate then
                   (if mode \<noteq> '''' then
                      (case historyMutate env (item_ID item)
                              (\<lambda>next. Inr (next\<lparr>item_PendingReplayMode := ReplayModeNone\<rparr>)) a of
                         (a2, Inl err) \<Rightarrow> (a2, Some err) | (a2, Inr _) \<Rightarrow> (a2, None))
                    else (a, None))
                 else (a, None))))"

end
