(* ===== verification/TransferRecv.thy ===== *)
theory TransferRecv
  imports ClipGuard
begin

text \<open>
  The receiving side of a file transfer (\<open>desktop/app/file_transfer.go\<close>): requesting the content of a
  history item, storing chunks in memory or on disk, completion with its digest checks, placing the
  received files, and failure.
\<close>

section \<open>Failure\<close>

definition failIncomingTransfer :: "Env \<Rightarrow> string \<Rightarrow> goerror \<Rightarrow> App \<Rightarrow> App \<times> goerror option" where
  "failIncomingTransfer env transferID err a =
     (case historyMutateByTransferID env transferID
             (\<lambda>item. Inr (item\<lparr>item_State := StateFailed, item_ErrorMessage := err\<rparr>)) a of
        (a1, Inl mutateErr) \<Rightarrow> (a1, Some mutateErr)
      | (a1, Inr _) \<Rightarrow>
          (updateIncoming transferID (\<lambda>t. t\<lparr>in_RequestActive := False, in_Completing := False\<rparr>) a1, Some err))"

definition handleFileError :: "Env \<Rightarrow> FileError \<Rightarrow> App \<Rightarrow> App \<times> goerror option" where
  "handleFileError env fe a = failIncomingTransfer env (ferr_TransferID fe) (ferr_ErrorMessage fe) a"

section \<open>Requesting\<close>

definition requestFileTransfer :: "Env \<Rightarrow> HistoryItem \<Rightarrow> App \<Rightarrow> App \<times> goerror option" where
  "requestFileTransfer env item a0 =
     (case decodeManifest (item_Payload item) of
        None \<Rightarrow> (a0, Some ''decode file manifest'')
      | Some manifest \<Rightarrow>
      (let tid = man_TransferID manifest;
           resumeFrom = (if item_State item = StateFailed \<and> item_LastChunkIdx item \<ge> 0
                         then item_LastChunkIdx item + 1 else 0);
           alreadyActive = (case GetIncoming tid a0 of None \<Rightarrow> False | Some t \<Rightarrow> in_RequestActive t);
           activate = (\<lambda>t. t\<lparr>in_RequestedResumeFrom := resumeFrom, in_RequestActive := True\<rparr>);
           deactivate = updateIncoming tid (\<lambda>t. t\<lparr>in_RequestActive := False\<rparr>);
           a1 = (case GetIncoming tid a0 of
                   Some _ \<Rightarrow> updateIncoming tid (\<lambda>t. activate (t\<lparr>in_Manifest := manifest\<rparr>)) a0
                 | None \<Rightarrow> updateIncoming tid activate
                     (fst (RegisterIncoming manifest (item_ID item) (item_LastChunkIdx item) a0))) in
       if alreadyActive then (a1, None)
       else
         (let data = NewClipboardDataWithPayload requestJSON TypeFileRequest
                \<lparr>req_TransferID = tid, req_EntryID = man_EntryID manifest,
                 req_TargetSessionID = appSessionID a1, req_ResumeFromChunk = resumeFrom\<rparr>;
              (a2, updated) = historyUpdateState env (item_ID item) StateDownloading a1 in
          if \<not> updated \<and> item_State item \<noteq> StateDownloading
          then (deactivate a2, Some (''update item to downloading''))
          else
            (case sendClipboardData env data a2 of
               (a3, None) \<Rightarrow> (a3, None)
             | (a3, Some err) \<Rightarrow>
                 (let a4 = deactivate a3 in
                  if item_State item \<noteq> StateDownloading
                  then (fst (historyMutate env (item_ID item)
                               (\<lambda>next. Inr (next\<lparr>item_State := item_State item\<rparr>)) a4), Some err)
                  else (a4, Some err))))))"

section \<open>Chunks\<close>

text \<open>The temporary directory of a transfer, made for its first chunk.\<close>

definition openIncoming ::
  "Env \<Rightarrow> FileChunk \<Rightarrow> incomingTransfer \<Rightarrow> App \<Rightarrow> incomingTransfer \<times> App \<times> goerror option" where
  "openIncoming env chunk t a =
     (let chunkMode = normalizeArchiveMode (chk_ArchiveMode chunk);
          (t1, a1, err) =
            (if in_BaseDir t = '''' then
               (case newTransferTempDir env (chk_TransferID chunk) a of
                  (a', Inl err) \<Rightarrow> (t, a', Some err)
                | (a', Inr baseDir) \<Rightarrow>
                    (t\<lparr>in_BaseDir := baseDir, in_ExtractDir := JoinPath [baseDir, fileTransferExtracted],
                       in_ArchiveMode := chunkMode, in_StorageMode := chunkMode,
                       in_ArchivePath := (if chunkMode = transferArchiveModeDisk
                          then JoinPath [baseDir, transferPayloadTempName (in_Manifest t)]
                          else in_ArchivePath t)\<rparr>, a', None))
             else (t, a, None)) in
      if err \<noteq> None then (t1, a1, err)
      else (t1\<lparr>in_ArchiveMode := (if in_ArchiveMode t1 = '''' then chunkMode else in_ArchiveMode t1),
               in_StorageMode := (if in_StorageMode t1 = '''' then chunkMode else in_StorageMode t1)\<rparr>,
            a1, None))"

text \<open>Chunk 0 starts the archive over.\<close>

definition restartIncoming ::
  "Env \<Rightarrow> FileChunk \<Rightarrow> incomingTransfer \<Rightarrow> App \<Rightarrow> incomingTransfer \<times> App" where
  "restartIncoming env chunk t a =
     (let chunkMode = normalizeArchiveMode (chk_ArchiveMode chunk);
          t1 = t\<lparr>in_ArchiveMode := chunkMode, in_StorageMode := chunkMode, in_LastChunkIdx := - 1,
                 in_TotalChunks := 0, in_ArchiveBytes := []\<rparr> in
      if in_ArchivePath t1 = '''' \<and> chunkMode = transferArchiveModeDisk
      then (t1\<lparr>in_ArchivePath := JoinPath [in_BaseDir t1, transferPayloadTempName (in_Manifest t1)]\<rparr>, a)
      else if chunkMode = transferArchiveModeMemory \<and> in_ArchivePath t1 \<noteq> ''''
      then (t1, a\<lparr>app_fs := fst (os_Remove (env_faults env) (in_ArchivePath t1) (app_fs a))\<rparr>)
      else (t1, a))"

definition decodeChunkData :: "Env \<Rightarrow> App \<Rightarrow> FileChunk \<Rightarrow> bytes result" where
  "decodeChunkData env a chunk =
     (case e2eeKey a of
        None \<Rightarrow> (case DecodeString (chk_ChunkData chunk) of None \<Rightarrow> Inl ''illegal base64 data'' | Some raw \<Rightarrow> Inr raw)
      | Some key \<Rightarrow>
          (case DecodeFromJSONString (chk_ChunkData chunk) of
             Inl err \<Rightarrow> Inl (''decode encrypted chunk: '' @ err)
           | Inr encrypted \<Rightarrow>
               (case DecryptWithAAD (env_gcm env) key encrypted
                       (fileChunkAAD (chk_TransferID chunk) (chk_ChunkIndex chunk)) of
                  Inl err \<Rightarrow> Inl (''decrypt chunk: '' @ err)
                | Inr raw \<Rightarrow> Inr raw)))"

text \<open>Appending a decoded chunk: in memory up to the threshold, then on disk.\<close>

definition storeChunk ::
  "Env \<Rightarrow> FileChunk \<Rightarrow> bytes \<Rightarrow> incomingTransfer \<Rightarrow> App \<Rightarrow> incomingTransfer \<times> App \<times> goerror option" where
  "storeChunk env chunk raw t a =
     (let flt = env_faults env in
      if in_StorageMode t = transferArchiveModeMemory then
        (if int (length (in_ArchiveBytes t) + length raw) \<le> fileTransferMemoryThresholdBytes a
         then (t\<lparr>in_ArchiveBytes := in_ArchiveBytes t @ raw\<rparr>, a, None)
         else
           (let t1 = (if in_ArchivePath t = ''''
                      then t\<lparr>in_ArchivePath := JoinPath [in_BaseDir t, transferPayloadTempName (in_Manifest t)]\<rparr>
                      else t) in
            case os_Write flt (in_ArchivePath t1) (in_ArchiveBytes t1) True (app_fs a) of
              (fs1, Some err) \<Rightarrow> (t1, a\<lparr>app_fs := fs1\<rparr>, Some err)
            | (fs1, None) \<Rightarrow>
                (let t2 = t1\<lparr>in_ArchiveBytes := [], in_StorageMode := transferArchiveModeDisk\<rparr> in
                 case os_Write flt (in_ArchivePath t2) raw False fs1 of
                   (fs2, err) \<Rightarrow> (t2, a\<lparr>app_fs := fs2\<rparr>, err))))
      else (case os_Write flt (in_ArchivePath t) raw (chk_ChunkIndex chunk = 0) (app_fs a) of
              (fs1, err) \<Rightarrow> (t, a\<lparr>app_fs := fs1\<rparr>, err)))"

datatype chunkOutcome = ChunkStored | ChunkDuplicate | ChunkFailed goerror

definition chunkOutcomeOf :: "goerror option \<Rightarrow> chunkOutcome" where
  "chunkOutcomeOf err = (case err of Some e \<Rightarrow> ChunkFailed e | None \<Rightarrow> ChunkStored)"

definition expectedChunk :: "FileChunk \<Rightarrow> incomingTransfer \<Rightarrow> int" where
  "expectedChunk chunk t =
     (if chk_ChunkIndex chunk = 0 \<and> in_RequestedResumeFrom t > 0 then 0 else in_LastChunkIdx t + 1)"

definition acceptChunk ::
  "Env \<Rightarrow> FileChunk \<Rightarrow> incomingTransfer \<Rightarrow> App \<Rightarrow> incomingTransfer \<times> App \<times> chunkOutcome" where
  "acceptChunk env chunk t0 a0 =
     (if in_Completed t0 then (t0, a0, ChunkDuplicate)
      else (case openIncoming env chunk t0 a0 of
        (t1, a1, Some err) \<Rightarrow> (t1, a1, ChunkFailed err)
      | (t1, a1, None) \<Rightarrow>
      (let chunkMode = normalizeArchiveMode (chk_ArchiveMode chunk);
           expectedIdx = expectedChunk chunk t1;
           idx = chk_ChunkIndex chunk in
       if idx < expectedIdx then (t1, a1, ChunkDuplicate)
       else if in_ArchiveMode t1 \<noteq> chunkMode \<and> idx \<noteq> 0
       then (t1, a1, ChunkFailed ''unexpected archive mode change'')
       else
         (let (t2, a2) = (if idx = 0 then restartIncoming env chunk t1 a1 else (t1, a1)) in
          if idx \<noteq> expectedIdx then (t2, a2, ChunkFailed ''unexpected chunk index'')
          else (case decodeChunkData env a2 chunk of
                  Inl err \<Rightarrow> (t2, a2, ChunkFailed err)
                | Inr raw \<Rightarrow>
                    if sha256hex env raw \<noteq> chk_ChunkSHA256 chunk
                    then (t2, a2, ChunkFailed ''chunk sha256 mismatch'')
                    else (case storeChunk env chunk raw t2 a2 of
                            (t3, a3, Some err) \<Rightarrow> (t3, a3, ChunkFailed err)
                          | (t3, a3, None) \<Rightarrow>
                              (t3\<lparr>in_LastChunkIdx := idx, in_TotalChunks := chk_TotalChunks chunk,
                                  in_RequestedResumeFrom := 0\<rparr>, a3, ChunkStored)))))))"

definition handleFileChunk :: "Env \<Rightarrow> FileChunk \<Rightarrow> App \<Rightarrow> App \<times> goerror option" where
  "handleFileChunk env chunk a =
     (let tid = chk_TransferID chunk in
      case GetIncoming tid a of
        None \<Rightarrow> failIncomingTransfer env tid ''incoming transfer not found'' a
      | Some t \<Rightarrow>
          (case acceptChunk env chunk t a of
             (t', a', ChunkFailed err) \<Rightarrow> failIncomingTransfer env tid err (setIncoming tid t' a')
           | (t', a', ChunkDuplicate) \<Rightarrow> (setIncoming tid t' a', None)
           | (t', a', ChunkStored) \<Rightarrow>
               (fst (historyMutateByTransferID env tid
                  (\<lambda>item. Inr (item\<lparr>item_LastChunkIdx := in_LastChunkIdx t', item_State := StateDownloading\<rparr>))
                  (setIncoming tid t' a')), None)))"

section \<open>Moving files\<close>

definition copyFile :: "Faults \<Rightarrow> string \<Rightarrow> string \<Rightarrow> FS \<Rightarrow> FS \<times> goerror option" where
  "copyFile flt src dst fs =
     (case os_MkdirAll flt (DirOf dst) fs of
        (fs1, Some err) \<Rightarrow> (fs1, Some err)
      | (fs1, None) \<Rightarrow>
          (case os_ReadFile flt fs1 src of
             Inl err \<Rightarrow> (fs1, Some err)
           | Inr content \<Rightarrow> os_Write flt dst content True fs1))"

definition moveFile :: "Faults \<Rightarrow> string \<Rightarrow> string \<Rightarrow> FS \<Rightarrow> FS \<times> goerror option" where
  "moveFile flt src dst fs =
     (case os_MkdirAll flt (DirOf dst) fs of
        (fs1, Some err) \<Rightarrow> (fs1, Some err)
      | (fs1, None) \<Rightarrow>
          (case os_Rename flt src dst (fst (os_RemoveAll flt dst fs1)) of
             (fs2, None) \<Rightarrow> (fs2, None)
           | (fs2, Some _) \<Rightarrow>
               (case copyFile flt src dst fs2 of
                  (fs3, Some err) \<Rightarrow> (fs3, Some err)
                | (fs3, None) \<Rightarrow> os_Remove flt src fs3)))"

text \<open>A directory is copied as a whole; a fault of its target directory stops the copy.\<close>

definition copyDir :: "Faults \<Rightarrow> string \<Rightarrow> string \<Rightarrow> FS \<Rightarrow> FS \<times> goerror option" where
  "copyDir flt src dst fs =
     (case fault_mkdir flt dst of
        Some err \<Rightarrow> (fs, Some err)
      | None \<Rightarrow> ((\<lambda>q. if inTree dst q then (case fs (relocate dst src q) of Some n \<Rightarrow> Some n | None \<Rightarrow> fs q)
                      else fs q), None))"

definition movePath :: "Faults \<Rightarrow> string \<Rightarrow> string \<Rightarrow> FS \<Rightarrow> FS \<times> goerror option" where
  "movePath flt src dst fs =
     (case os_Stat flt fs src of
        StatError err \<Rightarrow> (fs, Some err)
      | StatNotExist \<Rightarrow> (fs, Some ''no such file or directory'')
      | StatFile \<Rightarrow> moveFile flt src dst fs
      | StatDir \<Rightarrow>
          (case os_MkdirAll flt (DirOf dst) fs of
             (fs1, Some err) \<Rightarrow> (fs1, Some err)
           | (fs1, None) \<Rightarrow>
               (case os_Rename flt src dst (fst (os_RemoveAll flt dst fs1)) of
                  (fs2, None) \<Rightarrow> (fs2, None)
                | (fs2, Some _) \<Rightarrow>
                    (case copyDir flt src dst fs2 of
                       (fs3, Some err) \<Rightarrow> (fs3, Some err)
                     | (fs3, None) \<Rightarrow> os_RemoveAll flt src fs3))))"

section \<open>Placing what was received\<close>

definition zipEnvOf :: "Env \<Rightarrow> FS \<Rightarrow> ZipEnv" where
  "zipEnvOf env fs =
     \<lparr>zv_stat = os_Stat (env_faults env) fs, zv_availableDiskSpace = env_diskSpace env,
      zv_mkdirAll = fault_mkdir (env_faults env), zv_openFile = fault_open (env_faults env),
      zv_write = (\<lambda>p b. case fault_write (env_faults env) p b of
                          Some (n, err) \<Rightarrow> (min n (length b), Some err) | None \<Rightarrow> (length b, None)),
      zv_close = (\<lambda>_. None)\<rparr>"

definition applyExtract :: "ExtractState \<Rightarrow> FS \<Rightarrow> FS" where
  "applyExtract st fs =
     fold (\<lambda>(p, out) f. f(p \<mapsto> NFile out)) (rev (ex_files st)) (fold makeDirs (rev (ex_dirs st)) fs)"

text \<open>The archive of a finished transfer: its bytes, or the file that holds them.\<close>

definition incomingArchive :: "Env \<Rightarrow> FS \<Rightarrow> incomingTransfer \<Rightarrow> bytes result" where
  "incomingArchive env fs t =
     (if in_ArchiveBytes t \<noteq> [] then Inr (in_ArchiveBytes t)
      else os_ReadFile (env_faults env) fs (in_ArchivePath t))"

definition extractIncoming :: "Env \<Rightarrow> incomingTransfer \<Rightarrow> string \<Rightarrow> App \<Rightarrow> App \<times> string list result" where
  "extractIncoming env t targetDir a =
     (let flt = env_faults env in
      case os_RemoveAll flt targetDir (app_fs a) of
        (fs1, Some err) \<Rightarrow> (a\<lparr>app_fs := fs1\<rparr>, Inl err)
      | (fs1, None) \<Rightarrow>
          (case os_MkdirAll flt targetDir fs1 of
             (fs2, Some err) \<Rightarrow> (a\<lparr>app_fs := fs2\<rparr>, Inl err)
           | (fs2, None) \<Rightarrow>
               (case incomingArchive env fs2 t of
                  Inl err \<Rightarrow> (a\<lparr>app_fs := fs2\<rparr>, Inl err)
                | Inr archive \<Rightarrow>
                    (case env_zipRead env archive of
                       Inl err \<Rightarrow> (a\<lparr>app_fs := fs2\<rparr>, Inl err)
                     | Inr files \<Rightarrow>
                         (case extractZipReaderSafely (zipEnvOf env fs2) (Some files) targetDir of
                            (st, r) \<Rightarrow> (a\<lparr>app_fs := applyExtract st fs2\<rparr>, r))))))"

definition extractIncomingArchiveSafely :: "Env \<Rightarrow> incomingTransfer \<Rightarrow> App \<Rightarrow> App \<times> string list result" where
  "extractIncomingArchiveSafely env t a =
     (case ensureExtractDiskSpace (zipEnvOf env (app_fs a)) (in_ExtractDir t)
             (man_EstimatedTotalBytes (in_Manifest t)) of
        Some err \<Rightarrow> (a, Inl err)
      | None \<Rightarrow> extractIncoming env t (in_ExtractDir t) a)"

definition materializeRaw :: "Env \<Rightarrow> incomingTransfer \<Rightarrow> string list \<Rightarrow> App \<Rightarrow> App \<times> string list result" where
  "materializeRaw env t reserved a =
     (let flt = env_faults env in
      case reserved of
        [] \<Rightarrow> (a, Inl ''missing reserved path for raw file'')
      | target # _ \<Rightarrow>
          (case os_MkdirAll flt (DirOf target) (app_fs a) of
             (fs1, Some err) \<Rightarrow> (a\<lparr>app_fs := fs1\<rparr>, Inl err)
           | (fs1, None) \<Rightarrow>
               (case (if in_ArchiveBytes t \<noteq> [] then os_WriteFile flt target (in_ArchiveBytes t) fs1
                      else if in_ArchivePath t \<noteq> '''' then moveFile flt (in_ArchivePath t) target fs1
                      else os_WriteFile flt target [] fs1) of
                  (fs2, Some err) \<Rightarrow> (a\<lparr>app_fs := fs2\<rparr>, Inl err)
                | (fs2, None) \<Rightarrow> (a\<lparr>app_fs := fs2\<rparr>, Inr reserved))))"

definition materializeMulti :: "Env \<Rightarrow> incomingTransfer \<Rightarrow> string list \<Rightarrow> App \<Rightarrow> App \<times> string list result" where
  "materializeMulti env t reserved a =
     (case reserved of
        [] \<Rightarrow> (a, Inl ''missing reserved directory for bundle'')
      | targetDir # _ \<Rightarrow>
          (case os_MkdirAll (env_faults env) (DirOf targetDir) (app_fs a) of
             (fs1, Some err) \<Rightarrow> (a\<lparr>app_fs := fs1\<rparr>, Inl err)
           | (fs1, None) \<Rightarrow>
               (case extractIncoming env t targetDir (a\<lparr>app_fs := fs1\<rparr>) of
                  (a2, Inl err) \<Rightarrow> (a2, Inl err)
                | (a2, Inr extracted) \<Rightarrow>
                    if extracted = [] then (a2, Inl ''bundle extract produced no files'')
                    else (a2, Inr extracted))))"

definition materializeFolder :: "Env \<Rightarrow> incomingTransfer \<Rightarrow> string list \<Rightarrow> App \<Rightarrow> App \<times> string list result" where
  "materializeFolder env t reserved a =
     (let flt = env_faults env in
      case reserved of
        [] \<Rightarrow> (a, Inl ''missing reserved directory for folder'')
      | targetDir # _ \<Rightarrow>
          (let parentDir = DirOf targetDir in
           case os_MkdirAll flt parentDir (app_fs a) of
             (fs1, Some err) \<Rightarrow> (a\<lparr>app_fs := fs1\<rparr>, Inl err)
           | (fs1, None) \<Rightarrow>
               (case extractIncoming env t parentDir (a\<lparr>app_fs := fs1\<rparr>) of
                  (a2, Inl err) \<Rightarrow> (a2, Inl err)
                | (a2, Inr extracted) \<Rightarrow>
                    (case extracted of
                       [p] \<Rightarrow>
                         if p \<noteq> targetDir then
                           (case movePath flt p targetDir (app_fs a2) of
                              (fs3, Some err) \<Rightarrow> (a2\<lparr>app_fs := fs3\<rparr>, Inl err)
                            | (fs3, None) \<Rightarrow> (a2\<lparr>app_fs := fs3\<rparr>, Inr [targetDir]))
                         else (a2, Inr [targetDir])
                     | _ \<Rightarrow> (a2, Inl ''expected single extracted folder'')))))"

definition materializeSingle :: "Env \<Rightarrow> incomingTransfer \<Rightarrow> string list \<Rightarrow> App \<Rightarrow> App \<times> string list result" where
  "materializeSingle env t reserved a =
     (let flt = env_faults env in
      case extractIncomingArchiveSafely env t a of
        (a1, Inl err) \<Rightarrow> (a1, Inl err)
      | (a1, Inr extracted) \<Rightarrow>
          (case extracted of
             [p] \<Rightarrow>
               (case os_Stat flt (app_fs a1) p of
                  StatError err \<Rightarrow> (a1, Inl err)
                | StatNotExist \<Rightarrow> (a1, Inl ''no such file or directory'')
                | StatDir \<Rightarrow> (a1, Inl (''expected file payload, got directory '' @ p))
                | StatFile \<Rightarrow>
                    (case reserved of
                       [] \<Rightarrow> (a1, Inl ''missing reserved path for file'')
                     | target # _ \<Rightarrow>
                         (case moveFile flt p target (app_fs a1) of
                            (fs2, Some err) \<Rightarrow> (a1\<lparr>app_fs := fs2\<rparr>, Inl err)
                          | (fs2, None) \<Rightarrow> (a1\<lparr>app_fs := fs2\<rparr>, Inr reserved))))
           | _ \<Rightarrow> (a1, Inl ''expected single extracted path'')))"

definition materializeIncomingTransfer ::
  "Env \<Rightarrow> incomingTransfer \<Rightarrow> HistoryItem option \<Rightarrow> App \<Rightarrow> App \<times> string list result" where
  "materializeIncomingTransfer env t item a =
     (let manifest = in_Manifest t; pe = env_paths env;
          reserved0 = (case item of Some it \<Rightarrow> item_ReservedPaths it | None \<Rightarrow> []);
          createdAt = (case item of Some it \<Rightarrow> item_CreatedAt it | None \<Rightarrow> env_now env) in
      case (if reserved0 = [] then plannedReplayTargetsForManifest pe (Some manifest) createdAt
            else Inr reserved0) of
        Inl err \<Rightarrow> (a, Inl err)
      | Inr reserved1 \<Rightarrow>
          (case normalizeReplayTargetPaths pe reserved1 of
             Inl err \<Rightarrow> (a, Inl err)
           | Inr reserved \<Rightarrow>
               if usesRawTransfer manifest then materializeRaw env t reserved a
               else if man_Kind manifest = FileKindMultiFile then materializeMulti env t reserved a
               else if man_Kind manifest = FileKindFolder then materializeFolder env t reserved a
               else materializeSingle env t reserved a))"

section \<open>Completion\<close>

definition incomingArchiveSHA256 :: "Env \<Rightarrow> FS \<Rightarrow> incomingTransfer \<Rightarrow> (string \<times> int) result" where
  "incomingArchiveSHA256 env fs t =
     (if in_ArchiveBytes t \<noteq> [] then Inr (sha256hex env (in_ArchiveBytes t), int (length (in_ArchiveBytes t)))
      else if in_ArchivePath t = '''' \<and> usesRawTransfer (in_Manifest t) then Inr (sha256hex env [], 0)
      else fileSHA256 env fs (in_ArchivePath t))"

definition fileMatchesArchive :: "Env \<Rightarrow> FS \<Rightarrow> string \<Rightarrow> string \<Rightarrow> int \<Rightarrow> bool result" where
  "fileMatchesArchive env fs path archiveSHA256 archiveSize =
     (case os_Stat (env_faults env) fs path of
        StatNotExist \<Rightarrow> Inr False
      | StatError err \<Rightarrow> Inl err
      | StatDir \<Rightarrow> Inr False
      | StatFile \<Rightarrow>
          (case fs path of
             Some (NFile content) \<Rightarrow>
               if int (length content) \<noteq> archiveSize then Inr False
               else (case fileSHA256 env fs path of
                       Inl err \<Rightarrow> Inl err
                     | Inr (digest, sz) \<Rightarrow> Inr (sz = archiveSize \<and> digest = archiveSHA256))
           | _ \<Rightarrow> Inr False))"

definition tryReuseIncomingMaterializedPaths ::
  "Env \<Rightarrow> FS \<Rightarrow> incomingTransfer \<Rightarrow> HistoryItem option \<Rightarrow> string \<Rightarrow> int \<Rightarrow> (string list \<times> bool) result" where
  "tryReuseIncomingMaterializedPaths env fs t item archiveSHA256 archiveSize =
     (case item of
        None \<Rightarrow> Inr ([], False)
      | Some it \<Rightarrow>
          (case item_ReservedPaths it of
             [] \<Rightarrow> Inr ([], False)
           | p # _ \<Rightarrow>
               if \<not> usesRawTransfer (in_Manifest t) then Inr ([], False)
               else (case normalizeReplayTargetPath (env_paths env) p of
                       Inl err \<Rightarrow> Inl err
                     | Inr targetPath \<Rightarrow>
                         (case fileMatchesArchive env fs targetPath archiveSHA256 archiveSize of
                            Inl err \<Rightarrow> Inl err
                          | Inr match \<Rightarrow> if match then Inr ([targetPath], True) else Inr ([], False)))))"

definition ensureReplayTargetPaths :: "Env \<Rightarrow> HistoryItem option \<Rightarrow> App \<Rightarrow> App \<times> HistoryItem result" where
  "ensureReplayTargetPaths env item a =
     (case item of
        None \<Rightarrow> (a, Inl ErrNoActiveHistoryItem)
      | Some it \<Rightarrow>
          if item_ReservedPaths it \<noteq> [] then (a, Inr it)
          else (case plannedReplayTargetsForHistoryItem (env_paths env) (Some it) of
                  Inl err \<Rightarrow> (a, Inl err)
                | Inr paths \<Rightarrow>
                    historyMutate env (item_ID it)
                      (\<lambda>next. Inr (if item_ReservedPaths next = []
                                   then next\<lparr>item_ReservedPaths := paths\<rparr> else next)) a))"

definition deleteIncomingArchive :: "Env \<Rightarrow> string \<Rightarrow> App \<Rightarrow> App" where
  "deleteIncomingArchive env tid a =
     (case GetIncoming tid a of
        None \<Rightarrow> a
      | Some t \<Rightarrow>
          (let a1 = setIncoming tid (t\<lparr>in_ArchivePath := '''', in_ArchiveBytes := []\<rparr>) a in
           if in_ArchivePath t \<noteq> ''''
           then a1\<lparr>app_fs := fst (os_Remove (env_faults env) (in_ArchivePath t) (app_fs a1))\<rparr> else a1))"

text \<open>The check of the received archive against the announcement.\<close>

definition verifyArchive :: "Env \<Rightarrow> FileComplete \<Rightarrow> incomingTransfer \<Rightarrow> App \<Rightarrow> (string \<times> int) result" where
  "verifyArchive env complete t a =
     (case incomingArchiveSHA256 env (app_fs a) t of
        Inl err \<Rightarrow> Inl err
      | Inr (digest, sz) \<Rightarrow>
          if digest \<noteq> cmp_ArchiveSHA256 complete then Inl ''archive sha256 mismatch''
          else if sz \<noteq> cmp_ActualTotalBytes complete then Inl ''archive size mismatch''
          else Inr (digest, sz))"

text \<open>Where the files go: a file already there with the same content is reused.\<close>

definition placeArchive ::
  "Env \<Rightarrow> string \<Rightarrow> incomingTransfer \<Rightarrow> string \<Rightarrow> int \<Rightarrow> App \<Rightarrow> App \<times> string list result" where
  "placeArchive env tid t digest sz a =
     (let stored = GetByTransferID tid (app_history a) in
      case (case stored of
              Some it \<Rightarrow> if item_ReservedPaths it = [] then
                            (case ensureReplayTargetPaths env (Some it) a of
                               (a1, Inl err) \<Rightarrow> (a1, Inl err) | (a1, Inr it') \<Rightarrow> (a1, Inr (Some it')))
                          else (a, Inr (Some it))
            | None \<Rightarrow> (a, Inr None)) of
        (a1, Inl err) \<Rightarrow> (a1, Inl err)
      | (a1, Inr item) \<Rightarrow>
          (case tryReuseIncomingMaterializedPaths env (app_fs a1) t item digest sz of
             Inl err \<Rightarrow> (a1, Inl err)
           | Inr (paths, reused) \<Rightarrow>
               if reused then (a1, Inr paths) else materializeIncomingTransfer env t item a1))"

definition handleFileComplete :: "Env \<Rightarrow> FileComplete \<Rightarrow> App \<Rightarrow> App \<times> goerror option" where
  "handleFileComplete env complete a0 =
     (let tid = cmp_TransferID complete in
      case GetIncoming tid a0 of
        None \<Rightarrow> (a0, None)
      | Some t0 \<Rightarrow>
          if in_Completed t0 \<or> in_Completing t0 then (a0, None)
          else
            (let t = t0\<lparr>in_Completing := True\<rparr>; a = setIncoming tid t a0 in
             case verifyArchive env complete t a of
               Inl err \<Rightarrow> failIncomingTransfer env tid err a
             | Inr (digest, sz) \<Rightarrow>
                 (case placeArchive env tid t digest sz a of
                    (a1, Inl err) \<Rightarrow> failIncomingTransfer env tid err a1
                  | (a1, Inr localPaths) \<Rightarrow>
                      (let (a2, updated) = historyMutateByTransferID env tid
                             (\<lambda>item. Inr (item\<lparr>item_State := StateReadyToPaste, item_LocalPaths := localPaths,
                                item_ReservedPaths := (if item_ReservedPaths item = [] then localPaths
                                                       else item_ReservedPaths item),
                                item_LastChunkIdx := in_LastChunkIdx t, item_ErrorMessage := ''''\<rparr>)) a1;
                           a3 = updateIncoming tid (\<lambda>i. i\<lparr>in_RequestActive := False, in_Completing := False,
                                                           in_Completed := True\<rparr>) a2;
                           a4 = deleteIncomingArchive env tid a3;
                           a5 = fst (sendFileRelease env tid (appSessionID a4) ''received_ok'' a4) in
                       case updated of
                         Inl err \<Rightarrow> (a5, Some err)
                       | Inr item \<Rightarrow>
                           if item_PendingReplayMode item \<noteq> '''' then completePendingReplayMode env tid a5
                           else (a5, None)))))"

section \<open>Messages\<close>

text \<open>
  \<open>handleFileTransferMessage\<close>: the work of a request and of a completion is left to a task. The result is
  whether the message was a transfer message, and the error of handling it.
\<close>

definition addTask :: "Task \<Rightarrow> App \<Rightarrow> App" where
  "addTask t a = a\<lparr>app_tasks := app_tasks a @ [t]\<rparr>"

definition handleFileTransferMessage ::
  "Env \<Rightarrow> ClipboardData \<Rightarrow> App \<Rightarrow> App \<times> bool \<times> goerror option" where
  "handleFileTransferMessage env cd a =
     (let t = cd_Type cd; p = cd_Payload cd in
      if t = TypeFileRequest then
        (case decodeRequest p of
           None \<Rightarrow> (a, True, Some ''decode file_request'')
         | Some r \<Rightarrow> (addTask (HandleRequest r) a, True, None))
      else if t = TypeFileChunk then
        (case decodeChunk p of
           None \<Rightarrow> (a, True, Some ''decode file_chunk'')
         | Some c \<Rightarrow>
             if chk_TargetSessionID c \<noteq> appSessionID a then (a, True, None)
             else (case handleFileChunk env c a of (a', err) \<Rightarrow> (a', True, err)))
      else if t = TypeFileComplete then
        (case decodeComplete p of
           None \<Rightarrow> (a, True, Some ''decode file_complete'')
         | Some c \<Rightarrow>
             if cmp_TargetSessionID c \<noteq> appSessionID a then (a, True, None)
             else (addTask (HandleComplete c) a, True, None))
      else if t = TypeFileError then
        (case decodeError p of
           None \<Rightarrow> (a, True, Some ''decode file_error'')
         | Some f \<Rightarrow>
             if ferr_TargetSessionID f \<noteq> appSessionID a then (a, True, None)
             else (case handleFileError env f a of (a', err) \<Rightarrow> (a', True, err)))
      else if t = TypeFileRelease then
        (case decodeRelease p of
           None \<Rightarrow> (a, True, Some ''decode file_release'')
         | Some r \<Rightarrow> (handleFileRelease env r a, True, None))
      else (a, False, None))"

end
