(* ===== verification/TransferStore.thy ===== *)
theory TransferStore
  imports TransferRecv
begin

text \<open>
  What a receiver holds of an archive: an abstract view (a byte string) of the memory buffer and the file
  behind it, and the lemmas that storing a chunk appends to that view, through the spill from memory to
  disk, so that the chunks of an archive in order give the archive.
\<close>

section \<open>The archive a transfer holds\<close>

definition spillPath :: "incomingTransfer \<Rightarrow> string" where
  "spillPath t =
     (if in_ArchivePath t = '''' then JoinPath [in_BaseDir t, transferPayloadTempName (in_Manifest t)]
      else in_ArchivePath t)"

definition fileBytes :: "FS \<Rightarrow> string \<Rightarrow> bytes" where
  "fileBytes fs p = (case fs p of Some (NFile b) \<Rightarrow> b | _ \<Rightarrow> [])"

definition heldBytes :: "FS \<Rightarrow> incomingTransfer \<Rightarrow> bytes" where
  "heldBytes fs t =
     (if in_StorageMode t = transferArchiveModeMemory then in_ArchiveBytes t
      else fileBytes fs (in_ArchivePath t))"

text \<open>The disk takes what is written at a path, and the path is not a directory.\<close>

definition disk_ok :: "Env \<Rightarrow> string \<Rightarrow> FS \<Rightarrow> bool" where
  "disk_ok env p fs \<longleftrightarrow> fault_open (env_faults env) p = None \<and>
     (\<forall>b. fault_write (env_faults env) p b = None) \<and> fs p \<noteq> Some NDir"

text \<open>The storage invariant: in memory mode the buffer is the archive, in disk mode the buffer is empty.\<close>

definition storage_ok :: "incomingTransfer \<Rightarrow> bool" where
  "storage_ok t \<longleftrightarrow>
     in_BaseDir t \<noteq> '''' \<and>
     (in_StorageMode t = transferArchiveModeMemory \<or>
      in_StorageMode t = transferArchiveModeDisk \<and> in_ArchiveBytes t = [] \<and> in_ArchivePath t \<noteq> '''')"

lemma mode_neq [simp]: "transferArchiveModeMemory \<noteq> transferArchiveModeDisk"
  "transferArchiveModeDisk \<noteq> transferArchiveModeMemory" "transferArchiveModeMemory \<noteq> ''''"
  "transferArchiveModeDisk \<noteq> ''''"
  by (simp_all add: transferArchiveModeMemory_def transferArchiveModeDisk_def)

lemma normalizeArchiveMode_cases:
  "normalizeArchiveMode m = transferArchiveModeMemory \<or> normalizeArchiveMode m = transferArchiveModeDisk"
  by (simp add: normalizeArchiveMode_def)

lemma JoinPath_nonempty: "a \<noteq> '''' \<Longrightarrow> JoinPath (a # es) \<noteq> ''''"
proof -
  assume "a \<noteq> ''''"
  have "Clean p \<noteq> ''''" for p
  proof (cases "comps p = []")
    case True
    then show ?thesis by (simp add: Clean_def unclean_def)
  next
    case False
    have "\<forall>c\<in>set (comps p). c \<noteq> ''''" using clean_comp_chars [OF comps_ok] by blast
    then show ?thesis using False
      by (cases "comps p" rule: remdups_adj.cases) (auto simp: Clean_def unclean_def)
  qed
  then show ?thesis using \<open>a \<noteq> ''''\<close> by (simp add: JoinPath_def)
qed

lemma os_Write_bytes:
  assumes "disk_ok env p fs"
  shows "os_Write (env_faults env) p content trunc fs =
     (fs(p \<mapsto> NFile ((if trunc then [] else fileBytes fs p) @ content)), None)"
  using assms
  by (auto simp: os_Write_def Let_def disk_ok_def fileBytes_def split: option.splits node.splits)

lemma disk_ok_write: "disk_ok env p fs \<Longrightarrow> disk_ok env p (fs(q \<mapsto> NFile b))"
  by (simp add: disk_ok_def)

lemma fileBytes_write [simp]: "fileBytes (fs(p \<mapsto> NFile b)) p = b"
  by (simp add: fileBytes_def)

section \<open>Storing a chunk appends\<close>

text \<open>What a store leaves alone.\<close>

definition same_transfer :: "incomingTransfer \<Rightarrow> incomingTransfer \<Rightarrow> bool" where
  "same_transfer t t' \<longleftrightarrow>
     in_Manifest t' = in_Manifest t \<and> in_HistoryItemID t' = in_HistoryItemID t \<and>
     in_ArchiveMode t' = in_ArchiveMode t \<and> in_BaseDir t' = in_BaseDir t \<and> in_ExtractDir t' = in_ExtractDir t \<and>
     in_Completed t' = in_Completed t \<and> in_Completing t' = in_Completing t \<and>
     in_RequestActive t' = in_RequestActive t"

lemma storeChunk_appends:
  assumes "storage_ok t" "disk_ok env (spillPath t) (app_fs a)"
    and "chk_ChunkIndex chunk = 0 \<Longrightarrow> in_StorageMode t = transferArchiveModeMemory \<and> in_ArchiveBytes t = [] \<or>
           in_StorageMode t = transferArchiveModeDisk"
  shows "\<exists>t' fs'. storeChunk env chunk raw t a = (t', a\<lparr>app_fs := fs'\<rparr>, None) \<and>
     heldBytes fs' t' = (if chk_ChunkIndex chunk = 0 then [] else heldBytes (app_fs a) t) @ raw \<and>
     storage_ok t' \<and> spillPath t' = spillPath t \<and> disk_ok env (spillPath t) fs' \<and> same_transfer t t' \<and>
     (\<forall>q. q \<noteq> spillPath t \<longrightarrow> fs' q = app_fs a q)"
proof (cases "in_StorageMode t = transferArchiveModeMemory")
  case mem: True
  show ?thesis
  proof (cases "int (length (in_ArchiveBytes t) + length raw) \<le> fileTransferMemoryThresholdBytes a")
    case True
    then show ?thesis
      using mem assms
      by (intro exI [of _ "t\<lparr>in_ArchiveBytes := in_ArchiveBytes t @ raw\<rparr>"] exI [of _ "app_fs a"])
        (auto simp: storeChunk_def Let_def heldBytes_def storage_ok_def spillPath_def same_transfer_def)
  next
    case spill: False
    define p where "p = spillPath t"
    have ne: "p \<noteq> ''''" using assms(1) by (simp add: p_def spillPath_def storage_ok_def JoinPath_nonempty)
    define t1 where "t1 = t\<lparr>in_ArchivePath := p, in_ArchiveBytes := [], in_StorageMode := transferArchiveModeDisk\<rparr>"
    define fs1 where "fs1 = (app_fs a)(p \<mapsto> NFile (in_ArchiveBytes t))"
    define fs2 where "fs2 = fs1(p \<mapsto> NFile (in_ArchiveBytes t @ raw))"
    have w1: "os_Write (env_faults env) p (in_ArchiveBytes t) True (app_fs a) = (fs1, None)"
      using os_Write_bytes [OF assms(2)] by (simp add: p_def fs1_def)
    have d1: "disk_ok env p fs1" using disk_ok_write [OF assms(2)] by (simp add: p_def fs1_def)
    have w2: "os_Write (env_faults env) p raw False fs1 = (fs2, None)"
      using os_Write_bytes [OF d1] by (simp add: fs1_def fs2_def)
    have "storeChunk env chunk raw t a = (t1, a\<lparr>app_fs := fs2\<rparr>, None)"
      using mem spill w1 w2 by (auto simp: storeChunk_def Let_def t1_def p_def spillPath_def)
    moreover have "heldBytes fs2 t1 = (if chk_ChunkIndex chunk = 0 then [] else heldBytes (app_fs a) t) @ raw"
      using mem assms(3) by (auto simp: heldBytes_def t1_def fs2_def)
    moreover have "storage_ok t1" "spillPath t1 = spillPath t" "same_transfer t t1"
      using assms(1) ne by (auto simp: t1_def storage_ok_def spillPath_def p_def same_transfer_def)
    moreover have "disk_ok env (spillPath t) fs2" using disk_ok_write [OF d1] by (simp add: fs2_def p_def)
    moreover have "\<forall>q. q \<noteq> spillPath t \<longrightarrow> fs2 q = app_fs a q" by (simp add: fs2_def fs1_def p_def)
    ultimately show ?thesis by blast
  qed
next
  case disk: False
  then have t: "in_StorageMode t = transferArchiveModeDisk" "spillPath t = in_ArchivePath t"
    using assms(1) by (auto simp: storage_ok_def spillPath_def)
  let ?fs = "(app_fs a)(in_ArchivePath t \<mapsto> NFile
      ((if chk_ChunkIndex chunk = 0 then [] else fileBytes (app_fs a) (in_ArchivePath t)) @ raw))"
  have d: "disk_ok env (in_ArchivePath t) (app_fs a)" using assms(2) t by simp
  have "storeChunk env chunk raw t a = (t, a\<lparr>app_fs := ?fs\<rparr>, None)"
    using disk os_Write_bytes [OF d] by (simp add: storeChunk_def Let_def)
  then show ?thesis
    using disk t assms(1) disk_ok_write [OF d]
    by (intro exI [of _ t] exI [of _ ?fs]) (auto simp: heldBytes_def same_transfer_def)
qed

lemma decodeChunkData_key: "e2eeKey a' = e2eeKey a \<Longrightarrow> decodeChunkData env a' c = decodeChunkData env a c"
  by (simp add: decodeChunkData_def)

lemma e2eeKey_simps [simp]:
  "e2eeKey (a\<lparr>app_fs := f\<rparr>) = e2eeKey a" "e2eeKey (a\<lparr>app_randomNo := n\<rparr>) = e2eeKey a"
  "e2eeKey (a\<lparr>app_transfers := t\<rparr>) = e2eeKey a" "e2eeKey (a\<lparr>app_history := h\<rparr>) = e2eeKey a"
  "e2eeKey (a\<lparr>app_sendNo := k, app_outbox := box\<rparr>) = e2eeKey a"
  "e2eeKey (setIncoming i x a) = e2eeKey a" "e2eeKey (setOutgoing i y a) = e2eeKey a"
  by (simp_all add: e2eeKey_def setIncoming_def setOutgoing_def)

text \<open>A chunk that a receiver with a given key reads as \<open>raw\<close>, with a correct digest.\<close>

definition reads_as :: "Env \<Rightarrow> App \<Rightarrow> FileChunk \<Rightarrow> bytes \<Rightarrow> bool" where
  "reads_as env a chunk raw \<longleftrightarrow>
     decodeChunkData env a chunk = Inr raw \<and> chk_ChunkSHA256 chunk = sha256hex env raw"

lemma reads_as_key: "e2eeKey a' = e2eeKey a \<Longrightarrow> reads_as env a' c raw = reads_as env a c raw"
  using decodeChunkData_key [of a' a env c] by (simp add: reads_as_def)

lemma progress_frame [simp]:
  "spillPath (t\<lparr>in_LastChunkIdx := i, in_TotalChunks := n, in_RequestedResumeFrom := r\<rparr>) = spillPath t"
  "heldBytes fs (t\<lparr>in_LastChunkIdx := i, in_TotalChunks := n, in_RequestedResumeFrom := r\<rparr>) = heldBytes fs t"
  "storage_ok (t\<lparr>in_LastChunkIdx := i, in_TotalChunks := n, in_RequestedResumeFrom := r\<rparr>) = storage_ok t"
  "spillPath (t\<lparr>in_Completing := c\<rparr>) = spillPath t"
  "heldBytes fs (t\<lparr>in_Completing := c\<rparr>) = heldBytes fs t"
  by (simp_all add: spillPath_def heldBytes_def storage_ok_def)

text \<open>After \<open>n\<close> chunks: the archive held is the bytes so far.\<close>

definition receiving :: "Env \<Rightarrow> FS \<Rightarrow> incomingTransfer \<Rightarrow> string \<Rightarrow> nat \<Rightarrow> bytes \<Rightarrow> bool" where
  "receiving env fs t mode n b \<longleftrightarrow>
     storage_ok t \<and> disk_ok env (spillPath t) fs \<and> \<not> in_Completed t \<and>
     in_ArchiveMode t = normalizeArchiveMode mode \<and> in_LastChunkIdx t = int n - 1 \<and>
     in_RequestedResumeFrom t = 0 \<and> heldBytes fs t = b"

lemma openIncoming_again:
  assumes "storage_ok t" "in_ArchiveMode t = normalizeArchiveMode m"
  shows "openIncoming env chunk t a = (t, a, None)"
proof -
  have "in_ArchiveMode t \<noteq> ''''" "in_StorageMode t \<noteq> ''''" "in_BaseDir t \<noteq> ''''"
    using assms normalizeArchiveMode_cases [of m] by (auto simp: storage_ok_def)
  then show ?thesis by (simp add: openIncoming_def Let_def)
qed

lemma acceptChunk_next:
  assumes "receiving env (app_fs a) t (chk_ArchiveMode chunk) n b" "0 < n"
    and "chk_ChunkIndex chunk = int n" "reads_as env a chunk raw"
  shows "\<exists>t' fs'. acceptChunk env chunk t a = (t', a\<lparr>app_fs := fs'\<rparr>, ChunkStored) \<and>
     receiving env fs' t' (chk_ArchiveMode chunk) (Suc n) (b @ raw) \<and> same_transfer t t' \<and>
     in_TotalChunks t' = chk_TotalChunks chunk"
proof -
  note r = assms(1) [unfolded receiving_def]
  have open0: "openIncoming env chunk t a = (t, a, None)"
    using r by (intro openIncoming_again) auto
  have idx0: "chk_ChunkIndex chunk \<noteq> 0" using assms(2,3) by simp
  have "\<exists>t' fs'. storeChunk env chunk raw t a = (t', a\<lparr>app_fs := fs'\<rparr>, None) \<and>
     heldBytes fs' t' = (if chk_ChunkIndex chunk = 0 then [] else heldBytes (app_fs a) t) @ raw \<and>
     storage_ok t' \<and> spillPath t' = spillPath t \<and> disk_ok env (spillPath t) fs' \<and> same_transfer t t' \<and>
     (\<forall>q. q \<noteq> spillPath t \<longrightarrow> fs' q = app_fs a q)"
    by (rule storeChunk_appends) (use r idx0 in auto)
  then obtain t1 fs1 where st: "storeChunk env chunk raw t a = (t1, a\<lparr>app_fs := fs1\<rparr>, None)"
    "heldBytes fs1 t1 = b @ raw" "storage_ok t1" "spillPath t1 = spillPath t"
    "disk_ok env (spillPath t) fs1" "same_transfer t t1"
    using r idx0 by auto
  let ?t' = "t1\<lparr>in_LastChunkIdx := chk_ChunkIndex chunk, in_TotalChunks := chk_TotalChunks chunk,
    in_RequestedResumeFrom := 0\<rparr>"
  have "acceptChunk env chunk t a = (?t', a\<lparr>app_fs := fs1\<rparr>, ChunkStored)"
    using r open0 idx0 assms st(1) by (simp add: acceptChunk_def expectedChunk_def reads_as_def Let_def)
  moreover have "receiving env fs1 ?t' (chk_ArchiveMode chunk) (Suc n) (b @ raw)"
    using st r assms(3) by (simp add: receiving_def same_transfer_def)
  moreover have "same_transfer t ?t'" using st(6) by (simp add: same_transfer_def)
  ultimately show ?thesis by fastforce
qed

lemma restartIncoming_ok:
  assumes "in_BaseDir t \<noteq> ''''" "disk_ok env (spillPath t) (app_fs a)"
    and "normalizeArchiveMode (chk_ArchiveMode chunk) = mode"
  shows "\<exists>t' fs'. restartIncoming env chunk t a = (t', a\<lparr>app_fs := fs'\<rparr>) \<and> storage_ok t' \<and>
     spillPath t' = spillPath t \<and> disk_ok env (spillPath t) fs' \<and> in_ArchiveMode t' = mode \<and>
     in_StorageMode t' = mode \<and> in_ArchiveBytes t' = [] \<and> in_Manifest t' = in_Manifest t \<and>
     in_HistoryItemID t' = in_HistoryItemID t \<and> in_Completed t' = in_Completed t \<and>
     in_Completing t' = in_Completing t \<and> in_BaseDir t' = in_BaseDir t"
proof -
  have mode: "mode = transferArchiveModeMemory \<or> mode = transferArchiveModeDisk"
    using assms(3) normalizeArchiveMode_cases by blast
  define t1 where "t1 = t\<lparr>in_ArchiveMode := mode, in_StorageMode := mode, in_LastChunkIdx := - 1,
    in_TotalChunks := 0, in_ArchiveBytes := []\<rparr>"
  have spill1: "spillPath t1 = spillPath t" by (simp add: spillPath_def t1_def)
  consider (a) "in_ArchivePath t = ''''" "mode = transferArchiveModeDisk"
    | (b) "mode = transferArchiveModeMemory" "in_ArchivePath t \<noteq> ''''"
    | (c) "mode = transferArchiveModeMemory" "in_ArchivePath t = ''''"
    | (d) "mode = transferArchiveModeDisk" "in_ArchivePath t \<noteq> ''''"
    using mode by blast
  then show ?thesis
  proof cases
    case a
    let ?t' = "t1\<lparr>in_ArchivePath := spillPath t\<rparr>"
    have "spillPath t \<noteq> ''''" using a assms(1) by (simp add: spillPath_def JoinPath_nonempty)
    moreover have "restartIncoming env chunk t a = (?t', a\<lparr>app_fs := app_fs a\<rparr>)"
      using a assms(3) by (simp add: restartIncoming_def Let_def t1_def spillPath_def)
    ultimately show ?thesis using assms a
      by (intro exI [of _ ?t'] exI [of _ "app_fs a"]) (auto simp: t1_def storage_ok_def spillPath_def)
  next
    case b
    let ?fs = "fst (os_Remove (env_faults env) (in_ArchivePath t) (app_fs a))"
    have "restartIncoming env chunk t a = (t1, a\<lparr>app_fs := ?fs\<rparr>)"
      using b assms(3) by (simp add: restartIncoming_def Let_def t1_def)
    moreover have "disk_ok env (spillPath t) ?fs"
      using assms(2) by (auto simp: disk_ok_def os_Remove_def split: option.split)
    ultimately show ?thesis using assms b spill1
      by (intro exI [of _ t1] exI [of _ ?fs]) (auto simp: t1_def storage_ok_def)
  next
    case c
    then have "restartIncoming env chunk t a = (t1, a\<lparr>app_fs := app_fs a\<rparr>)"
      using assms(3) by (simp add: restartIncoming_def Let_def t1_def)
    then show ?thesis using assms c spill1
      by (intro exI [of _ t1] exI [of _ "app_fs a"]) (auto simp: t1_def storage_ok_def)
  next
    case d
    then have "restartIncoming env chunk t a = (t1, a\<lparr>app_fs := app_fs a\<rparr>)"
      using assms(3) by (simp add: restartIncoming_def Let_def t1_def)
    then show ?thesis using assms d spill1
      by (intro exI [of _ t1] exI [of _ "app_fs a"]) (auto simp: t1_def storage_ok_def)
  qed
qed

lemma acceptChunk_first:
  assumes "\<not> in_Completed t" "openIncoming env chunk t a = (t1, a1, None)"
    and "chk_ChunkIndex chunk = 0" "in_LastChunkIdx t1 = - 1 \<or> 0 < in_RequestedResumeFrom t1"
    and "in_BaseDir t1 \<noteq> ''''" "disk_ok env (spillPath t1) (app_fs a1)" "\<not> in_Completed t1"
    and "reads_as env a1 chunk raw"
  shows "\<exists>t' fs'. acceptChunk env chunk t a = (t', a1\<lparr>app_fs := fs'\<rparr>, ChunkStored) \<and>
     receiving env fs' t' (chk_ArchiveMode chunk) 1 raw \<and> in_TotalChunks t' = chk_TotalChunks chunk \<and>
     in_Manifest t' = in_Manifest t1 \<and> in_Completing t' = in_Completing t1 \<and> in_BaseDir t' = in_BaseDir t1"
proof -
  let ?mode = "normalizeArchiveMode (chk_ArchiveMode chunk)"
  obtain t2 fs2 where t2: "restartIncoming env chunk t1 a1 = (t2, a1\<lparr>app_fs := fs2\<rparr>)" "storage_ok t2"
    "spillPath t2 = spillPath t1" "disk_ok env (spillPath t1) fs2" "in_ArchiveMode t2 = ?mode"
    "in_StorageMode t2 = ?mode" "in_ArchiveBytes t2 = []" "in_Manifest t2 = in_Manifest t1"
    "in_Completed t2 = in_Completed t1" "in_Completing t2 = in_Completing t1" "in_BaseDir t2 = in_BaseDir t1"
    using restartIncoming_ok [OF assms(5,6) refl] by blast
  let ?a2 = "a1\<lparr>app_fs := fs2\<rparr>"
  have exp: "expectedChunk chunk t1 = 0" using assms(3,4) by (auto simp: expectedChunk_def)
  have raw: "decodeChunkData env ?a2 chunk = Inr raw" "chk_ChunkSHA256 chunk = sha256hex env raw"
    using assms(8) by (auto simp: reads_as_def decodeChunkData_key [of ?a2 a1])
  have "\<exists>t' fs'. storeChunk env chunk raw t2 ?a2 = (t', ?a2\<lparr>app_fs := fs'\<rparr>, None) \<and>
     heldBytes fs' t' = (if chk_ChunkIndex chunk = 0 then [] else heldBytes (app_fs ?a2) t2) @ raw \<and>
     storage_ok t' \<and> spillPath t' = spillPath t2 \<and> disk_ok env (spillPath t2) fs' \<and> same_transfer t2 t' \<and>
     (\<forall>q. q \<noteq> spillPath t2 \<longrightarrow> fs' q = app_fs ?a2 q)"
    by (rule storeChunk_appends) (use t2 normalizeArchiveMode_cases in auto)
  then obtain t3 fs3 where st: "storeChunk env chunk raw t2 ?a2 = (t3, a1\<lparr>app_fs := fs3\<rparr>, None)"
    "heldBytes fs3 t3 = raw" "storage_ok t3" "spillPath t3 = spillPath t2"
    "disk_ok env (spillPath t2) fs3" "same_transfer t2 t3"
    using assms(3) by auto
  let ?t' = "t3\<lparr>in_LastChunkIdx := 0, in_TotalChunks := chk_TotalChunks chunk, in_RequestedResumeFrom := 0\<rparr>"
  have "acceptChunk env chunk t a = (?t', a1\<lparr>app_fs := fs3\<rparr>, ChunkStored)"
    using assms(1,2,3) exp t2(1) raw st(1) by (simp add: acceptChunk_def Let_def)
  moreover have "receiving env fs3 ?t' (chk_ArchiveMode chunk) 1 raw"
    using st t2(3-11) assms(7) by (simp add: receiving_def same_transfer_def)
  ultimately show ?thesis using st(6) t2(8-11) by (fastforce simp: same_transfer_def)
qed

section \<open>The first chunk makes the directory\<close>

definition tempDirFor :: "Env \<Rightarrow> string \<Rightarrow> App \<Rightarrow> string" where
  "tempDirFor env tid a =
     JoinPath [pe_tmp (env_paths env),
       (if tid \<noteq> '''' then fileTransferTempPrefix @ take 8 tid @ ''-'' else fileTransferTempPrefix) @
       env_tempSuffix env (app_randomNo a)]"

text \<open>The directory \<open>MkdirTemp\<close> makes is new, and the disk takes the payload file in it.\<close>

definition temp_ok :: "Env \<Rightarrow> string \<Rightarrow> App \<Rightarrow> bool" where
  "temp_ok env tid a \<longleftrightarrow>
     (let dir = tempDirFor env tid a in
      dir \<noteq> '''' \<and> fault_mkdirTemp (env_faults env) dir = None \<and>
      (\<forall>m. disk_ok env (JoinPath [dir, transferPayloadTempName m]) (makeDirs dir (app_fs a))))"

lemma openIncoming_new:
  assumes "in_BaseDir t = ''''" "temp_ok env (chk_TransferID chunk) a" "in_ArchivePath t = ''''"
  shows "\<exists>t1 a1. openIncoming env chunk t a = (t1, a1, None) \<and> in_BaseDir t1 \<noteq> '''' \<and>
     disk_ok env (spillPath t1) (app_fs a1) \<and> in_LastChunkIdx t1 = in_LastChunkIdx t \<and>
     in_RequestedResumeFrom t1 = in_RequestedResumeFrom t \<and> in_Completed t1 = in_Completed t \<and>
     in_Completing t1 = in_Completing t \<and> in_Manifest t1 = in_Manifest t \<and>
     (\<exists>f n. a1 = a\<lparr>app_fs := f, app_randomNo := n\<rparr>)"
proof -
  let ?dir = "tempDirFor env (chk_TransferID chunk) a"
  let ?mode = "normalizeArchiveMode (chk_ArchiveMode chunk)"
  let ?p = "JoinPath [?dir, transferPayloadTempName (in_Manifest t)]"
  have dir: "?dir \<noteq> ''''" "fault_mkdirTemp (env_faults env) ?dir = None"
    "disk_ok env ?p (makeDirs ?dir (app_fs a))"
    using assms(2) by (auto simp: temp_ok_def Let_def)
  let ?t1 = "t\<lparr>in_BaseDir := ?dir, in_ExtractDir := JoinPath [?dir, fileTransferExtracted],
    in_ArchiveMode := ?mode, in_StorageMode := ?mode,
    in_ArchivePath := (if ?mode = transferArchiveModeDisk then ?p else '''')\<rparr>"
  let ?a1 = "a\<lparr>app_fs := makeDirs ?dir (app_fs a), app_randomNo := Suc (app_randomNo a)\<rparr>"
  have new: "newTransferTempDir env (chk_TransferID chunk) a = (?a1, Inr ?dir)"
    using dir(2) by (simp add: newTransferTempDir_def tempDirFor_def Let_def)
  have "?mode \<noteq> ''''" using normalizeArchiveMode_cases [of "chk_ArchiveMode chunk"] by auto
  then have "openIncoming env chunk t a = (?t1, ?a1, None)"
    using assms(1,3) new by (simp add: openIncoming_def Let_def)
  moreover have "spillPath ?t1 = ?p" by (simp add: spillPath_def)
  ultimately show ?thesis
    using dir by (intro exI [of _ ?t1] exI [of _ ?a1]) (simp, blast)
qed

section \<open>Chunk messages in order\<close>

text \<open>What handling chunks leaves of the application as far as later chunks are concerned.\<close>

definition same_peer :: "App \<Rightarrow> App \<Rightarrow> bool" where
  "same_peer a a' \<longleftrightarrow> e2eeKey a' = e2eeKey a \<and> appSessionID a' = appSessionID a \<and>
     app_lastRecvHash a' = app_lastRecvHash a"

lemma same_peer_refl [simp]: "same_peer a a"
  by (simp add: same_peer_def)

lemma same_peer_trans: "same_peer a b \<Longrightarrow> same_peer b c \<Longrightarrow> same_peer a c"
  by (simp add: same_peer_def)

lemma appSessionID_simps [simp]:
  "appSessionID (a\<lparr>app_fs := f\<rparr>) = appSessionID a" "appSessionID (a\<lparr>app_randomNo := n\<rparr>) = appSessionID a"
  "appSessionID (a\<lparr>app_history := h\<rparr>) = appSessionID a"
  "appSessionID (setIncoming i x a) = appSessionID a"
  "app_lastRecvHash (setIncoming i x a) = app_lastRecvHash a"
  by (simp_all add: appSessionID_def SessionID_def setIncoming_def)

lemma historyMutate_frame:
  "\<exists>h. fst (historyMutateByTransferID env t f a) = a\<lparr>app_history := h\<rparr>"
  "\<exists>h. fst (historyMutate env i f a) = a\<lparr>app_history := h\<rparr>"
  by (auto simp: historyMutateByTransferID_def historyMutate_def split: prod.splits)

lemma GetIncoming_set [simp]: "GetIncoming i (setIncoming i x a) = Some x"
  "j \<noteq> i \<Longrightarrow> GetIncoming j (setIncoming i x a) = GetIncoming j a"
  by (simp_all add: GetIncoming_def setIncoming_def update_conv')

lemma GetIncoming_frame [simp]:
  "GetIncoming i (a\<lparr>app_history := h\<rparr>) = GetIncoming i a" "GetIncoming i (a\<lparr>app_fs := f\<rparr>) = GetIncoming i a"
  "app_fs (setIncoming i x a) = app_fs a" "app_history (setIncoming i x a) = app_history a"
  by (simp_all add: GetIncoming_def setIncoming_def)

definition stored_at :: "Env \<Rightarrow> string \<Rightarrow> string \<Rightarrow> nat \<Rightarrow> bytes \<Rightarrow> FileStubManifest \<Rightarrow> bool \<Rightarrow> App \<Rightarrow> bool" where
  "stored_at env tid mode n b m completing a \<longleftrightarrow>
     (\<exists>t. GetIncoming tid a = Some t \<and> receiving env (app_fs a) t mode n b \<and> in_Manifest t = m \<and>
        in_Completing t = completing)"

lemma handleFileChunk_stored:
  assumes "GetIncoming (chk_TransferID chunk) a = Some t"
    and "acceptChunk env chunk t a = (t', a', ChunkStored)"
  shows "\<exists>h. handleFileChunk env chunk a = ((setIncoming (chk_TransferID chunk) t' a')\<lparr>app_history := h\<rparr>, None)"
  using assms historyMutate_frame(1) [of env "chk_TransferID chunk" _ "setIncoming (chk_TransferID chunk) t' a'"]
  by (simp add: handleFileChunk_def Let_def)

lemma handleFileChunk_next:
  assumes "stored_at env tid mode n b m cg a" "0 < n" "chk_TransferID chunk = tid"
    and "chk_ArchiveMode chunk = mode" "chk_ChunkIndex chunk = int n" "reads_as env a chunk raw"
  shows "\<exists>a'. handleFileChunk env chunk a = (a', None) \<and> stored_at env tid mode (Suc n) (b @ raw) m cg a' \<and>
     same_peer a a'"
proof -
  obtain t where t: "GetIncoming tid a = Some t" "receiving env (app_fs a) t mode n b" "in_Manifest t = m"
    "in_Completing t = cg"
    using assms(1) by (auto simp: stored_at_def)
  obtain t' fs' where acc: "acceptChunk env chunk t a = (t', a\<lparr>app_fs := fs'\<rparr>, ChunkStored)"
    "receiving env fs' t' mode (Suc n) (b @ raw)" "same_transfer t t'"
    using acceptChunk_next [OF _ assms(2,5,6), of t b] t(2) assms(4) by auto
  obtain h where h: "handleFileChunk env chunk a =
      ((setIncoming tid t' (a\<lparr>app_fs := fs'\<rparr>))\<lparr>app_history := h\<rparr>, None)"
    using handleFileChunk_stored [of chunk a t env t'] t(1) acc(1) assms(3) by blast
  then show ?thesis
    using acc(2,3) t(3,4) by (simp add: stored_at_def same_peer_def same_transfer_def)
qed

lemma handleFileChunk_first:
  assumes "GetIncoming tid a = Some t" "chk_TransferID chunk = tid" "chk_ChunkIndex chunk = 0"
    and "\<not> in_Completed t" "in_LastChunkIdx t = - 1 \<or> 0 < in_RequestedResumeFrom t"
    and "in_BaseDir t = ''''" "in_ArchivePath t = ''''" "temp_ok env tid a" "reads_as env a chunk raw"
  shows "\<exists>a'. handleFileChunk env chunk a = (a', None) \<and>
     stored_at env tid (chk_ArchiveMode chunk) 1 raw (in_Manifest t) (in_Completing t) a' \<and> same_peer a a'"
proof -
  obtain t1 a1 where o: "openIncoming env chunk t a = (t1, a1, None)" "in_BaseDir t1 \<noteq> ''''"
    "disk_ok env (spillPath t1) (app_fs a1)" "in_LastChunkIdx t1 = in_LastChunkIdx t"
    "in_RequestedResumeFrom t1 = in_RequestedResumeFrom t" "in_Completed t1 = in_Completed t"
    "in_Completing t1 = in_Completing t" "in_Manifest t1 = in_Manifest t"
    "\<exists>f n. a1 = a\<lparr>app_fs := f, app_randomNo := n\<rparr>"
    using openIncoming_new [of t env chunk a] assms by auto
  have key: "e2eeKey a1 = e2eeKey a" "appSessionID a1 = appSessionID a"
    "app_lastRecvHash a1 = app_lastRecvHash a" using o(9) by auto
  have "\<exists>t' fs'. acceptChunk env chunk t a = (t', a1\<lparr>app_fs := fs'\<rparr>, ChunkStored) \<and>
     receiving env fs' t' (chk_ArchiveMode chunk) 1 raw \<and> in_TotalChunks t' = chk_TotalChunks chunk \<and>
     in_Manifest t' = in_Manifest t1 \<and> in_Completing t' = in_Completing t1 \<and> in_BaseDir t' = in_BaseDir t1"
  proof (rule acceptChunk_first [OF assms(4) o(1) assms(3) _ o(2,3)])
    show "in_LastChunkIdx t1 = - 1 \<or> 0 < in_RequestedResumeFrom t1" using assms(5) o(4,5) by simp
    show "\<not> in_Completed t1" using assms(4) o(6) by simp
    show "reads_as env a1 chunk raw" using assms(9) reads_as_key [OF key(1)] by simp
  qed
  then obtain t' fs' where acc: "acceptChunk env chunk t a = (t', a1\<lparr>app_fs := fs'\<rparr>, ChunkStored)"
     "receiving env fs' t' (chk_ArchiveMode chunk) 1 raw"
     "in_Manifest t' = in_Manifest t" "in_Completing t' = in_Completing t"
    using o(7,8) by auto
  obtain h where h: "handleFileChunk env chunk a =
      ((setIncoming tid t' (a1\<lparr>app_fs := fs'\<rparr>))\<lparr>app_history := h\<rparr>, None)"
    using handleFileChunk_stored [of chunk a t env t'] assms(1,2) acc(1) by blast
  then show ?thesis
    using acc(2-) key by (simp add: stored_at_def same_peer_def)
qed

end
