(* ===== verification/TransferWire.thy ===== *)
theory TransferWire
  imports TransferStore
begin

text \<open>
  Transfer messages on the wire: opening a received body (\<open>onReceive\<close> up to its decoding), and the lemmas
  that what a sender puts on the links, opened by a receiver with the same key, are the chunks of the
  archive in order.
\<close>

section \<open>Opening a body\<close>

definition openMessage :: "Env \<Rightarrow> App \<Rightarrow> string \<Rightarrow> ClipboardData option" where
  "openMessage env a body =
     (case e2eeKey a of
        None \<Rightarrow> DecodeClipboardData body
      | Some key \<Rightarrow>
          (case DecodeFromJSONString body of
             Inl _ \<Rightarrow> None
           | Inr encrypted \<Rightarrow>
               (case Decrypt (env_gcm env) key encrypted of
                  Inl _ \<Rightarrow> None
                | Inr plaintext \<Rightarrow> DecodeClipboardData plaintext)))"

fun deliveryBody :: "Delivery \<Rightarrow> string" where
  "deliveryBody (ToPeer target body) = body"
| "deliveryBody (ToPeers body) = body"
| "deliveryBody (ToRelay body) = body"

text \<open>AES-GCM opens what it sealed, for the key in use.\<close>

definition crypto_ok :: "Env \<Rightarrow> App \<Rightarrow> bool" where
  "crypto_ok env a \<longleftrightarrow> (case e2eeKey a of None \<Rightarrow> True | Some key \<Rightarrow> gcm_correct (env_gcm env) key)"

lemma crypto_ok_key: "e2eeKey b = e2eeKey a \<Longrightarrow> crypto_ok env b = crypto_ok env a"
  by (simp add: crypto_ok_def)

lemma encrypted_opens:
  "gcm_correct g key \<Longrightarrow> encryptWithAAD g random key plaintext aad = Inr p \<Longrightarrow>
     decryptWithAAD g key p aad = Inr plaintext"
  using encrypt_decrypt [of g key "the random" plaintext aad]
  by (cases random) (auto simp: encryptWithAAD_def)

lemma openMessage_body:
  assumes "messageBody env a cd = Inr body" "e2eeKey b = e2eeKey a" "crypto_ok env a" "clipboard_ints_ok cd"
  shows "openMessage env b body = Some (sanitizeClipboard cd)"
proof (cases "e2eeKey a")
  case None
  then show ?thesis using assms decode_encode_clipboard [of cd] by (simp add: messageBody_def openMessage_def)
next
  case (Some key)
  then obtain p where p: "encryptWithAAD (env_gcm env) (env_nonce env (app_randomNo a)) key
      (ClipboardData_Encode cd) [] = Inr p" "body = EncodeToJSONString p"
    using assms(1) by (auto simp: messageBody_def Encrypt_def split: sum.splits)
  have "decryptWithAAD (env_gcm env) key p [] = Inr (ClipboardData_Encode cd)"
    using encrypted_opens [OF _ p(1)] assms(3) Some by (simp add: crypto_ok_def)
  then show ?thesis
    using Some assms(2,4) p(2) by (simp add: openMessage_def Decrypt_def decode_encode_clipboard)
qed

section \<open>One message on one route\<close>

lemma noDispatch_simps [simp]: "P2PSent noDispatch = False" "StompSent noDispatch = False"
  by (simp_all add: noDispatch_def)

lemma send_single_ok:
  assumes "isSingleRouteClipboardType (cd_Type cd)" "sendClipboardData env cd a = (a', None)"
  shows "\<exists>body d. messageBody env a cd = Inr body \<and> deliveryBody d = body \<and>
     a' = a\<lparr>app_randomNo := Suc (app_randomNo a), app_sendNo := Suc (app_sendNo a),
            app_outbox := app_outbox a @ [d]\<rparr>"
proof -
  obtain body where body: "messageBody env a cd = Inr body"
    using assms(2) by (auto simp: sendClipboardData_def sendClipboardDataWithResult_def Let_def split: sum.splits)
  let ?target = "targetSessionIDForSingleRouteClipboardData cd"
  let ?l = "env_link env (app_sendNo a)"
  have "\<exists>d. deliveryBody d = body \<and>
     a' = a\<lparr>app_randomNo := Suc (app_randomNo a), app_sendNo := Suc (app_sendNo a),
            app_outbox := app_outbox a @ [d]\<rparr>"
  proof (cases "(if app_hasP2P a then link_p2pPeers ?l else 0) > 0")
    case True
    then show ?thesis using assms body
      by (intro exI [of _ "if ?target \<noteq> '''' then ToPeer ?target body else ToPeers body"])
        (auto simp: sendClipboardData_def sendClipboardDataWithResult_def Let_def
          dispatchClipboardBodySingleRoute_def split: if_splits)
  next
    case False
    then show ?thesis using assms body
      by (intro exI [of _ "ToRelay body"])
        (auto simp: sendClipboardData_def sendClipboardDataWithResult_def Let_def
          dispatchClipboardBodySingleRoute_def split: if_splits option.splits)
  qed
  then show ?thesis using body by blast
qed

section \<open>Chunks\<close>

function pieces :: "bytes \<Rightarrow> bytes list" where
  "pieces b = (if b = [] then [] else take fileTransferChunkSize b # pieces (drop fileTransferChunkSize b))"
  by pat_completeness auto
termination by (relation "measure length") auto

declare pieces.simps [simp del]

lemma concat_pieces: "concat (pieces b) = b"
  by (induction b rule: pieces.induct) (subst pieces.simps, simp)

lemma pieces_Nil [simp]: "pieces b = [] \<longleftrightarrow> b = []" "pieces [] = []"
  by (subst pieces.simps, simp)+

lemma pieces_short: "b \<noteq> [] \<Longrightarrow> length b < fileTransferChunkSize \<Longrightarrow> pieces b = [b]"
  by (subst pieces.simps) simp

lemma hexBytes_ascii: "asciiStr (hexBytes vs)"
proof -
  have "n < 16 \<Longrightarrow> byteval (hextable ! n) < 0x80" for n
  proof -
    assume "n < 16"
    then have "hextable ! n \<in> set hextable" by (intro nth_mem) (simp add: hextable_def)
    then show ?thesis by (auto simp: hextable_def)
  qed
  moreover have "unat (drop_bit 4 (v :: octet)) < 16" "unat (v AND 0x0f) < 16" for v
  proof -
    have "drop_bit 4 v < 16" "v AND 0x0f < 16" by (transfer, simp add: drop_bit_eq_div take_bit_eq_mod)+
    then show "unat (drop_bit 4 v) < 16" "unat (v AND 0x0f) < 16" by (simp_all add: word_less_nat_alt)
  qed
  ultimately show ?thesis by (auto simp: asciiStr_def hexBytes_def hexByte_def list_all_iff)
qed

lemma utf8_texts [simp]:
  "utf8ok (sha256hex env b)" "utf8ok TypeFileChunk" "utf8ok TypeFileComplete" "utf8ok TypeFileRequest"
  "utf8ok transferArchiveModeDisk" "utf8ok transferArchiveModeMemory"
  by (auto simp: sha256hex_def const_defs asciiStr_def intro!: ascii_toValidUTF8 hexBytes_ascii)

lemma envelope_utf8: "utf8ok (EncodeToJSONString p)"
  unfolding EncodeToJSONString_def by (intro toValidUTF8_id render_valid) simp

lemma encodeChunk_reads:
  assumes "encodeChunk env a tid i raw = Inr s" "crypto_ok env a" "e2eeKey b = e2eeKey a"
    and "chk_TransferID c = tid" "chk_ChunkIndex c = i" "chk_ChunkData c = s"
  shows "decodeChunkData env b c = Inr raw" "utf8ok s"
proof -
  have "decodeChunkData env b c = Inr raw \<and> utf8ok s"
  proof (cases "e2eeKey a")
    case None
    then show ?thesis using assms by (auto simp: encodeChunk_def decodeChunkData_def DecodeString_EncodeToString)
  next
    case (Some key)
    then obtain p where p: "encryptWithAAD (env_gcm env) (env_nonce env (app_randomNo a)) key raw
        (fileChunkAAD tid i) = Inr p" "s = EncodeToJSONString p"
      using assms(1) by (auto simp: encodeChunk_def EncryptWithAAD_def split: sum.splits)
    then show ?thesis
      using Some assms encrypted_opens [OF _ p(1)]
      by (simp add: decodeChunkData_def DecryptWithAAD_def crypto_ok_def envelope_utf8)
  qed
  then show "decodeChunkData env b c = Inr raw" "utf8ok s" by auto
qed

text \<open>A delivery that every receiver with the sender's key reads as chunk \<open>k\<close> of the transfer, \<open>raw\<close>.\<close>

definition carries ::
  "Env \<Rightarrow> outgoingTransfer \<Rightarrow> string \<Rightarrow> App \<Rightarrow> Delivery \<Rightarrow> int \<Rightarrow> bytes \<Rightarrow> bool" where
  "carries env tr target a d k raw \<longleftrightarrow>
     (\<exists>chunk. (\<forall>b. e2eeKey b = e2eeKey a \<longrightarrow>
           openMessage env b (deliveryBody d) =
             Some (NewClipboardDataWithPayload chunkJSON TypeFileChunk chunk) \<and> reads_as env b chunk raw) \<and>
        decodeChunk (EncodePayload chunkJSON chunk) = Some chunk \<and>
        chk_TransferID chunk = man_TransferID (out_Manifest tr) \<and> chk_TargetSessionID chunk = target \<and>
        chk_ArchiveMode chunk = archiveModeString (out_ArchiveMode tr) \<and> chk_ChunkIndex chunk = k)"

text \<open>Names that survive JSON, and counts that fit 64 bits.\<close>

definition names_ok :: "outgoingTransfer \<Rightarrow> string \<Rightarrow> bool" where
  "names_ok tr target \<longleftrightarrow> utf8ok (man_TransferID (out_Manifest tr)) \<and> utf8ok target \<and>
     utf8ok (out_ArchiveMode tr) \<and> int64_range (out_ChunkCount tr)"

lemma sanitize_payload:
  "utf8ok t \<Longrightarrow> utf8ok p \<Longrightarrow> sanitizeClipboard (zeroClipboard\<lparr>cd_Type := t, cd_Payload := p\<rparr>) =
     zeroClipboard\<lparr>cd_Type := t, cd_Payload := p\<rparr>"
  by (simp add: sanitizeClipboard_def zeroClipboard_def)

lemma makeChunk_carries:
  assumes "makeChunk env a tr target k raw = Inr chunk" "names_ok tr target" "int64_range k" "crypto_ok env a"
    and "messageBody env b (NewClipboardDataWithPayload chunkJSON TypeFileChunk chunk) = Inr (deliveryBody d)"
    and "e2eeKey b = e2eeKey a"
  shows "carries env tr target a d k raw"
proof -
  obtain s where s: "encodeChunk env a (man_TransferID (out_Manifest tr)) k raw = Inr s"
    "chunk = \<lparr>chk_TransferID = man_TransferID (out_Manifest tr), chk_TargetSessionID = target,
               chk_ArchiveMode = archiveModeString (out_ArchiveMode tr), chk_ChunkIndex = k,
               chk_TotalChunks = out_ChunkCount tr, chk_ChunkData = s, chk_ChunkSHA256 = sha256hex env raw\<rparr>"
    using assms(1) by (auto simp: makeChunk_def split: sum.splits)
  have read: "reads_as env x chunk raw" if "e2eeKey x = e2eeKey a" for x
    using encodeChunk_reads(1) [OF s(1) assms(4) that, of chunk] s(2) by (simp add: reads_as_def)
  have utf8s: "utf8ok s" using encodeChunk_reads(2) [OF s(1) assms(4) refl, of chunk] s(2) by simp
  have ok: "chunk_ok chunk"
    using assms(2,3) utf8s s(2) by (auto simp: chunk_ok_def names_ok_def archiveModeString_def)
  let ?cd = "NewClipboardDataWithPayload chunkJSON TypeFileChunk chunk"
  have san: "sanitizeClipboard ?cd = ?cd"
    using EncodePayload_utf8 [of chunkJSON chunk, OF payloads_wf(1) [OF ok]]
    by (simp add: NewClipboardDataWithPayload_def sanitize_payload)
  have "clipboard_ints_ok ?cd"
    by (simp add: clipboard_ints_ok_def NewClipboardDataWithPayload_def zeroClipboard_def)
  then have "openMessage env x (deliveryBody d) = Some ?cd" if "e2eeKey x = e2eeKey a" for x
    using openMessage_body [OF assms(5), of x] assms(4,6) that san crypto_ok_key by metis
  then show ?thesis
    unfolding carries_def using read chunk_roundtrip [OF ok] s(2)
    by (intro exI [of _ chunk]) simp
qed

lemma single_chunk [simp]: "isSingleRouteClipboardType (cd_Type (NewClipboardDataWithPayload f TypeFileChunk c))"
  "isSingleRouteClipboardType (cd_Type (NewClipboardDataWithPayload g TypeFileComplete c'))"
  by (simp_all add: isSingleRouteClipboardType_def NewClipboardDataWithPayload_def)

text \<open>The deliveries of a run of chunks.\<close>

fun carry_all :: "Env \<Rightarrow> outgoingTransfer \<Rightarrow> string \<Rightarrow> App \<Rightarrow> Delivery list \<Rightarrow> int \<Rightarrow> bytes list \<Rightarrow> bool" where
  "carry_all env tr target a [] k [] = True"
| "carry_all env tr target a (d # ds) k (p # ps) =
     (carries env tr target a d k p \<and> carry_all env tr target a ds (k + 1) ps)"
| "carry_all env tr target a _ k _ = False"

lemma carries_key: "e2eeKey b = e2eeKey a \<Longrightarrow> carries env tr target b = carries env tr target a"
  by (simp add: carries_def fun_eq_iff)

lemma carry_all_key:
  assumes "e2eeKey b = e2eeKey a"
  shows "carry_all env tr target b ds k ps = carry_all env tr target a ds k ps"
proof -
  have c: "carries env tr target b = carries env tr target a" by (rule carries_key [OF assms])
  show ?thesis
  proof (induction ds arbitrary: k ps)
    case (Cons d ds)
    then show ?case using c by (cases ps) simp_all
  next
    case Nil
    then show ?case by (cases ps) simp_all
  qed
qed

lemma sendChunksFrom_carry:
  assumes "sendChunksFrom env tr target k rest a = (a', None)" "names_ok tr target" "crypto_ok env a"
    and "0 \<le> k" "k + int (length (pieces rest)) < 2 ^ 63"
  shows "\<exists>ds. app_outbox a' = app_outbox a @ ds \<and> carry_all env tr target a ds k (pieces rest) \<and>
     e2eeKey a' = e2eeKey a \<and> app_transfers a' = app_transfers a \<and> app_fs a' = app_fs a"
  using assms
proof (induction env tr target k rest a arbitrary: a' rule: sendChunksFrom.induct)
  case (1 env tr target k rest a)
  let ?raw = "take fileTransferChunkSize rest"
  show ?case
  proof (cases "rest = []")
    case True
    then have "a' = a" using "1.prems"(1) by (simp add: sendChunksFrom.simps)
    then show ?thesis using True by (intro exI [of _ "[]"]) simp
  next
    case False
    then have raw: "?raw \<noteq> []" by simp
    have ps: "pieces rest = ?raw # pieces (drop fileTransferChunkSize rest)"
      using False by (subst pieces.simps) simp
    obtain chunk where chunk: "makeChunk env a tr target k ?raw = Inr chunk"
      using "1.prems"(1) raw by (auto simp: sendChunksFrom.simps [of env tr target k rest] Let_def split: sum.splits)
    let ?cd = "NewClipboardDataWithPayload chunkJSON TypeFileChunk chunk"
    let ?a0 = "a\<lparr>app_randomNo := Suc (app_randomNo a)\<rparr>"
    obtain a1 where a1: "sendClipboardData env ?cd ?a0 = (a1, None)"
      using "1.prems"(1) raw chunk
      by (auto simp: sendChunksFrom.simps [of env tr target k rest] Let_def split: prod.splits option.splits)
    obtain body d where d: "messageBody env ?a0 ?cd = Inr body" "deliveryBody d = body"
      "a1 = ?a0\<lparr>app_randomNo := Suc (app_randomNo ?a0), app_sendNo := Suc (app_sendNo ?a0),
                app_outbox := app_outbox ?a0 @ [d]\<rparr>"
      using send_single_ok [OF _ a1] by auto
    have key: "e2eeKey a1 = e2eeKey a" unfolding d(3) by (simp add: e2eeKey_def)
    have same: "app_transfers a1 = app_transfers a" "app_fs a1 = app_fs a" "app_outbox a1 = app_outbox a @ [d]"
      unfolding d(3) by simp_all
    have "int64_range k" using "1.prems"(4,5) by (simp add: int64_range_def)
    then have c: "carries env tr target a d k ?raw"
      using makeChunk_carries [OF chunk "1.prems"(2) _ "1.prems"(3), of ?a0 d] d(1,2) by simp
    show ?thesis
    proof (cases "length ?raw < fileTransferChunkSize")
      case True
      then have "length rest < fileTransferChunkSize" by (simp add: min_def split: if_splits)
      then have "a' = a1" using "1.prems"(1) raw chunk a1 by (simp add: sendChunksFrom.simps [of env tr target k rest] Let_def)
      moreover have "pieces (drop fileTransferChunkSize rest) = []" using True by simp
      ultimately show ?thesis using same key c ps by (intro exI [of _ "[d]"]) simp
    next
      case more: False
      then have rec: "sendChunksFrom env tr target (k + 1) (drop fileTransferChunkSize rest) a1 = (a', None)"
        using "1.prems"(1) raw chunk a1 by (simp add: sendChunksFrom.simps [of env tr target k rest] Let_def)
      have "k + 1 + int (length (pieces (drop fileTransferChunkSize rest))) < 2 ^ 63"
        using "1.prems"(5) ps by simp
      then obtain ds where "app_outbox a' = app_outbox a1 @ ds"
        "carry_all env tr target a1 ds (k + 1) (pieces (drop fileTransferChunkSize rest))"
        "e2eeKey a' = e2eeKey a1" "app_transfers a' = app_transfers a1" "app_fs a' = app_fs a1"
        using "1.IH" [OF refl raw chunk a1 [symmetric] refl more rec "1.prems"(2)]
          "1.prems"(3,4) crypto_ok_key [OF key] by auto
      then show ?thesis
        using same key c ps carry_all_key [OF key] by (intro exI [of _ "d # ds"]) simp
    qed
  qed
qed

section \<open>Transfer messages in plain text as wire formats\<close>

text \<open>A payload inside a clipboard message of a type, and what a receiver of that type takes out of it.\<close>

definition carry :: "string \<Rightarrow> string \<Rightarrow> string" where
  "carry ty p = ClipboardData_Encode (zeroClipboard\<lparr>cd_Type := ty, cd_Payload := p\<rparr>)"

definition carried :: "string \<Rightarrow> string \<Rightarrow> string option" where
  "carried ty s =
     (case DecodeClipboardData s of
        Some cd \<Rightarrow> if cd_Type cd = ty then Some (cd_Payload cd) else None
      | None \<Rightarrow> None)"

lemma carried_carry:
  "utf8ok ty \<Longrightarrow> carried ty' (carry ty p) = (if ty = ty' then Some (toValidUTF8 p) else None)"
  by (simp add: carried_def carry_def decode_encode_clipboard clipboard_ints_ok_def sanitizeClipboard_def zeroClipboard_def)

interpretation chunk_body: codec_chain "EncodePayload chunkJSON" decodeChunk chunk_ok "carry TypeFileChunk" "carried TypeFileChunk" utf8ok
  by unfold_locales (simp_all add: carried_carry EncodePayload_utf8 payloads_wf)

interpretation complete_body: codec_chain "EncodePayload completeJSON" decodeComplete complete_ok "carry TypeFileComplete" "carried TypeFileComplete" utf8ok
  by unfold_locales (simp_all add: carried_carry EncodePayload_utf8 payloads_wf)

interpretation request_body: codec_chain "EncodePayload requestJSON" decodeRequest request_ok "carry TypeFileRequest" "carried TypeFileRequest" utf8ok
  by unfold_locales (simp_all add: carried_carry EncodePayload_utf8 payloads_wf)

lemma transfer_body: "ClipboardData_Encode (NewClipboardDataWithPayload toJSON ty x) = (carry ty \<circ> EncodePayload toJSON) x"
  by (simp add: carry_def NewClipboardDataWithPayload_def)

text \<open>The body of a transfer message determines it, and a chunk is never taken for the end of a transfer.\<close>

lemma transfer_bodies_determine:
  "chunk_ok c \<Longrightarrow> chunk_ok c' \<Longrightarrow> ClipboardData_Encode (NewClipboardDataWithPayload chunkJSON TypeFileChunk c) =
     ClipboardData_Encode (NewClipboardDataWithPayload chunkJSON TypeFileChunk c') \<longleftrightarrow> c = c'"
  "complete_ok f \<Longrightarrow> complete_ok f' \<Longrightarrow> ClipboardData_Encode (NewClipboardDataWithPayload completeJSON TypeFileComplete f) =
     ClipboardData_Encode (NewClipboardDataWithPayload completeJSON TypeFileComplete f') \<longleftrightarrow> f = f'"
  "request_ok r \<Longrightarrow> request_ok r' \<Longrightarrow> ClipboardData_Encode (NewClipboardDataWithPayload requestJSON TypeFileRequest r) =
     ClipboardData_Encode (NewClipboardDataWithPayload requestJSON TypeFileRequest r') \<longleftrightarrow> r = r'"
  "carried TypeFileComplete (ClipboardData_Encode (NewClipboardDataWithPayload chunkJSON TypeFileChunk c)) = None"
  unfolding transfer_body
  by (rule chunk_body.chained.same_code complete_body.chained.same_code request_body.chained.same_code; assumption)+
    (simp add: carried_carry, simp add: const_defs)

end
