(* ===== verification/Receive.thy ===== *)
theory Receive
  imports TransferWire
begin

text \<open>
  A message from the links: opening, the 500 ms suppression of duplicates, transfer messages, and the
  admission of clipboard content to the history (\<open>onReceive\<close> of \<open>application.go\<close>,
  \<open>receive_history.go\<close>).
\<close>

section \<open>Admission\<close>

datatype receiveAction =
    receiveActionIgnore | receiveActionAdmitHistory | receiveActionReuseHistory | receiveActionLegacyPaste

definition zeroItem :: HistoryItem where
  "zeroItem = \<lparr>item_ID = '''', item_Type = '''', item_State = StateOther '''', item_Kind = '''',
     item_DisplayName = '''', item_Payload = '''', item_PayloadType = '''', item_FileName = '''',
     item_SourceSessionID = '''', item_SourceDevice = '''', item_CreatedAt = 0, item_UpdatedAt = 0,
     item_TransferID = '''', item_LocalPaths = [], item_ReservedPaths = [], item_PendingReplayMode = '''',
     item_LastChunkIdx = 0, item_ErrorMessage = ''''\<rparr>"

definition classifyReceivedClipboardData ::
  "ClipboardData \<Rightarrow> gotime \<Rightarrow> receiveAction \<times> HistoryItem option" where
  "classifyReceivedClipboardData cd now =
     (let item = zeroItem\<lparr>item_Type := cd_Type cd, item_Payload := cd_Payload cd,
            item_FileName := cd_FileName cd, item_SourceSessionID := clipboardSourceSessionID cd,
            item_SourceDevice := ''remote'', item_CreatedAt := now, item_UpdatedAt := now,
            item_PendingReplayMode := ReplayModeNone\<rparr> in
      if cd_Type cd = TypeText then
        (receiveActionAdmitHistory, Some (item\<lparr>item_State := StateReady, item_PayloadType := TypeText\<rparr>))
      else if cd_Type cd = TypeImage then
        (receiveActionAdmitHistory, Some (item\<lparr>item_State := StateReady, item_PayloadType := TypeImage\<rparr>))
      else if cd_Type cd = TypeFileStub then
        (let plain = (receiveActionAdmitHistory,
                      Some (item\<lparr>item_State := StateOffered, item_LastChunkIdx := - 1\<rparr>)) in
         case decodeManifest (cd_Payload cd) of
           None \<Rightarrow> plain
         | Some m \<Rightarrow>
             if man_ProtocolVersion m > 0 \<and> man_TransferID m \<noteq> '''' then
               (receiveActionAdmitHistory,
                Some (item\<lparr>item_State := StateOffered, item_Kind := man_Kind m,
                  item_DisplayName := man_DisplayName m, item_TransferID := man_TransferID m,
                  item_SourceSessionID := man_SourceSessionID m,
                  item_SourceDevice := (if man_SourceDevice m = '''' then man_SourceSessionID m
                                        else man_SourceDevice m),
                  item_LastChunkIdx := - 1\<rparr>))
             else plain)
      else if cd_Type cd = TypeFileEager then (receiveActionLegacyPaste, None)
      else (receiveActionIgnore, None))"

definition isSameLocalEcho :: "App \<Rightarrow> HistoryItem \<Rightarrow> HistoryItem \<Rightarrow> bool" where
  "isSameLocalEcho a existing incoming =
     (if isLocalOriginItem a incoming then
        (if item_SourceSessionID incoming = '''' \<or> item_SourceSessionID existing = '''' then True
         else item_SourceSessionID incoming = item_SourceSessionID existing)
      else if \<not> isLocalOriginItem a existing then False
      else if item_CreatedAt incoming = 0 \<or> item_CreatedAt existing = 0 then False
      else (let d = item_CreatedAt incoming - item_CreatedAt existing in 0 \<le> d \<and> d \<le> 2 * 1000000000))"

definition echoOf :: "App \<Rightarrow> HistoryItem \<Rightarrow> HistoryItem \<Rightarrow> bool" where
  "echoOf a item existing \<longleftrightarrow>
     item_Type existing = item_Type item \<and> item_Payload existing = item_Payload item \<and>
     item_FileName existing = item_FileName item \<and> isSameLocalEcho a existing item"

definition reuseLocalEchoHistoryItem :: "HistoryItem \<Rightarrow> App \<Rightarrow> App \<times> bool" where
  "reuseLocalEchoHistoryItem item a =
     (if item_Type item = TypeFileStub then (a, False)
      else (case List.find (echoOf a item) (ListItems (app_history a)) of
              None \<Rightarrow> (a, False)
            | Some existing \<Rightarrow>
                (let a1 = setSharedClipboardHistoryItem (item_ID existing) a in
                 (if item_Type existing = TypeImage then setLastFileStubHistoryItem (item_ID existing) a1
                  else a1, True))))"

definition historyAddItem :: "Env \<Rightarrow> HistoryItem \<Rightarrow> App \<Rightarrow> App" where
  "historyAddItem env item a =
     a\<lparr>app_history := fst (AddItem (env_now env) (env_uuid env (app_randomNo a)) (Some item) (app_history a)),
       app_randomNo := Suc (app_randomNo a)\<rparr>"

text \<open>Pointing the shared clipboard at an item.\<close>

definition shareItem :: "(string \<Rightarrow> bool) \<Rightarrow> HistoryItem \<Rightarrow> App \<Rightarrow> App" where
  "shareItem lazyType it a =
     (let a1 = setSharedClipboardHistoryItem (item_ID it) a in
      if lazyType (item_Type it) then setLastFileStubHistoryItem (item_ID it) a1 else a1)"

text \<open>A file stub also registers the transfer it offers, or updates the one registered.\<close>

definition registerOffered :: "ClipboardData \<Rightarrow> App \<Rightarrow> App" where
  "registerOffered cd a =
     (if cd_Type cd \<noteq> TypeFileStub then a
      else (case decodeManifest (cd_Payload cd) of
              None \<Rightarrow> a
            | Some m \<Rightarrow>
                if man_TransferID m = '''' then a
                else (case GetByTransferID (man_TransferID m) (app_history a) of
                        None \<Rightarrow> a
                      | Some stored \<Rightarrow>
                          (case GetIncoming (man_TransferID m) a of
                             Some _ \<Rightarrow> updateIncoming (man_TransferID m)
                               (\<lambda>t. t\<lparr>in_Manifest := m,
                                      in_HistoryItemID := (if in_HistoryItemID t = '''' then item_ID stored
                                                           else in_HistoryItemID t)\<rparr>) a
                           | None \<Rightarrow> fst (RegisterIncoming m (item_ID stored) (item_LastChunkIdx stored) a)))))"

definition admitReceivedClipboardData :: "Env \<Rightarrow> ClipboardData \<Rightarrow> App \<Rightarrow> App \<times> receiveAction" where
  "admitReceivedClipboardData env cd a =
     (case classifyReceivedClipboardData cd (env_now env) of
        (action, None) \<Rightarrow> (a, action)
      | (action, Some item) \<Rightarrow>
          if action \<noteq> receiveActionAdmitHistory then (a, action)
          else
            (case reuseLocalEchoHistoryItem item a of
               (a1, True) \<Rightarrow> (a1, receiveActionReuseHistory)
             | (a1, False) \<Rightarrow>
                 (let existing = GetByTransferID (item_TransferID item) (app_history a1);
                      a2 = (case existing of
                              Some ex \<Rightarrow> shareItem (\<lambda>t. t = TypeFileStub) ex a1
                            | None \<Rightarrow>
                                (let b = historyAddItem env item a1; lz = (\<lambda>t. t = TypeFileStub \<or> t = TypeImage) in
                                 case GetByTransferID (item_TransferID item) (app_history b) of
                                   Some stored \<Rightarrow> shareItem lz stored b
                                 | None \<Rightarrow>
                                     (case GetActive (app_history b) of
                                        Some latest \<Rightarrow> shareItem lz latest b | None \<Rightarrow> b)))
                  in (registerOffered cd a2, receiveActionAdmitHistory))))"

section \<open>A body arrives\<close>

definition recvHash :: "Env \<Rightarrow> ClipboardData \<Rightarrow> string" where
  "recvHash env cd = sha256hex env (cd_Type cd @ cd_Payload cd)"

definition dispatchReceived :: "Env \<Rightarrow> ClipboardData \<Rightarrow> App \<Rightarrow> App" where
  "dispatchReceived env cd a =
     (case handleFileTransferMessage env cd a of
        (a1, True, _) \<Rightarrow> a1
      | (a1, False, _) \<Rightarrow>
          (case admitReceivedClipboardData env cd a1 of
             (a2, receiveActionReuseHistory) \<Rightarrow> a2
           | (a2, receiveActionAdmitHistory) \<Rightarrow>
               if shouldWriteReceivedClipboardToSystem a2 cd
               then fst (appPasteClipboardPayload env (cd_Payload cd) (cd_Type cd) (cd_FileName cd) a2)
               else a2
           | (a2, receiveActionLegacyPaste) \<Rightarrow> fst (writeClipboardPayloadIfAllowed env IncomingLegacy cd a2)
           | (a2, receiveActionIgnore) \<Rightarrow> a2))"

definition onReceive :: "Env \<Rightarrow> string \<Rightarrow> App \<Rightarrow> App" where
  "onReceive env body a =
     (case openMessage env a body of
        None \<Rightarrow> a
      | Some cd \<Rightarrow>
          if app_lastRecvHash a = recvHash env cd \<and> env_now env - app_lastRecvTime a < 500 * 1000000 then a
          else dispatchReceived env cd
                 (a\<lparr>app_lastRecvHash := recvHash env cd, app_lastRecvTime := env_now env\<rparr>))"

end
