(* ===== verification/Samples.thy ===== *)
theory Samples
  imports Receive
begin

text \<open>
  Concrete applications, environments and transfers at which the properties of the client are applied: a
  client without encryption, with a peer on its links and a disk without faults.
\<close>

definition sampleConfig :: Config where
  "sampleConfig = \<lparr>cfg_ServerURL = ''http://h'', cfg_Username = ''u'', cfg_Password = ''p'', cfg_PasswordEncrypted = '''',
     cfg_E2EEEnabled = False, cfg_P2PEnabled = True, cfg_StunURL = '''', cfg_AutoReconnect = True,
     cfg_ReconnectDelay = 5, cfg_FileMemoryThresholdMiB = 1024, cfg_WebPort = 6666, cfg_WebPassword = '''',
     cfg_WebPasswordEncrypted = '''', cfg_FilePath = '''', cfg_LegacyPassword = ''''\<rparr>"

definition sampleApp :: "string \<Rightarrow> App" where
  "sampleApp sid =
     \<lparr>app_cfg = sampleConfig, app_encKey = None, app_hasP2P = True, app_hasStomp = False, app_hasClip = True,
      app_sessionID = sid, app_history = NewManager 20,
      app_transfers = newTransferManager [sid] ''u'', app_fs = Map.empty, app_sharedID = '''',
      app_lastFileStubID = '''', app_lastRecvHash = '''', app_lastRecvTime = 0, app_lastMonitorSendHash = '''',
      app_lastMonitorSendTime = 0, app_replayWriteType = '''', app_replayWritePayload = '''',
      app_replayWriteTime = 0, app_reconnecting = False, app_outbox = [], app_clipWrites = [], app_tasks = [],
      app_sendNo = 0, app_randomNo = 0\<rparr>"

definition samplePaths :: PathEnv where
  "samplePaths = \<lparr>pe_cwd = ''/w'', pe_tmp = ''/t'', pe_mkdirAll = (\<lambda>_. None), pe_now = 7, pe_stamp = (\<lambda>_. ''20240101000000'')\<rparr>"

definition sampleEnv :: Env where
  "sampleEnv =
     \<lparr>env_paths = samplePaths, env_faults = noFaults, env_gcm = plainGcm, env_sha256 = (\<lambda>b. [of_nat (length b)]),
      env_nonce = (\<lambda>_. Some ''n''), env_tempSuffix = (\<lambda>n. ''1''), env_uuid = (\<lambda>n. ''id'' @ replicate n (CHR ''x'')),
      env_link = (\<lambda>_. \<lparr>link_p2pPeers = 1, link_stompConnected = False, link_stompErr = None\<rparr>),
      env_readyPeers = 1, env_source = (\<lambda>_. TFile 1 (Inr ''A'')),
      env_zipWrite = (\<lambda>es. concat (List.map_filter snd es)),
      env_zipRead = (\<lambda>b. Inr []), env_diskSpace = (\<lambda>_. Inr 1000000), env_clipErr = (\<lambda>_. None)\<rparr>"

definition sampleManifest :: "string \<Rightarrow> FileStubManifest" where
  "sampleManifest tid =
     \<lparr>man_ProtocolVersion = 1, man_EntryID = tid, man_TransferID = tid, man_SourceSessionID = ''s'',
      man_SourceDevice = '''', man_Kind = FileKindSingleFile, man_ArchiveFormat = ''raw'',
      man_DisplayName = ''f.txt'', man_EntryCount = 1, man_TopLevelNames = [''f.txt''], man_EstimatedTotalBytes = 1\<rparr>"

definition sampleOutgoing :: outgoingTransfer where
  "sampleOutgoing =
     \<lparr>out_Manifest = sampleManifest ''t1'', out_SourcePaths = [''/src/f.txt''],
      out_ArchiveMode = transferArchiveModeMemory, out_ArchiveBytes = ''A'', out_BaseDir = '''',
      out_ArchivePath = '''', out_ArchiveSHA256 = ''01'', out_ArchiveSize = 1, out_ChunkCount = 1,
      out_cleanupTimer = None, out_cleanupGen = 0, out_SourceSignature = '''', out_sendingTargets = []\<rparr>"

definition sampleIncoming :: incomingTransfer where
  "sampleIncoming = newIncoming (sampleManifest ''t1'') ''i1'' (- 1)"

definition sampleReceiver :: App where
  "sampleReceiver = setIncoming ''t1'' sampleIncoming (sampleApp ''r'')"

lemma sample_keys [simp]:
  "e2eeKey (sampleApp s) = None" "e2eeKey sampleReceiver = None" "s \<noteq> '''' \<Longrightarrow> appSessionID (sampleApp s) = s"
  "appSessionID sampleReceiver = ''r'' " "app_lastRecvHash sampleReceiver = ''''"
  "app_lastRecvHash (sampleApp s) = ''''" "app_hasP2P (sampleApp s)" "app_fs (sampleApp s) = Map.empty"
  "app_fs sampleReceiver = Map.empty"
  by (simp_all add: sampleApp_def sampleReceiver_def e2eeKey_def sampleConfig_def appSessionID_def SessionID_def
      newTransferManager_def setIncoming_def)

lemma sampleEnv_simps [simp]:
  "env_faults sampleEnv = noFaults" "env_gcm sampleEnv = plainGcm" "env_paths sampleEnv = samplePaths"
  "env_sha256 sampleEnv b = [of_nat (length b)]" "link_p2pPeers (env_link sampleEnv n) = 1"
  "env_tempSuffix sampleEnv n = ''1''" "env_clipErr sampleEnv w = None"
  by (simp_all add: sampleEnv_def)

end
