(* ===== verification/TransferDelivery.thy ===== *)
theory TransferDelivery
  imports Receive Samples
begin

text \<open>
  End-to-end delivery of an archive: what \<open>sendArchiveChunks\<close> puts on the links, taken in order by
  \<open>onReceive\<close> of the target, is held by the receiver byte for byte and passes the digest and size checks
  of completion; and a raw file then lies at its reserved path.
\<close>

section \<open>Two ends of a link\<close>

text \<open>Environments of different steps and machines that share AES-GCM, SHA-256 and a disk that behaves alike.\<close>

definition same_world :: "Env \<Rightarrow> Env \<Rightarrow> bool" where
  "same_world env e \<longleftrightarrow>
     env_gcm e = env_gcm env \<and> env_sha256 e = env_sha256 env \<and> env_faults e = env_faults env"

lemma same_world_fields:
  assumes "same_world env e"
  shows "env_gcm e = env_gcm env" "env_sha256 e = env_sha256 env" "env_faults e = env_faults env"
  using assms by (simp_all add: same_world_def)

lemma same_world_simps:
  assumes "same_world env e"
  shows "openMessage e a body = openMessage env a body" "sha256hex e b = sha256hex env b"
    "decodeChunkData e a c = decodeChunkData env a c" "reads_as e a c raw = reads_as env a c raw"
    "disk_ok e p fs = disk_ok env p fs" "receiving e fs t mode n b = receiving env fs t mode n b"
    "stored_at e tid mode n b m cg a = stored_at env tid mode n b m cg a" "recvHash e cd = recvHash env cd"
  by (simp_all only: openMessage_def sha256hex_def decodeChunkData_def reads_as_def disk_ok_def receiving_def
      stored_at_def recvHash_def same_world_fields [OF assms])

definition receiveRun :: "(Env \<times> string) list \<Rightarrow> App \<Rightarrow> App" where
  "receiveRun ms a = fold (\<lambda>(e, body) b. onReceive e body b) ms a"

lemma receiveRun_simps [simp]:
  "receiveRun [] a = a" "receiveRun ((e, body) # ms) a = receiveRun ms (onReceive e body a)"
  by (simp_all add: receiveRun_def)

text \<open>The text \<open>onReceive\<close> hashes to drop a repeated message.\<close>

definition messageText :: "Env \<Rightarrow> App \<Rightarrow> string \<Rightarrow> string" where
  "messageText env a body = (case openMessage env a body of Some cd \<Rightarrow> cd_Type cd @ cd_Payload cd | None \<Rightarrow> [])"

lemma openMessage_key: "e2eeKey b = e2eeKey a \<Longrightarrow> openMessage env b = openMessage env a"
  by (simp add: openMessage_def fun_eq_iff)

lemma new_payload [simp]: "cd_Type (NewClipboardDataWithPayload f t x) = t"
  "cd_Payload (NewClipboardDataWithPayload f t x) = EncodePayload f x"
  by (simp_all add: NewClipboardDataWithPayload_def)

lemma file_types_neq [simp]:
  "TypeFileChunk \<noteq> TypeFileRequest" "TypeFileComplete \<noteq> TypeFileRequest" "TypeFileComplete \<noteq> TypeFileChunk"
  by (simp_all add: payload_type_defs)

lemma stored_at_frame:
  "stored_at env tid mode n b m c (a\<lparr>app_lastRecvHash := h, app_lastRecvTime := x\<rparr>) = stored_at env tid mode n b m c a"
  "GetIncoming tid (a\<lparr>app_lastRecvHash := h, app_lastRecvTime := x\<rparr>) = GetIncoming tid a"
  "temp_ok env tid (a\<lparr>app_lastRecvHash := h, app_lastRecvTime := x\<rparr>) = temp_ok env tid a"
  "e2eeKey (a\<lparr>app_lastRecvHash := h, app_lastRecvTime := x\<rparr>) = e2eeKey a"
  "appSessionID (a\<lparr>app_lastRecvHash := h, app_lastRecvTime := x\<rparr>) = appSessionID a"
  by (simp_all add: stored_at_def GetIncoming_def temp_ok_def tempDirFor_def e2eeKey_def appSessionID_def)

lemma onReceive_chunk:
  assumes "openMessage env a body = Some (NewClipboardDataWithPayload chunkJSON TypeFileChunk chunk)"
    and "same_world env e" "app_lastRecvHash a \<noteq> sha256hex env (messageText env a body)"
    and "decodeChunk (EncodePayload chunkJSON chunk) = Some chunk" "chk_TargetSessionID chunk = appSessionID a"
  shows "onReceive e body a = fst (handleFileChunk e chunk
     (a\<lparr>app_lastRecvHash := sha256hex env (messageText env a body), app_lastRecvTime := env_now e\<rparr>))"
proof -
  let ?cd = "NewClipboardDataWithPayload chunkJSON TypeFileChunk chunk"
  let ?h = "sha256hex env (messageText env a body)"
  let ?a0 = "a\<lparr>app_lastRecvHash := ?h, app_lastRecvTime := env_now e\<rparr>"
  have open1: "openMessage e a body = Some ?cd" using assms(1) same_world_simps(1) [OF assms(2)] by simp
  have hash: "recvHash e ?cd = ?h"
    using same_world_simps(2) [OF assms(2)] assms(1) by (simp add: recvHash_def messageText_def)
  have "onReceive e body a = dispatchReceived e ?cd ?a0"
    using assms(3) open1 hash by (simp add: onReceive_def)
  also have "\<dots> = fst (handleFileChunk e chunk ?a0)"
    using assms(4,5) stored_at_frame(5) [where a = a and h = ?h and x = "env_now e"]
    by (simp add: dispatchReceived_def handleFileTransferMessage_def split: prod.splits)
  finally show ?thesis .
qed

text \<open>No two messages in a row have the same digest, starting from the last one received.\<close>

fun fresh_run :: "string \<Rightarrow> string list \<Rightarrow> bool" where
  "fresh_run h [] = True"
| "fresh_run h (x # xs) = (h \<noteq> x \<and> fresh_run x xs)"

lemma carries_chunk:
  assumes "carries env tr target s d k raw" "e2eeKey a = e2eeKey s" "same_world env e"
    and "app_lastRecvHash a \<noteq> sha256hex env (messageText env a (deliveryBody d))" "appSessionID a = target"
  shows "\<exists>chunk. onReceive e (deliveryBody d) a = fst (handleFileChunk e chunk
       (a\<lparr>app_lastRecvHash := sha256hex env (messageText env a (deliveryBody d)), app_lastRecvTime := env_now e\<rparr>)) \<and>
     (\<forall>b. e2eeKey b = e2eeKey s \<longrightarrow> reads_as e b chunk raw) \<and>
     chk_TransferID chunk = man_TransferID (out_Manifest tr) \<and>
     chk_ArchiveMode chunk = archiveModeString (out_ArchiveMode tr) \<and> chk_ChunkIndex chunk = k"
proof -
  obtain chunk where c: "\<forall>b. e2eeKey b = e2eeKey s \<longrightarrow> openMessage env b (deliveryBody d) =
        Some (NewClipboardDataWithPayload chunkJSON TypeFileChunk chunk) \<and> reads_as env b chunk raw"
    "decodeChunk (EncodePayload chunkJSON chunk) = Some chunk"
    "chk_TransferID chunk = man_TransferID (out_Manifest tr)" "chk_TargetSessionID chunk = target"
    "chk_ArchiveMode chunk = archiveModeString (out_ArchiveMode tr)" "chk_ChunkIndex chunk = k"
    using assms(1) unfolding carries_def by blast
  have "openMessage env a (deliveryBody d) = Some (NewClipboardDataWithPayload chunkJSON TypeFileChunk chunk)"
    using c(1) assms(2) by blast
  moreover have "chk_TargetSessionID chunk = appSessionID a" using c(4) assms(5) by simp
  ultimately have "onReceive e (deliveryBody d) a = fst (handleFileChunk e chunk
       (a\<lparr>app_lastRecvHash := sha256hex env (messageText env a (deliveryBody d)), app_lastRecvTime := env_now e\<rparr>))"
    by (rule onReceive_chunk [OF _ assms(3,4) c(2)])
  moreover have "\<forall>b. e2eeKey b = e2eeKey s \<longrightarrow> reads_as e b chunk raw"
    using c(1) same_world_simps(4) [OF assms(3)] by blast
  ultimately show ?thesis using c(3,5,6) by blast
qed

section \<open>The chunks after the first\<close>

lemma receive_rest:
  assumes "carry_all env tr target s ds (int n) ps" "length es = length ds" "list_all (same_world env) es"
    and "stored_at env (man_TransferID (out_Manifest tr)) (archiveModeString (out_ArchiveMode tr)) n b m c a"
    and "0 < n" "e2eeKey a = e2eeKey s" "appSessionID a = target"
    and "fresh_run (app_lastRecvHash a) (map (\<lambda>d. sha256hex env (messageText env s (deliveryBody d))) ds)"
  shows "stored_at env (man_TransferID (out_Manifest tr)) (archiveModeString (out_ArchiveMode tr))
      (n + length ps) (b @ concat ps) m c (receiveRun (zip es (map deliveryBody ds)) a) \<and>
    e2eeKey (receiveRun (zip es (map deliveryBody ds)) a) = e2eeKey s \<and>
    appSessionID (receiveRun (zip es (map deliveryBody ds)) a) = target"
  using assms
proof (induction ds arbitrary: es ps n b a)
  case Nil
  then show ?case by (cases ps) simp_all
next
  case (Cons d ds)
  obtain p ps' where ps: "ps = p # ps'" using Cons.prems(1) by (cases ps) auto
  obtain e es' where es: "es = e # es'" "same_world env e" using Cons.prems(2,3) by (cases es) auto
  let ?h = "sha256hex env (messageText env s (deliveryBody d))"
  let ?a0 = "a\<lparr>app_lastRecvHash := ?h, app_lastRecvTime := env_now e\<rparr>"
  let ?tid = "man_TransferID (out_Manifest tr)" and ?mode = "archiveModeString (out_ArchiveMode tr)"
  have mt: "messageText env a x = messageText env s x" for x
    by (simp add: messageText_def openMessage_key [OF Cons.prems(6)])
  obtain chunk where c: "onReceive e (deliveryBody d) a = fst (handleFileChunk e chunk ?a0)"
    "\<forall>b. e2eeKey b = e2eeKey s \<longrightarrow> reads_as e b chunk p" "chk_TransferID chunk = ?tid"
    "chk_ArchiveMode chunk = ?mode" "chk_ChunkIndex chunk = int n"
    using carries_chunk [of env tr target s d "int n" p a e] Cons.prems es(2) ps by (auto simp: mt)
  have "\<exists>a'. handleFileChunk e chunk ?a0 = (a', None) \<and> stored_at e ?tid ?mode (Suc n) (b @ p) m c a' \<and>
     same_peer ?a0 a'"
    by (rule handleFileChunk_next)
      (use Cons.prems(4,5,6) c same_world_simps(7) [OF es(2)] in \<open>auto simp: stored_at_frame\<close>)
  then obtain a' where a': "onReceive e (deliveryBody d) a = a'" "stored_at env ?tid ?mode (Suc n) (b @ p) m c a'"
    "same_peer ?a0 a'"
    using c(1) same_world_simps(7) [OF es(2)] by auto
  have peer: "e2eeKey a' = e2eeKey s" "appSessionID a' = target" "app_lastRecvHash a' = ?h"
    using a'(3) Cons.prems(6,7) by (simp_all add: same_peer_def stored_at_frame)
  have "carry_all env tr target s ds (int (Suc n)) ps'" using Cons.prems(1) ps by (simp add: add.commute)
  from Cons.IH [OF this _ _ a'(2) _ peer(1,2)] show ?case
    using Cons.prems(2,3,8) es(1) peer(3) ps a'(1) by simp
qed

text \<open>A receiver that waits for a transfer from its start.\<close>

definition awaiting :: "string \<Rightarrow> incomingTransfer \<Rightarrow> App \<Rightarrow> bool" where
  "awaiting tid t a \<longleftrightarrow>
     GetIncoming tid a = Some t \<and> \<not> in_Completed t \<and> in_BaseDir t = '''' \<and> in_ArchivePath t = '''' \<and>
     in_LastChunkIdx t = - 1"

lemma receive_all:
  assumes "carry_all env tr target s ds 0 (pieces B)" "B \<noteq> []" "length es = length ds"
    and "list_all (same_world env) es"
    and "awaiting (man_TransferID (out_Manifest tr)) t a"
    and "temp_ok (hd es) (man_TransferID (out_Manifest tr)) a"
    and "e2eeKey a = e2eeKey s" "appSessionID a = target"
    and "fresh_run (app_lastRecvHash a) (map (\<lambda>d. sha256hex env (messageText env s (deliveryBody d))) ds)"
  shows "stored_at env (man_TransferID (out_Manifest tr)) (archiveModeString (out_ArchiveMode tr))
      (length (pieces B)) B (in_Manifest t) (in_Completing t) (receiveRun (zip es (map deliveryBody ds)) a) \<and>
    e2eeKey (receiveRun (zip es (map deliveryBody ds)) a) = e2eeKey s \<and>
    appSessionID (receiveRun (zip es (map deliveryBody ds)) a) = target"
proof -
  obtain p ps where ps: "pieces B = p # ps" using assms(2) by (cases "pieces B") auto
  obtain d ds' where ds: "ds = d # ds'" using assms(1) ps by (cases ds) auto
  obtain e es' where es: "es = e # es'" "same_world env e" using assms(3,4) ds by (cases es) auto
  let ?h = "sha256hex env (messageText env s (deliveryBody d))"
  let ?a0 = "a\<lparr>app_lastRecvHash := ?h, app_lastRecvTime := env_now e\<rparr>"
  let ?tid = "man_TransferID (out_Manifest tr)" and ?mode = "archiveModeString (out_ArchiveMode tr)"
  have mt: "messageText env a x = messageText env s x" for x
    by (simp add: messageText_def openMessage_key [OF assms(7)])
  obtain chunk where c: "onReceive e (deliveryBody d) a = fst (handleFileChunk e chunk ?a0)"
    "\<forall>b. e2eeKey b = e2eeKey s \<longrightarrow> reads_as e b chunk p" "chk_TransferID chunk = ?tid"
    "chk_ArchiveMode chunk = ?mode" "chk_ChunkIndex chunk = 0"
    using carries_chunk [of env tr target s d 0 p a e] assms ps ds es(2) by (auto simp: mt)
  have "\<exists>a'. handleFileChunk e chunk ?a0 = (a', None) \<and>
     stored_at e ?tid (chk_ArchiveMode chunk) 1 p (in_Manifest t) (in_Completing t) a' \<and> same_peer ?a0 a'"
    by (rule handleFileChunk_first)
      (use assms(5,6,7) c es in \<open>auto simp: awaiting_def stored_at_frame\<close>)
  then obtain a' where a': "onReceive e (deliveryBody d) a = a'"
    "stored_at env ?tid ?mode 1 p (in_Manifest t) (in_Completing t) a'" "same_peer ?a0 a'"
    using c(1,4) same_world_simps(7) [OF es(2)] by auto
  have peer: "e2eeKey a' = e2eeKey s" "appSessionID a' = target" "app_lastRecvHash a' = ?h"
    using a'(3) assms(7,8) by (simp_all add: same_peer_def stored_at_frame)
  have "carry_all env tr target s ds' (int 1) ps" using assms(1) ps ds by simp
  from receive_rest [OF this _ _ a'(2) _ peer(1,2)] have
    "stored_at env ?tid ?mode (1 + length ps) (p @ concat ps) (in_Manifest t) (in_Completing t)
       (receiveRun (zip es' (map deliveryBody ds')) a') \<and>
     e2eeKey (receiveRun (zip es' (map deliveryBody ds')) a') = e2eeKey s \<and>
     appSessionID (receiveRun (zip es' (map deliveryBody ds')) a') = target"
    using assms(3,4,9) es ds peer(3) by simp
  moreover have "p @ concat ps = B" using concat_pieces [of B] ps by simp
  ultimately show ?thesis using es ds ps a'(1) by simp
qed

section \<open>Delivery of an archive\<close>

lemma stored_archive:
  assumes "receiving env fs t mode n B" "B \<noteq> []"
  shows "incomingArchiveSHA256 env fs t = Inr (sha256hex env B, int (length B))"
proof (cases "in_StorageMode t = transferArchiveModeMemory")
  case True
  then show ?thesis using assms by (simp add: receiving_def heldBytes_def incomingArchiveSHA256_def)
next
  case False
  have r: "in_ArchiveBytes t = []" "in_ArchivePath t \<noteq> ''''" "disk_ok env (in_ArchivePath t) fs"
    "fileBytes fs (in_ArchivePath t) = B"
    using assms False by (auto simp: receiving_def storage_ok_def heldBytes_def spillPath_def)
  have "fs (in_ArchivePath t) = Some (NFile B)"
    using r(4) assms(2) by (auto simp: fileBytes_def split: option.splits node.splits)
  then show ?thesis
    using r by (simp add: incomingArchiveSHA256_def fileSHA256_def os_ReadFile_def disk_ok_def)
qed

lemma stored_verified:
  assumes "receiving env (app_fs a) t mode n B" "B \<noteq> []"
  shows "verifyArchive env c t a =
    (if cmp_ArchiveSHA256 c \<noteq> sha256hex env B then Inl ''archive sha256 mismatch''
     else if cmp_ActualTotalBytes c \<noteq> int (length B) then Inl ''archive size mismatch''
     else Inr (sha256hex env B, int (length B)))"
  using stored_archive [OF assms] by (simp add: verifyArchive_def)

text \<open>C2: An archive is delivered whole. Let a sender put all chunks of an archive on its links without an
  error, and let the target, which holds the same key and waits for this transfer, take those messages in
  order. Then the target holds exactly the bytes of the archive, whatever mixture of memory and disk its
  threshold made it use, has counted every chunk, and its check on completion accepts the digest and size of
  the archive and no other. AES-GCM opens what it sealed, the disk takes what is written, and no two
  messages in a row have the same digest.\<close>
theorem archive_delivered:
  fixes s :: App
  assumes sent: "sendArchiveChunks env tr target 0 s = (s', None)"
    and arch: "archiveChunkReader env s tr 0 = Inr B" "B \<noteq> []" "length (pieces B) < 2 ^ 63"
    and ok: "names_ok tr target" "crypto_ok env s"
    and wait: "awaiting (man_TransferID (out_Manifest tr)) t a" "e2eeKey a = e2eeKey s" "appSessionID a = target"
    and ds: "ds = drop (length (app_outbox s)) (app_outbox s')"
    and es: "length es = length ds" "list_all (same_world env) es"
      "temp_ok (hd es) (man_TransferID (out_Manifest tr)) a"
    and fresh: "fresh_run (app_lastRecvHash a) (map (\<lambda>d. sha256hex env (messageText env s (deliveryBody d))) ds)"
  shows "\<exists>t' a'. receiveRun (zip es (map deliveryBody ds)) a = a' \<and>
    GetIncoming (man_TransferID (out_Manifest tr)) a' = Some t' \<and> heldBytes (app_fs a') t' = B \<and>
    in_LastChunkIdx t' = int (length (pieces B)) - 1 \<and> in_Manifest t' = in_Manifest t \<and>
    (\<forall>c. verifyArchive env c t' a' =
      (if cmp_ArchiveSHA256 c \<noteq> sha256hex env B then Inl ''archive sha256 mismatch''
       else if cmp_ActualTotalBytes c \<noteq> int (length B) then Inl ''archive size mismatch''
       else Inr (sha256hex env B, int (length B))))"
proof -
  have "sendChunksFrom env tr target 0 B s = (s', None)"
    using sent arch(1) by (simp add: sendArchiveChunks_def)
  then obtain ds' where "app_outbox s' = app_outbox s @ ds'" "carry_all env tr target s ds' 0 (pieces B)"
    using sendChunksFrom_carry [of env tr target 0 B s s'] ok arch(3) by auto
  then have "carry_all env tr target s ds 0 (pieces B)" using ds by simp
  then have "stored_at env (man_TransferID (out_Manifest tr)) (archiveModeString (out_ArchiveMode tr))
      (length (pieces B)) B (in_Manifest t) (in_Completing t) (receiveRun (zip es (map deliveryBody ds)) a)"
    using receive_all [OF _ arch(2) es(1,2) wait(1) es(3) wait(2,3) fresh] by blast
  then obtain t' where t': "GetIncoming (man_TransferID (out_Manifest tr)) (receiveRun (zip es (map deliveryBody ds)) a) = Some t'"
    "receiving env (app_fs (receiveRun (zip es (map deliveryBody ds)) a)) t' (archiveModeString (out_ArchiveMode tr)) (length (pieces B)) B"
    "in_Manifest t' = in_Manifest t"
    unfolding stored_at_def by blast
  have "heldBytes (app_fs (receiveRun (zip es (map deliveryBody ds)) a)) t' = B"
    "in_LastChunkIdx t' = int (length (pieces B)) - 1"
    using t'(2) by (simp_all add: receiving_def)
  then show ?thesis using t' stored_verified [OF t'(2) arch(2)] by blast
qed

theorem archive_delivered_witness:
  "\<exists>ds es t' a'. receiveRun (zip es (map deliveryBody ds)) sampleReceiver = a' \<and>
     GetIncoming ''t1'' a' = Some t' \<and> heldBytes (app_fs a') t' = ''A''"
proof -
  let ?s = "sampleApp ''s''"
  let ?p = "sendArchiveChunks sampleEnv sampleOutgoing ''r'' 0 ?s"
  let ?ds = "drop (length (app_outbox ?s)) (app_outbox (fst ?p))"
  have small: "length ''A'' < fileTransferChunkSize" by (simp add: fileTransferChunkSize_def)
  have read: "archiveChunkReader sampleEnv ?s sampleOutgoing 0 = Inr ''A''"
    by (simp add: archiveChunkReader_def sampleOutgoing_def)
  have one: "take fileTransferChunkSize ''A'' = ''A''" using small by simp
  obtain c where c: "makeChunk sampleEnv ?s sampleOutgoing ''r'' 0 ''A'' = Inr c"
    by (simp add: makeChunk_def encodeChunk_def)
  let ?cd = "NewClipboardDataWithPayload chunkJSON TypeFileChunk c"
  let ?s0 = "?s\<lparr>app_randomNo := Suc (app_randomNo ?s)\<rparr>"
  have body: "messageBody sampleEnv ?s0 ?cd = Inr (ClipboardData_Encode ?cd)"
    by (simp add: messageBody_def)
  have single: "isSingleRouteClipboardType TypeFileChunk" by (simp add: isSingleRouteClipboardType_def)
  have sent: "snd (sendClipboardData sampleEnv ?cd ?s0) = None"
    by (simp add: sendClipboardData_def sendClipboardDataWithResult_def body Let_def
        dispatchClipboardBodySingleRoute_def single)
  then obtain s1 where s1: "sendClipboardData sampleEnv ?cd ?s0 = (s1, None)" by (cases "sendClipboardData sampleEnv ?cd ?s0") auto
  have run: "?p = (s1, None)"
    using small s1 c read by (simp add: sendArchiveChunks_def sendChunksFrom.simps [of _ _ _ _ "''A''"] one Let_def)
  obtain d where d: "s1 = ?s0\<lparr>app_randomNo := Suc (app_randomNo ?s0), app_sendNo := Suc (app_sendNo ?s0),
      app_outbox := app_outbox ?s0 @ [d]\<rparr>"
    using send_single_ok [OF single_chunk(1) s1] by blast
  have ds: "?ds = [d]" using run d by (simp add: sampleApp_def)
  have names: "names_ok sampleOutgoing ''r''"
    by (simp add: names_ok_def sampleOutgoing_def sampleManifest_def int64_range_def) (simp add: ascii_toValidUTF8 asciiStr_def)
  have wait: "awaiting (man_TransferID (out_Manifest sampleOutgoing)) sampleIncoming sampleReceiver"
    by (simp add: awaiting_def sampleReceiver_def sampleOutgoing_def sampleManifest_def)
      (simp add: sampleIncoming_def newIncoming_def)
  have dir: "tempDirFor sampleEnv ''t1'' sampleReceiver = ''/t/clipcascade-transfer-t1-1''"
    by (simp add: tempDirFor_def) code_simp
  have paths: "ancestors ''/t/clipcascade-transfer-t1-1'' = [''/'', ''/t'', ''/t/clipcascade-transfer-t1-1'']"
    "JoinPath [''/t/clipcascade-transfer-t1-1'', fileTransferRawPayload] = ''/t/clipcascade-transfer-t1-1/payload.bin''"
    "JoinPath [''/t/clipcascade-transfer-t1-1'', fileTransferArchive] = ''/t/clipcascade-transfer-t1-1/payload.zip''"
    by code_simp+
  have tmp: "temp_ok sampleEnv (man_TransferID (out_Manifest sampleOutgoing)) sampleReceiver"
    by (simp add: sampleOutgoing_def sampleManifest_def temp_ok_def dir disk_ok_def makeDirs_def
        transferPayloadTempName_def paths)
  have "\<exists>t' a'. receiveRun (zip [sampleEnv] (map deliveryBody [d])) sampleReceiver = a' \<and>
    GetIncoming (man_TransferID (out_Manifest sampleOutgoing)) a' = Some t' \<and> heldBytes (app_fs a') t' = ''A'' \<and>
    in_LastChunkIdx t' = int (length (pieces ''A'')) - 1 \<and> in_Manifest t' = in_Manifest sampleIncoming \<and>
    (\<forall>c. verifyArchive sampleEnv c t' a' =
      (if cmp_ArchiveSHA256 c \<noteq> sha256hex sampleEnv ''A'' then Inl ''archive sha256 mismatch''
       else if cmp_ActualTotalBytes c \<noteq> int (length ''A'') then Inl ''archive size mismatch''
       else Inr (sha256hex sampleEnv ''A'', int (length ''A''))))"
    by (rule archive_delivered [where tr = sampleOutgoing and target = "''r''" and s = "sampleApp ''s''" and s' = s1])
      (use run read names wait tmp ds pieces_short [OF _ small] in
        \<open>simp_all add: crypto_ok_def same_world_def sha256hex_def hexBytes_def hexByte_def\<close>)
  then show ?thesis unfolding sampleOutgoing_def sampleManifest_def by (simp only: outgoingTransfer.simps FileStubManifest.simps) blast
qed

end
