(* ===== verification/TransferRules.thy ===== *)
theory TransferRules
  imports TransferDelivery
begin

text \<open>
  What the transfer handlers guarantee step by step: which chunks change the archive a receiver holds, where
  the bytes of a completed raw transfer end up, what the clean-up timers may wipe, and how messages choose
  their links.
\<close>

section \<open>Only the expected, verified chunk changes the archive\<close>

lemma openIncoming_open:
  assumes "in_BaseDir t \<noteq> ''''" "in_StorageMode t \<noteq> ''''"
  shows "\<exists>t1. openIncoming env chunk t a = (t1, a, None) \<and> spillPath t1 = spillPath t \<and>
     heldBytes fs t1 = heldBytes fs t \<and> in_LastChunkIdx t1 = in_LastChunkIdx t \<and>
     in_RequestedResumeFrom t1 = in_RequestedResumeFrom t \<and> storage_ok t1 = storage_ok t \<and>
     in_BaseDir t1 = in_BaseDir t \<and> in_StorageMode t1 = in_StorageMode t \<and>
     in_Completed t1 = in_Completed t"
  using assms
  by (simp add: openIncoming_def Let_def spillPath_def heldBytes_def storage_ok_def)

lemma storage_modes: "storage_ok t \<Longrightarrow> in_BaseDir t \<noteq> '''' \<and> in_StorageMode t \<noteq> ''''"
  by (auto simp: storage_ok_def)

text \<open>C22: The archive a receiver holds changes only by the chunk it expects, and only if that chunk's digest
  is right: a chunk that is stored has the expected index, decodes to bytes with the announced digest, and
  exactly those bytes are appended (chunk 0 starts the archive over). A repeated chunk changes nothing, and a
  rejected chunk other than chunk 0 (a gap, a wrong digest, a wrong mode, undecodable data) leaves the bytes
  and the position as they were.\<close>
theorem archive_grows_by_verified_chunks:
  assumes "storage_ok t" "disk_ok env (spillPath t) (app_fs a)" "acceptChunk env chunk t a = (t', a', out)"
  shows "case out of
      ChunkStored \<Rightarrow> (\<exists>raw. chk_ChunkIndex chunk = expectedChunk chunk t \<and>
        decodeChunkData env a chunk = Inr raw \<and> sha256hex env raw = chk_ChunkSHA256 chunk \<and>
        heldBytes (app_fs a') t' = (if chk_ChunkIndex chunk = 0 then [] else heldBytes (app_fs a) t) @ raw \<and>
        in_LastChunkIdx t' = chk_ChunkIndex chunk)
    | ChunkDuplicate \<Rightarrow> a' = a \<and> heldBytes (app_fs a') t' = heldBytes (app_fs a) t \<and>
        in_LastChunkIdx t' = in_LastChunkIdx t
    | ChunkFailed err \<Rightarrow> chk_ChunkIndex chunk = 0 \<or>
        a' = a \<and> heldBytes (app_fs a') t' = heldBytes (app_fs a) t \<and> in_LastChunkIdx t' = in_LastChunkIdx t"
proof (cases "in_Completed t")
  case True
  then show ?thesis using assms(3) by (auto simp: acceptChunk_def)
next
  case active: False
  obtain t1 where t1: "openIncoming env chunk t a = (t1, a, None)" "spillPath t1 = spillPath t"
    "heldBytes (app_fs a) t1 = heldBytes (app_fs a) t" "in_LastChunkIdx t1 = in_LastChunkIdx t"
    "in_RequestedResumeFrom t1 = in_RequestedResumeFrom t" "storage_ok t1 = storage_ok t"
    "in_BaseDir t1 = in_BaseDir t" "in_StorageMode t1 = in_StorageMode t"
    using openIncoming_open [of t env chunk a "app_fs a"] storage_modes [OF assms(1)] by blast
  have exp: "expectedChunk chunk t1 = expectedChunk chunk t" using t1 by (simp add: expectedChunk_def)
  show ?thesis
  proof (cases "chk_ChunkIndex chunk = 0")
    case False
    have "\<exists>t2 fs2. storeChunk env chunk raw t1 a = (t2, a\<lparr>app_fs := fs2\<rparr>, None) \<and>
        heldBytes fs2 t2 = heldBytes (app_fs a) t @ raw" for raw
      using storeChunk_appends [of t1 env a chunk raw] assms(1,2) t1 False by auto
    then obtain T F where st: "\<And>raw. storeChunk env chunk raw t1 a = (T raw, a\<lparr>app_fs := F raw\<rparr>, None)"
      "\<And>raw. heldBytes (F raw) (T raw) = heldBytes (app_fs a) t @ raw" by metis
    show ?thesis
      using assms(3) active False t1(3,4)
      by (auto simp: acceptChunk_def Let_def t1(1) exp st split: if_splits sum.splits)
  next
    case first: True
    let ?m = "normalizeArchiveMode (chk_ArchiveMode chunk)"
    obtain t2 fs2 where t2: "restartIncoming env chunk t1 a = (t2, a\<lparr>app_fs := fs2\<rparr>)" "storage_ok t2"
      "spillPath t2 = spillPath t1" "disk_ok env (spillPath t1) fs2" "in_StorageMode t2 = ?m"
      "in_ArchiveBytes t2 = []"
      using restartIncoming_ok [of t1 env a chunk ?m] storage_modes [OF assms(1)] assms(2) t1 by metis
    have key: "decodeChunkData env (a\<lparr>app_fs := fs2\<rparr>) chunk = decodeChunkData env a chunk"
      by (rule decodeChunkData_key) simp
    have "\<exists>t3 fs3. storeChunk env chunk raw t2 (a\<lparr>app_fs := fs2\<rparr>) = (t3, a\<lparr>app_fs := fs3\<rparr>, None) \<and>
        heldBytes fs3 t3 = raw" for raw
      using storeChunk_appends [of t2 env "a\<lparr>app_fs := fs2\<rparr>" chunk raw] t2 first
        normalizeArchiveMode_cases [of "chk_ArchiveMode chunk"] by auto
    then obtain T F where st: "\<And>raw. storeChunk env chunk raw t2 (a\<lparr>app_fs := fs2\<rparr>) = (T raw, a\<lparr>app_fs := F raw\<rparr>, None)"
      "\<And>raw. heldBytes (F raw) (T raw) = raw" by metis
    show ?thesis
      using assms(3) active first t1(3,4)
      by (auto simp: acceptChunk_def Let_def t1(1) exp st t2(1) key split: if_splits sum.splits)
  qed
qed

definition sampleHeld :: incomingTransfer where
  "sampleHeld = sampleIncoming\<lparr>in_BaseDir := ''/b'', in_StorageMode := transferArchiveModeMemory,
     in_ArchiveMode := transferArchiveModeMemory, in_ArchiveBytes := ''A'', in_LastChunkIdx := 0\<rparr>"

definition sampleChunk :: "int \<Rightarrow> FileChunk" where
  "sampleChunk i = \<lparr>chk_TransferID = ''t1'', chk_TargetSessionID = ''r'', chk_ArchiveMode = transferArchiveModeMemory,
     chk_ChunkIndex = i, chk_TotalChunks = 2, chk_ChunkData = ''QQ=='', chk_ChunkSHA256 = ''01''\<rparr>"

theorem archive_grows_by_verified_chunks_witness:
  "let (t', a', out) = acceptChunk sampleEnv (sampleChunk 2) sampleHeld sampleReceiver in
   a' = sampleReceiver \<and> heldBytes (app_fs a') t' = ''A'' \<and> in_LastChunkIdx t' = 0"
proof -
  have ok: "storage_ok sampleHeld" "heldBytes (app_fs sampleReceiver) sampleHeld = ''A''"
    "disk_ok sampleEnv (spillPath sampleHeld) (app_fs sampleReceiver)" "in_LastChunkIdx sampleHeld = 0"
    by (simp_all add: storage_ok_def heldBytes_def sampleHeld_def disk_ok_def)
  obtain t' a' where run: "acceptChunk sampleEnv (sampleChunk 2) sampleHeld sampleReceiver = (t', a', ChunkFailed ''unexpected chunk index'')"
    by (simp add: acceptChunk_def sampleHeld_def sampleChunk_def openIncoming_def Let_def expectedChunk_def
        normalizeArchiveMode_def sampleIncoming_def newIncoming_def)
  show ?thesis
    using archive_grows_by_verified_chunks [OF ok(1,3) run] ok(2,4) run by (auto simp: sampleChunk_def)
qed


end
