(* ===== verification/TransferPlace.thy ===== *)
theory TransferPlace
  imports TransferRules
begin

text \<open>
  Completion of a received transfer: where its bytes end up, and what placing a folder does to the files
  received before.
\<close>

section \<open>Paths and directories\<close>

lemma normalize_clean:
  assumes "IsAbs (pe_tmp e)" "normalizeReplayTargetPath e t = Inr p"
  shows "Clean p = p" "IsAbs p" "comps p \<noteq> []"
proof -
  let ?root = "replayTempRootDir e" and ?c = "Clean (trimSpace t)"
  have root: "IsAbs ?root" using assms(1) by (rule root_abs)
  show "Clean p = p"
  proof (cases "IsAbs ?c")
    case True
    then have "ensurePathWithinBase e ?root ?c = Inr p"
      using assms(2) by (auto simp: normalizeReplayTargetPath_def Let_def split: option.splits if_splits)
    then have "p = Clean ?c" by (rule ensurePathWithinBase_under(1) [OF root True])
    then show ?thesis by simp
  next
    case False
    then have c: "?c \<noteq> ''''" "ensurePathWithinBase e ?root (JoinPath [?root, ?c]) = Inr p"
      using assms(2) by (auto simp: normalizeReplayTargetPath_def safeJoinUnderBase_def Let_def
          split: option.splits if_splits)
    have "p = Clean (JoinPath [?root, ?c])"
      by (rule ensurePathWithinBase_under(1) [OF root JoinPath_abs [OF root c(1)] c(2)])
    then show ?thesis by simp
  qed
  have "comps ?root = comps (pe_tmp e) @ [''ClipCascade'']"
    using comps_JoinPath(1) [of "pe_tmp e" "''ClipCascade''"] assms(1)
    by (simp add: replayTempRootDir_def plain_comp_def)
  then show "IsAbs p" "comps p \<noteq> []" using normalize_under [OF assms] by (auto simp: under_def)
qed

section \<open>A raw file at its place\<close>

lemma relocate_root: "Clean src = src \<Longrightarrow> relocate q src q = src"
  by (simp add: relocate_def Clean_def [symmetric])

lemma moveFile_places:
  assumes "fs src = Some (NFile B)" "Clean src = src" "\<not> inTree q src"
  shows "\<exists>fs'. moveFile noFaults src q fs = (fs', None) \<and> fs' q = Some (NFile B)"
proof -
  let ?fs1 = "makeDirs (DirOf q) fs"
  let ?fs2 = "clearTree q ?fs1"
  have "?fs2 src = Some (NFile B)" using assms by (simp add: clearTree_def makeDirs_other)
  then show ?thesis
    using relocate_root [OF assms(2), of q]
    by (simp add: moveFile_def os_MkdirAll_def os_RemoveAll_def os_Rename_def)
qed

lemma materializeRaw_places:
  assumes "env_faults env = noFaults" "receiving env (app_fs a) t mode n B" "B \<noteq> []"
    and "Clean q = q" "IsAbs q" "comps q \<noteq> []" "app_fs a q \<noteq> Some NDir"
    and "in_ArchivePath t = '''' \<or> Clean (in_ArchivePath t) = in_ArchivePath t" "\<not> inTree q (in_ArchivePath t)"
  shows "\<exists>fs'. materializeRaw env t [q] a = (a\<lparr>app_fs := fs'\<rparr>, Inr [q]) \<and> fs' q = Some (NFile B)"
proof -
  let ?fs1 = "makeDirs (DirOf q) (app_fs a)"
  show ?thesis
  proof (cases "in_StorageMode t = transferArchiveModeMemory")
    case True
    then have "in_ArchiveBytes t = B" using assms(2) by (simp add: receiving_def heldBytes_def)
    moreover have "?fs1 q = app_fs a q" by (rule makeDirs_frame [OF own_parent [OF assms(4-6)]])
    ultimately show ?thesis
      using assms(1,3,7)
      by (auto simp: materializeRaw_def os_MkdirAll_def os_WriteFile_def os_Write_def Let_def
          split: option.splits node.splits)
  next
    case False
    then have r: "in_ArchiveBytes t = []" "in_ArchivePath t \<noteq> ''''" "fileBytes (app_fs a) (in_ArchivePath t) = B"
      using assms(2) by (auto simp: receiving_def storage_ok_def heldBytes_def)
    then have "app_fs a (in_ArchivePath t) = Some (NFile B)"
      using assms(3) by (auto simp: fileBytes_def split: option.splits node.splits)
    then have "?fs1 (in_ArchivePath t) = Some (NFile B)" by (simp add: makeDirs_other)
    moreover have "Clean (in_ArchivePath t) = in_ArchivePath t" using assms(8) r(2) by simp
    ultimately show ?thesis using moveFile_places [of ?fs1 "in_ArchivePath t" B q] assms(9)
      r(1,2) assms(1) by (auto simp: materializeRaw_def os_MkdirAll_def Let_def)
  qed
qed

text \<open>Looking up, and changing, the history item of a transfer.\<close>

lemma mutated_items:
  assumes "mgr_inv m" "GetByTransferID tid m = Some it" "f it = Inr nx"
    and "item_ID nx = item_ID it" "item_TransferID nx = item_TransferID it"
    and "isValidTransition (item_State it) (item_State nx)"
  shows mutate_found: "\<exists>m' b. Mutate now (item_ID it) (Some f) m = (m', Inr (nx\<lparr>item_UpdatedAt := now\<rparr>), b) \<and>
     GetByTransferID tid m' = Some (nx\<lparr>item_UpdatedAt := now\<rparr>)"
   and mutate_by_transfer: "\<exists>m' b. MutateByTransferID now tid (Some f) m = (m', Inr (nx\<lparr>item_UpdatedAt := now\<rparr>), b) \<and>
     GetByTransferID tid m' = Some (nx\<lparr>item_UpdatedAt := now\<rparr>)"
proof -
  let ?P = "\<lambda>x. item_TransferID x = tid" and ?w = "nx\<lparr>item_UpdatedAt := now\<rparr>"
  have tid: "tid \<noteq> ''''" and fnd: "List.find ?P (mgr_items m) = Some it"
    using assms(2) by (auto simp: GetByTransferID_def split: if_splits)
  obtain i where i: "i < length (mgr_items m)" "mgr_items m ! i = it" "?P it"
    "\<forall>j<i. \<not> ?P (mgr_items m ! j)"
    using fnd by (auto simp: find_Some_iff)
  have inset: "it \<in> set (mgr_items m)" using i nth_mem by blast
  have id: "item_ID it \<noteq> ''''" using inset assms(1) unfolding mgr_inv_def by (metis image_eqI)
  have dist: "distinct (map item_ID (mgr_items m))" using assms(1) by (simp add: mgr_inv_def)
  have idx: "findIndexByIDLocked m (item_ID it) = Some i"
  proof (cases "findIndexByIDLocked m (item_ID it)")
    case None
    then show ?thesis using inset by (auto simp: findIndexByIDLocked_def first_index_None_iff)
  next
    case (Some k)
    then have "k < length (mgr_items m)" "item_ID (mgr_items m ! k) = item_ID it"
      by (auto simp: findIndexByIDLocked_def dest!: first_index_SomeD)
    then have "k = i" using dist i by (metis length_map nth_eq_iff_index_eq nth_map)
    then show ?thesis using Some by simp
  qed
  have "isKnownState (item_State nx)" using isValidTransition_known [OF assms(6)] by blast
  then have edit: "Mutate now (item_ID it) (Some f) m = (writeItem i ?w m, Inr ?w, mgr_onChanged m)"
    using id idx i(2) assms(3,6) by (simp add: Mutate_def Let_def)
  then have run: "MutateByTransferID now tid (Some f) m = (writeItem i ?w m, Inr ?w, mgr_onChanged m)"
    using tid fnd id by (simp add: MutateByTransferID_def)
  have "List.find ?P ((mgr_items m)[i := ?w]) = Some ?w"
    using i assms(5) by (auto simp: find_Some_iff intro!: exI [of _ i])
  then have "GetByTransferID tid (writeItem i ?w m) = Some ?w"
    using tid by (simp add: GetByTransferID_def writeItem_def)
  then show "\<exists>m' b. Mutate now (item_ID it) (Some f) m = (m', Inr ?w, b) \<and> GetByTransferID tid m' = Some ?w"
    and "\<exists>m' b. MutateByTransferID now tid (Some f) m = (m', Inr ?w, b) \<and> GetByTransferID tid m' = Some ?w"
    using run edit by blast+
qed

text \<open>A file that matches has the bytes the digest and size describe.\<close>

lemma fileMatches_content:
  assumes "env_faults env = noFaults"
  shows "fileMatchesArchive env fs q digest sz =
     Inr (\<exists>b. fs q = Some (NFile b) \<and> int (length b) = sz \<and> sha256hex env b = digest)"
  using assms
  by (auto simp: fileMatchesArchive_def os_Stat_def fileSHA256_def os_ReadFile_def
      split: option.split node.split)

lemma sendFileRelease_frame:
  "app_fs (fst (sendFileRelease env i s r a)) = app_fs a"
  "app_history (fst (sendFileRelease env i s r a)) = app_history a"
  "GetIncoming j (fst (sendFileRelease env i s r a)) = GetIncoming j a"
  by (auto simp: sendFileRelease_def sendClipboardData_def sendClipboardDataWithResult_def Let_def GetIncoming_def
      split: sum.splits prod.splits)


lemma updateIncoming_get: "GetIncoming i a = Some x \<Longrightarrow> updateIncoming i f a = setIncoming i (f x) a"
  by (simp add: updateIncoming_def mutateIncoming_def GetIncoming_def)

lemma placeArchive_raw:
  assumes "env_faults env = noFaults" "IsAbs (pe_tmp (env_paths env))"
    and "receiving env (app_fs a) t mode n B" "B \<noteq> []" "usesRawTransfer (in_Manifest t)"
    and "GetByTransferID tid (app_history a) = Some it" "item_ReservedPaths it = [r]"
    and "normalizeReplayTargetPath (env_paths env) r = Inr q" "app_fs a q \<noteq> Some NDir"
    and "in_ArchivePath t = '''' \<or> Clean (in_ArchivePath t) = in_ArchivePath t" "\<not> inTree q (in_ArchivePath t)"
  shows "\<exists>fs' B'. placeArchive env tid t (sha256hex env B) (int (length B)) a = (a\<lparr>app_fs := fs'\<rparr>, Inr [q]) \<and>
    fs' q = Some (NFile B') \<and> sha256hex env B' = sha256hex env B \<and> length B' = length B \<and>
    (B' = B \<or> app_fs a q = Some (NFile B'))"
proof -
  let ?match = "\<exists>b. app_fs a q = Some (NFile b) \<and> int (length b) = int (length B) \<and> sha256hex env b = sha256hex env B"
  have reuse: "tryReuseIncomingMaterializedPaths env (app_fs a) t (Some it) (sha256hex env B) (int (length B)) =
      (if ?match then Inr ([q], True) else Inr ([], False))"
    using assms(1,5,7,8) by (simp add: tryReuseIncomingMaterializedPaths_def fileMatches_content)
  show ?thesis
  proof (cases ?match)
    case True
    then obtain b where b: "app_fs a q = Some (NFile b)" "length b = length B" "sha256hex env b = sha256hex env B"
      by auto
    have "placeArchive env tid t (sha256hex env B) (int (length B)) a = (a\<lparr>app_fs := app_fs a\<rparr>, Inr [q])"
      using True assms(6,7) reuse by (simp add: placeArchive_def)
    then show ?thesis using b by blast
  next
    case False
    note q = normalize_clean [OF assms(2,8)]
    obtain fs' where fs': "materializeRaw env t [q] a = (a\<lparr>app_fs := fs'\<rparr>, Inr [q])" "fs' q = Some (NFile B)"
      using materializeRaw_places [OF assms(1,3,4) q assms(9,10,11)] by blast
    have "materializeIncomingTransfer env t (Some it) a = (a\<lparr>app_fs := fs'\<rparr>, Inr [q])"
      using assms(5,7,8) fs' by (simp add: materializeIncomingTransfer_def Let_def)
    moreover have "tryReuseIncomingMaterializedPaths env (app_fs a) t (Some it) (sha256hex env B) (int (length B)) =
        Inr ([], False)"
      using reuse False by (simp only: if_False)
    ultimately have "placeArchive env tid t (sha256hex env B) (int (length B)) a = (a\<lparr>app_fs := fs'\<rparr>, Inr [q])"
      using assms(6,7) by (simp add: placeArchive_def)
    then show ?thesis using fs'(2) by blast
  qed
qed

lemma file_not_image: "TypeFileStub \<noteq> TypeImage"
  by (simp add: payload_type_defs)

lemma complete_clip:
  "app_clipWrites (fst (sendFileRelease env i s r a)) = app_clipWrites a"
  "app_hasClip (fst (sendFileRelease env i s r a)) = app_hasClip a"
  "app_clipWrites (deleteIncomingArchive env i a) = app_clipWrites a"
  "app_hasClip (deleteIncomingArchive env i a) = app_hasClip a"
  "app_clipWrites (updateIncoming i f a) = app_clipWrites a" "app_hasClip (updateIncoming i f a) = app_hasClip a"
  by (auto simp: sendFileRelease_def sendClipboardData_def sendClipboardDataWithResult_def Let_def
      deleteIncomingArchive_def updateIncoming_def mutateIncoming_def setIncoming_def
      split: sum.splits prod.splits option.splits)

text \<open>What placing an archive leaves alone: all but the files and, when no path was reserved yet, the item's paths.\<close>

lemma same_app: "\<exists>fs'. a = a\<lparr>app_fs := fs'\<rparr>"
  by (rule exI [of _ "app_fs a"]) simp

lemma placing_frame:
  "extractIncoming env t d a = (a', r) \<Longrightarrow> \<exists>fs'. a' = a\<lparr>app_fs := fs'\<rparr>"
  "extractIncomingArchiveSafely env t a = (a', r) \<Longrightarrow> \<exists>fs'. a' = a\<lparr>app_fs := fs'\<rparr>"
proof -
  show e: "\<exists>fs'. a' = a\<lparr>app_fs := fs'\<rparr>" if "extractIncoming env t d a = (a', r)" for d
    using that by (auto simp: extractIncoming_def Let_def split: prod.splits option.splits sum.splits)
  show "extractIncomingArchiveSafely env t a = (a', r) \<Longrightarrow> \<exists>fs'. a' = a\<lparr>app_fs := fs'\<rparr>"
    using e same_app [of a] by (auto simp: extractIncomingArchiveSafely_def split: option.splits)
qed

lemma materialize_frame:
  assumes "materializeIncomingTransfer env t item a = (a', r)"
  shows "(\<exists>fs'. a' = a\<lparr>app_fs := fs'\<rparr>) \<and> r \<noteq> Inr []"
proof -
  have raw: "(\<exists>fs'. b = a\<lparr>app_fs := fs'\<rparr>) \<and> r \<noteq> Inr []" if "materializeRaw env t rs a = (b, r)" for rs b r
    using that same_app [of a]
    by (auto simp: materializeRaw_def Let_def split: list.splits prod.splits option.splits)
  have multi: "(\<exists>fs'. b = a\<lparr>app_fs := fs'\<rparr>) \<and> r \<noteq> Inr []" if "materializeMulti env t rs a = (b, r)" for rs b r
    using that same_app [of a]
    by (auto simp: materializeMulti_def split: list.splits prod.splits option.splits sum.splits if_splits dest!: placing_frame(1))
  have folder: "(\<exists>fs'. b = a\<lparr>app_fs := fs'\<rparr>) \<and> r \<noteq> Inr []" if "materializeFolder env t rs a = (b, r)" for rs b r
    using that same_app [of a]
    by (auto simp: materializeFolder_def Let_def split: list.splits prod.splits option.splits sum.splits if_splits
        dest!: placing_frame(1))
  have single: "(\<exists>fs'. b = a\<lparr>app_fs := fs'\<rparr>) \<and> r \<noteq> Inr []" if "materializeSingle env t rs a = (b, r)" for rs b r
    using that
    by (auto simp: materializeSingle_def Let_def split: list.splits prod.splits option.splits sum.splits stat_result.splits
        dest!: placing_frame(2))
  show ?thesis
    using assms raw multi folder single same_app [of a]
    by (auto simp: materializeIncomingTransfer_def Let_def split: sum.splits if_splits)
qed

lemma placeArchive_frame:
  assumes "placeArchive env tid t d z a = (a1, Inr paths)" "mgr_inv (app_history a)"
    and "GetByTransferID tid (app_history a) = Some it"
  shows "\<exists>m1 fs1 it1. a1 = a\<lparr>app_history := m1, app_fs := fs1\<rparr> \<and> mgr_inv m1 \<and> paths \<noteq> [] \<and>
    GetByTransferID tid m1 = Some it1 \<and> item_State it1 = item_State it \<and> item_Type it1 = item_Type it \<and>
    item_PendingReplayMode it1 = item_PendingReplayMode it"
proof -
  have rest: "\<exists>fs1. a1 = b\<lparr>app_fs := fs1\<rparr> \<and> paths \<noteq> []"
    if "(case tryReuseIncomingMaterializedPaths env (app_fs b) t item d z of
             Inl err \<Rightarrow> (b, Inl err)
           | Inr (ps, reused) \<Rightarrow> if reused then (b, Inr ps) else materializeIncomingTransfer env t item b) = (a1, Inr paths)"
    for b item
  proof (cases "\<exists>ps. tryReuseIncomingMaterializedPaths env (app_fs b) t item d z = Inr (ps, True)")
    case True
    then obtain ps where ps: "tryReuseIncomingMaterializedPaths env (app_fs b) t item d z = Inr (ps, True)" by blast
    then have "ps \<noteq> []"
      by (auto simp: tryReuseIncomingMaterializedPaths_def split: option.splits list.splits if_splits sum.splits)
    then show ?thesis using that ps same_app [of b] by auto
  next
    case False
    then have "materializeIncomingTransfer env t item b = (a1, Inr paths)"
      using that by (auto split: sum.splits prod.splits if_splits)
    from materialize_frame [OF this] show ?thesis by auto
  qed
  show ?thesis
  proof (cases "item_ReservedPaths it = []")
    case False
    then have "\<exists>fs1. a1 = a\<lparr>app_fs := fs1\<rparr> \<and> paths \<noteq> []"
      using assms(1,3) by (intro rest [of a "Some it"]) (simp add: placeArchive_def)
    moreover have "a\<lparr>app_fs := f\<rparr> = a\<lparr>app_history := app_history a, app_fs := f\<rparr>" for f by simp
    ultimately show ?thesis using assms(2,3) by blast
  next
    case True
    obtain ps where ps: "plannedReplayTargetsForHistoryItem (env_paths env) (Some it) = Inr ps"
      using assms(1,3) True by (auto simp: placeArchive_def ensureReplayTargetPaths_def split: sum.splits)
    let ?f = "\<lambda>next. Inr (if item_ReservedPaths next = [] then next\<lparr>item_ReservedPaths := ps\<rparr> else next)"
    let ?nx = "it\<lparr>item_ReservedPaths := ps\<rparr>"
    have known: "isKnownState (item_State it)"
      using assms(2,3) find_SomeD by (fastforce simp: GetByTransferID_def mgr_inv_def split: if_splits)
    have "isValidTransition (item_State it) (item_State ?nx)" using isValidTransition_refl [OF known] by simp
    then obtain m' b where m': "Mutate (env_now env) (item_ID it) (Some ?f) (app_history a) =
        (m', Inr (?nx\<lparr>item_UpdatedAt := env_now env\<rparr>), b)"
      "GetByTransferID tid m' = Some (?nx\<lparr>item_UpdatedAt := env_now env\<rparr>)"
      using mutate_found [OF assms(2,3), of ?f ?nx "env_now env"] True by auto
    have inv: "mgr_inv m'"
      using Mutate_inv [OF assms(2), of "Some ?f" "env_now env" "item_ID it"] m'(1) by (simp add: stable_fn_def)
    have "ensureReplayTargetPaths env (Some it) a = (a\<lparr>app_history := m'\<rparr>, Inr (?nx\<lparr>item_UpdatedAt := env_now env\<rparr>))"
      using True ps m'(1) by (simp add: ensureReplayTargetPaths_def historyMutate_def)
    then have "\<exists>fs1. a1 = (a\<lparr>app_history := m'\<rparr>)\<lparr>app_fs := fs1\<rparr> \<and> paths \<noteq> []"
      using assms(1,3) True by (intro rest [of "a\<lparr>app_history := m'\<rparr>"]) (simp add: placeArchive_def)
    then show ?thesis using m'(2) inv by auto
  qed
qed

text \<open>The completion of a transfer whose archive could be placed, up to the replay that may wait for it.\<close>

lemma placed_completes:
  assumes inv: "mgr_inv (app_history a)"
    and held: "GetIncoming tid a = Some t" "\<not> in_Completing t" "\<not> in_Completed t"
    and item: "GetByTransferID tid (app_history a) = Some it" "item_State it = StateDownloading"
    and announced: "cmp_TransferID c = tid" "verifyArchive env c (t\<lparr>in_Completing := True\<rparr>)
       (setIncoming tid (t\<lparr>in_Completing := True\<rparr>) a) = Inr (d, z)"
    and placed: "placeArchive env tid (t\<lparr>in_Completing := True\<rparr>) d z
       (setIncoming tid (t\<lparr>in_Completing := True\<rparr>) a) = (a1, Inr paths)"
  shows "\<exists>a5 it' t'. handleFileComplete env c a =
       (if item_PendingReplayMode it \<noteq> '''' then completePendingReplayMode env tid a5 else (a5, None)) \<and>
    (\<forall>p. p \<noteq> in_ArchivePath t \<longrightarrow> app_fs a5 p = app_fs a1 p) \<and> paths \<noteq> [] \<and>
    GetByTransferID tid (app_history a5) = Some it' \<and> item_State it' = StateReadyToPaste \<and>
    item_LocalPaths it' = paths \<and> item_ErrorMessage it' = '''' \<and>
    item_PendingReplayMode it' = item_PendingReplayMode it \<and> item_Type it' = item_Type it \<and>
    GetIncoming tid a5 = Some t' \<and> in_Completed t' \<and> in_ArchiveBytes t' = [] \<and> in_ArchivePath t' = '''' \<and>
    mgr_inv (app_history a5) \<and> app_clipWrites a5 = app_clipWrites a \<and> app_hasClip a5 = app_hasClip a"
proof -
  let ?t = "t\<lparr>in_Completing := True\<rparr>"
  let ?a = "setIncoming tid ?t a"
  obtain m1 fs1 it1 where a1: "a1 = ?a\<lparr>app_history := m1, app_fs := fs1\<rparr>" "mgr_inv m1" "paths \<noteq> []"
    and it1: "GetByTransferID tid m1 = Some it1" "item_State it1 = StateDownloading" "item_Type it1 = item_Type it"
      "item_PendingReplayMode it1 = item_PendingReplayMode it"
    using placeArchive_frame [OF placed] inv item by auto
  let ?f = "\<lambda>item. Inr (item\<lparr>item_State := StateReadyToPaste, item_LocalPaths := paths,
     item_ReservedPaths := (if item_ReservedPaths item = [] then paths else item_ReservedPaths item),
     item_LastChunkIdx := in_LastChunkIdx ?t, item_ErrorMessage := ''''\<rparr>)"
  let ?nx = "it1\<lparr>item_State := StateReadyToPaste, item_LocalPaths := paths,
     item_ReservedPaths := (if item_ReservedPaths it1 = [] then paths else item_ReservedPaths it1),
     item_LastChunkIdx := in_LastChunkIdx ?t, item_ErrorMessage := ''''\<rparr>"
  let ?it' = "?nx\<lparr>item_UpdatedAt := env_now env\<rparr>"
  have "isValidTransition (item_State it1) (item_State ?nx)" by (simp add: it1(2) isValidTransition_def)
  then obtain m' b where m': "MutateByTransferID (env_now env) tid (Some ?f) m1 = (m', Inr ?it', b)"
    "GetByTransferID tid m' = Some ?it'"
    using mutate_by_transfer [OF a1(2) it1(1), of ?f ?nx "env_now env"] by auto
  let ?a2 = "?a\<lparr>app_history := m', app_fs := fs1\<rparr>"
  have mut: "historyMutateByTransferID env tid ?f a1 = (?a2, Inr ?it')"
    using m'(1) a1(1) by (simp add: historyMutateByTransferID_def)
  let ?a3 = "updateIncoming tid (\<lambda>i. i\<lparr>in_RequestActive := False, in_Completing := False, in_Completed := True\<rparr>) ?a2"
  let ?t3 = "?t\<lparr>in_RequestActive := False, in_Completing := False, in_Completed := True\<rparr>"
  let ?a4 = "deleteIncomingArchive env tid ?a3"
  have a3: "GetIncoming tid ?a3 = Some ?t3" "app_fs ?a3 = fs1" "app_history ?a3 = m'"
    using updateIncoming_get [of tid ?a2 ?t] by simp_all
  have a4: "\<forall>p. p \<noteq> in_ArchivePath t \<longrightarrow> app_fs ?a4 p = fs1 p" "app_history ?a4 = m'"
    "GetIncoming tid ?a4 = Some (?t3\<lparr>in_ArchivePath := '''', in_ArchiveBytes := []\<rparr>)"
    using a3 by (auto simp: deleteIncomingArchive_def Let_def os_Remove_def split: option.splits)
  let ?a5 = "fst (sendFileRelease env tid (appSessionID ?a4) ''received_ok'' ?a4)"
  have "handleFileComplete env c a =
      (if item_PendingReplayMode it \<noteq> '''' then completePendingReplayMode env tid ?a5 else (?a5, None))"
    using announced held placed mut it1(4) by (simp add: handleFileComplete_def Let_def)
  moreover have "mgr_inv m'"
    using MutateByTransferID_inv [OF a1(2), of "Some ?f" "env_now env" tid] m'(1) by (simp add: stable_fn_def)
  moreover have "app_clipWrites ?a5 = app_clipWrites a" "app_hasClip ?a5 = app_hasClip a"
    by (simp_all add: sendFileRelease_frame complete_clip) (simp_all add: setIncoming_def)
  ultimately show ?thesis using a4 m'(2) a1(1,3) it1(3,4)
    by (intro exI [of _ ?a5] exI [of _ ?it']) (auto simp: sendFileRelease_frame)
qed

text \<open>The completion of a raw file.\<close>

lemma raw_file_completes:
  assumes world: "env_faults env = noFaults" "IsAbs (pe_tmp (env_paths env))" "mgr_inv (app_history a)"
    and held: "GetIncoming tid a = Some t" "receiving env (app_fs a) t mode n B" "B \<noteq> []" "\<not> in_Completing t"
      "usesRawTransfer (in_Manifest t)"
    and item: "GetByTransferID tid (app_history a) = Some it" "item_ReservedPaths it = [r]"
      "item_State it = StateDownloading"
    and target: "normalizeReplayTargetPath (env_paths env) r = Inr q" "app_fs a q \<noteq> Some NDir"
      "in_ArchivePath t = '''' \<or> Clean (in_ArchivePath t) = in_ArchivePath t" "\<not> inTree q (in_ArchivePath t)"
    and announced: "cmp_TransferID c = tid" "cmp_ArchiveSHA256 c = sha256hex env B"
      "cmp_ActualTotalBytes c = int (length B)"
  shows "\<exists>a5 B' it' t'. handleFileComplete env c a =
       (if item_PendingReplayMode it \<noteq> '''' then completePendingReplayMode env tid a5 else (a5, None)) \<and>
    app_fs a5 q = Some (NFile B') \<and>
    sha256hex env B' = sha256hex env B \<and> length B' = length B \<and> (B' = B \<or> app_fs a q = Some (NFile B')) \<and>
    GetByTransferID tid (app_history a5) = Some it' \<and> item_State it' = StateReadyToPaste \<and>
    item_LocalPaths it' = [q] \<and> item_ErrorMessage it' = '''' \<and>
    GetIncoming tid a5 = Some t' \<and> in_Completed t' \<and> in_ArchiveBytes t' = [] \<and> in_ArchivePath t' = ''''"
proof -
  let ?t = "t\<lparr>in_Completing := True\<rparr>" and ?d = "sha256hex env B" and ?z = "int (length B)"
  let ?a = "setIncoming tid ?t a"
  have rec: "receiving env (app_fs ?a) ?t mode n B"
    using held(2) by (simp add: receiving_def) (simp add: storage_ok_def)
  have ver: "verifyArchive env c ?t ?a = Inr (?d, ?z)"
    using stored_verified [OF rec held(3)] announced by simp
  obtain fs' B' where pl: "placeArchive env tid ?t ?d ?z ?a = (?a\<lparr>app_fs := fs'\<rparr>, Inr [q])"
    "fs' q = Some (NFile B')" "sha256hex env B' = ?d" "length B' = length B"
    "B' = B \<or> app_fs a q = Some (NFile B')"
    using placeArchive_raw [OF world(1,2) rec held(3), of tid it r q] held(5) item target by auto
  have "\<not> in_Completed t" using held(2) by (simp add: receiving_def)
  from placed_completes [OF world(3) held(1,4) this item(1,3) announced(1) ver pl(1)]
  obtain a5 it' t' where run: "handleFileComplete env c a =
      (if item_PendingReplayMode it \<noteq> '''' then completePendingReplayMode env tid a5 else (a5, None))"
    and fs: "\<forall>p. p \<noteq> in_ArchivePath t \<longrightarrow> app_fs a5 p = fs' p"
    and it': "GetByTransferID tid (app_history a5) = Some it'" "item_State it' = StateReadyToPaste"
      "item_LocalPaths it' = [q]" "item_ErrorMessage it' = ''''"
    and t': "GetIncoming tid a5 = Some t'" "in_Completed t'" "in_ArchiveBytes t' = []" "in_ArchivePath t' = ''''"
    by auto
  have "q \<noteq> in_ArchivePath t" using target(4) by auto
  then have "app_fs a5 q = Some (NFile B')" using fs pl(2) by simp
  then show ?thesis using run it' t' pl(3-5)
    by - (rule exI [of _ a5], rule exI [of _ B'], rule exI [of _ it'], rule exI [of _ t'], simp)
qed


text \<open>C3: What the user asked for while files were still on their way is done when they arrive, whatever kind of
  transfer it is: a raw file, a zipped one, a bundle or a folder. If the item of a transfer that is downloading is
  marked for a paste of its real content, the archive held has the announced digest and size, and it can be put at its
  place, the completion puts exactly the paths it was placed at on the clipboard, without another action of the user,
  and consumes the item and the mark; the files are as they were placed, only the archive is removed. The clipboard
  is available and takes those files.\<close>
theorem awaited_file_is_pasted:
  assumes "mgr_inv (app_history a)"
    and held: "GetIncoming tid a = Some t" "\<not> in_Completing t" "\<not> in_Completed t"
    and item: "GetByTransferID tid (app_history a) = Some it" "item_State it = StateDownloading"
    and waiting: "item_Type it = TypeFileStub" "item_PendingReplayMode it = ReplayModeSystemClipboardPaste"
    and announced: "cmp_TransferID c = tid"
      "incomingArchiveSHA256 env (app_fs a) t = Inr (cmp_ArchiveSHA256 c, cmp_ActualTotalBytes c)"
    and placed: "placeArchive env tid (t\<lparr>in_Completing := True\<rparr>) (cmp_ArchiveSHA256 c) (cmp_ActualTotalBytes c)
       (setIncoming tid (t\<lparr>in_Completing := True\<rparr>) a) = (a1, Inr paths)"
    and clipboard: "app_hasClip a" "env_clipErr env (StageFiles paths) = None"
  shows "\<exists>a' it'. handleFileComplete env c a = (a', None) \<and>
    app_clipWrites a' = app_clipWrites a @ [StageFiles paths] \<and> paths \<noteq> [] \<and>
    (\<forall>p. p \<noteq> in_ArchivePath t \<longrightarrow> app_fs a' p = app_fs a1 p) \<and>
    GetByTransferID tid (app_history a') = Some it' \<and> item_State it' = StateConsumed \<and>
    item_PendingReplayMode it' = '''' \<and> item_LocalPaths it' = paths"
proof -
  have tid: "tid \<noteq> ''''" using item(1) by (auto simp: GetByTransferID_def)
  have ver: "verifyArchive env c (t\<lparr>in_Completing := True\<rparr>) (setIncoming tid (t\<lparr>in_Completing := True\<rparr>) a) =
      Inr (cmp_ArchiveSHA256 c, cmp_ActualTotalBytes c)"
  proof -
    have "incomingArchiveSHA256 env (app_fs (setIncoming tid (t\<lparr>in_Completing := True\<rparr>) a)) (t\<lparr>in_Completing := True\<rparr>) =
        incomingArchiveSHA256 env (app_fs a) t" by (simp add: incomingArchiveSHA256_def)
    then show ?thesis using announced(2) by (simp add: verifyArchive_def)
  qed
  obtain a5 it' where run: "handleFileComplete env c a = completePendingReplayMode env tid a5"
    and fs: "\<forall>p. p \<noteq> in_ArchivePath t \<longrightarrow> app_fs a5 p = app_fs a1 p" "paths \<noteq> []"
    and it': "GetByTransferID tid (app_history a5) = Some it'" "item_State it' = StateReadyToPaste"
      "item_LocalPaths it' = paths" "item_PendingReplayMode it' = ReplayModeSystemClipboardPaste"
      "item_Type it' = TypeFileStub"
    and a5: "mgr_inv (app_history a5)" "app_clipWrites a5 = app_clipWrites a" "app_hasClip a5"
    using placed_completes [OF assms(1) held item announced(1) ver placed] waiting clipboard(1)
    by (auto simp: ReplayModeSystemClipboardPaste_def)
  obtain a6 where stage: "stageHistoryItemRealClipboard env it' a5 = (a6, None)"
    and a6: "app_clipWrites a6 = app_clipWrites a @ [StageFiles paths]" "app_fs a6 = app_fs a5"
      "app_history a6 = app_history a5"
    using a5(2,3) it'(3,5) clipboard(2) fs(2)
    by (simp add: stageHistoryItemRealClipboard_def isClipboardWriteAllowed_def clipboardWrite_def
        rememberReplayClipboardWrite_def file_not_image)
  let ?f = "\<lambda>next. Inr (next\<lparr>item_State := StateConsumed, item_PendingReplayMode := ReplayModeNone\<rparr>)"
  let ?nx = "it'\<lparr>item_State := StateConsumed, item_PendingReplayMode := ReplayModeNone\<rparr>"
  have "isValidTransition (item_State it') (item_State ?nx)" by (simp add: it'(2) isValidTransition_def)
  then obtain m' b where m': "Mutate (env_now env) (item_ID it') (Some ?f) (app_history a6) =
      (m', Inr (?nx\<lparr>item_UpdatedAt := env_now env\<rparr>), b)"
    "GetByTransferID tid m' = Some (?nx\<lparr>item_UpdatedAt := env_now env\<rparr>)"
    using mutate_found [OF a5(1) it'(1), of ?f ?nx "env_now env"] a6(3) by auto
  have "completePendingReplayMode env tid a5 = (a6\<lparr>app_history := m'\<rparr>, None)"
    using tid it'(1,4) stage m'(1)
    by (simp add: completePendingReplayMode_def historyMutate_def Let_def)
  then show ?thesis using run fs a6 m'(2) it'(3) by (simp add: ReplayModeNone_def)
qed

definition sampleWaiting :: "string \<Rightarrow> HistoryItem" where
  "sampleWaiting mode = (sampleItem ''i1'' TypeFileStub StateDownloading 5)\<lparr>item_TransferID := ''t1'',
     item_ReservedPaths := [''f.txt''], item_PendingReplayMode := mode\<rparr>"

definition sampleDownload :: "string \<Rightarrow> App" where
  "sampleDownload mode =
     (setIncoming ''t1'' sampleHeld (sampleApp ''r''))\<lparr>app_history := sampleManager [sampleWaiting mode]\<rparr>"

definition sampleComplete :: FileComplete where
  "sampleComplete = \<lparr>cmp_TransferID = ''t1'', cmp_TargetSessionID = ''r'',
     cmp_ArchiveMode = transferArchiveModeMemory, cmp_ArchiveSHA256 = sha256hex sampleEnv ''A'',
     cmp_ActualTotalBytes = 1\<rparr>"

lemma sampleDownload_world:
  "env_faults sampleEnv = noFaults" "IsAbs (pe_tmp (env_paths sampleEnv))" "mgr_inv (app_history (sampleDownload mode))"
  by (simp_all add: samplePaths_def sampleDownload_def sampleWaiting_def hist_eval)

lemma sampleDownload_held:
  "GetIncoming ''t1'' (sampleDownload mode) = Some sampleHeld"
  "receiving sampleEnv (app_fs (sampleDownload mode)) sampleHeld transferArchiveModeMemory 1 ''A''"
  "''A'' \<noteq> []" "\<not> in_Completing sampleHeld" "usesRawTransfer (in_Manifest sampleHeld)"
proof -
  show "GetIncoming ''t1'' (sampleDownload mode) = Some sampleHeld" by (simp add: sampleDownload_def)
  have fs: "app_fs (sampleDownload mode) = Map.empty" by (simp add: sampleDownload_def)
  show "receiving sampleEnv (app_fs (sampleDownload mode)) sampleHeld transferArchiveModeMemory 1 ''A''"
    by (simp add: receiving_def fs storage_ok_def heldBytes_def disk_ok_def normalizeArchiveMode_def)
      (simp add: sampleHeld_def sampleIncoming_def newIncoming_def)
  show "''A'' \<noteq> []" "\<not> in_Completing sampleHeld" "usesRawTransfer (in_Manifest sampleHeld)"
    by (simp_all add: sampleHeld_def sampleIncoming_def newIncoming_def) code_simp
qed

lemma sampleDownload_item:
  "GetByTransferID ''t1'' (app_history (sampleDownload mode)) = Some (sampleWaiting mode)"
  "item_ReservedPaths (sampleWaiting mode) = [''f.txt'']" "item_State (sampleWaiting mode) = StateDownloading"
  "item_PendingReplayMode (sampleWaiting mode) = mode" "item_Type (sampleWaiting mode) = TypeFileStub"
  by (simp_all add: sampleDownload_def sampleWaiting_def hist_eval GetByTransferID_def)

lemma sampleDownload_target:
  "normalizeReplayTargetPath (env_paths sampleEnv) ''f.txt'' = Inr ''/t/ClipCascade/f.txt''"
  "app_fs (sampleDownload mode) ''/t/ClipCascade/f.txt'' \<noteq> Some NDir"
  "in_ArchivePath sampleHeld = '''' \<or> Clean (in_ArchivePath sampleHeld) = in_ArchivePath sampleHeld"
  "\<not> inTree ''/t/ClipCascade/f.txt'' (in_ArchivePath sampleHeld)"
proof -
  show "normalizeReplayTargetPath (env_paths sampleEnv) ''f.txt'' = Inr ''/t/ClipCascade/f.txt''"
    unfolding sampleEnv_simps by code_simp
  have path: "in_ArchivePath sampleHeld = ''''"
    by (simp add: sampleHeld_def sampleIncoming_def newIncoming_def)
  show "app_fs (sampleDownload mode) ''/t/ClipCascade/f.txt'' \<noteq> Some NDir"
    "in_ArchivePath sampleHeld = '''' \<or> Clean (in_ArchivePath sampleHeld) = in_ArchivePath sampleHeld"
    "\<not> inTree ''/t/ClipCascade/f.txt'' (in_ArchivePath sampleHeld)"
    by (simp_all add: path sampleDownload_def inTree_def)
qed

lemma sampleComplete_announced:
  "cmp_TransferID sampleComplete = ''t1''" "cmp_ArchiveSHA256 sampleComplete = sha256hex sampleEnv ''A''"
  "cmp_ActualTotalBytes sampleComplete = int (length ''A'')"
  by (simp_all add: sampleComplete_def)


theorem awaited_file_is_pasted_witness:
  "\<exists>a'. handleFileComplete sampleEnv sampleComplete (sampleDownload ReplayModeSystemClipboardPaste) = (a', None) \<and>
     app_clipWrites a' = [StageFiles [''/t/ClipCascade/f.txt'']] \<and>
     app_fs a' ''/t/ClipCascade/f.txt'' = Some (NFile ''A'')"
proof -
  let ?a = "sampleDownload ReplayModeSystemClipboardPaste" and ?t = "sampleHeld\<lparr>in_Completing := True\<rparr>"
  let ?q = "''/t/ClipCascade/f.txt''"
  have clip: "app_hasClip ?a" "app_clipWrites ?a = []" "env_clipErr sampleEnv (StageFiles [?q]) = None"
    by (simp_all add: sampleDownload_def sampleApp_def setIncoming_def)
  have arch: "in_ArchiveBytes sampleHeld = ''A''" "in_ArchivePath sampleHeld = ''''" "\<not> in_Completed sampleHeld"
    by (simp_all add: sampleHeld_def sampleIncoming_def newIncoming_def)
  have ann: "incomingArchiveSHA256 sampleEnv (app_fs ?a) sampleHeld =
      Inr (cmp_ArchiveSHA256 sampleComplete, cmp_ActualTotalBytes sampleComplete)"
    using arch sampleComplete_announced by (simp add: incomingArchiveSHA256_def)
  have rec: "receiving sampleEnv (app_fs (setIncoming ''t1'' ?t ?a)) ?t transferArchiveModeMemory 1 ''A''"
    using sampleDownload_held(2) [of ReplayModeSystemClipboardPaste]
    by (simp add: receiving_def) (simp add: storage_ok_def)
  have empty: "app_fs ?a ?q = None" by (simp add: sampleDownload_def sampleApp_def setIncoming_def)
  obtain fs' B' where placed: "placeArchive sampleEnv ''t1'' ?t (cmp_ArchiveSHA256 sampleComplete)
       (cmp_ActualTotalBytes sampleComplete) (setIncoming ''t1'' ?t ?a) =
         ((setIncoming ''t1'' ?t ?a)\<lparr>app_fs := fs'\<rparr>, Inr [?q])" "fs' ?q = Some (NFile B')" "B' = ''A''"
    using placeArchive_raw [OF sampleDownload_world(1,2) rec sampleDownload_held(3), where tid = "''t1''"
        and it = "sampleWaiting ReplayModeSystemClipboardPaste" and r = "''f.txt''" and q = ?q]
      sampleDownload_held(5) sampleDownload_item [of ReplayModeSystemClipboardPaste]
      sampleDownload_target(1,3,4) sampleComplete_announced empty
    by auto
  from awaited_file_is_pasted [OF sampleDownload_world(3) sampleDownload_held(1,4) arch(3) sampleDownload_item(1,3,5,4)
      sampleComplete_announced(1) ann placed(1) clip(1,3)] clip(2) placed(2,3) arch(2)
  show ?thesis by auto
qed

section \<open>Receiving a folder\<close>

lemma below_not_ancestor:
  assumes "inTree d p" "IsAbs d" "Clean d = d" "p \<noteq> d"
  shows "p \<notin> set (ancestors d)"
proof
  assume "p \<in> set (ancestors d)"
  then obtain cs where cs: "prefix cs (comps d)" "p = unclean (IsAbs d) cs" "comps p = cs"
    using ancestors_comps [OF _ assms(2)] by blast
  then have "cs = comps d" using assms(1) by (auto simp: inTree_def intro: prefix_order.antisym)
  then show False using cs(2) assms(3,4) by (simp add: Clean_def)
qed

lemma makeDirs_at: "makeDirs p fs q = (if fs q = None \<and> q \<in> set (ancestors p) then Some NDir else fs q)"
proof -
  have "fold (\<lambda>a f. if f a = None then f(a \<mapsto> NDir) else f) as fs q =
      (if fs q = None \<and> q \<in> set as then Some NDir else fs q)" for as and fs :: FS
    by (induction as arbitrary: fs) auto
  then show ?thesis by (simp add: makeDirs_def)
qed

text \<open>A directory that is made, removed and made again is the same whatever was in it before.\<close>

lemma fresh_directory:
  "makeDirs d (clearTree d (makeDirs d (clearTree d fs))) = makeDirs d (clearTree d (makeDirs d fs))"
proof -
  have "clearTree d (makeDirs d (clearTree d fs)) = clearTree d (makeDirs d fs)"
    by (rule ext) (auto simp: clearTree_def makeDirs_at)
  then show ?thesis by simp
qed

lemma extract_into_fresh:
  assumes "fault_removeAll (env_faults env) d = None" "fault_mkdir (env_faults env) d = None"
  shows "extractIncoming env t d (a\<lparr>app_fs := makeDirs d (clearTree d fs)\<rparr>) = extractIncoming env t d (a\<lparr>app_fs := makeDirs d fs\<rparr>)"
  using assms by (simp add: extractIncoming_def os_RemoveAll_def os_MkdirAll_def fresh_directory Let_def split: sum.split prod.split)

text \<open>Placing a folder: everything below the parent of its target is removed first.\<close>

lemma folder_receive_clears:
  assumes disk: "fault_removeAll (env_faults env) (DirOf q) = None" "fault_mkdir (env_faults env) (DirOf q) = None"
    and folder: "man_Kind (in_Manifest t) = FileKindFolder" "\<not> usesRawTransfer (in_Manifest t)"
    and item: "GetByTransferID tid (app_history a) = Some it" "item_ReservedPaths it = [r]"
      "normalizeReplayTargetPath (env_paths env) r = Inr q"
  shows folder_placed_as_if_empty: "placeArchive env tid t d z (a\<lparr>app_fs := clearTree (DirOf q) (app_fs a)\<rparr>) = placeArchive env tid t d z a"
    and folder_damaged: "(\<And>b. isl (env_zipRead env b)) \<Longrightarrow> inTree (DirOf q) p \<Longrightarrow> p \<noteq> DirOf q \<Longrightarrow>
      IsAbs (DirOf q) \<Longrightarrow> isl (snd (placeArchive env tid t d z a)) \<and> app_fs (fst (placeArchive env tid t d z a)) p = None"
proof -
  have kind: "FileKindFolder \<noteq> FileKindMultiFile" by (simp add: FileKindFolder_def FileKindMultiFile_def)
  have place: "placeArchive env tid t d z b = materializeFolder env t [q] b" if "app_history b = app_history a" for b
    using folder item that kind
    by (simp add: placeArchive_def tryReuseIncomingMaterializedPaths_def materializeIncomingTransfer_def Let_def)
  have "materializeFolder env t [q] (a\<lparr>app_fs := clearTree (DirOf q) (app_fs a)\<rparr>) = materializeFolder env t [q] a"
    using disk extract_into_fresh [OF disk, where t = t and a = a and fs = "app_fs a"]
    by (simp add: materializeFolder_def os_MkdirAll_def Let_def)
  then show "placeArchive env tid t d z (a\<lparr>app_fs := clearTree (DirOf q) (app_fs a)\<rparr>) = placeArchive env tid t d z a"
    using place by simp
  assume damaged: "\<And>b. isl (env_zipRead env b)" and p: "inTree (DirOf q) p" "p \<noteq> DirOf q" "IsAbs (DirOf q)"
  let ?d = "DirOf q"
  let ?fs = "makeDirs ?d (clearTree ?d (makeDirs ?d (app_fs a)))"
  have "\<exists>err. materializeFolder env t [q] a = (a\<lparr>app_fs := ?fs\<rparr>, Inl err)"
    using disk damaged
    by (simp add: materializeFolder_def extractIncoming_def os_MkdirAll_def os_RemoveAll_def Let_def
        split: sum.split) (metis isl_def sum.disc(2))
  moreover have "?fs p = None"
  proof -
    have "?fs p = clearTree ?d (makeDirs ?d (app_fs a)) p"
      by (rule makeDirs_frame [OF below_not_ancestor [OF p(1,3) _ p(2)]]) simp
    then show ?thesis using p(1) by (simp add: clearTree_def)
  qed
  ultimately show "isl (snd (placeArchive env tid t d z a)) \<and> app_fs (fst (placeArchive env tid t d z a)) p = None"
    using place [of a] by auto
qed

text \<open>The target planned for a folder lies in the replay directory, if the path does not end with white space.\<close>

lemma planned_folder_target:
  assumes "IsAbs (pe_tmp e)" "man_Kind m = FileKindFolder" "plannedReplayTargetsForManifest e (Some m) ts = Inr rs"
  obtains n where "rs = [JoinPath [replayTempRootDir e, n]]" "n = sanitizeFileName (manifestPrimaryName m)"
    "trimSpace (hd rs) = hd rs \<Longrightarrow> normalizeReplayTargetPath e (hd rs) = Inr (hd rs)"
    "DirOf (hd rs) = replayTempRootDir e"
proof -
  let ?root = "replayTempRootDir e" and ?n = "sanitizeFileName (manifestPrimaryName m)"
  have root: "IsAbs ?root" using assms(1) by (rule root_abs)
  have safe: "safe_name ?n" by (rule sanitizeFileName_safe_name)
  note join = safeJoin_safe_name [OF root safe]
  have mk: "pe_mkdirAll e ?root = None"
    using assms(3) by (auto simp: plannedReplayTargetsForManifest_def Let_def split: option.splits)
  have ne: "?n \<noteq> ''''" using safe by (auto simp: safe_name_def)
  have kind: "FileKindFolder \<noteq> FileKindSingleFile" by (simp add: FileKindFolder_def FileKindSingleFile_def)
  have rs: "rs = [JoinPath [?root, ?n]]"
    using assms(2,3) mk kind ne join(1) [of e] by (simp add: plannedReplayTargetsForManifest_def Let_def)
  have nonempty: "?root \<noteq> ''''" using root by auto
  have clean: "Clean (JoinPath [?root, ?n]) = JoinPath [?root, ?n]" using ne nonempty by (simp add: JoinPath_two)
  have d: "comps (DirOf (JoinPath [?root, ?n])) = comps ?root" "IsAbs (DirOf (JoinPath [?root, ?n]))"
    using DirOf_clean [OF clean] join(2,3) by simp_all
  have "Clean ?root = ?root" using assms(1) by (auto simp: replayTempRootDir_def JoinPath_def)
  then have dir: "DirOf (JoinPath [?root, ?n]) = ?root"
  proof -
    have "DirOf (JoinPath [?root, ?n]) = unclean True (comps ?root)"
      using Clean_DirOf [of "JoinPath [?root, ?n]"] d unfolding Clean_def by simp
    moreover have "?root = unclean True (comps ?root)"
      using \<open>Clean ?root = ?root\<close> root unfolding Clean_def by simp
    ultimately show ?thesis by simp
  qed
  have "JoinPath [?root, ?n] \<noteq> '''' \<and> JoinPath [?root, ?n] \<noteq> ''.''" using join(3) by auto
  then have "normalizeReplayTargetPath e (JoinPath [?root, ?n]) = Inr (JoinPath [?root, ?n])"
    if "trimSpace (JoinPath [?root, ?n]) = JoinPath [?root, ?n]"
    using that mk clean join(3) ensurePathWithinBase_below [OF root join(3) join(2), of e]
    by (simp add: normalizeReplayTargetPath_def Let_def)
  then show thesis using that [OF rs refl] rs dir by simp
qed

text \<open>C36: Receiving a folder wipes the replay directory. When the target of a received folder lies directly in the
  replay directory, as every planned one does whose name does not end with white space (lemma
  \<open>planned_folder_target\<close>), and the directory can be removed and made, placing the folder does exactly what it
  would do had the directory been empty, whatever the archive holds and whatever else fails: nothing received before
  survives in it. When no archive can be decoded nothing is placed, and nothing at all is left below the directory.\<close>
theorem folder_receive_clears_replay_directory:
  assumes disk: "fault_removeAll (env_faults env) (replayTempRootDir (env_paths env)) = None"
      "fault_mkdir (env_faults env) (replayTempRootDir (env_paths env)) = None" "IsAbs (pe_tmp (env_paths env))"
    and folder: "man_Kind (in_Manifest t) = FileKindFolder" "\<not> usesRawTransfer (in_Manifest t)"
    and item: "GetByTransferID tid (app_history a) = Some it" "item_ReservedPaths it = [r]"
      "normalizeReplayTargetPath (env_paths env) r = Inr q" "DirOf q = replayTempRootDir (env_paths env)"
  shows "placeArchive env tid t d z a =
      placeArchive env tid t d z (a\<lparr>app_fs := clearTree (replayTempRootDir (env_paths env)) (app_fs a)\<rparr>) \<and>
    ((\<forall>b. isl (env_zipRead env b)) \<longrightarrow> isl (snd (placeArchive env tid t d z a)) \<and>
      (\<forall>p. inTree (replayTempRootDir (env_paths env)) p \<longrightarrow> p \<noteq> replayTempRootDir (env_paths env) \<longrightarrow>
         app_fs (fst (placeArchive env tid t d z a)) p = None))"
proof -
  have c: "fault_removeAll (env_faults env) (DirOf q) = None" "fault_mkdir (env_faults env) (DirOf q) = None"
    using disk item(4) by simp_all
  have abs: "IsAbs (DirOf q)" using root_abs [OF disk(3)] item(4) by simp
  have err: "isl (snd (placeArchive env tid t d z a))" if "\<forall>b. isl (env_zipRead env b)"
  proof -
    have "inTree (DirOf q) (JoinPath [DirOf q, ''a''])" "JoinPath [DirOf q, ''a''] \<noteq> DirOf q"
      using comps_JoinPath [OF abs, of "''a''"] abs by (auto simp: inTree_def plain_comp_def dest: arg_cong [of _ _ comps])
    then show ?thesis using folder_damaged [OF c folder item(1-3)] that abs by blast
  qed
  then show ?thesis
    using folder_placed_as_if_empty [OF c folder item(1-3), of d z] folder_damaged [OF c folder item(1-3)] abs
    unfolding item(4) by auto
qed

definition sampleFolder :: incomingTransfer where
  "sampleFolder = sampleHeld\<lparr>in_Manifest := (in_Manifest sampleHeld)\<lparr>man_Kind := FileKindFolder, man_ArchiveFormat := ''zip''\<rparr>\<rparr>"

definition brokenZip :: Env where
  "brokenZip = sampleEnv\<lparr>env_zipRead := \<lambda>_. Inl ''zip: not a valid zip file''\<rparr>"

theorem folder_receive_clears_replay_directory_witness:
  "let a = (sampleDownload '''')\<lparr>app_fs := [''/t/ClipCascade/old.txt'' \<mapsto> NFile ''A'']\<rparr>
   in app_fs (fst (placeArchive brokenZip ''t1'' sampleFolder '''' 0 a)) ''/t/ClipCascade/old.txt'' = None"
proof -
  let ?a = "(sampleDownload '''')\<lparr>app_fs := [''/t/ClipCascade/old.txt'' \<mapsto> NFile ''A'']\<rparr>"
  have env: "env_faults brokenZip = noFaults" "env_paths brokenZip = env_paths sampleEnv"
    "\<forall>b. isl (env_zipRead brokenZip b)" by (simp_all add: brokenZip_def)
  have root: "replayTempRootDir (env_paths sampleEnv) = ''/t/ClipCascade''" "DirOf ''/t/ClipCascade/f.txt'' = ''/t/ClipCascade''"
    unfolding sampleEnv_simps by code_simp+
  have tree: "inTree ''/t/ClipCascade'' ''/t/ClipCascade/old.txt''" by code_simp
  have folder: "man_Kind (in_Manifest sampleFolder) = FileKindFolder" "\<not> usesRawTransfer (in_Manifest sampleFolder)"
    by (simp add: sampleFolder_def) (simp add: sampleFolder_def usesRawTransfer_def, code_simp)
  have item: "GetByTransferID ''t1'' (app_history ?a) = Some (sampleWaiting '''')"
    using sampleDownload_item(1) [of "''''"] by simp
  have q: "normalizeReplayTargetPath (env_paths brokenZip) ''f.txt'' = Inr ''/t/ClipCascade/f.txt''"
    using sampleDownload_target(1) env(2) by simp
  have disk: "fault_removeAll (env_faults brokenZip) (replayTempRootDir (env_paths brokenZip)) = None"
    "fault_mkdir (env_faults brokenZip) (replayTempRootDir (env_paths brokenZip)) = None" "IsAbs (pe_tmp (env_paths brokenZip))"
    using env sampleDownload_world(2) by simp_all
  have dir: "DirOf ''/t/ClipCascade/f.txt'' = replayTempRootDir (env_paths brokenZip)" using root env(2) by simp
  have "replayTempRootDir (env_paths brokenZip) = ''/t/ClipCascade''" using root(1) env(2) by simp
  moreover have "(''/t/ClipCascade/old.txt'' :: string) \<noteq> ''/t/ClipCascade''" by simp
  ultimately have "app_fs (fst (placeArchive brokenZip ''t1'' sampleFolder '''' 0 ?a)) ''/t/ClipCascade/old.txt'' = None"
    using folder_receive_clears_replay_directory [OF disk folder item sampleDownload_item(2) q dir, of "''''" 0] env(3) tree
    by metis
  then show ?thesis unfolding Let_def .
qed

subsection \<open>A folder whose name is white space\<close>

text \<open>
  A folder named by a tab (or by another white space that is not a space or a dot) keeps its name when it is
  sanitized, and its planned path ends with it. Normalising the path trims the name away: the target is then the
  replay directory itself, its parent is the temporary directory of the system, and receiving the folder removes
  everything in that.
\<close>

definition tabFolder :: incomingTransfer where
  "tabFolder = sampleFolder\<lparr>in_Manifest := (in_Manifest sampleFolder)\<lparr>man_TopLevelNames := [[CHR 0x09]]\<rparr>\<rparr>"

definition tabItem :: HistoryItem where
  "tabItem = (sampleWaiting '''')\<lparr>item_ReservedPaths := [''/t/ClipCascade/'' @ [CHR 0x09]]\<rparr>"

theorem blank_folder_name_wipes_temp_directory:
  "plannedReplayTargetsForManifest (env_paths brokenZip) (Some (in_Manifest tabFolder)) 5 = Inr (item_ReservedPaths tabItem) \<and>
   normalizeReplayTargetPath (env_paths brokenZip) (hd (item_ReservedPaths tabItem)) = Inr ''/t/ClipCascade'' \<and>
   (let a = (sampleDownload '''')\<lparr>app_history := sampleManager [tabItem], app_fs := [''/t/other.txt'' \<mapsto> NFile ''A'']\<rparr> in
    app_fs (fst (placeArchive brokenZip ''t1'' tabFolder '''' 0 a)) ''/t/other.txt'' = None)"
proof -
  let ?a = "(sampleDownload '''')\<lparr>app_history := sampleManager [tabItem], app_fs := [''/t/other.txt'' \<mapsto> NFile ''A'']\<rparr>"
  have env: "env_faults brokenZip = noFaults" "env_paths brokenZip = samplePaths" "isl (env_zipRead brokenZip b)" for b
    by (simp_all add: brokenZip_def)
  have folder: "man_Kind (in_Manifest tabFolder) = FileKindFolder" "\<not> usesRawTransfer (in_Manifest tabFolder)"
    "man_TopLevelNames (in_Manifest tabFolder) = [[CHR 0x09]]"
    by (simp_all add: tabFolder_def sampleFolder_def usesRawTransfer_def) code_simp
  have res: "item_ReservedPaths tabItem = [''/t/ClipCascade/'' @ [CHR 0x09]]" by (simp add: tabItem_def)
  have paths: "replayTempRootDir samplePaths = ''/t/ClipCascade''" "sanitizeFileName [CHR 0x09] = [CHR 0x09]"
    "safeJoinUnderBase samplePaths ''/t/ClipCascade'' [[CHR 0x09]] = Inr (''/t/ClipCascade/'' @ [CHR 0x09])"
    "normalizeReplayTargetPath samplePaths (''/t/ClipCascade/'' @ [CHR 0x09]) = Inr ''/t/ClipCascade''"
    "DirOf ''/t/ClipCascade'' = ''/t''" "inTree ''/t'' ''/t/other.txt''" "IsAbs ''/t''"
    unfolding samplePaths_def by code_simp+
  have kind: "FileKindFolder \<noteq> FileKindSingleFile" by (simp add: FileKindFolder_def FileKindSingleFile_def)
  have planned: "plannedReplayTargetsForManifest samplePaths (Some (in_Manifest tabFolder)) 5 = Inr (item_ReservedPaths tabItem)"
  proof -
    have "pe_mkdirAll samplePaths x = None" for x by (simp add: samplePaths_def)
    moreover have "manifestPrimaryName (in_Manifest tabFolder) = [CHR 0x09]" using folder(3) by (simp add: manifestPrimaryName_def)
    ultimately show ?thesis
      using folder(1) paths(1-3) kind res by (simp add: plannedReplayTargetsForManifest_def Let_def)
  qed
  have item: "GetByTransferID ''t1'' (app_history ?a) = Some tabItem"
    by (simp add: tabItem_def sampleWaiting_def hist_eval GetByTransferID_def)
  have q: "normalizeReplayTargetPath (env_paths brokenZip) (''/t/ClipCascade/'' @ [CHR 0x09]) = Inr ''/t/ClipCascade''"
    using paths(4) env(2) by simp
  have disk: "fault_removeAll (env_faults brokenZip) (DirOf ''/t/ClipCascade'') = None"
    "fault_mkdir (env_faults brokenZip) (DirOf ''/t/ClipCascade'') = None"
    using env(1) by simp_all
  have "app_fs (fst (placeArchive brokenZip ''t1'' tabFolder '''' 0 ?a)) ''/t/other.txt'' = None"
    using folder_damaged [OF disk folder(1,2) item res q env(3), of "''/t/other.txt''" "''''" 0] paths(5-7) by simp
  then show ?thesis using planned paths(4) res env(2) unfolding Let_def by simp
qed

end
