(* ===== verification/TransferRegister.thy ===== *)
theory TransferRegister
  imports Samples
begin

text \<open>
  The register of outgoing transfers as a state machine: registration by content (its second half may come any
  time after its look-up), requests of several targets, archive preparation, completion, release and the clean-up timer, in any order; its invariant, and
  what preparing an archive gives.
\<close>

section \<open>Preparing an archive\<close>

text \<open>What preparation leaves alone in a transfer.\<close>

definition same_offer :: "outgoingTransfer \<Rightarrow> outgoingTransfer \<Rightarrow> bool" where
  "same_offer tr tr' \<longleftrightarrow> out_Manifest tr' = out_Manifest tr \<and> out_SourcePaths tr' = out_SourcePaths tr \<and>
     out_SourceSignature tr' = out_SourceSignature tr \<and> out_sendingTargets tr' = out_sendingTargets tr"

lemma newTransferTempDir_transfers:
  "newTransferTempDir env t a = (a', r) \<Longrightarrow> app_transfers a' = app_transfers a"
  by (auto simp: newTransferTempDir_def Let_def split: option.splits)

lemma onDisk_offer:
  assumes "prepareOutgoingArchiveOnDisk env tr a = (a', tr', e)"
  shows "same_offer tr tr' \<and> out_cleanupTimer tr' = out_cleanupTimer tr \<and> out_cleanupGen tr' = out_cleanupGen tr \<and>
     app_transfers a' = app_transfers a"
  using assms
  by (auto simp: prepareOutgoingArchiveOnDisk_def same_offer_def Let_def
      split: if_splits sum.splits prod.splits option.splits dest!: newTransferTempDir_transfers)

lemma inMemory_offer:
  assumes "prepareOutgoingArchiveInMemory env a tr = (tr', e)"
  shows "same_offer tr tr' \<and> out_cleanupTimer tr' = out_cleanupTimer tr \<and> out_cleanupGen tr' = out_cleanupGen tr"
  using assms by (auto simp: prepareOutgoingArchiveInMemory_def same_offer_def split: if_splits sum.splits)

lemma same_offer_trans: "same_offer a b \<Longrightarrow> same_offer b c \<Longrightarrow> same_offer a c"
  by (simp add: same_offer_def)

lemma prepare_offer:
  assumes "prepareOutgoingArchive env tr a = (a', tr', e)"
  shows "same_offer tr tr' \<and> out_cleanupTimer tr' = None \<and> out_cleanupGen tr' = out_cleanupGen tr + 1 \<and>
     app_transfers a' = app_transfers a"
proof -
  let ?tr = "tr\<lparr>out_cleanupTimer := None, out_cleanupGen := out_cleanupGen tr + 1\<rparr>"
  have start: "same_offer tr ?tr" by (simp add: same_offer_def)
  consider (reuse) m where "a' = a" "tr' = ?tr\<lparr>out_ArchiveMode := m\<rparr>"
    | (memory) x where "a' = a" "prepareOutgoingArchiveInMemory env a ?tr = (tr', x)"
    | (fallback) tr1 x where "prepareOutgoingArchiveInMemory env a ?tr = (tr1, x)"
        "prepareOutgoingArchiveOnDisk env tr1 a = (a', tr', e)"
    | (disk) "prepareOutgoingArchiveOnDisk env ?tr a = (a', tr', e)"
    using assms by (auto simp: prepareOutgoingArchive_def Let_def split: if_splits prod.splits option.splits)
  then show ?thesis
  proof cases
    case reuse
    then show ?thesis by (simp add: same_offer_def)
  next
    case (memory x)
    then show ?thesis using inMemory_offer [OF memory(2)] start by (auto intro: same_offer_trans)
  next
    case (fallback tr1 x)
    then show ?thesis using inMemory_offer [OF fallback(1)] onDisk_offer [OF fallback(2)] start
      by (auto intro: same_offer_trans)
  next
    case disk
    then show ?thesis using onDisk_offer [OF disk] start by (auto intro: same_offer_trans)
  qed
qed

section \<open>The register\<close>

definition outgoing_ok :: "string \<Rightarrow> outgoingTransfer \<Rightarrow> bool" where
  "outgoing_ok t tr \<longleftrightarrow> man_TransferID (out_Manifest tr) = t \<and> distinct (out_sendingTargets tr) \<and>
     (case out_cleanupTimer tr of None \<Rightarrow> True | Some g \<Rightarrow> g = out_cleanupGen tr)"

definition register_inv :: "App \<Rightarrow> bool" where
  "register_inv a \<longleftrightarrow>
     (let out = tm_outgoing (app_transfers a) in
      distinct (map fst out) \<and> (\<forall>t tr. getOutgoingMutable t a = Some tr \<longrightarrow> outgoing_ok t tr))"

lemma getOutgoing_set: "getOutgoingMutable u (setOutgoing t tr a) = (if u = t then Some tr else getOutgoingMutable u a)"
  by (simp add: getOutgoingMutable_def setOutgoing_def update_conv')

lemma getOutgoing_cong: "app_transfers b = app_transfers a \<Longrightarrow> getOutgoingMutable t b = getOutgoingMutable t a"
  by (simp add: getOutgoingMutable_def)

lemma register_inv_cong:
  assumes "app_transfers b = app_transfers a"
  shows "register_inv b = register_inv a"
  by (simp only: register_inv_def Let_def getOutgoing_cong [OF assms] assms)

lemma register_inv_set:
  assumes "register_inv a" "outgoing_ok t tr"
  shows "register_inv (setOutgoing t tr a)"
proof -
  have d: "distinct (map fst (tm_outgoing (app_transfers a)))"
    using assms(1) unfolding register_inv_def Let_def by (rule conjunct1)
  have "distinct (map fst (tm_outgoing (app_transfers (setOutgoing t tr a))))"
    using distinct_update [OF d, of t tr] by (simp add: setOutgoing_def)
  moreover have "outgoing_ok u ur" if "getOutgoingMutable u (setOutgoing t tr a) = Some ur" for u ur
    using that assms(1,2) by (auto simp: getOutgoing_set register_inv_def Let_def split: if_splits)
  ultimately show ?thesis unfolding register_inv_def Let_def by blast
qed

lemma register_inv_change:
  assumes "register_inv a" "getOutgoingMutable t a = Some tr"
    and "out_Manifest tr' = out_Manifest tr" "distinct (out_sendingTargets tr')"
    and "\<And>g. out_cleanupTimer tr' = Some g \<Longrightarrow> g = out_cleanupGen tr'"
  shows "register_inv (setOutgoing t tr' a)"
proof (rule register_inv_set [OF assms(1)])
  show "outgoing_ok t tr'"
    using assms by (auto simp: register_inv_def outgoing_ok_def Let_def split: option.split)
qed

lemma register_ok: "register_inv a \<Longrightarrow> getOutgoingMutable t a = Some tr \<Longrightarrow> outgoing_ok t tr"
  by (simp add: register_inv_def Let_def)

section \<open>Steps\<close>

text \<open>
  A transfer identifier is a fresh UUID. The look-up of a registration changes nothing; the store that follows it
  may come after any other steps, so that a store of any content at any time is a step.
\<close>

inductive outgoing_step :: "App \<Rightarrow> App \<Rightarrow> bool" where
  step_register: "getOutgoingMutable (env_uuid env (app_randomNo a)) a = None \<Longrightarrow>
    outgoing_step a (fst (registerInsert env paths sig dev kind a))"
| step_begin: "outgoing_step a (fst (beginFileRequest r a))"
| step_prepare: "outgoing_step a (fst (prepareFileRequest env r a))"
| step_chunks: "outgoing_step a (fst (sendPreparedArchive env r k a))"
| step_announce: "outgoing_step a (fst (announceComplete env r a))"
| step_end: "outgoing_step a (endFileRequest r a)"
| step_release: "outgoing_step a (handleFileRelease env rel a)"
| step_timer: "outgoing_step a (cleanupTimerFires env t g a)"

inductive_cases outgoing_stepE: "outgoing_step a b"

lemma sendClipboardData_transfers:
  "app_transfers (fst (sendClipboardData env cd a)) = app_transfers a"
  by (auto simp: sendClipboardData_def sendClipboardDataWithResult_def Let_def split: sum.splits prod.splits)

lemma send_transfers: "sendClipboardData env cd a = (a', e) \<Longrightarrow> app_transfers a' = app_transfers a"
  using sendClipboardData_transfers [of env cd a] by simp

lemma sendChunksFrom_transfers: "app_transfers (fst (sendChunksFrom env tr target k rest a)) = app_transfers a"
proof (induction env tr target k rest a rule: sendChunksFrom.induct)
  case (1 env tr target k rest a)
  show ?case
    using 1
    by (subst sendChunksFrom.simps)
      (auto simp: Let_def split: sum.splits prod.splits option.splits dest!: send_transfers)
qed

lemma chunks_transfers: "app_transfers (fst (sendPreparedArchive env r k a)) = app_transfers a"
  using sendChunksFrom_transfers
  by (auto simp: sendPreparedArchive_def sendArchiveChunks_def split: option.splits sum.splits)

lemma schedule_inv: "register_inv a \<Longrightarrow> register_inv (scheduleOutgoingArchiveCleanup t a)"
proof (cases "getOutgoingMutable t a")
  case (Some tr)
  assume inv: "register_inv a"
  have "distinct (out_sendingTargets tr)" using register_ok [OF inv Some] by (simp add: outgoing_ok_def)
  then show ?thesis
    using Some register_inv_change [OF inv Some,
        of "tr\<lparr>out_cleanupGen := out_cleanupGen tr + 1, out_cleanupTimer := Some (out_cleanupGen tr + 1)\<rparr>"]
    by (simp add: scheduleOutgoingArchiveCleanup_def Let_def)
qed (simp add: scheduleOutgoingArchiveCleanup_def)

lemma targets_inv:
  assumes "register_inv a" "getOutgoingMutable t a = Some tr" "distinct xs"
  shows "register_inv (setOutgoing t (tr\<lparr>out_sendingTargets := xs\<rparr>) a)"
  using register_ok [OF assms(1,2)] assms(3)
  by (intro register_inv_change [OF assms(1,2)]) (auto simp: outgoing_ok_def)

lemma removeBaseDir_transfers: "app_transfers (removeBaseDir env d a) = app_transfers a"
  by (simp add: removeBaseDir_def)

lemma wipe_inv:
  assumes "register_inv a" "getOutgoingMutable t a = Some tr"
  shows "register_inv (removeBaseDir env d (setOutgoing t (wipeArchive (tr\<lparr>out_cleanupGen := g\<rparr>)) a))"
    "register_inv (removeBaseDir env d (setOutgoing t (wipeArchive tr) a))"
proof -
  have "distinct (out_sendingTargets tr)" using register_ok [OF assms] by (simp add: outgoing_ok_def)
  then have "register_inv (setOutgoing t (wipeArchive (tr\<lparr>out_cleanupGen := g\<rparr>)) a)"
    "register_inv (setOutgoing t (wipeArchive tr) a)"
    by (auto intro!: register_inv_change [OF assms] simp: wipeArchive_def)
  then show "register_inv (removeBaseDir env d (setOutgoing t (wipeArchive (tr\<lparr>out_cleanupGen := g\<rparr>)) a))"
    "register_inv (removeBaseDir env d (setOutgoing t (wipeArchive tr) a))"
    using register_inv_cong [OF removeBaseDir_transfers] by blast+
qed

lemma register_step_inv:
  assumes "register_inv a"
  shows "register_inv (fst (registerInsert env paths sig dev kind a))"
proof -
  let ?b = "a\<lparr>app_randomNo := app_randomNo a + 2\<rparr>"
  have "register_inv ?b" using register_inv_cong [of ?b a] assms by simp
  then show ?thesis
    by (auto simp: registerInsert_def Let_def outgoing_ok_def newOutgoing_def createFileStubManifestWithKind_def
        intro!: register_inv_set)
qed

lemma prepare_step_inv:
  assumes "register_inv a"
  shows "register_inv (fst (prepareFileRequest env r a))"
proof (cases "getOutgoingMutable (req_TransferID r) a")
  case (Some tr)
  obtain a1 tr1 e where p: "prepareOutgoingArchive env tr a = (a1, tr1, e)" by (cases "prepareOutgoingArchive env tr a")
  note offer = prepare_offer [OF p]
  have d: "distinct (out_sendingTargets tr)" using register_ok [OF assms Some] by (simp add: outgoing_ok_def)
  have "register_inv a1" "getOutgoingMutable (req_TransferID r) a1 = Some tr"
    using offer register_inv_cong [of a1 a] getOutgoing_cong [of a1 a] assms Some by simp_all
  then have "register_inv (setOutgoing (req_TransferID r) tr1 a1)"
    using offer d by (intro register_inv_change) (simp_all add: same_offer_def)
  then show ?thesis using Some p by (simp add: prepareFileRequest_def Let_def split: option.splits)
qed (simp add: prepareFileRequest_def assms)

lemma outgoing_step_inv: "outgoing_step a b \<Longrightarrow> register_inv a \<Longrightarrow> register_inv b"
proof (induction rule: outgoing_step.induct)
  case (step_register env a paths sig dev kind)
  then show ?case by (simp add: register_step_inv)
next
  case (step_begin a r)
  then show ?case
    using targets_inv [OF step_begin] register_ok [OF step_begin]
    by (auto simp: beginFileRequest_def outgoing_ok_def split: option.splits)
next
  case (step_prepare a env r)
  then show ?case by (rule prepare_step_inv)
next
  case (step_chunks a env r k)
  then show ?case using register_inv_cong [OF chunks_transfers] by blast
next
  case (step_announce a env r)
  then show ?case
    by (auto simp: announceComplete_def split: option.splits prod.splits
        intro!: schedule_inv dest!: send_transfers register_inv_cong)
next
  case (step_end a r)
  then show ?case
    using targets_inv [OF step_end] register_ok [OF step_end]
    by (auto simp: endFileRequest_def outgoing_ok_def split: option.splits)
next
  case (step_release a env rel)
  then show ?case
    using wipe_inv(1) [OF step_release]
    by (auto simp: handleFileRelease_def releaseOutgoingArchive_def split: option.splits)
next
  case (step_timer a env t g)
  then show ?case using wipe_inv(2) [OF step_timer] by (auto simp: cleanupTimerFires_def split: option.splits)
qed


inductive outgoing_reachable :: "App \<Rightarrow> bool" where
  outgoing_start: "tm_outgoing (app_transfers a) = [] \<Longrightarrow> outgoing_reachable a"
| outgoing_next: "outgoing_reachable a \<Longrightarrow> outgoing_step a b \<Longrightarrow> outgoing_reachable b"

lemma outgoing_reachable_inv: "outgoing_reachable a \<Longrightarrow> register_inv a"
proof (induction rule: outgoing_reachable.induct)
  case (outgoing_start a)
  then show ?case by (simp add: register_inv_def getOutgoingMutable_def Let_def)
next
  case (outgoing_next a b)
  then show ?case by (blast intro: outgoing_step_inv)
qed

text \<open>What a transfer offers, which no step changes.\<close>

definition offer_of :: "outgoingTransfer \<Rightarrow> FileStubManifest \<times> string list \<times> string" where
  "offer_of tr = (out_Manifest tr, out_SourcePaths tr, out_SourceSignature tr)"

definition offers :: "App \<Rightarrow> string \<Rightarrow> (FileStubManifest \<times> string list \<times> string) option" where
  "offers a t = map_option offer_of (getOutgoingMutable t a)"

lemma offers_cong: "app_transfers b = app_transfers a \<Longrightarrow> offers b = offers a"
  by (rule ext) (simp add: offers_def getOutgoingMutable_def)

lemma offers_set: "offers (setOutgoing t tr a) = (offers a)(t \<mapsto> offer_of tr)"
  by (rule ext) (simp add: offers_def getOutgoing_set)

lemma offers_change:
  "getOutgoingMutable t a = Some tr \<Longrightarrow> offer_of tr' = offer_of tr \<Longrightarrow> offers (setOutgoing t tr' a) = offers a"
  by (rule ext) (simp add: offers_def getOutgoing_set)

lemma wipe_offer: "offer_of (wipeArchive tr) = offer_of tr"
  by (simp add: offer_of_def wipeArchive_def)

lemma prepare_offers: "offers (fst (prepareFileRequest env r a)) = offers a"
proof (cases "getOutgoingMutable (req_TransferID r) a")
  case (Some tr)
  obtain a1 tr1 e where p: "prepareOutgoingArchive env tr a = (a1, tr1, e)" by (cases "prepareOutgoingArchive env tr a")
  have k: "app_transfers a1 = app_transfers a" "offer_of tr1 = offer_of tr"
    using prepare_offer [OF p] by (simp_all add: same_offer_def offer_of_def)
  have "offers (setOutgoing (req_TransferID r) tr1 a1) = offers a"
    using k Some offers_change [of "req_TransferID r" a1 tr tr1] getOutgoing_cong [OF k(1)] offers_cong [OF k(1)] by simp
  then show ?thesis using Some p by (simp add: prepareFileRequest_def Let_def split: option.splits)
qed (simp add: prepareFileRequest_def)

lemma outgoing_step_offers: "outgoing_step a b \<Longrightarrow> offers a t = Some x \<Longrightarrow> offers b t = Some x"
proof (induction rule: outgoing_step.induct)
  case (step_register env a paths sig dev kind)
  let ?b = "a\<lparr>app_randomNo := app_randomNo a + 2\<rparr>"
  have "offers ?b = offers a" by (rule offers_cong) simp
  then show ?case using step_register
    by (auto simp: registerInsert_def Let_def offers_set) (simp add: offers_def)
next
  case (step_begin a r)
  then show ?case by (auto simp: beginFileRequest_def offers_change offer_of_def split: option.splits)
next
  case (step_prepare a env r)
  then show ?case by (simp add: prepare_offers)
next
  case (step_chunks a env r k)
  then show ?case using offers_cong [OF chunks_transfers] by metis
next
  case (step_announce a env r)
  have "offers (scheduleOutgoingArchiveCleanup u c) = offers c" for u c
    by (auto simp: scheduleOutgoingArchiveCleanup_def Let_def offers_change offer_of_def split: option.splits)
  then show ?case using step_announce
    by (auto simp: announceComplete_def split: option.splits prod.splits dest!: send_transfers offers_cong)
next
  case (step_end a r)
  then show ?case by (auto simp: endFileRequest_def offers_change offer_of_def split: option.splits)
next
  case (step_release a env rel)
  then show ?case
    using offers_cong [OF removeBaseDir_transfers]
    by (auto simp: handleFileRelease_def releaseOutgoingArchive_def offers_change offer_of_def wipeArchive_def split: option.splits)
next
  case (step_timer a env u g)
  then show ?case
    using offers_cong [OF removeBaseDir_transfers]
    by (auto simp: cleanupTimerFires_def offers_change wipe_offer split: option.splits)
qed

text \<open>C29: However look-ups and stores of registrations, requests of several targets, archive preparations,
  completions, releases and timer callbacks interleave, the register of outgoing transfers stays well formed: a
  transfer is filed under its own identifier, a target is being sent a transfer at most once, an armed clean-up
  timer carries the current generation (so one stopped too late does nothing), and no later step removes a
  transfer or changes what it offers: its manifest, its source paths and the signature of their content.\<close>
theorem outgoing_register_wellformed:
  assumes "outgoing_reachable a" "getOutgoingMutable t a = Some tr"
  shows "man_TransferID (out_Manifest tr) = t \<and> distinct (out_sendingTargets tr) \<and>
    out_cleanupTimer tr \<in> {None, Some (out_cleanupGen tr)} \<and>
    (\<forall>b. outgoing_step a b \<longrightarrow> (\<exists>tr'. getOutgoingMutable t b = Some tr' \<and> out_Manifest tr' = out_Manifest tr \<and>
       out_SourcePaths tr' = out_SourcePaths tr \<and> out_SourceSignature tr' = out_SourceSignature tr))"
proof -
  note inv = outgoing_reachable_inv [OF assms(1)]
  have "out_cleanupTimer tr \<in> {None, Some (out_cleanupGen tr)}"
    using register_ok [OF inv assms(2)] by (auto simp: outgoing_ok_def split: option.splits)
  moreover have "\<exists>tr'. getOutgoingMutable t b = Some tr' \<and> out_Manifest tr' = out_Manifest tr \<and>
       out_SourcePaths tr' = out_SourcePaths tr \<and> out_SourceSignature tr' = out_SourceSignature tr" if "outgoing_step a b" for b
    using outgoing_step_offers [OF that, of t "offer_of tr"] assms(2) by (auto simp: offers_def offer_of_def)
  ultimately show ?thesis
    using register_ok [OF inv assms(2)] unfolding outgoing_ok_def by auto
qed

subsection \<open>Registering a content\<close>

text \<open>A registration with nothing in between is a run of the register.\<close>

lemma register_reachable:
  assumes "outgoing_reachable a" "getOutgoingMutable (env_uuid env (app_randomNo a)) a = None"
  shows "outgoing_reachable (fst (RegisterOutgoingWithKind env paths dev kind a))"
proof -
  have "outgoing_step a (fst (registerInsert env paths sig dev kind a))" for sig
    by (rule step_register [OF assms(2)])
  then have "outgoing_reachable (fst (registerInsert env paths sig dev kind a))" for sig
    by (rule outgoing_next [OF assms(1)])
  then show ?thesis
    using assms(1)
    by (auto simp: RegisterOutgoingWithKind_def split: sum.split prod.split option.split) (metis fst_conv)
qed

text \<open>With nothing in between, a content is registered once.\<close>

lemma registered_again:
  assumes "sourcePathsSignature env paths = Inr sig" "paths \<noteq> []"
    and "getOutgoingMutable t a = Some tr" "out_SourceSignature tr = sig"
  shows "\<exists>existing. RegisterOutgoingWithKind env paths dev kind a = (a, Inr existing) \<and> out_SourceSignature existing = sig"
proof -
  let ?f = "List.find (\<lambda>(_, existing). out_SourceSignature existing = sig) (tm_outgoing (app_transfers a))"
  have "?f \<noteq> None"
    using assms(3,4) by (auto simp: getOutgoingMutable_def find_None_iff dest!: map_of_SomeD)
  then obtain i existing where f: "?f = Some (i, existing)" by auto
  then have "out_SourceSignature existing = sig" by (auto dest!: find_SomeD)
  then show ?thesis using assms(1,2) f by (simp add: registration_defs)
qed

text \<open>
  Two registrations of one content that both look before either stores: both find nothing and both store, and the
  content is then registered under two identifiers.
\<close>

lemma racing_registrations_store_twice:
  fixes dev kind :: string
  assumes "registerLookup env paths a = Inr (sig, None)" "env_uuid env (app_randomNo a) \<noteq> env_uuid env (app_randomNo a + 2)"
  defines "b \<equiv> fst (registerInsert env paths sig dev kind (fst (registerInsert env paths sig dev kind a)))"
  shows "\<exists>t u tr ur. t \<noteq> u \<and> getOutgoingMutable t b = Some tr \<and> getOutgoingMutable u b = Some ur \<and>
    out_SourceSignature tr = sig \<and> out_SourceSignature ur = sig \<and> out_SourcePaths tr = paths \<and> out_SourcePaths ur = paths"
proof -
  let ?a1 = "fst (registerInsert env paths sig dev kind a)"
  have no: "app_randomNo ?a1 = app_randomNo a + 2" by (simp add: registerInsert_def Let_def setOutgoing_def)
  have get: "\<exists>tr. getOutgoingMutable (env_uuid env (app_randomNo c)) (fst (registerInsert env paths sig dev kind c)) = Some tr \<and>
      out_SourceSignature tr = sig \<and> out_SourcePaths tr = paths" for c
    by (simp add: registerInsert_def Let_def getOutgoing_set newOutgoing_def)
  have "getOutgoingMutable t b = getOutgoingMutable t ?a1" if "t \<noteq> env_uuid env (app_randomNo ?a1)" for t
    using that getOutgoing_cong [of "?a1\<lparr>app_randomNo := app_randomNo ?a1 + 2\<rparr>" ?a1]
    by (simp add: b_def registerInsert_def [of _ _ _ _ _ ?a1] Let_def getOutgoing_set)
  then have "getOutgoingMutable (env_uuid env (app_randomNo a)) b = getOutgoingMutable (env_uuid env (app_randomNo a)) ?a1"
    using assms(2) no by simp
  then show ?thesis using get [of a] get [of ?a1] assms(2) no unfolding b_def by metis
qed

lemma link_frame:
  "e2eeKey (fst (beginFileRequest r a)) = e2eeKey a" "app_hasP2P (fst (beginFileRequest r a)) = app_hasP2P a"
  "e2eeKey (fst (RegisterOutgoingWithKind env paths dev kind a)) = e2eeKey a"
  "app_hasP2P (fst (RegisterOutgoingWithKind env paths dev kind a)) = app_hasP2P a"
  by (auto simp: beginFileRequest_def registration_defs Let_def setOutgoing_def e2eeKey_def
      split: option.split sum.split)

definition sampleSender :: App where
  "sampleSender = fst (RegisterOutgoingWithKind sampleEnv [''/src/f.txt''] ''dev'' '''' (sampleApp ''s''))"

definition sampleRequest :: "string \<Rightarrow> FileRequest" where
  "sampleRequest target = \<lparr>req_TransferID = ''id'', req_EntryID = ''idx'', req_TargetSessionID = target, req_ResumeFromChunk = 0\<rparr>"

lemma sampleSender_outgoing:
  "\<exists>m s. getOutgoingMutable ''id'' sampleSender = Some (newOutgoing m [''/src/f.txt''] s)"
proof -
  obtain s where s: "sourcePathsSignature sampleEnv [''/src/f.txt''] = Inr s"
    by (simp add: sourcePathsSignature_def sampleEnv_def)
  have "tm_outgoing (app_transfers (sampleApp ''s'')) = []" "env_uuid sampleEnv (app_randomNo (sampleApp ''s'')) = ''id''"
    by (simp_all add: sampleApp_def newTransferManager_def sampleEnv_def)
  then show ?thesis
    by (simp add: sampleSender_def registration_defs s Let_def getOutgoing_set) blast
qed

lemma sampleSender_reachable: "outgoing_reachable sampleSender"
  unfolding sampleSender_def
  by (rule register_reachable [OF outgoing_start])
    (simp_all add: sampleApp_def newTransferManager_def getOutgoingMutable_def)

lemma sampleSending:
  "\<exists>tr. getOutgoingMutable ''id'' (fst (beginFileRequest (sampleRequest ''r'') sampleSender)) = Some tr \<and>
     out_sendingTargets tr = [''r'']"
proof -
  obtain m s where "getOutgoingMutable ''id'' sampleSender = Some (newOutgoing m [''/src/f.txt''] s)"
    using sampleSender_outgoing by blast
  then show ?thesis
    by (simp add: beginFileRequest_def sampleRequest_def getOutgoing_set) (simp add: newOutgoing_def)
qed

theorem outgoing_register_wellformed_witness:
  "\<exists>tr. getOutgoingMutable ''id'' (fst (beginFileRequest (sampleRequest ''r'') sampleSender)) = Some tr \<and>
     out_sendingTargets tr = [''r''] \<and> man_TransferID (out_Manifest tr) = ''id''"
proof -
  let ?a = "fst (beginFileRequest (sampleRequest ''r'') sampleSender)"
  obtain tr where tr: "getOutgoingMutable ''id'' ?a = Some tr" "out_sendingTargets tr = [''r'']"
    using sampleSending by blast
  have "outgoing_reachable ?a" by (rule outgoing_next [OF sampleSender_reachable step_begin])
  from outgoing_register_wellformed [OF this tr(1)] show ?thesis using tr by simp
qed

section \<open>Who may wipe an archive\<close>

text \<open>While a target is being sent a transfer, a second request of that target for it changes nothing and
  sends nothing, and a release message of any client leaves the archive alone.\<close>
theorem one_send_per_target:
  assumes "getOutgoingMutable tid a = Some tr" "target \<in> set (out_sendingTargets tr)"
    and "req_TransferID r = tid" "req_TargetSessionID r = target" "rel_TransferID rel = tid"
  shows "handleFileRequest env r a = (a, None) \<and> handleFileRelease env rel a = a"
  using assms
  by (auto simp: handleFileRequest_def beginFileRequest_def handleFileRelease_def releaseOutgoingArchive_def
      split: prod.split)

theorem one_send_per_target_witness:
  "let a = fst (beginFileRequest (sampleRequest ''r'') sampleSender) in
   handleFileRequest sampleEnv (sampleRequest ''r'') a = (a, None)"
proof -
  let ?a = "fst (beginFileRequest (sampleRequest ''r'') sampleSender)"
  obtain tr where "getOutgoingMutable ''id'' ?a = Some tr" "''r'' \<in> set (out_sendingTargets tr)"
    using sampleSending by auto
  from one_send_per_target [OF this, of "sampleRequest ''r''"
      "\<lparr>rel_TransferID = ''id'', rel_TargetSessionID = ''q'', rel_ReleaseReason = ''''\<rparr>" sampleEnv]
  show ?thesis by (simp add: sampleRequest_def Let_def)
qed

text \<open>The clean-up timer does not look at the targets still being served: when it was armed by the
  completion for one target and fires while another target is being sent the same transfer, the archive's
  bytes, path and digest are wiped under that sender, which then announces an empty digest.\<close>
theorem cleanup_timer_wipes_archive_in_use:
  assumes "outgoing_reachable a" "getOutgoingMutable t a = Some tr" "out_cleanupTimer tr = Some g"
  shows "getOutgoingMutable t (cleanupTimerFires env t g a) = Some (wipeArchive tr) \<and>
    out_sendingTargets (wipeArchive tr) = out_sendingTargets tr \<and> out_ArchiveBytes (wipeArchive tr) = [] \<and>
    out_ArchivePath (wipeArchive tr) = '''' \<and> out_ArchiveSHA256 (wipeArchive tr) = ''''"
proof -
  have "g = out_cleanupGen tr"
    using register_ok [OF outgoing_reachable_inv [OF assms(1)] assms(2)] assms(3) by (simp add: outgoing_ok_def)
  moreover have "getOutgoingMutable t (removeBaseDir env d b) = getOutgoingMutable t b" for d b
    by (rule getOutgoing_cong) (simp add: removeBaseDir_def)
  ultimately show ?thesis
    using assms(2) by (simp add: cleanupTimerFires_def getOutgoing_set wipeArchive_def)
qed


theorem cleanup_timer_wipes_archive_in_use_witness:
  "\<exists>a tr g. outgoing_reachable a \<and> getOutgoingMutable ''id'' (cleanupTimerFires sampleEnv ''id'' g a) = Some tr \<and>
     out_sendingTargets tr = [''r''] \<and> out_ArchiveSHA256 tr = ''''"
proof -
  let ?b = "fst (beginFileRequest (sampleRequest ''r'') sampleSender)"
  let ?a = "fst (announceComplete sampleEnv (sampleRequest ''q'') ?b)"
  obtain tr where tr: "getOutgoingMutable ''id'' ?b = Some tr" "out_sendingTargets tr = [''r'']"
    using sampleSending by blast
  let ?cd = "NewClipboardDataWithPayload completeJSON TypeFileComplete
    \<lparr>cmp_TransferID = ''id'', cmp_TargetSessionID = ''q'', cmp_ArchiveMode = archiveModeString (out_ArchiveMode tr),
     cmp_ArchiveSHA256 = out_ArchiveSHA256 tr, cmp_ActualTotalBytes = out_ArchiveSize tr\<rparr>"
  have key: "e2eeKey ?b = None" "app_hasP2P ?b"
    by (simp_all add: sampleSender_def link_frame)
  have "isSingleRouteClipboardType TypeFileComplete" by (simp add: isSingleRouteClipboardType_def)
  then have "snd (sendClipboardData sampleEnv ?cd ?b) = None"
    using key by (simp add: sendClipboardData_def sendClipboardDataWithResult_def messageBody_def Let_def
        dispatchClipboardBodySingleRoute_def)
  then obtain b1 where b1: "sendClipboardData sampleEnv ?cd ?b = (b1, None)" by (cases "sendClipboardData sampleEnv ?cd ?b") auto
  have "getOutgoingMutable ''id'' b1 = Some tr"
    using getOutgoing_cong [OF send_transfers [OF b1]] tr(1) by simp
  then have timer: "getOutgoingMutable ''id'' ?a =
      Some (tr\<lparr>out_cleanupGen := out_cleanupGen tr + 1, out_cleanupTimer := Some (out_cleanupGen tr + 1)\<rparr>)"
    using tr(1) b1 by (simp add: announceComplete_def sampleRequest_def scheduleOutgoingArchiveCleanup_def Let_def getOutgoing_set)
  have "outgoing_reachable ?a"
    by (rule outgoing_next [OF outgoing_next [OF sampleSender_reachable step_begin] step_announce])
  moreover from cleanup_timer_wipes_archive_in_use [OF this timer, of "out_cleanupGen tr + 1" sampleEnv]
  have "\<exists>tr'. getOutgoingMutable ''id'' (cleanupTimerFires sampleEnv ''id'' (out_cleanupGen tr + 1) ?a) = Some tr' \<and>
     out_sendingTargets tr' = [''r''] \<and> out_ArchiveSHA256 tr' = ''''"
    using tr(2) by auto
  ultimately show ?thesis by blast
qed


end
