(* ===== verification/TransferPrepare.thy ===== *)
theory TransferPrepare
  imports TransferRegister
begin

text \<open>
  What preparing an outgoing archive gives: the bytes of the source (or of its zip), readable by the chunk
  reader, with the digest, size and chunk count that will be announced.
\<close>

lemma os_Write_success:
  assumes "os_Write flt p content trunc fs = (fs', None)"
  shows "fs' p = Some (NFile ((if trunc then [] else fileBytes fs p) @ content))"
  using assms
  by (auto simp: os_Write_def fileBytes_def Let_def split: option.splits node.splits if_splits)

lemma chunkCount_step: "0 < n \<Longrightarrow> chunkCountForSize (n + int fileTransferChunkSize) = chunkCountForSize n + 1"
  using div_add_self2 [of "int fileTransferChunkSize" n] by (simp add: chunkCountForSize_def)

lemma chunkCount_pieces: "chunkCountForSize (int (length b)) = int (length (pieces b))"
proof (induction b rule: pieces.induct)
  case (1 b)
  let ?c = "fileTransferChunkSize"
  show ?case
  proof (cases "b = []")
    case False
    have step: "length (pieces b) = Suc (length (pieces (drop ?c b)))" using False by (subst pieces.simps) simp
    have ih: "chunkCountForSize (int (length (drop ?c b))) = int (length (pieces (drop ?c b)))"
      by (rule "1.IH" [OF False])
    show ?thesis
    proof (cases "length b \<le> ?c")
      case True
      then have "pieces (drop ?c b) = []" by simp
      then have one: "length (pieces b) = 1" using step by simp
      have pos: "0 < length b" using False by simp
      show ?thesis
      proof (cases "length b = ?c")
        case True
        then show ?thesis using one pos by (simp add: chunkCountForSize_def)
      next
        case False
        then have "length b < ?c" using \<open>length b \<le> ?c\<close> by simp
        then show ?thesis using one pos by (simp add: chunkCountForSize_def)
      qed
    next
      case more: False
      then have len: "int (length b) = int (length (drop ?c b)) + int ?c" by simp
      have pos: "0 < int (length (drop ?c b))" using more by simp
      have "chunkCountForSize (int (length b)) = chunkCountForSize (int (length (drop ?c b))) + 1"
        unfolding len by (rule chunkCount_step [OF pos])
      then show ?thesis using step ih by simp
    qed
  qed (simp add: chunkCountForSize_def)
qed

text \<open>An archive a sender can announce truthfully.\<close>

definition announces :: "Env \<Rightarrow> outgoingTransfer \<Rightarrow> bytes \<Rightarrow> bool" where
  "announces env tr B \<longleftrightarrow> out_ArchiveSHA256 tr = sha256hex env B \<and> out_ArchiveSize tr = int (length B) \<and>
     out_ChunkCount tr = int (length (pieces B))"

lemma onDisk_content:
  assumes "prepareOutgoingArchiveOnDisk env tr a = (a', tr', None)" "outgoingContent env tr = Inr B"
  shows "announces env tr' B \<and> out_ArchiveBytes tr' = [] \<and> out_ArchiveMode tr' = transferArchiveModeDisk \<and>
    os_ReadFile (env_faults env) (app_fs a') (out_ArchivePath tr') = Inr B"
proof -
  obtain a1 base where "(case os_MkdirAll (env_faults env) base (app_fs a1) of
        (fs2, Some err) \<Rightarrow> (a1\<lparr>app_fs := fs2\<rparr>, tr\<lparr>out_BaseDir := base\<rparr>, Some err)
      | (fs2, None) \<Rightarrow>
          (case writeOutgoingArchive env (tr\<lparr>out_BaseDir := base\<rparr>) (JoinPath [base, transferPayloadTempName (out_Manifest tr)]) fs2 of
             (fs3, Some err) \<Rightarrow> (a1\<lparr>app_fs := fs3\<rparr>, tr\<lparr>out_BaseDir := base\<rparr>, Some err)
           | (fs3, None) \<Rightarrow>
               (case fileSHA256 env fs3 (JoinPath [base, transferPayloadTempName (out_Manifest tr)]) of
                  Inl err \<Rightarrow> (a1\<lparr>app_fs := fs3\<rparr>, tr\<lparr>out_BaseDir := base\<rparr>, Some err)
                | Inr (digest, sz) \<Rightarrow>
                    (a1\<lparr>app_fs := fs3\<rparr>,
                     tr\<lparr>out_BaseDir := base, out_ArchiveMode := transferArchiveModeDisk, out_ArchiveBytes := [],
                         out_ArchivePath := (JoinPath [base, transferPayloadTempName (out_Manifest tr)]), out_ArchiveSHA256 := digest,
                         out_ArchiveSize := sz, out_ChunkCount := chunkCountForSize sz\<rparr>, None)))) = (a', tr', None)"
  proof (cases "out_BaseDir tr = ''''")
    case True
    then obtain a1 base where "newTransferTempDir env (man_TransferID (out_Manifest tr)) a = (a1, Inr base)"
      using assms(1) by (auto simp: prepareOutgoingArchiveOnDisk_def Let_def split: sum.splits prod.splits)
    then show thesis
      by (intro that [where base = base and ?a1.0 = a1]) (use True assms(1) in \<open>simp add: prepareOutgoingArchiveOnDisk_def Let_def\<close>)
  next
    case False
    then show thesis
      by (intro that [where base = "out_BaseDir tr" and ?a1.0 = a]) (use assms(1) False in \<open>simp add: prepareOutgoingArchiveOnDisk_def Let_def
        cong: prod.case_cong option.case_cong sum.case_cong\<close>)
  qed
  then obtain fs2 fs3 digest sz p where p: "p = JoinPath [base, transferPayloadTempName (out_Manifest tr)]"
    and w: "writeOutgoingArchive env (tr\<lparr>out_BaseDir := base\<rparr>) p fs2 = (fs3, None)"
    and d: "fileSHA256 env fs3 p = Inr (digest, sz)" "a' = a1\<lparr>app_fs := fs3\<rparr>"
    and tr': "tr' = tr\<lparr>out_BaseDir := base, out_ArchiveMode := transferArchiveModeDisk, out_ArchiveBytes := [],
       out_ArchivePath := p, out_ArchiveSHA256 := digest, out_ArchiveSize := sz,
       out_ChunkCount := chunkCountForSize sz\<rparr>"
    by (auto simp: Let_def split: sum.splits prod.splits option.splits)
  have "fs3 p = Some (NFile B)"
  proof (cases "usesRawTransfer (out_Manifest tr)")
    case True
    then show ?thesis
      using w assms(2)
      by (auto simp: writeOutgoingArchive_def outgoingContent_def Let_def
          split: sum.splits prod.splits option.splits dest!: os_Write_success)
  next
    case False
    then show ?thesis
      using w assms(2)
      by (auto simp: writeOutgoingArchive_def outgoingContent_def Let_def fileBytes_def
          split: sum.splits prod.splits option.splits dest!: os_Write_success)
  qed
  then show ?thesis
    using d tr' by (auto simp: fileSHA256_def os_ReadFile_def announces_def chunkCount_pieces split: option.splits sum.splits)
qed

text \<open>C30: A prepared archive is the source. When a transfer without an archive is prepared successfully, in
  memory or on disk (also after falling back from one to the other), the digest, size and chunk count it will
  announce are those of the source's bytes (of its zip, for folders and bundles), the count is the number of
  pieces they are cut into, and the chunk reader delivers exactly those bytes unless there are none.\<close>
theorem prepared_archive_is_source:
  assumes run: "prepareOutgoingArchive env tr a = (a', tr', None)"
    and new: "out_ArchiveBytes tr = []" "out_ArchivePath tr = ''''" and src: "outgoingContent env tr = Inr B"
  shows "out_ArchiveSHA256 tr' = sha256hex env B \<and> out_ArchiveSize tr' = int (length B) \<and>
    out_ChunkCount tr' = int (length (pieces B)) \<and>
    (B \<noteq> [] \<longrightarrow> archiveChunkReader env a' tr' 0 = Inr B)"
proof -
  let ?tr = "tr\<lparr>out_cleanupTimer := None, out_cleanupGen := out_cleanupGen tr + 1\<rparr>"
  have "outgoingContent env ?tr = outgoingContent env tr" by (simp add: outgoingContent_def)
  then have same: "outgoingContent env ?tr = Inr B" using src by simp
  have on_disk: "announces env tr' B \<and> archiveChunkReader env a' tr' 0 = Inr B"
    if "prepareOutgoingArchiveOnDisk env tr1 a = (a', tr', None)" "outgoingContent env tr1 = Inr B" for tr1
    using onDisk_content [OF that] by (auto simp: archiveChunkReader_def)
  consider (memory) "prepareOutgoingArchiveInMemory env a ?tr = (tr', None)"
    | (fallback) tr1 x where "prepareOutgoingArchiveInMemory env a ?tr = (tr1, Some x)"
        "prepareOutgoingArchiveOnDisk env tr1 a = (a', tr', None)"
    | (disk) "prepareOutgoingArchiveOnDisk env ?tr a = (a', tr', None)"
    using run new by (auto simp: prepareOutgoingArchive_def Let_def split: if_splits prod.splits option.splits)
  then show ?thesis
  proof cases
    case memory
    then show ?thesis
      using same
      by (auto simp: prepareOutgoingArchiveInMemory_def archiveChunkReader_def chunkCount_pieces split: if_splits)
  next
    case (fallback tr1 x)
    then have "outgoingContent env tr1 = Inr B"
      using same by (auto simp: prepareOutgoingArchiveInMemory_def split: if_splits sum.splits)
    then show ?thesis using on_disk [OF fallback(2)] by (simp add: announces_def)
  next
    case disk
    then show ?thesis using on_disk [OF disk same] by (simp add: announces_def)
  qed
qed


lemma prepare_in_memory:
  assumes "canUseMemoryArchive env a (man_EstimatedTotalBytes (out_Manifest tr))" "out_ArchiveBytes tr = []"
    and "out_ArchivePath tr = ''''" "outgoingContent env tr = Inr B"
    and "int (length B) \<le> fileTransferMemoryThresholdBytes a"
  shows "prepareOutgoingArchive env tr a = (a, tr\<lparr>out_cleanupTimer := None, out_cleanupGen := out_cleanupGen tr + 1,
    out_ArchiveMode := transferArchiveModeMemory, out_ArchiveBytes := B, out_BaseDir := '''',
    out_ArchivePath := '''', out_ArchiveSHA256 := sha256hex env B, out_ArchiveSize := int (length B),
    out_ChunkCount := chunkCountForSize (int (length B))\<rparr>, None)"
proof -
  let ?tr = "tr\<lparr>out_cleanupTimer := None, out_cleanupGen := out_cleanupGen tr + 1\<rparr>"
  have "outgoingContent env ?tr = outgoingContent env tr" by (simp add: outgoingContent_def)
  then show ?thesis
    using assms by (simp add: prepareOutgoingArchive_def prepareOutgoingArchiveInMemory_def Let_def)
qed

theorem prepared_archive_is_source_witness:
  "\<exists>a' tr'. prepareOutgoingArchive sampleEnv (sampleOutgoing\<lparr>out_ArchiveBytes := []\<rparr>) (sampleApp ''s'') = (a', tr', None) \<and>
     out_ArchiveSize tr' = 1 \<and> archiveChunkReader sampleEnv a' tr' 0 = Inr ''A''"
proof -
  let ?tr = "sampleOutgoing\<lparr>out_ArchiveBytes := []\<rparr>"
  have raw: "usesRawTransfer (out_Manifest ?tr)"
    by (simp add: sampleOutgoing_def sampleManifest_def) code_simp
  have new: "out_ArchiveBytes ?tr = []" "out_ArchivePath ?tr = ''''" by (simp_all add: sampleOutgoing_def)
  have content: "outgoingContent sampleEnv ?tr = Inr ''A''"
    using raw by (simp add: outgoingContent_def)
      (simp add: sampleOutgoing_def rawTransferSourcePath_def sampleEnv_def tree_Stat_def tree_ReadFile_def Let_def)
  have can: "canUseMemoryArchive sampleEnv (sampleApp ''s'') 1"
    by (simp add: canUseMemoryArchive_def fileTransferMemoryThresholdBytes_def FileMemoryThresholdBytes_def)
      (simp add: sampleEnv_def sampleApp_def sampleConfig_def MaxFileMemoryThresholdMiB_def)
  then have fits: "int (length ''A'') \<le> fileTransferMemoryThresholdBytes (sampleApp ''s'')"
    by (simp add: canUseMemoryArchive_def split: if_splits)
  have can': "canUseMemoryArchive sampleEnv (sampleApp ''s'') (man_EstimatedTotalBytes (out_Manifest ?tr))"
    using can by (simp add: sampleOutgoing_def sampleManifest_def)
  obtain tr' where run: "prepareOutgoingArchive sampleEnv ?tr (sampleApp ''s'') = (sampleApp ''s'', tr', None)"
    using prepare_in_memory [OF can' new content fits] by blast
  from prepared_archive_is_source [OF run new content] run show ?thesis by simp
qed

text \<open>An empty file cannot be sent from memory. With peers ready and the size estimate below the
  threshold, preparing it succeeds, but the chunk reader then takes the empty buffer for a file on disk with
  an empty path, so sending the chunks always fails and the receiver is told so.\<close>
theorem empty_file_is_not_sent:
  assumes "canUseMemoryArchive env a (man_EstimatedTotalBytes (out_Manifest tr))" "out_ArchiveBytes tr = []"
    and "out_ArchivePath tr = ''''" "outgoingContent env tr = Inr []" "app_fs a '''' = None"
    and "0 \<le> fileTransferMemoryThresholdBytes a"
  shows "\<exists>tr'. prepareOutgoingArchive env tr a = (a, tr', None) \<and>
    (\<forall>target. \<exists>err. sendArchiveChunks env tr' target 0 a = (a, Some err))"
proof -
  let ?tr = "tr\<lparr>out_cleanupTimer := None, out_cleanupGen := out_cleanupGen tr + 1\<rparr>"
  let ?tr' = "?tr\<lparr>out_ArchiveMode := transferArchiveModeMemory, out_ArchiveBytes := [], out_BaseDir := '''',
    out_ArchivePath := '''', out_ArchiveSHA256 := sha256hex env [], out_ArchiveSize := 0, out_ChunkCount := 0\<rparr>"
  have "prepareOutgoingArchive env tr a = (a, ?tr', None)"
    using prepare_in_memory [OF assms(1-4)] assms(6) by (simp add: chunkCountForSize_def)
  moreover have "\<exists>err. archiveChunkReader env a ?tr' 0 = Inl err"
    using assms(5) by (simp add: archiveChunkReader_def os_ReadFile_def split: option.split)
  then have "\<exists>err. sendArchiveChunks env ?tr' target 0 a = (a, Some err)" for target
    by (auto simp: sendArchiveChunks_def)
  ultimately show ?thesis by blast
qed

theorem empty_file_is_not_sent_witness:
  "let env = sampleEnv\<lparr>env_source := \<lambda>_. TFile 0 (Inr [])\<rparr>; tr = sampleOutgoing\<lparr>out_ArchiveBytes := []\<rparr> in
   \<exists>tr'. prepareOutgoingArchive env tr (sampleApp ''s'') = (sampleApp ''s'', tr', None) \<and>
    (\<forall>target. \<exists>err. sendArchiveChunks env tr' target 0 (sampleApp ''s'') = (sampleApp ''s'', Some err))"
proof -
  let ?env = "sampleEnv\<lparr>env_source := \<lambda>_. TFile 0 (Inr [])\<rparr>" and ?tr = "sampleOutgoing\<lparr>out_ArchiveBytes := []\<rparr>"
  have raw: "usesRawTransfer (out_Manifest ?tr)"
    by (simp add: sampleOutgoing_def sampleManifest_def) code_simp
  have new: "out_ArchiveBytes ?tr = []" "out_ArchivePath ?tr = ''''" by (simp_all add: sampleOutgoing_def)
  have content: "outgoingContent ?env ?tr = Inr []"
    using raw by (simp add: outgoingContent_def)
      (simp add: sampleOutgoing_def rawTransferSourcePath_def tree_Stat_def tree_ReadFile_def Let_def)
  have thr: "fileTransferMemoryThresholdBytes (sampleApp ''s'') = 1024 * 2 ^ 20"
    by (simp add: fileTransferMemoryThresholdBytes_def FileMemoryThresholdBytes_def sampleApp_def sampleConfig_def
        MaxFileMemoryThresholdMiB_def)
  have "canUseMemoryArchive ?env (sampleApp ''s'') (man_EstimatedTotalBytes (out_Manifest ?tr))"
    by (simp add: canUseMemoryArchive_def thr) (simp add: sampleEnv_def sampleOutgoing_def sampleManifest_def)
  from empty_file_is_not_sent [OF this new content] show ?thesis by (simp add: thr Let_def)
qed


end
