(* ===== verification/ReceiveGuard.thy ===== *)
theory ReceiveGuard
  imports Samples
begin

text \<open>
  What a received message can do to the system clipboard: transfer messages nothing, content messages at
  most one write, of their own content, and never for text or images that came from this client.
\<close>

section \<open>Frames\<close>

text \<open>What the clipboard guard and the check for repeats read, and the record of the clipboard writes.\<close>

definition clip_view :: "App \<Rightarrow> ClipWrite list \<times> bool \<times> string \<times> string \<times> string \<times> gotime" where
  "clip_view a = (app_clipWrites a, app_hasClip a, app_sessionID a, tm_sessionID (app_transfers a),
     app_lastRecvHash a, app_lastRecvTime a)"

named_theorems clip_frame

lemma clip_view_update [simp]:
  "clip_view (a\<lparr>app_fs := f\<rparr>) = clip_view a" "clip_view (a\<lparr>app_randomNo := n\<rparr>) = clip_view a"
  "clip_view (a\<lparr>app_history := h\<rparr>) = clip_view a" "clip_view (a\<lparr>app_sharedID := i\<rparr>) = clip_view a"
  "clip_view (a\<lparr>app_lastFileStubID := i\<rparr>) = clip_view a" "clip_view (a\<lparr>app_tasks := ts\<rparr>) = clip_view a"
  "clip_view (setIncoming i t a) = clip_view a" "clip_view (setOutgoing i u a) = clip_view a"
  by (simp_all add: clip_view_def setIncoming_def setOutgoing_def)

lemma historyMutate_clip [clip_frame]:
  "clip_view (fst (historyMutate env i f a)) = clip_view a"
  "clip_view (fst (historyMutateByTransferID env t f a)) = clip_view a"
  by (auto simp: historyMutate_def historyMutateByTransferID_def split: prod.splits)

lemma updateIncoming_clip [clip_frame]: "clip_view (updateIncoming i f a) = clip_view a"
  by (auto simp: updateIncoming_def mutateIncoming_def split: option.splits)

lemma failIncoming_clip [clip_frame]: "clip_view (fst (failIncomingTransfer env t err a)) = clip_view a"
  using historyMutate_clip(2) [of env t "\<lambda>item. Inr (item\<lparr>item_State := StateFailed, item_ErrorMessage := err\<rparr>)" a]
  by (auto simp: failIncomingTransfer_def updateIncoming_clip split: prod.splits sum.splits)

lemma newTransferTempDir_clip: "newTransferTempDir env t a = (a', r) \<Longrightarrow> clip_view a' = clip_view a"
  by (auto simp: newTransferTempDir_def Let_def split: option.splits)

lemma openIncoming_clip: "openIncoming env c t a = (t', a', e) \<Longrightarrow> clip_view a' = clip_view a"
  by (auto simp: openIncoming_def Let_def split: prod.splits if_splits sum.splits dest: newTransferTempDir_clip)

lemma restartIncoming_clip: "restartIncoming env c t a = (t', a') \<Longrightarrow> clip_view a' = clip_view a"
  by (auto simp: restartIncoming_def Let_def split: if_splits)

lemma storeChunk_clip: "storeChunk env c raw t a = (t', a', e) \<Longrightarrow> clip_view a' = clip_view a"
  by (auto simp: storeChunk_def Let_def split: prod.splits if_splits option.splits)

lemma acceptChunk_clip: "acceptChunk env c t a = (t', a', e) \<Longrightarrow> clip_view a' = clip_view a"
  by (auto simp: acceptChunk_def Let_def split: prod.splits if_splits option.splits sum.splits
      dest!: openIncoming_clip restartIncoming_clip storeChunk_clip)

lemma handleFileChunk_clip [clip_frame]: "clip_view (fst (handleFileChunk env c a)) = clip_view a"
proof (cases "GetIncoming (chk_TransferID c) a")
  case None
  then show ?thesis by (simp add: handleFileChunk_def failIncoming_clip)
next
  case (Some t)
  obtain t' a' out where acc: "acceptChunk env c t a = (t', a', out)" by (cases "acceptChunk env c t a") auto
  have "clip_view a' = clip_view a" by (rule acceptChunk_clip [OF acc])
  then show ?thesis
    using Some acc
    by (simp add: handleFileChunk_def failIncoming_clip historyMutate_clip Let_def split: chunkOutcome.split)
qed

lemma release_clip [clip_frame]: "clip_view (handleFileRelease env r a) = clip_view a"
  by (auto simp: handleFileRelease_def releaseOutgoingArchive_def removeBaseDir_def split: option.splits)

lemma handler_results_clip:
  "handleFileChunk env c a = (a', r) \<Longrightarrow> clip_view a' = clip_view a"
  "failIncomingTransfer env t err a = (a', r) \<Longrightarrow> clip_view a' = clip_view a"
  using handleFileChunk_clip [of env c a] failIncoming_clip [of env t err a] by simp_all

lemma transferMessage_clip: "handleFileTransferMessage env cd a = (a', r) \<Longrightarrow> clip_view a' = clip_view a"
  by (auto simp: handleFileTransferMessage_def handleFileError_def addTask_def Let_def release_clip
      split: if_splits option.splits prod.splits dest: handler_results_clip)

lemma shared_clip [clip_frame]:
  "clip_view (setSharedClipboardHistoryItem i a) = clip_view a"
  "clip_view (setLastFileStubHistoryItem i a) = clip_view a" "clip_view (shareItem f it a) = clip_view a"
  by (auto simp: setSharedClipboardHistoryItem_def setLastFileStubHistoryItem_def shareItem_def Let_def)

lemma reuse_clip: "reuseLocalEchoHistoryItem item a = (a', r) \<Longrightarrow> clip_view a' = clip_view a"
  by (auto simp: reuseLocalEchoHistoryItem_def Let_def clip_frame split: if_splits option.splits)

lemma historyAddItem_clip [clip_frame]: "clip_view (historyAddItem env item a) = clip_view a"
  by (simp add: historyAddItem_def clip_view_def)

lemma registerOffered_clip [clip_frame]: "clip_view (registerOffered cd a) = clip_view a"
  by (auto simp: registerOffered_def RegisterIncoming_def Let_def clip_frame split: option.splits)

lemma admit_clip: "admitReceivedClipboardData env cd a = (a', r) \<Longrightarrow> clip_view a' = clip_view a"
  by (auto simp: admitReceivedClipboardData_def Let_def clip_frame
      split: prod.splits option.splits if_splits bool.splits dest: reuse_clip)

section \<open>What a message writes\<close>

lemma guard_view: "clip_view b = clip_view a \<Longrightarrow> isClipboardWriteAllowed b reason cd = isClipboardWriteAllowed a reason cd"
  by (auto simp: clip_view_def isClipboardWriteAllowed_def appSessionID_def SessionID_def split: clipboardWriteReason.split)

lemma paste_writes:
  "app_clipWrites (fst (appPasteClipboardPayload env p t f a)) \<in>
     {app_clipWrites a, app_clipWrites a @ [PastePayload p t f]}"
  by (simp add: appPasteClipboardPayload_def clipboardWrite_def split: option.split)

text \<open>Content from another client that the guard lets through.\<close>

definition foreign_content :: "App \<Rightarrow> ClipboardData \<Rightarrow> bool" where
  "foreign_content a cd \<longleftrightarrow> app_hasClip a \<and> (cd_Type cd = TypeText \<or> cd_Type cd = TypeImage) \<and>
     (clipboardSourceSessionID cd = '''' \<or> clipboardSourceSessionID cd \<noteq> appSessionID a)"

lemma guard_foreign:
  "isClipboardWriteAllowed a IncomingAuto cd = foreign_content a cd"
  "isClipboardWriteAllowed a IncomingLegacy cd = foreign_content a cd"
  by (auto simp: isClipboardWriteAllowed_def foreign_content_def)

lemma dispatch_writes:
  "app_clipWrites (dispatchReceived env cd a) = app_clipWrites a \<or>
   foreign_content a cd \<and>
   app_clipWrites (dispatchReceived env cd a) = app_clipWrites a @ [PastePayload (cd_Payload cd) (cd_Type cd) (cd_FileName cd)]"
proof -
  obtain a1 handled r where h: "handleFileTransferMessage env cd a = (a1, handled, r)"
    by (cases "handleFileTransferMessage env cd a") auto
  obtain a2 act where ad: "admitReceivedClipboardData env cd a1 = (a2, act)" by (cases "admitReceivedClipboardData env cd a1")
  have v1: "clip_view a1 = clip_view a" by (rule transferMessage_clip [OF h])
  have v2: "clip_view a2 = clip_view a" using admit_clip [OF ad] v1 by simp
  have f: "foreign_content a2 cd = foreign_content a cd" using guard_view [OF v2, of IncomingAuto cd] by (simp add: guard_foreign)
  have w: "app_clipWrites a1 = app_clipWrites a" "app_clipWrites a2 = app_clipWrites a"
    using v1 v2 by (simp_all add: clip_view_def)
  show ?thesis
    using h ad w f paste_writes [of env "cd_Payload cd" "cd_Type cd" "cd_FileName cd" a2]
    by (auto simp: dispatchReceived_def shouldWriteReceivedClipboardToSystem_def guard_foreign
        writeClipboardPayloadIfAllowed_def split: bool.split receiveAction.split prod.splits option.splits)
qed

text \<open>Handling a message leaves what is known of the last message alone.\<close>

lemma dispatch_recv:
  "app_lastRecvHash (dispatchReceived env cd a) = app_lastRecvHash a"
  "app_lastRecvTime (dispatchReceived env cd a) = app_lastRecvTime a"
proof -
  obtain a1 handled r where h: "handleFileTransferMessage env cd a = (a1, handled, r)"
    by (cases "handleFileTransferMessage env cd a") auto
  obtain a2 act where ad: "admitReceivedClipboardData env cd a1 = (a2, act)" by (cases "admitReceivedClipboardData env cd a1")
  have v1: "clip_view a1 = clip_view a" by (rule transferMessage_clip [OF h])
  have v2: "clip_view a2 = clip_view a" using admit_clip [OF ad] v1 by simp
  have p: "app_lastRecvHash (fst (appPasteClipboardPayload env x y z b)) = app_lastRecvHash b"
    "app_lastRecvTime (fst (appPasteClipboardPayload env x y z b)) = app_lastRecvTime b" for x y z b
    by (simp_all add: appPasteClipboardPayload_def clipboardWrite_def split: option.split)
  have w: "app_lastRecvHash (fst (writeClipboardPayloadIfAllowed env why cd b)) = app_lastRecvHash b"
    "app_lastRecvTime (fst (writeClipboardPayloadIfAllowed env why cd b)) = app_lastRecvTime b" for why b
    using p [of "cd_Payload cd" "cd_Type cd" "cd_FileName cd" b]
    by (auto simp: writeClipboardPayloadIfAllowed_def split: prod.splits option.splits)
  show "app_lastRecvHash (dispatchReceived env cd a) = app_lastRecvHash a"
    "app_lastRecvTime (dispatchReceived env cd a) = app_lastRecvTime a"
    using h ad v1 v2 p w
    by (auto simp: dispatchReceived_def clip_view_def split: bool.split receiveAction.split)
qed

text \<open>A message like the last one handled, less than half a second after it.\<close>

definition repeats :: "Env \<Rightarrow> App \<Rightarrow> ClipboardData \<Rightarrow> bool" where
  "repeats env a cd \<longleftrightarrow> app_lastRecvHash a = recvHash env cd \<and> env_now env - app_lastRecvTime a < 500000000"


end
