(* ===== verification/Routing.thy ===== *)
theory Routing
  imports Samples
begin

text \<open>
  Which links a message takes: transfer messages one route, everything else every route that is up.
\<close>

text \<open>What went out on the links for one message.\<close>

definition sent_on_links :: "App \<Rightarrow> App \<Rightarrow> Delivery list" where
  "sent_on_links a a' = drop (length (app_outbox a)) (app_outbox a')"

text \<open>A message whose body can be built is reported as sent exactly when it went out on some link, and
  the record of links used is the record reported. A transfer message goes out once at most: to the peers if a
  peer takes it, and only otherwise to the relay. Any other message goes to the peers and also to the relay
  when both are up, and a relay error is reported only if no peer took it. When the body cannot be built
  nothing goes out.\<close>
theorem message_routing:
  assumes "sendClipboardDataWithResult env cd a = (a', r, err)"
  defines "l \<equiv> env_link env (app_sendNo a)"
  shows "(err = None) = (sent_on_links a a' \<noteq> []) \<and>
    length (sent_on_links a a') = (if P2PSent r then 1 else 0) + (if StompSent r then 1 else 0) \<and>
    (isSingleRouteClipboardType (cd_Type cd) \<longrightarrow> length (sent_on_links a a') \<le> 1 \<and> \<not> (P2PSent r \<and> StompSent r)) \<and>
    (\<forall>body. messageBody env a cd = Inr body \<longrightarrow>
       P2PSent r = (app_hasP2P a \<and> link_p2pPeers l > 0) \<and>
       (\<not> isSingleRouteClipboardType (cd_Type cd) \<longrightarrow>
          StompSent r = (app_hasStomp a \<and> link_stompConnected l \<and> link_stompErr l = None)) \<and>
       list_all (\<lambda>d. d = ToRelay body \<or> d = ToPeers body \<or> (\<exists>t. d = ToPeer t body)) (sent_on_links a a'))"
proof (cases "messageBody env a cd")
  case (Inl e)
  then show ?thesis
    using assms(1) by (auto simp: sendClipboardDataWithResult_def sent_on_links_def noDispatch_def)
next
  case (Inr body)
  let ?peers = "if app_hasP2P a then link_p2pPeers l else 0"
  let ?stomp = "app_hasStomp a \<and> link_stompConnected l"
  have l: "env_link env (app_sendNo (a\<lparr>app_randomNo := n\<rparr>)) = l" for n by (simp add: l_def)
  show ?thesis
  proof (cases "isSingleRouteClipboardType (cd_Type cd)")
    case True
    then show ?thesis
      using assms(1) Inr
      by (auto simp: sendClipboardDataWithResult_def sent_on_links_def dispatchClipboardBodySingleRoute_def
          noDispatch_def l_def Let_def split: if_splits option.splits)
  next
    case False
    then show ?thesis
      using assms(1) Inr
      by (auto simp: sendClipboardDataWithResult_def sent_on_links_def dispatchClipboardBodyDetailed_def
          noDispatch_def l_def Let_def split: if_splits option.splits) (metis option.exhaust)?
  qed
qed

theorem message_routing_witness:
  "\<exists>a' r. sendClipboardDataWithResult sampleEnv (zeroClipboard\<lparr>cd_Type := TypeText\<rparr>) (sampleApp ''s'') = (a', r, None) \<and>
     sent_on_links (sampleApp ''s'') a' \<noteq> []"
proof -
  let ?cd = "zeroClipboard\<lparr>cd_Type := TypeText\<rparr>"
  have body: "messageBody sampleEnv (sampleApp ''s'') ?cd = Inr (ClipboardData_Encode ?cd)"
    by (simp add: messageBody_def)
  obtain a' r err where run: "sendClipboardDataWithResult sampleEnv ?cd (sampleApp ''s'') = (a', r, err)"
    by (cases "sendClipboardDataWithResult sampleEnv ?cd (sampleApp ''s'')") auto
  note m = message_routing [OF run]
  have "P2PSent r" using m body by simp
  then have "sent_on_links (sampleApp ''s'') a' \<noteq> []" using m by auto
  moreover then have "err = None" using m by blast
  ultimately show ?thesis using run by blast
qed

end
