(* ===== verification/P2PClient.thy ===== *)
theory P2PClient
  imports P2PSignal Crypto "HOL-Library.AList" "HOL-Library.List_Lexorder" "HOL-Library.Char_ord"
begin

text \<open>
  The P2P client of a device (\<open>desktop/transport/p2p_client.go\<close>): cutting a message into fragments for the
  data channels, putting the fragments of a message together again, and the signaling messages that open
  connections. WebRTC itself is outside: whether a connection, a data channel or a send works is what the
  environment answers, and the state keeps which peers and channels there are. The map of data channels is a
  list, in any order; locks are not modelled, each callback is one step.
\<close>

section \<open>Fragments\<close>

record p2pFragment =
  pf_Payload :: string
  pf_ID :: string
  pf_Index :: int
  pf_TotalFragments :: int

definition p2pFragmentJSON :: "p2pFragment \<Rightarrow> json" where
  "p2pFragmentJSON f = JObj [(''payload'', JStr (pf_Payload f)), (''id'', JStr (pf_ID f)),
     (''index'', jint (pf_Index f)), (''totalFragments'', jint (pf_TotalFragments f))]"

definition p2pFragmentFields :: "p2pFragment fields" where
  "p2pFragmentFields = [(''payload'', setStr (\<lambda>s r. r\<lparr>pf_Payload := s\<rparr>)),
     (''id'', setStr (\<lambda>s r. r\<lparr>pf_ID := s\<rparr>)), (''index'', setInt (\<lambda>i r. r\<lparr>pf_Index := i\<rparr>)),
     (''totalFragments'', setInt (\<lambda>i r. r\<lparr>pf_TotalFragments := i\<rparr>))]"

definition zeroP2PFragment :: p2pFragment where
  "zeroP2PFragment = \<lparr>pf_Payload = '''', pf_ID = '''', pf_Index = 0, pf_TotalFragments = 0\<rparr>"

abbreviation "encodeP2PFragment \<equiv> EncodePayload p2pFragmentJSON"
abbreviation "decodeP2PFragment \<equiv> DecodePayload p2pFragmentFields zeroP2PFragment"

definition numFragments :: "bytes \<Rightarrow> nat" where
  "numFragments data = (length data + FragmentSize - 1) div FragmentSize"

definition fragmentPayload :: "bytes \<Rightarrow> nat \<Rightarrow> bytes" where
  "fragmentPayload data i = take FragmentSize (drop (i * FragmentSize) data)"

definition fragmentOf :: "string \<Rightarrow> bytes \<Rightarrow> nat \<Rightarrow> p2pFragment" where
  "fragmentOf fragmentID data i =
     \<lparr>pf_Payload = fragmentPayload data i, pf_ID = fragmentID, pf_Index = int i,
      pf_TotalFragments = int (numFragments data)\<rparr>"

section \<open>State\<close>

record P2PClient =
  pc_sessionID :: string
  pc_peers :: "string list"
  pc_dataChans :: "(string \<times> bool) list"
  pc_receivingFragments :: "string \<Rightarrow> string list option"
  pc_wsConn :: bool
  pc_done :: bool

definition NewP2PClient :: P2PClient where
  "NewP2PClient = \<lparr>pc_sessionID = '''', pc_peers = [], pc_dataChans = [],
     pc_receivingFragments = Map.empty, pc_wsConn = False, pc_done = False\<rparr>"

section \<open>Sending\<close>

text \<open>The channels one fragment is sent on; \<open>ok\<close> says whether \<open>SendText\<close> works.\<close>

definition sendFragment ::
  "(string \<Rightarrow> nat \<Rightarrow> bool) \<Rightarrow> string \<Rightarrow> bytes \<Rightarrow> string \<Rightarrow> P2PClient \<Rightarrow> nat \<Rightarrow> (string \<times> string) list" where
  "sendFragment ok fragmentID data target p i =
     (let encoded = encodeP2PFragment (fragmentOf fragmentID data i) in
      map (\<lambda>(sid, _). (sid, encoded))
        (filter (\<lambda>(sid, open). (target = '''' \<or> sid = target) \<and> open \<and> ok sid i) (pc_dataChans p)))"

definition p2p_send ::
  "(string \<Rightarrow> nat \<Rightarrow> bool) \<Rightarrow> string \<Rightarrow> bytes \<Rightarrow> string \<Rightarrow> P2PClient \<Rightarrow> (string \<times> string) list \<times> nat" where
  "p2p_send ok fragmentID data target p =
     (let n = numFragments data in
      if n = 0 then ([], 0)
      else (let out = concat (map (sendFragment ok fragmentID data target p) [0..<n])
            in (out, length (remdups (map fst out)))))"

definition Send :: "(string \<Rightarrow> nat \<Rightarrow> bool) \<Rightarrow> string \<Rightarrow> bytes \<Rightarrow> P2PClient \<Rightarrow> (string \<times> string) list \<times> nat" where
  "Send ok fragmentID data p = p2p_send ok fragmentID data '''' p"

definition SendTo ::
  "(string \<Rightarrow> nat \<Rightarrow> bool) \<Rightarrow> string \<Rightarrow> string \<Rightarrow> bytes \<Rightarrow> P2PClient \<Rightarrow> (string \<times> string) list \<times> nat" where
  "SendTo ok fragmentID target data p = p2p_send ok fragmentID data target p"

definition ReadyPeerCount :: "P2PClient \<Rightarrow> nat" where
  "ReadyPeerCount p = length (filter snd (pc_dataChans p))"

record Snapshot =
  AssignedSessionID :: string
  PeerIDs :: "string list"
  ReadyPeerIDs :: "string list"

definition SnapshotOf :: "P2PClient \<Rightarrow> Snapshot" where
  "SnapshotOf p = \<lparr>AssignedSessionID = pc_sessionID p, PeerIDs = sort (pc_peers p),
     ReadyPeerIDs = sort (map fst (filter snd (pc_dataChans p)))\<rparr>"

section \<open>Receiving\<close>

text \<open>
  A message on a data channel: the new state and what is handed to \<open>onReceive\<close>, or \<open>None\<close> when the index of
  the fragment is outside the slice and the program panics.
\<close>

definition onMessage :: "bytes \<Rightarrow> P2PClient \<Rightarrow> (P2PClient \<times> string list) option" where
  "onMessage data p =
     (case decodeP2PFragment data of
        None \<Rightarrow> Some (p, [data])
      | Some frag \<Rightarrow>
          if pf_TotalFragments frag = 0 then Some (p, [data])
          else if pf_TotalFragments frag \<le> 1 then Some (p, [pf_Payload frag])
          else
            (let slots = (case pc_receivingFragments p (pf_ID frag) of
                            Some s \<Rightarrow> s | None \<Rightarrow> replicate (nat (pf_TotalFragments frag)) '''');
                 i = pf_Index frag in
             if i < 0 \<or> int (length slots) \<le> i then None
             else
               (let slots' = slots[nat i := pf_Payload frag] in
                if list_all (\<lambda>f. f \<noteq> '''') slots'
                then Some (p\<lparr>pc_receivingFragments := (pc_receivingFragments p)(pf_ID frag := None)\<rparr>,
                           [concat slots'])
                else Some (p\<lparr>pc_receivingFragments := (pc_receivingFragments p)(pf_ID frag \<mapsto> slots')\<rparr>, []))))"

section \<open>Connections\<close>

text \<open>Signals sent on the signaling connection; the keys of a Go map are marshalled in order.\<close>

definition sendSignal :: "string \<Rightarrow> string \<Rightarrow> json \<Rightarrow> P2PClient \<Rightarrow> string list" where
  "sendSignal msgType to data p =
     (if pc_wsConn p then [render (JObj [(''data'', data), (''to'', JStr to), (''type'', JStr msgType)])] else [])"

text \<open>Of two peers the one with the larger identifier (bytewise) makes the offer.\<close>

definition handlePeerList :: "string list \<Rightarrow> P2PClient \<Rightarrow> string list" where
  "handlePeerList peers p =
     filter (\<lambda>peerID. peerID \<noteq> pc_sessionID p \<and> peerID \<notin> set (pc_peers p) \<and> peerID < pc_sessionID p) peers"

definition newPeerConnection :: "goerror option \<Rightarrow> string \<Rightarrow> P2PClient \<Rightarrow> P2PClient option" where
  "newPeerConnection err peerID p =
     (case err of
        Some _ \<Rightarrow> None
      | None \<Rightarrow> Some (p\<lparr>pc_peers := (if peerID \<in> set (pc_peers p) then pc_peers p else peerID # pc_peers p)\<rparr>))"

record RtcAnswer =
  rtc_newErr :: "goerror option"
  rtc_channelErr :: "goerror option"
  rtc_offerErr :: "goerror option"
  rtc_description :: json

definition createOffer :: "RtcAnswer \<Rightarrow> string \<Rightarrow> P2PClient \<Rightarrow> P2PClient \<times> string list" where
  "createOffer rtc peerID p =
     (case newPeerConnection (rtc_newErr rtc) peerID p of
        None \<Rightarrow> (p, [])
      | Some p1 \<Rightarrow>
          if rtc_channelErr rtc \<noteq> None \<or> rtc_offerErr rtc \<noteq> None then (p1, [])
          else (p1, sendSignal ''offer'' peerID (rtc_description rtc) p1))"

definition handleOffer :: "RtcAnswer \<Rightarrow> string \<Rightarrow> P2PClient \<Rightarrow> P2PClient \<times> string list" where
  "handleOffer rtc peer p =
     (case newPeerConnection (rtc_newErr rtc) peer p of
        None \<Rightarrow> (p, [])
      | Some p1 \<Rightarrow> (p1, sendSignal ''answer'' peer (rtc_description rtc) p1))"

text \<open>\<open>OnConnectionStateChange\<close> on failed or closed, and the open and close callbacks of a channel.\<close>

definition connectionLost :: "string \<Rightarrow> P2PClient \<Rightarrow> P2PClient" where
  "connectionLost peerID p =
     p\<lparr>pc_peers := filter (\<lambda>q. q \<noteq> peerID) (pc_peers p),
       pc_dataChans := filter (\<lambda>(q, _). q \<noteq> peerID) (pc_dataChans p)\<rparr>"

definition channelOpened :: "string \<Rightarrow> P2PClient \<Rightarrow> P2PClient" where
  "channelOpened peerID p = p\<lparr>pc_dataChans := AList.update peerID True (pc_dataChans p)\<rparr>"

definition channelClosed :: "string \<Rightarrow> P2PClient \<Rightarrow> P2PClient" where
  "channelClosed peerID p = p\<lparr>pc_dataChans := filter (\<lambda>(q, _). q \<noteq> peerID) (pc_dataChans p)\<rparr>"

definition CloseClient :: "P2PClient \<Rightarrow> P2PClient" where
  "CloseClient p = p\<lparr>pc_done := True, pc_peers := [], pc_dataChans := [], pc_wsConn := False\<rparr>"

text \<open>
  One message of \<open>signalLoop\<close>: the new state, the signals sent, the peers offers are started for (each in a
  goroutine of its own, \<open>createOffer\<close>), and the connections a remote description or candidate is passed to.
\<close>

datatype rtc_pass = PassAnswer string json | PassCandidate string json

definition peerNames :: "json \<Rightarrow> string list" where
  "peerNames j = (case j of JArr vs \<Rightarrow> map (\<lambda>v. case v of JStr s \<Rightarrow> s | _ \<Rightarrow> '''') vs | _ \<Rightarrow> [])"

definition signalStep ::
  "RtcAnswer \<Rightarrow> bytes \<Rightarrow> P2PClient \<Rightarrow> P2PClient \<times> string list \<times> string list \<times> rtc_pass list" where
  "signalStep rtc msg p =
     (case decodeSignal msg of
        None \<Rightarrow> (p, [], [], [])
      | Some s \<Rightarrow>
          if sig_Type s = ''session-id'' then (p\<lparr>pc_sessionID := sig_SessionID s\<rparr>, [], [], [])
          else if sig_Type s = ''peer-list'' then (p, [], handlePeerList (peerNames (sig_Data s)) p, [])
          else if sig_Type s = ''offer'' then
            (case handleOffer rtc (sig_From s) p of (p1, out) \<Rightarrow> (p1, out, [], []))
          else if sig_Type s = ''answer'' then
            (p, [], [], if sig_From s \<in> set (pc_peers p) then [PassAnswer (sig_From s) (sig_Data s)] else [])
          else if sig_Type s = ''ice-candidate'' then
            (p, [], [], if sig_From s \<in> set (pc_peers p) then [PassCandidate (sig_From s) (sig_Data s)] else [])
          else (p, [], [], []))"

section \<open>Fragments put together\<close>

definition fragment_ok :: "p2pFragment \<Rightarrow> bool" where
  "fragment_ok f \<longleftrightarrow> int64_range (pf_Index f) \<and> int64_range (pf_TotalFragments f) \<and>
     utf8ok (pf_Payload f) \<and> utf8ok (pf_ID f)"

lemma p2pFragment_keys [simp]: "list_all (\<lambda>f. isKey (fst f)) p2pFragmentFields"
  by (simp add: p2pFragmentFields_def)

lemma p2pFragment_decode:
  assumes "int64_range (pf_Index f)" "int64_range (pf_TotalFragments f)"
  shows "decodeP2PFragment (encodeP2PFragment f) =
     Some (f\<lparr>pf_Payload := toValidUTF8 (pf_Payload f), pf_ID := toValidUTF8 (pf_ID f)\<rparr>)"
  using assms
  by (simp add: p2pFragmentJSON_def struct_simps) (simp add: p2pFragmentFields_def zeroP2PFragment_def)

lemma p2pFragment_roundtrip: "fragment_ok f \<Longrightarrow> decodeP2PFragment (encodeP2PFragment f) = Some f"
  by (simp add: fragment_ok_def p2pFragment_decode)

interpretation fragment_code: codec encodeP2PFragment decodeP2PFragment fragment_ok
  by unfold_locales (rule p2pFragment_roundtrip)

lemma fragmentOf_simps [simp]:
  "pf_Payload (fragmentOf fid data i) = fragmentPayload data i" "pf_ID (fragmentOf fid data i) = fid"
  "pf_Index (fragmentOf fid data i) = int i" "pf_TotalFragments (fragmentOf fid data i) = int (numFragments data)"
  by (simp_all add: fragmentOf_def)

lemma fragmentPayload_concat: "concat (map (fragmentPayload data) [0..<n]) = take (n * FragmentSize) data"
proof (induction n)
  case (Suc n)
  then show ?case
    using take_add [of "n * FragmentSize" FragmentSize data] by (simp add: fragmentPayload_def add.commute)
qed simp

lemma FragmentSize_pos [simp]: "0 < FragmentSize" "FragmentSize \<noteq> 0"
  by (simp_all add: FragmentSize_def)

lemma numFragments_covers: "length data \<le> numFragments data * FragmentSize"
  by (simp add: numFragments_def FragmentSize_def)

lemma numFragments_bound: "i < numFragments data \<Longrightarrow> i * FragmentSize < length data"
  by (auto simp: numFragments_def FragmentSize_def)

lemma fragments_concat: "concat (map (fragmentPayload data) [0..<numFragments data]) = data"
  using numFragments_covers by (simp add: fragmentPayload_concat)

lemma fragment_nonempty: "i < numFragments data \<Longrightarrow> fragmentPayload data i \<noteq> []"
  using numFragments_bound [of i data] by (simp add: fragmentPayload_def)

text \<open>The slots after the fragments with indices in a set have arrived.\<close>

definition filled :: "bytes \<Rightarrow> nat set \<Rightarrow> string list" where
  "filled data S = map (\<lambda>i. if i \<in> S then fragmentPayload data i else '''') [0..<numFragments data]"

lemma filled_start: "filled data {} = replicate (numFragments data) ''''"
  by (simp add: filled_def map_replicate_const)

lemma filled_insert: "i < numFragments data \<Longrightarrow> (filled data S)[i := fragmentPayload data i] = filled data (insert i S)"
  by (rule nth_equalityI) (auto simp: filled_def nth_list_update)

lemma filled_complete:
  "S \<subseteq> {..<numFragments data} \<Longrightarrow> list_all (\<lambda>f. f \<noteq> '''') (filled data S) = (S = {..<numFragments data})"
  using fragment_nonempty [THEN not_sym] fragment_nonempty by (auto simp: filled_def list_all_iff)

lemma filled_all: "concat (filled data {..<numFragments data}) = data"
proof -
  have "filled data {..<numFragments data} = map (fragmentPayload data) [0..<numFragments data]"
    by (simp add: filled_def)
  then show ?thesis by (simp add: fragments_concat)
qed

text \<open>A client that takes messages one after the other; a panic ends it.\<close>

fun receiveAll :: "bytes list \<Rightarrow> P2PClient \<Rightarrow> (P2PClient \<times> string list) option" where
  "receiveAll [] p = Some (p, [])"
| "receiveAll (m # ms) p =
     (case onMessage m p of
        None \<Rightarrow> None
      | Some (p1, out) \<Rightarrow>
          (case receiveAll ms p1 of None \<Rightarrow> None | Some (p2, out2) \<Rightarrow> Some (p2, out @ out2)))"

definition pending :: "P2PClient \<Rightarrow> string \<Rightarrow> bytes \<Rightarrow> nat set \<Rightarrow> P2PClient" where
  "pending p fid data S =
     (if S = {} then p
      else p\<lparr>pc_receivingFragments := (pc_receivingFragments p)(fid \<mapsto> filled data S)\<rparr>)"

lemma onMessage_fragment:
  assumes "fragment_ok (fragmentOf fid data i)" "i < numFragments data" "1 < numFragments data"
    and "S \<subseteq> {..<numFragments data}" "i \<notin> S" "pc_receivingFragments p fid = None"
  shows "onMessage (encodeP2PFragment (fragmentOf fid data i)) (pending p fid data S) =
    (if insert i S = {..<numFragments data} then Some (p, [data]) else Some (pending p fid data (insert i S), []))"
proof -
  let ?n = "numFragments data"
  have slots: "(case pc_receivingFragments (pending p fid data S) fid of
      Some s \<Rightarrow> s | None \<Rightarrow> replicate (nat (pf_TotalFragments (fragmentOf fid data i))) '''') = filled data S"
    using assms(6) by (simp add: pending_def filled_start)
  have frag: "decodeP2PFragment (encodeP2PFragment (fragmentOf fid data i)) = Some (fragmentOf fid data i)"
    by (rule p2pFragment_roundtrip [OF assms(1)])
  have full: "list_all (\<lambda>f. f \<noteq> '''') (filled data (insert i S)) = (insert i S = {..<?n})"
    by (rule filled_complete) (use assms(2,4) in auto)
  have len: "length (filled data S) = ?n" by (simp add: filled_def)
  have clear: "(pending p fid data S)\<lparr>pc_receivingFragments :=
      (pc_receivingFragments (pending p fid data S))(fid := None)\<rparr> = p"
    using assms(6) by (auto simp: pending_def fun_upd_idem_iff)
  have more: "(pending p fid data S)\<lparr>pc_receivingFragments :=
      (pc_receivingFragments (pending p fid data S))(fid \<mapsto> filled data (insert i S))\<rparr> = pending p fid data (insert i S)"
    by (simp add: pending_def)
  have "onMessage (encodeP2PFragment (fragmentOf fid data i)) (pending p fid data S) =
    (if list_all (\<lambda>f. f \<noteq> '''') (filled data (insert i S))
     then Some (p, [concat (filled data (insert i S))]) else Some (pending p fid data (insert i S), []))"
    using assms(2,3) slots len filled_insert [OF assms(2), of S] clear more
    by (simp add: onMessage_def frag Let_def)
  then show ?thesis using full by (auto simp: filled_all)
qed


lemma receive_missing:
  assumes "1 < numFragments data" "\<forall>i<numFragments data. fragment_ok (fragmentOf fid data i)"
    and "pc_receivingFragments p fid = None"
    and "distinct js" "set js = {..<numFragments data} - S" "S \<subseteq> {..<numFragments data}" "js \<noteq> []"
  shows "receiveAll (map (\<lambda>i. encodeP2PFragment (fragmentOf fid data i)) js) (pending p fid data S) = Some (p, [data])"
  using assms(4-7)
proof (induction js arbitrary: S)
  case (Cons i js)
  have i: "i < numFragments data" "i \<notin> S" using Cons.prems(2) by auto
  have "fragment_ok (fragmentOf fid data i)" using assms(2) i(1) by blast
  note step = onMessage_fragment [OF this i(1) assms(1) Cons.prems(3) i(2) assms(3)]
  have sub: "insert i S \<subseteq> {..<numFragments data}" using i(1) Cons.prems(3) by simp
  have rest: "set js = {..<numFragments data} - insert i S" using Cons.prems(1,2) by auto
  show ?case
  proof (cases "js = []")
    case True
    then have "insert i S = {..<numFragments data}" using rest sub by auto
    then have "onMessage (encodeP2PFragment (fragmentOf fid data i)) (pending p fid data S) = Some (p, [data])"
      by (simp only: step if_True simp_thms)
    then show ?thesis using True by simp
  next
    case False
    have "insert i S \<noteq> {..<numFragments data}"
    proof
      assume "insert i S = {..<numFragments data}"
      then have "set js = {}" using rest by simp
      then show False using False by simp
    qed
    then have "onMessage (encodeP2PFragment (fragmentOf fid data i)) (pending p fid data S) =
        Some (pending p fid data (insert i S), [])"
      by (simp only: step if_False simp_thms)
    moreover have "receiveAll (map (\<lambda>i. encodeP2PFragment (fragmentOf fid data i)) js) (pending p fid data (insert i S)) =
        Some (p, [data])"
      by (rule Cons.IH [OF _ rest sub False]) (use Cons.prems(1) in simp)
    ultimately show ?thesis by simp
  qed
qed simp

text \<open>C23: A message cut into fragments comes out whole. Whatever order its fragments arrive in (each once, on
  any of the channels), the client hands the message to its receiver exactly once, when the last fragment is
  there, and keeps nothing of it; a message of one fragment is passed on at once. The pieces must be valid
  UTF-8, as those of an ASCII message are.\<close>
theorem fragments_reassemble:
  assumes "data \<noteq> []" "\<forall>i<numFragments data. utf8ok (fragmentPayload data i)" "utf8ok fid"
    and "int64_range (int (numFragments data))" "pc_receivingFragments p fid = None"
    and "distinct js" "set js = {..<numFragments data}"
  shows "receiveAll (map (\<lambda>i. encodeP2PFragment (fragmentOf fid data i)) js) p = Some (p, [data])"
proof -
  let ?n = "numFragments data"
  have pos: "0 < ?n" using assms(1) numFragments_covers [of data] by (cases "?n") auto
  have ok: "\<forall>i<?n. fragment_ok (fragmentOf fid data i)"
    using assms(2-4) by (auto simp: fragment_ok_def int64_range_def)
  have "0 \<in> set js" using assms(7) pos by simp
  then have ne: "js \<noteq> []" by auto
  show ?thesis
  proof (cases "?n = 1")
    case True
    then have "set js = {0}" using assms(7) by (simp add: lessThan_Suc)
    then have js: "js = [0]" using assms(6) by (cases js; cases "tl js") auto
    have "fragmentPayload data 0 = data" using fragments_concat [of data] True by simp
    moreover have "decodeP2PFragment (encodeP2PFragment (fragmentOf fid data 0)) = Some (fragmentOf fid data 0)"
      by (rule p2pFragment_roundtrip) (use ok True in simp)
    ultimately show ?thesis using True js by (simp add: onMessage_def)
  next
    case False
    then have "1 < ?n" using pos by simp
    from receive_missing [OF this ok assms(5,6), of "{}"] show ?thesis using assms(7) ne by (simp add: pending_def)
  qed
qed

text \<open>A message of three fragments, delivered out of order.\<close>

definition sampleData :: bytes where
  "sampleData = replicate (3 * FragmentSize) (CHR ''a'')"

theorem fragments_reassemble_witness:
  "receiveAll (map (\<lambda>i. encodeP2PFragment (fragmentOf ''f'' sampleData i)) [2, 0, 1]) NewP2PClient =
     Some (NewP2PClient, [sampleData])"
proof -
  have n: "numFragments sampleData = 3" by (simp add: numFragments_def sampleData_def FragmentSize_def)
  have "asciiStr (fragmentPayload sampleData i)" for i
    by (auto simp: asciiStr_def list_all_iff fragmentPayload_def sampleData_def dest!: in_set_takeD in_set_dropD)
  then have "\<forall>i<numFragments sampleData. utf8ok (fragmentPayload sampleData i)"
    by (simp add: ascii_toValidUTF8)
  moreover have "sampleData \<noteq> []" by (simp add: sampleData_def)
  moreover have "set [2, 0, 1] = {..<numFragments sampleData}" unfolding n by auto
  ultimately show ?thesis
    by (intro fragments_reassemble) (simp_all add: n int64_range_def ascii_toValidUTF8 asciiStr_def NewP2PClient_def)
qed

text \<open>The index of a fragment is not checked: a peer that sends a fragment of a message of several with an
  index outside the message makes the client panic.\<close>
theorem fragment_index_unchecked:
  assumes "fragment_ok f" "1 < pf_TotalFragments f" "pc_receivingFragments p (pf_ID f) = None"
    and "pf_Index f < 0 \<or> pf_TotalFragments f \<le> pf_Index f"
  shows "onMessage (encodeP2PFragment f) p = None"
  using assms p2pFragment_roundtrip [OF assms(1)] by (auto simp: onMessage_def Let_def)

theorem fragment_index_unchecked_witness:
  "onMessage (encodeP2PFragment \<lparr>pf_Payload = ''x'', pf_ID = ''f'', pf_Index = 2, pf_TotalFragments = 2\<rparr>) NewP2PClient = None"
  by (rule fragment_index_unchecked)
    (simp_all add: fragment_ok_def int64_range_def ascii_toValidUTF8 asciiStr_def NewP2PClient_def)

text \<open>When two devices see each other in the peer list and have no connection yet, exactly one of them
  makes the offer.\<close>
theorem one_side_offers:
  assumes "pc_sessionID p \<noteq> pc_sessionID q" "pc_sessionID q \<in> set ps" "pc_sessionID p \<in> set qs"
    and "pc_sessionID q \<notin> set (pc_peers p)" "pc_sessionID p \<notin> set (pc_peers q)"
  shows "(pc_sessionID q \<in> set (handlePeerList ps p)) \<noteq> (pc_sessionID p \<in> set (handlePeerList qs q))"
  using assms by (auto simp: handlePeerList_def)

theorem one_side_offers_witness:
  "let p = NewP2PClient\<lparr>pc_sessionID := ''a''\<rparr>; q = NewP2PClient\<lparr>pc_sessionID := ''b''\<rparr>; l = [''a'', ''b''] in
   (''b'' \<in> set (handlePeerList l p)) \<noteq> (''a'' \<in> set (handlePeerList l q))"
proof -
  let ?p = "NewP2PClient\<lparr>pc_sessionID := ''a''\<rparr>" and ?q = "NewP2PClient\<lparr>pc_sessionID := ''b''\<rparr>"
  from one_side_offers [of ?p ?q "[''a'', ''b'']" "[''a'', ''b'']"] show ?thesis
    by (simp add: NewP2PClient_def Let_def)
qed


lemma toValidUTF8_append: "validUTF8 s \<Longrightarrow> toValidUTF8 (s @ t) = s @ toValidUTF8 t"
  using toValidUTF8_id [of s] by (simp add: toValidUTF8_def runes_append)

text \<open>A message is cut at byte positions: when a character of several bytes straddles a cut, JSON encoding
  replaces its halves, and a valid message comes out different.\<close>
theorem split_character_corrupted:
  assumes "asciiStr s" "length s = FragmentSize - 1"
  defines "data \<equiv> s @ [CHR 0xC3, CHR 0xA9]"
  shows "validUTF8 data \<and> numFragments data = 2 \<and>
    receiveAll (map (\<lambda>i. encodeP2PFragment (fragmentOf ''f'' data i)) [0, 1]) NewP2PClient =
      Some (NewP2PClient, [s @ replacementChar @ replacementChar]) \<and>
    s @ replacementChar @ replacementChar \<noteq> data"
proof -
  have s: "validUTF8 s" using assms(1) by (intro validUTF8_ascii) (simp add: asciiStr_def list_all_iff)
  have len: "length data = FragmentSize + 1" using assms(2) by (simp add: data_def FragmentSize_def)
  have n: "numFragments data = 2" using len by (simp add: numFragments_def FragmentSize_def)
  have p0: "fragmentPayload data 0 = s @ [CHR 0xC3]" and p1: "fragmentPayload data 1 = [CHR 0xA9]"
    using assms(2) by (simp_all add: fragmentPayload_def data_def FragmentSize_def)
  have halves: "toValidUTF8 [CHR 0xC3] = replacementChar" "toValidUTF8 [CHR 0xA9] = replacementChar"
    "validUTF8 [CHR 0xC3, CHR 0xA9]" "utf8ok ''f''"
    by code_simp+
  have dec: "decodeP2PFragment (encodeP2PFragment (fragmentOf ''f'' data i)) =
      Some (fragmentOf ''f'' data i \<lparr>pf_Payload := toValidUTF8 (fragmentPayload data i)\<rparr>)" if "i < 2" for i
    using that halves(4) by (subst p2pFragment_decode) (auto simp: n int64_range_def fragmentOf_def)
  have "onMessage (encodeP2PFragment (fragmentOf ''f'' data 0)) NewP2PClient =
      Some (NewP2PClient\<lparr>pc_receivingFragments := [''f'' \<mapsto> [s @ replacementChar, '''']]\<rparr>, [])"
    using dec [of 0] halves(1) toValidUTF8_append [OF s]
    by (simp add: onMessage_def n p0 NewP2PClient_def Let_def numeral_2_eq_2)
  moreover have "onMessage (encodeP2PFragment (fragmentOf ''f'' data 1))
        (NewP2PClient\<lparr>pc_receivingFragments := [''f'' \<mapsto> [s @ replacementChar, '''']]\<rparr>) =
      Some (NewP2PClient, [s @ replacementChar @ replacementChar])"
    using dec [of 1] halves(2)
    by (simp add: onMessage_def n p1 [unfolded One_nat_def] NewP2PClient_def Let_def replacementChar_def)
  moreover have "s @ replacementChar @ replacementChar \<noteq> data" by (simp add: data_def replacementChar_def)
  moreover have "validUTF8 data" using validUTF8_append [OF s halves(3)] by (simp add: data_def)
  ultimately show ?thesis using n by simp
qed

theorem split_character_corrupted_witness:
  "\<exists>data. validUTF8 data \<and> (\<exists>out. receiveAll (map (\<lambda>i. encodeP2PFragment (fragmentOf ''f'' data i)) [0, 1]) NewP2PClient =
      Some (NewP2PClient, [out]) \<and> out \<noteq> data)"
proof -
  have "asciiStr (replicate (FragmentSize - 1) (CHR ''a''))" by (simp add: asciiStr_def list_all_iff)
  from split_character_corrupted [OF this] show ?thesis by auto
qed


end
