(* ===== verification/ServerConfig.thy ===== *)
theory ServerConfig
  imports WsHub Decimal
begin

text \<open>
  The configuration of the server (\<open>server/config/config.go\<close>): what each setting is, given the environment
  variables and the command-line flags, the size limits derived from it, and the status endpoints that report
  it (\<open>server/handler/status.go\<close>). A variable that is not set reads as the empty string; \<open>flags\<close> holds the
  values of the flags given on the command line.
\<close>

section \<open>Configuration\<close>

record ServerConfig =
  sc_Port :: int
  sc_MaxMessageSizeMiB :: int
  sc_MaxMessageSizeBytes :: int
  sc_P2PEnabled :: bool
  sc_P2PStunURL :: string
  sc_AllowedOrigins :: string
  sc_SignupEnabled :: bool
  sc_MaxUserAccounts :: int
  sc_AccountPurgeTimeout :: int
  sc_SessionTimeoutMinutes :: int
  sc_MaxUniqueIPAttempts :: int
  sc_MaxAttemptsPerIP :: int
  sc_LockTimeoutSeconds :: int
  sc_LockScalingFactor :: int
  sc_BFACacheEnabled :: bool
  sc_DatabasePath :: string
  sc_ExternalBrokerEnabled :: bool
  sc_BrokerHost :: string
  sc_BrokerPort :: int

type_synonym environment = "string \<Rightarrow> string"

definition envStr :: "environment \<Rightarrow> string \<Rightarrow> string \<Rightarrow> string" where
  "envStr getenv key fallback = (if getenv key \<noteq> '''' then getenv key else fallback)"

definition envInt :: "environment \<Rightarrow> string \<Rightarrow> int \<Rightarrow> int" where
  "envInt getenv key fallback =
     (if getenv key \<noteq> '''' then (case parseInt (getenv key) of Some i \<Rightarrow> i | None \<Rightarrow> fallback) else fallback)"

definition envInt64 :: "environment \<Rightarrow> string \<Rightarrow> int \<Rightarrow> int" where
  "envInt64 getenv key fallback =
     (if getenv key \<noteq> '''' then (case parseInt (getenv key) of Some i \<Rightarrow> i | None \<Rightarrow> fallback) else fallback)"

text \<open>\<open>strconv.ParseBool\<close>.\<close>

definition parseBool :: "string \<Rightarrow> bool option" where
  "parseBool s =
     (if s \<in> {''1'', ''t'', ''T'', ''true'', ''TRUE'', ''True''} then Some True
      else if s \<in> {''0'', ''f'', ''F'', ''false'', ''FALSE'', ''False''} then Some False
      else None)"

definition envBool :: "environment \<Rightarrow> string \<Rightarrow> bool \<Rightarrow> bool" where
  "envBool getenv key fallback =
     (if getenv key \<noteq> '''' then (case parseBool (getenv key) of Some b \<Rightarrow> b | None \<Rightarrow> fallback) else fallback)"

record ServerFlags =
  flag_port :: "int option"
  flag_p2p :: "bool option"
  flag_stun :: "string option"
  flag_signup :: "bool option"
  flag_db :: "string option"

definition flagOr :: "'a option \<Rightarrow> 'a \<Rightarrow> 'a" where
  "flagOr f d = (case f of Some v \<Rightarrow> v | None \<Rightarrow> d)"

definition LoadConfig :: "environment \<Rightarrow> ServerFlags \<Rightarrow> ServerConfig" where
  "LoadConfig getenv flags =
     \<lparr>sc_Port = flagOr (flag_port flags) (envInt getenv ''CC_PORT'' DefaultPort),
      sc_MaxMessageSizeMiB = envInt getenv ''CC_MAX_MESSAGE_SIZE_IN_MiB'' DefaultMaxMessageSizeMiB,
      sc_MaxMessageSizeBytes = envInt64 getenv ''CC_MAX_MESSAGE_SIZE_IN_BYTES'' 0,
      sc_P2PEnabled = flagOr (flag_p2p flags) (envBool getenv ''CC_P2P_ENABLED'' True),
      sc_P2PStunURL = flagOr (flag_stun flags) (envStr getenv ''CC_P2P_STUN_URL'' ''stun:stun.qq.com:18123''),
      sc_AllowedOrigins = envStr getenv ''CC_ALLOWED_ORIGINS'' ''*'',
      sc_SignupEnabled = flagOr (flag_signup flags) (envBool getenv ''CC_SIGNUP_ENABLED'' False),
      sc_MaxUserAccounts = envInt getenv ''CC_MAX_USER_ACCOUNTS'' (- 1),
      sc_AccountPurgeTimeout = envInt64 getenv ''CC_ACCOUNT_PURGE_TIMEOUT_SECONDS'' (- 1),
      sc_SessionTimeoutMinutes = envInt getenv ''CC_SESSION_TIMEOUT'' DefaultSessionTimeoutMin,
      sc_MaxUniqueIPAttempts = envInt getenv ''CC_MAX_UNIQUE_IP_ATTEMPTS'' DefaultMaxUniqueIPAttempts,
      sc_MaxAttemptsPerIP = envInt getenv ''CC_MAX_ATTEMPTS_PER_IP'' DefaultMaxAttemptsPerIP,
      sc_LockTimeoutSeconds = envInt getenv ''CC_LOCK_TIMEOUT_SECONDS'' DefaultLockTimeoutSeconds,
      sc_LockScalingFactor = envInt getenv ''CC_LOCK_TIMEOUT_SCALING_FACTOR'' DefaultLockScalingFactor,
      sc_BFACacheEnabled = envBool getenv ''CC_BFA_CACHE_ENABLED'' True,
      sc_DatabasePath = flagOr (flag_db flags) (envStr getenv ''CC_DATABASE_PATH'' ''./database/clipcascade.db''),
      sc_ExternalBrokerEnabled = envBool getenv ''CC_EXTERNAL_BROKER_ENABLED'' False,
      sc_BrokerHost = envStr getenv ''CC_BROKER_HOST'' ''localhost'',
      sc_BrokerPort = envInt getenv ''CC_BROKER_PORT'' 61613\<rparr>"

text \<open>The default configuration: no variable set, no flag given.\<close>

definition defaultServerConfig :: ServerConfig where
  "defaultServerConfig = LoadConfig (\<lambda>_. '''')
     \<lparr>flag_port = None, flag_p2p = None, flag_stun = None, flag_signup = None, flag_db = None\<rparr>"

definition EffectiveMaxMessageBytes :: "ServerConfig \<Rightarrow> int64" where
  "EffectiveMaxMessageBytes c =
     (if sc_P2PEnabled c then 0
      else if sc_MaxMessageSizeBytes c > 0 then word_of_int (sc_MaxMessageSizeBytes c)
      else word_of_int (sc_MaxMessageSizeMiB c) * 1024 * 1024)"

definition AllowedOriginsList :: "ServerConfig \<Rightarrow> string list" where
  "AllowedOriginsList c =
     (if sc_AllowedOrigins c = ''*'' then [''*'']
      else map trimSpace (splitChar (CHR 0x2C) (sc_AllowedOrigins c)))"

text \<open>The limits \<open>main\<close> sets up: of an HTTP body, and of a websocket message.\<close>

definition bodyLimit :: "ServerConfig \<Rightarrow> int64" where
  "bodyLimit c = EffectiveMaxMessageBytes c + 1024 * 1024"

definition wsReadLimitBytes :: "ServerConfig \<Rightarrow> int64" where
  "wsReadLimitBytes c =
     ResolveWebSocketReadLimitBytes (word_of_int (sc_MaxMessageSizeBytes c)) (word_of_int (sc_MaxMessageSizeMiB c))"

definition ServerMode :: "ServerConfig \<Rightarrow> string" where
  "ServerMode c = (if sc_P2PEnabled c then ''p2p'' else ''server'')"

definition GetStunURL :: "ServerConfig \<Rightarrow> string" where
  "GetStunURL c = sc_P2PStunURL c"

definition GetMaxSizeAllowed :: "ServerConfig \<Rightarrow> int64" where
  "GetMaxSizeAllowed c = EffectiveMaxMessageBytes c"

section \<open>Facts about the configuration\<close>

lemma default_limits [simp]:
  "sc_MaxAttemptsPerIP defaultServerConfig = 30" "sc_LockTimeoutSeconds defaultServerConfig = 60"
  "sc_LockScalingFactor defaultServerConfig = 2"
  by (simp_all add: defaultServerConfig_def LoadConfig_def envInt_def const_defs)

lemma envInt_range: "int64_range d \<Longrightarrow> int64_range (envInt getenv key d)"
  by (auto simp: envInt_def split: option.splits dest: parseInt_range)

end
