(* ===== verification/ServerAuth.thy ===== *)
theory ServerAuth
  imports ServerConfig
begin

text \<open>
  Logging in to the server: the count of failed attempts per address and the lock it leads to
  (\<open>server/middleware/bruteforce.go\<close>), the login, sign-out and session checks (\<open>server/handler/auth.go\<close>, the
  middleware of \<open>server/main.go\<close>, \<open>AdminOnly\<close> of \<open>admin.go\<close>). The database, bcrypt and the session store are
  outside: \<open>AuthEnv\<close> holds what they answer. Reading the clock is an argument; the text of the reply to a locked
  address carries the remaining time, which the model keeps as a number. A duration is a signed 64-bit number of
  nanoseconds, and its products wrap.
\<close>

section \<open>Counting failures (bruteforce.go)\<close>

record attemptInfo =
  ai_Count :: int
  ai_LockedAt :: gotime
  ai_LockDur :: int64

type_synonym attempts = "string \<rightharpoonup> attemptInfo"

definition NewBruteForceProtection :: attempts where
  "NewBruteForceProtection = Map.empty"

text \<open>\<open>Check\<close>: the remaining time when the address is locked, otherwise the request goes on.\<close>

definition CheckAddress :: "gotime \<Rightarrow> string \<Rightarrow> attempts \<Rightarrow> attempts \<times> int option" where
  "CheckAddress now ip bf =
     (case bf ip of
        None \<Rightarrow> (bf, None)
      | Some info \<Rightarrow>
          if ai_LockedAt info \<noteq> 0 then
            (let remaining = ai_LockedAt info + sint (ai_LockDur info) - now in
             if remaining > 0 then (bf, Some remaining) else (bf(ip := None), None))
          else (bf, None))"

definition RecordFailure :: "ServerConfig \<Rightarrow> gotime \<Rightarrow> string \<Rightarrow> attempts \<Rightarrow> attempts" where
  "RecordFailure cfg now ip bf =
     (let info = (case bf ip of
                    Some info \<Rightarrow> info
                  | None \<Rightarrow> \<lparr>ai_Count = 0, ai_LockedAt = 0,
                      ai_LockDur = word_of_int (sc_LockTimeoutSeconds cfg) * 1000000000\<rparr>);
          counted = info\<lparr>ai_Count := ai_Count info + 1\<rparr>;
          final = (if ai_Count counted \<ge> sc_MaxAttemptsPerIP cfg
                   then counted\<lparr>ai_LockedAt := now,
                          ai_LockDur := ai_LockDur counted * word_of_int (sc_LockScalingFactor cfg)\<rparr>
                   else counted)
      in bf(ip \<mapsto> final))"

definition RecordSuccess :: "string \<Rightarrow> attempts \<Rightarrow> attempts" where
  "RecordSuccess ip bf = bf(ip := None)"

text \<open>One tick of \<open>Cleanup\<close>.\<close>

definition CleanupTick :: "gotime \<Rightarrow> attempts \<Rightarrow> attempts" where
  "CleanupTick now bf =
     (\<lambda>ip. case bf ip of
              None \<Rightarrow> None
            | Some info \<Rightarrow>
                if ai_LockedAt info \<noteq> 0 \<and> now > ai_LockedAt info + sint (ai_LockDur info) then None
                else Some info)"

section \<open>Login (auth.go)\<close>

record User =
  u_ID :: nat
  u_Username :: string
  u_Password :: bytes
  u_Role :: string
  u_Enabled :: bool

record Session =
  sess_user_id :: nat
  sess_username :: string
  sess_role :: string

text \<open>
  What is outside: the first user with a name (\<open>None\<close>: none, or an error of the database), bcrypt's
  comparison of a stored hash with a password, and the errors of the session store.
\<close>

record AuthEnv =
  ae_findUser :: "string \<Rightarrow> User option"
  ae_passwordMatches :: "bytes \<Rightarrow> bytes \<Rightarrow> bool"
  ae_sessionErr :: "goerror option"
  ae_saveErr :: "goerror option"

record LoginRequest =
  req_ip :: string
  req_username :: string
  req_password :: string

datatype Reply = Redirect string | TooManyAttempts int | StatusReply nat string

definition LoginPost ::
  "AuthEnv \<Rightarrow> ServerConfig \<Rightarrow> gotime \<Rightarrow> LoginRequest \<Rightarrow> attempts \<Rightarrow> attempts \<times> Reply \<times> Session option" where
  "LoginPost env cfg now req bf =
     (if req_username req = '''' \<or> req_password req = ''''
      then (bf, Redirect ''/login?error=missing_credentials'', None)
      else
        (case ae_findUser env (req_username req) of
           None \<Rightarrow> (RecordFailure cfg now (req_ip req) bf, Redirect ''/login?error=invalid'', None)
         | Some user \<Rightarrow>
             if \<not> ae_passwordMatches env (u_Password user) (req_password req)
             then (RecordFailure cfg now (req_ip req) bf, Redirect ''/login?error=invalid'', None)
             else if \<not> u_Enabled user
             then (RecordFailure cfg now (req_ip req) bf, Redirect ''/login?error=disabled'', None)
             else
               (let bf1 = RecordSuccess (req_ip req) bf in
                if ae_sessionErr env \<noteq> None \<or> ae_saveErr env \<noteq> None
                then (bf1, Redirect ''/login?error=session_error'', None)
                else (bf1, Redirect ''/'',
                        Some \<lparr>sess_user_id = u_ID user, sess_username = u_Username user,
                              sess_role = u_Role user\<rparr>))))"

text \<open>The route \<open>POST /login\<close>: \<open>Check\<close>, then the handler.\<close>

definition loginRoute ::
  "AuthEnv \<Rightarrow> ServerConfig \<Rightarrow> gotime \<Rightarrow> LoginRequest \<Rightarrow> attempts \<Rightarrow> attempts \<times> Reply \<times> Session option" where
  "loginRoute env cfg now req bf =
     (case CheckAddress now (req_ip req) bf of
        (bf1, Some remaining) \<Rightarrow> (bf1, TooManyAttempts remaining, None)
      | (bf1, None) \<Rightarrow> LoginPost env cfg now req bf1)"

section \<open>Sessions\<close>

text \<open>\<open>Logout\<close> on a session, and the check every route after the public ones passes (\<open>None\<close>: no session).\<close>

definition Logout :: "goerror option \<Rightarrow> Session option \<Rightarrow> Session option \<times> Reply" where
  "Logout err sess = (if err = None then None else sess, Redirect ''/login?logout=true'')"

datatype Gate = Public | Refused Reply | Allowed Session

definition sessionGate :: "string \<Rightarrow> goerror option \<Rightarrow> Session option \<Rightarrow> Gate" where
  "sessionGate path err sess =
     (if path = ''/login'' \<or> path = ''/signup'' \<or> path = ''/health'' \<or> path = ''/ping'' then Public
      else
        (case (err, sess) of
           (None, Some s) \<Rightarrow> Allowed s
         | _ \<Rightarrow> if hasPrefix path ''/api/'' then Refused (StatusReply 401 ''unauthorized'')
                else Refused (Redirect ''/login'')))"

definition AdminOnly :: "Session \<Rightarrow> Reply option" where
  "AdminOnly s = (if sess_role s \<noteq> ''ADMIN'' then Some (StatusReply 403 ''admin access required'') else None)"


section \<open>Requests in sequence\<close>

fun loginRun ::
  "AuthEnv \<Rightarrow> ServerConfig \<Rightarrow> (gotime \<times> LoginRequest) list \<Rightarrow> attempts \<Rightarrow> attempts \<times> Reply list" where
  "loginRun env cfg [] bf = (bf, [])"
| "loginRun env cfg ((now, req) # rs) bf =
     (case loginRoute env cfg now req bf of
        (bf1, r, _) \<Rightarrow> (case loginRun env cfg rs bf1 of (bf2, out) \<Rightarrow> (bf2, r # out)))"

text \<open>Requests with credentials that do not log in, and the reply that says so.\<close>

definition wrong_login :: "AuthEnv \<Rightarrow> LoginRequest \<Rightarrow> bool" where
  "wrong_login env req \<longleftrightarrow> req_username req \<noteq> '''' \<and> req_password req \<noteq> '''' \<and>
     (case ae_findUser env (req_username req) of
        None \<Rightarrow> True
      | Some user \<Rightarrow> \<not> ae_passwordMatches env (u_Password user) (req_password req) \<or> \<not> u_Enabled user)"

definition rejected :: "Reply \<Rightarrow> bool" where
  "rejected r \<longleftrightarrow> r \<in> {Redirect ''/login?error=invalid'', Redirect ''/login?error=disabled''}"

lemma wrong_login_reply:
  assumes "wrong_login env req"
  shows "\<exists>r. LoginPost env cfg now req bf = (RecordFailure cfg now (req_ip req) bf, r, None) \<and> rejected r"
  using assms by (auto simp: wrong_login_def LoginPost_def rejected_def split: option.splits)

definition counted :: "ServerConfig \<Rightarrow> nat \<Rightarrow> attemptInfo" where
  "counted cfg n = \<lparr>ai_Count = int n, ai_LockedAt = 0,
     ai_LockDur = word_of_int (sc_LockTimeoutSeconds cfg) * 1000000000\<rparr>"

text \<open>The record of an address after \<open>n\<close> failures below the limit.\<close>

definition after_failures :: "ServerConfig \<Rightarrow> string \<Rightarrow> nat \<Rightarrow> attempts \<Rightarrow> attempts" where
  "after_failures cfg a n bf = (if n = 0 then bf else bf(a \<mapsto> counted cfg n))"

lemma RecordFailure_below:
  assumes "bf a = None" "int (Suc n) < sc_MaxAttemptsPerIP cfg"
  shows "RecordFailure cfg now a (after_failures cfg a n bf) = after_failures cfg a (Suc n) bf"
  using assms by (cases n) (simp_all add: RecordFailure_def after_failures_def counted_def)

lemma RecordFailure_limit:
  assumes "bf a = None" "int (Suc n) = sc_MaxAttemptsPerIP cfg"
  shows "RecordFailure cfg now a (after_failures cfg a n bf) =
    bf(a \<mapsto> \<lparr>ai_Count = int (Suc n), ai_LockedAt = now,
       ai_LockDur = word_of_int (sc_LockTimeoutSeconds cfg) * 1000000000 * word_of_int (sc_LockScalingFactor cfg)\<rparr>)"
  using assms by (cases n) (simp_all add: RecordFailure_def after_failures_def counted_def)

lemma CheckAddress_below:
  "bf a = None \<Longrightarrow> CheckAddress now a (after_failures cfg a n bf) = (after_failures cfg a n bf, None)"
  by (simp add: CheckAddress_def after_failures_def counted_def)

lemma loginRun_append:
  "loginRun env cfg (rs @ qs) bf =
     (case loginRun env cfg rs bf of (bf1, out1) \<Rightarrow>
        (case loginRun env cfg qs bf1 of (bf2, out2) \<Rightarrow> (bf2, out1 @ out2)))"
  by (induction env cfg rs bf rule: loginRun.induct) (simp_all split: prod.split)

lemma loginRun_below:
  assumes "bf a = None" "int (length rs) < sc_MaxAttemptsPerIP cfg"
    and "\<forall>(now, req)\<in>set rs. req_ip req = a \<and> wrong_login env req"
  shows "fst (loginRun env cfg rs bf) = after_failures cfg a (length rs) bf \<and>
    list_all rejected (snd (loginRun env cfg rs bf)) \<and> length (snd (loginRun env cfg rs bf)) = length rs"
  using assms(2,3)
proof (induction rs rule: rev_induct)
  case (snoc r rs)
  obtain now req where r: "r = (now, req)" by fastforce
  have req: "req_ip req = a" "wrong_login env req" using snoc.prems(2) r by auto
  obtain out where run: "loginRun env cfg rs bf = (after_failures cfg a (length rs) bf, out)"
    and out: "list_all rejected out" "length out = length rs"
    using snoc by (cases "loginRun env cfg rs bf") auto
  obtain x where x: "LoginPost env cfg now req (after_failures cfg a (length rs) bf) =
      (RecordFailure cfg now (req_ip req) (after_failures cfg a (length rs) bf), x, None)" "rejected x"
    using wrong_login_reply [OF req(2)] by blast
  have "RecordFailure cfg now a (after_failures cfg a (length rs) bf) = after_failures cfg a (length (rs @ [r])) bf"
    using RecordFailure_below [of bf a "length rs" cfg now] assms(1) snoc.prems(1) by simp
  then show ?case
    using run out x req(1) assms(1) by (simp add: loginRun_append r loginRoute_def CheckAddress_below)
qed (simp add: after_failures_def)

text \<open>The time an address is locked for, when the products stay in range.\<close>

definition lockTime :: "ServerConfig \<Rightarrow> int" where
  "lockTime cfg = sc_LockTimeoutSeconds cfg * sc_LockScalingFactor cfg * 1000000000"

lemma sint_lockTime:
  assumes "int64_range (lockTime cfg)"
  shows "sint (word_of_int (sc_LockTimeoutSeconds cfg) * 1000000000 * word_of_int (sc_LockScalingFactor cfg) :: int64) =
    lockTime cfg"
proof -
  have "(word_of_int (sc_LockTimeoutSeconds cfg) * 1000000000 * word_of_int (sc_LockScalingFactor cfg) :: int64) =
      word_of_int (lockTime cfg)"
    by (simp add: lockTime_def ac_simps flip: wi_hom_mult)
  then show ?thesis
    using assms by (simp add: int64_range_def signed_take_bit_int_eq_self_iff sint_sbintrunc')
qed

text \<open>C21: After the permitted number of failed logins from an address, every request to log in from it is
  refused without looking at its credentials, correct or not, until the lock time has passed since the last
  failure, and nothing is changed by these requests; then requests are handled again with a clean record. The
  failures themselves are all answered as rejected logins, and other addresses are not affected.\<close>
theorem lockout:
  assumes "0 < sc_MaxAttemptsPerIP cfg" "int64_range (lockTime cfg)" "t \<noteq> 0" "bf a = None"
    and "int (length (rs @ [(t, q)])) = sc_MaxAttemptsPerIP cfg"
    and "\<forall>(now, req)\<in>set (rs @ [(t, q)]). req_ip req = a \<and> wrong_login env req"
  defines "bf' \<equiv> fst (loginRun env cfg (rs @ [(t, q)]) bf)"
  shows "list_all rejected (snd (loginRun env cfg (rs @ [(t, q)]) bf)) \<and>
    (\<forall>b. b \<noteq> a \<longrightarrow> bf' b = bf b) \<and>
    (\<forall>env' now req. req_ip req = a \<longrightarrow>
       loginRoute env' cfg now req bf' =
         (if now < t + lockTime cfg then (bf', TooManyAttempts (t + lockTime cfg - now), None)
          else LoginPost env' cfg now req bf))"
proof -
  let ?n = "length rs" and ?dur = "word_of_int (sc_LockTimeoutSeconds cfg) * 1000000000 *
    word_of_int (sc_LockScalingFactor cfg) :: int64"
  have q: "req_ip q = a" "wrong_login env q" using assms(6) by auto
  have "\<forall>(now, req)\<in>set rs. req_ip req = a \<and> wrong_login env req" using assms(6) by auto
  moreover have "int ?n < sc_MaxAttemptsPerIP cfg" using assms(5) by simp
  ultimately obtain out where run: "loginRun env cfg rs bf = (after_failures cfg a ?n bf, out)"
    and out: "list_all rejected out"
    using loginRun_below [of bf a rs cfg env] assms(4) by (metis prod.collapse)
  obtain x where x: "LoginPost env cfg t q (after_failures cfg a ?n bf) =
      (RecordFailure cfg t (req_ip q) (after_failures cfg a ?n bf), x, None)" "rejected x"
    using wrong_login_reply [OF q(2)] by blast
  have last: "RecordFailure cfg t a (after_failures cfg a ?n bf) =
      bf(a \<mapsto> \<lparr>ai_Count = int (Suc ?n), ai_LockedAt = t, ai_LockDur = ?dur\<rparr>)"
    using RecordFailure_limit [of bf a ?n cfg t] assms(4,5) by simp
  have bf': "bf' = bf(a \<mapsto> \<lparr>ai_Count = int (Suc ?n), ai_LockedAt = t, ai_LockDur = ?dur\<rparr>)"
    using run x last q(1) assms(4) by (simp add: bf'_def loginRun_append loginRoute_def CheckAddress_below)
  have "CheckAddress now a bf' =
      (if now < t + lockTime cfg then (bf', Some (t + lockTime cfg - now)) else (bf, None))" for now
    using assms(3,4) sint_lockTime [OF assms(2)] by (simp add: CheckAddress_def bf' Let_def fun_upd_idem_iff)
  then have "loginRoute env' cfg now req bf' =
       (if now < t + lockTime cfg then (bf', TooManyAttempts (t + lockTime cfg - now), None)
          else LoginPost env' cfg now req bf)" if "req_ip req = a" for env' now req
    using that by (simp add: loginRoute_def)
  moreover have "list_all rejected (snd (loginRun env cfg (rs @ [(t, q)]) bf))"
    using run out x q(1) assms(4) by (simp add: loginRun_append loginRoute_def CheckAddress_below)
  moreover have "\<forall>b. b \<noteq> a \<longrightarrow> bf' b = bf b" by (simp add: bf')
  ultimately show ?thesis by blast
qed

definition sampleAuth :: AuthEnv where
  "sampleAuth = \<lparr>ae_findUser = (\<lambda>n. if n = ''eve'' then Some \<lparr>u_ID = 7, u_Username = ''eve'', u_Password = ''hash'',
       u_Role = ''USER'', u_Enabled = True\<rparr> else None),
     ae_passwordMatches = (\<lambda>h p. h = ''hash'' \<and> p = ''secret''), ae_sessionErr = None, ae_saveErr = None\<rparr>"

theorem lockout_witness:
  "let req = (\<lambda>p. \<lparr>req_ip = ''10.0.0.1'', req_username = ''eve'', req_password = p\<rparr>);
       bf' = fst (loginRun sampleAuth defaultServerConfig
               (map (\<lambda>i. (int i, req ''guess'')) [1..<30] @ [(30, req ''guess'')]) NewBruteForceProtection)
   in loginRoute sampleAuth defaultServerConfig 1000 (req ''secret'') bf' =
        (bf', TooManyAttempts (30 + 120000000000 - 1000), None)"
proof -
  let ?req = "\<lambda>p. \<lparr>req_ip = ''10.0.0.1'', req_username = ''eve'', req_password = p\<rparr>"
  have "lockTime defaultServerConfig = 120000000000" by (simp add: lockTime_def)
  moreover have "wrong_login sampleAuth (?req ''guess'')" by (simp add: wrong_login_def sampleAuth_def)
  ultimately show ?thesis
    using lockout [of defaultServerConfig "30" NewBruteForceProtection "''10.0.0.1''"
        "map (\<lambda>i. (int i, ?req ''guess'')) [1..<30]" "?req ''guess''" sampleAuth]
    by (simp add: NewBruteForceProtection_def int64_range_def Let_def)
qed

text \<open>A session is opened for nobody but a user of the database who is enabled and whose stored hash
  matches the password of the request; it carries that user's name and role. A correct login from an address that
  is not locked clears the address's record and, when the session store works, opens the session.\<close>
theorem login_only_with_password:
  "(snd (snd (loginRoute env cfg now req bf)) = Some s) =
     (snd (CheckAddress now (req_ip req) bf) = None \<and> req_username req \<noteq> '''' \<and> req_password req \<noteq> '''' \<and>
      ae_sessionErr env = None \<and> ae_saveErr env = None \<and>
      (\<exists>user. ae_findUser env (req_username req) = Some user \<and> u_Enabled user \<and>
         ae_passwordMatches env (u_Password user) (req_password req) \<and>
         s = \<lparr>sess_user_id = u_ID user, sess_username = u_Username user, sess_role = u_Role user\<rparr> \<and>
         fst (loginRoute env cfg now req bf) (req_ip req) = None))"
  by (auto simp: loginRoute_def LoginPost_def RecordSuccess_def Let_def
      split: prod.splits option.splits if_splits)



section \<open>Failures beyond the limit\<close>

text \<open>
  \<open>Check\<close> and the handler behind it do not exclude each other, so requests that passed \<open>Check\<close> before the
  address was locked still record their failures afterwards.
\<close>

definition recordFailures :: "ServerConfig \<Rightarrow> string \<Rightarrow> gotime list \<Rightarrow> attempts \<Rightarrow> attempts" where
  "recordFailures cfg a ts bf = foldl (\<lambda>bf now. RecordFailure cfg now a bf) bf ts"

lemma recordFailures_default:
  assumes "bf a = None" "ts \<noteq> []"
  shows "recordFailures defaultServerConfig a ts bf a =
    Some \<lparr>ai_Count = int (length ts), ai_LockedAt = (if length ts < 30 then 0 else last ts),
      ai_LockDur = 60000000000 * 2 ^ (length ts - 29)\<rparr>"
  using assms(2)
proof (induction ts rule: rev_induct)
  case (snoc t ts)
  show ?case
  proof (cases "ts = []")
    case True
    then show ?thesis using assms(1) by (simp add: recordFailures_def RecordFailure_def)
  next
    case False
    then have ih: "recordFailures defaultServerConfig a ts bf a =
        Some \<lparr>ai_Count = int (length ts), ai_LockedAt = (if length ts < 30 then 0 else last ts),
          ai_LockDur = 60000000000 * 2 ^ (length ts - 29)\<rparr>"
      by (rule snoc.IH)
    have step: "recordFailures defaultServerConfig a (ts @ [t]) bf =
        RecordFailure defaultServerConfig t a (recordFailures defaultServerConfig a ts bf)"
      by (simp add: recordFailures_def)
    show ?thesis
    proof (cases "29 \<le> length ts")
      case True
      then have "length ts + 1 - 29 = Suc (length ts - 29)" by simp
      then show ?thesis using True by (simp add: step RecordFailure_def ih)
    qed (simp add: step RecordFailure_def ih)
  qed
qed simp

text \<open>C35: The lock time is doubled with every failure past the limit and is a 64-bit number: in the default
  configuration, an address that gets 57 failures recorded (27 more than the limit, from requests running at the
  same time) is not locked at all, since the product has become negative, while with 56 it is locked for
  250 years.\<close>
theorem many_failures_lift_lock:
  assumes "bf a = None" "last ts \<le> now" "now < last ts + 250 * 365 * 24 * 3600 * 1000000000" "last ts \<noteq> 0"
  shows "(length ts = 57 \<longrightarrow>
      CheckAddress now a (recordFailures defaultServerConfig a ts bf) =
        ((recordFailures defaultServerConfig a ts bf)(a := None), None)) \<and>
    (length ts = 56 \<longrightarrow>
      snd (CheckAddress now a (recordFailures defaultServerConfig a ts bf)) \<noteq> None)"
proof -
  have "CheckAddress now a (recordFailures defaultServerConfig a ts bf) =
        ((recordFailures defaultServerConfig a ts bf)(a := None), None)" if n: "length ts = 57"
  proof -
    have "ts \<noteq> []" using n by auto
    then show ?thesis using assms n recordFailures_default [of bf a ts] by (simp add: CheckAddress_def Let_def)
  qed
  moreover have "snd (CheckAddress now a (recordFailures defaultServerConfig a ts bf)) \<noteq> None" if n: "length ts = 56"
  proof -
    have "ts \<noteq> []" using n by auto
    then show ?thesis using assms n recordFailures_default [of bf a ts] by (simp add: CheckAddress_def Let_def)
  qed
  ultimately show ?thesis by blast
qed

theorem many_failures_lift_lock_witness:
  "CheckAddress 60 ''10.0.0.1'' (recordFailures defaultServerConfig ''10.0.0.1'' (map int [1..<58]) NewBruteForceProtection) =
     ((recordFailures defaultServerConfig ''10.0.0.1'' (map int [1..<58]) NewBruteForceProtection)(''10.0.0.1'' := None), None)"
proof -
  have "last (map int [1..<58]) = 57" by (simp add: last_map)
  then show ?thesis
    using many_failures_lift_lock [of NewBruteForceProtection "''10.0.0.1''" "map int [1..<58]" "60"]
    by (simp add: NewBruteForceProtection_def)
qed

end
