(* ===== verification/Monitor.thy ===== *)
theory Monitor
  imports FileSys Base64 Messages
begin

text \<open>
  The clipboard monitor (\<open>desktop/clipboard/monitor.go\<close>, \<open>image_file.go\<close>): which content of the system
  clipboard is taken for a change made by the user, how writes by the program itself are kept from being taken
  for one, and the writes. The operating system's clipboard, image decoding and xxHash are outside: their
  answers are arguments. Each operation is one step, with nothing in between; \<open>Paste\<close> and the staging of
  files take the lock several times (for the snapshot, the hash before the write, each suppression, the restoring after
  an error), so that a change noticed between these parts is not covered. What the callback of a change does is not part of
  the step. Texts of notifications are left out.
\<close>

section \<open>Captured content\<close>

record CaptureData =
  cap_Payload :: string
  cap_Type :: string
  cap_FileName :: string
  cap_Paths :: "string list"

text \<open>What the platform shows at a moment: its own readers, the portable reader, and sizes of files.\<close>

record Platform =
  pl_paths :: "string list"
  pl_image :: bytes
  pl_text :: bytes
  pl_readImage :: bytes
  pl_readText :: bytes
  pl_wayland :: bool
  pl_fileSize :: "string \<Rightarrow> int option"

record fileStubPayload =
  fsp_Count :: int
  fsp_TotalBytes :: int
  fsp_Names :: "string list"
  fsp_Lazy :: bool

definition fileStubPayloadJSON :: "fileStubPayload \<Rightarrow> json" where
  "fileStubPayloadJSON f = JObj ([(''count'', jint (fsp_Count f)), (''total_bytes'', jint (fsp_TotalBytes f))] @
     (if fsp_Names f = [] then [] else [(''names'', JArr (map JStr (fsp_Names f)))]) @
     [(''lazy'', JBool (fsp_Lazy f))])"

definition normalizeClipboardPaths :: "string list \<Rightarrow> string list" where
  "normalizeClipboardPaths paths = filter (\<lambda>p. p \<noteq> '''') (map trimSpace paths)"

definition buildFileStubPayload :: "string list \<Rightarrow> string" where
  "buildFileStubPayload paths = joinChar [newline] (normalizeClipboardPaths paths)"

definition stubName :: "string \<Rightarrow> string" where
  "stubName p = (let name = Base p in if name = '''' \<or> name = ''.'' \<or> name = ''/'' then ''unknown'' else name)"

definition buildFileStubMeta :: "Platform \<Rightarrow> string list \<Rightarrow> string" where
  "buildFileStubMeta pl paths =
     (let ps = filter (\<lambda>p. p \<noteq> '''') (map trimSpace paths) in
      if ps = [] then ''''
      else render (fileStubPayloadJSON
             \<lparr>fsp_Count = int (length ps),
              fsp_TotalBytes = sum_list (map (\<lambda>p. case pl_fileSize pl p of Some n \<Rightarrow> n | None \<Rightarrow> 0) ps),
              fsp_Names = map stubName ps, fsp_Lazy = True\<rparr>))"

definition fileCapture :: "Platform \<Rightarrow> string list \<Rightarrow> CaptureData" where
  "fileCapture pl normalized =
     \<lparr>cap_Payload = buildFileStubPayload normalized, cap_Type = TypeFileStub,
      cap_FileName = buildFileStubMeta pl normalized, cap_Paths = normalized\<rparr>"

definition imageCapture :: "bytes \<Rightarrow> CaptureData" where
  "imageCapture img =
     \<lparr>cap_Payload = EncodeToString img, cap_Type = TypeImage, cap_FileName = '''', cap_Paths = []\<rparr>"

definition textCapture :: "bytes \<Rightarrow> CaptureData" where
  "textCapture t = \<lparr>cap_Payload = t, cap_Type = TypeText, cap_FileName = '''', cap_Paths = []\<rparr>"

text \<open>Files come before images, images before text.\<close>

definition deriveCaptureData :: "Platform \<Rightarrow> string list \<Rightarrow> bytes \<Rightarrow> bytes \<Rightarrow> CaptureData option" where
  "deriveCaptureData pl paths img t =
     (if paths \<noteq> [] then Some (fileCapture pl (normalizeClipboardPaths paths))
      else if img \<noteq> [] then Some (imageCapture img)
      else if t \<noteq> [] then Some (textCapture t)
      else None)"

definition captureDataFromPlatform :: "Platform \<Rightarrow> CaptureData option" where
  "captureDataFromPlatform pl =
     (let allowFallback = \<not> pl_wayland pl;
          img = (if allowFallback \<and> pl_image pl = [] then pl_readImage pl else pl_image pl);
          t = (if allowFallback \<and> pl_text pl = [] then pl_readText pl else pl_text pl)
      in deriveCaptureData pl (pl_paths pl) img t)"

definition CaptureCurrent :: "Platform \<Rightarrow> CaptureData option" where
  "CaptureCurrent pl = captureDataFromPlatform pl"

definition selectFileContent :: "Platform \<Rightarrow> string list \<Rightarrow> CaptureData option" where
  "selectFileContent pl paths =
     (let normalized = normalizeClipboardPaths paths in
      if normalized = [] then None else Some (fileCapture pl normalized))"

definition selectClipboardContent :: "Platform \<Rightarrow> string list \<Rightarrow> bytes \<Rightarrow> bytes \<Rightarrow> CaptureData option" where
  "selectClipboardContent pl paths imageData textData =
     (case selectFileContent pl paths of
        Some result \<Rightarrow> Some result
      | None \<Rightarrow> if imageData \<noteq> [] then Some (imageCapture imageData)
                else if textData \<noteq> [] then Some (textCapture textData) else None)"

section \<open>The monitor\<close>

record ClipManager =
  cm_lastHash :: uint64
  cm_suppressedEdits :: int
  cm_suppressedAt :: gotime

definition newClipManager :: ClipManager where
  "newClipManager = \<lparr>cm_lastHash = 0, cm_suppressedEdits = 0, cm_suppressedAt = 0\<rparr>"

definition seedCaptureHash :: "(string \<Rightarrow> uint64) \<Rightarrow> CaptureData \<Rightarrow> ClipManager \<Rightarrow> ClipManager" where
  "seedCaptureHash XXHash64 capture m = m\<lparr>cm_lastHash := XXHash64 (cap_Payload capture)\<rparr>"

text \<open>A change of the clipboard: the new state, and the capture when it is reported to the application.\<close>

definition handleChange ::
  "(string \<Rightarrow> uint64) \<Rightarrow> gotime \<Rightarrow> CaptureData \<Rightarrow> ClipManager \<Rightarrow> ClipManager \<times> CaptureData option" where
  "handleChange XXHash64 now capture m0 =
     (let hash = XXHash64 (cap_Payload capture);
          m = (if cm_suppressedEdits m0 > 0 \<and> cm_suppressedAt m0 \<noteq> 0 \<and> now - cm_suppressedAt m0 > 5 * 1000000000
               then m0\<lparr>cm_suppressedEdits := 0\<rparr> else m0) in
      if cm_suppressedEdits m > 0
      then (m\<lparr>cm_lastHash := hash, cm_suppressedEdits := cm_suppressedEdits m - 1\<rparr>, None)
      else if hash = cm_lastHash m then (m, None)
      else (m\<lparr>cm_lastHash := hash\<rparr>, Some capture))"

definition handleFileChange ::
  "(string \<Rightarrow> uint64) \<Rightarrow> gotime \<Rightarrow> Platform \<Rightarrow> ClipManager \<Rightarrow> ClipManager \<times> CaptureData option \<times> bool" where
  "handleFileChange XXHash64 now pl m =
     (case selectFileContent pl (pl_paths pl) of
        None \<Rightarrow> (m, None, False)
      | Some result \<Rightarrow> (case handleChange XXHash64 now result m of (m1, out) \<Rightarrow> (m1, out, True)))"

definition handleSystemChange ::
  "(string \<Rightarrow> uint64) \<Rightarrow> gotime \<Rightarrow> Platform \<Rightarrow> ClipManager \<Rightarrow> ClipManager \<times> CaptureData option" where
  "handleSystemChange XXHash64 now pl m =
     (case captureDataFromPlatform pl of
        None \<Rightarrow> (m, None) | Some capture \<Rightarrow> handleChange XXHash64 now capture m)"

definition handleNativeClipboardSnapshot ::
  "(string \<Rightarrow> uint64) \<Rightarrow> gotime \<Rightarrow> Platform \<Rightarrow> bool \<Rightarrow> ClipManager \<Rightarrow> ClipManager \<times> CaptureData option \<times> bool" where
  "handleNativeClipboardSnapshot XXHash64 now pl seedOnly m =
     (case CaptureCurrent pl of
        None \<Rightarrow> (m, None, False)
      | Some capture \<Rightarrow>
          if seedOnly then (seedCaptureHash XXHash64 capture m, None, False)
          else (case handleChange XXHash64 now capture m of (m1, out) \<Rightarrow> (m1, out, True)))"

definition seedNativeClipboardSnapshot ::
  "(string \<Rightarrow> uint64) \<Rightarrow> Platform \<Rightarrow> ClipManager \<Rightarrow> ClipManager \<times> bool" where
  "seedNativeClipboardSnapshot XXHash64 pl m =
     (case CaptureCurrent pl of None \<Rightarrow> (m, False) | Some capture \<Rightarrow> (seedCaptureHash XXHash64 capture m, True))"

definition seedFileClipboardSnapshot ::
  "(string \<Rightarrow> uint64) \<Rightarrow> Platform \<Rightarrow> ClipManager \<Rightarrow> ClipManager \<times> bool" where
  "seedFileClipboardSnapshot XXHash64 pl m =
     (case selectFileContent pl (pl_paths pl) of
        None \<Rightarrow> (m, False) | Some result \<Rightarrow> (seedCaptureHash XXHash64 result m, True))"

section \<open>Watching\<close>

text \<open>The polling loop of Windows: one tick with the platform's change counter.\<close>

definition watchLegacyTick ::
  "(string \<Rightarrow> uint64) \<Rightarrow> gotime \<Rightarrow> Platform \<Rightarrow> int \<Rightarrow> int \<times> ClipManager \<Rightarrow> (int \<times> ClipManager) \<times> CaptureData option" where
  "watchLegacyTick XXHash64 now pl count w =
     (case w of (lastCount, m) \<Rightarrow>
        if count = lastCount then (w, None)
        else if lastCount \<noteq> - 1
        then (case handleSystemChange XXHash64 now pl m of (m1, out) \<Rightarrow> ((count, m1), out))
        else ((count, m), None))"

text \<open>The event loop of macOS and Linux: its local variables, its events, and one turn.\<close>

record WatchState =
  w_manager :: ClipManager
  w_nativeSeeded :: bool
  w_skipFirstTextEvent :: bool
  w_skipFirstImageEvent :: bool
  w_skipFirstFileTick :: bool

datatype WatchEvent = NativeTick | FileTick | TextEvent bytes | ImageEvent bytes

definition startWatch :: "bool \<Rightarrow> ClipManager \<Rightarrow> WatchState" where
  "startWatch wayland m =
     \<lparr>w_manager = m, w_nativeSeeded = (\<not> wayland), w_skipFirstTextEvent = True, w_skipFirstImageEvent = True,
      w_skipFirstFileTick = True\<rparr>"

definition contentChange ::
  "(string \<Rightarrow> uint64) \<Rightarrow> gotime \<Rightarrow> Platform \<Rightarrow> bytes \<Rightarrow> CaptureData \<Rightarrow> ClipManager \<Rightarrow> ClipManager \<times> CaptureData option" where
  "contentChange XXHash64 now pl data capture m =
     (if pl_wayland pl
      then (case handleNativeClipboardSnapshot XXHash64 now pl False m of (m1, out, _) \<Rightarrow> (m1, out))
      else (case handleFileChange XXHash64 now pl m of
              (m1, out, True) \<Rightarrow> (m1, out)
            | (m1, _, False) \<Rightarrow> if data \<noteq> [] then handleChange XXHash64 now capture m1 else (m1, None)))"

fun watchEventDriven ::
  "(string \<Rightarrow> uint64) \<Rightarrow> gotime \<Rightarrow> Platform \<Rightarrow> WatchEvent \<Rightarrow> WatchState \<Rightarrow> WatchState \<times> CaptureData option" where
  "watchEventDriven XXHash64 now pl NativeTick w =
     (if \<not> w_nativeSeeded w
      then (case seedNativeClipboardSnapshot XXHash64 pl (w_manager w) of
              (m, ok) \<Rightarrow> (w\<lparr>w_manager := m, w_nativeSeeded := ok\<rparr>, None))
      else (case handleNativeClipboardSnapshot XXHash64 now pl False (w_manager w) of
              (m, out, _) \<Rightarrow> (w\<lparr>w_manager := m\<rparr>, out)))"
| "watchEventDriven XXHash64 now pl FileTick w =
     (if w_skipFirstFileTick w
      then (w\<lparr>w_skipFirstFileTick := False,
              w_manager := fst (seedFileClipboardSnapshot XXHash64 pl (w_manager w))\<rparr>, None)
      else if pl_wayland pl
      then (case handleNativeClipboardSnapshot XXHash64 now pl False (w_manager w) of
              (m, out, _) \<Rightarrow> (w\<lparr>w_manager := m\<rparr>, out))
      else (case handleFileChange XXHash64 now pl (w_manager w) of (m, out, _) \<Rightarrow> (w\<lparr>w_manager := m\<rparr>, out)))"
| "watchEventDriven XXHash64 now pl (TextEvent data) w =
     (if w_skipFirstTextEvent w
      then (w\<lparr>w_skipFirstTextEvent := False,
              w_manager := (if data \<noteq> [] then seedCaptureHash XXHash64 (textCapture data) (w_manager w)
                            else w_manager w)\<rparr>, None)
      else (case contentChange XXHash64 now pl data (textCapture data) (w_manager w) of
              (m, out) \<Rightarrow> (w\<lparr>w_manager := m\<rparr>, out)))"
| "watchEventDriven XXHash64 now pl (ImageEvent data) w =
     (if w_skipFirstImageEvent w
      then (w\<lparr>w_skipFirstImageEvent := False,
              w_manager := (if data \<noteq> [] then seedCaptureHash XXHash64 (imageCapture data) (w_manager w)
                            else w_manager w)\<rparr>, None)
      else (case contentChange XXHash64 now pl data (imageCapture data) (w_manager w) of
              (m, out) \<Rightarrow> (w\<lparr>w_manager := m\<rparr>, out)))"


section \<open>Writing\<close>

text \<open>
  What the writes ask of the outside: the platform's writers (an error means the portable writer is used),
  the format of an image, its conversion to PNG, and whether a file holds an image.
\<close>

record ClipSys =
  cs_setText :: "string \<Rightarrow> goerror option"
  cs_setImage :: "bytes \<Rightarrow> goerror option"
  cs_setFiles :: "string list \<Rightarrow> goerror option"
  cs_imageFormat :: "bytes \<Rightarrow> string result"
  cs_encodePNG :: "bytes \<Rightarrow> bytes result"
  cs_readFile :: "string \<Rightarrow> bytes result"
  cs_tempEntries :: "(string \<times> bool \<times> gotime option) list option"

datatype SysWrite = WriteText string | WriteImage bytes | WriteFiles "string list"

definition normalizeClipboardImagePNG :: "ClipSys \<Rightarrow> bytes \<Rightarrow> bytes result" where
  "normalizeClipboardImagePNG sys data =
     (case cs_imageFormat sys data of
        Inl err \<Rightarrow> Inl (''decode clipboard image: '' @ err)
      | Inr format \<Rightarrow>
          if format = ''png'' then Inr data
          else (case cs_encodePNG sys data of
                  Inl err \<Rightarrow> Inl (''encode clipboard image as PNG: '' @ err) | Inr out \<Rightarrow> Inr out))"

definition clipboardImageFileBytes :: "ClipSys \<Rightarrow> string \<Rightarrow> bytes result" where
  "clipboardImageFileBytes sys path =
     (case cs_readFile sys path of
        Inl err \<Rightarrow> Inl err
      | Inr data \<Rightarrow> (case cs_imageFormat sys data of Inl err \<Rightarrow> Inl err | Inr _ \<Rightarrow> Inr data))"

definition buildClipboardImagePayload :: "ClipSys \<Rightarrow> (string \<Rightarrow> string) \<Rightarrow> string \<Rightarrow> (string \<times> string) option" where
  "buildClipboardImagePayload sys ext path =
     (case clipboardImageFileBytes sys path of
        Inl _ \<Rightarrow> None
      | Inr imageBytes \<Rightarrow>
          if imageBytes = [] then None
          else (let name = trimSpace (Base path);
                    name' = (if name = '''' \<or> ext name = '''' then ''image.png'' else name)
                in Some (EncodeToString imageBytes, name')))"

definition prepareForLocalClipboardWrite :: "gotime \<Rightarrow> uint64 \<Rightarrow> ClipManager \<Rightarrow> ClipManager" where
  "prepareForLocalClipboardWrite now hash m =
     \<lparr>cm_lastHash = hash, cm_suppressedEdits = cm_suppressedEdits m + 1, cm_suppressedAt = now\<rparr>"

definition AddExtraSuppression :: "gotime \<Rightarrow> ClipManager \<Rightarrow> ClipManager" where
  "AddExtraSuppression now m = m\<lparr>cm_suppressedEdits := cm_suppressedEdits m + 1, cm_suppressedAt := now\<rparr>"

text \<open>\<open>snapshotClipboardWriteState\<close> and \<open>restoreClipboardWriteState\<close>: the snapshot is the state itself.\<close>

definition restoreClipboardWriteState :: "ClipManager \<Rightarrow> ClipManager \<Rightarrow> ClipManager" where
  "restoreClipboardWriteState st m =
     m\<lparr>cm_lastHash := cm_lastHash st, cm_suppressedEdits := cm_suppressedEdits st,
       cm_suppressedAt := cm_suppressedAt st\<rparr>"

definition sanitizeFilename :: "string \<Rightarrow> string" where
  "sanitizeFilename name =
     (let n = filter (\<lambda>c. c \<noteq> nul) (Base (trimSpace name)) in if n = ''.'' \<or> n = ''/'' then '''' else n)"

text \<open>Entries of a directory older than a limit are removed; \<open>None\<close>: the directory cannot be read.\<close>

definition cleanupOldTempFiles ::
  "Faults \<Rightarrow> gotime \<Rightarrow> (string \<times> bool \<times> gotime option) list option \<Rightarrow> string \<Rightarrow> int \<Rightarrow> FS \<Rightarrow> FS" where
  "cleanupOldTempFiles flt now entries dir olderThan fs =
     (case entries of
        None \<Rightarrow> fs
      | Some es \<Rightarrow>
          fold (\<lambda>(name, isDir, modTime) f.
                  case modTime of
                    None \<Rightarrow> f
                  | Some t \<Rightarrow>
                      if t > now - olderThan then f
                      else if isDir then fst (os_RemoveAll flt (JoinPath [dir, name]) f)
                      else fst (os_Remove flt (JoinPath [dir, name]) f)) es fs)"

definition tempFileRetention :: int where "tempFileRetention = 24 * 3600 * 1000000000"

definition CleanupExpiredTempFiles ::
  "Faults \<Rightarrow> gotime \<Rightarrow> (string \<times> bool \<times> gotime option) list option \<Rightarrow> string \<Rightarrow> FS \<Rightarrow> FS" where
  "CleanupExpiredTempFiles flt now entries tmp fs =
     cleanupOldTempFiles flt now entries (JoinPath [tmp, ''ClipCascade'']) tempFileRetention fs"

text \<open>A write through the platform's writer, with two more suppressed changes, or else the portable one.\<close>

definition nativeWrite ::
  "gotime \<Rightarrow> goerror option \<Rightarrow> SysWrite \<Rightarrow> ClipManager \<Rightarrow> ClipManager \<times> SysWrite list" where
  "nativeWrite now err w m =
     (case err of
        None \<Rightarrow> (AddExtraSuppression now (AddExtraSuppression now m), [w])
      | Some _ \<Rightarrow> (m, [w]))"

definition pasteEagerFile ::
  "Faults \<Rightarrow> ClipSys \<Rightarrow> gotime \<Rightarrow> string \<Rightarrow> string \<Rightarrow> string \<Rightarrow> FS \<Rightarrow> FS \<times> SysWrite list result" where
  "pasteEagerFile flt sys now tmp payload filename fs =
     (case DecodeString payload of
        None \<Rightarrow> (fs, Inl ''decode eager clipboard file'')
      | Some data \<Rightarrow>
          (let tempDir = JoinPath [tmp, ''ClipCascade''] in
           case os_MkdirAll flt tempDir fs of
             (fs1, Some err) \<Rightarrow> (fs1, Inl (''create clipboard temp directory: '' @ err))
           | (fs1, None) \<Rightarrow>
               (let fs2 = cleanupOldTempFiles flt now (cs_tempEntries sys) tempDir tempFileRetention fs1;
                    s = sanitizeFilename filename;
                    safeName = (if s = '''' then ''clipcascade-file'' else s);
                    destPath = JoinPath [tempDir, safeName] in
                case os_WriteFile flt destPath data fs2 of
                  (fs3, Some err) \<Rightarrow> (fs3, Inl (''write eager clipboard file: '' @ err))
                | (fs3, None) \<Rightarrow>
                    (case cs_setFiles sys [destPath] of
                       Some err \<Rightarrow> (fs3, Inl (''set eager clipboard file paths: '' @ err))
                     | None \<Rightarrow> (fs3, Inr [WriteFiles [destPath]])))))"

definition Paste ::
  "(string \<Rightarrow> uint64) \<Rightarrow> Faults \<Rightarrow> ClipSys \<Rightarrow> gotime \<Rightarrow> string \<Rightarrow> string \<Rightarrow> string \<Rightarrow> string \<Rightarrow> ClipManager \<times> FS \<Rightarrow>
     (ClipManager \<times> FS) \<times> SysWrite list result" where
  "Paste XXHash64 flt sys now tmp payload payloadType filename st =
     (case st of (previous, fs) \<Rightarrow>
       let m = prepareForLocalClipboardWrite now (XXHash64 payload) previous;
           restoreOnError = (\<lambda>fs' err. ((restoreClipboardWriteState previous m, fs'), Inl err)) in
       if payloadType = TypeText then
         (case nativeWrite now (cs_setText sys payload) (WriteText payload) m of (m1, out) \<Rightarrow> ((m1, fs), Inr out))
       else if payloadType = TypeImage then
         (case DecodeString payload of
            None \<Rightarrow> restoreOnError fs ''decode clipboard image''
          | Some data \<Rightarrow>
              (case normalizeClipboardImagePNG sys data of
                 Inl err \<Rightarrow> restoreOnError fs err
               | Inr png \<Rightarrow>
                   (case nativeWrite now (cs_setImage sys png) (WriteImage png) m of
                      (m1, out) \<Rightarrow> ((m1, fs), Inr out))))
       else if payloadType = TypeFileStub then ((m, fs), Inr [])
       else if payloadType = TypeFileEager then
         (case pasteEagerFile flt sys now tmp payload filename fs of
            (fs1, Inl err) \<Rightarrow> restoreOnError fs1 err
          | (fs1, Inr out) \<Rightarrow> ((m, fs1), Inr out))
       else restoreOnError fs (''unsupported clipboard payload type: '' @ payloadType))"

definition StageTextOn ::
  "(string \<Rightarrow> uint64) \<Rightarrow> ClipSys \<Rightarrow> gotime \<Rightarrow> string \<Rightarrow> ClipManager \<Rightarrow> ClipManager \<times> SysWrite list" where
  "StageTextOn XXHash64 sys now t m =
     nativeWrite now (cs_setText sys t) (WriteText t) (prepareForLocalClipboardWrite now (XXHash64 t) m)"

definition StageImageFile ::
  "(string \<Rightarrow> uint64) \<Rightarrow> ClipSys \<Rightarrow> gotime \<Rightarrow> string \<Rightarrow> ClipManager \<Rightarrow> ClipManager \<times> SysWrite list result" where
  "StageImageFile XXHash64 sys now path m =
     (case clipboardImageFileBytes sys path of
        Inl err \<Rightarrow> (m, Inl err)
      | Inr data \<Rightarrow>
          (case normalizeClipboardImagePNG sys data of
             Inl err \<Rightarrow> (m, Inl err)
           | Inr png \<Rightarrow>
               (AddExtraSuppression now (AddExtraSuppression now
                  (prepareForLocalClipboardWrite now (XXHash64 (EncodeToString png)) m)), Inr [WriteImage png])))"

definition StageFilePaths ::
  "(string \<Rightarrow> uint64) \<Rightarrow> ClipSys \<Rightarrow> gotime \<Rightarrow> string list \<Rightarrow> ClipManager \<Rightarrow> ClipManager \<times> SysWrite list result" where
  "StageFilePaths XXHash64 sys now paths previous =
     (let normalized = normalizeClipboardPaths paths in
      if normalized = [] then (previous, Inr [])
      else
        (let m = AddExtraSuppression now (AddExtraSuppression now
                   (prepareForLocalClipboardWrite now (XXHash64 (buildFileStubPayload normalized)) previous)) in
         case cs_setFiles sys normalized of
           Some err \<Rightarrow> (restoreClipboardWriteState previous m, Inl err)
         | None \<Rightarrow> (m, Inr [WriteFiles normalized])))"


section \<open>Sequences of changes\<close>

text \<open>What the monitor reports of a sequence of changes, each with its time.\<close>

fun changes ::
  "(string \<Rightarrow> uint64) \<Rightarrow> (gotime \<times> CaptureData) list \<Rightarrow> ClipManager \<Rightarrow> ClipManager \<times> CaptureData list" where
  "changes XXHash64 [] m = (m, [])"
| "changes XXHash64 ((now, c) # cs) m =
     (case handleChange XXHash64 now c m of
        (m1, out) \<Rightarrow>
          (case changes XXHash64 cs m1 of
             (m2, outs) \<Rightarrow> (m2, (case out of None \<Rightarrow> outs | Some c \<Rightarrow> c # outs))))"

lemma handleChange_known:
  "XXHash64 (cap_Payload c) = cm_lastHash m \<Longrightarrow>
     snd (handleChange XXHash64 now c m) = None \<and> cm_lastHash (fst (handleChange XXHash64 now c m)) = cm_lastHash m"
  by (simp add: handleChange_def Let_def)

lemma handleChange_suppressed:
  assumes "0 < cm_suppressedEdits m" "cm_suppressedAt m = 0 \<or> now \<le> cm_suppressedAt m + 5000000000"
  shows "handleChange XXHash64 now c m =
    (m\<lparr>cm_lastHash := XXHash64 (cap_Payload c), cm_suppressedEdits := cm_suppressedEdits m - 1\<rparr>, None)"
  using assms by (auto simp: handleChange_def Let_def)

lemma handleChange_remembers: "cm_lastHash (fst (handleChange XXHash64 now c m)) = XXHash64 (cap_Payload c)"
  by (simp add: handleChange_def Let_def)

text \<open>Content the monitor knows already is never reported.\<close>

lemma changes_known:
  assumes "\<forall>(t, c)\<in>set cs. XXHash64 (cap_Payload c) = cm_lastHash m"
  shows "snd (changes XXHash64 cs m) = []"
  using assms
proof (induction cs arbitrary: m)
  case (Cons e cs)
  obtain t c where e: "e = (t, c)" by fastforce
  obtain m1 out where step: "handleChange XXHash64 t c m = (m1, out)" by fastforce
  have "out = None" "cm_lastHash m1 = cm_lastHash m"
    using handleChange_known [of XXHash64 c m t] Cons.prems e step by auto
  moreover have "snd (changes XXHash64 cs m1) = []"
    by (rule Cons.IH) (use Cons.prems e calculation in auto)
  ultimately show ?case using step by (simp add: e split: prod.split)
qed simp

lemma changes_suppressed:
  assumes "0 < cm_suppressedEdits m" "cm_suppressedAt m = 0 \<or> t \<le> cm_suppressedAt m + 5000000000"
  shows "snd (changes XXHash64 ((t, c) # cs) m) =
    snd (changes XXHash64 cs (m\<lparr>cm_lastHash := XXHash64 (cap_Payload c),
           cm_suppressedEdits := cm_suppressedEdits m - 1\<rparr>))"
  using handleChange_suppressed [OF assms] by (simp split: prod.split)

text \<open>
  The state after the program has written to the clipboard: the content is known, and at least one change is
  suppressed for five seconds.
\<close>

definition wrote :: "(string \<Rightarrow> uint64) \<Rightarrow> gotime \<Rightarrow> string \<Rightarrow> ClipManager \<Rightarrow> bool" where
  "wrote XXHash64 now p m \<longleftrightarrow>
     cm_lastHash m = XXHash64 p \<and> 0 < cm_suppressedEdits m \<and> cm_suppressedAt m = now"

lemma nativeWrite_wrote:
  assumes "0 \<le> cm_suppressedEdits m"
  shows "wrote XXHash64 now p (fst (nativeWrite now err w (prepareForLocalClipboardWrite now (XXHash64 p) m)))"
  using assms
  by (simp add: wrote_def nativeWrite_def prepareForLocalClipboardWrite_def AddExtraSuppression_def
      split: option.split)

lemma Paste_wrote:
  assumes "Paste XXHash64 flt sys now tmp p ty fn (m, fs) = ((m', fs'), Inr out)" "0 \<le> cm_suppressedEdits m"
  shows "wrote XXHash64 now p m'"
proof -
  have prep: "wrote XXHash64 now p (prepareForLocalClipboardWrite now (XXHash64 p) m)"
    using assms(2) by (simp add: wrote_def prepareForLocalClipboardWrite_def)
  have native: "nativeWrite now err w (prepareForLocalClipboardWrite now (XXHash64 p) m) = (m1, out1) \<Longrightarrow>
      wrote XXHash64 now p m1" for err w m1 out1
    using nativeWrite_wrote [OF assms(2), of XXHash64 now p err w] by simp
  show ?thesis
    using assms(1) prep native by (auto simp: Paste_def Let_def split: if_splits option.splits sum.splits prod.splits)
qed

lemma StageFilePaths_wrote:
  assumes "StageFilePaths XXHash64 sys now paths m = (m', Inr out)" "0 \<le> cm_suppressedEdits m"
    and "normalizeClipboardPaths paths \<noteq> []"
  shows "wrote XXHash64 now (buildFileStubPayload (normalizeClipboardPaths paths)) m' \<and>
    cm_suppressedEdits m' = cm_suppressedEdits m + 3"
  using assms
  by (auto simp: StageFilePaths_def Let_def wrote_def prepareForLocalClipboardWrite_def AddExtraSuppression_def
      split: option.splits)

lemma wrote_not_reported:
  assumes "wrote XXHash64 now p m" "\<forall>(t, c)\<in>set cs. cap_Payload c = q"
    and "q = p \<or> (case cs of [] \<Rightarrow> True | (t, _) # _ \<Rightarrow> t \<le> now + 5000000000)"
  shows "snd (changes XXHash64 cs m) = []"
proof (cases "q = p")
  case True
  then show ?thesis using assms(1,2) by (intro changes_known) (auto simp: wrote_def)
next
  case False
  show ?thesis
  proof (cases cs)
    case (Cons e cs')
    obtain t c where e: "e = (t, c)" by fastforce
    have t: "t \<le> now + 5000000000" using False assms(3) Cons e by simp
    have c: "cap_Payload c = q" using assms(2) Cons e by simp
    show ?thesis unfolding Cons e using assms(1) t
    proof (subst changes_suppressed)
      show "snd (changes XXHash64 cs' (m\<lparr>cm_lastHash := XXHash64 (cap_Payload c),
          cm_suppressedEdits := cm_suppressedEdits m - 1\<rparr>)) = []"
        by (rule changes_known) (use assms(2) Cons c in auto)
    qed (auto simp: wrote_def)
  qed simp
qed

text \<open>C12: What the program writes to the clipboard is not taken for something the user copied: after a
  successful paste of received content, no change of the clipboard that shows that content is reported, however
  many there are and whenever they come. This also holds when the content reads back differently (an image
  converted to PNG), provided the first change comes within five seconds. A paste that fails leaves the state
  of the monitor as it was.\<close>
theorem own_write_not_reported:
  assumes "Paste XXHash64 flt sys now tmp p ty fn (m, fs) = ((m', fs'), r)" "0 \<le> cm_suppressedEdits m"
    and "\<forall>(t, c)\<in>set cs. cap_Payload c = q"
    and "q = p \<or> (case cs of [] \<Rightarrow> True | (t, _) # _ \<Rightarrow> t \<le> now + 5000000000)"
  shows "case r of Inr _ \<Rightarrow> snd (changes XXHash64 cs m') = [] | Inl _ \<Rightarrow> m' = m"
proof (cases r)
  case (Inl err)
  have "restoreClipboardWriteState m n = m" for n by (simp add: restoreClipboardWriteState_def)
  then show ?thesis
    using assms(1) Inl by (auto simp: Paste_def Let_def split: if_splits option.splits sum.splits prod.splits)
next
  case (Inr out)
  then have "wrote XXHash64 now p m'" using assms(1,2) by (auto intro: Paste_wrote)
  then show ?thesis using wrote_not_reported assms(3,4) Inr by fastforce
qed

definition samplePlatform :: Platform where
  "samplePlatform = \<lparr>pl_paths = [''/t/ClipCascade/a.txt''], pl_image = [], pl_text = [], pl_readImage = [],
     pl_readText = [], pl_wayland = False, pl_fileSize = (\<lambda>_. Some 3)\<rparr>"

definition sampleSys :: ClipSys where
  "sampleSys = \<lparr>cs_setText = (\<lambda>_. None), cs_setImage = (\<lambda>_. None), cs_setFiles = (\<lambda>_. None),
     cs_imageFormat = (\<lambda>d. if d = ''GIF'' then Inr ''gif'' else Inl ''unknown format''),
     cs_encodePNG = (\<lambda>d. Inr (''PNG'' @ d)), cs_readFile = (\<lambda>_. Inl ''no such file''), cs_tempEntries = None\<rparr>"

definition lengthHash :: "string \<Rightarrow> uint64" where "lengthHash s = of_nat (length s)"

theorem own_write_not_reported_witness:
  "snd (changes lengthHash [(7, textCapture ''hello''), (9, textCapture ''hello''), (7000000000, textCapture ''hello'')]
     (fst (fst (Paste lengthHash noFaults sampleSys 5 ''/tmp'' ''hello'' TypeText '''' (newClipManager, Map.empty))))) = []"
proof -
  obtain m' fs' r where p: "Paste lengthHash noFaults sampleSys 5 ''/tmp'' ''hello'' TypeText '''' (newClipManager, Map.empty)
      = ((m', fs'), r)" by (metis prod.exhaust)
  have "\<exists>out. r = Inr out" using p by (auto simp: Paste_def Let_def split: prod.splits)
  then show ?thesis
    using own_write_not_reported [OF p, of
        "[(7, textCapture ''hello''), (9, textCapture ''hello''), (7000000000, textCapture ''hello'')]" "''hello''"] p
    by (auto simp: newClipManager_def textCapture_def)
qed

text \<open>Content that is new to the monitor, when no write of the program is being waited for, is reported
  exactly once: at the first change that shows it, and not again while it stays on the clipboard.\<close>
theorem new_content_reported_once:
  assumes "cm_suppressedEdits m \<le> 0 \<or> (cm_suppressedAt m \<noteq> 0 \<and> cm_suppressedAt m + 5000000000 < t)"
    and "XXHash64 (cap_Payload c) \<noteq> cm_lastHash m" "\<forall>(s, d)\<in>set cs. cap_Payload d = cap_Payload c"
  shows "snd (changes XXHash64 ((t, c) # cs) m) = [c]"
proof -
  have step: "snd (handleChange XXHash64 t c m) = Some c"
    using assms(1,2) by (auto simp: handleChange_def Let_def)
  have "snd (changes XXHash64 cs (fst (handleChange XXHash64 t c m))) = []"
    by (rule changes_known) (use assms(3) handleChange_remembers in auto)
  then show ?thesis using step
    by (cases "handleChange XXHash64 t c m"; cases "changes XXHash64 cs (fst (handleChange XXHash64 t c m))") simp
qed

theorem new_content_reported_once_witness:
  "snd (changes lengthHash [(1, textCapture ''new''), (2, textCapture ''new'')] newClipManager) = [textCapture ''new'']"
  by (rule new_content_reported_once) (simp_all add: newClipManager_def lengthHash_def textCapture_def)

text \<open>Staging files suppresses three changes, whatever the platform reports. When it reports one, and the
  user copies something else within five seconds, this copy is lost: it is not reported, and no later change
  that shows it is either.\<close>
theorem user_copy_lost_after_staging:
  assumes "StageFilePaths XXHash64 sys now paths m = (m', Inr out)" "0 \<le> cm_suppressedEdits m"
    and "normalizeClipboardPaths paths \<noteq> []"
    and "t1 \<le> now + 5000000000" "t2 \<le> now + 5000000000" "\<forall>(s, d)\<in>set later. cap_Payload d = cap_Payload user"
  shows "snd (changes XXHash64 ((t1, own) # (t2, user) # later) m') = []"
proof -
  have m': "cm_suppressedEdits m' = cm_suppressedEdits m + 3" "cm_suppressedAt m' = now"
    using StageFilePaths_wrote [OF assms(1-3)] by (simp_all add: wrote_def)
  let ?m1 = "m'\<lparr>cm_lastHash := XXHash64 (cap_Payload own), cm_suppressedEdits := cm_suppressedEdits m' - 1\<rparr>"
  let ?m2 = "?m1\<lparr>cm_lastHash := XXHash64 (cap_Payload user), cm_suppressedEdits := cm_suppressedEdits ?m1 - 1\<rparr>"
  have "snd (changes XXHash64 ((t1, own) # (t2, user) # later) m') = snd (changes XXHash64 ((t2, user) # later) ?m1)"
    by (rule changes_suppressed) (use m' assms(2,4) in simp_all)
  also have "\<dots> = snd (changes XXHash64 later ?m2)"
    by (rule changes_suppressed) (use m' assms(2,5) in simp_all)
  also have "\<dots> = []" by (rule changes_known) (use assms(6) in auto)
  finally show ?thesis .
qed

theorem user_copy_lost_after_staging_witness:
  "snd (changes lengthHash
     [(1000, fileCapture samplePlatform [''/tmp/a'']), (2000000000, textCapture ''copied by the user''),
      (60000000000, textCapture ''copied by the user'')]
     (fst (StageFilePaths lengthHash sampleSys 1 [''/tmp/a''] newClipManager))) = []"
proof -
  have paths: "normalizeClipboardPaths [''/tmp/a''] = [''/tmp/a'']" by code_simp
  obtain m' r where st: "StageFilePaths lengthHash sampleSys 1 [''/tmp/a''] newClipManager = (m', r)" by fastforce
  have "\<exists>out. r = Inr out" using st by (auto simp: StageFilePaths_def paths sampleSys_def Let_def)
  then obtain out where r: "r = Inr out" ..
  have "snd (changes lengthHash
     [(1000, fileCapture samplePlatform [''/tmp/a'']), (2000000000, textCapture ''copied by the user''),
      (60000000000, textCapture ''copied by the user'')] m') = []"
    by (rule user_copy_lost_after_staging [OF st [unfolded r]]) (simp_all add: paths newClipManager_def)
  then show ?thesis by (simp add: st)
qed

end
