(* ===== verification/SendCurrent.thy ===== *)
theory SendCurrent
  imports Monitor Samples
begin

text \<open>
  Content the user copied, from the monitor's report (or the hotkey) to the links and the history:
  \<open>handleLocalClipboardCapture\<close> of \<open>desktop/app/application.go\<close> and \<open>send_current.go\<close>. Two filters come
  first: the same content within ten seconds, and content that a replay put on the clipboard itself. \<open>fold_eq\<close>
  is \<open>strings.EqualFold\<close>; \<open>pixels\<close> is image decoding (width, height, and per pixel the four channels).
\<close>

section \<open>Content put on the clipboard by a replay\<close>

definition replayClipboardCaptureSuppressWindow :: int where
  [const_defs]: "replayClipboardCaptureSuppressWindow = 5 * 1000000000"

definition normalizeReplayPath :: "string \<Rightarrow> string" where
  "normalizeReplayPath path =
     (let p = trimSpace path in if p = '''' then '''' else replaceChar (CHR 0x5C) ''/'' (Clean p))"

definition sameClipboardPath :: "(string \<Rightarrow> string \<Rightarrow> bool) \<Rightarrow> string \<Rightarrow> string \<Rightarrow> bool" where
  "sameClipboardPath fold_eq p q =
     (let a = normalizeReplayPath p; b = normalizeReplayPath q in a \<noteq> '''' \<and> b \<noteq> '''' \<and> fold_eq a b)"

definition replayPayloadLines :: "string \<Rightarrow> string list" where
  "replayPayloadLines payload = filter (\<lambda>l. l \<noteq> '''') (map trimSpace (splitChar newline (trimSpace payload)))"

definition replayPayloadPathsMatch :: "(string \<Rightarrow> string \<Rightarrow> bool) \<Rightarrow> string \<Rightarrow> string list \<Rightarrow> bool" where
  "replayPayloadPathsMatch fold_eq expected actual =
     list_all2 (sameClipboardPath fold_eq) (replayPayloadLines expected) actual"

definition replayPayloadTextMatches :: "(string \<Rightarrow> string \<Rightarrow> bool) \<Rightarrow> string \<Rightarrow> string \<Rightarrow> bool" where
  "replayPayloadTextMatches fold_eq expected actual =
     (let expectedPaths = replayPayloadLines expected; actualLines = replayPayloadLines actual in
      if expectedPaths = [] \<or> actualLines = [] then trimSpace expected = trimSpace actual
      else list_all2 (sameClipboardPath fold_eq) expectedPaths actualLines)"

definition replayCaptureMatches ::
  "(string \<Rightarrow> string \<Rightarrow> bool) \<Rightarrow> string \<Rightarrow> string \<Rightarrow> CaptureData \<Rightarrow> bool" where
  "replayCaptureMatches fold_eq payloadType payload capture =
     (if payloadType = TypeText then
        (if cap_Type capture = TypeText then replayPayloadTextMatches fold_eq payload (cap_Payload capture)
         else if cap_Type capture = TypeFileStub then replayPayloadPathsMatch fold_eq payload (cap_Paths capture)
         else False)
      else if payloadType = TypeFileStub then
        cap_Type capture = TypeFileStub \<and> replayPayloadPathsMatch fold_eq payload (cap_Paths capture)
      else False)"

definition forgetReplayWrite :: "App \<Rightarrow> App" where
  "forgetReplayWrite a = a\<lparr>app_replayWriteType := '''', app_replayWritePayload := '''', app_replayWriteTime := 0\<rparr>"

definition shouldSuppressReplayClipboardCapture ::
  "(string \<Rightarrow> string \<Rightarrow> bool) \<Rightarrow> gotime \<Rightarrow> CaptureData option \<Rightarrow> App \<Rightarrow> App \<times> bool" where
  "shouldSuppressReplayClipboardCapture fold_eq now capture a =
     (case capture of
        None \<Rightarrow> (a, False)
      | Some c \<Rightarrow>
          if app_replayWriteTime a = 0 \<or> now - app_replayWriteTime a > replayClipboardCaptureSuppressWindow
          then (forgetReplayWrite a, False)
          else if replayCaptureMatches fold_eq (app_replayWriteType a) (app_replayWritePayload a) c
          then (forgetReplayWrite a, True)
          else (a, False))"

section \<open>The message of a capture\<close>

definition ErrNoCurrentClipboardData :: goerror where "ErrNoCurrentClipboardData = ''no current clipboard data''"

text \<open>One image file is sent as an image; other files are registered as a transfer and offered.\<close>

definition buildClipboardDataFromCapture ::
  "ClipSys \<Rightarrow> Env \<Rightarrow> CaptureData option \<Rightarrow> App \<Rightarrow> App \<times> ClipboardData result" where
  "buildClipboardDataFromCapture sys env capture a =
     (case capture of
        None \<Rightarrow> (a, Inl ErrNoCurrentClipboardData)
      | Some c \<Rightarrow>
          if cap_Type c = TypeFileStub then
            (case cap_Paths c of
               [] \<Rightarrow> (a, Inl ErrNoCurrentClipboardData)
             | p # rest \<Rightarrow>
                 (case (if rest = [] then buildClipboardImagePayload sys Ext p else None) of
                    Some (payload, filename) \<Rightarrow>
                      (a, Inr (zeroClipboard\<lparr>cd_Payload := payload, cd_Type := TypeImage, cd_FileName := filename\<rparr>))
                  | None \<Rightarrow>
                      (case RegisterOutgoing env (cap_Paths c) (cfg_Username (app_cfg a)) a of
                         (a1, Inl err) \<Rightarrow> (a1, Inl err)
                       | (a1, Inr transfer) \<Rightarrow>
                           (a1, Inr (NewClipboardDataWithPayload manifestJSON TypeFileStub (out_Manifest transfer))))))
          else (a, Inr (zeroClipboard\<lparr>cd_Payload := cap_Payload c, cd_Type := cap_Type c,
                                       cd_FileName := cap_FileName c\<rparr>)))"

definition annotateClipboardSource :: "App \<Rightarrow> ClipboardData \<Rightarrow> ClipboardData" where
  "annotateClipboardSource a cd =
     (if appSessionID a = '''' then cd else cd\<lparr>cd_SourceSessionID := appSessionID a\<rparr>)"

section \<open>The history of what was sent\<close>

definition localHistorySourceDevice :: "App \<Rightarrow> string" where
  "localHistorySourceDevice a =
     (let username = trimSpace (cfg_Username (app_cfg a)) in if username \<noteq> '''' then username else ''local'')"

definition outgoingItem :: "Env \<Rightarrow> App \<Rightarrow> ClipboardData \<Rightarrow> HistoryItem" where
  "outgoingItem env a cd =
     zeroItem\<lparr>item_State := StateReady, item_Payload := cd_Payload cd,
       item_SourceSessionID := clipboardSourceSessionID cd, item_SourceDevice := localHistorySourceDevice a,
       item_CreatedAt := env_now env, item_UpdatedAt := env_now env, item_PendingReplayMode := ReplayModeNone\<rparr>"

definition recordOutgoingTextHistory :: "Env \<Rightarrow> ClipboardData \<Rightarrow> App \<Rightarrow> App" where
  "recordOutgoingTextHistory env cd a =
     (let b = historyAddItem env ((outgoingItem env a cd)\<lparr>item_Type := TypeText, item_PayloadType := TypeText\<rparr>) a in
      case GetActive (app_history b) of
        None \<Rightarrow> b | Some latest \<Rightarrow> setSharedClipboardHistoryItem (item_ID latest) b)"

definition recordOutgoingImageHistory :: "Env \<Rightarrow> ClipboardData \<Rightarrow> App \<Rightarrow> App" where
  "recordOutgoingImageHistory env cd a =
     (let b = historyAddItem env ((outgoingItem env a cd)\<lparr>item_Type := TypeImage, item_PayloadType := TypeImage,
                item_FileName := cd_FileName cd\<rparr>) a in
      case GetActive (app_history b) of
        None \<Rightarrow> b
      | Some latest \<Rightarrow>
          setLastFileStubHistoryItem (item_ID latest) (setSharedClipboardHistoryItem (item_ID latest) b))"

definition recordOutgoingFileStubHistory :: "Env \<Rightarrow> ClipboardData \<Rightarrow> App \<Rightarrow> App" where
  "recordOutgoingFileStubHistory env cd a =
     (case decodeManifest (cd_Payload cd) of
        None \<Rightarrow> a
      | Some manifest \<Rightarrow>
          if man_TransferID manifest = '''' then a
          else if GetByTransferID (man_TransferID manifest) (app_history a) \<noteq> None then a
          else
            (let sourceDevice = (if man_SourceDevice manifest = '''' then cfg_Username (app_cfg a)
                                 else man_SourceDevice manifest);
                 item = zeroItem\<lparr>item_Type := TypeFileStub, item_State := StateOffered,
                   item_Kind := man_Kind manifest, item_DisplayName := man_DisplayName manifest,
                   item_Payload := cd_Payload cd, item_SourceSessionID := man_SourceSessionID manifest,
                   item_SourceDevice := sourceDevice, item_CreatedAt := env_now env, item_UpdatedAt := env_now env,
                   item_TransferID := man_TransferID manifest, item_LastChunkIdx := - 1,
                   item_PendingReplayMode := ReplayModeNone\<rparr>;
                 b = historyAddItem env item a
             in case GetByTransferID (man_TransferID manifest) (app_history b) of
                  None \<Rightarrow> b
                | Some stored \<Rightarrow>
                    setLastFileStubHistoryItem (item_ID stored)
                      (setSharedClipboardHistoryItem (item_ID stored) b)))"

definition recordOutgoingClipboardHistory :: "Env \<Rightarrow> ClipboardData \<Rightarrow> App \<Rightarrow> App" where
  "recordOutgoingClipboardHistory env cd a =
     (if cd_Type cd = TypeText then recordOutgoingTextHistory env cd a
      else if cd_Type cd = TypeImage then recordOutgoingImageHistory env cd a
      else if cd_Type cd = TypeFileStub then recordOutgoingFileStubHistory env cd a
      else a)"

section \<open>Sending a capture\<close>

definition sendCapture ::
  "(string \<Rightarrow> string \<Rightarrow> bool) \<Rightarrow> ClipSys \<Rightarrow> Env \<Rightarrow> CaptureData option \<Rightarrow> App \<Rightarrow> App \<times> goerror option" where
  "sendCapture fold_eq sys env capture a =
     (case shouldSuppressReplayClipboardCapture fold_eq (env_now env) capture a of
        (a1, True) \<Rightarrow> (a1, None)
      | (a1, False) \<Rightarrow>
          (case buildClipboardDataFromCapture sys env capture a1 of
             (a2, Inl err) \<Rightarrow> (a2, Some err)
           | (a2, Inr cd0) \<Rightarrow>
               (let cd = annotateClipboardSource a2 cd0 in
                case sendClipboardDataWithResult env cd a2 of
                  (a3, _, Some err) \<Rightarrow> (a3, Some err)
                | (a3, _, None) \<Rightarrow> (recordOutgoingClipboardHistory env cd a3, None))))"

text \<open>The hotkey: \<open>initErr\<close> is the result of initialising the clipboard.\<close>

definition SendCurrentClipboard ::
  "(string \<Rightarrow> string \<Rightarrow> bool) \<Rightarrow> ClipSys \<Rightarrow> Env \<Rightarrow> goerror option \<Rightarrow> Platform \<Rightarrow> App \<Rightarrow> App \<times> goerror option" where
  "SendCurrentClipboard fold_eq sys env initErr pl a =
     (case initErr of
        Some err \<Rightarrow> (a, Some err)
      | None \<Rightarrow> sendCapture fold_eq sys env (CaptureCurrent pl) a)"

section \<open>The monitor's report\<close>

definition monitorClipboardCaptureDedupWindow :: int where
  [const_defs]: "monitorClipboardCaptureDedupWindow = 10 * 1000000000"

definition le32 :: "nat \<Rightarrow> bytes" where
  "le32 n = map (\<lambda>i. char_of (n div 256 ^ i mod 256)) [0, 1, 2, 3]"

type_synonym pixel_image = "nat \<times> nat \<times> (nat \<times> nat \<times> nat \<times> nat) list"

definition monitorImagePixelHash :: "(bytes \<Rightarrow> pixel_image option) \<Rightarrow> Env \<Rightarrow> string \<Rightarrow> string option" where
  "monitorImagePixelHash pixels env payload =
     (case DecodeString payload of
        None \<Rightarrow> None
      | Some data \<Rightarrow>
          (case pixels data of
             None \<Rightarrow> None
           | Some (w, h, ps) \<Rightarrow>
               Some (sha256hex env (TypeImage @ le32 w @ le32 h @
                  concat (map (\<lambda>(r, g, b, al). le32 r @ le32 g @ le32 b @ le32 al) ps)))))"

definition monitorCaptureDedupHash :: "(bytes \<Rightarrow> pixel_image option) \<Rightarrow> Env \<Rightarrow> CaptureData \<Rightarrow> string" where
  "monitorCaptureDedupHash pixels env capture =
     (let plain = sha256hex env (cap_Type capture @ [nul] @ cap_Payload capture) in
      if cap_Type capture = TypeImage
      then (case monitorImagePixelHash pixels env (cap_Payload capture) of Some hash \<Rightarrow> hash | None \<Rightarrow> plain)
      else plain)"

definition shouldSuppressDuplicateMonitorCapture ::
  "(bytes \<Rightarrow> pixel_image option) \<Rightarrow> Env \<Rightarrow> CaptureData \<Rightarrow> App \<Rightarrow> App \<times> bool" where
  "shouldSuppressDuplicateMonitorCapture pixels env capture a =
     (let hash = monitorCaptureDedupHash pixels env capture in
      if app_lastMonitorSendHash a = hash \<and>
         env_now env - app_lastMonitorSendTime a < monitorClipboardCaptureDedupWindow
      then (a, True)
      else (a\<lparr>app_lastMonitorSendHash := hash, app_lastMonitorSendTime := env_now env\<rparr>, False))"

definition handleLocalClipboardCapture ::
  "(bytes \<Rightarrow> pixel_image option) \<Rightarrow> (string \<Rightarrow> string \<Rightarrow> bool) \<Rightarrow> ClipSys \<Rightarrow> Env \<Rightarrow> CaptureData option \<Rightarrow> App \<Rightarrow>
     App \<times> goerror option" where
  "handleLocalClipboardCapture pixels fold_eq sys env capture a =
     (case capture of
        None \<Rightarrow> (a, None)
      | Some c \<Rightarrow>
          (case shouldSuppressDuplicateMonitorCapture pixels env c a of
             (a1, True) \<Rightarrow> (a1, None)
           | (a1, False) \<Rightarrow> sendCapture fold_eq sys env (Some c) a1))"


section \<open>What a replay put on the clipboard is not sent\<close>

text \<open>The paths of real files: absolute, without white space at their ends and without line breaks.\<close>

definition plain_path :: "string \<Rightarrow> bool" where
  "plain_path p \<longleftrightarrow> IsAbs p \<and> trimmed p \<and> newline \<notin> set p"

lemma plain_path_slash: "plain_path p \<Longrightarrow> \<exists>r. p = slash # r"
  by (auto simp: plain_path_def IsAbs_def hasPrefix_def prefix_def)

lemma joinChar_plain: "ps \<noteq> [] \<Longrightarrow> list_all plain_path ps \<Longrightarrow> \<exists>r. joinChar [newline] ps = slash # r"
  using plain_path_slash by (cases ps; cases "tl ps") fastforce+

lemma slash_not_space: "\<forall>e\<in>set spaceEncodings. slash \<notin> set e"
  by (simp add: spaceEncodings_def)

lemma trailingSpace_join:
  "ps \<noteq> [] \<Longrightarrow> list_all plain_path ps \<Longrightarrow> trailingSpace (joinChar [newline] ps) = None"
proof (induction "[newline]" ps rule: joinChar.induct)
  case (3 x y zs)
  obtain r where r: "joinChar [newline] (y # zs) = slash # r" using joinChar_plain [of "y # zs"] 3 by auto
  have "trailingSpace (slash # r) = None" using 3 r by simp
  then have "trailingSpace r = None" by (rule trailingSpace_suffix [rotated]) (simp add: suffix_def)
  then have "trailingSpace ((x @ [newline]) @ slash # r) = None" by (rule trailingSpace_append [OF slash_not_space])
  then show ?case using r by simp
qed (auto simp: plain_path_def trimmed_def)

lemma trimmed_join: "ps \<noteq> [] \<Longrightarrow> list_all plain_path ps \<Longrightarrow> trimmed (joinChar [newline] ps)"
proof -
  assume ps: "ps \<noteq> []" "list_all plain_path ps"
  then obtain r where "joinChar [newline] ps = slash # r" using joinChar_plain by blast
  moreover have "leadingSpace (slash # r) = None" by (rule leadingSpace_Cons) (simp_all add: spaceEncodings_def)
  ultimately show ?thesis using trailingSpace_join [OF ps] by (simp add: trimmed_def)
qed

lemma split_join_lines:
  "ps \<noteq> [] \<Longrightarrow> \<forall>p\<in>set ps. newline \<notin> set p \<Longrightarrow> splitChar newline (joinChar [newline] ps) = ps"
proof (induction "[newline]" ps rule: joinChar.induct)
  case (3 x y zs)
  then show ?case using splitChar_append [of newline x "joinChar [newline] (y # zs)"] by simp
qed (auto simp: splitChar_no_sep)

lemma replayPayloadLines_join:
  assumes "ps \<noteq> []" "list_all plain_path ps"
  shows "replayPayloadLines (joinChar [newline] ps) = ps"
proof -
  have each: "trimSpace p = p \<and> p \<noteq> '''' \<and> newline \<notin> set p" if "p \<in> set ps" for p
    using assms(2) that plain_path_slash [of p] by (auto simp: list_all_iff plain_path_def trimSpace_id)
  have "splitChar newline (joinChar [newline] ps) = ps" by (rule split_join_lines) (use assms(1) each in auto)
  moreover have "map trimSpace ps = ps" by (rule map_idI) (use each in blast)
  moreover have "filter (\<lambda>l. l \<noteq> '''') ps = ps" by (rule filter_True) (use each in blast)
  ultimately show ?thesis
    unfolding replayPayloadLines_def trimSpace_id [OF trimmed_join [OF assms]] by (simp only:)
qed

lemma replaceChar_nonempty: "s \<noteq> '''' \<Longrightarrow> by \<noteq> '''' \<Longrightarrow> replaceChar c by s \<noteq> ''''"
  by (cases s) (auto simp: replaceChar_def)

lemma Clean_nonempty: "IsAbs p \<Longrightarrow> Clean p \<noteq> ''''"
  using Clean_facts(1) [of p] by (metis IsAbs_Cons(2))

lemma sameClipboardPath_refl: "plain_path p \<Longrightarrow> \<forall>s. fold_eq s s \<Longrightarrow> sameClipboardPath fold_eq p p"
  using replaceChar_nonempty [OF Clean_nonempty [of p], of "''/''"] plain_path_slash [of p]
  by (auto simp: sameClipboardPath_def normalizeReplayPath_def plain_path_def trimSpace_id Let_def)

lemma paths_match_self:
  assumes "ps \<noteq> []" "list_all plain_path ps" "\<forall>s. fold_eq s s"
  shows "replayPayloadPathsMatch fold_eq (joinChar [newline] ps) ps"
  unfolding replayPayloadPathsMatch_def replayPayloadLines_join [OF assms(1,2)]
  using assms(2,3) by (auto simp: list_all2_same list_all_iff intro: sameClipboardPath_refl)

text \<open>The files staging puts on the clipboard for an item: of an image the first file only.\<close>

definition stagedPaths :: "HistoryItem \<Rightarrow> string list" where
  "stagedPaths it = (if item_Type it = TypeImage then take 1 (item_LocalPaths it) else item_LocalPaths it)"

lemma stage_remembers:
  assumes "stageHistoryItemRealClipboard env it a = (a1, None)"
  shows "stagedPaths it \<noteq> [] \<and> app_replayWriteType a1 = TypeFileStub \<and>
    app_replayWritePayload a1 = joinChar [newline] (stagedPaths it) \<and> app_replayWriteTime a1 = env_now env \<and>
    app_clipWrites a1 = app_clipWrites a @ [StageFiles (stagedPaths it)]"
  using assms
  by (auto simp: stageHistoryItemRealClipboard_def clipboardWrite_def rememberReplayClipboardWrite_def stagedPaths_def Let_def
      split: if_splits option.splits)

text \<open>The files a replay puts on the clipboard do not go out again: when the monitor reports them within
  five seconds, nothing is sent and nothing is added to the history or the transfers; the client only forgets
  that it was waiting for them. (\<open>fold_eq\<close> need only be reflexive.)\<close>
theorem replayed_files_not_sent:
  assumes "stageHistoryItemRealClipboard env it a = (a1, None)" "list_all plain_path (stagedPaths it)"
    and "\<forall>s. fold_eq s s" "env_now env \<noteq> 0" "env_now e \<le> env_now env + 5000000000"
  shows "sendCapture fold_eq sys e (Some (fileCapture pl (stagedPaths it))) a1 = (forgetReplayWrite a1, None)"
proof -
  note st = stage_remembers [OF assms(1)]
  have "replayCaptureMatches fold_eq TypeFileStub (joinChar [newline] (stagedPaths it)) (fileCapture pl (stagedPaths it))"
    using paths_match_self [of "stagedPaths it" fold_eq] assms(2,3) st
    by (simp add: replayCaptureMatches_def fileCapture_def payload_type_defs)
  then show ?thesis
    using st assms(4,5)
    by (simp add: sendCapture_def shouldSuppressReplayClipboardCapture_def replayClipboardCaptureSuppressWindow_def)
qed

definition sampleReplayItem :: HistoryItem where
  "sampleReplayItem = zeroItem\<lparr>item_ID := ''i'', item_Type := TypeFileStub, item_State := StateReadyToPaste,
     item_LocalPaths := [''/t/ClipCascade/a.txt'']\<rparr>"

lemma sample_plain_path: "plain_path ''/t/ClipCascade/a.txt''"
  by code_simp

theorem replayed_files_not_sent_witness:
  "app_outbox (fst (sendCapture (=) sampleSys sampleEnv (Some (fileCapture samplePlatform [''/t/ClipCascade/a.txt'']))
     (fst (stageHistoryItemRealClipboard sampleEnv sampleReplayItem (sampleApp ''d''))))) = []"
proof -
  have paths: "stagedPaths sampleReplayItem = [''/t/ClipCascade/a.txt'']"
    by (simp add: stagedPaths_def sampleReplayItem_def zeroItem_def payload_type_defs)
  obtain a1 r where st: "stageHistoryItemRealClipboard sampleEnv sampleReplayItem (sampleApp ''d'') = (a1, r)" by fastforce
  have r: "r = None" and out: "app_outbox a1 = []"
    using st by (auto simp: stageHistoryItemRealClipboard_def clipboardWrite_def rememberReplayClipboardWrite_def
        sampleReplayItem_def zeroItem_def payload_type_defs isClipboardWriteAllowed_def sampleApp_def)
  have "sendCapture (=) sampleSys sampleEnv (Some (fileCapture samplePlatform (stagedPaths sampleReplayItem))) a1 = (forgetReplayWrite a1, None)"
    by (rule replayed_files_not_sent [OF st [unfolded r]])
      (simp_all add: paths sample_plain_path samplePaths_def)
  then show ?thesis using out by (simp add: st paths forgetReplayWrite_def)
qed

end
