(* ===== verification/CopyPaste.thy ===== *)
theory CopyPaste
  imports SendCurrent ReceiveGuard
begin

text \<open>
  Copy on one device, paste on another: what the monitor reports of text or an image the user copied goes out
  (\<open>handleLocalClipboardCapture\<close>), and a device that receives it (\<open>onReceive\<close>) puts exactly it on its
  clipboard. The lemmas say what sending a message on all links leaves behind, and what receiving one does.
\<close>

section \<open>Sending on all links\<close>

definition went_out :: "App \<Rightarrow> App \<Rightarrow> string \<Rightarrow> bool" where
  "went_out a a' body \<longleftrightarrow>
     (\<exists>ds. app_outbox a' = app_outbox a @ ds \<and> ds \<noteq> [] \<and> (\<forall>d\<in>set ds. deliveryBody d = body))"

text \<open>When the relay is connected and takes the message, the relay has it.\<close>

definition relay_sent :: "Env \<Rightarrow> App \<Rightarrow> App \<Rightarrow> string \<Rightarrow> bool" where
  "relay_sent env a a' body \<longleftrightarrow>
     (let l = env_link env (app_sendNo a) in
      app_hasStomp a \<and> link_stompConnected l \<and> link_stompErr l = None \<longrightarrow>
        ToRelay body \<in> set (drop (length (app_outbox a)) (app_outbox a')))"

lemma send_all_ok:
  assumes "\<not> isSingleRouteClipboardType (cd_Type cd)" "sendClipboardDataWithResult env cd a = (a', r, None)"
  shows "\<exists>body. messageBody env a cd = Inr body \<and> went_out a a' body \<and> relay_sent env a a' body"
proof -
  obtain body where body: "messageBody env a cd = Inr body"
    using assms(2) by (auto simp: sendClipboardDataWithResult_def Let_def split: sum.splits)
  let ?l = "env_link env (app_sendNo a)"
  have "went_out a a' body \<and> relay_sent env a a' body"
  proof (cases "app_hasStomp a \<and> link_stompConnected ?l")
    case True
    then show ?thesis using assms body
      by (cases "link_stompErr ?l")
        (auto simp: sendClipboardDataWithResult_def went_out_def relay_sent_def dispatchClipboardBodyDetailed_def Let_def
          split: if_splits)
  next
    case False
    then show ?thesis using assms body
      by (auto simp: sendClipboardDataWithResult_def went_out_def relay_sent_def dispatchClipboardBodyDetailed_def Let_def
          split: if_splits)
  qed
  then show ?thesis using body by blast
qed

lemma record_outbox:
  "app_outbox (recordOutgoingClipboardHistory env cd a) = app_outbox a"
  by (auto simp: recordOutgoingClipboardHistory_def recordOutgoingTextHistory_def recordOutgoingImageHistory_def
      recordOutgoingFileStubHistory_def setSharedClipboardHistoryItem_def setLastFileStubHistoryItem_def
      historyAddItem_def Let_def split: option.splits)

text \<open>Text or an image as the monitor reports it.\<close>

definition plain_capture :: "CaptureData \<Rightarrow> bool" where
  "plain_capture c \<longleftrightarrow> (\<exists>s. c = textCapture s) \<or> (\<exists>i. c = imageCapture i)"

lemma plain_captureD:
  assumes "plain_capture c"
  shows "cap_Type c = TypeText \<or> cap_Type c = TypeImage" "cap_FileName c = ''''" "cap_Type c \<noteq> TypeFileStub"
    "\<not> isSingleRouteClipboardType (cap_Type c)" "utf8ok (cap_Type c)"
proof -
  show ty: "cap_Type c = TypeText \<or> cap_Type c = TypeImage" "cap_FileName c = ''''"
    using assms by (auto simp: plain_capture_def textCapture_def imageCapture_def)
  then show "cap_Type c \<noteq> TypeFileStub" "\<not> isSingleRouteClipboardType (cap_Type c)" "utf8ok (cap_Type c)"
    by (auto simp: payload_type_defs isSingleRouteClipboardType_def asciiStr_def intro!: ascii_toValidUTF8)
qed

text \<open>The message a capture becomes, with the session of the sender.\<close>

definition captureMessage :: "App \<Rightarrow> CaptureData \<Rightarrow> ClipboardData" where
  "captureMessage a c = zeroClipboard\<lparr>cd_Payload := cap_Payload c, cd_Type := cap_Type c,
     cd_SourceSessionID := appSessionID a\<rparr>"

lemma replay_check_frame:
  assumes "shouldSuppressReplayClipboardCapture fold_eq now capture a = (a1, b)"
  shows "appSessionID a1 = appSessionID a" "e2eeKey a1 = e2eeKey a" "app_outbox a1 = app_outbox a"
    "app_hasStomp a1 = app_hasStomp a" "app_sendNo a1 = app_sendNo a"
  using assms
  by (auto simp: shouldSuppressReplayClipboardCapture_def forgetReplayWrite_def appSessionID_def e2eeKey_def
      split: option.splits if_splits)

lemma sendCapture_plain:
  assumes "plain_capture c" "\<not> snd (shouldSuppressReplayClipboardCapture fold_eq (env_now env) (Some c) a)"
    and "sendCapture fold_eq sys env (Some c) a = (a', None)"
  shows "\<exists>body a0. messageBody env a0 (captureMessage a c) = Inr body \<and> e2eeKey a0 = e2eeKey a \<and> went_out a a' body \<and>
    relay_sent env a a' body"
proof -
  obtain a1 where a1: "shouldSuppressReplayClipboardCapture fold_eq (env_now env) (Some c) a = (a1, False)"
    using assms(2) by (metis prod.collapse)
  note frame = replay_check_frame [OF a1]
  have cd: "annotateClipboardSource a1 (zeroClipboard\<lparr>cd_Payload := cap_Payload c, cd_Type := cap_Type c,
      cd_FileName := cap_FileName c\<rparr>) = captureMessage a c"
    using plain_captureD(2) [OF assms(1)] by (simp add: annotateClipboardSource_def captureMessage_def frame(1) zeroClipboard_def)
  obtain a3 r err where s: "sendClipboardDataWithResult env (captureMessage a c) a1 = (a3, r, err)"
    by (metis prod.exhaust)
  have "err = None" "a' = recordOutgoingClipboardHistory env (captureMessage a c) a3"
    using assms(3) plain_captureD(3) [OF assms(1)] s cd a1
    by (auto simp: sendCapture_def buildClipboardDataFromCapture_def split: option.splits)
  moreover have "\<not> isSingleRouteClipboardType (cd_Type (captureMessage a c))"
    using plain_captureD(4) [OF assms(1)] by (simp add: captureMessage_def)
  ultimately show ?thesis
    using send_all_ok [of "captureMessage a c" env a1 a3 r] s frame
    by (auto simp: went_out_def relay_sent_def record_outbox Let_def)
qed

section \<open>Receiving text or an image\<close>

lemma no_echo: "\<forall>it\<in>set (ListItems (app_history b)). item_Payload it \<noteq> item_Payload item \<Longrightarrow>
    item_Type item \<noteq> TypeFileStub \<Longrightarrow> reuseLocalEchoHistoryItem item b = (b, False)"
  by (auto simp: reuseLocalEchoHistoryItem_def echoOf_def split: option.split dest!: find_SomeD)

lemma admit_plain:
  assumes "cd_Type cd = TypeText \<or> cd_Type cd = TypeImage"
    and "\<forall>it\<in>set (ListItems (app_history b)). item_Payload it \<noteq> cd_Payload cd"
  shows "snd (admitReceivedClipboardData env cd b) = receiveActionAdmitHistory"
proof -
  obtain item where item: "classifyReceivedClipboardData cd (env_now env) = (receiveActionAdmitHistory, Some item)"
    "item_Payload item = cd_Payload cd" "item_Type item = cd_Type cd"
    using assms(1) by (auto simp: classifyReceivedClipboardData_def zeroItem_def Let_def)
  then have "reuseLocalEchoHistoryItem item b = (b, False)"
    using assms by (intro no_echo) (auto simp: payload_type_defs)
  then show ?thesis using item by (simp add: admitReceivedClipboardData_def Let_def)
qed

lemma receive_plain:
  assumes "openMessage e b body = Some cd" "foreign_content b cd" "\<not> repeats e b cd"
    and "\<forall>it\<in>set (ListItems (app_history b)). item_Payload it \<noteq> cd_Payload cd"
    and "env_clipErr e (PastePayload (cd_Payload cd) (cd_Type cd) (cd_FileName cd)) = None"
  shows "app_clipWrites (onReceive e body b) =
    app_clipWrites b @ [PastePayload (cd_Payload cd) (cd_Type cd) (cd_FileName cd)]"
proof -
  let ?b0 = "b\<lparr>app_lastRecvHash := recvHash e cd, app_lastRecvTime := env_now e\<rparr>"
  have ty: "cd_Type cd = TypeText \<or> cd_Type cd = TypeImage" using assms(2) by (simp add: foreign_content_def)
  have msg: "handleFileTransferMessage e cd ?b0 = (?b0, False, None)"
    using ty by (auto simp: handleFileTransferMessage_def payload_type_defs)
  obtain a2 where adm: "admitReceivedClipboardData e cd ?b0 = (a2, receiveActionAdmitHistory)"
    using admit_plain [OF ty, of ?b0 e] assms(4) by (cases "admitReceivedClipboardData e cd ?b0") auto
  have v: "clip_view a2 = clip_view ?b0" by (rule admit_clip [OF adm])
  have "appSessionID ?b0 = appSessionID b" by (simp add: appSessionID_def)
  then have "foreign_content ?b0 cd" using assms(2) by (simp add: foreign_content_def)
  then have "isClipboardWriteAllowed a2 IncomingAuto cd" "app_clipWrites a2 = app_clipWrites b" "app_hasClip a2"
    using guard_view [OF v, of IncomingAuto cd] v
    by (auto simp: guard_foreign clip_view_def foreign_content_def)
  then have "app_clipWrites (dispatchReceived e cd ?b0) =
      app_clipWrites b @ [PastePayload (cd_Payload cd) (cd_Type cd) (cd_FileName cd)]"
    using msg adm assms(5)
    by (simp add: dispatchReceived_def shouldWriteReceivedClipboardToSystem_def appPasteClipboardPayload_def clipboardWrite_def)
  then show ?thesis using assms(1,3) by (simp add: onReceive_def repeats_def)
qed

text \<open>What a device that is ready for the content of a capture looks like.\<close>

definition awaits_copy :: "Env \<Rightarrow> App \<Rightarrow> CaptureData \<Rightarrow> Env \<Rightarrow> App \<Rightarrow> bool" where
  "awaits_copy env a c e b \<longleftrightarrow>
     e2eeKey b = e2eeKey a \<and> env_gcm e = env_gcm env \<and> app_hasClip b \<and>
     env_clipErr e (PastePayload (cap_Payload c) (cap_Type c) '''') = None \<and>
     trimSpace (appSessionID a) \<noteq> appSessionID b \<and>
     \<not> (app_lastRecvHash b = sha256hex e (cap_Type c @ cap_Payload c) \<and> env_now e - app_lastRecvTime b < 500000000) \<and>
     (\<forall>it\<in>set (ListItems (app_history b)). item_Payload it \<noteq> cap_Payload c)"

lemma copied_content_message:
  assumes "handleLocalClipboardCapture pixels fold_eq sys env (Some c) a = (a', None)" "plain_capture c"
    and "\<not> snd (shouldSuppressDuplicateMonitorCapture pixels env c a)"
      "\<not> snd (shouldSuppressReplayClipboardCapture fold_eq (env_now env) (Some c) a)"
    and "utf8ok (cap_Payload c)" "utf8ok (appSessionID a)" "crypto_ok env a"
  shows "\<exists>body a0. messageBody env a0 (captureMessage a c) = Inr body \<and> e2eeKey a0 = e2eeKey a \<and>
    went_out a a' body \<and> relay_sent env a a' body \<and>
    (\<forall>b. e2eeKey b = e2eeKey a \<longrightarrow> openMessage env b body = Some (captureMessage a c)) \<and>
    (\<forall>e b. awaits_copy env a c e b \<longrightarrow>
       app_clipWrites (onReceive e body b) = app_clipWrites b @ [PastePayload (cap_Payload c) (cap_Type c) ''''])"
proof -
  let ?cd = "captureMessage a c"
  let ?a1 = "a\<lparr>app_lastMonitorSendHash := monitorCaptureDedupHash pixels env c, app_lastMonitorSendTime := env_now env\<rparr>"
  have sid: "appSessionID ?a1 = appSessionID a" by (simp add: appSessionID_def)
  have send: "sendCapture fold_eq sys env (Some c) ?a1 = (a', None)"
    using assms(1,3) by (simp add: handleLocalClipboardCapture_def shouldSuppressDuplicateMonitorCapture_def Let_def split: if_splits)
  have "\<not> snd (shouldSuppressReplayClipboardCapture fold_eq (env_now env) (Some c) ?a1)"
    using assms(4) by (simp add: shouldSuppressReplayClipboardCapture_def split: if_splits)
  then obtain body a0 where body: "messageBody env a0 ?cd = Inr body" and key1: "e2eeKey a0 = e2eeKey ?a1"
    and out: "went_out ?a1 a' body" "relay_sent env ?a1 a' body"
    using sendCapture_plain [OF assms(2) _ send] by (auto simp: captureMessage_def sid)
  have key: "e2eeKey a0 = e2eeKey a" using key1 by (simp add: e2eeKey_def)
  have "sanitizeClipboard ?cd = ?cd"
    using plain_captureD(5) [OF assms(2)] assms(5,6) by (simp add: sanitizeClipboard_def captureMessage_def zeroClipboard_def)
  then have opens: "openMessage env b body = Some ?cd" if "e2eeKey b = e2eeKey a" for b
    using openMessage_body [OF body, of b] assms(7) that key crypto_ok_key [OF key, of env]
    by (simp add: clipboard_ints_ok_def captureMessage_def zeroClipboard_def)
  have "app_clipWrites (onReceive e body b) = app_clipWrites b @ [PastePayload (cap_Payload c) (cap_Type c) '''']"
    if b: "awaits_copy env a c e b" for e b
  proof -
    have "env_gcm e = env_gcm env" using b by (simp add: awaits_copy_def)
    then have "openMessage e b body = openMessage env b body" by (simp only: openMessage_def)
    then have opened: "openMessage e b body = Some ?cd" using opens b by (simp add: awaits_copy_def)
    have fields: "cd_Payload ?cd = cap_Payload c" "cd_Type ?cd = cap_Type c" "cd_FileName ?cd = ''''"
      "clipboardSourceSessionID ?cd = trimSpace (appSessionID a)"
      by (auto simp: captureMessage_def zeroClipboard_def clipboardSourceSessionID_def Let_def)
    have "foreign_content b ?cd"
      using b plain_captureD(1) [OF assms(2)] by (simp add: foreign_content_def fields awaits_copy_def)
    then show ?thesis using receive_plain [OF opened] b by (simp add: fields recvHash_def awaits_copy_def repeats_def)
  qed
  moreover have "went_out a a' body" "relay_sent env a a' body" using out by (simp_all add: went_out_def relay_sent_def)
  ultimately show ?thesis using body key opens by (intro exI [of _ body] exI [of _ a0]) simp
qed

text \<open>Text or an image copied on one device appears on the clipboard of another. When the report of the
  monitor is not a repeat and is sent without error, something goes out, and a device of the same user (same
  key or no encryption) with another session that receives any of it writes exactly the copied content to its
  clipboard, once, provided it is not a repeat there either and its history does not hold the content already.\<close>
theorem copied_content_reaches_clipboard:
  assumes "handleLocalClipboardCapture pixels fold_eq sys env (Some c) a = (a', None)" "plain_capture c"
    and "app_lastMonitorSendHash a \<noteq> monitorCaptureDedupHash pixels env c" "app_replayWriteTime a = 0"
    and "utf8ok (cap_Payload c)" "utf8ok (appSessionID a)" "crypto_ok env a"
    and "e2eeKey b = e2eeKey a" "env_gcm e = env_gcm env" "app_hasClip b" "\<forall>w. env_clipErr e w = None"
    and "trimSpace (appSessionID a) \<noteq> appSessionID b"
    and "app_lastRecvHash b \<noteq> sha256hex e (cap_Type c @ cap_Payload c)"
    and "\<forall>it\<in>set (ListItems (app_history b)). item_Payload it \<noteq> cap_Payload c"
  shows "\<exists>ds. ds \<noteq> [] \<and> app_outbox a' = app_outbox a @ ds \<and>
    (\<forall>d\<in>set ds. app_clipWrites (onReceive e (deliveryBody d) b) =
       app_clipWrites b @ [PastePayload (cap_Payload c) (cap_Type c) ''''])"
proof -
  obtain a0 body where "messageBody env a0 (captureMessage a c) = Inr body" "e2eeKey a0 = e2eeKey a"
    "went_out a a' body" "relay_sent env a a' body" and recv: "\<forall>e b. awaits_copy env a c e b \<longrightarrow>
      app_clipWrites (onReceive e body b) = app_clipWrites b @ [PastePayload (cap_Payload c) (cap_Type c) '''']"
  proof -
    have "\<not> snd (shouldSuppressDuplicateMonitorCapture pixels env c a)"
      "\<not> snd (shouldSuppressReplayClipboardCapture fold_eq (env_now env) (Some c) a)"
      using assms(3,4) by (simp_all add: shouldSuppressDuplicateMonitorCapture_def shouldSuppressReplayClipboardCapture_def Let_def)
    from copied_content_message [OF assms(1,2) this assms(5-7)] that show ?thesis by blast
  qed
  moreover have "awaits_copy env a c e b" using assms(8-14) by (simp add: awaits_copy_def)
  then have "app_clipWrites (onReceive e body b) = app_clipWrites b @ [PastePayload (cap_Payload c) (cap_Type c) '''']"
    using recv by simp
  ultimately show ?thesis by (auto simp: went_out_def)
qed

theorem copied_content_reaches_clipboard_witness:
  "\<exists>a' d. fst (handleLocalClipboardCapture (\<lambda>_. None) (=) sampleSys sampleEnv (Some (textCapture ''hello'')) (sampleApp ''s'')) = a' \<and>
     d \<in> set (app_outbox a') \<and>
     app_clipWrites (onReceive sampleEnv (deliveryBody d) (sampleApp ''r'')) = [PastePayload ''hello'' TypeText '''']"
proof -
  obtain a' r where h: "handleLocalClipboardCapture (\<lambda>_. None) (=) sampleSys sampleEnv (Some (textCapture ''hello''))
      (sampleApp ''s'') = (a', r)" by fastforce
  have hello: "textCapture ''hello'' = \<lparr>cap_Payload = ''hello'', cap_Type = TypeText, cap_FileName = '''', cap_Paths = []\<rparr>"
    by (simp add: textCapture_def)
  have "r = None"
    using h
    by (auto simp: handleLocalClipboardCapture_def shouldSuppressDuplicateMonitorCapture_def Let_def sendCapture_def
        shouldSuppressReplayClipboardCapture_def forgetReplayWrite_def buildClipboardDataFromCapture_def hello
        sendClipboardDataWithResult_def messageBody_def sampleApp_def sampleConfig_def e2eeKey_def
        dispatchClipboardBodyDetailed_def annotateClipboardSource_def payload_type_defs isSingleRouteClipboardType_def
        monitorCaptureDedupHash_def sha256hex_def hexBytes_def hexByte_def
        split: prod.splits sum.splits if_splits option.splits)
  have spaces: "trimSpace ''s'' = ''s''" by code_simp
  have plain: "plain_capture (textCapture ''hello'')" by (auto simp: plain_capture_def)
  have "\<exists>ds. ds \<noteq> [] \<and> app_outbox a' = app_outbox (sampleApp ''s'') @ ds \<and>
    (\<forall>d\<in>set ds. app_clipWrites (onReceive sampleEnv (deliveryBody d) (sampleApp ''r'')) =
       app_clipWrites (sampleApp ''r'') @ [PastePayload (cap_Payload (textCapture ''hello'')) (cap_Type (textCapture ''hello'')) ''''])"
    by (rule copied_content_reaches_clipboard [OF h [unfolded \<open>r = None\<close>] plain])
      (auto simp: hello spaces ascii_toValidUTF8 asciiStr_def crypto_ok_def sha256hex_def hexBytes_def
        hexByte_def monitorCaptureDedupHash_def payload_type_defs sampleApp_def e2eeKey_def sampleConfig_def
        appSessionID_def ListItems_def NewManager_def)
  then show ?thesis using h by (auto simp: hello sampleApp_def) (metis list.set_intros(1) neq_Nil_conv)
qed

end
