(* ===== verification/Replay.thy ===== *)
theory Replay
  imports SendCurrent ReceiveGuard TransferPlace
begin

text \<open>
  Pasting what the shared clipboard or the history holds: \<open>replay_history.go\<close>, the writing of an image to a
  file when it is first needed (\<open>receive_image.go\<close>), and the rest of \<open>replay_targets.go\<close>. An error is the
  sentinel it wraps. Jobs that write the same image run one after the other, so the waiting of one for the
  other is not modelled; the pause after a write on Wayland and the tray are left out.
\<close>

section \<open>Reserved paths\<close>

definition ensureReservedReplayPaths :: "Env \<Rightarrow> HistoryItem option \<Rightarrow> App \<Rightarrow> App \<times> HistoryItem result" where
  "ensureReservedReplayPaths env item a =
     (case item of
        None \<Rightarrow> (a, Inl ErrNoActiveHistoryItem)
      | Some it \<Rightarrow>
          if item_ReservedPaths it \<noteq> [] then (a, Inr it)
          else (case reservedPathsForHistoryItem (env_paths env) (Some it) of
                  Inl err \<Rightarrow> (a, Inl err)
                | Inr paths \<Rightarrow>
                    historyMutate env (item_ID it)
                      (\<lambda>next. Inr (if item_ReservedPaths next = []
                                   then next\<lparr>item_ReservedPaths := paths\<rparr> else next)) a))"

definition storePendingReplayMode ::
  "Env \<Rightarrow> HistoryItem \<Rightarrow> string \<Rightarrow> App \<Rightarrow> App \<times> HistoryItem result" where
  "storePendingReplayMode env it mode a =
     historyMutate env (item_ID it)
       (\<lambda>next. let next1 = next\<lparr>item_PendingReplayMode := mode\<rparr> in
          Inr (if item_ReservedPaths next1 = [] \<and> item_ReservedPaths it \<noteq> []
               then next1\<lparr>item_ReservedPaths := item_ReservedPaths it\<rparr> else next1)) a"

text \<open>
  \<open>reserveUniquePath\<close>: the first of a name and its numbered variants that does not exist; the fuel bounds the
  number of variants tried (\<open>None\<close>: not found within it).
\<close>

fun uniqueFrom :: "Faults \<Rightarrow> FS \<Rightarrow> string \<Rightarrow> string \<Rightarrow> string \<Rightarrow> nat \<Rightarrow> nat \<Rightarrow> string result option" where
  "uniqueFrom flt fs base ext candidate idx 0 = None"
| "uniqueFrom flt fs base ext candidate idx (Suc fuel) =
     (case os_Stat flt fs candidate of
        StatNotExist \<Rightarrow> Some (Inr candidate)
      | StatError err \<Rightarrow> Some (Inl err)
      | _ \<Rightarrow> uniqueFrom flt fs base ext (base @ ''_'' @ showNat idx @ ext) (Suc idx) fuel)"

definition reserveUniquePath :: "Faults \<Rightarrow> FS \<Rightarrow> nat \<Rightarrow> string \<Rightarrow> string result option" where
  "reserveUniquePath flt fs fuel path =
     (let ext = Ext path; base = take (length path - length ext) path
      in uniqueFrom flt fs base ext path 1 fuel)"

text \<open>Every name that was tried in vain is taken, and the numbered names differ, so the search ends.\<close>

lemma uniqueFrom_taken:
  "uniqueFrom flt fs base ext candidate idx fuel = None \<Longrightarrow>
     (\<forall>j. Suc j < fuel \<longrightarrow> fs (base @ ''_'' @ showNat (idx + j) @ ext) \<noteq> None) \<and> (0 < fuel \<longrightarrow> fs candidate \<noteq> None)"
proof (induction flt fs base ext candidate idx fuel rule: uniqueFrom.induct)
  case (2 flt fs base ext candidate idx fuel)
  have taken: "fs candidate \<noteq> None"
    and rest: "uniqueFrom flt fs base ext (base @ ''_'' @ showNat idx @ ext) (Suc idx) fuel = None"
    using "2.prems" by (auto simp: os_Stat_def split: option.splits node.splits)
  have "fs (base @ ''_'' @ showNat (idx + j) @ ext) \<noteq> None" if "Suc j < Suc fuel" for j
    using "2.IH" rest that "2.prems" by (cases j) (auto simp: os_Stat_def split: option.splits node.splits)
  with taken show ?case by blast
qed simp

lemma uniqueFrom_free: "uniqueFrom flt fs base ext candidate idx fuel = Some (Inr p) \<Longrightarrow> fs p = None"
  by (induction flt fs base ext candidate idx fuel rule: uniqueFrom.induct)
    (auto simp: os_Stat_def split: option.splits node.splits)

lemma free_name_found:
  assumes "finite (dom fs)" "card (dom fs) + 1 < fuel"
  shows "\<exists>r. reserveUniquePath flt fs fuel path = Some r \<and> (\<forall>p. r = Inr p \<longrightarrow> fs p = None)"
proof -
  let ?base = "take (length path - length (Ext path)) path" and ?ext = "Ext path"
  let ?name = "\<lambda>j. ?base @ ''_'' @ showNat (1 + j) @ ?ext"
  have "uniqueFrom flt fs ?base ?ext path 1 fuel \<noteq> None"
  proof
    assume "uniqueFrom flt fs ?base ?ext path 1 fuel = None"
    from uniqueFrom_taken [OF this] have "\<forall>j. Suc j < fuel \<longrightarrow> fs (?name j) \<noteq> None" by blast
    then have "?name ` {..<fuel - 1} \<subseteq> dom fs" by (simp add: image_subset_iff domIff less_diff_conv)
    moreover have "inj_on ?name {..<fuel - 1}"
    proof (rule inj_onI)
      fix j k
      assume "?name j = ?name k"
      then have "showNat (1 + j) = showNat (1 + k)" by simp
      then have "readNat (showNat (1 + j)) = readNat (showNat (1 + k))" by (rule arg_cong)
      then show "j = k" by simp
    qed
    ultimately have "card {..<fuel - 1} \<le> card (dom fs)" using assms(1) by (intro card_inj_on_le)
    then show False using assms(2) by simp
  qed
  then show ?thesis unfolding reserveUniquePath_def Let_def using uniqueFrom_free by fastforce
qed

section \<open>Images as files (receive_image.go)\<close>

definition fileMatchesBytes :: "Env \<Rightarrow> FS \<Rightarrow> string \<Rightarrow> bytes \<Rightarrow> bool result" where
  "fileMatchesBytes env fs path data =
     fileMatchesArchive env fs path (sha256hex env data) (int (length data))"

definition imageMaterializedOnDisk :: "Env \<Rightarrow> App \<Rightarrow> HistoryItem \<Rightarrow> bool" where
  "imageMaterializedOnDisk env a it =
     (case item_LocalPaths it of
        [] \<Rightarrow> False
      | p # _ \<Rightarrow>
          (case normalizeReplayTargetPath (env_paths env) p of
             Inl _ \<Rightarrow> False
           | Inr targetPath \<Rightarrow>
               (case os_Stat (env_faults env) (app_fs a) targetPath of
                  StatFile \<Rightarrow> True | StatDir \<Rightarrow> True | _ \<Rightarrow> False)))"

definition imageItemFileName :: "HistoryItem option \<Rightarrow> string" where
  "imageItemFileName item = (case item of None \<Rightarrow> '''' | Some it \<Rightarrow> trimSpace (item_FileName it))"

text \<open>The item with its target path: reserved, local, or planned now.\<close>

definition imageTarget :: "Env \<Rightarrow> HistoryItem \<Rightarrow> App \<Rightarrow> App \<times> (HistoryItem \<times> string) result" where
  "imageTarget env it a =
     (let norm = (\<lambda>i p. (case normalizeReplayTargetPath (env_paths env) p of
                             Inl err \<Rightarrow> Inl err | Inr q \<Rightarrow> Inr (i, q))) in
      case (item_ReservedPaths it, item_LocalPaths it) of
        (p # _, _) \<Rightarrow> (a, norm it p)
      | ([], p # _) \<Rightarrow> (a, norm it p)
      | ([], []) \<Rightarrow>
          (case ensureReplayTargetPaths env (Some it) a of
             (a1, Inl err) \<Rightarrow> (a1, Inl err)
           | (a1, Inr it') \<Rightarrow>
               (case item_ReservedPaths it' of
                  [] \<Rightarrow> (a1, Inl ''no planned image path'') | p # _ \<Rightarrow> (a1, norm it' p))))"

definition setImagePath :: "Env \<Rightarrow> HistoryItem \<Rightarrow> string \<Rightarrow> App \<Rightarrow> App \<times> HistoryItem result" where
  "setImagePath env it destPath a =
     historyMutate env (item_ID it)
       (\<lambda>next. Inr (next\<lparr>item_LocalPaths := [destPath], item_ReservedPaths := [destPath],
                          item_UpdatedAt := env_now env\<rparr>)) a"

definition materializeImageNow :: "Env \<Rightarrow> HistoryItem \<Rightarrow> App \<Rightarrow> App \<times> HistoryItem result" where
  "materializeImageNow env it a =
     (if item_Type it \<noteq> TypeImage then (a, Inl ''not an image item'')
      else if item_Payload it = '''' then
        (if imageMaterializedOnDisk env a it then (a, Inr it) else (a, Inl ''empty image payload''))
      else
        (case DecodeString (item_Payload it) of
           None \<Rightarrow> (a, Inl ''decode image base64'')
         | Some data \<Rightarrow>
             (case imageTarget env it a of
                (a1, Inl err) \<Rightarrow> (a1, Inl err)
              | (a1, Inr (it', destPath)) \<Rightarrow>
                  (case fileMatchesBytes env (app_fs a1) destPath data of
                     Inl err \<Rightarrow> (a1, Inl err)
                   | Inr True \<Rightarrow> setImagePath env it' destPath a1
                   | Inr False \<Rightarrow>
                       (case os_MkdirAll (env_faults env) (DirOf destPath) (app_fs a1) of
                          (fs1, Some err) \<Rightarrow> (a1\<lparr>app_fs := fs1\<rparr>, Inl err)
                        | (fs1, None) \<Rightarrow>
                            (case os_WriteFile (env_faults env) destPath data fs1 of
                               (fs2, Some err) \<Rightarrow> (a1\<lparr>app_fs := fs2\<rparr>, Inl err)
                             | (fs2, None) \<Rightarrow> setImagePath env it' destPath (a1\<lparr>app_fs := fs2\<rparr>)))))))"

definition ensureImageMaterialized :: "Env \<Rightarrow> HistoryItem \<Rightarrow> App \<Rightarrow> App \<times> HistoryItem result" where
  "ensureImageMaterialized env it a =
     (if item_Type it \<noteq> TypeImage then (a, Inl ''not an image item'') else materializeImageNow env it a)"

text \<open>The job in the background, and its run; \<open>fallback\<close> is the item it was started for.\<close>

definition ensureImageMaterializedAsync :: "HistoryItem \<Rightarrow> App \<Rightarrow> App" where
  "ensureImageMaterializedAsync it a =
     (if item_Type it \<noteq> TypeImage \<or> trimSpace (item_Payload it) = '''' \<or> item_ID it = '''' then a
      else if ImageMaterialize (item_ID it) \<in> set (app_tasks a) then a
      else addTask (ImageMaterialize (item_ID it)) a)"

definition runImageMaterialize :: "Env \<Rightarrow> HistoryItem \<Rightarrow> App \<Rightarrow> App \<times> HistoryItem result" where
  "runImageMaterialize env fallback a =
     (let current = (case GetByID (item_ID fallback) (app_history a) of Some stored \<Rightarrow> stored | None \<Rightarrow> fallback);
          b = a\<lparr>app_tasks := remove1 (ImageMaterialize (item_ID fallback)) (app_tasks a)\<rparr>
      in materializeImageNow env current b)"


section \<open>Replay (replay_history.go)\<close>

datatype replayAction =
    replayActionClipboardStaged | replayActionDownloadRequested | replayActionDownloadInProgress

record ReplayResult =
  rr_Action :: replayAction
  rr_Type :: string
  rr_Mode :: string
  rr_Message :: string

text \<open>\<open>replayHistoryItem\<close>, over the operations it is given (some may be missing).\<close>

record 's replayExecutor =
  ex_paste :: "(string \<Rightarrow> string \<Rightarrow> string \<Rightarrow> 's \<Rightarrow> 's) option"
  ex_stageFilePaths :: "(string list \<Rightarrow> 's \<Rightarrow> 's \<times> goerror option) option"
  ex_markConsumed :: "(string \<Rightarrow> 's \<Rightarrow> 's \<times> bool) option"

definition executorConsume :: "'s replayExecutor \<Rightarrow> HistoryItem \<Rightarrow> ReplayResult \<Rightarrow> 's \<Rightarrow> 's \<times> ReplayResult result" where
  "executorConsume exec it result s =
     (case ex_markConsumed exec of
        None \<Rightarrow> (s, Inl ErrReplayStateUpdate)
      | Some mark \<Rightarrow>
          if item_ID it = '''' then (s, Inl ErrReplayStateUpdate)
          else (case mark (item_ID it) s of
                  (s1, True) \<Rightarrow> (s1, Inr result) | (s1, False) \<Rightarrow> (s1, Inl ErrReplayStateUpdate)))"

definition executorStage ::
  "'s replayExecutor \<Rightarrow> HistoryItem \<Rightarrow> bool \<Rightarrow> ReplayResult \<Rightarrow> 's \<Rightarrow> 's \<times> ReplayResult result" where
  "executorStage exec it consume result s =
     (case ex_stageFilePaths exec of
        None \<Rightarrow> (s, Inl ErrClipboardUnavailable)
      | Some stage \<Rightarrow>
          (case stage (item_LocalPaths it) s of
             (s1, Some err) \<Rightarrow> (s1, Inl err)
           | (s1, None) \<Rightarrow> if consume then executorConsume exec it result s1 else (s1, Inr result)))"

definition replayHistoryItem ::
  "HistoryItem option \<Rightarrow> 's replayExecutor \<Rightarrow> string \<Rightarrow> 's \<Rightarrow> 's \<times> ReplayResult result" where
  "replayHistoryItem item exec mode0 s =
     (case item of
        None \<Rightarrow> (s, Inl ErrNoActiveHistoryItem)
      | Some it \<Rightarrow>
          (let mode = (if mode0 = ReplayModeNone then ReplayModeClipboardImmediate else mode0);
               result = \<lparr>rr_Action = replayActionClipboardStaged, rr_Type = item_Type it, rr_Mode = mode,
                         rr_Message = ''''\<rparr>;
               st = item_State it in
           if item_Type it = TypeText then
             (if st \<noteq> StateReady \<and> st \<noteq> StateConsumed then (s, Inl ErrUnsupportedReplayState)
              else (case ex_paste exec of
                      None \<Rightarrow> (s, Inl ErrClipboardUnavailable)
                    | Some paste \<Rightarrow>
                        (let s1 = paste (item_Payload it) (item_Type it) (item_FileName it) s in
                         if st = StateReady then executorConsume exec it result s1 else (s1, Inr result))))
           else if item_Type it = TypeImage then
             (if (st = StateReady \<or> st = StateReadyToPaste \<or> st = StateConsumed) \<and> item_LocalPaths it \<noteq> []
              then executorStage exec it (st = StateReady \<or> st = StateReadyToPaste) result s
              else (s, Inl ErrUnsupportedReplayState))
           else if item_Type it = TypeFileStub then
             (if st \<noteq> StateReadyToPaste \<and> st \<noteq> StateConsumed then (s, Inl ErrUnsupportedReplayState)
              else if item_LocalPaths it = [] then (s, Inl ErrUnsupportedReplayState)
              else executorStage exec it (st = StateReadyToPaste) result s)
           else (s, Inl ErrUnsupportedReplayType)))"

text \<open>The item becomes consumed when it was ready; a failure of that is an error.\<close>

definition markConsumed :: "Env \<Rightarrow> bool \<Rightarrow> HistoryItem \<Rightarrow> ReplayResult \<Rightarrow> App \<Rightarrow> App \<times> ReplayResult result" where
  "markConsumed env needed it result a =
     (if \<not> needed then (a, Inr result)
      else (case historyUpdateState env (item_ID it) StateConsumed a of
              (a1, True) \<Rightarrow> (a1, Inr result) | (a1, False) \<Rightarrow> (a1, Inl ErrReplayStateUpdate)))"

definition shouldMarkFileReplayConsumed :: "HistoryItem \<Rightarrow> bool" where
  "shouldMarkFileReplayConsumed it \<longleftrightarrow> item_State it = StateReady \<or> item_State it = StateReadyToPaste"

definition replayResult :: "replayAction \<Rightarrow> HistoryItem \<Rightarrow> string \<Rightarrow> string \<Rightarrow> ReplayResult" where
  "replayResult action it mode message =
     \<lparr>rr_Action = action, rr_Type = item_Type it, rr_Mode = mode, rr_Message = message\<rparr>"

definition replayReadyClipboardItem :: "Env \<Rightarrow> HistoryItem \<Rightarrow> string \<Rightarrow> App \<Rightarrow> App \<times> ReplayResult result" where
  "replayReadyClipboardItem env it mode a =
     (if item_Type it = TypeText \<and> mode \<noteq> ReplayModeClipboardImmediate then (a, Inl ErrReplayModeNotApplicable)
      else if item_State it \<noteq> StateReady \<and> item_State it \<noteq> StateConsumed then (a, Inl ErrUnsupportedReplayState)
      else (case writeClipboardPayloadIfAllowed env ReplayText
                   (zeroClipboard\<lparr>cd_Type := item_Type it, cd_Payload := item_Payload it,
                                  cd_FileName := item_FileName it\<rparr>) a of
              (a1, False) \<Rightarrow> (a1, Inl ErrClipboardUnavailable)
            | (a1, True) \<Rightarrow>
                markConsumed env (item_State it = StateReady) it
                  (replayResult replayActionClipboardStaged it mode ''Copied active item to clipboard'') a1))"

definition replayLazyImmediate :: "Env \<Rightarrow> HistoryItem \<Rightarrow> App \<Rightarrow> App \<times> ReplayResult result" where
  "replayLazyImmediate env it a =
     (let st = item_State it; mode = ReplayModeClipboardImmediate in
      if st = StateOffered \<or> st = StateFailed then
        (case requestFileTransfer env it a of
           (a1, Some err) \<Rightarrow> (a1, Inl err)
         | (a1, None) \<Rightarrow> (a1, Inr (replayResult replayActionDownloadRequested it mode
                                     ''Started file transfer for active item'')))
      else if st = StateDownloading then
        (a, Inr (replayResult replayActionDownloadInProgress it mode ''File transfer already in progress''))
      else if st = StateReady \<or> st = StateReadyToPaste \<or> st = StateConsumed then
        (if item_LocalPaths it = [] then (a, Inl ErrUnsupportedReplayState)
         else (case stageHistoryItemRealClipboard env it a of
                 (a1, Some err) \<Rightarrow> (a1, Inl err)
               | (a1, None) \<Rightarrow>
                   markConsumed env (st = StateReady \<or> st = StateReadyToPaste) it
                     (replayResult replayActionClipboardStaged it mode ''Staged real content to clipboard'') a1))
      else (a, Inl ErrUnsupportedReplayState))"

text \<open>The path of an image as text; the file itself is written in the background when it is not there yet.\<close>

definition replayLazyPlaceholder :: "Env \<Rightarrow> HistoryItem \<Rightarrow> App \<Rightarrow> App \<times> ReplayResult result" where
  "replayLazyPlaceholder env it0 a0 =
     (let mode = ReplayModePathPlaceholderPaste in
      if \<not> app_hasClip a0 then (a0, Inl ErrClipboardUnavailable)
      else if item_Type it0 \<noteq> TypeImage then (a0, Inl ErrReplayModeNotApplicable)
      else if \<not> imageMaterializedOnDisk env a0 it0 \<and> trimSpace (item_Payload it0) = ''''
      then (a0, Inl ErrUnsupportedReplayState)
      else
        (case ensureReplayTargetPaths env (Some it0) a0 of
           (a1, Inl err) \<Rightarrow> (a1, Inl err)
         | (a1, Inr it) \<Rightarrow>
             (case item_ReservedPaths it of
                [] \<Rightarrow> (a1, Inl ErrUnsupportedReplayState)
              | path # _ \<Rightarrow>
                  if \<not> isClipboardWriteAllowed a1 ReplayPath
                         (zeroClipboard\<lparr>cd_Type := TypeText, cd_Payload := path\<rparr>)
                  then (a1, Inl ErrClipboardUnavailable)
                  else
                    (case clipboardWrite env (StageText path) (rememberReplayClipboardWrite env TypeText path a1) of
                       (a2, Some err) \<Rightarrow> (a2, Inl err)
                     | (a2, None) \<Rightarrow>
                         (let a3 = (if imageMaterializedOnDisk env a2 it then a2
                                    else ensureImageMaterializedAsync it a2);
                              st = item_State it in
                          if st = StateReady \<or> st = StateReadyToPaste \<or> st = StateConsumed then
                            markConsumed env (st = StateReady \<or> st = StateReadyToPaste) it
                              (replayResult replayActionClipboardStaged it mode ''Copied placeholder path to clipboard'') a3
                          else if st = StateOffered \<or> st = StateFailed then
                            (case requestFileTransfer env it a3 of
                               (a4, Some err) \<Rightarrow> (a4, Inl err)
                             | (a4, None) \<Rightarrow>
                                 (a4, Inr (replayResult replayActionDownloadRequested it mode
                                        ''Copied placeholder path to clipboard and started transfer'')))
                          else if st = StateDownloading then
                            (a3, Inr (replayResult replayActionDownloadInProgress it mode
                                   ''Copied placeholder path to clipboard. Transfer still in progress''))
                          else (a3, Inl ErrUnsupportedReplayState))))))"

definition stageRealClipboardContent :: "Env \<Rightarrow> HistoryItem \<Rightarrow> App \<Rightarrow> App \<times> ReplayResult result" where
  "stageRealClipboardContent env it a =
     (case stageHistoryItemRealClipboard env it a of
        (a1, Some err) \<Rightarrow> (a1, Inl err)
      | (a1, None) \<Rightarrow>
          (a1, Inr (replayResult replayActionClipboardStaged it ReplayModeSystemClipboardPaste
                      ''Copied real content to clipboard'')))"

definition replayLazyRealClipboard :: "Env \<Rightarrow> HistoryItem \<Rightarrow> App \<Rightarrow> App \<times> ReplayResult result" where
  "replayLazyRealClipboard env it0 a0 =
     (let mode = ReplayModeSystemClipboardPaste in
      if \<not> app_hasClip a0 then (a0, Inl ErrClipboardUnavailable)
      else
        (case ensureReplayTargetPaths env (Some it0) a0 of
           (a1, Inl err) \<Rightarrow> (a1, Inl err)
         | (a1, Inr it) \<Rightarrow>
             (let st = item_State it in
              if st = StateReady \<or> st = StateReadyToPaste \<or> st = StateConsumed then
                (if item_LocalPaths it = [] then (a1, Inl ErrUnsupportedReplayState)
                 else (case stageRealClipboardContent env it a1 of
                         (a2, Inl err) \<Rightarrow> (a2, Inl err)
                       | (a2, Inr result) \<Rightarrow> markConsumed env (shouldMarkFileReplayConsumed it) it result a2))
              else if st = StateOffered \<or> st = StateFailed then
                (case storePendingReplayMode env it mode a1 of
                   (a2, Inl err) \<Rightarrow> (a2, Inl err)
                 | (a2, Inr stored) \<Rightarrow>
                     (case requestFileTransfer env stored a2 of
                        (a3, Some err) \<Rightarrow> (a3, Inl err)
                      | (a3, None) \<Rightarrow>
                          (a3, Inr (replayResult replayActionDownloadRequested stored mode
                                 ''Started transfer for real content clipboard copy''))))
              else if st = StateDownloading then
                (a1, Inr (replayResult replayActionDownloadInProgress it mode
                            ''Real content transfer already in progress''))
              else (a1, Inl ErrUnsupportedReplayState))))"

definition replayLazyClipboardItem :: "Env \<Rightarrow> HistoryItem \<Rightarrow> string \<Rightarrow> App \<Rightarrow> App \<times> ReplayResult result" where
  "replayLazyClipboardItem env it0 mode a0 =
     (if mode = ReplayModePathPlaceholderPaste \<and> item_Type it0 \<noteq> TypeImage then (a0, Inl ErrReplayModeNotApplicable)
      else
        (case (if item_Type it0 = TypeImage \<and> item_Payload it0 \<noteq> '''' \<and> mode \<noteq> ReplayModePathPlaceholderPaste
               then ensureImageMaterialized env it0 a0 else (a0, Inr it0)) of
           (a, Inl err) \<Rightarrow> (a, Inl err)
         | (a, Inr it) \<Rightarrow>
             if mode = ReplayModeClipboardImmediate then replayLazyImmediate env it a
             else if mode = ReplayModePathPlaceholderPaste then replayLazyPlaceholder env it a
             else if mode = ReplayModeSystemClipboardPaste then replayLazyRealClipboard env it a
             else (a, Inl ErrUnsupportedReplayType)))"

definition replayItem :: "Env \<Rightarrow> HistoryItem option \<Rightarrow> string \<Rightarrow> App \<Rightarrow> App \<times> ReplayResult result" where
  "replayItem env item mode0 a =
     (let mode = (if mode0 = ReplayModeNone then ReplayModeClipboardImmediate else mode0) in
      case item of
        None \<Rightarrow> (a, Inl ErrNoActiveHistoryItem)
      | Some it \<Rightarrow>
          (let st = item_State it in
           if item_Type it = TypeText then
             (if \<not> app_hasClip a then (a, Inl ErrClipboardUnavailable)
              else replayReadyClipboardItem env it mode a)
           else if item_Type it = TypeImage then
             (if \<not> app_hasClip a \<and> (st = StateReady \<or> st = StateReadyToPaste \<or> st = StateConsumed)
              then (a, Inl ErrClipboardUnavailable) else replayLazyClipboardItem env it mode a)
           else if item_Type it = TypeFileStub then
             (if \<not> app_hasClip a \<and> (st = StateReadyToPaste \<or> st = StateConsumed)
              then (a, Inl ErrClipboardUnavailable) else replayLazyClipboardItem env it mode a)
           else (a, Inl ErrUnsupportedReplayType)))"

definition ReplayActiveHistoryItem :: "Env \<Rightarrow> string \<Rightarrow> App \<Rightarrow> App \<times> ReplayResult result" where
  "ReplayActiveHistoryItem env mode a = replayItem env (GetActive (app_history a)) mode a"

definition ReplaySharedClipboardItem :: "Env \<Rightarrow> string \<Rightarrow> App \<Rightarrow> App \<times> ReplayResult result" where
  "ReplaySharedClipboardItem env mode a = replayItem env (resolveSharedReplayItem a) mode a"

text \<open>The action of the history panel on an item.\<close>

definition panelReplay :: "Env \<Rightarrow> string \<Rightarrow> string \<Rightarrow> App \<Rightarrow> App \<times> goerror option" where
  "panelReplay env i mode a =
     (let (a1, ok) = (if i = '''' then (a, True)
                      else (case SetActive i (app_history a) of (m, ok, _) \<Rightarrow> (a\<lparr>app_history := m\<rparr>, ok))) in
      if \<not> ok then (a1, Some ''history item not found'')
      else (case ReplayActiveHistoryItem env mode a1 of
              (a2, Inl err) \<Rightarrow> (a2, Some err) | (a2, Inr _) \<Rightarrow> (a2, None)))"


section \<open>Frames\<close>

text \<open>What a replay reads of the application and what it writes to the clipboard, besides the history.\<close>

definition writes :: "App \<Rightarrow> App \<Rightarrow> ClipWrite list \<Rightarrow> bool" where
  "writes a a' ws \<longleftrightarrow> app_clipWrites a' = app_clipWrites a @ ws \<and> app_hasClip a' = app_hasClip a"

lemma writes_trans: "writes a b [] \<Longrightarrow> writes b c ws \<Longrightarrow> writes a c ws"
  by (simp add: writes_def)

lemma writes_view: "clip_view b = clip_view a \<Longrightarrow> writes a b []"
  by (simp add: writes_def clip_view_def)

lemma historyUpdateState_clip [clip_frame]: "clip_view (fst (historyUpdateState env i st a)) = clip_view a"
  by (simp add: historyUpdateState_def split: prod.split)

lemma sendClipboardData_clip [clip_frame]: "clip_view (fst (sendClipboardData env cd a)) = clip_view a"
  by (auto simp: sendClipboardData_def sendClipboardDataWithResult_def clip_view_def Let_def
      split: sum.splits prod.splits)

lemma clip_results:
  "historyMutate env i f a = (a', r) \<Longrightarrow> clip_view a' = clip_view a"
  "historyUpdateState env i st a = (a', b) \<Longrightarrow> clip_view a' = clip_view a"
  "sendClipboardData env cd a = (a', e) \<Longrightarrow> clip_view a' = clip_view a"
  using clip_frame by (metis fst_conv)+

lemma register_clip: "clip_view (fst (RegisterIncoming m i n a)) = clip_view a"
  by (simp add: RegisterIncoming_def Let_def)

lemma requestFileTransfer_clip: "requestFileTransfer env it a = (a', e) \<Longrightarrow> clip_view a' = clip_view a"
  by (auto simp: requestFileTransfer_def Let_def updateIncoming_clip register_clip historyMutate_clip
      split: option.splits prod.splits if_splits dest!: clip_results)

text \<open>
  The functions the program gives to \<open>Mutate\<close>, in the order of the source: every one keeps the id and the creation time.
\<close>

lemma program_mutations_stable:
  "stable_fn (\<lambda>next. Inr (if item_ReservedPaths next = [] then next\<lparr>item_ReservedPaths := paths\<rparr> else next))"
  "stable_fn (\<lambda>next. Inr (next\<lparr>item_State := st\<rparr>))"
  "stable_fn (\<lambda>item. Inr (item\<lparr>item_LastChunkIdx := n, item_State := st\<rparr>))"
  "stable_fn (\<lambda>item. Inr (item\<lparr>item_State := st, item_LocalPaths := paths,
     item_ReservedPaths := (if item_ReservedPaths item = [] then paths else item_ReservedPaths item),
     item_LastChunkIdx := n, item_ErrorMessage := ''''\<rparr>))"
  "stable_fn (\<lambda>item. Inr (item\<lparr>item_State := st, item_ErrorMessage := err\<rparr>))"
  "stable_fn (\<lambda>next. let next1 = next\<lparr>item_PendingReplayMode := mode\<rparr> in
     Inr (if item_ReservedPaths next1 = [] \<and> paths \<noteq> [] then next1\<lparr>item_ReservedPaths := paths\<rparr> else next1))"
  "stable_fn (\<lambda>next. Inr (next\<lparr>item_State := st, item_PendingReplayMode := mode\<rparr>))"
  "stable_fn (\<lambda>next. Inr (next\<lparr>item_PendingReplayMode := mode\<rparr>))"
  "stable_fn (\<lambda>next. Inr (next\<lparr>item_LocalPaths := paths, item_ReservedPaths := paths, item_UpdatedAt := now\<rparr>))"
  by (simp_all add: stable_fn_def Let_def)

lemma ensurePaths_clip: "ensureReplayTargetPaths env it a = (a', r) \<Longrightarrow> clip_view a' = clip_view a"
  by (auto simp: ensureReplayTargetPaths_def split: option.splits if_splits sum.splits dest: clip_results)

lemma imageTarget_clip: "imageTarget env it a = (a', r) \<Longrightarrow> clip_view a' = clip_view a"
  by (auto simp: imageTarget_def Let_def split: list.splits prod.splits sum.splits dest: ensurePaths_clip)

lemma materialize_clip: "materializeImageNow env it a = (a', r) \<Longrightarrow> clip_view a' = clip_view a"
  by (auto simp: materializeImageNow_def setImagePath_def
      split: if_splits option.splits sum.splits prod.splits bool.splits dest!: imageTarget_clip clip_results)

section \<open>The replayed item in the history\<close>

lemma Mutate_stored:
  assumes "mgr_inv m" "GetByID i m = Some it" "stable_fn f" "Mutate now i (Some f) m = (m', Inr it', b)"
  shows "mgr_inv m' \<and> GetByID i m' = Some it' \<and> (\<exists>nx. f it = Inr nx \<and> it' = nx\<lparr>item_UpdatedAt := now\<rparr>)"
proof -
  obtain idx where idx: "findIndexByIDLocked m i = Some idx" "idx < length (mgr_items m)" "mgr_items m ! idx = it"
    using GetByID_nth [OF assms(1,2)] .
  have m': "mgr_inv m'" using Mutate_inv [OF assms(1), of "Some f" now i] assms(3,4) by simp
  have "i \<noteq> ''''" using assms(2) by (auto simp: GetByID_def)
  then obtain nx where nx: "f it = Inr nx" "it' = nx\<lparr>item_UpdatedAt := now\<rparr>" "m' = writeItem idx it' m"
    using assms(4) idx by (auto simp: Mutate_def Let_def split: sum.splits if_splits)
  have "item_ID it' = item_ID it" using nx(1,2) assms(3) by (auto simp: stable_fn_def)
  then have "GetByID i m' = Some it'"
    using GetByID_writeItem [OF assms(1) _ idx(2) _ assms(2), of it'] m' nx(3) idx(3) by simp
  then show ?thesis using m' nx by blast
qed

definition stored :: "HistoryItem \<Rightarrow> App \<Rightarrow> bool" where
  "stored it a \<longleftrightarrow> mgr_inv (app_history a) \<and> GetByID (item_ID it) (app_history a) = Some it"

lemma historyMutate_stored:
  assumes "stored it a" "stable_fn f" "historyMutate env (item_ID it) f a = (a', Inr it')"
  shows "stored it' a' \<and> item_ID it' = item_ID it \<and> (\<exists>nx. f it = Inr nx \<and> it' = nx\<lparr>item_UpdatedAt := env_now env\<rparr>)"
proof -
  obtain m' b where m': "Mutate (env_now env) (item_ID it) (Some f) (app_history a) = (m', Inr it', b)"
    "app_history a' = m'"
    using assms(3) by (auto simp: historyMutate_def split: prod.splits)
  note r = Mutate_stored [OF _ _ assms(2) m'(1)]
  have "mgr_inv (app_history a)" "GetByID (item_ID it) (app_history a) = Some it" using assms(1) by (simp_all add: stored_def)
  note r = r [OF this]
  then have "item_ID it' = item_ID it" using assms(2) by (auto simp: stable_fn_def)
  then show ?thesis using r m'(2) by (auto simp: stored_def)
qed

lemma ensurePaths_stored:
  assumes "stored it a" "ensureReplayTargetPaths env (Some it) a = (a', Inr it')"
  shows "stored it' a' \<and> item_ID it' = item_ID it \<and> item_Type it' = item_Type it \<and> item_State it' = item_State it \<and>
    item_LocalPaths it' = item_LocalPaths it \<and> item_Payload it' = item_Payload it"
proof (cases "item_ReservedPaths it = []")
  case False
  then show ?thesis using assms by (simp add: ensureReplayTargetPaths_def)
next
  case True
  then obtain paths where m: "historyMutate env (item_ID it)
      (\<lambda>next. Inr (if item_ReservedPaths next = [] then next\<lparr>item_ReservedPaths := paths\<rparr> else next)) a = (a', Inr it')"
    using assms(2) by (auto simp: ensureReplayTargetPaths_def split: sum.splits)
  have "stable_fn (\<lambda>next. Inr (if item_ReservedPaths next = [] then next\<lparr>item_ReservedPaths := paths\<rparr> else next))"
    by (simp add: stable_fn_def)
  from historyMutate_stored [OF assms(1) this m] True show ?thesis by auto
qed

lemma resolve_stored:
  assumes "mgr_inv (app_history a)" "resolveSharedReplayItem a = Some it"
  shows "stored it a"
proof -
  have id: "GetByID i (app_history a) = Some it \<Longrightarrow> stored it a" for i
    using assms(1) by (simp add: stored_def GetByID_iff)
  have "it \<in> set (mgr_items (app_history a)) \<Longrightarrow> stored it a"
    using assms(1) by (simp add: stored_def GetByID_iff)
  then have act: "GetActive (app_history a) = Some it \<Longrightarrow> stored it a"
    by (auto simp: GetActive_def getByIDLocked_def split: list.splits if_splits option.splits dest!: find_SomeD)
  show ?thesis
    using assms(2) id act
    by (auto simp: resolveSharedReplayItem_def sharedClipboardHistoryItem_def lastFileStubHistoryItem_def
        split: if_splits)
qed

text \<open>The item is consumed and its content was put on the clipboard by one write.\<close>

definition consumed :: "HistoryItem \<Rightarrow> App \<Rightarrow> bool" where
  "consumed it a \<longleftrightarrow> (\<exists>it'. GetByID (item_ID it) (app_history a) = Some it' \<and> item_State it' = StateConsumed)"

lemma markConsumed_consumed:
  assumes "markConsumed env needed it result a = (a', Inr r)" "stored it a" "needed \<or> item_State it = StateConsumed"
  shows "r = result \<and> consumed it a' \<and> clip_view a' = clip_view a"
proof (cases needed)
  case False
  then show ?thesis using assms by (auto simp: markConsumed_def consumed_def stored_def)
next
  case True
  then have u: "historyUpdateState env (item_ID it) StateConsumed a = (a', True)" and r: "r = result"
    using assms(1) by (auto simp: markConsumed_def split: prod.splits bool.splits)
  obtain idx where idx: "findIndexByIDLocked (app_history a) (item_ID it) = Some idx"
    "idx < length (mgr_items (app_history a))" "mgr_items (app_history a) ! idx = it"
    using GetByID_nth [of "app_history a" "item_ID it" it] assms(2) by (auto simp: stored_def)
  let ?it' = "it\<lparr>item_State := StateConsumed, item_UpdatedAt := env_now env\<rparr>"
  have m': "app_history a' = writeItem idx ?it' (app_history a)"
    using u idx
    by (auto simp: historyUpdateState_def UpdateState_def Let_def split: if_splits prod.splits)
  have "mgr_inv (app_history a')"
    using u UpdateState_inv [of "app_history a" "env_now env" "item_ID it" StateConsumed] assms(2)
    by (auto simp: historyUpdateState_def stored_def split: prod.splits)
  then have "GetByID (item_ID it) (app_history a') = Some ?it'"
    using GetByID_writeItem [of "app_history a" idx ?it' "item_ID it" it] assms(2) idx m' by (simp add: stored_def)
  then show ?thesis using r clip_results(2) [OF u] by (auto simp: consumed_def)
qed

lemma stage_effect:
  assumes "stageHistoryItemRealClipboard env it a = (a1, None)"
  shows "writes a a1 [StageFiles (stagedPaths it)] \<and> stagedPaths it \<noteq> [] \<and> app_history a1 = app_history a"
  using assms
  by (auto simp: stageHistoryItemRealClipboard_def clipboardWrite_def rememberReplayClipboardWrite_def stagedPaths_def
      writes_def Let_def split: if_splits option.splits)


section \<open>What a replay does\<close>

lemma replayReady_effect:
  assumes "replayReadyClipboardItem env it mode a = (a', Inr r)" "stored it a"
  shows "r = replayResult replayActionClipboardStaged it mode ''Copied active item to clipboard'' \<and> consumed it a' \<and>
    writes a a' [PastePayload (item_Payload it) (item_Type it) (item_FileName it)]"
proof -
  let ?w = "PastePayload (item_Payload it) (item_Type it) (item_FileName it)"
  let ?a1 = "a\<lparr>app_clipWrites := app_clipWrites a @ [?w]\<rparr>"
  have st: "item_State it = StateReady \<or> item_State it = StateConsumed"
    using assms(1) by (auto simp: replayReadyClipboardItem_def split: if_splits)
  have mark: "markConsumed env (item_State it = StateReady) it
        (replayResult replayActionClipboardStaged it mode ''Copied active item to clipboard'') ?a1 = (a', Inr r)"
    using assms(1)
    by (auto simp: replayReadyClipboardItem_def writeClipboardPayloadIfAllowed_def appPasteClipboardPayload_def
        clipboardWrite_def zeroClipboard_def split: if_splits option.splits prod.splits bool.splits)
  have "stored it ?a1" using assms(2) by (simp add: stored_def)
  from markConsumed_consumed [OF mark this] st show ?thesis
    by (auto simp: writes_def clip_view_def)
qed

text \<open>The two ways the files of an item get to the clipboard.\<close>

lemma staged_then_marked:
  assumes "stageHistoryItemRealClipboard env it a = (a1, None)" "markConsumed env needed it result a1 = (a', Inr r)"
    and "stored it a" "needed \<or> item_State it = StateConsumed"
  shows "r = result \<and> consumed it a' \<and> writes a a' [StageFiles (stagedPaths it)] \<and> stagedPaths it \<noteq> []"
proof -
  note st = stage_effect [OF assms(1)]
  have "stored it a1" using assms(3) st by (simp add: stored_def)
  from markConsumed_consumed [OF assms(2) this assms(4)] st show ?thesis by (auto simp: writes_def clip_view_def)
qed

definition replay_effect :: "HistoryItem \<Rightarrow> App \<Rightarrow> App \<Rightarrow> ReplayResult \<Rightarrow> bool" where
  "replay_effect it a a' r \<longleftrightarrow> rr_Type r = item_Type it \<and>
     (if rr_Action r = replayActionClipboardStaged
      then consumed it a' \<and> writes a a' [StageFiles (stagedPaths it)] \<and> stagedPaths it \<noteq> []
      else writes a a' [] \<and> (item_State it = StateOffered \<or> item_State it = StateFailed \<or> item_State it = StateDownloading))"

lemma immediate_effect:
  assumes "replayLazyImmediate env it a = (a', Inr r)" "stored it a"
  shows "replay_effect it a a' r"
proof -
  consider (request) "item_State it = StateOffered \<or> item_State it = StateFailed"
    | (running) "item_State it = StateDownloading"
    | (ready) "item_State it = StateReady \<or> item_State it = StateReadyToPaste \<or> item_State it = StateConsumed"
    using assms(1) by (cases "item_State it") (auto simp: replayLazyImmediate_def)
  then show ?thesis
  proof cases
    case ready
    then obtain a1 where "stageHistoryItemRealClipboard env it a = (a1, None)"
      "markConsumed env (item_State it = StateReady \<or> item_State it = StateReadyToPaste) it
         (replayResult replayActionClipboardStaged it ReplayModeClipboardImmediate ''Staged real content to clipboard'') a1
         = (a', Inr r)"
      using assms(1) by (auto simp: replayLazyImmediate_def Let_def split: if_splits prod.splits option.splits)
    from staged_then_marked [OF this assms(2)] ready show ?thesis
      by (auto simp: replay_effect_def replayResult_def)
  next
    case request
    then show ?thesis using assms(1)
      by (auto simp: replayLazyImmediate_def replay_effect_def replayResult_def
          split: prod.splits option.splits dest!: requestFileTransfer_clip intro: writes_view)
  next
    case running
    then show ?thesis using assms(1)
      by (auto simp: replayLazyImmediate_def replay_effect_def replayResult_def writes_def)
  qed
qed

lemma replay_effect_same:
  assumes "replay_effect it' b a' r" "clip_view b = clip_view a" "item_ID it' = item_ID it" "item_Type it' = item_Type it"
    and "item_State it' = item_State it" "item_LocalPaths it' = item_LocalPaths it"
  shows "replay_effect it a a' r"
  using assms writes_trans [OF writes_view [OF assms(2)]]
  by (auto simp: replay_effect_def consumed_def stagedPaths_def)

lemma storePending_stored:
  assumes "stored it a" "storePendingReplayMode env it mode a = (a', Inr it')"
  shows "stored it' a' \<and> item_ID it' = item_ID it \<and> item_Type it' = item_Type it \<and> item_State it' = item_State it \<and>
    item_Payload it' = item_Payload it \<and> item_LastChunkIdx it' = item_LastChunkIdx it \<and>
    item_PendingReplayMode it' = mode \<and> clip_view a' = clip_view a"
proof -
  let ?f = "\<lambda>next. let next1 = next\<lparr>item_PendingReplayMode := mode\<rparr> in
     Inr (if item_ReservedPaths next1 = [] \<and> item_ReservedPaths it \<noteq> []
          then next1\<lparr>item_ReservedPaths := item_ReservedPaths it\<rparr> else next1)"
  have m: "historyMutate env (item_ID it) ?f a = (a', Inr it')" using assms(2) by (simp add: storePendingReplayMode_def)
  have "stable_fn ?f" by (simp add: stable_fn_def Let_def)
  from historyMutate_stored [OF assms(1) this m] clip_results(1) [OF m] show ?thesis
    by (auto simp: Let_def)
qed

lemma real_effect:
  assumes "replayLazyRealClipboard env it a = (a', Inr r)" "stored it a"
  shows "replay_effect it a a' r"
proof -
  obtain a1 it1 where paths: "ensureReplayTargetPaths env (Some it) a = (a1, Inr it1)"
    using assms(1) by (auto simp: replayLazyRealClipboard_def Let_def split: if_splits prod.splits sum.splits)
  note it1 = ensurePaths_stored [OF assms(2) paths]
  have "replay_effect it1 a1 a' r"
  proof (cases "item_State it1 = StateReady \<or> item_State it1 = StateReadyToPaste \<or> item_State it1 = StateConsumed")
    case True
    then obtain a2 where "stageHistoryItemRealClipboard env it1 a1 = (a2, None)"
      "markConsumed env (shouldMarkFileReplayConsumed it1) it1
         (replayResult replayActionClipboardStaged it1 ReplayModeSystemClipboardPaste ''Copied real content to clipboard'') a2
         = (a', Inr r)"
      using assms(1) paths
      by (auto simp: replayLazyRealClipboard_def stageRealClipboardContent_def Let_def
          split: if_splits prod.splits sum.splits option.splits)
    from staged_then_marked [OF this] it1 True show ?thesis
      by (auto simp: replay_effect_def replayResult_def shouldMarkFileReplayConsumed_def)
  next
    case False
    have "item_Type it2 = item_Type it1 \<and> clip_view a2 = clip_view a1"
      if "storePendingReplayMode env it1 m a1 = (a2, Inr it2)" for m a2 it2
      using storePending_stored [OF _ that] it1 by simp
    then show ?thesis using False assms(1) paths
      by (auto simp: replayLazyRealClipboard_def replay_effect_def replayResult_def Let_def writes_view
          split: if_splits prod.splits sum.splits option.splits dest!: requestFileTransfer_clip)
  qed
  then show ?thesis by (rule replay_effect_same) (use it1 ensurePaths_clip [OF paths] in auto)
qed


section \<open>Properties\<close>

lemma replay_modes [simp]:
  "ReplayModeClipboardImmediate \<noteq> ReplayModePathPlaceholderPaste" "ReplayModeSystemClipboardPaste \<noteq> ReplayModePathPlaceholderPaste"
  "ReplayModeSystemClipboardPaste \<noteq> ReplayModeClipboardImmediate" "ReplayModeClipboardImmediate \<noteq> ''''"
  "ReplayModeSystemClipboardPaste \<noteq> ''''" "ReplayModeNone = ''''" "TypeImage \<noteq> TypeText" "TypeFileStub \<noteq> TypeText"
  "TypeImage \<noteq> TypeFileStub" "TypeFileStub \<noteq> TypeImage" "TypeText \<noteq> TypeImage" "TypeText \<noteq> TypeFileStub"
  by (simp_all add: const_defs)


definition sampleReady :: App where
  "sampleReady = (sampleApp ''d'')\<lparr>app_history := sampleManager
     [(sampleItem ''i'' TypeFileStub StateReadyToPaste 5)\<lparr>item_ReservedPaths := [''/t/ClipCascade/a''],
        item_LocalPaths := [''/t/ClipCascade/a'']\<rparr>], app_sharedID := ''i''\<rparr>"

lemma sampleReady_run:
  "\<exists>a' r. ReplaySharedClipboardItem sampleEnv ReplayModeSystemClipboardPaste sampleReady = (a', Inr r) \<and>
     rr_Action r = replayActionClipboardStaged"
  by (auto simp: ReplaySharedClipboardItem_def resolveSharedReplayItem_def sharedClipboardHistoryItem_def
      canReplayHistoryItem_def replayItem_def replayLazyClipboardItem_def replayLazyRealClipboard_def
      ensureReplayTargetPaths_def stageRealClipboardContent_def stageHistoryItemRealClipboard_def clipboardWrite_def
      isClipboardWriteAllowed_def rememberReplayClipboardWrite_def markConsumed_def shouldMarkFileReplayConsumed_def
      historyUpdateState_def replayResult_def sampleReady_def sampleApp_def hist_eval GetByID_def getByIDLocked_def
      UpdateState_def isValidTransition_def)



section \<open>Asking for the content\<close>

lemma UpdateState_stored:
  assumes "stored it a" "historyUpdateState env (item_ID it) st a = (a', True)"
  shows "stored (it\<lparr>item_State := st, item_UpdatedAt := env_now env\<rparr>) a' \<and>
    a' = a\<lparr>app_history := app_history a'\<rparr>"
proof -
  obtain idx where idx: "findIndexByIDLocked (app_history a) (item_ID it) = Some idx"
    "idx < length (mgr_items (app_history a))" "mgr_items (app_history a) ! idx = it"
    using GetByID_nth [of "app_history a" "item_ID it" it] assms(1) by (auto simp: stored_def)
  let ?it' = "it\<lparr>item_State := st, item_UpdatedAt := env_now env\<rparr>"
  have m': "app_history a' = writeItem idx ?it' (app_history a)" and a': "a' = a\<lparr>app_history := app_history a'\<rparr>"
    using assms(2) idx
    by (auto simp: historyUpdateState_def UpdateState_def Let_def split: if_splits prod.splits)
  have inv: "mgr_inv (app_history a')"
    using assms UpdateState_inv [of "app_history a" "env_now env" "item_ID it" st]
    by (auto simp: historyUpdateState_def stored_def split: prod.splits)
  then have "GetByID (item_ID it) (app_history a') = Some ?it'"
    using GetByID_writeItem [of "app_history a" idx ?it' "item_ID it" it] assms(1) idx m' by (simp add: stored_def)
  then show ?thesis using inv a' by (simp add: stored_def)
qed

lemma single_request [simp]: "isSingleRouteClipboardType (cd_Type (NewClipboardDataWithPayload f TypeFileRequest r))"
  by (simp add: isSingleRouteClipboardType_def NewClipboardDataWithPayload_def)

text \<open>What is kept while the incoming transfer is set up.\<close>

definition same_side :: "App \<Rightarrow> App \<Rightarrow> bool" where
  "same_side a b \<longleftrightarrow> app_history b = app_history a \<and> app_outbox b = app_outbox a \<and> e2eeKey b = e2eeKey a \<and>
     appSessionID b = appSessionID a"

lemma same_side_updates:
  "same_side a (updateIncoming i f a)" "same_side a (fst (RegisterIncoming m j n a))"
  by (auto simp: same_side_def updateIncoming_def mutateIncoming_def RegisterIncoming_def setIncoming_def e2eeKey_def
      appSessionID_def SessionID_def Let_def split: option.split)

lemma same_side_trans: "same_side a b \<Longrightarrow> same_side b c \<Longrightarrow> same_side a c"
  by (simp add: same_side_def)

definition fileRequestFor :: "App \<Rightarrow> FileStubManifest \<Rightarrow> HistoryItem \<Rightarrow> FileRequest" where
  "fileRequestFor a m it =
     \<lparr>req_TransferID = man_TransferID m, req_EntryID = man_EntryID m, req_TargetSessionID = appSessionID a,
      req_ResumeFromChunk = (if item_State it = StateFailed \<and> item_LastChunkIdx it \<ge> 0
                             then item_LastChunkIdx it + 1 else 0)\<rparr>"

lemma request_effect:
  assumes "requestFileTransfer env it a = (a', None)" "stored it a" "decodeManifest (item_Payload it) = Some m"
    and "\<forall>t. GetIncoming (man_TransferID m) a = Some t \<longrightarrow> \<not> in_RequestActive t" "item_State it \<noteq> StateDownloading"
  shows "stored (it\<lparr>item_State := StateDownloading, item_UpdatedAt := env_now env\<rparr>) a' \<and>
    (\<exists>d b. app_outbox a' = app_outbox a @ [d] \<and> e2eeKey b = e2eeKey a \<and>
       messageBody env b (NewClipboardDataWithPayload requestJSON TypeFileRequest (fileRequestFor a m it)) =
         Inr (deliveryBody d))"
proof -
  let ?tid = "man_TransferID m" and ?data = "NewClipboardDataWithPayload requestJSON TypeFileRequest (fileRequestFor a m it)"
  let ?resume = "if item_State it = StateFailed \<and> item_LastChunkIdx it \<ge> 0 then item_LastChunkIdx it + 1 else 0"
  let ?activate = "\<lambda>t. t\<lparr>in_RequestedResumeFrom := ?resume, in_RequestActive := True\<rparr>"
  let ?a1 = "case GetIncoming ?tid a of
      Some _ \<Rightarrow> updateIncoming ?tid (\<lambda>t. ?activate (t\<lparr>in_Manifest := m\<rparr>)) a
    | None \<Rightarrow> updateIncoming ?tid ?activate (fst (RegisterIncoming m (item_ID it) (item_LastChunkIdx it) a))"
  have a1: "same_side a ?a1"
    using same_side_updates(1) same_side_trans [OF same_side_updates(2) same_side_updates(1)]
    by (auto split: option.split)
  have inactive: "\<not> (case GetIncoming ?tid a of None \<Rightarrow> False | Some t \<Rightarrow> in_RequestActive t)"
    using assms(4) by (auto split: option.split)
  have req: "\<lparr>req_TransferID = ?tid, req_EntryID = man_EntryID m, req_TargetSessionID = appSessionID ?a1,
      req_ResumeFromChunk = ?resume\<rparr> = fileRequestFor a m it"
    using a1 by (simp add: fileRequestFor_def same_side_def)
  obtain a2 ok where up: "historyUpdateState env (item_ID it) StateDownloading ?a1 = (a2, ok)" by fastforce
  note run = assms(1) [unfolded requestFileTransfer_def Let_def assms(3) option.case(2) if_not_P [OF inactive] req up prod.case]
  have ok: ok and send: "sendClipboardData env ?data a2 = (a', None)"
    using run assms(5) by (auto split: if_splits prod.splits option.splits)
  have st: "stored it ?a1" using assms(2) a1 by (simp add: stored_def same_side_def)
  note u = UpdateState_stored [OF st up [unfolded ok [THEN eqTrueI]]]
  have "app_outbox a2 = app_outbox ?a1" "e2eeKey a2 = e2eeKey ?a1"
    by (subst conjunct2 [OF u], simp add: e2eeKey_def)+
  then have a2: "app_outbox a2 = app_outbox a" "e2eeKey a2 = e2eeKey a"
    using a1 by (simp_all add: same_side_def)
  obtain body d where d: "messageBody env a2 ?data = Inr body" "deliveryBody d = body"
    "a' = a2\<lparr>app_randomNo := Suc (app_randomNo a2), app_sendNo := Suc (app_sendNo a2), app_outbox := app_outbox a2 @ [d]\<rparr>"
    using send_single_ok [OF single_request send] by blast
  have "stored (it\<lparr>item_State := StateDownloading, item_UpdatedAt := env_now env\<rparr>) a'"
    using u d(3) by (simp add: stored_def)
  moreover have "app_outbox a' = app_outbox a @ [d]" using d(3) a2(1) by simp
  ultimately show ?thesis using d(1,2) a2(2) by blast
qed


text \<open>Pasting a file that is only offered asks its source for it once and remembers the paste. When the replay
  of a file offer for its real content succeeds, one request for the file went out, which every device with the
  same key reads as such; the item is downloading and marked for a paste of its real content (which
  the completion of the transfer carries out), and the clipboard is as it was.\<close>
theorem paste_of_offer_requests_file:
  assumes "ReplaySharedClipboardItem env ReplayModeSystemClipboardPaste a = (a', Inr r)" "mgr_inv (app_history a)"
    and "resolveSharedReplayItem a = Some it" "item_Type it = TypeFileStub" "item_State it \<in> {StateOffered, StateFailed}"
    and "decodeManifest (item_Payload it) = Some m" "crypto_ok env a"
    and "\<forall>t. GetIncoming (man_TransferID m) a = Some t \<longrightarrow> \<not> in_RequestActive t"
    and "item_ReservedPaths it \<noteq> []" "request_ok (fileRequestFor a m it)"
  shows "rr_Action r = replayActionDownloadRequested \<and> app_clipWrites a' = app_clipWrites a \<and>
    (\<exists>it'. GetByID (item_ID it) (app_history a') = Some it' \<and> item_State it' = StateDownloading \<and>
       item_PendingReplayMode it' = ReplayModeSystemClipboardPaste) \<and>
    (\<exists>d. app_outbox a' = app_outbox a @ [d] \<and>
       (\<forall>b. e2eeKey b = e2eeKey a \<longrightarrow> openMessage env b (deliveryBody d) =
          Some (NewClipboardDataWithPayload requestJSON TypeFileRequest (fileRequestFor a m it))))"
proof -
  let ?sys = ReplayModeSystemClipboardPaste
  have st: "stored it a" by (rule resolve_stored [OF assms(2,3)])
  have "replayLazyRealClipboard env it a = (a', Inr r)"
    using assms(1,3,4)
    by (auto simp: ReplaySharedClipboardItem_def replayItem_def replayLazyClipboardItem_def Let_def split: if_splits)
  then obtain a2 it2 where pend: "storePendingReplayMode env it ?sys a = (a2, Inr it2)"
    and req: "requestFileTransfer env it2 a2 = (a', None)"
    and r: "r = replayResult replayActionDownloadRequested it2 ?sys ''Started transfer for real content clipboard copy''"
    using assms(5,9)
    by (auto simp: replayLazyRealClipboard_def ensureReplayTargetPaths_def Let_def
        split: if_splits prod.splits sum.splits option.splits)
  note it2 = storePending_stored [OF st pend]
  obtain h where a2: "a2 = a\<lparr>app_history := h\<rparr>"
    using pend by (auto simp: storePendingReplayMode_def historyMutate_def split: prod.splits)
  have same: "GetIncoming i a2 = GetIncoming i a" "appSessionID a2 = appSessionID a" "e2eeKey a2 = e2eeKey a"
    "app_outbox a2 = app_outbox a" for i
    by (simp_all add: a2 GetIncoming_def appSessionID_def e2eeKey_def)
  have fr: "fileRequestFor a2 m it2 = fileRequestFor a m it"
    using it2 same(2) by (simp add: fileRequestFor_def)
  have "\<forall>t. GetIncoming (man_TransferID m) a2 = Some t \<longrightarrow> \<not> in_RequestActive t" using assms(8) same(1) by simp
  moreover have "decodeManifest (item_Payload it2) = Some m" "item_State it2 \<noteq> StateDownloading" using it2 assms(5,6) by auto
  ultimately obtain d b where down: "stored (it2\<lparr>item_State := StateDownloading, item_UpdatedAt := env_now env\<rparr>) a'"
    and d: "app_outbox a' = app_outbox a @ [d]" "e2eeKey b = e2eeKey a"
      "messageBody env b (NewClipboardDataWithPayload requestJSON TypeFileRequest (fileRequestFor a m it)) = Inr (deliveryBody d)"
    using request_effect [OF req, of m] it2 same fr by auto
  let ?data = "NewClipboardDataWithPayload requestJSON TypeFileRequest (fileRequestFor a m it)"
  have "sanitizeClipboard ?data = ?data"
    using EncodePayload_utf8 [of requestJSON, OF payloads_wf(3) [OF assms(10)]]
    by (simp add: NewClipboardDataWithPayload_def sanitize_payload)
  moreover have "clipboard_ints_ok ?data"
    by (simp add: clipboard_ints_ok_def NewClipboardDataWithPayload_def zeroClipboard_def)
  ultimately have "openMessage env c (deliveryBody d) = Some ?data" if "e2eeKey c = e2eeKey a" for c
    using openMessage_body [OF d(3), of c] assms(7) crypto_ok_key [OF d(2), of env] that d(2) by simp
  moreover have "app_clipWrites a' = app_clipWrites a"
    using requestFileTransfer_clip [OF req] it2 by (simp add: clip_view_def)
  moreover have "\<exists>it'. GetByID (item_ID it) (app_history a') = Some it' \<and> item_State it' = StateDownloading \<and>
      item_PendingReplayMode it' = ?sys"
    using down it2 by (auto simp: stored_def)
  ultimately show ?thesis using d(1) r by (auto simp: replayResult_def)
qed


definition sampleOffer :: HistoryItem where
  "sampleOffer = (sampleItem ''i'' TypeFileStub StateOffered 5)\<lparr>item_ReservedPaths := [''/t/ClipCascade/f.txt''],
     item_TransferID := ''t1'', item_Payload := EncodePayload manifestJSON (sampleManifest ''t1'')\<rparr>"

definition sampleOffered :: App where
  "sampleOffered = (sampleApp ''d'')\<lparr>app_history := sampleManager [sampleOffer], app_sharedID := ''i''\<rparr>"

lemma sample_sends: "e2eeKey a = None \<Longrightarrow> app_hasP2P a \<Longrightarrow> snd (sendClipboardData sampleEnv cd a) = None"
  by (auto simp: sendClipboardData_def sendClipboardDataWithResult_def messageBody_def e2eeKey_def
      dispatchClipboardBodyDetailed_def dispatchClipboardBodySingleRoute_def Let_def
      split: prod.splits option.splits if_splits)

lemma sampleManifest_decodes: "decodeManifest (EncodePayload manifestJSON (sampleManifest ''t1'')) = Some (sampleManifest ''t1'')"
  by (rule manifest_roundtrip)
    (auto simp: manifest_ok_def sampleManifest_def int64_range_def asciiStr_def const_defs intro!: ascii_toValidUTF8)

lemma sampleOffered_run:
  "\<exists>a' r. ReplaySharedClipboardItem sampleEnv ReplayModeSystemClipboardPaste sampleOffered = (a', Inr r)"
proof -
  let ?it = "sampleOffer\<lparr>item_PendingReplayMode := ReplayModeSystemClipboardPaste, item_UpdatedAt := 7\<rparr>"
  have resolve: "resolveSharedReplayItem sampleOffered = Some sampleOffer"
    by (simp add: resolveSharedReplayItem_def sharedClipboardHistoryItem_def canReplayHistoryItem_def sampleOffered_def
        sampleOffer_def hist_eval GetByID_def getByIDLocked_def)
  obtain a2 where pend: "storePendingReplayMode sampleEnv sampleOffer ReplayModeSystemClipboardPaste sampleOffered = (a2, Inr ?it)"
    and a2: "a2 = sampleOffered\<lparr>app_history := sampleManager [?it]\<rparr>"
    by (simp add: storePendingReplayMode_def historyMutate_def Mutate_def sampleOffered_def sampleOffer_def hist_eval
        first_index.simps samplePaths_def Let_def)
  let ?up = "\<lambda>a. historyUpdateState sampleEnv ''i'' StateDownloading a"
  have "\<exists>a'. requestFileTransfer sampleEnv ?it a2 = (a', None)"
  proof -
    let ?a1 = "updateIncoming ''t1'' (\<lambda>t. t\<lparr>in_RequestedResumeFrom := 0, in_RequestActive := True\<rparr>)
        (fst (RegisterIncoming (sampleManifest ''t1'') ''i'' (- 1) a2))"
    have inc: "GetIncoming ''t1'' a2 = None"
      by (simp add: GetIncoming_def a2 sampleOffered_def sampleApp_def newTransferManager_def)
    have fields: "item_Payload ?it = EncodePayload manifestJSON (sampleManifest ''t1'')" "item_State ?it = StateOffered"
      "item_ID ?it = ''i''" "item_LastChunkIdx ?it = - 1" "man_TransferID (sampleManifest ''t1'') = ''t1''"
      by (simp_all add: sampleOffer_def sampleItem_def sampleManifest_def)
    obtain a3 ok where up: "?up ?a1 = (a3, ok)" by fastforce
    have hist: "app_history ?a1 = sampleManager [?it]" and key: "e2eeKey ?a1 = None" and p2p: "app_hasP2P ?a1"
      by (simp_all add: a2 sampleOffered_def updateIncoming_def mutateIncoming_def RegisterIncoming_def Let_def
          setIncoming_def sampleApp_def newTransferManager_def e2eeKey_def sampleConfig_def)
    have "ok" "e2eeKey a3 = None" "app_hasP2P a3"
      using up hist key p2p
      by (auto simp: historyUpdateState_def UpdateState_def sampleOffer_def hist_eval first_index.simps e2eeKey_def Let_def)
    then show ?thesis
      using up inc fields sampleManifest_decodes sample_sends [of a3]
      by (simp add: requestFileTransfer_def Let_def split: prod.splits option.splits)
        (metis option.distinct(1) snd_conv)
  qed
  moreover have "item_Type sampleOffer = TypeFileStub" "item_State sampleOffer = StateOffered"
    "item_ReservedPaths sampleOffer \<noteq> []" "app_hasClip sampleOffered"
    by (simp_all add: sampleOffer_def sampleItem_def sampleOffered_def sampleApp_def)
  ultimately show ?thesis using pend
    by (auto simp: ReplaySharedClipboardItem_def resolve replayItem_def replayLazyClipboardItem_def Let_def
        replayLazyRealClipboard_def ensureReplayTargetPaths_def)
qed

theorem paste_of_offer_requests_file_witness:
  "\<exists>a' r d. ReplaySharedClipboardItem sampleEnv ReplayModeSystemClipboardPaste sampleOffered = (a', Inr r) \<and>
     app_outbox a' = [d] \<and>
     openMessage sampleEnv (sampleApp ''source'') (deliveryBody d) =
       Some (NewClipboardDataWithPayload requestJSON TypeFileRequest
         (fileRequestFor sampleOffered (sampleManifest ''t1'') sampleOffer))"
proof -
  obtain a' r where run: "ReplaySharedClipboardItem sampleEnv ReplayModeSystemClipboardPaste sampleOffered = (a', Inr r)"
    using sampleOffered_run by blast
  have inv: "mgr_inv (app_history sampleOffered)" and resolve: "resolveSharedReplayItem sampleOffered = Some sampleOffer"
    by (simp_all add: resolveSharedReplayItem_def sharedClipboardHistoryItem_def canReplayHistoryItem_def sampleOffered_def
        sampleOffer_def hist_eval GetByID_def getByIDLocked_def)
  have item: "item_Type sampleOffer = TypeFileStub" "item_State sampleOffer \<in> {StateOffered, StateFailed}"
    "decodeManifest (item_Payload sampleOffer) = Some (sampleManifest ''t1'')" "item_ReservedPaths sampleOffer \<noteq> []"
    using sampleManifest_decodes by (simp_all add: sampleOffer_def sampleItem_def)
  have key: "e2eeKey sampleOffered = None" "app_outbox sampleOffered = []"
    by (simp_all add: e2eeKey_def sampleOffered_def sampleApp_def sampleConfig_def)
  have inactive: "\<forall>t. GetIncoming (man_TransferID (sampleManifest ''t1'')) sampleOffered = Some t \<longrightarrow> \<not> in_RequestActive t"
    by (simp add: GetIncoming_def sampleOffered_def sampleApp_def newTransferManager_def)
  have "appSessionID sampleOffered = ''d''" by (simp add: appSessionID_def sampleOffered_def sampleApp_def)
  then have "request_ok (fileRequestFor sampleOffered (sampleManifest ''t1'') sampleOffer)"
    by (auto simp: request_ok_def fileRequestFor_def sampleManifest_def sampleOffer_def sampleItem_def int64_range_def
        asciiStr_def intro!: ascii_toValidUTF8)
  note paste_of_offer_requests_file [OF run inv resolve item(1-3) _ inactive item(4) this]
  then show ?thesis using run key by (fastforce simp: crypto_ok_def)
qed


section \<open>Images\<close>

lemma historyMutate_fs: "historyMutate env i f a = (a', r) \<Longrightarrow> app_fs a' = app_fs a"
  by (auto simp: historyMutate_def split: prod.splits)

lemma ensurePaths_fs: "ensureReplayTargetPaths env it a = (a', r) \<Longrightarrow> app_fs a' = app_fs a"
  by (auto simp: ensureReplayTargetPaths_def split: option.splits if_splits sum.splits dest: historyMutate_fs)

lemma imageTarget_stored:
  assumes "imageTarget env it a = (a1, Inr (it', p))" "stored it a"
  shows "stored it' a1 \<and> item_ID it' = item_ID it \<and> item_Type it' = item_Type it \<and> item_State it' = item_State it \<and>
    app_fs a1 = app_fs a \<and> (\<exists>q. normalizeReplayTargetPath (env_paths env) q = Inr p)"
proof (cases "item_ReservedPaths it = [] \<and> item_LocalPaths it = []")
  case True
  then obtain it1 where p: "ensureReplayTargetPaths env (Some it) a = (a1, Inr it1)" "it' = it1"
    "\<exists>q. normalizeReplayTargetPath (env_paths env) q = Inr p"
    using assms(1) by (auto simp: imageTarget_def Let_def split: prod.splits sum.splits list.splits)
  then show ?thesis using ensurePaths_stored [OF assms(2) p(1)] ensurePaths_fs [OF p(1)] by simp
next
  case False
  then show ?thesis using assms
    by (auto simp: imageTarget_def Let_def split: list.splits sum.splits)
qed

lemma setImagePath_stored:
  assumes "setImagePath env it p a = (a', Inr it')" "stored it a"
  shows "stored it' a' \<and> item_ID it' = item_ID it \<and> item_Type it' = item_Type it \<and> item_State it' = item_State it \<and>
    item_LocalPaths it' = [p] \<and> item_ReservedPaths it' = [p] \<and> app_fs a' = app_fs a"
proof -
  let ?f = "\<lambda>next. Inr (next\<lparr>item_LocalPaths := [p], item_ReservedPaths := [p], item_UpdatedAt := env_now env\<rparr>)"
  have m: "historyMutate env (item_ID it) ?f a = (a', Inr it')" using assms(1) by (simp add: setImagePath_def)
  have "stable_fn ?f" by (simp add: stable_fn_def)
  from historyMutate_stored [OF assms(2) this m] historyMutate_fs [OF m] show ?thesis by auto
qed

lemma stored_fs [simp]: "stored it (a\<lparr>app_fs := fs\<rparr>) = stored it a"
  by (simp add: stored_def)

text \<open>A file whose bytes are the image, or have its size and digest already.\<close>

definition holds_image :: "Env \<Rightarrow> FS \<Rightarrow> FS \<Rightarrow> string \<Rightarrow> bytes \<Rightarrow> bool" where
  "holds_image env old fs p data \<longleftrightarrow>
     (\<exists>B. fs p = Some (NFile B) \<and> length B = length data \<and> sha256hex env B = sha256hex env data \<and>
        (B = data \<or> old p = Some (NFile B)))"

lemma materialize_stored:
  assumes "materializeImageNow env it a = (a', Inr it')" "stored it a" "env_faults env = noFaults"
    and "item_Payload it \<noteq> ''''" "DecodeString (item_Payload it) = Some data"
  shows "\<exists>p. stored it' a' \<and> item_ID it' = item_ID it \<and> item_Type it' = TypeImage \<and> item_State it' = item_State it \<and>
    item_LocalPaths it' = [p] \<and> item_ReservedPaths it' = [p] \<and> holds_image env (app_fs a) (app_fs a') p data \<and>
    (\<exists>q. normalizeReplayTargetPath (env_paths env) q = Inr p)"
proof -
  obtain a1 it1 p where t: "imageTarget env it a = (a1, Inr (it1, p))" and ty: "item_Type it = TypeImage"
    using assms(1,4,5) by (auto simp: materializeImageNow_def split: if_splits prod.splits sum.splits)
  note it1 = imageTarget_stored [OF t assms(2)]
  let ?match = "\<exists>b. app_fs a1 p = Some (NFile b) \<and> int (length b) = int (length data) \<and> sha256hex env b = sha256hex env data"
  have m: "fileMatchesBytes env (app_fs a1) p data = Inr ?match"
    by (simp add: fileMatchesBytes_def fileMatches_content [OF assms(3)])
  show ?thesis
  proof (cases ?match)
    case True
    then have set: "setImagePath env it1 p a1 = (a', Inr it')"
      using assms(1,4,5) ty t m by (simp add: materializeImageNow_def)
    have "holds_image env (app_fs a) (app_fs a1) p data" using True it1 by (auto simp: holds_image_def)
    with setImagePath_stored [OF set] it1 ty show ?thesis by (intro exI [of _ p]) simp
  next
    case False
    let ?fs1 = "makeDirs (DirOf p) (app_fs a1)"
    have m2: "fileMatchesBytes env (app_fs a1) p data = Inr False" using m False by simp
    have run: "(case os_WriteFile noFaults p data ?fs1 of
           (fs2, Some err) \<Rightarrow> (a1\<lparr>app_fs := fs2\<rparr>, Inl err)
         | (fs2, None) \<Rightarrow> setImagePath env it1 p (a1\<lparr>app_fs := fs2\<rparr>)) = (a', Inr it')"
      using assms(1,3,4,5) ty t m2 by (simp add: materializeImageNow_def os_MkdirAll_def)
    then obtain fs2 where w: "os_WriteFile noFaults p data ?fs1 = (fs2, None)"
      and set: "setImagePath env it1 p (a1\<lparr>app_fs := fs2\<rparr>) = (a', Inr it')"
      by (auto split: prod.splits option.splits)
    have "?fs1 p \<noteq> Some NDir"
      using w by (auto simp: os_WriteFile_def os_Write_def)
    then have "fs2 p = Some (NFile data)" using w
      by (auto simp: os_WriteFile_def os_Write_def Let_def split: if_splits option.splits node.splits)
    then have "holds_image env (app_fs a) fs2 p data" by (simp add: holds_image_def)
    with setImagePath_stored [OF set] it1 ty show ?thesis by (intro exI [of _ p]) simp
  qed
qed

lemma stage_fs: "stageHistoryItemRealClipboard env it a = (a1, e) \<Longrightarrow> app_fs a1 = app_fs a"
  by (auto simp: stageHistoryItemRealClipboard_def clipboardWrite_def rememberReplayClipboardWrite_def Let_def
      split: if_splits option.splits)

lemma mark_fs: "markConsumed env needed it result a = (a', r) \<Longrightarrow> app_fs a' = app_fs a"
  by (auto simp: markConsumed_def historyUpdateState_def split: if_splits prod.splits bool.splits)

lemma immediate_fs:
  "replayLazyImmediate env it a = (a', Inr r) \<Longrightarrow> rr_Action r = replayActionClipboardStaged \<Longrightarrow> app_fs a' = app_fs a"
  by (auto simp: replayLazyImmediate_def replayResult_def Let_def
      split: if_splits prod.splits option.splits dest!: stage_fs mark_fs)

lemma real_fs:
  "replayLazyRealClipboard env it a = (a', Inr r) \<Longrightarrow> rr_Action r = replayActionClipboardStaged \<Longrightarrow> app_fs a' = app_fs a"
  by (auto simp: replayLazyRealClipboard_def stageRealClipboardContent_def replayResult_def Let_def
      split: if_splits prod.splits option.splits sum.splits dest!: stage_fs mark_fs ensurePaths_fs)

text \<open>A received image, which is only kept in memory, is written to a file when its real content is first
  pasted, and this file is what goes on the clipboard: after a replay of an image (not of its path) that
  succeeds, one file inside the replay directory was put on the clipboard, it holds exactly the decoded image
  (or had the same size and digest already), and the item is consumed.\<close>
theorem image_replay_places_image:
  assumes "ReplaySharedClipboardItem env mode a = (a', Inr r)" "mgr_inv (app_history a)" "env_faults env = noFaults"
    and "resolveSharedReplayItem a = Some it" "item_Type it = TypeImage" "DecodeString (item_Payload it) = Some data"
    and "item_State it \<in> {StateReady, StateConsumed}" "item_Payload it \<noteq> ''''" "mode \<noteq> ReplayModePathPlaceholderPaste"
  shows "\<exists>p q. app_clipWrites a' = app_clipWrites a @ [StageFiles [p]] \<and> consumed it a' \<and>
    normalizeReplayTargetPath (env_paths env) q = Inr p \<and> holds_image env (app_fs a) (app_fs a') p data"
proof -
  have st: "stored it a" by (rule resolve_stored [OF assms(2,4)])
  let ?mode = "if mode = ReplayModeNone then ReplayModeClipboardImmediate else mode"
  have "replayLazyClipboardItem env it ?mode a = (a', Inr r)"
    using assms(1,4,5) by (auto simp: ReplaySharedClipboardItem_def replayItem_def Let_def split: if_splits)
  then obtain a1 it1 where mat: "materializeImageNow env it a = (a1, Inr it1)"
    and run: "replayLazyImmediate env it1 a1 = (a', Inr r) \<or> replayLazyRealClipboard env it1 a1 = (a', Inr r)"
    using assms(5,8,9)
    by (auto simp: replayLazyClipboardItem_def ensureImageMaterialized_def split: if_splits prod.splits sum.splits)
  obtain p q where it1: "stored it1 a1" "item_ID it1 = item_ID it" "item_Type it1 = TypeImage"
    "item_State it1 = item_State it" "item_LocalPaths it1 = [p]" "item_ReservedPaths it1 = [p]"
    "holds_image env (app_fs a) (app_fs a1) p data" "normalizeReplayTargetPath (env_paths env) q = Inr p"
    using materialize_stored [OF mat st assms(3,8,6)] by blast
  have "replay_effect it1 a1 a' r" using run immediate_effect [OF _ it1(1)] real_effect [OF _ it1(1)] by blast
  then have eff: "consumed it1 a'" "writes a1 a' [StageFiles [p]]" "rr_Action r = replayActionClipboardStaged"
    using it1(3-5) assms(7) by (auto simp: replay_effect_def stagedPaths_def split: if_splits)
  have "app_fs a' = app_fs a1" using run immediate_fs real_fs eff(3) by blast
  moreover have "app_clipWrites a1 = app_clipWrites a" using materialize_clip [OF mat] by (simp add: clip_view_def)
  ultimately show ?thesis using eff(1,2) it1(2,7,8) by (auto simp: consumed_def writes_def)
qed

definition samplePicture :: App where
  "samplePicture = (sampleApp ''d'')\<lparr>app_history := sampleManager
     [(sampleItem ''i'' TypeImage StateReady 5)\<lparr>item_Payload := ''QUJD'', item_ReservedPaths := [''/t/ClipCascade/a.png'']\<rparr>],
     app_sharedID := ''i''\<rparr>"

lemma samplePicture_run:
  "\<exists>a' r. ReplaySharedClipboardItem sampleEnv ReplayModeSystemClipboardPaste samplePicture = (a', Inr r)"
proof -
  have p: "normalizeReplayTargetPath samplePaths ''/t/ClipCascade/a.png'' = Inr ''/t/ClipCascade/a.png''" by code_simp
  have d: "DecodeString ''QUJD'' = Some ''ABC''" by code_simp
  have "makeDirs (DirOf ''/t/ClipCascade/a.png'') Map.empty ''/t/ClipCascade/a.png'' = None"
    by (subst makeDirs_frame) code_simp+
  then show ?thesis
    by (auto simp: ReplaySharedClipboardItem_def resolveSharedReplayItem_def sharedClipboardHistoryItem_def
      canReplayHistoryItem_def replayItem_def replayLazyClipboardItem_def ensureImageMaterialized_def
      materializeImageNow_def imageTarget_def p d fileMatchesBytes_def fileMatches_content os_MkdirAll_def
      os_WriteFile_def os_Write_def setImagePath_def historyMutate_def Mutate_def
      replayLazyRealClipboard_def
      ensureReplayTargetPaths_def stageRealClipboardContent_def stageHistoryItemRealClipboard_def clipboardWrite_def
      isClipboardWriteAllowed_def rememberReplayClipboardWrite_def markConsumed_def shouldMarkFileReplayConsumed_def
      historyUpdateState_def replayResult_def samplePicture_def sampleApp_def hist_eval Let_def
      UpdateState_def)
qed

theorem image_replay_places_image_witness:
  "\<exists>a' r p. ReplaySharedClipboardItem sampleEnv ReplayModeSystemClipboardPaste samplePicture = (a', Inr r) \<and>
     app_clipWrites a' = [StageFiles [p]] \<and> app_fs a' p = Some (NFile ''ABC'')"
proof -
  let ?it = "(sampleItem ''i'' TypeImage StateReady 5)\<lparr>item_Payload := ''QUJD'', item_ReservedPaths := [''/t/ClipCascade/a.png'']\<rparr>"
  obtain a' r where run: "ReplaySharedClipboardItem sampleEnv ReplayModeSystemClipboardPaste samplePicture = (a', Inr r)"
    using samplePicture_run by blast
  have hist: "resolveSharedReplayItem samplePicture = Some ?it" "mgr_inv (app_history samplePicture)"
    by (simp_all add: resolveSharedReplayItem_def sharedClipboardHistoryItem_def canReplayHistoryItem_def samplePicture_def
        hist_eval)
  have d: "DecodeString ''QUJD'' = Some ''ABC''" by code_simp
  have "\<exists>p q. app_clipWrites a' = app_clipWrites samplePicture @ [StageFiles [p]] \<and> consumed ?it a' \<and>
    normalizeReplayTargetPath (env_paths sampleEnv) q = Inr p \<and>
    holds_image sampleEnv (app_fs samplePicture) (app_fs a') p ''ABC''"
    by (rule image_replay_places_image [OF run hist(2) _ hist(1)]) (simp_all add: sampleItem_def d)
  then show ?thesis using run by (auto simp: holds_image_def samplePicture_def sampleApp_def)
qed

end
