(* ===== verification/StompClient.thy ===== *)
theory StompClient
  imports ConnRegistry Stomp FileSys
begin

text \<open>
  The STOMP client of the desktop program (\<open>desktop/transport/stomp_client.go\<close>): connecting, sending, closing,
  and the loop that reads frames, with its heartbeat. Dialing, the answers of the server and URL parsing are
  arguments; what the client does on its connection is the list of its outputs. The loop is one step per
  message that was read, and per tick of the heartbeat; a goroutine that has ended is a flag.
\<close>

section \<open>The client\<close>

text \<open>The parts of a parsed URL the clients use (\<open>net/url\<close>).\<close>

record URL =
  url_Scheme :: string
  url_Host :: string

record StompClient =
  sc_serverURL :: string
  sc_cookies :: "string list"
  sc_conn :: "conn option"
  sc_done :: bool
  sc_subscribed :: bool
  sc_loop :: "conn option"
  sc_heart :: "conn option"

definition NewStompClient :: "string \<Rightarrow> string list \<Rightarrow> StompClient" where
  "NewStompClient serverURL cookies =
     \<lparr>sc_serverURL = serverURL, sc_cookies = cookies, sc_conn = None, sc_done = False, sc_subscribed = False,
      sc_loop = None, sc_heart = None\<rparr>"

datatype sc_out = Dial string "string list" | SendText conn bytes | SendPing conn | CloseSocket conn
  | ReadDeadline conn gotime | Deliver string

definition buildWSURL :: "(string \<Rightarrow> URL result) \<Rightarrow> string \<Rightarrow> string result" where
  "buildWSURL urlParse serverURL =
     (case urlParse serverURL of
        Inl err \<Rightarrow> Inl err
      | Inr u \<Rightarrow> Inr ((if hasPrefix (url_Scheme u) ''https'' then ''wss'' else ''ws'') @
                       ''://'' @ url_Host u @ ''/clipsocket''))"

text \<open>How the network answers one attempt: the dial, the two writes, and the first message.\<close>

record Handshake =
  hs_dial :: "conn result"
  hs_writeConnect :: "goerror option"
  hs_read :: "bytes result"
  hs_writeSubscribe :: "goerror option"

definition Connect ::
  "(string \<Rightarrow> URL result) \<Rightarrow> (Frame \<Rightarrow> string list) \<Rightarrow> Handshake \<Rightarrow> StompClient \<Rightarrow>
     StompClient \<times> sc_out list \<times> goerror option"
where
  "Connect urlParse ord hs sc =
     (case buildWSURL urlParse (sc_serverURL sc) of
        Inl err \<Rightarrow> (sc, [], Some (''invalid server URL: '' @ err))
      | Inr wsURL \<Rightarrow>
          (let dial = Dial wsURL (sc_cookies sc) in
           case hs_dial hs of
             Inl err \<Rightarrow> (sc, [dial], Some (''websocket dial: '' @ err))
           | Inr c \<Rightarrow>
               (let sc1 = sc\<lparr>sc_conn := Some c\<rparr>;
                    connectFrame = ConnectFrame ''1.1'' ''localhost'';
                    out1 = [dial, SendText c (Encode (ord connectFrame) connectFrame)] in
                case hs_writeConnect hs of
                  Some err \<Rightarrow> (sc1, out1 @ [CloseSocket c], Some (''STOMP CONNECT: '' @ err))
                | None \<Rightarrow>
                    (case hs_read hs of
                       Inl err \<Rightarrow> (sc1, out1 @ [CloseSocket c], Some (''reading CONNECTED: '' @ err))
                     | Inr msg \<Rightarrow>
                         (let accepted = (case ParseFrame msg of Inl _ \<Rightarrow> False
                                          | Inr frame \<Rightarrow> frame_Command frame = ''CONNECTED'') in
                          if \<not> accepted
                          then (sc1, out1 @ [CloseSocket c], Some (''expected CONNECTED, got: '' @ msg))
                          else
                            (let subFrame = SubscribeFrame ''sub-0'' ''/user/queue/cliptext'';
                                 out2 = out1 @ [SendText c (Encode (ord subFrame) subFrame)] in
                             case hs_writeSubscribe hs of
                               Some err \<Rightarrow> (sc1, out2 @ [CloseSocket c], Some (''STOMP SUBSCRIBE: '' @ err))
                             | None \<Rightarrow> (sc1\<lparr>sc_subscribed := True\<rparr>, out2, None)))))))"

definition Send ::
  "(Frame \<Rightarrow> string list) \<Rightarrow> goerror option \<Rightarrow> string \<Rightarrow> StompClient \<Rightarrow> sc_out list \<times> goerror option" where
  "Send ord writeErr body sc =
     (case sc_conn sc of
        None \<Rightarrow> ([], Some ''not connected'')
      | Some c \<Rightarrow>
          (let sendFrame = SendFrame ''/app/cliptext'' body in
           ([SendText c (Encode (ord sendFrame) sendFrame)], writeErr)))"

definition Close :: "(Frame \<Rightarrow> string list) \<Rightarrow> StompClient \<Rightarrow> StompClient \<times> sc_out list" where
  "Close ord sc =
     (sc\<lparr>sc_done := True, sc_conn := None, sc_subscribed := False\<rparr>,
      case sc_conn sc of
        None \<Rightarrow> []
      | Some c \<Rightarrow> (let disc = NewFrame ''DISCONNECT'' in [SendText c (Encode (ord disc) disc), CloseSocket c]))"

definition IsConnected :: "StompClient \<Rightarrow> bool" where
  "IsConnected sc \<longleftrightarrow> sc_conn sc \<noteq> None \<and> sc_subscribed sc"

section \<open>The reading loop\<close>

definition heartbeatInterval :: gotime where "heartbeatInterval = 30 * 1000000000"
definition readTimeout :: gotime where "readTimeout = 120 * 1000000000"

text \<open>
  \<open>readStart\<close> is the loop up to its first read, \<open>readLoop\<close> one round of it (the read, the handling, the check
  at the top of the next round), \<open>readPong\<close> the pong handler, \<open>heartbeatTick\<close> one tick of the heartbeat.
\<close>

definition readEnd :: "StompClient \<Rightarrow> StompClient \<times> sc_out list" where
  "readEnd sc =
     (case sc_loop sc of
        None \<Rightarrow> (sc, [])
      | Some c \<Rightarrow> (sc\<lparr>sc_subscribed := False, sc_conn := (if sc_conn sc = Some c then None else sc_conn sc),
                      sc_loop := None, sc_heart := None\<rparr>, [CloseSocket c]))"

definition readNext :: "sc_out list \<Rightarrow> StompClient \<Rightarrow> StompClient \<times> sc_out list" where
  "readNext outs sc = (if sc_done sc then (case readEnd sc of (sc', o') \<Rightarrow> (sc', outs @ o')) else (sc, outs))"

definition readStart :: "gotime \<Rightarrow> StompClient \<Rightarrow> StompClient \<times> sc_out list" where
  "readStart now sc =
     (case sc_conn sc of
        None \<Rightarrow> (sc, [])
      | Some c \<Rightarrow> readNext [ReadDeadline c (now + readTimeout)] (sc\<lparr>sc_loop := Some c, sc_heart := Some c\<rparr>))"

definition readLoop :: "gotime \<Rightarrow> bytes result \<Rightarrow> StompClient \<Rightarrow> StompClient \<times> sc_out list" where
  "readLoop now r sc =
     (case sc_loop sc of
        None \<Rightarrow> (sc, [])
      | Some c \<Rightarrow>
          (case r of
             Inl _ \<Rightarrow> readEnd sc
           | Inr msg \<Rightarrow>
               (let outs = [ReadDeadline c (now + readTimeout)] in
                case ParseFrame msg of
                  Inl _ \<Rightarrow> readNext outs sc
                | Inr frame \<Rightarrow>
                    readNext (if frame_Command frame = ''MESSAGE'' then outs @ [Deliver (frame_Body frame)] else outs)
                      sc)))"

definition readPong :: "gotime \<Rightarrow> StompClient \<Rightarrow> sc_out list" where
  "readPong now sc = (case sc_loop sc of None \<Rightarrow> [] | Some c \<Rightarrow> [ReadDeadline c (now + readTimeout)])"

definition heartbeatTick :: "StompClient \<Rightarrow> StompClient \<times> sc_out list" where
  "heartbeatTick sc =
     (case sc_heart sc of
        None \<Rightarrow> (sc, [])
      | Some c \<Rightarrow>
          if sc_done sc \<or> sc_loop sc = None then (sc\<lparr>sc_heart := None\<rparr>, [])
          else if sc_conn sc \<noteq> Some c then (sc\<lparr>sc_heart := None\<rparr>, [])
          else (sc, [SendPing c]))"

end
