(* ===== verification/KeyDerivation.thy ===== *)
theory KeyDerivation
  imports Messages Crypto
begin

text \<open>
  The key of end-to-end encryption (\<open>pkg/crypto/pbkdf2.go\<close>) and the answer of the server it is made from
  (\<open>/api/user-info\<close>), as the desktop and the mobile client read it. PBKDF2 and SHA-3 are arguments. When a
  field of the answer has the wrong type, \<open>encoding/json\<close> skips it, goes on and reports an error at the end:
  the reader that ignores the error keeps the other fields.
\<close>

definition DeriveKey ::
  "(bytes \<Rightarrow> bytes \<Rightarrow> int \<Rightarrow> nat \<Rightarrow> bytes) \<Rightarrow> string \<Rightarrow> string \<Rightarrow> string \<Rightarrow> int \<Rightarrow> bytes" where
  "DeriveKey pbkdf2 password username salt rounds =
     (let saltBytes = username @ password @ salt in pbkdf2 password saltBytes rounds 32)"

text \<open>Lower-case hexadecimal, two digits a byte, high nibble first.\<close>

definition SHA3_512Hex :: "(bytes \<Rightarrow> octet list) \<Rightarrow> string \<Rightarrow> string" where
  "SHA3_512Hex sha3 input = hexBytes (sha3 input)"

section \<open>Reading a struct and ignoring the error\<close>

fun assignSkipping :: "'r fields \<Rightarrow> (string \<times> json) list \<Rightarrow> 'r \<Rightarrow> 'r" where
  "assignSkipping fs [] r = r"
| "assignSkipping fs (kv # kvs) r =
     assignSkipping fs kvs (case assignMember fs kv r of None \<Rightarrow> r | Some r' \<Rightarrow> r')"

definition unmarshalInto :: "'r fields \<Rightarrow> 'r \<Rightarrow> string \<Rightarrow> 'r" where
  "unmarshalInto fs r s =
     (case parseJSON s of Some (JObj kvs) \<Rightarrow> assignSkipping fs kvs r | _ \<Rightarrow> r)"

text \<open>
  \<open>json.NewDecoder(r).Decode\<close>: the first value of a stream. An object or array ends at its bracket, whatever
  follows; another value must be followed by white space or the end.
\<close>

definition streamValue :: "string \<Rightarrow> json option" where
  "streamValue s =
     (case parseValue (2 * length s + 2) s of
        None \<Rightarrow> None
      | Some (v, rest) \<Rightarrow>
          if (case v of JObj _ \<Rightarrow> True | JArr _ \<Rightarrow> True | _ \<Rightarrow> rest = [] \<or> isWS (hd rest)) then Some v else None)"

definition decodeSkipping :: "'r fields \<Rightarrow> 'r \<Rightarrow> string \<Rightarrow> 'r" where
  "decodeSkipping fs r s = (case streamValue s of Some (JObj kvs) \<Rightarrow> assignSkipping fs kvs r | _ \<Rightarrow> r)"

datatype 'r decoded = NoValue | BadValue | Decoded 'r

definition decodeStream :: "'r fields \<Rightarrow> 'r \<Rightarrow> string \<Rightarrow> 'r decoded" where
  "decodeStream fs r s =
     (if skipWS s = [] then NoValue
      else (case streamValue s of
              None \<Rightarrow> BadValue
            | Some v \<Rightarrow> (case structOf fs r v of None \<Rightarrow> BadValue | Some r' \<Rightarrow> Decoded r')))"

lemma streamValue_render:
  assumes "wfJSON (JObj kvs)"
  shows "streamValue (render (JObj kvs)) = Some (normJSON (JObj kvs))"
proof -
  have "need (JObj kvs) \<le> 2 * length (render (JObj kvs)) + 2" using need_bound [OF assms] by simp
  then have "parseValue (2 * length (render (JObj kvs)) + 2) (render (JObj kvs) @ []) = Some (normJSON (JObj kvs), [])"
    by (intro parseValue_render assms) simp_all
  then show ?thesis unfolding streamValue_def by simp
qed

lemma assignSkipping_members: "assignMembers fs kvs r = Some r' \<Longrightarrow> assignSkipping fs kvs r = r'"
  by (induction fs kvs r rule: assignMembers.induct) (auto split: option.splits)

section \<open>The answer of the server\<close>

record UserInfoReply =
  ui_Salt :: string
  ui_HashRounds :: int

definition zeroUserInfo :: UserInfoReply where "zeroUserInfo = \<lparr>ui_Salt = '''', ui_HashRounds = 0\<rparr>"

definition userInfoFields :: "UserInfoReply fields" where
  "userInfoFields = [(''salt'', setStr (\<lambda>s r. r\<lparr>ui_Salt := s\<rparr>)),
     (''hash_rounds'', setInt (\<lambda>i r. r\<lparr>ui_HashRounds := i\<rparr>))]"

end
