(* ===== verification/MobileEngine.thy ===== *)
theory MobileEngine
  imports StompClient KeyDerivation Interfaces
begin

text \<open>
  The client of the mobile program (\<open>fyne_mobile/engine/engine.go\<close>): login, key, connection, reading with
  reconnection, heartbeat, sending and receiving. The two goroutines are phases of the state: every step of
  \<open>engine_step\<close> is what happens between two points where a goroutine waits, so that a stop, a message to send, a
  tick and the answers of the network can come in any order. Answers of the network are part of the events.
  Login has parsed the server's address before \<open>connectWS\<close> parses it again, so that this cannot fail there.
\<close>

section \<open>State\<close>

datatype phase = NotStarted | Reading conn | Trying gotime | Waiting gotime | Ended

record Engine =
  e_serverURL :: string
  e_username :: string
  e_password :: string
  e_e2ee :: bool
  e_encKey :: "bytes option"
  e_wsConn :: "conn option"
  e_done :: bool
  e_connected :: bool
  e_phase :: phase
  e_heart :: bool

datatype engine_out = SocketText conn bytes | SocketClose conn | DialTo string "string list"
  | Status string | Message string string

definition NewEngine :: "string \<Rightarrow> string \<Rightarrow> string \<Rightarrow> bool \<Rightarrow> Engine" where
  "NewEngine serverURL username password e2eeEnabled =
     \<lparr>e_serverURL = serverURL, e_username = username, e_password = password, e_e2ee = e2eeEnabled,
      e_encKey = None, e_wsConn = None, e_done = False, e_connected = False, e_phase = NotStarted, e_heart = False\<rparr>"

text \<open>
  The answers of one attempt to connect: the status and location of the login (or its failure), the body of
  \<open>/api/user-info\<close>, the parsed address, the cookies, the dial, and the first message on the connection.
\<close>

record Attempt =
  at_login :: "(int \<times> string) result"
  at_userInfo :: "bytes result"
  at_url :: URL
  at_cookies :: "string list"
  at_dial :: "conn result"
  at_first :: "bytes result"

text \<open>What the engine uses of its surroundings: PBKDF2, AES-GCM, the order of headers.\<close>

record EngineEnv =
  ee_pbkdf2 :: "bytes \<Rightarrow> bytes \<Rightarrow> int \<Rightarrow> nat \<Rightarrow> bytes"
  ee_gcm :: Gcm
  ee_ord :: "Frame \<Rightarrow> string list"

section \<open>Connecting\<close>

definition login :: "Attempt \<Rightarrow> goerror option" where
  "login at =
     (case at_login at of
        Inl err \<Rightarrow> Some err
      | Inr (status, location) \<Rightarrow>
          if (status = 302 \<or> status = 303) \<and> containsStr location ''error'' then Some ''invalid credentials''
          else None)"

definition deriveKey :: "EngineEnv \<Rightarrow> Attempt \<Rightarrow> Engine \<Rightarrow> Engine \<times> goerror option" where
  "deriveKey env at e =
     (case at_userInfo at of
        Inl err \<Rightarrow> (e, Some err)
      | Inr body \<Rightarrow>
          (let info = decodeSkipping userInfoFields zeroUserInfo body in
           (e\<lparr>e_encKey := Some (DeriveKey (ee_pbkdf2 env) (e_password e) (e_username e) (ui_Salt info) (ui_HashRounds info))\<rparr>,
            None)))"

definition connectWS :: "EngineEnv \<Rightarrow> Attempt \<Rightarrow> Engine \<Rightarrow> Engine \<times> engine_out list \<times> goerror option" where
  "connectWS env at e =
     (let u = at_url at;
          scheme = (if url_Scheme u = ''https'' then ''wss'' else ''ws'');
          wsURL = scheme @ ''://'' @ url_Host u @ ''/clipsocket'';
          dial = DialTo wsURL (at_cookies at) in
      case at_dial at of
        Inl err \<Rightarrow> (e, [dial], Some err)
      | Inr c \<Rightarrow>
          (let cf = ConnectFrame ''1.1'' ''localhost'';
               out1 = [dial, SocketText c (Encode (ee_ord env cf) cf)];
               msg = (case at_first at of Inl _ \<Rightarrow> '''' | Inr m \<Rightarrow> m);
               accepted = (case ParseFrame msg of Inl _ \<Rightarrow> False | Inr frame \<Rightarrow> frame_Command frame = ''CONNECTED'') in
           if \<not> accepted then (e, out1 @ [SocketClose c], Some ''STOMP handshake failed'')
           else
             (let sf = SubscribeFrame ''sub-0'' ''/user/queue/cliptext'' in
              (e\<lparr>e_wsConn := Some c\<rparr>,
               out1 @ [SocketText c (Encode (ee_ord env sf) sf)] @
                 (case e_wsConn e of None \<Rightarrow> [] | Some old \<Rightarrow> [SocketClose old]),
               None))))"

section \<open>The reading goroutine\<close>

text \<open>\<open>reconnectTop\<close> and \<open>loopTop\<close> are the tops of \<open>reconnectLoop\<close> and \<open>readLoop\<close>.\<close>

definition reconnectTop :: "gotime \<Rightarrow> Engine \<Rightarrow> Engine \<times> engine_out list" where
  "reconnectTop backoff e =
     (if e_done e then (e\<lparr>e_phase := Ended\<rparr>, [Status ''disconnected'']) else (e\<lparr>e_phase := Trying backoff\<rparr>, []))"

definition firstBackoff :: gotime where "firstBackoff = 2 * 1000000000"
definition backoffLimit :: gotime where "backoffLimit = 30 * 1000000000"

definition loopTop :: "Engine \<Rightarrow> Engine \<times> engine_out list" where
  "loopTop e =
     (if e_done e then (e\<lparr>e_phase := Ended\<rparr>, [])
      else (case e_wsConn e of None \<Rightarrow> reconnectTop firstBackoff e | Some c \<Rightarrow> (e\<lparr>e_phase := Reading c\<rparr>, [])))"

definition andThenOut :: "engine_out list \<Rightarrow> Engine \<times> engine_out list \<Rightarrow> Engine \<times> engine_out list" where
  "andThenOut outs r = (case r of (e, o2) \<Rightarrow> (e, outs @ o2))"

definition reconnectLoop :: "EngineEnv \<Rightarrow> Attempt \<Rightarrow> gotime \<Rightarrow> Engine \<Rightarrow> Engine \<times> engine_out list" where
  "reconnectLoop env at backoff e =
     (let failed = (\<lambda>e1 outs. (e1\<lparr>e_phase := Waiting backoff\<rparr>, outs)) in
      case login at of
        Some _ \<Rightarrow> failed e []
      | None \<Rightarrow>
          (case (if e_e2ee e then deriveKey env at e else (e, None)) of
             (e1, Some _) \<Rightarrow> failed e1 []
           | (e1, None) \<Rightarrow>
               (case connectWS env at e1 of
                  (e2, outs, Some _) \<Rightarrow> failed e2 outs
                | (e2, outs, None) \<Rightarrow>
                    andThenOut (outs @ [Status ''connected'']) (loopTop (e2\<lparr>e_connected := True\<rparr>)))))"

definition handleIncomingData :: "EngineEnv \<Rightarrow> string \<Rightarrow> Engine \<Rightarrow> engine_out list" where
  "handleIncomingData env body e =
     (let clipData = (case (if e_e2ee e then e_encKey e else None) of
                        Some key \<Rightarrow>
                          (case DecodeFromJSONString body of
                             Inl _ \<Rightarrow> None
                           | Inr encrypted \<Rightarrow>
                               (case Decrypt (ee_gcm env) key encrypted of
                                  Inl _ \<Rightarrow> None | Inr plaintext \<Rightarrow> DecodeClipboardData plaintext))
                      | None \<Rightarrow> DecodeClipboardData body) in
      case clipData of None \<Rightarrow> [] | Some cd \<Rightarrow> [Message (cd_Payload cd) (cd_Type cd)])"

definition readLoop :: "EngineEnv \<Rightarrow> bytes result \<Rightarrow> Engine \<Rightarrow> Engine \<times> engine_out list" where
  "readLoop env r e =
     (case r of
        Inl _ \<Rightarrow>
          if e_done e then (e\<lparr>e_phase := Ended\<rparr>, [])
          else andThenOut [Status ''reconnecting''] (reconnectTop firstBackoff (e\<lparr>e_connected := False\<rparr>))
      | Inr msg \<Rightarrow>
          (case ParseFrame msg of
             Inl _ \<Rightarrow> loopTop e
           | Inr frame \<Rightarrow>
               if frame_Command frame \<noteq> ''MESSAGE'' then loopTop e
               else andThenOut (handleIncomingData env (frame_Body frame) e) (loopTop e)))"

section \<open>The calls\<close>

definition Start :: "EngineEnv \<Rightarrow> Attempt \<Rightarrow> Engine \<Rightarrow> Engine \<times> engine_out list \<times> goerror option" where
  "Start env at e =
     (case login at of
        Some err \<Rightarrow> (e, [], Some (''login failed: '' @ err))
      | None \<Rightarrow>
          (case (if e_e2ee e then deriveKey env at e else (e, None)) of
             (e1, Some err) \<Rightarrow> (e1, [], Some (''key derivation failed: '' @ err))
           | (e1, None) \<Rightarrow>
               (case connectWS env at e1 of
                  (e2, outs, Some err) \<Rightarrow> (e2, outs, Some (''websocket failed: '' @ err))
                | (e2, outs, None) \<Rightarrow>
                    (case andThenOut (outs @ [Status ''connected'']) (loopTop (e2\<lparr>e_connected := True, e_heart := True\<rparr>)) of
                       (e3, outs') \<Rightarrow> (e3, outs', None)))))"

definition Stop :: "EngineEnv \<Rightarrow> Engine \<Rightarrow> Engine \<times> engine_out list" where
  "Stop env e =
     (e\<lparr>e_done := True, e_wsConn := None, e_connected := False\<rparr>,
      (case e_wsConn e of
         None \<Rightarrow> []
       | Some c \<Rightarrow> (let df = NewFrame ''DISCONNECT'' in [SocketText c (Encode (ee_ord env df) df), SocketClose c])) @
      [Status ''disconnected''])"

definition SendClipboard ::
  "EngineEnv \<Rightarrow> bytes option \<Rightarrow> goerror option \<Rightarrow> string \<Rightarrow> string \<Rightarrow> Engine \<Rightarrow> engine_out list \<times> goerror option"
where
  "SendClipboard env nonce writeErr payload payloadType e =
     (case e_wsConn e of
        None \<Rightarrow> ([], Some ''not connected'')
      | Some c \<Rightarrow>
          (let jsonBytes = ClipboardData_Encode (zeroClipboard\<lparr>cd_Payload := payload, cd_Type := payloadType\<rparr>);
               body = (case (if e_e2ee e then e_encKey e else None) of
                         Some key \<Rightarrow> (case Encrypt (ee_gcm env) nonce key jsonBytes of
                                        Inl err \<Rightarrow> Inl err | Inr encrypted \<Rightarrow> Inr (EncodeToJSONString encrypted))
                       | None \<Rightarrow> Inr jsonBytes) in
           case body of
             Inl err \<Rightarrow> ([], Some err)
           | Inr b \<Rightarrow> (let sf = SendFrame ''/app/cliptext'' b in
                         ([SocketText c (Encode (ee_ord env sf) sf)], writeErr))))"

definition heartbeatLoop :: "goerror option \<Rightarrow> Engine \<Rightarrow> Engine \<times> engine_out list" where
  "heartbeatLoop writeErr e =
     (if \<not> e_heart e then (e, [])
      else if e_done e then (e\<lparr>e_heart := False\<rparr>, [])
      else (case e_wsConn e of
              None \<Rightarrow> (e, [])
            | Some c \<Rightarrow> (e, SocketText c [newline] # (if writeErr \<noteq> None then [SocketClose c] else []))))"

section \<open>Runs\<close>

datatype engine_event = Begin Attempt | ReadResult "bytes result" | Attempted Attempt | BackoffElapsed | DoneSeen
  | HeartTick "goerror option" | StopCall

fun engine_step :: "EngineEnv \<Rightarrow> engine_event \<Rightarrow> Engine \<Rightarrow> Engine \<times> engine_out list" where
  "engine_step env (Begin at) e =
     (if e_phase e = NotStarted then (case Start env at e of (e', outs, _) \<Rightarrow> (e', outs)) else (e, []))"
| "engine_step env (ReadResult r) e = (case e_phase e of Reading c \<Rightarrow> readLoop env r e | _ \<Rightarrow> (e, []))"
| "engine_step env (Attempted at) e =
     (case e_phase e of Trying backoff \<Rightarrow> reconnectLoop env at backoff e | _ \<Rightarrow> (e, []))"
| "engine_step env BackoffElapsed e =
     (case e_phase e of
        Waiting backoff \<Rightarrow> reconnectTop (if backoff < backoffLimit then backoff * 2 else backoff) e
      | _ \<Rightarrow> (e, []))"
| "engine_step env DoneSeen e =
     (case e_phase e of
        Waiting backoff \<Rightarrow> (if e_done e then (e\<lparr>e_phase := Ended\<rparr>, [Status ''disconnected'']) else (e, []))
      | _ \<Rightarrow> (e, []))"
| "engine_step env (HeartTick err) e = heartbeatLoop err e"
| "engine_step env StopCall e = Stop env e"

fun engine_run :: "EngineEnv \<Rightarrow> engine_event list \<Rightarrow> Engine \<Rightarrow> Engine \<times> engine_out list" where
  "engine_run env [] e = (e, [])"
| "engine_run env (ev # evs) e =
     (case engine_step env ev e of (e1, o1) \<Rightarrow> andThenOut o1 (engine_run env evs e1))"

section \<open>Backoff\<close>

text \<open>The engine waits between attempts for 2, 4, 8, 16, and from then on 32 seconds.\<close>

definition good_backoff :: "gotime \<Rightarrow> bool" where
  "good_backoff b \<longleftrightarrow> b \<in> {2000000000, 4000000000, 8000000000, 16000000000, 32000000000}"

definition backoff_ok :: "Engine \<Rightarrow> bool" where
  "backoff_ok e \<longleftrightarrow> (case e_phase e of Trying b \<Rightarrow> good_backoff b | Waiting b \<Rightarrow> good_backoff b | _ \<Rightarrow> True)"

lemma andThenOut_fst [simp]: "fst (andThenOut outs r) = fst r" "snd (andThenOut outs r) = outs @ snd r"
  by (simp_all add: andThenOut_def case_prod_beta)

lemma good_backoffs: "good_backoff firstBackoff"
  "good_backoff b \<Longrightarrow> good_backoff (if b < backoffLimit then b * 2 else b)"
  by (auto simp: good_backoff_def firstBackoff_def backoffLimit_def)

lemma tops_backoff:
  "good_backoff b \<Longrightarrow> backoff_ok (fst (reconnectTop b e))" "backoff_ok (fst (loopTop e))"
  using good_backoffs(1) by (auto simp: backoff_ok_def reconnectTop_def loopTop_def split: option.split)

lemma connect_phase:
  "e_phase (fst (deriveKey env at e)) = e_phase e" "e_phase (fst (connectWS env at e)) = e_phase e"
  by (auto simp: deriveKey_def connectWS_def Let_def split: sum.split)

lemma reconnectLoop_backoff:
  assumes "good_backoff b"
  shows "backoff_ok (fst (reconnectLoop env at b e))"
proof -
  have w: "backoff_ok (e'\<lparr>e_phase := Waiting b\<rparr>)" for e' using assms by (simp add: backoff_ok_def)
  then show ?thesis by (simp add: reconnectLoop_def Let_def tops_backoff w split: option.split prod.split)
qed

lemma Start_backoff:
  assumes "e_phase e = NotStarted"
  shows "backoff_ok (fst (Start env at e))"
proof -
  obtain e1 r1 where d: "(if e_e2ee e then deriveKey env at e else (e, None)) = (e1, r1)" by fastforce
  obtain e2 o2 r2 where c: "connectWS env at e1 = (e2, o2, r2)" by (metis prod.exhaust)
  have p1: "e_phase e1 = NotStarted" using d assms connect_phase(1) [of env at e] by (auto split: if_splits)
  then have p2: "e_phase e2 = NotStarted" using c connect_phase(2) [of env at e1] by simp
  obtain e3 o3 where l: "andThenOut (o2 @ [Status ''connected'']) (loopTop (e2\<lparr>e_connected := True, e_heart := True\<rparr>)) = (e3, o3)"
    by fastforce
  then have "backoff_ok e3" using tops_backoff(2) by (metis andThenOut_fst(1) fst_conv)
  then show ?thesis using d c l p1 p2 assms by (auto simp: Start_def backoff_ok_def split: option.split)
qed

lemma readLoop_backoff: "backoff_ok (fst (readLoop env r e))"
  by (auto simp: readLoop_def tops_backoff good_backoffs backoff_ok_def [of "e\<lparr>e_phase := Ended\<rparr>"] split: sum.split)

lemma engine_step_backoff:
  assumes "backoff_ok e"
  shows "backoff_ok (fst (engine_step env ev e))"
proof (cases ev)
  case (Begin at)
  then show ?thesis using assms Start_backoff [of e env at] by (auto split: prod.split)
next
  case (ReadResult r)
  then show ?thesis using assms by (auto simp: readLoop_backoff split: phase.split)
next
  case (Attempted at)
  then show ?thesis using assms by (cases "e_phase e") (simp_all add: backoff_ok_def [of e] reconnectLoop_backoff)
next
  case BackoffElapsed
  show ?thesis
  proof (cases "e_phase e")
    case (Waiting b)
    then have "good_backoff b" using assms by (simp add: backoff_ok_def)
    then show ?thesis using BackoffElapsed Waiting tops_backoff(1) [OF good_backoffs(2), of b e] by simp
  qed (use BackoffElapsed assms in simp_all)
next
  case DoneSeen
  then show ?thesis using assms by (cases "e_phase e") (simp_all add: backoff_ok_def)
next
  case (HeartTick err)
  then show ?thesis using assms by (auto simp: heartbeatLoop_def backoff_ok_def split: option.split)
next
  case StopCall
  then show ?thesis using assms by (simp add: Stop_def backoff_ok_def)
qed

text \<open>The engine emits; its delays stay good.\<close>

interpretation engine: emitting_machine "engine_step env" "engine_run env" for env
  by unfold_locales (simp_all add: andThenOut_def case_prod_beta)

interpretation engine_delay: kept_machine "engine_step env" "engine_run env" "\<lambda>_. True" backoff_ok for env
  by unfold_locales (rule engine_step_backoff)

text \<open>The mobile client does not hammer the server: whatever happens, in whatever order, the delay before its next
  attempt to connect is 2, 4, 8, 16 or 32 seconds.\<close>
theorem engine_backoff_bounded:
  "e_phase (fst (engine_run env evs (NewEngine url u p e2ee))) = Waiting b \<Longrightarrow>
     b \<in> {2000000000, 4000000000, 8000000000, 16000000000, 32000000000}"
proof -
  have "backoff_ok (NewEngine url u p e2ee)" by (simp add: NewEngine_def backoff_ok_def)
  then have "backoff_ok (fst (engine_run env evs (NewEngine url u p e2ee)))" by (rule engine_delay.free_final_inv) simp
  then show "e_phase (fst (engine_run env evs (NewEngine url u p e2ee))) = Waiting b \<Longrightarrow> ?thesis"
    by (simp only: backoff_ok_def phase.case good_backoff_def)
qed

section \<open>Stopping\<close>

definition stopped :: "Engine \<Rightarrow> bool" where
  "stopped e \<longleftrightarrow> e_done e \<and> e_wsConn e = None \<and> \<not> e_connected e \<and> e_phase e \<noteq> NotStarted \<and> (\<forall>b. e_phase e \<noteq> Trying b)"

lemma stopped_step:
  assumes "stopped e"
  shows "stopped (fst (engine_step env ev e))"
  using assms
  by (cases ev)
    (auto simp: stopped_def readLoop_def loopTop_def reconnectTop_def heartbeatLoop_def Stop_def
      split: phase.split sum.split option.split)

interpretation engine_stopped: kept_machine "engine_step env" "engine_run env" "\<lambda>_. True" stopped for env
  by unfold_locales (rule stopped_step)

lemma stopped_run: "stopped e \<Longrightarrow> stopped (fst (engine_run env evs e))"
  by (rule engine_stopped.free_final_inv) simp_all

text \<open>A stop is final, unless it comes while an attempt to connect is under way: then the attempt still installs its
  connection and reports \<open>connected\<close>, the goroutine that would read from it ends, and nothing ever closes the
  connection.\<close>
theorem stop_during_attempt_leaks_connection:
  assumes "e_phase e = Trying b" "\<not> e_e2ee e" "login at = None" "at_dial at = Inr c" "at_first at = Inr msg"
    and "ParseFrame msg = Inr f" "frame_Command f = ''CONNECTED''"
  shows "\<exists>e' outs. engine_run env [StopCall, Attempted at] e = (e', outs) \<and>
    e_phase e' = Ended \<and> e_wsConn e' = Some c \<and> e_connected e' \<and> last outs = Status ''connected'' \<and>
    SocketClose c \<notin> set (drop (length (snd (Stop env e))) outs)"
  using assms
  by (auto simp: Stop_def reconnectLoop_def connectWS_def Let_def andThenOut_def loopTop_def)

end
