(* ===== verification/Relay.thy ===== *)
theory Relay
  imports WsHub MobileEngine CopyPaste
begin

text \<open>
  The relay from end to end: the STOMP client of a device (\<open>stomp_client.go\<close>), the hub of the server
  (\<open>ws_hub.go\<close>), the client of another device, and what that device does with the message. A connection number
  names both ends of a connection. The order in which each side writes the headers of a frame is open.
\<close>

section \<open>Frames of the clients\<close>

definition client_order_ok :: "(Frame \<Rightarrow> string list) \<Rightarrow> bool" where
  "client_order_ok ord \<longleftrightarrow>
     (\<forall>x y. header_order (ConnectFrame x y) (ord (ConnectFrame x y)) \<and> header_order (ConnectedFrame x) (ord (ConnectedFrame x)) \<and>
        header_order (SubscribeFrame x y) (ord (SubscribeFrame x y)) \<and> header_order (SendFrame x y) (ord (SendFrame x y)))"

lemma plain_header:
  "header_key_ok ''destination''" "header_key_ok ''id''" "header_key_ok ''host''" "header_key_ok ''accept-version''"
  "header_key_ok ''version''"
  by code_simp+

lemma plain_value:
  "header_value_ok ''/app/cliptext''" "header_value_ok ''/user/queue/cliptext''" "header_value_ok ''sub-0''"
  "header_value_ok ''1.1''" "header_value_ok ''localhost''"
  by code_simp+

definition plain_command :: "string \<Rightarrow> bool" where
  "plain_command cmd \<longleftrightarrow> trimmed cmd \<and> newline \<notin> set cmd \<and> cmd \<noteq> ''''"

lemma plain_commands:
  "plain_command StompConnect" "plain_command StompConnected" "plain_command StompSubscribe" "plain_command StompSend"
  by code_simp+

definition headers_ok :: "(string \<rightharpoonup> string) \<Rightarrow> bool" where
  "headers_ok m \<longleftrightarrow> (\<forall>k v. m k = Some v \<longrightarrow> header_key_ok k \<and> header_value_ok v)"

lemma headers_ok_intros:
  "headers_ok Map.empty" "headers_ok m \<Longrightarrow> header_key_ok k \<Longrightarrow> header_value_ok v \<Longrightarrow> headers_ok (m(k \<mapsto> v))"
  by (simp_all add: headers_ok_def)

lemma frame_ok_fields:
  "plain_command (frame_Command f) \<Longrightarrow> headers_ok (frame_Headers f) \<Longrightarrow>
     frame_Body f = '''' \<or> last (frame_Body f) \<noteq> nul \<Longrightarrow> frame_ok f"
  by (simp add: frame_ok_def plain_command_def headers_ok_def)

lemmas client_frames = ConnectFrame_def ConnectedFrame_def SubscribeFrame_def SendFrame_def Set_def NewFrame_def

lemma client_frames_ok:
  "frame_ok (ConnectFrame ''1.1'' ''localhost'')" "frame_ok (ConnectedFrame ''1.1'')"
  "frame_ok (SubscribeFrame ''sub-0'' ''/user/queue/cliptext'')"
  "body = '''' \<or> last body \<noteq> nul \<Longrightarrow> frame_ok (SendFrame ''/app/cliptext'' body)"
  by (rule frame_ok_fields; simp add: client_frames plain_commands plain_header plain_value headers_ok_intros)+

lemma client_order:
  assumes "client_order_ok ord"
  shows "header_order (ConnectFrame v h) (ord (ConnectFrame v h))" "header_order (ConnectedFrame v) (ord (ConnectedFrame v))"
    "header_order (SubscribeFrame i d) (ord (SubscribeFrame i d))" "header_order (SendFrame d b) (ord (SendFrame d b))"
  using assms by (simp_all add: client_order_ok_def)

lemma client_frames_parse:
  assumes "client_order_ok ord"
  shows "ParseFrame (Encode (ord (ConnectFrame ''1.1'' ''localhost'')) (ConnectFrame ''1.1'' ''localhost'')) =
      Inr (ConnectFrame ''1.1'' ''localhost'')"
    "ParseFrame (Encode (ord (ConnectedFrame ''1.1'')) (ConnectedFrame ''1.1'')) = Inr (ConnectedFrame ''1.1'')"
    "ParseFrame (Encode (ord (SubscribeFrame ''sub-0'' ''/user/queue/cliptext''))
       (SubscribeFrame ''sub-0'' ''/user/queue/cliptext'')) = Inr (SubscribeFrame ''sub-0'' ''/user/queue/cliptext'')"
    "body = '''' \<or> last body \<noteq> nul \<Longrightarrow>
       ParseFrame (Encode (ord (SendFrame ''/app/cliptext'' body)) (SendFrame ''/app/cliptext'' body)) =
         Inr (SendFrame ''/app/cliptext'' body)"
  using client_order [OF assms] client_frames_ok by (auto intro: ParseFrame_Encode)

section \<open>The handshake\<close>

text \<open>The server's answer to a message on a connection whose handler is in its loop.\<close>

definition answers :: "(Frame \<Rightarrow> string list) \<Rightarrow> conn \<Rightarrow> WSServer \<Rightarrow> bytes \<Rightarrow> WSServer \<times> bytes list" where
  "answers ords c s msg =
     (case HandleWebSocket ords (Inbound c msg) s of
        (s', outs) \<Rightarrow> (s', map out_data (filter (\<lambda>w. case w of WriteTo d _ \<Rightarrow> d = c | _ \<Rightarrow> False) outs)))"

lemma handle_connect:
  assumes "srv_loops s c = Some (u, sub)" "ParseFrame msg = Inr f" "frame_Command f = StompConnect"
  shows "\<exists>s'. answers ords c s msg = (s', [Encode (ords (ConnectedFrame ''1.1'')) (ConnectedFrame ''1.1'')]) \<and>
    srv_loops s' c = Some (u, sub)"
  using assms by (simp add: answers_def handleFrame_def Let_def const_defs)

lemma handle_subscribe:
  assumes "srv_loops s c = Some (u, sub)" "ParseFrame msg = Inr f" "frame_Command f = StompSubscribe"
  shows "\<exists>s'. answers ords c s msg = (s', []) \<and> srv_loops s' c = Some (u, Get ''id'' f)"
  using assms by (simp add: answers_def handleFrame_def Let_def const_defs)

section \<open>What the relay accepts\<close>

lemma envelope_not_fields:
  "list_all (\<lambda>k. list_all (\<lambda>f. \<not> jsonKey f k) [''payload'', ''type'', ''filename'', ''source_session_id'', ''metadata''])
     [''ciphertext'', ''nonce'', ''tag'']"
  by (simp add: jsonKey_def foldName_ascii asciiStr_def upperChar_def)

lemma envelope_is_clipboard: "DecodeClipboardData (EncodeToJSONString p) = Some zeroClipboard"
proof -
  have "assignMember clipboardFields (k, v) r = Some r" if "k \<in> {''ciphertext'', ''nonce'', ''tag''}" for k v r
  proof -
    have "List.find (\<lambda>f. jsonKey (fst f) k) clipboardFields = None"
      using envelope_not_fields that by (auto simp: clipboardFields_def find_None_iff list_all_iff)
    then show ?thesis by (simp add: assignMember_def)
  qed
  then show ?thesis
    unfolding DecodeClipboardData_def EncodeToJSONString_def
    by (subst DecodePayload_render) (simp_all add: structOf_def)
qed

lemma object_last: "last (render (JObj kvs)) = CHR ''}''"
  by simp

text \<open>The server relays only bodies that decode as clipboard data; every body a client sends does.\<close>

lemma messageBody_relayed:
  assumes "messageBody env a cd = Inr body" "clipboard_ints_ok cd"
  shows "DecodeClipboardData body \<noteq> None" "last body \<noteq> nul"
proof -
  have "(\<exists>kvs. body = render (JObj kvs)) \<and> DecodeClipboardData body \<noteq> None"
  proof (cases "e2eeKey a")
    case None
    then have body: "body = ClipboardData_Encode cd" using assms(1) by (simp add: messageBody_def)
    then have "\<exists>kvs. body = render (JObj kvs)" unfolding ClipboardData_Encode_def clipboardJSON_def by blast
    then show ?thesis using body decode_encode_clipboard [OF assms(2)] by simp
  next
    case (Some key)
    then obtain p where body: "body = EncodeToJSONString p"
      using assms(1) by (auto simp: messageBody_def split: sum.splits)
    then have "\<exists>kvs. body = render (JObj kvs)" unfolding EncodeToJSONString_def by blast
    then show ?thesis using body envelope_is_clipboard [of p] by simp
  qed
  moreover have "last (render (JObj kvs)) \<noteq> nul" for kvs using object_last [of kvs] by (simp only:) (simp add: nul_def)
  ultimately show "DecodeClipboardData body \<noteq> None" "last body \<noteq> nul" by blast+
qed

section \<open>One message through the relay\<close>

text \<open>
  \<open>relayed\<close>: a message on connection \<open>c\<close> makes the server write one frame, once, to each running connection of the
  user \<open>u\<close>, and a client that reads it, desktop or mobile, hands on the body (a mobile client opens it itself).
\<close>

definition relayed :: "(Frame \<Rightarrow> string list) \<Rightarrow> WSServer \<Rightarrow> string \<Rightarrow> conn \<Rightarrow> bytes \<Rightarrow> string \<Rightarrow> bool" where
  "relayed ords s u c msg body \<longleftrightarrow>
     (\<exists>targets data.
        snd (HandleWebSocket ords (Inbound c msg) s) = map (\<lambda>d. WriteTo d data) targets \<and>
        distinct targets \<and> set targets = {d. \<exists>sub. srv_loops s d = Some (u, sub)} \<and>
        (\<forall>now d r. sc_loop r = Some d \<and> \<not> sc_done r \<longrightarrow>
           StompClient.readLoop now (Inr data) r = (r, [ReadDeadline d (now + readTimeout), Deliver body])) \<and>
        (\<forall>env e d. e_phase e = Reading d \<and> e_wsConn e = Some d \<and> \<not> e_done e \<longrightarrow>
           MobileEngine.readLoop env (Inr data) e = (e, handleIncomingData env body e)))"

lemma relayedI:
  assumes "snd (HandleWebSocket ords (Inbound c msg) s) = map (\<lambda>d. WriteTo d data) targets"
    and "distinct targets" "set targets = {d. \<exists>sub. srv_loops s d = Some (u, sub)}"
    and "ParseFrame data = Inr g" "frame_Command g = ''MESSAGE''" "frame_Body g = body"
  shows "relayed ords s u c msg body"
proof -
  have "StompClient.readLoop now (Inr data) r = (r, [ReadDeadline d (now + readTimeout), Deliver body])"
    if "sc_loop r = Some d" "\<not> sc_done r" for now d r
    using that assms(4-6) by (simp add: StompClient.readLoop_def readNext_def)
  moreover have "MobileEngine.readLoop env (Inr data) e = (e, handleIncomingData env body e)"
    if "e_phase e = Reading d" "e_wsConn e = Some d" "\<not> e_done e" for env e d
    using that assms(4-6) by (simp add: MobileEngine.readLoop_def loopTop_def andThenOut_def)
  ultimately show ?thesis unfolding relayed_def using assms(1-3) by blast
qed

lemma relay_step:
  assumes "ws_reachable ords s" "message_order_ok ords" "client_order_ok ordc"
    and "srv_loops s c = Some (u, sub)"
    and "DecodeClipboardData body \<noteq> None" "last body \<noteq> nul"
  shows "relayed ords s u c (Encode (ordc (SendFrame ''/app/cliptext'' body)) (SendFrame ''/app/cliptext'' body)) body"
proof -
  let ?f = "SendFrame ''/app/cliptext'' body"
  let ?msg = "Encode (ordc ?f) ?f"
  have parse: "ParseFrame ?msg = Inr ?f" using client_frames_parse(4) [OF assms(3)] assms(6) by blast
  let ?g = "MessageFrame (Get ''destination'' ?f) sub '''' (frame_Body ?f)"
  have inv: "ws_inv s" using assms(1) by (rule ws_inv_reachable)
  then have "header_value_ok sub" using assms(4) by (auto simp: ws_inv_def)
  then have relayed: "ParseFrame (Encode (ords ?g) ?g) = Inr ?g"
    by (rule relayed_frame_parses [OF assms(2) parse])
  let ?targets = "map fst (broadcastTargets u (srv_hub s))"
  have "filter (\<lambda>(_, locked). locked) (broadcastTargets u (srv_hub s)) = broadcastTargets u (srv_hub s)"
    using broadcast_targets(3) [OF inv, of u] by (simp add: filter_id_conv)
  moreover have "frame_Command ?f = ''SEND''" "frame_Body ?f = body" by (simp_all add: client_frames const_defs)
  ultimately have out: "snd (HandleWebSocket ords (Inbound c ?msg) s) = map (\<lambda>d. WriteTo d (Encode (ords ?g) ?g)) ?targets"
    using assms(4,5) parse
    by (auto simp: handleFrame_def Broadcast_def broadcastTargets_def Let_def case_prod_beta comp_def)
  show ?thesis
    by (rule relayedI [OF out broadcast_targets(1,2) [OF inv] relayed])
      (simp_all add: Command_MessageFrame Body_MessageFrame const_defs client_frames)
qed


section \<open>Copy and paste over the relay\<close>

text \<open>The key of a mobile client, and that it opens messages as a desktop client with the same key.\<close>

definition engineKey :: "Engine \<Rightarrow> bytes option" where
  "engineKey m = (if e_e2ee m then e_encKey m else None)"

lemma incoming_open:
  assumes "e2eeKey b = engineKey m" "ee_gcm menv = env_gcm env"
  shows "handleIncomingData menv body m =
    (case openMessage env b body of None \<Rightarrow> [] | Some cd \<Rightarrow> [Message (cd_Payload cd) (cd_Type cd)])"
proof -
  have "(if e_e2ee m then e_encKey m else None) = e2eeKey b" using assms(1) by (simp add: engineKey_def)
  then show ?thesis by (simp only: handleIncomingData_def openMessage_def Let_def assms(2))
qed

text \<open>C1: Text or a picture (a bitmap, not files) that the user copies on one device reaches the clipboard of another
  over the relay. Say the monitor's report is neither a repeat within its window nor what the program itself put on
  the clipboard for a replay, its content and the session are valid UTF-8, encryption is off or works, and it is sent
  without error while the relay connection is up. Then the message written on that connection makes the server write
  one frame to each running connection of the user, and the client at the other end of each hands the message on. A
  desktop device with the same key and another session, whose clipboard takes the content, that does not have the
  content in its history and did not receive it in the last half second, puts exactly it on its clipboard, once; a
  mobile client with the same key gets exactly it.\<close>
theorem relayed_copy_reaches_clipboard:
  assumes "handleLocalClipboardCapture pixels fold_eq sys env (Some c) a = (a', None)" "plain_capture c"
    and "\<not> snd (shouldSuppressDuplicateMonitorCapture pixels env c a)"
      "\<not> snd (shouldSuppressReplayClipboardCapture fold_eq (env_now env) (Some c) a)"
    and "utf8ok (cap_Payload c)" "utf8ok (appSessionID a)" "crypto_ok env a"
    and "app_hasStomp a" "link_stompConnected (env_link env (app_sendNo a))"
      "link_stompErr (env_link env (app_sendNo a)) = None"
    and "ws_reachable ords s" "message_order_ok ords" "client_order_ok ordc"
    and "sc_conn cl = Some d" "srv_loops s d = Some (u, sub)"
  shows "\<exists>body msg. ToRelay body \<in> set (app_outbox a') \<and> Send ordc None body cl = ([SendText d msg], None) \<and>
    relayed ords s u d msg body \<and>
    (\<forall>e b. awaits_copy env a c e b \<longrightarrow>
       app_clipWrites (onReceive e body b) = app_clipWrites b @ [PastePayload (cap_Payload c) (cap_Type c) '''']) \<and>
    (\<forall>menv m. engineKey m = e2eeKey a \<and> ee_gcm menv = env_gcm env \<longrightarrow>
       handleIncomingData menv body m = [Message (cap_Payload c) (cap_Type c)])"
proof -
  obtain body a0 where body: "messageBody env a0 (captureMessage a c) = Inr body" and sent: "relay_sent env a a' body"
    and opens: "\<forall>b. e2eeKey b = e2eeKey a \<longrightarrow> openMessage env b body = Some (captureMessage a c)"
    and recv: "\<forall>e b. awaits_copy env a c e b \<longrightarrow>
       app_clipWrites (onReceive e body b) = app_clipWrites b @ [PastePayload (cap_Payload c) (cap_Type c) '''']"
    using copied_content_message [OF assms(1-7)] by blast
  have "clipboard_ints_ok (captureMessage a c)" by (simp add: clipboard_ints_ok_def captureMessage_def zeroClipboard_def)
  note wire = messageBody_relayed [OF body this]
  have "ToRelay body \<in> set (app_outbox a')"
    using sent assms(8-10) by (auto simp: relay_sent_def Let_def dest: in_set_dropD)
  moreover note relay_step [OF assms(11-13,15) wire]
  moreover have "Send ordc None body cl =
      ([SendText d (Encode (ordc (SendFrame ''/app/cliptext'' body)) (SendFrame ''/app/cliptext'' body))], None)"
    using assms(14) by (simp add: Send_def Let_def)
  moreover have "handleIncomingData menv body m = [Message (cap_Payload c) (cap_Type c)]"
    if "engineKey m = e2eeKey a" "ee_gcm menv = env_gcm env" for menv m
    using incoming_open [of a m menv env body] that opens by (simp add: captureMessage_def)
  ultimately show ?thesis using recv by blast
qed

definition sampleLink :: Link where
  "sampleLink = \<lparr>link_p2pPeers = 0, link_stompConnected = True, link_stompErr = None\<rparr>"

definition sampleClient :: StompClient where
  "sampleClient = (NewStompClient ''http://h'' [])\<lparr>sc_conn := Some 1, sc_subscribed := True, sc_loop := Some 1\<rparr>"

definition keyOrder :: "Frame \<Rightarrow> string list" where
  "keyOrder f = filter (\<lambda>k. frame_Headers f k \<noteq> None)
     [''destination'', ''subscription'', ''message-id'', ''id'', ''host'', ''accept-version'', ''version'']"

section \<open>The handshake with the server\<close>

text \<open>A client that dials a server completes its handshake and is subscribed. The server's only answer to the
  client's first frame is one the client accepts, when nothing fails the client is then connected, and after
  its second frame the server's handler holds the subscription under which it relays.\<close>
theorem handshake_subscribes:
  assumes "srv_loops s c = Some (u, sub)" "client_order_ok ordc" "client_order_ok ords"
    and "buildWSURL urlParse (sc_serverURL cl) = Inr ws"
  defines "first \<equiv> Encode (ordc (ConnectFrame ''1.1'' ''localhost'')) (ConnectFrame ''1.1'' ''localhost'')"
    and "second \<equiv> Encode (ordc (SubscribeFrame ''sub-0'' ''/user/queue/cliptext''))
      (SubscribeFrame ''sub-0'' ''/user/queue/cliptext'')"
  shows "\<exists>s1 s2 reply. answers ords c s first = (s1, [reply]) \<and> answers ords c s1 second = (s2, []) \<and>
    srv_loops s2 c = Some (u, ''sub-0'') \<and>
    (\<forall>hs. hs_dial hs = Inr c \<and> hs_writeConnect hs = None \<and> hs_read hs = Inr reply \<and> hs_writeSubscribe hs = None \<longrightarrow>
       (\<exists>cl'. Connect urlParse ordc hs cl =
          (cl', [Dial ws (sc_cookies cl), SendText c first, SendText c second], None) \<and> IsConnected cl'))"
proof -
  let ?reply = "Encode (ords (ConnectedFrame ''1.1'')) (ConnectedFrame ''1.1'')"
  obtain s1 where s1: "answers ords c s first = (s1, [?reply])" "srv_loops s1 c = Some (u, sub)"
    using handle_connect [OF assms(1) client_frames_parse(1) [OF assms(2)], of ords]
    by (auto simp: first_def client_frames)
  obtain s2 where s2: "answers ords c s1 second = (s2, [])" "srv_loops s2 c = Some (u, ''sub-0'')"
    using handle_subscribe [OF s1(2) client_frames_parse(3) [OF assms(2)], of ords]
    by (auto simp: second_def client_frames Get_def)
  have "frame_Command (ConnectedFrame ''1.1'') = ''CONNECTED''" by (simp add: client_frames const_defs)
  then have "\<exists>cl'. Connect urlParse ordc hs cl =
      (cl', [Dial ws (sc_cookies cl), SendText c first, SendText c second], None) \<and> IsConnected cl'"
    if "hs_dial hs = Inr c" "hs_writeConnect hs = None" "hs_read hs = Inr ?reply" "hs_writeSubscribe hs = None" for hs
    using that assms(4) client_frames_parse(2) [OF assms(3)]
    by (simp add: Connect_def Let_def first_def second_def IsConnected_def)
  then show ?thesis using s1 s2 by blast
qed


section \<open>A concrete relay\<close>

lemma keyOrder_ok: "client_order_ok keyOrder"
  by (auto simp: client_order_ok_def header_order_def keyOrder_def client_frames)

definition relaySender :: App where "relaySender = (sampleApp ''s'')\<lparr>app_hasStomp := True\<rparr>"
definition relayEnv :: Env where "relayEnv = sampleEnv\<lparr>env_link := (\<lambda>_. sampleLink)\<rparr>"

lemma relaySender_sends:
  "\<exists>a'. handleLocalClipboardCapture (\<lambda>_. None) (=) sampleSys relayEnv (Some (textCapture ''hello'')) relaySender = (a', None)"
proof -
  have hello: "textCapture ''hello'' = \<lparr>cap_Payload = ''hello'', cap_Type = TypeText, cap_FileName = '''', cap_Paths = []\<rparr>"
    by (simp add: textCapture_def)
  show ?thesis
    by (auto simp: handleLocalClipboardCapture_def shouldSuppressDuplicateMonitorCapture_def Let_def sendCapture_def
        shouldSuppressReplayClipboardCapture_def forgetReplayWrite_def buildClipboardDataFromCapture_def hello
        sendClipboardDataWithResult_def messageBody_def relaySender_def relayEnv_def sampleLink_def sampleApp_def
        sampleConfig_def e2eeKey_def dispatchClipboardBodyDetailed_def annotateClipboardSource_def payload_type_defs
        isSingleRouteClipboardType_def monitorCaptureDedupHash_def sha256hex_def hexBytes_def hexByte_def
        split: prod.splits sum.splits if_splits option.splits)
qed

lemma sampleServer_loops: "srv_loops sampleServer 1 = Some (''bob'', '''')"
  by (simp add: sampleServer_def ws_start_def)

theorem relayed_copy_reaches_clipboard_witness:
  "\<exists>a' body msg. handleLocalClipboardCapture (\<lambda>_. None) (=) sampleSys relayEnv (Some (textCapture ''hello'')) relaySender = (a', None) \<and>
     ToRelay body \<in> set (app_outbox a') \<and> Send keyOrder None body sampleClient = ([SendText 1 msg], None) \<and>
     relayed sampleOrd sampleServer ''bob'' 1 msg body \<and>
     app_clipWrites (onReceive sampleEnv body (sampleApp ''r'')) = [PastePayload ''hello'' TypeText '''']"
proof -
  obtain a' where h: "handleLocalClipboardCapture (\<lambda>_. None) (=) sampleSys relayEnv (Some (textCapture ''hello'')) relaySender = (a', None)"
    using relaySender_sends by blast
  have hello: "cap_Payload (textCapture ''hello'') = ''hello''" "cap_Type (textCapture ''hello'') = TypeText"
    by (simp_all add: textCapture_def)
  have plain: "plain_capture (textCapture ''hello'')" by (auto simp: plain_capture_def)
  have spaces: "trimSpace ''s'' = ''s''" by code_simp
  have sender: "app_lastMonitorSendHash relaySender = ''''" "app_replayWriteTime relaySender = 0" "e2eeKey relaySender = None"
    "appSessionID relaySender = ''s''" "app_hasStomp relaySender" "env_link relayEnv n = sampleLink"
    "env_gcm relayEnv = plainGcm" for n
    by (simp_all add: relaySender_def relayEnv_def sampleApp_def e2eeKey_def sampleConfig_def appSessionID_def)
  have client: "sc_conn sampleClient = Some 1" by (simp add: sampleClient_def)
  have hash: "monitorCaptureDedupHash (\<lambda>_. None) relayEnv (textCapture ''hello'') \<noteq> ''''"
    by (simp add: monitorCaptureDedupHash_def textCapture_def payload_type_defs sha256hex_def hexBytes_def hexByte_def
        relayEnv_def)
  have "\<exists>body msg. ToRelay body \<in> set (app_outbox a') \<and> Send keyOrder None body sampleClient = ([SendText 1 msg], None) \<and>
    relayed sampleOrd sampleServer ''bob'' 1 msg body \<and>
    (\<forall>e b. awaits_copy relayEnv relaySender (textCapture ''hello'') e b \<longrightarrow>
       app_clipWrites (onReceive e body b) = app_clipWrites b @ [PastePayload (cap_Payload (textCapture ''hello''))
         (cap_Type (textCapture ''hello'')) '''']) \<and>
    (\<forall>menv m. engineKey m = e2eeKey relaySender \<and> ee_gcm menv = env_gcm relayEnv \<longrightarrow>
       handleIncomingData menv body m = [Message (cap_Payload (textCapture ''hello'')) (cap_Type (textCapture ''hello''))])"
    by (rule relayed_copy_reaches_clipboard [OF h plain _ _ _ _ _ _ _ _ sampleServer_reachable sampleOrd_ok keyOrder_ok
          client sampleServer_loops])
      (simp_all add: hello sender hash [symmetric] crypto_ok_def ascii_toValidUTF8 asciiStr_def sampleLink_def
        shouldSuppressDuplicateMonitorCapture_def shouldSuppressReplayClipboardCapture_def Let_def)
  moreover have receiver: "app_hasClip (sampleApp ''r'')" "ListItems (app_history (sampleApp ''r'')) = []"
    by (simp_all add: sampleApp_def ListItems_def NewManager_def)
  then have "awaits_copy relayEnv relaySender (textCapture ''hello'') sampleEnv (sampleApp ''r'')"
    using receiver by (simp add: awaits_copy_def hello sender spaces sha256hex_def hexBytes_def hexByte_def payload_type_defs)
  moreover have "app_clipWrites (sampleApp ''r'') = []" by (simp add: sampleApp_def)
  ultimately show ?thesis using h hello by fastforce
qed

theorem handshake_subscribes_witness:
  "\<exists>s1 s2 reply. answers keyOrder 1 sampleServer
       (Encode (keyOrder (ConnectFrame ''1.1'' ''localhost'')) (ConnectFrame ''1.1'' ''localhost'')) = (s1, [reply]) \<and>
     answers keyOrder 1 s1 (Encode (keyOrder (SubscribeFrame ''sub-0'' ''/user/queue/cliptext''))
       (SubscribeFrame ''sub-0'' ''/user/queue/cliptext'')) = (s2, []) \<and>
     srv_loops s2 1 = Some (''bob'', ''sub-0'')"
proof -
  have "buildWSURL (\<lambda>_. Inr \<lparr>url_Scheme = ''http'', url_Host = ''h''\<rparr>) (sc_serverURL sampleClient) = Inr ''ws://h/clipsocket''"
    by (simp add: buildWSURL_def hasPrefix_def)
  from handshake_subscribes [OF sampleServer_loops keyOrder_ok keyOrder_ok this] show ?thesis by blast
qed


end
