(* ===== verification/MobileSession.thy ===== *)
theory MobileSession
  imports Relay
begin

text \<open>
  The mobile program around its engine: the session (\<open>fyne_mobile/session.go\<close>) and what \<open>fyne_mobile/main.go\<close>
  does with it: the buttons, the list of texts, the watcher of the clipboard, the list of servers. The engines
  ever made are a list, because an engine whose session has let go of it may still run and report; functions
  queued with \<open>fyne.Do\<close> are a queue, which the event \<open>RunUi\<close> works off in order. Layout, notifications and
  preferences are left out.
\<close>

section \<open>State\<close>

record historyItem =
  hi_Text :: string
  hi_Direction :: string
  hi_At :: gotime

datatype ui_task = ShowStatus string | ShowText string | ShowHosts "string list"

record MobileApp =
  m_engines :: "Engine list"
  m_engine :: "nat option"
  m_starting :: "nat list"
  m_lastCopied :: string
  m_status :: string
  m_label :: string
  m_canConnect :: bool
  m_canDisconnect :: bool
  m_clip :: string
  m_observed :: string
  m_history :: "historyItem list"
  m_limit :: nat
  m_hosts :: "string list"
  m_serverText :: string
  m_ui :: "ui_task list"

text \<open>What an engine writes to the network, with the number of the engine.\<close>

type_synonym mobile_out = "nat \<times> engine_out"

section \<open>The list of texts\<close>

definition appendHistory :: "gotime \<Rightarrow> string \<Rightarrow> string \<Rightarrow> MobileApp \<Rightarrow> MobileApp" where
  "appendHistory now text0 direction m =
     (let text = trimSpace text0 in
      if text = '''' then m
      else
        (let text1 = (if 160 < length text then take 160 text @ ''...'' else text);
             line = replaceChar newline '' '' text1;
             add = m\<lparr>m_history := take (m_limit m) (\<lparr>hi_Text = line, hi_Direction = direction, hi_At = now\<rparr> # m_history m)\<rparr> in
         case m_history m of
           [] \<Rightarrow> add
         | it # _ \<Rightarrow> if hi_Text it = line \<and> hi_Direction it = direction then m else add))"

definition applyLimit :: "nat \<Rightarrow> MobileApp \<Rightarrow> MobileApp" where
  "applyLimit n m = m\<lparr>m_limit := n, m_history := take n (m_history m)\<rparr>"

definition clearHistory :: "MobileApp \<Rightarrow> MobileApp" where
  "clearHistory m = m\<lparr>m_history := []\<rparr>"

definition historySelected :: "int \<Rightarrow> MobileApp \<Rightarrow> MobileApp" where
  "historySelected i m =
     (if m_history m = [] \<or> i < 0 \<or> int (length (m_history m)) \<le> i then m
      else m\<lparr>m_clip := hi_Text (m_history m ! nat i)\<rparr>)"

section \<open>The list of servers\<close>

definition addDiscoveredHost :: "string \<Rightarrow> MobileApp \<Rightarrow> MobileApp" where
  "addDiscoveredHost addr0 m =
     (let addr = trimSpace addr0 in
      if addr = '''' \<or> addr \<in> set (m_hosts m) then m
      else (let hosts = sort (m_hosts m @ [addr]) in m\<lparr>m_hosts := hosts, m_ui := m_ui m @ [ShowHosts hosts]\<rparr>))"

definition discoveredAddrs :: "string list \<Rightarrow> string list \<Rightarrow> string \<Rightarrow> int \<Rightarrow> string list" where
  "discoveredAddrs ipv4 ipv6 hostName port =
     map (\<lambda>ip. ''http://'' @ ip @ '':'' @ showInt port) ipv4 @
     map (\<lambda>ip. ''http://['' @ ip @ '']:'' @ showInt port) ipv6 @
     (if ipv4 = [] \<and> ipv6 = [] \<and> hostName \<noteq> ''''
      then [''http://'' @ (if suffix ''.'' hostName then butlast hostName else hostName) @ '':'' @ showInt port] else [])"

definition showHosts :: "string list \<Rightarrow> MobileApp \<Rightarrow> MobileApp" where
  "showHosts options m =
     (let current = trimSpace (m_serverText m) in
      if current = '''' \<or> current = ''http://localhost:8080'' then m\<lparr>m_serverText := hd options\<rparr> else m)"

section \<open>The session\<close>

definition setStatus :: "string \<Rightarrow> MobileApp \<Rightarrow> MobileApp" where
  "setStatus status m = m\<lparr>m_status := status, m_ui := m_ui m @ [ShowStatus status]\<rparr>"

definition OnStatusChange :: "string \<Rightarrow> MobileApp \<Rightarrow> MobileApp" where
  "OnStatusChange status m = setStatus status m"

definition OnMessage :: "string \<Rightarrow> string \<Rightarrow> MobileApp \<Rightarrow> MobileApp" where
  "OnMessage payload payloadType m =
     (if payloadType = ''text'' then m\<lparr>m_ui := m_ui m @ [ShowText payload]\<rparr> else m)"

text \<open>The part of \<open>OnMessage\<close> that runs on the user-interface thread.\<close>

definition showText :: "gotime \<Rightarrow> string \<Rightarrow> MobileApp \<Rightarrow> MobileApp" where
  "showText now payload m =
     (if m_clip m = payload \<or> m_lastCopied m = payload then m
      else appendHistory now payload ''received'' (m\<lparr>m_lastCopied := payload, m_clip := payload\<rparr>))"

text \<open>What an engine reports goes to the session, what it writes to the network.\<close>

fun deliver_outs :: "nat \<Rightarrow> engine_out list \<Rightarrow> MobileApp \<Rightarrow> MobileApp \<times> mobile_out list" where
  "deliver_outs i [] m = (m, [])"
| "deliver_outs i (out # outs) m =
     (case out of
        Status st \<Rightarrow> deliver_outs i outs (OnStatusChange st m)
      | Message p t \<Rightarrow> deliver_outs i outs (OnMessage p t m)
      | _ \<Rightarrow> (case deliver_outs i outs m of (m', net) \<Rightarrow> (m', (i, out) # net)))"

definition with_engine ::
  "nat \<Rightarrow> Engine \<times> engine_out list \<Rightarrow> MobileApp \<Rightarrow> MobileApp \<times> mobile_out list" where
  "with_engine i r m = (case r of (e, outs) \<Rightarrow> deliver_outs i outs (m\<lparr>m_engines := (m_engines m)[i := e]\<rparr>))"

text \<open>\<open>Connect\<close> up to the call of \<open>Start\<close>, and from its return.\<close>

definition Session_Connect :: "string \<Rightarrow> string \<Rightarrow> string \<Rightarrow> bool \<Rightarrow> MobileApp \<Rightarrow> MobileApp" where
  "Session_Connect serverURL username password e2ee m =
     (let m1 = setStatus ''connecting'' m; i = length (m_engines m) in
      m1\<lparr>m_engines := m_engines m @ [MobileEngine.NewEngine serverURL username password e2ee],
         m_engine := Some i, m_starting := i # m_starting m\<rparr>)"

definition Session_Started :: "EngineEnv \<Rightarrow> nat \<Rightarrow> Attempt \<Rightarrow> MobileApp \<Rightarrow> MobileApp \<times> mobile_out list" where
  "Session_Started env i at m =
     (let m1 = m\<lparr>m_starting := removeAll i (m_starting m)\<rparr> in
      case Start env at (m_engines m ! i) of
        (e, outs, err) \<Rightarrow>
          (case with_engine i (e, outs) m1 of
             (m2, net) \<Rightarrow> (setStatus (if err = None then ''connected'' else ''disconnected'') m2, net)))"

definition Session_Disconnect :: "EngineEnv \<Rightarrow> MobileApp \<Rightarrow> MobileApp \<times> mobile_out list" where
  "Session_Disconnect env m =
     (let m1 = (setStatus ''disconnecting'' m)\<lparr>m_engine := None\<rparr> in
      case m_engine m of
        None \<Rightarrow> (setStatus ''disconnected'' m1, [])
      | Some i \<Rightarrow> (case with_engine i (Stop env (m_engines m ! i)) m1 of
                     (m2, net) \<Rightarrow> (setStatus ''disconnected'' m2, net)))"

definition Session_IsConnected :: "MobileApp \<Rightarrow> bool" where
  "Session_IsConnected m \<longleftrightarrow>
     (m_status m = ''connected'' \<or> m_status m = ''reconnecting'') \<and>
     (case m_engine m of None \<Rightarrow> False | Some i \<Rightarrow> e_connected (m_engines m ! i))"

text \<open>A text to send, with the clock, the nonce, and how the connection answers the write.\<close>

record Sending =
  sd_now :: gotime
  sd_nonce :: "bytes option"
  sd_writeErr :: "goerror option"

definition SendText :: "EngineEnv \<Rightarrow> Sending \<Rightarrow> string \<Rightarrow> MobileApp \<Rightarrow> MobileApp \<times> mobile_out list" where
  "SendText env sd text m =
     (let m1 = m\<lparr>m_lastCopied := text\<rparr> in
      case m_engine m of
        None \<Rightarrow> (m1, [])
      | Some i \<Rightarrow>
          (case SendClipboard env (sd_nonce sd) (sd_writeErr sd) text ''text'' (m_engines m ! i) of
             (outs, err) \<Rightarrow>
               (if err = None then appendHistory (sd_now sd) text ''sent'' m1 else m1, map (\<lambda>out. (i, out)) outs)))"

section \<open>The window\<close>

definition applyConnectionState :: "string \<Rightarrow> MobileApp \<Rightarrow> MobileApp" where
  "applyConnectionState state m =
     (if state = ''connecting''
      then m\<lparr>m_label := ''Status: Connecting...'', m_canConnect := False, m_canDisconnect := False\<rparr>
      else if state = ''connected''
      then m\<lparr>m_label := ''Status: Connected'', m_canConnect := False, m_canDisconnect := True\<rparr>
      else if state = ''disconnecting''
      then m\<lparr>m_label := ''Status: Disconnecting...'', m_canConnect := False, m_canDisconnect := False\<rparr>
      else if state = ''reconnecting''
      then m\<lparr>m_label := ''Status: Reconnecting...'', m_canConnect := False, m_canDisconnect := False\<rparr>
      else if state = ''error''
      then m\<lparr>m_label := ''Status: Error'', m_canConnect := True, m_canDisconnect := False\<rparr>
      else m\<lparr>m_label := ''Status: Disconnected'', m_canConnect := True, m_canDisconnect := False\<rparr>)"

text \<open>The handlers of the buttons; a disabled button does not call its handler.\<close>

definition connectPressed :: "string \<Rightarrow> string \<Rightarrow> bool \<Rightarrow> MobileApp \<Rightarrow> MobileApp" where
  "connectPressed user pass e2ee m =
     (if \<not> m_canConnect m \<or> m_status m = ''connecting'' \<or> m_status m = ''connected'' \<or> m_status m = ''reconnecting'' \<or>
         m_serverText m = '''' \<or> user = '''' then m
      else Session_Connect (m_serverText m) user pass e2ee m)"

definition disconnectPressed :: "EngineEnv \<Rightarrow> MobileApp \<Rightarrow> MobileApp \<times> mobile_out list" where
  "disconnectPressed env m =
     (if \<not> m_canDisconnect m \<or> (m_status m \<noteq> ''connected'' \<and> m_status m \<noteq> ''reconnecting'') then (m, [])
      else Session_Disconnect env m)"

definition syncPressed :: "EngineEnv \<Rightarrow> Sending \<Rightarrow> MobileApp \<Rightarrow> MobileApp \<times> mobile_out list" where
  "syncPressed env sd m =
     (if Session_IsConnected m \<and> m_clip m \<noteq> '''' then SendText env sd (m_clip m) m else (m, []))"

definition watchTick :: "EngineEnv \<Rightarrow> Sending \<Rightarrow> MobileApp \<Rightarrow> MobileApp \<times> mobile_out list" where
  "watchTick env sd m =
     (let content = trimSpace (m_clip m) in
      if content = '''' \<or> content = m_observed m then (m, [])
      else (let m1 = m\<lparr>m_observed := content\<rparr> in
            if \<not> Session_IsConnected m1 \<or> content = m_lastCopied m1 then (m1, []) else SendText env sd content m1))"

definition enteredForeground :: "EngineEnv \<Rightarrow> Sending \<Rightarrow> MobileApp \<Rightarrow> MobileApp \<times> mobile_out list" where
  "enteredForeground env sd m =
     (if Session_IsConnected m \<and> m_clip m \<noteq> '''' \<and> m_clip m \<noteq> m_lastCopied m then SendText env sd (m_clip m) m
      else (m, []))"

definition mobile_start :: "string \<Rightarrow> string \<Rightarrow> MobileApp" where
  "mobile_start clip savedURL =
     (let m = \<lparr>m_engines = [], m_engine = None, m_starting = [], m_lastCopied = '''', m_status = ''disconnected'',
               m_label = ''Status: Disconnected'', m_canConnect = True, m_canDisconnect = True, m_clip = clip,
               m_observed = clip, m_history = [], m_limit = 10, m_hosts = [], m_serverText = savedURL, m_ui = []\<rparr> in
      (addDiscoveredHost savedURL m)\<lparr>m_ui := m_ui (addDiscoveredHost savedURL m) @ [ShowStatus ''disconnected'']\<rparr>)"

section \<open>Runs\<close>

datatype mobile_event =
  UserCopies string | TypesServer string | ConnectPress string string bool | DisconnectPress | SyncPress Sending
  | SelectHistory int | LimitPress nat | ClearPress | Started nat Attempt | EngineRuns nat engine_event
  | RunUi gotime | WatchTick Sending | Foreground Sending | Discovered "string list" "string list" string int

fun run_ui_task :: "gotime \<Rightarrow> ui_task \<Rightarrow> MobileApp \<Rightarrow> MobileApp" where
  "run_ui_task now (ShowStatus st) m = applyConnectionState st m"
| "run_ui_task now (ShowText p) m = showText now p m"
| "run_ui_task now (ShowHosts hs) m = showHosts hs m"

text \<open>Only the session starts and stops engines; the limit buttons are 10 and 20.\<close>

fun mobile_step :: "EngineEnv \<Rightarrow> mobile_event \<Rightarrow> MobileApp \<Rightarrow> MobileApp \<times> mobile_out list" where
  "mobile_step env (UserCopies s) m = (m\<lparr>m_clip := s\<rparr>, [])"
| "mobile_step env (TypesServer s) m = (m\<lparr>m_serverText := s\<rparr>, [])"
| "mobile_step env (ConnectPress user pass e2ee) m = (connectPressed user pass e2ee m, [])"
| "mobile_step env DisconnectPress m = disconnectPressed env m"
| "mobile_step env (SyncPress sd) m = syncPressed env sd m"
| "mobile_step env (SelectHistory i) m = (historySelected i m, [])"
| "mobile_step env (LimitPress n) m = (if n = 10 \<or> n = 20 then applyLimit n m else m, [])"
| "mobile_step env ClearPress m = (clearHistory m, [])"
| "mobile_step env (Started i at) m = (if i \<in> set (m_starting m) then Session_Started env i at m else (m, []))"
| "mobile_step env (EngineRuns i ev) m =
     (case ev of
        Begin _ \<Rightarrow> (m, [])
      | StopCall \<Rightarrow> (m, [])
      | _ \<Rightarrow> if i < length (m_engines m) then with_engine i (engine_step env ev (m_engines m ! i)) m else (m, []))"
| "mobile_step env (RunUi now) m =
     (case m_ui m of [] \<Rightarrow> (m, []) | t # ts \<Rightarrow> (run_ui_task now t (m\<lparr>m_ui := ts\<rparr>), []))"
| "mobile_step env (WatchTick sd) m = watchTick env sd m"
| "mobile_step env (Foreground sd) m = enteredForeground env sd m"
| "mobile_step env (Discovered ipv4 ipv6 hostName port) m =
     (foldl (\<lambda>m a. addDiscoveredHost a m) m (discoveredAddrs ipv4 ipv6 hostName port), [])"

fun mobile_run :: "EngineEnv \<Rightarrow> mobile_event list \<Rightarrow> MobileApp \<Rightarrow> MobileApp \<times> mobile_out list" where
  "mobile_run env [] m = (m, [])"
| "mobile_run env (ev # evs) m =
     (case mobile_step env ev m of (m1, o1) \<Rightarrow> (case mobile_run env evs m1 of (m2, o2) \<Rightarrow> (m2, o1 @ o2)))"

interpretation session: emitting_machine "mobile_step env" "mobile_run env" for env
  by unfold_locales (simp_all add: case_prod_beta)

section \<open>What delivering reports changes\<close>

text \<open>Reports change the status and the queue only.\<close>

lemma deliver_keeps:
  "fst (deliver_outs i outs m) = m\<lparr>m_status := m_status (fst (deliver_outs i outs m)),
     m_ui := m_ui (fst (deliver_outs i outs m))\<rparr>"
proof (induction outs arbitrary: m)
  case (Cons out outs)
  show ?case
  proof (cases out)
    case (Status st)
    then show ?thesis using Cons [of "OnStatusChange st m"] by (simp add: OnStatusChange_def setStatus_def)
  next
    case (Message p t)
    then show ?thesis using Cons [of "OnMessage p t m"] by (simp add: OnMessage_def split: if_splits)
  qed (use Cons [of m] in \<open>simp_all add: case_prod_beta\<close>)
qed simp

lemma deliver_fields:
  "m_history (fst (deliver_outs i outs m)) = m_history m" "m_limit (fst (deliver_outs i outs m)) = m_limit m"
  "m_clip (fst (deliver_outs i outs m)) = m_clip m" "m_observed (fst (deliver_outs i outs m)) = m_observed m"
  "m_lastCopied (fst (deliver_outs i outs m)) = m_lastCopied m" "m_label (fst (deliver_outs i outs m)) = m_label m"
  "m_canConnect (fst (deliver_outs i outs m)) = m_canConnect m"
  "m_canDisconnect (fst (deliver_outs i outs m)) = m_canDisconnect m"
  "m_engines (fst (deliver_outs i outs m)) = m_engines m" "m_engine (fst (deliver_outs i outs m)) = m_engine m"
  by (subst deliver_keeps, simp)+

section \<open>The list of texts is short\<close>

definition history_ok :: "MobileApp \<Rightarrow> bool" where
  "history_ok m \<longleftrightarrow> (m_limit m = 10 \<or> m_limit m = 20) \<and> length (m_history m) \<le> m_limit m \<and>
     (\<forall>it\<in>set (m_history m). hi_Text it \<noteq> '''' \<and> length (hi_Text it) \<le> 163 \<and> newline \<notin> set (hi_Text it))"

lemma replaceChar_one:
  "length (replaceChar c [d] s) = length s" "c \<noteq> d \<Longrightarrow> c \<notin> set (replaceChar c [d] s)"
  by (induction s) (auto simp: replaceChar_def)

lemma appendHistory_ok:
  assumes "history_ok m"
  shows "history_ok (appendHistory now text d m)"
proof -
  define t where "t = trimSpace text"
  define l where "l = (if 160 < length t then take 160 t @ ''...'' else t)"
  have "length l \<le> 163" "t \<noteq> '''' \<Longrightarrow> l \<noteq> ''''" by (auto simp: l_def)
  then have line: "length (replaceChar newline '' '' l) \<le> 163" "newline \<notin> set (replaceChar newline '' '' l)"
    "t \<noteq> '''' \<Longrightarrow> replaceChar newline '' '' l \<noteq> ''''"
    using replaceChar_one(1) [of newline "CHR 0x20" l] replaceChar_one(2) [of newline "CHR 0x20" l]
    by (auto simp: newline_def)
  have "history_ok (m\<lparr>m_history := take (m_limit m) (\<lparr>hi_Text = replaceChar newline '' '' l, hi_Direction = d, hi_At = now\<rparr> # m_history m)\<rparr>)"
    if "t \<noteq> ''''"
    using assms line that by (auto simp: history_ok_def dest!: in_set_takeD)
  then show ?thesis
    using assms by (cases "m_history m") (simp_all add: appendHistory_def Let_def t_def [symmetric] l_def [symmetric])
qed

lemma history_ok_same:
  "m_history m' = m_history m \<Longrightarrow> m_limit m' = m_limit m \<Longrightarrow> history_ok m' = history_ok m"
  by (simp add: history_ok_def)

lemma with_engine_fields:
  "m_history (fst (with_engine i r m)) = m_history m" "m_limit (fst (with_engine i r m)) = m_limit m"
  "m_clip (fst (with_engine i r m)) = m_clip m" "m_observed (fst (with_engine i r m)) = m_observed m"
  "m_lastCopied (fst (with_engine i r m)) = m_lastCopied m" "m_label (fst (with_engine i r m)) = m_label m"
  "m_canConnect (fst (with_engine i r m)) = m_canConnect m"
  "m_canDisconnect (fst (with_engine i r m)) = m_canDisconnect m"
  by (simp_all add: with_engine_def case_prod_beta deliver_fields)

lemmas session_defs = Session_Connect_def Session_Started_def Session_Disconnect_def setStatus_def

lemma session_fields:
  "m_history (Session_Connect u n p b m) = m_history m" "m_limit (Session_Connect u n p b m) = m_limit m"
  "m_history (fst (Session_Started env i at m)) = m_history m" "m_limit (fst (Session_Started env i at m)) = m_limit m"
  "m_history (fst (Session_Disconnect env m)) = m_history m" "m_limit (fst (Session_Disconnect env m)) = m_limit m"
  by (simp_all add: session_defs Let_def case_prod_beta with_engine_fields split: option.split)

lemma SendText_history_ok: "history_ok m \<Longrightarrow> history_ok (fst (SendText env sd text m))"
proof -
  assume "history_ok m"
  then have "history_ok (m\<lparr>m_lastCopied := text\<rparr>)" by (simp add: history_ok_def)
  then show ?thesis using appendHistory_ok by (simp add: SendText_def Let_def case_prod_beta split: option.split)
qed

lemma hosts_fields:
  "m_history (addDiscoveredHost a m) = m_history m" "m_limit (addDiscoveredHost a m) = m_limit m"
  by (simp_all add: addDiscoveredHost_def Let_def)

lemma hosts_history_ok: "history_ok m \<Longrightarrow> history_ok (foldl (\<lambda>m a. addDiscoveredHost a m) m as)"
proof (induction as arbitrary: m)
  case (Cons a as)
  then show ?case using history_ok_same [OF hosts_fields, of a m] by simp
qed simp

lemma run_ui_history_ok:
  assumes "history_ok m"
  shows "history_ok (run_ui_task now t m)"
proof (cases t)
  case (ShowText p)
  have "history_ok (m\<lparr>m_lastCopied := p, m_clip := p\<rparr>)" using assms by (simp add: history_ok_def)
  then show ?thesis using ShowText appendHistory_ok assms by (simp add: showText_def)
qed (use assms in \<open>simp_all add: history_ok_def applyConnectionState_def showHosts_def Let_def\<close>)

lemma mobile_step_history_ok:
  assumes "history_ok m"
  shows "history_ok (fst (mobile_step env ev m))"
proof -
  have eq: "history_ok m' = history_ok m \<Longrightarrow> history_ok m'" for m' using assms by simp
  have obs: "history_ok (m\<lparr>m_observed := c\<rparr>)" for c using assms by (simp add: history_ok_def)
  show ?thesis
  proof (cases ev)
    case (RunUi now)
    have "history_ok (m\<lparr>m_ui := ts\<rparr>)" for ts using assms by (simp add: history_ok_def)
    then show ?thesis using RunUi assms run_ui_history_ok by (simp split: list.split)
  next
    case (LimitPress n)
    then show ?thesis using assms by (auto simp: applyLimit_def history_ok_def dest!: in_set_takeD)
  next
    case (EngineRuns i ev)
    then show ?thesis using assms history_ok_same [OF with_engine_fields(1,2)] by (cases ev) simp_all
  qed (use assms obs in \<open>simp_all add: SendText_history_ok hosts_history_ok watchTick_def enteredForeground_def
         syncPressed_def Let_def connectPressed_def disconnectPressed_def historySelected_def clearHistory_def
         history_ok_same [OF session_fields(1,2)] history_ok_same [OF session_fields(3,4)]
         history_ok_same [OF session_fields(5,6)]\<close>, simp_all add: history_ok_def)
qed

interpretation session_list: kept_machine "mobile_step env" "mobile_run env" "\<lambda>_. True" history_ok for env
  by unfold_locales (rule mobile_step_history_ok)

text \<open>The list of texts on the mobile program stays short and plain whatever happens: at most the chosen 10 or 20
  entries, each a non-empty line of at most 163 bytes.\<close>
theorem mobile_list_bounded: "history_ok (fst (mobile_run env evs (mobile_start clip url)))"
proof -
  have "history_ok (mobile_start clip url)" by (simp add: history_ok_def mobile_start_def Let_def hosts_fields)
  then show ?thesis by (rule session_list.free_final_inv) simp
qed

section \<open>The buttons follow the status\<close>

definition shown_statuses :: "ui_task list \<Rightarrow> string list" where
  "shown_statuses ts = concat (map (\<lambda>t. case t of ShowStatus st \<Rightarrow> [st] | _ \<Rightarrow> []) ts)"

text \<open>When the queue has been worked off the window shows the status: what it shows or will show last.\<close>

definition window_shows :: "string \<Rightarrow> MobileApp \<Rightarrow> bool" where
  "window_shows st m \<longleftrightarrow>
     (let w = applyConnectionState st m in
      m_label w = m_label m \<and> m_canConnect w = m_canConnect m \<and> m_canDisconnect w = m_canDisconnect m)"

definition status_ok :: "MobileApp \<Rightarrow> bool" where
  "status_ok m \<longleftrightarrow>
     (if shown_statuses (m_ui m) = [] then window_shows (m_status m) m else last (shown_statuses (m_ui m)) = m_status m)"

lemma shown_simps [simp]:
  "shown_statuses [] = []" "shown_statuses (xs @ ys) = shown_statuses xs @ shown_statuses ys"
  "shown_statuses (ShowStatus st # ts) = st # shown_statuses ts" "shown_statuses (ShowText p # ts) = shown_statuses ts"
  "shown_statuses (ShowHosts hs # ts) = shown_statuses ts"
  by (simp_all add: shown_statuses_def)

lemma window_shows_apply: "window_shows st (applyConnectionState st m)"
  by (simp add: window_shows_def Let_def applyConnectionState_def)

lemma window_same:
  "m_label m' = m_label m \<Longrightarrow> m_canConnect m' = m_canConnect m \<Longrightarrow> m_canDisconnect m' = m_canDisconnect m \<Longrightarrow>
     window_shows st m' = window_shows st m"
  by (simp add: window_shows_def Let_def applyConnectionState_def)

lemma status_same:
  "m_label m' = m_label m \<Longrightarrow> m_canConnect m' = m_canConnect m \<Longrightarrow> m_canDisconnect m' = m_canDisconnect m \<Longrightarrow>
     m_status m' = m_status m \<Longrightarrow> shown_statuses (m_ui m') = shown_statuses (m_ui m) \<Longrightarrow> status_ok m' = status_ok m"
  by (simp add: status_ok_def window_same [of m' m])

lemma status_set: "status_ok (setStatus st m)"
  by (simp add: status_ok_def setStatus_def)

lemma appendHistory_fields [simp]:
  "m_label (appendHistory now t d m) = m_label m" "m_canConnect (appendHistory now t d m) = m_canConnect m"
  "m_canDisconnect (appendHistory now t d m) = m_canDisconnect m" "m_status (appendHistory now t d m) = m_status m"
  "m_ui (appendHistory now t d m) = m_ui m" "m_clip (appendHistory now t d m) = m_clip m"
  "m_observed (appendHistory now t d m) = m_observed m" "m_lastCopied (appendHistory now t d m) = m_lastCopied m"
  by (simp_all add: appendHistory_def Let_def split: list.split)

lemma SendText_fields:
  "m_label (fst (SendText env sd t m)) = m_label m" "m_canConnect (fst (SendText env sd t m)) = m_canConnect m"
  "m_canDisconnect (fst (SendText env sd t m)) = m_canDisconnect m" "m_status (fst (SendText env sd t m)) = m_status m"
  "m_ui (fst (SendText env sd t m)) = m_ui m" "m_clip (fst (SendText env sd t m)) = m_clip m"
  "m_observed (fst (SendText env sd t m)) = m_observed m" "m_lastCopied (fst (SendText env sd t m)) = t"
  by (simp_all add: SendText_def Let_def case_prod_beta split: option.split)

lemma status_SendText: "status_ok m \<Longrightarrow> status_ok (fst (SendText env sd t m))"
  by (subst status_same [of _ m]) (simp_all add: SendText_fields)

lemma status_hosts: "status_ok m \<Longrightarrow> status_ok (foldl (\<lambda>m a. addDiscoveredHost a m) m as)"
proof (induction as arbitrary: m)
  case (Cons a as)
  then show ?case
    using status_same [of "addDiscoveredHost a m" m] by (simp add: addDiscoveredHost_def Let_def)
qed simp

lemma status_deliver: "status_ok m \<Longrightarrow> status_ok (fst (deliver_outs i outs m))"
proof (induction outs arbitrary: m)
  case (Cons out outs)
  have "status_ok (OnMessage p t m)" for p t
    by (subst status_same [of _ m]) (simp_all add: OnMessage_def Cons.prems)
  then show ?case
    using Cons by (cases out) (simp_all add: OnStatusChange_def status_set case_prod_beta)
qed simp

lemma status_engine: "status_ok m \<Longrightarrow> status_ok (fst (with_engine i r m))"
proof -
  assume "status_ok m"
  then have "status_ok (m\<lparr>m_engines := es\<rparr>)" for es by (subst status_same [of _ m]) simp_all
  then show ?thesis by (simp add: with_engine_def case_prod_beta status_deliver)
qed

lemma status_session:
  "status_ok (Session_Connect u n p b m)" "status_ok (fst (Session_Started env i at m))"
  "status_ok (fst (Session_Disconnect env m))"
  by (simp_all add: session_defs Let_def case_prod_beta status_ok_def split: option.split)

lemma status_run_ui:
  assumes "status_ok (m\<lparr>m_ui := t # ts\<rparr>)"
  shows "status_ok (run_ui_task now t (m\<lparr>m_ui := ts\<rparr>))"
proof (cases t)
  case (ShowStatus st)
  have same: "m_ui (applyConnectionState st m') = m_ui m'" "m_status (applyConnectionState st m') = m_status m'" for m'
    by (simp_all add: applyConnectionState_def)
  show ?thesis
  proof (cases "shown_statuses ts = []")
    case True
    then have "m_status m = st" using assms ShowStatus by (simp add: status_ok_def)
    then show ?thesis using True ShowStatus window_shows_apply [of st "m\<lparr>m_ui := ts\<rparr>"] by (simp add: status_ok_def same)
  qed (use assms ShowStatus in \<open>simp add: status_ok_def same\<close>)
next
  case (ShowText p)
  then show ?thesis using assms by (subst status_same [of _ "m\<lparr>m_ui := t # ts\<rparr>"]) (simp_all add: showText_def)
next
  case (ShowHosts hs)
  then show ?thesis
    using assms by (subst status_same [of _ "m\<lparr>m_ui := t # ts\<rparr>"]) (simp_all add: showHosts_def Let_def)
qed

lemma mobile_step_status_ok:
  assumes "status_ok m"
  shows "status_ok (fst (mobile_step env ev m))"
proof -
  have upd: "status_ok (m\<lparr>m_clip := s\<rparr>)" "status_ok (m\<lparr>m_serverText := s\<rparr>)" "status_ok (m\<lparr>m_observed := s\<rparr>)"
    "status_ok (m\<lparr>m_history := h\<rparr>)" "status_ok (m\<lparr>m_limit := n, m_history := h\<rparr>)" for s h n
    using assms by (subst status_same [of _ m], simp, simp, simp, simp, simp, simp)+
  show ?thesis
  proof (cases ev)
    case (RunUi now)
    show ?thesis
    proof (cases "m_ui m")
      case (Cons t ts)
      then have "m\<lparr>m_ui := t # ts\<rparr> = m" by simp
      then have "status_ok (m\<lparr>m_ui := t # ts\<rparr>)" using assms by simp
      then show ?thesis using RunUi Cons assms status_run_ui [of t ts m now] by simp
    qed (use RunUi assms in simp)
  next
    case (EngineRuns i ev)
    then show ?thesis using assms status_engine by (cases ev) simp_all
  qed (use assms upd in \<open>simp_all add: status_SendText status_hosts watchTick_def enteredForeground_def syncPressed_def
         Let_def connectPressed_def disconnectPressed_def historySelected_def clearHistory_def applyLimit_def
         status_session\<close>)
qed

interpretation session_status: kept_machine "mobile_step env" "mobile_run env" "\<lambda>_. True" status_ok for env
  by unfold_locales (rule mobile_step_status_ok)

text \<open>While the mobile client reconnects, its user can neither give up nor change the server. Whatever happened
  before, once the window shows that the session is reconnecting, both buttons are disabled and pressing them does
  nothing, although the handler of the second is written to act in that state.\<close>
theorem mobile_reconnecting_locks_buttons:
  assumes "m = fst (mobile_run env evs (mobile_start clip url))" "m_status m = ''reconnecting''" "m_ui m = []"
  shows "\<not> m_canConnect m \<and> \<not> m_canDisconnect m \<and> m_label m = ''Status: Reconnecting...'' \<and>
    mobile_step env (ConnectPress user pass e2ee) m = (m, []) \<and> mobile_step env DisconnectPress m = (m, [])"
proof -
  have "status_ok (mobile_start clip url)"
    by (simp add: status_ok_def mobile_start_def Let_def addDiscoveredHost_def)
  then have "status_ok m" unfolding assms(1) by (rule session_status.free_final_inv) simp
  then have "window_shows ''reconnecting'' m" using assms(2,3) by (simp add: status_ok_def)
  then have "\<not> m_canConnect m \<and> \<not> m_canDisconnect m \<and> m_label m = ''Status: Reconnecting...''"
    by (simp add: window_shows_def Let_def applyConnectionState_def)
  then show ?thesis by (simp add: connectPressed_def disconnectPressed_def)
qed


section \<open>Texts from a mobile device reach the others\<close>

definition textMessage :: "string \<Rightarrow> ClipboardData" where
  "textMessage text = zeroClipboard\<lparr>cd_Payload := text, cd_Type := ''text''\<rparr>"

definition engine_crypto_ok :: "EngineEnv \<Rightarrow> Engine \<Rightarrow> bool" where
  "engine_crypto_ok env e \<longleftrightarrow> (case engineKey e of None \<Rightarrow> True | Some key \<Rightarrow> gcm_correct (ee_gcm env) key)"

lemma render_body:
  "(body = ClipboardData_Encode cd \<and> clipboard_ints_ok cd) \<or> body = EncodeToJSONString p \<Longrightarrow>
     DecodeClipboardData body \<noteq> None \<and> last body \<noteq> nul"
proof -
  assume a: "(body = ClipboardData_Encode cd \<and> clipboard_ints_ok cd) \<or> body = EncodeToJSONString p"
  then have "\<exists>kvs. body = render (JObj kvs)" unfolding ClipboardData_Encode_def clipboardJSON_def EncodeToJSONString_def by blast
  then obtain kvs where "body = render (JObj kvs)" by blast
  then have "last body \<noteq> nul" using object_last [of kvs] by (simp only:) (simp add: nul_def)
  then show ?thesis using a decode_encode_clipboard [of cd] envelope_is_clipboard [of p] by auto
qed

lemma SendClipboard_body:
  assumes "SendClipboard env nonce None text ''text'' e = (outs, None)" "e_wsConn e = Some c"
    and "utf8ok text" "engine_crypto_ok env e"
  shows "\<exists>body. outs = [SocketText c (Encode (ee_ord env (SendFrame ''/app/cliptext'' body)) (SendFrame ''/app/cliptext'' body))] \<and>
    DecodeClipboardData body \<noteq> None \<and> last body \<noteq> nul \<and>
    (\<forall>e' b. e2eeKey b = engineKey e \<and> env_gcm e' = ee_gcm env \<longrightarrow> openMessage e' b body = Some (textMessage text))"
proof -
  let ?cd = "textMessage text"
  have ints: "clipboard_ints_ok ?cd" by (simp add: clipboard_ints_ok_def textMessage_def zeroClipboard_def)
  have "asciiStr ''text''" by (simp add: asciiStr_def)
  then have sane: "sanitizeClipboard ?cd = ?cd"
    using assms(3) by (simp add: sanitizeClipboard_def textMessage_def zeroClipboard_def ascii_toValidUTF8)
  note def = SendClipboard_def Let_def textMessage_def [symmetric] engineKey_def [symmetric]
  show ?thesis
  proof (cases "engineKey e")
    case None
    then have "outs = [SocketText c (Encode (ee_ord env (SendFrame ''/app/cliptext'' (ClipboardData_Encode ?cd)))
        (SendFrame ''/app/cliptext'' (ClipboardData_Encode ?cd)))]"
      using assms(1,2) by (simp add: def)
    moreover have "openMessage e' b (ClipboardData_Encode ?cd) = Some ?cd" if "e2eeKey b = engineKey e" for e' b
      using that None decode_encode_clipboard [OF ints] sane by (simp add: openMessage_def)
    ultimately show ?thesis using render_body ints by blast
  next
    case (Some key)
    then obtain p where p: "Encrypt (ee_gcm env) nonce key (ClipboardData_Encode ?cd) = Inr p"
      and "outs = [SocketText c (Encode (ee_ord env (SendFrame ''/app/cliptext'' (EncodeToJSONString p)))
        (SendFrame ''/app/cliptext'' (EncodeToJSONString p)))]"
      using assms(1,2) by (auto simp: def split: sum.splits)
    moreover have "Decrypt (ee_gcm env) key p = Inr (ClipboardData_Encode ?cd)"
      using encrypted_opens p assms(4) Some by (simp add: engine_crypto_ok_def Encrypt_def Decrypt_def)
    then have "openMessage e' b (EncodeToJSONString p) = Some ?cd"
      if "e2eeKey b = engineKey e" "env_gcm e' = ee_gcm env" for e' b
      using that Some decode_encode_clipboard [OF ints] sane by (simp add: openMessage_def)
    ultimately show ?thesis using render_body by blast
  qed
qed

text \<open>What a desktop device that is ready for a text of a mobile client looks like.\<close>

definition awaits_text :: "EngineEnv \<Rightarrow> Engine \<Rightarrow> string \<Rightarrow> Env \<Rightarrow> App \<Rightarrow> bool" where
  "awaits_text env e text e' b \<longleftrightarrow>
     e2eeKey b = engineKey e \<and> env_gcm e' = ee_gcm env \<and> app_hasClip b \<and> (\<forall>w. env_clipErr e' w = None) \<and>
     app_lastRecvHash b \<noteq> sha256hex e' (''text'' @ text) \<and>
     (\<forall>it\<in>set (ListItems (app_history b)). item_Payload it \<noteq> text)"

text \<open>C10: A text sent from the mobile program reaches the clipboard of the desktop devices. What its session writes when
  sending succeeds makes the server write one frame to each running connection of the user, and a desktop device
  with the same key that has not seen the text puts exactly it on its clipboard, once.\<close>
theorem mobile_text_reaches_desktop:
  assumes "m_engine m = Some i" "m_engines m ! i = e" "e_wsConn e = Some c"
    and "SendClipboard env (sd_nonce sd) None text ''text'' e = (outs, None)" "sd_writeErr sd = None"
    and "utf8ok text" "engine_crypto_ok env e"
    and "ws_reachable ords s" "message_order_ok ords" "client_order_ok (ee_ord env)" "srv_loops s c = Some (u, sub)"
  shows "\<exists>msg body. snd (SendText env sd text m) = [(i, SocketText c msg)] \<and> relayed ords s u c msg body \<and>
    (\<forall>e' b. awaits_text env e text e' b \<longrightarrow>
       app_clipWrites (onReceive e' body b) = app_clipWrites b @ [PastePayload text TypeText ''''])"
proof -
  obtain body where outs: "outs = [SocketText c (Encode (ee_ord env (SendFrame ''/app/cliptext'' body)) (SendFrame ''/app/cliptext'' body))]"
    and wire: "DecodeClipboardData body \<noteq> None" "last body \<noteq> nul"
    and opens: "\<forall>e' b. e2eeKey b = engineKey e \<and> env_gcm e' = ee_gcm env \<longrightarrow> openMessage e' b body = Some (textMessage text)"
    using SendClipboard_body [OF assms(4,3,6,7)] by blast
  have fields: "cd_Payload (textMessage text) = text" "cd_Type (textMessage text) = TypeText" "cd_FileName (textMessage text) = ''''"
    "clipboardSourceSessionID (textMessage text) = ''''"
    by (auto simp: textMessage_def zeroClipboard_def payload_type_defs clipboardSourceSessionID_def Let_def trimSpace_id)
  have "app_clipWrites (onReceive e' body b) = app_clipWrites b @ [PastePayload text TypeText '''']"
    if "awaits_text env e text e' b" for e' b
    using receive_plain [of e' b body "textMessage text"] opens that
    by (simp add: awaits_text_def foreign_content_def recvHash_def repeats_def fields payload_type_defs)
  moreover have "snd (SendText env sd text m) = map (\<lambda>out. (i, out)) outs"
    using assms(1,2,4,5) by (simp add: SendText_def Let_def)
  ultimately show ?thesis using outs relay_step [OF assms(8-11) wire] by auto
qed


section \<open>The watcher and received texts\<close>

text \<open>The clipboard holds the text that was last sent or received, without white space at its ends.\<close>

definition calm :: "MobileApp \<Rightarrow> bool" where
  "calm m \<longleftrightarrow> m_lastCopied m = m_clip m \<and> trimSpace (m_clip m) = m_clip m"

text \<open>Everything but what the user does with texts: copying, sending now, taking a text from the list.\<close>

fun background :: "mobile_event \<Rightarrow> bool" where
  "background (UserCopies s) = False"
| "background (SyncPress sd) = False"
| "background (SelectHistory i) = False"
| "background _ = True"

text \<open>No text that waits to be shown begins or ends with white space, at any moment of a run.\<close>

fun trimmed_texts :: "EngineEnv \<Rightarrow> mobile_event list \<Rightarrow> MobileApp \<Rightarrow> bool" where
  "trimmed_texts env [] m = True"
| "trimmed_texts env (ev # evs) m =
     (list_all (\<lambda>t. case t of ShowText p \<Rightarrow> trimSpace p = p | _ \<Rightarrow> True) (m_ui m) \<and>
      trimmed_texts env evs (fst (mobile_step env ev m)))"

lemma calm_same: "m_clip m' = m_clip m \<Longrightarrow> m_lastCopied m' = m_lastCopied m \<Longrightarrow> calm m' = calm m"
  by (simp add: calm_def)

lemma calm_silent:
  "calm m \<Longrightarrow> snd (watchTick env sd m) = []" "calm m \<Longrightarrow> enteredForeground env sd m = (m, [])"
  by (auto simp: calm_def watchTick_def enteredForeground_def Let_def)

lemma calm_watch: "calm m \<Longrightarrow> calm (fst (watchTick env sd m))"
  by (auto simp: calm_def watchTick_def Let_def)

lemma hosts_clip:
  "m_clip (foldl (\<lambda>m a. addDiscoveredHost a m) m as) = m_clip m"
  "m_observed (foldl (\<lambda>m a. addDiscoveredHost a m) m as) = m_observed m"
  "m_lastCopied (foldl (\<lambda>m a. addDiscoveredHost a m) m as) = m_lastCopied m"
  by (induction as arbitrary: m) (simp_all add: addDiscoveredHost_def Let_def)

lemma session_clip:
  "m_clip (Session_Connect u n p b m) = m_clip m" "m_observed (Session_Connect u n p b m) = m_observed m"
  "m_lastCopied (Session_Connect u n p b m) = m_lastCopied m"
  "m_clip (fst (Session_Started env i at m)) = m_clip m" "m_observed (fst (Session_Started env i at m)) = m_observed m"
  "m_lastCopied (fst (Session_Started env i at m)) = m_lastCopied m"
  "m_clip (fst (Session_Disconnect env m)) = m_clip m" "m_observed (fst (Session_Disconnect env m)) = m_observed m"
  "m_lastCopied (fst (Session_Disconnect env m)) = m_lastCopied m"
  by (simp_all add: session_defs Let_def case_prod_beta with_engine_fields split: option.split)

lemma calm_ui:
  assumes "calm m" "case t of ShowText p \<Rightarrow> trimSpace p = p | _ \<Rightarrow> True"
  shows "calm (run_ui_task now t (m\<lparr>m_ui := ts\<rparr>))"
  using assms
  by (cases t) (auto simp: calm_def showText_def applyConnectionState_def showHosts_def Let_def)

lemma calm_step:
  assumes "calm m" "background ev" "list_all (\<lambda>t. case t of ShowText p \<Rightarrow> trimSpace p = p | _ \<Rightarrow> True) (m_ui m)"
  shows "calm (fst (mobile_step env ev m))"
proof (cases ev)
  case (RunUi now)
  then show ?thesis using assms calm_ui by (cases "m_ui m") auto
next
  case (EngineRuns i ev)
  then show ?thesis using assms calm_same [OF with_engine_fields(3,5)] by (cases ev) simp_all
qed (use assms in \<open>simp_all add: calm_watch calm_silent calm_same [OF hosts_clip(1,3)] calm_same [OF session_clip(1,3)]
       calm_same [OF session_clip(4,6)] calm_same [OF session_clip(7,9)] connectPressed_def disconnectPressed_def
       applyLimit_def clearHistory_def\<close>, simp_all add: calm_def)

text \<open>C26: The mobile program does not send a text back that it received. Say its clipboard holds the text it last sent or
  received, without white space at its ends. Then neither the watcher nor the return to the foreground sends anything,
  now or later, whatever the network, the engines, the discovery and the window do in between, whichever texts come in
  and are shown and however often the user connects, disconnects, changes the limit or clears the list; excluded are a
  text to show that begins or ends with white space, and the user copying a text, pressing the button that sends the
  clipboard, or tapping a text of the list, which puts it on the clipboard as a new copy.\<close>
theorem mobile_received_text_not_sent_back:
  assumes "m_clip m = m_lastCopied m" "trimSpace (m_clip m) = m_clip m" "list_all background evs" "trimmed_texts env evs m"
  shows "snd (watchTick env sd (fst (mobile_run env evs m))) = [] \<and>
    snd (enteredForeground env sd (fst (mobile_run env evs m))) = []"
proof -
  have "calm m" using assms(1,2) by (simp add: calm_def)
  then have "calm (fst (mobile_run env evs m))" using assms(3,4)
  proof (induction evs arbitrary: m)
    case (Cons ev evs)
    have "calm (fst (mobile_step env ev m))" using Cons.prems calm_step by simp
    then have "calm (fst (mobile_run env evs (fst (mobile_step env ev m))))" using Cons.IH Cons.prems by simp
    then show ?case by (simp only: session.run_Cons fst_conv)
  qed simp
  then show ?thesis by (simp add: calm_silent)
qed

text \<open>The mobile program sends a received text back when it begins or ends with white space: the watcher compares and
  sends the text without that white space, so that every other device gets a changed copy of what was copied.\<close>
theorem mobile_padded_text_bounces:
  assumes "m_ui m = [ShowText p]" "m_clip m \<noteq> p" "m_lastCopied m \<noteq> p"
    and "trimSpace p \<notin> {p, '''', m_observed m}" "Session_IsConnected m" "m_engine m = Some i"
  shows "snd (mobile_run env [RunUi now, WatchTick sd] m) =
    map (\<lambda>out. (i, out)) (fst (SendClipboard env (sd_nonce sd) (sd_writeErr sd) (trimSpace p) ''text'' (m_engines m ! i)))"
proof -
  let ?m = "appendHistory now p ''received'' (m\<lparr>m_ui := [], m_lastCopied := p, m_clip := p\<rparr>)"
  have eng: "m_engines (appendHistory now t d m') = m_engines m'" "m_engine (appendHistory now t d m') = m_engine m'"
    for t d m' by (simp_all add: appendHistory_def Let_def split: list.split)
  have "Session_IsConnected (?m\<lparr>m_observed := trimSpace p\<rparr>)"
    using assms(5,6) by (simp add: Session_IsConnected_def eng)
  then have "snd (watchTick env sd ?m) = snd (SendText env sd (trimSpace p) (?m\<lparr>m_observed := trimSpace p\<rparr>))"
    using assms(4) by (simp add: watchTick_def Let_def)
  moreover have "fst (mobile_step env (RunUi now) m) = ?m" "snd (mobile_step env (RunUi now) m) = []"
    using assms(1-3) by (simp_all add: showText_def)
  ultimately show ?thesis
    using assms(6) by (simp only: session.run_Cons snd_conv mobile_run.simps mobile_step.simps)
      (simp add: SendText_def Let_def case_prod_beta eng)
qed

text \<open>Selecting a long text of the list puts only its beginning on the clipboard, with dots.\<close>

lemma mobile_selected_text_is_shortened:
  assumes "trimSpace t = t" "160 < length t" "newline \<notin> set t" "m_history m = []" "m_limit m = 10"
  shows "m_clip (historySelected 0 (appendHistory now t ''received'' m)) = take 160 t @ ''...''"
proof -
  have "t \<noteq> ''''" using assms(2) by auto
  have id: "c \<notin> set s \<Longrightarrow> replaceChar c by s = s" for c "by" s by (induction s) (auto simp: replaceChar_def)
  have "newline \<notin> set (take 160 t @ ''...'')" using assms(3) by (auto simp: newline_def dest: in_set_takeD)
  then show ?thesis
    using assms \<open>t \<noteq> ''''\<close> id by (simp add: appendHistory_def Let_def historySelected_def)
qed

section \<open>A concrete session\<close>

definition sampleEngineEnv :: EngineEnv where
  "sampleEngineEnv = \<lparr>ee_pbkdf2 = (\<lambda>p s n k. replicate k (CHR ''k'')), ee_gcm = plainGcm, ee_ord = keyOrder\<rparr>"

definition connectedText :: bytes where "connectedText = ''CONNECTED'' @ [newline, newline, nul]"

definition sampleAttempt :: Attempt where
  "sampleAttempt = \<lparr>at_login = Inr (200, ''''), at_userInfo = Inl ''unused'', at_url = \<lparr>url_Scheme = ''http'', url_Host = ''h''\<rparr>,
     at_cookies = [], at_dial = Inr 1, at_first = Inr connectedText\<rparr>"

definition startEvents :: "mobile_event list" where
  "startEvents = [RunUi 0, RunUi 0, TypesServer ''http://h'', ConnectPress ''bob'' ''pw'' False, Started 0 sampleAttempt]"

definition lossEvents :: "mobile_event list" where
  "lossEvents = startEvents @ [EngineRuns 0 (ReadResult (Inl ''closed'')), RunUi 0, RunUi 0, RunUi 0, RunUi 0]"

lemma connectedText_frame: "case ParseFrame connectedText of Inl _ \<Rightarrow> False | Inr f \<Rightarrow> frame_Command f = ''CONNECTED''"
  by code_simp



definition afterLoss :: MobileApp where "afterLoss = fst (mobile_run sampleEngineEnv lossEvents (mobile_start '''' ''''))"

lemma afterLoss_reconnecting: "m_status afterLoss = ''reconnecting''" "m_ui afterLoss = []"
  by code_simp+

theorem mobile_reconnecting_locks_buttons_witness:
  "\<not> m_canDisconnect afterLoss \<and> mobile_step sampleEngineEnv DisconnectPress afterLoss = (afterLoss, [])"
  using mobile_reconnecting_locks_buttons [OF afterLoss_def afterLoss_reconnecting] by blast

definition sampleSession :: "string \<Rightarrow> MobileApp" where
  "sampleSession clip = (mobile_start clip '''')\<lparr>m_status := ''connected'', m_lastCopied := clip, m_observed := '''',
     m_engines := [(MobileEngine.NewEngine ''http://h'' ''bob'' ''pw'' False)\<lparr>e_wsConn := Some 1, e_connected := True\<rparr>],
     m_engine := Some 0, m_ui := []\<rparr>"

definition sampleSending :: Sending where "sampleSending = \<lparr>sd_now = 1, sd_nonce = Some ''n'', sd_writeErr = None\<rparr>"

theorem mobile_received_text_not_sent_back_witness:
  "snd (watchTick sampleEngineEnv sampleSending
     (fst (mobile_run sampleEngineEnv [RunUi 0, Foreground sampleSending, WatchTick sampleSending]
        ((sampleSession ''hi'')\<lparr>m_ui := [ShowText ''yo'']\<rparr>)))) = []"
proof -
  let ?m = "(sampleSession ''hi'')\<lparr>m_ui := [ShowText ''yo'']\<rparr>"
  have "m_clip ?m = m_lastCopied ?m" by code_simp
  moreover have "trimSpace (m_clip ?m) = m_clip ?m" by code_simp
  moreover have "trimmed_texts sampleEngineEnv [RunUi 0, Foreground sampleSending, WatchTick sampleSending] ?m" by code_simp
  ultimately show ?thesis
    using mobile_received_text_not_sent_back [of ?m "[RunUi 0, Foreground sampleSending, WatchTick sampleSending]"]
    by (simp del: mobile_run.simps trimmed_texts.simps)
qed

theorem mobile_padded_text_bounces_witness:
  "snd (mobile_run sampleEngineEnv [RunUi 0, WatchTick sampleSending] ((sampleSession ''yo'')\<lparr>m_ui := [ShowText ''hi '']\<rparr>)) =
    [(0, SocketText 1 (Encode (keyOrder (SendFrame ''/app/cliptext'' (ClipboardData_Encode (textMessage ''hi''))))
      (SendFrame ''/app/cliptext'' (ClipboardData_Encode (textMessage ''hi'')))))]"
proof -
  let ?m = "(sampleSession ''yo'')\<lparr>m_ui := [ShowText ''hi '']\<rparr>"
  have trim: "trimSpace ''hi '' = ''hi''" by code_simp
  have "Session_IsConnected ?m" by (simp add: Session_IsConnected_def sampleSession_def)
  then have "snd (mobile_run sampleEngineEnv [RunUi 0, WatchTick sampleSending] ?m) =
      map (\<lambda>out. (0, out)) (fst (SendClipboard sampleEngineEnv (sd_nonce sampleSending) (sd_writeErr sampleSending) ''hi'' ''text''
        (m_engines ?m ! 0)))"
    using mobile_padded_text_bounces [of ?m "''hi ''" 0 sampleEngineEnv 0 sampleSending] trim
    by (simp add: sampleSession_def mobile_start_def addDiscoveredHost_def Let_def trimSpace_id del: mobile_run.simps)
  then show ?thesis
    by (simp add: sampleSession_def SendClipboard_def Let_def NewEngine_def sampleEngineEnv_def textMessage_def
        del: mobile_run.simps)
qed

theorem mobile_text_reaches_desktop_witness:
  "\<exists>msg body. snd (SendText sampleEngineEnv sampleSending ''hello'' (sampleSession '''')) = [(0, SocketText 1 msg)] \<and>
     relayed sampleOrd sampleServer ''bob'' 1 msg body \<and>
     app_clipWrites (onReceive sampleEnv body (sampleApp ''r'')) = [PastePayload ''hello'' TypeText '''']"
proof -
  let ?e = "(MobileEngine.NewEngine ''http://h'' ''bob'' ''pw'' False)\<lparr>e_wsConn := Some 1, e_connected := True\<rparr>"
  have key: "engineKey ?e = None" by (simp add: engineKey_def NewEngine_def)
  obtain outs where outs: "SendClipboard sampleEngineEnv (sd_nonce sampleSending) None ''hello'' ''text'' ?e = (outs, None)"
    by (simp add: SendClipboard_def NewEngine_def Let_def)
  have crypto: "engine_crypto_ok sampleEngineEnv ?e" by (simp only: engine_crypto_ok_def key option.case)
  have ord: "client_order_ok (ee_ord sampleEngineEnv)" by (simp add: sampleEngineEnv_def keyOrder_ok)
  have "\<exists>msg body. snd (SendText sampleEngineEnv sampleSending ''hello'' (sampleSession '''')) = [(0, SocketText 1 msg)] \<and>
    relayed sampleOrd sampleServer ''bob'' 1 msg body \<and>
    (\<forall>e' b. awaits_text sampleEngineEnv ?e ''hello'' e' b \<longrightarrow>
       app_clipWrites (onReceive e' body b) = app_clipWrites b @ [PastePayload ''hello'' TypeText ''''])"
    by (rule mobile_text_reaches_desktop [OF _ _ _ outs _ _ crypto sampleServer_reachable sampleOrd_ok ord sampleServer_loops])
      (simp_all add: sampleSession_def sampleSending_def ascii_toValidUTF8 asciiStr_def)
  moreover have "awaits_text sampleEngineEnv ?e ''hello'' sampleEnv (sampleApp ''r'')"
    unfolding awaits_text_def key
    by (simp add: sampleEngineEnv_def sha256hex_def hexBytes_def hexByte_def)
      (simp add: sampleApp_def ListItems_def NewManager_def)
  moreover have "app_clipWrites (sampleApp ''r'') = []" by (simp add: sampleApp_def)
  ultimately show ?thesis by fastforce
qed

theorem engine_backoff_bounded_witness:
  "e_phase (fst (engine_run sampleEngineEnv [Begin sampleAttempt, ReadResult (Inl ''closed''),
     Attempted (sampleAttempt\<lparr>at_login := Inl ''down''\<rparr>), BackoffElapsed, Attempted (sampleAttempt\<lparr>at_login := Inl ''down''\<rparr>)]
     (MobileEngine.NewEngine ''http://h'' ''bob'' ''pw'' False))) = Waiting 4000000000 \<and>
   (4000000000::gotime) \<in> {2000000000, 4000000000, 8000000000, 16000000000, 32000000000}"
proof -
  have w: "e_phase (fst (engine_run sampleEngineEnv [Begin sampleAttempt, ReadResult (Inl ''closed''),
     Attempted (sampleAttempt\<lparr>at_login := Inl ''down''\<rparr>), BackoffElapsed, Attempted (sampleAttempt\<lparr>at_login := Inl ''down''\<rparr>)]
     (MobileEngine.NewEngine ''http://h'' ''bob'' ''pw'' False))) = Waiting 4000000000"
    by code_simp
  then show ?thesis using engine_backoff_bounded [OF w] by blast
qed

theorem stop_during_attempt_leaks_connection_witness:
  "\<exists>e' outs. engine_run sampleEngineEnv [StopCall, Attempted sampleAttempt]
     ((MobileEngine.NewEngine ''http://h'' ''bob'' ''pw'' False)\<lparr>e_phase := Trying firstBackoff\<rparr>) = (e', outs) \<and>
     e_phase e' = Ended \<and> e_wsConn e' = Some 1 \<and> e_connected e'"
proof -
  obtain f where f: "ParseFrame connectedText = Inr f" "frame_Command f = ''CONNECTED''"
    using connectedText_frame by (cases "ParseFrame connectedText") auto
  show ?thesis
    using stop_during_attempt_leaks_connection [of "(MobileEngine.NewEngine ''http://h'' ''bob'' ''pw'' False)\<lparr>e_phase := Trying firstBackoff\<rparr>"
        firstBackoff sampleAttempt 1 connectedText f sampleEngineEnv] f
    by (auto simp: MobileEngine.NewEngine_def sampleAttempt_def login_def simp del: engine_run.simps)
qed



end
