(* ===== verification/Accounts.thy ===== *)
theory Accounts
  imports ServerAuth
begin

text \<open>
  The accounts of the server: signing up (\<open>SignupPost\<close> of \<open>server/handler/auth.go\<close>), their administration
  (\<open>server/handler/admin.go\<close>), the first administrator and the routes (\<open>server/main.go\<close>). The database is outside
  (gorm on SQLite): \<open>UserDB\<close> holds the calls the code makes, over a state of any type, and \<open>db_laws\<close> states what is
  documented of them. So are bcrypt and the session store. A request carries what fiber's \<open>ParamsInt\<close> and
  \<open>BodyParser\<close> gave, \<open>None\<close> being their error. Replies keep the text of the message.
\<close>

section \<open>The database\<close>

record UserInfo =
  inf_UserID :: nat
  inf_Salt :: string
  inf_HashRounds :: int

datatype UserChange = NewPassword bytes | NewRole string | NewEnabled bool | NewUsername string

definition applyChange :: "UserChange \<Rightarrow> User \<Rightarrow> User" where
  "applyChange ch u =
     (case ch of NewPassword p \<Rightarrow> u\<lparr>u_Password := p\<rparr> | NewRole r \<Rightarrow> u\<lparr>u_Role := r\<rparr> | NewEnabled b \<Rightarrow> u\<lparr>u_Enabled := b\<rparr>
      | NewUsername n \<Rightarrow> u\<lparr>u_Username := n\<rparr>)"

definition ErrRecordNotFound :: goerror where "ErrRecordNotFound = ''record not found''"

text \<open>
  The calls: the first user with a name or an ID, the number of users and all of them, creating a user (the new
  ID), a user's encryption settings, updating one column of the user with an ID (the rows that were changed), deleting.
\<close>

record 'd UserDB =
  db_byName :: "string \<Rightarrow> 'd \<Rightarrow> User result"
  db_byID :: "int \<Rightarrow> 'd \<Rightarrow> User result"
  db_count :: "'d \<Rightarrow> int"
  db_all :: "'d \<Rightarrow> User list"
  db_create :: "User \<Rightarrow> 'd \<Rightarrow> 'd \<times> nat result"
  db_createInfo :: "UserInfo \<Rightarrow> 'd \<Rightarrow> 'd"
  db_infoOf :: "nat \<Rightarrow> 'd \<Rightarrow> UserInfo result"
  db_update :: "int \<Rightarrow> UserChange \<Rightarrow> 'd \<Rightarrow> 'd \<times> int result"
  db_deleteInfo :: "nat \<Rightarrow> 'd \<Rightarrow> 'd"
  db_delete :: "nat \<Rightarrow> 'd \<Rightarrow> 'd"

definition updateSingleUserField :: "'d UserDB \<Rightarrow> int \<Rightarrow> UserChange \<Rightarrow> 'd \<Rightarrow> 'd \<times> goerror option" where
  "updateSingleUserField db i ch d =
     (case db_update db i ch d of
        (d', Inl err) \<Rightarrow> (d', Some err)
      | (d', Inr n) \<Rightarrow> (d', if n = 0 then Some ErrRecordNotFound else None))"

section \<open>Signing up (auth.go)\<close>

text \<open>\<open>hash\<close> is bcrypt's \<open>GenerateFromPassword\<close>; a new \<open>User\<close> has no ID and is not enabled before gorm's defaults.\<close>

type_synonym hasher = "bytes \<Rightarrow> bytes option"

definition newUser :: "string \<Rightarrow> bytes \<Rightarrow> string \<Rightarrow> bool \<Rightarrow> User" where
  "newUser name hashed role enabled = \<lparr>u_ID = 0, u_Username = name, u_Password = hashed, u_Role = role, u_Enabled = enabled\<rparr>"

definition defaultInfo :: "nat \<Rightarrow> string \<Rightarrow> UserInfo" where
  "defaultInfo i salt = \<lparr>inf_UserID = i, inf_Salt = salt, inf_HashRounds = 100000\<rparr>"

definition SignupPost :: "'d UserDB \<Rightarrow> hasher \<Rightarrow> ServerConfig \<Rightarrow> string \<Rightarrow> bytes \<Rightarrow> 'd \<Rightarrow> 'd \<times> Reply" where
  "SignupPost db hash cfg username password d =
     (if \<not> sc_SignupEnabled cfg then (d, StatusReply 403 ''Signup is disabled'')
      else if username = '''' \<or> password = '''' then (d, Redirect ''/signup?error=missing_fields'')
      else if 50 < length username \<or> length password < 4 then (d, Redirect ''/signup?error=invalid_length'')
      else if 0 < sc_MaxUserAccounts cfg \<and> sc_MaxUserAccounts cfg \<le> db_count db d
      then (d, Redirect ''/signup?error=max_accounts_reached'')
      else
        (case db_byName db username d of
           Inr _ \<Rightarrow> (d, Redirect ''/signup?error=user_exists'')
         | Inl _ \<Rightarrow>
             (case hash password of
                None \<Rightarrow> (d, Redirect ''/signup?error=internal'')
              | Some hashed \<Rightarrow>
                  (case db_create db (newUser username hashed ''USER'' False) d of
                     (d1, Inl _) \<Rightarrow> (d1, Redirect ''/signup?error=internal'')
                   | (d1, Inr i) \<Rightarrow> (db_createInfo db (defaultInfo i username) d1, Redirect ''/login'')))))"

section \<open>Administration (admin.go)\<close>

definition ListUsers :: "'d UserDB \<Rightarrow> 'd \<Rightarrow> (nat \<times> string \<times> string \<times> bool) list" where
  "ListUsers db d = map (\<lambda>u. (u_ID u, u_Username u, u_Role u, u_Enabled u)) (db_all db d)"

definition DeleteUser :: "'d UserDB \<Rightarrow> string \<Rightarrow> int option \<Rightarrow> 'd \<Rightarrow> 'd \<times> Reply" where
  "DeleteUser db currentUsername param d =
     (case param of
        None \<Rightarrow> (d, StatusReply 400 ''invalid user ID'')
      | Some i \<Rightarrow>
          (case db_byID db i d of
             Inl _ \<Rightarrow> (d, StatusReply 404 ''user not found'')
           | Inr user \<Rightarrow>
               if u_Username user = currentUsername then (d, StatusReply 400 ''cannot delete yourself'')
               else (db_delete db (u_ID user) (db_deleteInfo db (u_ID user) d), StatusReply 200 ''user deleted'')))"

definition replyUpdate :: "string \<Rightarrow> 'd \<times> goerror option \<Rightarrow> 'd \<times> Reply" where
  "replyUpdate message r =
     (case r of
        (d, None) \<Rightarrow> (d, StatusReply 200 message)
      | (d, Some err) \<Rightarrow> (d, if err = ErrRecordNotFound then StatusReply 404 ''user not found''
                            else StatusReply 500 ''update failed''))"

definition ResetPassword :: "'d UserDB \<Rightarrow> hasher \<Rightarrow> int option \<Rightarrow> bytes option \<Rightarrow> 'd \<Rightarrow> 'd \<times> Reply" where
  "ResetPassword db hash param body d =
     (case param of
        None \<Rightarrow> (d, StatusReply 400 ''invalid user ID'')
      | Some i \<Rightarrow>
          (case body of
             None \<Rightarrow> (d, StatusReply 400 ''password required'')
           | Some password \<Rightarrow>
               if password = '''' then (d, StatusReply 400 ''password required'')
               else if length password < 4 then (d, StatusReply 400 ''password too short (min 4)'')
               else (case hash password of
                       None \<Rightarrow> (d, StatusReply 500 ''hash error'')
                     | Some hashed \<Rightarrow> replyUpdate ''password updated'' (updateSingleUserField db i (NewPassword hashed) d))))"

definition SetRole :: "'d UserDB \<Rightarrow> int option \<Rightarrow> string option \<Rightarrow> 'd \<Rightarrow> 'd \<times> Reply" where
  "SetRole db param body d =
     (case param of
        None \<Rightarrow> (d, StatusReply 400 ''invalid user ID'')
      | Some i \<Rightarrow>
          (case body of
             None \<Rightarrow> (d, StatusReply 400 ''role must be USER or ADMIN'')
           | Some role \<Rightarrow>
               if role \<noteq> ''USER'' \<and> role \<noteq> ''ADMIN'' then (d, StatusReply 400 ''role must be USER or ADMIN'')
               else replyUpdate ''role updated'' (updateSingleUserField db i (NewRole role) d)))"

definition ToggleUserStatus :: "'d UserDB \<Rightarrow> int option \<Rightarrow> bool option \<Rightarrow> 'd \<Rightarrow> 'd \<times> Reply" where
  "ToggleUserStatus db param body d =
     (case param of
        None \<Rightarrow> (d, StatusReply 400 ''invalid user ID'')
      | Some i \<Rightarrow>
          (case body of
             None \<Rightarrow> (d, StatusReply 400 ''invalid body'')
           | Some enabled \<Rightarrow> replyUpdate (if enabled then ''user enabled'' else ''user disabled'')
                               (updateSingleUserField db i (NewEnabled enabled) d)))"

definition RegisterUser :: "'d UserDB \<Rightarrow> hasher \<Rightarrow> (string \<times> bytes) option \<Rightarrow> 'd \<Rightarrow> 'd \<times> Reply" where
  "RegisterUser db hash body d =
     (case body of
        None \<Rightarrow> (d, StatusReply 400 ''username and password required'')
      | Some (username, password) \<Rightarrow>
          if username = '''' \<or> password = '''' then (d, StatusReply 400 ''username and password required'')
          else if length password < 4 then (d, StatusReply 400 ''password too short (min 4)'')
          else
            (case db_byName db username d of
               Inr _ \<Rightarrow> (d, StatusReply 409 ''user already exists'')
             | Inl _ \<Rightarrow>
                 (case hash password of
                    None \<Rightarrow> (d, StatusReply 500 ''hash error'')
                  | Some hashed \<Rightarrow>
                      (case db_create db (newUser username hashed ''USER'' True) d of
                         (d1, Inl _) \<Rightarrow> (d1, StatusReply 500 ''create failed'')
                       | (d1, Inr i) \<Rightarrow> (db_createInfo db (defaultInfo i username) d1, StatusReply 200 ''user registered'')))))"

definition UpdateUsername :: "'d UserDB \<Rightarrow> int option \<Rightarrow> string option \<Rightarrow> 'd \<Rightarrow> 'd \<times> Reply" where
  "UpdateUsername db param body d =
     (case param of
        None \<Rightarrow> (d, StatusReply 400 ''invalid user ID'')
      | Some i \<Rightarrow>
          (case body of
             None \<Rightarrow> (d, StatusReply 400 ''username required'')
           | Some username \<Rightarrow>
               if username = '''' then (d, StatusReply 400 ''username required'')
               else
                 (let update = replyUpdate ''username updated'' (updateSingleUserField db i (NewUsername username) d) in
                  case db_byName db username d of
                    Inr existing \<Rightarrow> if int (u_ID existing) \<noteq> i then (d, StatusReply 409 ''username already taken'') else update
                  | Inl err \<Rightarrow> if err \<noteq> ErrRecordNotFound then (d, StatusReply 500 ''query failed'') else update)))"

definition UpdatePasswordSelf :: "'d UserDB \<Rightarrow> hasher \<Rightarrow> nat \<Rightarrow> bytes option \<Rightarrow> 'd \<Rightarrow> 'd \<times> Reply" where
  "UpdatePasswordSelf db hash userID body d =
     (case body of
        None \<Rightarrow> (d, StatusReply 400 ''newPassword required'')
      | Some password \<Rightarrow>
          if password = '''' then (d, StatusReply 400 ''newPassword required'')
          else if length password < 4 then (d, StatusReply 400 ''password too short (min 4)'')
          else (case hash password of
                  None \<Rightarrow> (d, StatusReply 500 ''hash error'')
                | Some hashed \<Rightarrow>
                    (case db_update db (int userID) (NewPassword hashed) d of
                       (d', Inl _) \<Rightarrow> (d', StatusReply 500 ''update failed'')
                     | (d', Inr n) \<Rightarrow> (d', if n = 0 then StatusReply 404 ''user not found''
                                          else StatusReply 200 ''password updated''))))"

section \<open>The server (main.go)\<close>

definition seedAdminUser :: "'d UserDB \<Rightarrow> hasher \<Rightarrow> 'd \<Rightarrow> 'd" where
  "seedAdminUser db hash d =
     (if 0 < db_count db d then d
      else (case hash ''admin123'' of
              None \<Rightarrow> d
            | Some hashed \<Rightarrow>
                (case db_create db (newUser ''admin'' hashed ''ADMIN'' True) d of
                   (d1, Inl _) \<Rightarrow> d1
                 | (d1, Inr i) \<Rightarrow> db_createInfo db (defaultInfo i ''admin'') d1)))"

text \<open>The reply of \<open>/api/user-info\<close>: the salt and the rounds of the user's key.\<close>

definition userInfoReply :: "'d UserDB \<Rightarrow> Session \<Rightarrow> 'd \<Rightarrow> string \<times> int" where
  "userInfoReply db s d =
     (case db_infoOf db (sess_user_id s) d of
        Inl _ \<Rightarrow> (sess_username s, 100000)
      | Inr info \<Rightarrow> (inf_Salt info, inf_HashRounds info))"

text \<open>The requests that can change an account, behind the session check and \<open>AdminOnly\<close> as the routes have them.\<close>

datatype account_request =
    PostSignup string bytes
  | DeleteUsers "int option"
  | PutPassword "int option" "bytes option"
  | PutRole "int option" "string option"
  | PutStatus "int option" "bool option"
  | PutUsername "int option" "string option"
  | PostUsers "(string \<times> bytes) option"
  | PutOwnPassword "bytes option"

definition adminRoute :: "'d UserDB \<Rightarrow> hasher \<Rightarrow> Session \<Rightarrow> account_request \<Rightarrow> 'd \<Rightarrow> 'd \<times> Reply" where
  "adminRoute db hash s rq d =
     (case rq of
        PutOwnPassword body \<Rightarrow> UpdatePasswordSelf db hash (sess_user_id s) body d
      | _ \<Rightarrow>
          (case AdminOnly s of
             Some refusal \<Rightarrow> (d, refusal)
           | None \<Rightarrow>
               (case rq of
                  DeleteUsers i \<Rightarrow> DeleteUser db (sess_username s) i d
                | PutPassword i body \<Rightarrow> ResetPassword db hash i body d
                | PutRole i body \<Rightarrow> SetRole db i body d
                | PutStatus i body \<Rightarrow> ToggleUserStatus db i body d
                | PutUsername i body \<Rightarrow> UpdateUsername db i body d
                | PostUsers body \<Rightarrow> RegisterUser db hash body d
                | _ \<Rightarrow> (d, StatusReply 404 ''Not Found''))))"


section \<open>Runs of the server\<close>

record 'd Server =
  sv_db :: 'd
  sv_attempts :: attempts
  sv_sessions :: "string \<Rightarrow> Session option"

text \<open>The login of \<open>ServerAuth\<close> on this database; \<open>base\<close> has bcrypt and the errors of the session store.\<close>

definition authOf :: "'d UserDB \<Rightarrow> AuthEnv \<Rightarrow> 'd \<Rightarrow> AuthEnv" where
  "authOf db base d =
     base\<lparr>ae_findUser := (\<lambda>n. case db_byName db n d of Inl _ \<Rightarrow> None | Inr u \<Rightarrow> Some u)\<rparr>"

text \<open>A client is known by the cookie of its session.\<close>

datatype server_event = LogIn string gotime LoginRequest | LogOut string | Asks gotime string string account_request

text \<open>The session a login opens.\<close>

definition opened :: "'d UserDB \<Rightarrow> AuthEnv \<Rightarrow> ServerConfig \<Rightarrow> server_event \<Rightarrow> 'd Server \<Rightarrow> Session option" where
  "opened db base cfg ev sv =
     (case ev of
        LogIn _ now req \<Rightarrow> snd (snd (loginRoute (authOf db base (sv_db sv)) cfg now req (sv_attempts sv)))
      | _ \<Rightarrow> None)"

definition server_step :: "'d UserDB \<Rightarrow> hasher \<Rightarrow> AuthEnv \<Rightarrow> ServerConfig \<Rightarrow> server_event \<Rightarrow> 'd Server \<Rightarrow> 'd Server" where
  "server_step db hash base cfg ev sv =
     (case ev of
        LogIn sid now req \<Rightarrow>
          sv\<lparr>sv_attempts := fst (loginRoute (authOf db base (sv_db sv)) cfg now req (sv_attempts sv)),
             sv_sessions := (case opened db base cfg ev sv of
                               None \<Rightarrow> sv_sessions sv | Some s \<Rightarrow> (sv_sessions sv)(sid \<mapsto> s))\<rparr>
      | LogOut sid \<Rightarrow> sv\<lparr>sv_sessions := (sv_sessions sv)(sid := None)\<rparr>
      | Asks now ip sid rq \<Rightarrow>
          (case rq of
             PostSignup username password \<Rightarrow>
               (case CheckAddress now ip (sv_attempts sv) of
                  (bf, Some _) \<Rightarrow> sv\<lparr>sv_attempts := bf\<rparr>
                | (bf, None) \<Rightarrow> sv\<lparr>sv_attempts := bf, sv_db := fst (SignupPost db hash cfg username password (sv_db sv))\<rparr>)
           | _ \<Rightarrow>
               (case sessionGate ''/api/'' None (sv_sessions sv sid) of
                  Allowed s \<Rightarrow> sv\<lparr>sv_db := fst (adminRoute db hash s rq (sv_db sv))\<rparr>
                | _ \<Rightarrow> sv)))"

definition server_run :: "'d UserDB \<Rightarrow> hasher \<Rightarrow> AuthEnv \<Rightarrow> ServerConfig \<Rightarrow> server_event list \<Rightarrow> 'd Server \<Rightarrow> 'd Server" where
  "server_run db hash base cfg evs sv = fold (server_step db hash base cfg) evs sv"

section \<open>What is documented of the database\<close>

text \<open>
  \<open>view\<close> is the list of users that are not deleted, \<open>taken\<close> the names of all rows: gorm only marks a \<open>User\<close> as
  deleted (it has a \<open>DeletedAt\<close>), and the unique index keeps the name. IDs are unique; a new row gets a new one, and the default of
  \<open>Enabled\<close> (true) for a value that is not set. A call may fail and then changes no user.
\<close>

definition db_laws :: "'d UserDB \<Rightarrow> ('d \<Rightarrow> User list) \<Rightarrow> ('d \<Rightarrow> string set) \<Rightarrow> bool" where
  "db_laws db view taken \<longleftrightarrow>
     (\<forall>n d u. db_byName db n d = Inr u \<longrightarrow> u \<in> set (view d) \<and> u_Username u = n) \<and>
     (\<forall>n d. db_byName db n d = Inl ErrRecordNotFound \<longrightarrow> n \<notin> u_Username ` set (view d)) \<and>
     (\<forall>i d u. db_byID db i d = Inr u \<longrightarrow> u \<in> set (view d) \<and> int (u_ID u) = i) \<and>
     (\<forall>u d d' k. db_create db u d = (d', Inr k) \<longrightarrow> view d' = view d @ [u\<lparr>u_ID := k, u_Enabled := True\<rparr>] \<and>
        k \<notin> u_ID ` set (view d) \<and> u_Username u \<notin> taken d) \<and>
     (\<forall>u d d' err. db_create db u d = (d', Inl err) \<longrightarrow> view d' = view d) \<and>
     (\<forall>i ch d d' m. db_update db i ch d = (d', Inr m) \<longrightarrow>
        view d' = map (\<lambda>u. if int (u_ID u) = i then applyChange ch u else u) (view d) \<and>
        m = int (length (filter (\<lambda>u. int (u_ID u) = i) (view d)))) \<and>
     (\<forall>i ch d d' err. db_update db i ch d = (d', Inl err) \<longrightarrow> view d' = view d) \<and>
     (\<forall>k d. (view (db_delete db k d) = view d \<or> view (db_delete db k d) = filter (\<lambda>u. u_ID u \<noteq> k) (view d)) \<and>
        taken (db_delete db k d) = taken d) \<and>
     (\<forall>info d. view (db_createInfo db info d) = view d) \<and>
     (\<forall>k d. view (db_deleteInfo db k d) = view d \<and> taken (db_deleteInfo db k d) = taken d) \<and>
     (\<forall>d. u_Username ` set (view d) \<subseteq> taken d) \<and> (\<forall>d. distinct (map u_ID (view d)))"

lemma db_laws_unfold:
  assumes "db_laws db view taken"
  shows "db_byName db n d = Inr u \<Longrightarrow> u \<in> set (view d) \<and> u_Username u = n"
    and "db_byName db n d = Inl ErrRecordNotFound \<Longrightarrow> n \<notin> u_Username ` set (view d)"
    and "db_byID db i d = Inr u \<Longrightarrow> u \<in> set (view d) \<and> int (u_ID u) = i"
    and "db_create db u d = (d', Inr k) \<Longrightarrow> view d' = view d @ [u\<lparr>u_ID := k, u_Enabled := True\<rparr>] \<and>
      k \<notin> u_ID ` set (view d) \<and> u_Username u \<notin> taken d"
    and "db_create db u d = (d', Inl err) \<Longrightarrow> view d' = view d"
    and "db_update db i ch d = (d', Inr m) \<Longrightarrow>
      view d' = map (\<lambda>u. if int (u_ID u) = i then applyChange ch u else u) (view d)"
    and "db_update db i ch d = (d', Inl err) \<Longrightarrow> view d' = view d"
    and "view (db_delete db k d) = view d \<or> view (db_delete db k d) = filter (\<lambda>u. u_ID u \<noteq> k) (view d)"
    and "view (db_createInfo db info d) = view d" "view (db_deleteInfo db k d) = view d"
    and "u_Username ` set (view d) \<subseteq> taken d"
    and "taken (db_delete db k d) = taken d" "taken (db_deleteInfo db k d) = taken d"
    and "distinct (map u_ID (view d))"
proof -
  note l1 = assms [unfolded db_laws_def]
  note l2 = conjunct2 [OF l1] note l3 = conjunct2 [OF l2] note l4 = conjunct2 [OF l3] note l5 = conjunct2 [OF l4]
  note l6 = conjunct2 [OF l5] note l7 = conjunct2 [OF l6] note l8 = conjunct2 [OF l7] note l9 = conjunct2 [OF l8]
  note l10 = conjunct2 [OF l9] note l11 = conjunct2 [OF l10] note l12 = conjunct2 [OF l11]
  show "db_byName db n d = Inr u \<Longrightarrow> u \<in> set (view d) \<and> u_Username u = n"
    by (rule conjunct1 [OF l1, rule_format])
  show "db_byName db n d = Inl ErrRecordNotFound \<Longrightarrow> n \<notin> u_Username ` set (view d)"
    by (rule conjunct1 [OF l2, rule_format])
  show "db_byID db i d = Inr u \<Longrightarrow> u \<in> set (view d) \<and> int (u_ID u) = i"
    by (rule conjunct1 [OF l3, rule_format])
  show "db_create db u d = (d', Inr k) \<Longrightarrow> view d' = view d @ [u\<lparr>u_ID := k, u_Enabled := True\<rparr>] \<and>
      k \<notin> u_ID ` set (view d) \<and> u_Username u \<notin> taken d"
    by (rule conjunct1 [OF l4, rule_format])
  show "db_create db u d = (d', Inl err) \<Longrightarrow> view d' = view d"
    by (rule conjunct1 [OF l5, rule_format])
  show "db_update db i ch d = (d', Inr m) \<Longrightarrow>
      view d' = map (\<lambda>u. if int (u_ID u) = i then applyChange ch u else u) (view d)"
    by (rule conjunct1 [OF l6, rule_format, THEN conjunct1])
  show "db_update db i ch d = (d', Inl err) \<Longrightarrow> view d' = view d"
    by (rule conjunct1 [OF l7, rule_format])
  show "view (db_delete db k d) = view d \<or> view (db_delete db k d) = filter (\<lambda>u. u_ID u \<noteq> k) (view d)"
    "taken (db_delete db k d) = taken d"
    by (rule conjunct1 [OF l8, rule_format, THEN conjunct1], rule conjunct1 [OF l8, rule_format, THEN conjunct2])
  show "view (db_createInfo db info d) = view d" by (rule conjunct1 [OF l9, rule_format])
  show "view (db_deleteInfo db k d) = view d" "taken (db_deleteInfo db k d) = taken d"
    by (rule conjunct1 [OF l10, rule_format, THEN conjunct1], rule conjunct1 [OF l10, rule_format, THEN conjunct2])
  show "u_Username ` set (view d) \<subseteq> taken d" by (rule conjunct1 [OF l11, rule_format])
  show "distinct (map u_ID (view d))" by (rule l12 [rule_format])
qed


section \<open>What a request can change\<close>

lemma updateSingle_view:
  assumes "db_laws db view taken" "updateSingleUserField db i ch d = (d', err)"
  shows "view d' = view d \<or> view d' = map (\<lambda>u. if int (u_ID u) = i then applyChange ch u else u) (view d)"
  using assms(2) db_laws_unfold(6,7) [OF assms(1)]
  by (auto simp: updateSingleUserField_def split: prod.splits sum.splits)

lemma signup_cases:
  assumes "SignupPost db hash cfg name pw d = (d', r)"
  shows "(d' = d \<and> r \<noteq> Redirect ''/login'') \<or>
    (\<exists>h d1 q. hash pw = Some h \<and> name \<noteq> '''' \<and> pw \<noteq> '''' \<and> db_create db (newUser name h ''USER'' False) d = (d1, q) \<and>
       (d', r) = (case q of Inl _ \<Rightarrow> (d1, Redirect ''/signup?error=internal'')
                  | Inr k \<Rightarrow> (db_createInfo db (defaultInfo k name) d1, Redirect ''/login'')))"
proof (cases "hash pw")
  case None
  then show ?thesis using assms by (auto simp: SignupPost_def split: if_splits sum.splits)
next
  case (Some h)
  obtain d1 q where c: "db_create db (newUser name h ''USER'' False) d = (d1, q)" by fastforce
  show ?thesis
  proof (cases "SignupPost db hash cfg name pw d = (case q of Inl _ \<Rightarrow> (d1, Redirect ''/signup?error=internal'')
                  | Inr k \<Rightarrow> (db_createInfo db (defaultInfo k name) d1, Redirect ''/login'')) \<and> name \<noteq> '''' \<and> pw \<noteq> ''''")
    case True
    then show ?thesis using assms Some c by auto
  next
    case False
    then have "fst (SignupPost db hash cfg name pw d) = d \<and> snd (SignupPost db hash cfg name pw d) \<noteq> Redirect ''/login''"
      using Some c by (auto simp: SignupPost_def split: if_splits sum.splits)
    then show ?thesis using assms by simp
  qed
qed

lemma signup_view:
  assumes "db_laws db view taken" "SignupPost db hash cfg name pw d = (d', r)"
  shows "(view d' = view d \<and> r \<noteq> Redirect ''/login'') \<or>
    (\<exists>k h. hash pw = Some h \<and> name \<noteq> '''' \<and> pw \<noteq> '''' \<and> r = Redirect ''/login'' \<and>
       view d' = view d @ [newUser name h ''USER'' True\<lparr>u_ID := k\<rparr>] \<and> k \<notin> u_ID ` set (view d) \<and> name \<notin> taken d)"
  using signup_cases [OF assms(2)]
proof (elim disjE exE conjE)
  fix h d1 q
  assume c: "hash pw = Some h" "name \<noteq> ''''" "pw \<noteq> ''''" "db_create db (newUser name h ''USER'' False) d = (d1, q)"
    "(d', r) = (case q of Inl _ \<Rightarrow> (d1, Redirect ''/signup?error=internal'')
       | Inr k \<Rightarrow> (db_createInfo db (defaultInfo k name) d1, Redirect ''/login''))"
  show ?thesis
  proof (cases q)
    case (Inl e)
    then have "d' = d1" "r \<noteq> Redirect ''/login''" using c(5) by simp_all
    then show ?thesis using db_laws_unfold(5) [OF assms(1) c(4) [unfolded Inl]] by simp
  next
    case (Inr k)
    then have "view d' = view d @ [newUser name h ''USER'' True\<lparr>u_ID := k\<rparr>] \<and> k \<notin> u_ID ` set (view d) \<and> name \<notin> taken d"
      and "r = Redirect ''/login''"
      using db_laws_unfold(4) [OF assms(1) c(4) [unfolded Inr]] db_laws_unfold(9) [OF assms(1)] c(5)
      by (simp_all add: newUser_def)
    then show ?thesis using c(1-3) by blast
  qed
qed simp

text \<open>Without the role of an administrator a session can only change the password of its own user.\<close>

lemma user_request_view:
  assumes "db_laws db view taken" "sess_role s \<noteq> ''ADMIN''" "adminRoute db hash s rq d = (d', r)"
  shows "view d' = view d \<or>
    (\<exists>h. view d' = map (\<lambda>u. if u_ID u = sess_user_id s then u\<lparr>u_Password := h\<rparr> else u) (view d))"
proof (cases rq)
  case (PutOwnPassword body)
  show ?thesis
  proof (cases "d' = d")
    case False
    then obtain p h where "hash p = Some h" "d' = fst (db_update db (int (sess_user_id s)) (NewPassword h) d)"
      using assms(3) PutOwnPassword
      by (auto simp: adminRoute_def UpdatePasswordSelf_def split: option.splits if_splits prod.splits sum.splits)
    then show ?thesis
      using db_laws_unfold(6,7) [OF assms(1)]
      by (cases "snd (db_update db (int (sess_user_id s)) (NewPassword h) d)") (auto simp: applyChange_def prod_eq_iff)
  qed simp
qed (use assms(2,3) in \<open>simp_all add: adminRoute_def AdminOnly_def\<close>)

text \<open>The accounts to guard: one, and those of the administrators.\<close>

definition guarded :: "nat \<Rightarrow> User list \<Rightarrow> User list" where
  "guarded i us = filter (\<lambda>a. u_ID a = i \<or> u_Role a = ''ADMIN'') us"

definition outside_session :: "nat set \<Rightarrow> Session \<Rightarrow> bool" where
  "outside_session ids s \<longleftrightarrow> sess_role s \<noteq> ''ADMIN'' \<and> sess_user_id s \<notin> ids"

lemma guarded_signup:
  assumes "k \<notin> u_ID ` set us" "u_ID a = k" "u_Role a \<noteq> ''ADMIN''" "i \<in> u_ID ` set us"
  shows "guarded i (us @ [a]) = guarded i us"
  using assms by (auto simp: guarded_def)

lemma guarded_password:
  "j \<notin> u_ID ` set (guarded i us) \<Longrightarrow>
     guarded i (map (\<lambda>u. if u_ID u = j then u\<lparr>u_Password := h\<rparr> else u) us) = guarded i us"
proof (induction us)
  case (Cons u us)
  show ?case
  proof (cases "u_ID u = j")
    case True
    then have "u_ID u \<noteq> i" "u_Role u \<noteq> ''ADMIN''" using Cons.prems by (auto simp: guarded_def split: if_splits)
    then show ?thesis using Cons True by (simp add: guarded_def)
  next
    case False
    then show ?thesis using Cons by (auto simp: guarded_def split: if_splits)
  qed
qed (simp add: guarded_def)


lemma password_ids: "u_ID ` set (map (\<lambda>u. if u_ID u = j then u\<lparr>u_Password := h\<rparr> else u) us) = u_ID ` set us"
  by (induction us) auto

text \<open>The invariant of a run in which nobody logs in to the guarded accounts \<open>us\<close>.\<close>

definition guarded_inv :: "('d \<Rightarrow> User list) \<Rightarrow> nat \<Rightarrow> User list \<Rightarrow> 'd Server \<Rightarrow> bool" where
  "guarded_inv view i us sv \<longleftrightarrow> guarded i (view (sv_db sv)) = us \<and> i \<in> u_ID ` set (view (sv_db sv)) \<and>
     (\<forall>sid s. sv_sessions sv sid = Some s \<longrightarrow> outside_session (u_ID ` set us) s)"

lemma guarded_own: "i \<in> u_ID ` set us \<Longrightarrow> i \<in> u_ID ` set (guarded i us)"
  by (auto simp: guarded_def)

lemma opened_outside:
  assumes laws: "db_laws db view taken" and inv: "guarded_inv view i us sv"
    and wrong: "\<forall>a\<in>set us. \<not> ae_passwordMatches base (u_Password a) (req_password req)"
    and login: "opened db base cfg (LogIn sid now req) sv = Some s"
  shows "outside_session (u_ID ` set us) s"
proof -
  obtain u where u: "db_byName db (req_username req) (sv_db sv) = Inr u" "ae_passwordMatches base (u_Password u) (req_password req)"
    "s = \<lparr>sess_user_id = u_ID u, sess_username = u_Username u, sess_role = u_Role u\<rparr>"
    using login
    by (auto simp: opened_def loginRoute_def LoginPost_def authOf_def Let_def split: prod.splits option.splits sum.splits if_splits)
  have mem: "u \<in> set (view (sv_db sv))" using db_laws_unfold(1) [OF laws u(1)] by blast
  have out: "u \<notin> set us" using u(2) wrong by blast
  have us: "us = guarded i (view (sv_db sv))" using inv by (simp add: guarded_inv_def)
  have "u_ID u \<notin> u_ID ` set us"
  proof
    assume "u_ID u \<in> u_ID ` set us"
    then obtain a where a: "a \<in> set us" "u_ID a = u_ID u" by auto
    then have "a \<in> set (view (sv_db sv))" using us by (simp add: guarded_def)
    then have "a = u" using a(2) mem db_laws_unfold(14) [OF laws, of "sv_db sv"] by (auto simp: distinct_map inj_on_def)
    then show False using a(1) out by simp
  qed
  moreover have "u_Role u \<noteq> ''ADMIN''" using mem out us by (simp add: guarded_def)
  ultimately show ?thesis using u(3) by (simp add: outside_session_def)
qed

lemma guarded_step:
  assumes laws: "db_laws db view taken" and inv: "guarded_inv view i us sv"
    and wrong: "\<And>sid now req. ev = LogIn sid now req \<Longrightarrow>
      \<forall>a\<in>set us. \<not> ae_passwordMatches base (u_Password a) (req_password req)"
  shows "guarded_inv view i us (server_step db hash base cfg ev sv)"
proof (cases ev)
  case (LogIn sid now req)
  then show ?thesis
    using inv opened_outside [OF laws inv wrong [OF LogIn], of cfg sid now]
    by (auto simp: server_step_def guarded_inv_def split: option.splits)
next
  case (LogOut sid)
  then show ?thesis using inv by (simp add: server_step_def guarded_inv_def)
next
  case (Asks now ip sid rq)
  let ?d = "sv_db sv"
  have keep: "guarded_inv view i us (sv\<lparr>sv_attempts := bf, sv_db := d'\<rparr>)"
    if "guarded i (view d') = guarded i (view ?d)" "u_ID ` set (view ?d) \<subseteq> u_ID ` set (view d')" for d' bf
    using inv that by (auto simp: guarded_inv_def)
  have asis: "sv\<lparr>sv_attempts := sv_attempts sv, sv_db := d'\<rparr> = sv\<lparr>sv_db := d'\<rparr>" for d' by simp
  show ?thesis
  proof (cases "\<exists>name pw. rq = PostSignup name pw")
    case True
    then obtain name pw where rq: "rq = PostSignup name pw" by blast
    obtain d' r where s: "SignupPost db hash cfg name pw ?d = (d', r)" by fastforce
    have "guarded i (view d') = guarded i (view ?d)" "u_ID ` set (view ?d) \<subseteq> u_ID ` set (view d')"
      using signup_view [OF laws s] inv guarded_signup [of _ "view ?d"] by (auto simp: newUser_def guarded_inv_def)
    moreover have "guarded_inv view i us (sv\<lparr>sv_attempts := bf\<rparr>)" for bf using inv by (simp add: guarded_inv_def)
    ultimately show ?thesis using Asks rq s keep by (simp add: server_step_def split: prod.split option.split)
  next
    case False
    then have step: "server_step db hash base cfg ev sv =
        (case sv_sessions sv sid of None \<Rightarrow> sv | Some s \<Rightarrow> sv\<lparr>sv_db := fst (adminRoute db hash s rq ?d)\<rparr>)"
      using Asks by (cases rq) (simp_all add: server_step_def sessionGate_def hasPrefix_def split: option.split)
    show ?thesis
    proof (cases "sv_sessions sv sid")
      case None
      then show ?thesis using step inv by simp
    next
      case (Some s)
      then have out: "outside_session (u_ID ` set us) s" using inv by (simp add: guarded_inv_def)
      obtain d' r where d': "adminRoute db hash s rq ?d = (d', r)" by fastforce
      have "sess_role s \<noteq> ''ADMIN''" "sess_user_id s \<notin> u_ID ` set (guarded i (view ?d))"
        using out inv by (simp_all add: outside_session_def guarded_inv_def)
      from user_request_view [OF laws this(1) d'] guarded_password [OF this(2)]
      have "guarded i (view d') = guarded i (view ?d) \<and> u_ID ` set (view ?d) \<subseteq> u_ID ` set (view d')"
        by (elim disjE exE) (simp_all only: password_ids order_refl simp_thms)
      then show ?thesis using step Some d' keep [of d' "sv_attempts sv"] asis by simp
    qed
  qed
qed

text \<open>C6: Accounts are safe from those who do not know their passwords. However many people sign up, log in, log out and
  send requests to the server, in any order, as long as no login carries the password of an administrator or of the
  account \<open>i\<close>, and no session of theirs is open at the beginning, these accounts stay as they are (name,
  password, role, enabled) and no other account becomes an administrator's.\<close>
theorem accounts_safe_without_password:
  assumes "db_laws db view taken" "i \<in> u_ID ` set (view (sv_db sv))"
    and "\<forall>sid s. sv_sessions sv sid = Some s \<longrightarrow> outside_session (u_ID ` set (guarded i (view (sv_db sv)))) s"
    and "\<forall>sid now req. LogIn sid now req \<in> set evs \<longrightarrow>
      (\<forall>a\<in>set (guarded i (view (sv_db sv))). \<not> ae_passwordMatches base (u_Password a) (req_password req))"
  shows "guarded i (view (sv_db (server_run db hash base cfg evs sv))) = guarded i (view (sv_db sv))"
proof -
  have "guarded_inv view i (guarded i (view (sv_db sv))) sv" using assms(2,3) by (simp add: guarded_inv_def)
  moreover have "guarded_inv view i us sv \<Longrightarrow> (\<forall>sid now req. LogIn sid now req \<in> set evs \<longrightarrow>
      (\<forall>a\<in>set us. \<not> ae_passwordMatches base (u_Password a) (req_password req))) \<Longrightarrow>
      guarded_inv view i us (fold (server_step db hash base cfg) evs sv)" for us sv
  proof (induction evs arbitrary: sv)
    case (Cons ev evs)
    have "guarded_inv view i us (server_step db hash base cfg ev sv)"
      by (rule guarded_step [OF assms(1) Cons.prems(1)]) (use Cons.prems(2) in auto)
    then show ?case using Cons.IH Cons.prems(2) by simp
  qed simp
  ultimately show ?thesis using assms(4) unfolding server_run_def guarded_inv_def by blast
qed


section \<open>New and deleted accounts\<close>

text \<open>C20: Who signs up can log in: a successful sign-up adds exactly one account, an ordinary and enabled one under a name nobody
  had, leaves the others as they are, and from an address that is not locked the same name and password then open a session for this account.\<close>
theorem signup_then_login:
  assumes laws: "db_laws db view taken" and up: "SignupPost db hash cfg name pw d = (d', Redirect ''/login'')"
    and crypt: "\<forall>p h. hash p = Some h \<longrightarrow> ae_passwordMatches base h p" "ae_sessionErr base = None" "ae_saveErr base = None"
    and found: "\<forall>err. db_byName db name d' = Inl err \<longrightarrow> err = ErrRecordNotFound"
    and unlocked: "CheckAddress now ip bf = (bf1, None)"
  shows "\<exists>u. view d' = view d @ [u] \<and> u_Role u = ''USER'' \<and> u_Enabled u \<and> u_Username u = name \<and>
    name \<notin> u_Username ` set (view d) \<and>
    loginRoute (authOf db base d') cfg now \<lparr>req_ip = ip, req_username = name, req_password = pw\<rparr> bf =
      (RecordSuccess ip bf1, Redirect ''/'', Some \<lparr>sess_user_id = u_ID u, sess_username = name, sess_role = ''USER''\<rparr>)"
proof -
  obtain k h where c: "hash pw = Some h" "name \<noteq> ''''" "pw \<noteq> ''''" "name \<notin> taken d"
    and view: "view d' = view d @ [newUser name h ''USER'' True\<lparr>u_ID := k\<rparr>]"
    using signup_view [OF laws up] by blast
  let ?u = "newUser name h ''USER'' True\<lparr>u_ID := k\<rparr>"
  have new: "name \<notin> u_Username ` set (view d)" using c(4) db_laws_unfold(11) [OF laws, of d] by blast
  obtain u where u: "db_byName db name d' = Inr u"
    using found db_laws_unfold(2) [OF laws, of name d'] view by (cases "db_byName db name d'") (auto simp: newUser_def)
  then have "u \<in> set (view d) \<or> u = ?u" "u_Username u = name"
    using db_laws_unfold(1) [OF laws u] view by auto
  then have "u = ?u" using new by auto
  then have "loginRoute (authOf db base d') cfg now \<lparr>req_ip = ip, req_username = name, req_password = pw\<rparr> bf =
      (RecordSuccess ip bf1, Redirect ''/'', Some \<lparr>sess_user_id = u_ID ?u, sess_username = name, sess_role = ''USER''\<rparr>)"
    using u c crypt unlocked by (simp add: loginRoute_def LoginPost_def authOf_def newUser_def Let_def)
  then show ?thesis using view new by (intro exI [of _ ?u]) (simp add: newUser_def)
qed

text \<open>The name of a deleted account can never be used again: the row is only marked as deleted and keeps its unique name,
  while the look-up before creating does not see it. Registering the name again is answered with an internal error, and no account is made.\<close>
theorem deleted_name_stays_taken:
  assumes laws: "db_laws db view taken" and u: "u \<in> set (view d)"
    and del: "DeleteUser db me param d = (d1, StatusReply 200 ''user deleted'')"
    and again: "u_Username u = name" "name \<noteq> ''''" "4 \<le> length pw" "hash pw = Some h" "db_byName db name d1 = Inl err"
  shows "\<exists>d2. RegisterUser db hash (Some (name, pw)) d1 = (d2, StatusReply 500 ''create failed'') \<and> view d2 = view d1"
proof -
  have "taken d1 = taken d"
    using del db_laws_unfold(12,13) [OF laws] by (auto simp: DeleteUser_def split: option.splits sum.splits if_splits)
  then have "name \<in> taken d1" using db_laws_unfold(11) [OF laws, of d] u again(1) by blast
  moreover obtain d2 q where c: "db_create db (newUser name h ''USER'' True) d1 = (d2, q)" by fastforce
  ultimately obtain e where "q = Inl e"
    using db_laws_unfold(4) [OF laws, of "newUser name h ''USER'' True" d1 d2] by (cases q) (auto simp: newUser_def)
  moreover from this have "view d2 = view d1" using db_laws_unfold(5) [OF laws] c by blast
  moreover have "pw \<noteq> ''''" using again(3) by auto
  ultimately show ?thesis using again c by (simp add: RegisterUser_def)
qed

section \<open>A database of rows\<close>

text \<open>The rows with their mark of deletion; the ID of a row is its position, from 1.\<close>

type_synonym rows = "(User \<times> bool) list"

fun live_from :: "nat \<Rightarrow> rows \<Rightarrow> User list" where
  "live_from n [] = []"
| "live_from n ((u, deleted) # d) = (if deleted then live_from (Suc n) d else u\<lparr>u_ID := n\<rparr> # live_from (Suc n) d)"

definition live :: "rows \<Rightarrow> User list" where "live d = live_from 1 d"

definition names :: "rows \<Rightarrow> string set" where "names d = u_Username ` fst ` set d"

fun changeRow :: "(User \<times> bool \<Rightarrow> User \<times> bool) \<Rightarrow> int \<Rightarrow> nat \<Rightarrow> rows \<Rightarrow> rows" where
  "changeRow f i n [] = []"
| "changeRow f i n (r # d) = (if int n = i then f r else r) # changeRow f i (Suc n) d"

definition firstUser :: "(User \<Rightarrow> bool) \<Rightarrow> rows \<Rightarrow> User result" where
  "firstUser P d = (case filter P (live d) of [] \<Rightarrow> Inl ErrRecordNotFound | u # _ \<Rightarrow> Inr u)"

definition rowsDB :: "rows UserDB" where
  "rowsDB =
     \<lparr>db_byName = (\<lambda>n. firstUser (\<lambda>u. u_Username u = n)), db_byID = (\<lambda>i. firstUser (\<lambda>u. int (u_ID u) = i)),
      db_count = (\<lambda>d. int (length (live d))), db_all = live,
      db_create = (\<lambda>u d. if u_Username u \<in> names d then (d, Inl ''UNIQUE constraint failed'')
         else (d @ [(u\<lparr>u_Enabled := True\<rparr>, False)], Inr (Suc (length d)))),
      db_createInfo = (\<lambda>_ d. d), db_infoOf = (\<lambda>_ _. Inl ErrRecordNotFound),
      db_update = (\<lambda>i ch d. (changeRow (\<lambda>(u, del). (if del then u else applyChange ch u, del)) i 1 d,
         Inr (int (length (filter (\<lambda>u. int (u_ID u) = i) (live d)))))),
      db_deleteInfo = (\<lambda>_ d. d), db_delete = (\<lambda>k d. changeRow (\<lambda>(u, _). (u, True)) (int k) 1 d)\<rparr>"

lemma live_ids: "u \<in> set (live_from n d) \<Longrightarrow> n \<le> u_ID u \<and> u_ID u < n + length d"
  by (induction n d rule: live_from.induct) (force split: if_splits)+

lemma live_distinct: "distinct (map u_ID (live_from n d))"
  by (induction n d rule: live_from.induct) (auto dest: live_ids)

lemma live_append: "live_from n (d @ [(u, False)]) = live_from n d @ [u\<lparr>u_ID := n + length d\<rparr>]"
  by (induction n d rule: live_from.induct) auto

lemma applyChange_ID: "applyChange ch (u\<lparr>u_ID := n\<rparr>) = (applyChange ch u)\<lparr>u_ID := n\<rparr>"
  by (cases ch) (simp_all add: applyChange_def)

lemma live_update:
  "live_from n (changeRow (\<lambda>(u, del). (if del then u else applyChange ch u, del)) i n d) =
     map (\<lambda>u. if int (u_ID u) = i then applyChange ch u else u) (live_from n d)"
  by (induction n d rule: live_from.induct) (auto simp: applyChange_ID)

lemma live_delete:
  "live_from n (changeRow (\<lambda>(u, _). (u, True)) (int k) n d) = filter (\<lambda>u. u_ID u \<noteq> k) (live_from n d)"
  by (induction n d rule: live_from.induct) auto

lemma names_delete: "names (changeRow (\<lambda>(u, _). (u, True)) i n d) = names d"
  by (induction d arbitrary: n) (auto simp: names_def)

lemma live_names: "u_Username ` set (live_from n d) \<subseteq> names d"
  by (induction n d rule: live_from.induct) (auto simp: names_def)

lemma firstUser_result:
  "firstUser P d = Inr u \<Longrightarrow> u \<in> set (live d) \<and> P u"
  "firstUser P d = Inl err \<Longrightarrow> \<forall>u\<in>set (live d). \<not> P u"
proof -
  show "firstUser P d = Inr u \<Longrightarrow> u \<in> set (live d) \<and> P u"
  proof -
    assume "firstUser P d = Inr u"
    then obtain us where "filter P (live d) = u # us" by (auto simp: firstUser_def split: list.splits)
    then have "u \<in> set (filter P (live d))" by simp
    then show ?thesis by simp
  qed
  show "firstUser P d = Inl err \<Longrightarrow> \<forall>u\<in>set (live d). \<not> P u"
    by (auto simp: firstUser_def filter_empty_conv split: list.splits)
qed

lemma rowsDB_laws: "db_laws rowsDB live names"
  unfolding db_laws_def
proof (intro conjI allI impI)
  show "\<And>n d u. db_byName rowsDB n d = Inr u \<Longrightarrow> u \<in> set (live d)"
    "\<And>n d u. db_byName rowsDB n d = Inr u \<Longrightarrow> u_Username u = n"
    "\<And>i d u. db_byID rowsDB i d = Inr u \<Longrightarrow> u \<in> set (live d)"
    "\<And>i d u. db_byID rowsDB i d = Inr u \<Longrightarrow> int (u_ID u) = i"
    by (auto simp: rowsDB_def dest: firstUser_result(1))
  show "\<And>n d. db_byName rowsDB n d = Inl ErrRecordNotFound \<Longrightarrow> n \<notin> u_Username ` set (live d)"
    by (auto simp: rowsDB_def dest: firstUser_result(2))
  fix u d d' k
  assume c: "db_create rowsDB u d = (d', Inr k)"
  then have d': "d' = d @ [(u\<lparr>u_Enabled := True\<rparr>, False)]" "k = Suc (length d)" "u_Username u \<notin> names d"
    by (auto simp: rowsDB_def split: if_splits)
  then show "live d' = live d @ [u\<lparr>u_ID := k, u_Enabled := True\<rparr>]" "u_Username u \<notin> names d"
    by (simp_all add: live_def live_append)
  show "k \<notin> u_ID ` set (live d)" using d'(2) by (auto simp: live_def dest: live_ids)
next
  show "\<And>u d d' err. db_create rowsDB u d = (d', Inl err) \<Longrightarrow> live d' = live d"
    by (auto simp: rowsDB_def split: if_splits)
  show "\<And>i ch d d' m. db_update rowsDB i ch d = (d', Inr m) \<Longrightarrow>
      live d' = map (\<lambda>u. if int (u_ID u) = i then applyChange ch u else u) (live d)"
    "\<And>i ch d d' m. db_update rowsDB i ch d = (d', Inr m) \<Longrightarrow> m = int (length (filter (\<lambda>u. int (u_ID u) = i) (live d)))"
    "\<And>i ch d d' err. db_update rowsDB i ch d = (d', Inl err) \<Longrightarrow> live d' = live d"
    by (auto simp: rowsDB_def live_def live_update)
  show "\<And>k d. live (db_delete rowsDB k d) = live d \<or> live (db_delete rowsDB k d) = filter (\<lambda>u. u_ID u \<noteq> k) (live d)"
    "\<And>k d. names (db_delete rowsDB k d) = names d" "\<And>info d. live (db_createInfo rowsDB info d) = live d"
    "\<And>k d. live (db_deleteInfo rowsDB k d) = live d" "\<And>k d. names (db_deleteInfo rowsDB k d) = names d"
    by (simp_all add: rowsDB_def live_def live_delete names_delete)
  show "\<And>d. u_Username ` set (live d) \<subseteq> names d" by (simp add: live_def live_names)
  show "\<And>d. distinct (map u_ID (live d))" by (simp add: live_def live_distinct)
qed


definition plainHash :: hasher where "plainHash p = (if length p \<le> 72 then Some (''h'' @ p) else None)"

definition plainAuth :: AuthEnv where
  "plainAuth = \<lparr>ae_findUser = (\<lambda>_. None), ae_passwordMatches = (\<lambda>h p. h = ''h'' @ p), ae_sessionErr = None, ae_saveErr = None\<rparr>"

definition seeded :: rows where "seeded = seedAdminUser rowsDB plainHash []"

lemma seeded_rows: "seeded = [(newUser ''admin'' ''hadmin123'' ''ADMIN'' True, False)]"
  by (simp add: seeded_def seedAdminUser_def rowsDB_def live_def plainHash_def names_def newUser_def)

lemma signup_bob:
  "SignupPost rowsDB plainHash (defaultServerConfig\<lparr>sc_SignupEnabled := True\<rparr>) ''bob'' ''pass'' seeded =
     (seeded @ [(newUser ''bob'' ''hpass'' ''USER'' True, False)], Redirect ''/login'')"
  by (simp add: SignupPost_def seeded_rows rowsDB_def firstUser_def live_def plainHash_def names_def newUser_def
      defaultServerConfig_def LoadConfig_def envInt_def const_defs)

theorem accounts_safe_without_password_witness:
  "let sv = server_run rowsDB plainHash plainAuth (defaultServerConfig\<lparr>sc_SignupEnabled := True\<rparr>)
       [Asks 1 ''ip'' ''c'' (PostSignup ''bob'' ''pass''), LogIn ''c'' 2 \<lparr>req_ip = ''ip'', req_username = ''bob'', req_password = ''pass''\<rparr>,
        Asks 3 ''ip'' ''c'' (PutRole (Some 2) (Some ''ADMIN''))]
       \<lparr>sv_db = seeded, sv_attempts = NewBruteForceProtection, sv_sessions = Map.empty\<rparr>
   in guarded 1 (live (sv_db sv)) = guarded 1 (live seeded)"
proof -
  have "live seeded = [newUser ''admin'' ''hadmin123'' ''ADMIN'' True\<lparr>u_ID := 1\<rparr>]"
    by (simp add: seeded_rows live_def)
  then show ?thesis
    unfolding Let_def
    by (intro accounts_safe_without_password [OF rowsDB_laws, THEN trans])
      (auto simp: guarded_def newUser_def plainAuth_def)
qed

theorem signup_then_login_witness:
  "\<exists>u. live (seeded @ [(newUser ''bob'' ''hpass'' ''USER'' True, False)]) = live seeded @ [u] \<and> u_Username u = ''bob''"
proof -
  have found: "\<forall>err. db_byName rowsDB ''bob'' (seeded @ [(newUser ''bob'' ''hpass'' ''USER'' True, False)]) = Inl err \<longrightarrow> err = ErrRecordNotFound"
    by (auto simp: rowsDB_def firstUser_def split: list.splits)
  have crypt: "\<forall>p h. plainHash p = Some h \<longrightarrow> ae_passwordMatches plainAuth h p" "ae_sessionErr plainAuth = None" "ae_saveErr plainAuth = None"
    by (simp_all add: plainHash_def plainAuth_def split: if_splits)
  have "CheckAddress 5 ''ip'' NewBruteForceProtection = (NewBruteForceProtection, None)"
    by (simp add: CheckAddress_def NewBruteForceProtection_def)
  from signup_then_login [OF rowsDB_laws signup_bob crypt found this] show ?thesis by blast
qed

theorem deleted_name_stays_taken_witness:
  "let d = seeded @ [(newUser ''bob'' ''hpass'' ''USER'' True, False)]; d1 = fst (DeleteUser rowsDB ''admin'' (Some 2) d) in
   \<exists>d2. RegisterUser rowsDB plainHash (Some (''bob'', ''pass'')) d1 = (d2, StatusReply 500 ''create failed'') \<and> live d2 = live d1"
proof -
  let ?d = "seeded @ [(newUser ''bob'' ''hpass'' ''USER'' True, False)]"
  let ?d1 = "seeded @ [(newUser ''bob'' ''hpass'' ''USER'' True, True)]"
  have bob: "newUser ''bob'' ''hpass'' ''USER'' True\<lparr>u_ID := 2\<rparr> \<in> set (live ?d)"
    by (simp add: seeded_rows live_def newUser_def)
  have del: "DeleteUser rowsDB ''admin'' (Some 2) ?d = (?d1, StatusReply 200 ''user deleted'')"
    by (simp add: DeleteUser_def seeded_rows rowsDB_def firstUser_def live_def newUser_def)
  have "db_byName rowsDB ''bob'' ?d1 = Inl ErrRecordNotFound"
    by (simp add: seeded_rows rowsDB_def firstUser_def live_def newUser_def)
  from deleted_name_stays_taken [where name = "''bob''" and pw = "''pass''" and hash = plainHash and h = "''hpass''",
      OF rowsDB_laws bob del _ _ _ _ this]
  show ?thesis unfolding Let_def del fst_conv by (simp add: newUser_def plainHash_def)
qed

end
