(* ===== verification/SizeFormat.thy ===== *)
theory SizeFormat
  imports Base64 Decimal
begin

text \<open>
  Readable sizes (\<open>pkg/sizefmt/sizefmt.go\<close>). A 64-bit integer is rounded to a float of 53 bits; dividing it by
  1024 is exact, and printing with a fixed number of digits rounds the exact value, halves to even.
\<close>

definition roundHalfEven :: "nat \<Rightarrow> nat \<Rightarrow> nat" where
  "roundHalfEven n d =
     (let q = n div d; r = n mod d in if 2 * r < d \<or> (2 * r = d \<and> even q) then q else Suc q)"

fun bitLength :: "nat \<Rightarrow> nat" where
  "bitLength n = (if n = 0 then 0 else Suc (bitLength (n div 2)))"

declare bitLength.simps [simp del]

definition toFloat64 :: "nat \<Rightarrow> nat" where
  "toFloat64 n = (let k = bitLength n - 53 in roundHalfEven n (2 ^ k) * 2 ^ k)"

definition padZeros :: "nat \<Rightarrow> string \<Rightarrow> string" where
  "padZeros w s = replicate (w - length s) (CHR ''0'') @ s"

text \<open>\<open>n / d\<close> with the given number of digits after the point.\<close>

definition formatFixed :: "nat \<Rightarrow> nat \<Rightarrow> nat \<Rightarrow> string" where
  "formatFixed prec n d =
     (let scaled = roundHalfEven (n * 10 ^ prec) d in
      showNat (scaled div 10 ^ prec) @ ''.'' @ padZeros prec (showNat (scaled mod 10 ^ prec)))"

definition FormatBytes :: "int \<Rightarrow> string" where
  "FormatBytes sz =
     (if sz < 1024 then showInt sz @ '' B''
      else (let f = toFloat64 (nat sz) in
            if f < 1024 ^ 2 then formatFixed 1 f 1024 @ '' KB''
            else if f < 1024 ^ 3 then formatFixed 2 f (1024 ^ 2) @ '' MB''
            else formatFixed 2 f (1024 ^ 3) @ '' GB''))"

definition HumanSizeFromPayload :: "string \<Rightarrow> string \<Rightarrow> string" where
  "HumanSizeFromPayload payloadType payload = FormatBytes (humanSize payloadType payload)"

lemma roundHalfEven_error: "0 < d \<Longrightarrow> \<bar>2 * int (roundHalfEven n d * d) - 2 * int n\<bar> \<le> int d"
proof -
  assume d: "0 < d"
  have eq: "int n = int (n div d) * int d + int (n mod d)" by (metis div_mult_mod_eq of_nat_add of_nat_mult)
  have "int (n mod d) < int d" using d by simp
  then show ?thesis
    unfolding roundHalfEven_def Let_def by (auto simp: eq algebra_simps not_less)
qed

lemma toFloat64_small: "n < 2 ^ 53 \<Longrightarrow> toFloat64 n = n"
proof -
  have "m < 2 ^ k \<Longrightarrow> bitLength m \<le> k" for m k
  proof (induction m arbitrary: k rule: bitLength.induct)
    case (1 m)
    show ?case
    proof (cases "m = 0")
      case False
      then obtain j where k: "k = Suc j" using 1(2) by (cases k) auto
      have "m div 2 < 2 ^ j" using 1(2) k by simp
      then have "bitLength (m div 2) \<le> j" using 1(1) [OF False] by blast
      then show ?thesis using False k by (simp add: bitLength.simps [of m])
    qed (simp add: bitLength.simps)
  qed
  then show "n < 2 ^ 53 \<Longrightarrow> ?thesis" by (simp add: toFloat64_def roundHalfEven_def Let_def)
qed

end
