(* ===== verification/DesktopConfig.thy ===== *)
theory DesktopConfig
  imports AppState KeyDerivation
begin

text \<open>
  The configuration file of the desktop program (\<open>desktop/config/config.go\<close>, \<open>log_paths.go\<close>): defaults, where
  it lies, the local master key, the encryption of the two passwords, loading and saving. The environment
  (operating system, variables, home directory, random bytes, \<open>net/url\<close>, AES-GCM, faults of the disk) is an
  argument; the state is the files and the number of random reads made. Texts of errors are in English.
  \<open>SaveServerURLOnly\<close>, which keeps the raw text of the other members, is left out.
\<close>

section \<open>The environment\<close>

text \<open>\<open>ce_urlParse\<close> is \<open>url.Parse\<close>: the scheme, and \<open>String\<close> of the URL with a given scheme.\<close>

record ConfEnv =
  ce_goos :: string
  ce_getenv :: "string \<Rightarrow> string"
  ce_home :: string
  ce_faults :: Faults
  ce_gcm :: Gcm
  ce_rand :: "nat \<Rightarrow> nat \<Rightarrow> bytes option"
  ce_urlParse :: "string \<Rightarrow> (string \<times> (string \<Rightarrow> string)) result"

record ConfState =
  cs_fs :: FS
  cs_rands :: nat

definition configMasterKeySize :: nat where "configMasterKeySize = 32"
definition gcmNonceSize :: nat where "gcmNonceSize = 12"
definition DefaultStunURL :: string where "DefaultStunURL = ''stun:stun.l.google.com:19302''"

section \<open>Defaults and normalization\<close>

definition DefaultConfig :: Config where
  "DefaultConfig = \<lparr>cfg_ServerURL = ''http://localhost:'' @ showInt DefaultPort, cfg_Username = '''', cfg_Password = '''',
     cfg_PasswordEncrypted = '''', cfg_E2EEEnabled = True, cfg_P2PEnabled = True, cfg_StunURL = DefaultStunURL,
     cfg_AutoReconnect = True, cfg_ReconnectDelay = DefaultReconnectDelay,
     cfg_FileMemoryThresholdMiB = DefaultFileMemoryThresholdMiB, cfg_WebPort = DefaultWebPort, cfg_WebPassword = '''',
     cfg_WebPasswordEncrypted = '''', cfg_FilePath = '''', cfg_LegacyPassword = ''''\<rparr>"

definition NormalizeServerURL :: "ConfEnv \<Rightarrow> string \<Rightarrow> string" where
  "NormalizeServerURL env raw =
     (let s = trimSpace raw in
      if s = '''' then ''''
      else (let s1 = (if containsStr s ''://'' then s else ''http://'' @ s) in
            case ce_urlParse env s1 of
              Inl _ \<Rightarrow> trimRightSet {slash} s1
            | Inr (scheme, str) \<Rightarrow> trimRightSet {slash} (str (if scheme = '''' then ''http'' else scheme))))"

definition normalize :: "ConfEnv \<Rightarrow> Config \<Rightarrow> Config" where
  "normalize env c =
     (let t = cfg_FileMemoryThresholdMiB c;
          t1 = (if t \<le> 0 then DefaultFileMemoryThresholdMiB else t);
          t2 = (if MaxFileMemoryThresholdMiB < t1 then MaxFileMemoryThresholdMiB else t1) in
      c\<lparr>cfg_ServerURL := NormalizeServerURL env (cfg_ServerURL c), cfg_FileMemoryThresholdMiB := t2,
        cfg_WebPort := (if cfg_WebPort c \<le> 0 \<or> 65535 < cfg_WebPort c then DefaultWebPort else cfg_WebPort c)\<rparr>)"

section \<open>Where the files lie\<close>

definition ConfigDir :: "ConfEnv \<Rightarrow> string" where
  "ConfigDir env =
     (let dir = (if ce_goos env = ''windows'' then ce_getenv env ''APPDATA''
                 else if ce_goos env = ''darwin'' then JoinPath [ce_home env, ''Library'', ''Application Support'']
                 else (let d = ce_getenv env ''XDG_CONFIG_HOME'' in
                       if d = '''' then JoinPath [ce_home env, ''.config''] else d)) in
      JoinPath [dir, ''ClipCascade''])"

definition masterKeyPath :: "ConfEnv \<Rightarrow> string" where
  "masterKeyPath env = JoinPath [ConfigDir env, ''master.key'']"

definition configPath :: "ConfEnv \<Rightarrow> string" where
  "configPath env = JoinPath [ConfigDir env, ''config.json'']"

definition LogDir :: "ConfEnv \<Rightarrow> string" where
  "LogDir env = JoinPath [ConfigDir env, ''logs'']"

definition LogFilePath :: "ConfEnv \<Rightarrow> string" where
  "LogFilePath env = JoinPath [LogDir env, ''desktop.log'']"

section \<open>The master key and the passwords\<close>

definition ensureMasterKey :: "ConfEnv \<Rightarrow> ConfState \<Rightarrow> ConfState \<times> bytes result" where
  "ensureMasterKey env st =
     (let keyPath = masterKeyPath env;
          fresh =
            (let st1 = st\<lparr>cs_rands := Suc (cs_rands st)\<rparr> in
             case ce_rand env (cs_rands st) configMasterKeySize of
               None \<Rightarrow> (st1, Inl ''generate master key'')
             | Some key \<Rightarrow>
                 (case os_MkdirAll (ce_faults env) (DirOf keyPath) (cs_fs st1) of
                    (fs1, Some err) \<Rightarrow> (st1\<lparr>cs_fs := fs1\<rparr>, Inl (''create key directory: '' @ err))
                  | (fs1, None) \<Rightarrow>
                      (case os_WriteFile (ce_faults env) keyPath key fs1 of
                         (fs2, Some err) \<Rightarrow> (st1\<lparr>cs_fs := fs2\<rparr>, Inl (''write master key: '' @ err))
                       | (fs2, None) \<Rightarrow> (st1\<lparr>cs_fs := fs2\<rparr>, Inr key)))) in
      case os_ReadFile (ce_faults env) (cs_fs st) keyPath of
        Inl _ \<Rightarrow> fresh
      | Inr data \<Rightarrow> if length data = configMasterKeySize then (st, Inr data) else fresh)"

definition encryptPassword :: "ConfEnv \<Rightarrow> string \<Rightarrow> ConfState \<Rightarrow> ConfState \<times> string result" where
  "encryptPassword env plainPassword st =
     (if plainPassword = '''' then (st, Inr '''')
      else (case ensureMasterKey env st of
              (st1, Inl err) \<Rightarrow> (st1, Inl err)
            | (st1, Inr key) \<Rightarrow>
                (let st2 = st1\<lparr>cs_rands := Suc (cs_rands st1)\<rparr> in
                 case Encrypt (ce_gcm env) (ce_rand env (cs_rands st1) gcmNonceSize) key plainPassword of
                   Inl err \<Rightarrow> (st2, Inl (''encrypt password: '' @ err))
                 | Inr payload \<Rightarrow> (st2, Inr (EncodeToJSONString payload)))))"

definition decryptPassword :: "ConfEnv \<Rightarrow> string \<Rightarrow> ConfState \<Rightarrow> ConfState \<times> string result" where
  "decryptPassword env encryptedJSON st =
     (if encryptedJSON = '''' then (st, Inr '''')
      else (case ensureMasterKey env st of
              (st1, Inl err) \<Rightarrow> (st1, Inl err)
            | (st1, Inr key) \<Rightarrow>
                (st1, case DecodeFromJSONString encryptedJSON of
                        Inl err \<Rightarrow> Inl (''parse password: '' @ err)
                      | Inr payload \<Rightarrow>
                          (case Decrypt (ce_gcm env) key payload of
                             Inl err \<Rightarrow> Inl (''decrypt password: '' @ err)
                           | Inr plaintext \<Rightarrow> Inr plaintext))))"

section \<open>The file\<close>

definition configFields :: "Config fields" where
  "configFields = [(''server_url'', setStr (\<lambda>s c. c\<lparr>cfg_ServerURL := s\<rparr>)),
     (''username'', setStr (\<lambda>s c. c\<lparr>cfg_Username := s\<rparr>)),
     (''password_encrypted'', setStr (\<lambda>s c. c\<lparr>cfg_PasswordEncrypted := s\<rparr>)),
     (''e2ee_enabled'', setBool (\<lambda>b c. c\<lparr>cfg_E2EEEnabled := b\<rparr>)),
     (''p2p_enabled'', setBool (\<lambda>b c. c\<lparr>cfg_P2PEnabled := b\<rparr>)),
     (''stun_url'', setStr (\<lambda>s c. c\<lparr>cfg_StunURL := s\<rparr>)),
     (''auto_reconnect'', setBool (\<lambda>b c. c\<lparr>cfg_AutoReconnect := b\<rparr>)),
     (''reconnect_delay_sec'', setInt (\<lambda>i c. c\<lparr>cfg_ReconnectDelay := i\<rparr>)),
     (''file_memory_threshold_mib'', setInt (\<lambda>i c. c\<lparr>cfg_FileMemoryThresholdMiB := i\<rparr>)),
     (''web_port'', setInt (\<lambda>i c. c\<lparr>cfg_WebPort := i\<rparr>)),
     (''web_password_encrypted'', setStr (\<lambda>s c. c\<lparr>cfg_WebPasswordEncrypted := s\<rparr>)),
     (''password'', setStr (\<lambda>s c. c\<lparr>cfg_LegacyPassword := s\<rparr>))]"

definition configMembers :: "Config \<Rightarrow> (string \<times> json) list" where
  "configMembers c = [(''server_url'', JStr (cfg_ServerURL c)), (''username'', JStr (cfg_Username c)),
     (''password_encrypted'', JStr (cfg_PasswordEncrypted c)), (''e2ee_enabled'', JBool (cfg_E2EEEnabled c)),
     (''p2p_enabled'', JBool (cfg_P2PEnabled c)), (''stun_url'', JStr (cfg_StunURL c)),
     (''auto_reconnect'', JBool (cfg_AutoReconnect c)), (''reconnect_delay_sec'', jint (cfg_ReconnectDelay c)),
     (''file_memory_threshold_mib'', jint (cfg_FileMemoryThresholdMiB c)), (''web_port'', jint (cfg_WebPort c)),
     (''web_password_encrypted'', JStr (cfg_WebPasswordEncrypted c))] @ omitEmpty ''password'' (cfg_LegacyPassword c)"

definition envPassword :: "ConfEnv \<Rightarrow> string" where
  "envPassword env = ce_getenv env ''CLIPCASCADE_PASSWORD''"

definition Load :: "ConfEnv \<Rightarrow> ConfState \<Rightarrow> ConfState \<times> Config" where
  "Load env st =
     (let cfgPath = configPath env; cfg0 = DefaultConfig\<lparr>cfg_FilePath := cfgPath\<rparr> in
      case os_ReadFile (ce_faults env) (cs_fs st) cfgPath of
        Inl _ \<Rightarrow> (st, cfg0)
      | Inr data \<Rightarrow>
          (let cfg1 = normalize env ((unmarshalInto configFields cfg0 data)\<lparr>cfg_FilePath := cfgPath\<rparr>) in
           case (if cfg_PasswordEncrypted cfg1 \<noteq> ''''
                 then (case decryptPassword env (cfg_PasswordEncrypted cfg1) st of
                         (st1, Inl _) \<Rightarrow> (st1, cfg1\<lparr>cfg_Password := ''''\<rparr>)
                       | (st1, Inr decrypted) \<Rightarrow> (st1, cfg1\<lparr>cfg_Password := decrypted\<rparr>))
                 else if cfg_LegacyPassword cfg1 \<noteq> ''''
                 then (st, cfg1\<lparr>cfg_Password := cfg_LegacyPassword cfg1, cfg_LegacyPassword := ''''\<rparr>)
                 else (st, cfg1)) of
             (st1, cfg2) \<Rightarrow>
               (case (if cfg_WebPasswordEncrypted cfg2 \<noteq> ''''
                      then (case decryptPassword env (cfg_WebPasswordEncrypted cfg2) st1 of
                              (st2, Inl _) \<Rightarrow> (st2, cfg2\<lparr>cfg_WebPassword := ''''\<rparr>)
                            | (st2, Inr decrypted) \<Rightarrow> (st2, cfg2\<lparr>cfg_WebPassword := decrypted\<rparr>))
                      else (st1, cfg2)) of
                  (st2, cfg3) \<Rightarrow>
                    (st2, if envPassword env \<noteq> '''' then cfg3\<lparr>cfg_Password := envPassword env\<rparr> else cfg3))))"

text \<open>What is stored for a password: nothing for an empty one or when it cannot be encrypted.\<close>

definition storedPassword :: "ConfEnv \<Rightarrow> string \<Rightarrow> ConfState \<Rightarrow> ConfState \<times> string" where
  "storedPassword env password st =
     (if password \<noteq> ''''
      then (case encryptPassword env password st of (st1, Inl _) \<Rightarrow> (st1, '''') | (st1, Inr encrypted) \<Rightarrow> (st1, encrypted))
      else (st, ''''))"

definition Save :: "ConfEnv \<Rightarrow> Config \<Rightarrow> ConfState \<Rightarrow> ConfState \<times> goerror option" where
  "Save env c st =
     (case os_MkdirAll (ce_faults env) (DirOf (cfg_FilePath c)) (cs_fs st) of
        (fs1, Some err) \<Rightarrow> (st\<lparr>cs_fs := fs1\<rparr>, Some err)
      | (fs1, None) \<Rightarrow>
          (let toSave = normalize env c in
           case storedPassword env (if envPassword env \<noteq> '''' then '''' else cfg_Password toSave) (st\<lparr>cs_fs := fs1\<rparr>) of
             (st1, pe) \<Rightarrow>
               (case storedPassword env (cfg_WebPassword toSave) st1 of
                  (st2, we) \<Rightarrow>
                    (case os_WriteFile (ce_faults env) (cfg_FilePath c)
                            (indentObject (configMembers (toSave\<lparr>cfg_PasswordEncrypted := pe,
                               cfg_WebPasswordEncrypted := we, cfg_LegacyPassword := ''''\<rparr>))) (cs_fs st2) of
                       (fs2, err) \<Rightarrow> (st2\<lparr>cs_fs := fs2\<rparr>, err)))))"

section \<open>A loaded configuration is well formed\<close>

definition config_ok :: "ConfEnv \<Rightarrow> Config \<Rightarrow> bool" where
  "config_ok env c \<longleftrightarrow> 1 \<le> cfg_FileMemoryThresholdMiB c \<and> cfg_FileMemoryThresholdMiB c \<le> MaxFileMemoryThresholdMiB \<and>
     1 \<le> cfg_WebPort c \<and> cfg_WebPort c \<le> 65535 \<and> cfg_FilePath c = configPath env"

lemma normalize_fields [simp]:
  "cfg_FilePath (normalize env c) = cfg_FilePath c" "cfg_Password (normalize env c) = cfg_Password c"
  "cfg_WebPassword (normalize env c) = cfg_WebPassword c" "cfg_LegacyPassword (normalize env c) = cfg_LegacyPassword c"
  "cfg_PasswordEncrypted (normalize env c) = cfg_PasswordEncrypted c"
  "cfg_WebPasswordEncrypted (normalize env c) = cfg_WebPasswordEncrypted c"
  by (simp_all add: normalize_def Let_def)

lemma normalize_ok: "cfg_FilePath c = configPath env \<Longrightarrow> config_ok env (normalize env c)"
  by (auto simp: normalize_def config_ok_def Let_def const_defs)

lemma config_ok_passwords [simp]:
  "config_ok env (c\<lparr>cfg_Password := p\<rparr>) = config_ok env c" "config_ok env (c\<lparr>cfg_WebPassword := p\<rparr>) = config_ok env c"
  "config_ok env (c\<lparr>cfg_LegacyPassword := p\<rparr>) = config_ok env c"
  by (simp_all add: config_ok_def)

lemma default_ok: "config_ok env (DefaultConfig\<lparr>cfg_FilePath := configPath env\<rparr>)"
  by (simp add: config_ok_def DefaultConfig_def const_defs)

lemma Load_ok: "config_ok env (snd (Load env st))"
proof (cases "os_ReadFile (ce_faults env) (cs_fs st) (configPath env)")
  case (Inl e)
  then show ?thesis by (simp add: Load_def Let_def default_ok)
next
  case (Inr data)
  define c where "c = normalize env ((unmarshalInto configFields (DefaultConfig\<lparr>cfg_FilePath := configPath env\<rparr>) data)
      \<lparr>cfg_FilePath := configPath env\<rparr>)"
  have ok: "config_ok env c" unfolding c_def by (rule normalize_ok) simp
  show ?thesis
    unfolding Load_def Let_def Inr sum.case c_def [symmetric]
    by (auto simp: ok split: prod.split sum.split)
qed

text \<open>C18: Whatever is in the configuration file, and whether or not it, the key file or the passwords in it can be read,
  the configuration the program starts with has a memory threshold from 1 to 5120 MiB and a valid port for its
  control panel, and it is saved where it was looked for.\<close>
theorem loaded_config_ok: "config_ok env (snd (Load env st))"
  by (rule Load_ok)

section \<open>Saving and loading\<close>

text \<open>A machine on which saving works: no faults, random bytes, an absolute directory, no directory in the way.\<close>

definition config_disk_ok :: "ConfEnv \<Rightarrow> ConfState \<Rightarrow> bool" where
  "config_disk_ok env st \<longleftrightarrow> ce_faults env = noFaults \<and> (\<forall>n k. \<exists>b. ce_rand env n k = Some b \<and> length b = k) \<and>
     (\<forall>key. length key = configMasterKeySize \<longrightarrow> gcm_correct (ce_gcm env) key) \<and> IsAbs (ConfigDir env) \<and>
     cs_fs st (masterKeyPath env) \<noteq> Some NDir \<and> cs_fs st (configPath env) \<noteq> Some NDir"

lemma config_paths:
  assumes "IsAbs (ConfigDir env)"
  shows "comps (masterKeyPath env) = comps (ConfigDir env) @ [''master.key'']"
    "comps (configPath env) = comps (ConfigDir env) @ [''config.json'']"
    "IsAbs (masterKeyPath env)" "IsAbs (configPath env)"
    "Clean (masterKeyPath env) = masterKeyPath env" "Clean (configPath env) = configPath env"
    "masterKeyPath env \<noteq> configPath env"
proof -
  have plain: "list_all plain_comp (splitChar slash ''master.key'')" "list_all plain_comp (splitChar slash ''config.json'')"
    "splitChar slash ''master.key'' = [''master.key'']" "splitChar slash ''config.json'' = [''config.json'']"
    by (simp_all add: plain_comp_def)
  show c: "comps (masterKeyPath env) = comps (ConfigDir env) @ [''master.key'']"
    "comps (configPath env) = comps (ConfigDir env) @ [''config.json'']"
    "IsAbs (masterKeyPath env)" "IsAbs (configPath env)"
    using comps_JoinPath [OF assms _ plain(1)] comps_JoinPath [OF assms _ plain(2)] plain(3,4)
    by (simp_all add: masterKeyPath_def configPath_def)
  show "Clean (masterKeyPath env) = masterKeyPath env" "Clean (configPath env) = configPath env"
    by (simp_all add: masterKeyPath_def configPath_def JoinPath_def Let_def)
  show "masterKeyPath env \<noteq> configPath env" using c(1,2) by force
qed

lemma config_dirs:
  assumes "IsAbs (ConfigDir env)" "p \<in> {masterKeyPath env, configPath env}" "q \<in> {masterKeyPath env, configPath env}"
  shows "makeDirs (DirOf p) fs q = fs q"
proof (rule makeDirs_frame, rule notI)
  note paths = config_paths [OF assms(1)]
  assume "q \<in> set (ancestors (DirOf p))"
  moreover have "Clean p = p" "IsAbs p" using assms(2) paths by auto
  ultimately obtain "prefix (comps q) (butlast (comps p))"
    using ancestors_comps [of q "DirOf p"] DirOf_clean [of p] by auto
  moreover have "length (comps q) = Suc (length (comps (ConfigDir env)))" "butlast (comps p) = comps (ConfigDir env)"
    using assms(2,3) paths by auto
  ultimately show False using prefix_length_le [of "comps q" "butlast (comps p)"] by simp
qed

text \<open>The key is one that can be read again; a key that is there stays.\<close>

definition holds_key :: "ConfEnv \<Rightarrow> ConfState \<Rightarrow> bytes \<Rightarrow> bool" where
  "holds_key env st key \<longleftrightarrow> cs_fs st (masterKeyPath env) = Some (NFile key) \<and> length key = configMasterKeySize"

lemma ensureMasterKey_held: "config_disk_ok env st \<Longrightarrow> holds_key env st key \<Longrightarrow> ensureMasterKey env st = (st, Inr key)"
  by (simp add: ensureMasterKey_def Let_def holds_key_def config_disk_ok_def os_ReadFile_def)

lemma ensureMasterKey_ok:
  assumes "config_disk_ok env st"
  shows "\<exists>st' key. ensureMasterKey env st = (st', Inr key) \<and> holds_key env st' key \<and> config_disk_ok env st' \<and>
    cs_fs st' (configPath env) = cs_fs st (configPath env) \<and> (\<forall>k. holds_key env st k \<longrightarrow> key = k)"
proof (cases "\<exists>k. holds_key env st k")
  case True
  then obtain k where k: "holds_key env st k" by blast
  moreover from this have "k' = k" if "holds_key env st k'" for k' using that by (simp add: holds_key_def)
  ultimately show ?thesis using ensureMasterKey_held [OF assms] assms by blast
next
  case False
  let ?p = "masterKeyPath env"
  obtain key where key: "ce_rand env (cs_rands st) configMasterKeySize = Some key" "length key = configMasterKeySize"
    using assms unfolding config_disk_ok_def by blast
  then have ne: "key \<noteq> []" by (auto simp: configMasterKeySize_def)
  have abs: "IsAbs (ConfigDir env)" and flt: "ce_faults env = noFaults" and dir: "cs_fs st ?p \<noteq> Some NDir"
    using assms by (simp_all add: config_disk_ok_def)
  let ?fs1 = "makeDirs (DirOf ?p) (cs_fs st)"
  have fs1: "?fs1 ?p = cs_fs st ?p" "?fs1 (configPath env) = cs_fs st (configPath env)"
    using config_dirs [OF abs] by simp_all
  let ?st' = "st\<lparr>cs_rands := Suc (cs_rands st), cs_fs := ?fs1(?p \<mapsto> NFile key)\<rparr>"
  have "os_WriteFile noFaults ?p key ?fs1 = (?fs1(?p \<mapsto> NFile key), None)"
    using dir ne fs1 by (auto simp: os_WriteFile_def os_Write_ok split: option.split node.split)
  moreover have "\<not> (\<exists>d. os_ReadFile noFaults (cs_fs st) ?p = Inr d \<and> length d = configMasterKeySize)"
    using False by (auto simp: holds_key_def os_ReadFile_def split: option.splits node.splits)
  ultimately have "ensureMasterKey env st = (?st', Inr key)"
    using key flt
    by (cases "os_ReadFile noFaults (cs_fs st) ?p") (simp_all add: ensureMasterKey_def Let_def os_MkdirAll_def)
  moreover have "holds_key env ?st' key" using key(2) by (simp add: holds_key_def)
  moreover have "cs_fs ?st' (configPath env) = cs_fs st (configPath env)" using config_paths(7) [OF abs] fs1(2) by simp
  moreover from this have "config_disk_ok env ?st'" using assms by (simp add: config_disk_ok_def)
  ultimately show ?thesis using False by blast
qed

lemma render_utf8 [simp]: "utf8ok (EncodeToJSONString p)"
proof -
  have "validUTF8 (EncodeToJSONString p)" unfolding EncodeToJSONString_def by (rule render_valid) simp
  then show ?thesis by (simp add: toValidUTF8_id)
qed

lemma storedPassword_ok:
  assumes "config_disk_ok env st"
  shows "\<exists>st' e. storedPassword env pw st = (st', e) \<and> config_disk_ok env st' \<and>
    cs_fs st' (configPath env) = cs_fs st (configPath env) \<and> (\<forall>k. holds_key env st k \<longrightarrow> holds_key env st' k) \<and> utf8ok e \<and>
    (if pw = '''' then e = '''' else e \<noteq> '''' \<and>
       (\<exists>key. holds_key env st' key \<and> (\<exists>p. e = EncodeToJSONString p \<and> Decrypt (ce_gcm env) key p = Inr pw)))"
proof (cases "pw = ''''")
  case True
  then show ?thesis using assms by (simp add: storedPassword_def)
next
  case False
  obtain st' key where k: "ensureMasterKey env st = (st', Inr key)" "holds_key env st' key" "config_disk_ok env st'"
    "cs_fs st' (configPath env) = cs_fs st (configPath env)" "\<forall>k. holds_key env st k \<longrightarrow> key = k"
    using ensureMasterKey_ok [OF assms] by blast
  obtain nonce where n: "ce_rand env (cs_rands st') gcmNonceSize = Some nonce" using assms unfolding config_disk_ok_def by blast
  have "gcm_correct (ce_gcm env) key" using k(2) assms by (simp add: config_disk_ok_def holds_key_def)
  then obtain p where p: "Encrypt (ce_gcm env) (Some nonce) key pw = Inr p" "Decrypt (ce_gcm env) key p = Inr pw"
    using encrypt_decrypt [of "ce_gcm env" key nonce pw "[]"] by (auto simp: Encrypt_def Decrypt_def)
  let ?st2 = "st'\<lparr>cs_rands := Suc (cs_rands st')\<rparr>"
  have "storedPassword env pw st = (?st2, EncodeToJSONString p)"
    using False k(1) n p(1) by (simp add: storedPassword_def encryptPassword_def Let_def)
  moreover have "config_disk_ok env ?st2" "holds_key env ?st2 key" using k by (simp_all add: config_disk_ok_def holds_key_def)
  moreover have "EncodeToJSONString p \<noteq> ''''" by (simp add: EncodeToJSONString_def)
  ultimately show ?thesis using False k p by force
qed

section \<open>What is saved is loaded\<close>

definition configKeys :: "string list" where "configKeys = map fst configFields"

lemma configKeys_distinct: "distinct (map foldName configKeys)"
proof -
  have "map foldName configKeys = map (map upperChar) configKeys"
    by (rule map_cong) (auto simp: configKeys_def configFields_def foldName_ascii asciiStr_def)
  moreover have "distinct (map (map upperChar) configKeys)"
    by (simp add: configKeys_def configFields_def upperChar_values)
  ultimately show ?thesis by (simp only:)
qed

lemma configKeys_utf8: "list_all utf8ok configKeys"
  by (simp add: configKeys_def configFields_def ascii_toValidUTF8 asciiStr_def)

lemma find_field:
  "distinct (map foldName (map fst fs)) \<Longrightarrow> k \<in> fst ` set fs \<Longrightarrow>
     List.find (\<lambda>g. jsonKey (fst g) k) fs = map_option (\<lambda>f. (k, f)) (map_of fs k)"
proof (induction fs)
  case (Cons g fs)
  show ?case
  proof (cases "fst g = k")
    case True
    then show ?thesis by (cases g) (simp add: jsonKey_def)
  next
    case False
    then have k: "k \<in> fst ` set fs" using Cons.prems(2) by auto
    then have "foldName (fst g) \<noteq> foldName k" using Cons.prems(1) by auto
    then show ?thesis using Cons k False by (cases g) (simp add: jsonKey_def)
  qed
qed simp

lemma assignMembers_fields:
  "distinct (map foldName (map fst fs)) \<Longrightarrow> list_all (\<lambda>kv. fst kv \<in> fst ` set fs) kvs \<Longrightarrow>
     assignMembers fs kvs r = assignNamed fs kvs r"
  by (induction kvs arbitrary: r) (auto simp: assignMember_def find_field split: option.splits)

definition config_text_ok :: "Config \<Rightarrow> bool" where
  "config_text_ok c \<longleftrightarrow> list_all utf8ok [cfg_ServerURL c, cfg_Username c, cfg_StunURL c, cfg_PasswordEncrypted c,
       cfg_WebPasswordEncrypted c] \<and>
     list_all int64_range [cfg_ReconnectDelay c, cfg_FileMemoryThresholdMiB c, cfg_WebPort c]"

lemma read_config:
  assumes "config_text_ok c" "cfg_LegacyPassword c = ''''"
  shows "unmarshalInto configFields c0 (indentObject (configMembers c)) =
    c\<lparr>cfg_Password := cfg_Password c0, cfg_WebPassword := cfg_WebPassword c0, cfg_FilePath := cfg_FilePath c0,
      cfg_LegacyPassword := cfg_LegacyPassword c0\<rparr>"
proof -
  have "map (\<lambda>(k, v). (toValidUTF8 k, normJSON v)) (configMembers c) = configMembers c"
    using assms configKeys_utf8
    by (simp add: configMembers_def omitEmpty_def config_text_ok_def configKeys_def configFields_def)
  moreover have "list_all (\<lambda>(k, v). wfJSON v \<and> need v \<le> 1) (configMembers c)"
    using assms by (simp add: configMembers_def omitEmpty_def config_text_ok_def jint_def)
  moreover have "configMembers c \<noteq> []" by (simp add: configMembers_def)
  ultimately have "unmarshalInto configFields c0 (indentObject (configMembers c)) =
      assignSkipping configFields (configMembers c) c0"
    using parseJSON_indent [of "configMembers c"] by (simp add: unmarshalInto_def)
  moreover have "assignMembers configFields (configMembers c) c0 =
    Some (c\<lparr>cfg_Password := cfg_Password c0, cfg_WebPassword := cfg_WebPassword c0, cfg_FilePath := cfg_FilePath c0,
      cfg_LegacyPassword := cfg_LegacyPassword c0\<rparr>)"
    using assms
    by (subst assignMembers_fields)
      (use configKeys_distinct in \<open>simp_all add: configKeys_def configMembers_def omitEmpty_def configFields_def config_text_ok_def\<close>)
  ultimately show ?thesis by (simp add: assignSkipping_members)
qed

text \<open>A stored password opens to the password it was made from.\<close>

definition opens_to :: "ConfEnv \<Rightarrow> ConfState \<Rightarrow> string \<Rightarrow> string \<Rightarrow> bool" where
  "opens_to env st e pw \<longleftrightarrow> (e = '''' \<longleftrightarrow> pw = '''') \<and> decryptPassword env e st = (st, Inr pw)"

lemma opens_toI:
  assumes "config_disk_ok env st" "holds_key env st key" "e = EncodeToJSONString p" "Decrypt (ce_gcm env) key p = Inr pw" "pw \<noteq> ''''"
  shows "opens_to env st e pw"
  using ensureMasterKey_held [OF assms(1,2)] assms(3-5)
  by (simp add: opens_to_def decryptPassword_def) (simp add: EncodeToJSONString_def)

lemma Save_writes:
  assumes "config_disk_ok env st" "cfg_FilePath c = configPath env" "normalize env c = c"
  defines "pw \<equiv> if envPassword env \<noteq> '''' then '''' else cfg_Password c"
  shows "\<exists>st' pe we. Save env c st = (st', None) \<and> config_disk_ok env st' \<and> utf8ok pe \<and> utf8ok we \<and>
    opens_to env st' pe pw \<and> opens_to env st' we (cfg_WebPassword c) \<and>
    cs_fs st' (configPath env) = Some (NFile (indentObject (configMembers (c\<lparr>cfg_PasswordEncrypted := pe,
      cfg_WebPasswordEncrypted := we, cfg_LegacyPassword := ''''\<rparr>))))"
proof -
  let ?q = "configPath env"
  have abs: "IsAbs (ConfigDir env)" and flt: "ce_faults env = noFaults" using assms(1) by (simp_all add: config_disk_ok_def)
  let ?st0 = "st\<lparr>cs_fs := makeDirs (DirOf ?q) (cs_fs st)\<rparr>"
  have ok0: "config_disk_ok env ?st0" using assms(1) config_dirs [OF abs] by (simp add: config_disk_ok_def)
  obtain st1 pe where s1: "storedPassword env pw ?st0 = (st1, pe)" "config_disk_ok env st1" "utf8ok pe"
    and p1: "if pw = '''' then pe = '''' else pe \<noteq> '''' \<and> (\<exists>key. holds_key env st1 key \<and>
       (\<exists>p. pe = EncodeToJSONString p \<and> Decrypt (ce_gcm env) key p = Inr pw))"
    using storedPassword_ok [OF ok0] by blast
  obtain st2 we where s2: "storedPassword env (cfg_WebPassword c) st1 = (st2, we)" "config_disk_ok env st2" "utf8ok we"
    and keep: "\<forall>k. holds_key env st1 k \<longrightarrow> holds_key env st2 k"
    and p2: "if cfg_WebPassword c = '''' then we = '''' else we \<noteq> '''' \<and> (\<exists>key. holds_key env st2 key \<and>
       (\<exists>p. we = EncodeToJSONString p \<and> Decrypt (ce_gcm env) key p = Inr (cfg_WebPassword c)))"
    using storedPassword_ok [OF s1(2)] by blast
  let ?text = "indentObject (configMembers (c\<lparr>cfg_PasswordEncrypted := pe, cfg_WebPasswordEncrypted := we, cfg_LegacyPassword := ''''\<rparr>))"
  let ?st' = "st2\<lparr>cs_fs := (cs_fs st2)(?q \<mapsto> NFile ?text)\<rparr>"
  have "?text \<noteq> []" by (simp add: indentObject_def)
  then have "os_WriteFile noFaults ?q ?text (cs_fs st2) = ((cs_fs st2)(?q \<mapsto> NFile ?text), None)"
    using s2(2) by (auto simp: os_WriteFile_def os_Write_ok config_disk_ok_def split: option.split node.split)
  then have "Save env c st = (?st', None)"
    using s1(1) s2(1) assms(2,3) flt by (simp add: Save_def Let_def os_MkdirAll_def pw_def)
  moreover have held: "holds_key env ?st' k = holds_key env st2 k" for k
    using config_paths(7) [OF abs] by (simp add: holds_key_def)
  have ok: "config_disk_ok env ?st'" using s2(2) config_paths(7) [OF abs] by (simp add: config_disk_ok_def)
  have empty: "opens_to env ?st' '''' ''''" by (simp add: opens_to_def decryptPassword_def)
  have "opens_to env ?st' pe pw" using p1 keep held opens_toI [OF ok] empty by (auto split: if_splits)
  moreover have "opens_to env ?st' we (cfg_WebPassword c)" using p2 held opens_toI [OF ok] empty by (auto split: if_splits)
  ultimately show ?thesis
    using ok s1(3) s2(3) by - (rule exI [of _ ?st'], rule exI [of _ pe], rule exI [of _ we], simp)
qed

lemma Load_reads:
  assumes "config_disk_ok env st" "cs_fs st (configPath env) = Some (NFile (indentObject (configMembers c)))"
    and "config_text_ok c" "cfg_LegacyPassword c = ''''" "cfg_FilePath c = configPath env" "normalize env c = c"
    and "opens_to env st (cfg_PasswordEncrypted c) pw" "opens_to env st (cfg_WebPasswordEncrypted c) wp"
  shows "Load env st = (st, c\<lparr>cfg_Password := (if envPassword env \<noteq> '''' then envPassword env else pw), cfg_WebPassword := wp\<rparr>)"
proof -
  let ?c0 = "DefaultConfig\<lparr>cfg_FilePath := configPath env\<rparr>"
  let ?c1 = "c\<lparr>cfg_Password := '''', cfg_WebPassword := ''''\<rparr>"
  have "os_ReadFile (ce_faults env) (cs_fs st) (configPath env) = Inr (indentObject (configMembers c))"
    using assms(1,2) by (simp add: os_ReadFile_def config_disk_ok_def)
  moreover have "unmarshalInto configFields ?c0 (indentObject (configMembers c)) = ?c1"
    using read_config [OF assms(3,4), of ?c0] assms(4,5) by (simp add: DefaultConfig_def)
  moreover have "normalize env (c\<lparr>cfg_Password := '''', cfg_WebPassword := '''', cfg_FilePath := configPath env\<rparr>) = ?c1"
  proof -
    have "c\<lparr>cfg_Password := '''', cfg_WebPassword := '''', cfg_FilePath := configPath env\<rparr> = ?c1"
      using assms(5) by (cases c) simp
    moreover have "normalize env ?c1 = (normalize env c)\<lparr>cfg_Password := '''', cfg_WebPassword := ''''\<rparr>"
      by (simp add: normalize_def Let_def)
    ultimately show ?thesis using assms(6) by simp
  qed
  ultimately show ?thesis
    using assms(4-8) by (auto simp: Load_def Let_def opens_to_def)
qed

text \<open>The same machine with another value of the variable that gives a password; empty is the same as not set.\<close>

definition with_variable :: "string \<Rightarrow> ConfEnv \<Rightarrow> ConfEnv" where
  "with_variable v env = env\<lparr>ce_getenv := (ce_getenv env)(''CLIPCASCADE_PASSWORD'' := v)\<rparr>"

lemma with_variable_id: "with_variable (envPassword env) env = env"
  by (simp add: with_variable_def envPassword_def)

lemma with_variable_same:
  "configPath (with_variable v env) = configPath env" "normalize (with_variable v env) c = normalize env c"
  "config_disk_ok (with_variable v env) st = config_disk_ok env st"
  "opens_to (with_variable v env) st e pw = opens_to env st e pw" "envPassword (with_variable v env) = v"
  "ce_faults (with_variable v env) = ce_faults env"
proof -
  have dir: "ConfigDir (with_variable v env) = ConfigDir env"
    by (simp add: ConfigDir_def with_variable_def Let_def)
  then show paths: "configPath (with_variable v env) = configPath env" by (simp add: configPath_def)
  have key: "masterKeyPath (with_variable v env) = masterKeyPath env" using dir by (simp add: masterKeyPath_def)
  have "NormalizeServerURL (with_variable v env) u = NormalizeServerURL env u" for u
    by (simp add: NormalizeServerURL_def with_variable_def Let_def)
  then show "normalize (with_variable v env) c = normalize env c" by (simp add: normalize_def)
  show flt: "ce_faults (with_variable v env) = ce_faults env" by (simp add: with_variable_def)
  have fields: "ce_faults (with_variable v env) = ce_faults env" "ce_gcm (with_variable v env) = ce_gcm env"
    "ce_rand (with_variable v env) = ce_rand env" by (simp_all add: with_variable_def)
  show "config_disk_ok (with_variable v env) st = config_disk_ok env st" by (simp only: config_disk_ok_def dir paths key fields)
  have "ensureMasterKey (with_variable v env) st = ensureMasterKey env st"
    by (simp only: ensureMasterKey_def key fields)
  then show "opens_to (with_variable v env) st e pw = opens_to env st e pw"
    by (simp only: opens_to_def decryptPassword_def fields)
  show "envPassword (with_variable v env) = v" by (simp add: envPassword_def with_variable_def)
qed

lemma config_text_passwords:
  "config_text_ok c \<Longrightarrow> utf8ok pe \<Longrightarrow> utf8ok we \<Longrightarrow>
     config_text_ok (c\<lparr>cfg_PasswordEncrypted := pe, cfg_WebPasswordEncrypted := we, cfg_LegacyPassword := l\<rparr>)"
  by (simp add: config_text_ok_def)

lemma normalize_passwords:
  "normalize env c = c \<Longrightarrow>
     normalize env (c\<lparr>cfg_PasswordEncrypted := pe, cfg_WebPasswordEncrypted := we, cfg_LegacyPassword := l\<rparr>) =
       c\<lparr>cfg_PasswordEncrypted := pe, cfg_WebPasswordEncrypted := we, cfg_LegacyPassword := l\<rparr>"
proof -
  have "normalize env (c\<lparr>cfg_PasswordEncrypted := pe, cfg_WebPasswordEncrypted := we, cfg_LegacyPassword := l\<rparr>) =
      (normalize env c)\<lparr>cfg_PasswordEncrypted := pe, cfg_WebPasswordEncrypted := we, cfg_LegacyPassword := l\<rparr>"
    by (simp add: normalize_def Let_def)
  then show "normalize env c = c \<Longrightarrow> ?thesis" by simp
qed

text \<open>What is loaded after a save, with or without the variable at either time.\<close>

lemma save_then_load:
  assumes "config_disk_ok env st" "cfg_FilePath c = configPath env" "normalize env c = c" "config_text_ok c"
  defines "pw \<equiv> if envPassword env \<noteq> '''' then '''' else cfg_Password c"
  shows "\<exists>st' pe we. Save env c st = (st', None) \<and>
    (\<forall>v. Load (with_variable v env) st' = (st', c\<lparr>cfg_Password := (if v \<noteq> '''' then v else pw), cfg_PasswordEncrypted := pe,
      cfg_WebPasswordEncrypted := we, cfg_LegacyPassword := ''''\<rparr>))"
proof -
  obtain st' pe we where s: "Save env c st = (st', None)" "config_disk_ok env st'" "utf8ok pe" "utf8ok we"
    "opens_to env st' pe pw" "opens_to env st' we (cfg_WebPassword c)"
    and written: "cs_fs st' (configPath env) = Some (NFile (indentObject (configMembers (c\<lparr>cfg_PasswordEncrypted := pe,
      cfg_WebPasswordEncrypted := we, cfg_LegacyPassword := ''''\<rparr>))))"
    using Save_writes [OF assms(1-3)] unfolding pw_def by blast
  let ?c = "c\<lparr>cfg_PasswordEncrypted := pe, cfg_WebPasswordEncrypted := we, cfg_LegacyPassword := ''''\<rparr>"
  have "Load (with_variable v env) st' = (st', c\<lparr>cfg_Password := (if v \<noteq> '''' then v else pw), cfg_PasswordEncrypted := pe,
      cfg_WebPasswordEncrypted := we, cfg_LegacyPassword := ''''\<rparr>)" for v
  proof -
    have "Load (with_variable v env) st' = (st', ?c\<lparr>cfg_Password := (if envPassword (with_variable v env) \<noteq> ''''
        then envPassword (with_variable v env) else pw), cfg_WebPassword := cfg_WebPassword c\<rparr>)"
      using s assms(2)
      by (intro Load_reads) (simp_all add: with_variable_same written config_text_passwords [OF assms(4)]
          normalize_passwords [OF assms(3)])
    moreover have "?c\<lparr>cfg_Password := q, cfg_WebPassword := cfg_WebPassword c\<rparr> =
        c\<lparr>cfg_Password := q, cfg_PasswordEncrypted := pe, cfg_WebPasswordEncrypted := we, cfg_LegacyPassword := ''''\<rparr>" for q
      by (cases c) simp
    ultimately show ?thesis by (simp add: with_variable_same(5))
  qed
  then show ?thesis using s(1) by blast
qed

text \<open>C15: What is saved is loaded again: on a machine where saving works, a normalized configuration whose texts are
  valid UTF-8 comes back from the file with the same settings, the same password of the panel and, saved while
  \<open>CLIPCASCADE_PASSWORD\<close> was not set, the same password (both through their encryption with the local key, made if
  there is none), and no plain password. A value \<open>v\<close> of the variable when the file is loaded stands for the password
  (empty: the variable is not set); a configuration saved while the variable was set has no password stored.\<close>
theorem saved_config_loads_again:
  assumes "config_disk_ok env st" "cfg_FilePath c = configPath env" "normalize env c = c" "config_text_ok c"
  shows "\<exists>st' pe we. Save env c st = (st', None) \<and>
    (\<forall>v. Load (with_variable v env) st' =
       (st', c\<lparr>cfg_Password := (if v \<noteq> '''' then v else if envPassword env = '''' then cfg_Password c else ''''),
          cfg_PasswordEncrypted := pe, cfg_WebPasswordEncrypted := we, cfg_LegacyPassword := ''''\<rparr>)) \<and>
    Load env st' =
      (st', c\<lparr>cfg_Password := (if envPassword env = '''' then cfg_Password c else envPassword env),
         cfg_PasswordEncrypted := pe, cfg_WebPasswordEncrypted := we, cfg_LegacyPassword := ''''\<rparr>)"
proof -
  obtain st' pe we where s: "Save env c st = (st', None)"
    and l: "Load (with_variable v env) st' = (st', c\<lparr>cfg_Password := (if v \<noteq> '''' then v
      else if envPassword env \<noteq> '''' then '''' else cfg_Password c), cfg_PasswordEncrypted := pe,
      cfg_WebPasswordEncrypted := we, cfg_LegacyPassword := ''''\<rparr>)" for v
    using save_then_load [OF assms] by blast
  have "Load env st' = (st', c\<lparr>cfg_Password := (if envPassword env = '''' then cfg_Password c else envPassword env),
      cfg_PasswordEncrypted := pe, cfg_WebPasswordEncrypted := we, cfg_LegacyPassword := ''''\<rparr>)"
  proof -
    have "(if envPassword env \<noteq> '''' then envPassword env else if envPassword env \<noteq> '''' then '''' else cfg_Password c) =
        (if envPassword env = '''' then cfg_Password c else envPassword env)" by simp
    then show ?thesis using l [of "envPassword env"] by (simp only: with_variable_id)
  qed
  moreover have "(if v \<noteq> '''' then v else if envPassword env \<noteq> '''' then '''' else cfg_Password c) =
      (if v \<noteq> '''' then v else if envPassword env = '''' then cfg_Password c else '''')" for v
    by simp
  ultimately show ?thesis using s l by (intro exI [of _ st'] exI [of _ pe] exI [of _ we]) (simp only: simp_thms)
qed

text \<open>A password given by the variable erases the stored one: while the variable is set every save stores an empty
  password, so that a program started later without the variable has none, whatever was stored before.\<close>
theorem variable_erases_stored_password:
  assumes "config_disk_ok env st" "cfg_FilePath c = configPath env" "normalize env c = c" "config_text_ok c"
    and "envPassword env \<noteq> ''''"
  shows "\<exists>st'. Save env c st = (st', None) \<and> cfg_Password (snd (Load (with_variable '''' env) st')) = ''''"
  using save_then_load [OF assms(1-4)] assms(5) by fastforce

section \<open>A concrete machine\<close>

definition sampleConfEnv :: "string \<Rightarrow> ConfEnv" where
  "sampleConfEnv var = \<lparr>ce_goos = ''linux'', ce_getenv = (\<lambda>_. '''')(''XDG_CONFIG_HOME'' := ''/c'', ''CLIPCASCADE_PASSWORD'' := var),
     ce_home = ''/h'', ce_faults = noFaults, ce_gcm = plainGcm, ce_rand = (\<lambda>n k. Some (replicate k (CHR ''r''))),
     ce_urlParse = (\<lambda>s. Inr (''http'', \<lambda>_. s))\<rparr>"

definition emptyDisk :: ConfState where "emptyDisk = \<lparr>cs_fs = Map.empty, cs_rands = 0\<rparr>"

definition sampleSaved :: Config where
  "sampleSaved = DefaultConfig\<lparr>cfg_Username := ''bob'', cfg_Password := ''pw'', cfg_FilePath := ''/c/ClipCascade/config.json''\<rparr>"

lemma sampleSaved_ready:
  "config_disk_ok (sampleConfEnv var) emptyDisk" "cfg_FilePath sampleSaved = configPath (sampleConfEnv var)"
  "normalize (sampleConfEnv var) sampleSaved = sampleSaved" "config_text_ok sampleSaved"
  "envPassword (sampleConfEnv var) = var"
proof -
  have "ConfigDir (sampleConfEnv '''') = ''/c/ClipCascade''"
    by (simp add: ConfigDir_def sampleConfEnv_def JoinPath_def Clean_def comps_def unclean_def)
  then have "IsAbs (ConfigDir (sampleConfEnv ''''))" "cfg_FilePath sampleSaved = configPath (sampleConfEnv '''')"
    by (simp_all add: configPath_def sampleSaved_def JoinPath_def Clean_def comps_def unclean_def)
  moreover have "ConfigDir (sampleConfEnv var) = ConfigDir (sampleConfEnv '''')"
    by (simp add: ConfigDir_def sampleConfEnv_def Let_def)
  moreover from this have "configPath (sampleConfEnv var) = configPath (sampleConfEnv '''')" by (simp add: configPath_def)
  ultimately show "config_disk_ok (sampleConfEnv var) emptyDisk" "cfg_FilePath sampleSaved = configPath (sampleConfEnv var)"
    by (simp_all add: config_disk_ok_def emptyDisk_def sampleConfEnv_def plainGcm_correct)
  have "trimmed ''http://localhost:8080''"
    by (simp add: trimmed_def leadingSpace_def trailingSpace_def spaceEncodings_def suffix_def)
  then have url: "trimSpace ''http://localhost:8080'' = ''http://localhost:8080''" "containsStr ''http://localhost:8080'' ''://''"
    "trimRightSet {slash} ''http://localhost:8080'' = ''http://localhost:8080''"
    by (simp_all add: trimSpace_id containsStr_def cutAt.simps trimRightSet_def)
  have "digitChar 8 = CHR ''8''" "digitChar 0 = CHR ''0''" by code_simp+
  then have port: "showInt 8080 = ''8080''" by (simp add: showInt_def showNat.simps)
  have "cfg_ServerURL sampleSaved = ''http://localhost:8080''"
    using port by (simp add: sampleSaved_def DefaultConfig_def const_defs)
  moreover have "NormalizeServerURL (sampleConfEnv var) ''http://localhost:8080'' = ''http://localhost:8080''"
    using url unfolding NormalizeServerURL_def Let_def by (simp add: sampleConfEnv_def)
  ultimately show "normalize (sampleConfEnv var) sampleSaved = sampleSaved"
    by (simp add: normalize_def Let_def sampleSaved_def DefaultConfig_def const_defs)
  show "config_text_ok sampleSaved"
    using port
    by (simp add: config_text_ok_def sampleSaved_def DefaultConfig_def const_defs DefaultStunURL_def ascii_toValidUTF8
        asciiStr_def int64_range_def)
  show "envPassword (sampleConfEnv var) = var" by (simp add: envPassword_def sampleConfEnv_def)
qed

theorem saved_config_loads_again_witness:
  "\<exists>st' c. Save (sampleConfEnv '''') sampleSaved emptyDisk = (st', None) \<and> Load (sampleConfEnv '''') st' = (st', c) \<and>
     cfg_Password c = ''pw'' \<and> cfg_Username c = ''bob''"
  using saved_config_loads_again [OF sampleSaved_ready(1-4), of "''''"] sampleSaved_ready(5) [of "''''"]
  by (auto simp: sampleSaved_def)

theorem variable_erases_stored_password_witness:
  "\<exists>st'. Save (sampleConfEnv ''x'') sampleSaved emptyDisk = (st', None) \<and>
     cfg_Password (snd (Load (with_variable '''' (sampleConfEnv ''x'')) st')) = ''''"
  by (rule variable_erases_stored_password [OF sampleSaved_ready(1-4)]) (simp add: sampleSaved_ready(5))


end
