(* ===== verification/Connection.thy ===== *)
theory Connection
  imports DesktopConfig StompClient Interfaces
begin

text \<open>
  Connecting, reconnecting and disconnecting of the desktop program (\<open>desktop/app/application.go\<close>) and the
  events its control center shows (\<open>recordControlEvent\<close> of \<open>control_center.go\<close>). Calls of \<open>connect\<close> and running
  reconnect loops are goroutines of the state: a call of \<open>connect\<close> is its beginning under the lock and the rest,
  so that disconnecting and other calls can come in between. The answers of the network during one call are an
  argument. The address of a P2P client stands for the client. Saving the last server address is left out.
\<close>

section \<open>Discovery\<close>

text \<open>An IPv4 address is a 32-bit word; \<open>None\<close> is an address that is not IPv4.\<close>

record Iface =
  if_Name :: string
  if_Up :: bool
  if_Loopback :: bool
  if_Addrs :: "(32 word option \<times> 32 word) list result"

definition lowerChar :: "char \<Rightarrow> char" where
  "lowerChar c = (if CHR ''A'' \<le> c \<and> c \<le> CHR ''Z'' then char_of ((of_char c :: nat) + 32) else c)"

definition skippedIface :: "string \<Rightarrow> bool" where
  "skippedIface name \<longleftrightarrow> hasPrefix name ''docker'' \<or> hasPrefix name ''br-'' \<or> containsStr name ''podman'' \<or>
     containsStr name ''veth'' \<or> containsStr name ''virbr'' \<or> containsStr name ''zt'' \<or> containsStr name ''tun'' \<or>
     containsStr name ''tap''"

definition localUsableIPv4Networks :: "Iface list result \<Rightarrow> (32 word \<times> 32 word) list" where
  "localUsableIPv4Networks ifaces =
     (case ifaces of
        Inl _ \<Rightarrow> []
      | Inr is \<Rightarrow>
          concat (map (\<lambda>i.
            if \<not> if_Up i \<or> if_Loopback i \<or> skippedIface (map lowerChar (if_Name i)) then []
            else (case if_Addrs i of
                    Inl _ \<Rightarrow> []
                  | Inr addrs \<Rightarrow> List.map_filter (\<lambda>(ip, mask). map_option (\<lambda>w. (w AND mask, mask)) ip) addrs)) is))"

definition isUsableDiscoveredIPv4 :: "(32 word \<times> 32 word) list \<Rightarrow> 32 word option \<Rightarrow> bool" where
  "isUsableDiscoveredIPv4 networks ip =
     (case ip of
        None \<Rightarrow> False
      | Some w \<Rightarrow>
          if drop_bit 24 w = 127 \<or> w = 0 \<or> drop_bit 28 w = 14 then False
          else list_ex (\<lambda>(net, mask). w AND mask = net) networks)"

definition showIPv4 :: "32 word \<Rightarrow> string" where
  "showIPv4 w = joinChar ''.'' (map (\<lambda>k. showNat (unat (take_bit 8 (drop_bit k w)))) [24, 16, 8, 0])"

record ServiceEntry =
  se_AddrIPv4 :: "32 word option list"
  se_Port :: int

definition entryURLs :: "(32 word \<times> 32 word) list \<Rightarrow> ServiceEntry \<Rightarrow> string list" where
  "entryURLs networks e =
     List.map_filter (\<lambda>ip. if isUsableDiscoveredIPv4 networks ip
       then map_option (\<lambda>w. ''http://'' @ showIPv4 w @ '':'' @ showInt (se_Port e)) ip else None) (se_AddrIPv4 e)"

text \<open>The entries that arrived before the time was over; \<open>Inl\<close> when there is no resolver or it cannot browse.\<close>

fun addUnseen :: "string list \<Rightarrow> string list \<Rightarrow> string list" where
  "addUnseen found [] = found"
| "addUnseen found (u # us) = addUnseen (if u \<in> set found then found else found @ [u]) us"

definition discoverServer :: "Iface list result \<Rightarrow> ServiceEntry list result \<Rightarrow> string list result" where
  "discoverServer ifaces entries =
     (case entries of
        Inl err \<Rightarrow> Inl err
      | Inr es \<Rightarrow>
          (let found = addUnseen [] (concat (map (entryURLs (localUsableIPv4Networks ifaces)) es)) in
           if found = [] then Inl ''server discovery timed out'' else Inr found))"

section \<open>State\<close>

record historyPanelEvent =
  he_Time :: gotime
  he_Kind :: string
  he_Message :: string

datatype caller = ByUser | ByLoop nat

datatype loop_phase = LoopWaiting "64 word" | LoopConnecting "64 word"

text \<open>
  \<open>d_connects\<close> are the calls of \<open>connect\<close> past their beginning, \<open>d_starting\<close> counts reconnect loops that were
  started and have not run yet, \<open>d_loops\<close> are the running ones by number, \<open>d_monitors\<close> counts the monitors.
\<close>

record Desktop =
  d_cfg :: Config
  d_encKey :: "bytes option"
  d_stomp :: "StompClient option"
  d_p2p :: "nat option"
  d_p2pMade :: nat
  d_p2pClosed :: "nat set"
  d_connecting :: bool
  d_reconnecting :: bool
  d_connects :: "caller list"
  d_starting :: nat
  d_loops :: "(nat \<times> loop_phase) list"
  d_loopsMade :: nat
  d_monitors :: nat
  d_events :: "historyPanelEvent list"
  d_status :: string
  d_done :: bool

definition controlEventLimit :: nat where "controlEventLimit = 40"

definition recordControlEvent :: "gotime \<Rightarrow> string \<Rightarrow> string \<Rightarrow> Desktop \<Rightarrow> Desktop" where
  "recordControlEvent now kind message d =
     d\<lparr>d_events := take controlEventLimit (\<lparr>he_Time = now, he_Kind = kind, he_Message = message\<rparr> # d_events d)\<rparr>"

section \<open>Login and key\<close>

record LoginAnswer =
  la_reply :: "(int \<times> string) result"
  la_cookies :: "string list"

text \<open>What the network answers during one call of \<open>connect\<close>; discoveries and logins by number.\<close>

record Net =
  net_now :: gotime
  net_ifaces :: "nat \<Rightarrow> Iface list result"
  net_entries :: "nat \<Rightarrow> ServiceEntry list result"
  net_login :: "nat \<Rightarrow> string \<Rightarrow> LoginAnswer"
  net_userInfo :: "bytes result"
  net_urlParse :: "string \<Rightarrow> URL result"
  net_ord :: "Frame \<Rightarrow> string list"
  net_handshake :: Handshake
  net_p2pErr :: "goerror option"
  net_pbkdf2 :: "bytes \<Rightarrow> bytes \<Rightarrow> int \<Rightarrow> nat \<Rightarrow> bytes"

definition login :: "ConfEnv \<Rightarrow> LoginAnswer \<Rightarrow> Config \<Rightarrow> Config \<times> string list result" where
  "login ce la cfg0 =
     (let cfg = cfg0\<lparr>cfg_ServerURL := NormalizeServerURL ce (cfg_ServerURL cfg0)\<rparr> in
      if cfg_ServerURL cfg = '''' then (cfg, Inl ''empty server URL'')
      else (cfg,
        case la_reply la of
          Inl err \<Rightarrow> Inl (''POST /login: '' @ err)
        | Inr (status, location) \<Rightarrow>
            if (status = 302 \<or> status = 303) \<and> containsStr location ''error'' then Inl ''invalid credentials''
            else if la_cookies la = [] then Inl ''no session cookie received''
            else Inr (la_cookies la)))"

definition deriveEncryptionKey :: "Net \<Rightarrow> Desktop \<Rightarrow> Desktop \<times> goerror option" where
  "deriveEncryptionKey net d =
     (case net_userInfo net of
        Inl err \<Rightarrow> (d, Some err)
      | Inr body \<Rightarrow>
          (case decodeStream userInfoFields zeroUserInfo body of
             Decoded info \<Rightarrow>
               (d\<lparr>d_encKey := Some (DeriveKey (net_pbkdf2 net) (cfg_Password (d_cfg d)) (cfg_Username (d_cfg d))
                    (ui_Salt info) (ui_HashRounds info))\<rparr>, None)
           | NoValue \<Rightarrow> (d, Some ''EOF'')
           | BadValue \<Rightarrow> (d, Some ''invalid JSON'')))"

section \<open>Connecting\<close>

text \<open>Log in at the addresses in order until one answers; the third argument counts the logins made.\<close>

fun tryServers ::
  "ConfEnv \<Rightarrow> Net \<Rightarrow> nat \<Rightarrow> string list \<Rightarrow> Config \<Rightarrow> Config \<times> nat \<times> (goerror option + string \<times> string list)"
where
  "tryServers ce net n [] cfg = (cfg, n, Inl None)"
| "tryServers ce net n (u # us) cfg =
     (let url = NormalizeServerURL ce u in
      case login ce (net_login net n url) (cfg\<lparr>cfg_ServerURL := url\<rparr>) of
        (cfg1, Inr cookies) \<Rightarrow> (cfg1, Suc n, Inr (url, cookies))
      | (cfg1, Inl err) \<Rightarrow>
          (case tryServers ce net (Suc n) us cfg1 of
             (cfg2, n2, Inl None) \<Rightarrow> (cfg2, n2, Inl (Some err))
           | r \<Rightarrow> r))"

definition discover :: "Net \<Rightarrow> nat \<Rightarrow> string list" where
  "discover net k = (case discoverServer (net_ifaces net k) (net_entries net k) of Inl _ \<Rightarrow> [] | Inr us \<Rightarrow> us)"

text \<open>The addresses of the configuration and of discovery, then those of a second discovery not tried before.\<close>

definition chooseServer ::
  "ConfEnv \<Rightarrow> Net \<Rightarrow> Config \<Rightarrow> Config \<times> (goerror option + string \<times> string list)" where
  "chooseServer ce net cfg0 =
     (let cfg = (if cfg_ServerURL cfg0 \<noteq> '''' then cfg0\<lparr>cfg_ServerURL := NormalizeServerURL ce (cfg_ServerURL cfg0)\<rparr> else cfg0);
          configured = (if cfg_ServerURL cfg0 \<noteq> '''' then [cfg_ServerURL cfg] else []);
          searches = (configured = [] \<or> containsStr (hd configured) ''localhost'');
          urlsToTry = configured @ (if searches then discover net 0 else []) in
      case tryServers ce net 0 urlsToTry cfg of
        (cfg1, n, Inr found) \<Rightarrow> (cfg1, Inr found)
      | (cfg1, n, Inl lastErr) \<Rightarrow>
          (case tryServers ce net n (filter (\<lambda>u. NormalizeServerURL ce u \<notin> set urlsToTry) (discover net 1)) cfg1 of
             (cfg2, _, Inr found) \<Rightarrow> (cfg2, Inr found)
           | (cfg2, _, Inl None) \<Rightarrow> (cfg2, Inl lastErr)
           | (cfg2, _, Inl (Some err)) \<Rightarrow> (cfg2, Inl (Some err))))"

definition stompUp :: "Desktop \<Rightarrow> bool" where
  "stompUp d \<longleftrightarrow> (case d_stomp d of None \<Rightarrow> False | Some sc \<Rightarrow> IsConnected sc)"

text \<open>The beginning of \<open>connect\<close>; it returns at once when a call is under way or the relay is connected.\<close>

definition connectBegin :: "caller \<Rightarrow> Desktop \<Rightarrow> Desktop" where
  "connectBegin who d =
     (if d_connecting d \<or> stompUp d then d else d\<lparr>d_connecting := True, d_connects := who # d_connects d\<rparr>)"

definition connectP2P :: "Net \<Rightarrow> Desktop \<Rightarrow> Desktop" where
  "connectP2P net d =
     (if \<not> cfg_P2PEnabled (d_cfg d) then d
      else (let d1 = d\<lparr>d_p2p := Some (d_p2pMade d), d_p2pMade := Suc (d_p2pMade d)\<rparr> in
            case net_p2pErr net of
              None \<Rightarrow> d1
            | Some err \<Rightarrow> recordControlEvent (net_now net) ''p2p'' (''P2P signaling failed: '' @ err) d1))"

definition connectStomp :: "Net \<Rightarrow> string list \<Rightarrow> Desktop \<Rightarrow> Desktop" where
  "connectStomp net cookies d =
     (case Connect (net_urlParse net) (net_ord net) (net_handshake net) (NewStompClient (cfg_ServerURL (d_cfg d)) cookies) of
        (sc, _, Some err) \<Rightarrow>
          (recordControlEvent (net_now net) ''connect'' (''WebSocket connect failed: '' @ err) (d\<lparr>d_stomp := Some sc\<rparr>))
            \<lparr>d_status := ''WS Failed'', d_starting := Suc (d_starting d)\<rparr>
      | (sc, _, None) \<Rightarrow>
          (let d1 = connectP2P net (d\<lparr>d_stomp := Some sc\<rparr>) in
           (recordControlEvent (net_now net) ''connect'' ''Connected to server'' d1)
             \<lparr>d_status := ''Connected'', d_monitors := Suc (d_monitors d1)\<rparr>))"

definition connectBody :: "ConfEnv \<Rightarrow> Net \<Rightarrow> Desktop \<Rightarrow> Desktop" where
  "connectBody ce net d0 =
     (let d1 = (recordControlEvent (net_now net) ''connect'' ''Connect requested'' d0)\<lparr>d_status := ''Connecting...''\<rparr> in
      case chooseServer ce net (d_cfg d1) of
        (cfg, Inl lastErr) \<Rightarrow>
          (recordControlEvent (net_now net) ''connect''
             (case lastErr of None \<Rightarrow> ''Connect failed'' | Some err \<Rightarrow> ''Connect failed: '' @ err) (d1\<lparr>d_cfg := cfg\<rparr>))
            \<lparr>d_status := ''Login Failed''\<rparr>
      | (cfg, Inr (url, cookies)) \<Rightarrow>
          (let d2 = d1\<lparr>d_cfg := cfg\<lparr>cfg_ServerURL := NormalizeServerURL ce url\<rparr>\<rparr> in
           case (if cfg_E2EEEnabled (d_cfg d2) then deriveEncryptionKey net d2 else (d2, None)) of
             (d3, Some _) \<Rightarrow> d3\<lparr>d_status := ''Key Error''\<rparr>
           | (d3, None) \<Rightarrow> connectStomp net cookies d3))"

section \<open>Reconnecting\<close>

definition second :: "64 word" where "second = 1000000000"
definition maxDelay :: "64 word" where "maxDelay = of_int MaxReconnectDelay * second"

definition firstDelay :: "Config \<Rightarrow> 64 word" where
  "firstDelay cfg =
     (let delay = of_int (cfg_ReconnectDelay cfg) * second in
      if delay = 0 then of_int DefaultReconnectDelay * second else delay)"

definition nextDelay :: "64 word \<Rightarrow> 64 word" where
  "nextDelay delay = (if sint (delay * 2) \<le> sint maxDelay then delay * 2 else maxDelay)"

text \<open>How long \<open>time.After\<close> waits: a negative duration is over at once.\<close>

definition waitTime :: "64 word \<Rightarrow> int" where
  "waitTime delay = max 0 (sint delay)"

definition beginReconnect :: "Desktop \<Rightarrow> Desktop \<times> bool" where
  "beginReconnect d = (if d_reconnecting d then (d, False) else (d\<lparr>d_reconnecting := True\<rparr>, True))"

definition endReconnect :: "Desktop \<Rightarrow> Desktop" where
  "endReconnect d = d\<lparr>d_reconnecting := False\<rparr>"

text \<open>A started loop up to its first wait.\<close>

definition reconnectLoopStart :: "gotime \<Rightarrow> Desktop \<Rightarrow> Desktop" where
  "reconnectLoopStart now d =
     (if \<not> cfg_AutoReconnect (d_cfg d) then d
      else (case beginReconnect d of
              (d1, False) \<Rightarrow> d1
            | (d1, True) \<Rightarrow>
                (recordControlEvent now ''connect'' ''Reconnect loop started'' d1)
                  \<lparr>d_status := ''Reconnecting...'', d_loops := (d_loopsMade d1, LoopWaiting (firstDelay (d_cfg d1))) # d_loops d1,
                   d_loopsMade := Suc (d_loopsMade d1)\<rparr>))"

definition endLoop :: "nat \<Rightarrow> Desktop \<Rightarrow> Desktop" where
  "endLoop i d = endReconnect (d\<lparr>d_loops := filter (\<lambda>l. fst l \<noteq> i) (d_loops d)\<rparr>)"

definition setLoop :: "nat \<Rightarrow> loop_phase \<Rightarrow> Desktop \<Rightarrow> Desktop" where
  "setLoop i ph d = d\<lparr>d_loops := map (\<lambda>l. if fst l = i then (i, ph) else l) (d_loops d)\<rparr>"

text \<open>What a loop does when its call of \<open>connect\<close> has returned.\<close>

definition afterConnect :: "nat \<Rightarrow> 64 word \<Rightarrow> Desktop \<Rightarrow> Desktop" where
  "afterConnect i delay d = (if stompUp d then endLoop i d else setLoop i (LoopWaiting (nextDelay delay)) d)"

text \<open>The wait of a loop is over: it calls \<open>connect\<close>, which may return at once.\<close>

definition loopTimer :: "nat \<Rightarrow> 64 word \<Rightarrow> Desktop \<Rightarrow> Desktop" where
  "loopTimer i delay d =
     (let d1 = connectBegin (ByLoop i) d in
      if d_connecting d \<or> stompUp d then afterConnect i delay d1 else setLoop i (LoopConnecting delay) d1)"

definition connectEnd :: "ConfEnv \<Rightarrow> Net \<Rightarrow> caller \<Rightarrow> Desktop \<Rightarrow> Desktop" where
  "connectEnd ce net who d =
     (let d1 = (connectBody ce net d)\<lparr>d_connecting := False, d_connects := remove1 who (d_connects d)\<rparr> in
      case who of
        ByUser \<Rightarrow> d1
      | ByLoop i \<Rightarrow>
          (case map_of (d_loops d) i of Some (LoopConnecting delay) \<Rightarrow> afterConnect i delay d1 | _ \<Rightarrow> d1))"

definition monitorTick :: "Desktop \<Rightarrow> Desktop" where
  "monitorTick d =
     (if d_stomp d \<noteq> None \<and> \<not> stompUp d \<and> \<not> d_reconnecting d then d\<lparr>d_starting := Suc (d_starting d)\<rparr> else d)"

section \<open>Disconnecting\<close>

definition disconnect :: "gotime \<Rightarrow> Desktop \<Rightarrow> Desktop" where
  "disconnect now d =
     (recordControlEvent now ''connect'' ''Disconnected''
        (d\<lparr>d_stomp := None, d_p2p := None,
           d_p2pClosed := (case d_p2p d of None \<Rightarrow> d_p2pClosed d | Some p \<Rightarrow> insert p (d_p2pClosed d))\<rparr>))
       \<lparr>d_status := ''Disconnected''\<rparr>"

definition shutdown :: "gotime \<Rightarrow> Desktop \<Rightarrow> Desktop" where
  "shutdown now d = (disconnect now d)\<lparr>d_done := True\<rparr>"

section \<open>Runs\<close>

datatype desktop_event =
  UserConnects | ConnectEnds caller ConfEnv Net | LoopStarts gotime | TimerFires nat | LoopSeesDone nat
  | MonitorTicks | LinkLost | UserDisconnects gotime | Shutdown gotime

fun desktop_step :: "desktop_event \<Rightarrow> Desktop \<Rightarrow> Desktop" where
  "desktop_step UserConnects d = connectBegin ByUser d"
| "desktop_step (ConnectEnds who ce net) d = (if who \<in> set (d_connects d) then connectEnd ce net who d else d)"
| "desktop_step (LoopStarts now) d =
     (case d_starting d of 0 \<Rightarrow> d | Suc n \<Rightarrow> reconnectLoopStart now (d\<lparr>d_starting := n\<rparr>))"
| "desktop_step (TimerFires i) d =
     (case map_of (d_loops d) i of Some (LoopWaiting delay) \<Rightarrow> loopTimer i delay d | _ \<Rightarrow> d)"
| "desktop_step (LoopSeesDone i) d =
     (case map_of (d_loops d) i of Some (LoopWaiting _) \<Rightarrow> if d_done d then endLoop i d else d | _ \<Rightarrow> d)"
| "desktop_step MonitorTicks d = (if 0 < d_monitors d \<and> \<not> d_done d then monitorTick d else d)"
| "desktop_step LinkLost d = d\<lparr>d_stomp := map_option (\<lambda>sc. sc\<lparr>sc_subscribed := False, sc_conn := None\<rparr>) (d_stomp d)\<rparr>"
| "desktop_step (UserDisconnects now) d = disconnect now d"
| "desktop_step (Shutdown now) d = shutdown now d"

definition desktop_run :: "desktop_event list \<Rightarrow> Desktop \<Rightarrow> Desktop" where
  "desktop_run evs d = fold desktop_step evs d"

definition desktop_start :: "Config \<Rightarrow> Desktop" where
  "desktop_start cfg =
     \<lparr>d_cfg = cfg, d_encKey = None, d_stomp = None, d_p2p = None, d_p2pMade = 0, d_p2pClosed = {}, d_connecting = False,
      d_reconnecting = False, d_connects = [], d_starting = 0, d_loops = [], d_loopsMade = 0, d_monitors = 0,
      d_events = [], d_status = '''', d_done = False\<rparr>"

section \<open>What one call leaves alone\<close>

lemma event_fields [simp]:
  "d_loops (recordControlEvent now k m d) = d_loops d" "d_connects (recordControlEvent now k m d) = d_connects d"
  "d_connecting (recordControlEvent now k m d) = d_connecting d"
  "d_reconnecting (recordControlEvent now k m d) = d_reconnecting d" "d_cfg (recordControlEvent now k m d) = d_cfg d"
  "d_stomp (recordControlEvent now k m d) = d_stomp d" "d_p2p (recordControlEvent now k m d) = d_p2p d"
  "d_monitors (recordControlEvent now k m d) = d_monitors d" "d_loopsMade (recordControlEvent now k m d) = d_loopsMade d"
  "d_encKey (recordControlEvent now k m d) = d_encKey d" "d_p2pClosed (recordControlEvent now k m d) = d_p2pClosed d"
  "d_p2pMade (recordControlEvent now k m d) = d_p2pMade d"
  by (simp_all add: recordControlEvent_def)

lemma event_bound [simp]: "length (d_events (recordControlEvent now k m d)) \<le> controlEventLimit"
  by (simp add: recordControlEvent_def)

lemma login_cfg: "fst (login ce la cfg) = cfg\<lparr>cfg_ServerURL := NormalizeServerURL ce (cfg_ServerURL cfg)\<rparr>"
  by (simp add: login_def Let_def)

text \<open>Two configurations that differ at most in the address of the server.\<close>

definition same_settings :: "Config \<Rightarrow> Config \<Rightarrow> bool" where
  "same_settings c c' \<longleftrightarrow> c' = c\<lparr>cfg_ServerURL := cfg_ServerURL c'\<rparr>"

lemma same_settings_simps [simp]: "same_settings c c" "same_settings c (c\<lparr>cfg_ServerURL := u\<rparr>)"
  by (simp_all add: same_settings_def)

lemma same_settings_trans: "same_settings a b \<Longrightarrow> same_settings b c \<Longrightarrow> same_settings a c"
  by (simp add: same_settings_def) (metis Config.update_convs(1) Config.surjective Config.select_convs(1))

lemma same_settings_delay: "same_settings c c' \<Longrightarrow> cfg_ReconnectDelay c' = cfg_ReconnectDelay c"
  by (metis Config.select_convs(9) Config.surjective Config.update_convs(1) same_settings_def)

lemma same_settings_flags:
  assumes "same_settings c c'"
  shows "cfg_E2EEEnabled c' = cfg_E2EEEnabled c" "cfg_P2PEnabled c' = cfg_P2PEnabled c"
    "cfg_AutoReconnect c' = cfg_AutoReconnect c"
proof -
  note h = assms [unfolded same_settings_def]
  show "cfg_E2EEEnabled c' = cfg_E2EEEnabled c" using arg_cong [OF h, of cfg_E2EEEnabled] by simp
  show "cfg_P2PEnabled c' = cfg_P2PEnabled c" using arg_cong [OF h, of cfg_P2PEnabled] by simp
  show "cfg_AutoReconnect c' = cfg_AutoReconnect c" using arg_cong [OF h, of cfg_AutoReconnect] by simp
qed

lemma tryServers_cfg: "tryServers ce net n us cfg = (cfg', n', r) \<Longrightarrow> same_settings cfg cfg'"
proof (induction ce net n us cfg arbitrary: cfg' n' r rule: tryServers.induct)
  case (2 ce net n u us cfg)
  obtain cfg1 q where l: "login ce (net_login net n (NormalizeServerURL ce u)) (cfg\<lparr>cfg_ServerURL := NormalizeServerURL ce u\<rparr>) = (cfg1, q)"
    by fastforce
  then have "cfg1 = cfg\<lparr>cfg_ServerURL := cfg_ServerURL cfg1\<rparr>"
    using login_cfg [of ce "net_login net n (NormalizeServerURL ce u)" "cfg\<lparr>cfg_ServerURL := NormalizeServerURL ce u\<rparr>"] by auto
  then have s1: "same_settings cfg cfg1" by (simp add: same_settings_def)
  show ?case
  proof (cases q)
    case (Inr cookies)
    then show ?thesis using "2.prems" l s1 by (simp add: Let_def)
  next
    case (Inl err)
    obtain cfg2 n2 r2 where t: "tryServers ce net (Suc n) us cfg1 = (cfg2, n2, r2)" by (metis prod.exhaust)
    have "same_settings cfg1 cfg2" using "2.IH" [OF refl l [symmetric] Inl t] .
    moreover have "cfg' = cfg2"
      using "2.prems" l Inl t by (auto simp: Let_def split: sum.splits option.splits)
    ultimately show ?thesis using s1 same_settings_trans by blast
  qed
qed simp

lemma chooseServer_cfg: "chooseServer ce net cfg = (cfg', r) \<Longrightarrow> same_settings cfg cfg'"
proof -
  assume a: "chooseServer ce net cfg = (cfg', r)"
  let ?cfg = "if cfg_ServerURL cfg \<noteq> '''' then cfg\<lparr>cfg_ServerURL := NormalizeServerURL ce (cfg_ServerURL cfg)\<rparr> else cfg"
  have s0: "same_settings cfg ?cfg" by simp
  define urls where "urls = (let configured = (if cfg_ServerURL cfg \<noteq> '''' then [cfg_ServerURL ?cfg] else []) in
    configured @ (if configured = [] \<or> containsStr (hd configured) ''localhost'' then discover net 0 else []))"
  obtain cfg1 n1 r1 where t1: "tryServers ce net 0 urls ?cfg = (cfg1, n1, r1)" by (metis prod.exhaust)
  obtain cfg2 n2 r2 where t2: "tryServers ce net n1 (filter (\<lambda>u. NormalizeServerURL ce u \<notin> set urls) (discover net 1)) cfg1 = (cfg2, n2, r2)"
    by (metis prod.exhaust)
  have "cfg' = cfg1 \<or> cfg' = cfg2"
    using a t1 t2 unfolding chooseServer_def Let_def urls_def [unfolded Let_def, symmetric]
    by (auto split: sum.splits option.splits)
  moreover have "same_settings cfg cfg1" using s0 tryServers_cfg [OF t1] same_settings_trans by blast
  moreover from this have "same_settings cfg cfg2" using tryServers_cfg [OF t2] same_settings_trans by blast
  ultimately show ?thesis by blast
qed

definition same_goroutines :: "Desktop \<Rightarrow> Desktop \<Rightarrow> bool" where
  "same_goroutines d d' \<longleftrightarrow> d_loops d' = d_loops d \<and> d_connects d' = d_connects d \<and> d_connecting d' = d_connecting d \<and>
     d_reconnecting d' = d_reconnecting d \<and> d_loopsMade d' = d_loopsMade d"

lemma deriveKey_keeps:
  "deriveEncryptionKey net d = (d', r) \<Longrightarrow> same_goroutines d d' \<and> d_cfg d' = d_cfg d \<and> d_events d' = d_events d"
  by (auto simp: deriveEncryptionKey_def same_goroutines_def split: sum.splits decoded.splits)

lemma connectStomp_keeps:
  "same_goroutines d (connectStomp net cookies d) \<and> d_cfg (connectStomp net cookies d) = d_cfg d \<and>
     length (d_events (connectStomp net cookies d)) \<le> controlEventLimit"
proof -
  have p2p: "same_goroutines d (connectP2P net d) \<and> d_cfg (connectP2P net d) = d_cfg d" for d
    by (simp add: connectP2P_def same_goroutines_def Let_def split: option.split)
  obtain sc outs r where c: "Connect (net_urlParse net) (net_ord net) (net_handshake net)
      (NewStompClient (cfg_ServerURL (d_cfg d)) cookies) = (sc, outs, r)" by (metis prod.exhaust)
  show ?thesis
    using p2p [of "d\<lparr>d_stomp := Some sc\<rparr>"] c
    by (cases r) (simp_all add: connectStomp_def same_goroutines_def Let_def)
qed

lemma connectBody_keeps:
  "same_goroutines d (connectBody ce net d) \<and> same_settings (d_cfg d) (d_cfg (connectBody ce net d)) \<and>
     length (d_events (connectBody ce net d)) \<le> controlEventLimit"
proof -
  let ?d1 = "(recordControlEvent (net_now net) ''connect'' ''Connect requested'' d)\<lparr>d_status := ''Connecting...''\<rparr>"
  obtain cfg r where ch: "chooseServer ce net (d_cfg d) = (cfg, r)" by fastforce
  have s: "same_settings (d_cfg d) cfg" by (rule chooseServer_cfg [OF ch])
  show ?thesis
  proof (cases r)
    case (Inl e)
    then show ?thesis using ch s by (simp add: connectBody_def Let_def same_goroutines_def)
  next
    case (Inr found)
    obtain url cookies where f: "found = (url, cookies)" by fastforce
    let ?d2 = "?d1\<lparr>d_cfg := cfg\<lparr>cfg_ServerURL := NormalizeServerURL ce url\<rparr>\<rparr>"
    obtain d3 r3 where k: "(if cfg_E2EEEnabled (d_cfg ?d2) then deriveEncryptionKey net ?d2 else (?d2, None)) = (d3, r3)"
      by fastforce
    have d3: "same_goroutines ?d2 d3 \<and> d_cfg d3 = d_cfg ?d2 \<and> d_events d3 = d_events ?d2"
      using k deriveKey_keeps [of net ?d2 d3 r3] by (auto simp: same_goroutines_def split: if_splits)
    have s2: "same_settings (d_cfg d) (cfg\<lparr>cfg_ServerURL := NormalizeServerURL ce url\<rparr>)"
      using s same_settings_trans same_settings_simps(2) by blast
    have body: "connectBody ce net d = (case r3 of Some _ \<Rightarrow> d3\<lparr>d_status := ''Key Error''\<rparr> | None \<Rightarrow> connectStomp net cookies d3)"
      using ch Inr f k by (simp add: connectBody_def Let_def)
    show ?thesis
      using d3 s2 connectStomp_keeps [of d3 net cookies] unfolding body
      by (cases r3) (simp_all add: same_goroutines_def)
  qed
qed

section \<open>Goroutines and waits\<close>

definition good_delay :: "64 word \<Rightarrow> bool" where
  "good_delay w \<longleftrightarrow> 1000000000 \<le> sint w \<and> sint w \<le> 60000000000"

fun phase_delay :: "loop_phase \<Rightarrow> 64 word" where
  "phase_delay (LoopWaiting w) = w"
| "phase_delay (LoopConnecting w) = w"

definition desktop_inv :: "Desktop \<Rightarrow> bool" where
  "desktop_inv d \<longleftrightarrow> d_connecting d = (d_connects d \<noteq> []) \<and> length (d_connects d) \<le> 1 \<and>
     d_reconnecting d = (d_loops d \<noteq> []) \<and> length (d_loops d) \<le> 1 \<and> length (d_events d) \<le> controlEventLimit \<and>
     1 \<le> cfg_ReconnectDelay (d_cfg d) \<and> cfg_ReconnectDelay (d_cfg d) \<le> 60 \<and>
     (\<forall>l\<in>set (d_loops d). good_delay (phase_delay (snd l)))"

lemma sint_small: "- (2 ^ 63) \<le> i \<Longrightarrow> i < 2 ^ 63 \<Longrightarrow> sint (of_int i :: 64 word) = i"
  by (simp add: signed_of_int signed_take_bit_int_eq_self)

lemma first_good:
  assumes "1 \<le> cfg_ReconnectDelay cfg" "cfg_ReconnectDelay cfg \<le> 60"
  shows "good_delay (firstDelay cfg)"
proof -
  let ?i = "cfg_ReconnectDelay cfg * 1000000000"
  have w: "of_int (cfg_ReconnectDelay cfg) * second = of_int ?i" by (simp add: second_def)
  have s: "sint (of_int ?i :: 64 word) = ?i" using assms by (intro sint_small) simp_all
  then have "of_int ?i \<noteq> (0 :: 64 word)" using assms by (metis mult_eq_0_iff not_one_le_zero signed_0 zero_neq_numeral)
  then show ?thesis using s w assms by (simp add: firstDelay_def Let_def good_delay_def)
qed

lemma maxDelay_value: "maxDelay = of_int 60000000000" "sint maxDelay = 60000000000"
proof -
  show m: "maxDelay = of_int 60000000000" by (simp add: maxDelay_def second_def const_defs)
  show "sint maxDelay = 60000000000" unfolding m by (rule sint_small) simp_all
qed

lemma double_delay:
  assumes "good_delay w"
  shows "sint (w * 2) = 2 * sint w"
proof -
  have "w * 2 = of_int (2 * sint w)" by (simp add: mult.commute)
  moreover have "sint (of_int (2 * sint w) :: 64 word) = 2 * sint w"
    using assms by (intro sint_small) (simp_all add: good_delay_def)
  ultimately show ?thesis by metis
qed

lemma next_good: "good_delay w \<Longrightarrow> good_delay (nextDelay w) \<and> sint (nextDelay w) = min (2 * sint w) 60000000000"
  using double_delay [of w] by (auto simp: nextDelay_def good_delay_def maxDelay_value)

lemma one_loop:
  assumes "desktop_inv d" "map_of (d_loops d) i = Some ph"
  shows "d_loops d = [(i, ph)]" "good_delay (phase_delay ph)" "d_reconnecting d"
proof -
  have "(i, ph) \<in> set (d_loops d)" using assms(2) by (rule map_of_SomeD)
  then show "d_loops d = [(i, ph)]" "good_delay (phase_delay ph)" "d_reconnecting d"
    using assms(1) by (cases "d_loops d"; auto simp: desktop_inv_def)+
qed

lemma afterConnect_inv:
  assumes "desktop_inv d" "map_of (d_loops d) i = Some ph" "phase_delay ph = w"
  shows "desktop_inv (afterConnect i w d)"
  using one_loop [OF assms(1,2)] assms(1,3) next_good [of w]
  by (auto simp: afterConnect_def endLoop_def endReconnect_def setLoop_def desktop_inv_def)

lemma connectBegin_inv: "desktop_inv d \<Longrightarrow> desktop_inv (connectBegin who d)"
  by (auto simp: connectBegin_def desktop_inv_def)

lemma loopTimer_inv:
  assumes "desktop_inv d" "map_of (d_loops d) i = Some (LoopWaiting w)"
  shows "desktop_inv (loopTimer i w d)"
proof (cases "d_connecting d \<or> stompUp d")
  case True
  then have "loopTimer i w d = afterConnect i w d" by (auto simp: loopTimer_def connectBegin_def Let_def)
  then show ?thesis using afterConnect_inv [OF assms] by simp
next
  case False
  then show ?thesis
    using one_loop [OF assms] assms(1)
    by (auto simp: loopTimer_def connectBegin_def setLoop_def desktop_inv_def)
qed

lemma connectEnd_inv:
  assumes "desktop_inv d" "who \<in> set (d_connects d)"
  shows "desktop_inv (connectEnd ce net who d)"
proof -
  let ?d1 = "(connectBody ce net d)\<lparr>d_connecting := False, d_connects := remove1 who (d_connects d)\<rparr>"
  have "d_connects d = [who]" using assms by (cases "d_connects d") (auto simp: desktop_inv_def)
  then have inv: "desktop_inv ?d1"
    using assms(1) connectBody_keeps [of d ce net] same_settings_delay [of "d_cfg d" "d_cfg (connectBody ce net d)"]
    by (auto simp: desktop_inv_def same_goroutines_def)
  have loops: "d_loops ?d1 = d_loops d" using connectBody_keeps [of d ce net] by (simp add: same_goroutines_def)
  have "desktop_inv (afterConnect i w ?d1)" if "map_of (d_loops d) i = Some (LoopConnecting w)" for i w
    using afterConnect_inv [OF inv, of i "LoopConnecting w" w] that loops by simp
  then show ?thesis using inv
    unfolding connectEnd_def Let_def by (cases who; auto split: option.split loop_phase.split)
qed

lemma desktop_step_inv:
  assumes "desktop_inv d"
  shows "desktop_inv (desktop_step ev d)"
proof (cases ev)
  case (ConnectEnds who ce net)
  then show ?thesis using assms connectEnd_inv by simp
next
  case (LoopStarts now)
  have "good_delay (firstDelay (d_cfg d))" using assms by (simp add: desktop_inv_def first_good)
  then show ?thesis
    using assms LoopStarts
    by (auto simp: reconnectLoopStart_def beginReconnect_def desktop_inv_def split: nat.split)
next
  case (TimerFires i)
  then show ?thesis using assms loopTimer_inv by (simp split: option.split loop_phase.split)
next
  case (LoopSeesDone i)
  then show ?thesis
    using assms one_loop [OF assms, of i]
    by (auto simp: endLoop_def endReconnect_def desktop_inv_def split: option.split loop_phase.split)
qed (use assms connectBegin_inv in \<open>auto simp: monitorTick_def disconnect_def shutdown_def desktop_inv_def\<close>)

interpretation desktop: machine desktop_step "\<lambda>_. True" desktop_inv
  by unfold_locales (rule desktop_step_inv)

lemma desktop_run_inv: "desktop_inv d \<Longrightarrow> desktop_inv (desktop_run evs d)"
  unfolding desktop_run_def by (rule desktop.free_run_inv) simp_all

subsection \<open>One step of a loop\<close>

text \<open>The doubled wait, at most a minute.\<close>

definition doubled :: "64 word \<Rightarrow> loop_phase \<Rightarrow> bool" where
  "doubled w ph \<longleftrightarrow> (\<exists>w'. ph = LoopWaiting w' \<and> waitTime w' = min (2 * waitTime w) 60000000000)"

text \<open>
  How a loop goes on: when its timer fires it calls \<open>connect\<close> or, when that returns at once, waits twice as long;
  when its call ends it waits twice as long; nothing else changes it.
\<close>

fun continues :: "bool \<Rightarrow> bool \<Rightarrow> loop_phase \<Rightarrow> loop_phase \<Rightarrow> bool" where
  "continues fired ended (LoopWaiting w) ph' =
     (if fired then ph' = LoopConnecting w \<or> doubled w ph' else ph' = LoopWaiting w)"
| "continues fired ended (LoopConnecting w) ph' = (if ended then doubled w ph' else ph' = LoopConnecting w)"

definition endsCall :: "nat \<Rightarrow> desktop_event \<Rightarrow> Desktop \<Rightarrow> bool" where
  "endsCall i ev d \<longleftrightarrow> ByLoop i \<in> set (d_connects d) \<and> (\<exists>ce net. ev = ConnectEnds (ByLoop i) ce net)"

lemma doubled_next: "good_delay w \<Longrightarrow> doubled w (LoopWaiting (nextDelay w))"
  using next_good [of w] by (auto simp: doubled_def waitTime_def good_delay_def)

lemma afterConnect_continues:
  assumes "d_loops d = [(i, ph)]" "good_delay (phase_delay ph)" "(i, ph') \<in> set (d_loops (afterConnect i (phase_delay ph) d))"
  shows "doubled (phase_delay ph) ph'"
  using assms doubled_next by (auto simp: afterConnect_def endLoop_def endReconnect_def setLoop_def split: if_splits)

lemma connectEnd_continues:
  assumes "desktop_inv d" "(i, ph) \<in> set (d_loops d)" "who \<in> set (d_connects d)"
    "(i, ph') \<in> set (d_loops (connectEnd ce net who d))"
  shows "continues False (who = ByLoop i) ph ph'"
proof -
  have loops: "d_loops d = [(i, ph)]" "good_delay (phase_delay ph)"
    using assms(1,2) by (cases "d_loops d"; auto simp: desktop_inv_def)+
  let ?d1 = "(connectBody ce net d)\<lparr>d_connecting := False, d_connects := remove1 who (d_connects d)\<rparr>"
  have loops1: "d_loops ?d1 = [(i, ph)]"
    using connectBody_keeps [of d ce net] loops(1) by (simp add: same_goroutines_def)
  have "doubled w ph'" if "ph = LoopConnecting w" "(i, ph') \<in> set (d_loops (afterConnect i w ?d1))" for w
    using afterConnect_continues [OF loops1 loops(2)] that by simp
  then show ?thesis
    using assms(4) loops(1) loops1 unfolding connectEnd_def Let_def
    by (cases who; cases ph) (auto split: if_splits)
qed

lemma step_continues:
  assumes "desktop_inv d" "(i, ph) \<in> set (d_loops d)" "(i, ph') \<in> set (d_loops (desktop_step ev d))"
  shows "continues (ev = TimerFires i) (endsCall i ev d) ph ph'"
proof -
  have loops: "d_loops d = [(i, ph)]" "good_delay (phase_delay ph)" "d_reconnecting d"
    using assms(1,2) by (cases "d_loops d"; auto simp: desktop_inv_def)+
  have same: "continues False False ph ph" by (cases ph) simp_all
  have stay: ?thesis if "(i, ph') \<in> set (d_loops d)" "ev \<noteq> TimerFires i" "\<not> endsCall i ev d"
    using that loops(1) same by simp
  show ?thesis
  proof (cases ev)
    case (ConnectEnds who ce net)
    show ?thesis
    proof (cases "who \<in> set (d_connects d)")
      case True
      then have "endsCall i ev d = (who = ByLoop i)" using ConnectEnds by (auto simp: endsCall_def)
      then show ?thesis
        using connectEnd_continues [OF assms(1,2) True, of ph' ce net] assms(3) ConnectEnds True by simp
    qed (use stay assms(3) ConnectEnds in \<open>auto simp: endsCall_def\<close>)
  next
    case (LoopStarts now)
    then show ?thesis
      using stay assms(3) loops(3)
      by (auto simp: endsCall_def reconnectLoopStart_def beginReconnect_def split: nat.splits if_splits)
  next
    case (TimerFires j)
    show ?thesis
    proof (cases "j = i")
      case True
      show ?thesis
      proof (cases ph)
        case (LoopWaiting w)
        then have "(i, ph') \<in> set (d_loops (loopTimer i w d))" using assms(3) loops(1) TimerFires True by simp
        moreover have "doubled w ph'" if "(i, ph') \<in> set (d_loops (afterConnect i w d))"
          using afterConnect_continues [OF loops(1,2)] that LoopWaiting by simp
        ultimately show ?thesis
          using loops(1) LoopWaiting TimerFires True
          by (auto simp: loopTimer_def connectBegin_def setLoop_def Let_def split: if_splits)
      next
        case (LoopConnecting w)
        then show ?thesis using assms(3) loops(1) TimerFires True by (simp add: endsCall_def)
      qed
    qed (use stay assms(3) loops(1) TimerFires in \<open>auto simp: endsCall_def\<close>)
  next
    case (LoopSeesDone j)
    then show ?thesis
      using stay assms(3)
      by (auto simp: endsCall_def endLoop_def endReconnect_def split: option.splits loop_phase.splits if_splits)
  qed (use stay assms(3) in \<open>auto simp: endsCall_def connectBegin_def monitorTick_def disconnect_def shutdown_def split: if_splits\<close>)
qed

text \<open>A new loop waits the configured time first.\<close>

lemma first_wait:
  assumes "desktop_inv d" "d_loops d = []" "(i, ph) \<in> set (d_loops (desktop_step ev d))"
  shows "\<exists>w. ph = LoopWaiting w \<and> waitTime w = cfg_ReconnectDelay (d_cfg d) * 1000000000"
proof -
  have no: "(i, ph) \<notin> set (d_loops (connectEnd ce net who d))" for ce net who
    using connectBody_keeps [of d ce net] assms(2)
    by (auto simp: connectEnd_def same_goroutines_def Let_def split: caller.splits)
  obtain now n where "ev = LoopStarts now" "d_starting d = Suc n"
    using assms(2,3) no
    by (cases ev; cases "d_starting d")
      (auto simp: connectBegin_def monitorTick_def disconnect_def shutdown_def split: if_splits)
  then have ph: "ph = LoopWaiting (firstDelay (d_cfg d))"
    using assms(2,3) by (auto simp: reconnectLoopStart_def beginReconnect_def split: if_splits)
  let ?i = "cfg_ReconnectDelay (d_cfg d) * 1000000000"
  have c: "1 \<le> cfg_ReconnectDelay (d_cfg d)" "cfg_ReconnectDelay (d_cfg d) \<le> 60"
    using assms(1) by (simp_all add: desktop_inv_def)
  have w: "of_int (cfg_ReconnectDelay (d_cfg d)) * second = of_int ?i" by (simp add: second_def)
  have s: "sint (of_int ?i :: 64 word) = ?i" using c by (intro sint_small) simp_all
  then have "of_int ?i \<noteq> (0 :: 64 word)" using c by (metis mult_eq_0_iff not_one_le_zero signed_0 zero_neq_numeral)
  then show ?thesis using ph s w c by (simp add: firstDelay_def Let_def waitTime_def)
qed

lemma run_cfg:
  assumes "cfg_ReconnectDelay (d_cfg d) = n"
  shows "cfg_ReconnectDelay (d_cfg (desktop_run evs d)) = n"
  using assms
proof (induction evs arbitrary: d)
  case (Cons ev evs)
  have "cfg_ReconnectDelay (d_cfg (connectEnd ce net who d)) = cfg_ReconnectDelay (d_cfg d)" for ce net who
    using connectBody_keeps [of d ce net] same_settings_delay [of "d_cfg d" "d_cfg (connectBody ce net d)"]
    by (auto simp: connectEnd_def afterConnect_def endLoop_def endReconnect_def setLoop_def Let_def
        split: caller.split option.split loop_phase.split)
  then have "cfg_ReconnectDelay (d_cfg (desktop_step ev d)) = n"
    using Cons.prems
    by (cases ev)
      (auto simp: connectBegin_def monitorTick_def disconnect_def shutdown_def loopTimer_def afterConnect_def endLoop_def
        endReconnect_def setLoop_def reconnectLoopStart_def beginReconnect_def Let_def
        split: option.split loop_phase.split nat.split)
  then show ?case using Cons.IH by (simp add: desktop_run_def)
qed (simp add: desktop_run_def)


section \<open>Which server is chosen\<close>

definition logs_in :: "ConfEnv \<Rightarrow> Net \<Rightarrow> nat \<Rightarrow> string \<Rightarrow> string list option" where
  "logs_in ce net n u =
     (case snd (login ce (net_login net n (NormalizeServerURL ce u)) (DefaultConfig\<lparr>cfg_ServerURL := NormalizeServerURL ce u\<rparr>)) of
        Inl _ \<Rightarrow> None | Inr cookies \<Rightarrow> Some cookies)"

text \<open>All addresses a call may try, in order.\<close>

definition candidates :: "ConfEnv \<Rightarrow> Net \<Rightarrow> Config \<Rightarrow> string list" where
  "candidates ce net cfg =
     (let configured = (if cfg_ServerURL cfg \<noteq> '''' then [NormalizeServerURL ce (cfg_ServerURL cfg)] else []);
          first = configured @ (if configured = [] \<or> containsStr (hd configured) ''localhost'' then discover net 0 else []) in
      first @ filter (\<lambda>u. NormalizeServerURL ce u \<notin> set first) (discover net 1))"

fun firstServer :: "ConfEnv \<Rightarrow> Net \<Rightarrow> nat \<Rightarrow> string list \<Rightarrow> (string \<times> string list) option" where
  "firstServer ce net n [] = None"
| "firstServer ce net n (u # us) =
     (case logs_in ce net n u of
        Some cookies \<Rightarrow> Some (NormalizeServerURL ce u, cookies)
      | None \<Rightarrow> firstServer ce net (Suc n) us)"

lemma firstServer_append:
  "firstServer ce net n (us @ vs) =
     (case firstServer ce net n us of Some r \<Rightarrow> Some r | None \<Rightarrow> firstServer ce net (n + length us) vs)"
  by (induction us arbitrary: n) (auto split: option.split)

lemma firstServer_spec:
  "firstServer ce net n us = Some (url, cookies) \<longleftrightarrow>
     (\<exists>k<length us. url = NormalizeServerURL ce (us ! k) \<and> logs_in ce net (n + k) (us ! k) = Some cookies \<and>
        (\<forall>j<k. logs_in ce net (n + j) (us ! j) = None))"
proof (induction us arbitrary: n)
  case (Cons u us)
  show ?case
  proof (cases "logs_in ce net n u")
    case None
    then show ?thesis using Cons [of "Suc n"] by (simp add: Ex_less_Suc2 All_less_Suc2)
  next
    case (Some ck)
    then show ?thesis by (auto simp: Ex_less_Suc2 All_less_Suc2)
  qed
qed simp

lemma login_logs_in:
  "snd (login ce (net_login net n (NormalizeServerURL ce u)) (cfg\<lparr>cfg_ServerURL := NormalizeServerURL ce u\<rparr>)) = Inr cookies \<longleftrightarrow>
     logs_in ce net n u = Some cookies"
  by (auto simp: logs_in_def login_def Let_def split: sum.splits prod.splits if_splits)

lemma tryServers_first:
  "tryServers ce net n us cfg = (cfg', n', r) \<Longrightarrow>
     (case r of Inl _ \<Rightarrow> firstServer ce net n us = None \<and> n' = n + length us
      | Inr found \<Rightarrow> firstServer ce net n us = Some found)"
proof (induction ce net n us cfg arbitrary: cfg' n' r rule: tryServers.induct)
  case (2 ce net n u us cfg)
  obtain cfg1 q where l: "login ce (net_login net n (NormalizeServerURL ce u)) (cfg\<lparr>cfg_ServerURL := NormalizeServerURL ce u\<rparr>) = (cfg1, q)"
    by fastforce
  show ?case
  proof (cases q)
    case (Inr cookies)
    then have "logs_in ce net n u = Some cookies" using login_logs_in [of ce net n u cfg cookies] l by simp
    then show ?thesis using "2.prems" l Inr by (auto simp: Let_def)
  next
    case (Inl err)
    then have "logs_in ce net n u = None"
      using login_logs_in [of ce net n u cfg] l by (cases "logs_in ce net n u") auto
    moreover obtain cfg2 n2 r2 where t: "tryServers ce net (Suc n) us cfg1 = (cfg2, n2, r2)" by (metis prod.exhaust)
    moreover have "case r2 of Inl _ \<Rightarrow> firstServer ce net (Suc n) us = None \<and> n2 = Suc n + length us
      | Inr found \<Rightarrow> firstServer ce net (Suc n) us = Some found"
      using "2.IH" [OF refl l [symmetric] Inl t] .
    ultimately show ?thesis
      using "2.prems" l Inl by (auto simp: Let_def split: sum.splits option.splits)
  qed
qed simp

lemma chooseServer_first:
  "(case snd (chooseServer ce net cfg) of Inl _ \<Rightarrow> None | Inr found \<Rightarrow> Some found) =
     firstServer ce net 0 (candidates ce net cfg)"
proof -
  let ?cfg = "if cfg_ServerURL cfg \<noteq> '''' then cfg\<lparr>cfg_ServerURL := NormalizeServerURL ce (cfg_ServerURL cfg)\<rparr> else cfg"
  define urls where "urls = (let configured = (if cfg_ServerURL cfg \<noteq> '''' then [cfg_ServerURL ?cfg] else []) in
    configured @ (if configured = [] \<or> containsStr (hd configured) ''localhost'' then discover net 0 else []))"
  define more where "more = filter (\<lambda>u. NormalizeServerURL ce u \<notin> set urls) (discover net 1)"
  obtain cfg1 n1 r1 where t1: "tryServers ce net 0 urls ?cfg = (cfg1, n1, r1)" by (metis prod.exhaust)
  obtain cfg2 n2 r2 where t2: "tryServers ce net n1 more cfg1 = (cfg2, n2, r2)"
    by (metis prod.exhaust)
  have "candidates ce net cfg = urls @ more"
    by (simp add: candidates_def urls_def more_def Let_def)
  moreover have "snd (chooseServer ce net cfg) =
      (case r1 of Inr found \<Rightarrow> Inr found
       | Inl lastErr \<Rightarrow> (case r2 of Inr found \<Rightarrow> Inr found | Inl None \<Rightarrow> Inl lastErr | Inl (Some err) \<Rightarrow> Inl (Some err)))"
    using t1 t2 unfolding chooseServer_def Let_def urls_def [unfolded Let_def, symmetric] more_def [symmetric]
    by (auto split: sum.split option.split)
  ultimately show ?thesis
    using tryServers_first [OF t1] tryServers_first [OF t2]
    by (auto simp: firstServer_append split: sum.splits option.splits)
qed

text \<open>C14: A call of \<open>connect\<close> logs in at the first server that lets it: of the configured address, then the discovered
  ones when none is configured or it is the local host, then those a second discovery finds and that were not
  tried. It takes the first at which the login gives a session, and fails only when all have refused.\<close>
theorem connect_takes_first_server:
  "snd (chooseServer ce net cfg) = Inr (url, cookies) \<longleftrightarrow>
     (\<exists>k<length (candidates ce net cfg). url = NormalizeServerURL ce (candidates ce net cfg ! k) \<and>
        logs_in ce net k (candidates ce net cfg ! k) = Some cookies \<and>
        (\<forall>j<k. logs_in ce net j (candidates ce net cfg ! j) = None))"
proof -
  have "snd (chooseServer ce net cfg) = Inr (url, cookies) \<longleftrightarrow>
      firstServer ce net 0 (candidates ce net cfg) = Some (url, cookies)"
    using chooseServer_first [of ce net cfg] by (auto split: sum.splits)
  then show ?thesis using firstServer_spec [of ce net 0] by simp
qed

section \<open>What goes wrong\<close>

text \<open>Disconnecting does not stop a reconnect loop that is waiting: when its wait is over the program connects again,
  although the user has disconnected, as soon as a server lets it.\<close>
theorem disconnect_does_not_stop_reconnecting:
  assumes "d_loops d = [(i, LoopWaiting w)]" "\<not> d_connecting d"
    and "chooseServer ce net (d_cfg d) = (cfg, Inr (url, cookies))" "\<not> cfg_E2EEEnabled cfg"
    and "Connect (net_urlParse net) (net_ord net) (net_handshake net)
      (NewStompClient (NormalizeServerURL ce url) cookies) = (sc, outs, None)" "IsConnected sc"
  shows "d_stomp (disconnect now d) = None \<and>
    stompUp (desktop_run [UserDisconnects now, TimerFires i, ConnectEnds (ByLoop i) ce net] d)"
proof -
  let ?d1 = "setLoop i (LoopConnecting w) (connectBegin (ByLoop i) (disconnect now d))"
  have down: "d_stomp (disconnect now d) = None" "d_loops (disconnect now d) = d_loops d"
    "d_connecting (disconnect now d) = d_connecting d" "d_cfg (disconnect now d) = d_cfg d"
    by (simp_all add: disconnect_def)
  have d1: "desktop_run [UserDisconnects now, TimerFires i] d = ?d1"
    using assms(1,2) down by (simp add: desktop_run_def loopTimer_def stompUp_def Let_def)
  have begun: "d_loops ?d1 = [(i, LoopConnecting w)]" "ByLoop i \<in> set (d_connects ?d1)" "d_cfg ?d1 = d_cfg d"
    using assms(1,2) down by (simp_all add: setLoop_def connectBegin_def stompUp_def)
  have "d_stomp (connectP2P net d') = d_stomp d'" for d' by (simp add: connectP2P_def Let_def split: option.split)
  then have "d_stomp (connectBody ce net ?d1) = Some sc"
    using assms(3-5) begun(3) by (simp add: connectBody_def connectStomp_def Let_def)
  then have "stompUp (connectEnd ce net (ByLoop i) ?d1)"
    using assms(6) begun(1) by (simp add: connectEnd_def afterConnect_def endLoop_def endReconnect_def stompUp_def Let_def)
  moreover have "desktop_run [UserDisconnects now, TimerFires i, ConnectEnds (ByLoop i) ce net] d =
      desktop_step (ConnectEnds (ByLoop i) ce net) (desktop_run [UserDisconnects now, TimerFires i] d)"
    by (simp add: desktop_run_def)
  ultimately show ?thesis using begun(2) down(1) d1 by simp
qed

text \<open>A delay of ten billion seconds, which the settings accept, wraps around: the loop does not wait at all.\<close>

lemma huge_delay_does_not_wait: "cfg_ReconnectDelay cfg = 10000000000 \<Longrightarrow> waitTime (firstDelay cfg) = 0"
proof -
  have "(of_int 10000000000 :: 64 word) * second = of_int (- 8446744073709551616)"
    by (simp add: second_def)
  moreover have "sint (of_int (- 8446744073709551616) :: 64 word) = - 8446744073709551616" by (rule sint_small) simp_all
  ultimately show "cfg_ReconnectDelay cfg = 10000000000 \<Longrightarrow> ?thesis"
    by (simp add: firstDelay_def Let_def waitTime_def)
qed

text \<open>A new connection replaces the P2P client of the one before without closing it.\<close>

lemma replaced_p2p_is_not_closed:
  assumes "d_p2p d = Some p" "p < d_p2pMade d" "p \<notin> d_p2pClosed d" "cfg_P2PEnabled (d_cfg d)"
  shows "d_p2p (connectP2P net d) \<noteq> Some p \<and> p \<notin> d_p2pClosed (connectP2P net d)"
  using assms by (simp add: connectP2P_def Let_def split: option.split)

section \<open>A concrete network\<close>

definition sampleNet :: "conn result \<Rightarrow> Net" where
  "sampleNet dial = \<lparr>net_now = 1, net_ifaces = (\<lambda>_. Inr []), net_entries = (\<lambda>_. Inr []),
     net_login = (\<lambda>_ _. \<lparr>la_reply = Inr (302, ''/''), la_cookies = [''session'']\<rparr>), net_userInfo = Inl ''unused'',
     net_urlParse = (\<lambda>_. Inr \<lparr>url_Scheme = ''http'', url_Host = ''h''\<rparr>), net_ord = (\<lambda>_. []),
     net_handshake = \<lparr>hs_dial = dial, hs_writeConnect = None, hs_read = Inr (''CONNECTED'' @ [newline, newline, nul]),
       hs_writeSubscribe = None\<rparr>, net_p2pErr = None, net_pbkdf2 = (\<lambda>p s n k. replicate k (CHR ''k''))\<rparr>"

definition plainSaved :: Config where "plainSaved = sampleSaved\<lparr>cfg_E2EEEnabled := False, cfg_P2PEnabled := False\<rparr>"

definition sampleURL :: string where "sampleURL = ''http://localhost:8080''"

lemma sampleURL_normal: "NormalizeServerURL (sampleConfEnv '''') sampleURL = sampleURL" "sampleURL \<noteq> ''''"
  "cfg_ServerURL plainSaved = sampleURL"
proof -
  have "trimmed ''http://localhost:8080''"
    by (simp add: trimmed_def leadingSpace_def trailingSpace_def spaceEncodings_def suffix_def)
  then have url: "trimSpace ''http://localhost:8080'' = ''http://localhost:8080''" "containsStr ''http://localhost:8080'' ''://''"
    "trimRightSet {slash} ''http://localhost:8080'' = ''http://localhost:8080''"
    by (simp_all add: trimSpace_id containsStr_def cutAt.simps trimRightSet_def)
  then show "NormalizeServerURL (sampleConfEnv '''') sampleURL = sampleURL"
    unfolding NormalizeServerURL_def Let_def by (simp add: sampleConfEnv_def sampleURL_def)
  show "sampleURL \<noteq> ''''" by (simp add: sampleURL_def)
  have "digitChar 8 = CHR ''8''" "digitChar 0 = CHR ''0''" by code_simp+
  then show "cfg_ServerURL plainSaved = sampleURL"
    by (simp add: plainSaved_def sampleSaved_def DefaultConfig_def const_defs showInt_def showNat.simps sampleURL_def)
qed

lemma sample_candidates: "candidates (sampleConfEnv '''') (sampleNet dial) plainSaved = [sampleURL]"
  using sampleURL_normal
  by (simp add: candidates_def Let_def discover_def discoverServer_def sampleNet_def)

lemma sample_logs_in: "logs_in (sampleConfEnv '''') (sampleNet dial) 0 sampleURL = Some [''session'']"
  using sampleURL_normal
  by (simp add: logs_in_def login_def sampleNet_def Let_def containsStr_def cutAt.simps)

theorem connect_takes_first_server_witness:
  "snd (chooseServer (sampleConfEnv '''') (sampleNet (Inr 1)) plainSaved) = Inr (sampleURL, [''session''])"
  by (subst connect_takes_first_server) (simp add: sample_candidates sample_logs_in sampleURL_normal)

lemma sample_choice: "\<exists>cfg. chooseServer (sampleConfEnv '''') (sampleNet dial) plainSaved = (cfg, Inr (sampleURL, [''session''])) \<and>
    \<not> cfg_E2EEEnabled cfg \<and> \<not> cfg_P2PEnabled cfg \<and> cfg_AutoReconnect cfg"
proof -
  obtain cfg r where c: "chooseServer (sampleConfEnv '''') (sampleNet dial) plainSaved = (cfg, r)" by fastforce
  have "firstServer (sampleConfEnv '''') (sampleNet dial) 0 [sampleURL] = Some (sampleURL, [''session''])"
    using sample_logs_in [of dial] sampleURL_normal by simp
  then have "r = Inr (sampleURL, [''session''])"
    using chooseServer_first [of "sampleConfEnv ''''" "sampleNet dial" plainSaved] sample_candidates [of dial] c
    by (simp split: sum.splits)
  moreover have "\<not> cfg_E2EEEnabled cfg \<and> \<not> cfg_P2PEnabled cfg \<and> cfg_AutoReconnect cfg"
    using same_settings_flags [OF chooseServer_cfg [OF c]] by (simp add: plainSaved_def sampleSaved_def DefaultConfig_def)
  ultimately show ?thesis using c by blast
qed


theorem disconnect_does_not_stop_reconnecting_witness:
  "stompUp (desktop_run [UserDisconnects 1, TimerFires 0, ConnectEnds (ByLoop 0) (sampleConfEnv '''') (sampleNet (Inr 1))]
     ((desktop_start plainSaved)\<lparr>d_loops := [(0, LoopWaiting second)], d_reconnecting := True\<rparr>))"
proof -
  let ?d = "(desktop_start plainSaved)\<lparr>d_loops := [(0, LoopWaiting second)], d_reconnecting := True\<rparr>"
  obtain cfg where cfg: "chooseServer (sampleConfEnv '''') (sampleNet (Inr 1)) plainSaved = (cfg, Inr (sampleURL, [''session'']))"
    "\<not> cfg_E2EEEnabled cfg"
    using sample_choice [of "Inr 1"] by blast
  have accept: "case ParseFrame (''CONNECTED'' @ [newline, newline, nul]) of Inl _ \<Rightarrow> False | Inr f \<Rightarrow> frame_Command f = ''CONNECTED''"
    by code_simp
  obtain sc outs where sc: "Connect (net_urlParse (sampleNet (Inr 1))) (net_ord (sampleNet (Inr 1)))
      (net_handshake (sampleNet (Inr 1)))
      (NewStompClient (NormalizeServerURL (sampleConfEnv '''') sampleURL) [''session'']) = (sc, outs, None)" "IsConnected sc"
    using accept by (auto simp: Connect_def buildWSURL_def sampleNet_def Let_def IsConnected_def split: sum.splits)
  have "chooseServer (sampleConfEnv '''') (sampleNet (Inr 1)) (d_cfg ?d) = (cfg, Inr (sampleURL, [''session'']))"
    using cfg(1) by (simp add: desktop_start_def)
  from disconnect_does_not_stop_reconnecting [OF _ _ this cfg(2) sc, of 0 second 1] show ?thesis
    by (simp add: desktop_start_def)
qed


end
