(* ===== verification/Panel.thy ===== *)
theory Panel
  imports Replay SizeFormat Connection
begin

text \<open>
  The control panel, a local HTTP server (\<open>desktop/app/history_panel.go\<close>): the page, the API behind it, sessions
  and the password that guards it. The server calls the program through functions it was given; they are a record
  over the program's state, and a function that was not given is \<open>None\<close>. A request and a response are what the
  handlers read and write of them; bodies of responses stand before their JSON. The clock and the random bytes of a
  request are part of it.
\<close>

section \<open>What the panel shows\<close>

record historyPanelOverview =
  ov_ConnectionStatus :: string
  ov_ServerURL :: string
  ov_Username :: string
  ov_E2EEEnabled :: bool
  ov_P2PEnabled :: bool
  ov_P2PReadyPeers :: int
  ov_FileMemoryThresholdMiB :: int
  ov_ActiveSummary :: string
  ov_ActiveType :: string
  ov_ActiveState :: string
  ov_TotalItems :: nat
  ov_ReplayableItems :: nat

record historyPanelActionState =
  as_CanConnect :: bool
  as_CanDisconnect :: bool
  as_CanSendCurrent :: bool
  as_CanReplayActive :: bool
  as_CanSaveSettings :: bool

record historyPanelDevice =
  dv_DeviceName :: string
  dv_SessionID :: string
  dv_Local :: bool
  dv_Ready :: bool

record historyPanelDeviceSnapshot =
  ds_Local :: "historyPanelDevice option"
  ds_Peers :: "historyPanelDevice list"
  ds_LocalSessionID :: string
  ds_P2PSessionID :: string
  ds_PeerIDs :: "string list"
  ds_ReadyPeerIDs :: "string list"

record historyPanelSettings =
  st_ServerURL :: string
  st_Username :: string
  st_PasswordConfigured :: bool
  st_E2EEEnabled :: bool
  st_P2PEnabled :: bool
  st_StunURL :: string
  st_AutoReconnect :: bool
  st_ReconnectDelaySec :: int
  st_FileMemoryThresholdMiB :: int

record historyPanelSettingsInput =
  si_ServerURL :: string
  si_Username :: string
  si_Password :: string
  si_E2EEEnabled :: bool
  si_P2PEnabled :: bool
  si_StunURL :: string
  si_AutoReconnect :: bool
  si_ReconnectDelaySec :: int
  si_FileMemoryThresholdMiB :: int

record historyPanelFileTransfer =
  ft_ID :: string
  ft_TransferID :: string
  ft_DisplayName :: string
  ft_State :: string
  ft_SourceDevice :: string
  ft_SizeBytes :: int
  ft_SizeHuman :: string
  ft_ProgressPercent :: int
  ft_TotalChunks :: int
  ft_LastChunkIdx :: int
  ft_LocalPathCount :: nat
  ft_ErrorMessage :: string
  ft_UpdatedAt :: gotime

record historyPanelListItem =
  li_ID :: string
  li_Type :: string
  li_State :: string
  li_DisplayName :: string
  li_FileName :: string
  li_SourceDevice :: string
  li_CreatedAt :: gotime
  li_UpdatedAt :: gotime
  li_ErrorMessage :: string
  li_Summary :: string
  li_SizeBytes :: int
  li_SizeHuman :: string
  li_Active :: bool
  li_Replayable :: bool

record historyPanelListResponse =
  lr_Overview :: historyPanelOverview
  lr_Devices :: historyPanelDeviceSnapshot
  lr_Settings :: historyPanelSettings
  lr_Actions :: historyPanelActionState
  lr_ActiveID :: string
  lr_Items :: "historyPanelListItem list"
  lr_FileTransfers :: "historyPanelFileTransfer list"
  lr_Events :: "historyPanelEvent list"

section \<open>The server and its requests\<close>

text \<open>\<open>hp_history\<close>: the manager and \<open>SetActive\<close> on it.\<close>

record 's historyPanelServer =
  hp_history :: "(('s \<Rightarrow> Manager) \<times> (string \<Rightarrow> 's \<Rightarrow> 's \<times> bool)) option"
  hp_replay :: "(string \<Rightarrow> string \<Rightarrow> 's \<Rightarrow> 's \<times> goerror option) option"
  hp_send :: "('s \<Rightarrow> 's \<times> goerror option) option"
  hp_connect :: "('s \<Rightarrow> 's) option"
  hp_disconnect :: "('s \<Rightarrow> 's) option"
  hp_overview :: "('s \<Rightarrow> historyPanelOverview) option"
  hp_devices :: "('s \<Rightarrow> historyPanelDeviceSnapshot) option"
  hp_settings :: "('s \<Rightarrow> historyPanelSettings) option"
  hp_save :: "(historyPanelSettingsInput \<Rightarrow> 's \<Rightarrow> 's \<times> historyPanelSettings result) option"
  hp_transfers :: "('s \<Rightarrow> historyPanelFileTransfer list) option"
  hp_events :: "('s \<Rightarrow> historyPanelEvent list) option"
  hp_needsSetup :: "('s \<Rightarrow> bool) option"
  hp_webPassword :: "('s \<Rightarrow> string) option"
  hp_setWebPassword :: "(string \<Rightarrow> 's \<Rightarrow> 's \<times> goerror option) option"

record 's PanelState =
  ps_app :: 's
  ps_sessions :: "string \<Rightarrow> gotime option"

record Request =
  rq_Method :: string
  rq_Query :: "string \<Rightarrow> string"
  rq_Body :: "bytes option"
  rq_Cookie :: "string option"
  rq_Now :: gotime
  rq_Random :: "octet list option"

datatype panel_body =
    ErrorBody string
  | OkBody
  | ActiveBody string
  | SettingsBody historyPanelSettings
  | ListBody historyPanelListResponse
  | PageBody bool bool
  | RedirectBody string

record Response =
  rs_Status :: int
  rs_Body :: panel_body
  rs_SetCookie :: "string option"

definition writeHistoryPanelJSON :: "int \<Rightarrow> panel_body \<Rightarrow> Response" where
  "writeHistoryPanelJSON status payload = \<lparr>rs_Status = status, rs_Body = payload, rs_SetCookie = None\<rparr>"

definition writeHistoryPanelJSONError :: "int \<Rightarrow> goerror option \<Rightarrow> Response" where
  "writeHistoryPanelJSONError status err =
     writeHistoryPanelJSON status (ErrorBody (case err of None \<Rightarrow> ''unknown error'' | Some e \<Rightarrow> e))"

section \<open>Items\<close>

definition stateName :: "ItemState \<Rightarrow> string" where
  "stateName s =
     (case s of StateReady \<Rightarrow> ''ready'' | StateOffered \<Rightarrow> ''offered'' | StateDownloading \<Rightarrow> ''downloading''
      | StateReadyToPaste \<Rightarrow> ''ready_to_paste'' | StateFailed \<Rightarrow> ''failed'' | StateConsumed \<Rightarrow> ''consumed''
      | StateOther t \<Rightarrow> t)"

text \<open>\<open>strings.Fields\<close>: the parts between white space, the second argument being the part read so far.\<close>

function fieldsFrom :: "string \<Rightarrow> string \<Rightarrow> string list" where
  "fieldsFrom s part =
     (if s = '''' then (if part = '''' then [] else [part])
      else (case leadingSpace s of
              Some e \<Rightarrow> (if part = '''' then [] else [part]) @ fieldsFrom (drop (length e) s) ''''
            | None \<Rightarrow> fieldsFrom (tl s) (part @ [hd s])))"
  by pat_completeness auto
termination
  by (relation "measure (\<lambda>(s, _). length s)") (auto dest: leadingSpace_length)

declare fieldsFrom.simps [simp del]

definition summarizeHistoryItem :: "HistoryItem option \<Rightarrow> string" where
  "summarizeHistoryItem item =
     (case item of
        None \<Rightarrow> ''''
      | Some it \<Rightarrow>
          if item_DisplayName it \<noteq> '''' then item_DisplayName it
          else if item_Type it = TypeText then
            (let text = joinChar '' '' (fieldsFrom (item_Payload it) '''') in
             if text = '''' then ''(empty text)''
             else if 160 < length text then take 157 text @ ''...'' else text)
          else if item_Type it = TypeImage then
            (if item_FileName it \<noteq> '''' then item_FileName it else ''Image clipboard item'')
          else if item_Type it = TypeFileStub \<or> item_Type it = TypeFileEager then
            (if item_FileName it \<noteq> '''' then item_FileName it else ''File item'')
          else (if item_FileName it \<noteq> '''' then item_FileName it else item_Type it))"

definition historyItemSizeBytes :: "HistoryItem option \<Rightarrow> int" where
  "historyItemSizeBytes item =
     (case item of
        None \<Rightarrow> 0
      | Some it \<Rightarrow>
          if item_Type it = TypeImage \<or> item_Type it = TypeFileEager then EstimatedBase64DecodedSize (item_Payload it)
          else if item_Type it = TypeText then int (length (item_Payload it))
          else if item_Type it = TypeFileStub then
            (case decodeManifest (item_Payload it) of None \<Rightarrow> 0 | Some m \<Rightarrow> man_EstimatedTotalBytes m)
          else int (length (item_Payload it)))"

definition historyItemSizeHuman :: "HistoryItem option \<Rightarrow> string" where
  "historyItemSizeHuman item =
     (let sz = historyItemSizeBytes item in if sz \<le> 0 then '''' else FormatBytes sz)"

definition historyPanelItemID :: "HistoryItem option \<Rightarrow> string" where
  "historyPanelItemID item = (case item of None \<Rightarrow> '''' | Some it \<Rightarrow> item_ID it)"

definition validateReplayableHistoryItem :: "HistoryItem option \<Rightarrow> goerror option" where
  "validateReplayableHistoryItem item =
     (case item of
        None \<Rightarrow> Some ErrNoActiveHistoryItem
      | Some it \<Rightarrow>
          if canReplayHistoryItem item then None
          else if item_Type it \<in> {TypeText, TypeImage, TypeFileStub, TypeFileEager}
          then Some (ErrUnsupportedReplayState @ '': '' @ stateName (item_State it))
          else Some (ErrUnsupportedReplayType @ '': '' @ item_Type it))"

definition ErrHistoryItemNotFound :: goerror where "ErrHistoryItemNotFound = ''history item not found''"

text \<open>\<open>errors.Is\<close> for an error that is the sentinel or wraps it in front.\<close>

definition isError :: "goerror \<Rightarrow> goerror \<Rightarrow> bool" where
  "isError err sentinel \<longleftrightarrow> err = sentinel \<or> hasPrefix err (sentinel @ '': '')"

definition historyPanelErrorStatus :: "goerror option \<Rightarrow> int" where
  "historyPanelErrorStatus err =
     (case err of
        None \<Rightarrow> 200
      | Some e \<Rightarrow>
          if isError e ErrHistoryItemNotFound \<or> isError e ErrNoActiveHistoryItem then 404
          else if isError e ErrUnsupportedReplayState \<or> isError e ErrUnsupportedReplayType then 409 else 500)"

section \<open>Input\<close>

record PanelInput =
  pi_ID :: string
  pi_Mode :: string

definition panelInputFields :: "PanelInput fields" where
  "panelInputFields = [(''id'', setStr (\<lambda>s r. r\<lparr>pi_ID := s\<rparr>)), (''mode'', setStr (\<lambda>s r. r\<lparr>pi_Mode := s\<rparr>))]"

definition historyPanelRequestInput :: "Request \<Rightarrow> (string \<times> string) result" where
  "historyPanelRequestInput r =
     (let i = trimSpace (rq_Query r ''id''); queryMode = trimSpace (rq_Query r ''mode'');
          orImmediate = (\<lambda>m. if m = ReplayModeNone then ReplayModeClipboardImmediate else m) in
      if i \<noteq> '''' then Inr (i, orImmediate queryMode)
      else (case rq_Body r of
              None \<Rightarrow> Inr ('''', ReplayModeClipboardImmediate)
            | Some body \<Rightarrow>
                (case decodeStream panelInputFields \<lparr>pi_ID = '''', pi_Mode = ''''\<rparr> body of
                   NoValue \<Rightarrow> Inr ('''', ReplayModeClipboardImmediate)
                 | BadValue \<Rightarrow> Inl ''invalid JSON body''
                 | Decoded payload \<Rightarrow> Inr (trimSpace (pi_ID payload), orImmediate (pi_Mode payload)))))"

record PasswordInput =
  pw_Password :: string

definition passwordFields :: "PasswordInput fields" where
  "passwordFields = [(''password'', setStr (\<lambda>s r. r\<lparr>pw_Password := s\<rparr>))]"

definition settingsFields :: "historyPanelSettingsInput fields" where
  "settingsFields = [(''server_url'', setStr (\<lambda>s r. r\<lparr>si_ServerURL := s\<rparr>)),
     (''username'', setStr (\<lambda>s r. r\<lparr>si_Username := s\<rparr>)), (''password'', setStr (\<lambda>s r. r\<lparr>si_Password := s\<rparr>)),
     (''e2ee_enabled'', setBool (\<lambda>b r. r\<lparr>si_E2EEEnabled := b\<rparr>)),
     (''p2p_enabled'', setBool (\<lambda>b r. r\<lparr>si_P2PEnabled := b\<rparr>)), (''stun_url'', setStr (\<lambda>s r. r\<lparr>si_StunURL := s\<rparr>)),
     (''auto_reconnect'', setBool (\<lambda>b r. r\<lparr>si_AutoReconnect := b\<rparr>)),
     (''reconnect_delay_sec'', setInt (\<lambda>i r. r\<lparr>si_ReconnectDelaySec := i\<rparr>)),
     (''file_memory_threshold_mib'', setInt (\<lambda>i r. r\<lparr>si_FileMemoryThresholdMiB := i\<rparr>))]"

definition zeroSettingsInput :: historyPanelSettingsInput where
  "zeroSettingsInput = \<lparr>si_ServerURL = '''', si_Username = '''', si_Password = '''', si_E2EEEnabled = False,
     si_P2PEnabled = False, si_StunURL = '''', si_AutoReconnect = False, si_ReconnectDelaySec = 0,
     si_FileMemoryThresholdMiB = 0\<rparr>"

section \<open>The handlers\<close>

text \<open>A handler answers with the state after it and the response.\<close>

type_synonym 's handler = "Request \<Rightarrow> 's PanelState \<Rightarrow> 's PanelState \<times> Response"

definition okResponse :: Response where "okResponse = writeHistoryPanelJSON 200 OkBody"

definition panelError :: "int \<Rightarrow> goerror \<Rightarrow> Response" where
  "panelError status err = writeHistoryPanelJSONError status (Some err)"

definition notAllowed :: Response where "notAllowed = panelError 405 ''method not allowed''"

text \<open>What every item of the list shows.\<close>

definition listItem :: "string \<Rightarrow> HistoryItem \<Rightarrow> historyPanelListItem" where
  "listItem activeID it =
     \<lparr>li_ID = item_ID it, li_Type = item_Type it, li_State = stateName (item_State it), li_DisplayName = item_DisplayName it,
      li_FileName = item_FileName it, li_SourceDevice = item_SourceDevice it, li_CreatedAt = item_CreatedAt it,
      li_UpdatedAt = item_UpdatedAt it, li_ErrorMessage = item_ErrorMessage it,
      li_Summary = summarizeHistoryItem (Some it), li_SizeBytes = historyItemSizeBytes (Some it),
      li_SizeHuman = historyItemSizeHuman (Some it), li_Active = (item_ID it \<noteq> '''' \<and> item_ID it = activeID),
      li_Replayable = canReplayHistoryItem (Some it)\<rparr>"

definition zeroOverview :: historyPanelOverview where
  "zeroOverview = \<lparr>ov_ConnectionStatus = '''', ov_ServerURL = '''', ov_Username = '''', ov_E2EEEnabled = False,
     ov_P2PEnabled = False, ov_P2PReadyPeers = 0, ov_FileMemoryThresholdMiB = 0, ov_ActiveSummary = '''', ov_ActiveType = '''',
     ov_ActiveState = '''', ov_TotalItems = 0, ov_ReplayableItems = 0\<rparr>"

definition zeroDevices :: historyPanelDeviceSnapshot where
  "zeroDevices = \<lparr>ds_Local = None, ds_Peers = [], ds_LocalSessionID = '''', ds_P2PSessionID = '''', ds_PeerIDs = [],
     ds_ReadyPeerIDs = []\<rparr>"

definition zeroSettings :: historyPanelSettings where
  "zeroSettings = \<lparr>st_ServerURL = '''', st_Username = '''', st_PasswordConfigured = False, st_E2EEEnabled = False,
     st_P2PEnabled = False, st_StunURL = '''', st_AutoReconnect = False, st_ReconnectDelaySec = 0,
     st_FileMemoryThresholdMiB = 0\<rparr>"

definition noActions :: historyPanelActionState where
  "noActions = \<lparr>as_CanConnect = False, as_CanDisconnect = False, as_CanSendCurrent = False, as_CanReplayActive = False,
     as_CanSaveSettings = False\<rparr>"

text \<open>The status of a running connection ends with a check mark.\<close>

definition connectedStatus :: string where
  "connectedStatus = ''Connected '' @ [CHR 0xE2, CHR 0x9C, CHR 0x93]"

definition snapshot :: "'s historyPanelServer \<Rightarrow> 's \<Rightarrow> historyPanelListResponse" where
  "snapshot s app =
     (case hp_history s of
        None \<Rightarrow> \<lparr>lr_Overview = zeroOverview, lr_Devices = zeroDevices, lr_Settings = zeroSettings, lr_Actions = noActions,
                lr_ActiveID = '''', lr_Items = [], lr_FileTransfers = [], lr_Events = []\<rparr>
      | Some (manager, _) \<Rightarrow>
          (let active = GetActive (manager app);
               activeID = historyPanelItemID active;
               items = map (listItem activeID) (ListItems (manager app));
               ov0 = (case hp_overview s of None \<Rightarrow> zeroOverview | Some f \<Rightarrow> f app);
               status = (if ov_ConnectionStatus ov0 = '''' then ''Disconnected'' else ov_ConnectionStatus ov0);
               ov1 = ov0\<lparr>ov_ConnectionStatus := status, ov_TotalItems := length items,
                         ov_ReplayableItems := length (filter li_Replayable items)\<rparr>;
               ov2 = (case active of
                        None \<Rightarrow> ov1
                      | Some it \<Rightarrow> ov1\<lparr>ov_ActiveSummary := summarizeHistoryItem active, ov_ActiveType := item_Type it,
                                      ov_ActiveState := stateName (item_State it)\<rparr>) in
           \<lparr>lr_Overview = ov2,
            lr_Devices = (case hp_devices s of None \<Rightarrow> zeroDevices | Some f \<Rightarrow> f app),
            lr_Settings = (case hp_settings s of None \<Rightarrow> zeroSettings | Some f \<Rightarrow> f app),
            lr_Actions =
              \<lparr>as_CanConnect = (hp_connect s \<noteq> None \<and> status \<noteq> connectedStatus \<and> status \<noteq> ''Connecting...'' \<and>
                                status \<noteq> ''Reconnecting...''),
               as_CanDisconnect = (hp_disconnect s \<noteq> None \<and> status = connectedStatus),
               as_CanSendCurrent = (hp_send s \<noteq> None),
               as_CanReplayActive = (hp_replay s \<noteq> None \<and> canReplayHistoryItem active),
               as_CanSaveSettings = (hp_save s \<noteq> None)\<rparr>,
            lr_ActiveID = activeID, lr_Items = items,
            lr_FileTransfers = (case hp_transfers s of None \<Rightarrow> [] | Some f \<Rightarrow> f app),
            lr_Events = (case hp_events s of None \<Rightarrow> [] | Some f \<Rightarrow> f app)\<rparr>))"

definition handleList :: "'s historyPanelServer \<Rightarrow> 's handler" where
  "handleList s r ps =
     (if rq_Method r \<noteq> ''GET'' then (ps, notAllowed)
      else (ps, writeHistoryPanelJSON 200 (ListBody (snapshot s (ps_app ps)))))"

definition handleSetActive :: "'s historyPanelServer \<Rightarrow> 's handler" where
  "handleSetActive s r ps =
     (if rq_Method r \<noteq> ''POST'' then (ps, notAllowed)
      else (case hp_history s of
              None \<Rightarrow> (ps, panelError 503 ''history manager unavailable'')
            | Some (_, setActive) \<Rightarrow>
                (case historyPanelRequestInput r of
                   Inl err \<Rightarrow> (ps, panelError 400 err)
                 | Inr (i, _) \<Rightarrow>
                     if i = '''' then (ps, panelError 400 ''missing history item id'')
                     else (case setActive i (ps_app ps) of
                             (app, False) \<Rightarrow> (ps\<lparr>ps_app := app\<rparr>, panelError 404 ErrHistoryItemNotFound)
                           | (app, True) \<Rightarrow> (ps\<lparr>ps_app := app\<rparr>, writeHistoryPanelJSON 200 (ActiveBody i))))))"

definition handleReplay :: "'s historyPanelServer \<Rightarrow> 's handler" where
  "handleReplay s r ps =
     (if rq_Method r \<noteq> ''POST'' then (ps, notAllowed)
      else (case hp_history s of
              None \<Rightarrow> (ps, panelError 503 ''history manager unavailable'')
            | Some (manager, _) \<Rightarrow>
                (case hp_replay s of
                   None \<Rightarrow> (ps, panelError 503 ''history replay unavailable'')
                 | Some replay \<Rightarrow>
                     (case historyPanelRequestInput r of
                        Inl err \<Rightarrow> (ps, panelError 400 err)
                      | Inr (i, mode) \<Rightarrow>
                          (let item = (if i \<noteq> '''' then GetByID i (manager (ps_app ps)) else GetActive (manager (ps_app ps))) in
                           if i \<noteq> '''' \<and> item = None then (ps, panelError 404 ErrHistoryItemNotFound)
                           else (case validateReplayableHistoryItem item of
                                   Some err \<Rightarrow> (ps, panelError (historyPanelErrorStatus (Some err)) err)
                                 | None \<Rightarrow>
                                     (case replay (historyPanelItemID item) mode (ps_app ps) of
                                        (app, Some err) \<Rightarrow>
                                          (ps\<lparr>ps_app := app\<rparr>, panelError (historyPanelErrorStatus (Some err)) err)
                                      | (app, None) \<Rightarrow>
                                          (ps\<lparr>ps_app := app\<rparr>,
                                           writeHistoryPanelJSON 200 (ActiveBody (historyPanelItemID item))))))))))"

definition handleSendCurrent :: "'s historyPanelServer \<Rightarrow> 's handler" where
  "handleSendCurrent s r ps =
     (if rq_Method r \<noteq> ''POST'' then (ps, notAllowed)
      else (case hp_send s of
              None \<Rightarrow> (ps, panelError 503 ''send current clipboard unavailable'')
            | Some send \<Rightarrow>
                (case send (ps_app ps) of
                   (app, Some err) \<Rightarrow> (ps\<lparr>ps_app := app\<rparr>, panelError 500 err)
                 | (app, None) \<Rightarrow> (ps\<lparr>ps_app := app\<rparr>, okResponse))))"

definition handleConnect :: "'s historyPanelServer \<Rightarrow> 's handler" where
  "handleConnect s r ps =
     (if rq_Method r \<noteq> ''POST'' then (ps, notAllowed)
      else (case hp_connect s of
              None \<Rightarrow> (ps, panelError 503 ''connect action unavailable'')
            | Some act \<Rightarrow> (ps\<lparr>ps_app := act (ps_app ps)\<rparr>, okResponse)))"

definition handleDisconnect :: "'s historyPanelServer \<Rightarrow> 's handler" where
  "handleDisconnect s r ps =
     (if rq_Method r \<noteq> ''POST'' then (ps, notAllowed)
      else (case hp_disconnect s of
              None \<Rightarrow> (ps, panelError 503 ''disconnect action unavailable'')
            | Some act \<Rightarrow> (ps\<lparr>ps_app := act (ps_app ps)\<rparr>, okResponse)))"

definition handleSettings :: "'s historyPanelServer \<Rightarrow> 's handler" where
  "handleSettings s r ps =
     (if rq_Method r \<noteq> ''POST'' then (ps, notAllowed)
      else (case hp_save s of
              None \<Rightarrow> (ps, panelError 503 ''settings save unavailable'')
            | Some save \<Rightarrow>
                (case rq_Body r of
                   None \<Rightarrow> (ps, panelError 400 ''missing JSON body'')
                 | Some body \<Rightarrow>
                     (case decodeStream settingsFields zeroSettingsInput body of
                        NoValue \<Rightarrow> (ps, panelError 400 ''missing JSON body'')
                      | BadValue \<Rightarrow> (ps, panelError 400 ''invalid JSON body'')
                      | Decoded input \<Rightarrow>
                          (case save input (ps_app ps) of
                             (app, Inl err) \<Rightarrow> (ps\<lparr>ps_app := app\<rparr>, panelError 400 err)
                           | (app, Inr settings) \<Rightarrow>
                               (ps\<lparr>ps_app := app\<rparr>, writeHistoryPanelJSON 200 (SettingsBody settings)))))))"

section \<open>Password and sessions\<close>

definition webSessionMaxAge :: gotime where "webSessionMaxAge = 24 * 60 * 60 * 1000000000"

definition historyPanelToken :: "octet list option \<Rightarrow> string result" where
  "historyPanelToken random = (case random of None \<Rightarrow> Inl ''no random bytes'' | Some buf \<Rightarrow> Inr (hexBytes buf))"

definition isWebPasswordSet :: "'s historyPanelServer \<Rightarrow> 's \<Rightarrow> bool" where
  "isWebPasswordSet s app = (case hp_webPassword s of None \<Rightarrow> False | Some f \<Rightarrow> trimSpace (f app) \<noteq> '''')"

definition isValidSession :: "gotime \<Rightarrow> string \<Rightarrow> 's PanelState \<Rightarrow> 's PanelState \<times> bool" where
  "isValidSession now token ps =
     (if token = '''' then (ps, False)
      else (case ps_sessions ps token of
              None \<Rightarrow> (ps, False)
            | Some created \<Rightarrow>
                if webSessionMaxAge < now - created
                then (ps\<lparr>ps_sessions := (ps_sessions ps)(token := None)\<rparr>, False) else (ps, True)))"

definition requireAuth :: "'s historyPanelServer \<Rightarrow> 's handler \<Rightarrow> 's handler" where
  "requireAuth s next r ps =
     (if \<not> isWebPasswordSet s (ps_app ps) then next r ps
      else (case (case rq_Cookie r of None \<Rightarrow> (ps, False) | Some token \<Rightarrow> isValidSession (rq_Now r) token ps) of
              (ps1, False) \<Rightarrow> (ps1, panelError 401 ''unauthorized'')
            | (ps1, True) \<Rightarrow> next r ps1))"

definition createSession :: "gotime \<Rightarrow> octet list option \<Rightarrow> 's PanelState \<Rightarrow> 's PanelState \<times> string result" where
  "createSession now random ps =
     (case historyPanelToken random of
        Inl err \<Rightarrow> (ps, Inl err)
      | Inr token \<Rightarrow>
          (let young = (\<lambda>t. case ps_sessions ps t of
                              None \<Rightarrow> None | Some created \<Rightarrow> if webSessionMaxAge < now - created then None else Some created) in
           (ps\<lparr>ps_sessions := young(token \<mapsto> now)\<rparr>, Inr token)))"

definition decodePassword :: "bytes \<Rightarrow> string option" where
  "decodePassword body =
     (case decodeStream passwordFields \<lparr>pw_Password = ''''\<rparr> body of Decoded p \<Rightarrow> Some (pw_Password p) | _ \<Rightarrow> None)"

definition handleWebLogin :: "'s historyPanelServer \<Rightarrow> 's handler" where
  "handleWebLogin s r ps =
     (if rq_Method r \<noteq> ''POST'' then (ps, notAllowed)
      else (case rq_Body r of
              None \<Rightarrow> (ps, panelError 400 ''missing JSON body'')
            | Some body \<Rightarrow>
                (case decodePassword body of
                   None \<Rightarrow> (ps, panelError 400 ''invalid JSON body'')
                 | Some password \<Rightarrow>
                     if \<not> isWebPasswordSet s (ps_app ps) then (ps, okResponse)
                     else if password \<noteq> (case hp_webPassword s of None \<Rightarrow> '''' | Some f \<Rightarrow> f (ps_app ps))
                     then (ps, panelError 401 ''invalid password'')
                     else (case createSession (rq_Now r) (rq_Random r) ps of
                             (ps1, Inl _) \<Rightarrow> (ps1, panelError 500 ''session creation failed'')
                           | (ps1, Inr token) \<Rightarrow> (ps1, okResponse\<lparr>rs_SetCookie := Some token\<rparr>)))))"

definition handleSetWebPassword :: "'s historyPanelServer \<Rightarrow> 's handler" where
  "handleSetWebPassword s r ps =
     (if rq_Method r \<noteq> ''POST'' then (ps, notAllowed)
      else (case hp_setWebPassword s of
              None \<Rightarrow> (ps, panelError 503 ''set web password unavailable'')
            | Some setPassword \<Rightarrow>
                (case rq_Body r of
                   None \<Rightarrow> (ps, panelError 400 ''missing JSON body'')
                 | Some body \<Rightarrow>
                     (case decodePassword body of
                        None \<Rightarrow> (ps, panelError 400 ''invalid JSON body'')
                      | Some password \<Rightarrow>
                          (case setPassword password (ps_app ps) of
                             (app, Some err) \<Rightarrow> (ps\<lparr>ps_app := app\<rparr>, panelError 500 err)
                           | (app, None) \<Rightarrow> (ps\<lparr>ps_app := app, ps_sessions := Map.empty\<rparr>, okResponse))))))"

section \<open>The page and the routes\<close>

definition handleIndex :: "'s historyPanelServer \<Rightarrow> 's handler" where
  "handleIndex s r ps =
     (if rq_Method r \<noteq> ''GET'' then (ps, notAllowed)
      else (ps, writeHistoryPanelJSON 200 (PageBody (case hp_needsSetup s of None \<Rightarrow> False | Some f \<Rightarrow> f (ps_app ps))
                  (isWebPasswordSet s (ps_app ps)))))"

definition protectedRoutes :: "(string \<times> ('s historyPanelServer \<Rightarrow> 's handler)) list" where
  "protectedRoutes = [(''api/list'', handleList), (''api/set-active'', handleSetActive), (''api/replay'', handleReplay),
     (''api/send-current'', handleSendCurrent), (''api/connect'', handleConnect), (''api/disconnect'', handleDisconnect),
     (''api/settings'', handleSettings), (''api/set-web-password'', handleSetWebPassword)]"

definition notFound :: Response where "notFound = panelError 404 ''404 page not found''"

text \<open>The path after the base path, which holds the token of the server.\<close>

definition serve :: "string \<Rightarrow> string \<Rightarrow> 's historyPanelServer \<Rightarrow> 's handler" where
  "serve basePath path s r ps =
     (if path @ ''/'' = basePath then (ps, writeHistoryPanelJSON 307 (RedirectBody basePath))
      else if \<not> hasPrefix path basePath then (ps, notFound)
      else (let rest = drop (length basePath) path in
            if rest = ''api/web-login'' then handleWebLogin s r ps
            else (case map_of protectedRoutes rest of
                    Some h \<Rightarrow> requireAuth s (h s) r ps
                  | None \<Rightarrow> if rest = '''' then handleIndex s r ps else (ps, notFound))))"

definition listenPort :: "int \<Rightarrow> int" where
  "listenPort webPort = (if webPort \<le> 0 \<or> 65535 < webPort then DefaultWebPort else webPort)"

text \<open>\<open>EnsureStarted\<close>: the running server, or a new one on the wanted port or any other. \<open>listen\<close> answers with the address.\<close>

definition EnsureStarted ::
  "(string \<Rightarrow> string result) \<Rightarrow> octet list option \<Rightarrow> int \<Rightarrow> string option \<Rightarrow> string option \<times> string result" where
  "EnsureStarted listen random webPort running =
     (case running of
        Some url \<Rightarrow> (running, Inr url)
      | None \<Rightarrow>
          (case historyPanelToken random of
             Inl err \<Rightarrow> (None, Inl (''generate history panel token: '' @ err))
           | Inr token \<Rightarrow>
               (case (case listen (''127.0.0.1:'' @ showInt (listenPort webPort)) of
                        Inr addr \<Rightarrow> Inr addr | Inl _ \<Rightarrow> listen ''127.0.0.1:0'') of
                  Inl err \<Rightarrow> (None, Inl (''listen for history panel: '' @ err))
                | Inr addr \<Rightarrow> (let url = ''http://'' @ addr @ ''/'' @ token @ ''/'' in (Some url, Inr url)))))"

definition protectedPaths :: "string list" where
  "protectedPaths = [''api/list'', ''api/set-active'', ''api/replay'', ''api/send-current'', ''api/connect'', ''api/disconnect'',
     ''api/settings'', ''api/set-web-password'']"

section \<open>Runs\<close>

text \<open>Between requests the program may do anything to its own state.\<close>

datatype 's panel_event = Served "'s historyPanelServer" string Request | AppChanges 's

definition panel_step :: "string \<Rightarrow> 's panel_event \<Rightarrow> 's PanelState \<Rightarrow> 's PanelState" where
  "panel_step base ev ps =
     (case ev of Served s path r \<Rightarrow> fst (serve base path s r ps) | AppChanges app \<Rightarrow> ps\<lparr>ps_app := app\<rparr>)"

definition panel_run :: "string \<Rightarrow> 's panel_event list \<Rightarrow> 's PanelState \<Rightarrow> 's PanelState" where
  "panel_run base evs ps = fold (panel_step base) evs ps"

definition panel_start :: "'s \<Rightarrow> 's PanelState" where
  "panel_start app = \<lparr>ps_app = app, ps_sessions = Map.empty\<rparr>"

text \<open>A login with the password the panel has at that moment, which is given \<open>token\<close>.\<close>

definition is_login :: "string \<Rightarrow> 's panel_event \<Rightarrow> 's PanelState \<Rightarrow> string \<Rightarrow> gotime \<Rightarrow> bool" where
  "is_login base ev ps token now =
     (case ev of
        AppChanges _ \<Rightarrow> False
      | Served s path r \<Rightarrow>
          path = base @ ''api/web-login'' \<and> rq_Method r = ''POST'' \<and> isWebPasswordSet s (ps_app ps) \<and>
          (case rq_Body r of None \<Rightarrow> False
           | Some body \<Rightarrow> decodePassword body = Some (case hp_webPassword s of None \<Rightarrow> '''' | Some f \<Rightarrow> f (ps_app ps))) \<and>
          historyPanelToken (rq_Random r) = Inr token \<and> rq_Now r = now)"

definition changes_password :: "string \<Rightarrow> 's panel_event \<Rightarrow> 's PanelState \<Rightarrow> bool" where
  "changes_password base ev ps =
     (case ev of
        AppChanges _ \<Rightarrow> False
      | Served s path r \<Rightarrow>
          path = base @ ''api/set-web-password'' \<and> rs_Status (snd (serve base path s r ps)) = 200)"

lemmas response_defs = okResponse_def panelError_def notAllowed_def notFound_def writeHistoryPanelJSONError_def
  writeHistoryPanelJSON_def

lemma plain_handlers:
  assumes "(p, h) \<in> set protectedRoutes" "p \<noteq> ''api/set-web-password''"
  shows "ps_sessions (fst (h s r ps)) = ps_sessions ps"
proof -
  have "ps_sessions (fst (handleReplay s r ps)) = ps_sessions ps"
    by (auto simp: handleReplay_def Let_def split: option.split sum.split prod.split)
  then show ?thesis
    using assms
    by (auto simp: protectedRoutes_def handleList_def handleSetActive_def handleSendCurrent_def handleConnect_def
        handleDisconnect_def handleSettings_def split: option.split sum.split prod.split bool.split decoded.split)
qed

lemma valid_session:
  "isValidSession now token ps = (ps', ok) \<Longrightarrow> ps_sessions ps' t = Some c \<Longrightarrow> ps_sessions ps t = Some c"
  "isValidSession now token ps = (ps', ok) \<Longrightarrow> ps_app ps' = ps_app ps"
  "isValidSession now token ps = (ps', True) \<Longrightarrow>
     ps' = ps \<and> (\<exists>created. ps_sessions ps token = Some created \<and> now - created \<le> webSessionMaxAge)"
  by (auto simp: isValidSession_def split: if_splits option.splits)

lemma login_sessions:
  assumes "ps_sessions (fst (handleWebLogin s r ps)) t = Some c"
  shows "ps_sessions ps t = Some c \<or> is_login base (Served s (base @ ''api/web-login'') r) ps t c"
  using assms
  by (auto simp: handleWebLogin_def createSession_def is_login_def Let_def
      split: if_splits option.splits sum.splits)

lemma set_password_sessions:
  assumes "ps_sessions (fst (handleSetWebPassword s r ps)) t = Some c"
  shows "ps_sessions ps t = Some c \<and> rs_Status (snd (handleSetWebPassword s r ps)) \<noteq> 200"
  using assms
  by (auto simp: handleSetWebPassword_def response_defs split: if_splits option.splits prod.splits)

lemma requireAuth_cases:
  assumes "isWebPasswordSet s (ps_app ps)"
  shows "(\<exists>token created. rq_Cookie r = Some token \<and> ps_sessions ps token = Some created \<and>
       rq_Now r - created \<le> webSessionMaxAge \<and> requireAuth s h r ps = h r ps) \<or>
     (\<exists>ps1. requireAuth s h r ps = (ps1, panelError 401 ''unauthorized'') \<and> ps_app ps1 = ps_app ps \<and>
       (\<forall>t c. ps_sessions ps1 t = Some c \<longrightarrow> ps_sessions ps t = Some c))"
proof (cases "rq_Cookie r")
  case None
  then show ?thesis using assms by (simp add: requireAuth_def)
next
  case (Some token)
  obtain ps1 ok where v: "isValidSession (rq_Now r) token ps = (ps1, ok)" by fastforce
  show ?thesis
  proof (cases ok)
    case True
    then show ?thesis using v valid_session(3) [of "rq_Now r" token ps ps1] assms Some by (auto simp: requireAuth_def)
  next
    case False
    then show ?thesis using v valid_session(1,2) [of "rq_Now r" token ps ps1 ok] assms Some by (auto simp: requireAuth_def)
  qed
qed

lemma step_sessions:
  fixes ev :: "'a panel_event"
  assumes "ps_sessions (panel_step base ev ps) t = Some c"
  shows "(ps_sessions ps t = Some c \<and> \<not> changes_password base ev ps) \<or> is_login base ev ps t c"
proof (cases ev)
  case (AppChanges app)
  then show ?thesis using assms by (simp add: panel_step_def changes_password_def)
next
  case (Served s path r)
  let ?rest = "drop (length base) path"
  have res: "ps_sessions (fst (serve base path s r ps)) t = Some c" using assms Served by (simp add: panel_step_def)
  show ?thesis
  proof (cases "path @ ''/'' = base \<or> \<not> hasPrefix path base")
    case True
    then have "path \<noteq> base @ x" for x by (auto simp: hasPrefix_def)
    moreover have "fst (serve base path s r ps) = ps" using True by (auto simp: serve_def)
    ultimately show ?thesis using res Served by (simp add: changes_password_def)
  next
    case False
    then have path: "path = base @ ?rest" by (auto simp: hasPrefix_def prefix_def)
    have serve: "serve base path s r ps =
        (if ?rest = ''api/web-login'' then handleWebLogin s r ps
         else (case map_of protectedRoutes ?rest of
                 Some h \<Rightarrow> requireAuth s (h s) r ps
               | None \<Rightarrow> if ?rest = '''' then handleIndex s r ps else (ps, notFound)))"
      using False by (simp add: serve_def Let_def)
    define routes :: "(string \<times> ('a historyPanelServer \<Rightarrow> 'a handler)) list" where "routes = protectedRoutes"
    consider (login) "?rest = ''api/web-login''" | (protected) h where "map_of routes ?rest = Some h" "?rest \<noteq> ''api/web-login''"
      | (other) "?rest \<noteq> ''api/web-login''" "map_of routes ?rest = None" by blast
    then show ?thesis
    proof cases
      case login
      then have "path = base @ ''api/web-login''" using path by simp
      moreover have "ps_sessions (fst (handleWebLogin s r ps)) t = Some c" using res login by (simp add: serve)
      ultimately show ?thesis using login_sessions [of s r ps t c base] Served by (auto simp: changes_password_def)
    next
      case other
      then have "?rest \<noteq> ''api/set-web-password''" by (auto simp: routes_def protectedRoutes_def)
      then have "path \<noteq> base @ ''api/set-web-password''" by (metis append_eq_conv_conj)
      moreover have "fst (serve base path s r ps) = ps" using other by (simp add: serve handleIndex_def routes_def)
      ultimately show ?thesis using res Served by (simp add: changes_password_def)
    next
      case protected
      then have eq: "serve base path s r ps = requireAuth s (h s) r ps" by (simp add: serve routes_def)
      have mem: "(?rest, h) \<in> set protectedRoutes" using protected(1) unfolding routes_def by (rule map_of_SomeD)
      have run: "(ps_sessions ps t = Some c \<and> \<not> changes_password base ev ps)"
        if "requireAuth s (h s) r ps = h s r ps"
      proof (cases "?rest = ''api/set-web-password''")
        case True
        then have h: "h = handleSetWebPassword" using protected(1) by (simp add: routes_def protectedRoutes_def)
        have "ps_sessions (fst (handleSetWebPassword s r ps)) t = Some c" using res eq that h by simp
        from set_password_sessions [OF this] show ?thesis
          using eq that h Served by (simp add: changes_password_def)
      next
        case set: False
        then have "ps_sessions ps t = Some c" using plain_handlers [OF mem set, of s r ps] res eq that by simp
        moreover have "path \<noteq> base @ ''api/set-web-password''" using set by (metis append_eq_conv_conj)
        ultimately show ?thesis using Served by (simp add: changes_password_def)
      qed
      show ?thesis
      proof (cases "isWebPasswordSet s (ps_app ps)")
        case False
        then show ?thesis using run by (simp add: requireAuth_def)
      next
        case True
        from requireAuth_cases [OF this, of r "h s"] show ?thesis
        proof (elim disjE exE conjE)
          fix ps1
          assume a: "requireAuth s (h s) r ps = (ps1, panelError 401 ''unauthorized'')"
            "\<forall>t c. ps_sessions ps1 t = Some c \<longrightarrow> ps_sessions ps t = Some c"
          then show ?thesis using res eq Served by (simp add: changes_password_def response_defs)
        qed (use run in simp)
      qed
    qed
  qed
qed

text \<open>Every session goes back to a login after which the password was not changed.\<close>

definition logged_in :: "string \<Rightarrow> 's panel_event list \<Rightarrow> 's \<Rightarrow> string \<Rightarrow> gotime \<Rightarrow> bool" where
  "logged_in base evs app token created \<longleftrightarrow>
     (\<exists>pre ev post. evs = pre @ ev # post \<and> is_login base ev (panel_run base pre (panel_start app)) token created \<and>
        (\<forall>mid ev' rest. post = mid @ ev' # rest \<longrightarrow>
           \<not> changes_password base ev' (panel_run base (pre @ ev # mid) (panel_start app))))"

lemma session_logged_in:
  "ps_sessions (panel_run base evs (panel_start app)) t = Some c \<Longrightarrow> logged_in base evs app t c"
proof (induction evs rule: rev_induct)
  case Nil
  then show ?case by (simp add: panel_run_def panel_start_def)
next
  case (snoc ev evs)
  let ?ps = "panel_run base evs (panel_start app)"
  have "panel_run base (evs @ [ev]) (panel_start app) = panel_step base ev ?ps" by (simp add: panel_run_def)
  then have "(ps_sessions ?ps t = Some c \<and> \<not> changes_password base ev ?ps) \<or> is_login base ev ?ps t c"
    using snoc.prems step_sessions [of base ev ?ps t c] by simp
  then show ?case
  proof
    assume "is_login base ev ?ps t c"
    then show ?thesis unfolding logged_in_def by blast
  next
    assume a: "ps_sessions ?ps t = Some c \<and> \<not> changes_password base ev ?ps"
    then obtain pre ev0 post where d: "evs = pre @ ev0 # post"
      "is_login base ev0 (panel_run base pre (panel_start app)) t c"
      "\<forall>mid ev' rest. post = mid @ ev' # rest \<longrightarrow>
         \<not> changes_password base ev' (panel_run base (pre @ ev0 # mid) (panel_start app))"
      using snoc.IH unfolding logged_in_def by blast
    have "\<not> changes_password base ev' (panel_run base (pre @ ev0 # mid) (panel_start app))"
      if "post @ [ev] = mid @ ev' # rest" for mid ev' rest
    proof (cases rest rule: rev_cases)
      case Nil
      then show ?thesis using that a d(1) by simp
    next
      case (snoc rest' x)
      then show ?thesis using that d(3) by auto
    qed
    moreover have "evs @ [ev] = pre @ ev0 # post @ [ev]" using d(1) by simp
    ultimately show ?thesis unfolding logged_in_def using d(2) by blast
  qed
qed

text \<open>C5: The password guards the control panel. While it has a password, a request to any route of its API that is
  protected (the list, the history, sending, connecting, the settings, the password itself) is refused and
  changes nothing of the program, unless it carries a token that was given to a login with the password the panel
  had then, at most 24 hours ago, and the password has not been changed through the panel since.\<close>
theorem panel_protected:
  fixes s :: "'a historyPanelServer"
  assumes "ps = panel_run base evs (panel_start app)" "isWebPasswordSet s (ps_app ps)"
    and "route \<in> set protectedPaths"
  shows "(\<exists>ps'. serve base (base @ route) s r ps = (ps', panelError 401 ''unauthorized'') \<and> ps_app ps' = ps_app ps) \<or>
    (\<exists>token created. rq_Cookie r = Some token \<and> rq_Now r - created \<le> webSessionMaxAge \<and>
       logged_in base evs app token created)"
proof -
  obtain h :: "'a historyPanelServer \<Rightarrow> 'a handler" where "map_of protectedRoutes route = Some h" "route \<noteq> ''api/web-login''"
    using assms(3) by (auto simp: protectedRoutes_def protectedPaths_def)
  moreover have "(base @ route) @ ''/'' \<noteq> base" by simp
  ultimately have "serve base (base @ route) s r ps = requireAuth s (h s) r ps"
    by (simp add: serve_def hasPrefix_def Let_def)
  with requireAuth_cases [OF assms(2), of r "h s"] show ?thesis
    using session_logged_in [of base evs app] assms(1) by (elim disjE exE conjE) auto
qed

end
