(* ===== verification/ControlCenter.thy ===== *)
theory ControlCenter
  imports Panel P2PClient
begin

text \<open>
  The control center: what the program gives the panel to show and to do (\<open>desktop/app/control_center.go\<close>, the
  overview of \<open>history_panel.go\<close>, the functions \<open>New\<close> hands over in \<open>application.go\<close>). The state joins the parts
  of the program the other theories model: its connections, its history and clipboard, its configuration file.
\<close>

record ControlApp =
  ca_desk :: Desktop
  ca_app :: App
  ca_conf :: ConfState
  ca_p2p :: "P2PClient option"
  ca_connectCalls :: nat

text \<open>The environment of one request: the machine, the clock, and what reading the clipboard gives.\<close>

record ControlEnv =
  cn_conf :: ConfEnv
  cn_env :: Env
  cn_now :: gotime
  cn_foldEq :: "string \<Rightarrow> string \<Rightarrow> bool"
  cn_sys :: ClipSys
  cn_initErr :: "goerror option"
  cn_platform :: Platform

definition withConfig :: "Config \<Rightarrow> ControlApp \<Rightarrow> ControlApp" where
  "withConfig cfg ca = ca\<lparr>ca_desk := (ca_desk ca)\<lparr>d_cfg := cfg\<rparr>\<rparr>"

text \<open>The program as the clipboard code sees it.\<close>

definition appView :: "ControlApp \<Rightarrow> App" where
  "appView ca =
     (let d = ca_desk ca in
      (ca_app ca)\<lparr>app_cfg := d_cfg d, app_encKey := d_encKey d, app_hasStomp := d_stomp d \<noteq> None,
                  app_hasP2P := ca_p2p ca \<noteq> None, app_reconnecting := d_reconnecting d\<rparr>)"

section \<open>What is shown\<close>

definition thresholdMiB :: "Config \<Rightarrow> int" where
  "thresholdMiB cfg = FileMemoryThresholdBytes (Some cfg) div 2 ^ 20"

definition historyPanelOverviewOf :: "ControlApp \<Rightarrow> historyPanelOverview" where
  "historyPanelOverviewOf ca =
     (let d = ca_desk ca; cfg = d_cfg d in
      zeroOverview\<lparr>
        ov_ConnectionStatus :=
          (if stompUp d then connectedStatus else if d_reconnecting d then ''Reconnecting...''
           else if d_connecting d then ''Connecting...'' else ''Disconnected''),
        ov_ServerURL := cfg_ServerURL cfg, ov_Username := cfg_Username cfg, ov_E2EEEnabled := cfg_E2EEEnabled cfg,
        ov_P2PEnabled := cfg_P2PEnabled cfg, ov_FileMemoryThresholdMiB := thresholdMiB cfg,
        ov_P2PReadyPeers := (case ca_p2p ca of None \<Rightarrow> 0 | Some p \<Rightarrow> int (ReadyPeerCount p))\<rparr>)"

definition historyPanelDevices :: "ControlApp \<Rightarrow> historyPanelDeviceSnapshot" where
  "historyPanelDevices ca =
     (let localSessionID = appSessionID (ca_app ca);
          username = trimSpace (cfg_Username (d_cfg (ca_desk ca)));
          localName = (if username \<noteq> '''' then username else ''local'');
          base = zeroDevices\<lparr>ds_LocalSessionID := localSessionID,
            ds_Local := Some \<lparr>dv_DeviceName = localName, dv_SessionID = localSessionID, dv_Local = True, dv_Ready = True\<rparr>\<rparr> in
      case ca_p2p ca of
        None \<Rightarrow> base
      | Some p \<Rightarrow>
          (let snap = SnapshotOf p in
           base\<lparr>ds_P2PSessionID := AssignedSessionID snap, ds_PeerIDs := PeerIDs snap, ds_ReadyPeerIDs := ReadyPeerIDs snap,
                ds_Peers := map (\<lambda>peerID. \<lparr>dv_DeviceName = peerID, dv_SessionID = peerID, dv_Local = False,
                                           dv_Ready = peerID \<in> set (ReadyPeerIDs snap)\<rparr>) (PeerIDs snap)\<rparr>))"

definition historyPanelSettingsOf :: "ControlApp \<Rightarrow> historyPanelSettings" where
  "historyPanelSettingsOf ca =
     (let cfg = d_cfg (ca_desk ca) in
      \<lparr>st_ServerURL = cfg_ServerURL cfg, st_Username = cfg_Username cfg,
       st_PasswordConfigured = (trimSpace (cfg_Password cfg) \<noteq> ''''), st_E2EEEnabled = cfg_E2EEEnabled cfg,
       st_P2PEnabled = cfg_P2PEnabled cfg,
       st_StunURL = (if cfg_StunURL cfg = '''' then DefaultStunURL else cfg_StunURL cfg),
       st_AutoReconnect = cfg_AutoReconnect cfg,
       st_ReconnectDelaySec = (if cfg_ReconnectDelay cfg \<le> 0 then DefaultReconnectDelay else cfg_ReconnectDelay cfg),
       st_FileMemoryThresholdMiB = thresholdMiB cfg\<rparr>)"

definition fileTransfer :: "ControlApp \<Rightarrow> HistoryItem \<Rightarrow> historyPanelFileTransfer" where
  "fileTransfer ca it =
     (let incoming = GetIncoming (item_TransferID it) (ca_app ca) in
      \<lparr>ft_ID = item_ID it, ft_TransferID = item_TransferID it, ft_DisplayName = summarizeHistoryItem (Some it),
       ft_State = stateName (item_State it), ft_SourceDevice = item_SourceDevice it,
       ft_SizeBytes = historyItemSizeBytes (Some it), ft_SizeHuman = historyItemSizeHuman (Some it),
       ft_ProgressPercent =
         (case incoming of
            None \<Rightarrow> 0
          | Some t \<Rightarrow>
              if 0 < in_TotalChunks t \<and> 0 \<le> in_LastChunkIdx t
              then (let p = (in_LastChunkIdx t + 1) * 100 div in_TotalChunks t in if 100 < p then 100 else p) else 0),
       ft_TotalChunks = (case incoming of None \<Rightarrow> 0 | Some t \<Rightarrow> in_TotalChunks t),
       ft_LastChunkIdx = item_LastChunkIdx it, ft_LocalPathCount = length (item_LocalPaths it),
       ft_ErrorMessage = item_ErrorMessage it, ft_UpdatedAt = item_UpdatedAt it\<rparr>)"

definition historyPanelFileTransfers :: "ControlApp \<Rightarrow> historyPanelFileTransfer list" where
  "historyPanelFileTransfers ca =
     map (fileTransfer ca)
       (filter (\<lambda>it. item_Type it = TypeFileStub \<or> item_Type it = TypeFileEager) (ListItems (app_history (ca_app ca))))"

section \<open>What can be done\<close>

text \<open>The configuration with what was entered.\<close>

definition enteredConfig :: "ConfEnv \<Rightarrow> historyPanelSettingsInput \<Rightarrow> Config \<Rightarrow> Config" where
  "enteredConfig ce input cfg0 =
     (let url = trimSpace (si_ServerURL input); user = trimSpace (si_Username input); stun = trimSpace (si_StunURL input) in
      cfg0\<lparr>
        cfg_ServerURL := NormalizeServerURL ce (if url \<noteq> '''' then NormalizeServerURL ce url else cfg_ServerURL cfg0),
        cfg_Username := (if user \<noteq> '''' then user else cfg_Username cfg0),
        cfg_Password := (if trimSpace (si_Password input) \<noteq> '''' then si_Password input else cfg_Password cfg0),
        cfg_E2EEEnabled := si_E2EEEnabled input, cfg_P2PEnabled := si_P2PEnabled input,
        cfg_StunURL := (if stun = '''' then DefaultStunURL else stun), cfg_AutoReconnect := si_AutoReconnect input,
        cfg_ReconnectDelay := (if si_ReconnectDelaySec input \<le> 0 then DefaultReconnectDelay
                               else si_ReconnectDelaySec input),
        cfg_FileMemoryThresholdMiB := thresholdMiB (cfg0\<lparr>cfg_FileMemoryThresholdMiB := si_FileMemoryThresholdMiB input\<rparr>)\<rparr>)"

definition saveHistoryPanelSettings ::
  "ControlEnv \<Rightarrow> historyPanelSettingsInput \<Rightarrow> ControlApp \<Rightarrow> ControlApp \<times> historyPanelSettings result" where
  "saveHistoryPanelSettings cn input ca =
     (let cfg = enteredConfig (cn_conf cn) input (d_cfg (ca_desk ca)) in
      if trimSpace (cfg_ServerURL cfg) = '''' then (ca, Inl ''server_url is required'')
      else if trimSpace (cfg_Username cfg) = '''' then (ca, Inl ''username is required'')
      else (case Save (cn_conf cn) cfg (ca_conf ca) of
              (conf, Some err) \<Rightarrow> (ca\<lparr>ca_conf := conf\<rparr>, Inl (''save settings: '' @ err))
            | (conf, None) \<Rightarrow>
                (let ca1 = withConfig cfg (ca\<lparr>ca_conf := conf\<rparr>);
                     ca2 = ca1\<lparr>ca_desk := recordControlEvent (cn_now cn) ''settings'' ''Saved control center settings'' (ca_desk ca1)\<rparr> in
                 (ca2, Inr (historyPanelSettingsOf ca2)))))"

definition setWebPassword :: "ControlEnv \<Rightarrow> string \<Rightarrow> ControlApp \<Rightarrow> ControlApp \<times> goerror option" where
  "setWebPassword cn password ca =
     (let cfg = (d_cfg (ca_desk ca))\<lparr>cfg_WebPassword := password\<rparr> in
      case Save (cn_conf cn) cfg (ca_conf ca) of
        (conf, err) \<Rightarrow> (withConfig cfg (ca\<lparr>ca_conf := conf\<rparr>), err))"

definition controlPanel :: "ControlEnv \<Rightarrow> ControlApp historyPanelServer" where
  "controlPanel cn =
     \<lparr>hp_history = Some (\<lambda>ca. app_history (ca_app ca),
        \<lambda>i ca. (case SetActive i (app_history (ca_app ca)) of
                  (m, ok, _) \<Rightarrow> (ca\<lparr>ca_app := (ca_app ca)\<lparr>app_history := m\<rparr>\<rparr>, ok))),
      hp_replay = Some (\<lambda>i mode ca. (case panelReplay (cn_env cn) i mode (appView ca) of (a, err) \<Rightarrow> (ca\<lparr>ca_app := a\<rparr>, err))),
      hp_send = Some (\<lambda>ca. (case SendCurrentClipboard (cn_foldEq cn) (cn_sys cn) (cn_env cn) (cn_initErr cn)
                                (cn_platform cn) (appView ca) of (a, err) \<Rightarrow> (ca\<lparr>ca_app := a\<rparr>, err))),
      hp_connect = Some (\<lambda>ca. ca\<lparr>ca_connectCalls := Suc (ca_connectCalls ca)\<rparr>),
      hp_disconnect = Some (\<lambda>ca. ca\<lparr>ca_desk := disconnect (cn_now cn) (ca_desk ca), ca_p2p := None\<rparr>),
      hp_overview = Some historyPanelOverviewOf, hp_devices = Some historyPanelDevices,
      hp_settings = Some historyPanelSettingsOf, hp_save = Some (saveHistoryPanelSettings cn),
      hp_transfers = Some historyPanelFileTransfers, hp_events = Some (\<lambda>ca. d_events (ca_desk ca)),
      hp_needsSetup = Some (\<lambda>ca. cfg_Username (d_cfg (ca_desk ca)) = '''' \<or> cfg_Password (d_cfg (ca_desk ca)) = ''''),
      hp_webPassword = Some (\<lambda>ca. cfg_WebPassword (d_cfg (ca_desk ca))),
      hp_setWebPassword = Some (setWebPassword cn)\<rparr>"


section \<open>Saving the settings\<close>

definition settings_ok :: "Config \<Rightarrow> bool" where
  "settings_ok cfg \<longleftrightarrow> 1 \<le> cfg_FileMemoryThresholdMiB cfg \<and> cfg_FileMemoryThresholdMiB cfg \<le> MaxFileMemoryThresholdMiB \<and>
     0 < cfg_ReconnectDelay cfg \<and> trimSpace (cfg_ServerURL cfg) \<noteq> '''' \<and> trimSpace (cfg_Username cfg) \<noteq> '''' \<and>
     cfg_StunURL cfg \<noteq> ''''"

definition shows_config :: "historyPanelSettings \<Rightarrow> Config \<Rightarrow> bool" where
  "shows_config s cfg \<longleftrightarrow> st_ServerURL s = cfg_ServerURL cfg \<and> st_Username s = cfg_Username cfg \<and>
     st_E2EEEnabled s = cfg_E2EEEnabled cfg \<and> st_P2PEnabled s = cfg_P2PEnabled cfg \<and> st_StunURL s = cfg_StunURL cfg \<and>
     st_AutoReconnect s = cfg_AutoReconnect cfg \<and> st_ReconnectDelaySec s = cfg_ReconnectDelay cfg \<and>
     st_FileMemoryThresholdMiB s = cfg_FileMemoryThresholdMiB cfg"

lemma threshold_range: "1 \<le> thresholdMiB cfg" "thresholdMiB cfg \<le> MaxFileMemoryThresholdMiB"
  by (auto simp: thresholdMiB_def FileMemoryThresholdBytes_def const_defs Let_def)

lemma threshold_stays:
  "1 \<le> cfg_FileMemoryThresholdMiB cfg \<Longrightarrow> cfg_FileMemoryThresholdMiB cfg \<le> MaxFileMemoryThresholdMiB \<Longrightarrow>
     thresholdMiB cfg = cfg_FileMemoryThresholdMiB cfg"
  by (auto simp: thresholdMiB_def FileMemoryThresholdBytes_def const_defs Let_def)

lemma settings_shown: "settings_ok (d_cfg (ca_desk ca)) \<Longrightarrow> shows_config (historyPanelSettingsOf ca) (d_cfg (ca_desk ca))"
  by (simp add: settings_ok_def shows_config_def historyPanelSettingsOf_def Let_def threshold_stays)

lemma DefaultStunURL_set [simp]: "DefaultStunURL \<noteq> ''''" by (simp add: DefaultStunURL_def)

text \<open>C19: Settings saved in the control panel are in use exactly when they were written to the file. When the answer is an
  error, the configuration in use, the connection and the history are as before. When it is a success, the
  configuration in use is the one that was written: a memory threshold from 1 to 5120 MiB, a positive delay
  before reconnecting, a server, a user name and a STUN address; a blank password leaves the old one, the password of the panel
  stays; and the answer shows these settings.\<close>
theorem settings_in_use_are_saved:
  "case saveHistoryPanelSettings cn input ca of
     (ca', Inl err) \<Rightarrow> ca_desk ca' = ca_desk ca \<and> ca_app ca' = ca_app ca \<and> ca_p2p ca' = ca_p2p ca
   | (ca', Inr shown) \<Rightarrow>
       (let cfg = d_cfg (ca_desk ca'); old = d_cfg (ca_desk ca) in
        settings_ok cfg \<and> shows_config shown cfg \<and> Save (cn_conf cn) cfg (ca_conf ca) = (ca_conf ca', None) \<and>
        cfg_Password cfg = (if trimSpace (si_Password input) = '''' then cfg_Password old else si_Password input) \<and>
        cfg_WebPassword cfg = cfg_WebPassword old \<and> cfg_FilePath cfg = cfg_FilePath old \<and>
        cfg_E2EEEnabled cfg = si_E2EEEnabled input \<and> cfg_P2PEnabled cfg = si_P2PEnabled input)"
proof -
  let ?cfg = "enteredConfig (cn_conf cn) input (d_cfg (ca_desk ca))"
  have entered: "1 \<le> cfg_FileMemoryThresholdMiB ?cfg" "cfg_FileMemoryThresholdMiB ?cfg \<le> MaxFileMemoryThresholdMiB"
    "0 < cfg_ReconnectDelay ?cfg" "cfg_StunURL ?cfg \<noteq> ''''"
    by (simp_all add: enteredConfig_def Let_def threshold_range DefaultReconnectDelay_def)
  have kept: "cfg_Password ?cfg = (if trimSpace (si_Password input) = '''' then cfg_Password (d_cfg (ca_desk ca)) else si_Password input)"
    "cfg_WebPassword ?cfg = cfg_WebPassword (d_cfg (ca_desk ca))" "cfg_FilePath ?cfg = cfg_FilePath (d_cfg (ca_desk ca))"
    "cfg_E2EEEnabled ?cfg = si_E2EEEnabled input" "cfg_P2PEnabled ?cfg = si_P2PEnabled input"
    by (simp_all add: enteredConfig_def Let_def)
  obtain conf err where s: "Save (cn_conf cn) ?cfg (ca_conf ca) = (conf, err)" by fastforce
  show ?thesis
  proof (cases "trimSpace (cfg_ServerURL ?cfg) = '''' \<or> trimSpace (cfg_Username ?cfg) = '''' \<or> err \<noteq> None")
    case True
    then show ?thesis using s by (auto simp: saveHistoryPanelSettings_def Let_def)
  next
    case False
    define ca' where "ca' = (let ca1 = withConfig ?cfg (ca\<lparr>ca_conf := conf\<rparr>) in
      ca1\<lparr>ca_desk := recordControlEvent (cn_now cn) ''settings'' ''Saved control center settings'' (ca_desk ca1)\<rparr>)"
    have cfg: "d_cfg (ca_desk ca') = ?cfg" and conf: "ca_conf ca' = conf" by (simp_all add: ca'_def withConfig_def Let_def)
    have ok: "settings_ok ?cfg" using entered False by (simp add: settings_ok_def)
    have "saveHistoryPanelSettings cn input ca = (ca', Inr (historyPanelSettingsOf ca'))"
      using False s by (simp add: saveHistoryPanelSettings_def Let_def ca'_def)
    moreover have "shows_config (historyPanelSettingsOf ca') ?cfg" using settings_shown [of ca'] ok cfg by simp
    ultimately show ?thesis using ok s False kept by (simp add: cfg conf Let_def)
  qed
qed


section \<open>The encryption of a running connection\<close>

text \<open>C37: Turning encryption on in the control center does not encrypt anything while the program stays connected: the
  key is only derived when connecting. After settings with encryption on were saved, the control center
  shows that encryption is on, and every message goes out as plain JSON.\<close>
theorem encryption_switched_on_sends_plain:
  assumes "saveHistoryPanelSettings cn input ca = (ca', Inr shown)" "si_E2EEEnabled input"
    and "d_encKey (ca_desk ca) = None"
  shows "st_E2EEEnabled shown \<and> ov_E2EEEnabled (historyPanelOverviewOf ca') \<and> stompUp (ca_desk ca') = stompUp (ca_desk ca) \<and>
    messageBody env (appView ca') cd = Inr (ClipboardData_Encode cd)"
proof -
  obtain conf where ca': "ca' = (let ca1 = withConfig (enteredConfig (cn_conf cn) input (d_cfg (ca_desk ca))) (ca\<lparr>ca_conf := conf\<rparr>) in
      ca1\<lparr>ca_desk := recordControlEvent (cn_now cn) ''settings'' ''Saved control center settings'' (ca_desk ca1)\<rparr>)"
    "shown = historyPanelSettingsOf ca'"
    using assms(1) by (auto simp: saveHistoryPanelSettings_def Let_def split: if_splits prod.splits option.splits)
  have "cfg_E2EEEnabled (d_cfg (ca_desk ca'))"
    using assms(2) by (simp add: ca' Let_def withConfig_def enteredConfig_def)
  moreover have "d_encKey (ca_desk ca') = None" "stompUp (ca_desk ca') = stompUp (ca_desk ca)"
    using assms(3) by (simp_all add: ca' Let_def withConfig_def stompUp_def)
  ultimately show ?thesis
    by (simp add: ca'(2) historyPanelSettingsOf_def historyPanelOverviewOf_def Let_def messageBody_def e2eeKey_def appView_def)
qed

section \<open>The password of the panel\<close>

text \<open>A new password for the panel that cannot be saved is in force although the answer is an error: the old password
  is no longer accepted, the new one is, and the sessions that were opened with the old one remain.\<close>
theorem failed_password_change_takes_effect:
  assumes "rq_Method r = ''POST''" "rq_Body r = Some body" "decodePassword body = Some new" "trimSpace new \<noteq> ''''"
    and "Save (cn_conf cn) ((d_cfg (ca_desk (ps_app ps)))\<lparr>cfg_WebPassword := new\<rparr>) (ca_conf (ps_app ps)) = (conf, Some err)"
    and "handleSetWebPassword (controlPanel cn) r ps = (ps', answer)"
  shows "answer = panelError 500 err \<and> ps_sessions ps' = ps_sessions ps \<and>
    (\<forall>q old. rq_Method q = ''POST'' \<longrightarrow> rq_Body q = Some old \<longrightarrow> decodePassword old \<notin> {None, Some new} \<longrightarrow>
       handleWebLogin (controlPanel cn) q ps' = (ps', panelError 401 ''invalid password'')) \<and>
    (\<exists>ps2 token. handleWebLogin (controlPanel cn) (r\<lparr>rq_Random := Some [1]\<rparr>) ps' = (ps2, okResponse\<lparr>rs_SetCookie := Some token\<rparr>))"
proof -
  have set: "hp_setWebPassword (controlPanel cn) = Some (setWebPassword cn)"
    "hp_webPassword (controlPanel cn) = Some (\<lambda>ca. cfg_WebPassword (d_cfg (ca_desk ca)))"
    by (simp_all add: controlPanel_def)
  have "ps' = ps\<lparr>ps_app := withConfig ((d_cfg (ca_desk (ps_app ps)))\<lparr>cfg_WebPassword := new\<rparr>) ((ps_app ps)\<lparr>ca_conf := conf\<rparr>)\<rparr>"
    and answer: "answer = panelError 500 err"
    using assms by (auto simp: handleSetWebPassword_def set setWebPassword_def Let_def)
  then have web: "cfg_WebPassword (d_cfg (ca_desk (ps_app ps'))) = new" and "ps_sessions ps' = ps_sessions ps"
    by (simp_all add: withConfig_def)
  moreover have "isWebPasswordSet (controlPanel cn) (ps_app ps')" using web assms(4) by (simp add: isWebPasswordSet_def set)
  ultimately show ?thesis
    using answer assms(1-3)
    by (auto simp: handleWebLogin_def set createSession_def historyPanelToken_def Let_def split: option.split)
qed


section \<open>A concrete program\<close>

definition sampleControlEnv :: "Faults \<Rightarrow> ControlEnv" where
  "sampleControlEnv flt = \<lparr>cn_conf = (sampleConfEnv '''')\<lparr>ce_faults := flt\<rparr>, cn_env = sampleEnv, cn_now = 0, cn_foldEq = (=),
     cn_sys = sampleSys, cn_initErr = None, cn_platform = samplePlatform\<rparr>"

definition sampleControl :: "Config \<Rightarrow> ControlApp" where
  "sampleControl cfg = \<lparr>ca_desk = desktop_start cfg, ca_app = sampleApp ''s'', ca_conf = emptyDisk, ca_p2p = None, ca_connectCalls = 0\<rparr>"

definition passwordBody :: "string \<Rightarrow> bytes" where
  "passwordBody p = ''{'' @ [CHR 0x22] @ ''password'' @ [CHR 0x22] @ '':'' @ [CHR 0x22] @ p @ [CHR 0x22] @ ''}''"

definition samplePost :: "bytes \<Rightarrow> Request" where
  "samplePost body = \<lparr>rq_Method = ''POST'', rq_Query = (\<lambda>_. ''''), rq_Body = Some body, rq_Cookie = None, rq_Now = 0,
     rq_Random = Some [1]\<rparr>"

lemma sample_password_body: "decodePassword (passwordBody ''new'') = Some ''new''" "trimSpace ''new'' = ''new''"
  by code_simp+

theorem panel_protected_witness:
  "\<exists>ps'. serve ''/t/'' (''/t/'' @ ''api/send-current'') (controlPanel (sampleControlEnv noFaults)) (samplePost '''')
       (panel_start (sampleControl (DefaultConfig\<lparr>cfg_WebPassword := ''new''\<rparr>))) = (ps', panelError 401 ''unauthorized'')"
proof -
  let ?ps = "panel_start (sampleControl (DefaultConfig\<lparr>cfg_WebPassword := ''new''\<rparr>))"
  have "isWebPasswordSet (controlPanel (sampleControlEnv noFaults)) (ps_app ?ps)"
    by (simp add: isWebPasswordSet_def controlPanel_def panel_start_def sampleControl_def desktop_start_def sample_password_body)
  from panel_protected [where base = "''/t/''" and evs = "[]", OF _ this, of _ "''api/send-current''" "samplePost ''''"]
  show ?thesis by (auto simp: panel_run_def protectedPaths_def samplePost_def)
qed

definition encryptionOn :: historyPanelSettingsInput where
  "encryptionOn = zeroSettingsInput\<lparr>si_E2EEEnabled := True, si_P2PEnabled := True, si_AutoReconnect := True\<rparr>"

lemma encryption_on_saved:
  "\<exists>ca' shown. saveHistoryPanelSettings (sampleControlEnv noFaults) encryptionOn
     (sampleControl (sampleSaved\<lparr>cfg_E2EEEnabled := False\<rparr>)) = (ca', Inr shown)"
proof -
  let ?env = "cn_conf (sampleControlEnv noFaults)"
  have env: "?env = sampleConfEnv ''''" by (simp add: sampleControlEnv_def sampleConfEnv_def)
  have n: "normalize ?env sampleSaved = sampleSaved" using sampleSaved_ready(3) env by simp
  have url: "NormalizeServerURL ?env (cfg_ServerURL sampleSaved) = cfg_ServerURL sampleSaved"
    using arg_cong [OF n, of cfg_ServerURL] by (simp add: normalize_def Let_def)
  have blank: "trimSpace '''' = ''''" by code_simp
  have "enteredConfig ?env encryptionOn (sampleSaved\<lparr>cfg_E2EEEnabled := False\<rparr>) = sampleSaved"
    using url
    by (simp add: enteredConfig_def encryptionOn_def zeroSettingsInput_def Let_def blank sampleSaved_def DefaultConfig_def
        thresholdMiB_def FileMemoryThresholdBytes_def const_defs)
  moreover obtain st' where "Save ?env sampleSaved emptyDisk = (st', None)"
    using save_then_load [OF sampleSaved_ready(1-4)] unfolding env by blast
  moreover have "cfg_ServerURL sampleSaved \<noteq> ''''" by (simp add: sampleSaved_def DefaultConfig_def)
  then have "trimSpace (cfg_ServerURL sampleSaved) \<noteq> ''''" using url by (auto simp: NormalizeServerURL_def)
  moreover have "trimSpace ''bob'' = ''bob''" by code_simp
  then have "trimSpace (cfg_Username sampleSaved) \<noteq> ''''" by (simp add: sampleSaved_def)
  ultimately show ?thesis by (simp add: saveHistoryPanelSettings_def sampleControl_def desktop_start_def Let_def)
qed

theorem encryption_switched_on_sends_plain_witness:
  "\<exists>ca' shown. saveHistoryPanelSettings (sampleControlEnv noFaults) encryptionOn
     (sampleControl (sampleSaved\<lparr>cfg_E2EEEnabled := False\<rparr>)) = (ca', Inr shown) \<and> st_E2EEEnabled shown \<and>
     messageBody sampleEnv (appView ca') zeroClipboard = Inr (ClipboardData_Encode zeroClipboard)"
proof -
  obtain ca' shown where "saveHistoryPanelSettings (sampleControlEnv noFaults) encryptionOn
     (sampleControl (sampleSaved\<lparr>cfg_E2EEEnabled := False\<rparr>)) = (ca', Inr shown)"
    using encryption_on_saved by blast
  moreover from encryption_switched_on_sends_plain [OF this, of sampleEnv zeroClipboard]
  have "st_E2EEEnabled shown \<and> messageBody sampleEnv (appView ca') zeroClipboard = Inr (ClipboardData_Encode zeroClipboard)"
    by (simp add: encryptionOn_def sampleControl_def desktop_start_def)
  ultimately show ?thesis by blast
qed

theorem failed_password_change_takes_effect_witness:
  "\<exists>ps' err. handleSetWebPassword (controlPanel (sampleControlEnv (noFaults\<lparr>fault_mkdir := (\<lambda>_. Some ''read-only'')\<rparr>)))
       (samplePost (passwordBody ''new'')) (panel_start (sampleControl sampleSaved)) = (ps', panelError 500 err)"
proof -
  let ?cn = "sampleControlEnv (noFaults\<lparr>fault_mkdir := (\<lambda>_. Some ''read-only'')\<rparr>)"
  let ?ps = "panel_start (sampleControl sampleSaved)"
  obtain ps' answer where h: "handleSetWebPassword (controlPanel ?cn) (samplePost (passwordBody ''new'')) ?ps = (ps', answer)"
    by fastforce
  have "Save (cn_conf ?cn) ((d_cfg (ca_desk (ps_app ?ps)))\<lparr>cfg_WebPassword := ''new''\<rparr>) (ca_conf (ps_app ?ps)) =
      (emptyDisk, Some ''read-only'')"
    by (simp add: Save_def sampleControlEnv_def sampleConfEnv_def os_MkdirAll_def panel_start_def sampleControl_def emptyDisk_def)
  from failed_password_change_takes_effect [OF _ _ sample_password_body(1) _ this h]
  show ?thesis using h by (auto simp: samplePost_def sample_password_body)
qed

end
