(* ===== verification/Startup.thy ===== *)
theory Startup
  imports ControlCenter
begin

text \<open>
  Starting the desktop program (\<open>main\<close> of \<open>desktop/main.go\<close>): the flags over the loaded configuration, saving it when
  asked to, the first configuration file; the first steps of \<open>Run\<close> (\<open>app/application.go\<close>); and what the hotkeys and the tray trigger (\<open>action_triggers.go\<close>).
  The parsing of the command line is the package \<open>flag\<close>; the texts printed for the user and logging are left out.
\<close>

record Flags =
  fl_server :: string
  fl_username :: string
  fl_password :: string
  fl_noE2EE :: bool
  fl_e2ee :: bool
  fl_noP2P :: bool
  fl_p2p :: bool
  fl_stun :: string
  fl_noAutoReconnect :: bool
  fl_autoReconnect :: bool
  fl_reconnectDelay :: int
  fl_threshold :: int
  fl_webPort :: int
  fl_webPassword :: string
  fl_save :: bool

definition noFlags :: Flags where
  "noFlags = \<lparr>fl_server = '''', fl_username = '''', fl_password = '''', fl_noE2EE = False, fl_e2ee = False, fl_noP2P = False,
     fl_p2p = False, fl_stun = '''', fl_noAutoReconnect = False, fl_autoReconnect = False, fl_reconnectDelay = 0,
     fl_threshold = 0, fl_webPort = 0, fl_webPassword = '''', fl_save = False\<rparr>"

definition given :: "string \<Rightarrow> string \<Rightarrow> string" where "given flag old = (if flag \<noteq> '''' then flag else old)"

definition switched :: "bool \<Rightarrow> bool \<Rightarrow> bool \<Rightarrow> bool" where
  "switched off on old = (if on then True else if off then False else old)"

definition applyFlags :: "ConfEnv \<Rightarrow> Flags \<Rightarrow> Config \<Rightarrow> Config" where
  "applyFlags ce fl cfg =
     (let cfg1 = cfg\<lparr>
            cfg_ServerURL := (if fl_server fl \<noteq> '''' then NormalizeServerURL ce (fl_server fl) else cfg_ServerURL cfg),
            cfg_Username := given (fl_username fl) (cfg_Username cfg),
            cfg_Password := given (fl_password fl) (cfg_Password cfg),
            cfg_E2EEEnabled := switched (fl_noE2EE fl) (fl_e2ee fl) (cfg_E2EEEnabled cfg),
            cfg_P2PEnabled := switched (fl_noP2P fl) (fl_p2p fl) (cfg_P2PEnabled cfg),
            cfg_StunURL := given (fl_stun fl) (cfg_StunURL cfg),
            cfg_AutoReconnect := switched (fl_noAutoReconnect fl) (fl_autoReconnect fl) (cfg_AutoReconnect cfg),
            cfg_ReconnectDelay := (if 0 < fl_reconnectDelay fl then fl_reconnectDelay fl else cfg_ReconnectDelay cfg),
            cfg_FileMemoryThresholdMiB := (if 0 < fl_threshold fl then fl_threshold fl else cfg_FileMemoryThresholdMiB cfg)\<rparr> in
      cfg1\<lparr>cfg_FileMemoryThresholdMiB := thresholdMiB cfg1,
           cfg_WebPort := (if 0 < fl_webPort fl then fl_webPort fl else cfg_WebPort cfg1),
           cfg_WebPassword := given (fl_webPassword fl) (cfg_WebPassword cfg1)\<rparr>)"

text \<open>\<open>Inl\<close> when the program exits because it could not save.\<close>

definition startup :: "ConfEnv \<Rightarrow> Flags \<Rightarrow> ConfState \<Rightarrow> ConfState \<times> (goerror + Config)" where
  "startup ce fl st =
     (case Load ce st of
        (st1, loaded) \<Rightarrow>
          (let cfg = applyFlags ce fl loaded in
           case (if fl_save fl then Save ce cfg st1 else (st1, None)) of
             (st2, Some err) \<Rightarrow> (st2, Inl err)
           | (st2, None) \<Rightarrow>
               (let cfgPath = (if cfg_FilePath cfg = '''' then ConfigDir ce @ ''/config.json'' else cfg_FilePath cfg) in
                if os_Stat (ce_faults ce) (cs_fs st2) cfgPath = StatNotExist then (fst (Save ce cfg st2), Inr cfg) else (st2, Inr cfg))))"

section \<open>What the flags give\<close>

lemma thresholdMiB_id: "thresholdMiB (cfg\<lparr>cfg_FileMemoryThresholdMiB := thresholdMiB cfg'\<rparr>) = thresholdMiB cfg'"
  using threshold_range [of cfg'] threshold_stays [of "cfg\<lparr>cfg_FileMemoryThresholdMiB := thresholdMiB cfg'\<rparr>"] by simp

lemma noFlags_nothing:
  assumes "1 \<le> cfg_FileMemoryThresholdMiB cfg" "cfg_FileMemoryThresholdMiB cfg \<le> MaxFileMemoryThresholdMiB"
  shows "applyFlags ce noFlags cfg = cfg"
  using threshold_stays [OF assms] by (simp add: applyFlags_def noFlags_def given_def switched_def Let_def)

lemma applyFlags_path [simp]: "cfg_FilePath (applyFlags ce fl cfg) = cfg_FilePath cfg"
  by (simp add: applyFlags_def Let_def)

lemma loaded_path: "cfg_FilePath (snd (Load ce st)) = configPath ce"
  using Load_ok [of ce st] by (simp add: config_ok_def)

lemma normalized_threshold:
  "normalize ce cfg = cfg \<Longrightarrow> 1 \<le> cfg_FileMemoryThresholdMiB cfg \<and> cfg_FileMemoryThresholdMiB cfg \<le> MaxFileMemoryThresholdMiB"
proof -
  assume n: "normalize ce cfg = cfg"
  have "cfg_FileMemoryThresholdMiB (normalize ce cfg) \<in> {1..MaxFileMemoryThresholdMiB}"
    by (auto simp: normalize_def Let_def const_defs)
  then show ?thesis by (simp add: n)
qed

text \<open>A saved file is there, so the first-run save is not made.\<close>

lemma startup_file_there:
  assumes "ce_faults ce = noFaults" "Load ce st = (st1, old)" "cfg = applyFlags ce fl old"
    and "(if fl_save fl then Save ce cfg st1 else (st1, None)) = (st2, None)"
    and "cs_fs st2 (configPath ce) = Some (NFile b)" "configPath ce \<noteq> ''''"
  shows "startup ce fl st = (st2, Inr cfg)"
proof -
  have "cfg_FilePath cfg = configPath ce" using loaded_path [of ce st] assms(2,3) by simp
  then have "os_Stat (ce_faults ce) (cs_fs st2) (if cfg_FilePath cfg = '''' then ConfigDir ce @ ''/config.json'' else cfg_FilePath cfg) = StatFile"
    using assms(1,5,6) by (simp add: os_Stat_def)
  then show ?thesis
    unfolding startup_def assms(2) prod.case Let_def assms(3) [symmetric] assms(4) option.case by simp
qed

text \<open>What a start without flags has when the configuration was saved before.\<close>

lemma startup_again:
  assumes "ce_faults ce = noFaults" "Load ce st = (st, cfg)" "normalize ce cfg' = cfg'"
    and "cfg_FileMemoryThresholdMiB cfg = cfg_FileMemoryThresholdMiB cfg'"
    and "cs_fs st (configPath ce) = Some (NFile b)" "configPath ce \<noteq> ''''"
  shows "startup ce noFlags st = (st, Inr cfg)"
proof (rule startup_file_there [OF assms(1,2) _ _ assms(5,6)])
  show "cfg = applyFlags ce noFlags cfg"
    using normalized_threshold [OF assms(3)] assms(4) by (simp add: noFlags_nothing)
qed (simp add: noFlags_def)

text \<open>C16: Flags saved with \<open>--save\<close> are those of the next start. On a machine where saving works, a program started with
  flags and \<open>--save\<close>, whose configuration is then normalized and valid UTF-8, starts later without flags with the same
  settings and the same password of the panel, and writes the file only once. It has the same password when
  \<open>CLIPCASCADE_PASSWORD\<close> was set at neither start; with a value \<open>v\<close> of the variable at the later start it has \<open>v\<close>, and
  none when the variable was set only at the first start, which then stores no password, not even one given by a flag.\<close>
theorem saved_flags_survive_restart:
  assumes "config_disk_ok ce (fst (Load ce st))" "fl_save fl"
    and "cfg = applyFlags ce fl (snd (Load ce st))" "normalize ce cfg = cfg" "config_text_ok cfg"
  shows "\<exists>st1 pe we. startup ce fl st = (st1, Inr cfg) \<and>
    (\<forall>v. startup (with_variable v ce) noFlags st1 =
       (st1, Inr (cfg\<lparr>cfg_Password := (if v \<noteq> '''' then v else if envPassword ce = '''' then cfg_Password cfg else ''''),
          cfg_PasswordEncrypted := pe, cfg_WebPasswordEncrypted := we, cfg_LegacyPassword := ''''\<rparr>)))"
proof -
  obtain st0 old where load: "Load ce st = (st0, old)" by fastforce
  have path: "cfg_FilePath cfg = configPath ce" using loaded_path [of ce st] assms(3) by simp
  have flt: "ce_faults ce = noFaults" and abs: "IsAbs (configPath ce)"
    using assms(1) config_paths(4) by (auto simp: config_disk_ok_def)
  have ne: "configPath ce \<noteq> ''''" using abs by (auto simp: IsAbs_def hasPrefix_def)
  have disk: "config_disk_ok ce st0" using assms(1) load by simp
  obtain st1 pe we where saved: "Save ce cfg st0 = (st1, None)"
    and again: "Load (with_variable v ce) st1 = (st1, cfg\<lparr>cfg_Password := (if v \<noteq> '''' then v
      else if envPassword ce \<noteq> '''' then '''' else cfg_Password cfg), cfg_PasswordEncrypted := pe,
      cfg_WebPasswordEncrypted := we, cfg_LegacyPassword := ''''\<rparr>)" for v
    using save_then_load [OF disk path assms(4,5)] by blast
  obtain b where there: "cs_fs st1 (configPath ce) = Some (NFile b)"
    using Save_writes [OF disk path assms(4)] saved by auto
  have first: "startup ce fl st = (st1, Inr cfg)"
    by (rule startup_file_there [OF flt load _ _ there ne]) (use assms(2,3) load saved in simp_all)
  let ?pw = "\<lambda>v. if v \<noteq> '''' then v else if envPassword ce = '''' then cfg_Password cfg else ''''"
  have "startup (with_variable v ce) noFlags st1 = (st1, Inr (cfg\<lparr>cfg_Password := ?pw v, cfg_PasswordEncrypted := pe,
      cfg_WebPasswordEncrypted := we, cfg_LegacyPassword := ''''\<rparr>))" for v
  proof (rule startup_again [where cfg' = cfg])
    have "?pw v = (if v \<noteq> '''' then v else if envPassword ce \<noteq> '''' then '''' else cfg_Password cfg)" by simp
    then show "Load (with_variable v ce) st1 = (st1, cfg\<lparr>cfg_Password := ?pw v, cfg_PasswordEncrypted := pe,
      cfg_WebPasswordEncrypted := we, cfg_LegacyPassword := ''''\<rparr>)" by (simp only: again)
  qed (use flt assms(4) there ne in \<open>simp_all add: with_variable_same\<close>)
  then show ?thesis using first by blast
qed

lemma sample_startup:
  "Load (sampleConfEnv '''') emptyDisk = (emptyDisk, DefaultConfig\<lparr>cfg_FilePath := ''/c/ClipCascade/config.json''\<rparr>)"
  using sampleSaved_ready(2) [of "''''"]
  by (simp add: Load_def Let_def emptyDisk_def os_ReadFile_def sampleConfEnv_def noFaults_def sampleSaved_def)

theorem saved_flags_survive_restart_witness:
  "\<exists>st1 c. startup (sampleConfEnv '''') (noFlags\<lparr>fl_username := ''bob'', fl_password := ''pw'', fl_save := True\<rparr>) emptyDisk =
       (st1, Inr sampleSaved) \<and>
     startup (sampleConfEnv '''') noFlags st1 = (st1, Inr c) \<and> cfg_Username c = ''bob'' \<and> cfg_Password c = ''pw''"
proof -
  let ?fl = "noFlags\<lparr>fl_username := ''bob'', fl_password := ''pw'', fl_save := True\<rparr>"
  have cfg: "sampleSaved = applyFlags (sampleConfEnv '''') ?fl (snd (Load (sampleConfEnv '''') emptyDisk))"
    unfolding sample_startup
    by (simp add: applyFlags_def noFlags_def given_def switched_def sampleSaved_def DefaultConfig_def thresholdMiB_def
        FileMemoryThresholdBytes_def const_defs)
  have disk: "config_disk_ok (sampleConfEnv '''') (fst (Load (sampleConfEnv '''') emptyDisk))"
    unfolding sample_startup using sampleSaved_ready(1) by simp
  from saved_flags_survive_restart [OF disk _ cfg sampleSaved_ready(3,4)]
  obtain st1 pe we where first: "startup (sampleConfEnv '''') ?fl emptyDisk = (st1, Inr sampleSaved)"
    and later: "startup (with_variable v (sampleConfEnv '''')) noFlags st1 =
       (st1, Inr (sampleSaved\<lparr>cfg_Password := (if v \<noteq> '''' then v else if envPassword (sampleConfEnv '''') = ''''
          then cfg_Password sampleSaved else ''''), cfg_PasswordEncrypted := pe, cfg_WebPasswordEncrypted := we,
          cfg_LegacyPassword := ''''\<rparr>))" for v
    by auto
  have "with_variable '''' (sampleConfEnv '''') = sampleConfEnv ''''"
    using with_variable_id [of "sampleConfEnv ''''"] sampleSaved_ready(5) [of "''''"] by simp
  then show ?thesis using first later [of "''''"] sampleSaved_ready(5) [of "''''"] by (auto simp: sampleSaved_def)
qed

text \<open>
  The first start writes the configuration file whether or not \<open>--save\<close> was given, with the values of the flags: the
  next start has them, the password included.
\<close>

lemma first_start_saves_flags:
  assumes "config_disk_ok ce (fst (Load ce st))" "\<not> fl_save fl" "envPassword ce = ''''"
    and "cfg = applyFlags ce fl (snd (Load ce st))" "normalize ce cfg = cfg" "config_text_ok cfg"
    and "cs_fs (fst (Load ce st)) (configPath ce) = None"
  shows "\<exists>st1 pe we. startup ce fl st = (st1, Inr cfg) \<and>
    snd (Load ce st1) = cfg\<lparr>cfg_PasswordEncrypted := pe, cfg_WebPasswordEncrypted := we, cfg_LegacyPassword := ''''\<rparr>"
proof -
  obtain st0 old where load: "Load ce st = (st0, old)" by fastforce
  have path: "cfg_FilePath cfg = configPath ce" using loaded_path [of ce st] assms(4) by simp
  have flt: "ce_faults ce = noFaults" and "IsAbs (configPath ce)"
    using assms(1) config_paths(4) by (auto simp: config_disk_ok_def)
  then have ne: "configPath ce \<noteq> ''''" by (auto simp: IsAbs_def hasPrefix_def)
  have disk: "config_disk_ok ce st0" using assms(1) load by simp
  have id: "with_variable '''' ce = ce" using with_variable_id [of ce] assms(3) by simp
  obtain st1 pe we where saved: "Save ce cfg st0 = (st1, None)"
    and later: "Load (with_variable v ce) st1 = (st1, cfg\<lparr>cfg_Password := (if v \<noteq> '''' then v
      else if envPassword ce \<noteq> '''' then '''' else cfg_Password cfg), cfg_PasswordEncrypted := pe,
      cfg_WebPasswordEncrypted := we, cfg_LegacyPassword := ''''\<rparr>)" for v
    using save_then_load [OF disk path assms(5,6)] by blast
  have again: "Load ce st1 = (st1, cfg\<lparr>cfg_Password := cfg_Password cfg, cfg_PasswordEncrypted := pe, cfg_WebPasswordEncrypted := we, cfg_LegacyPassword := ''''\<rparr>)"
    using later [of "''''"] id assms(3) by simp
  have "os_Stat (ce_faults ce) (cs_fs st0) (configPath ce) = StatNotExist"
    using assms(7) load flt by (simp add: os_Stat_def noFaults_def)
  then have "startup ce fl st = (st1, Inr cfg)"
    using assms(2,4) load path ne saved by (simp add: startup_def Let_def)
  then show ?thesis using again by (cases cfg) auto
qed

section \<open>The application starts (Run of application.go)\<close>

definition fileTransferTempRetention :: int where "fileTransferTempRetention = 24 * 3600 * 1000000000"

text \<open>The entries of the temporary directory: name, whether a directory, when modified; \<open>None\<close>: it cannot be read.\<close>

definition expiredTransferDir :: "gotime \<Rightarrow> int \<Rightarrow> string \<times> bool \<times> gotime option \<Rightarrow> bool" where
  "expiredTransferDir now olderThan entry =
     (case entry of (name, isDir, modTime) \<Rightarrow>
        isDir \<and> hasPrefix name fileTransferTempPrefix \<and>
        (case modTime of None \<Rightarrow> False | Some t \<Rightarrow> \<not> now - olderThan < t))"

definition cleanupExpiredTransferTempDirs ::
  "Faults \<Rightarrow> gotime \<Rightarrow> (string \<times> bool \<times> gotime option) list option \<Rightarrow> string \<Rightarrow> int \<Rightarrow> FS \<Rightarrow> FS" where
  "cleanupExpiredTransferTempDirs flt now entries tmp olderThan fs =
     (case entries of
        None \<Rightarrow> fs
      | Some es \<Rightarrow>
          fold (\<lambda>entry f. if expiredTransferDir now olderThan entry
                          then fst (os_RemoveAll flt (JoinPath [tmp, fst entry]) f) else f) es fs)"

definition startCleanup ::
  "Faults \<Rightarrow> gotime \<Rightarrow> (string \<times> bool \<times> gotime option) list option \<Rightarrow> (string \<times> bool \<times> gotime option) list option \<Rightarrow>
     string \<Rightarrow> FS \<Rightarrow> FS" where
  "startCleanup flt now tmpEntries clipEntries tmp fs =
     CleanupExpiredTempFiles flt now clipEntries tmp
       (cleanupExpiredTransferTempDirs flt now tmpEntries tmp fileTransferTempRetention fs)"

text \<open>With credentials the program connects, without it opens the control center.\<close>

datatype first_action = ConnectFirst | OpenPanelFirst

definition firstAction :: "Config \<Rightarrow> first_action" where
  "firstAction cfg = (if cfg_Username cfg \<noteq> '''' \<and> cfg_Password cfg \<noteq> '''' then ConnectFirst else OpenPanelFirst)"

text \<open>Only what is in an old directory of a transfer goes; a directory of a transfer of the last day stays.\<close>

lemma cleanup_removes_only_expired:
  assumes "cleanupExpiredTransferTempDirs flt now (Some es) tmp olderThan fs p \<noteq> fs p"
  shows "\<exists>entry\<in>set es. expiredTransferDir now olderThan entry \<and> inTree (JoinPath [tmp, fst entry]) p"
  using assms
proof (induction es arbitrary: fs)
  case (Cons entry es)
  let ?fs = "if expiredTransferDir now olderThan entry then fst (os_RemoveAll flt (JoinPath [tmp, fst entry]) fs) else fs"
  show ?case
  proof (cases "?fs p = fs p")
    case True
    then have "cleanupExpiredTransferTempDirs flt now (Some es) tmp olderThan ?fs p \<noteq> ?fs p"
      using Cons.prems by (simp add: cleanupExpiredTransferTempDirs_def)
    then show ?thesis using Cons.IH by fastforce
  next
    case False
    then have "expiredTransferDir now olderThan entry \<and> inTree (JoinPath [tmp, fst entry]) p"
      by (auto simp: os_RemoveAll_def clearTree_def split: if_splits option.splits)
    then show ?thesis by simp
  qed
qed (simp add: cleanupExpiredTransferTempDirs_def)

lemma recent_transfer_stays:
  "t > now - fileTransferTempRetention \<Longrightarrow> \<not> expiredTransferDir now fileTransferTempRetention (name, isDir, Some t)"
  by (simp add: expiredTransferDir_def)

section \<open>What the hotkeys and the tray trigger\<close>

definition notifyEvent :: "ControlEnv \<Rightarrow> string \<Rightarrow> string \<Rightarrow> ControlApp \<Rightarrow> ControlApp" where
  "notifyEvent cn kind message ca = ca\<lparr>ca_desk := recordControlEvent (cn_now cn) kind message (ca_desk ca)\<rparr>"

definition triggerSendCurrentClipboard :: "ControlEnv \<Rightarrow> ControlApp \<Rightarrow> ControlApp" where
  "triggerSendCurrentClipboard cn ca =
     (case SendCurrentClipboard (cn_foldEq cn) (cn_sys cn) (cn_env cn) (cn_initErr cn) (cn_platform cn) (appView ca) of
        (a, Some err) \<Rightarrow> notifyEvent cn ''clipboard'' (''Send current clipboard failed: '' @ err) (ca\<lparr>ca_app := a\<rparr>)
      | (a, None) \<Rightarrow> notifyEvent cn ''clipboard'' ''Sent current clipboard'' (ca\<lparr>ca_app := a\<rparr>))"

text \<open>The notification shown to the user on an error is an output; the event carries the same text.\<close>

definition triggerReplayWithMode :: "ControlEnv \<Rightarrow> string \<Rightarrow> ControlApp \<Rightarrow> ControlApp" where
  "triggerReplayWithMode cn mode ca =
     (case ReplaySharedClipboardItem (cn_env cn) mode (appView ca) of
        (a, Inl err) \<Rightarrow> notifyEvent cn ''clipboard'' (''Replay active failed: '' @ err) (ca\<lparr>ca_app := a\<rparr>)
      | (a, Inr result) \<Rightarrow>
          notifyEvent cn ''clipboard''
            (if rr_Message result = '''' then ''Clipboard action sent'' else rr_Message result) (ca\<lparr>ca_app := a\<rparr>))"

definition triggerReplayActiveHistoryItem :: "ControlEnv \<Rightarrow> ControlApp \<Rightarrow> ControlApp" where
  "triggerReplayActiveHistoryItem cn = triggerReplayWithMode cn ReplayModeClipboardImmediate"

definition triggerPastePlaceholderHistoryItem :: "ControlEnv \<Rightarrow> ControlApp \<Rightarrow> ControlApp" where
  "triggerPastePlaceholderHistoryItem cn = triggerReplayWithMode cn ReplayModePathPlaceholderPaste"

definition triggerPasteRealContentHistoryItem :: "ControlEnv \<Rightarrow> ControlApp \<Rightarrow> ControlApp" where
  "triggerPasteRealContentHistoryItem cn = triggerReplayWithMode cn ReplayModeSystemClipboardPaste"

definition triggerOpenHistoryPanel :: "ControlEnv \<Rightarrow> ControlApp \<Rightarrow> ControlApp" where
  "triggerOpenHistoryPanel cn = notifyEvent cn ''console'' ''Opened control center''"

definition triggerOpenLogWindow :: "ControlEnv \<Rightarrow> goerror option \<Rightarrow> ControlApp \<Rightarrow> ControlApp" where
  "triggerOpenLogWindow cn openErr =
     (case openErr of
        Some err \<Rightarrow> notifyEvent cn ''console'' (''Open log window failed: '' @ err)
      | None \<Rightarrow> notifyEvent cn ''console'' ''Opened log window'')"

text \<open>A trigger leaves the connections and the configuration alone; its event is the newest of at most 40.\<close>

definition one_event :: "ControlApp \<Rightarrow> ControlApp \<Rightarrow> bool" where
  "one_event ca ca' \<longleftrightarrow> (\<exists>e. d_events (ca_desk ca') = take controlEventLimit (e # d_events (ca_desk ca))) \<and>
     d_cfg (ca_desk ca') = d_cfg (ca_desk ca) \<and> d_stomp (ca_desk ca') = d_stomp (ca_desk ca) \<and> ca_p2p ca' = ca_p2p ca"

lemma notifyEvent_one: "one_event ca (notifyEvent cn kind message (ca\<lparr>ca_app := a\<rparr>))" "one_event ca (notifyEvent cn kind message ca)"
  by (auto simp: one_event_def notifyEvent_def recordControlEvent_def)

lemma triggers_recorded:
  "one_event ca (triggerSendCurrentClipboard cn ca)" "one_event ca (triggerReplayWithMode cn mode ca)"
  "one_event ca (triggerOpenHistoryPanel cn ca)" "one_event ca (triggerOpenLogWindow cn err ca)"
  by (simp_all add: triggerSendCurrentClipboard_def triggerReplayWithMode_def triggerOpenHistoryPanel_def
      triggerOpenLogWindow_def notifyEvent_one split: prod.split sum.split option.split)

end
