(* ===== verification/WaylandPortal.thy ===== *)
theory WaylandPortal
  imports Decimal
begin

text \<open>
  The global hotkeys through the Wayland portal (\<open>desktop/app/hotkeys_wayland.go\<close>): opening a session, binding the
  shortcuts, waiting for the answers among the signals, the signals that start an action, closing. The D-Bus
  connection is outside: its answers to calls and the signals that come in are arguments; a value on the bus keeps
  the Go type the code asks for. The channel of 32 signals is a list, so none is lost.
\<close>

section \<open>Values and signals\<close>

datatype dvalue =
    DPath string
  | DString string
  | DUInt32 "32 word"
  | DMap "(string \<times> dvalue) list"
  | DList "dvalue list"
  | DStructs "dvalue list list"
  | DOther

record Signal =
  sig_Path :: string
  sig_Name :: string
  sig_Body :: "dvalue list"

definition portalGlobalShortcutsInterface :: string where
  "portalGlobalShortcutsInterface = ''org.freedesktop.portal.GlobalShortcuts''"

definition portalRequestResponseSignal :: string where
  "portalRequestResponseSignal = ''org.freedesktop.portal.Request.Response''"

definition portalActivatedSignal :: string where
  "portalActivatedSignal = ''org.freedesktop.portal.GlobalShortcuts.Activated''"

definition portalResponseSuccess :: "32 word" where "portalResponseSuccess = 0"

lemmas portal_names = portalGlobalShortcutsInterface_def portalRequestResponseSignal_def portalActivatedSignal_def
  portalResponseSuccess_def

text \<open>
  The bus: connecting, watching for activations, the body of the answer to a call, and the signals (\<open>None\<close>: a nil signal)
  that come in during the two waits, before their time is over.
\<close>

record PortalBus =
  pb_connectErr :: "goerror option"
  pb_watchErr :: "goerror option"
  pb_call :: "string \<Rightarrow> dvalue list result"
  pb_creating :: "Signal option list"
  pb_binding :: "Signal option list"

section \<open>Requests\<close>

definition callPortalRequest :: "PortalBus \<Rightarrow> string \<Rightarrow> string result" where
  "callPortalRequest bus meth =
     (case pb_call bus meth of
        Inl err \<Rightarrow> Inl (''Wayland GlobalShortcuts call '' @ meth @ '' failed: '' @ err)
      | Inr [] \<Rightarrow> Inl (''Wayland GlobalShortcuts call '' @ meth @ '' returned no request handle'')
      | Inr (v # _) \<Rightarrow>
          (case v of
             DPath requestHandle \<Rightarrow>
               if requestHandle = '''' then Inl (''Wayland GlobalShortcuts call '' @ meth @ '' returned invalid request handle'')
               else Inr requestHandle
           | _ \<Rightarrow> Inl (''Wayland GlobalShortcuts call '' @ meth @ '' returned invalid request handle'')))"

text \<open>The answer to a request, and the signals left after it.\<close>

definition answers :: "string \<Rightarrow> Signal option \<Rightarrow> bool" where
  "answers requestHandle sg \<longleftrightarrow>
     (case sg of
        None \<Rightarrow> False
      | Some s \<Rightarrow> sig_Path s = requestHandle \<and> sig_Name s = portalRequestResponseSignal \<and> 2 \<le> length (sig_Body s))"

definition portalAnswer :: "Signal \<Rightarrow> (string \<times> dvalue) list result" where
  "portalAnswer s =
     (case sig_Body s ! 0 of
        DUInt32 responseCode \<Rightarrow>
          (case sig_Body s ! 1 of
             DMap results \<Rightarrow>
               if responseCode \<noteq> portalResponseSuccess
               then Inl (''Wayland GlobalShortcuts request failed with response code '' @ showNat (unat responseCode))
               else Inr results
           | _ \<Rightarrow> Inl ''invalid portal response payload'')
      | _ \<Rightarrow> Inl ''invalid portal response code'')"

fun waitForPortalResponse ::
  "string \<Rightarrow> Signal option list \<Rightarrow> Signal option list \<times> (string \<times> dvalue) list result" where
  "waitForPortalResponse requestHandle [] = ([], Inl ''timeout waiting for Wayland GlobalShortcuts response'')"
| "waitForPortalResponse requestHandle (sg # sgs) =
     (if answers requestHandle sg then (sgs, portalAnswer (the sg)) else waitForPortalResponse requestHandle sgs)"

definition createSession :: "PortalBus \<Rightarrow> Signal option list \<times> string result" where
  "createSession bus =
     (case callPortalRequest bus (portalGlobalShortcutsInterface @ ''.CreateSession'') of
        Inl err \<Rightarrow> (pb_creating bus, Inl err)
      | Inr requestHandle \<Rightarrow>
          (case waitForPortalResponse requestHandle (pb_creating bus) of
             (left, Inl err) \<Rightarrow> (left, Inl err)
           | (left, Inr response) \<Rightarrow>
               (left,
                (case map_of response ''session_handle'' of
                   None \<Rightarrow> Inl ''Wayland GlobalShortcuts response missing session_handle''
                 | Some (DPath sessionPath) \<Rightarrow> Inr sessionPath
                 | Some (DString sessionText) \<Rightarrow>
                     if sessionText = '''' then Inl ''Wayland GlobalShortcuts returned invalid session_handle'' else Inr sessionText
                 | Some _ \<Rightarrow> Inl ''Wayland GlobalShortcuts returned invalid session_handle''))))"

section \<open>Binding\<close>

definition hasTrigger :: "dvalue list \<Rightarrow> bool" where
  "hasTrigger s \<longleftrightarrow>
     (if length s < 2 then False
      else (case s ! 1 of
              DMap props \<Rightarrow>
                (case map_of props ''trigger_description'' of Some (DString trigger) \<Rightarrow> trigger \<noteq> '''' | _ \<Rightarrow> False)
            | _ \<Rightarrow> False))"

definition countBoundTriggers :: "dvalue \<Rightarrow> nat" where
  "countBoundTriggers v =
     (case v of
        DStructs shortcuts \<Rightarrow> length (filter hasTrigger shortcuts)
      | DList shortcuts \<Rightarrow> length (filter (\<lambda>item. case item of DList s \<Rightarrow> hasTrigger s | _ \<Rightarrow> False) shortcuts)
      | _ \<Rightarrow> 0)"

definition bindShortcuts :: "PortalBus \<Rightarrow> Signal option list \<Rightarrow> Signal option list \<times> goerror option" where
  "bindShortcuts bus pending =
     (let signals = pending @ pb_binding bus in
      case callPortalRequest bus (portalGlobalShortcutsInterface @ ''.BindShortcuts'') of
        Inl err \<Rightarrow> (signals, Some err)
      | Inr requestHandle \<Rightarrow>
          (case waitForPortalResponse requestHandle signals of
             (left, Inl err) \<Rightarrow> (left, Some err)
           | (left, Inr results) \<Rightarrow>
               (let boundCount = (case map_of results ''shortcuts'' of Some v \<Rightarrow> countBoundTriggers v | None \<Rightarrow> 0) in
                (left, if boundCount = 0 then Some ''Wayland GlobalShortcuts: no shortcut has a trigger, falling back to X11'' else None))))"

section \<open>The portal\<close>

datatype hotkey_action = SendCurrentKey | PastePlaceholderKey | PasteRealKey

definition portalBindings :: "string \<Rightarrow> hotkey_action option" where
  "portalBindings =
     map_of [(''send_current'', SendCurrentKey), (''paste_placeholder'', PastePlaceholderKey), (''paste_real'', PasteRealKey)]"

text \<open>A registered portal: its session, and the signals that came in before \<open>Run\<close>.\<close>

record waylandPortalHotkeys =
  wp_sessionHandle :: string
  wp_signals :: "Signal option list"

text \<open>\<open>Close\<close>, the first time: the session that is closed on the bus, if there is one.\<close>

definition closePortal :: "string \<Rightarrow> string list" where
  "closePortal sessionHandle = (if sessionHandle \<noteq> '''' then [sessionHandle] else [])"

text \<open>The outcome, and the sessions closed on the way to an error.\<close>

definition newWaylandPortalHotkeys :: "PortalBus \<Rightarrow> string list \<times> waylandPortalHotkeys result" where
  "newWaylandPortalHotkeys bus =
     (case pb_connectErr bus of
        Some err \<Rightarrow> ([], Inl (''connect session bus for Wayland hotkeys: '' @ err))
      | None \<Rightarrow>
          (case pb_watchErr bus of
             Some err \<Rightarrow> (closePortal '''', Inl (''watch Wayland Activated signal: '' @ err))
           | None \<Rightarrow>
               (case createSession bus of
                  (_, Inl err) \<Rightarrow> (closePortal '''', Inl err)
                | (left, Inr sessionHandle) \<Rightarrow>
                    (case bindShortcuts bus left of
                       (_, Some err) \<Rightarrow> (closePortal sessionHandle, Inl err)
                     | (left1, None) \<Rightarrow> ([], Inr \<lparr>wp_sessionHandle = sessionHandle, wp_signals = left1\<rparr>)))))"

text \<open>What \<open>Run\<close> does with a signal.\<close>

definition portalSignal :: "waylandPortalHotkeys \<Rightarrow> Signal option \<Rightarrow> hotkey_action option" where
  "portalSignal portal signal =
     (case signal of
        None \<Rightarrow> None
      | Some s \<Rightarrow>
          if sig_Name s \<noteq> portalActivatedSignal \<or> length (sig_Body s) < 2 then None
          else
            (case sig_Body s ! 0 of
               DPath sessionPath \<Rightarrow>
                 if sessionPath \<noteq> wp_sessionHandle portal then None
                 else (case sig_Body s ! 1 of
                         DString shortcutID \<Rightarrow> if shortcutID = '''' then None else portalBindings shortcutID
                       | _ \<Rightarrow> None)
             | _ \<Rightarrow> None))"

section \<open>What a registration means\<close>

text \<open>Waiting takes the first answer to the request; what comes before it is gone, what comes after it stays.\<close>

lemma waitForPortalResponse_first:
  "waitForPortalResponse h sgs = (left, Inr results) \<Longrightarrow>
     \<exists>before s. sgs = before @ Some s # left \<and> list_all (\<lambda>sg. \<not> answers h sg) before \<and> answers h (Some s) \<and> portalAnswer s = Inr results"
proof (induction sgs)
  case (Cons sg sgs)
  show ?case
  proof (cases "answers h sg")
    case True
    then obtain s where "sg = Some s" by (auto simp: answers_def split: option.splits)
    then show ?thesis using Cons.prems True by (intro exI [of _ "[]"]) auto
  next
    case False
    then obtain before s where "sgs = before @ Some s # left" "list_all (\<lambda>sg. \<not> answers h sg) before" "answers h (Some s)"
      "portalAnswer s = Inr results" using Cons by auto
    then show ?thesis using False by (intro exI [of _ "sg # before"]) auto
  qed
qed simp

lemma waitForPortalResponse_from:
  assumes "waitForPortalResponse h sgs = (left, Inr results)"
  shows "\<exists>s. Some s \<in> set sgs \<and> answers h (Some s) \<and> portalAnswer s = Inr results" "set left \<subseteq> set sgs"
  using waitForPortalResponse_first [OF assms] by auto

lemma portalAnswer_success:
  "portalAnswer s = Inr results \<longleftrightarrow>
     sig_Body s ! 0 = DUInt32 portalResponseSuccess \<and> sig_Body s ! 1 = DMap results"
  by (auto simp: portalAnswer_def split: dvalue.splits if_splits)

text \<open>
  A portal is used only if it answered both requests with success, gave a session and has a trigger for at
  least one shortcut; otherwise no session it gave stays open.
\<close>

definition answered :: "PortalBus \<Rightarrow> string \<Rightarrow> Signal option list \<Rightarrow> (string \<times> dvalue) list \<Rightarrow> bool" where
  "answered bus meth signals results \<longleftrightarrow>
     (\<exists>h s. callPortalRequest bus (portalGlobalShortcutsInterface @ meth) = Inr h \<and> Some s \<in> set signals \<and>
        answers h (Some s) \<and> portalAnswer s = Inr results)"

lemma createSession_ok:
  assumes "createSession bus = (left, Inr session)"
  shows "\<exists>response v. answered bus ''.CreateSession'' (pb_creating bus) response \<and>
    map_of response ''session_handle'' = Some v \<and> v \<in> {DPath session, DString session}"
    "set left \<subseteq> set (pb_creating bus)"
proof -
  obtain h response where h: "callPortalRequest bus (portalGlobalShortcutsInterface @ ''.CreateSession'') = Inr h"
    and w: "waitForPortalResponse h (pb_creating bus) = (left, Inr response)"
    and v: "(case map_of response ''session_handle'' of
        None \<Rightarrow> Inl ''Wayland GlobalShortcuts response missing session_handle''
      | Some (DPath sessionPath) \<Rightarrow> Inr sessionPath
      | Some (DString sessionText) \<Rightarrow>
          if sessionText = '''' then Inl ''Wayland GlobalShortcuts returned invalid session_handle'' else Inr sessionText
      | Some _ \<Rightarrow> Inl ''Wayland GlobalShortcuts returned invalid session_handle'') = (Inr session :: string result)"
    using assms by (auto simp: createSession_def split: sum.splits prod.splits)
  have "\<exists>v. map_of response ''session_handle'' = Some v \<and> v \<in> {DPath session, DString session}"
    using v by (auto split: option.splits dvalue.splits if_splits)
  moreover from waitForPortalResponse_from [OF w] h have "answered bus ''.CreateSession'' (pb_creating bus) response"
    "set left \<subseteq> set (pb_creating bus)" unfolding answered_def by blast+
  ultimately show "\<exists>response v. answered bus ''.CreateSession'' (pb_creating bus) response \<and>
    map_of response ''session_handle'' = Some v \<and> v \<in> {DPath session, DString session}"
    "set left \<subseteq> set (pb_creating bus)" by blast+
qed

lemma bindShortcuts_ok:
  assumes "bindShortcuts bus pending = (left, None)"
  shows "\<exists>results v. answered bus ''.BindShortcuts'' (pending @ pb_binding bus) results \<and>
    map_of results ''shortcuts'' = Some v \<and> 0 < countBoundTriggers v"
proof -
  obtain h results where h: "callPortalRequest bus (portalGlobalShortcutsInterface @ ''.BindShortcuts'') = Inr h"
    and w: "waitForPortalResponse h (pending @ pb_binding bus) = (left, Inr results)"
    and n: "(case map_of results ''shortcuts'' of Some v \<Rightarrow> countBoundTriggers v | None \<Rightarrow> 0) \<noteq> 0"
    using assms by (auto simp: bindShortcuts_def Let_def split: sum.splits prod.splits if_splits)
  from waitForPortalResponse_from(1) [OF w] h have "answered bus ''.BindShortcuts'' (pending @ pb_binding bus) results"
    unfolding answered_def by blast
  then show ?thesis using n by (auto split: option.splits)
qed

lemma portal_registered:
  assumes "newWaylandPortalHotkeys bus = (closed, Inr portal)"
  shows "closed = []"
    "\<exists>response v. answered bus ''.CreateSession'' (pb_creating bus) response \<and>
      map_of response ''session_handle'' = Some v \<and> v \<in> {DPath (wp_sessionHandle portal), DString (wp_sessionHandle portal)}"
    "\<exists>results v. answered bus ''.BindShortcuts'' (pb_creating bus @ pb_binding bus) results \<and>
      map_of results ''shortcuts'' = Some v \<and> 0 < countBoundTriggers v"
proof -
  obtain left left1 where c: "createSession bus = (left, Inr (wp_sessionHandle portal))"
    and b: "bindShortcuts bus left = (left1, None)" and closed: "closed = []"
    using assms by (auto simp: newWaylandPortalHotkeys_def split: option.splits sum.splits prod.splits)
  show "closed = []" by (rule closed)
  show "\<exists>response v. answered bus ''.CreateSession'' (pb_creating bus) response \<and>
      map_of response ''session_handle'' = Some v \<and> v \<in> {DPath (wp_sessionHandle portal), DString (wp_sessionHandle portal)}"
    by (rule createSession_ok(1) [OF c])
  show "\<exists>results v. answered bus ''.BindShortcuts'' (pb_creating bus @ pb_binding bus) results \<and>
      map_of results ''shortcuts'' = Some v \<and> 0 < countBoundTriggers v"
    using bindShortcuts_ok [OF b] createSession_ok(2) [OF c] unfolding answered_def by fastforce
qed

lemma portal_failed_closes:
  assumes "newWaylandPortalHotkeys bus = (closed, Inl err)" "createSession bus = (left, Inr session)"
    and "pb_connectErr bus = None" "pb_watchErr bus = None"
  shows "closed = closePortal session"
  using assms by (auto simp: newWaylandPortalHotkeys_def split: prod.splits option.splits)

text \<open>Only activations of the own session start anything, and then what their shortcut is bound to.\<close>

lemma portalSignal_iff:
  "portalSignal portal signal = Some action \<longleftrightarrow>
     (\<exists>s i. signal = Some s \<and> sig_Name s = portalActivatedSignal \<and> 2 \<le> length (sig_Body s) \<and>
        sig_Body s ! 0 = DPath (wp_sessionHandle portal) \<and> sig_Body s ! 1 = DString i \<and> i \<noteq> '''' \<and> portalBindings i = Some action)"
  by (auto simp: portalSignal_def split: option.splits dvalue.splits if_splits)

end
