(* ===== verification/Hotkeys.thy ===== *)
theory Hotkeys
  imports Interfaces WaylandPortal
begin

unbundle bit_operations_syntax

text \<open>
  The global hotkeys on Linux (\<open>desktop/app/hotkeys_linux.go\<close>): which keys are grabbed from the X server, which action a
  key press starts, starting and stopping, with the Wayland portal where there is one. The X server is outside:
  \<open>X11\<close> holds its answers. A modifier state is a 16-bit mask, a key code 8 bits, as in the X protocol.
\<close>

section \<open>Keys and modifiers\<close>

type_synonym keycode = "8 word"
type_synonym keysym = "32 word"
type_synonym modifiers = "16 word"

definition ModMaskShift :: modifiers where "ModMaskShift = 1"
definition ModMaskLock :: modifiers where "ModMaskLock = 2"
definition ModMaskControl :: modifiers where "ModMaskControl = 4"
definition ModMask1 :: modifiers where "ModMask1 = 8"

lemmas mod_masks = ModMaskShift_def ModMaskLock_def ModMaskControl_def ModMask1_def

definition x11KeysymUpperC :: keysym where "x11KeysymUpperC = 0x43"
definition x11KeysymLowerC :: keysym where "x11KeysymLowerC = 0x63"
definition x11KeysymUpperV :: keysym where "x11KeysymUpperV = 0x56"
definition x11KeysymLowerV :: keysym where "x11KeysymLowerV = 0x76"
definition x11KeysymNumLock :: keysym where "x11KeysymNumLock = 0xFF7F"
definition x11BaseModifiers :: modifiers where "x11BaseModifiers = ModMaskControl OR ModMask1"
definition x11ShiftModifiers :: modifiers where "x11ShiftModifiers = x11BaseModifiers OR ModMaskShift"

record x11HotkeySpec =
  hk_name :: string
  hk_keycode :: keycode
  hk_modifiers :: modifiers
  hk_action :: hotkey_action

type_synonym x11Grab = "keycode \<times> modifiers"

definition normalizeModifierState :: "modifiers \<Rightarrow> modifiers \<Rightarrow> modifiers" where
  "normalizeModifierState state numLockMask = state AND NOT (ModMaskLock OR numLockMask)"

text \<open>The masks for every state of the two locks, without repetitions, in this order.\<close>

fun firstOccurrences :: "modifiers list \<Rightarrow> modifiers list \<Rightarrow> modifiers list" where
  "firstOccurrences result [] = result"
| "firstOccurrences result (m # ms) = firstOccurrences (if m \<in> set result then result else result @ [m]) ms"

definition expandModifierVariants :: "modifiers \<Rightarrow> modifiers \<Rightarrow> modifiers list" where
  "expandModifierVariants baseModifiers numLockMask =
     firstOccurrences [] [baseModifiers, baseModifiers OR ModMaskLock, baseModifiers OR numLockMask,
       baseModifiers OR numLockMask OR ModMaskLock]"

fun dispatchX11Hotkey :: "x11HotkeySpec list \<Rightarrow> modifiers \<Rightarrow> keycode \<Rightarrow> modifiers \<Rightarrow> hotkey_action option" where
  "dispatchX11Hotkey [] numLockMask detail state = None"
| "dispatchX11Hotkey (spec # specs) numLockMask detail state =
     (if detail \<noteq> hk_keycode spec \<or> normalizeModifierState state numLockMask \<noteq> hk_modifiers spec
      then dispatchX11Hotkey specs numLockMask detail state else Some (hk_action spec))"

section \<open>The X server\<close>

text \<open>
  What the X server and the environment answer: the range of key codes, the screen, the keyboard and modifier mappings
  with their width, the error of a grab; \<open>x_bus\<close> is the bus of the Wayland portal.
\<close>

record X11 =
  x_wayland :: bool
  x_bus :: PortalBus
  x_connect :: "goerror option"
  x_setup :: "(keycode \<times> keycode) option"
  x_screen :: bool
  x_keyboard :: "(nat \<times> keysym list) result"
  x_modifiers :: "(nat \<times> keycode list) result"
  x_grabErr :: "keycode \<Rightarrow> modifiers \<Rightarrow> goerror option"

text \<open>The loop over the rows of a mapping; the rows are \<open>per\<close> entries each.\<close>

fun findRow :: "('a \<Rightarrow> bool) \<Rightarrow> nat \<Rightarrow> 'a list \<Rightarrow> nat \<Rightarrow> nat \<Rightarrow> nat option" where
  "findRow P per xs offset 0 = None"
| "findRow P per xs offset (Suc n) =
     (if list_ex P (take per (drop (offset * per) xs)) then Some offset else findRow P per xs (Suc offset) n)"

definition lookupKeycode :: "X11 \<Rightarrow> keycode \<times> keycode \<Rightarrow> keysym \<Rightarrow> keysym \<Rightarrow> keycode result" where
  "lookupKeycode x setup primary secondary =
     (case setup of (minKey, maxKey) \<Rightarrow>
        (case x_keyboard x of
           Inl err \<Rightarrow> Inl err
         | Inr (per, keysyms) \<Rightarrow>
             (case findRow (\<lambda>k. k = primary \<or> k = secondary) per keysyms 0 (unat (maxKey - minKey + 1)) of
                Some offset \<Rightarrow> Inr (minKey + of_nat offset)
              | None \<Rightarrow> Inl ''keysym not found'')))"

definition modifierMaskForIndex :: "nat \<Rightarrow> modifiers" where
  "modifierMaskForIndex index = (if index < 8 then 2 ^ index else 0)"

definition lookupModifierMask :: "X11 \<Rightarrow> keycode \<times> keycode \<Rightarrow> keysym \<Rightarrow> modifiers result" where
  "lookupModifierMask x setup key =
     (case lookupKeycode x setup key key of
        Inl _ \<Rightarrow> Inr 0
      | Inr k \<Rightarrow>
          (case x_modifiers x of
             Inl err \<Rightarrow> Inl err
           | Inr (per, codes) \<Rightarrow>
               (case findRow (\<lambda>c. c \<noteq> 0 \<and> c = k) per codes 0 8 of
                  Some index \<Rightarrow> Inr (modifierMaskForIndex index) | None \<Rightarrow> Inr 0)))"

text \<open>The grabs the server holds for the program are a set.\<close>

definition ungrabKeys :: "x11Grab list \<Rightarrow> x11Grab set \<Rightarrow> x11Grab set" where
  "ungrabKeys grabs held = held - set grabs"

fun grabEach :: "X11 \<Rightarrow> keycode \<Rightarrow> modifiers list \<Rightarrow> x11Grab list \<Rightarrow> x11Grab set \<Rightarrow> x11Grab set \<times> x11Grab list result" where
  "grabEach x k [] grabs held = (held, Inr grabs)"
| "grabEach x k (m # ms) grabs held =
     (case x_grabErr x k m of
        Some err \<Rightarrow> (ungrabKeys grabs held, Inl err)
      | None \<Rightarrow> grabEach x k ms (grabs @ [(k, m)]) (insert (k, m) held))"

definition grabKeyVariants ::
  "X11 \<Rightarrow> keycode \<Rightarrow> modifiers \<Rightarrow> modifiers \<Rightarrow> x11Grab set \<Rightarrow> x11Grab set \<times> x11Grab list result" where
  "grabKeyVariants x k baseModifiers numLockMask held = grabEach x k (expandModifierVariants baseModifiers numLockMask) [] held"

section \<open>Registering (run, up to its event loop)\<close>

fun grabSpecs ::
  "X11 \<Rightarrow> modifiers \<Rightarrow> x11HotkeySpec list \<Rightarrow> x11Grab list \<Rightarrow> x11Grab set \<Rightarrow> x11Grab set \<times> x11Grab list result" where
  "grabSpecs x numLockMask [] grabs held = (held, Inr grabs)"
| "grabSpecs x numLockMask (spec # specs) grabs held =
     (case grabKeyVariants x (hk_keycode spec) (hk_modifiers spec) numLockMask held of
        (held1, Inl err) \<Rightarrow> (ungrabKeys grabs held1, Inl (''register '' @ hk_name spec @ '': '' @ err))
      | (held1, Inr registered) \<Rightarrow> grabSpecs x numLockMask specs (grabs @ registered) held1)"

definition hotkeySpecs :: "keycode \<Rightarrow> keycode \<Rightarrow> x11HotkeySpec list" where
  "hotkeySpecs keyC keyV =
     [\<lparr>hk_name = ''Ctrl+Alt+Shift+C'', hk_keycode = keyC, hk_modifiers = x11ShiftModifiers, hk_action = SendCurrentKey\<rparr>,
      \<lparr>hk_name = ''Ctrl+Alt+V'', hk_keycode = keyV, hk_modifiers = x11BaseModifiers, hk_action = PastePlaceholderKey\<rparr>,
      \<lparr>hk_name = ''Ctrl+Alt+Shift+V'', hk_keycode = keyV, hk_modifiers = x11ShiftModifiers, hk_action = PasteRealKey\<rparr>]"

datatype hotkey_source = ByPortal waylandPortalHotkeys | ByX11 "x11HotkeySpec list" modifiers "x11Grab list"

definition registerX11 :: "X11 \<Rightarrow> x11Grab set \<Rightarrow> x11Grab set \<times> hotkey_source result" where
  "registerX11 x held =
     (case x_connect x of
        Some err \<Rightarrow> (held, Inl (''connect X11 display: '' @ err))
      | None \<Rightarrow>
          (case x_setup x of
             None \<Rightarrow> (held, Inl ''resolve X11 setup: unavailable'')
           | Some setup \<Rightarrow>
               if \<not> x_screen x then (held, Inl ''resolve X11 default screen: unavailable'')
               else
                 (case lookupKeycode x setup x11KeysymLowerC x11KeysymUpperC of
                    Inl err \<Rightarrow> (held, Inl (''resolve Ctrl+Alt+Shift+C keycode: '' @ err))
                  | Inr keyC \<Rightarrow>
                      (case lookupKeycode x setup x11KeysymLowerV x11KeysymUpperV of
                         Inl err \<Rightarrow> (held, Inl (''resolve Ctrl+Alt+V keycode: '' @ err))
                       | Inr keyV \<Rightarrow>
                           (case lookupModifierMask x setup x11KeysymNumLock of
                              Inl err \<Rightarrow> (held, Inl (''resolve NumLock modifier: '' @ err))
                            | Inr numLockMask \<Rightarrow>
                                (let specs = hotkeySpecs keyC keyV in
                                 case grabSpecs x numLockMask specs [] held of
                                   (held1, Inl err) \<Rightarrow> (held1, Inl err)
                                 | (held1, Inr grabs) \<Rightarrow> (held1, Inr (ByX11 specs numLockMask grabs))))))))"

definition runHotkeys :: "X11 \<Rightarrow> x11Grab set \<Rightarrow> x11Grab set \<times> hotkey_source result" where
  "runHotkeys x held =
     (if x_wayland x
      then (case snd (newWaylandPortalHotkeys (x_bus x)) of
              Inr portal \<Rightarrow> (held, Inr (ByPortal portal)) | Inl _ \<Rightarrow> registerX11 x held)
      else registerX11 x held)"

text \<open>The manager: \<open>hm_active\<close> is the connection or portal it holds, \<open>hm_held\<close> what the server has grabbed for it.\<close>

record linuxHotkeyManager =
  hm_running :: bool
  hm_active :: "hotkey_source option"
  hm_held :: "x11Grab set"

definition newHotkeyManager :: linuxHotkeyManager where
  "newHotkeyManager = \<lparr>hm_running = False, hm_active = None, hm_held = {}\<rparr>"

definition StartHotkeys :: "X11 \<Rightarrow> linuxHotkeyManager \<Rightarrow> linuxHotkeyManager \<times> goerror option" where
  "StartHotkeys x m =
     (if hm_running m then (m, None)
      else (case runHotkeys x (hm_held m) of
              (held, Inl err) \<Rightarrow> (\<lparr>hm_running = False, hm_active = None, hm_held = held\<rparr>, Some err)
            | (held, Inr src) \<Rightarrow> (\<lparr>hm_running = True, hm_active = Some src, hm_held = held\<rparr>, None)))"

text \<open>\<open>Stop\<close> closes the connection; the loop ends and gives the grabs back before \<open>Stop\<close> returns.\<close>

definition StopHotkeys :: "linuxHotkeyManager \<Rightarrow> linuxHotkeyManager" where
  "StopHotkeys m =
     (if \<not> hm_running m then m
      else \<lparr>hm_running = False, hm_active = None,
            hm_held = (case hm_active m of Some (ByX11 _ _ grabs) \<Rightarrow> ungrabKeys grabs (hm_held m) | _ \<Rightarrow> hm_held m)\<rparr>)"

text \<open>A signal of the bus reaches the program while its loop runs on the portal.\<close>

definition activate :: "linuxHotkeyManager \<Rightarrow> Signal option \<Rightarrow> hotkey_action option" where
  "activate m signal = (case hm_active m of Some (ByPortal portal) \<Rightarrow> portalSignal portal signal | _ \<Rightarrow> None)"

text \<open>A key press reaches the program when the server has it grabbed, with the exact state.\<close>

definition pressKey :: "linuxHotkeyManager \<Rightarrow> keycode \<Rightarrow> modifiers \<Rightarrow> hotkey_action option" where
  "pressKey m k state =
     (case hm_active m of
        Some (ByX11 specs numLockMask _) \<Rightarrow>
          if (k, state) \<in> hm_held m then dispatchX11Hotkey specs numLockMask k state else None
      | _ \<Rightarrow> None)"


section \<open>Every lock state\<close>

lemma firstOccurrences_set: "set (firstOccurrences acc ms) = set acc \<union> set ms"
  by (induction acc ms rule: firstOccurrences.induct) auto

lemma expand_set:
  "set (expandModifierVariants b nl) = {b, b OR ModMaskLock, b OR nl, b OR nl OR ModMaskLock}"
  unfolding expandModifierVariants_def firstOccurrences_set by simp

text \<open>\<open>nl\<close> is a mask of its own: none of the modifiers of the hotkeys is in it.\<close>

definition separate_mask :: "modifiers \<Rightarrow> bool" where
  "separate_mask nl \<longleftrightarrow> nl AND x11ShiftModifiers = 0"

lemma hotkey_modifiers_plain: "x11BaseModifiers = 12" "x11ShiftModifiers = 13"
  by (simp_all add: x11BaseModifiers_def x11ShiftModifiers_def mod_masks)

lemma masked_away:
  fixes a b c :: "16 word"
  assumes "a AND (b OR c) = 0" "e \<in> {0, b, c, c OR b}"
  shows "(a OR e) AND NOT (b OR c) = a"
proof (rule bit_eqI)
  fix n
  assume "possible_bit TYPE(16 word) n"
  moreover have "\<not> bit (a AND (b OR c)) n" using assms(1) by simp
  ultimately show "bit ((a OR e) AND NOT (b OR c)) n = bit a n" using assms(2)
    by (auto simp: bit_and_iff bit_or_iff bit_not_iff)
qed

lemma hotkey_mask_disjoint:
  "separate_mask nl \<Longrightarrow> x11ShiftModifiers AND (ModMaskLock OR nl) = 0"
  "separate_mask nl \<Longrightarrow> x11BaseModifiers AND (ModMaskLock OR nl) = 0"
proof -
  assume s: "separate_mask nl"

  have m: "(13::16 word) AND 2 = 0" "(12::16 word) AND 2 = 0" "(12::16 word) AND 13 = 12" by simp_all
  have "13 AND nl = 0" using s by (simp add: separate_mask_def hotkey_modifiers_plain ac_simps)
  moreover have "12 AND nl = (12 AND 13) AND nl" using m(3) by simp
  ultimately have "12 AND nl = 0" "13 AND nl = 0" by (simp_all only: and.assoc and_zero_eq)
  then show "x11ShiftModifiers AND (ModMaskLock OR nl) = 0" "x11BaseModifiers AND (ModMaskLock OR nl) = 0"
    unfolding hotkey_modifiers_plain ModMaskLock_def bit.conj_disj_distrib m by simp_all
qed

lemma normalized_hotkey:
  assumes "separate_mask nl" "m \<in> {x11BaseModifiers, x11ShiftModifiers}" "e \<in> {0, ModMaskLock, nl, nl OR ModMaskLock}"
  shows "normalizeModifierState (m OR e) nl = m"
proof -
  have "m AND (ModMaskLock OR nl) = 0" using hotkey_mask_disjoint [OF assms(1)] assms(2) by blast
  from masked_away [OF this assms(3)] show ?thesis by (simp only: normalizeModifierState_def)
qed


section \<open>Grabbing\<close>

lemma grabEach_ok: "grabEach x k ms grabs held = (held', Inr gs) \<Longrightarrow> gs = grabs @ map (Pair k) ms \<and> held' = held \<union> set (map (Pair k) ms)"
  by (induction x k ms grabs held rule: grabEach.induct) (auto split: option.splits)

lemma grabEach_failed: "grabEach x k ms grabs held = (held', Inl err) \<Longrightarrow> held' \<subseteq> held - set grabs"
  by (induction x k ms grabs held rule: grabEach.induct) (fastforce simp: ungrabKeys_def split: option.splits)+

text \<open>Everything that is grabbed for some hotkeys.\<close>

definition all_grabs :: "modifiers \<Rightarrow> x11HotkeySpec list \<Rightarrow> x11Grab set" where
  "all_grabs nl specs = {(hk_keycode sp, m) | sp m. sp \<in> set specs \<and> m \<in> set (expandModifierVariants (hk_modifiers sp) nl)}"

lemma grabSpecs_ok:
  "grabSpecs x nl specs grabs held = (held', Inr gs) \<Longrightarrow> set gs = set grabs \<union> all_grabs nl specs \<and> held' = held \<union> all_grabs nl specs"
proof (induction x nl specs grabs held rule: grabSpecs.induct)
  case (2 x nl spec specs grabs held)
  obtain held1 r where g: "grabKeyVariants x (hk_keycode spec) (hk_modifiers spec) nl held = (held1, r)" by fastforce
  with "2.prems" obtain registered where r: "r = Inr registered" by (cases r) simp_all
  have one: "set registered = Pair (hk_keycode spec) ` set (expandModifierVariants (hk_modifiers spec) nl)" "held1 = held \<union> set registered"
    using grabEach_ok g r unfolding grabKeyVariants_def by fastforce+
  have "all_grabs nl (spec # specs) = set registered \<union> all_grabs nl specs" by (auto simp: all_grabs_def one(1))
  then show ?case using "2.IH" [OF g [symmetric] r] "2.prems" g r one(2) by auto
qed (simp add: all_grabs_def)

lemma grabSpecs_failed:
  "grabSpecs x nl specs grabs held = (held', Inl err) \<Longrightarrow> held \<subseteq> set grabs \<Longrightarrow> held' = {}"
proof (induction x nl specs grabs held rule: grabSpecs.induct)
  case (2 x nl spec specs grabs held)
  obtain held1 r where g: "grabKeyVariants x (hk_keycode spec) (hk_modifiers spec) nl held = (held1, r)" by fastforce
  show ?case
  proof (cases r)
    case (Inl e)
    then have "held1 \<subseteq> held" using g grabEach_failed unfolding grabKeyVariants_def by fastforce
    then show ?thesis using "2.prems" g Inl by (auto simp: ungrabKeys_def)
  next
    case (Inr registered)
    then have "held1 = held \<union> set registered"
      using g grabEach_ok unfolding grabKeyVariants_def by fastforce
    then show ?thesis using "2.IH" [OF g [symmetric] Inr] "2.prems" g Inr by auto
  qed
qed simp

lemma registerX11_cases:
  assumes "registerX11 x {} = (held, r)"
  shows "(\<exists>err. r = Inl err \<and> held = {}) \<or>
    (\<exists>keyC keyV nl q. grabSpecs x nl (hotkeySpecs keyC keyV) [] {} = (held, q) \<and>
       r = (case q of Inl err \<Rightarrow> Inl err | Inr grabs \<Rightarrow> Inr (ByX11 (hotkeySpecs keyC keyV) nl grabs)))"
  using assms
  by (auto simp: registerX11_def Let_def split: option.splits sum.splits if_splits prod.splits) force+

lemma registerX11_result:
  assumes "registerX11 x {} = (held, r)"
  shows "(\<exists>err. r = Inl err \<and> held = {}) \<or>
    (\<exists>keyC keyV nl grabs. r = Inr (ByX11 (hotkeySpecs keyC keyV) nl grabs) \<and> set grabs = all_grabs nl (hotkeySpecs keyC keyV) \<and> held = set grabs)"
  using registerX11_cases [OF assms]
proof (elim disjE exE conjE)
  fix keyC keyV nl q
  assume g: "grabSpecs x nl (hotkeySpecs keyC keyV) [] {} = (held, q)"
    and r: "r = (case q of Inl err \<Rightarrow> Inl err | Inr grabs \<Rightarrow> Inr (ByX11 (hotkeySpecs keyC keyV) nl grabs))"
  show ?thesis
  proof (cases q)
    case (Inl err)
    then show ?thesis using grabSpecs_failed [OF g [unfolded Inl]] r by simp
  next
    case (Inr grabs)
    then show ?thesis using grabSpecs_ok [OF g [unfolded Inr]] r
      by (intro disjI2) (rule exI [of _ keyC], rule exI [of _ keyV], rule exI [of _ nl], rule exI [of _ grabs], simp)
  qed
qed blast

section \<open>The manager\<close>

datatype hotkey_event = StartEvent X11 | StopEvent

definition hotkey_step :: "hotkey_event \<Rightarrow> linuxHotkeyManager \<Rightarrow> linuxHotkeyManager" where
  "hotkey_step ev m = (case ev of StartEvent x \<Rightarrow> fst (StartHotkeys x m) | StopEvent \<Rightarrow> StopHotkeys m)"

definition hotkey_run :: "hotkey_event list \<Rightarrow> linuxHotkeyManager \<Rightarrow> linuxHotkeyManager" where
  "hotkey_run evs m = fold hotkey_step evs m"

definition hotkey_inv :: "linuxHotkeyManager \<Rightarrow> bool" where
  "hotkey_inv m \<longleftrightarrow> (hm_running m \<longleftrightarrow> hm_active m \<noteq> None) \<and>
     (case hm_active m of
        Some (ByX11 specs nl grabs) \<Rightarrow>
          (\<exists>keyC keyV. specs = hotkeySpecs keyC keyV) \<and> set grabs = all_grabs nl specs \<and> hm_held m = set grabs
      | Some (ByPortal portal) \<Rightarrow> hm_held m = {} \<and> (\<exists>bus. snd (newWaylandPortalHotkeys bus) = Inr portal)
      | None \<Rightarrow> hm_held m = {})"

lemma hotkey_inv_step: "hotkey_inv m \<Longrightarrow> hotkey_inv (hotkey_step ev m)"
proof (cases ev)
  case (StartEvent x)
  assume inv: "hotkey_inv m"
  show ?thesis
  proof (cases "hm_running m")
    case True
    then show ?thesis using inv StartEvent by (simp add: hotkey_step_def StartHotkeys_def)
  next
    case False
    then have held: "hm_held m = {}" using inv by (auto simp: hotkey_inv_def)
    obtain held r where r: "runHotkeys x {} = (held, r)" by fastforce
    then have "(\<exists>portal. r = Inr (ByPortal portal) \<and> held = {} \<and> snd (newWaylandPortalHotkeys (x_bus x)) = Inr portal) \<or>
        registerX11 x {} = (held, r)" by (auto simp: runHotkeys_def split: if_splits sum.splits)
    then show ?thesis
      using registerX11_result [of x held r] r held False StartEvent
      by (auto simp: hotkey_step_def StartHotkeys_def hotkey_inv_def) blast+
  qed
next
  case StopEvent
  assume "hotkey_inv m"
  then show ?thesis using StopEvent
    by (auto simp: hotkey_step_def StopHotkeys_def hotkey_inv_def ungrabKeys_def split: option.splits hotkey_source.splits)
qed

interpretation hotkeys: machine hotkey_step "\<lambda>_. True" hotkey_inv
  by unfold_locales (rule hotkey_inv_step)

lemma hotkey_inv_run: "hotkey_inv (hotkey_run evs newHotkeyManager)"
  unfolding hotkey_run_def by (rule hotkeys.free_run_inv) (simp_all add: hotkey_inv_def newHotkeyManager_def)

text \<open>The hotkeys do not depend on the order of their dispatch, when the keys C and V are different.\<close>

lemma dispatch_spec:
  assumes "separate_mask nl" "keyC \<noteq> keyV" "sp \<in> set (hotkeySpecs keyC keyV)" "e \<in> {0, ModMaskLock, nl, nl OR ModMaskLock}"
  shows "dispatchX11Hotkey (hotkeySpecs keyC keyV) nl (hk_keycode sp) (hk_modifiers sp OR e) = Some (hk_action sp)"
proof -
  have "hk_modifiers sp \<in> {x11BaseModifiers, x11ShiftModifiers}" using assms(3) by (auto simp: hotkeySpecs_def)
  from normalized_hotkey [OF assms(1) this assms(4)]
  have n: "normalizeModifierState (hk_modifiers sp OR e) nl = hk_modifiers sp" .
  have "x11BaseModifiers \<noteq> x11ShiftModifiers" by (simp add: hotkey_modifiers_plain)
  then show ?thesis using assms(2,3) n by (auto simp: hotkeySpecs_def)
qed

lemma in_all_grabs:
  "sp \<in> set specs \<Longrightarrow> e \<in> {0, ModMaskLock, nl, nl OR ModMaskLock} \<Longrightarrow> (hk_keycode sp, hk_modifiers sp OR e) \<in> all_grabs nl specs"
  unfolding all_grabs_def expand_set by (fastforce simp: ac_simps)

lemma all_grabs_state:
  "(k, s) \<in> all_grabs nl specs \<Longrightarrow> \<exists>sp e. sp \<in> set specs \<and> k = hk_keycode sp \<and> s = hk_modifiers sp OR e \<and>
     e \<in> {0, ModMaskLock, nl, nl OR ModMaskLock}"
proof -
  assume "(k, s) \<in> all_grabs nl specs"
  then obtain sp where sp: "sp \<in> set specs" "k = hk_keycode sp"
    "s \<in> {hk_modifiers sp, hk_modifiers sp OR ModMaskLock, hk_modifiers sp OR nl, hk_modifiers sp OR nl OR ModMaskLock}"
    unfolding all_grabs_def expand_set by blast
  then have "s = hk_modifiers sp OR 0 \<or> s = hk_modifiers sp OR ModMaskLock \<or> s = hk_modifiers sp OR nl \<or>
      s = hk_modifiers sp OR (nl OR ModMaskLock)" by (auto simp: or.assoc)
  then show ?thesis using sp(1,2) by blast
qed

text \<open>A portal the manager runs on comes from the bus of one of its starts, under Wayland.\<close>

lemma registerX11_no_portal: "registerX11 x held \<noteq> (held', Inr (ByPortal portal))"
  by (auto simp: registerX11_def Let_def split: option.splits sum.splits prod.splits)

lemma portal_from_start:
  "hm_active (hotkey_run evs newHotkeyManager) = Some (ByPortal portal) \<Longrightarrow>
     \<exists>x. StartEvent x \<in> set evs \<and> x_wayland x \<and> snd (newWaylandPortalHotkeys (x_bus x)) = Inr portal"
proof (induction evs rule: rev_induct)
  case (snoc ev evs)
  let ?m = "hotkey_run evs newHotkeyManager"
  have act: "hm_active (hotkey_step ev ?m) = Some (ByPortal portal)" using snoc.prems by (simp add: hotkey_run_def)
  show ?case
  proof (cases "hotkey_step ev ?m = ?m")
    case True
    then show ?thesis using act snoc.IH by auto
  next
    case False
    have "ev \<noteq> StopEvent" using act False by (auto simp: hotkey_step_def StopHotkeys_def split: if_splits)
    then obtain x where x: "ev = StartEvent x" by (cases ev) auto
    then obtain held where "runHotkeys x (hm_held ?m) = (held, Inr (ByPortal portal))"
      using act False by (auto simp: hotkey_step_def StartHotkeys_def split: if_splits prod.splits sum.splits)
    then have "x_wayland x \<and> snd (newWaylandPortalHotkeys (x_bus x)) = Inr portal"
      by (auto simp: runHotkeys_def registerX11_no_portal split: if_splits sum.splits)
    then show ?thesis using x by auto
  qed
qed (simp add: hotkey_run_def newHotkeyManager_def)

text \<open>C33: The hotkeys work in every state of Caps Lock and Num Lock and nothing stays grabbed. Whatever was started and stopped
  before: a manager that is not running holds no key of the X server, also after a start that failed half-way; and while it runs on X11, on a keyboard where C and
  V are different keys and Num Lock is a modifier of its own, each of the three hotkeys starts its own action in each of
  the four lock states, and every press the server sends starts exactly one of them. While it runs on the Wayland
  portal it grabs no key; the bus of one of the starts, under Wayland, answered the creation of the session with this
  session and the binding with a trigger for at least one shortcut; and only activations of this session start
  anything.\<close>
theorem hotkeys_work_in_any_lock_state:
  assumes "m = hotkey_run evs newHotkeyManager"
  shows "(\<not> hm_running m \<longrightarrow> hm_held m = {}) \<and>
    (\<forall>keyC keyV nl grabs. hm_active m = Some (ByX11 (hotkeySpecs keyC keyV) nl grabs) \<longrightarrow> keyC \<noteq> keyV \<longrightarrow> separate_mask nl \<longrightarrow>
       (\<forall>sp\<in>set (hotkeySpecs keyC keyV). \<forall>e\<in>{0, ModMaskLock, nl, nl OR ModMaskLock}.
          pressKey m (hk_keycode sp) (hk_modifiers sp OR e) = Some (hk_action sp)) \<and>
       (\<forall>(k, s)\<in>hm_held m. pressKey m k s \<noteq> None)) \<and>
    (\<forall>portal. hm_active m = Some (ByPortal portal) \<longrightarrow> hm_held m = {} \<and>
       (\<exists>x response w results v. StartEvent x \<in> set evs \<and> x_wayland x \<and> snd (newWaylandPortalHotkeys (x_bus x)) = Inr portal \<and>
          answered (x_bus x) ''.CreateSession'' (pb_creating (x_bus x)) response \<and>
          map_of response ''session_handle'' = Some w \<and> w \<in> {DPath (wp_sessionHandle portal), DString (wp_sessionHandle portal)} \<and>
          answered (x_bus x) ''.BindShortcuts'' (pb_creating (x_bus x) @ pb_binding (x_bus x)) results \<and>
          map_of results ''shortcuts'' = Some v \<and> 0 < countBoundTriggers v) \<and>
       (\<forall>signal action. activate m signal = Some action \<longrightarrow>
          (\<exists>s. signal = Some s \<and> sig_Name s = portalActivatedSignal \<and> sig_Body s ! 0 = DPath (wp_sessionHandle portal))))"
proof (intro conjI allI impI)
  have inv: "hotkey_inv m" using hotkey_inv_run assms by simp
  show "hm_held m = {}" if "\<not> hm_running m" using inv that by (auto simp: hotkey_inv_def)
  fix keyC keyV nl grabs
  assume act: "hm_active m = Some (ByX11 (hotkeySpecs keyC keyV) nl grabs)" and keys: "keyC \<noteq> keyV" "separate_mask nl"
  let ?specs = "hotkeySpecs keyC keyV"
  have held: "hm_held m = all_grabs nl ?specs" using inv act by (auto simp: hotkey_inv_def)
  have press: "pressKey m (hk_keycode sp) (hk_modifiers sp OR e) = Some (hk_action sp)"
    if "sp \<in> set ?specs" "e \<in> {0, ModMaskLock, nl, nl OR ModMaskLock}" for sp e
    using in_all_grabs [OF that] dispatch_spec [OF keys(2,1) that] by (simp add: pressKey_def act held)
  then show "\<forall>sp\<in>set ?specs. \<forall>e\<in>{0, ModMaskLock, nl, nl OR ModMaskLock}.
      pressKey m (hk_keycode sp) (hk_modifiers sp OR e) = Some (hk_action sp)" by blast
  show "\<forall>(k, s)\<in>hm_held m. pressKey m k s \<noteq> None"
    using press held by (auto dest!: all_grabs_state)
next
  fix portal
  assume act: "hm_active m = Some (ByPortal portal)"
  have inv: "hotkey_inv m" using hotkey_inv_run assms by simp
  obtain x where x: "StartEvent x \<in> set evs" "x_wayland x" "snd (newWaylandPortalHotkeys (x_bus x)) = Inr portal"
    using portal_from_start [of evs portal] act assms by blast
  then have bus: "newWaylandPortalHotkeys (x_bus x) = (fst (newWaylandPortalHotkeys (x_bus x)), Inr portal)"
    by (simp add: prod_eq_iff)
  show "hm_held m = {}" using inv act by (simp add: hotkey_inv_def)
  show "\<exists>x response w results v. StartEvent x \<in> set evs \<and> x_wayland x \<and> snd (newWaylandPortalHotkeys (x_bus x)) = Inr portal \<and>
      answered (x_bus x) ''.CreateSession'' (pb_creating (x_bus x)) response \<and>
      map_of response ''session_handle'' = Some w \<and> w \<in> {DPath (wp_sessionHandle portal), DString (wp_sessionHandle portal)} \<and>
      answered (x_bus x) ''.BindShortcuts'' (pb_creating (x_bus x) @ pb_binding (x_bus x)) results \<and>
      map_of results ''shortcuts'' = Some v \<and> 0 < countBoundTriggers v"
    using x portal_registered(2,3) [OF bus] by blast
  show "\<exists>s. signal = Some s \<and> sig_Name s = portalActivatedSignal \<and> sig_Body s ! 0 = DPath (wp_sessionHandle portal)"
    if "activate m signal = Some action" for signal action
    using that act by (auto simp: activate_def portalSignal_iff)
qed


section \<open>A keyboard\<close>

text \<open>Four keys, C, V, Num Lock and one without a symbol; Num Lock is the second modifier, as on most keyboards.\<close>

definition noBus :: PortalBus where
  "noBus = \<lparr>pb_connectErr = Some ''no bus'', pb_watchErr = None, pb_call = (\<lambda>_. Inr []), pb_creating = [], pb_binding = []\<rparr>"

definition smallKeyboard :: X11 where
  "smallKeyboard = \<lparr>x_wayland = False, x_bus = noBus, x_connect = None, x_setup = Some (8, 11), x_screen = True,
     x_keyboard = Inr (2, [0x63, 0x43, 0x76, 0x56, 0xFF7F, 0, 0, 0]), x_modifiers = Inr (1, [0, 0, 0, 0, 10, 0, 0, 0]),
     x_grabErr = (\<lambda>_ _. None)\<rparr>"

lemma smallKeyboard_started:
  "\<exists>grabs. hm_active (hotkey_run [StartEvent smallKeyboard] newHotkeyManager) = Some (ByX11 (hotkeySpecs 8 9) 16 grabs)"
proof -
  have keys: "lookupKeycode smallKeyboard (8, 11) x11KeysymLowerC x11KeysymUpperC = Inr 8"
    "lookupKeycode smallKeyboard (8, 11) x11KeysymLowerV x11KeysymUpperV = Inr 9"
    "lookupModifierMask smallKeyboard (8, 11) x11KeysymNumLock = Inr 16"
    by code_simp+
  have never: "\<exists>gs h'. grabEach smallKeyboard k ms grabs h = (h', Inr gs)" for k ms grabs h
    by (induction ms arbitrary: grabs h) (simp_all add: smallKeyboard_def)
  have "\<exists>gs h'. grabSpecs smallKeyboard nl specs grabs h = (h', Inr gs)" for nl specs grabs h
  proof (induction specs arbitrary: grabs h)
    case (Cons sp specs)
    obtain gs h1 where "grabKeyVariants smallKeyboard (hk_keycode sp) (hk_modifiers sp) nl h = (h1, Inr gs)"
      using never unfolding grabKeyVariants_def by blast
    then show ?case using Cons [of "grabs @ gs" h1] by simp
  qed simp
  then obtain gs h where "grabSpecs smallKeyboard 16 (hotkeySpecs 8 9) [] {} = (h, Inr gs)" by blast
  then have "registerX11 smallKeyboard {} = (h, Inr (ByX11 (hotkeySpecs 8 9) 16 gs))"
    using keys by (simp add: registerX11_def Let_def) (simp add: smallKeyboard_def)
  then have "runHotkeys smallKeyboard {} = (h, Inr (ByX11 (hotkeySpecs 8 9) 16 gs))"
    by (simp add: runHotkeys_def) (simp add: smallKeyboard_def)
  then show ?thesis by (simp add: hotkey_run_def hotkey_step_def StartHotkeys_def newHotkeyManager_def)
qed

theorem hotkeys_work_in_any_lock_state_witness:
  "pressKey (hotkey_run [StartEvent smallKeyboard] newHotkeyManager) 9 (x11BaseModifiers OR ModMaskLock) = Some PastePlaceholderKey"
proof -
  let ?sp = "\<lparr>hk_name = ''Ctrl+Alt+V'', hk_keycode = 9, hk_modifiers = x11BaseModifiers, hk_action = PastePlaceholderKey\<rparr>"
  obtain grabs where act: "hm_active (hotkey_run [StartEvent smallKeyboard] newHotkeyManager) = Some (ByX11 (hotkeySpecs 8 9) 16 grabs)"
    using smallKeyboard_started by blast
  have "separate_mask 16" "(8::keycode) \<noteq> 9" by (simp_all add: separate_mask_def hotkey_modifiers_plain)
  moreover have "?sp \<in> set (hotkeySpecs 8 9)" by (simp add: hotkeySpecs_def)
  ultimately have "pressKey (hotkey_run [StartEvent smallKeyboard] newHotkeyManager) (hk_keycode ?sp) (hk_modifiers ?sp OR ModMaskLock) = Some (hk_action ?sp)"
    using hotkeys_work_in_any_lock_state [OF refl, of "[StartEvent smallKeyboard]"] act by blast
  then show ?thesis by simp
qed

text \<open>On a keyboard where Num Lock is on the modifier of Alt no hotkey ever starts anything.\<close>

lemma hotkeys_dead_without_own_numlock:
  "dispatchX11Hotkey (hotkeySpecs keyC keyV) ModMask1 k s = None"
proof -
  have "normalizeModifierState s ModMask1 AND ModMask1 = 0" for s
    by (rule bit_eqI) (simp add: normalizeModifierState_def bit_and_iff bit_or_iff bit_not_iff)
  moreover have "x11BaseModifiers AND ModMask1 \<noteq> 0" "x11ShiftModifiers AND ModMask1 \<noteq> 0"
    by (simp_all add: hotkey_modifiers_plain ModMask1_def)
  ultimately have "normalizeModifierState s ModMask1 \<noteq> x11BaseModifiers" "normalizeModifierState s ModMask1 \<noteq> x11ShiftModifiers"
    by metis+
  then show ?thesis by (simp add: hotkeySpecs_def)
qed

end
