(* ===== verification/PlatformLinux.thy ===== *)
theory PlatformLinux
  imports Monitor Connection Interfaces
begin

text \<open>
  The clipboard of Linux (\<open>desktop/clipboard/monitor_linux.go\<close>): the readers and writers the monitor uses there, through
  \<open>wl-paste\<close>, \<open>wl-copy\<close> and \<open>xclip\<close>, with file paths as \<open>file:\<close> URLs. What the commands answer, whether a file is
  there, and the user and port of a URL's authority are arguments; a command's output is what it printed, with its error.
  Warnings in the log, each given once, are left out.
\<close>

section \<open>URLs of files (net/url)\<close>

definition byteIn :: "char \<Rightarrow> char \<Rightarrow> char \<Rightarrow> bool" where
  "byteIn lo hi c \<longleftrightarrow> lo \<le> c \<and> c \<le> hi"

definition letterByte :: "char \<Rightarrow> bool" where
  "letterByte c \<longleftrightarrow> byteIn (CHR ''a'') (CHR ''z'') c \<or> byteIn (CHR ''A'') (CHR ''Z'') c"

definition digitByte :: "char \<Rightarrow> bool" where "digitByte = byteIn (CHR ''0'') (CHR ''9'')"

definition shouldEscape :: "char \<Rightarrow> bool" where
  "shouldEscape c \<longleftrightarrow> \<not> (letterByte c \<or> digitByte c \<or> c \<in> set ''-_.~$&+,/:;=@'')"

definition upperhex :: string where "upperhex = ''0123456789ABCDEF''"

definition escapeByte :: "char \<Rightarrow> string" where
  "escapeByte c =
     (if shouldEscape c then [CHR ''%'', upperhex ! (of_char c div 16), upperhex ! (of_char c mod 16)] else [c])"

definition escapePath :: "string \<Rightarrow> string" where "escapePath p = concat (map escapeByte p)"

definition unhex :: "char \<Rightarrow> nat option" where
  "unhex c =
     (if digitByte c then Some (of_char c - 48)
      else if byteIn (CHR ''a'') (CHR ''f'') c then Some (of_char c - 87)
      else if byteIn (CHR ''A'') (CHR ''F'') c then Some (of_char c - 55)
      else None)"

fun unescapePath :: "string \<Rightarrow> string option" where
  "unescapePath [] = Some []"
| "unescapePath (c # s) =
     (if c = CHR ''%''
      then (case s of
              a # b # r \<Rightarrow>
                (case (unhex a, unhex b) of
                   (Some h, Some l) \<Rightarrow> map_option ((#) (char_of (16 * h + l))) (unescapePath r)
                 | _ \<Rightarrow> None)
            | _ \<Rightarrow> None)
      else map_option ((#) c) (unescapePath s))"

text \<open>The scheme and the rest; \<open>Inl\<close> when it is missing before a colon.\<close>

fun getSchemeFrom :: "nat \<Rightarrow> string \<Rightarrow> string \<Rightarrow> (string \<times> string) result" where
  "getSchemeFrom i raw [] = Inr ('''', raw)"
| "getSchemeFrom i raw (c # cs) =
     (if letterByte c then getSchemeFrom (Suc i) raw cs
      else if digitByte c \<or> c \<in> set ''+-.'' then if i = 0 then Inr ('''', raw) else getSchemeFrom (Suc i) raw cs
      else if c = CHR '':'' then if i = 0 then Inl ''missing protocol scheme'' else Inr (take i raw, cs)
      else Inr ('''', raw))"

text \<open>
  \<open>url.Parse\<close> of a URL with a scheme: scheme, host and path, \<open>None\<close> for an error. \<open>hostOf\<close> takes the host out of an
  authority; a URL without a scheme, which the callers reject, is also \<open>None\<close>.
\<close>

definition parseURL :: "(string \<Rightarrow> string option) \<Rightarrow> string \<Rightarrow> (string \<times> string \<times> string) option" where
  "parseURL hostOf raw =
     (let (u, frag) = (case cutAt ''#'' raw of None \<Rightarrow> (raw, '''') | Some p \<Rightarrow> p) in
      if list_ex (\<lambda>c. c < CHR '' '' \<or> c = CHR 0x7F) u \<or> unescapePath frag = None then None
      else
        (case getSchemeFrom 0 u u of
           Inl _ \<Rightarrow> None
         | Inr (scheme, rest0) \<Rightarrow>
             (let rest = takeWhile (\<lambda>c. c \<noteq> CHR ''?'') rest0 in
              if scheme = '''' then None
              else if \<not> hasPrefix rest ''/'' then Some (map lowerChar scheme, '''', '''')
              else if hasPrefix rest ''//''
              then (case hostOf (takeWhile (\<lambda>c. c \<noteq> CHR ''/'') (drop 2 rest)) of
                      None \<Rightarrow> None
                    | Some host \<Rightarrow>
                        map_option (\<lambda>p. (map lowerChar scheme, host, p))
                          (unescapePath (dropWhile (\<lambda>c. c \<noteq> CHR ''/'') (drop 2 rest))))
              else map_option (\<lambda>p. (map lowerChar scheme, '''', p)) (unescapePath rest))))"

definition parseLinuxClipboardFileURI :: "(string \<Rightarrow> string option) \<Rightarrow> string \<Rightarrow> string option" where
  "parseLinuxClipboardFileURI hostOf raw =
     (case parseURL hostOf (trimSpace raw) of
        None \<Rightarrow> None
      | Some (scheme, host, path) \<Rightarrow>
          if scheme \<noteq> ''file'' then None
          else if host \<noteq> '''' \<and> host \<noteq> ''localhost'' then None
          else if path = '''' then None
          else Some path)"

text \<open>\<open>URL.String\<close> of a URL with a scheme, a path and nothing else; no path means no slashes.\<close>

definition buildLinuxClipboardFileURI :: "string \<Rightarrow> string" where
  "buildLinuxClipboardFileURI path = ''file:'' @ (if path = '''' then '''' else ''//'' @ escapePath path)"

section \<open>The commands\<close>

datatype exec_error = ExecNotFound | ExecFailed goerror

record LinuxTools =
  lt_WAYLAND_DISPLAY :: string
  lt_output :: "string list \<Rightarrow> bytes \<times> exec_error option"
  lt_start :: "string list \<Rightarrow> exec_error option"
  lt_stat :: "string \<Rightarrow> bool"
  lt_hostOf :: "string \<Rightarrow> string option"
  lt_detect :: "bytes \<Rightarrow> string"

definition isWayland :: "LinuxTools \<Rightarrow> bool" where "isWayland t \<longleftrightarrow> lt_WAYLAND_DISPLAY t \<noteq> ''''"

section \<open>Reading\<close>

definition getPlatformChangeCount :: "(string \<Rightarrow> uint64) \<Rightarrow> LinuxTools \<Rightarrow> uint64" where
  "getPlatformChangeCount XXHash64 t =
     (let x11 = (case lt_output t [''xclip'', ''-selection'', ''clipboard'', ''-o'', ''-t'', ''TARGETS''] of
                   (_, Some ExecNotFound) \<Rightarrow> 0
                 | (out, _) \<Rightarrow> XXHash64 out) in
      if isWayland t
      then (case lt_output t [''wl-paste'', ''--list-types''] of
              (out, None) \<Rightarrow> XXHash64 out
            | (_, Some ExecNotFound) \<Rightarrow> 0
            | (_, Some (ExecFailed _)) \<Rightarrow> x11)
      else x11)"

definition pasteFilesCommand :: "LinuxTools \<Rightarrow> string list" where
  "pasteFilesCommand t =
     (if isWayland t then [''wl-paste'', ''--type'', ''text/uri-list'']
      else [''xclip'', ''-selection'', ''clipboard'', ''-o'', ''-t'', ''text/uri-list''])"

text \<open>A line of a list of URLs: nothing for an empty line, a comment, or what is not the URL of a file that is there.\<close>

definition filePathOfLine :: "LinuxTools \<Rightarrow> string \<Rightarrow> string option" where
  "filePathOfLine t line0 =
     (let line = trimSpace line0 in
      if line = '''' \<or> hasPrefix line ''#'' then None
      else (case parseLinuxClipboardFileURI (lt_hostOf t) line of
              None \<Rightarrow> None
            | Some path \<Rightarrow> if lt_stat t path then Some path else None))"

definition getPlatformFilePaths :: "LinuxTools \<Rightarrow> string list" where
  "getPlatformFilePaths t =
     (case lt_output t (pasteFilesCommand t) of
        (_, Some _) \<Rightarrow> []
      | (out, None) \<Rightarrow>
          (let raw = trimSpace out in
           if raw = '''' then [] else List.map_filter (filePathOfLine t) (splitChar newline raw)))"

definition listWaylandClipboardTypes :: "LinuxTools \<Rightarrow> string list" where
  "listWaylandClipboardTypes t =
     (case lt_output t [''wl-paste'', ''--list-types''] of
        (_, Some _) \<Rightarrow> []
      | (out, None) \<Rightarrow> filter (\<lambda>l. l \<noteq> '''') (map trimSpace (splitChar newline out)))"

definition selectWaylandPreferredType :: "string list \<Rightarrow> string list \<Rightarrow> string list \<Rightarrow> string list \<Rightarrow> string" where
  "selectWaylandPreferredType available preferred starts exclude =
     (if available = [] then ''''
      else (case List.find (\<lambda>want. want \<in> set available) preferred of
              Some want \<Rightarrow> want
            | None \<Rightarrow>
                (case List.find (\<lambda>item. item \<notin> set exclude \<and> list_ex (hasPrefix item) starts) available of
                   Some item \<Rightarrow> item | None \<Rightarrow> '''')))"

definition readWaylandClipboardMime :: "LinuxTools \<Rightarrow> string \<Rightarrow> bytes" where
  "readWaylandClipboardMime t mime =
     (if trimSpace mime = '''' then ''''
      else (case lt_output t [''wl-paste'', ''--no-newline'', ''--type'', mime] of
              (out, None) \<Rightarrow> out | (_, Some _) \<Rightarrow> ''''))"

definition imageTypes :: "string list" where
  "imageTypes = [''image/png'', ''image/jpeg'', ''image/jpg'', ''image/webp'', ''image/bmp'', ''image/gif'']"

definition textTypes :: "string list" where
  "textTypes = [''text/plain;charset=utf-8'', ''text/plain'', ''UTF8_STRING'', ''STRING'', ''TEXT'']"

definition getPlatformImageData :: "LinuxTools \<Rightarrow> bytes" where
  "getPlatformImageData t =
     (if isWayland t
      then readWaylandClipboardMime t (selectWaylandPreferredType (listWaylandClipboardTypes t) imageTypes [''image/''] [])
      else '''')"

definition getPlatformTextData :: "LinuxTools \<Rightarrow> bytes" where
  "getPlatformTextData t =
     (if isWayland t
      then
        (let data = readWaylandClipboardMime t
               (selectWaylandPreferredType (listWaylandClipboardTypes t) textTypes [''text/'', ''application/'']
                  [''text/uri-list'', ''text/html'']) in
         if data \<noteq> '''' then data
         else (case lt_output t [''wl-paste'', ''--no-newline''] of (out, None) \<Rightarrow> out | (_, Some _) \<Rightarrow> ''''))
      else '''')"

text \<open>What the monitor sees; the portable reader and the sizes of files are arguments.\<close>

definition linuxPlatform :: "bytes \<Rightarrow> bytes \<Rightarrow> (string \<Rightarrow> int option) \<Rightarrow> LinuxTools \<Rightarrow> Platform" where
  "linuxPlatform readImage readText sizeOf t =
     \<lparr>pl_paths = getPlatformFilePaths t, pl_image = getPlatformImageData t, pl_text = getPlatformTextData t,
      pl_readImage = readImage, pl_readText = readText, pl_wayland = isWayland t, pl_fileSize = sizeOf\<rparr>"

section \<open>Writing\<close>

text \<open>
  The processes that were started, the newest last, with what they read; a process is known by its place in this list.
  \<open>lp_activeWlCopy\<close> is the one that holds the clipboard on Wayland.
\<close>

record LinuxProcs =
  lp_started :: "(string list \<times> bytes) list"
  lp_killed :: "nat list"
  lp_activeWlCopy :: "nat option"

definition noProcs :: LinuxProcs where "noProcs = \<lparr>lp_started = [], lp_killed = [], lp_activeWlCopy = None\<rparr>"

definition errNotWayland :: goerror where "errNotWayland = ''not wayland or wl-copy unavailable''"

definition holdWlCopyProcess :: "nat \<Rightarrow> LinuxProcs \<Rightarrow> LinuxProcs" where
  "holdWlCopyProcess cmd s =
     s\<lparr>lp_killed := lp_killed s @ (case lp_activeWlCopy s of Some old \<Rightarrow> [old] | None \<Rightarrow> []),
       lp_activeWlCopy := Some cmd\<rparr>"

definition startCommand :: "LinuxTools \<Rightarrow> string list \<Rightarrow> bytes \<Rightarrow> LinuxProcs \<Rightarrow> LinuxProcs \<times> (exec_error + nat)" where
  "startCommand t argv stdin s =
     (case lt_start t argv of
        Some err \<Rightarrow> (s, Inl err)
      | None \<Rightarrow> (s\<lparr>lp_started := lp_started s @ [(argv, stdin)]\<rparr>, Inr (length (lp_started s))))"

text \<open>Starting \<open>wl-copy\<close>, as the three writers do it on Wayland.\<close>

definition startWlCopy :: "LinuxTools \<Rightarrow> string \<Rightarrow> bytes \<Rightarrow> LinuxProcs \<Rightarrow> LinuxProcs \<times> goerror option" where
  "startWlCopy t mime stdin s =
     (case startCommand t [''wl-copy'', ''--type'', mime] stdin s of
        (s1, Inr cmd) \<Rightarrow> (holdWlCopyProcess cmd s1, None)
      | (s1, Inl ExecNotFound) \<Rightarrow> (s1, Some errNotWayland)
      | (s1, Inl (ExecFailed err)) \<Rightarrow> (s1, Some err))"

definition setPlatformText :: "LinuxTools \<Rightarrow> string \<Rightarrow> LinuxProcs \<Rightarrow> LinuxProcs \<times> goerror option" where
  "setPlatformText t content s =
     (if \<not> isWayland t then (s, Some errNotWayland) else startWlCopy t ''text/plain'' content s)"

definition clipboardImageMimeType :: "LinuxTools \<Rightarrow> bytes \<Rightarrow> string" where
  "clipboardImageMimeType t data =
     (let contentType = map lowerChar (trimSpace (lt_detect t data)) in
      if contentType \<in> set [''image/png'', ''image/jpeg'', ''image/gif'', ''image/webp'', ''image/bmp''] then contentType
      else if contentType = ''image/jpg'' then ''image/jpeg'' else ''image/png'')"

definition setPlatformImage :: "LinuxTools \<Rightarrow> bytes \<Rightarrow> LinuxProcs \<Rightarrow> LinuxProcs \<times> goerror option" where
  "setPlatformImage t data s =
     (if \<not> isWayland t then (s, Some errNotWayland) else startWlCopy t (clipboardImageMimeType t data) data s)"

definition crlf :: string where "crlf = [CHR 0x0D, CHR 0x0A]"

definition setPlatformFilePaths :: "LinuxTools \<Rightarrow> string list \<Rightarrow> LinuxProcs \<Rightarrow> LinuxProcs \<times> goerror option" where
  "setPlatformFilePaths t paths s =
     (let normalized = normalizeClipboardPaths paths in
      if normalized = [] then (s, None)
      else
        (let payload = joinChar crlf (map buildLinuxClipboardFileURI normalized) @ crlf in
         if isWayland t then startWlCopy t ''text/uri-list'' payload s
         else
           (case startCommand t [''xclip'', ''-selection'', ''clipboard'', ''-t'', ''text/uri-list''] payload s of
              (s1, Inr _) \<Rightarrow> (s1, None)
            | (s1, Inl ExecNotFound) \<Rightarrow> (s1, Some ''executable file not found in $PATH'')
            | (s1, Inl (ExecFailed err)) \<Rightarrow> (s1, Some err))))"

text \<open>The writers as the monitor knows them, in a given state of the processes.\<close>

definition linuxClipSys :: "LinuxTools \<Rightarrow> LinuxProcs \<Rightarrow> ClipSys \<Rightarrow> ClipSys" where
  "linuxClipSys t s sys =
     sys\<lparr>cs_setText := (\<lambda>x. snd (setPlatformText t x s)), cs_setImage := (\<lambda>d. snd (setPlatformImage t d s)),
         cs_setFiles := (\<lambda>ps. snd (setPlatformFilePaths t ps s))\<rparr>"

section \<open>URLs round trip\<close>

lemma nibbles: "(of_char (c::char) :: nat) div 16 < 16" "(of_char (c::char) :: nat) mod 16 < 16"
proof -
  have "n div 16 < 16" if "n < 256" for n :: nat using that by (simp add: div_less_iff_less_mult)
  then show "(of_char c :: nat) div 16 < 16" using nat_of_char_less_256 [of c] by blast
qed simp

lemma unhex_upperhex: "n < 16 \<Longrightarrow> unhex (upperhex ! n) = Some n"
proof -
  have "\<forall>n\<in>set [0..<16]. unhex (upperhex ! n) = Some n" by code_simp
  then show "n < 16 \<Longrightarrow> unhex (upperhex ! n) = Some n" by simp
qed

lemma escaped_percent: "shouldEscape CHR ''%''"
  by code_simp

lemma unescape_escapeByte: "unescapePath (escapeByte c @ s) = map_option ((#) c) (unescapePath s)"
proof (cases "shouldEscape c")
  case True
  then show ?thesis using unhex_upperhex [OF nibbles(1) [of c]] unhex_upperhex [OF nibbles(2) [of c]]
    by (simp add: escapeByte_def)
next
  case False
  then have "c \<noteq> CHR ''%''" using escaped_percent by metis
  then show ?thesis using False by (simp add: escapeByte_def)
qed

lemma unescape_escape: "unescapePath (escapePath p) = Some p"
  by (induction p) (simp_all add: escapePath_def unescape_escapeByte)

text \<open>What an escaped path is made of.\<close>

definition uriByte :: "char \<Rightarrow> bool" where
  "uriByte c \<longleftrightarrow> CHR '' '' < c \<and> c < CHR 0x7F \<and> c \<noteq> CHR ''#'' \<and> c \<noteq> CHR ''?''"

lemma upperhex_uri: "n < 16 \<Longrightarrow> uriByte (upperhex ! n)"
proof -
  have "\<forall>n\<in>set [0..<16]. uriByte (upperhex ! n)" by code_simp
  then show "n < 16 \<Longrightarrow> uriByte (upperhex ! n)" by simp
qed

lemma plain_uri: "\<not> shouldEscape c \<Longrightarrow> uriByte c"
  by (auto simp: shouldEscape_def uriByte_def letterByte_def digitByte_def byteIn_def less_char_def less_eq_char_def)

lemma escapeByte_uri: "list_all uriByte (escapeByte c)"
proof -
  have "uriByte CHR ''%''" by code_simp
  then show ?thesis using upperhex_uri [OF nibbles(1) [of c]] upperhex_uri [OF nibbles(2) [of c]] plain_uri
    by (simp add: escapeByte_def)
qed

lemma escapePath_uri: "list_all uriByte (escapePath p)"
  by (induction p) (use escapeByte_uri in \<open>simp_all add: escapePath_def\<close>)

lemma spaces_not_uri: "e \<in> set spaceEncodings \<Longrightarrow> c \<in> set e \<Longrightarrow> \<not> uriByte c"
proof -
  have "list_all (list_all (\<lambda>c. \<not> uriByte c)) spaceEncodings" by code_simp
  then show "e \<in> set spaceEncodings \<Longrightarrow> c \<in> set e \<Longrightarrow> \<not> uriByte c" by (auto simp: list_all_iff)
qed

lemma leadingSpace_uri: "uriByte c \<Longrightarrow> leadingSpace (c # s) = None"
  unfolding leadingSpace_def find_None_iff using spaces_not_uri spaceEncodings_nonempty
  by (metis list.set_intros(1) list.exhaust prefix_Cons)

lemma trailingSpace_uri: "uriByte c \<Longrightarrow> trailingSpace (s @ [c]) = None"
  unfolding trailingSpace_def find_None_iff using spaces_not_uri spaceEncodings_nonempty
  by (metis last_snoc last_in_set snoc_suffix_snoc append_butlast_last_id)

lemma newline_spaces:
  "\<forall>e\<in>set spaceEncodings. last e = CHR 0x0D \<longrightarrow> e = [CHR 0x0D]"
  "\<forall>e\<in>set spaceEncodings. last e = CHR 0x0A \<longrightarrow> e = [CHR 0x0A]"
  "[CHR 0x0D] \<in> set spaceEncodings" "[CHR 0x0A] \<in> set spaceEncodings"
  unfolding spaceEncodings_def by simp_all

lemma trailingSpace_newline: "c = CHR 0x0D \<or> c = CHR 0x0A \<Longrightarrow> trailingSpace (s @ [c]) = Some [c]"
proof -
  assume c: "c = CHR 0x0D \<or> c = CHR 0x0A"
  have only: "\<forall>e\<in>set spaceEncodings. last e = c \<longrightarrow> e = [c]" and mem: "[c] \<in> set spaceEncodings"
    using c newline_spaces by metis+
  have "suffix [c] (s @ [c])" by (simp add: suffix_def)
  then have "trailingSpace (s @ [c]) \<noteq> None" using mem unfolding trailingSpace_def find_None_iff by blast
  then obtain e where e: "trailingSpace (s @ [c]) = Some e" by blast
  then have "e \<in> set spaceEncodings" "suffix e (s @ [c])" unfolding trailingSpace_def by (blast dest: find_SomeD)+
  moreover from this have "last e = c"
    using spaceEncodings_nonempty by (metis last_appendR last_snoc suffix_def)
  ultimately show ?thesis using only e by auto
qed

lemma trimSpace_text:
  assumes "s \<noteq> []" "uriByte (hd s)" "uriByte (last s)" "set w \<subseteq> {CHR 0x0D, CHR 0x0A}"
  shows "trimSpace (s @ w) = s"
proof -
  have "leadingSpace (s @ w) = None" using assms(1,2) leadingSpace_uri by (cases s) simp_all
  then have "trimSpace (s @ w) = trimSpaceRight (s @ w)" by (simp add: trimSpace_def trimSpaceLeft_id)
  also have "\<dots> = s" using assms(4)
  proof (induction w rule: rev_induct)
    case Nil
    have "trailingSpace (butlast s @ [last s]) = None" using assms(3) by (rule trailingSpace_uri)
    then show ?case using assms(1) by (simp add: trimSpaceRight_id)
  next
    case (snoc c w)
    then have "trailingSpace ((s @ w) @ [c]) = Some [c]" by (intro trailingSpace_newline) auto
    then show ?case using snoc by (simp add: trimSpaceRight.simps [of "s @ w @ [c]"])
  qed
  finally show ?thesis .
qed

lemma cutAt_absent: "c \<notin> set s \<Longrightarrow> cutAt [c] s = None"
  by (induction s) (simp_all add: cutAt.simps)

lemma uri_parts: "list_all uriByte s \<Longrightarrow> CHR ''#'' \<notin> set s \<and> newline \<notin> set s"
  "list_all uriByte s \<Longrightarrow> \<not> list_ex (\<lambda>c. c < CHR '' '' \<or> c = CHR 0x7F) s"
  "list_all uriByte s \<Longrightarrow> takeWhile (\<lambda>c. c \<noteq> CHR ''?'') s = s"
proof -
  assume u: "list_all uriByte s"
  have "\<not> uriByte newline" by code_simp
  then show "CHR ''#'' \<notin> set s \<and> newline \<notin> set s" using u unfolding list_all_iff by (metis uriByte_def)
  have "\<not> (c < CHR '' '' \<or> c = CHR 0x7F)" if "uriByte c" for c
    using that order.strict_trans order.irrefl unfolding uriByte_def by blast
  then show "\<not> list_ex (\<lambda>c. c < CHR '' '' \<or> c = CHR 0x7F) s"
    using u unfolding list_all_iff list_ex_iff by blast
  show "takeWhile (\<lambda>c. c \<noteq> CHR ''?'') s = s"
    using u unfolding list_all_iff takeWhile_eq_all_conv uriByte_def by blast
qed

lemma built_uri:
  assumes "IsAbs p"
  shows "list_all uriByte (buildLinuxClipboardFileURI p)" "\<exists>r. buildLinuxClipboardFileURI p = ''file:///'' @ r"
    "buildLinuxClipboardFileURI p = ''file://'' @ escapePath p"
proof -
  obtain q where p: "p = slash # q" using assms by (auto simp: IsAbs_def hasPrefix_def prefix_def)
  have "escapePath p = slash # escapePath q" unfolding p escapePath_def by (simp add: escapeByte_def shouldEscape_def)
  then show "\<exists>r. buildLinuxClipboardFileURI p = ''file:///'' @ r" "buildLinuxClipboardFileURI p = ''file://'' @ escapePath p"
    by (simp_all add: buildLinuxClipboardFileURI_def p)
  then show "list_all uriByte (buildLinuxClipboardFileURI p)" using escapePath_uri [of p]
    by (simp add: uriByte_def less_char_def)
qed

lemma getSchemeFrom_file: "getSchemeFrom 0 (''file:'' @ r) (''file:'' @ r) = Inr (''file'', r)"
  by (simp add: letterByte_def digitByte_def byteIn_def less_eq_char_def)

lemma parse_built:
  assumes "IsAbs p" "hostOf '''' = Some ''''"
  shows "parseURL hostOf (buildLinuxClipboardFileURI p) = Some (''file'', '''', p)"
proof -
  let ?u = "buildLinuxClipboardFileURI p"
  obtain q where p: "p = slash # q" using assms(1) by (auto simp: IsAbs_def hasPrefix_def prefix_def)
  have e: "escapePath p = slash # escapePath q" unfolding p escapePath_def by (simp add: escapeByte_def shouldEscape_def)
  have u: "?u = ''file:'' @ ''//'' @ escapePath p" using built_uri(3) [OF assms(1)] by simp
  have rest: "takeWhile (\<lambda>c. c \<noteq> CHR ''?'') (escapePath p) = escapePath p" by (rule uri_parts(3) [OF escapePath_uri])
  have "cutAt ''#'' ?u = None" using uri_parts(1) [OF built_uri(1) [OF assms(1)]] by (intro cutAt_absent) simp
  moreover have "getSchemeFrom 0 ?u ?u = Inr (''file'', ''//'' @ escapePath p)" unfolding u by (rule getSchemeFrom_file)
  moreover have "map lowerChar ''file'' = ''file''" by code_simp
  moreover have "hasPrefix (''//'' @ escapePath p) ''/''" "hasPrefix (''//'' @ escapePath p) ''//''" by (simp_all add: hasPrefix_def)
  moreover have "takeWhile (\<lambda>c. c \<noteq> CHR ''/'') (escapePath p) = ''''" "dropWhile (\<lambda>c. c \<noteq> CHR ''/'') (escapePath p) = escapePath p"
    unfolding e by simp_all
  ultimately show ?thesis using uri_parts(2) [OF built_uri(1) [OF assms(1)]] assms(2) unescape_escape [of p]
    by (simp add: parseURL_def Let_def hasPrefix_def rest)
qed

lemma built_trim:
  assumes "IsAbs p" "set w \<subseteq> {CHR 0x0D, CHR 0x0A}"
  shows "trimSpace (buildLinuxClipboardFileURI p @ w) = buildLinuxClipboardFileURI p"
proof -
  let ?u = "buildLinuxClipboardFileURI p"
  have "?u \<noteq> []" using built_uri(2) [OF assms(1)] by auto
  moreover from this have "uriByte (hd ?u)" "uriByte (last ?u)" using built_uri(1) [OF assms(1)] by (auto simp: list_all_iff)
  ultimately show ?thesis using assms(2) by (rule trimSpace_text)
qed

text \<open>Every line the program writes is read as the path it was made of, when the file is there.\<close>

lemma line_read_back:
  assumes "IsAbs p" "lt_hostOf t '''' = Some ''''" "set w \<subseteq> {CHR 0x0D, CHR 0x0A}"
  shows "filePathOfLine t (buildLinuxClipboardFileURI p @ w) = (if lt_stat t p then Some p else None)"
proof -
  have "trimSpace (buildLinuxClipboardFileURI p) = buildLinuxClipboardFileURI p" using built_trim [OF assms(1), of "''''"] by simp
  then have "parseLinuxClipboardFileURI (lt_hostOf t) (buildLinuxClipboardFileURI p) = Some p"
    using parse_built [of p "lt_hostOf t"] assms(1,2) by (auto simp: parseLinuxClipboardFileURI_def IsAbs_def hasPrefix_def)
  moreover have "buildLinuxClipboardFileURI p \<noteq> ''''" "\<not> hasPrefix (buildLinuxClipboardFileURI p) ''#''"
    using built_uri(2) [OF assms(1)] by (auto simp: hasPrefix_def)
  ultimately show ?thesis unfolding filePathOfLine_def built_trim [OF assms(1,3)] by simp
qed

lemma lines_read_back:
  assumes "lt_hostOf t '''' = Some ''''"
  shows "ps \<noteq> [] \<Longrightarrow> \<forall>p\<in>set ps. IsAbs p \<Longrightarrow>
    List.map_filter (filePathOfLine t) (splitChar newline (joinChar crlf (map buildLinuxClipboardFileURI ps))) = filter (lt_stat t) ps"
proof (induction ps rule: induct_list012)
  case (2 p)
  have "newline \<notin> set (buildLinuxClipboardFileURI p)" using uri_parts(1) [OF built_uri(1), of p] 2 by simp
  then show ?case using line_read_back [OF _ assms, of p "''''"] 2 by (simp add: splitChar_no_sep List.map_filter_simps)
next
  case (3 p q ps)
  let ?u = "buildLinuxClipboardFileURI p"
  have "newline \<notin> set (?u @ [CHR 0x0D])" using uri_parts(1) [OF built_uri(1), of p] 3 by (simp add: newline_def)
  from splitChar_append [OF this] have "splitChar newline (joinChar crlf (map buildLinuxClipboardFileURI (p # q # ps))) =
      (?u @ [CHR 0x0D]) # splitChar newline (joinChar crlf (map buildLinuxClipboardFileURI (q # ps)))"
    by (simp add: crlf_def newline_def)
  then show ?case using 3 line_read_back [OF _ assms, of p "[CHR 0x0D]"] by (simp add: List.map_filter_simps)
qed simp

text \<open>What was written is read back, whatever line ends the command adds.\<close>

lemma paths_read_back:
  assumes "ps \<noteq> []" "\<forall>p\<in>set ps. IsAbs p" "lt_hostOf t '''' = Some ''''" "set w \<subseteq> {CHR 0x0D, CHR 0x0A}"
    and "lt_output t (pasteFilesCommand t) = (joinChar crlf (map buildLinuxClipboardFileURI ps) @ w, None)"
  shows "getPlatformFilePaths t = filter (lt_stat t) ps"
proof -
  let ?j = "joinChar crlf (map buildLinuxClipboardFileURI ps)"
  have "?j \<noteq> '''' \<and> uriByte (hd ?j) \<and> uriByte (last ?j)"
    using assms(1,2)
  proof (induction ps rule: induct_list012)
    case (2 p)
    then have "list_all uriByte (buildLinuxClipboardFileURI p)" "buildLinuxClipboardFileURI p \<noteq> ''''"
      using built_uri(1,2) [of p] by auto
    then show ?case by (simp add: list_all_iff)
  next
    case (3 p q ps)
    then have "list_all uriByte (buildLinuxClipboardFileURI p)" "buildLinuxClipboardFileURI p \<noteq> ''''"
      using built_uri(1,2) [of p] by auto
    then show ?case using 3 by (simp add: list_all_iff crlf_def)
  qed simp
  then have "trimSpace (?j @ w) = ?j" "?j \<noteq> ''''" using trimSpace_text assms(4) by blast+
  then show ?thesis using lines_read_back [OF assms(3,1,2)] by (simp add: getPlatformFilePaths_def assms(5))
qed

lemma clipboard_paths_idem: "normalizeClipboardPaths (normalizeClipboardPaths ps) = normalizeClipboardPaths ps"
  unfolding normalizeClipboardPaths_def
  by (induction ps) (simp_all add: trimSpace_id [OF trimmed_trimSpace])

section \<open>The program's own files on the clipboard\<close>

text \<open>
  At a later moment, with the commands' answers \<open>t\<close>, the clipboard holds what the process started last was given: the
  command that reads the list of files prints it, perhaps with line ends after it.
\<close>

definition served :: "LinuxTools \<Rightarrow> LinuxProcs \<Rightarrow> bool" where
  "served t s \<longleftrightarrow> lp_started s \<noteq> [] \<and>
     (\<exists>w. set w \<subseteq> {CHR 0x0D, CHR 0x0A} \<and> lt_output t (pasteFilesCommand t) = (snd (last (lp_started s)) @ w, None))"

lemma setPlatformFilePaths_starts:
  assumes "setPlatformFilePaths t paths s = (s', None)" "normalizeClipboardPaths paths \<noteq> []"
  shows "\<exists>argv. lp_started s' = lp_started s @
    [(argv, joinChar crlf (map buildLinuxClipboardFileURI (normalizeClipboardPaths paths)) @ crlf)]"
  using assms
  by (auto simp: setPlatformFilePaths_def Let_def startWlCopy_def startCommand_def holdWlCopyProcess_def
      split: if_splits option.splits sum.splits exec_error.splits)

lemma written_files_read_back:
  assumes "setPlatformFilePaths t paths s = (s', None)" "normalizeClipboardPaths paths \<noteq> []"
    and "\<forall>p\<in>set (normalizeClipboardPaths paths). IsAbs p" "served t' s'" "lt_hostOf t' '''' = Some ''''"
  shows "getPlatformFilePaths t' = filter (lt_stat t') (normalizeClipboardPaths paths)"
proof -
  let ?j = "joinChar crlf (map buildLinuxClipboardFileURI (normalizeClipboardPaths paths))"
  obtain argv where "last (lp_started s') = (argv, ?j @ crlf)" using setPlatformFilePaths_starts [OF assms(1,2)] by auto
  then obtain w where "set w \<subseteq> {CHR 0x0D, CHR 0x0A}" "lt_output t' (pasteFilesCommand t') = (?j @ crlf @ w, None)"
    using assms(4) by (auto simp: served_def)
  then show ?thesis by (intro paths_read_back [OF assms(2,3,5), of "crlf @ w"]) (simp_all add: crlf_def)
qed

text \<open>C17: On Linux the files the program puts on the clipboard come back as they were and are not sent again. After
  staging absolute paths, the clipboard shows those of them that exist, in order, with every byte of their
  names; while all exist, the captured content has the payload whose hash the monitor remembered, so no later
  look at it is reported as a change.\<close>
theorem staged_files_come_back_on_linux:
  assumes "StageFilePaths XXHash64 (linuxClipSys t s sys) now paths m = (m', Inr out)" "0 \<le> cm_suppressedEdits m"
    and "normalizeClipboardPaths paths \<noteq> []" "\<forall>p\<in>set (normalizeClipboardPaths paths). IsAbs p"
    and "served t' (fst (setPlatformFilePaths t (normalizeClipboardPaths paths) s))" "lt_hostOf t' '''' = Some ''''"
  shows "getPlatformFilePaths t' = filter (lt_stat t') (normalizeClipboardPaths paths) \<and>
    ((\<forall>p\<in>set (normalizeClipboardPaths paths). lt_stat t' p) \<longrightarrow>
      (\<exists>c. captureDataFromPlatform (linuxPlatform readImage readText sizeOf t') = Some c \<and>
         cap_Paths c = normalizeClipboardPaths paths \<and> (\<forall>at. snd (changes XXHash64 [(at, c)] m') = [])))"
proof -
  let ?ps = "normalizeClipboardPaths paths"
  obtain s' where w: "setPlatformFilePaths t ?ps s = (s', None)"
    using assms(1,3) by (cases "setPlatformFilePaths t ?ps s") (auto simp: StageFilePaths_def linuxClipSys_def Let_def split: option.splits)
  have got: "getPlatformFilePaths t' = filter (lt_stat t') ?ps"
    using written_files_read_back [OF w _ _ _ assms(6)] assms(3,4,5) w by (simp add: clipboard_paths_idem)
  have wrote: "wrote XXHash64 now (buildFileStubPayload ?ps) m'"
    using StageFilePaths_wrote [OF assms(1,2,3)] by blast
  have "\<exists>c. captureDataFromPlatform (linuxPlatform readImage readText sizeOf t') = Some c \<and> cap_Paths c = ?ps \<and>
      (\<forall>at. snd (changes XXHash64 [(at, c)] m') = [])" if "\<forall>p\<in>set ?ps. lt_stat t' p"
  proof -
    have paths: "pl_paths (linuxPlatform readImage readText sizeOf t') = ?ps"
      using got that by (simp add: linuxPlatform_def filter_id_conv)
    let ?c = "fileCapture (linuxPlatform readImage readText sizeOf t') ?ps"
    have "captureDataFromPlatform (linuxPlatform readImage readText sizeOf t') = Some ?c"
      using assms(3) by (simp add: captureDataFromPlatform_def deriveCaptureData_def paths clipboard_paths_idem Let_def)
    moreover have "cap_Paths ?c = ?ps" by (simp add: fileCapture_def)
    moreover have "snd (changes XXHash64 [(at, ?c)] m') = []" for at
      by (rule wrote_not_reported [OF wrote, of _ "buildFileStubPayload ?ps"]) (simp_all add: fileCapture_def)
    ultimately show ?thesis by blast
  qed
  then show ?thesis using got by blast
qed

section \<open>Reading types, holding the clipboard\<close>

text \<open>The type that is chosen is offered; one of the preferred comes first; an excluded one only when it is preferred.\<close>

lemma selectWaylandPreferredType_chosen:
  assumes "selectWaylandPreferredType available preferred starts exclude = mime" "mime \<noteq> ''''"
  shows "mime \<in> set available" "mime \<in> set preferred \<or> mime \<notin> set exclude"
    "set preferred \<inter> set available \<noteq> {} \<Longrightarrow> mime \<in> set preferred"
proof -
  have "mime \<in> set available \<and> (mime \<in> set preferred \<or> mime \<notin> set exclude) \<and>
      (set preferred \<inter> set available \<noteq> {} \<longrightarrow> mime \<in> set preferred)"
    using assms unfolding selectWaylandPreferredType_def
    by (auto split: if_splits option.splits dest!: find_SomeD simp: find_None_iff)
  then show "mime \<in> set available" "mime \<in> set preferred \<or> mime \<notin> set exclude"
    "set preferred \<inter> set available \<noteq> {} \<Longrightarrow> mime \<in> set preferred" by blast+
qed

datatype linux_write = LinuxText string | LinuxImage bytes | LinuxFiles "string list"

fun linuxWrite :: "LinuxTools \<Rightarrow> linux_write \<Rightarrow> LinuxProcs \<Rightarrow> LinuxProcs" where
  "linuxWrite t (LinuxText x) s = fst (setPlatformText t x s)"
| "linuxWrite t (LinuxImage d) s = fst (setPlatformImage t d s)"
| "linuxWrite t (LinuxFiles ps) s = fst (setPlatformFilePaths t ps s)"

definition not_killed :: "LinuxProcs \<Rightarrow> nat set" where
  "not_killed s = {i. i < length (lp_started s) \<and> i \<notin> set (lp_killed s)}"

text \<open>On Wayland only the newest process is left, and it is the one the program holds.\<close>

definition newest_held :: "LinuxProcs \<Rightarrow> bool" where
  "newest_held s \<longleftrightarrow> set (lp_killed s) \<subseteq> {..<length (lp_started s)} \<and>
     lp_activeWlCopy s = (if lp_started s = [] then None else Some (length (lp_started s) - 1)) \<and>
     not_killed s = set_option (lp_activeWlCopy s)"

lemma not_killed_next:
  assumes "set (lp_killed s) \<subseteq> {..<length (lp_started s)}" "set_option (lp_activeWlCopy s) \<subseteq> {..<length (lp_started s)}"
  shows "not_killed (holdWlCopyProcess (length (lp_started s)) (s\<lparr>lp_started := lp_started s @ [p]\<rparr>)) =
    insert (length (lp_started s)) (not_killed s - set_option (lp_activeWlCopy s))"
  using assms by (cases "lp_activeWlCopy s") (auto simp: not_killed_def holdWlCopyProcess_def)

lemma startWlCopy_newest: "newest_held s \<Longrightarrow> newest_held (fst (startWlCopy t mime stdin s))"
proof (cases "lt_start t [''wl-copy'', ''--type'', mime]")
  case (Some err)
  then show "newest_held s \<Longrightarrow> ?thesis" by (cases err) (simp_all add: startWlCopy_def startCommand_def)
next
  case None
  assume n: "newest_held s"
  then have killed: "set (lp_killed s) \<subseteq> {..<length (lp_started s)}" and act: "set_option (lp_activeWlCopy s) \<subseteq> {..<length (lp_started s)}"
    by (auto simp: newest_held_def split: if_splits)
  let ?s = "holdWlCopyProcess (length (lp_started s)) (s\<lparr>lp_started := lp_started s @ [([''wl-copy'', ''--type'', mime], stdin)]\<rparr>)"
  have "not_killed ?s = {length (lp_started s)}"
    using not_killed_next [OF killed act] n by (simp add: newest_held_def)
  moreover have "set (lp_killed ?s) \<subseteq> {..<length (lp_started ?s)}"
    using killed act by (cases "lp_activeWlCopy s") (auto simp: holdWlCopyProcess_def)
  moreover have "lp_activeWlCopy ?s = Some (length (lp_started s))" "length (lp_started ?s) = Suc (length (lp_started s))"
    by (simp_all add: holdWlCopyProcess_def)
  ultimately have "newest_held ?s" by (auto simp: newest_held_def)
  then show ?thesis using None by (simp add: startWlCopy_def startCommand_def)
qed

lemma linuxWrite_newest: "isWayland t \<Longrightarrow> newest_held s \<Longrightarrow> newest_held (linuxWrite t w s)"
  by (cases w) (simp_all add: setPlatformText_def setPlatformImage_def setPlatformFilePaths_def Let_def startWlCopy_newest)

interpretation wl_copy: machine "\<lambda>(t, w). linuxWrite t w" "\<lambda>(t, w). isWayland t" newest_held
  by unfold_locales (auto simp: linuxWrite_newest)

text \<open>Whatever is written, with whatever outcomes, at most one \<open>wl-copy\<close> is left running, the newest.\<close>

lemma one_wl_copy: "\<forall>(t, w)\<in>set ws. isWayland t \<Longrightarrow> newest_held (fold (\<lambda>(t, w). linuxWrite t w) ws noProcs)"
  by (rule wl_copy.run_inv) (auto simp: newest_held_def noProcs_def not_killed_def list_all_iff)

text \<open>On Wayland without \<open>wl-paste\<close> nothing is captured, whatever the portable reader would show.\<close>

lemma wayland_without_wl_paste:
  assumes "isWayland t" "\<And>argv. hd argv = ''wl-paste'' \<Longrightarrow> lt_output t argv = ('''', Some ExecNotFound)"
  shows "captureDataFromPlatform (linuxPlatform readImage readText sizeOf t) = None"
  using assms
  by (simp add: captureDataFromPlatform_def deriveCaptureData_def linuxPlatform_def getPlatformFilePaths_def pasteFilesCommand_def
      getPlatformImageData_def getPlatformTextData_def listWaylandClipboardTypes_def readWaylandClipboardMime_def Let_def)

section \<open>A machine with X11\<close>

definition x11Tools :: "bytes \<Rightarrow> LinuxTools" where
  "x11Tools selection =
     \<lparr>lt_WAYLAND_DISPLAY = '''', lt_output = (\<lambda>_. (selection, None)), lt_start = (\<lambda>_. None), lt_stat = (\<lambda>_. True),
      lt_hostOf = Some, lt_detect = (\<lambda>_. ''image/png'')\<rparr>"

theorem staged_files_come_back_on_linux_witness:
  "getPlatformFilePaths (x11Tools (''file:///tmp/a%20b%25.txt'' @ crlf)) = [''/tmp/a b%.txt'']"
proof -
  have norm: "normalizeClipboardPaths [''/tmp/a b%.txt''] = [''/tmp/a b%.txt'']" by code_simp
  have uri: "buildLinuxClipboardFileURI ''/tmp/a b%.txt'' = ''file:///tmp/a%20b%25.txt''" by code_simp
  let ?t = "x11Tools '''' " and ?t' = "x11Tools (''file:///tmp/a%20b%25.txt'' @ crlf)"
  let ?m = "StageFilePaths lengthHash (linuxClipSys ?t noProcs sampleSys) 5 [''/tmp/a b%.txt''] newClipManager"
  have set_: "setPlatformFilePaths ?t [''/tmp/a b%.txt''] noProcs =
      (\<lparr>lp_started = [([''xclip'', ''-selection'', ''clipboard'', ''-t'', ''text/uri-list''], ''file:///tmp/a%20b%25.txt'' @ crlf)],
        lp_killed = [], lp_activeWlCopy = None\<rparr>, None)"
    by (simp add: setPlatformFilePaths_def norm uri Let_def isWayland_def x11Tools_def startCommand_def noProcs_def)
  then have "\<exists>m' out. ?m = (m', Inr out)" by (simp add: StageFilePaths_def norm linuxClipSys_def Let_def)
  then obtain m' out where st: "?m = (m', Inr out)" by blast
  have "0 \<le> cm_suppressedEdits newClipManager" by (simp add: newClipManager_def)
  moreover have "served ?t' (fst (setPlatformFilePaths ?t [''/tmp/a b%.txt''] noProcs))"
    unfolding served_def set_ by (intro conjI exI [of _ "[]"]) (simp_all add: x11Tools_def)
  ultimately show ?thesis
    using staged_files_come_back_on_linux [OF st, of ?t' "''''" "''''" "\<lambda>_. None"]
    by (simp add: norm IsAbs_def hasPrefix_def) (simp add: x11Tools_def)
qed

text \<open>Escaping as a wire format: different paths have different URLs.\<close>

interpretation escaped_path: codec escapePath unescapePath "\<lambda>_. True"
  by unfold_locales (rule unescape_escape)

lemma different_files_different_urls:
  "IsAbs p \<Longrightarrow> IsAbs q \<Longrightarrow> buildLinuxClipboardFileURI p = buildLinuxClipboardFileURI q \<longleftrightarrow> p = q"
  by (simp add: built_uri(3) escaped_path.same_code)

end
