(* ===== verification/PlatformWindows.thy ===== *)
theory PlatformWindows
  imports Monitor Interfaces
begin

text \<open>
  The clipboard of Windows (\<open>desktop/clipboard/monitor_windows.go\<close>): the layout of a bitmap in memory and its conversion,
  the blocks of memory handed to the clipboard, and who frees them. Win32 is outside: its answers, the text in UTF-16 and what
  the clipboard holds are arguments. Integers have the width they have in the code, \<open>uint\<close> and \<open>uintptr\<close> 64 bits.
\<close>

section \<open>Bitmaps (CF_DIB)\<close>

definition byteAt :: "bytes \<Rightarrow> nat \<Rightarrow> nat" where "byteAt raw i = of_char (raw ! i)"

definition le16 :: "bytes \<Rightarrow> nat \<Rightarrow> 16 word" where
  "le16 raw i = of_nat (byteAt raw i + 2 ^ 8 * byteAt raw (i + 1))"

definition le32 :: "bytes \<Rightarrow> nat \<Rightarrow> 32 word" where
  "le32 raw i = of_nat (byteAt raw i + 2 ^ 8 * byteAt raw (i + 1) + 2 ^ 16 * byteAt raw (i + 2) + 2 ^ 24 * byteAt raw (i + 3))"

text \<open>The argument is an \<open>int32\<close>.\<close>

definition windowsAbsInt32 :: "32 word \<Rightarrow> uint64" where
  "windowsAbsInt32 v = (if sint v < 0 then of_int (- sint v) else of_int (sint v))"

definition colorTableSize :: "bytes \<Rightarrow> uint64" where
  "colorTableSize raw =
     (let biBitCount = le16 raw 14; biClrUsed = le32 raw 32 in
      if biBitCount \<le> 8
      then (let colors = (ucast biClrUsed :: uint64) in
            (if colors = 0 then push_bit (unat biBitCount) 1 else colors) * 4)
      else 0)"

definition pixelDataSize :: "bytes \<Rightarrow> uint64" where
  "pixelDataSize raw =
     (let biBitCount = le16 raw 14; biWidth = windowsAbsInt32 (le32 raw 4); biHeight = windowsAbsInt32 (le32 raw 8);
          biSizeImage = le32 raw 20 in
      if biSizeImage \<noteq> 0 then ucast biSizeImage
      else (let stride = ((ucast biBitCount * biWidth + 31) div 32) * 4 in stride * biHeight))"

definition windowsDIBLayout :: "bytes \<Rightarrow> (uint64 \<times> 32 word) option" where
  "windowsDIBLayout raw =
     (let biSize = le32 raw 0; biBitCount = le16 raw 14; size0 = (ucast biSize :: uint64);
          size1 = size0 + colorTableSize raw; totalSize = size1 + pixelDataSize raw;
          pixelOffset = 14 + size0 + colorTableSize raw in
      if length raw < 40 then None
      else if biSize < 40 \<or> of_nat (length raw) < biSize then None
      else if windowsAbsInt32 (le32 raw 4) = 0 \<or> windowsAbsInt32 (le32 raw 8) = 0 then None
      else if biBitCount = 0 \<or> 64 < biBitCount then None
      else if of_nat (length raw) - size0 < colorTableSize raw then None
      else if of_nat (length raw) - size1 < pixelDataSize raw then None
      else if 2 ^ 63 - 1 < totalSize then None
      else if totalSize < pixelOffset \<or> 2 ^ 32 - 1 < pixelOffset then None
      else Some (totalSize, ucast pixelOffset))"

definition put32 :: "32 word \<Rightarrow> bytes" where
  "put32 w = map (\<lambda>i. char_of (unat (drop_bit (8 * i) w) mod 256)) [0..<4]"

definition windowsDIBToPNG :: "ClipSys \<Rightarrow> bytes \<Rightarrow> bytes result" where
  "windowsDIBToPNG sys raw =
     (case windowsDIBLayout raw of
        None \<Rightarrow> Inl ''invalid Windows CF_DIB payload''
      | Some (totalSize, pixelOffset) \<Rightarrow>
          normalizeClipboardImagePNG sys
            (''BM'' @ put32 (of_nat (14 + unat totalSize)) @ replicate 4 (CHR 0x00) @ put32 pixelOffset @ take (unat totalSize) raw))"

section \<open>Win32\<close>

text \<open>
  The answers of Win32, an error when a call fails: opening at each attempt, allocating and locking the block of a
  number, emptying, setting a format, the number of a registered format, UTF-16 with its final zero (an error for a
  text with a zero byte).
\<close>

record WinApi =
  wa_open :: "nat \<Rightarrow> goerror option"
  wa_alloc :: "nat \<Rightarrow> goerror option"
  wa_lock :: "nat \<Rightarrow> bool"
  wa_empty :: "goerror option"
  wa_set :: "nat \<Rightarrow> goerror option"
  wa_register :: "nat result"
  wa_utf16 :: "string \<Rightarrow> 16 word list result"

datatype winmem = Zeroed | DropFiles "16 word list" | UnicodeText "16 word list" | DropEffect "32 word"

text \<open>
  The blocks that were allocated, a handle being the place in this list; which are freed, and which belong to the
  clipboard, with their format.
\<close>

record WinState =
  ws_open :: bool
  ws_blocks :: "winmem list"
  ws_freed :: "nat set"
  ws_owned :: "(nat \<times> nat) list"

definition CF_HDROP :: nat where "CF_HDROP = 15"
definition cfUnicodeText :: nat where "cfUnicodeText = 13"
definition dropEffectCopy :: "32 word" where "dropEffectCopy = 1"

definition globalAlloc :: "WinApi \<Rightarrow> WinState \<Rightarrow> WinState \<times> nat result" where
  "globalAlloc api s =
     (case wa_alloc api (length (ws_blocks s)) of
        Some err \<Rightarrow> (s, Inl err)
      | None \<Rightarrow> (s\<lparr>ws_blocks := ws_blocks s @ [Zeroed]\<rparr>, Inr (length (ws_blocks s))))"

definition globalFree :: "nat \<Rightarrow> WinState \<Rightarrow> WinState" where
  "globalFree h s = s\<lparr>ws_freed := insert h (ws_freed s)\<rparr>"

definition fillBlock :: "nat \<Rightarrow> winmem \<Rightarrow> WinState \<Rightarrow> WinState" where
  "fillBlock h content s = s\<lparr>ws_blocks := (ws_blocks s)[h := content]\<rparr>"

text \<open>Emptying frees what the clipboard owned.\<close>

definition emptyClipboard :: "WinApi \<Rightarrow> WinState \<Rightarrow> WinState \<times> goerror option" where
  "emptyClipboard api s =
     (case wa_empty api of
        Some err \<Rightarrow> (s, Some err)
      | None \<Rightarrow> (s\<lparr>ws_freed := ws_freed s \<union> snd ` set (ws_owned s), ws_owned := []\<rparr>, None))"

definition setClipboardData :: "WinApi \<Rightarrow> nat \<Rightarrow> nat \<Rightarrow> WinState \<Rightarrow> WinState \<times> goerror option" where
  "setClipboardData api format h s =
     (case wa_set api format of
        Some err \<Rightarrow> (s, Some err)
      | None \<Rightarrow> (s\<lparr>ws_owned := (format, h) # ws_owned s\<rparr>, None))"

text \<open>Ten attempts; the error is that of the last.\<close>

fun openAttempts :: "WinApi \<Rightarrow> nat \<Rightarrow> nat \<Rightarrow> goerror \<Rightarrow> goerror option" where
  "openAttempts api attempt 0 lastErr = Some (''OpenClipboard: '' @ lastErr)"
| "openAttempts api attempt (Suc n) lastErr =
     (case wa_open api attempt of None \<Rightarrow> None | Some err \<Rightarrow> openAttempts api (Suc attempt) n err)"

definition openClipboardWithRetry :: "WinApi \<Rightarrow> WinState \<Rightarrow> WinState \<times> goerror option" where
  "openClipboardWithRetry api s =
     (case openAttempts api 0 10 ''invalid argument'' of
        None \<Rightarrow> (s\<lparr>ws_open := True\<rparr>, None)
      | Some err \<Rightarrow> (s, Some err))"

definition closeClipboard :: "WinState \<Rightarrow> WinState" where "closeClipboard s = s\<lparr>ws_open := False\<rparr>"

section \<open>Blocks\<close>

text \<open>The paths one after the other, each with its zero, and a last zero.\<close>

fun dropWords :: "WinApi \<Rightarrow> string list \<Rightarrow> 16 word list result" where
  "dropWords api [] = Inr [0]"
| "dropWords api (path # paths) =
     (if path = '''' then dropWords api paths
      else (case wa_utf16 api path of
              Inl err \<Rightarrow> Inl err
            | Inr encoded \<Rightarrow>
                (case dropWords api paths of Inl err \<Rightarrow> Inl err | Inr ws \<Rightarrow> Inr (encoded @ ws))))"

definition newDropFilesHandle :: "WinApi \<Rightarrow> string list \<Rightarrow> WinState \<Rightarrow> WinState \<times> nat result" where
  "newDropFilesHandle api paths s =
     (case dropWords api paths of
        Inl err \<Rightarrow> (s, Inl err)
      | Inr utf16Paths \<Rightarrow>
          (case globalAlloc api s of
             (s1, Inl err) \<Rightarrow> (s1, Inl (''GlobalAlloc: '' @ err))
           | (s1, Inr h) \<Rightarrow>
               if \<not> wa_lock api h then (globalFree h s1, Inl ''GlobalLock failed'')
               else (fillBlock h (DropFiles utf16Paths) s1, Inr h)))"

definition newUnicodeTextHandle :: "WinApi \<Rightarrow> string \<Rightarrow> WinState \<Rightarrow> WinState \<times> nat result" where
  "newUnicodeTextHandle api t s =
     (case wa_utf16 api t of
        Inl err \<Rightarrow> (s, Inl err)
      | Inr encoded \<Rightarrow>
          if encoded = [] \<or> 2 ^ 63 - 1 < 2 * length encoded then (s, Inl ''unicode text allocation size invalid'')
          else
            (case globalAlloc api s of
               (s1, Inl err) \<Rightarrow> (s1, Inl (''GlobalAlloc CF_UNICODETEXT: '' @ err))
             | (s1, Inr h) \<Rightarrow>
                 if \<not> wa_lock api h then (globalFree h s1, Inl ''GlobalLock CF_UNICODETEXT failed'')
                 else (fillBlock h (UnicodeText encoded) s1, Inr h)))"

definition setPreferredDropEffect :: "WinApi \<Rightarrow> 32 word \<Rightarrow> WinState \<Rightarrow> WinState \<times> goerror option" where
  "setPreferredDropEffect api effect s =
     (case wa_register api of
        Inl err \<Rightarrow> (s, Some (''RegisterClipboardFormatW: '' @ err))
      | Inr format \<Rightarrow>
          (case globalAlloc api s of
             (s1, Inl err) \<Rightarrow> (s1, Some (''GlobalAlloc Preferred DropEffect: '' @ err))
           | (s1, Inr h) \<Rightarrow>
               if \<not> wa_lock api h then (globalFree h s1, Some ''GlobalLock Preferred DropEffect failed'')
               else
                 (case setClipboardData api format h (fillBlock h (DropEffect effect) s1) of
                    (s2, Some err) \<Rightarrow> (globalFree h s2, Some (''SetClipboardData(Preferred DropEffect): '' @ err))
                  | (s2, None) \<Rightarrow> (s2, None))))"

section \<open>Writing\<close>

text \<open>Handing over a block: the clipboard is emptied first, and the block is freed when the clipboard does not take it.\<close>

definition handOver :: "WinApi \<Rightarrow> nat \<Rightarrow> string \<Rightarrow> nat \<Rightarrow> WinState \<Rightarrow> WinState \<times> goerror option" where
  "handOver api format name h s =
     (case emptyClipboard api s of
        (s1, Some err) \<Rightarrow> (globalFree h s1, Some (''EmptyClipboard: '' @ err))
      | (s1, None) \<Rightarrow>
          (case setClipboardData api format h s1 of
             (s2, Some err) \<Rightarrow> (globalFree h s2, Some (''SetClipboardData('' @ name @ ''): '' @ err))
           | (s2, None) \<Rightarrow> (s2, None)))"

definition setWindowsFileDropList :: "WinApi \<Rightarrow> string list \<Rightarrow> WinState \<Rightarrow> WinState \<times> goerror option" where
  "setWindowsFileDropList api paths s =
     (case openClipboardWithRetry api s of
        (s1, Some err) \<Rightarrow> (s1, Some err)
      | (s1, None) \<Rightarrow>
          (case newDropFilesHandle api paths s1 of
             (s2, Inl err) \<Rightarrow> (closeClipboard s2, Some err)
           | (s2, Inr hDrop) \<Rightarrow>
               (case handOver api CF_HDROP ''CF_HDROP'' hDrop s2 of
                  (s3, Some err) \<Rightarrow> (closeClipboard s3, Some err)
                | (s3, None) \<Rightarrow> (closeClipboard (fst (setPreferredDropEffect api dropEffectCopy s3)), None))))"

definition setWindowsUnicodeText :: "WinApi \<Rightarrow> string \<Rightarrow> WinState \<Rightarrow> WinState \<times> goerror option" where
  "setWindowsUnicodeText api t s =
     (case openClipboardWithRetry api s of
        (s1, Some err) \<Rightarrow> (s1, Some err)
      | (s1, None) \<Rightarrow>
          (case newUnicodeTextHandle api t s1 of
             (s2, Inl err) \<Rightarrow> (closeClipboard s2, Some err)
           | (s2, Inr h) \<Rightarrow>
               (case handOver api cfUnicodeText ''CF_UNICODETEXT'' h s2 of (s3, err) \<Rightarrow> (closeClipboard s3, err))))"

definition setPlatformFilePathsWindows :: "WinApi \<Rightarrow> string list \<Rightarrow> WinState \<Rightarrow> WinState \<times> goerror option" where
  "setPlatformFilePathsWindows api paths s = (if paths = [] then (s, None) else setWindowsFileDropList api paths s)"

definition setPlatformTextWindows :: "WinApi \<Rightarrow> string \<Rightarrow> WinState \<Rightarrow> WinState \<times> goerror option" where
  "setPlatformTextWindows = setWindowsUnicodeText"

section \<open>Reading\<close>

text \<open>
  What the clipboard holds for the readers: the number of files and each of them (its size and text), the bytes
  of the bitmap; \<open>None\<close> when a call on the way fails or the format is not there.
\<close>

record WinClip =
  wc_files :: "(nat \<times> (nat \<Rightarrow> nat \<times> string)) option"
  wc_dib :: "bytes option"

definition getPlatformFilePathsWindows :: "WinApi \<Rightarrow> WinClip \<Rightarrow> string list" where
  "getPlatformFilePathsWindows api clip =
     (if openAttempts api 0 10 ''invalid argument'' \<noteq> None then []
      else (case wc_files clip of
              None \<Rightarrow> []
            | Some (count, query) \<Rightarrow>
                if count = 0 \<or> 1000 < count then []
                else filter (\<lambda>p. p \<noteq> '''') (map (\<lambda>i. snd (query i)) (filter (\<lambda>i. fst (query i) \<noteq> 0) [0..<count]))))"

definition getPlatformImageDataWindows :: "WinApi \<Rightarrow> ClipSys \<Rightarrow> WinClip \<Rightarrow> bytes" where
  "getPlatformImageDataWindows api sys clip =
     (if openAttempts api 0 10 ''invalid argument'' \<noteq> None then ''''
      else (case wc_dib clip of
              None \<Rightarrow> ''''
            | Some raw \<Rightarrow>
                if length raw < 40 \<or> 2 ^ 63 - 1 < length raw then ''''
                else (case windowsDIBToPNG sys raw of Inl _ \<Rightarrow> '''' | Inr png \<Rightarrow> png)))"

section \<open>The layout lies within the data\<close>

lemma within_64:
  fixes a b n :: uint64
  assumes "a \<le> n" "b \<le> n - a"
  shows "a + b \<le> n" "unat (a + b) = unat a + unat b"
proof -
  have "unat b \<le> unat n - unat a" using assms by (simp add: word_le_nat_alt unat_sub)
  then have le: "unat a + unat b \<le> unat n" using assms(1) by (simp add: word_le_nat_alt)
  then have "unat a + unat b < 2 ^ 64" using unsigned_less [of n, where 'a = nat] by simp
  then show s: "unat (a + b) = unat a + unat b" by (simp add: unat_word_ariths)
  show "a + b \<le> n" using le s by (simp add: word_le_nat_alt)
qed

text \<open>What is copied out of the data lies in it, the pixels begin after the two headers, and at least 14 bytes of them are there.\<close>

lemma windowsDIBLayout_within:
  assumes "windowsDIBLayout raw = Some (totalSize, pixelOffset)" "length raw < 2 ^ 63"
  shows "unat totalSize \<le> length raw" "54 \<le> unat pixelOffset" "unat pixelOffset \<le> unat totalSize"
proof -
  let ?n = "of_nat (length raw) :: uint64"
  have n: "unat ?n = length raw" using assms(2) by (simp add: unat_of_nat)
  define biSize where "biSize = le32 raw 0"
  define size0 where "size0 = (ucast biSize :: uint64)"
  define color where "color = colorTableSize raw"
  define pixels where "pixels = pixelDataSize raw"
  have size: "\<not> biSize < 40" "\<not> of_nat (length raw) < biSize" and
    c: "\<not> ?n - size0 < color" and p: "\<not> ?n - (size0 + color) < pixels" and
    t: "totalSize = size0 + color + pixels" and
    o: "\<not> totalSize < 14 + size0 + color" "\<not> 2 ^ 32 - 1 < 14 + size0 + color" "pixelOffset = ucast (14 + size0 + color)"
    using assms(1) unfolding windowsDIBLayout_def Let_def biSize_def size0_def color_def pixels_def
    by (simp_all split: if_splits)
  have "unat biSize \<le> length raw mod 2 ^ 32" using size(2) by (simp add: not_less word_le_nat_alt unat_of_nat)
  then have b: "unat biSize \<le> length raw" using mod_less_eq_dividend le_trans by blast
  have s0: "unat size0 = unat biSize" 
  proof -
    have "unat biSize < 2 ^ 32" using unsigned_less [of biSize, where 'a = nat] by simp
    then show ?thesis unfolding size0_def by (simp add: unsigned_ucast_eq take_bit_nat_eq_self)
  qed
  have le0: "size0 \<le> ?n" using b s0 n by (simp add: word_le_nat_alt)
  have c': "color \<le> ?n - size0" using c by (simp add: not_less)
  note w1 = within_64 [OF le0 c']
  have "pixels \<le> ?n - (size0 + color)" using p by (simp add: not_less)
  note w2 = within_64 [OF w1(1) this]
  show total: "unat totalSize \<le> length raw" using w2(1) n t by (simp add: word_le_nat_alt)
  have bound: "14 + size0 + color \<le> 2 ^ 32 - 1" using o(2) by (simp add: not_less)
  have off: "unat pixelOffset = unat (14 + size0 + color)"
    using bound o(3) by (simp add: word_le_nat_alt unsigned_ucast_eq take_bit_nat_eq_self)
  then show "unat pixelOffset \<le> unat totalSize" using o(1) by (simp add: not_less word_le_nat_alt)
  have "unat size0 + unat color \<le> length raw" using w1 n by (simp add: word_le_nat_alt)
  then have "unat (14 + (size0 + color)) = 14 + (unat size0 + unat color)"
    using w1(2) assms(2) by (simp add: unat_word_ariths)
  moreover have "40 \<le> unat size0" using size(1) s0 by (simp add: not_less word_le_nat_alt)
  ultimately show "54 \<le> unat pixelOffset" using off by (simp add: add.assoc)
qed

text \<open>
  The offset of the pixels counts the file header and the size does not: a bitmap of fewer than 14 bytes of pixels,
  such as one of a single pixel, is refused.
\<close>

definition headerDIB :: "nat \<Rightarrow> bytes" where
  "headerDIB width = map char_of ([40, 0, 0, 0, width, 0, 0, 0, 1, 0, 0, 0, 1, 0, 32, 0, 0, 0, 0, 0, 0, 0, 0, 0, 0, 0, 0, 0,
     0, 0, 0, 0, 0, 0, 0, 0, 0, 0, 0, 0 :: nat])"

lemma headerDIB_fields:
  "w < 256 \<Longrightarrow> le32 (headerDIB w @ r) 0 = 40" "w < 256 \<Longrightarrow> le32 (headerDIB w @ r) 4 = of_nat w"
  "le32 (headerDIB w @ r) 8 = 1" "le16 (headerDIB w @ r) 14 = 32" "le32 (headerDIB w @ r) 20 = 0" "length (headerDIB w) = 40"
  by (simp_all add: le32_def le16_def byteAt_def headerDIB_def)

lemma tiny_bitmap_refused:
  "windowsDIBLayout (headerDIB 1 @ replicate 4 (CHR 0x00)) = None"
  "windowsDIBLayout (headerDIB 4 @ replicate 16 (CHR 0x00)) = Some (56, 54)"
  by (simp_all add: windowsDIBLayout_def pixelDataSize_def colorTableSize_def Let_def headerDIB_fields windowsAbsInt32_def)

section \<open>Every block is accounted for\<close>

text \<open>Blocks in \<open>X\<close> are still the program's; every other is freed or the clipboard's, not both.\<close>

definition owned_handles :: "WinState \<Rightarrow> nat set" where "owned_handles s = snd ` set (ws_owned s)"

lemma owned_handles_simps [simp]:
  "owned_handles (s\<lparr>ws_open := b\<rparr>) = owned_handles s" "owned_handles (s\<lparr>ws_blocks := bs\<rparr>) = owned_handles s"
  "owned_handles (s\<lparr>ws_freed := fr\<rparr>) = owned_handles s" "owned_handles (s\<lparr>ws_owned := []\<rparr>) = {}"
  "owned_handles (s\<lparr>ws_freed := fr, ws_owned := []\<rparr>) = {}"
  "owned_handles (s\<lparr>ws_owned := (format, h) # ws_owned s\<rparr>) = insert h (owned_handles s)"
  by (simp_all add: owned_handles_def)

definition accounted_but :: "nat set \<Rightarrow> WinState \<Rightarrow> bool" where
  "accounted_but X s \<longleftrightarrow>
     ws_freed s \<union> owned_handles s \<union> X \<subseteq> {..<length (ws_blocks s)} \<and>
     X \<inter> (ws_freed s \<union> owned_handles s) = {} \<and>
     (\<forall>h<length (ws_blocks s). h \<notin> X \<longrightarrow> (h \<in> ws_freed s) \<noteq> (h \<in> owned_handles s))"

lemma accounted_open [simp]: "accounted_but X (s\<lparr>ws_open := b\<rparr>) = accounted_but X s"
  by (simp add: accounted_but_def)

lemma accounted_fill [simp]: "accounted_but X (fillBlock h c s) = accounted_but X s"
  by (simp add: accounted_but_def fillBlock_def)

lemma accounted_alloc:
  "globalAlloc api s = (s', Inr h) \<Longrightarrow> accounted_but {} s \<Longrightarrow> accounted_but {h} s' \<and> h < length (ws_blocks s')"
  "globalAlloc api s = (s', Inl err) \<Longrightarrow> s' = s"
  by (auto simp: globalAlloc_def accounted_but_def less_Suc_eq split: option.splits)

lemma accounted_free: "accounted_but {h} s \<Longrightarrow> accounted_but {} (globalFree h s)"
  by (auto simp: accounted_but_def globalFree_def)

lemma accounted_empty: "accounted_but X s \<Longrightarrow> accounted_but X (fst (emptyClipboard api s))"
  by (auto simp: accounted_but_def emptyClipboard_def owned_handles_def [symmetric] split: option.splits)

lemma accounted_set:
  "setClipboardData api format h s = (s', None) \<Longrightarrow> accounted_but {h} s \<Longrightarrow> accounted_but {} s'"
  "setClipboardData api format h s = (s', Some err) \<Longrightarrow> s' = s"
  by (auto simp: setClipboardData_def accounted_but_def split: option.splits)

lemma accounted_handOver: "accounted_but {h} s \<Longrightarrow> accounted_but {} (fst (handOver api format name h s))"
proof -
  assume a: "accounted_but {h} s"
  obtain s1 e1 where e: "emptyClipboard api s = (s1, e1)" by fastforce
  then have "accounted_but {h} s1" using accounted_empty [OF a, of api] by simp
  then show ?thesis using e
    by (cases e1) (auto simp: handOver_def accounted_free split: prod.splits option.splits dest: accounted_set)
qed

lemma accounted_effect: "accounted_but {} s \<Longrightarrow> accounted_but {} (fst (setPreferredDropEffect api effect s))"
proof -
  assume a: "accounted_but {} s"
  show ?thesis
  proof (cases "wa_register api")
    case (Inr format)
    obtain s1 r where g: "globalAlloc api s = (s1, r)" by fastforce
    show ?thesis
    proof (cases r)
      case (Inl err)
      then show ?thesis using a g Inr accounted_alloc(2) by (fastforce simp: setPreferredDropEffect_def)
    next
      case h: (Inr h)
      have "accounted_but {h} s1" using accounted_alloc(1) [OF g [unfolded h] a] by simp
      moreover from this have "accounted_but {h} (fillBlock h (DropEffect effect) s1)" by simp
      ultimately show ?thesis using g h Inr
        by (auto simp: setPreferredDropEffect_def accounted_free split: prod.splits option.splits dest: accounted_set)
    qed
  qed (use a in \<open>simp add: setPreferredDropEffect_def\<close>)
qed

lemma accounted_newDrop:
  assumes "accounted_but {} s"
  shows "newDropFilesHandle api paths s = (s', Inr h) \<Longrightarrow>
      accounted_but {h} s' \<and> h < length (ws_blocks s') \<and> (\<exists>ws. dropWords api paths = Inr ws \<and> ws_blocks s' ! h = DropFiles ws)"
    "newDropFilesHandle api paths s = (s', Inl err) \<Longrightarrow> accounted_but {} s'"
proof -
  obtain s1 r where g: "globalAlloc api s = (s1, r)" by fastforce
  have ok: "r = Inr h' \<Longrightarrow> accounted_but {h'} s1 \<and> h' < length (ws_blocks s1)" for h'
    using accounted_alloc(1) [of api s s1 h'] g assms by simp
  have err: "r = Inl e \<Longrightarrow> s1 = s" for e using accounted_alloc(2) g by blast
  show "newDropFilesHandle api paths s = (s', Inr h) \<Longrightarrow>
      accounted_but {h} s' \<and> h < length (ws_blocks s') \<and> (\<exists>ws. dropWords api paths = Inr ws \<and> ws_blocks s' ! h = DropFiles ws)"
    using g ok by (auto simp: newDropFilesHandle_def split: sum.splits if_splits) (auto simp: fillBlock_def)
  show "newDropFilesHandle api paths s = (s', Inl err) \<Longrightarrow> accounted_but {} s'"
    using g ok err assms accounted_free by (auto simp: newDropFilesHandle_def split: sum.splits if_splits)
qed

lemma accounted_newText:
  assumes "accounted_but {} s"
  shows "newUnicodeTextHandle api t s = (s', Inr h) \<Longrightarrow>
      accounted_but {h} s' \<and> h < length (ws_blocks s') \<and> (\<exists>ws. wa_utf16 api t = Inr ws \<and> ws_blocks s' ! h = UnicodeText ws)"
    "newUnicodeTextHandle api t s = (s', Inl err) \<Longrightarrow> accounted_but {} s'"
proof -
  obtain s1 r where g: "globalAlloc api s = (s1, r)" by fastforce
  have ok: "r = Inr h' \<Longrightarrow> accounted_but {h'} s1 \<and> h' < length (ws_blocks s1)" for h'
    using accounted_alloc(1) [of api s s1 h'] g assms by simp
  have err: "r = Inl e \<Longrightarrow> s1 = s" for e using accounted_alloc(2) g by blast
  show "newUnicodeTextHandle api t s = (s', Inr h) \<Longrightarrow>
      accounted_but {h} s' \<and> h < length (ws_blocks s') \<and> (\<exists>ws. wa_utf16 api t = Inr ws \<and> ws_blocks s' ! h = UnicodeText ws)"
    using g ok by (auto simp: newUnicodeTextHandle_def split: sum.splits if_splits) (auto simp: fillBlock_def)
  show "newUnicodeTextHandle api t s = (s', Inl err) \<Longrightarrow> accounted_but {} s'"
    using g ok err assms accounted_free by (auto simp: newUnicodeTextHandle_def split: sum.splits if_splits)
qed

text \<open>A block that was handed over is the clipboard's, with what was written into it.\<close>

lemma handOver_gives:
  "handOver api format name h s = (s', None) \<Longrightarrow> (format, h) \<in> set (ws_owned s') \<and> ws_blocks s' = ws_blocks s"
  by (auto simp: handOver_def emptyClipboard_def setClipboardData_def split: option.splits prod.splits)

lemma setPreferredDropEffect_adds:
  "setPreferredDropEffect api effect s = (s', r) \<Longrightarrow> set (ws_owned s) \<subseteq> set (ws_owned s') \<and>
     (\<forall>h<length (ws_blocks s). h < length (ws_blocks s') \<and> ws_blocks s' ! h = ws_blocks s ! h)"
  by (auto simp: setPreferredDropEffect_def globalAlloc_def setClipboardData_def globalFree_def fillBlock_def nth_append nth_list_update
      split: sum.splits option.splits prod.splits if_splits)

section \<open>Writes\<close>

datatype win_write = WinText string | WinFiles "string list"

fun winWrite :: "WinApi \<times> win_write \<Rightarrow> WinState \<Rightarrow> WinState \<times> goerror option" where
  "winWrite (api, WinText t) s = setPlatformTextWindows api t s"
| "winWrite (api, WinFiles ps) s = setPlatformFilePathsWindows api ps s"

definition accounted :: "WinState \<Rightarrow> bool" where
  "accounted s \<longleftrightarrow> \<not> ws_open s \<and> accounted_but {} s"

definition newWin :: WinState where
  "newWin = \<lparr>ws_open = False, ws_blocks = [], ws_freed = {}, ws_owned = []\<rparr>"

text \<open>After a write the clipboard owns a block with the text, or the list of files.\<close>

definition written :: "WinApi \<Rightarrow> win_write \<Rightarrow> WinState \<Rightarrow> bool" where
  "written api w s \<longleftrightarrow>
     (case w of
        WinText t \<Rightarrow> \<exists>h ws. (cfUnicodeText, h) \<in> set (ws_owned s) \<and> wa_utf16 api t = Inr ws \<and> ws_blocks s ! h = UnicodeText ws
      | WinFiles ps \<Rightarrow> ps = [] \<or>
          (\<exists>h ws. (CF_HDROP, h) \<in> set (ws_owned s) \<and> dropWords api ps = Inr ws \<and> ws_blocks s ! h = DropFiles ws))"

lemma opened: "openClipboardWithRetry api s = (s1, r) \<Longrightarrow> accounted_but X s1 = accounted_but X s \<and> (r \<noteq> None \<longrightarrow> s1 = s)"
  by (auto simp: openClipboardWithRetry_def split: option.splits)

lemma write_text:
  assumes "accounted s" "setWindowsUnicodeText api t s = (s', r)"
  shows "accounted s' \<and> (r = None \<longrightarrow> written api (WinText t) s')"
proof -
  obtain s1 r1 where o: "openClipboardWithRetry api s = (s1, r1)" by fastforce
  show ?thesis
  proof (cases r1)
    case (Some e)
    then show ?thesis using assms o opened [OF o] by (auto simp: setWindowsUnicodeText_def)
  next
    case None
    have a1: "accounted_but {} s1" using assms(1) opened [OF o] by (simp add: accounted_def)
    obtain s2 r2 where n: "newUnicodeTextHandle api t s1 = (s2, r2)" by fastforce
    show ?thesis
    proof (cases r2)
      case (Inl e)
      then show ?thesis using assms(2) o None n accounted_newText(2) [OF a1]
        by (auto simp: setWindowsUnicodeText_def accounted_def closeClipboard_def)
    next
      case (Inr h)
      note new = accounted_newText(1) [OF a1 n [unfolded Inr]]
      obtain s3 r3 where h: "handOver api cfUnicodeText ''CF_UNICODETEXT'' h s2 = (s3, r3)" by fastforce
      have "accounted_but {} s3" using accounted_handOver [of h s2] new h by (metis fst_conv)
      moreover have "s' = closeClipboard s3" "r = r3" using assms(2) o None n Inr h by (simp_all add: setWindowsUnicodeText_def)
      ultimately show ?thesis using new handOver_gives h
        by (fastforce simp: accounted_def closeClipboard_def written_def)
    qed
  qed
qed

lemma write_files:
  assumes "accounted s" "setWindowsFileDropList api ps s = (s', r)"
  shows "accounted s' \<and> (r = None \<longrightarrow> written api (WinFiles ps) s')"
proof -
  obtain s1 r1 where o: "openClipboardWithRetry api s = (s1, r1)" by fastforce
  show ?thesis
  proof (cases r1)
    case (Some e)
    then show ?thesis using assms o opened [OF o] by (auto simp: setWindowsFileDropList_def)
  next
    case None
    have a1: "accounted_but {} s1" using assms(1) opened [OF o] by (simp add: accounted_def)
    obtain s2 r2 where n: "newDropFilesHandle api ps s1 = (s2, r2)" by fastforce
    show ?thesis
    proof (cases r2)
      case (Inl e)
      then show ?thesis using assms(2) o None n accounted_newDrop(2) [OF a1]
        by (auto simp: setWindowsFileDropList_def accounted_def closeClipboard_def)
    next
      case (Inr h)
      note new = accounted_newDrop(1) [OF a1 n [unfolded Inr]]
      obtain s3 r3 where h: "handOver api CF_HDROP ''CF_HDROP'' h s2 = (s3, r3)" by fastforce
      have a3: "accounted_but {} s3" using accounted_handOver [of h s2] new h by (metis fst_conv)
      show ?thesis
      proof (cases r3)
        case (Some e)
        then show ?thesis using assms(2) o None n Inr h a3
          by (auto simp: setWindowsFileDropList_def accounted_def closeClipboard_def)
      next
        case ok: None
        obtain s4 r4 where e: "setPreferredDropEffect api dropEffectCopy s3 = (s4, r4)" by fastforce
        have "accounted_but {} s4" using accounted_effect [OF a3, of api dropEffectCopy] e by simp
        moreover have "s' = closeClipboard s4" "r = None"
          using assms(2) o None n Inr h ok e by (simp_all add: setWindowsFileDropList_def)
        moreover have "(CF_HDROP, h) \<in> set (ws_owned s4)" "ws_blocks s4 ! h = ws_blocks s2 ! h"
          using handOver_gives [OF h [unfolded ok]] setPreferredDropEffect_adds [OF e] new by auto
        ultimately show ?thesis using new by (auto simp: accounted_def closeClipboard_def written_def)
      qed
    qed
  qed
qed

lemma winWrite_accounted: "accounted s \<Longrightarrow> winWrite (api, w) s = (s', r) \<Longrightarrow> accounted s' \<and> (r = None \<longrightarrow> written api w s')"
proof (cases w)
  case (WinText t)
  assume "accounted s" "winWrite (api, w) s = (s', r)"
  then show ?thesis using write_text [of s api t s' r] WinText by (simp add: setPlatformTextWindows_def)
next
  case (WinFiles ps)
  assume a: "accounted s" "winWrite (api, w) s = (s', r)"
  show ?thesis
  proof (cases "ps = []")
    case True
    then show ?thesis using a WinFiles by (simp add: setPlatformFilePathsWindows_def written_def)
  next
    case False
    then show ?thesis using a write_files [of s api ps s' r] WinFiles by (simp add: setPlatformFilePathsWindows_def)
  qed
qed

interpretation win: machine "\<lambda>w s. fst (winWrite w s)" "\<lambda>_. True" accounted
proof
  fix w s
  assume "accounted s"
  then show "accounted (fst (winWrite w s))"
    using winWrite_accounted [of s "fst w" "snd w" "fst (winWrite w s)" "snd (winWrite w s)"] by simp
qed

text \<open>C32: On Windows no memory is lost and the clipboard is never left open. Whatever texts and lists of files are
  written one after the other, with whatever failures of Windows on the way, the clipboard is closed afterwards, and
  every block of memory the program allocated is either freed or owned by the clipboard, never both; and when a write
  succeeds, the clipboard owns a block with exactly its text or files.\<close>
theorem windows_blocks_accounted:
  assumes "s = fold (\<lambda>w s. fst (winWrite w s)) ws newWin"
  shows "\<not> ws_open s \<and> (\<forall>h<length (ws_blocks s). (h \<in> ws_freed s) \<noteq> (h \<in> snd ` set (ws_owned s))) \<and>
    (\<forall>api w s'. winWrite (api, w) s = (s', None) \<longrightarrow> written api w s')"
proof -
  have "accounted newWin" by (simp add: accounted_def accounted_but_def newWin_def owned_handles_def)
  then have a: "accounted s" unfolding assms by (rule win.free_run_inv) simp
  then have "\<not> ws_open s" "\<forall>h<length (ws_blocks s). (h \<in> ws_freed s) \<noteq> (h \<in> snd ` set (ws_owned s))"
    unfolding accounted_def accounted_but_def owned_handles_def by auto
  then show ?thesis using winWrite_accounted [OF a] by blast
qed

text \<open>Windows without failures, with a coarse encoding of texts.\<close>

definition plainWin :: WinApi where
  "plainWin = \<lparr>wa_open = (\<lambda>_. None), wa_alloc = (\<lambda>_. None), wa_lock = (\<lambda>_. True), wa_empty = None, wa_set = (\<lambda>_. None),
     wa_register = Inr 49158, wa_utf16 = (\<lambda>t. Inr (map of_char t @ [0]))\<rparr>"

theorem windows_blocks_accounted_witness:
  "let s = fold (\<lambda>w s. fst (winWrite w s)) [(plainWin, WinText ''hi''), (plainWin, WinFiles [''C:/a''])] newWin in
     \<not> ws_open s \<and> length (ws_blocks s) = 3 \<and> ws_freed s = {0} \<and> 1 \<in> snd ` set (ws_owned s)"
proof -
  let ?s = "fold (\<lambda>w s. fst (winWrite w s)) [(plainWin, WinText ''hi''), (plainWin, WinFiles [''C:/a''])] newWin"
  have e: "openAttempts plainWin 0 10 x = None" for x
    using openAttempts.simps(2) [of plainWin 0 9 x] by (simp add: plainWin_def)
  have api: "wa_alloc plainWin h = None" "wa_lock plainWin h" "wa_empty plainWin = None" "wa_set plainWin k = None"
    "wa_register plainWin = Inr 49158" "wa_utf16 plainWin t = Inr (map of_char t @ [0])" for h k t
    by (simp_all add: plainWin_def)
  note defs = setPlatformTextWindows_def setWindowsUnicodeText_def openClipboardWithRetry_def e api newUnicodeTextHandle_def
    setPlatformFilePathsWindows_def setWindowsFileDropList_def newDropFilesHandle_def handOver_def emptyClipboard_def
    setClipboardData_def setPreferredDropEffect_def globalAlloc_def fillBlock_def closeClipboard_def newWin_def
  have len: "length (ws_blocks ?s) = 3" by (simp add: defs)
  have freed: "ws_freed ?s = {0}" by (simp add: defs)
  have acc: "\<not> ws_open ?s \<and> (\<forall>h<length (ws_blocks ?s). (h \<in> ws_freed ?s) \<noteq> (h \<in> snd ` set (ws_owned ?s)))"
    using windows_blocks_accounted [OF refl, of "[(plainWin, WinText ''hi''), (plainWin, WinFiles [''C:/a''])]"] by blast
  then have "1 < length (ws_blocks ?s) \<longrightarrow> (1 \<in> ws_freed ?s) \<noteq> (1 \<in> snd ` set (ws_owned ?s))" by blast
  then have "1 \<in> snd ` set (ws_owned ?s)" unfolding len freed by simp
  then show ?thesis unfolding Let_def using len freed acc by blast
qed

end
