(* ===== verification/PlatformMac.thy ===== *)
theory PlatformMac
  imports PlatformLinux
begin

text \<open>
  The clipboard of macOS (\<open>desktop/clipboard/monitor_darwin.go\<close>): the readers and writers of files through AppleScript; text and
  images go through the portable library, as the missing readers say. What \<open>osascript\<close> answers within its two seconds, the clock and which
  files are there are arguments.
\<close>

section \<open>The scripts\<close>

fun scriptLines :: "string list \<Rightarrow> string list" where
  "scriptLines [] = []"
| "scriptLines (l # ls) = ''-e'' # l # scriptLines ls"

definition infoScript :: "string list" where
  "infoScript = ''osascript'' # scriptLines [''return (get the clipboard info)'']"

definition readFilesScript :: "string list" where
  "readFilesScript = ''osascript'' # scriptLines
     [''on run'', ''try'', ''set clipValue to the clipboard'', ''set lines to {}'', ''if class of clipValue is list then'',
      ''repeat with oneItem in clipValue'', ''try'', ''set end of lines to (POSIX path of oneItem)'', ''end try'', ''end repeat'', ''else'',
      ''try'', ''set end of lines to (POSIX path of clipValue)'', ''end try'', ''end if'',
      ''set oldDelims to AppleScript's text item delimiters'', ''set AppleScript's text item delimiters to linefeed'',
      ''set joined to lines as text'', ''set AppleScript's text item delimiters to oldDelims'', ''return joined'', ''on error'',
      ''return \"\"'', ''end try'', ''end run'']"

definition writeFilesScript :: "string list" where
  "writeFilesScript = ''osascript'' # scriptLines
     [''on run argv'', ''set fileList to {}'', ''repeat with onePath in argv'', ''set end of fileList to (POSIX file onePath)'', ''end repeat'',
      ''set the clipboard to fileList'', ''end run'']"

record MacTools =
  mt_output :: "string list \<Rightarrow> bytes result"
  mt_run :: "string list \<Rightarrow> goerror option"
  mt_now :: gotime
  mt_stat :: "string \<Rightarrow> bool"

section \<open>Reading and writing\<close>

definition getPlatformChangeCountMac :: "(string \<Rightarrow> uint64) \<Rightarrow> MacTools \<Rightarrow> uint64" where
  "getPlatformChangeCountMac XXHash64 t =
     (case mt_output t infoScript of Inl _ \<Rightarrow> of_int (mt_now t) | Inr out \<Rightarrow> XXHash64 out)"

definition getPlatformFilePathsMac :: "MacTools \<Rightarrow> string list" where
  "getPlatformFilePathsMac t =
     (case mt_output t readFilesScript of
        Inl _ \<Rightarrow> []
      | Inr out \<Rightarrow>
          (let raw = trimSpace out in
           if raw = '''' then []
           else filter (\<lambda>p. p \<noteq> '''' \<and> mt_stat t p) (map trimSpace (splitChar newline raw))))"

definition macPlatform :: "bytes \<Rightarrow> bytes \<Rightarrow> (string \<Rightarrow> int option) \<Rightarrow> MacTools \<Rightarrow> Platform" where
  "macPlatform readImage readText sizeOf t =
     \<lparr>pl_paths = getPlatformFilePathsMac t, pl_image = '''', pl_text = '''', pl_readImage = readImage, pl_readText = readText,
      pl_wayland = False, pl_fileSize = sizeOf\<rparr>"

text \<open>The commands that were run.\<close>

definition setPlatformFilePathsMac :: "MacTools \<Rightarrow> string list \<Rightarrow> string list list \<times> goerror option" where
  "setPlatformFilePathsMac t paths =
     (let normalized = normalizeClipboardPaths paths in
      if normalized = [] then ([], None)
      else ([writeFilesScript @ normalized], mt_run t (writeFilesScript @ normalized)))"

definition setPlatformTextMac :: "string \<Rightarrow> goerror option" where
  "setPlatformTextMac _ = Some ''not wayland''"

definition setPlatformImageMac :: "bytes \<Rightarrow> goerror option" where
  "setPlatformImageMac _ = Some ''not wayland''"

definition macClipSys :: "MacTools \<Rightarrow> ClipSys \<Rightarrow> ClipSys" where
  "macClipSys t sys =
     sys\<lparr>cs_setText := setPlatformTextMac, cs_setImage := setPlatformImageMac,
         cs_setFiles := (\<lambda>ps. snd (setPlatformFilePathsMac t ps))\<rparr>"

section \<open>Files come back\<close>

lemma newline_only: "e \<in> set spaceEncodings \<Longrightarrow> newline \<in> set e \<Longrightarrow> e = [newline]"
proof -
  have "\<forall>e\<in>set spaceEncodings. newline \<in> set e \<longrightarrow> e = [newline]" unfolding spaceEncodings_def newline_def by simp
  then show "e \<in> set spaceEncodings \<Longrightarrow> newline \<in> set e \<Longrightarrow> e = [newline]" by blast
qed

lemma prefix_boundary:
  assumes "prefix e (a @ c # b)" "c \<notin> set e"
  shows "prefix e a"
proof -
  from assms(1) obtain z where "a @ c # b = e @ z" by (auto simp: prefix_def)
  then consider us where "a = e @ us" | us where "a @ us = e" "c # b = us @ z" unfolding append_eq_append_conv2 by blast
  then show ?thesis
  proof cases
    case 2
    then show ?thesis using assms(2) by (cases us) auto
  qed simp
qed

lemma leading_before_newline: "leadingSpace a = None \<Longrightarrow> a \<noteq> [] \<Longrightarrow> leadingSpace (a @ newline # b) = None"
proof -
  assume a: "leadingSpace a = None" "a \<noteq> []"
  have "\<not> prefix e (a @ newline # b)" if e: "e \<in> set spaceEncodings" for e
  proof
    assume p: "prefix e (a @ newline # b)"
    show False
    proof (cases "newline \<in> set e")
      case True
      then have n: "e = [newline]" using newline_only e by blast
      obtain x xs where x: "a = x # xs" using a(2) by (cases a) blast
      have "prefix e a" using p unfolding n x by simp
      then show False using a(1) e unfolding leadingSpace_def find_None_iff by blast
    next
      case False
      have "prefix e a" by (rule prefix_boundary [OF p False])
      then show False using a(1) e unfolding leadingSpace_def find_None_iff by blast
    qed
  qed
  then show ?thesis unfolding leadingSpace_def find_None_iff by blast
qed

lemma trailing_after_newline: "trailingSpace b = None \<Longrightarrow> b \<noteq> [] \<Longrightarrow> trailingSpace (a @ newline # b) = None"
proof -
  assume b: "trailingSpace b = None" "b \<noteq> []"
  have "\<not> suffix e (a @ newline # b)" if e: "e \<in> set spaceEncodings" for e
  proof
    assume s: "suffix e (a @ newline # b)"
    show False
    proof (cases "newline \<in> set e")
      case True
      then have n: "e = [newline]" using newline_only e by blast
      obtain xs x where x: "b = xs @ [x]" using b(2) by (cases b rule: rev_cases) blast
      have "x = newline" using s unfolding n x suffix_def by auto
      then have "suffix e b" unfolding n x suffix_def by blast
      then show False using b(1) e unfolding trailingSpace_def find_None_iff by blast
    next
      case False
      have "suffix e b" by (rule suffix_append_boundary [OF s False])
      then show False using b(1) e unfolding trailingSpace_def find_None_iff by blast
    qed
  qed
  then show ?thesis unfolding trailingSpace_def find_None_iff by blast
qed

text \<open>A path that can stand on a line of its own.\<close>

definition line_path :: "string \<Rightarrow> bool" where
  "line_path p \<longleftrightarrow> p \<noteq> '''' \<and> trimmed p \<and> newline \<notin> set p"

lemma joined_lines:
  "ps \<noteq> [] \<Longrightarrow> list_all line_path ps \<Longrightarrow>
     trimmed (joinChar [newline] ps) \<and> joinChar [newline] ps \<noteq> '''' \<and> splitChar newline (joinChar [newline] ps) = ps"
proof (induction ps rule: induct_list012)
  case (2 p)
  then show ?case by (simp add: line_path_def splitChar_no_sep)
next
  case (3 p q ps)
  let ?j = "joinChar [newline] (q # ps)"
  have p: "p \<noteq> ''''" "leadingSpace p = None" "newline \<notin> set p" using 3 by (auto simp: line_path_def trimmed_def)
  have j: "trimmed ?j" "?j \<noteq> ''''" "splitChar newline ?j = q # ps" using 3 by auto
  have "joinChar [newline] (p # q # ps) = p @ newline # ?j" by simp
  moreover have "trimmed (p @ newline # ?j)"
    using leading_before_newline [OF p(2,1)] trailing_after_newline [OF _ j(2)] j(1) by (simp add: trimmed_def)
  moreover have "splitChar newline (p @ newline # ?j) = p # q # ps" using splitChar_append [OF p(3)] j(3) by simp
  ultimately show ?case by simp
qed simp

text \<open>What \<open>osascript\<close> prints of the files on the clipboard is read back as those that are there.\<close>

lemma mac_files_read_back:
  assumes "mt_output t readFilesScript = Inr (joinChar [newline] ps @ [newline])" "ps \<noteq> []" "list_all line_path ps"
  shows "getPlatformFilePathsMac t = filter (mt_stat t) ps"
proof -
  let ?j = "joinChar [newline] ps"
  have j: "trimmed ?j" "?j \<noteq> ''''" "splitChar newline ?j = ps" using joined_lines [OF assms(2,3)] by auto
  have "leadingSpace (?j @ newline # []) = None" using leading_before_newline j(1,2) by (simp add: trimmed_def)
  then have "trimSpace (?j @ [newline]) = trimSpaceRight (?j @ [newline])" by (simp add: trimSpace_def trimSpaceLeft_id)
  also have "trailingSpace (?j @ [newline]) = Some [newline]" by (rule trailingSpace_newline) (simp add: newline_def)
  then have "trimSpaceRight (?j @ [newline]) = ?j"
    using j(1) by (simp add: trimSpaceRight.simps [of "?j @ [newline]"] trimSpaceRight_id trimmed_def)
  finally have "trimSpace (?j @ [newline]) = ?j" .
  moreover have "map trimSpace ps = ps" using assms(3) by (intro map_idI) (auto simp: list_all_iff line_path_def trimSpace_id)
  moreover have "filter (\<lambda>p. p \<noteq> '''' \<and> mt_stat t p) ps = filter (mt_stat t) ps"
    using assms(3) by (intro filter_cong) (auto simp: list_all_iff line_path_def)
  ultimately show ?thesis using j by (simp add: getPlatformFilePathsMac_def assms(1))
qed

text \<open>A file whose name has a line break is not read back.\<close>

lemma mac_line_break_lost:
  assumes "mt_output t readFilesScript = Inr (''/a'' @ [newline] @ ''b'' @ [newline])" "mt_stat t = (\<lambda>p. p = ''/a'' @ [newline] @ ''b'')"
  shows "getPlatformFilePathsMac t = []"
proof -
  have l: "list_all line_path [''/a'', ''b'']" by (simp add: line_path_def) code_simp
  have "joinChar [newline] [''/a'', ''b''] @ [newline] = ''/a'' @ [newline] @ ''b'' @ [newline]" by simp
  then show ?thesis using mac_files_read_back [OF _ _ l, of t] assms by simp
qed

text \<open>Text and images written on macOS go through the portable library, with no more suppressed changes than one.\<close>

lemma mac_text_portable:
  "StageTextOn XXHash64 (macClipSys t sys) now x m = (prepareForLocalClipboardWrite now (XXHash64 x) m, [WriteText x])"
  by (simp add: StageTextOn_def macClipSys_def setPlatformTextMac_def nativeWrite_def)

end
