(* ===== verification/HotkeysNative.thy ===== *)
theory HotkeysNative
  imports Interfaces WaylandPortal
begin

text \<open>
  The global hotkeys on Windows (\<open>desktop/app/hotkeys_windows.go\<close>) and macOS (\<open>hotkeys_darwin.go\<close>): three hotkeys registered one
  after the other, given back when one of them fails, the thread that waits for them on Windows, starting and
  stopping. What the system answers is an argument; a combination of keys that is registered cannot be registered again.
\<close>

section \<open>Registering in turn\<close>

definition hotkeySendCurrent :: nat where "hotkeySendCurrent = 1"
definition hotkeyPlaceholder :: nat where "hotkeyPlaceholder = 2"
definition hotkeyRealPaste :: nat where "hotkeyRealPaste = 3"

lemmas hotkey_ids = hotkeySendCurrent_def hotkeyPlaceholder_def hotkeyRealPaste_def

definition allHotkeys :: "nat list" where "allHotkeys = [hotkeySendCurrent, hotkeyPlaceholder, hotkeyRealPaste]"

lemma allHotkeys_set: "set allHotkeys = {1, 2, 3}" by (simp add: allHotkeys_def hotkey_ids)

text \<open>\<open>held\<close> are the hotkeys the system has registered; those registered here so far are \<open>mine\<close>.\<close>

definition registerHotkey :: "(nat \<Rightarrow> goerror option) \<Rightarrow> nat \<Rightarrow> nat set \<Rightarrow> nat set \<times> goerror option" where
  "registerHotkey err hotkey held =
     (if hotkey \<in> held then (held, Some ''hot key is already registered'')
      else (case err hotkey of Some e \<Rightarrow> (held, Some e) | None \<Rightarrow> (insert hotkey held, None)))"

definition unregisterHotkeys :: "nat list \<Rightarrow> nat set \<Rightarrow> nat set" where "unregisterHotkeys ids held = held - set ids"

fun registerInTurn ::
  "(nat \<Rightarrow> goerror option) \<Rightarrow> (nat \<times> string) list \<Rightarrow> nat list \<Rightarrow> nat set \<Rightarrow> nat set \<times> goerror option" where
  "registerInTurn err [] mine held = (held, None)"
| "registerInTurn err ((hotkey, label) # hs) mine held =
     (case registerHotkey err hotkey held of
        (held1, Some e) \<Rightarrow> (unregisterHotkeys mine held1, Some (''register '' @ label @ '': '' @ e))
      | (held1, None) \<Rightarrow> registerInTurn err hs (mine @ [hotkey]) held1)"

text \<open>All or nothing.\<close>

lemma registerInTurn_result:
  "registerInTurn err hs mine held = (held', r) \<Longrightarrow> set mine \<subseteq> held \<Longrightarrow>
     (case r of None \<Rightarrow> held' = held \<union> fst ` set hs \<and> fst ` set hs \<inter> held = {} | Some _ \<Rightarrow> held' = held - set mine)"
proof (induction err hs mine held rule: registerInTurn.induct)
  case (2 err hotkey label hs mine held)
  show ?case
  proof (cases "hotkey \<in> held \<or> err hotkey \<noteq> None")
    case True
    then show ?thesis using "2.prems" by (auto simp: registerHotkey_def unregisterHotkeys_def split: if_splits option.splits)
  next
    case False
    then have reg: "registerHotkey err hotkey held = (insert hotkey held, None)" by (simp add: registerHotkey_def)
    have "set (mine @ [hotkey]) \<subseteq> insert hotkey held" using "2.prems"(2) by auto
    from "2.IH" [OF reg [symmetric] refl _ this] "2.prems"(1) show ?thesis
      using False reg by (cases r) auto
  qed
qed auto

definition nativeAction :: "nat \<Rightarrow> hotkey_action option" where
  "nativeAction i =
     (if i = hotkeySendCurrent then Some SendCurrentKey
      else if i = hotkeyPlaceholder then Some PastePlaceholderKey
      else if i = hotkeyRealPaste then Some PasteRealKey else None)"

section \<open>Windows\<close>

definition windowsLabels :: "(nat \<times> string) list" where
  "windowsLabels = [(hotkeySendCurrent, ''Ctrl+Alt+Shift+C''), (hotkeyPlaceholder, ''Ctrl+Alt+V''), (hotkeyRealPaste, ''Ctrl+Alt+Shift+V'')]"

text \<open>
  The thread of the hotkeys: in its message loop, or past it, with \<open>done\<close> closed and the hotkeys not yet given back
  (a deferred call), or none. A thread that was not told to quit keeps looping.
\<close>

datatype thread_phase = NoThread | Looping | Leaving

record windowsHotkeyManager =
  wh_running :: bool
  wh_thread :: thread_phase
  wh_held :: "nat set"

definition newWindowsHotkeys :: windowsHotkeyManager where
  "newWindowsHotkeys = \<lparr>wh_running = False, wh_thread = NoThread, wh_held = {}\<rparr>"

definition StartWindows :: "(nat \<Rightarrow> goerror option) \<Rightarrow> windowsHotkeyManager \<Rightarrow> windowsHotkeyManager \<times> goerror option" where
  "StartWindows err m =
     (if wh_running m then (m, None)
      else (case registerInTurn err windowsLabels [] (wh_held m) of
              (held, Some e) \<Rightarrow> (m\<lparr>wh_held := held\<rparr>, Some e)
            | (held, None) \<Rightarrow> (\<lparr>wh_running = True, wh_thread = Looping, wh_held = held\<rparr>, None)))"

text \<open>\<open>posted\<close>: the error of posting \<open>WM_QUIT\<close>. Without one, \<open>Stop\<close> returns when the thread has closed \<open>done\<close>.\<close>

definition StopWindows :: "goerror option \<Rightarrow> windowsHotkeyManager \<Rightarrow> windowsHotkeyManager \<times> goerror option" where
  "StopWindows posted m =
     (if \<not> wh_running m then (m, None)
      else (case posted of
              Some e \<Rightarrow> (m\<lparr>wh_running := False\<rparr>, Some (''post WM_QUIT: '' @ e))
            | None \<Rightarrow> (m\<lparr>wh_running := False, wh_thread := (if wh_thread m = Looping then Leaving else wh_thread m)\<rparr>, None)))"

text \<open>\<open>GetMessageW\<close> fails: the loop ends by itself. Past the loop the thread gives the hotkeys back and ends.\<close>

definition getMessageFails :: "windowsHotkeyManager \<Rightarrow> windowsHotkeyManager" where
  "getMessageFails m = (if wh_thread m = Looping then m\<lparr>wh_thread := Leaving\<rparr> else m)"

definition threadEnds :: "windowsHotkeyManager \<Rightarrow> windowsHotkeyManager" where
  "threadEnds m =
     (if wh_thread m = Leaving then m\<lparr>wh_thread := NoThread, wh_held := unregisterHotkeys allHotkeys (wh_held m)\<rparr> else m)"

definition pressWindows :: "nat \<Rightarrow> windowsHotkeyManager \<Rightarrow> hotkey_action option" where
  "pressWindows i m = (if wh_thread m = Looping \<and> i \<in> wh_held m then nativeAction i else None)"

datatype windows_event = WStart "nat \<Rightarrow> goerror option" | WStop "goerror option" | WGetMessageFails | WThreadEnds

fun windows_step :: "windows_event \<Rightarrow> windowsHotkeyManager \<Rightarrow> windowsHotkeyManager" where
  "windows_step (WStart err) m = fst (StartWindows err m)"
| "windows_step (WStop posted) m = fst (StopWindows posted m)"
| "windows_step WGetMessageFails m = getMessageFails m"
| "windows_step WThreadEnds m = threadEnds m"

text \<open>The system has all three hotkeys or none, and exactly while there is a thread.\<close>

definition windows_inv :: "windowsHotkeyManager \<Rightarrow> bool" where
  "windows_inv m \<longleftrightarrow> wh_held m = (if wh_thread m = NoThread then {} else {1, 2, 3})"

lemma windows_labels: "fst ` set windowsLabels = {1, 2, 3}"
  by (auto simp: windowsLabels_def hotkey_ids)

lemma start_windows_inv: "windows_inv m \<Longrightarrow> windows_inv (fst (StartWindows err m))"
proof -
  assume inv: "windows_inv m"
  obtain held r where reg: "registerInTurn err windowsLabels [] (wh_held m) = (held, r)" by fastforce
  from registerInTurn_result [OF reg] inv reg show ?thesis
    by (cases r) (auto simp: StartWindows_def windows_inv_def windows_labels)
qed

interpretation windows_hotkeys: machine windows_step "\<lambda>_. True" windows_inv
proof
  fix ev m
  assume inv: "windows_inv m"
  show "windows_inv (windows_step ev m)"
  proof (cases ev)
    case (WStart err)
    then show ?thesis using start_windows_inv [OF inv, of err] by simp
  qed (use inv in \<open>auto simp: StopWindows_def getMessageFails_def threadEnds_def windows_inv_def unregisterHotkeys_def
      allHotkeys_set split: option.splits\<close>)
qed

lemma windows_hotkeys_all_or_none:
  "windows_inv (fold windows_step evs newWindowsHotkeys)"
  by (rule windows_hotkeys.free_run_inv) (simp_all add: windows_inv_def newWindowsHotkeys_def)

text \<open>
  Each press starts its own action. But \<open>Stop\<close> returns before the hotkeys are given back, so a start right after
  it fails; and when the message loop fails, the manager still says that it runs: starting it again does nothing.
\<close>

lemma windows_press: "m = fold windows_step evs newWindowsHotkeys \<Longrightarrow> wh_thread m = Looping \<Longrightarrow>
    pressWindows 1 m = Some SendCurrentKey \<and> pressWindows 2 m = Some PastePlaceholderKey \<and> pressWindows 3 m = Some PasteRealKey"
  using windows_hotkeys_all_or_none [of evs] by (simp add: pressWindows_def windows_inv_def nativeAction_def hotkey_ids)

lemma started_windows: "fst (StartWindows (\<lambda>_. None) newWindowsHotkeys) = \<lparr>wh_running = True, wh_thread = Looping, wh_held = {1, 2, 3}\<rparr>"
  by (auto simp: StartWindows_def newWindowsHotkeys_def windowsLabels_def registerHotkey_def hotkey_ids)

lemma windows_restart_fails:
  "snd (StartWindows (\<lambda>_. None) (fold windows_step [WStart (\<lambda>_. None), WStop None] newWindowsHotkeys)) \<noteq> None"
  by (simp add: started_windows StopWindows_def) (simp add: StartWindows_def windowsLabels_def registerHotkey_def hotkey_ids)

lemma windows_dead_but_running:
  "StartWindows err (fold windows_step [WStart (\<lambda>_. None), WGetMessageFails, WThreadEnds] newWindowsHotkeys) =
     (\<lparr>wh_running = True, wh_thread = NoThread, wh_held = {}\<rparr>, None)"
  by (simp add: started_windows getMessageFails_def threadEnds_def unregisterHotkeys_def allHotkeys_set) (simp add: StartWindows_def)

section \<open>macOS\<close>

definition darwinLabels :: "(nat \<times> string) list" where
  "darwinLabels = [(hotkeySendCurrent, ''Cmd+Shift+Option+C''), (hotkeyPlaceholder, ''Cmd+Option+V''), (hotkeyRealPaste, ''Cmd+Shift+Option+V'')]"

text \<open>\<open>dh_registry\<close>: the presses of the system go to this manager.\<close>

record darwinHotkeyManager =
  dh_running :: bool
  dh_handler :: bool
  dh_refs :: "nat set"
  dh_registry :: bool

definition newDarwinHotkeys :: darwinHotkeyManager where
  "newDarwinHotkeys = \<lparr>dh_running = False, dh_handler = False, dh_refs = {}, dh_registry = False\<rparr>"

definition cleanupLocked :: "nat list \<Rightarrow> darwinHotkeyManager \<Rightarrow> darwinHotkeyManager" where
  "cleanupLocked ids m = m\<lparr>dh_refs := unregisterHotkeys ids (dh_refs m), dh_handler := False\<rparr>"

definition StartDarwin ::
  "goerror option \<Rightarrow> (nat \<Rightarrow> goerror option) \<Rightarrow> darwinHotkeyManager \<Rightarrow> darwinHotkeyManager \<times> goerror option" where
  "StartDarwin install err m =
     (if dh_running m then (m, None)
      else (case install of
              Some e \<Rightarrow> (m, Some (''install macOS hotkey handler: '' @ e))
            | None \<Rightarrow>
                (case registerInTurn err darwinLabels [] (dh_refs m) of
                   (refs, Some e) \<Rightarrow> (cleanupLocked [] (m\<lparr>dh_refs := refs\<rparr>), Some e)
                 | (refs, None) \<Rightarrow> (\<lparr>dh_running = True, dh_handler = True, dh_refs = refs, dh_registry = True\<rparr>, None))))"

definition StopDarwin :: "darwinHotkeyManager \<Rightarrow> darwinHotkeyManager" where
  "StopDarwin m =
     (if \<not> dh_running m then m else (cleanupLocked allHotkeys m)\<lparr>dh_running := False, dh_registry := False\<rparr>)"

definition pressDarwin :: "nat \<Rightarrow> darwinHotkeyManager \<Rightarrow> hotkey_action option" where
  "pressDarwin i m = (if dh_handler m \<and> i \<in> dh_refs m \<and> dh_registry m then nativeAction i else None)"

datatype darwin_event = DStart "goerror option" "nat \<Rightarrow> goerror option" | DStop

fun darwin_step :: "darwin_event \<Rightarrow> darwinHotkeyManager \<Rightarrow> darwinHotkeyManager" where
  "darwin_step (DStart install err) m = fst (StartDarwin install err m)"
| "darwin_step DStop m = StopDarwin m"

definition darwin_inv :: "darwinHotkeyManager \<Rightarrow> bool" where
  "darwin_inv m \<longleftrightarrow> dh_refs m = (if dh_running m then {1, 2, 3} else {}) \<and> dh_handler m = dh_running m \<and> dh_registry m = dh_running m"

lemma darwin_labels: "fst ` set darwinLabels = {1, 2, 3}"
  by (auto simp: darwinLabels_def hotkey_ids)

lemma start_darwin_inv:
  assumes inv: "darwin_inv m"
  shows "darwin_inv (fst (StartDarwin install err m))"
proof (cases "dh_running m \<or> install \<noteq> None")
  case True
  then show ?thesis using inv by (auto simp: StartDarwin_def split: option.splits)
next
  case False
  then have m: "\<not> dh_running m" "install = None" "dh_refs m = {}" "\<not> dh_registry m"
    using inv by (simp_all add: darwin_inv_def)
  obtain refs r where reg: "registerInTurn err darwinLabels [] {} = (refs, r)" by fastforce
  have res: "case r of None \<Rightarrow> refs = {1, 2, 3} | Some _ \<Rightarrow> refs = {}"
    using registerInTurn_result [OF reg] unfolding darwin_labels by (simp split: option.splits)
  show ?thesis
  proof (cases r)
    case None
    with res show ?thesis by (simp add: StartDarwin_def m reg darwin_inv_def)
  next
    case (Some e)
    with res show ?thesis by (simp add: StartDarwin_def m reg darwin_inv_def cleanupLocked_def unregisterHotkeys_def)
  qed
qed

interpretation darwin_hotkeys: machine darwin_step "\<lambda>_. True" darwin_inv
proof
  fix ev m
  assume inv: "darwin_inv m"
  show "darwin_inv (darwin_step ev m)"
  proof (cases ev)
    case (DStart install err)
    then show ?thesis using start_darwin_inv [OF inv, of install err] by simp
  next
    case DStop
    then show ?thesis using inv
      by (cases "dh_running m") (simp_all add: StopDarwin_def cleanupLocked_def darwin_inv_def unregisterHotkeys_def allHotkeys_set)
  qed
qed

text \<open>On macOS the hotkeys, the handler and the registry go together: while the manager runs each press starts its own action, and nothing stays behind.\<close>

lemma nativeAction_other: "i \<notin> {1, 2, 3} \<Longrightarrow> nativeAction i = None"
  by (simp add: nativeAction_def hotkey_ids)

lemma new_darwin_inv: "darwin_inv newDarwinHotkeys"
  by (simp add: darwin_inv_def newDarwinHotkeys_def)

lemma darwin_hotkeys_all_or_none: "darwin_inv (fold darwin_step evs newDarwinHotkeys)"
  by (rule darwin_hotkeys.free_run_inv [OF new_darwin_inv]) simp

lemma darwin_press:
  assumes m: "m = fold darwin_step evs newDarwinHotkeys"
  shows "pressDarwin i m = (if dh_running m then nativeAction i else None)"
proof -
  have inv: "darwin_inv m" unfolding m by (rule darwin_hotkeys_all_or_none)
  show ?thesis
  proof (cases "dh_running m")
    case True
    with inv have "dh_refs m = {1, 2, 3}" "dh_handler m" "dh_registry m" by (simp_all add: darwin_inv_def)
    then show ?thesis using True nativeAction_other [of i] by (cases "i \<in> {1, 2, 3}") (simp_all only: pressDarwin_def if_True if_False simp_thms)
  next
    case False
    with inv have "\<not> dh_handler m" by (simp add: darwin_inv_def)
    then show ?thesis using False by (simp only: pressDarwin_def if_False simp_thms)
  qed
qed

end
