(* ===== verification/Tray.thy ===== *)
theory Tray
  imports Startup
begin

text \<open>
  The menu of the tray (\<open>desktop/ui/tray.go\<close>): its status line, which of its items can be clicked, and what a click
  starts in the application (\<open>Run\<close> of \<open>app/application.go\<close>); composed with the connection, whose every step sets the
  status. The library that draws the menu is left out: an item is what it shows and whether it can be clicked, and a
  disabled item is not clicked. The other items are told apart by their names instead of their titles; the icon and
  the notifications, which are only logged, are left out.
\<close>

section \<open>The texts of the status\<close>

definition utf8Bytes :: "nat list \<Rightarrow> string" where "utf8Bytes = map char_of"

definition statusConnected :: string where
  "statusConnected = ''Connected '' @ utf8Bytes [0xE2, 0x9C, 0x93] @ '' / '' @ utf8Bytes [0xE5, 0xB7, 0xB2, 0xE8, 0xBF, 0x9E, 0xE6, 0x8E, 0xA5] @ '' '' @ utf8Bytes [0xE2, 0x9C, 0x93]"

definition statusConnectedShort :: string where
  "statusConnectedShort = ''Connected '' @ utf8Bytes [0xE2, 0x9C, 0x93]"

definition statusConnecting :: string where
  "statusConnecting = ''Connecting... / '' @ utf8Bytes [0xE8, 0xBF, 0x9E, 0xE6, 0x8E, 0xA5, 0xE4, 0xB8, 0xAD] @ ''...''"

definition statusConnectingShort :: string where
  "statusConnectingShort = ''Connecting...''"

definition statusReconnecting :: string where
  "statusReconnecting = ''Reconnecting... / '' @ utf8Bytes [0xE9, 0x87, 0x8D, 0xE8, 0xBF, 0x9E, 0xE4, 0xB8, 0xAD] @ ''...''"

definition statusReconnectingShort :: string where
  "statusReconnectingShort = ''Reconnecting...''"

definition statusDisconnected :: string where
  "statusDisconnected = ''Disconnected / '' @ utf8Bytes [0xE6, 0x9C, 0xAA, 0xE8, 0xBF, 0x9E, 0xE6, 0x8E, 0xA5]"

definition statusLoginFailed :: string where
  "statusLoginFailed = ''Login Failed / '' @ utf8Bytes [0xE7, 0x99, 0xBB, 0xE5, 0xBD, 0x95, 0xE5, 0xA4, 0xB1, 0xE8, 0xB4, 0xA5]"

definition statusKeyError :: string where
  "statusKeyError = ''Key Error / '' @ utf8Bytes [0xE5, 0xAF, 0x86, 0xE9, 0x92, 0xA5, 0xE9, 0x94, 0x99, 0xE8, 0xAF, 0xAF]"

definition statusWSFailed :: string where
  "statusWSFailed = ''WS Failed / WS '' @ utf8Bytes [0xE5, 0xA4, 0xB1, 0xE8, 0xB4, 0xA5]"

lemmas status_defs = statusConnected_def statusConnectedShort_def statusConnecting_def statusConnectingShort_def statusReconnecting_def statusReconnectingShort_def statusDisconnected_def statusLoginFailed_def statusKeyError_def statusWSFailed_def

section \<open>The menu\<close>

datatype menuItem =
  ConnectItem | DisconnectItem | HistoryItem | LogWindowItem | PlaceholderItem | RealPasteItem | SendCurrentItem | QuitItem

text \<open>\<open>tr_statusItem\<close>: the title of the status line; \<open>tr_items\<close>: the items of the menu, and whether they are enabled.\<close>

record 'h Tray =
  tr_hooks :: "menuItem \<Rightarrow> 'h option"
  tr_currentStatus :: string
  tr_replayEnabled :: bool
  tr_statusItem :: "string option"
  tr_items :: "menuItem \<Rightarrow> bool option"
  tr_quit :: bool

definition NewTray :: "'h Tray" where
  "NewTray = \<lparr>tr_hooks = (\<lambda>_. None), tr_currentStatus = statusDisconnected, tr_replayEnabled = False, tr_statusItem = None,
     tr_items = (\<lambda>_. None), tr_quit = False\<rparr>"

text \<open>The two items of the connection under a status: can one connect, can one disconnect?\<close>

definition statusItems :: "string \<Rightarrow> bool \<times> bool" where
  "statusItems status =
     (if status = statusConnected \<or> status = statusConnectedShort then (False, True)
      else if status = statusConnecting \<or> status = statusConnectingShort then (False, False)
      else if status = statusReconnecting \<or> status = statusReconnectingShort then (False, False)
      else (True, False))"

definition SetStatus :: "string \<Rightarrow> 'h Tray \<Rightarrow> 'h Tray" where
  "SetStatus status t =
     (let t1 = t\<lparr>tr_currentStatus := status,
                 tr_statusItem := map_option (\<lambda>_. ''Status: '' @ status) (tr_statusItem t)\<rparr> in
      if tr_items t1 ConnectItem = None \<or> tr_items t1 DisconnectItem = None then t1
      else t1\<lparr>tr_items := (tr_items t1)(ConnectItem \<mapsto> fst (statusItems status), DisconnectItem \<mapsto> snd (statusItems status))\<rparr>)"

definition SetReplayActionsEnabled :: "bool \<Rightarrow> 'h Tray \<Rightarrow> 'h Tray" where
  "SetReplayActionsEnabled enabled t =
     (let t1 = t\<lparr>tr_replayEnabled := enabled\<rparr> in
      if tr_items t1 PlaceholderItem = None \<or> tr_items t1 RealPasteItem = None then t1
      else t1\<lparr>tr_items := (tr_items t1)(PlaceholderItem \<mapsto> enabled, RealPasteItem \<mapsto> enabled)\<rparr>)"

text \<open>The menu is built: the items are added, enabled, and brought in line with what was set before. \<open>readyHook\<close> is the callback.\<close>

definition onReady :: "bool \<Rightarrow> ('h Tray \<Rightarrow> 'h Tray) option \<Rightarrow> 'h Tray \<Rightarrow> 'h Tray" where
  "onReady supportsLogWindow readyHook t =
     (let t1 = t\<lparr>tr_statusItem := Some (''Status: '' @ tr_currentStatus t),
                 tr_items := (\<lambda>i. if i = LogWindowItem \<and> \<not> supportsLogWindow then None else Some True)\<rparr>;
          t2 = SetReplayActionsEnabled (tr_replayEnabled t) (SetStatus (tr_currentStatus t) t1) in
      (case readyHook of None \<Rightarrow> t2 | Some f \<Rightarrow> f t2))"

definition clickable :: "menuItem \<Rightarrow> 'h Tray \<Rightarrow> bool" where
  "clickable i t \<longleftrightarrow> tr_items t i = Some True \<and> \<not> tr_quit t"

text \<open>A click runs the callback of its item; the last item then also ends the tray.\<close>

definition menuClick :: "menuItem \<Rightarrow> 'h Tray \<Rightarrow> 'h Tray \<times> 'h option" where
  "menuClick i t =
     (if \<not> clickable i t then (t, None)
      else ((if i = QuitItem then t\<lparr>tr_quit := True\<rparr> else t), tr_hooks t i))"

section \<open>The menu shows what was set\<close>

text \<open>The menu as it should be under a status, with or without something to paste.\<close>

fun menuItems :: "bool \<Rightarrow> string \<Rightarrow> bool \<Rightarrow> menuItem \<Rightarrow> bool option" where
  "menuItems log s r ConnectItem = Some (fst (statusItems s))"
| "menuItems log s r DisconnectItem = Some (snd (statusItems s))"
| "menuItems log s r PlaceholderItem = Some r"
| "menuItems log s r RealPasteItem = Some r"
| "menuItems log s r LogWindowItem = (if log then Some True else None)"
| "menuItems log s r HistoryItem = Some True"
| "menuItems log s r SendCurrentItem = Some True"
| "menuItems log s r QuitItem = Some True"

lemma menu_new_status:
  "(menuItems log s r)(ConnectItem \<mapsto> fst (statusItems s'), DisconnectItem \<mapsto> snd (statusItems s')) = menuItems log s' r"
proof
  fix i
  show "((menuItems log s r)(ConnectItem \<mapsto> fst (statusItems s'), DisconnectItem \<mapsto> snd (statusItems s'))) i = menuItems log s' r i"
    by (cases i) simp_all
qed

lemma menu_new_replay: "(menuItems log s r)(PlaceholderItem \<mapsto> r', RealPasteItem \<mapsto> r') = menuItems log s r'"
proof
  fix i show "((menuItems log s r)(PlaceholderItem \<mapsto> r', RealPasteItem \<mapsto> r')) i = menuItems log s r' i" by (cases i) simp_all
qed

lemma menu_built:
  "(\<lambda>i. if i = LogWindowItem \<and> \<not> log then None else Some True)
     (ConnectItem \<mapsto> fst (statusItems s), DisconnectItem \<mapsto> snd (statusItems s), PlaceholderItem \<mapsto> r, RealPasteItem \<mapsto> r) =
   menuItems log s r"
proof
  fix i
  show "((\<lambda>i. if i = LogWindowItem \<and> \<not> log then None else Some True)
     (ConnectItem \<mapsto> fst (statusItems s), DisconnectItem \<mapsto> snd (statusItems s), PlaceholderItem \<mapsto> r, RealPasteItem \<mapsto> r)) i =
   menuItems log s r i"
    by (cases i) simp_all
qed

definition menu_shown :: "'h Tray \<Rightarrow> bool" where
  "menu_shown t \<longleftrightarrow>
     tr_statusItem t = Some (''Status: '' @ tr_currentStatus t) \<and>
     (\<exists>log. tr_items t = menuItems log (tr_currentStatus t) (tr_replayEnabled t))"

definition menu_ok :: "'h Tray \<Rightarrow> bool" where
  "menu_ok t \<longleftrightarrow> tr_statusItem t = None \<and> tr_items t = (\<lambda>_. None) \<or> menu_shown t"

lemma new_tray_ok: "menu_ok NewTray"
  by (simp add: menu_ok_def NewTray_def)

lemma set_status_shown: "menu_shown t \<Longrightarrow> menu_shown (SetStatus status t)"
  unfolding menu_shown_def SetStatus_def Let_def by (clarsimp simp: menu_new_status) blast

lemma set_replay_shown: "menu_shown t \<Longrightarrow> menu_shown (SetReplayActionsEnabled b t)"
  unfolding menu_shown_def SetReplayActionsEnabled_def Let_def by (clarsimp simp: menu_new_replay) blast

lemma set_status_ok: "menu_ok t \<Longrightarrow> menu_ok (SetStatus status t)"
  unfolding menu_ok_def
  by (erule disjE, rule disjI1, simp add: SetStatus_def Let_def, rule disjI2, erule set_status_shown)

lemma set_replay_ok: "menu_ok t \<Longrightarrow> menu_ok (SetReplayActionsEnabled b t)"
  unfolding menu_ok_def
  by (erule disjE, rule disjI1, simp add: SetReplayActionsEnabled_def Let_def, rule disjI2, erule set_replay_shown)

lemma on_ready_shown: "menu_shown (onReady log None t)"
  unfolding onReady_def menu_shown_def SetStatus_def SetReplayActionsEnabled_def Let_def option.case
  by (simp add: menu_built) blast

lemma on_ready_hook: "onReady log (Some f) t = f (onReady log None t)"
  by (simp add: onReady_def Let_def)

lemma click_ok: "menu_ok t \<Longrightarrow> menu_ok (fst (menuClick i t))"
  by (cases "i = QuitItem") (simp_all add: menuClick_def menu_ok_def menu_shown_def)

text \<open>Only the last status counts, and setting it again changes nothing.\<close>

lemma set_status_twice: "SetStatus s2 (SetStatus s1 t) = SetStatus s2 t"
  by (simp add: SetStatus_def Let_def option.map_comp comp_def fun_eq_iff)

lemma status_items_exclusive: "\<not> (fst (statusItems s) \<and> snd (statusItems s))"
  by (simp add: statusItems_def)

section \<open>The menu and the connection\<close>

text \<open>What \<open>Run\<close> binds to the items.\<close>

datatype trayAction =
  GoConnect | DisconnectNow | GoOpenHistoryPanel | GoOpenLogWindow | GoPastePlaceholder | GoPasteRealContent
| GoSendCurrentClipboard | ShutdownNow

fun runHooks :: "menuItem \<Rightarrow> trayAction option" where
  "runHooks ConnectItem = Some GoConnect"
| "runHooks DisconnectItem = Some DisconnectNow"
| "runHooks HistoryItem = Some GoOpenHistoryPanel"
| "runHooks LogWindowItem = Some GoOpenLogWindow"
| "runHooks PlaceholderItem = Some GoPastePlaceholder"
| "runHooks RealPasteItem = Some GoPasteRealContent"
| "runHooks SendCurrentItem = Some GoSendCurrentClipboard"
| "runHooks QuitItem = Some ShutdownNow"

text \<open>The status as the code writes it, in both languages; the connection has its first half.\<close>

definition statusText :: "string \<Rightarrow> string" where
  "statusText s =
     (if s = ''Connected'' then statusConnected else if s = ''Connecting...'' then statusConnecting
      else if s = ''Reconnecting...'' then statusReconnecting else if s = ''Login Failed'' then statusLoginFailed
      else if s = ''Key Error'' then statusKeyError else if s = ''WS Failed'' then statusWSFailed else statusDisconnected)"

fun connectionEvent :: "gotime \<Rightarrow> trayAction \<Rightarrow> desktop_event option" where
  "connectionEvent now GoConnect = Some UserConnects"
| "connectionEvent now DisconnectNow = Some (UserDisconnects now)"
| "connectionEvent now ShutdownNow = Some (Shutdown now)"
| "connectionEvent now _ = None"

text \<open>
  A step of the connection and what it sets in the menu; the menu is built, with the refresh of the paste items as its
  callback; the history changes; an item is clicked. Within a step only the last status counts (\<open>set_status_twice\<close>).
\<close>

datatype program_event =
  ConnectionStep desktop_event | MenuReady bool bool | ReplayChanged bool | MenuClicked menuItem gotime

definition connectionStep :: "desktop_event \<Rightarrow> Desktop \<times> trayAction Tray \<Rightarrow> Desktop \<times> trayAction Tray" where
  "connectionStep ev p = (desktop_step ev (fst p), SetStatus (statusText (d_status (desktop_step ev (fst p)))) (snd p))"

fun program_step :: "program_event \<Rightarrow> Desktop \<times> trayAction Tray \<Rightarrow> Desktop \<times> trayAction Tray" where
  "program_step (ConnectionStep ev) p = connectionStep ev p"
| "program_step (MenuReady log canReplay) p = (fst p, onReady log (Some (SetReplayActionsEnabled canReplay)) (snd p))"
| "program_step (ReplayChanged canReplay) p = (fst p, SetReplayActionsEnabled canReplay (snd p))"
| "program_step (MenuClicked i now) p =
     (case menuClick i (snd p) of
        (t, None) \<Rightarrow> (fst p, t)
      | (t, Some action) \<Rightarrow>
          (case connectionEvent now action of None \<Rightarrow> (fst p, t) | Some ev \<Rightarrow> connectionStep ev (fst p, t)))"

definition program_start :: "Config \<Rightarrow> Desktop \<times> trayAction Tray" where
  "program_start cfg = (desktop_start cfg, NewTray\<lparr>tr_hooks := runHooks\<rparr>)"

definition program_inv :: "Desktop \<times> trayAction Tray \<Rightarrow> bool" where
  "program_inv p \<longleftrightarrow> menu_ok (snd p) \<and> tr_currentStatus (snd p) = statusText (d_status (fst p)) \<and> tr_hooks (snd p) = runHooks"

lemma tray_fields [simp]:
  "tr_currentStatus (SetStatus s t) = s" "tr_hooks (SetStatus s t) = tr_hooks t"
  "tr_currentStatus (SetReplayActionsEnabled b t) = tr_currentStatus t" "tr_hooks (SetReplayActionsEnabled b t) = tr_hooks t"
  "tr_currentStatus (fst (menuClick i t)) = tr_currentStatus t" "tr_hooks (fst (menuClick i t)) = tr_hooks t"
  by (simp_all add: SetStatus_def SetReplayActionsEnabled_def Let_def menuClick_def)

lemma ready_fields [simp]:
  "tr_currentStatus (onReady log None t) = tr_currentStatus t" "tr_hooks (onReady log None t) = tr_hooks t"
  by (simp_all add: onReady_def SetStatus_def SetReplayActionsEnabled_def Let_def)

lemma connection_step_inv: "program_inv p \<Longrightarrow> program_inv (connectionStep ev p)"
  by (simp add: program_inv_def connectionStep_def set_status_ok)

interpretation tray_program: machine program_step "\<lambda>_. True" program_inv
proof
  fix ev p
  assume inv: "program_inv p"
  show "program_inv (program_step ev p)"
  proof (cases ev)
    case (ConnectionStep e)
    then show ?thesis using connection_step_inv [OF inv] by simp
  next
    case (MenuReady log b)
    have "menu_ok (SetReplayActionsEnabled b (onReady log None (snd p)))"
      by (rule set_replay_ok) (simp add: menu_ok_def on_ready_shown)
    then show ?thesis using inv MenuReady by (simp add: program_inv_def on_ready_hook)
  next
    case (ReplayChanged b)
    then show ?thesis using inv by (simp add: program_inv_def set_replay_ok)
  next
    case (MenuClicked i now)
    obtain t a where c: "menuClick i (snd p) = (t, a)" by fastforce
    have "program_inv (fst p, t)"
      using inv click_ok [of "snd p" i] tray_fields(5,6) [of i "snd p"] by (simp add: program_inv_def c)
    then show ?thesis using MenuClicked c connection_step_inv by (simp split: option.split)
  qed
qed

lemma program_start_inv: "program_inv (program_start cfg)"
  by (simp add: program_inv_def program_start_def NewTray_def menu_ok_def desktop_start_def statusText_def)

lemma offered_items:
  "fst (statusItems (statusText s)) \<longleftrightarrow> s \<noteq> ''Connected'' \<and> s \<noteq> ''Connecting...'' \<and> s \<noteq> ''Reconnecting...''"
  "snd (statusItems (statusText s)) \<longleftrightarrow> s = ''Connected''"
  by (simp_all add: statusText_def statusItems_def status_defs)

text \<open>
  However connecting, disconnecting, replaying and clicking follow each other, before and after the menu is built: its
  status line is that of the connection, and while it is open, \<open>Connect\<close> can be clicked unless the program is
  connected or busy connecting, \<open>Disconnect\<close> exactly when it says it is connected.
\<close>

lemma menu_follows_connection:
  assumes "p = fold program_step evs (program_start cfg)" "d = fst p" "t = snd p" "tr_statusItem t \<noteq> None"
  shows "tr_statusItem t = Some (''Status: '' @ statusText (d_status d)) \<and>
    clickable ConnectItem t = (d_status d \<notin> {''Connected'', ''Connecting...'', ''Reconnecting...''} \<and> \<not> tr_quit t) \<and>
    clickable DisconnectItem t = (d_status d = ''Connected'' \<and> \<not> tr_quit t) \<and>
    clickable PlaceholderItem t = (tr_replayEnabled t \<and> \<not> tr_quit t) \<and>
    clickable RealPasteItem t = (tr_replayEnabled t \<and> \<not> tr_quit t) \<and> clickable QuitItem t = (\<not> tr_quit t)"
proof -
  have inv: "program_inv p"
    unfolding assms(1) by (rule tray_program.free_run_inv [OF program_start_inv]) simp
  then have "menu_shown t" "tr_currentStatus t = statusText (d_status d)"
    using assms(2-4) by (auto simp: program_inv_def menu_ok_def)
  then show ?thesis by (auto simp: menu_shown_def clickable_def offered_items)
qed

text \<open>
  When the link is lost and the program is not to reconnect by itself, nothing changes the status: the menu goes on
  saying that the program is connected and does not offer to connect.
\<close>

definition unattended :: "desktop_event \<Rightarrow> bool" where
  "unattended ev = (case ev of LinkLost \<Rightarrow> True | MonitorTicks \<Rightarrow> True | LoopStarts _ \<Rightarrow> True | _ \<Rightarrow> False)"

lemma unattended_step:
  "unattended ev \<Longrightarrow> \<not> cfg_AutoReconnect (d_cfg d) \<Longrightarrow> \<not> stompUp d \<Longrightarrow>
     \<not> stompUp (desktop_step ev d) \<and> \<not> cfg_AutoReconnect (d_cfg (desktop_step ev d)) \<and> d_status (desktop_step ev d) = d_status d"
  by (cases ev) (auto simp: unattended_def monitorTick_def reconnectLoopStart_def stompUp_def IsConnected_def
      split: nat.split option.splits)

lemma unattended_run:
  "list_all unattended evs \<Longrightarrow> \<not> cfg_AutoReconnect (d_cfg d) \<Longrightarrow> \<not> stompUp d \<Longrightarrow>
     \<not> stompUp (desktop_run evs d) \<and> d_status (desktop_run evs d) = d_status d"
  by (induction evs arbitrary: d) (use unattended_step in \<open>auto simp: desktop_run_def\<close>)

lemma shown_connected_without_link:
  assumes "\<not> cfg_AutoReconnect (d_cfg d)" "d_status d = ''Connected''" "list_all unattended evs"
    and "d' = desktop_run (LinkLost # evs) d" "menu_shown t"
  shows "\<not> stompUp d' \<and> tr_statusItem (SetStatus (statusText (d_status d')) t) = Some (''Status: '' @ statusConnected) \<and>
    \<not> clickable ConnectItem (SetStatus (statusText (d_status d')) t)"
proof -
  let ?d = "desktop_step LinkLost d"
  have "\<not> stompUp ?d" "\<not> cfg_AutoReconnect (d_cfg ?d)" "d_status ?d = ''Connected''"
    using assms(1,2) by (auto simp: stompUp_def IsConnected_def split: option.splits)
  with unattended_run [OF assms(3), of ?d] have d': "\<not> stompUp d'" "d_status d' = ''Connected''"
    by (simp_all add: assms(4) desktop_run_def)
  have "menu_shown (SetStatus (statusText (d_status d')) t)" using set_status_shown [OF assms(5)] .
  then show ?thesis using d' offered_items(1) [of "''Connected''"]
    by (auto simp: menu_shown_def clickable_def statusText_def)
qed

end
