(* ===== verification/PanelOpen.thy ===== *)
theory PanelOpen
  imports Panel
begin

text \<open>
  Opening the control center (\<open>openHistoryPanel\<close>, \<open>openHistoryPanelBrowser\<close>, \<open>historyPanelOpenCommand\<close> of
  \<open>app/history_panel.go\<close>) and closing it. Which commands there are and what running one gives are arguments.
\<close>

definition openerSpecs :: "(string \<times> string list) list" where
  "openerSpecs = [(''xdg-open'', []), (''gio'', [''open'']), (''gnome-open'', []), (''kde-open'', [])]"

definition historyPanelOpenCommand :: "(string \<Rightarrow> bool) \<Rightarrow> (string \<times> string list) result" where
  "historyPanelOpenCommand lookPath =
     (case find (\<lambda>spec. lookPath (fst spec)) openerSpecs of
        Some spec \<Rightarrow> Inr spec
      | None \<Rightarrow> Inl ''no browser opener command available'')"

record OpenEnv =
  oe_GOOS :: string
  oe_lookPath :: "string \<Rightarrow> bool"
  oe_run :: "string list \<Rightarrow> goerror option"
  oe_listen :: "string \<Rightarrow> string result"
  oe_random :: "octet list option"

definition openCommand :: "OpenEnv \<Rightarrow> string \<Rightarrow> string list result" where
  "openCommand oe targetURL =
     (if oe_GOOS oe = ''darwin'' then Inr [''open'', targetURL]
      else if oe_GOOS oe = ''windows'' then Inr [''rundll32'', ''url.dll,FileProtocolHandler'', targetURL]
      else (case historyPanelOpenCommand (oe_lookPath oe) of
              Inl err \<Rightarrow> Inl err
            | Inr (opener, args) \<Rightarrow> Inr (opener # args @ [targetURL])))"

definition openHistoryPanelBrowser :: "OpenEnv \<Rightarrow> string \<Rightarrow> string list list \<times> goerror option" where
  "openHistoryPanelBrowser oe targetURL =
     (if trimSpace targetURL = '''' then ([], Some ''empty history panel URL'')
      else (case openCommand oe targetURL of
              Inl err \<Rightarrow> ([], Some err)
            | Inr cmd \<Rightarrow> ([cmd], map_option (\<lambda>err. ''open browser: '' @ err) (oe_run oe cmd))))"

text \<open>What the user is told.\<close>

datatype open_outcome = Unavailable | StartFailed goerror | OpenFailed goerror string | Opened string

definition openHistoryPanel ::
  "OpenEnv \<Rightarrow> int option \<Rightarrow> bool \<Rightarrow> string option \<Rightarrow> string option \<times> string list list \<times> open_outcome" where
  "openHistoryPanel oe cfgPort hasPanel running =
     (if \<not> hasPanel then (running, [], Unavailable)
      else (let webPort = (case cfgPort of Some p \<Rightarrow> if p > 0 then p else DefaultWebPort | None \<Rightarrow> DefaultWebPort) in
            case EnsureStarted (oe_listen oe) (oe_random oe) webPort running of
              (running1, Inl err) \<Rightarrow> (running1, [], StartFailed err)
            | (running1, Inr url) \<Rightarrow>
                (case openHistoryPanelBrowser oe url of
                   (cmds, Some err) \<Rightarrow> (running1, cmds, OpenFailed err url)
                 | (cmds, None) \<Rightarrow> (running1, cmds, Opened url))))"

text \<open>\<open>Close\<close>: the server is forgotten and told to stop.\<close>

definition ClosePanel :: "(unit \<Rightarrow> goerror option) \<Rightarrow> string option \<Rightarrow> string option \<times> goerror option" where
  "ClosePanel shutdownServer running =
     (case running of None \<Rightarrow> (None, None) | Some _ \<Rightarrow> (None, shutdownServer ()))"

text \<open>
  Opening it again opens the same address, with the same token, whatever the network answers by then; after it was closed
  the next one has a token of its own. The command that is run has the address as its last argument.
\<close>

lemma opened_again_same:
  "openHistoryPanel oe port True running = (Some url, cmds, Opened url') \<Longrightarrow>
     url' = url \<and> fst (openHistoryPanel oe2 port2 True (Some url)) = Some url"
  by (auto simp: openHistoryPanel_def EnsureStarted_def Let_def split: option.splits sum.splits prod.splits)

lemma opener_tried_in_order:
  "historyPanelOpenCommand lookPath = Inr (name, args) \<Longrightarrow>
     lookPath name \<and> (lookPath ''xdg-open'' \<longrightarrow> name = ''xdg-open'' \<and> args = [])"
  by (auto simp: historyPanelOpenCommand_def openerSpecs_def split: if_splits)

lemma browser_gets_address:
  "openHistoryPanelBrowser oe url = (cmds, r) \<Longrightarrow> \<forall>cmd\<in>set cmds. last cmd = url"
  by (auto simp: openHistoryPanelBrowser_def openCommand_def split: if_splits sum.splits)

lemma closed_starts_anew:
  "ClosePanel shutdownServer running = (running1, r) \<Longrightarrow>
     openHistoryPanel oe port True running1 = (Some url, cmds, Opened url) \<Longrightarrow>
     \<exists>addr token. url = ''http://'' @ addr @ ''/'' @ token @ ''/'' \<and> historyPanelToken (oe_random oe) = Inr token"
  by (auto simp: ClosePanel_def openHistoryPanel_def EnsureStarted_def Let_def split: option.splits sum.splits prod.splits)

end
