(* ===== verification/ServerMain.thy ===== *)
theory ServerMain
  imports Accounts WsHub P2PSignal
begin

text \<open>
  The server put together (\<open>main\<close> of \<open>server/main.go\<close>): its routes in the order they are registered, the checks before
  each handler, what the small handlers answer (\<open>handler/status.go\<close>, \<open>auth.go\<close>, \<open>admin.go\<close>), the search for a free port and the
  addresses that are printed. Which path fits a pattern or a prefix is decided by Fiber's router, an argument (\<open>Router\<close>); entries are tried in
  the order they are registered. CORS, the access log, templates, the database file, mDNS and shutting down are left out.
\<close>

section \<open>Routes\<close>

datatype handler =
  LoginPage | LoginPostRoute | SignupPage | SignupPostRoute | Health | Ping | Home | Logout | ServerModeRoute | StunURLRoute
| MaxSizeRoute | ValidateSession | WhoAmI | WsStats | UserInfoRoute | ClipSocket | P2PSocket | P2PDisabled
| ListUsersRoute | DeleteUserRoute | ResetPasswordRoute | SetRoleRoute | ToggleUserStatusRoute | UpdateUsernameRoute
| RegisterUserRoute | ServerStatsRoute | ServerVersionRoute | ServerTimeRoute | AdvancePage | UpdatePasswordRoute

datatype check = NotLocked | MustUpgrade | MustBeAdmin

text \<open>A method, a pattern, the checks before the handler, and the handler.\<close>

record route =
  rt_method :: "string option"
  rt_pattern :: string
  rt_checks :: "check list"
  rt_handler :: handler

text \<open>What is registered: a route, a check of every path under a prefix (\<open>Use\<close>, \<open>Group\<close>), or the session middleware.\<close>

datatype entry = On route | Use string check | WithSession

definition onMethod :: "string \<Rightarrow> string \<Rightarrow> check list \<Rightarrow> handler \<Rightarrow> entry" where
  "onMethod method path checks h = On \<lparr>rt_method = Some method, rt_pattern = path, rt_checks = checks, rt_handler = h\<rparr>"

definition publicRoutes :: "entry list" where
  "publicRoutes =
     [onMethod ''GET'' ''/login'' [NotLocked] LoginPage, onMethod ''POST'' ''/login'' [NotLocked] LoginPostRoute,
      onMethod ''GET'' ''/signup'' [NotLocked] SignupPage, onMethod ''POST'' ''/signup'' [NotLocked] SignupPostRoute,
      onMethod ''GET'' ''/health'' [] Health, onMethod ''GET'' ''/ping'' [] Ping]"

definition userRoutes :: "entry list" where
  "userRoutes =
     [onMethod ''GET'' ''/'' [] Home, onMethod ''GET'' ''/logout'' [] Logout,
      onMethod ''GET'' ''/api/server-mode'' [] ServerModeRoute, onMethod ''GET'' ''/api/stun-url'' [] StunURLRoute,
      onMethod ''GET'' ''/api/max-size'' [] MaxSizeRoute, onMethod ''GET'' ''/api/validate-session'' [] ValidateSession,
      onMethod ''GET'' ''/api/whoami'' [] WhoAmI, onMethod ''GET'' ''/api/ws-stats'' [] WsStats,
      onMethod ''GET'' ''/api/user-info'' [] UserInfoRoute]"

definition socketRoutes :: "ServerConfig \<Rightarrow> entry list" where
  "socketRoutes cfg =
     [Use ''/clipsocket'' MustUpgrade, onMethod ''GET'' ''/clipsocket'' [] ClipSocket] @
     (if sc_P2PEnabled cfg then [Use ''/p2p'' MustUpgrade, onMethod ''GET'' ''/p2p'' [] P2PSocket]
      else [On \<lparr>rt_method = None, rt_pattern = ''/p2p'', rt_checks = [], rt_handler = P2PDisabled\<rparr>])"

definition adminRoutes :: "entry list" where
  "adminRoutes =
     [Use ''/api/admin'' MustBeAdmin,
      onMethod ''GET'' ''/api/admin/users'' [] ListUsersRoute,
      onMethod ''DELETE'' ''/api/admin/users/:id'' [] DeleteUserRoute,
      onMethod ''PUT'' ''/api/admin/users/:id/password'' [] ResetPasswordRoute,
      onMethod ''PUT'' ''/api/admin/users/:id/role'' [] SetRoleRoute,
      onMethod ''PUT'' ''/api/admin/users/:id/status'' [] ToggleUserStatusRoute,
      onMethod ''PUT'' ''/api/admin/users/:id/username'' [] UpdateUsernameRoute,
      onMethod ''POST'' ''/api/admin/users'' [] RegisterUserRoute,
      onMethod ''GET'' ''/api/admin/stats'' [] ServerStatsRoute,
      onMethod ''GET'' ''/api/admin/server-version'' [] ServerVersionRoute,
      onMethod ''GET'' ''/api/admin/server-time'' [] ServerTimeRoute,
      onMethod ''GET'' ''/advance'' [MustBeAdmin] AdvancePage]"

definition serverRoutes :: "ServerConfig \<Rightarrow> entry list" where
  "serverRoutes cfg =
     publicRoutes @ WithSession # userRoutes @ socketRoutes cfg @ adminRoutes @
     [onMethod ''PUT'' ''/api/update-password'' [] UpdatePasswordRoute]"

section \<open>What happens to a request\<close>

text \<open>\<open>hr_locked\<close>: the address is locked; \<open>hr_storeErr\<close>, \<open>hr_session\<close>: what the session store answers.\<close>

record HttpRequest =
  hr_method :: string
  hr_path :: string
  hr_upgrade :: bool
  hr_locked :: bool
  hr_storeErr :: "goerror option"
  hr_session :: "Session option"

text \<open>A handler runs with the session it sees, or the request is answered before.\<close>

datatype outcome = Asset | Runs handler "Session option" | Answered Reply | UpgradeRequired | TooMany | NoRoute

record Router =
  ro_matches :: "string \<Rightarrow> string \<Rightarrow> bool"
  ro_under :: "string \<Rightarrow> string \<Rightarrow> bool"

text \<open>Fiber registers a handler of \<open>GET\<close> for \<open>HEAD\<close> too; \<open>None\<close> is every method.\<close>

definition fits :: "Router \<Rightarrow> HttpRequest \<Rightarrow> route \<Rightarrow> bool" where
  "fits ro rq r \<longleftrightarrow>
     (case rt_method r of None \<Rightarrow> True | Some m \<Rightarrow> hr_method rq = m \<or> m = ''GET'' \<and> hr_method rq = ''HEAD'') \<and>
     ro_matches ro (rt_pattern r) (hr_path rq)"

definition refuses :: "HttpRequest \<Rightarrow> Session option \<Rightarrow> check \<Rightarrow> outcome option" where
  "refuses rq s c =
     (case c of
        NotLocked \<Rightarrow> (if hr_locked rq then Some TooMany else None)
      | MustUpgrade \<Rightarrow> (if hr_upgrade rq then None else Some UpgradeRequired)
      | MustBeAdmin \<Rightarrow>
          (case s of
             None \<Rightarrow> Some (Answered (StatusReply 403 ''admin access required''))
           | Some sess \<Rightarrow> map_option Answered (AdminOnly sess)))"

fun runChecks :: "HttpRequest \<Rightarrow> Session option \<Rightarrow> check list \<Rightarrow> handler \<Rightarrow> outcome" where
  "runChecks rq s [] h = Runs h s"
| "runChecks rq s (c # cs) h = (case refuses rq s c of Some out \<Rightarrow> out | None \<Rightarrow> runChecks rq s cs h)"

fun runEntries :: "Router \<Rightarrow> HttpRequest \<Rightarrow> Session option \<Rightarrow> entry list \<Rightarrow> outcome" where
  "runEntries ro rq s [] = NoRoute"
| "runEntries ro rq s (On r # es) =
     (if fits ro rq r then runChecks rq s (rt_checks r) (rt_handler r) else runEntries ro rq s es)"
| "runEntries ro rq s (Use pre c # es) =
     (case (if ro_under ro pre (hr_path rq) then refuses rq s c else None) of
        Some out \<Rightarrow> out | None \<Rightarrow> runEntries ro rq s es)"
| "runEntries ro rq s (WithSession # es) =
     (case sessionGate (hr_path rq) (hr_storeErr rq) (hr_session rq) of
        Refused reply \<Rightarrow> Answered reply
      | Public \<Rightarrow> runEntries ro rq s es
      | Allowed sess \<Rightarrow> runEntries ro rq (Some sess) es)"

text \<open>The files under \<open>/assets\<close> are served before everything else.\<close>

definition dispatch :: "Router \<Rightarrow> ServerConfig \<Rightarrow> bool \<Rightarrow> HttpRequest \<Rightarrow> outcome" where
  "dispatch ro cfg isAsset rq = (if isAsset then Asset else runEntries ro rq None (serverRoutes cfg))"

section \<open>Small answers\<close>

record HomePage =
  hm_username :: string
  hm_mode :: string
  hm_port :: int
  hm_max_size_mib :: int
  hm_is_admin :: bool

definition homePage :: "ServerConfig \<Rightarrow> Session \<Rightarrow> HomePage" where
  "homePage cfg s =
     \<lparr>hm_username = sess_username s,
      hm_mode = (if sc_P2PEnabled cfg then ''Peer-to-Peer (WebRTC)'' else ''Server-Based (STOMP)''),
      hm_port = sc_Port cfg, hm_max_size_mib = sc_MaxMessageSizeMiB cfg, hm_is_admin = (sess_role s = ''ADMIN'')\<rparr>"

definition whoAmI :: "Session \<Rightarrow> string \<times> string" where
  "whoAmI s = (sess_username s, sess_role s)"

text \<open>Users, the relay's and the signalling's numbers, P2P enabled, sign-up enabled.\<close>

definition ServerStats ::
  "'d UserDB \<Rightarrow> ServerConfig \<Rightarrow> WSHub \<Rightarrow> P2PSignaling \<Rightarrow> 'd \<Rightarrow> int \<times> (int \<times> int64 \<times> int64 \<times> int64) \<times> (nat \<times> nat) \<times> bool \<times> bool" where
  "ServerStats db cfg hub p2p d = (db_count db d, Stats hub, p2pStats p2p, sc_P2PEnabled cfg, sc_SignupEnabled cfg)"

text \<open>The page to sign up exists only when signing up is enabled; the login page says whether it is.\<close>

definition signupPage :: "ServerConfig \<Rightarrow> string \<Rightarrow> Reply + string" where
  "signupPage cfg err = (if \<not> sc_SignupEnabled cfg then Inl (StatusReply 403 ''Signup is disabled'') else Inr err)"

definition loginPage :: "ServerConfig \<Rightarrow> string \<Rightarrow> string \<Rightarrow> string \<times> string \<times> bool" where
  "loginPage cfg err logout = (err, logout, sc_SignupEnabled cfg)"

section \<open>Listening\<close>

text \<open>Ports from the configured one on are tried until one is free; the configuration keeps the port that was tried last.\<close>

function findPort :: "(int \<Rightarrow> bool) \<Rightarrow> int \<Rightarrow> int \<Rightarrow> int + int" where
  "findPort free startPort port =
     (if free port then Inr port
      else if port + 1 > startPort + 100 then Inl (port + 1) else findPort free startPort (port + 1))"
  by pat_completeness auto
termination
  by (relation "measure (\<lambda>(free, startPort, port). nat (startPort + 100 - port))") auto

declare findPort.simps [simp del]

definition listenOn :: "(int \<Rightarrow> bool) \<Rightarrow> ServerConfig \<Rightarrow> ServerConfig option" where
  "listenOn free cfg = (case findPort free (sc_Port cfg) (sc_Port cfg) of Inr port \<Rightarrow> Some (cfg\<lparr>sc_Port := port\<rparr>) | Inl _ \<Rightarrow> None)"

text \<open>An address of an interface: not an IP network, or one that may be a loopback and may be IPv4, and its text.\<close>

definition getLocalIPs :: "(bool \<times> bool \<times> string) option list result \<Rightarrow> string list" where
  "getLocalIPs addrs =
     (case addrs of
        Inl _ \<Rightarrow> []
      | Inr as \<Rightarrow>
          List.map_filter (\<lambda>a. case a of Some (isLoopback, isIPv4, text) \<Rightarrow> if \<not> isLoopback \<and> isIPv4 then Some text else None
                                      | None \<Rightarrow> None) as)"

section \<open>Nothing without a session\<close>

definition is_admin :: "Session option \<Rightarrow> bool" where
  "is_admin s \<longleftrightarrow> (\<exists>sess. s = Some sess \<and> sess_role sess = ''ADMIN'')"

definition passed :: "HttpRequest \<Rightarrow> Session option \<Rightarrow> check \<Rightarrow> bool" where
  "passed rq s c \<longleftrightarrow> (case c of NotLocked \<Rightarrow> \<not> hr_locked rq | MustUpgrade \<Rightarrow> hr_upgrade rq | MustBeAdmin \<Rightarrow> is_admin s)"

lemma refuses_nothing: "refuses rq s c = None \<Longrightarrow> passed rq s c"
  by (cases c; cases s) (simp_all add: refuses_def passed_def is_admin_def AdminOnly_def split: if_split_asm)

lemma refuses_runs_nothing: "refuses rq s c \<noteq> Some (Runs h s')"
  by (cases c) (simp_all add: refuses_def split: option.split)

lemma runChecks_runs: "runChecks rq s cs h = Runs h' s' \<Longrightarrow> h' = h \<and> s' = s \<and> (\<forall>c\<in>set cs. passed rq s c)"
  by (induction cs) (auto simp: refuses_nothing refuses_runs_nothing split: option.splits)

text \<open>Every route of the entries satisfies \<open>P\<close>, which sees the checks of prefixes registered before it.\<close>

fun all_routes :: "(route \<Rightarrow> (string \<times> check) set \<Rightarrow> bool) \<Rightarrow> (string \<times> check) set \<Rightarrow> entry list \<Rightarrow> bool" where
  "all_routes P uses [] = True"
| "all_routes P uses (On r # es) = (P r uses \<and> all_routes P uses es)"
| "all_routes P uses (Use pre c # es) = all_routes P (insert (pre, c) uses) es"
| "all_routes P uses (WithSession # es) = False"

lemma runEntries_runs:
  assumes "runEntries ro rq s es = Runs h s'" "all_routes P uses es"
    and "\<forall>(pre, c)\<in>uses. ro_under ro pre (hr_path rq) \<longrightarrow> passed rq s c"
  shows "s' = s \<and> (\<exists>r uses'. P r uses' \<and> rt_handler r = h \<and> fits ro rq r \<and> (\<forall>c\<in>set (rt_checks r). passed rq s c) \<and>
    (\<forall>(pre, c)\<in>uses'. ro_under ro pre (hr_path rq) \<longrightarrow> passed rq s c))"
  using assms
proof (induction P uses es rule: all_routes.induct)
  case (2 P uses r es)
  show ?case
  proof (cases "fits ro rq r")
    case True
    with "2.prems" have "runChecks rq s (rt_checks r) (rt_handler r) = Runs h s'" by simp
    from runChecks_runs [OF this] True "2.prems" show ?thesis by auto
  next
    case False
    then show ?thesis using "2.IH" "2.prems" by simp
  qed
next
  case (3 P uses pre c es)
  have "ro_under ro pre (hr_path rq) \<longrightarrow> passed rq s c"
    using "3.prems"(1) by (auto intro: refuses_nothing simp: refuses_runs_nothing split: option.splits)
  moreover have "runEntries ro rq s es = Runs h s'"
    using "3.prems"(1) by (auto simp: refuses_runs_nothing split: option.splits if_splits)
  ultimately show ?case using "3.IH" "3.prems" by simp
qed simp_all

lemma runEntries_append:
  "runEntries ro rq s (es @ es') = (case runEntries ro rq s es of NoRoute \<Rightarrow> runEntries ro rq s es' | out \<Rightarrow> out)"
  if "\<forall>e\<in>set es. \<exists>r. e = On r"
  using that
proof (induction es)
  case (Cons e es)
  then obtain r where r: "e = On r" by auto
  have "runChecks rq s cs h \<noteq> NoRoute" for cs h
    by (induction cs) (auto simp: refuses_def split: check.split option.split if_splits)
  with Cons r show ?case by (auto split: outcome.split)
qed simp

text \<open>
  What the code relies on of the router: a public path fits no other pattern, and a path that fits a pattern is under the
  pattern's prefixes.
\<close>

definition publicPaths :: "string set" where "publicPaths = {''/login'', ''/signup'', ''/health'', ''/ping''}"

definition router_ok :: "Router \<Rightarrow> bool" where
  "router_ok ro \<longleftrightarrow>
     (\<forall>pat path. pat \<notin> publicPaths \<longrightarrow> path \<in> publicPaths \<longrightarrow> \<not> ro_matches ro pat path) \<and>
     (\<forall>pre pat path. (pat = pre \<or> prefix (pre @ ''/'') pat) \<longrightarrow> ro_matches ro pat path \<longrightarrow> ro_under ro pre path)"

definition publicHandlers :: "handler set" where
  "publicHandlers = {LoginPage, LoginPostRoute, SignupPage, SignupPostRoute, Health, Ping}"

definition adminHandlers :: "handler set" where
  "adminHandlers = {ListUsersRoute, DeleteUserRoute, ResetPasswordRoute, SetRoleRoute, ToggleUserStatusRoute,
     UpdateUsernameRoute, RegisterUserRoute, ServerStatsRoute, ServerVersionRoute, ServerTimeRoute, AdvancePage}"

definition below :: "string \<Rightarrow> string \<Rightarrow> bool" where
  "below pre pat \<longleftrightarrow> pat = pre \<or> prefix (pre @ ''/'') pat"

definition public_route :: "route \<Rightarrow> (string \<times> check) set \<Rightarrow> bool" where
  "public_route r uses \<longleftrightarrow> rt_handler r \<in> publicHandlers"

definition guarded_route :: "ServerConfig \<Rightarrow> route \<Rightarrow> (string \<times> check) set \<Rightarrow> bool" where
  "guarded_route cfg r uses \<longleftrightarrow>
     rt_pattern r \<notin> publicPaths \<and>
     (rt_handler r \<in> adminHandlers \<longrightarrow> MustBeAdmin \<in> set (rt_checks r) \<or> ((''/api/admin'', MustBeAdmin) \<in> uses \<and> below ''/api/admin'' (rt_pattern r))) \<and>
     (rt_handler r = ClipSocket \<longrightarrow> (''/clipsocket'', MustUpgrade) \<in> uses \<and> below ''/clipsocket'' (rt_pattern r)) \<and>
     (rt_handler r = P2PSocket \<longrightarrow> (''/p2p'', MustUpgrade) \<in> uses \<and> below ''/p2p'' (rt_pattern r) \<and> sc_P2PEnabled cfg)"

lemma public_table: "all_routes public_route {} publicRoutes"
  by (simp add: publicRoutes_def onMethod_def public_route_def publicHandlers_def)

lemma guarded_table:
  "all_routes (guarded_route cfg) {}
     (userRoutes @ socketRoutes cfg @ adminRoutes @ [onMethod ''PUT'' ''/api/update-password'' [] UpdatePasswordRoute])"
  by (simp add: userRoutes_def socketRoutes_def adminRoutes_def onMethod_def guarded_route_def adminHandlers_def
      publicPaths_def below_def)

lemma router_under: "router_ok ro \<Longrightarrow> below pre pat \<Longrightarrow> ro_matches ro pat path \<Longrightarrow> ro_under ro pre path"
  by (simp add: router_ok_def below_def) blast

text \<open>A router that compares exactly is one.\<close>

lemma exact_router: "router_ok \<lparr>ro_matches = (=), ro_under = below\<rparr>"
  by (auto simp: router_ok_def below_def)

text \<open>C7: Nothing of the server is reached without a session but its public pages. Whatever is asked, and whatever the session store
  answers, a handler that is not one of the login, sign-up and health pages runs only with the session the store has; those
  of the administrators run only with the session of an administrator, the sockets only for an upgrade, and signalling
  only when it is enabled.\<close>
theorem handlers_behind_session:
  assumes "router_ok ro" "dispatch ro cfg isAsset rq = Runs h s" "h \<notin> publicHandlers"
  shows "\<exists>sess. s = Some sess \<and> hr_session rq = Some sess \<and> hr_storeErr rq = None \<and>
    (h \<in> adminHandlers \<longrightarrow> sess_role sess = ''ADMIN'') \<and> (h \<in> {ClipSocket, P2PSocket} \<longrightarrow> hr_upgrade rq) \<and>
    (h = P2PSocket \<longrightarrow> sc_P2PEnabled cfg)"
proof -
  let ?rest = "userRoutes @ socketRoutes cfg @ adminRoutes @ [onMethod ''PUT'' ''/api/update-password'' [] UpdatePasswordRoute]"
  have run: "runEntries ro rq None (publicRoutes @ WithSession # ?rest) = Runs h s"
    using assms(2) by (simp add: dispatch_def serverRoutes_def split: if_splits)
  have pub: "runEntries ro rq None publicRoutes \<noteq> Runs h s"
    using runEntries_runs [OF _ public_table, of ro rq None h s] assms(3) by (auto simp: public_route_def)
  have "\<forall>e\<in>set publicRoutes. \<exists>r. e = On r" by (simp add: publicRoutes_def onMethod_def)
  from run [unfolded runEntries_append [OF this]] pub
  have "runEntries ro rq None (WithSession # ?rest) = Runs h s" by (simp split: outcome.splits)
  then obtain s0 where gate: "runEntries ro rq s0 ?rest = Runs h s"
      "s0 = None \<and> sessionGate (hr_path rq) (hr_storeErr rq) (hr_session rq) = Public \<or>
       (\<exists>sess. s0 = Some sess \<and> sessionGate (hr_path rq) (hr_storeErr rq) (hr_session rq) = Allowed sess)"
    by (auto split: Gate.splits)
  from runEntries_runs [OF gate(1) guarded_table] obtain r uses where
    r: "s = s0" "guarded_route cfg r uses" "rt_handler r = h" "ro_matches ro (rt_pattern r) (hr_path rq)"
      "\<forall>c\<in>set (rt_checks r). passed rq s0 c" "\<forall>(pre, c)\<in>uses. ro_under ro pre (hr_path rq) \<longrightarrow> passed rq s0 c"
    by (auto simp: fits_def)
  have "hr_path rq \<notin> publicPaths" using assms(1) r(2,4) by (auto simp: router_ok_def guarded_route_def)
  then have "sessionGate (hr_path rq) (hr_storeErr rq) (hr_session rq) \<noteq> Public"
    by (auto simp: sessionGate_def publicPaths_def split: option.splits)
  with gate(2) obtain sess where s0: "s0 = Some sess" "sessionGate (hr_path rq) (hr_storeErr rq) (hr_session rq) = Allowed sess" by blast
  then have sess: "hr_session rq = Some sess" "hr_storeErr rq = None"
    by (auto simp: sessionGate_def split: if_splits option.splits)
  have uses: "(pre, c) \<in> uses \<Longrightarrow> below pre (rt_pattern r) \<Longrightarrow> passed rq s0 c" for pre c
    using r(4,6) router_under [OF assms(1)] by blast
  have "h \<in> adminHandlers \<longrightarrow> passed rq s0 MustBeAdmin" using r(2,3,5) uses unfolding guarded_route_def by blast
  moreover have "h \<in> {ClipSocket, P2PSocket} \<longrightarrow> passed rq s0 MustUpgrade" using r(2,3) uses unfolding guarded_route_def by blast
  moreover have "h = P2PSocket \<longrightarrow> sc_P2PEnabled cfg" using r(2,3) unfolding guarded_route_def by blast
  ultimately show ?thesis using r(1) s0(1) sess by (simp add: passed_def is_admin_def)
qed

definition sampleAdmin :: Session where
  "sampleAdmin = \<lparr>sess_user_id = 1, sess_username = ''admin'', sess_role = ''ADMIN''\<rparr>"

definition sampleAsk :: "string \<Rightarrow> Session option \<Rightarrow> HttpRequest" where
  "sampleAsk path s = \<lparr>hr_method = ''GET'', hr_path = path, hr_upgrade = False, hr_locked = False, hr_storeErr = None, hr_session = s\<rparr>"

lemma sample_page:
  "dispatch \<lparr>ro_matches = (=), ro_under = below\<rparr> defaultServerConfig False (sampleAsk ''/advance'' (Some sampleAdmin)) =
     Runs AdvancePage (Some sampleAdmin)"
  by (simp add: dispatch_def serverRoutes_def publicRoutes_def userRoutes_def socketRoutes_def adminRoutes_def onMethod_def
      sampleAsk_def fits_def sessionGate_def hasPrefix_def refuses_def below_def sampleAdmin_def AdminOnly_def)

theorem handlers_behind_session_witness:
  "\<exists>sess. Some sampleAdmin = Some sess \<and> hr_session (sampleAsk ''/advance'' (Some sampleAdmin)) = Some sess \<and> sess_role sess = ''ADMIN''"
  using handlers_behind_session [OF exact_router sample_page]
  by (simp add: publicHandlers_def adminHandlers_def)

section \<open>The first free port\<close>

lemma findPort_first:
  "port \<le> startPort + 100 \<Longrightarrow>
     (case findPort free startPort port of
        Inr p \<Rightarrow> port \<le> p \<and> p \<le> startPort + 100 \<and> free p \<and> (\<forall>q. port \<le> q \<and> q < p \<longrightarrow> \<not> free q)
      | Inl _ \<Rightarrow> \<forall>q. port \<le> q \<and> q \<le> startPort + 100 \<longrightarrow> \<not> free q)"
proof (induction free startPort port rule: findPort.induct)
  case (1 free startPort port)
  have here: "\<forall>q::int. port \<le> q \<longrightarrow> q = port \<or> port + 1 \<le> q" by auto
  show ?case
  proof (cases "free port")
    case True
    then have "findPort free startPort port = Inr port" by (simp add: findPort.simps [of free startPort port])
    then show ?thesis using True "1.prems" by auto
  next
    case busy: False
    show ?thesis
    proof (cases "port + 1 > startPort + 100")
      case True
      then have "findPort free startPort port = Inl (port + 1)" using busy by (simp add: findPort.simps [of free startPort port])
      moreover have "\<forall>q. port \<le> q \<and> q \<le> startPort + 100 \<longrightarrow> q = port" using True by auto
      ultimately show ?thesis using busy by (simp only: sum.case) blast
    next
      case False
      have step: "findPort free startPort port = findPort free startPort (port + 1)"
        using busy False by (simp add: findPort.simps [of free startPort port])
      have le: "port + 1 \<le> startPort + 100" using False by linarith
      note ih = "1.IH" [OF busy False le]
      show ?thesis
      proof (cases "findPort free startPort (port + 1)")
        case (Inr p)
        with ih have p: "port + 1 \<le> p" "p \<le> startPort + 100" "free p" "\<forall>q. port + 1 \<le> q \<and> q < p \<longrightarrow> \<not> free q"
          unfolding Inr sum.case by blast+
        have "\<forall>q. port \<le> q \<and> q < p \<longrightarrow> \<not> free q" using p(4) busy here by blast
        moreover have "port \<le> p" using p(1) by linarith
        ultimately show ?thesis unfolding step Inr sum.case using p(2,3) by blast
      next
        case (Inl x)
        with ih have "\<forall>q. port + 1 \<le> q \<and> q \<le> startPort + 100 \<longrightarrow> \<not> free q" unfolding Inl sum.case by blast
        then show ?thesis unfolding step Inl sum.case using busy here by blast
      qed
    qed
  qed
qed

lemma listens_on_first_free:
  "listenOn free cfg = Some cfg' \<Longrightarrow>
     sc_Port cfg \<le> sc_Port cfg' \<and> sc_Port cfg' \<le> sc_Port cfg + 100 \<and> free (sc_Port cfg') \<and>
     (\<forall>q. sc_Port cfg \<le> q \<and> q < sc_Port cfg' \<longrightarrow> \<not> free q)"
  using findPort_first [of "sc_Port cfg" "sc_Port cfg" free] by (auto simp: listenOn_def split: sum.splits)

lemma no_port_only_if_all_taken:
  "listenOn free cfg = None \<longleftrightarrow> (\<forall>q. sc_Port cfg \<le> q \<and> q \<le> sc_Port cfg + 100 \<longrightarrow> \<not> free q)"
  using findPort_first [of "sc_Port cfg" "sc_Port cfg" free] by (fastforce simp: listenOn_def split: sum.splits)

end
