(* ===== verification/P2PConnect.thy ===== *)
theory P2PConnect
  imports P2PClient StompClient
begin

text \<open>
  The signalling link of the P2P client (\<open>Connect\<close>, \<open>buildWSURL\<close>, \<open>signalLoop\<close> with its heartbeat) and what it passes to
  WebRTC: answers and candidates, which wait for the description of the other side (\<open>handleAnswer\<close>,
  \<open>handleICECandidate\<close>, \<open>newPeerConnection\<close> of \<open>desktop/transport/p2p_client.go\<close>). What the network and WebRTC answer are
  arguments; the deadline of 120 seconds that each message and each pong renews is a read error of the network.
\<close>

section \<open>The signalling link\<close>

definition p2pWSURL :: "(string \<Rightarrow> URL result) \<Rightarrow> string \<Rightarrow> string result" where
  "p2pWSURL urlParse serverURL =
     (case urlParse serverURL of
        Inl err \<Rightarrow> Inl err
      | Inr u \<Rightarrow> Inr ((if hasPrefix (url_Scheme u) ''https'' then ''wss'' else ''ws'') @ ''://'' @ url_Host u @ ''/p2p''))"

text \<open>The address that is dialled with the cookies of the login, and the client; \<open>dialErr\<close> is the error of dialling.\<close>

definition ConnectP2P ::
  "(string \<Rightarrow> URL result) \<Rightarrow> goerror option \<Rightarrow> string \<Rightarrow> P2PClient \<Rightarrow> P2PClient \<times> string option \<times> goerror option" where
  "ConnectP2P urlParse dialErr serverURL p =
     (case p2pWSURL urlParse serverURL of
        Inl err \<Rightarrow> (p, None, Some err)
      | Inr wsURL \<Rightarrow>
          (case dialErr of
             Some err \<Rightarrow> (p, Some wsURL, Some (''p2p signaling dial: '' @ err))
           | None \<Rightarrow> (p\<lparr>pc_wsConn := True\<rparr>, Some wsURL, None)))"

text \<open>A tick of the heartbeat: a ping, and whether it goes on.\<close>

definition heartbeatTick :: "P2PClient \<Rightarrow> nat \<times> bool" where
  "heartbeatTick p = (if pc_done p \<or> \<not> pc_wsConn p then (0, False) else (1, True))"

text \<open>The loop ends when the client is closed or reading fails; the link is then forgotten.\<close>

definition signalLoopEnds :: "P2PClient \<Rightarrow> P2PClient" where
  "signalLoopEnds p = p\<lparr>pc_wsConn := False\<rparr>"

datatype signal_event =
  SignalRead RtcAnswer bytes | SignalReadError | OfferStarts RtcAnswer string | PeerLost string | ChannelOpen string
| ChannelClose string | CandidateFound string json | ClientCloses

text \<open>What the client writes on the link in one step; \<open>CandidateFound\<close> is the callback of \<open>newPeerConnection\<close>.\<close>

fun signal_event_step :: "signal_event \<Rightarrow> P2PClient \<Rightarrow> P2PClient \<times> string list" where
  "signal_event_step (SignalRead rtc msg) p =
     (if \<not> pc_wsConn p then (p, []) else (case signalStep rtc msg p of (p1, out, _, _) \<Rightarrow> (p1, out)))"
| "signal_event_step SignalReadError p = (signalLoopEnds p, [])"
| "signal_event_step (OfferStarts rtc peerID) p = createOffer rtc peerID p"
| "signal_event_step (PeerLost peerID) p = (connectionLost peerID p, [])"
| "signal_event_step (ChannelOpen peerID) p = (channelOpened peerID p, [])"
| "signal_event_step (ChannelClose peerID) p = (channelClosed peerID p, [])"
| "signal_event_step (CandidateFound peerID c) p = (p, sendSignal ''ice-candidate'' peerID c p)"
| "signal_event_step ClientCloses p = (CloseClient p, [])"

fun signal_run :: "signal_event list \<Rightarrow> P2PClient \<Rightarrow> P2PClient \<times> string list" where
  "signal_run [] p = (p, [])"
| "signal_run (ev # evs) p =
     (let (p1, out) = signal_event_step ev p; (p2, out2) = signal_run evs p1 in (p2, out @ out2))"

interpretation signal_link: emitting_machine signal_event_step signal_run
  by unfold_locales (simp_all add: Let_def split: prod.split)

text \<open>
  Once reading has failed the link is gone for good: whatever happens to the client after that, it signals nothing any
  more, so that it finds no new peers until the program connects anew with another client.
\<close>

lemma no_link_step: "\<not> pc_wsConn p \<Longrightarrow> \<not> pc_wsConn (fst (signal_event_step ev p)) \<and> snd (signal_event_step ev p) = []"
  by (cases ev) (auto simp: signalLoopEnds_def createOffer_def newPeerConnection_def sendSignal_def connectionLost_def
      channelOpened_def channelClosed_def CloseClient_def split: option.split)

lemma signalling_not_restored: "\<not> pc_wsConn p \<Longrightarrow> snd (signal_run evs p) = [] \<and> \<not> pc_wsConn (fst (signal_run evs p))"
proof (induction evs arbitrary: p)
  case (Cons ev evs)
  obtain p1 out where step: "signal_event_step ev p = (p1, out)" by fastforce
  with no_link_step [OF Cons.prems, of ev] have "out = []" "\<not> pc_wsConn p1" by auto
  with Cons.IH [of p1] step show ?case by (simp add: Let_def split: prod.split)
qed simp

lemma read_error_ends_signalling: "snd (signal_run (SignalReadError # evs) p) = []"
proof -
  have "\<not> pc_wsConn (signalLoopEnds p)" by (simp add: signalLoopEnds_def)
  from signalling_not_restored [OF this, of evs] show ?thesis by (simp split: prod.split)
qed

lemma heartbeat_stops: "\<not> pc_wsConn p \<Longrightarrow> heartbeatTick p = (0, False)"
  by (simp add: heartbeatTick_def)

section \<open>Descriptions and candidates\<close>

text \<open>One WebRTC connection: the description of the other side, the candidates added, and those that wait with the checks made.\<close>

record RtcConn =
  rc_remote :: "json option"
  rc_candidates :: "json list"
  rc_waiting :: "(json \<times> nat) list"

definition newRtcConn :: RtcConn where
  "newRtcConn = \<lparr>rc_remote = None, rc_candidates = [], rc_waiting = []\<rparr>"

definition iceAttempts :: nat where "iceAttempts = 50"

fun passToRtc :: "rtc_pass \<Rightarrow> (string \<Rightarrow> RtcConn option) \<Rightarrow> (string \<Rightarrow> RtcConn option)" where
  "passToRtc (PassAnswer from answer) conns = conns(from := map_option (\<lambda>c. c\<lparr>rc_remote := Some answer\<rparr>) (conns from))"
| "passToRtc (PassCandidate from cand) conns =
     conns(from := map_option (\<lambda>c. c\<lparr>rc_waiting := rc_waiting c @ [(cand, 0)]\<rparr>) (conns from))"

text \<open>One check of the waiting candidate at a position: added, dropped after the last check, or waiting on.\<close>

definition iceCheck :: "nat \<Rightarrow> RtcConn \<Rightarrow> RtcConn" where
  "iceCheck k c =
     (if length (rc_waiting c) \<le> k then c
      else (case rc_waiting c ! k of
              (cand, i) \<Rightarrow>
                if rc_remote c \<noteq> None then c\<lparr>rc_candidates := rc_candidates c @ [cand], rc_waiting := remove_nth k (rc_waiting c)\<rparr>
                else if Suc i < iceAttempts then c\<lparr>rc_waiting := (rc_waiting c)[k := (cand, Suc i)]\<rparr>
                else c\<lparr>rc_waiting := remove_nth k (rc_waiting c)\<rparr>))"

text \<open>No candidate is added before the description is there.\<close>

definition rtc_ok :: "RtcConn \<Rightarrow> bool" where
  "rtc_ok c \<longleftrightarrow> (rc_candidates c = [] \<or> rc_remote c \<noteq> None) \<and> list_all (\<lambda>w. snd w < iceAttempts) (rc_waiting c)"

datatype rtc_event = GetsDescription json | GetsCandidate json | Checks nat

fun rtc_step :: "rtc_event \<Rightarrow> RtcConn \<Rightarrow> RtcConn" where
  "rtc_step (GetsDescription d) c = c\<lparr>rc_remote := Some d\<rparr>"
| "rtc_step (GetsCandidate cand) c = c\<lparr>rc_waiting := rc_waiting c @ [(cand, 0)]\<rparr>"
| "rtc_step (Checks k) c = iceCheck k c"

lemma list_all_remove_nth: "list_all P xs \<Longrightarrow> list_all P (remove_nth k xs)"
  by (auto simp: remove_nth_def list_all_iff dest: in_set_takeD in_set_dropD)

lemma list_all_update: "list_all P xs \<Longrightarrow> P x \<Longrightarrow> list_all P (xs[k := x])"
  using set_update_subset_insert [of xs k x] by (auto simp: list_all_iff)

lemma iceCheck_ok: "rtc_ok c \<Longrightarrow> rtc_ok (iceCheck k c)"
  by (auto simp: iceCheck_def rtc_ok_def list_all_remove_nth list_all_update split: prod.split)

interpretation rtc_conn: machine rtc_step "\<lambda>_. True" rtc_ok
proof
  fix ev c
  assume "rtc_ok c"
  then show "rtc_ok (rtc_step ev c)"
    by (cases ev) (auto simp: iceCheck_ok, auto simp: rtc_ok_def iceAttempts_def)
qed

text \<open>
  A candidate that comes before the description is not lost if the description comes within its 50 checks (five
  seconds), and is lost otherwise.
\<close>

lemma checks_without_description:
  "rc_remote c = None \<Longrightarrow> rc_waiting c = [(cand, i)] \<Longrightarrow> i + n < iceAttempts \<Longrightarrow>
     (iceCheck 0 ^^ n) c = c\<lparr>rc_waiting := [(cand, i + n)]\<rparr>"
proof (induction n)
  case (Suc n)
  then show ?case by (simp add: iceCheck_def)
qed simp

lemma candidate_waits_for_description:
  assumes "n < iceAttempts"
  shows "rc_candidates (iceCheck 0 (rtc_step (GetsDescription d) ((iceCheck 0 ^^ n) (rtc_step (GetsCandidate cand) newRtcConn)))) = [cand]"
proof -
  have "(iceCheck 0 ^^ n) (rtc_step (GetsCandidate cand) newRtcConn) = newRtcConn\<lparr>rc_waiting := [(cand, n)]\<rparr>"
    using checks_without_description [of "rtc_step (GetsCandidate cand) newRtcConn" cand 0 n] assms by (simp add: newRtcConn_def)
  then show ?thesis by (simp add: iceCheck_def newRtcConn_def)
qed

lemma candidate_given_up:
  "(iceCheck 0 ^^ iceAttempts) (rtc_step (GetsCandidate cand) newRtcConn) = newRtcConn"
proof -
  let ?start = "rtc_step (GetsCandidate cand) newRtcConn"
  have last: "(iceCheck 0 ^^ 49) ?start = newRtcConn\<lparr>rc_waiting := [(cand, 49)]\<rparr>"
    using checks_without_description [of ?start cand 0 49] by (simp add: newRtcConn_def iceAttempts_def)
  have "iceAttempts = Suc 49" by (simp add: iceAttempts_def)
  then have "(iceCheck 0 ^^ iceAttempts) ?start = (iceCheck 0 ^^ Suc 49) ?start" by (rule arg_cong)
  also have "\<dots> = iceCheck 0 ((iceCheck 0 ^^ 49) ?start)" unfolding funpow.simps(2) comp_apply by (rule refl)
  finally have "(iceCheck 0 ^^ iceAttempts) ?start = iceCheck 0 ((iceCheck 0 ^^ 49) ?start)" .
  then show ?thesis unfolding last by (simp add: iceCheck_def newRtcConn_def remove_nth_def iceAttempts_def)
qed

text \<open>
  The other side starts to find candidates before its offer is written (\<open>createOffer\<close> sets the local description first),
  and a candidate of a peer that is not known yet is dropped: it is not kept until the offer comes.
\<close>

lemma early_candidate_dropped:
  assumes "decodeSignal msg = Some s" "sig_Type s = ''ice-candidate''" "sig_From s \<notin> set (pc_peers p)"
  shows "signalStep rtc msg p = (p, [], [], [])"
  using assms by (simp add: signalStep_def)

end
