(* ===== verification/Spec2Isabelle.thy ===== *)
theory Spec2Isabelle
  imports Interfaces Summary WsHub P2PSignal TransferPlace TransferPrepare ReceiveGuard Routing
    P2PClient ServerAuth CopyPaste Replay MobileSession Accounts Startup Hotkeys PlatformLinux
    PlatformWindows PlatformMac HotkeysNative Tray PanelOpen ServerMain
    P2PConnect
begin

text \<open>
  ClipCascade keeps the clipboards of a user's devices the same. A device watches its clipboard; what the user copies
  goes as a message to the other devices, directly over WebRTC data channels or through the user's group on a relay
  server, encrypted end to end if the user wants it; a device that receives it puts it on its own clipboard, or lists
  it in a history from which the user pastes. Files go as an offer, and their content follows in verified chunks
  when somebody pastes them. This development models the Go code of the desktop client (\<open>src/desktop\<close>), the packages
  it shares with the server (\<open>src/pkg\<close>), the server (\<open>src/server\<close>) and the mobile program (\<open>src/fyne_mobile\<close>), and
  proves what makes them correct. Definitions keep the names of the functions and types they model; a method of a Go
  type is a function from the state to the state and a result.

  \<^bold>\<open>How Go is modelled.\<close>
  A Go \<open>string\<close> or \<open>[]byte\<close> is a HOL \<open>string\<close> of bytes; what Go's \<open>strings\<close>, \<open>strconv\<close>, \<open>path\<close>, \<open>unicode/utf8\<close>,
  \<open>encoding/base64\<close>, \<open>encoding/json\<close> and \<open>net/url\<close> do with them is written out (\<open>GoStrings\<close>, \<open>Decimal\<close>, \<open>GoPaths\<close>, \<open>Utf8\<close>,
  \<open>Base64\<close>, \<open>Json\<close>; the URLs of files in \<open>PlatformLinux\<close>). A struct is a record, an enumeration of strings keeps its strings, integers are words where wrapping
  matters (delays, lock times, hashes, key codes, sizes read from archives) and \<open>int\<close> otherwise, a time is its nanoseconds. A fallible
  function gives \<open>Inl\<close> of the message of its error or \<open>Inr\<close> of its result. A map is a HOL map, or an association list without double keys where
  its order shows. Whatever the outside answers is an argument: the clock, random bytes, SHA-256, xxHash, PBKDF2, AES-GCM,
  bcrypt, the database, the session store, the network, the operating system's clipboard, the X server, Win32, Carbon, commands.
  Files are a map from paths to contents with a record of faults (\<open>FileSys\<close>): any operation may fail.
  A handler that holds its lock is one step, with one reading of the clock; what it starts in a goroutine is a task of the state that a
  later step runs, so every interleaving with other steps is a sequence of steps. The order in which Go visits a map is an argument.

  \<^bold>\<open>Shared parts.\<close>
  \<open>Prelude\<close>: types, collections of facts, lists. \<open>Interfaces\<close>: the contracts of wire formats (\<open>codec\<close>, \<open>codec_chain\<close>) and of
  step functions that keep an invariant (\<open>machine\<close>, \<open>emitting_machine\<close>, \<open>kept_machine\<close>), interpreted on the messages, the
  envelope, the fragments, the signals, base64 and escaped paths, and on the desktop connection, the mobile engine
  and session, the tray, the hotkeys, the
  processes of the Linux clipboard and the memory of the Windows one. \<open>ConnRegistry\<close>: the contract of the two registries of
  connections on the server, interpreted by \<open>WsHub\<close> and \<open>P2PSignal\<close>. \<open>Constants\<close>, \<open>SizeFormat\<close> (\<open>pkg/constants\<close>, \<open>pkg/sizefmt\<close>; quotients are rounded as
  floats are).

  \<^bold>\<open>Messages\<close> (\<open>src/pkg\<close>).
  \<open>Stomp\<close> (\<open>protocol/stomp.go\<close>): frames and their parser. \<open>Messages\<close> (\<open>message.go\<close>, \<open>file_payloads.go\<close>): the clipboard
  message, the transfer payloads, with round trips. \<open>Summary\<close> (\<open>clipboard_summary.go\<close>). \<open>Crypto\<close> (\<open>crypto/aes_gcm.go\<close>): the
  envelope around AES-GCM. \<open>KeyDerivation\<close> (\<open>pbkdf2.go\<close>).

  \<^bold>\<open>Desktop: history and files\<close> (\<open>src/desktop/history\<close>, \<open>app/file_transfer.go\<close>).
  \<open>History\<close>: the manager, its states and transitions; every reachable manager is well formed, and eviction refines a single
  pass. \<open>PathSafety\<close>, \<open>ZipExtract\<close>: names, containment, bounded extraction. \<open>AppState\<close>: the state of \<open>Application\<close> and sending
  on the links. \<open>TransferSend\<close>, \<open>TransferRecv\<close>: both sides of a transfer; \<open>TransferStore\<close>, \<open>TransferWire\<close>: what a receiver holds
  as a byte string, and the wire; \<open>TransferDelivery\<close>: sender and receiver composed, the archive arrives; \<open>TransferRules\<close>,
  \<open>TransferPlace\<close>, \<open>TransferPrepare\<close>, \<open>TransferRegister\<close>: verified chunks, placing, preparing, the register as a state machine. \<open>Samples\<close>: concrete
  states for witnesses.

  \<^bold>\<open>Desktop: clipboard\<close> (\<open>application.go\<close>, \<open>send_current.go\<close>, \<open>replay_history.go\<close>, \<open>clipboard/\<close>).
  \<open>Monitor\<close> (\<open>monitor.go\<close>, \<open>image_file.go\<close>): captures, change detection, suppression of the program's own writes. \<open>PlatformLinux\<close>
  (\<open>monitor_linux.go\<close>): the commands that read and write the clipboard. \<open>PlatformWindows\<close> (\<open>monitor_windows.go\<close>): bitmaps and
  the memory handed to the clipboard. \<open>PlatformMac\<close> (\<open>monitor_darwin.go\<close>): the scripts and the files read back. \<open>SendCurrent\<close>: from a capture to the links. \<open>Receive\<close>, \<open>ReceiveGuard\<close>: from a body to the
  history and the clipboard, and what a message can do. \<open>ClipGuard\<close>: who may write the clipboard. \<open>Replay\<close>: pasting. \<open>CopyPaste\<close>: copy here, paste there.
  \<open>Routing\<close>: which links a message takes.

  \<^bold>\<open>Desktop: connection and control\<close> (\<open>transport/\<close>, \<open>application.go\<close>, \<open>control_center.go\<close>, \<open>history_panel.go\<close>, \<open>config/\<close>, \<open>main.go\<close>).
  \<open>StompClient\<close>, \<open>P2PClient\<close>: the two transports; \<open>P2PConnect\<close>: the signalling link and what waits for a description. \<open>DesktopConfig\<close>: the configuration file. \<open>Connection\<close>: discovery, login, reconnecting. \<open>Panel\<close>,
  \<open>ControlCenter\<close>, \<open>PanelOpen\<close>: the local web panel. \<open>Startup\<close>: flags, the first steps, triggers. \<open>Tray\<close> (\<open>ui/tray.go\<close>): the menu, which always shows the
  state of the connection. \<open>Hotkeys\<close> (\<open>hotkeys_linux.go\<close>), \<open>WaylandPortal\<close>
  (\<open>hotkeys_wayland.go\<close>): keys grabbed from the X server, or shortcuts bound by the portal. \<open>HotkeysNative\<close> (\<open>hotkeys_windows.go\<close>,
  \<open>hotkeys_darwin.go\<close>): all three hotkeys registered, or none.

  \<^bold>\<open>Server\<close> (\<open>src/server\<close>) \<^bold>\<open>and mobile program\<close> (\<open>src/fyne_mobile\<close>).
  \<open>WsHub\<close> (\<open>ws_hub.go\<close>), \<open>P2PSignal\<close> (\<open>p2p_signaling.go\<close>): the relay and the signalling. \<open>ServerConfig\<close> (\<open>config.go\<close>, \<open>status.go\<close>), \<open>ServerAuth\<close>
  (\<open>bruteforce.go\<close>, \<open>auth.go\<close>), \<open>Accounts\<close> (\<open>admin.go\<close>), \<open>ServerMain\<close> (\<open>main.go\<close>): the routes and their checks, nothing without a session. \<open>MobileEngine\<close> (\<open>engine.go\<close>), \<open>MobileSession\<close> (\<open>main.go\<close>, \<open>session.go\<close>).
  \<open>Relay\<close>: desktop, server and desktop composed, what is copied on one arrives on the other.

  \<^bold>\<open>What is assumed.\<close>
  \<open>gcm_correct\<close>: AES-GCM opens what it sealed under the same key. \<open>config_disk_ok\<close>: a disk without faults and working
  encryption of the stored passwords. \<open>db_laws\<close>: what gorm promises of the queries the server makes (unique names, soft deletion).
  \<open>router_ok\<close>: Fiber does not take a public path for another pattern, and a path that fits a pattern lies under its prefixes.
  \<open>message_order_ok\<close>, \<open>client_order_ok\<close>: Go visits the headers of a frame in some order, each once. Each theorem names what it uses; its witness
  shows that the hypotheses can hold.

  \<^bold>\<open>Bounds and fuel.\<close>
  The JSON reader recurses on fuel; \<open>parseJSON\<close> gives the length of its input, and \<open>parse_fuel_enough\<close> shows that it never
  runs out. The search for a free file name (\<open>uniqueFrom\<close>) tries as many names as its fuel says; \<open>free_name_found\<close> shows that two
  more than the number of files are enough. The search for a port tries 101 ports. All other loops are structural or have a measure: trimming, cutting an archive into
  chunks, climbing to an existing directory, eviction. Loops that wait (reading a connection, reconnecting, heartbeats, watching) are steps.

  \<^bold>\<open>Simplifications.\<close>
  Registering a connection on the server takes two locks one after the other and is one step here; so is a paste of the monitor, which
  takes its lock several times. Registering a transfer is its look-up and its store, which other steps may separate in the runs of
  \<open>TransferRegister\<close>; where one client registers alone (\<open>SendCurrent\<close>) nothing comes in between. The data of a signal is a JSON value, where the
  source keeps its text. A parent that is a file does not make \<open>MkdirAll\<close> fail unless the environment says so. The completion of a transfer
  reads the clock once. Jobs that write the same image run one after the other. \<open>connect\<close> is split into its beginning under the
  lock and the rest. Errors compared by sentinel keep the sentinel; texts for users are in English where the code gives two languages. Go's
  limit of 10000 nested JSON values is left out. A slice that would be read past its end because the X server breaks its protocol is cut short.

  \<^bold>\<open>Not modelled.\<close>
  Notifications, log windows and logging: calls of the operating system without decisions of their own. The HTML of the panel and of the server's pages; on the server CORS, mDNS and shutting
  down; the layout of the mobile window and \<open>bridge.go\<close>, which forwards to the engine; \<open>hash.go\<close>, which forwards to xxHash. \<open>SaveServerURLOnly\<close>, which keeps the raw
  text of unknown members of the configuration file.
  Network packets, TLS, WebRTC and the scheduler are below the level of the model.
\<close>

end
